(* ===== verification/Prelude.thy ===== *)
theory Prelude
  imports Complex_Main "HOL-Library.AList" "HOL-Library.Word"
begin

text \<open>
  Shared vocabulary of the development: the theorem collections that carry the
  component proofs, the type synonyms for the strong typedefs of
  \<^verbatim>\<open>src/src/common/types.hpp\<close>, and the few generic facts on association lists,
  bounded FIFO queues and words that several components need.

  A \<^verbatim>\<open>std::unordered_map\<close> is an association list with distinct keys.  Its iteration
  order is unspecified in C++; the list order is one admissible order, new keys are put
  at the end and an overwritten key keeps its place (\<open>AList.update\<close>).
\<close>

named_theorems model_simps \<open>unfoldings of the model's accessors and small helpers\<close>
named_theorems inv_intros \<open>invariant preservation, one rule per operation\<close>

type_synonym order_id = string
type_synonym symbol = string
type_synonym strategy_id = string
type_synonym timestamp = int

section \<open>Association lists\<close>

definition al_wf :: "('k \<times> 'v) list \<Rightarrow> bool" where
  "al_wf xs \<longleftrightarrow> distinct (map fst xs)"

definition al_contains :: "('k \<times> 'v) list \<Rightarrow> 'k \<Rightarrow> bool" where
  "al_contains xs k \<longleftrightarrow> map_of xs k \<noteq> None"

lemma al_wf_Nil [simp]: "al_wf []"
  by (simp add: al_wf_def)

lemma al_wf_update [simp, inv_intros]: "al_wf xs \<Longrightarrow> al_wf (AList.update k v xs)"
  by (simp add: al_wf_def distinct_update)

lemma al_wf_delete [simp, inv_intros]: "al_wf xs \<Longrightarrow> al_wf (AList.delete k xs)"
  by (simp add: al_wf_def distinct_delete)

lemma al_wf_filter [simp, inv_intros]: "al_wf xs \<Longrightarrow> al_wf (filter P xs)"
  by (simp add: al_wf_def distinct_map_filter)

lemma map_of_update [simp]: "map_of (AList.update k v xs) = (map_of xs)(k \<mapsto> v)"
  by (simp add: update_conv')

lemma map_of_delete [simp]: "map_of (AList.delete k xs) = (map_of xs)(k := None)"
  by (simp add: delete_conv')

lemma map_of_filter_entries:
  assumes "al_wf xs"
  shows "map_of (filter (\<lambda>(k, v). P k v) xs) k =
         (case map_of xs k of None \<Rightarrow> None | Some v \<Rightarrow> if P k v then Some v else None)"
  using assms
proof (induction xs)
  case (Cons x xs)
  obtain a b where x: "x = (a, b)" by force
  have "map_of xs a = None"
    using Cons.prems by (auto simp: al_wf_def x map_of_eq_None_iff)
  moreover have "al_wf xs" using Cons.prems by (simp add: al_wf_def)
  ultimately show ?case using Cons.IH by (auto simp: x split: option.splits)
qed simp

lemma map_of_Some_in_set: "al_wf xs \<Longrightarrow> map_of xs k = Some v \<longleftrightarrow> (k, v) \<in> set xs"
  by (simp add: al_wf_def map_of_eq_Some_iff)

lemma map_of_map_values:
  "map_of (map (\<lambda>(k, v). (k, f k v)) xs) k = map_option (f k) (map_of xs k)"
  by (induction xs) auto

lemma al_wf_map_values [simp, inv_intros]:
  "al_wf xs \<Longrightarrow> al_wf (map (\<lambda>(k, v). (k, f k v)) xs)"
  by (simp add: al_wf_def case_prod_unfold comp_def)

lemma al_contains_update [simp]:
  "al_contains (AList.update k v xs) j \<longleftrightarrow> j = k \<or> al_contains xs j"
  by (simp add: al_contains_def)

lemma al_contains_delete [simp]:
  "al_contains (AList.delete k xs) j \<longleftrightarrow> j \<noteq> k \<and> al_contains xs j"
  by (simp add: al_contains_def)

lemma al_delete_subset: "set (AList.delete k xs) \<subseteq> set xs"
  by (induction xs) auto

section \<open>Bounded queues\<close>

text \<open>
  \<^verbatim>\<open>while (q.size() > cap) q.pop_front();\<close> keeps the youngest \<open>cap\<close> elements.
\<close>

definition keep_last :: "nat \<Rightarrow> 'a list \<Rightarrow> 'a list" where
  "keep_last n xs = drop (length xs - n) xs"

lemma length_keep_last [simp]: "length (keep_last n xs) = min n (length xs)"
  by (simp add: keep_last_def)

lemma keep_last_short [simp]: "length xs \<le> n \<Longrightarrow> keep_last n xs = xs"
  by (simp add: keep_last_def)

lemma keep_last_snoc_member: "0 < n \<Longrightarrow> x \<in> set (keep_last n (xs @ [x]))"
  by (simp add: keep_last_def)

lemma set_keep_last_subset: "set (keep_last n xs) \<subseteq> set xs"
  by (simp add: keep_last_def set_drop_subset)

lemma distinct_keep_last [simp]: "distinct xs \<Longrightarrow> distinct (keep_last n xs)"
  by (simp add: keep_last_def)

lemma keep_last_append: "keep_last n (keep_last n xs @ ys) = keep_last n (xs @ ys)"
proof (cases "length xs \<le> n")
  case False
  then show ?thesis by (simp add: keep_last_def add.commute)
qed simp

lemma keep_last_keep_last: "keep_last m (keep_last n xs) = keep_last (min m n) xs"
proof (cases "length xs \<le> n")
  case True
  then show ?thesis by (auto simp: keep_last_def min_def)
next
  case False
  then have "length xs - (length xs - n) - m + (length xs - n) = length xs - min m n"
    by (simp add: min_def)
  then show ?thesis by (simp add: keep_last_def)
qed

section \<open>Fixed-width counters\<close>

text \<open>
  \<^verbatim>\<open>std::atomic<int>\<close> wraps in two's complement, so it is a 32-bit word read with
  \<open>sint\<close>.
\<close>

type_synonym i32 = "32 word"

abbreviation i32_max :: int where "i32_max \<equiv> 2147483647"

lemma sint_i32_Suc:
  fixes w :: i32
  assumes "sint w < i32_max"
  shows "sint (w + 1) = sint w + 1"
proof -
  have lo: "- (2 ^ 31) \<le> sint w" using sint_ge [of w] by simp
  have "sint (w + 1) = signed_take_bit 31 (sint w + 1)"
    by (simp add: signed_take_bit_eq_take_bit_minus sint_word_ariths)
  also have "\<dots> = sint w + 1"
    using assms lo by (intro signed_take_bit_int_eq_self) auto
  finally show ?thesis .
qed

section \<open>Systems that keep an invariant\<close>

text \<open>
  The contract between a component and the engine that calls it in an arbitrary order:
  an initial condition, the steps (one per public method), and an invariant that the
  start establishes and every step keeps.
\<close>

locale inv_system =
  fixes start :: "'s \<Rightarrow> bool"
    and step :: "'s \<Rightarrow> 's \<Rightarrow> bool"
    and inv :: "'s \<Rightarrow> bool"
  assumes inv_start: "start s \<Longrightarrow> inv s"
    and inv_step: "inv s \<Longrightarrow> step s t \<Longrightarrow> inv t"
begin

lemma inv_steps: "step\<^sup>*\<^sup>* s t \<Longrightarrow> inv s \<Longrightarrow> inv t"
  by (induction rule: rtranclp_induct) (auto intro: inv_step)

lemma inv_reachable: "start s \<Longrightarrow> step\<^sup>*\<^sup>* s t \<Longrightarrow> inv t"
  using inv_start inv_steps by blast

end

text \<open>
  The contract of a structure that remembers the keys it was given: the test-and-mark
  operation answers whether the key was known and remembers it; a key stays known as
  long as the structure is only used within \<open>room\<close> further marks.
\<close>

locale dedup =
  fixes inv :: "'s \<Rightarrow> bool"
    and seen :: "'k \<Rightarrow> 's \<Rightarrow> bool"
    and mark :: "'k \<Rightarrow> 's \<Rightarrow> bool \<times> 's"
  assumes mark_answer: "inv s \<Longrightarrow> fst (mark k s) \<longleftrightarrow> seen k s"
    and mark_seen: "inv s \<Longrightarrow> seen k (snd (mark k s))"
    and mark_inv: "inv s \<Longrightarrow> inv (snd (mark k s))"
    and mark_known: "inv s \<Longrightarrow> seen k s \<Longrightarrow> snd (mark k s) = s"
begin

lemma second_mark_is_duplicate:
  assumes "inv s"
  shows "fst (mark k (snd (mark k s)))" and "snd (mark k (snd (mark k s))) = snd (mark k s)"
  using assms by (simp_all add: mark_answer mark_seen mark_inv mark_known)

lemma accepted_once:
  assumes "inv s" and "\<not> fst (mark k s)"
  shows "\<not> seen k s \<and> fst (mark k (snd (mark k s)))"
  using assms second_mark_is_duplicate(1) by (simp add: mark_answer)

end

text \<open>
  A detailed implementation that simulates an abstract specification, operation by
  operation, wherever the specification's precondition holds.
\<close>

fun run_pre :: "('op \<Rightarrow> 'a \<Rightarrow> bool) \<Rightarrow> ('op \<Rightarrow> 'a \<Rightarrow> 'a) \<Rightarrow> 'op list \<Rightarrow> 'a \<Rightarrow> bool" where
  "run_pre pre astep [] a \<longleftrightarrow> True"
| "run_pre pre astep (x # xs) a \<longleftrightarrow> pre x a \<and> run_pre pre astep xs (astep x a)"

locale simulation =
  fixes rel :: "'c \<Rightarrow> 'a \<Rightarrow> bool"
    and cstep :: "'op \<Rightarrow> 'c \<Rightarrow> 'c"
    and astep :: "'op \<Rightarrow> 'a \<Rightarrow> 'a"
    and pre :: "'op \<Rightarrow> 'a \<Rightarrow> bool"
  assumes sim_step: "rel c a \<Longrightarrow> pre x a \<Longrightarrow> rel (cstep x c) (astep x a)"
begin

lemma sim_run:
  "rel c a \<Longrightarrow> run_pre pre astep xs a \<Longrightarrow> rel (fold cstep xs c) (fold astep xs a)"
  by (induction xs arbitrary: c a) (auto intro: sim_step)

end

text \<open>Such a specification may come with an invariant of its own.\<close>

locale simulation_inv = simulation +
  fixes ainv :: "'a \<Rightarrow> bool"
  assumes ainv_step: "ainv a \<Longrightarrow> pre x a \<Longrightarrow> ainv (astep x a)"
begin

lemma ainv_run: "ainv a \<Longrightarrow> run_pre pre astep xs a \<Longrightarrow> ainv (fold astep xs a)"
  by (induction xs arbitrary: a) (auto intro: ainv_step)

lemma sim_run_inv:
  assumes "rel c a" and "ainv a" and "run_pre pre astep xs a"
  shows "\<exists>a'. rel (fold cstep xs c) a' \<and> ainv a'"
  using sim_run [OF assms(1,3)] ainv_run [OF assms(2,3)] by blast

end

end
