(* ===== verification/Float64.thy ===== *)
theory Float64
  imports Prelude
begin

text \<open>
  IEEE-754 binary64, the \<^verbatim>\<open>double\<close> of the C++ sources.  A value is a finite real, one
  of the two infinities, or NaN.  Every arithmetic operation rounds its exact result to
  nearest, ties to even, with gradual underflow and overflow to an infinity; comparisons
  with NaN are false, as in C++.  The two zeros of the format are one value here (the
  modelled code never looks at the sign of a zero and divides only behind a guard on the
  divisor).
\<close>

section \<open>Rounding to 53 significant bits\<close>

text \<open>\<open>ilog2 x\<close> is the exponent \<open>k\<close> with \<open>2\<^sup>k \<le> x < 2\<^sup>k\<^sup>+\<^sup>1\<close>, for positive \<open>x\<close>.\<close>

fun nlog2 :: "nat \<Rightarrow> int" where
  "nlog2 n = (if n < 2 then 0 else 1 + nlog2 (n div 2))"

declare nlog2.simps [simp del]

definition ilog2 :: "real \<Rightarrow> int" where
  "ilog2 x = (if 1 \<le> x then nlog2 (nat \<lfloor>x\<rfloor>) else - 1 - nlog2 (nat (\<lceil>1 / x\<rceil> - 1)))"

definition rne :: "real \<Rightarrow> int" where
  "rne y = (let f = \<lfloor>y\<rfloor>; d = y - of_int f in
            if d < 1 / 2 then f else if 1 / 2 < d then f + 1
            else if even f then f else f + 1)"

definition quantum :: "real \<Rightarrow> int" where
  "quantum x = max (ilog2 \<bar>x\<bar> - 52) (- 1074)"

definition rnd :: "real \<Rightarrow> real" where
  "rnd x = (if x = 0 then 0 else of_int (rne (x / 2 powi quantum x)) * 2 powi quantum x)"

lemma nat_less_powi_Suc:
  assumes "real n < 2 powi k" and "0 \<le> k"
  shows "real n + 1 \<le> 2 powi k"
proof -
  obtain j where k: "k = int j" using assms(2) nonneg_int_cases by blast
  with assms(1) have "real n < real (2 ^ j)" by simp
  then have "n + 1 \<le> 2 ^ j" by (simp only: of_nat_less_iff)
  then have "real (n + 1) \<le> real (2 ^ j)" by (simp only: of_nat_le_iff)
  then show ?thesis by (simp add: k)
qed

lemma nlog2_bounds:
  "0 < n \<Longrightarrow> 2 powi nlog2 n \<le> real n \<and> real n < 2 powi (nlog2 n + 1) \<and> 0 \<le> nlog2 n"
proof (induction n rule: nlog2.induct)
  case (1 n)
  show ?case
  proof (cases "n < 2")
    case True
    with "1.prems" show ?thesis by (simp add: nlog2.simps [of n])
  next
    case False
    let ?k = "nlog2 (n div 2)"
    from False have IH: "2 powi ?k \<le> real (n div 2)" "real (n div 2) < 2 powi (?k + 1)" "0 \<le> ?k"
      using "1.IH" by auto
    have e: "nlog2 n = 1 + ?k" using False by (simp add: nlog2.simps [of n])
    have pow: "(2::real) powi (1 + ?k) = 2 * 2 powi ?k"
      "(2::real) powi (1 + ?k + 1) = 2 * 2 powi (?k + 1)"
      by (simp_all add: power_int_add)
    have "real (n div 2) + 1 \<le> 2 powi (?k + 1)" by (rule nat_less_powi_Suc) (use IH in auto)
    moreover have "2 * real (n div 2) \<le> real n" "real n \<le> 2 * real (n div 2) + 1" by linarith+
    ultimately show ?thesis unfolding e pow using IH by linarith
  qed
qed

lemma ilog2_bounds:
  assumes "0 < x"
  shows "2 powi ilog2 x \<le> x" and "x < 2 powi (ilog2 x + 1)"
proof -
  have "2 powi ilog2 x \<le> x \<and> x < 2 powi (ilog2 x + 1)"
  proof (cases "1 \<le> x")
    case True
    let ?n = "nat \<lfloor>x\<rfloor>"
    have n: "0 < ?n" "real ?n \<le> x" "x < real ?n + 1" using True by linarith+
    have "real ?n + 1 \<le> 2 powi (nlog2 ?n + 1)"
      by (rule nat_less_powi_Suc) (use nlog2_bounds [OF n(1)] in auto)
    moreover have "ilog2 x = nlog2 ?n" using True by (simp add: ilog2_def)
    ultimately show ?thesis using n nlog2_bounds [OF n(1)] by (auto simp only:)
  next
    case False
    let ?m = "nat (\<lceil>1 / x\<rceil> - 1)"
    have inv: "1 < 1 / x" using False assms by simp
    have m: "0 < ?m" "real ?m < 1 / x" "1 / x \<le> real ?m + 1" using inv by linarith+
    let ?k = "nlog2 ?m"
    have lo: "2 powi ?k < 1 / x" using nlog2_bounds [OF m(1)] m(2) by linarith
    have "real ?m + 1 \<le> 2 powi (?k + 1)"
      by (rule nat_less_powi_Suc) (use nlog2_bounds [OF m(1)] in auto)
    then have hi: "1 / x \<le> 2 powi (?k + 1)" using m(3) by linarith
    have e: "ilog2 x = - (?k + 1)" "ilog2 x + 1 = - ?k" using False by (simp_all add: ilog2_def)
    have p: "(0::real) < 2 powi ?k" "(0::real) < 2 powi (?k + 1)" by simp_all
    have "x < inverse (2 powi ?k)" using lo assms p by (simp add: field_simps)
    moreover have "inverse (2 powi (?k + 1)) \<le> x" using hi assms p by (simp add: field_simps)
    ultimately show ?thesis unfolding e(2) unfolding e(1) power_int_minus by blast
  qed
  then show "2 powi ilog2 x \<le> x" and "x < 2 powi (ilog2 x + 1)" by auto
qed

lemma ilog2_unique:
  assumes "2 powi k \<le> x" and "x < 2 powi (k + 1)"
  shows "ilog2 x = k"
proof -
  have x: "0 < x" using assms(1) by (rule less_le_trans [rotated]) simp
  have "(2::real) powi k < 2 powi (ilog2 x + 1)" "(2::real) powi ilog2 x < 2 powi (k + 1)"
    using assms ilog2_bounds [OF x] by linarith+
  then have "k < ilog2 x + 1" "ilog2 x < k + 1"
    by (meson linorder_not_le power_int_increasing one_le_numeral)+
  then show ?thesis by simp
qed

lemma ilog2_mono: "0 < x \<Longrightarrow> x \<le> y \<Longrightarrow> ilog2 x \<le> ilog2 y"
proof -
  assume x: "0 < x" "x \<le> y"
  then have "(2::real) powi ilog2 x < 2 powi (ilog2 y + 1)"
    using ilog2_bounds(1) [OF x(1)] ilog2_bounds(2) [of y] by linarith
  then have "ilog2 x < ilog2 y + 1"
    by (meson linorder_not_le power_int_increasing one_le_numeral)
  then show ?thesis by simp
qed

subsection \<open>The integer rounding\<close>

lemma rne_of_int [simp]: "rne (of_int n) = n"
  by (simp add: rne_def)

lemma rne_near: "\<bar>of_int (rne y) - y\<bar> \<le> 1 / 2"
  unfolding rne_def Let_def by (auto split: if_splits; linarith)

lemma rne_cases: "rne y = \<lfloor>y\<rfloor> \<or> rne y = \<lfloor>y\<rfloor> + 1"
  by (simp add: rne_def Let_def)

lemma rne_mono: "x \<le> y \<Longrightarrow> rne x \<le> rne y"
proof -
  assume xy: "x \<le> y"
  show ?thesis
  proof (cases "\<lfloor>x\<rfloor> = \<lfloor>y\<rfloor>")
    case True
    with xy show ?thesis by (auto simp: rne_def Let_def)
  next
    case False
    with xy have "\<lfloor>x\<rfloor> + 1 \<le> \<lfloor>y\<rfloor>" using floor_mono [OF xy] by linarith
    then show ?thesis using rne_cases [of x] rne_cases [of y] by auto
  qed
qed

lemma rne_le_int: "y \<le> of_int n \<Longrightarrow> rne y \<le> n"
  using rne_mono [of y "of_int n"] by simp

lemma rne_ge_int: "of_int n \<le> y \<Longrightarrow> n \<le> rne y"
  using rne_mono [of "of_int n" y] by simp

lemma rne_minus [simp]: "rne (- y) = - rne y"
proof (cases "y = of_int \<lfloor>y\<rfloor>")
  case True
  then show ?thesis by (metis of_int_minus rne_of_int)
next
  case False
  then have "\<lfloor>- y\<rfloor> = - \<lfloor>y\<rfloor> - 1" by linarith
  then show ?thesis by (auto simp: rne_def Let_def)
qed

subsection \<open>Rounding of reals\<close>

lemma rnd_0 [simp]: "rnd 0 = 0"
  by (simp add: rnd_def)

lemma rnd_minus [simp]: "rnd (- x) = - rnd x"
  by (simp add: rnd_def quantum_def)

lemma quantum_pow2_int:
  assumes "quantum x \<le> k"
  shows "\<exists>n. (2::real) powi k / 2 powi quantum x = of_int n"
proof -
  have "(2::real) powi k / 2 powi quantum x = 2 powi (k - quantum x)"
    by (simp add: power_int_diff)
  also have "\<dots> = of_int (2 ^ nat (k - quantum x))" using assms by (simp add: power_int_def)
  finally show ?thesis by blast
qed

lemma rnd_le_pow2:
  assumes "x \<le> 2 powi k" and "quantum x \<le> k" and "x \<noteq> 0"
  shows "rnd x \<le> 2 powi k"
proof -
  obtain n where n: "(2::real) powi k / 2 powi quantum x = of_int n"
    using quantum_pow2_int [OF assms(2)] by blast
  have "x / 2 powi quantum x \<le> of_int n"
    using assms(1) unfolding n [symmetric] by (simp add: divide_right_mono)
  then have "real_of_int (rne (x / 2 powi quantum x)) \<le> of_int n" by (simp add: rne_le_int)
  then have "real_of_int (rne (x / 2 powi quantum x)) * 2 powi quantum x \<le> of_int n * 2 powi quantum x"
    by (rule mult_right_mono) simp
  also have "\<dots> = 2 powi k" unfolding n [symmetric] by simp
  finally show ?thesis using assms(3) by (simp add: rnd_def)
qed

lemma rnd_ge_pow2:
  assumes "2 powi k \<le> x" and "quantum x \<le> k"
  shows "2 powi k \<le> rnd x"
proof -
  have x0: "x \<noteq> 0" using assms(1) by (metis not_less zero_less_power_int zero_less_numeral)
  obtain n where n: "(2::real) powi k / 2 powi quantum x = of_int n"
    using quantum_pow2_int [OF assms(2)] by blast
  have "of_int n \<le> x / 2 powi quantum x"
    using assms(1) unfolding n [symmetric] by (simp add: divide_right_mono)
  then have "real_of_int n \<le> real_of_int (rne (x / 2 powi quantum x))" by (simp add: rne_ge_int)
  then have "of_int n * 2 powi quantum x \<le> real_of_int (rne (x / 2 powi quantum x)) * 2 powi quantum x"
    by (rule mult_right_mono) simp
  also have "of_int n * 2 powi quantum x = (2::real) powi k" unfolding n [symmetric] by simp
  finally show ?thesis using x0 by (simp add: rnd_def)
qed

lemma rnd_nonneg [simp]: "0 \<le> x \<Longrightarrow> 0 \<le> rnd x"
proof -
  assume "0 \<le> x"
  then have "0 \<le> rne (x / 2 powi quantum x)" by (intro rne_ge_int) simp
  then show ?thesis by (simp add: rnd_def)
qed

lemma rnd_mono_pos:
  assumes "0 < x" and "x \<le> y"
  shows "rnd x \<le> rnd y"
proof (cases "quantum x = quantum y")
  case True
  have "rne (x / 2 powi quantum y) \<le> rne (y / 2 powi quantum y)"
    using assms by (intro rne_mono) (simp add: divide_right_mono)
  then show ?thesis using assms by (simp add: rnd_def True)
next
  case False
  have il: "ilog2 x \<le> ilog2 y" using assms by (rule ilog2_mono)
  with False have q: "quantum y = ilog2 y - 52" "quantum x < quantum y" "ilog2 x < ilog2 y"
    using assms by (auto simp: quantum_def max_def split: if_splits)
  have "x \<le> 2 powi ilog2 y"
  proof -
    have "x < 2 powi (ilog2 x + 1)" using ilog2_bounds(2) [OF assms(1)] .
    also have "\<dots> \<le> 2 powi ilog2 y" using q by (intro power_int_increasing) auto
    finally show ?thesis by simp
  qed
  then have "rnd x \<le> 2 powi ilog2 y" using q assms by (intro rnd_le_pow2) auto
  also have "\<dots> \<le> rnd y"
    using q assms ilog2_bounds(1) [of y] by (intro rnd_ge_pow2) auto
  finally show ?thesis .
qed

lemma rnd_mono: "x \<le> y \<Longrightarrow> rnd x \<le> rnd y"
proof -
  assume xy: "x \<le> y"
  consider "0 < x" | "x \<le> 0" "0 \<le> y" | "y < 0" by linarith
  then show ?thesis
  proof cases
    case 1
    then show ?thesis using xy by (rule rnd_mono_pos)
  next
    case 2
    then have "0 \<le> rnd (- x)" "0 \<le> rnd y" by (intro rnd_nonneg; simp)+
    then show ?thesis by simp
  next
    case 3
    with xy have "rnd (- y) \<le> rnd (- x)" by (intro rnd_mono_pos) auto
    then show ?thesis by simp
  qed
qed

text \<open>Numbers with at most 53 significant bits are kept.\<close>

definition repr53 :: "real \<Rightarrow> bool" where
  "repr53 x \<longleftrightarrow> (\<exists>m e. x = of_int m * 2 powi e \<and> \<bar>m\<bar> < 2 ^ 53 \<and> - 1074 \<le> e)"

lemma repr53I: "\<bar>m\<bar> < 2 ^ 53 \<Longrightarrow> - 1074 \<le> e \<Longrightarrow> repr53 (of_int m * 2 powi e)"
  by (auto simp: repr53_def)

lemma rnd_repr53 [simp]: "repr53 x \<Longrightarrow> rnd x = x"
proof (cases "x = 0")
  case False
  assume "repr53 x"
  then obtain m e where x: "x = of_int m * 2 powi e" and m: "\<bar>m\<bar> < 2 ^ 53" and e: "- 1074 \<le> e"
    by (auto simp: repr53_def)
  have pos: "0 < \<bar>x\<bar>" using False by simp
  have "quantum x \<le> e"
  proof -
    have "(2::real) powi ilog2 \<bar>x\<bar> \<le> \<bar>x\<bar>" using ilog2_bounds(1) [OF pos] .
    also have "\<bar>x\<bar> = of_int \<bar>m\<bar> * 2 powi e" by (simp add: x abs_mult)
    also have "\<dots> < 2 ^ 53 * 2 powi e"
    proof (rule mult_strict_right_mono)
      show "real_of_int \<bar>m\<bar> < 2 ^ 53" using m by (metis of_int_less_iff of_int_numeral of_int_power)
    qed simp
    also have "(2::real) ^ 53 * 2 powi e = 2 powi (53 + e)" by (simp add: power_int_add)
    finally have "ilog2 \<bar>x\<bar> < 53 + e"
      by (meson linorder_not_le power_int_increasing one_le_numeral)
    then show ?thesis using e by (simp add: quantum_def)
  qed
  then obtain n where n: "(2::real) powi e / 2 powi quantum x = of_int n"
    using quantum_pow2_int by blast
  have "x / 2 powi quantum x = of_int m * (2 powi e / 2 powi quantum x)" by (simp add: x)
  also have "\<dots> = of_int (m * n)" by (simp add: n)
  finally have d: "x / 2 powi quantum x = of_int (m * n)" .
  then have "rnd x = of_int (m * n) * 2 powi quantum x"
    using False by (simp only: rnd_def if_False rne_of_int)
  also have "\<dots> = x" unfolding d [symmetric] by simp
  finally show ?thesis .
qed simp

section \<open>The values and their arithmetic\<close>

datatype double = Fin real | PInf | NInf | NaN

definition mk :: "real \<Rightarrow> double" where
  "mk x = (let r = rnd x in
           if 2 ^ 1024 \<le> r then PInf else if r \<le> - (2 ^ 1024) then NInf else Fin r)"

text \<open>A decimal literal of the source and an integer converted to \<^verbatim>\<open>double\<close>.\<close>

abbreviation lit :: "real \<Rightarrow> double" where "lit \<equiv> mk"

abbreviation dint :: "int \<Rightarrow> double" where "dint n \<equiv> mk (of_int n)"

fun isfinite :: "double \<Rightarrow> bool" where
  "isfinite (Fin _) = True"
| "isfinite _ = False"

fun isnan :: "double \<Rightarrow> bool" where
  "isnan NaN = True"
| "isnan _ = False"

fun rval :: "double \<Rightarrow> real" where
  "rval (Fin x) = x"
| "rval _ = 0"

fun inf_signed :: "real \<Rightarrow> double" where
  "inf_signed s = (if 0 < s then PInf else if s < 0 then NInf else NaN)"

instantiation double :: "{zero, one, plus, minus, uminus, times, inverse, abs, ord}"
begin

definition zero_double :: double where "zero_double = Fin 0"

definition one_double :: double where "one_double = Fin 1"

fun uminus_double :: "double \<Rightarrow> double" where
  "uminus_double (Fin x) = Fin (- x)"
| "uminus_double PInf = NInf"
| "uminus_double NInf = PInf"
| "uminus_double NaN = NaN"

fun plus_double :: "double \<Rightarrow> double \<Rightarrow> double" where
  "plus_double (Fin x) (Fin y) = mk (x + y)"
| "plus_double NaN _ = NaN"
| "plus_double _ NaN = NaN"
| "plus_double PInf NInf = NaN"
| "plus_double NInf PInf = NaN"
| "plus_double PInf _ = PInf"
| "plus_double NInf _ = NInf"
| "plus_double (Fin _) PInf = PInf"
| "plus_double (Fin _) NInf = NInf"

definition minus_double :: "double \<Rightarrow> double \<Rightarrow> double" where
  "minus_double x y = x + - y"

fun times_double :: "double \<Rightarrow> double \<Rightarrow> double" where
  "times_double (Fin x) (Fin y) = mk (x * y)"
| "times_double NaN _ = NaN"
| "times_double _ NaN = NaN"
| "times_double PInf (Fin y) = inf_signed y"
| "times_double NInf (Fin y) = inf_signed (- y)"
| "times_double (Fin x) PInf = inf_signed x"
| "times_double (Fin x) NInf = inf_signed (- x)"
| "times_double PInf PInf = PInf"
| "times_double NInf NInf = PInf"
| "times_double PInf NInf = NInf"
| "times_double NInf PInf = NInf"

fun divide_double :: "double \<Rightarrow> double \<Rightarrow> double" where
  "divide_double (Fin x) (Fin y) = (if y = 0 then inf_signed x else mk (x / y))"
| "divide_double NaN _ = NaN"
| "divide_double _ NaN = NaN"
| "divide_double (Fin _) PInf = Fin 0"
| "divide_double (Fin _) NInf = Fin 0"
| "divide_double PInf (Fin y) = (if 0 \<le> y then PInf else NInf)"
| "divide_double NInf (Fin y) = (if 0 \<le> y then NInf else PInf)"
| "divide_double _ _ = NaN"

definition inverse_double :: "double \<Rightarrow> double" where
  "inverse_double x = divide (Fin 1) x"

fun abs_double :: "double \<Rightarrow> double" where
  "abs_double (Fin x) = Fin \<bar>x\<bar>"
| "abs_double NaN = NaN"
| "abs_double _ = PInf"

fun less_double :: "double \<Rightarrow> double \<Rightarrow> bool" where
  "less_double (Fin x) (Fin y) = (x < y)"
| "less_double NaN _ = False"
| "less_double _ NaN = False"
| "less_double NInf NInf = False"
| "less_double NInf _ = True"
| "less_double (Fin _) PInf = True"
| "less_double _ _ = False"

fun less_eq_double :: "double \<Rightarrow> double \<Rightarrow> bool" where
  "less_eq_double (Fin x) (Fin y) = (x \<le> y)"
| "less_eq_double NaN _ = False"
| "less_eq_double _ NaN = False"
| "less_eq_double NInf _ = True"
| "less_eq_double _ PInf = True"
| "less_eq_double _ _ = False"

instance ..

end

text \<open>\<^verbatim>\<open>==\<close>, \<^verbatim>\<open>std::max\<close>, \<^verbatim>\<open>std::min\<close> and \<^verbatim>\<open>std::clamp\<close>, with the argument order
  that decides what happens on NaN.\<close>

definition deq :: "double \<Rightarrow> double \<Rightarrow> bool" where
  "deq x y \<longleftrightarrow> x \<le> y \<and> y \<le> x"

definition std_max :: "double \<Rightarrow> double \<Rightarrow> double" where
  "std_max a b = (if a < b then b else a)"

definition std_min :: "double \<Rightarrow> double \<Rightarrow> double" where
  "std_min a b = (if b < a then b else a)"

definition std_clamp :: "double \<Rightarrow> double \<Rightarrow> double \<Rightarrow> double" where
  "std_clamp v lo hi = (if v < lo then lo else if hi < v then hi else v)"

section \<open>Laws\<close>

lemma isfinite_iff: "isfinite x \<longleftrightarrow> (\<exists>r. x = Fin r)"
  by (cases x) auto

lemma double_le_refl [simp]: "x \<noteq> NaN \<Longrightarrow> (x :: double) \<le> x"
  by (cases x) auto

lemma double_le_trans: "(x :: double) \<le> y \<Longrightarrow> y \<le> z \<Longrightarrow> x \<le> z"
  by (cases x; cases y; cases z) auto

lemma double_less_trans: "(x :: double) < y \<Longrightarrow> y < z \<Longrightarrow> x < z"
  by (cases x; cases y; cases z) auto

lemma double_less_le_trans: "(x :: double) < y \<Longrightarrow> y \<le> z \<Longrightarrow> x < z"
  by (cases x; cases y; cases z) auto

lemma double_le_less_trans: "(x :: double) \<le> y \<Longrightarrow> y < z \<Longrightarrow> x < z"
  by (cases x; cases y; cases z) auto

lemma double_less_imp_le: "(x :: double) < y \<Longrightarrow> x \<le> y"
  by (cases x; cases y) auto

lemma double_less_irrefl [simp]: "\<not> (x :: double) < x"
  by (cases x) auto

lemma double_not_less: "x \<noteq> NaN \<Longrightarrow> y \<noteq> NaN \<Longrightarrow> \<not> x < y \<longleftrightarrow> y \<le> (x :: double)"
  by (cases x; cases y) auto

lemma double_not_le: "x \<noteq> NaN \<Longrightarrow> y \<noteq> NaN \<Longrightarrow> \<not> x \<le> y \<longleftrightarrow> y < (x :: double)"
  by (cases x; cases y) auto

lemma double_antisym: "(x :: double) \<le> y \<Longrightarrow> y \<le> x \<Longrightarrow> x = y"
  by (cases x; cases y) auto

lemma double_less_le: "(x :: double) < y \<Longrightarrow> x \<noteq> y"
  by (cases x; cases y) auto

lemma NaN_compare [simp]:
  "\<not> NaN < x" "\<not> x < NaN" "\<not> NaN \<le> x" "\<not> x \<le> NaN"
  by (cases x; simp)+

lemma deq_iff: "deq x y \<longleftrightarrow> x = y \<and> x \<noteq> NaN"
  by (auto simp: deq_def intro: double_antisym)

lemma std_clamp_bounds:
  "lo \<le> hi \<Longrightarrow> v \<noteq> NaN \<Longrightarrow> lo \<le> std_clamp v lo hi \<and> std_clamp v lo hi \<le> hi"
  by (cases v; cases lo; cases hi) (auto simp: std_clamp_def)

lemma std_max_ge_left: "a \<noteq> NaN \<Longrightarrow> a \<le> std_max a b"
  by (auto simp: std_max_def intro: double_less_imp_le)

lemma std_min_le_left: "a \<noteq> NaN \<Longrightarrow> std_min a b \<le> a"
  by (auto simp: std_min_def intro: double_less_imp_le)

subsection \<open>Exact results\<close>

lemma mk_repr53: "repr53 x \<Longrightarrow> \<bar>x\<bar> < 2 ^ 1024 \<Longrightarrow> mk x = Fin x"
  by (auto simp: mk_def)

lemma mk_of_int: "\<bar>n\<bar> < 2 ^ 53 \<Longrightarrow> mk (of_int n) = Fin (of_int n)"
proof (rule mk_repr53)
  assume n: "\<bar>n\<bar> < 2 ^ 53"
  show "repr53 (of_int n)" using repr53I [OF n, of 0] by simp
  have "real_of_int \<bar>n\<bar> < 2 ^ 53" using n by (metis of_int_less_iff of_int_numeral of_int_power)
  also have "\<dots> \<le> (2::real) ^ 1024" by (rule power_increasing) auto
  finally show "\<bar>real_of_int n\<bar> < 2 ^ 1024" by simp
qed

lemma mk_0 [simp]: "mk 0 = Fin 0"
  using mk_of_int [of 0] by simp

lemma mk_1 [simp]: "mk 1 = Fin 1"
  using mk_of_int [of 1] by simp

lemma mk_numeral [simp]:
  "numeral n < (2 :: int) ^ 53 \<Longrightarrow> mk (numeral n) = Fin (numeral n)"
  using mk_of_int [of "numeral n"] by simp

lemma mk_neg_numeral [simp]:
  "numeral n < (2 :: int) ^ 53 \<Longrightarrow> mk (- numeral n) = Fin (- numeral n)"
  using mk_of_int [of "- numeral n"] by simp

lemma mk_minus: "mk (- x) = - mk x"
proof -
  have "(0::real) < 2 ^ 1024" by simp
  then show ?thesis by (auto simp: mk_def Let_def)
qed

lemma mk_nonneg: "0 \<le> x \<Longrightarrow> 0 \<le> mk x"
proof -
  assume "0 \<le> x"
  then have "0 \<le> rnd x" by simp
  moreover have "(0::real) < 2 ^ 1024" by simp
  ultimately show ?thesis by (auto simp: mk_def Let_def zero_double_def)
qed

lemma mk_not_NaN [simp]: "mk x \<noteq> NaN"
  by (simp add: mk_def Let_def)

lemma mk_mono: "x \<le> y \<Longrightarrow> mk x \<le> mk y"
proof -
  assume "x \<le> y"
  then have "rnd x \<le> rnd y" by (rule rnd_mono)
  moreover have "(0::real) < 2 ^ 1024" by simp
  ultimately show ?thesis by (auto simp: mk_def Let_def)
qed

subsection \<open>Money on a binary grid\<close>

text \<open>
  \<open>units m\<close> is \<open>m\<close> steps of \<open>2\<^sup>-\<^sup>2\<^sup>0\<close> (about one millionth).  Sums and differences of
  such amounts are exact as long as they stay below \<open>2\<^sup>5\<^sup>3\<close> steps (about \<open>8.5\<close> billion).
\<close>

definition units :: "int \<Rightarrow> double" where
  "units m = Fin (of_int m / 2 ^ 20)"

definition fits :: "int \<Rightarrow> bool" where
  "fits m \<longleftrightarrow> \<bar>m\<bar> < 2 ^ 53"

lemma mk_units: "fits m \<Longrightarrow> mk (of_int m / 2 ^ 20) = units m"
proof -
  assume m: "fits m"
  have e: "real_of_int m / 2 ^ 20 = of_int m * 2 powi (- 20)" by (simp add: power_int_def field_simps)
  have "repr53 (real_of_int m / 2 ^ 20)"
    unfolding e using m by (intro repr53I) (simp_all add: fits_def)
  moreover have "\<bar>real_of_int m / 2 ^ 20\<bar> < 2 ^ 1024"
  proof -
    have "real_of_int \<bar>m\<bar> < 2 ^ 53"
      using m unfolding fits_def by (metis of_int_less_iff of_int_numeral of_int_power)
    then have "\<bar>real_of_int m / 2 ^ 20\<bar> < 2 ^ 53" by (simp add: field_simps)
    also have "\<dots> \<le> (2::real) ^ 1024" by (rule power_increasing) auto
    finally show ?thesis .
  qed
  ultimately show ?thesis by (simp add: mk_repr53 units_def)
qed

lemma units_add: "fits (a + b) \<Longrightarrow> units a + units b = units (a + b)"
  using mk_units [of "a + b"] by (simp add: units_def add_divide_distrib)

lemma units_uminus [simp]: "- units a = units (- a)"
  by (simp add: units_def)

lemma units_diff: "fits (a - b) \<Longrightarrow> units a - units b = units (a - b)"
  using units_add [of a "- b"] by (simp add: minus_double_def)

lemma units_0 [simp]: "units 0 = 0"
  by (simp add: units_def zero_double_def)

lemma units_less [simp]: "units a < units b \<longleftrightarrow> a < b"
  by (simp add: units_def divide_less_cancel)

lemma units_le [simp]: "units a \<le> units b \<longleftrightarrow> a \<le> b"
  by (simp add: units_def divide_le_cancel)

lemma units_inject [simp]: "units a = units b \<longleftrightarrow> a = b"
  by (simp add: units_def)

lemma units_abs [simp]: "\<bar>units a\<bar> = units \<bar>a\<bar>"
  by (simp add: units_def)

lemma units_cmp_0 [simp]: "units a < 0 \<longleftrightarrow> a < 0" "0 < units a \<longleftrightarrow> 0 < a"
  "units a \<le> 0 \<longleftrightarrow> a \<le> 0" "0 \<le> units a \<longleftrightarrow> 0 \<le> a"
  using units_less [of a 0] units_less [of 0 a] units_le [of a 0] units_le [of 0 a] by simp_all

lemma units_isfinite [simp]: "isfinite (units a)" "units a \<noteq> NaN"
  by (simp_all add: units_def)

lemma fits_small [simp]: "fits 0" "fits 1" "fits (numeral n) \<longleftrightarrow> numeral n < (2 :: int) ^ 53"
  "fits (- m) \<longleftrightarrow> fits m"
  by (simp_all add: fits_def)

subsection \<open>Signs and bounds that survive rounding\<close>

lemma double_diff_nonneg: "(y :: double) \<le> x \<Longrightarrow> isfinite x \<Longrightarrow> isfinite y \<Longrightarrow> 0 \<le> x - y"
  by (cases x; cases y) (auto simp: minus_double_def mk_nonneg)

lemma double_add_nonneg: "(0 :: double) \<le> x \<Longrightarrow> 0 \<le> y \<Longrightarrow> 0 \<le> x + y"
  by (cases x; cases y) (auto simp: zero_double_def mk_nonneg [unfolded zero_double_def])

lemma double_mult_nonneg: "(0 :: double) \<le> x \<Longrightarrow> 0 \<le> y \<Longrightarrow> isfinite x \<Longrightarrow> isfinite y \<Longrightarrow> 0 \<le> x * y"
  by (cases x; cases y) (auto simp: zero_double_def mk_nonneg [unfolded zero_double_def])

lemma double_div_nonneg:
  "(0 :: double) \<le> x \<Longrightarrow> 0 < y \<Longrightarrow> isfinite x \<Longrightarrow> isfinite y \<Longrightarrow> 0 \<le> x / y"
  by (cases x; cases y) (auto simp: zero_double_def mk_nonneg [unfolded zero_double_def])

text \<open>An actual \<^verbatim>\<open>double\<close>: a finite value is one that rounding keeps.\<close>

fun canonical :: "double \<Rightarrow> bool" where
  "canonical (Fin r) \<longleftrightarrow> mk r = Fin r"
| "canonical _ \<longleftrightarrow> True"

lemma canonical_units: "fits m \<Longrightarrow> canonical (units m)"
  using mk_units [of m] by (simp add: units_def)

lemma double_diff_le:
  assumes "canonical x" and "0 \<le> y" and "isfinite x" and "isfinite y"
  shows "x - y \<le> x"
proof -
  obtain a b where x: "x = Fin a" and y: "y = Fin b" using assms(3,4) by (auto simp: isfinite_iff)
  have "mk (a - b) \<le> mk a" using assms(2) by (intro mk_mono) (simp add: y zero_double_def)
  then show ?thesis using assms(1) by (simp add: x y minus_double_def)
qed

lemma rne_abs_le: "\<bar>y\<bar> \<le> of_int n \<Longrightarrow> \<bar>rne y\<bar> \<le> n"
  using rne_le_int [of y n] rne_ge_int [of "- n" y] by (simp add: abs_le_iff minus_le_iff)

lemma repr53_rnd: "repr53 (rnd x)"
proof (cases "x = 0")
  case True
  have "repr53 (of_int 0 * 2 powi 0)" by (rule repr53I) simp_all
  then show ?thesis using True by simp
next
  case False
  let ?q = "quantum x" and ?m = "rne (x / 2 powi quantum x)"
  have q: "ilog2 \<bar>x\<bar> + 1 \<le> ?q + 53" "- 1074 \<le> ?q" by (auto simp: quantum_def)
  have "\<bar>x\<bar> < 2 powi (ilog2 \<bar>x\<bar> + 1)" using ilog2_bounds(2) [of "\<bar>x\<bar>"] False by simp
  also have "\<dots> \<le> 2 powi (?q + 53)" by (rule power_int_increasing [OF q(1)]) simp
  also have "\<dots> = 2 ^ 53 * 2 powi ?q" by (simp add: power_int_add)
  finally have "\<bar>x / 2 powi ?q\<bar> \<le> of_int (2 ^ 53)" by (simp add: abs_divide field_simps)
  then have m: "\<bar>?m\<bar> \<le> 2 ^ 53" by (rule rne_abs_le)
  have r: "rnd x = of_int ?m * 2 powi ?q" using False by (simp add: rnd_def)
  show ?thesis
  proof (cases "\<bar>?m\<bar> = 2 ^ 53")
    case True
    then have "?m = 2 ^ 53 \<or> ?m = - (2 ^ 53)" by linarith
    then have "of_int ?m * (2 :: real) powi ?q = of_int (sgn ?m * 2 ^ 52) * 2 powi (?q + 1)"
      by (elim disjE) (simp_all add: power_int_add)
    moreover have "repr53 (of_int (sgn ?m * 2 ^ 52) * 2 powi (?q + 1))"
      using q(2) by (intro repr53I) (auto simp: sgn_if)
    ultimately show ?thesis by (simp only: r)
  next
    case False
    then show ?thesis unfolding r using m q(2) by (intro repr53I) auto
  qed
qed

lemma canonical_mk: "canonical (mk x)"
  using rnd_repr53 [OF repr53_rnd [of x]] by (auto simp: mk_def Let_def)

lemma canonical_add: "canonical x \<Longrightarrow> canonical y \<Longrightarrow> canonical (x + y)"
  by (cases x; cases y) (simp_all add: canonical_mk)

lemma double_add_mono:
  assumes "(x :: double) \<le> y" and "isfinite x" and "isfinite y" and "isfinite z"
  shows "x + z \<le> y + z"
  using assms by (auto simp: isfinite_iff intro!: mk_mono)

lemma double_le_add:
  assumes "canonical x" and "0 \<le> y" and "isfinite x" and "isfinite y"
  shows "x \<le> x + y"
proof -
  obtain a b where x: "x = Fin a" and y: "y = Fin b" using assms(3,4) by (auto simp: isfinite_iff)
  have "mk a \<le> mk (a + b)" using assms(2) by (intro mk_mono) (simp add: y zero_double_def)
  then show ?thesis using assms(1) by (simp add: x y)
qed

lemma double_ratio_le_1:
  assumes "0 \<le> x" and "x \<le> y" and "0 < y" and "isfinite x" and "isfinite y"
  shows "x / y \<le> 1"
proof -
  obtain a b where x: "x = Fin a" and y: "y = Fin b" using assms(4,5) by (auto simp: isfinite_iff)
  have "mk (a / b) \<le> mk 1" using assms(1-3) by (intro mk_mono) (simp add: x y zero_double_def)
  then show ?thesis using assms(3) by (simp add: x y zero_double_def one_double_def)
qed

lemma std_max_upper: "(a :: double) \<le> std_max a b" "b \<le> std_max a b" if "a \<noteq> NaN" "b \<noteq> NaN"
  using that by (cases a; cases b; simp add: std_max_def)+

lemma std_min_lower: "std_min a b \<le> (a :: double)" "std_min a b \<le> b" if "a \<noteq> NaN" "b \<noteq> NaN"
  using that by (cases a; cases b; simp add: std_min_def)+

lemma le_not_NaN: "(x :: double) \<le> y \<Longrightarrow> x \<noteq> NaN \<and> y \<noteq> NaN"
  by (cases x; cases y) auto

text \<open>Small and large literals, located without computing them.\<close>

lemma mk_half: "mk (1 / 2) = Fin (1 / 2)"
proof (rule mk_repr53)
  show "repr53 (1 / 2)" using repr53I [of 1 "- 1"] by (simp add: power_int_def)
  have "(1::real) / 2 < 2 ^ 0" by simp
  also have "\<dots> \<le> (2::real) ^ 1024" by (rule power_increasing) auto
  finally show "\<bar>1 / 2 :: real\<bar> < 2 ^ 1024" by simp
qed

lemma mk_small: "0 \<le> x \<Longrightarrow> x \<le> 1 / 2 \<Longrightarrow> \<exists>r. mk x = Fin r \<and> 0 \<le> r \<and> r \<le> 1 / 2"
proof -
  assume "0 \<le> x" "x \<le> 1 / 2"
  then have "0 \<le> mk x" "mk x \<le> Fin (1 / 2)" using mk_nonneg mk_mono [of x "1 / 2"] mk_half by auto
  then show ?thesis by (cases "mk x") (auto simp: zero_double_def)
qed

end
