(* ===== verification/Common_Types.thy ===== *)
theory Common_Types
  imports Float64 "HOL-Library.Signed_Division"
begin

text \<open>
  The domain enumerations of \<^verbatim>\<open>src/src/common/types.hpp\<close>, their printers and parsers
  from \<^verbatim>\<open>src/src/common/enums.hpp\<close>, the error codes of
  \<^verbatim>\<open>src/src/common/errors.hpp\<close>, and the numeric guards of
  \<^verbatim>\<open>src/src/common/numeric_utils.hpp\<close>.  \<^verbatim>\<open>Price\<close>, \<^verbatim>\<open>Quantity\<close> and
  \<^verbatim>\<open>NotionalValue\<close> are strong typedefs over \<^verbatim>\<open>double\<close>, \<^verbatim>\<open>Timestamp\<close> over
  \<^verbatim>\<open>int64_t\<close>; integer division is the truncating \<open>sdiv\<close>.
\<close>

section \<open>Enumerations\<close>

datatype side = Buy | Sell
datatype position_side = Long | Short
datatype trade_side = TradeOpen | TradeClose
datatype order_type = Limit | Market | PostOnly | StopMarket | StopLimit
datatype time_in_force = GoodTillCancel | ImmediateOrCancel | FillOrKill | GoodTillDate
datatype order_status =
  StPending | StOpen | StPartiallyFilled | StFilled | StCancelled | StRejected | StExpired
datatype trading_mode = Production
datatype regime_label = Trending | Ranging | Volatile | Unclear
datatype uncertainty_level = Low | Moderate | High | Extreme

datatype tb_error =
    ConfigLoadFailed | ConfigValidationFailed | SecretNotFound | SecretProviderUnavailable
  | ExchangeConnectionFailed | ExchangeAuthFailed | MarketDataStale | OrderBookOutOfSync
  | RiskDenied | ExecutionFailed | PersistenceError | ReplayError | ReconciliationFailed
  | ReconciliationMismatch | RecoveryFailed | RecoveryIncomplete | CircuitBreakerOpen
  | RetryExhausted | IdempotencyDuplicate | WalWriteFailed | WalRecoveryFailed
  | SymbolLockFailed | GlobalLimitExceeded | ProductionGuardFailed | ShadowDisabled
  | NoActionRequired

type_synonym 'a tb_result = "tb_error + 'a"

text \<open>
  \<open>clk\<close> bundles the clock readings of one call, in nanoseconds: the injected
  \<^verbatim>\<open>clock::IClock\<close>, the system clock and the steady clock.
\<close>

record clk =
  now :: timestamp
  wall :: timestamp
  steady :: timestamp

section \<open>Printing and parsing\<close>

fun side_to_string :: "side \<Rightarrow> string" where
  "side_to_string Buy = ''buy''"
| "side_to_string Sell = ''sell''"

fun position_side_to_string :: "position_side \<Rightarrow> string" where
  "position_side_to_string Long = ''long''"
| "position_side_to_string Short = ''short''"

fun trade_side_to_string :: "trade_side \<Rightarrow> string" where
  "trade_side_to_string TradeOpen = ''open''"
| "trade_side_to_string TradeClose = ''close''"

fun order_type_to_string :: "order_type \<Rightarrow> string" where
  "order_type_to_string Limit = ''limit''"
| "order_type_to_string Market = ''market''"
| "order_type_to_string PostOnly = ''post_only''"
| "order_type_to_string StopMarket = ''stop_market''"
| "order_type_to_string StopLimit = ''stop_limit''"

fun order_status_to_string :: "order_status \<Rightarrow> string" where
  "order_status_to_string StPending = ''pending''"
| "order_status_to_string StOpen = ''open''"
| "order_status_to_string StPartiallyFilled = ''partially_filled''"
| "order_status_to_string StFilled = ''filled''"
| "order_status_to_string StCancelled = ''cancelled''"
| "order_status_to_string StRejected = ''rejected''"
| "order_status_to_string StExpired = ''expired''"

fun trading_mode_to_string :: "trading_mode \<Rightarrow> string" where
  "trading_mode_to_string Production = ''production''"

fun regime_to_string :: "regime_label \<Rightarrow> string" where
  "regime_to_string Trending = ''trending''"
| "regime_to_string Ranging = ''ranging''"
| "regime_to_string Volatile = ''volatile''"
| "regime_to_string Unclear = ''unclear''"

fun uncertainty_to_string :: "uncertainty_level \<Rightarrow> string" where
  "uncertainty_to_string Low = ''low''"
| "uncertainty_to_string Moderate = ''moderate''"
| "uncertainty_to_string High = ''high''"
| "uncertainty_to_string Extreme = ''extreme''"

definition trading_mode_from_string :: "string \<Rightarrow> trading_mode option" where
  "trading_mode_from_string s = (if s = ''production'' then Some Production else None)"

definition side_from_string :: "string \<Rightarrow> side option" where
  "side_from_string s =
    (if s = ''buy'' then Some Buy else if s = ''sell'' then Some Sell else None)"

definition position_side_from_string :: "string \<Rightarrow> position_side option" where
  "position_side_from_string s =
    (if s = ''long'' then Some Long else if s = ''short'' then Some Short else None)"

definition trade_side_from_string :: "string \<Rightarrow> trade_side option" where
  "trade_side_from_string s =
    (if s = ''open'' then Some TradeOpen else if s = ''close'' then Some TradeClose else None)"

definition order_type_from_string :: "string \<Rightarrow> order_type option" where
  "order_type_from_string s =
    (if s = ''limit'' then Some Limit
     else if s = ''market'' then Some Market
     else if s = ''post_only'' then Some PostOnly
     else if s = ''stop_market'' then Some StopMarket
     else if s = ''stop_limit'' then Some StopLimit
     else None)"

definition order_status_from_string :: "string \<Rightarrow> order_status option" where
  "order_status_from_string s =
    (if s = ''pending'' then Some StPending
     else if s = ''open'' then Some StOpen
     else if s = ''partially_filled'' then Some StPartiallyFilled
     else if s = ''filled'' then Some StFilled
     else if s = ''cancelled'' then Some StCancelled
     else if s = ''rejected'' then Some StRejected
     else if s = ''expired'' then Some StExpired
     else None)"

definition regime_from_string :: "string \<Rightarrow> regime_label option" where
  "regime_from_string s =
    (if s = ''trending'' then Some Trending
     else if s = ''ranging'' then Some Ranging
     else if s = ''volatile'' then Some Volatile
     else if s = ''unclear'' then Some Unclear
     else None)"

definition uncertainty_from_string :: "string \<Rightarrow> uncertainty_level option" where
  "uncertainty_from_string s =
    (if s = ''low'' then Some Low
     else if s = ''moderate'' then Some Moderate
     else if s = ''high'' then Some High
     else if s = ''extreme'' then Some Extreme
     else None)"

text \<open>
  A printer and a parser that is its exact partial inverse: the contract that every
  enumeration of \<^verbatim>\<open>enums.hpp\<close> is held to.
\<close>

locale enum_codec =
  fixes to_str :: "'e \<Rightarrow> string"
    and of_str :: "string \<Rightarrow> 'e option"
  assumes of_to: "of_str (to_str v) = Some v"
    and to_of: "of_str s = Some v \<Longrightarrow> to_str v = s"
begin

lemma roundtrip_iff: "of_str s = Some v \<longleftrightarrow> s = to_str v"
  using of_to to_of by auto

lemma to_str_inject: "to_str v = to_str w \<longleftrightarrow> v = w"
  by (metis of_to option.inject)

end

interpretation side_codec: enum_codec side_to_string side_from_string
proof unfold_locales
  fix v show "side_from_string (side_to_string v) = Some v"
    by (cases v) (simp_all add: side_from_string_def)
qed (auto simp: side_from_string_def split: if_splits)

interpretation position_side_codec: enum_codec position_side_to_string position_side_from_string
proof unfold_locales
  fix v show "position_side_from_string (position_side_to_string v) = Some v"
    by (cases v) (simp_all add: position_side_from_string_def)
qed (auto simp: position_side_from_string_def split: if_splits)

interpretation trade_side_codec: enum_codec trade_side_to_string trade_side_from_string
proof unfold_locales
  fix v show "trade_side_from_string (trade_side_to_string v) = Some v"
    by (cases v) (simp_all add: trade_side_from_string_def)
qed (auto simp: trade_side_from_string_def split: if_splits)

interpretation order_type_codec: enum_codec order_type_to_string order_type_from_string
proof unfold_locales
  fix v show "order_type_from_string (order_type_to_string v) = Some v"
    by (cases v) (simp_all add: order_type_from_string_def)
qed (auto simp: order_type_from_string_def split: if_splits)

interpretation order_status_codec: enum_codec order_status_to_string order_status_from_string
proof unfold_locales
  fix v show "order_status_from_string (order_status_to_string v) = Some v"
    by (cases v) (simp_all add: order_status_from_string_def)
qed (auto simp: order_status_from_string_def split: if_splits)

interpretation trading_mode_codec: enum_codec trading_mode_to_string trading_mode_from_string
proof unfold_locales
  fix v show "trading_mode_from_string (trading_mode_to_string v) = Some v"
    by (cases v) (simp_all add: trading_mode_from_string_def)
next
  fix s v show "trading_mode_from_string s = Some v \<Longrightarrow> trading_mode_to_string v = s"
    by (cases v) (simp add: trading_mode_from_string_def split: if_splits)
qed

interpretation regime_codec: enum_codec regime_to_string regime_from_string
proof unfold_locales
  fix v show "regime_from_string (regime_to_string v) = Some v"
    by (cases v) (simp_all add: regime_from_string_def)
qed (auto simp: regime_from_string_def split: if_splits)

interpretation uncertainty_codec: enum_codec uncertainty_to_string uncertainty_from_string
proof unfold_locales
  fix v show "uncertainty_from_string (uncertainty_to_string v) = Some v"
    by (cases v) (simp_all add: uncertainty_from_string_def)
qed (auto simp: uncertainty_from_string_def split: if_splits)

section \<open>Numeric guards\<close>

definition kEpsilon :: double where "kEpsilon = lit (1 / 10 ^ 9)"
definition kMinValidPrice :: double where "kMinValidPrice = lit (1 / 10 ^ 10)"
definition kMaxReasonablePrice :: double where "kMaxReasonablePrice = lit (10 ^ 12)"
definition kMaxReasonableVolume :: double where "kMaxReasonableVolume = lit (10 ^ 15)"

definition safe_div :: "double \<Rightarrow> double \<Rightarrow> double \<Rightarrow> double" where
  "safe_div num den fallback =
    (if \<bar>den\<bar> < kEpsilon then fallback
     else let result = num / den in if isfinite result then result else fallback)"

definition safe_clamp :: "double \<Rightarrow> double \<Rightarrow> double \<Rightarrow> double \<Rightarrow> double" where
  "safe_clamp v lo hi fallback = (if \<not> isfinite v then fallback else std_clamp v lo hi)"

definition is_valid_price :: "double \<Rightarrow> bool" where
  "is_valid_price p \<longleftrightarrow> isfinite p \<and> kMinValidPrice < p \<and> p < kMaxReasonablePrice"

definition is_valid_volume :: "double \<Rightarrow> bool" where
  "is_valid_volume v \<longleftrightarrow> isfinite v \<and> 0 \<le> v \<and> v < kMaxReasonableVolume"

definition validate_price_series :: "double list \<Rightarrow> bool" where
  "validate_price_series ps \<longleftrightarrow> ps \<noteq> [] \<and> list_all is_valid_price ps"

definition is_stale :: "timestamp \<Rightarrow> timestamp \<Rightarrow> int \<Rightarrow> bool" where
  "is_stale computed_at_ns now_ns threshold_ns \<longleftrightarrow>
     computed_at_ns \<le> 0 \<or> now_ns \<le> 0 \<or> threshold_ns < now_ns - computed_at_ns"

lemma safe_div_finite: "isfinite fallback \<Longrightarrow> isfinite (safe_div num den fallback)"
  by (simp add: safe_div_def Let_def)

lemma safe_clamp_range:
  assumes "lo \<le> hi" and "lo \<le> fallback" and "fallback \<le> hi"
  shows "lo \<le> safe_clamp v lo hi fallback \<and> safe_clamp v lo hi fallback \<le> hi"
  using assms std_clamp_bounds [of lo hi v] by (cases v) (auto simp: safe_clamp_def)

end
