(* ===== verification/Order_FSM.thy ===== *)
theory Order_FSM
  imports Common_Types
begin

text \<open>
  The order life cycle of \<^verbatim>\<open>src/src/execution/order_types.{hpp,cpp}\<close> and
  \<^verbatim>\<open>src/src/execution/order_fsm.{hpp,cpp}\<close>: the states, the table of admissible
  transitions, the record that the engine keeps per order, and the automaton with its
  audit history.  The two clocks the automaton reads (wall clock and steady clock) are
  arguments of its operations.
\<close>

section \<open>States and the transition table\<close>

datatype order_state =
    New | PendingAck | Open | PartiallyFilled | Filled | CancelPending | Cancelled
  | Rejected | Expired | UnknownRecovery

datatype partial_fill_policy = WaitForFull | CancelRemaining | AllowPartial

datatype trigger_type = FillPrice | MarkPrice

fun order_state_to_string :: "order_state \<Rightarrow> string" where
  "order_state_to_string New = ''New''"
| "order_state_to_string PendingAck = ''PendingAck''"
| "order_state_to_string Open = ''Open''"
| "order_state_to_string PartiallyFilled = ''PartiallyFilled''"
| "order_state_to_string Filled = ''Filled''"
| "order_state_to_string CancelPending = ''CancelPending''"
| "order_state_to_string Cancelled = ''Cancelled''"
| "order_state_to_string Rejected = ''Rejected''"
| "order_state_to_string Expired = ''Expired''"
| "order_state_to_string UnknownRecovery = ''UnknownRecovery''"

definition terminal_state :: "order_state \<Rightarrow> bool" where
  "terminal_state s \<longleftrightarrow> s = Filled \<or> s = Cancelled \<or> s = Rejected \<or> s = Expired"

definition active_state :: "order_state \<Rightarrow> bool" where
  "active_state s \<longleftrightarrow> s = Open \<or> s = PartiallyFilled \<or> s = PendingAck \<or> s = CancelPending"

definition is_valid_transition :: "order_state \<Rightarrow> order_state \<Rightarrow> bool" where
  "is_valid_transition from to =
    (if from = Filled \<or> from = Cancelled \<or> from = Rejected \<or> from = Expired then False
     else case from of
       New \<Rightarrow> to = PendingAck
     | PendingAck \<Rightarrow>
         to = Open \<or> to = Rejected \<or> to = Filled \<or> to = PartiallyFilled \<or>
         to = CancelPending \<or> to = Cancelled \<or> to = UnknownRecovery
     | Open \<Rightarrow>
         to = PartiallyFilled \<or> to = Filled \<or> to = CancelPending \<or> to = Cancelled \<or>
         to = Expired \<or> to = UnknownRecovery
     | PartiallyFilled \<Rightarrow>
         to = Filled \<or> to = CancelPending \<or> to = Cancelled \<or> to = Expired \<or>
         to = UnknownRecovery
     | CancelPending \<Rightarrow>
         to = Cancelled \<or> to = Filled \<or> to = PartiallyFilled \<or> to = UnknownRecovery
     | UnknownRecovery \<Rightarrow> True
     | _ \<Rightarrow> False)"

section \<open>The order record\<close>

record fill_event =
  fe_order_id :: order_id
  fe_fill_quantity :: double
  fe_fill_price :: double
  fe_cumulative_filled :: double
  fe_fee :: double
  fe_trade_id :: string
  fe_occurred_at :: timestamp

record order_execution_info =
  ei_fills :: "fill_event list"
  ei_fill_policy :: partial_fill_policy
  ei_client_order_id :: string
  ei_retry_count :: int
  ei_time_in_open_ms :: int
  ei_first_fill_latency_ms :: int
  ei_expected_fill_price :: double
  ei_realized_slippage :: double

record attached_tp_sl =
  tp_stop_surplus_price :: double
  sl_stop_loss_price :: double
  tpsl_trigger_type :: trigger_type

record plan_order_params =
  pp_trigger_price :: double
  pp_trigger_type :: trigger_type
  pp_execute_price :: double

record order_record =
  o_order_id :: order_id
  o_exchange_order_id :: order_id
  o_symbol :: symbol
  o_side :: side
  o_position_side :: position_side
  o_trade_side :: trade_side
  o_order_type :: order_type
  o_tif :: time_in_force
  o_price :: double
  o_original_quantity :: double
  o_filled_quantity :: double
  o_remaining_quantity :: double
  o_avg_fill_price :: double
  o_state :: order_state
  o_strategy_id :: strategy_id
  o_correlation_id :: string
  o_created_at :: timestamp
  o_last_updated :: timestamp
  o_rejection_reason :: string
  o_retry_count :: int
  o_execution_info :: order_execution_info
  o_attached_tp_sl :: attached_tp_sl
  o_plan_params :: plan_order_params

definition has_tp :: "attached_tp_sl \<Rightarrow> bool" where
  "has_tp t \<longleftrightarrow> 0 < tp_stop_surplus_price t"

definition has_sl :: "attached_tp_sl \<Rightarrow> bool" where
  "has_sl t \<longleftrightarrow> 0 < sl_stop_loss_price t"

definition order_is_terminal :: "order_record \<Rightarrow> bool" where
  "order_is_terminal r \<longleftrightarrow> terminal_state (o_state r)"

definition order_is_active :: "order_record \<Rightarrow> bool" where
  "order_is_active r \<longleftrightarrow> active_state (o_state r)"

definition default_execution_info :: order_execution_info where
  "default_execution_info =
    \<lparr>ei_fills = [], ei_fill_policy = WaitForFull, ei_client_order_id = [], ei_retry_count = 0,
     ei_time_in_open_ms = 0, ei_first_fill_latency_ms = 0, ei_expected_fill_price = 0,
     ei_realized_slippage = 0\<rparr>"

definition default_order :: order_record where
  "default_order =
    \<lparr>o_order_id = [], o_exchange_order_id = [], o_symbol = [], o_side = Buy,
     o_position_side = Long, o_trade_side = TradeOpen, o_order_type = Market,
     o_tif = ImmediateOrCancel, o_price = 0, o_original_quantity = 0, o_filled_quantity = 0,
     o_remaining_quantity = 0, o_avg_fill_price = 0, o_state = New, o_strategy_id = [],
     o_correlation_id = [], o_created_at = 0, o_last_updated = 0, o_rejection_reason = [],
     o_retry_count = 0, o_execution_info = default_execution_info,
     o_attached_tp_sl = \<lparr>tp_stop_surplus_price = 0, sl_stop_loss_price = 0,
                         tpsl_trigger_type = MarkPrice\<rparr>,
     o_plan_params = \<lparr>pp_trigger_price = 0, pp_trigger_type = MarkPrice,
                      pp_execute_price = 0\<rparr>\<rparr>"

section \<open>The automaton\<close>

record order_transition =
  tr_from :: order_state
  tr_to :: order_state
  tr_reason :: string
  tr_occurred_at :: timestamp

record order_fsm =
  fsm_order_id :: order_id
  fsm_state :: order_state
  fsm_history :: "order_transition list"
  fsm_created_at_ns :: timestamp
  fsm_last_transition_tp :: timestamp

definition fsm_init :: "order_id \<Rightarrow> timestamp \<Rightarrow> timestamp \<Rightarrow> order_fsm" where
  "fsm_init oid twall tsteady =
    \<lparr>fsm_order_id = oid, fsm_state = New, fsm_history = [], fsm_created_at_ns = twall,
     fsm_last_transition_tp = tsteady\<rparr>"

definition fsm_transition ::
  "order_state \<Rightarrow> string \<Rightarrow> timestamp \<Rightarrow> timestamp \<Rightarrow> timestamp \<Rightarrow> order_fsm \<Rightarrow> bool \<times> order_fsm" where
  "fsm_transition new_state reason tnow twall tsteady f =
    (if \<not> is_valid_transition (fsm_state f) new_state then (False, f)
     else
       let tnow = (if tnow = 0 then twall else tnow) in
       (True, f\<lparr>fsm_history := fsm_history f @
                  [\<lparr>tr_from = fsm_state f, tr_to = new_state, tr_reason = reason,
                    tr_occurred_at = tnow\<rparr>],
                fsm_state := new_state,
                fsm_last_transition_tp := tsteady\<rparr>))"

definition fsm_force_transition ::
  "order_state \<Rightarrow> string \<Rightarrow> timestamp \<Rightarrow> timestamp \<Rightarrow> timestamp \<Rightarrow> order_fsm \<Rightarrow> order_fsm" where
  "fsm_force_transition new_state reason tnow twall tsteady f =
    (let tnow = (if tnow = 0 then twall else tnow) in
     f\<lparr>fsm_history := fsm_history f @
         [\<lparr>tr_from = fsm_state f, tr_to = new_state, tr_reason = ''[FORCED] '' @ reason,
           tr_occurred_at = tnow\<rparr>],
       fsm_state := new_state,
       fsm_last_transition_tp := tsteady\<rparr>)"

definition fsm_is_terminal :: "order_fsm \<Rightarrow> bool" where
  "fsm_is_terminal f \<longleftrightarrow> terminal_state (fsm_state f)"

definition fsm_is_active :: "order_fsm \<Rightarrow> bool" where
  "fsm_is_active f \<longleftrightarrow> active_state (fsm_state f)"

definition fsm_last_transition_time :: "order_fsm \<Rightarrow> timestamp" where
  "fsm_last_transition_time f =
    (if fsm_history f = [] then fsm_created_at_ns f else tr_occurred_at (last (fsm_history f)))"

definition fsm_time_in_current_state_ms :: "timestamp \<Rightarrow> order_fsm \<Rightarrow> int" where
  "fsm_time_in_current_state_ms tsteady f = (tsteady - fsm_last_transition_tp f) sdiv 1000000"

section \<open>The automaton's laws\<close>

lemma terminal_no_transition: "terminal_state s \<Longrightarrow> \<not> is_valid_transition s t"
  by (auto simp: terminal_state_def is_valid_transition_def)

lemma valid_from_non_terminal: "is_valid_transition s t \<Longrightarrow> \<not> terminal_state s"
  using terminal_no_transition by blast

lemma terminal_not_active: "\<not> (terminal_state s \<and> active_state s)"
  by (auto simp: terminal_state_def active_state_def)

lemma state_trichotomy:
  "terminal_state s \<or> active_state s \<or> s = New \<or> s = UnknownRecovery"
  by (cases s) (auto simp: terminal_state_def active_state_def)

lemma enters_New_only_from_recovery: "is_valid_transition s New \<Longrightarrow> s = UnknownRecovery"
  by (cases s) (auto simp: is_valid_transition_def)

text \<open>Every non-terminal state can be driven to a terminal one by admissible transitions.\<close>

lemma terminal_within_two:
  "terminal_state s \<or> (\<exists>t. is_valid_transition s t \<and> terminal_state t) \<or>
   (\<exists>t u. is_valid_transition s t \<and> is_valid_transition t u \<and> terminal_state u)"
proof (cases s)
  case New
  have "is_valid_transition New PendingAck" "is_valid_transition PendingAck Filled"
    "terminal_state Filled"
    by (simp_all add: is_valid_transition_def terminal_state_def)
  with New show ?thesis by blast
next
  case PendingAck
  then show ?thesis by (auto simp: is_valid_transition_def terminal_state_def)
next
  case Open
  then show ?thesis by (auto simp: is_valid_transition_def terminal_state_def)
next
  case PartiallyFilled
  then show ?thesis by (auto simp: is_valid_transition_def terminal_state_def)
next
  case CancelPending
  then show ?thesis by (auto simp: is_valid_transition_def terminal_state_def)
next
  case UnknownRecovery
  then show ?thesis by (auto simp: is_valid_transition_def terminal_state_def)
qed (simp_all add: terminal_state_def)

subsection \<open>The step relation and the audit trail\<close>

text \<open>
  One step is a call of \<^verbatim>\<open>transition\<close> or of \<^verbatim>\<open>force_transition\<close> by some thread,
  with any target, reason and clock readings.
\<close>

inductive fsm_step :: "order_fsm \<Rightarrow> order_fsm \<Rightarrow> bool" where
  step_transition: "fsm_transition s r tnow twall tsteady f = (b, f') \<Longrightarrow> fsm_step f f'"
| step_force: "fsm_force_transition s r tnow twall tsteady f = f' \<Longrightarrow> fsm_step f f'"

definition fsm_start :: "order_fsm \<Rightarrow> bool" where
  "fsm_start f \<longleftrightarrow> (\<exists>oid twall tsteady. f = fsm_init oid twall tsteady)"

fun history_chain :: "order_state \<Rightarrow> order_transition list \<Rightarrow> order_state \<Rightarrow> bool" where
  "history_chain s [] t \<longleftrightarrow> s = t"
| "history_chain s (x # xs) t \<longleftrightarrow> tr_from x = s \<and> history_chain (tr_to x) xs t"

definition transition_justified :: "order_transition \<Rightarrow> bool" where
  "transition_justified x \<longleftrightarrow>
     is_valid_transition (tr_from x) (tr_to x) \<or> take 9 (tr_reason x) = ''[FORCED] ''"

definition fsm_inv :: "order_fsm \<Rightarrow> bool" where
  "fsm_inv f \<longleftrightarrow>
     history_chain New (fsm_history f) (fsm_state f) \<and> list_all transition_justified (fsm_history f)"

lemma history_chain_snoc:
  "history_chain s (xs @ [x]) t \<longleftrightarrow> history_chain s xs (tr_from x) \<and> t = tr_to x"
  by (induction xs arbitrary: s) auto

lemma fsm_inv_init [simp, inv_intros]: "fsm_inv (fsm_init oid twall tsteady)"
  by (simp add: fsm_inv_def fsm_init_def)

lemma fsm_inv_transition [inv_intros]:
  "fsm_inv f \<Longrightarrow> fsm_inv (snd (fsm_transition s r tnow twall tsteady f))"
  by (auto simp: fsm_inv_def fsm_transition_def Let_def history_chain_snoc transition_justified_def)

lemma fsm_inv_force [inv_intros]:
  "fsm_inv f \<Longrightarrow> fsm_inv (fsm_force_transition s r tnow twall tsteady f)"
  by (auto simp: fsm_inv_def fsm_force_transition_def Let_def history_chain_snoc
      transition_justified_def)

lemma fsm_step_inv: "fsm_step f f' \<Longrightarrow> fsm_inv f \<Longrightarrow> fsm_inv f'"
  by (induction rule: fsm_step.induct) (metis fsm_inv_transition snd_conv, metis fsm_inv_force)

interpretation fsm: inv_system fsm_start fsm_step fsm_inv
  by unfold_locales (auto simp: fsm_start_def intro: fsm_step_inv)

lemma fsm_transition_terminal [simp]:
  "fsm_is_terminal f \<Longrightarrow> fsm_transition s r tnow twall tsteady f = (False, f)"
  by (simp add: fsm_transition_def fsm_is_terminal_def terminal_no_transition)

lemma fsm_transition_state:
  "fsm_state (snd (fsm_transition s r tnow twall tsteady f)) =
     (if is_valid_transition (fsm_state f) s then s else fsm_state f)"
  by (simp add: fsm_transition_def Let_def)

lemma fsm_transition_result:
  "fst (fsm_transition s r tnow twall tsteady f) \<longleftrightarrow> is_valid_transition (fsm_state f) s"
  by (simp add: fsm_transition_def Let_def)

lemma fsm_force_state [simp]: "fsm_state (fsm_force_transition s r tnow twall tsteady f) = s"
  by (simp add: fsm_force_transition_def Let_def)

section \<open>Properties\<close>

text \<open>
  C32. In every state the order automaton can reach, by any sequence of ordinary and
  forced transitions, its history is one unbroken chain from \<open>New\<close> to the current state,
  and each recorded step is either admissible in the transition table or carries the
  \<open>[FORCED]\<close> mark of the recovery path.
\<close>

theorem fsm_audit_trail:
  assumes "fsm_start f0" and "fsm_step\<^sup>*\<^sup>* f0 f"
  shows "history_chain New (fsm_history f) (fsm_state f) \<and>
         (\<forall>x \<in> set (fsm_history f).
            is_valid_transition (tr_from x) (tr_to x) \<or> take 9 (tr_reason x) = ''[FORCED] '')"
  using fsm.inv_reachable [OF assms]
  by (auto simp: fsm_inv_def list_all_iff transition_justified_def)

theorem fsm_audit_trail_witness:
  "let f0 = fsm_init ''TB1'' 1 2;
       f1 = snd (fsm_transition PendingAck ''submit'' 5 7 9 f0);
       f2 = fsm_force_transition Filled ''recovered'' 0 11 13 f1
   in fsm_start f0 \<and> fsm_step\<^sup>*\<^sup>* f0 f2 \<and> length (fsm_history f2) = 2 \<and>
      history_chain New (fsm_history f2) (fsm_state f2)"
proof -
  let ?f0 = "fsm_init ''TB1'' 1 2"
  let ?f1 = "snd (fsm_transition PendingAck ''submit'' 5 7 9 ?f0)"
  let ?f2 = "fsm_force_transition Filled ''recovered'' 0 11 13 ?f1"
  have s: "fsm_start ?f0" by (auto simp: fsm_start_def)
  have "fsm_step ?f0 ?f1"
    by (rule step_transition [of PendingAck "''submit''" 5 7 9 _
          "fst (fsm_transition PendingAck ''submit'' 5 7 9 ?f0)"]) simp
  moreover have "fsm_step ?f1 ?f2"
    by (rule step_force [of Filled "''recovered''" 0 11 13]) simp
  ultimately have r: "fsm_step\<^sup>*\<^sup>* ?f0 ?f2" by auto
  have "length (fsm_history ?f2) = 2"
    by (simp add: fsm_force_transition_def fsm_transition_def fsm_init_def Let_def
        is_valid_transition_def)
  with s r fsm_audit_trail [OF s r] show ?thesis by (simp add: Let_def)
qed

end
