(* ===== verification/Order_Registry.thy ===== *)
theory Order_Registry
  imports Order_FSM
begin

text \<open>
  \<^verbatim>\<open>OrderRegistry\<close> (\<^verbatim>\<open>src/src/execution/orders/order_registry.{hpp,cpp}\<close>): the single
  store of order records, their automata, the secondary index from exchange ids, and the
  three deduplication structures (applied fills, seen trade ids with FIFO eviction,
  recent intents).  Every public method takes the registry's mutex, so one call is one
  step.  Log lines are not modelled.
\<close>

section \<open>State\<close>

record registry =
  reg_dedup_window_ms :: int
  reg_orders :: "(string \<times> order_record) list"
  reg_fsms :: "(string \<times> order_fsm) list"
  reg_fill_applied :: "string set"
  reg_seen_trade_ids :: "string set"
  reg_seen_trade_id_fifo :: "string list"
  reg_recent_intents :: "(string \<times> timestamp) list"
  reg_exchange_id_index :: "(string \<times> string) list"

definition kMaxSeenTradeIds :: nat where "kMaxSeenTradeIds = 200000"

definition registry_init :: "int \<Rightarrow> registry" where
  "registry_init dedup_window_ms =
    \<lparr>reg_dedup_window_ms = dedup_window_ms, reg_orders = [], reg_fsms = [],
     reg_fill_applied = {}, reg_seen_trade_ids = {}, reg_seen_trade_id_fifo = [],
     reg_recent_intents = [], reg_exchange_id_index = []\<rparr>"

section \<open>Storage and lookup\<close>

text \<open>\<^verbatim>\<open>emplace\<close> and \<^verbatim>\<open>try_emplace\<close> leave an existing entry as it is.\<close>

definition al_emplace :: "'k \<Rightarrow> 'v \<Rightarrow> ('k \<times> 'v) list \<Rightarrow> ('k \<times> 'v) list" where
  "al_emplace k v xs = (if al_contains xs k then xs else xs @ [(k, v)])"

definition register_order :: "clk \<Rightarrow> order_record \<Rightarrow> registry \<Rightarrow> registry" where
  "register_order c r g =
    (let oid = o_order_id r;
         g = g\<lparr>reg_fsms := al_emplace oid (fsm_init oid (wall c) (steady c)) (reg_fsms g)\<rparr>;
         g = (if o_exchange_order_id r \<noteq> [] then
                g\<lparr>reg_exchange_id_index :=
                    AList.update (o_exchange_order_id r) oid (reg_exchange_id_index g)\<rparr>
              else g)
     in g\<lparr>reg_orders := al_emplace oid r (reg_orders g)\<rparr>)"

definition get_order :: "order_id \<Rightarrow> registry \<Rightarrow> order_record option" where
  "get_order oid g = map_of (reg_orders g) oid"

definition get_order_by_exchange_id :: "order_id \<Rightarrow> registry \<Rightarrow> order_record option" where
  "get_order_by_exchange_id xid g =
    (case map_of (reg_exchange_id_index g) xid of
       None \<Rightarrow> None
     | Some oid \<Rightarrow> map_of (reg_orders g) oid)"

definition update_order :: "order_record \<Rightarrow> registry \<Rightarrow> registry" where
  "update_order r g =
    (if al_contains (reg_orders g) (o_order_id r) then
       let g = (if o_exchange_order_id r \<noteq> [] then
                  g\<lparr>reg_exchange_id_index :=
                      AList.update (o_exchange_order_id r) (o_order_id r) (reg_exchange_id_index g)\<rparr>
                else g)
       in g\<lparr>reg_orders := AList.update (o_order_id r) r (reg_orders g)\<rparr>
     else g)"

definition active_orders :: "registry \<Rightarrow> order_record list" where
  "active_orders g = filter order_is_active (map snd (reg_orders g))"

definition orders_for_symbol :: "symbol \<Rightarrow> registry \<Rightarrow> order_record list" where
  "orders_for_symbol s g = filter (\<lambda>r. o_symbol r = s) (map snd (reg_orders g))"

definition active_count :: "registry \<Rightarrow> nat" where
  "active_count g = fold (\<lambda>(_, r) c. if order_is_active r then Suc c else c) (reg_orders g) 0"

section \<open>Transitions\<close>

definition set_order_state :: "clk \<Rightarrow> order_id \<Rightarrow> order_state \<Rightarrow> registry \<Rightarrow> registry" where
  "set_order_state c oid s g =
    (case map_of (reg_orders g) oid of
       None \<Rightarrow> g
     | Some r \<Rightarrow> g\<lparr>reg_orders :=
                     AList.update oid (r\<lparr>o_state := s, o_last_updated := now c\<rparr>) (reg_orders g)\<rparr>)"

definition reg_transition ::
  "clk \<Rightarrow> order_id \<Rightarrow> order_state \<Rightarrow> string \<Rightarrow> registry \<Rightarrow> bool \<times> registry" where
  "reg_transition c oid new_state reason g =
    (case map_of (reg_fsms g) oid of
       None \<Rightarrow> (False, g)
     | Some f \<Rightarrow>
         (case fsm_transition new_state reason 0 (wall c) (steady c) f of
            (False, _) \<Rightarrow> (False, g)
          | (True, f') \<Rightarrow>
              (True, set_order_state c oid new_state
                       (g\<lparr>reg_fsms := AList.update oid f' (reg_fsms g)\<rparr>))))"

definition reg_force_transition ::
  "clk \<Rightarrow> order_id \<Rightarrow> order_state \<Rightarrow> string \<Rightarrow> registry \<Rightarrow> registry" where
  "reg_force_transition c oid new_state reason g =
    (case map_of (reg_fsms g) oid of
       None \<Rightarrow> g
     | Some f \<Rightarrow>
         let f' = fsm_force_transition new_state reason 0 (wall c) (steady c) f;
             g = set_order_state c oid new_state
                   (g\<lparr>reg_fsms := AList.update oid f' (reg_fsms g)\<rparr>)
         in g\<lparr>reg_fill_applied := reg_fill_applied g - {oid}\<rparr>)"

definition reg_fsm_state :: "order_id \<Rightarrow> registry \<Rightarrow> order_state option" where
  "reg_fsm_state oid g = map_option fsm_state (map_of (reg_fsms g) oid)"

definition time_in_state_ms :: "clk \<Rightarrow> order_id \<Rightarrow> registry \<Rightarrow> int option" where
  "time_in_state_ms c oid g =
     map_option (fsm_time_in_current_state_ms (steady c)) (map_of (reg_fsms g) oid)"

section \<open>Deduplication\<close>

definition is_fill_applied :: "order_id \<Rightarrow> registry \<Rightarrow> bool" where
  "is_fill_applied oid g \<longleftrightarrow> oid \<in> reg_fill_applied g"

definition mark_fill_applied :: "order_id \<Rightarrow> registry \<Rightarrow> registry" where
  "mark_fill_applied oid g = g\<lparr>reg_fill_applied := insert oid (reg_fill_applied g)\<rparr>"

definition is_trade_id_seen :: "string \<Rightarrow> registry \<Rightarrow> bool" where
  "is_trade_id_seen t g \<longleftrightarrow> t \<in> reg_seen_trade_ids g"

text \<open>\<^verbatim>\<open>while (fifo.size() > max) { seen.erase(fifo.front()); fifo.pop_front(); }\<close>\<close>

fun evict_seen :: "nat \<Rightarrow> string set \<Rightarrow> string list \<Rightarrow> string set \<times> string list" where
  "evict_seen mx seen [] = (seen, [])"
| "evict_seen mx seen (x # xs) =
     (if mx < length (x # xs) then evict_seen mx (seen - {x}) xs else (seen, x # xs))"

definition check_and_mark_trade_id_seen :: "string \<Rightarrow> registry \<Rightarrow> bool \<times> registry" where
  "check_and_mark_trade_id_seen t g =
    (if t \<in> reg_seen_trade_ids g then (True, g)
     else
       let (seen, fifo) = evict_seen kMaxSeenTradeIds (insert t (reg_seen_trade_ids g))
                                     (reg_seen_trade_id_fifo g @ [t])
       in (False, g\<lparr>reg_seen_trade_ids := seen, reg_seen_trade_id_fifo := fifo\<rparr>))"

definition mark_trade_id_seen :: "string \<Rightarrow> registry \<Rightarrow> registry" where
  "mark_trade_id_seen t g =
    (if t \<in> reg_seen_trade_ids g then g
     else
       let (seen, fifo) = evict_seen kMaxSeenTradeIds (insert t (reg_seen_trade_ids g))
                                     (reg_seen_trade_id_fifo g @ [t])
       in g\<lparr>reg_seen_trade_ids := seen, reg_seen_trade_id_fifo := fifo\<rparr>)"

definition is_duplicate_intent :: "string \<Rightarrow> registry \<Rightarrow> bool" where
  "is_duplicate_intent key g = al_contains (reg_recent_intents g) key"

definition record_intent :: "clk \<Rightarrow> string \<Rightarrow> registry \<Rightarrow> registry" where
  "record_intent c key g =
     g\<lparr>reg_recent_intents := AList.update key (now c) (reg_recent_intents g)\<rparr>"

definition cleanup_old_intents :: "clk \<Rightarrow> registry \<Rightarrow> registry" where
  "cleanup_old_intents c g =
    (let window_ns = reg_dedup_window_ms g * 1000000
     in g\<lparr>reg_recent_intents :=
            filter (\<lambda>(_, t). \<not> (now c - t > window_ns)) (reg_recent_intents g)\<rparr>)"

section \<open>Cleanup and timeouts\<close>

definition stale_terminal :: "clk \<Rightarrow> int \<Rightarrow> order_record \<Rightarrow> bool" where
  "stale_terminal c max_age_ns r \<longleftrightarrow>
     order_is_terminal r \<and> now c - o_last_updated r > max_age_ns"

definition erase_order :: "order_id \<Rightarrow> order_record \<Rightarrow> registry \<Rightarrow> registry" where
  "erase_order oid r g =
    g\<lparr>reg_exchange_id_index :=
        (if o_exchange_order_id r \<noteq> []
         then AList.delete (o_exchange_order_id r) (reg_exchange_id_index g)
         else reg_exchange_id_index g),
      reg_fsms := AList.delete oid (reg_fsms g),
      reg_fill_applied := reg_fill_applied g - {oid},
      reg_orders := AList.delete oid (reg_orders g)\<rparr>"

fun cleanup_loop ::
  "clk \<Rightarrow> int \<Rightarrow> (string \<times> order_record) list \<Rightarrow> registry \<Rightarrow> nat \<Rightarrow> registry \<times> nat" where
  "cleanup_loop c max_age [] g n = (g, n)"
| "cleanup_loop c max_age ((oid, r) # rest) g n =
     (if stale_terminal c max_age r
      then cleanup_loop c max_age rest (erase_order oid r g) (Suc n)
      else cleanup_loop c max_age rest g n)"

definition cleanup_terminal_orders :: "clk \<Rightarrow> int \<Rightarrow> registry \<Rightarrow> registry \<times> nat" where
  "cleanup_terminal_orders c max_age_ns g = cleanup_loop c max_age_ns (reg_orders g) g 0"

definition get_timed_out_orders :: "clk \<Rightarrow> int \<Rightarrow> registry \<Rightarrow> order_id list" where
  "get_timed_out_orders c max_open_duration_ms g =
     map fst (filter (\<lambda>(_, f). fsm_is_active f \<and>
                max_open_duration_ms < fsm_time_in_current_state_ms (steady c) f) (reg_fsms g))"

section \<open>The registry invariant\<close>

text \<open>
  Keys are distinct; records and automata are stored under the same ids and each record
  under its own id; a record and its automaton agree on the state; the FIFO of trade ids
  lists exactly the set and never exceeds its bound.
\<close>

definition reg_keys_inv :: "registry \<Rightarrow> bool" where
  "reg_keys_inv g \<longleftrightarrow>
     al_wf (reg_orders g) \<and> al_wf (reg_fsms g) \<and> al_wf (reg_exchange_id_index g) \<and>
     al_wf (reg_recent_intents g)"

definition reg_linked_at :: "registry \<Rightarrow> order_id \<Rightarrow> bool" where
  "reg_linked_at g oid \<longleftrightarrow>
     rel_option (\<lambda>r f. o_order_id r = oid \<and> o_state r = fsm_state f)
       (map_of (reg_orders g) oid) (map_of (reg_fsms g) oid)"

definition reg_linked :: "registry \<Rightarrow> bool" where
  "reg_linked g \<longleftrightarrow> (\<forall>oid. reg_linked_at g oid)"

definition reg_dedup_inv :: "registry \<Rightarrow> bool" where
  "reg_dedup_inv g \<longleftrightarrow>
     set (reg_seen_trade_id_fifo g) = reg_seen_trade_ids g \<and>
     distinct (reg_seen_trade_id_fifo g) \<and>
     length (reg_seen_trade_id_fifo g) \<le> kMaxSeenTradeIds"

definition reg_inv :: "registry \<Rightarrow> bool" where
  "reg_inv g \<longleftrightarrow> reg_keys_inv g \<and> reg_linked g \<and> reg_dedup_inv g"

lemmas reg_inv_defs = reg_inv_def reg_keys_inv_def reg_dedup_inv_def

lemma reg_linked_cases:
  assumes "reg_inv g"
  obtains "map_of (reg_orders g) oid = None" "map_of (reg_fsms g) oid = None"
  | r f where "map_of (reg_orders g) oid = Some r" "map_of (reg_fsms g) oid = Some f"
      "o_order_id r = oid" "o_state r = fsm_state f"
proof -
  have "reg_linked_at g oid" using assms by (simp add: reg_inv_def reg_linked_def)
  then show thesis
    using that by (auto simp: reg_linked_at_def rel_option_iff split: option.splits)
qed

text \<open>A step that touches one id only has to re-establish the link there.\<close>

lemma reg_inv_local:
  assumes "reg_inv g" and "reg_keys_inv g'" and "reg_dedup_inv g'" and "reg_linked_at g' oid"
    and "\<And>j. j \<noteq> oid \<Longrightarrow> map_of (reg_orders g') j = map_of (reg_orders g) j"
    and "\<And>j. j \<noteq> oid \<Longrightarrow> map_of (reg_fsms g') j = map_of (reg_fsms g) j"
  shows "reg_inv g'"
proof -
  have "reg_linked_at g' j" for j
    using assms by (cases "j = oid") (auto simp: reg_inv_def reg_linked_def reg_linked_at_def)
  with assms show ?thesis by (simp add: reg_inv_def reg_linked_def)
qed

subsection \<open>Storage lemmas\<close>

lemma map_of_al_emplace [simp]:
  "map_of (al_emplace k v xs) j =
     (if j = k then Some (case map_of xs k of None \<Rightarrow> v | Some w \<Rightarrow> w) else map_of xs j)"
  by (auto simp: al_emplace_def al_contains_def map_add_def split: option.splits)

lemma al_wf_emplace [simp, inv_intros]: "al_wf xs \<Longrightarrow> al_wf (al_emplace k v xs)"
  by (auto simp: al_emplace_def al_wf_def al_contains_def map_of_eq_None_iff)

lemma set_order_state_fields [simp]:
  "reg_fsms (set_order_state c oid s g) = reg_fsms g"
  "reg_exchange_id_index (set_order_state c oid s g) = reg_exchange_id_index g"
  "reg_recent_intents (set_order_state c oid s g) = reg_recent_intents g"
  "reg_seen_trade_ids (set_order_state c oid s g) = reg_seen_trade_ids g"
  "reg_seen_trade_id_fifo (set_order_state c oid s g) = reg_seen_trade_id_fifo g"
  "reg_fill_applied (set_order_state c oid s g) = reg_fill_applied g"
  by (simp_all add: set_order_state_def split: option.splits)

lemma map_of_set_order_state [simp]:
  "map_of (reg_orders (set_order_state c oid s g)) j =
     (if j = oid then map_option (\<lambda>r. r\<lparr>o_state := s, o_last_updated := now c\<rparr>) (map_of (reg_orders g) oid)
      else map_of (reg_orders g) j)"
  by (auto simp: set_order_state_def split: option.splits)

lemma al_wf_set_order_state [simp]:
  "al_wf (reg_orders g) \<Longrightarrow> al_wf (reg_orders (set_order_state c oid s g))"
  by (auto simp: set_order_state_def split: option.splits)

subsection \<open>Preservation\<close>

lemma reg_inv_init [simp, inv_intros]: "reg_inv (registry_init w)"
  by (simp add: reg_inv_defs reg_linked_def reg_linked_at_def registry_init_def)

lemma reg_inv_register [inv_intros]:
  assumes "reg_inv g" and "get_order (o_order_id r) g = None \<Longrightarrow> o_state r = New"
  shows "reg_inv (register_order c r g)"
proof (rule reg_inv_local [OF assms(1), where oid = "o_order_id r"])
  show "reg_keys_inv (register_order c r g)" and "reg_dedup_inv (register_order c r g)"
    using assms(1) by (simp_all add: reg_inv_defs register_order_def Let_def)
  show "reg_linked_at (register_order c r g) (o_order_id r)"
    by (rule reg_linked_cases [OF assms(1), of "o_order_id r"])
      (use assms(2) in \<open>simp_all add: reg_linked_at_def register_order_def Let_def get_order_def
        fsm_init_def\<close>)
qed (simp_all add: register_order_def Let_def)

lemma reg_inv_transition [inv_intros]:
  assumes "reg_inv g"
  shows "reg_inv (snd (reg_transition c oid s reason g))"
proof (rule reg_inv_local [OF assms, where oid = oid])
  show "reg_keys_inv (snd (reg_transition c oid s reason g))"
    and "reg_dedup_inv (snd (reg_transition c oid s reason g))"
    using assms
    by (auto simp: reg_inv_defs reg_transition_def fsm_transition_def Let_def split: option.splits)
  show "reg_linked_at (snd (reg_transition c oid s reason g)) oid"
    by (rule reg_linked_cases [OF assms, of oid])
      (auto simp: reg_linked_at_def reg_transition_def fsm_transition_def Let_def)
qed (auto simp: reg_transition_def fsm_transition_def Let_def split: option.splits)

lemma reg_inv_force [inv_intros]:
  assumes "reg_inv g"
  shows "reg_inv (reg_force_transition c oid s reason g)"
proof (rule reg_inv_local [OF assms, where oid = oid])
  show "reg_keys_inv (reg_force_transition c oid s reason g)"
    and "reg_dedup_inv (reg_force_transition c oid s reason g)"
    using assms by (auto simp: reg_inv_defs reg_force_transition_def Let_def split: option.splits)
  show "reg_linked_at (reg_force_transition c oid s reason g) oid"
    by (rule reg_linked_cases [OF assms, of oid])
      (auto simp: reg_linked_at_def reg_force_transition_def Let_def)
qed (auto simp: reg_force_transition_def Let_def split: option.splits)

lemma reg_inv_update [inv_intros]:
  assumes "reg_inv g" and "reg_fsm_state (o_order_id r) g = Some (o_state r)"
  shows "reg_inv (update_order r g)"
proof (rule reg_inv_local [OF assms(1), where oid = "o_order_id r"])
  show "reg_keys_inv (update_order r g)" and "reg_dedup_inv (update_order r g)"
    using assms(1) by (simp_all add: reg_inv_defs update_order_def Let_def)
  show "reg_linked_at (update_order r g) (o_order_id r)"
    by (rule reg_linked_cases [OF assms(1), of "o_order_id r"])
      (use assms(2) in \<open>auto simp: reg_linked_at_def update_order_def Let_def reg_fsm_state_def
        al_contains_def\<close>)
qed (auto simp: update_order_def Let_def)

lemma reg_inv_frame:
  assumes "reg_inv g" and "reg_orders g' = reg_orders g" and "reg_fsms g' = reg_fsms g"
    and "reg_exchange_id_index g' = reg_exchange_id_index g"
    and "al_wf (reg_recent_intents g')" and "reg_dedup_inv g'"
  shows "reg_inv g'"
  using assms by (simp add: reg_inv_def reg_keys_inv_def reg_linked_def reg_linked_at_def)

lemma reg_inv_mark_fill [inv_intros]: "reg_inv g \<Longrightarrow> reg_inv (mark_fill_applied oid g)"
  by (frule reg_inv_frame [of g "mark_fill_applied oid g"])
    (simp_all add: reg_inv_defs mark_fill_applied_def)

lemma reg_inv_record_intent [inv_intros]: "reg_inv g \<Longrightarrow> reg_inv (record_intent c k g)"
  by (frule reg_inv_frame [of g "record_intent c k g"])
    (simp_all add: reg_inv_defs record_intent_def)

lemma reg_inv_cleanup_intents [inv_intros]: "reg_inv g \<Longrightarrow> reg_inv (cleanup_old_intents c g)"
  by (frule reg_inv_frame [of g "cleanup_old_intents c g"])
    (simp_all add: reg_inv_defs cleanup_old_intents_def Let_def)

subsection \<open>Trade ids\<close>

lemma evict_seen_short: "length fifo \<le> mx \<Longrightarrow> evict_seen mx seen fifo = (seen, fifo)"
  by (cases fifo) auto

lemma evict_seen_eq: "evict_seen mx seen fifo =
    (seen - set (take (length fifo - mx) fifo), keep_last mx fifo)"
proof (induction fifo arbitrary: seen)
  case (Cons x xs)
  show ?case
  proof (cases "mx < length (x # xs)")
    case True
    then have k: "length (x # xs) - mx = Suc (length xs - mx)" by simp
    then have "set (take (length (x # xs) - mx) (x # xs)) = insert x (set (take (length xs - mx) xs))"
      "keep_last mx (x # xs) = keep_last mx xs"
      by (simp_all only: keep_last_def k take_Suc_Cons drop_Suc_Cons list.set)
    moreover have "evict_seen mx seen (x # xs) = evict_seen mx (seen - {x}) xs" using True by simp
    ultimately show ?thesis using Cons.IH [of "seen - {x}"] by auto
  next
    case False
    then show ?thesis by (simp add: keep_last_def)
  qed
qed (simp add: keep_last_def)

lemma evict_seen_inv:
  assumes "evict_seen mx seen fifo = (seen', fifo')" and "set fifo = seen" and "distinct fifo"
  shows "set fifo' = seen'" and "distinct fifo'" and "length fifo' \<le> mx"
proof -
  have e: "seen' = seen - set (take (length fifo - mx) fifo)" "fifo' = keep_last mx fifo"
    using assms(1) by (simp_all add: evict_seen_eq)
  have "set (take n fifo) \<inter> set (drop n fifo) = {}" for n
    using assms(3) by (rule set_take_disj_set_drop_if_distinct) simp
  moreover have "set fifo = set (take n fifo) \<union> set (drop n fifo)" for n
    by (metis append_take_drop_id set_append)
  ultimately show "set fifo' = seen'" using assms(2) by (auto simp: e keep_last_def)
  show "distinct fifo'" using assms(3) by (simp add: e)
  show "length fifo' \<le> mx" by (simp add: e)
qed

lemma check_and_mark_inv [inv_intros]:
  assumes "reg_inv g" and "check_and_mark_trade_id_seen t g = (b, g')"
  shows "reg_inv g'"
proof (cases "t \<in> reg_seen_trade_ids g")
  case True
  then show ?thesis using assms by (simp add: check_and_mark_trade_id_seen_def)
next
  case False
  obtain seen fifo where e: "evict_seen kMaxSeenTradeIds (insert t (reg_seen_trade_ids g))
      (reg_seen_trade_id_fifo g @ [t]) = (seen, fifo)" by force
  have "set fifo = seen" "distinct fifo" "length fifo \<le> kMaxSeenTradeIds"
    using evict_seen_inv [OF e] False assms(1) by (auto simp: reg_inv_defs)
  moreover have "g' = g\<lparr>reg_seen_trade_ids := seen, reg_seen_trade_id_fifo := fifo\<rparr>"
    using assms(2) False by (simp add: check_and_mark_trade_id_seen_def e)
  ultimately show ?thesis
    using assms(1) by (intro reg_inv_frame [OF assms(1)]) (simp_all add: reg_inv_defs)
qed

lemma check_and_mark_result: "fst (check_and_mark_trade_id_seen t g) \<longleftrightarrow> is_trade_id_seen t g"
  by (simp add: check_and_mark_trade_id_seen_def is_trade_id_seen_def split_beta)

lemma mark_trade_id_seen_eq: "mark_trade_id_seen t g = snd (check_and_mark_trade_id_seen t g)"
  by (simp add: check_and_mark_trade_id_seen_def mark_trade_id_seen_def split_beta)

lemma reg_inv_mark_trade [inv_intros]: "reg_inv g \<Longrightarrow> reg_inv (mark_trade_id_seen t g)"
  unfolding mark_trade_id_seen_eq by (rule check_and_mark_inv [OF _ prod.collapse [symmetric]])

lemma check_and_mark_frame [simp]:
  "reg_orders (snd (check_and_mark_trade_id_seen t g)) = reg_orders g"
  "reg_fsms (snd (check_and_mark_trade_id_seen t g)) = reg_fsms g"
  "reg_fill_applied (snd (check_and_mark_trade_id_seen t g)) = reg_fill_applied g"
  "reg_exchange_id_index (snd (check_and_mark_trade_id_seen t g)) = reg_exchange_id_index g"
  by (simp_all add: check_and_mark_trade_id_seen_def split_beta)

lemma check_and_mark_fifo:
  assumes "reg_inv g" and "\<not> is_trade_id_seen t g"
  shows "reg_seen_trade_id_fifo (snd (check_and_mark_trade_id_seen t g)) =
         keep_last kMaxSeenTradeIds (reg_seen_trade_id_fifo g @ [t])"
  using assms by (simp add: check_and_mark_trade_id_seen_def is_trade_id_seen_def evict_seen_eq)

lemma check_and_mark_seen:
  assumes "reg_inv g"
  shows "is_trade_id_seen t (snd (check_and_mark_trade_id_seen t g))"
proof (cases "is_trade_id_seen t g")
  case True
  then show ?thesis by (simp add: check_and_mark_trade_id_seen_def is_trade_id_seen_def)
next
  case False
  let ?g = "snd (check_and_mark_trade_id_seen t g)"
  have "reg_inv ?g" using assms by (rule check_and_mark_inv) (simp add: prod_eq_iff)
  moreover have "t \<in> set (keep_last kMaxSeenTradeIds (reg_seen_trade_id_fifo g @ [t]))"
    by (rule keep_last_snoc_member) (simp add: kMaxSeenTradeIds_def)
  ultimately show ?thesis
    using check_and_mark_fifo [OF assms False] by (auto simp: reg_inv_defs is_trade_id_seen_def)
qed

interpretation trade_dedup: dedup reg_inv is_trade_id_seen check_and_mark_trade_id_seen
proof unfold_locales
  fix s k
  assume s: "reg_inv s"
  show "fst (check_and_mark_trade_id_seen k s) \<longleftrightarrow> is_trade_id_seen k s"
    by (rule check_and_mark_result)
  show "is_trade_id_seen k (snd (check_and_mark_trade_id_seen k s))"
    using s by (rule check_and_mark_seen)
  show "reg_inv (snd (check_and_mark_trade_id_seen k s))"
    by (rule check_and_mark_inv [OF s prod.collapse [symmetric]])
  show "snd (check_and_mark_trade_id_seen k s) = s" if "is_trade_id_seen k s"
    using that by (simp add: check_and_mark_trade_id_seen_def is_trade_id_seen_def)
qed

subsection \<open>Cleanup\<close>

lemma erase_order_fields [simp]:
  "map_of (reg_orders (erase_order oid r g)) = (map_of (reg_orders g))(oid := None)"
  "map_of (reg_fsms (erase_order oid r g)) = (map_of (reg_fsms g))(oid := None)"
  "reg_fill_applied (erase_order oid r g) = reg_fill_applied g - {oid}"
  "reg_seen_trade_ids (erase_order oid r g) = reg_seen_trade_ids g"
  "reg_seen_trade_id_fifo (erase_order oid r g) = reg_seen_trade_id_fifo g"
  "reg_recent_intents (erase_order oid r g) = reg_recent_intents g"
  by (simp_all add: erase_order_def)

lemma erase_order_wf:
  "reg_keys_inv g \<Longrightarrow> reg_keys_inv (erase_order oid r g)"
  by (simp add: erase_order_def reg_keys_inv_def)

lemma cleanup_loop_orders:
  "al_wf rest \<Longrightarrow>
   map_of (reg_orders (fst (cleanup_loop c age rest g n))) oid =
     (case map_of rest oid of
        Some r \<Rightarrow> if stale_terminal c age r then None else map_of (reg_orders g) oid
      | None \<Rightarrow> map_of (reg_orders g) oid)"
  by (induction c age rest g n rule: cleanup_loop.induct)
    (auto simp: al_wf_def map_of_eq_None_iff [symmetric] split: option.splits)

lemma cleanup_loop_fsms:
  "al_wf rest \<Longrightarrow>
   map_of (reg_fsms (fst (cleanup_loop c age rest g n))) oid =
     (case map_of rest oid of
        Some r \<Rightarrow> if stale_terminal c age r then None else map_of (reg_fsms g) oid
      | None \<Rightarrow> map_of (reg_fsms g) oid)"
  by (induction c age rest g n rule: cleanup_loop.induct)
    (auto simp: al_wf_def map_of_eq_None_iff [symmetric] split: option.splits)

lemma cleanup_loop_frame [simp]:
  "reg_seen_trade_ids (fst (cleanup_loop c age rest g n)) = reg_seen_trade_ids g"
  "reg_seen_trade_id_fifo (fst (cleanup_loop c age rest g n)) = reg_seen_trade_id_fifo g"
  "reg_recent_intents (fst (cleanup_loop c age rest g n)) = reg_recent_intents g"
  by (induction c age rest g n rule: cleanup_loop.induct) simp_all

lemma cleanup_loop_wf: "reg_keys_inv g \<Longrightarrow> reg_keys_inv (fst (cleanup_loop c age rest g n))"
  by (induction c age rest g n rule: cleanup_loop.induct) (simp_all add: erase_order_wf)

lemma cleanup_loop_count:
  "snd (cleanup_loop c age rest g n) = n + length (filter (\<lambda>(_, r). stale_terminal c age r) rest)"
  by (induction c age rest g n rule: cleanup_loop.induct) simp_all

lemma reg_inv_cleanup [inv_intros]:
  assumes "reg_inv g"
  shows "reg_inv (fst (cleanup_terminal_orders c age g))"
proof -
  have wf: "al_wf (reg_orders g)" and k: "reg_keys_inv g"
    using assms by (auto simp: reg_inv_def reg_keys_inv_def)
  have "reg_linked_at (fst (cleanup_terminal_orders c age g)) oid" for oid
    by (rule reg_linked_cases [OF assms, of oid])
      (simp_all add: reg_linked_at_def cleanup_terminal_orders_def
        cleanup_loop_orders [OF wf] cleanup_loop_fsms [OF wf])
  then show ?thesis
    using assms cleanup_loop_wf [OF k]
    by (simp add: reg_inv_def reg_dedup_inv_def reg_linked_def cleanup_terminal_orders_def)
qed

section \<open>The registry as a state machine\<close>

text \<open>
  One constructor per method that changes the registry.  \<open>reg_op_ok\<close> is what a caller
  owes: a record registered under a fresh id starts in \<open>New\<close>, and a full replacement
  carries the state its automaton is in.
\<close>

datatype reg_op =
    OpRegister order_record
  | OpUpdate order_record
  | OpTransition order_id order_state string
  | OpForce order_id order_state string
  | OpMarkFill order_id
  | OpCheckTrade string
  | OpRecordIntent string
  | OpCleanupIntents
  | OpCleanupOrders int

fun reg_exec :: "clk \<Rightarrow> reg_op \<Rightarrow> registry \<Rightarrow> registry" where
  "reg_exec c (OpRegister r) g = register_order c r g"
| "reg_exec c (OpUpdate r) g = update_order r g"
| "reg_exec c (OpTransition oid s reason) g = snd (reg_transition c oid s reason g)"
| "reg_exec c (OpForce oid s reason) g = reg_force_transition c oid s reason g"
| "reg_exec c (OpMarkFill oid) g = mark_fill_applied oid g"
| "reg_exec c (OpCheckTrade t) g = snd (check_and_mark_trade_id_seen t g)"
| "reg_exec c (OpRecordIntent k) g = record_intent c k g"
| "reg_exec c OpCleanupIntents g = cleanup_old_intents c g"
| "reg_exec c (OpCleanupOrders age) g = fst (cleanup_terminal_orders c age g)"

fun reg_op_ok :: "reg_op \<Rightarrow> registry \<Rightarrow> bool" where
  "reg_op_ok (OpRegister r) g \<longleftrightarrow> get_order (o_order_id r) g = None \<longrightarrow> o_state r = New"
| "reg_op_ok (OpUpdate r) g \<longleftrightarrow> reg_fsm_state (o_order_id r) g = Some (o_state r)"
| "reg_op_ok _ g \<longleftrightarrow> True"

inductive reg_step :: "registry \<Rightarrow> registry \<Rightarrow> bool" where
  reg_stepI: "reg_op_ok oper g \<Longrightarrow> reg_step g (reg_exec c oper g)"

lemma reg_exec_inv: "reg_inv g \<Longrightarrow> reg_op_ok oper g \<Longrightarrow> reg_inv (reg_exec c oper g)"
  by (cases oper) (simp_all add: inv_intros trade_dedup.mark_inv)

definition reg_start :: "registry \<Rightarrow> bool" where
  "reg_start g \<longleftrightarrow> (\<exists>w. g = registry_init w)"

interpretation reg: inv_system reg_start reg_step reg_inv
  by unfold_locales (auto simp: reg_start_def elim!: reg_step.cases intro: reg_exec_inv)

subsection \<open>Terminal orders\<close>

definition op_spares :: "order_id \<Rightarrow> reg_op \<Rightarrow> bool" where
  "op_spares oid oper \<longleftrightarrow>
     (case oper of OpForce j _ _ \<Rightarrow> j \<noteq> oid | OpCleanupOrders _ \<Rightarrow> False | _ \<Rightarrow> True)"

lemma reg_exec_terminal_fsm:
  assumes "map_of (reg_fsms g) oid = Some f" and "fsm_is_terminal f" and "op_spares oid oper"
  shows "map_of (reg_fsms (reg_exec c oper g)) oid = Some f"
proof (cases oper)
  case (OpTransition j s reason)
  with assms show ?thesis
    by (auto simp: reg_transition_def split: option.splits prod.splits bool.splits)
next
  case (OpForce j s reason)
  with assms show ?thesis
    by (auto simp: reg_force_transition_def op_spares_def Let_def split: option.splits)
qed (use assms in \<open>auto simp: register_order_def update_order_def mark_fill_applied_def
    record_intent_def cleanup_old_intents_def op_spares_def Let_def\<close>)

fun reg_run :: "(clk \<times> reg_op) list \<Rightarrow> registry \<Rightarrow> registry" where
  "reg_run [] g = g"
| "reg_run ((c, oper) # ops) g = reg_run ops (reg_exec c oper g)"

lemma reg_run_terminal_fsm:
  "map_of (reg_fsms g) oid = Some f \<Longrightarrow> fsm_is_terminal f \<Longrightarrow>
   list_all (\<lambda>(_, oper). op_spares oid oper) ops \<Longrightarrow> map_of (reg_fsms (reg_run ops g)) oid = Some f"
  by (induction ops g rule: reg_run.induct) (auto simp: reg_exec_terminal_fsm)

subsection \<open>How long a trade id is remembered\<close>

fun mark_all :: "string list \<Rightarrow> registry \<Rightarrow> registry" where
  "mark_all [] g = g"
| "mark_all (t # ts) g = mark_all ts (snd (check_and_mark_trade_id_seen t g))"

lemma mark_keeps_recent:
  assumes "reg_inv g" and "reg_seen_trade_id_fifo g = pre @ t # post"
    and "Suc (length post) < kMaxSeenTradeIds"
  shows "\<exists>pre' post'. reg_seen_trade_id_fifo (snd (check_and_mark_trade_id_seen u g)) = pre' @ t # post'
           \<and> length post' \<le> Suc (length post)"
proof (cases "is_trade_id_seen u g")
  case True
  then have "snd (check_and_mark_trade_id_seen u g) = g" using assms(1) trade_dedup.mark_known by blast
  then show ?thesis using assms(2) by (metis le_SucI order_refl)
next
  case False
  let ?n = "length (pre @ t # post @ [u]) - kMaxSeenTradeIds"
  have f: "reg_seen_trade_id_fifo (snd (check_and_mark_trade_id_seen u g)) =
      drop ?n (pre @ t # post @ [u])"
    by (simp add: check_and_mark_fifo [OF assms(1) False] assms(2) keep_last_def)
  have "?n \<le> length pre" using assms(3) by simp
  then have "drop ?n (pre @ t # post @ [u]) = drop ?n pre @ t # (post @ [u])" by simp
  with f show ?thesis by (metis length_append_singleton order_refl)
qed

lemma mark_all_keeps_recent:
  "reg_inv g \<Longrightarrow> reg_seen_trade_id_fifo g = pre @ t # post \<Longrightarrow>
   length post + length ts < kMaxSeenTradeIds \<Longrightarrow> is_trade_id_seen t (mark_all ts g)"
proof (induction ts arbitrary: g pre post)
  case Nil
  then show ?case by (auto simp: reg_inv_defs is_trade_id_seen_def)
next
  case (Cons u ts)
  let ?g = "snd (check_and_mark_trade_id_seen u g)"
  obtain pre' post' where "reg_seen_trade_id_fifo ?g = pre' @ t # post'" "length post' \<le> Suc (length post)"
    using mark_keeps_recent [OF Cons.prems(1,2)] Cons.prems(3) by fastforce
  then show ?case
    using Cons.IH [of ?g pre' post'] Cons.prems trade_dedup.mark_inv [OF Cons.prems(1)] by simp
qed

subsection \<open>The exchange-id index\<close>

definition reg_index_complete :: "registry \<Rightarrow> bool" where
  "reg_index_complete g \<longleftrightarrow>
     (\<forall>oid r. map_of (reg_orders g) oid = Some r \<longrightarrow> o_exchange_order_id r \<noteq> [] \<longrightarrow>
        map_of (reg_exchange_id_index g) (o_exchange_order_id r) = Some oid)"

text \<open>The exchange never gives the same id to two orders.\<close>

definition exchange_id_free :: "order_record \<Rightarrow> registry \<Rightarrow> bool" where
  "exchange_id_free r g \<longleftrightarrow>
     (\<forall>oid r'. map_of (reg_orders g) oid = Some r' \<longrightarrow> oid \<noteq> o_order_id r \<longrightarrow>
        o_exchange_order_id r' \<noteq> o_exchange_order_id r \<or> o_exchange_order_id r = [])"

lemma index_complete_register [inv_intros]:
  "reg_index_complete g \<Longrightarrow> exchange_id_free r g \<Longrightarrow> reg_index_complete (register_order c r g)"
  by (auto simp: reg_index_complete_def exchange_id_free_def register_order_def Let_def
      split: option.splits if_splits)

lemma index_complete_update [inv_intros]:
  "reg_index_complete g \<Longrightarrow> exchange_id_free r g \<Longrightarrow> reg_index_complete (update_order r g)"
  by (auto simp: reg_index_complete_def exchange_id_free_def update_order_def Let_def
      split: if_splits)

lemma index_complete_transition [inv_intros]:
  "reg_index_complete g \<Longrightarrow> reg_index_complete (snd (reg_transition c oid s reason g))"
  by (auto simp: reg_index_complete_def reg_transition_def split: option.splits prod.splits bool.splits)

lemma index_complete_force [inv_intros]:
  "reg_index_complete g \<Longrightarrow> reg_index_complete (reg_force_transition c oid s reason g)"
  by (auto simp: reg_index_complete_def reg_force_transition_def Let_def split: option.splits)

lemma index_complete_erase:
  "reg_index_complete g \<Longrightarrow> map_of (reg_orders g) oid = Some r \<Longrightarrow> reg_index_complete (erase_order oid r g)"
  by (auto simp: reg_index_complete_def erase_order_def) (metis option.inject)+

lemma index_complete_cleanup_loop:
  "al_wf rest \<Longrightarrow> (\<forall>k r. map_of rest k = Some r \<longrightarrow> map_of (reg_orders g) k = Some r) \<Longrightarrow>
   reg_index_complete g \<Longrightarrow> reg_index_complete (fst (cleanup_loop c age rest g n))"
proof (induction c age rest g n rule: cleanup_loop.induct)
  case (2 c age oid r rest g n)
  have k: "al_wf rest" "map_of rest oid = None" using "2.prems"(1)
    by (auto simp: al_wf_def map_of_eq_None_iff)
  have r: "map_of (reg_orders g) oid = Some r" using "2.prems"(2) by simp
  have "reg_index_complete (erase_order oid r g)" using "2.prems"(3) r by (rule index_complete_erase)
  moreover have "\<forall>k v. map_of rest k = Some v \<longrightarrow> map_of (reg_orders g) k = Some v"
    using "2.prems"(2) k(2) by (metis fun_upd_other map_of_Cons_code(2) option.distinct(1))
  ultimately show ?case using "2.IH" k "2.prems"(3) by auto
qed simp

lemma index_complete_cleanup [inv_intros]:
  "reg_inv g \<Longrightarrow> reg_index_complete g \<Longrightarrow> reg_index_complete (fst (cleanup_terminal_orders c age g))"
  unfolding cleanup_terminal_orders_def
  by (rule index_complete_cleanup_loop) (simp_all add: reg_inv_defs)

section \<open>Properties\<close>

text \<open>
  C3. Whatever sequence of registry calls is made from an empty registry, as long as a newly registered order
  is in the state \<open>New\<close> and \<^verbatim>\<open>update_order\<close> is called with the state its automaton is in: a stored
  order record and its automaton exist together, under the record's own id, and are in the same state; no order,
  automaton or intent is stored twice; and the queue of trade ids lists the remembered set, each id once,
  and never exceeds its bound of 200000.
\<close>

theorem registry_consistent:
  assumes "reg_start g0" and "reg_step\<^sup>*\<^sup>* g0 g"
  shows "(get_order oid g = Some r \<longrightarrow>
            o_order_id r = oid \<and> reg_fsm_state oid g = Some (o_state r)) \<and>
         (get_order oid g = None \<longleftrightarrow> reg_fsm_state oid g = None) \<and>
         distinct (map fst (reg_orders g)) \<and> distinct (map fst (reg_fsms g)) \<and>
         distinct (map fst (reg_recent_intents g)) \<and>
         distinct (reg_seen_trade_id_fifo g) \<and> set (reg_seen_trade_id_fifo g) = reg_seen_trade_ids g \<and>
         length (reg_seen_trade_id_fifo g) \<le> 200000"
proof -
  have inv: "reg_inv g" by (rule reg.inv_reachable [OF assms])
  then have "distinct (map fst (reg_orders g)) \<and> distinct (map fst (reg_fsms g)) \<and>
      distinct (map fst (reg_recent_intents g)) \<and> distinct (reg_seen_trade_id_fifo g) \<and>
      set (reg_seen_trade_id_fifo g) = reg_seen_trade_ids g \<and> length (reg_seen_trade_id_fifo g) \<le> 200000"
    by (simp add: reg_inv_defs kMaxSeenTradeIds_def al_wf_def)
  then show ?thesis
    by (rule_tac reg_linked_cases [OF inv, of oid]) (auto simp: get_order_def reg_fsm_state_def)
qed

definition ex_order :: order_record where
  "ex_order = default_order\<lparr>o_order_id := ''TB1'', o_exchange_order_id := ''X9'',
     o_symbol := ''BTCUSDT'', o_original_quantity := Fin 4, o_remaining_quantity := Fin 4\<rparr>"

definition ex_clk :: clk where "ex_clk = \<lparr>now = 1000, wall = 1000, steady = 10\<rparr>"

definition ex_registry :: registry where
  "ex_registry = register_order ex_clk ex_order (registry_init 60000)"

lemmas ex_registry_simps = ex_registry_def ex_order_def ex_clk_def default_order_def
  default_execution_info_def register_order_def registry_init_def al_emplace_def al_contains_def
  fsm_init_def get_order_def reg_fsm_state_def Let_def

lemma ex_registry_reachable: "reg_start (registry_init 60000)" "reg_step\<^sup>*\<^sup>* (registry_init 60000) ex_registry"
proof -
  show "reg_start (registry_init 60000)" by (auto simp: reg_start_def)
  have "reg_step (registry_init 60000) (reg_exec ex_clk (OpRegister ex_order) (registry_init 60000))"
    by (rule reg_stepI) (simp add: ex_registry_simps)
  then show "reg_step\<^sup>*\<^sup>* (registry_init 60000) ex_registry" by (simp add: ex_registry_def)
qed

lemma ex_registry_inv: "reg_inv ex_registry"
  by (rule reg.inv_reachable [OF ex_registry_reachable])

theorem registry_consistent_witness:
  "reg_step\<^sup>*\<^sup>* (registry_init 60000) ex_registry \<and>
   get_order ''TB1'' ex_registry = Some ex_order \<and> reg_fsm_state ''TB1'' ex_registry = Some New"
proof -
  have o: "get_order ''TB1'' ex_registry = Some ex_order" by (simp add: ex_registry_simps)
  have "o_state ex_order = New" by (simp add: ex_registry_simps)
  with o registry_consistent [OF ex_registry_reachable, of "''TB1''" ex_order] ex_registry_reachable(2)
  show ?thesis by simp
qed

text \<open>
  An order whose automaton is in a terminal state (filled, cancelled, rejected,
  expired) keeps that automaton, state and history included, through any further
  sequence of registry calls that neither forces a transition on it nor sweeps out old
  terminal orders.
\<close>

theorem terminal_order_frozen:
  assumes "map_of (reg_fsms g) oid = Some f" and "fsm_is_terminal f"
    and "list_all (\<lambda>(_, oper). op_spares oid oper) ops"
  shows "map_of (reg_fsms (reg_run ops g)) oid = Some f"
  using assms by (rule reg_run_terminal_fsm)

theorem terminal_order_frozen_witness:
  "let g = reg_exec ex_clk (OpForce ''TB1'' Cancelled ''x'') ex_registry;
       ops = [(ex_clk, OpTransition ''TB1'' Filled ''late fill''), (ex_clk, OpMarkFill ''TB1'')]
   in map_of (reg_fsms (reg_run ops g)) ''TB1'' = map_of (reg_fsms g) ''TB1'' \<and>
      reg_fsm_state ''TB1'' g = Some Cancelled"
proof -
  let ?g = "reg_exec ex_clk (OpForce ''TB1'' Cancelled ''x'') ex_registry"
  let ?ops = "[(ex_clk, OpTransition ''TB1'' Filled ''late fill''), (ex_clk, OpMarkFill ''TB1'')]"
  have s: "reg_fsm_state ''TB1'' ?g = Some Cancelled"
    by (simp add: ex_registry_simps reg_force_transition_def set_order_state_def
        fsm_force_transition_def)
  then obtain f where f: "map_of (reg_fsms ?g) ''TB1'' = Some f" "fsm_state f = Cancelled"
    by (auto simp: reg_fsm_state_def)
  have t: "fsm_is_terminal f" using f(2) by (simp add: fsm_is_terminal_def terminal_state_def)
  have l: "list_all (\<lambda>(_, oper). op_spares ''TB1'' oper) ?ops" by (simp add: op_spares_def)
  show ?thesis using terminal_order_frozen [OF f(1) t l] f(1) s by (simp only: Let_def)
qed

text \<open>
  A trade id that was accepted is answered as a duplicate for at least the next
  199999 trade ids that are checked, whichever they are.
\<close>

theorem trade_id_remembered:
  assumes "reg_inv g" and "\<not> fst (check_and_mark_trade_id_seen t g)"
    and "length ts < kMaxSeenTradeIds"
  shows "fst (check_and_mark_trade_id_seen t
            (mark_all ts (snd (check_and_mark_trade_id_seen t g))))"
proof -
  let ?g = "snd (check_and_mark_trade_id_seen t g)"
  have new: "\<not> is_trade_id_seen t g" using assms(2) by (simp add: check_and_mark_result)
  let ?n = "length (reg_seen_trade_id_fifo g @ [t]) - kMaxSeenTradeIds"
  have "?n \<le> length (reg_seen_trade_id_fifo g)" by (simp add: kMaxSeenTradeIds_def)
  then have "reg_seen_trade_id_fifo ?g = drop ?n (reg_seen_trade_id_fifo g) @ t # []"
    by (simp add: check_and_mark_fifo [OF assms(1) new] keep_last_def)
  from mark_all_keeps_recent [OF trade_dedup.mark_inv [OF assms(1)] this] assms(3)
  show ?thesis by (simp add: check_and_mark_result)
qed

theorem trade_id_remembered_witness:
  "fst (check_and_mark_trade_id_seen ''t1''
     (mark_all [''t2'', ''t3''] (snd (check_and_mark_trade_id_seen ''t1'' ex_registry))))"
proof -
  have n: "\<not> fst (check_and_mark_trade_id_seen ''t1'' ex_registry)"
    by (simp add: check_and_mark_result is_trade_id_seen_def ex_registry_simps)
  show ?thesis
    by (rule trade_id_remembered [OF ex_registry_inv n]) (simp add: kMaxSeenTradeIds_def)
qed

text \<open>
  The sweep of old terminal orders removes exactly the records that are terminal and
  older than the limit, together with their automata; every other record and automaton
  is untouched, and the returned count is the number removed.
\<close>

theorem cleanup_exact:
  assumes "reg_inv g"
  shows "get_order oid (fst (cleanup_terminal_orders c age g)) =
           (case get_order oid g of
              Some r \<Rightarrow> if stale_terminal c age r then None else Some r
            | None \<Rightarrow> None) \<and>
         reg_fsm_state oid (fst (cleanup_terminal_orders c age g)) =
           (case get_order oid g of
              Some r \<Rightarrow> if stale_terminal c age r then None else reg_fsm_state oid g
            | None \<Rightarrow> None) \<and>
         snd (cleanup_terminal_orders c age g) =
           length (filter (\<lambda>(_, r). stale_terminal c age r) (reg_orders g))"
proof -
  have wf: "al_wf (reg_orders g)" using assms by (simp add: reg_inv_defs)
  show ?thesis
    by (rule reg_linked_cases [OF assms, of oid])
      (simp_all add: get_order_def reg_fsm_state_def cleanup_terminal_orders_def cleanup_loop_count
        cleanup_loop_orders [OF wf] cleanup_loop_fsms [OF wf])
qed

theorem cleanup_exact_witness:
  "let g = reg_exec ex_clk (OpForce ''TB1'' Filled ''x'') ex_registry;
       c = \<lparr>now = 10000, wall = 10000, steady = 10\<rparr>
   in get_order ''TB1'' (fst (cleanup_terminal_orders c 5000 g)) = None \<and>
      get_order ''TB1'' (fst (cleanup_terminal_orders c 9500 g)) \<noteq> None"
proof -
  let ?g = "reg_exec ex_clk (OpForce ''TB1'' Filled ''x'') ex_registry"
  have inv: "reg_inv ?g" using ex_registry_inv by (rule reg_exec_inv) simp
  obtain r where r: "get_order ''TB1'' ?g = Some r" "o_state r = Filled" "o_last_updated r = 1000"
    by (simp add: ex_registry_simps reg_force_transition_def set_order_state_def)
  show ?thesis
    using cleanup_exact [OF inv, of "''TB1''" _ 5000] cleanup_exact [OF inv, of "''TB1''" _ 9500] r
    by (simp add: stale_terminal_def order_is_terminal_def terminal_state_def)
qed

text \<open>
  If the index is complete and the exchange id is not used by another order, then
  after an order record is replaced (typically when the exchange id becomes known) the
  order is found under that exchange id, and the index is still complete for all orders.
\<close>

theorem exchange_id_lookup:
  assumes "reg_inv g" and "reg_index_complete g" and "exchange_id_free r g"
    and "get_order (o_order_id r) g = Some r0" and "o_exchange_order_id r \<noteq> []"
  shows "get_order_by_exchange_id (o_exchange_order_id r) (update_order r g) = Some r \<and>
         reg_index_complete (update_order r g)"
  using assms index_complete_update [OF assms(2,3)]
  by (simp add: get_order_by_exchange_id_def update_order_def Let_def get_order_def al_contains_def)

theorem exchange_id_lookup_witness:
  "get_order_by_exchange_id ''X10''
     (update_order (ex_order\<lparr>o_exchange_order_id := ''X10''\<rparr>) ex_registry) =
   Some (ex_order\<lparr>o_exchange_order_id := ''X10''\<rparr>)"
proof -
  let ?r = "ex_order\<lparr>o_exchange_order_id := ''X10''\<rparr>"
  have i: "reg_index_complete ex_registry"
    by (auto simp: reg_index_complete_def ex_registry_simps split: if_splits)
  have f: "exchange_id_free ?r ex_registry"
    by (auto simp: exchange_id_free_def ex_registry_simps split: if_splits)
  have o: "get_order (o_order_id ?r) ex_registry = Some ex_order" by (simp add: ex_registry_simps)
  have x: "o_exchange_order_id ?r \<noteq> []" by simp
  show ?thesis using exchange_id_lookup [OF ex_registry_inv i f o x] by simp
qed

end
