(* ===== verification/Portfolio.thy ===== *)
theory Portfolio
  imports Common_Types
begin

text \<open>
  \<^verbatim>\<open>InMemoryPortfolioEngine\<close> (\<^verbatim>\<open>src/src/portfolio/portfolio_engine.{hpp,cpp}\<close>,
  \<^verbatim>\<open>portfolio_types.hpp\<close>): hedge-mode positions, realised and unrealised profit, the
  cash ledger with reservations for pending orders, the peak equity and the bounded audit
  log.  Every public method holds the engine's mutex, so one call is one step; \<open>tnow\<close> is
  the clock reading of the call.  The free-text \<^verbatim>\<open>details\<close> of audit events, log lines
  and metrics are not modelled.
\<close>

section \<open>State\<close>

record position =
  pos_symbol :: symbol
  pos_side :: side
  pos_position_side :: position_side
  pos_size :: double
  pos_avg_entry_price :: double
  pos_current_price :: double
  pos_notional :: double
  pos_unrealized_pnl :: double
  pos_unrealized_pnl_pct :: double
  pos_accumulated_funding :: double
  pos_strategy_id :: strategy_id
  pos_opened_at :: timestamp
  pos_updated_at :: timestamp

record exposure_summary =
  ex_gross_exposure :: double
  ex_net_exposure :: double
  ex_long_exposure :: double
  ex_short_exposure :: double
  ex_exposure_pct :: double
  ex_open_positions_count :: nat

record pnl_summary =
  ps_realized_pnl_today :: double
  ps_unrealized_pnl :: double
  ps_total_pnl :: double
  ps_peak_equity :: double
  ps_current_drawdown_pct :: double
  ps_trades_today :: int
  ps_consecutive_losses :: int

record cash_ledger =
  cl_total_cash :: double
  cl_available_cash :: double
  cl_reserved_for_orders :: double
  cl_fees_accrued_today :: double
  cl_realized_pnl_gross :: double
  cl_realized_pnl_net :: double
  cl_pending_buy_notional :: double
  cl_pending_sell_notional :: double

record pending_order_info =
  pi_order_id :: order_id
  pi_symbol :: symbol
  pi_side :: side
  pi_quantity :: double
  pi_expected_price :: double
  pi_reserved_cash :: double
  pi_reserved_notional :: double
  pi_estimated_fee :: double
  pi_submitted_at :: timestamp
  pi_strategy_id :: strategy_id

datatype portfolio_event_type =
    PositionOpened | PositionClosed | PositionUpdated | PriceUpdated | CashReserved
  | CashReleased | FeeCharged | CapitalSynced | DailyReset | ReconciliationAdjustment

record portfolio_event =
  ev_type :: portfolio_event_type
  ev_symbol :: symbol
  ev_amount :: double
  ev_balance_after :: double
  ev_occurred_at :: timestamp
  ev_order_id :: order_id

record portfolio =
  pf_total_capital :: double
  pf_leverage :: double
  pf_peak_equity :: double
  pf_capital_synced_from_exchange :: bool
  pf_realized_pnl_today :: double
  pf_trades_today :: int
  pf_consecutive_losses :: int
  pf_positions :: "(string \<times> position) list"
  pf_cash :: cash_ledger
  pf_pending_orders :: "(string \<times> pending_order_info) list"
  pf_event_log :: "portfolio_event list"
  pf_fees_accrued_today :: double
  pf_realized_pnl_gross :: double

record portfolio_snapshot =
  sn_positions :: "position list"
  sn_exposure :: exposure_summary
  sn_pnl :: pnl_summary
  sn_total_capital :: double
  sn_available_capital :: double
  sn_computed_at :: timestamp
  sn_cash :: cash_ledger
  sn_pending_orders :: "pending_order_info list"
  sn_pending_buy_count :: nat
  sn_pending_sell_count :: nat
  sn_total_fees_today :: double
  sn_capital_utilization_pct :: double

definition kMaxEventLogSize :: nat where "kMaxEventLogSize = 10000"

definition kPercentScaler :: double where "kPercentScaler = lit 100"

definition size_epsilon :: double where "size_epsilon = lit (1 / 10 ^ 12)"

definition portfolio_init :: "double \<Rightarrow> portfolio" where
  "portfolio_init total_capital =
    \<lparr>pf_total_capital = total_capital, pf_leverage = 1, pf_peak_equity = total_capital,
     pf_capital_synced_from_exchange = False, pf_realized_pnl_today = 0, pf_trades_today = 0,
     pf_consecutive_losses = 0, pf_positions = [],
     pf_cash = \<lparr>cl_total_cash = total_capital, cl_available_cash = total_capital,
                cl_reserved_for_orders = 0, cl_fees_accrued_today = 0, cl_realized_pnl_gross = 0,
                cl_realized_pnl_net = 0, cl_pending_buy_notional = 0, cl_pending_sell_notional = 0\<rparr>,
     pf_pending_orders = [], pf_event_log = [], pf_fees_accrued_today = 0,
     pf_realized_pnl_gross = 0\<rparr>"

section \<open>Helpers\<close>

definition side_key :: "symbol \<Rightarrow> side \<Rightarrow> string" where
  "side_key s sd = s @ (if sd = Buy then '':long'' else '':short'')"

definition pos_key :: "symbol \<Rightarrow> position_side \<Rightarrow> string" where
  "pos_key s ps = s @ (if ps = Long then '':long'' else '':short'')"

definition side_to_position_side :: "side \<Rightarrow> position_side" where
  "side_to_position_side s = (if s = Buy then Long else Short)"

definition recalculate_position_pnl :: "position \<Rightarrow> position" where
  "recalculate_position_pnl pos =
    (let entry = pos_avg_entry_price pos; current = pos_current_price pos; size = pos_size pos in
     if entry \<le> 0 \<or> size \<le> 0 then pos\<lparr>pos_unrealized_pnl := 0, pos_unrealized_pnl_pct := 0\<rparr>
     else
       let price_pnl = (if pos_side pos = Buy then (current - entry) * size
                        else (entry - current) * size);
           upnl = price_pnl - pos_accumulated_funding pos;
           entry_notional = entry * size
       in pos\<lparr>pos_unrealized_pnl := upnl,
              pos_unrealized_pnl_pct := (if kMinValidPrice < entry_notional
                                         then (upnl / entry_notional) * kPercentScaler else 0),
              pos_notional := current * size\<rparr>)"

definition emit_event ::
  "timestamp \<Rightarrow> portfolio_event_type \<Rightarrow> symbol \<Rightarrow> double \<Rightarrow> double \<Rightarrow> order_id \<Rightarrow> portfolio \<Rightarrow> portfolio" where
  "emit_event tnow ty s amount balance_after oid p =
    (let ev = \<lparr>ev_type = ty, ev_symbol = s, ev_amount = amount, ev_balance_after = balance_after,
               ev_occurred_at = tnow, ev_order_id = oid\<rparr>
     in p\<lparr>pf_event_log := keep_last kMaxEventLogSize (pf_event_log p @ [ev])\<rparr>)"

definition current_equity :: "portfolio \<Rightarrow> double" where
  "current_equity p =
     fold (\<lambda>(_, q) e. e + pos_unrealized_pnl q) (pf_positions p)
       (pf_total_capital p + pf_realized_pnl_today p)"

definition total_unrealized :: "portfolio \<Rightarrow> double" where
  "total_unrealized p = fold (\<lambda>(_, q) e. e + pos_unrealized_pnl q) (pf_positions p) 0"

definition raise_peak :: "portfolio \<Rightarrow> portfolio" where
  "raise_peak p =
    (let e = current_equity p in if pf_peak_equity p < e then p\<lparr>pf_peak_equity := e\<rparr> else p)"

definition book_ledger_pnl :: "double \<Rightarrow> cash_ledger \<Rightarrow> cash_ledger" where
  "book_ledger_pnl pnl l =
    l\<lparr>cl_realized_pnl_net := cl_realized_pnl_net l + pnl,
      cl_realized_pnl_gross := cl_realized_pnl_gross l + pnl,
      cl_total_cash := cl_total_cash l + pnl,
      cl_available_cash := cl_available_cash l + pnl\<rparr>"

definition loss_streak :: "double \<Rightarrow> int \<Rightarrow> int" where
  "loss_streak pnl n = (if pnl < 0 then n + 1 else if 0 < pnl then 0 else n)"

section \<open>Positions\<close>

definition open_position :: "timestamp \<Rightarrow> position \<Rightarrow> portfolio \<Rightarrow> portfolio" where
  "open_position tnow pos p =
    (let key = side_key (pos_symbol pos) (pos_side pos);
         stored =
           (case map_of (pf_positions p) key of
              Some existing \<Rightarrow>
                if 0 < pos_size existing then
                  let old_size = pos_size existing; new_size = pos_size pos;
                      total_size = old_size + new_size;
                      existing =
                        (if 0 < total_size then
                           existing\<lparr>pos_avg_entry_price :=
                                (old_size * pos_avg_entry_price existing +
                                 new_size * pos_avg_entry_price pos) / total_size,
                              pos_size := total_size,
                              pos_notional := total_size * pos_current_price pos,
                              pos_current_price := pos_current_price pos,
                              pos_updated_at := tnow\<rparr>
                         else existing)
                  in recalculate_position_pnl existing
                else recalculate_position_pnl
                       (pos\<lparr>pos_position_side := side_to_position_side (pos_side pos),
                            pos_updated_at := tnow\<rparr>)
            | None \<Rightarrow> recalculate_position_pnl
                       (pos\<lparr>pos_position_side := side_to_position_side (pos_side pos),
                            pos_updated_at := tnow\<rparr>));
         p = p\<lparr>pf_positions := AList.update key stored (pf_positions p)\<rparr>
     in emit_event tnow PositionOpened (pos_symbol pos) (pos_notional pos)
          (cl_available_cash (pf_cash p)) [] p)"

definition reprice :: "timestamp \<Rightarrow> double \<Rightarrow> position \<Rightarrow> position" where
  "reprice tnow price pos =
    (let pos = (if pos_avg_entry_price pos \<le> 0 \<and> 0 < price
                then pos\<lparr>pos_avg_entry_price := price\<rparr> else pos)
     in recalculate_position_pnl
          (pos\<lparr>pos_current_price := price, pos_notional := pos_size pos * price,
               pos_updated_at := tnow\<rparr>))"

definition update_leg :: "(position \<Rightarrow> position) \<Rightarrow> string \<Rightarrow> portfolio \<Rightarrow> portfolio" where
  "update_leg f key p =
    (case map_of (pf_positions p) key of
       None \<Rightarrow> p
     | Some pos \<Rightarrow> p\<lparr>pf_positions := AList.update key (f pos) (pf_positions p)\<rparr>)"

definition update_price :: "timestamp \<Rightarrow> symbol \<Rightarrow> double \<Rightarrow> portfolio \<Rightarrow> portfolio" where
  "update_price tnow s price p =
    (if \<not> al_contains (pf_positions p) (pos_key s Long) \<and>
        \<not> al_contains (pf_positions p) (pos_key s Short) then p
     else raise_peak (update_leg (reprice tnow price) (pos_key s Short)
                       (update_leg (reprice tnow price) (pos_key s Long) p)))"

definition fund_leg :: "timestamp \<Rightarrow> symbol \<Rightarrow> string \<Rightarrow> double \<Rightarrow> portfolio \<Rightarrow> portfolio" where
  "fund_leg tnow s key amount p =
    (case map_of (pf_positions p) key of
       None \<Rightarrow> p
     | Some pos \<Rightarrow>
         if pos_size pos \<le> size_epsilon then p
         else
           let pos = recalculate_position_pnl
                       (pos\<lparr>pos_accumulated_funding := pos_accumulated_funding pos + amount\<rparr>);
               p = p\<lparr>pf_positions := AList.update key pos (pf_positions p),
                     pf_realized_pnl_today := pf_realized_pnl_today p - amount\<rparr>
           in emit_event tnow PositionUpdated s amount (cl_available_cash (pf_cash p)) [] p)"

definition record_funding_payment :: "timestamp \<Rightarrow> symbol \<Rightarrow> double \<Rightarrow> portfolio \<Rightarrow> portfolio" where
  "record_funding_payment tnow s funding_amount p =
     fund_leg tnow s (pos_key s Short) (- funding_amount)
       (fund_leg tnow s (pos_key s Long) funding_amount p)"

definition close_at :: "timestamp \<Rightarrow> symbol \<Rightarrow> string \<Rightarrow> double \<Rightarrow> portfolio \<Rightarrow> portfolio" where
  "close_at tnow s key realized_pnl p =
    (let p = p\<lparr>pf_realized_pnl_today := pf_realized_pnl_today p + realized_pnl,
               pf_realized_pnl_gross := pf_realized_pnl_gross p + realized_pnl,
               pf_trades_today := pf_trades_today p + 1,
               pf_cash := book_ledger_pnl realized_pnl (pf_cash p),
               pf_consecutive_losses := loss_streak realized_pnl (pf_consecutive_losses p),
               pf_positions := AList.delete key (pf_positions p)\<rparr>;
         p = raise_peak p
     in emit_event tnow PositionClosed s realized_pnl (cl_available_cash (pf_cash p)) [] p)"

definition find_leg :: "symbol \<Rightarrow> portfolio \<Rightarrow> string option" where
  "find_leg s p =
    (if al_contains (pf_positions p) (pos_key s Long) then Some (pos_key s Long)
     else if al_contains (pf_positions p) (pos_key s Short) then Some (pos_key s Short)
     else None)"

definition close_position :: "timestamp \<Rightarrow> symbol \<Rightarrow> double \<Rightarrow> double \<Rightarrow> portfolio \<Rightarrow> portfolio" where
  "close_position tnow s close_price realized_pnl p =
    (if al_contains (pf_positions p) (pos_key s Long) \<and>
        al_contains (pf_positions p) (pos_key s Short) then p
     else case find_leg s p of
            None \<Rightarrow> p
          | Some key \<Rightarrow> close_at tnow s key realized_pnl p)"

definition close_position_leg ::
  "timestamp \<Rightarrow> symbol \<Rightarrow> position_side \<Rightarrow> double \<Rightarrow> double \<Rightarrow> portfolio \<Rightarrow> portfolio" where
  "close_position_leg tnow s ps close_price realized_pnl p =
    (if al_contains (pf_positions p) (pos_key s ps)
     then close_at tnow s (pos_key s ps) realized_pnl p else p)"

definition reduce_at ::
  "timestamp \<Rightarrow> symbol \<Rightarrow> string \<Rightarrow> position \<Rightarrow> double \<Rightarrow> double \<Rightarrow> double \<Rightarrow> portfolio \<Rightarrow> double \<times> portfolio" where
  "reduce_at tnow s key pos sold_qty close_price realized_pnl p =
    (let old_size = pos_size pos;
         reduce_qty = std_min sold_qty old_size;
         new_size = old_size - reduce_qty;
         p = p\<lparr>pf_realized_pnl_today := pf_realized_pnl_today p + realized_pnl,
               pf_realized_pnl_gross := pf_realized_pnl_gross p + realized_pnl,
               pf_cash := book_ledger_pnl realized_pnl (pf_cash p)\<rparr>;
         p = (if new_size \<le> size_epsilon then
                p\<lparr>pf_trades_today := pf_trades_today p + 1,
                  pf_consecutive_losses := loss_streak realized_pnl (pf_consecutive_losses p),
                  pf_positions := AList.delete key (pf_positions p)\<rparr>
              else
                p\<lparr>pf_positions := AList.update key
                    (recalculate_position_pnl
                       (pos\<lparr>pos_size := new_size, pos_current_price := close_price,
                            pos_notional := new_size * close_price, pos_updated_at := tnow\<rparr>))
                    (pf_positions p)\<rparr>);
         p = raise_peak p
     in (new_size,
         emit_event tnow (if new_size \<le> size_epsilon then PositionClosed else PositionUpdated)
           s realized_pnl (cl_available_cash (pf_cash p)) [] p))"

definition reduce_position ::
  "timestamp \<Rightarrow> symbol \<Rightarrow> double \<Rightarrow> double \<Rightarrow> double \<Rightarrow> portfolio \<Rightarrow> double \<times> portfolio" where
  "reduce_position tnow s sold_qty close_price realized_pnl p =
    (case find_leg s p of
       None \<Rightarrow> (0, p)
     | Some key \<Rightarrow>
         (case map_of (pf_positions p) key of
            None \<Rightarrow> (0, p)
          | Some pos \<Rightarrow> reduce_at tnow s key pos sold_qty close_price realized_pnl p))"

definition reduce_position_leg ::
  "timestamp \<Rightarrow> symbol \<Rightarrow> position_side \<Rightarrow> double \<Rightarrow> double \<Rightarrow> double \<Rightarrow> portfolio \<Rightarrow> double \<times> portfolio" where
  "reduce_position_leg tnow s ps sold_qty close_price realized_pnl p =
    (case map_of (pf_positions p) (pos_key s ps) of
       None \<Rightarrow> (0, p)
     | Some pos \<Rightarrow> reduce_at tnow s (pos_key s ps) pos sold_qty close_price realized_pnl p)"

definition add_realized_pnl :: "double \<Rightarrow> portfolio \<Rightarrow> portfolio" where
  "add_realized_pnl amount p =
     p\<lparr>pf_realized_pnl_today := pf_realized_pnl_today p + amount,
       pf_cash := book_ledger_pnl amount (pf_cash p)\<rparr>"

definition get_position :: "symbol \<Rightarrow> portfolio \<Rightarrow> position option" where
  "get_position s p =
    (case map_of (pf_positions p) (pos_key s Long) of
       Some q \<Rightarrow> Some q
     | None \<Rightarrow> map_of (pf_positions p) (pos_key s Short))"

definition get_position_leg :: "symbol \<Rightarrow> position_side \<Rightarrow> portfolio \<Rightarrow> position option" where
  "get_position_leg s ps p = map_of (pf_positions p) (pos_key s ps)"

definition has_position :: "symbol \<Rightarrow> portfolio \<Rightarrow> bool" where
  "has_position s p \<longleftrightarrow>
     al_contains (pf_positions p) (pos_key s Long) \<or> al_contains (pf_positions p) (pos_key s Short)"

definition sync_position_from_exchange ::
  "timestamp \<Rightarrow> symbol \<Rightarrow> position_side \<Rightarrow> double \<Rightarrow> double \<Rightarrow> double \<Rightarrow> double \<Rightarrow> timestamp \<Rightarrow>
   portfolio \<Rightarrow> portfolio" where
  "sync_position_from_exchange tnow s ps qty avg_entry_price current_price unrealized_pnl opened_at p =
    (let key = pos_key s ps;
         stored =
           (case map_of (pf_positions p) key of
              Some pos \<Rightarrow>
                recalculate_position_pnl
                  (pos\<lparr>pos_size := qty, pos_avg_entry_price := avg_entry_price,
                       pos_current_price := current_price, pos_notional := current_price * qty,
                       pos_unrealized_pnl := unrealized_pnl, pos_opened_at := opened_at,
                       pos_updated_at := tnow\<rparr>)
            | None \<Rightarrow>
                \<lparr>pos_symbol = s, pos_side = (if ps = Long then Buy else Sell),
                 pos_position_side = ps, pos_size = qty, pos_avg_entry_price = avg_entry_price,
                 pos_current_price = current_price, pos_notional = current_price * qty,
                 pos_unrealized_pnl = unrealized_pnl, pos_unrealized_pnl_pct = 0,
                 pos_accumulated_funding = 0, pos_strategy_id = ''sync_from_exchange'',
                 pos_opened_at = opened_at, pos_updated_at = tnow\<rparr>);
         p = p\<lparr>pf_positions := AList.update key stored (pf_positions p)\<rparr>
     in emit_event tnow ReconciliationAdjustment s qty (cl_available_cash (pf_cash p)) [] p)"

section \<open>Summaries\<close>

definition compute_exposure :: "portfolio \<Rightarrow> exposure_summary" where
  "compute_exposure p =
    (let (long_e, short_e) =
           fold (\<lambda>(_, q) (l, sh). if pos_side q = Buy then (l + pos_notional q, sh)
                                  else (l, sh + pos_notional q)) (pf_positions p) (0, 0);
         gross = long_e + short_e;
         margin_exposure = gross / pf_leverage p
     in \<lparr>ex_gross_exposure = gross, ex_net_exposure = long_e - short_e,
         ex_long_exposure = long_e, ex_short_exposure = short_e,
         ex_exposure_pct = (if kMinValidPrice < pf_total_capital p
                            then (margin_exposure / pf_total_capital p) * kPercentScaler else 0),
         ex_open_positions_count = length (pf_positions p)\<rparr>)"

definition compute_pnl :: "portfolio \<Rightarrow> pnl_summary" where
  "compute_pnl p =
    (let upnl = total_unrealized p;
         total = pf_realized_pnl_today p + upnl;
         equity = pf_total_capital p + total
     in \<lparr>ps_realized_pnl_today = pf_realized_pnl_today p, ps_unrealized_pnl = upnl,
         ps_total_pnl = total, ps_peak_equity = pf_peak_equity p,
         ps_current_drawdown_pct =
           (if kMinValidPrice < pf_peak_equity p
            then std_max (((pf_peak_equity p - equity) / pf_peak_equity p) * kPercentScaler) 0
            else 0),
         ps_trades_today = pf_trades_today p,
         ps_consecutive_losses = pf_consecutive_losses p\<rparr>)"

definition pending_notionals :: "portfolio \<Rightarrow> double \<times> double" where
  "pending_notionals p =
     fold (\<lambda>(_, i) (b, sl). if pi_side i = Buy then (b + pi_reserved_notional i, sl)
                            else (b, sl + pi_reserved_notional i)) (pf_pending_orders p) (0, 0)"

definition pf_cash_ledger :: "portfolio \<Rightarrow> cash_ledger" where
  "pf_cash_ledger p =
    (let (b, sl) = pending_notionals p
     in (pf_cash p)\<lparr>cl_pending_buy_notional := b, cl_pending_sell_notional := sl\<rparr>)"

definition snapshot :: "timestamp \<Rightarrow> portfolio \<Rightarrow> portfolio_snapshot" where
  "snapshot tnow p =
    (let expo = compute_exposure p;
         margin_used = ex_gross_exposure expo / pf_leverage p
     in \<lparr>sn_positions = map snd (pf_positions p), sn_exposure = expo, sn_pnl = compute_pnl p,
         sn_total_capital = pf_total_capital p,
         sn_available_capital = cl_available_cash (pf_cash p),
         sn_computed_at = tnow, sn_cash = pf_cash_ledger p,
         sn_pending_orders = map snd (pf_pending_orders p),
         sn_pending_buy_count = length (filter (\<lambda>(_, i). pi_side i = Buy) (pf_pending_orders p)),
         sn_pending_sell_count = length (filter (\<lambda>(_, i). pi_side i \<noteq> Buy) (pf_pending_orders p)),
         sn_total_fees_today = pf_fees_accrued_today p,
         sn_capital_utilization_pct =
           (if kMinValidPrice < pf_total_capital p
            then ((margin_used + cl_reserved_for_orders (pf_cash p)) / pf_total_capital p) *
                 kPercentScaler
            else 0)\<rparr>)"

section \<open>Capital\<close>

definition rebase_capital :: "double \<Rightarrow> portfolio \<Rightarrow> portfolio" where
  "rebase_capital base p =
     p\<lparr>pf_total_capital := base,
       pf_cash := (pf_cash p)\<lparr>cl_total_cash := base,
                    cl_available_cash := base - cl_reserved_for_orders (pf_cash p)\<rparr>\<rparr>"

definition reset_daily :: "timestamp \<Rightarrow> portfolio \<Rightarrow> portfolio" where
  "reset_daily tnow p =
    (let upnl = total_unrealized p;
         equity = pf_total_capital p + pf_realized_pnl_today p + upnl;
         p = p\<lparr>pf_realized_pnl_today := 0, pf_trades_today := 0, pf_consecutive_losses := 0,
               pf_fees_accrued_today := 0, pf_realized_pnl_gross := 0,
               pf_cash := (pf_cash p)\<lparr>cl_fees_accrued_today := 0, cl_realized_pnl_gross := 0,
                                       cl_realized_pnl_net := 0\<rparr>,
               pf_peak_equity := equity\<rparr>;
         p = rebase_capital (equity - upnl) p
     in emit_event tnow DailyReset [] 0 (cl_available_cash (pf_cash p)) [] p)"

definition set_capital :: "timestamp \<Rightarrow> double \<Rightarrow> portfolio \<Rightarrow> portfolio" where
  "set_capital tnow equity_from_exchange p =
    (let upnl = total_unrealized p;
         base = equity_from_exchange - pf_realized_pnl_today p - upnl;
         p = (if \<not> pf_capital_synced_from_exchange p then
                p\<lparr>pf_peak_equity := equity_from_exchange, pf_capital_synced_from_exchange := True\<rparr>
              else if pf_peak_equity p < equity_from_exchange then
                p\<lparr>pf_peak_equity := equity_from_exchange\<rparr>
              else p);
         p = rebase_capital base p
     in emit_event tnow CapitalSynced [] equity_from_exchange (cl_available_cash (pf_cash p)) [] p)"

definition set_leverage :: "double \<Rightarrow> portfolio \<Rightarrow> portfolio" where
  "set_leverage lev p = p\<lparr>pf_leverage := std_max 1 lev\<rparr>"

section \<open>Cash reservations and fees\<close>

definition reserve_cash ::
  "timestamp \<Rightarrow> order_id \<Rightarrow> symbol \<Rightarrow> side \<Rightarrow> double \<Rightarrow> double \<Rightarrow> strategy_id \<Rightarrow> portfolio \<Rightarrow>
   bool \<times> portfolio" where
  "reserve_cash tnow oid s sd notional estimated_fee strat p =
    (let total_required = notional + estimated_fee in
     if cl_available_cash (pf_cash p) < total_required then (False, p)
     else
       let info = \<lparr>pi_order_id = oid, pi_symbol = s, pi_side = sd, pi_quantity = 0,
                   pi_expected_price = 0, pi_reserved_cash = total_required,
                   pi_reserved_notional = notional, pi_estimated_fee = estimated_fee,
                   pi_submitted_at = tnow, pi_strategy_id = strat\<rparr>;
           p = p\<lparr>pf_pending_orders := AList.update oid info (pf_pending_orders p),
                 pf_cash := (pf_cash p)\<lparr>
                   cl_available_cash := cl_available_cash (pf_cash p) - total_required,
                   cl_reserved_for_orders := cl_reserved_for_orders (pf_cash p) + total_required\<rparr>\<rparr>
       in (True, emit_event tnow CashReserved s total_required (cl_available_cash (pf_cash p)) oid p))"

definition release_cash :: "timestamp \<Rightarrow> order_id \<Rightarrow> portfolio \<Rightarrow> portfolio" where
  "release_cash tnow oid p =
    (case map_of (pf_pending_orders p) oid of
       None \<Rightarrow> p
     | Some info \<Rightarrow>
         let reserved = pi_reserved_cash info;
             p = p\<lparr>pf_pending_orders := AList.delete oid (pf_pending_orders p),
                   pf_cash := (pf_cash p)\<lparr>
                     cl_available_cash := cl_available_cash (pf_cash p) + reserved,
                     cl_reserved_for_orders := cl_reserved_for_orders (pf_cash p) - reserved\<rparr>\<rparr>
         in emit_event tnow CashReleased (pi_symbol info) reserved (cl_available_cash (pf_cash p)) oid p)"

definition record_fee :: "timestamp \<Rightarrow> symbol \<Rightarrow> double \<Rightarrow> order_id \<Rightarrow> portfolio \<Rightarrow> portfolio" where
  "record_fee tnow s fee oid p =
    (let l = pf_cash p;
         p = p\<lparr>pf_fees_accrued_today := pf_fees_accrued_today p + fee,
               pf_cash := l\<lparr>cl_fees_accrued_today := cl_fees_accrued_today l + fee,
                            cl_available_cash := cl_available_cash l - fee,
                            cl_total_cash := cl_total_cash l - fee,
                            cl_realized_pnl_net := cl_realized_pnl_net l - fee\<rparr>\<rparr>
     in emit_event tnow FeeCharged s fee (cl_available_cash (pf_cash p)) oid p)"

definition recent_events :: "nat \<Rightarrow> portfolio \<Rightarrow> portfolio_event list" where
  "recent_events max_count p =
    (if length (pf_event_log p) \<le> max_count then pf_event_log p
     else drop (length (pf_event_log p) - max_count) (pf_event_log p))"

definition check_invariants :: "portfolio \<Rightarrow> bool" where
  "check_invariants p =
    (let tol = lit (1 / 100);
         l = pf_cash p;
         sum_reserved = fold (\<lambda>(_, i) acc. acc + pi_reserved_cash i) (pf_pending_orders p) 0;
         expected_total = cl_available_cash l + cl_reserved_for_orders l
     in \<not> (cl_available_cash l < - tol) \<and>
        \<not> (tol < \<bar>cl_reserved_for_orders l - sum_reserved\<bar>) \<and>
        \<not> (tol < \<bar>cl_total_cash l - expected_total\<bar>))"

end
