(* ===== verification/Portfolio_Laws.thy ===== *)
theory Portfolio_Laws
  imports Portfolio
begin

text \<open>
  What the portfolio engine guarantees: hedge legs are stored apart, closing never acts on
  an ambiguous leg, partial closes shrink a position without going below zero, the peak
  equity only rises, the audit log is bounded, the leverage divisor is at least one; and
  the cash ledger, on amounts that are multiples of \<open>2\<^sup>-\<^sup>2\<^sup>0\<close>, is an exact implementation
  of an integer ledger in which total cash is available plus reserved cash.
\<close>

section \<open>Keys, frames and the audit log\<close>

lemma side_key_eq: "side_key s sd = pos_key s (side_to_position_side sd)"
  by (cases sd) (simp_all add: side_key_def pos_key_def side_to_position_side_def)

lemma pos_key_inject [simp]: "pos_key s ps = pos_key s' ps' \<longleftrightarrow> s = s' \<and> ps = ps'"
proof -
  have short_long: "xs @ '':short'' \<noteq> ys @ '':long''" for xs ys :: string
  proof
    assume "xs @ '':short'' = ys @ '':long''"
    then have "last (xs @ '':short'') = last (ys @ '':long'')" by simp
    then show False by simp
  qed
  show ?thesis
    by (cases ps; cases ps') (auto simp: pos_key_def short_long dest: short_long [THEN notE] sym)
qed

lemma emit_event_fields [simp]:
  "pf_total_capital (emit_event t ty s a b oid p) = pf_total_capital p"
  "pf_leverage (emit_event t ty s a b oid p) = pf_leverage p"
  "pf_peak_equity (emit_event t ty s a b oid p) = pf_peak_equity p"
  "pf_capital_synced_from_exchange (emit_event t ty s a b oid p) = pf_capital_synced_from_exchange p"
  "pf_realized_pnl_today (emit_event t ty s a b oid p) = pf_realized_pnl_today p"
  "pf_trades_today (emit_event t ty s a b oid p) = pf_trades_today p"
  "pf_consecutive_losses (emit_event t ty s a b oid p) = pf_consecutive_losses p"
  "pf_positions (emit_event t ty s a b oid p) = pf_positions p"
  "pf_cash (emit_event t ty s a b oid p) = pf_cash p"
  "pf_pending_orders (emit_event t ty s a b oid p) = pf_pending_orders p"
  "pf_fees_accrued_today (emit_event t ty s a b oid p) = pf_fees_accrued_today p"
  "pf_realized_pnl_gross (emit_event t ty s a b oid p) = pf_realized_pnl_gross p"
  by (simp_all add: emit_event_def Let_def)

lemma raise_peak_fields [simp]:
  "pf_total_capital (raise_peak p) = pf_total_capital p"
  "pf_leverage (raise_peak p) = pf_leverage p"
  "pf_capital_synced_from_exchange (raise_peak p) = pf_capital_synced_from_exchange p"
  "pf_realized_pnl_today (raise_peak p) = pf_realized_pnl_today p"
  "pf_trades_today (raise_peak p) = pf_trades_today p"
  "pf_consecutive_losses (raise_peak p) = pf_consecutive_losses p"
  "pf_positions (raise_peak p) = pf_positions p"
  "pf_cash (raise_peak p) = pf_cash p"
  "pf_pending_orders (raise_peak p) = pf_pending_orders p"
  "pf_event_log (raise_peak p) = pf_event_log p"
  by (simp_all add: raise_peak_def Let_def)

lemma update_leg_fields [simp]:
  "pf_peak_equity (update_leg f key p) = pf_peak_equity p"
  "pf_cash (update_leg f key p) = pf_cash p"
  "pf_pending_orders (update_leg f key p) = pf_pending_orders p"
  "pf_event_log (update_leg f key p) = pf_event_log p"
  "pf_leverage (update_leg f key p) = pf_leverage p"
  by (simp_all add: update_leg_def split: option.splits)

lemma map_of_update_leg [simp]:
  "map_of (pf_positions (update_leg f key p)) j =
     (if j = key then map_option f (map_of (pf_positions p) key) else map_of (pf_positions p) j)"
  by (auto simp: update_leg_def split: option.splits)

lemma raise_peak_ge: "pf_peak_equity p \<noteq> NaN \<Longrightarrow> pf_peak_equity p \<le> pf_peak_equity (raise_peak p)"
  by (auto simp: raise_peak_def Let_def intro: double_less_imp_le)

lemma raise_peak_not_NaN: "pf_peak_equity p \<noteq> NaN \<Longrightarrow> pf_peak_equity (raise_peak p) \<noteq> NaN"
  by (auto simp: raise_peak_def Let_def)

section \<open>Portfolio operations as a state machine\<close>

datatype pf_op =
    PfOpen position
  | PfPrice symbol double
  | PfFunding symbol double
  | PfClose symbol double double
  | PfCloseLeg symbol position_side double double
  | PfReduce symbol double double double
  | PfReduceLeg symbol position_side double double double
  | PfAddPnl double
  | PfResetDaily
  | PfSetCapital double
  | PfSetLeverage double
  | PfReserve order_id symbol side double double strategy_id
  | PfRelease order_id
  | PfFee symbol double order_id
  | PfSync symbol position_side double double double double timestamp

fun pf_exec :: "timestamp \<Rightarrow> pf_op \<Rightarrow> portfolio \<Rightarrow> portfolio" where
  "pf_exec t (PfOpen pos) p = open_position t pos p"
| "pf_exec t (PfPrice s x) p = update_price t s x p"
| "pf_exec t (PfFunding s a) p = record_funding_payment t s a p"
| "pf_exec t (PfClose s x pnl) p = close_position t s x pnl p"
| "pf_exec t (PfCloseLeg s ps x pnl) p = close_position_leg t s ps x pnl p"
| "pf_exec t (PfReduce s q x pnl) p = snd (reduce_position t s q x pnl p)"
| "pf_exec t (PfReduceLeg s ps q x pnl) p = snd (reduce_position_leg t s ps q x pnl p)"
| "pf_exec t (PfAddPnl a) p = add_realized_pnl a p"
| "pf_exec t PfResetDaily p = reset_daily t p"
| "pf_exec t (PfSetCapital e) p = set_capital t e p"
| "pf_exec t (PfSetLeverage l) p = set_leverage l p"
| "pf_exec t (PfReserve oid s sd n f st) p = snd (reserve_cash t oid s sd n f st p)"
| "pf_exec t (PfRelease oid) p = release_cash t oid p"
| "pf_exec t (PfFee s f oid) p = record_fee t s f oid p"
| "pf_exec t (PfSync s ps q e x u since) p = sync_position_from_exchange t s ps q e x u since p"

lemmas pf_op_defs = open_position_def update_price_def record_funding_payment_def fund_leg_def
  close_position_def close_position_leg_def close_at_def reduce_position_def
  reduce_position_leg_def reduce_at_def add_realized_pnl_def reset_daily_def set_capital_def
  set_leverage_def reserve_cash_def release_cash_def record_fee_def
  sync_position_from_exchange_def rebase_capital_def

text \<open>
  The structural invariant: distinct keys in both maps, each leg stored under the key of
  its own symbol and side, a bounded audit log and a leverage of at least one.
\<close>

definition leg_ok :: "string \<Rightarrow> position \<Rightarrow> bool" where
  "leg_ok k q \<longleftrightarrow> k = pos_key (pos_symbol q) (pos_position_side q) \<and>
     pos_position_side q = side_to_position_side (pos_side q)"

definition pf_inv :: "portfolio \<Rightarrow> bool" where
  "pf_inv p \<longleftrightarrow>
     al_wf (pf_positions p) \<and> al_wf (pf_pending_orders p) \<and>
     (\<forall>k q. map_of (pf_positions p) k = Some q \<longrightarrow> leg_ok k q) \<and>
     length (pf_event_log p) \<le> kMaxEventLogSize \<and> 1 \<le> pf_leverage p"

lemma pf_inv_emit [simp]: "pf_inv p \<Longrightarrow> pf_inv (emit_event t ty s a b oid p)"
  by (auto simp: pf_inv_def) (simp add: emit_event_def Let_def)

lemma pf_inv_raise_peak [simp]: "pf_inv p \<Longrightarrow> pf_inv (raise_peak p)"
  by (simp add: pf_inv_def)

lemma pf_inv_positions:
  "pf_inv p \<Longrightarrow> leg_ok k q \<Longrightarrow> pf_inv (p\<lparr>pf_positions := AList.update k q (pf_positions p)\<rparr>)"
  "pf_inv p \<Longrightarrow> pf_inv (p\<lparr>pf_positions := AList.delete k (pf_positions p)\<rparr>)"
  by (auto simp: pf_inv_def)

lemma pf_inv_other [simp]:
  "pf_inv (p\<lparr>pf_cash := l\<rparr>) \<longleftrightarrow> pf_inv p"
  "pf_inv (p\<lparr>pf_realized_pnl_today := x\<rparr>) \<longleftrightarrow> pf_inv p"
  "pf_inv (p\<lparr>pf_realized_pnl_gross := x\<rparr>) \<longleftrightarrow> pf_inv p"
  "pf_inv (p\<lparr>pf_trades_today := n\<rparr>) \<longleftrightarrow> pf_inv p"
  "pf_inv (p\<lparr>pf_consecutive_losses := n\<rparr>) \<longleftrightarrow> pf_inv p"
  "pf_inv (p\<lparr>pf_peak_equity := x\<rparr>) \<longleftrightarrow> pf_inv p"
  "pf_inv (p\<lparr>pf_capital_synced_from_exchange := b\<rparr>) \<longleftrightarrow> pf_inv p"
  "pf_inv (p\<lparr>pf_total_capital := x\<rparr>) \<longleftrightarrow> pf_inv p"
  "pf_inv (p\<lparr>pf_fees_accrued_today := x\<rparr>) \<longleftrightarrow> pf_inv p"
  by (simp_all add: pf_inv_def)

lemma pf_inv_leg: "pf_inv p \<Longrightarrow> map_of (pf_positions p) k = Some q \<Longrightarrow> leg_ok k q"
  by (simp add: pf_inv_def)

lemma recalculate_fields [simp]:
  "pos_symbol (recalculate_position_pnl q) = pos_symbol q"
  "pos_side (recalculate_position_pnl q) = pos_side q"
  "pos_position_side (recalculate_position_pnl q) = pos_position_side q"
  "pos_size (recalculate_position_pnl q) = pos_size q"
  "pos_avg_entry_price (recalculate_position_pnl q) = pos_avg_entry_price q"
  "pos_current_price (recalculate_position_pnl q) = pos_current_price q"
  "pos_accumulated_funding (recalculate_position_pnl q) = pos_accumulated_funding q"
  "pos_strategy_id (recalculate_position_pnl q) = pos_strategy_id q"
  by (simp_all add: recalculate_position_pnl_def Let_def)

lemma leg_ok_recalculate [simp]: "leg_ok k (recalculate_position_pnl q) \<longleftrightarrow> leg_ok k q"
  by (simp add: leg_ok_def)

lemma leg_ok_reprice [simp]: "leg_ok k (reprice t x q) \<longleftrightarrow> leg_ok k q"
  by (simp add: reprice_def leg_ok_def Let_def)

lemma pf_inv_update_leg: "pf_inv p \<Longrightarrow> (\<And>q. leg_ok k q \<Longrightarrow> leg_ok k (f q)) \<Longrightarrow> pf_inv (update_leg f k p)"
  by (auto simp: update_leg_def intro!: pf_inv_positions dest: pf_inv_leg split: option.splits)

lemma leg_ok_other [simp]:
  "leg_ok k (q\<lparr>pos_size := x\<rparr>) \<longleftrightarrow> leg_ok k q"
  "leg_ok k (q\<lparr>pos_avg_entry_price := x\<rparr>) \<longleftrightarrow> leg_ok k q"
  "leg_ok k (q\<lparr>pos_current_price := x\<rparr>) \<longleftrightarrow> leg_ok k q"
  "leg_ok k (q\<lparr>pos_notional := x\<rparr>) \<longleftrightarrow> leg_ok k q"
  "leg_ok k (q\<lparr>pos_unrealized_pnl := x\<rparr>) \<longleftrightarrow> leg_ok k q"
  "leg_ok k (q\<lparr>pos_accumulated_funding := x\<rparr>) \<longleftrightarrow> leg_ok k q"
  "leg_ok k (q\<lparr>pos_opened_at := n\<rparr>) \<longleftrightarrow> leg_ok k q"
  "leg_ok k (q\<lparr>pos_updated_at := n\<rparr>) \<longleftrightarrow> leg_ok k q"
  by (simp_all add: leg_ok_def)

lemma leg_ok_stored:
  "leg_ok (side_key (pos_symbol q) (pos_side q))
     (q\<lparr>pos_position_side := side_to_position_side (pos_side q), pos_updated_at := n\<rparr>)"
  by (simp add: leg_ok_def side_key_eq)

lemma pf_inv_fund_leg: "pf_inv p \<Longrightarrow> pf_inv (fund_leg t s k a p)"
  using pf_inv_leg [of p k]
  by (auto simp: fund_leg_def Let_def pf_inv_positions split: option.splits)

lemma pf_inv_close_at: "pf_inv p \<Longrightarrow> pf_inv (close_at t s k pnl p)"
  by (simp add: close_at_def Let_def pf_inv_positions(2)
      [where p = "p\<lparr>pf_realized_pnl_today := _, pf_realized_pnl_gross := _, pf_trades_today := _,
         pf_cash := _, pf_consecutive_losses := _\<rparr>", simplified])

lemma pf_inv_reduce_at:
  assumes "pf_inv p" and "map_of (pf_positions p) k = Some q"
  shows "pf_inv (snd (reduce_at t s k q sold x pnl p))"
proof -
  let ?p = "p\<lparr>pf_realized_pnl_today := pf_realized_pnl_today p + pnl,
     pf_realized_pnl_gross := pf_realized_pnl_gross p + pnl,
     pf_cash := book_ledger_pnl pnl (pf_cash p)\<rparr>"
  have p: "pf_inv ?p" using assms(1) by simp
  have q: "leg_ok k q" using assms by (rule pf_inv_leg)
  show ?thesis
    using pf_inv_positions(1) [OF p, of k] pf_inv_positions(2) [of "?p\<lparr>pf_trades_today := _,
      pf_consecutive_losses := _\<rparr>" k] p q
    by (simp add: reduce_at_def Let_def)
qed

lemma pf_inv_exec [inv_intros]: "pf_inv p \<Longrightarrow> pf_inv (pf_exec t x p)"
proof (cases x)
  case (PfOpen pos)
  assume p: "pf_inv p"
  let ?k = "side_key (pos_symbol pos) (pos_side pos)"
  show ?thesis
    using p leg_ok_stored [of pos t] pf_inv_leg [OF p, of ?k]
    by (auto simp: PfOpen open_position_def Let_def intro!: pf_inv_emit pf_inv_positions split: option.splits)
next
  case (PfPrice s v)
  assume "pf_inv p"
  then show ?thesis by (auto simp: PfPrice update_price_def intro!: pf_inv_raise_peak pf_inv_update_leg)
next
  case (PfClose s v pnl)
  assume "pf_inv p"
  then show ?thesis by (auto simp: PfClose close_position_def pf_inv_close_at split: option.splits)
next
  case (PfReduce s q v pnl)
  assume "pf_inv p"
  then show ?thesis by (auto simp: PfReduce reduce_position_def pf_inv_reduce_at split: option.splits)
next
  case (PfReduceLeg s ps q v pnl)
  assume "pf_inv p"
  then show ?thesis
    by (auto simp: PfReduceLeg reduce_position_leg_def pf_inv_reduce_at split: option.splits)
next
  case (PfReserve oid s sd n f st)
  assume "pf_inv p"
  then show ?thesis by (auto simp: PfReserve reserve_cash_def Let_def pf_inv_def) (simp add: emit_event_def Let_def)
next
  case (PfRelease oid)
  assume "pf_inv p"
  then show ?thesis
    by (auto simp: PfRelease release_cash_def Let_def pf_inv_def split: option.splits)
      (simp add: emit_event_def Let_def)
next
  case (PfSync s ps q e v u since)
  assume p: "pf_inv p"
  then show ?thesis
    using pf_inv_leg [OF p, of "pos_key s ps"]
    by (cases ps)
      (auto simp: PfSync sync_position_from_exchange_def Let_def leg_ok_def side_to_position_side_def
        intro!: pf_inv_emit pf_inv_positions split: option.splits if_splits)
next
  case (PfSetLeverage l)
  assume "pf_inv p"
  then show ?thesis
    using std_max_ge_left [of 1 l] by (simp add: PfSetLeverage set_leverage_def pf_inv_def one_double_def)
qed (auto simp: record_funding_payment_def pf_inv_fund_leg close_position_leg_def pf_inv_close_at
    add_realized_pnl_def reset_daily_def set_capital_def rebase_capital_def record_fee_def Let_def)

definition pf_start :: "portfolio \<Rightarrow> bool" where
  "pf_start p \<longleftrightarrow> (\<exists>c. p = portfolio_init c)"

inductive pf_step :: "portfolio \<Rightarrow> portfolio \<Rightarrow> bool" where
  pf_stepI: "pf_step p (pf_exec t x p)"

interpretation pf: inv_system pf_start pf_step pf_inv
proof unfold_locales
  fix p assume "pf_start p"
  then show "pf_inv p" by (auto simp: pf_start_def pf_inv_def portfolio_init_def one_double_def)
qed (auto elim!: pf_step.cases intro: pf_inv_exec)

section \<open>The cash ledger against an integer ledger\<close>

record spec_ledger =
  sp_total :: int
  sp_available :: int
  sp_reserved :: int
  sp_pending :: "(string \<times> int) list"

datatype ledger_op =
    LReserve order_id symbol side int int strategy_id
  | LRelease order_id
  | LFee symbol int order_id
  | LPnl int

fun ledger_spec :: "timestamp \<times> ledger_op \<Rightarrow> spec_ledger \<Rightarrow> spec_ledger" where
  "ledger_spec (t, LReserve oid s sd n f st) l =
     (if sp_available l < n + f then l
      else l\<lparr>sp_available := sp_available l - (n + f), sp_reserved := sp_reserved l + (n + f),
             sp_pending := AList.update oid (n + f) (sp_pending l)\<rparr>)"
| "ledger_spec (t, LRelease oid) l =
     (case map_of (sp_pending l) oid of
        None \<Rightarrow> l
      | Some m \<Rightarrow> l\<lparr>sp_available := sp_available l + m, sp_reserved := sp_reserved l - m,
                   sp_pending := AList.delete oid (sp_pending l)\<rparr>)"
| "ledger_spec (t, LFee s f oid) l =
     l\<lparr>sp_available := sp_available l - f, sp_total := sp_total l - f\<rparr>"
| "ledger_spec (t, LPnl a) l =
     l\<lparr>sp_available := sp_available l + a, sp_total := sp_total l + a\<rparr>"

fun ledger_exec :: "timestamp \<times> ledger_op \<Rightarrow> portfolio \<Rightarrow> portfolio" where
  "ledger_exec (t, LReserve oid s sd n f st) p =
     snd (reserve_cash t oid s sd (units n) (units f) st p)"
| "ledger_exec (t, LRelease oid) p = release_cash t oid p"
| "ledger_exec (t, LFee s f oid) p = record_fee t s (units f) oid p"
| "ledger_exec (t, LPnl a) p = add_realized_pnl (units a) p"

text \<open>
  What a caller owes: order ids are not reused while pending, reservations are not
  negative, and the balances stay in the range in which \<^verbatim>\<open>double\<close> is exact.
\<close>

fun ledger_pre :: "timestamp \<times> ledger_op \<Rightarrow> spec_ledger \<Rightarrow> bool" where
  "ledger_pre (t, LReserve oid s sd n f st) l \<longleftrightarrow>
     0 \<le> n + f \<and> fits (n + f) \<and> map_of (sp_pending l) oid = None \<and>
     fits (sp_available l - (n + f)) \<and> fits (sp_reserved l + (n + f))"
| "ledger_pre (t, LRelease oid) l \<longleftrightarrow>
     (case map_of (sp_pending l) oid of
        None \<Rightarrow> True
      | Some m \<Rightarrow> fits (sp_available l + m) \<and> fits (sp_reserved l - m))"
| "ledger_pre (t, LFee s f oid) l \<longleftrightarrow> fits (sp_available l - f) \<and> fits (sp_total l - f)"
| "ledger_pre (t, LPnl a) l \<longleftrightarrow> fits (sp_available l + a) \<and> fits (sp_total l + a)"

definition ledger_rel :: "portfolio \<Rightarrow> spec_ledger \<Rightarrow> bool" where
  "ledger_rel p l \<longleftrightarrow>
     cl_total_cash (pf_cash p) = units (sp_total l) \<and>
     cl_available_cash (pf_cash p) = units (sp_available l) \<and>
     cl_reserved_for_orders (pf_cash p) = units (sp_reserved l) \<and>
     map (\<lambda>(k, i). (k, pi_reserved_cash i)) (pf_pending_orders p) =
       map (\<lambda>(k, m). (k, units m)) (sp_pending l)"

definition ledger_inv :: "spec_ledger \<Rightarrow> bool" where
  "ledger_inv l \<longleftrightarrow>
     sp_total l = sp_available l + sp_reserved l \<and> fits (sp_total l) \<and> fits (sp_reserved l) \<and>
     al_wf (sp_pending l) \<and> (\<forall>m \<in> snd ` set (sp_pending l). 0 \<le> m) \<and>
     sp_reserved l = sum_list (map snd (sp_pending l))"

lemma map_values_update:
  "map (\<lambda>(k, v). (k, f v)) (AList.update k v xs) = AList.update k (f v) (map (\<lambda>(k, v). (k, f v)) xs)"
  by (induction xs) auto

lemma map_values_delete:
  "map (\<lambda>(k, v). (k, f v)) (AList.delete k xs) = AList.delete k (map (\<lambda>(k, v). (k, f v)) xs)"
  by (induction xs) auto

lemma ledger_rel_pending:
  assumes "ledger_rel p l"
  shows "map_option pi_reserved_cash (map_of (pf_pending_orders p) oid) =
         map_option units (map_of (sp_pending l) oid)"
proof -
  have "map_of (map (\<lambda>(k, i). (k, pi_reserved_cash i)) (pf_pending_orders p)) oid =
      map_of (map (\<lambda>(k, m). (k, units m)) (sp_pending l)) oid"
    using assms by (simp only: ledger_rel_def)
  then show ?thesis by (simp only: map_of_map_values)
qed

lemma update_fresh: "map_of xs k = None \<Longrightarrow> AList.update k v xs = xs @ [(k, v)]"
  by (induction xs) (auto split: if_splits)

lemma sum_list_delete:
  fixes xs :: "(string \<times> int) list"
  shows "al_wf xs \<Longrightarrow> map_of xs k = Some v \<Longrightarrow>
   sum_list (map snd (AList.delete k xs)) = sum_list (map snd xs) - v"
proof (induction xs)
  case (Cons x xs)
  show ?case
  proof (cases "fst x = k")
    case True
    then have "AList.delete k xs = xs"
      using Cons.prems(1) by (intro delete_id) (auto simp: al_wf_def)
    with True Cons.prems(2) show ?thesis by auto
  next
    case False
    with Cons show ?thesis by (auto simp: al_wf_def split: if_splits)
  qed
qed simp

interpretation ledger: simulation_inv ledger_rel ledger_exec ledger_spec ledger_pre ledger_inv
proof unfold_locales
  fix p l x
  assume r: "ledger_rel p l" and pre: "ledger_pre x l"
  obtain t y where x: "x = (t, y)" by force
  show "ledger_rel (ledger_exec x p) (ledger_spec x l)"
  proof (cases y)
    case (LReserve oid s sd n f st)
    then show ?thesis
      using r pre
      by (auto simp: x ledger_rel_def reserve_cash_def Let_def units_add units_diff
          map_values_update [where f = pi_reserved_cash] map_values_update [where f = units])
  next
    case (LRelease oid)
    then show ?thesis
      using r pre ledger_rel_pending [OF r, of oid]
      by (auto simp: x ledger_rel_def release_cash_def Let_def units_add units_diff
          map_values_delete [where f = pi_reserved_cash] map_values_delete [where f = units]
          split: option.splits)
  next
    case (LFee s f oid)
    then show ?thesis
      using r pre by (simp add: x ledger_rel_def record_fee_def Let_def units_diff)
  next
    case (LPnl a)
    then show ?thesis
      using r pre by (simp add: x ledger_rel_def add_realized_pnl_def book_ledger_pnl_def units_add)
  qed
next
  fix l x
  assume i: "ledger_inv l" and pre: "ledger_pre x l"
  obtain t y where x: "x = (t, y)" by force
  show "ledger_inv (ledger_spec x l)"
  proof (cases y)
    case (LReserve oid s sd n f st)
    then show ?thesis
      using i pre update_fresh [of "sp_pending l" oid "n + f"] al_wf_update [of "sp_pending l" oid "n + f"]
      by (auto simp: x ledger_inv_def)
  next
    case (LRelease oid)
    then show ?thesis
      using i pre al_wf_delete [of "sp_pending l" oid] al_delete_subset [of oid "sp_pending l"]
      by (auto simp: x ledger_inv_def sum_list_delete split: option.splits)
  qed (use i pre in \<open>auto simp: x ledger_inv_def\<close>)
qed

lemma sum_pending_exact:
  assumes "\<forall>m \<in> snd ` set ms. 0 \<le> m" and "0 \<le> a" and "fits (a + sum_list (map snd ms))"
    and "map (\<lambda>(k, i). (k, pi_reserved_cash i)) is = map (\<lambda>(k, m). (k, units m)) ms"
  shows "fold (\<lambda>(_, i) acc. acc + pi_reserved_cash i) is (units a) =
         units (a + sum_list (map snd ms))"
  using assms
proof (induction ms arbitrary: a "is")
  case (Cons m ms)
  obtain k v where m: "m = (k, v)" by force
  obtain k' i is' where i: "is = (k', i) # is'" using Cons.prems(4) by (cases "is") auto
  have "0 \<le> sum_list (map snd ms)" using Cons.prems(1) by (intro sum_list_nonneg) auto
  moreover have "0 \<le> v" using Cons.prems(1) by (simp add: m)
  ultimately have "fits (a + v)" using Cons.prems(2,3) by (simp add: fits_def m)
  then have "units a + pi_reserved_cash i = units (a + v)"
    using Cons.prems(4) by (simp add: i m units_add)
  then show ?case
    using Cons.IH [of "a + v" is'] Cons.prems \<open>0 \<le> v\<close> by (simp add: i m add.assoc)
qed simp

section \<open>Frames and bounds of single operations\<close>

lemma get_leg_open:
  "(s', ps') \<noteq> (pos_symbol pos, side_to_position_side (pos_side pos)) \<Longrightarrow>
   get_position_leg s' ps' (open_position t pos p) = get_position_leg s' ps' p"
  by (auto simp: get_position_leg_def open_position_def Let_def side_key_eq)

lemma get_leg_close_leg:
  "get_position_leg s' ps' (close_position_leg t s ps x pnl p) =
     (if (s', ps') = (s, ps) then None else get_position_leg s' ps' p)"
  by (auto simp: get_position_leg_def close_position_leg_def close_at_def Let_def al_contains_def)

lemma get_leg_reduce_leg_other:
  "(s', ps') \<noteq> (s, ps) \<Longrightarrow>
   get_position_leg s' ps' (snd (reduce_position_leg t s ps q x pnl p)) = get_position_leg s' ps' p"
  by (auto simp: get_position_leg_def reduce_position_leg_def reduce_at_def Let_def split: option.splits)

lemma get_leg_sync_other:
  "(s', ps') \<noteq> (s, ps) \<Longrightarrow>
   get_position_leg s' ps' (sync_position_from_exchange t s ps q e x u since p) =
   get_position_leg s' ps' p"
  by (auto simp: get_position_leg_def sync_position_from_exchange_def Let_def)

lemma reduce_leg_size:
  assumes "get_position_leg s ps p = Some q"
  shows "fst (reduce_position_leg t s ps sold x pnl p) = pos_size q - std_min sold (pos_size q)"
    and "get_position_leg s ps (snd (reduce_position_leg t s ps sold x pnl p)) =
           (if pos_size q - std_min sold (pos_size q) \<le> size_epsilon then None
            else Some (recalculate_position_pnl
                   (q\<lparr>pos_size := pos_size q - std_min sold (pos_size q), pos_current_price := x,
                      pos_notional := (pos_size q - std_min sold (pos_size q)) * x,
                      pos_updated_at := t\<rparr>)))"
  using assms by (simp_all add: get_position_leg_def reduce_position_leg_def reduce_at_def Let_def)

lemma reduced_size_bounds:
  assumes "canonical old" and "isfinite old" and "isfinite sold" and "0 \<le> sold" and "0 \<le> old"
  shows "0 \<le> old - std_min sold old" and "old - std_min sold old \<le> old"
proof -
  have m: "isfinite (std_min sold old)" "0 \<le> std_min sold old" "std_min sold old \<le> old"
    using assms by (auto simp: std_min_def isfinite_iff zero_double_def)
  show "0 \<le> old - std_min sold old" using m assms by (intro double_diff_nonneg) auto
  show "old - std_min sold old \<le> old" using m assms by (intro double_diff_le) auto
qed

lemma peak_fund_leg [simp]: "pf_peak_equity (fund_leg t s k a p) = pf_peak_equity p"
  by (simp add: fund_leg_def Let_def split: option.splits)

lemma raise_peak_ge_of:
  "pf_peak_equity q = c \<Longrightarrow> c \<noteq> NaN \<Longrightarrow> c \<le> pf_peak_equity (raise_peak q)"
  using raise_peak_ge by blast

lemma peak_close_at: "pf_peak_equity p \<noteq> NaN \<Longrightarrow> pf_peak_equity p \<le> pf_peak_equity (close_at t s k pnl p)"
  unfolding close_at_def Let_def emit_event_fields by (rule raise_peak_ge_of) simp_all

lemma peak_reduce_at:
  "pf_peak_equity p \<noteq> NaN \<Longrightarrow> pf_peak_equity p \<le> pf_peak_equity (snd (reduce_at t s k q sold x pnl p))"
  unfolding reduce_at_def Let_def snd_conv emit_event_fields by (rule raise_peak_ge_of) simp_all

text \<open>Only the daily reset and the first capital sync may lower the peak.\<close>

definition may_lower_peak :: "pf_op \<Rightarrow> portfolio \<Rightarrow> bool" where
  "may_lower_peak x p \<longleftrightarrow>
     x = PfResetDaily \<or> (\<exists>e. x = PfSetCapital e \<and> \<not> pf_capital_synced_from_exchange p)"

lemma peak_exec:
  assumes "pf_peak_equity p \<noteq> NaN" and "\<not> may_lower_peak x p"
  shows "pf_peak_equity p \<le> pf_peak_equity (pf_exec t x p)"
proof (cases x)
  case (PfPrice s v)
  have "pf_peak_equity p \<le> pf_peak_equity (raise_peak (update_leg f k (update_leg f k' p)))" for f k k'
    using assms(1) by (intro raise_peak_ge_of) simp_all
  then show ?thesis using assms(1) by (simp add: PfPrice update_price_def)
next
  case (PfClose s v pnl)
  then show ?thesis using assms(1) by (auto simp: close_position_def peak_close_at split: option.splits)
next
  case (PfCloseLeg s ps v pnl)
  then show ?thesis using assms(1) by (auto simp: close_position_leg_def peak_close_at)
next
  case (PfReduce s q v pnl)
  then show ?thesis using assms(1) by (auto simp: reduce_position_def peak_reduce_at split: option.splits)
next
  case (PfReduceLeg s ps q v pnl)
  then show ?thesis using assms(1) by (auto simp: reduce_position_leg_def peak_reduce_at split: option.splits)
next
  case (PfSetCapital e)
  then show ?thesis
    using assms by (auto simp: may_lower_peak_def set_capital_def rebase_capital_def Let_def
        intro: double_less_imp_le)
next
  case PfResetDaily
  then show ?thesis using assms(2) by (simp add: may_lower_peak_def)
qed (use assms(1) in \<open>auto simp: open_position_def record_funding_payment_def add_realized_pnl_def
    set_leverage_def reserve_cash_def release_cash_def record_fee_def
    sync_position_from_exchange_def Let_def split: option.splits\<close>)

section \<open>Properties\<close>

lemma check_invariants_exactI:
  assumes "cl_reserved_for_orders (pf_cash p) - cl_reserved_for_orders (pf_cash p) = 0"
    and "cl_total_cash (pf_cash p) - cl_total_cash (pf_cash p) = 0"
    and "fold (\<lambda>(_, i) acc. acc + pi_reserved_cash i) (pf_pending_orders p) 0 =
      cl_reserved_for_orders (pf_cash p)"
    and "cl_total_cash (pf_cash p) = cl_available_cash (pf_cash p) + cl_reserved_for_orders (pf_cash p)"
    and "cl_available_cash (pf_cash p) = units m" and "0 \<le> cl_available_cash (pf_cash p)"
  shows "check_invariants p"
proof -
  obtain r where r: "lit (1 / 100) = Fin r" "0 \<le> r" using mk_small [of "1 / 100"] by auto
  have "0 \<le> m" using assms(5,6) by (simp add: zero_double_def units_def zero_le_divide_iff)
  hence "- r \<le> real_of_int m / 1048576" using r(2) by (meson divide_nonneg_pos dual_order.trans
      neg_le_0_iff_le of_int_0_le_iff zero_less_numeral)
  hence "\<not> cl_available_cash (pf_cash p) < - lit (1 / 100)"
    using r assms(5) by (simp add: units_def not_less)
  then show ?thesis
    using r unfolding check_invariants_def Let_def assms(3) assms(4) [symmetric] assms(1,2)
    by (simp add: zero_double_def)
qed

definition spec_ledger_init :: "int \<Rightarrow> spec_ledger" where
  "spec_ledger_init c = \<lparr>sp_total = c, sp_available = c, sp_reserved = 0, sp_pending = []\<rparr>"

lemma ledger_init:
  "ledger_rel (portfolio_init (units c)) (spec_ledger_init c)"
  "fits c \<Longrightarrow> ledger_inv (spec_ledger_init c)"
  by (simp_all add: ledger_rel_def portfolio_init_def spec_ledger_init_def ledger_inv_def)

text \<open>
  C4. Starting from a capital on the grid of \<open>2\<^sup>-\<^sup>2\<^sup>0\<close>, any sequence of cash reservations
  (with fresh order ids), releases, fees and realised profits whose balances stay below
  \<open>2\<^sup>5\<^sup>3\<close> grid steps leaves the floating-point ledger exactly balanced: total cash is
  available plus reserved cash, the reserved cash is the sum over the pending orders, and
  the engine's own \<open>check_invariants\<close> passes whenever the available cash is not negative.
\<close>

theorem ledger_exact:
  assumes "fits c" and "run_pre ledger_pre ledger_spec ops (spec_ledger_init c)"
  shows "let p = fold ledger_exec ops (portfolio_init (units c)); l = pf_cash p in
           cl_total_cash l = cl_available_cash l + cl_reserved_for_orders l \<and>
           cl_reserved_for_orders l =
             fold (\<lambda>(_, i) acc. acc + pi_reserved_cash i) (pf_pending_orders p) 0 \<and>
           (0 \<le> cl_available_cash l \<longrightarrow> check_invariants p)"
proof -
  let ?p = "fold ledger_exec ops (portfolio_init (units c))"
  let ?l = "pf_cash ?p"
  obtain a where r: "ledger_rel ?p a" and i: "ledger_inv a"
    using ledger.sim_run_inv [OF ledger_init(1) ledger_init(2) [OF assms(1)] assms(2)] by blast
  have sums: "fold (\<lambda>(_, i) acc. acc + pi_reserved_cash i) (pf_pending_orders ?p) 0 =
      cl_reserved_for_orders ?l"
  proof -
    have "fits (0 + sum_list (map snd (sp_pending a)))" "\<forall>m \<in> snd ` set (sp_pending a). 0 \<le> m"
      "cl_reserved_for_orders ?l = units (sum_list (map snd (sp_pending a)))"
      using r i by (auto simp: ledger_rel_def ledger_inv_def)
    with r show ?thesis
      using sum_pending_exact [of "sp_pending a" 0 "pf_pending_orders ?p"] by (simp add: ledger_rel_def)
  qed
  have total: "cl_total_cash ?l = cl_available_cash ?l + cl_reserved_for_orders ?l"
    using r i by (auto simp: ledger_rel_def ledger_inv_def units_add)
  have fin: "\<exists>m. cl_reserved_for_orders ?l = units m" "\<exists>m. cl_total_cash ?l = units m"
    using r by (auto simp: ledger_rel_def)
  have diff0: "x - x = 0" if "\<exists>m. x = units m" for x
    using that units_diff [of _ "_"] by (metis cancel_comm_monoid_add_class.diff_cancel fits_small(1) units_0)
  have "check_invariants ?p" if "0 \<le> cl_available_cash ?l"
  proof -
    have "cl_reserved_for_orders ?l - cl_reserved_for_orders ?l = 0"
      "cl_total_cash ?l - cl_total_cash ?l = 0" using diff0 fin by blast+
    moreover obtain m where "cl_available_cash ?l = units m" using r by (auto simp: ledger_rel_def)
    ultimately show ?thesis using that sums total by (intro check_invariants_exactI) auto
  qed
  with sums total show ?thesis by (simp add: Let_def)
qed

theorem ledger_exact_witness:
  "let ops = [(1, LReserve ''TB1'' ''BTCUSDT'' Buy 5000000 3000 ''s''), (2, LFee ''BTCUSDT'' 3000 ''TB1''),
              (3, LRelease ''TB1''), (4, LPnl (- 700))];
       p = fold ledger_exec ops (portfolio_init (units 10000000)); l = pf_cash p
   in run_pre ledger_pre ledger_spec ops (spec_ledger_init 10000000) \<and>
      cl_total_cash l = cl_available_cash l + cl_reserved_for_orders l"
proof -
  let ?ops = "[(1, LReserve ''TB1'' ''BTCUSDT'' Buy 5000000 3000 ''s''), (2, LFee ''BTCUSDT'' 3000 ''TB1''),
     (3, LRelease ''TB1''), (4, LPnl (- 700))]"
  have f: "fits 10000000" by simp
  have r: "run_pre ledger_pre ledger_spec ?ops (spec_ledger_init 10000000)"
    by (simp add: spec_ledger_init_def)
  show ?thesis using ledger_exact [OF f r] r by (simp only: Let_def)
qed

text \<open>
  In every state the portfolio can reach, by any sequence of its public methods, every
  stored leg sits under the key of its own symbol and side, the audit log holds at most
  10000 events and the leverage used as a divisor is at least one.
\<close>

theorem portfolio_well_formed:
  assumes "pf_start p0" and "pf_step\<^sup>*\<^sup>* p0 p"
  shows "(get_position_leg s ps p = Some q \<longrightarrow>
            pos_symbol q = s \<and> pos_position_side q = ps \<and> (ps = Long \<longleftrightarrow> pos_side q = Buy)) \<and>
         length (pf_event_log p) \<le> kMaxEventLogSize \<and> 1 \<le> pf_leverage p"
proof -
  have inv: "pf_inv p" by (rule pf.inv_reachable [OF assms])
  have "leg_ok (pos_key s ps) q" if "get_position_leg s ps p = Some q"
    using inv that by (simp add: pf_inv_def get_position_leg_def)
  then show ?thesis
    using inv by (auto simp: pf_inv_def leg_ok_def side_to_position_side_def split: if_splits)
qed

definition ex_position :: position where
  "ex_position = \<lparr>pos_symbol = ''BTCUSDT'', pos_side = Buy, pos_position_side = Long,
     pos_size = Fin 2, pos_avg_entry_price = Fin 100, pos_current_price = Fin 100,
     pos_notional = Fin 200, pos_unrealized_pnl = 0, pos_unrealized_pnl_pct = 0,
     pos_accumulated_funding = 0, pos_strategy_id = ''s'', pos_opened_at = 1, pos_updated_at = 1\<rparr>"

definition ex_portfolio :: portfolio where
  "ex_portfolio = open_position 5 ex_position (portfolio_init (Fin 1000))"

lemma ex_portfolio_reachable:
  "pf_start (portfolio_init (Fin 1000))" "pf_step\<^sup>*\<^sup>* (portfolio_init (Fin 1000)) ex_portfolio"
proof -
  show "pf_start (portfolio_init (Fin 1000))" by (auto simp: pf_start_def)
  have "pf_step (portfolio_init (Fin 1000)) (pf_exec 5 (PfOpen ex_position) (portfolio_init (Fin 1000)))"
    by (rule pf_stepI)
  then show "pf_step\<^sup>*\<^sup>* (portfolio_init (Fin 1000)) ex_portfolio" by (simp add: ex_portfolio_def)
qed

lemma ex_portfolio_leg:
  "\<exists>q. get_position_leg ''BTCUSDT'' Long ex_portfolio = Some q \<and> pos_size q = Fin 2"
  by (simp add: ex_portfolio_def get_position_leg_def open_position_def portfolio_init_def Let_def
      side_key_eq ex_position_def side_to_position_side_def)

theorem portfolio_well_formed_witness:
  "\<exists>q. get_position_leg ''BTCUSDT'' Long ex_portfolio = Some q \<and> pos_side q = Buy \<and>
       1 \<le> pf_leverage ex_portfolio"
proof -
  obtain q where "get_position_leg ''BTCUSDT'' Long ex_portfolio = Some q"
    using ex_portfolio_leg by blast
  with portfolio_well_formed [OF ex_portfolio_reachable, of "''BTCUSDT''" Long q] show ?thesis by blast
qed

text \<open>
  Hedge-mode legs are independent: opening, closing, reducing or syncing one leg of
  one symbol leaves every other leg exactly as it was.
\<close>

theorem legs_independent:
  assumes "(s', ps') \<noteq> (s, ps)"
  shows "(pos_symbol pos = s \<and> side_to_position_side (pos_side pos) = ps \<longrightarrow>
            get_position_leg s' ps' (open_position t pos p) = get_position_leg s' ps' p) \<and>
         get_position_leg s' ps' (close_position_leg t s ps x pnl p) = get_position_leg s' ps' p \<and>
         get_position_leg s' ps' (snd (reduce_position_leg t s ps q x pnl p)) =
           get_position_leg s' ps' p \<and>
         get_position_leg s' ps' (sync_position_from_exchange t s ps q e x u since p) =
           get_position_leg s' ps' p"
  using assms get_leg_open [of s' ps' pos t p] get_leg_close_leg [of s' ps' t s ps x pnl p]
    get_leg_reduce_leg_other [OF assms] get_leg_sync_other [OF assms]
  by auto

theorem legs_independent_witness:
  "get_position_leg ''BTCUSDT'' Long (close_position_leg 9 ''BTCUSDT'' Short (Fin 1) (Fin 1) ex_portfolio) =
   get_position_leg ''BTCUSDT'' Long ex_portfolio"
proof -
  have ne: "(''BTCUSDT'', Long) \<noteq> (''BTCUSDT'', Short)" by simp
  show ?thesis using legs_independent [OF ne, of ex_position 9 ex_portfolio "Fin 1" "Fin 1"] by blast
qed

text \<open>
  A close request that names only the symbol does nothing when both legs of the
  symbol are open, and does nothing when neither is; with exactly one leg open it closes
  that leg, counts the trade and books the profit to the ledger.
\<close>

theorem close_unambiguous:
  "close_position t s x pnl p =
     (case (get_position_leg s Long p, get_position_leg s Short p) of
        (Some _, Some _) \<Rightarrow> p
      | (None, None) \<Rightarrow> p
      | (Some _, None) \<Rightarrow> close_position_leg t s Long x pnl p
      | (None, Some _) \<Rightarrow> close_position_leg t s Short x pnl p)"
  by (simp add: close_position_def close_position_leg_def find_leg_def get_position_leg_def
      al_contains_def split: option.splits)

text \<open>
  Reducing a leg by a finite, non-negative quantity returns a remaining size between
  zero and the old size; the leg is deleted exactly when the remainder is at most
  \<open>10\<^sup>-\<^sup>1\<^sup>2\<close> and otherwise keeps its entry price with the new size.
\<close>

theorem reduce_never_negative:
  assumes "get_position_leg s ps p = Some q" and "canonical (pos_size q)"
    and "isfinite (pos_size q)" and "0 \<le> pos_size q" and "isfinite sold" and "0 \<le> sold"
  shows "let (left, p') = reduce_position_leg t s ps sold x pnl p in
           0 \<le> left \<and> left \<le> pos_size q \<and>
           (case get_position_leg s ps p' of
              None \<Rightarrow> left \<le> size_epsilon
            | Some q' \<Rightarrow> \<not> left \<le> size_epsilon \<and> pos_size q' = left \<and>
                         pos_avg_entry_price q' = pos_avg_entry_price q)"
  using reduce_leg_size [OF assms(1), of t sold x pnl] reduced_size_bounds [OF assms(2,3,5,6,4)]
  by (simp add: case_prod_unfold)

theorem reduce_never_negative_witness:
  "fst (reduce_position_leg 9 ''BTCUSDT'' Long (Fin 5) (Fin 110) (Fin 1) ex_portfolio) \<le> Fin 2 \<and>
   0 \<le> fst (reduce_position_leg 9 ''BTCUSDT'' Long (Fin 5) (Fin 110) (Fin 1) ex_portfolio)"
proof -
  obtain q where q: "get_position_leg ''BTCUSDT'' Long ex_portfolio = Some q" "pos_size q = Fin 2"
    using ex_portfolio_leg by blast
  have h: "canonical (pos_size q)" "isfinite (pos_size q)" "0 \<le> pos_size q" "isfinite (Fin 5)" "0 \<le> Fin 5"
    by (simp_all add: q(2) zero_double_def)
  show ?thesis
    using reduce_never_negative [OF q(1) h, of 9 "Fin 110" "Fin 1"] q(2) by (auto simp: Let_def split: prod.splits)
qed

text \<open>
  The peak equity, from which the drawdown limits are measured, never falls, except
  by the daily reset and by the first synchronisation with the exchange.
\<close>

theorem peak_never_falls:
  assumes "pf_peak_equity p \<noteq> NaN" and "\<not> may_lower_peak x p"
  shows "pf_peak_equity p \<le> pf_peak_equity (pf_exec t x p)"
  using assms by (rule peak_exec)

theorem peak_never_falls_witness:
  "pf_peak_equity ex_portfolio \<le> pf_peak_equity (pf_exec 9 (PfPrice ''BTCUSDT'' (Fin 90)) ex_portfolio)"
proof -
  have n: "pf_peak_equity ex_portfolio \<noteq> NaN"
    by (simp add: ex_portfolio_def open_position_def portfolio_init_def Let_def)
  show ?thesis by (rule peak_never_falls [OF n]) (simp add: may_lower_peak_def)
qed

text \<open>
  A funding payment on an open leg is charged twice to the profit the engine reports:
  once to the realised profit of the day and once more through the unrealised profit of
  the leg.  A payment of 4 on a flat position lowers the reported total profit by 8.
\<close>

theorem funding_counted_twice:
  "ps_total_pnl (compute_pnl ex_portfolio) = Fin 0 \<and>
   ps_total_pnl (compute_pnl (record_funding_payment 9 ''BTCUSDT'' (Fin 4) ex_portfolio)) = Fin (- 8)"
proof -
  have e: "kMinValidPrice < Fin 200" "\<not> Fin 2 \<le> size_epsilon"
    using mk_small [of "1 / 10 ^ 10"] mk_small [of "1 / 10 ^ 12"]
    by (auto simp: kMinValidPrice_def size_epsilon_def)
  show ?thesis
    by (simp add: ex_portfolio_def open_position_def portfolio_init_def side_key_eq ex_position_def
        side_to_position_side_def recalculate_position_pnl_def record_funding_payment_def fund_leg_def
        compute_pnl_def total_unrealized_def Let_def e zero_double_def minus_double_def pos_key_def)
qed

text \<open>
  Reserving cash twice under the same order id loses the first reservation: the second
  overwrites the pending entry while both amounts stay reserved, so releasing the order
  leaves cash reserved with no pending order to account for it, and the engine's own
  invariant check fails.
\<close>

theorem reserve_twice_leaks:
  "let r = (\<lambda>p. snd (reserve_cash 1 ''TB1'' ''BTCUSDT'' Buy (Fin 100) (Fin 1) ''s'' p));
       p = release_cash 2 ''TB1'' (r (r (portfolio_init (Fin 1000))))
   in pf_pending_orders p = [] \<and> cl_reserved_for_orders (pf_cash p) = Fin 101 \<and> \<not> check_invariants p"
proof -
  obtain r where r: "mk (1 / 100) = Fin r" "r \<le> 1 / 2" using mk_small [of "1 / 100"] by auto
  show ?thesis
    by (simp add: reserve_cash_def release_cash_def portfolio_init_def check_invariants_def Let_def
        zero_double_def minus_double_def r(1)) (use r(2) in linarith)
qed

text \<open>
  A granted reservation never drives finite available cash below zero, and a refused
  one changes nothing; but a NaN requirement passes the comparison, is granted, and turns
  the available cash into NaN, after which every further reservation is granted.
\<close>

theorem reserve_gate:
  "(\<not> fst (reserve_cash t oid s sd n f st p) \<longrightarrow> snd (reserve_cash t oid s sd n f st p) = p) \<and>
   (fst (reserve_cash t oid s sd n f st p) \<and> isfinite (cl_available_cash (pf_cash p)) \<and>
      isfinite (n + f) \<longrightarrow>
      0 \<le> cl_available_cash (pf_cash (snd (reserve_cash t oid s sd n f st p)))) \<and>
   (n = NaN \<longrightarrow> fst (reserve_cash t oid s sd n f st p) \<and>
      cl_available_cash (pf_cash (snd (reserve_cash t oid s sd n f st p))) = NaN) \<and>
   (cl_available_cash (pf_cash p) = NaN \<longrightarrow> fst (reserve_cash t oid s sd n f st p))"
proof -
  have nan: "NaN + f = NaN" "x + NaN = NaN" for x by (cases f; simp) (cases x; simp)
  have "0 \<le> cl_available_cash (pf_cash p) - (n + f)"
    if "\<not> cl_available_cash (pf_cash p) < n + f" "isfinite (cl_available_cash (pf_cash p))" "isfinite (n + f)"
    using that by (intro double_diff_nonneg) (auto simp: isfinite_iff)
  then show ?thesis
    by (auto simp: reserve_cash_def Let_def nan minus_double_def)
qed

theorem reserve_gate_witness:
  "0 \<le> cl_available_cash (pf_cash (snd
     (reserve_cash 1 ''TB1'' ''BTCUSDT'' Buy (Fin 100) (Fin 1) ''s'' ex_portfolio)))"
proof -
  have a: "cl_available_cash (pf_cash ex_portfolio) = Fin 1000"
    by (simp add: ex_portfolio_def open_position_def portfolio_init_def Let_def)
  have "fst (reserve_cash 1 ''TB1'' ''BTCUSDT'' Buy (Fin 100) (Fin 1) ''s'' ex_portfolio)"
    by (simp add: reserve_cash_def Let_def a)
  with reserve_gate [of 1 "''TB1''" "''BTCUSDT''" Buy "Fin 100" "Fin 1" "''s''" ex_portfolio] a
  show ?thesis by simp
qed

end
