(* ===== verification/Fill_Processor.thy ===== *)
theory Fill_Processor
  imports Order_Registry Portfolio_Laws
begin

text \<open>
  \<^verbatim>\<open>FillProcessor\<close> (\<^verbatim>\<open>src/src/execution/fills/fill_processor.{hpp,cpp}\<close>): the only place
  where an execution reported by the exchange becomes a change of the order record and of
  the portfolio.  It works on the registry and the portfolio it shares with the rest of the
  execution engine, so its state is the pair of them (\<open>exec_state\<close>), with the fee journal.
  A null portfolio or journal pointer is \<open>None\<close>.  The journal keeps the fields of each
  entry rather than their JSON text, and a failed append, which the code only logs, is not
  distinguished.  Metrics and logs are not modelled.
\<close>

section \<open>State\<close>

record fee_entry =
  fj_symbol :: symbol
  fj_order_id :: order_id
  fj_fee :: double
  fj_fill_price :: double
  fj_fill_qty :: double
  fj_ts :: timestamp

record exec_state =
  xs_registry :: registry
  xs_portfolio :: "portfolio option"
  xs_journal :: "fee_entry list option"

definition kDefaultTakerFeePct :: double where "kDefaultTakerFeePct = lit (6 / 10000)"

definition kDefaultMakerFeePct :: double where "kDefaultMakerFeePct = lit (2 / 10000)"

fun fee_rate_for :: "order_type \<Rightarrow> double" where
  "fee_rate_for PostOnly = kDefaultMakerFeePct"
| "fee_rate_for _ = kDefaultTakerFeePct"

section \<open>Portfolio effects\<close>

definition journal_fee_event ::
  "clk \<Rightarrow> symbol \<Rightarrow> order_id \<Rightarrow> double \<Rightarrow> double \<Rightarrow> double \<Rightarrow> exec_state \<Rightarrow> exec_state" where
  "journal_fee_event c s oid fee fill_price fill_qty x =
    (case xs_journal x of
       None \<Rightarrow> x
     | Some j \<Rightarrow> x\<lparr>xs_journal := Some (j @
         [\<lparr>fj_symbol = s, fj_order_id = oid, fj_fee = fee, fj_fill_price = fill_price,
           fj_fill_qty = fill_qty, fj_ts = now c\<rparr>])\<rparr>)"

definition leg_pnl :: "position_side \<Rightarrow> double \<Rightarrow> double \<Rightarrow> double \<Rightarrow> double" where
  "leg_pnl ps entry exit_p qty = (if ps = Long then (exit_p - entry) * qty else (entry - exit_p) * qty)"

definition compute_incremental_pnl :: "order_record \<Rightarrow> double \<Rightarrow> double \<Rightarrow> portfolio option \<Rightarrow> double" where
  "compute_incremental_pnl r fill_qty fill_price pf =
    (case pf of
       None \<Rightarrow> 0
     | Some p \<Rightarrow>
         (case get_position_leg (o_symbol r) (o_position_side r) p of
            None \<Rightarrow> 0
          | Some q \<Rightarrow> leg_pnl (o_position_side r) (pos_avg_entry_price q) fill_price fill_qty))"

definition compute_gross_pnl :: "order_record \<Rightarrow> portfolio option \<Rightarrow> double" where
  "compute_gross_pnl r pf =
    (case pf of
       None \<Rightarrow> 0
     | Some p \<Rightarrow>
         (case get_position_leg (o_symbol r) (o_position_side r) p of
            None \<Rightarrow> 0
          | Some q \<Rightarrow> leg_pnl (o_position_side r) (pos_avg_entry_price q) (o_avg_fill_price r)
                        (o_filled_quantity r)))"

text \<open>The position record built for an opening fill; the fields not set keep their defaults.\<close>

definition opening_position :: "clk \<Rightarrow> order_record \<Rightarrow> double \<Rightarrow> double \<Rightarrow> position" where
  "opening_position c r qty price =
    \<lparr>pos_symbol = o_symbol r, pos_side = o_side r, pos_position_side = o_position_side r,
     pos_size = qty, pos_avg_entry_price = price, pos_current_price = price,
     pos_notional = qty * price, pos_unrealized_pnl = 0, pos_unrealized_pnl_pct = 0,
     pos_accumulated_funding = 0, pos_strategy_id = o_strategy_id r, pos_opened_at = now c,
     pos_updated_at = now c\<rparr>"

definition apply_fill_to_portfolio :: "clk \<Rightarrow> order_record \<Rightarrow> exec_state \<Rightarrow> exec_state" where
  "apply_fill_to_portfolio c r x =
    (case xs_portfolio x of
       None \<Rightarrow> x
     | Some p \<Rightarrow>
         let qty = o_filled_quantity r; price = o_avg_fill_price r in
         if o_trade_side r = TradeClose then
           let gross_pnl = compute_gross_pnl r (Some p);
               p = snd (reduce_position_leg (now c) (o_symbol r) (o_position_side r) qty price gross_pnl p);
               fee = price * qty * fee_rate_for (o_order_type r);
               p = record_fee (now c) (o_symbol r) fee (o_order_id r) p
           in journal_fee_event c (o_symbol r) (o_order_id r) fee price qty (x\<lparr>xs_portfolio := Some p\<rparr>)
         else
           let p = open_position (now c) (opening_position c r qty price) p;
               p = release_cash (now c) (o_order_id r) p;
               fee = qty * price * fee_rate_for (o_order_type r);
               p = record_fee (now c) (o_symbol r) fee (o_order_id r) p
           in journal_fee_event c (o_symbol r) (o_order_id r) fee price qty (x\<lparr>xs_portfolio := Some p\<rparr>))"

definition apply_incremental_fill :: "clk \<Rightarrow> order_record \<Rightarrow> fill_event \<Rightarrow> exec_state \<Rightarrow> exec_state" where
  "apply_incremental_fill c r fill x =
    (case xs_portfolio x of
       None \<Rightarrow> x
     | Some p \<Rightarrow>
         let qty = fe_fill_quantity fill; price = fe_fill_price fill in
         if price \<le> 0 then x
         else if o_trade_side r = TradeClose then
           let pnl = compute_incremental_pnl r qty price (Some p);
               p = snd (reduce_position_leg (now c) (o_symbol r) (o_position_side r) qty price pnl p);
               fee = price * qty * fee_rate_for (o_order_type r);
               p = record_fee (now c) (o_symbol r) fee (o_order_id r) p
           in journal_fee_event c (o_symbol r) (o_order_id r) fee price qty (x\<lparr>xs_portfolio := Some p\<rparr>)
         else
           let p = open_position (now c) (opening_position c r qty price) p;
               p = release_cash (now c) (o_order_id r) p;
               fee = qty * price * fee_rate_for (o_order_type r);
               p = record_fee (now c) (o_symbol r) fee (o_order_id r) p
           in journal_fee_event c (o_symbol r) (o_order_id r) fee price qty (x\<lparr>xs_portfolio := Some p\<rparr>))"

section \<open>Market fills (REST confirmation)\<close>

definition bad_amount :: "double \<Rightarrow> bool" where
  "bad_amount d \<longleftrightarrow> \<not> isfinite d \<or> d \<le> 0"

definition process_market_fill ::
  "clk \<Rightarrow> order_id \<Rightarrow> double \<Rightarrow> double \<Rightarrow> order_id \<Rightarrow> exec_state \<Rightarrow> bool \<times> exec_state" where
  "process_market_fill c oid filled_qty fill_price xid x =
    (let g = xs_registry x in
     if is_fill_applied oid g then (False, x)
     else if bad_amount fill_price then (False, x)
     else if bad_amount filled_qty then (False, x)
     else
       case get_order oid g of
         None \<Rightarrow> (False, x)
       | Some r \<Rightarrow>
           (case reg_transition c oid Filled ''Market order filled'' g of
              (False, _) \<Rightarrow> (False, x)
            | (True, g1) \<Rightarrow>
                let r1 = r\<lparr>o_state := Filled, o_exchange_order_id := xid,
                           o_filled_quantity := filled_qty, o_remaining_quantity := 0,
                           o_avg_fill_price := fill_price, o_last_updated := now c\<rparr>;
                    x1 = x\<lparr>xs_registry := update_order r1 g1\<rparr>;
                    x2 = apply_fill_to_portfolio c r1 x1
                in (True, x2\<lparr>xs_registry := mark_fill_applied oid (xs_registry x2)\<rparr>)))"

section \<open>Fill events (WebSocket)\<close>

definition resolve_order :: "order_id \<Rightarrow> registry \<Rightarrow> (order_id \<times> order_record) option" where
  "resolve_order oid g =
    (case get_order oid g of
       Some r \<Rightarrow> Some (oid, r)
     | None \<Rightarrow>
         (case get_order_by_exchange_id oid g of
            Some r \<Rightarrow> Some (o_order_id r, r)
          | None \<Rightarrow> None))"

text \<open>The record after one more execution: quantities, average price, ledger, latency, slippage.\<close>

definition absorb_fill :: "clk \<Rightarrow> fill_event \<Rightarrow> order_record \<Rightarrow> order_record" where
  "absorb_fill c fill r =
    (let prev_cost = o_filled_quantity r * o_avg_fill_price r;
         fill_cost = fe_fill_quantity fill * fe_fill_price fill;
         new_filled = o_filled_quantity r + fe_fill_quantity fill;
         r = r\<lparr>o_filled_quantity := new_filled,
               o_remaining_quantity := std_max 0 (o_original_quantity r - new_filled)\<rparr>;
         r = (if 0 < new_filled then r\<lparr>o_avg_fill_price := (prev_cost + fill_cost) / new_filled\<rparr> else r);
         ei = o_execution_info r;
         ei = ei\<lparr>ei_fills := ei_fills ei @ [fill]\<rparr>;
         ei = (if length (ei_fills ei) = 1 \<and> 0 < o_created_at r
               then ei\<lparr>ei_first_fill_latency_ms := (fe_occurred_at fill - o_created_at r) sdiv 1000000\<rparr>
               else ei);
         ei = (if 0 < ei_expected_fill_price ei
               then ei\<lparr>ei_realized_slippage :=
                     (o_avg_fill_price r - ei_expected_fill_price ei) / ei_expected_fill_price ei\<rparr>
               else ei)
     in r\<lparr>o_execution_info := ei, o_last_updated := now c\<rparr>)"

definition is_full_fill :: "order_record \<Rightarrow> bool" where
  "is_full_fill r \<longleftrightarrow> o_original_quantity r * lit (999 / 1000) \<le> o_filled_quantity r"

text \<open>
  The result of the automaton's transition is not examined: the record takes the new state
  even where the automaton refuses it.
\<close>

definition process_fill_event :: "clk \<Rightarrow> fill_event \<Rightarrow> exec_state \<Rightarrow> bool \<times> exec_state" where
  "process_fill_event c fill x =
    (let (dup, g) = (if fe_trade_id fill \<noteq> []
                     then check_and_mark_trade_id_seen (fe_trade_id fill) (xs_registry x)
                     else (False, xs_registry x));
         x = x\<lparr>xs_registry := g\<rparr>
     in if dup then (False, x)
        else
          case resolve_order (fe_order_id fill) g of
            None \<Rightarrow> (False, x)
          | Some (eid, r) \<Rightarrow>
              if bad_amount (fe_fill_price fill) then (False, x)
              else
                let r1 = absorb_fill c fill r;
                    full = is_full_fill r1;
                    st = (if full then Filled else PartiallyFilled);
                    g1 = snd (reg_transition c eid st
                                (if full then ''Full fill (fill event)'' else ''Partial fill (fill event)'') g);
                    r2 = r1\<lparr>o_state := st\<rparr>;
                    x1 = x\<lparr>xs_registry := update_order r2 g1\<rparr>;
                    x2 = (if 0 < fe_fill_quantity fill then apply_incremental_fill c r2 fill x1 else x1)
                in (True, x2\<lparr>xs_registry := mark_fill_applied eid (xs_registry x2)\<rparr>))"

section \<open>Order updates and cancel-remaining\<close>

definition process_order_fill :: "clk \<Rightarrow> order_id \<Rightarrow> double \<Rightarrow> double \<Rightarrow> exec_state \<Rightarrow> bool \<times> exec_state" where
  "process_order_fill c oid filled_qty fill_price x =
    (case get_order oid (xs_registry x) of
       None \<Rightarrow> (False, x)
     | Some r \<Rightarrow>
         let already_applied = is_fill_applied oid (xs_registry x);
             reconciled = std_max (o_filled_quantity r) filled_qty;
             r = r\<lparr>o_filled_quantity := reconciled,
                   o_remaining_quantity := std_max 0 (o_original_quantity r - reconciled)\<rparr>;
             r = (if 0 < fill_price \<and> \<not> already_applied then r\<lparr>o_avg_fill_price := fill_price\<rparr> else r);
             r = r\<lparr>o_last_updated := now c\<rparr>;
             x = x\<lparr>xs_registry := update_order r (xs_registry x)\<rparr>
         in (True,
             if o_state r = Filled \<and> xs_portfolio x \<noteq> None \<and> \<not> already_applied
             then apply_fill_to_portfolio c r (x\<lparr>xs_registry := mark_fill_applied oid (xs_registry x)\<rparr>)
             else x))"

record cancel_remaining_action =
  ca_needed :: bool
  ca_exchange_order_id :: order_id
  ca_symbol :: symbol
  ca_order_id :: order_id
  ca_side :: side

definition check_cancel_remaining :: "order_id \<Rightarrow> registry \<Rightarrow> cancel_remaining_action" where
  "check_cancel_remaining oid g =
    (let none = \<lparr>ca_needed = False, ca_exchange_order_id = [], ca_symbol = [], ca_order_id = [],
                 ca_side = Buy\<rparr>
     in case get_order oid g of
          None \<Rightarrow> none
        | Some r \<Rightarrow>
            if ei_fill_policy (o_execution_info r) \<noteq> CancelRemaining then none
            else if o_state r \<noteq> PartiallyFilled then none
            else if o_remaining_quantity r \<le> 0 then none
            else \<lparr>ca_needed = True, ca_exchange_order_id = o_exchange_order_id r,
                  ca_symbol = o_symbol r, ca_order_id = o_order_id r, ca_side = o_side r\<rparr>)"

section \<open>Frames and invariants\<close>

lemma journal_frame [simp]:
  "xs_registry (journal_fee_event c s oid fee pr q x) = xs_registry x"
  "xs_portfolio (journal_fee_event c s oid fee pr q x) = xs_portfolio x"
  by (simp_all add: journal_fee_event_def split: option.splits)

lemma apply_registry [simp]:
  "xs_registry (apply_fill_to_portfolio c r x) = xs_registry x"
  "xs_registry (apply_incremental_fill c r f x) = xs_registry x"
  by (simp_all add: apply_fill_to_portfolio_def apply_incremental_fill_def Let_def split: option.splits)

definition xs_inv :: "exec_state \<Rightarrow> bool" where
  "xs_inv x \<longleftrightarrow> reg_inv (xs_registry x) \<and> (\<forall>p. xs_portfolio x = Some p \<longrightarrow> pf_inv p)"

lemma pf_inv_ops [inv_intros]:
  assumes "pf_inv p"
  shows "pf_inv (open_position t pos p)"
    and "pf_inv (release_cash t oid p)" and "pf_inv (record_fee t s fee oid p)"
    and "pf_inv (snd (reduce_position_leg t s ps q pr pnl p))"
    and "pf_inv (close_position_leg t s ps pr pnl p)"
  using pf_inv_exec [OF assms, of t "PfOpen pos"] pf_inv_exec [OF assms, of t "PfRelease oid"]
    pf_inv_exec [OF assms, of t "PfFee s fee oid"]
    pf_inv_exec [OF assms, of t "PfReduceLeg s ps q pr pnl"]
    pf_inv_exec [OF assms, of t "PfCloseLeg s ps pr pnl"] by simp_all

lemma apply_portfolio_inv:
  assumes "\<forall>p. xs_portfolio x = Some p \<longrightarrow> pf_inv p"
  shows "\<forall>p. xs_portfolio (apply_fill_to_portfolio c r x) = Some p \<longrightarrow> pf_inv p"
    and "\<forall>p. xs_portfolio (apply_incremental_fill c r f x) = Some p \<longrightarrow> pf_inv p"
  using assms
  by (auto simp: apply_fill_to_portfolio_def apply_incremental_fill_def Let_def
      intro!: pf_inv_ops split: option.splits if_splits)

lemma reg_seen_frame [simp]:
  "reg_seen_trade_ids (snd (reg_transition c oid s reason g)) = reg_seen_trade_ids g"
  "reg_seen_trade_ids (update_order r g) = reg_seen_trade_ids g"
  "reg_seen_trade_ids (mark_fill_applied oid g) = reg_seen_trade_ids g"
  by (auto simp: reg_transition_def update_order_def mark_fill_applied_def Let_def fsm_transition_def
      split: option.splits)

lemma fill_applied_frame [simp]:
  "is_fill_applied j (snd (reg_transition c oid s reason g)) = is_fill_applied j g"
  "is_fill_applied j (update_order r g) = is_fill_applied j g"
  "is_fill_applied j (mark_fill_applied oid g) \<longleftrightarrow> j = oid \<or> is_fill_applied j g"
  by (auto simp: reg_transition_def update_order_def mark_fill_applied_def is_fill_applied_def
      Let_def fsm_transition_def split: option.splits)

lemma reg_transition_outcome:
  assumes "reg_inv g" and "get_order oid g = Some r"
  shows "fst (reg_transition c oid s reason g) \<longleftrightarrow> is_valid_transition (o_state r) s"
    and "\<not> is_valid_transition (o_state r) s \<Longrightarrow> snd (reg_transition c oid s reason g) = g"
    and "is_valid_transition (o_state r) s \<Longrightarrow>
         reg_fsm_state oid (snd (reg_transition c oid s reason g)) = Some s"
    and "get_order oid (snd (reg_transition c oid s reason g)) =
         Some (if is_valid_transition (o_state r) s then r\<lparr>o_state := s, o_last_updated := now c\<rparr> else r)"
proof -
  obtain f where "map_of (reg_orders g) oid = Some r" "map_of (reg_fsms g) oid = Some f"
    "o_state r = fsm_state f"
    using assms(2) by (rule_tac reg_linked_cases [OF assms(1), of oid]) (auto simp: get_order_def)
  note this [simp]
  show "fst (reg_transition c oid s reason g) \<longleftrightarrow> is_valid_transition (o_state r) s"
    and "\<not> is_valid_transition (o_state r) s \<Longrightarrow> snd (reg_transition c oid s reason g) = g"
    and "is_valid_transition (o_state r) s \<Longrightarrow>
         reg_fsm_state oid (snd (reg_transition c oid s reason g)) = Some s"
    and "get_order oid (snd (reg_transition c oid s reason g)) =
         Some (if is_valid_transition (o_state r) s then r\<lparr>o_state := s, o_last_updated := now c\<rparr> else r)"
    by (simp_all add: reg_transition_def fsm_transition_def get_order_def Let_def reg_fsm_state_def)
qed

lemma get_order_update:
  "get_order j (update_order r g) =
    (if j = o_order_id r \<and> get_order j g \<noteq> None then Some r else get_order j g)"
  by (auto simp: update_order_def get_order_def Let_def al_contains_def)

lemma get_order_transition_None [simp]:
  "get_order j (snd (reg_transition c oid s reason g)) = None \<longleftrightarrow> get_order j g = None"
  by (auto simp: get_order_def reg_transition_def fsm_transition_def Let_def split: option.splits)

lemma get_order_mark [simp]: "get_order j (mark_fill_applied oid g) = get_order j g"
  by (simp add: get_order_def mark_fill_applied_def)

lemma reg_fsm_state_frame [simp]:
  "reg_fsm_state j (update_order r g) = reg_fsm_state j g"
  "reg_fsm_state j (mark_fill_applied oid g) = reg_fsm_state j g"
  by (auto simp: reg_fsm_state_def update_order_def mark_fill_applied_def Let_def)

lemma get_order_key: "reg_inv g \<Longrightarrow> get_order oid g = Some r \<Longrightarrow> o_order_id r = oid"
  by (rule reg_linked_cases [of g oid]) (auto simp: get_order_def)

lemma resolve_order_key:
  assumes "reg_inv g" and "resolve_order oid g = Some (eid, r)"
  shows "get_order eid g = Some r" and "o_order_id r = eid"
proof -
  have "get_order eid g = Some r \<and> o_order_id r = eid"
  proof (cases "get_order oid g")
    case None
    with assms(2) obtain k where "map_of (reg_exchange_id_index g) oid = Some k"
      "get_order k g = Some r" "eid = o_order_id r"
      by (auto simp: resolve_order_def get_order_by_exchange_id_def get_order_def split: option.splits)
    then show ?thesis using get_order_key [OF assms(1)] by auto
  next
    case (Some r')
    then show ?thesis using assms(2) get_order_key [OF assms(1)] by (auto simp: resolve_order_def)
  qed
  then show "get_order eid g = Some r" and "o_order_id r = eid" by simp_all
qed

lemma absorb_fill_sel [simp]:
  "o_order_id (absorb_fill c f r) = o_order_id r"
  "o_state (absorb_fill c f r) = o_state r"
  "o_filled_quantity (absorb_fill c f r) = o_filled_quantity r + fe_fill_quantity f"
  "o_original_quantity (absorb_fill c f r) = o_original_quantity r"
  "o_remaining_quantity (absorb_fill c f r) =
     std_max 0 (o_original_quantity r - (o_filled_quantity r + fe_fill_quantity f))"
  "ei_fills (o_execution_info (absorb_fill c f r)) = ei_fills (o_execution_info r) @ [f]"
  by (simp_all add: absorb_fill_def Let_def)

lemma fill_event_seen:
  assumes "reg_inv (xs_registry x)" and "fe_trade_id f \<noteq> []"
  shows "is_trade_id_seen (fe_trade_id f) (xs_registry (snd (process_fill_event c f x)))"
proof -
  obtain d g where m: "check_and_mark_trade_id_seen (fe_trade_id f) (xs_registry x) = (d, g)" by force
  then have "fe_trade_id f \<in> reg_seen_trade_ids g"
    using check_and_mark_seen [OF assms(1), of "fe_trade_id f"] by (simp add: is_trade_id_seen_def)
  then show ?thesis
    using assms(2) m
    by (auto simp: process_fill_event_def Let_def is_trade_id_seen_def split: option.splits)
qed

lemma fill_event_duplicate:
  assumes "fe_trade_id f \<noteq> []" and "is_trade_id_seen (fe_trade_id f) (xs_registry x)"
  shows "process_fill_event c f x = (False, x)"
  using assms
  by (simp add: process_fill_event_def check_and_mark_trade_id_seen_def is_trade_id_seen_def)

lemma market_fill_cases:
  assumes "reg_inv (xs_registry x)"
  obtains (refused) "process_market_fill c oid q pr xid x = (False, x)"
  | (filled) r g1 r1 x2 where "get_order oid (xs_registry x) = Some r"
      "\<not> is_fill_applied oid (xs_registry x)" "\<not> bad_amount pr" "\<not> bad_amount q"
      "is_valid_transition (o_state r) Filled"
      "g1 = snd (reg_transition c oid Filled ''Market order filled'' (xs_registry x))"
      "r1 = r\<lparr>o_state := Filled, o_exchange_order_id := xid, o_filled_quantity := q,
             o_remaining_quantity := 0, o_avg_fill_price := pr, o_last_updated := now c\<rparr>"
      "x2 = apply_fill_to_portfolio c r1 (x\<lparr>xs_registry := update_order r1 g1\<rparr>)"
      "process_market_fill c oid q pr xid x =
        (True, x2\<lparr>xs_registry := mark_fill_applied oid (update_order r1 g1)\<rparr>)"
proof (cases "is_fill_applied oid (xs_registry x) \<or> bad_amount pr \<or> bad_amount q \<or>
    get_order oid (xs_registry x) = None")
  case True
  then show ?thesis using refused by (auto simp: process_market_fill_def Let_def split: option.splits)
next
  case False
  then obtain r where r: "get_order oid (xs_registry x) = Some r" by auto
  obtain b g1 where t: "reg_transition c oid Filled ''Market order filled'' (xs_registry x) = (b, g1)"
    by force
  note out = reg_transition_outcome(1) [OF assms r, of c Filled "''Market order filled''"]
  show ?thesis
  proof (cases b)
    case True
    then show ?thesis
      using False r t out by (intro filled) (auto simp: process_market_fill_def Let_def)
  next
    case F: False
    then show ?thesis
      using False r t out by (intro refused) (auto simp: process_market_fill_def Let_def)
  qed
qed

lemma market_fill_inv:
  assumes "xs_inv x"
  shows "xs_inv (snd (process_market_fill c oid q pr xid x))"
proof -
  have g: "reg_inv (xs_registry x)" using assms by (simp add: xs_inv_def)
  then show ?thesis
  proof (cases rule: market_fill_cases [where c = c and oid = oid and q = q and pr = pr and xid = xid])
    case (filled r g1 r1 x2)
    have g1: "reg_inv g1" unfolding filled(6) by (rule reg_inv_transition [OF g])
    have "o_order_id r1 = oid" using get_order_key [OF g filled(1)] filled(7) by simp
    then have "reg_fsm_state (o_order_id r1) g1 = Some (o_state r1)"
      using reg_transition_outcome(3) [OF g filled(1,5)] filled(6,7) by simp
    then have "reg_inv (mark_fill_applied oid (update_order r1 g1))"
      by (rule reg_inv_mark_fill [OF reg_inv_update [OF g1]])
    moreover have "\<forall>p. xs_portfolio x2 = Some p \<longrightarrow> pf_inv p"
      unfolding filled(8) using assms by (intro apply_portfolio_inv(1)) (simp add: xs_inv_def)
    ultimately show ?thesis by (simp add: filled(9) xs_inv_def)
  qed (use assms in simp)
qed

text \<open>The registry after the trade id is marked, and the shape of an applied fill event.\<close>

definition marked_registry :: "fill_event \<Rightarrow> registry \<Rightarrow> registry" where
  "marked_registry f g = (if fe_trade_id f \<noteq> [] then snd (check_and_mark_trade_id_seen (fe_trade_id f) g) else g)"

lemma marked_registry_frame [simp]:
  "get_order oid (marked_registry f g) = get_order oid g"
  "resolve_order oid (marked_registry f g) = resolve_order oid g"
  "reg_fsm_state oid (marked_registry f g) = reg_fsm_state oid g"
  by (simp_all add: marked_registry_def get_order_def resolve_order_def get_order_by_exchange_id_def
      reg_fsm_state_def split: option.split)

lemma marked_registry_inv: "reg_inv g \<Longrightarrow> reg_inv (marked_registry f g)"
  using trade_dedup.mark_inv by (simp add: marked_registry_def)

definition fill_state :: "order_record \<Rightarrow> order_state" where
  "fill_state r = (if is_full_fill r then Filled else PartiallyFilled)"

definition fill_reason :: "order_record \<Rightarrow> string" where
  "fill_reason r = (if is_full_fill r then ''Full fill (fill event)'' else ''Partial fill (fill event)'')"

lemma fill_event_eq:
  assumes "fe_trade_id f = [] \<or> \<not> is_trade_id_seen (fe_trade_id f) (xs_registry x)"
    and "resolve_order (fe_order_id f) (xs_registry x) = Some (eid, r)"
    and "\<not> bad_amount (fe_fill_price f)"
    and "r1 = absorb_fill c f r" and "r2 = r1\<lparr>o_state := fill_state r1\<rparr>"
    and "g2 = update_order r2 (snd (reg_transition c eid (fill_state r1) (fill_reason r1)
                                     (marked_registry f (xs_registry x))))"
    and "x1 = x\<lparr>xs_registry := g2\<rparr>"
    and "x2 = (if 0 < fe_fill_quantity f then apply_incremental_fill c r2 f x1 else x1)"
  shows "process_fill_event c f x = (True, x2\<lparr>xs_registry := mark_fill_applied eid g2\<rparr>)"
proof -
  have mark: "(if fe_trade_id f \<noteq> [] then check_and_mark_trade_id_seen (fe_trade_id f) (xs_registry x)
      else (False, xs_registry x)) = (False, marked_registry f (xs_registry x))"
    using assms(1) check_and_mark_result [of "fe_trade_id f" "xs_registry x"]
    by (auto simp: marked_registry_def prod_eq_iff)
  have "xs_registry x2 = g2" by (simp add: assms(7,8))
  moreover have "process_fill_event c f x = (True, x2\<lparr>xs_registry := mark_fill_applied eid (xs_registry x2)\<rparr>)"
    unfolding process_fill_event_def mark
    using assms(2,3) by (simp add: assms(4-8) fill_state_def fill_reason_def Let_def)
  ultimately show ?thesis by simp
qed

lemma fill_event_applied:
  assumes "fe_trade_id f = [] \<or> \<not> is_trade_id_seen (fe_trade_id f) (xs_registry x)"
    and "resolve_order (fe_order_id f) (xs_registry x) = Some (eid, r)"
    and "\<not> bad_amount (fe_fill_price f)"
    and "r1 = absorb_fill c f r" and "r2 = r1\<lparr>o_state := fill_state r1\<rparr>"
    and "g2 = update_order r2 (snd (reg_transition c eid (fill_state r1) (fill_reason r1)
                                     (marked_registry f (xs_registry x))))"
  shows "\<exists>x'. process_fill_event c f x = (True, x') \<and> xs_registry x' = mark_fill_applied eid g2 \<and>
      ((\<forall>p. xs_portfolio x = Some p \<longrightarrow> pf_inv p) \<longrightarrow> (\<forall>q. xs_portfolio x' = Some q \<longrightarrow> pf_inv q))"
proof -
  define x1 where "x1 = x\<lparr>xs_registry := g2\<rparr>"
  define x2 where "x2 = (if 0 < fe_fill_quantity f then apply_incremental_fill c r2 f x1 else x1)"
  have px: "xs_portfolio x1 = xs_portfolio x" by (simp add: x1_def)
  have imp: "\<forall>q. xs_portfolio x2 = Some q \<longrightarrow> pf_inv q" if a: "\<forall>p. xs_portfolio x = Some p \<longrightarrow> pf_inv p"
  proof -
    have "\<forall>q. xs_portfolio (apply_incremental_fill c r2 f x1) = Some q \<longrightarrow> pf_inv q"
      by (rule apply_portfolio_inv(2)) (use a in \<open>simp only: px\<close>)
    with a show ?thesis by (cases "0 < fe_fill_quantity f") (simp_all only: x2_def if_True if_False px)
  qed
  have sel: "xs_portfolio (x2\<lparr>xs_registry := w\<rparr>) = xs_portfolio x2"
    "xs_registry (x2\<lparr>xs_registry := w\<rparr>) = w" for w by simp_all
  show ?thesis
    by (intro exI [of _ "x2\<lparr>xs_registry := mark_fill_applied eid g2\<rparr>"] conjI impI
        fill_event_eq [OF assms x1_def x2_def]) (simp_all only: sel, rule imp)
qed

text \<open>What an opening fill adds to its leg.\<close>

lemma positions_frame [simp]:
  "get_position_leg s ps (release_cash t oid p) = get_position_leg s ps p"
  "get_position_leg s ps (record_fee t s' fee oid p) = get_position_leg s ps p"
  by (simp_all add: release_cash_def record_fee_def get_position_leg_def Let_def split: option.splits)

definition opened_size :: "double option \<Rightarrow> double \<Rightarrow> double" where
  "opened_size old q = (case old of None \<Rightarrow> q
     | Some s \<Rightarrow> if 0 < s then (if 0 < s + q then s + q else s) else q)"

lemma open_size:
  "map_option pos_size (get_position_leg (o_symbol r) (side_to_position_side (o_side r))
     (open_position t (opening_position c r q pr) p)) =
   Some (opened_size (map_option pos_size
     (get_position_leg (o_symbol r) (side_to_position_side (o_side r)) p)) q)"
  by (simp add: open_position_def opening_position_def get_position_leg_def side_key_eq Let_def
      opened_size_def split: option.splits)

definition leg_size :: "symbol \<Rightarrow> position_side \<Rightarrow> exec_state \<Rightarrow> double option" where
  "leg_size s ps x = map_option pos_size (Option.bind (xs_portfolio x) (get_position_leg s ps))"

lemma leg_size_registry [simp]: "leg_size s ps (x\<lparr>xs_registry := g\<rparr>) = leg_size s ps x"
  by (simp add: leg_size_def)

lemma leg_size_open_fill:
  assumes "o_trade_side r = TradeOpen" and "xs_portfolio x = Some p" and "o_symbol r = s"
    and "side_to_position_side (o_side r) = ps"
  shows "leg_size s ps (apply_fill_to_portfolio c r x) = Some (opened_size (leg_size s ps x) (o_filled_quantity r))"
    and "0 < fe_fill_price f \<Longrightarrow>
      leg_size s ps (apply_incremental_fill c r f x) = Some (opened_size (leg_size s ps x) (fe_fill_quantity f))"
proof -
  have "\<not> fe_fill_price f \<le> 0" if "0 < fe_fill_price f"
    using that by (cases "fe_fill_price f") (auto simp: zero_double_def)
  with assms open_size [of r "now c" c _ _ p]
  show "leg_size s ps (apply_fill_to_portfolio c r x) = Some (opened_size (leg_size s ps x) (o_filled_quantity r))"
    and "0 < fe_fill_price f \<Longrightarrow>
      leg_size s ps (apply_incremental_fill c r f x) = Some (opened_size (leg_size s ps x) (fe_fill_quantity f))"
    by (simp_all add: apply_fill_to_portfolio_def apply_incremental_fill_def leg_size_def Let_def)
qed

lemma apply_fill_portfolio_some:
  "xs_portfolio x = Some p \<Longrightarrow> \<exists>p'. xs_portfolio (apply_fill_to_portfolio c r x) = Some p'"
  by (simp add: apply_fill_to_portfolio_def Let_def)

section \<open>Properties\<close>

definition ex_fp_order :: order_record where
  "ex_fp_order = default_order\<lparr>o_order_id := ''A'', o_exchange_order_id := ''X'',
     o_symbol := ''BTCUSDT'', o_original_quantity := Fin 10, o_remaining_quantity := Fin 10\<rparr>"

definition ex_fp_clk :: clk where
  "ex_fp_clk = \<lparr>now = 1, wall = 1, steady = 1\<rparr>"

definition ex_fp_state :: exec_state where
  "ex_fp_state =
    \<lparr>xs_registry = snd (reg_transition ex_fp_clk ''A'' PendingAck ''submit''
                          (register_order ex_fp_clk ex_fp_order (registry_init 60000))),
     xs_portfolio = Some (portfolio_init (Fin 1000)), xs_journal = None\<rparr>"

definition ex_fp_fill :: "string \<Rightarrow> double \<Rightarrow> double \<Rightarrow> fill_event" where
  "ex_fp_fill tid qty pr = \<lparr>fe_order_id = ''X'', fe_fill_quantity = qty, fe_fill_price = pr,
     fe_cumulative_filled = 0, fe_fee = 0, fe_trade_id = tid, fe_occurred_at = 2\<rparr>"

lemma ex_fp_reg_inv: "reg_inv (xs_registry ex_fp_state)"
  by (simp add: ex_fp_state_def ex_fp_order_def default_order_def
      reg_inv_transition [OF reg_inv_register [OF reg_inv_init]])

lemmas ex_fp_eval = ex_fp_state_def ex_fp_order_def default_order_def register_order_def
  registry_init_def al_emplace_def al_contains_def reg_transition_def fsm_transition_def fsm_init_def
  set_order_state_def get_order_def get_order_by_exchange_id_def resolve_order_def is_valid_transition_def

lemma ex_fp_market_ok:
  "\<exists>x1. process_market_fill ex_fp_clk ''A'' (Fin 10) (Fin 100) ''X'' ex_fp_state = (True, x1)"
  by (simp add: process_market_fill_def ex_fp_eval is_fill_applied_def bad_amount_def zero_double_def Let_def)

text \<open>
  C2. A market fill is applied completely or not at all.  When \<^verbatim>\<open>process_market_fill\<close>
  answers false, nothing has changed.  When it answers true, quantity and price were finite
  and positive, the order was in a state its automaton may leave for \<open>Filled\<close>, and now the
  record and the automaton are both \<open>Filled\<close>, the record carries the reported quantity
  with nothing remaining, and every later market fill for the same order is refused with
  no effect.
\<close>

theorem market_fill_once:
  assumes "reg_inv (xs_registry x)" and "process_market_fill c oid q pr xid x = (ok, x')"
  shows "(\<not> ok \<longrightarrow> x' = x) \<and>
    (ok \<longrightarrow> isfinite q \<and> 0 < q \<and> isfinite pr \<and> 0 < pr \<and>
       (\<exists>r. get_order oid (xs_registry x) = Some r \<and> is_valid_transition (o_state r) Filled) \<and>
       (\<exists>r'. get_order oid (xs_registry x') = Some r' \<and> o_state r' = Filled \<and>
             o_filled_quantity r' = q \<and> o_remaining_quantity r' = 0 \<and> o_avg_fill_price r' = pr) \<and>
       reg_fsm_state oid (xs_registry x') = Some Filled \<and>
       (\<forall>c2 q2 pr2 xid2. process_market_fill c2 oid q2 pr2 xid2 x' = (False, x')))"
  using assms(1)
proof (cases rule: market_fill_cases [where c = c and oid = oid and q = q and pr = pr and xid = xid])
  case (filled r g1 r1 x2)
  have key: "o_order_id r1 = oid" using get_order_key [OF assms(1) filled(1)] filled(7) by simp
  have reg: "xs_registry x' = mark_fill_applied oid (update_order r1 g1)" "ok"
    using assms(2) filled(9) by auto
  have "get_order oid (xs_registry x') = Some r1"
    using reg_transition_outcome(4) [OF assms(1) filled(1)] filled(6)
    by (simp add: reg(1) get_order_update key)
  moreover have "reg_fsm_state oid (xs_registry x') = Some Filled"
    using reg_transition_outcome(3) [OF assms(1) filled(1,5)] by (simp add: reg(1) filled(6))
  moreover have "is_fill_applied oid (xs_registry x')" by (simp add: reg(1))
  moreover have "isfinite q \<and> 0 < q \<and> isfinite pr \<and> 0 < pr"
    using filled(3,4) by (auto simp: bad_amount_def isfinite_iff zero_double_def)
  ultimately show ?thesis
    using filled(1,5,7) reg(2) by (simp add: process_market_fill_def Let_def)
qed (use assms(2) in auto)

theorem market_fill_once_witness:
  "\<exists>x'. process_market_fill ex_fp_clk ''A'' (Fin 10) (Fin 100) ''X'' ex_fp_state = (True, x') \<and>
        reg_fsm_state ''A'' (xs_registry x') = Some Filled"
  using ex_fp_market_ok market_fill_once [OF ex_fp_reg_inv] by fastforce

text \<open>
  A trade id is consumed by its first delivery: whatever happened to that delivery, any
  later fill event with the same id is refused and changes nothing.  This also holds when
  the first delivery was dropped for a missing price or an unknown order, so the same trade
  arriving again with its real price is dropped too.
\<close>

theorem trade_id_consumed:
  assumes "reg_inv (xs_registry x)" and "fe_trade_id f \<noteq> []" and "fe_trade_id f' = fe_trade_id f"
  shows "process_fill_event c' f' (snd (process_fill_event c f x)) =
         (False, snd (process_fill_event c f x))"
  using fill_event_seen [OF assms(1,2)] assms(2,3) by (intro fill_event_duplicate) simp_all

theorem trade_id_consumed_witness:
  "let x = snd (process_fill_event ex_fp_clk (ex_fp_fill ''T'' (Fin 10) (Fin 0)) ex_fp_state) in
   xs_portfolio x = xs_portfolio ex_fp_state \<and>
   process_fill_event ex_fp_clk (ex_fp_fill ''T'' (Fin 10) (Fin 100)) x = (False, x)"
proof -
  have "xs_portfolio (snd (process_fill_event ex_fp_clk (ex_fp_fill ''T'' (Fin 10) (Fin 0)) ex_fp_state)) =
      xs_portfolio ex_fp_state"
    by (auto simp: process_fill_event_def ex_fp_fill_def bad_amount_def zero_double_def Let_def
        split: prod.splits option.splits)
  then show ?thesis
    using trade_id_consumed [OF ex_fp_reg_inv, of "ex_fp_fill ''T'' (Fin 10) (Fin 0)"
        "ex_fp_fill ''T'' (Fin 10) (Fin 100)" ex_fp_clk ex_fp_clk]
    by (simp add: ex_fp_fill_def Let_def)
qed

text \<open>
  C38. A fresh fill event with a usable price, for an order it resolves to (by internal or
  exchange id), is always accepted; it adds its quantity to the record's cumulative fill,
  appends itself to the order's ledger, leaves a remaining quantity that is never negative,
  and sets the state to \<open>Filled\<close> or \<open>PartiallyFilled\<close> by the 99.9% rule.  Where the order's
  automaton allows that state, registry and portfolio invariants are kept and record and
  automaton agree.
\<close>

theorem fill_event_effect:
  assumes inv: "xs_inv x"
    and fresh: "fe_trade_id f = [] \<or> \<not> is_trade_id_seen (fe_trade_id f) (xs_registry x)"
    and res: "resolve_order (fe_order_id f) (xs_registry x) = Some (eid, r)"
    and price: "\<not> bad_amount (fe_fill_price f)"
  shows "\<exists>x' r'. process_fill_event c f x = (True, x') \<and> get_order eid (xs_registry x') = Some r' \<and>
     o_filled_quantity r' = o_filled_quantity r + fe_fill_quantity f \<and>
     0 \<le> o_remaining_quantity r' \<and>
     ei_fills (o_execution_info r') = ei_fills (o_execution_info r) @ [f] \<and>
     o_state r' = (if o_original_quantity r * lit (999 / 1000) \<le> o_filled_quantity r'
                   then Filled else PartiallyFilled) \<and>
     is_fill_applied eid (xs_registry x') \<and>
     (is_valid_transition (o_state r) (o_state r') \<longrightarrow>
        xs_inv x' \<and> reg_fsm_state eid (xs_registry x') = Some (o_state r'))"
proof -
  let ?r = "absorb_fill c f r" let ?g = "marked_registry f (xs_registry x)"
  let ?r2 = "?r\<lparr>o_state := fill_state ?r\<rparr>"
  let ?g1 = "snd (reg_transition c eid (fill_state ?r) (fill_reason ?r) ?g)"
  let ?g2 = "mark_fill_applied eid (update_order ?r2 ?g1)"
  have g: "reg_inv (xs_registry x)" and g': "reg_inv ?g"
    using inv by (simp_all add: xs_inv_def marked_registry_inv)
  note key = resolve_order_key [OF g res]
  have og: "get_order eid ?g = Some r" using key(1) by simp
  obtain x' where x': "process_fill_event c f x = (True, x')" "xs_registry x' = ?g2"
    "\<forall>q. xs_portfolio x' = Some q \<longrightarrow> pf_inv q"
    using fill_event_applied [OF fresh res price refl refl refl, of c] inv by (auto simp: xs_inv_def)
  have r2: "get_order eid (xs_registry x') = Some ?r2"
    using reg_transition_outcome(4) [OF g' og] by (simp add: x'(2) get_order_update key(2))
  have rem: "0 \<le> std_max 0 d" for d using std_max_ge_left [of 0 d] by (simp add: zero_double_def)
  have "xs_inv x' \<and> reg_fsm_state eid (xs_registry x') = Some (fill_state ?r)"
    if "is_valid_transition (o_state r) (fill_state ?r)"
  proof -
    have fsm: "reg_fsm_state eid ?g1 = Some (fill_state ?r)"
      using reg_transition_outcome(3) [OF g' og that] .
    then have "reg_inv (update_order ?r2 ?g1)"
      by (intro reg_inv_update reg_inv_transition [OF g']) (simp add: key(2))
    with fsm x'(2,3) show ?thesis by (simp add: xs_inv_def reg_inv_mark_fill)
  qed
  with x'(1,2) r2 rem show ?thesis by (auto simp: fill_state_def is_full_fill_def)
qed

theorem fill_event_effect_witness:
  "\<exists>x' r'. process_fill_event ex_fp_clk (ex_fp_fill ''T'' (Fin 4) (Fin 100)) ex_fp_state = (True, x') \<and>
      get_order ''A'' (xs_registry x') = Some r' \<and> o_filled_quantity r' = Fin 0 + Fin 4"
proof -
  let ?f = "ex_fp_fill ''T'' (Fin 4) (Fin 100)"
  have "pf_inv (portfolio_init (Fin 1000))"
    by (simp add: pf_inv_def portfolio_init_def one_double_def)
  then have "xs_inv ex_fp_state"
    using ex_fp_reg_inv by (simp add: xs_inv_def) (simp add: ex_fp_state_def)
  moreover have "\<exists>r. resolve_order ''X'' (xs_registry ex_fp_state) = Some (''A'', r) \<and>
      o_filled_quantity r = Fin 0"
    by (simp add: ex_fp_state_def ex_fp_order_def default_order_def register_order_def registry_init_def
        al_emplace_def al_contains_def reg_transition_def fsm_transition_def fsm_init_def
        set_order_state_def get_order_def get_order_by_exchange_id_def resolve_order_def
        zero_double_def Let_def)
  moreover have "\<not> is_trade_id_seen ''T'' (xs_registry ex_fp_state)"
    by (simp add: ex_fp_state_def is_trade_id_seen_def register_order_def registry_init_def Let_def)
  ultimately show ?thesis
    using fill_event_effect [of ex_fp_state ?f "''A''" _ ex_fp_clk]
    by (auto simp: ex_fp_fill_def bad_amount_def zero_double_def)
qed

text \<open>
  Where the automaton does not allow the state (a fill that arrives after the order was
  cancelled, or a second partial fill), the event is applied all the same: the portfolio
  and the record move, the automaton stays, and when the order's state was another one the
  record and its automaton disagree from then on.
\<close>

theorem refused_fill_still_applied:
  assumes g: "reg_inv (xs_registry x)"
    and fresh: "fe_trade_id f = [] \<or> \<not> is_trade_id_seen (fe_trade_id f) (xs_registry x)"
    and res: "resolve_order (fe_order_id f) (xs_registry x) = Some (eid, r)"
    and price: "\<not> bad_amount (fe_fill_price f)"
    and terminal: "terminal_state (o_state r)" and "o_state r \<noteq> Filled"
  shows "\<exists>x' r'. process_fill_event c f x = (True, x') \<and> get_order eid (xs_registry x') = Some r' \<and>
     o_filled_quantity r' = o_filled_quantity r + fe_fill_quantity f \<and>
     o_state r' \<in> {Filled, PartiallyFilled} \<and>
     reg_fsm_state eid (xs_registry x') = Some (o_state r) \<and> \<not> reg_linked_at (xs_registry x') eid"
proof -
  let ?r = "absorb_fill c f r" let ?g = "marked_registry f (xs_registry x)"
  let ?r2 = "?r\<lparr>o_state := fill_state ?r\<rparr>"
  have g': "reg_inv ?g" using g by (rule marked_registry_inv)
  note key = resolve_order_key [OF g res]
  have og: "get_order eid ?g = Some r" using key(1) by simp
  have "\<not> is_valid_transition (o_state r) (fill_state ?r)" using terminal by (rule terminal_no_transition)
  note same = reg_transition_outcome(2) [OF g' og this]
  obtain x' where x': "process_fill_event c f x = (True, x')"
    "xs_registry x' = mark_fill_applied eid (update_order ?r2 ?g)"
    using fill_event_applied [OF fresh res price refl refl refl, of c] by (auto simp: same)
  have r2: "get_order eid (xs_registry x') = Some ?r2"
    using key by (simp add: x'(2) get_order_update)
  have fsm: "reg_fsm_state eid (xs_registry x') = Some (o_state r)"
    using key(1) by (rule_tac reg_linked_cases [OF g, of eid])
      (auto simp: x'(2) reg_fsm_state_def get_order_def marked_registry_def update_order_def
        mark_fill_applied_def Let_def)
  have "fill_state ?r \<noteq> o_state r"
    using assms(6) terminal by (auto simp: fill_state_def terminal_state_def)
  then have "\<not> reg_linked_at (xs_registry x') eid"
    using r2 fsm by (auto simp: reg_linked_at_def get_order_def reg_fsm_state_def rel_option_iff)
  with x' r2 fsm show ?thesis by (auto simp: fill_state_def)
qed

definition ex_fp_cancelled :: exec_state where
  "ex_fp_cancelled = ex_fp_state\<lparr>xs_registry :=
     snd (reg_transition ex_fp_clk ''A'' Cancelled ''cancel'' (xs_registry ex_fp_state))\<rparr>"

theorem refused_fill_still_applied_witness:
  "\<exists>x' r'. process_fill_event ex_fp_clk (ex_fp_fill ''T'' (Fin 4) (Fin 100)) ex_fp_cancelled = (True, x') \<and>
      get_order ''A'' (xs_registry x') = Some r' \<and> o_state r' \<in> {Filled, PartiallyFilled} \<and>
      reg_fsm_state ''A'' (xs_registry x') = Some Cancelled"
proof -
  let ?f = "ex_fp_fill ''T'' (Fin 4) (Fin 100)"
  have "reg_inv (xs_registry ex_fp_cancelled)"
    by (simp add: ex_fp_cancelled_def reg_inv_transition [OF ex_fp_reg_inv])
  moreover have "\<exists>r. resolve_order ''X'' (xs_registry ex_fp_cancelled) = Some (''A'', r) \<and>
      o_state r = Cancelled"
    by (simp add: ex_fp_cancelled_def ex_fp_eval Let_def)
  moreover have "\<not> is_trade_id_seen ''T'' (xs_registry ex_fp_cancelled)"
    by (simp add: ex_fp_cancelled_def ex_fp_state_def is_trade_id_seen_def register_order_def registry_init_def Let_def)
  ultimately show ?thesis
    using refused_fill_still_applied [of ex_fp_cancelled ?f "''A''" _ ex_fp_clk]
    by (fastforce simp: ex_fp_fill_def bad_amount_def zero_double_def terminal_state_def)
qed

text \<open>
  The guards protect the portfolio in one order of arrival only.  An opening market order
  confirmed over REST and then reported once by the fill channel is booked twice: the leg
  first grows by the confirmed quantity and then again by the reported one, and the record
  counts both, because \<^verbatim>\<open>process_fill_event\<close> never asks whether the order's fill was
  already applied.
\<close>

theorem rest_then_ws_books_twice:
  assumes inv: "reg_inv (xs_registry x)"
    and mf: "process_market_fill c oid q pr xid x = (True, x1)"
    and ord: "get_order oid (xs_registry x) = Some r" "o_trade_side r = TradeOpen"
    and port: "xs_portfolio x = Some p"
    and f: "fe_order_id f = oid" "fe_trade_id f = [] \<or> \<not> is_trade_id_seen (fe_trade_id f) (xs_registry x)"
      "\<not> bad_amount (fe_fill_price f)" "0 < fe_fill_quantity f"
  shows "let leg = leg_size (o_symbol r) (side_to_position_side (o_side r));
             s1 = opened_size (leg x) q
         in leg x1 = Some s1 \<and>
            (\<exists>x2 r2. process_fill_event c2 f x1 = (True, x2) \<and>
               leg x2 = Some (opened_size (Some s1) (fe_fill_quantity f)) \<and>
               get_order oid (xs_registry x2) = Some r2 \<and>
               o_filled_quantity r2 = q + fe_fill_quantity f)"
  using inv
proof (cases rule: market_fill_cases [where c = c and oid = oid and q = q and pr = pr and xid = xid])
  case refused
  then show ?thesis using mf by simp
next
  case (filled r' g1 r1 y)
  let ?leg = "leg_size (o_symbol r) (side_to_position_side (o_side r))"
  let ?g = "mark_fill_applied oid (update_order r1 g1)"
  have r: "r' = r" using filled(1) ord(1) by simp
  have x1: "x1 = y\<lparr>xs_registry := ?g\<rparr>" using mf filled(9) by simp
  have r1: "o_trade_side r1 = TradeOpen" "o_symbol r1 = o_symbol r" "o_side r1 = o_side r"
    "o_filled_quantity r1 = q" "o_order_id r1 = oid"
    using filled(7) ord get_order_key [OF inv ord(1)] by (simp_all add: r)
  have leg1: "?leg x1 = Some (opened_size (?leg x) q)"
    using leg_size_open_fill(1) [OF r1(1) _ r1(2), of "x\<lparr>xs_registry := update_order r1 g1\<rparr>" p _ c] port
    by (simp add: x1 filled(8) r1)
  obtain p1 where p1: "xs_portfolio x1 = Some p1"
    using apply_fill_portfolio_some [of "x\<lparr>xs_registry := update_order r1 g1\<rparr>" p c r1] port
    by (auto simp: x1 filled(8))
  have get1: "get_order oid (xs_registry x1) = Some r1"
    using reg_transition_outcome(4) [OF inv filled(1)] filled(6) by (simp add: x1 get_order_update r1)
  then have res: "resolve_order (fe_order_id f) (xs_registry x1) = Some (oid, r1)"
    by (simp add: resolve_order_def f(1))
  have fresh: "fe_trade_id f = [] \<or> \<not> is_trade_id_seen (fe_trade_id f) (xs_registry x1)"
    using f(2) by (simp add: x1 is_trade_id_seen_def filled(6))
  define a where "a = absorb_fill c2 f r1"
  define b where "b = a\<lparr>o_state := fill_state a\<rparr>"
  define g2 where "g2 = update_order b (snd (reg_transition c2 oid (fill_state a) (fill_reason a)
      (marked_registry f (xs_registry x1))))"
  define z where "z = x1\<lparr>xs_registry := g2\<rparr>"
  have "0 < fe_fill_price f" using f(3) by (auto simp: bad_amount_def isfinite_iff zero_double_def)
  then have "?leg (apply_incremental_fill c2 b f z) = Some (opened_size (?leg z) (fe_fill_quantity f))"
    by (intro leg_size_open_fill(2)) (use r1 p1 in \<open>simp_all add: b_def a_def z_def absorb_fill_def Let_def\<close>)
  moreover have "process_fill_event c2 f x1 =
      (True, (apply_incremental_fill c2 b f z)\<lparr>xs_registry := mark_fill_applied oid g2\<rparr>)"
    using fill_event_eq [OF fresh res f(3) a_def b_def g2_def z_def refl] f(4) by simp
  moreover have "get_order oid g2 = Some b"
    using get1 r1(5) by (simp add: g2_def get_order_update b_def a_def)
  ultimately show ?thesis using leg1 r1(4) by (simp add: Let_def z_def b_def a_def)
qed

theorem rest_then_ws_books_twice_witness:
  "\<exists>x1 x2 r2. process_market_fill ex_fp_clk ''A'' (Fin 10) (Fin 100) ''X'' ex_fp_state = (True, x1) \<and>
     process_fill_event ex_fp_clk ((ex_fp_fill ''T'' (Fin 10) (Fin 100))\<lparr>fe_order_id := ''A''\<rparr>) x1 = (True, x2) \<and>
     leg_size ''BTCUSDT'' Long x1 = Some (Fin 10) \<and> leg_size ''BTCUSDT'' Long x2 = Some (Fin 20) \<and>
     get_order ''A'' (xs_registry x2) = Some r2 \<and> o_filled_quantity r2 = Fin 20"
proof -
  let ?f = "(ex_fp_fill ''T'' (Fin 10) (Fin 100))\<lparr>fe_order_id := ''A''\<rparr>"
  obtain r where r: "get_order ''A'' (xs_registry ex_fp_state) = Some r" "o_trade_side r = TradeOpen"
    "o_symbol r = ''BTCUSDT''" "o_side r = Buy" "o_state r = PendingAck"
    by (simp add: ex_fp_eval Let_def)
  obtain x1 where x1: "process_market_fill ex_fp_clk ''A'' (Fin 10) (Fin 100) ''X'' ex_fp_state = (True, x1)"
    using ex_fp_market_ok by blast
  have f: "fe_order_id ?f = ''A''" "fe_trade_id ?f = ''T''" "\<not> bad_amount (fe_fill_price ?f)"
    "0 < fe_fill_quantity ?f" "fe_fill_quantity ?f = Fin 10"
    by (simp_all add: ex_fp_fill_def bad_amount_def zero_double_def)
  have t: "\<not> is_trade_id_seen ''T'' (xs_registry ex_fp_state)"
    by (simp add: ex_fp_state_def is_trade_id_seen_def register_order_def registry_init_def Let_def)
  have l0: "leg_size ''BTCUSDT'' Long ex_fp_state = None" "xs_portfolio ex_fp_state = Some (portfolio_init (Fin 1000))"
    by (simp_all add: leg_size_def ex_fp_state_def get_position_leg_def portfolio_init_def)
  show ?thesis
    using rest_then_ws_books_twice [OF ex_fp_reg_inv x1 r(1,2) l0(2) f(1) _ f(3,4), of ex_fp_clk] t x1
    by (simp add: f(2,5) l0(1) r(3,4) side_to_position_side_def opened_size_def zero_double_def Let_def)
qed

end
