(* ===== verification/Cancel_Recovery.thy ===== *)
theory Cancel_Recovery
  imports Fill_Processor
begin

text \<open>
  \<^verbatim>\<open>CancelManager\<close> (\<^verbatim>\<open>src/src/execution/cancel/cancel_manager.cpp\<close>) and
  \<^verbatim>\<open>RecoveryManager\<close> (\<^verbatim>\<open>src/src/execution/recovery/recovery_manager.cpp\<close>): how an order
  leaves the registry's active set when the engine cancels it, and how orders of unknown
  fate are settled against the exchange.

  The exchange is \<^verbatim>\<open>IOrderSubmitter\<close>; its answers within one call are the parameter
  \<open>exchange\<close> (a null submitter is \<open>None\<close>).  A pass asks about an order once, so a function
  of the order is all a pass can observe.  Reasons of transitions are kept in ASCII: the
  dash of \<^verbatim>\<open>Cancel rejected\<close> is a hyphen and the \<^verbatim>\<open>force cancel\<close> arrows are cut.
\<close>

section \<open>The exchange's answers\<close>

record order_fill_detail =
  fd_success :: bool
  fd_fill_price :: double
  fd_filled_qty :: double
  fd_original_qty :: double
  fd_status :: string

definition is_fully_filled :: "order_fill_detail \<Rightarrow> bool" where
  "is_fully_filled d \<longleftrightarrow> fd_success d \<and> 0 < fd_filled_qty d \<and> fd_original_qty d \<le> fd_filled_qty d"

definition is_partially_filled :: "order_fill_detail \<Rightarrow> bool" where
  "is_partially_filled d \<longleftrightarrow> fd_success d \<and> 0 < fd_filled_qty d \<and> fd_filled_qty d < fd_original_qty d"

record exchange =
  xr_cancel_order :: "order_id \<Rightarrow> symbol \<Rightarrow> bool"
  xr_query_order_fill_detail :: "order_id \<Rightarrow> symbol \<Rightarrow> order_fill_detail"

section \<open>Cancellation\<close>

definition requires_margin_reserve :: "order_record \<Rightarrow> bool" where
  "requires_margin_reserve r \<longleftrightarrow> o_trade_side r \<noteq> TradeClose"

definition release_cash_if_needed :: "clk \<Rightarrow> order_record \<Rightarrow> exec_state \<Rightarrow> exec_state" where
  "release_cash_if_needed c r x =
    (case xs_portfolio x of
       None \<Rightarrow> x
     | Some p \<Rightarrow> if requires_margin_reserve r
                 then x\<lparr>xs_portfolio := Some (release_cash (now c) (o_order_id r) p)\<rparr> else x)"

definition do_cancel :: "clk \<Rightarrow> exchange option \<Rightarrow> order_id \<Rightarrow> exec_state \<Rightarrow> bool \<times> exec_state" where
  "do_cancel c sub oid x =
    (case sub of
       None \<Rightarrow> (False, x)
     | Some e \<Rightarrow>
         (case get_order oid (xs_registry x) of
            None \<Rightarrow> (False, x)
          | Some r \<Rightarrow>
              (case reg_transition c oid CancelPending ''Cancel requested'' (xs_registry x) of
                 (False, _) \<Rightarrow> (False, x)
               | (True, g1) \<Rightarrow>
                   if xr_cancel_order e (o_exchange_order_id r) (o_symbol r) then
                     let g2 = snd (reg_transition c oid Cancelled ''Cancel confirmed'' g1)
                     in (True, release_cash_if_needed c r (x\<lparr>xs_registry := g2\<rparr>))
                   else
                     (False, x\<lparr>xs_registry := reg_force_transition c oid UnknownRecovery
                                 ''Cancel rejected - awaiting reconciliation'' g1\<rparr>))))"

definition cancel_order :: "clk \<Rightarrow> exchange option \<Rightarrow> order_id \<Rightarrow> exec_state \<Rightarrow> unit tb_result \<times> exec_state" where
  "cancel_order c sub oid x =
    (case do_cancel c sub oid x of
       (True, x') \<Rightarrow> (Inr (), x')
     | (False, x') \<Rightarrow> (Inl ExecutionFailed, x'))"

text \<open>\<^verbatim>\<open>for (order : orders) if (do_cancel(order)) cancelled.push_back(order)\<close>\<close>

fun cancel_each :: "clk \<Rightarrow> exchange option \<Rightarrow> order_id list \<Rightarrow> exec_state \<Rightarrow> order_id list \<times> exec_state" where
  "cancel_each c sub [] x = ([], x)"
| "cancel_each c sub (oid # oids) x =
    (let (ok, x1) = do_cancel c sub oid x; (done, x2) = cancel_each c sub oids x1
     in (if ok then oid # done else done, x2))"

definition cancel_all_for_symbol :: "clk \<Rightarrow> exchange option \<Rightarrow> symbol \<Rightarrow> exec_state \<Rightarrow> order_id list \<times> exec_state" where
  "cancel_all_for_symbol c sub s x =
    cancel_each c sub (map o_order_id (filter order_is_active (orders_for_symbol s (xs_registry x)))) x"

definition cancel_all :: "clk \<Rightarrow> exchange option \<Rightarrow> exec_state \<Rightarrow> order_id list \<times> exec_state" where
  "cancel_all c sub x = cancel_each c sub (map o_order_id (active_orders (xs_registry x))) x"

fun cancel_timed_out :: "clk \<Rightarrow> exchange option \<Rightarrow> order_id list \<Rightarrow> exec_state \<Rightarrow> order_id list \<times> exec_state" where
  "cancel_timed_out c sub [] x = ([], x)"
| "cancel_timed_out c sub (oid # oids) x =
    (case get_order oid (xs_registry x) of
       None \<Rightarrow> cancel_timed_out c sub oids x
     | Some r \<Rightarrow>
         if order_is_terminal r then cancel_timed_out c sub oids x
         else
           let (ok, x1) = do_cancel c sub oid x; (done, x2) = cancel_timed_out c sub oids x1
           in (if ok then oid # done else done, x2))"

definition cancel_timed_out_orders ::
  "clk \<Rightarrow> exchange option \<Rightarrow> int \<Rightarrow> exec_state \<Rightarrow> order_id list \<times> exec_state" where
  "cancel_timed_out_orders c sub max_open_duration_ms x =
    cancel_timed_out c sub (get_timed_out_orders c max_open_duration_ms (xs_registry x)) x"

definition cancel_remaining :: "clk \<Rightarrow> exchange option \<Rightarrow> order_id \<Rightarrow> exec_state \<Rightarrow> bool \<times> exec_state" where
  "cancel_remaining c sub oid x =
    (case get_order oid (xs_registry x) of
       None \<Rightarrow> (False, x)
     | Some r \<Rightarrow> do_cancel c sub oid x)"

section \<open>Recovery\<close>

definition orders_in :: "order_state set \<Rightarrow> registry \<Rightarrow> order_record list" where
  "orders_in S g = filter (\<lambda>r. o_state r \<in> S) (map snd (reg_orders g))"

definition mark_uncertain_orders :: "clk \<Rightarrow> registry \<Rightarrow> registry" where
  "mark_uncertain_orders c g =
    fold (\<lambda>r. reg_force_transition c (o_order_id r) UnknownRecovery ''Recovery: uncertain order detected'')
      (filter (\<lambda>r. o_state r = PendingAck \<or> o_state r = Open) (active_orders g)) g"

definition recover_order :: "clk \<Rightarrow> exchange \<Rightarrow> order_record \<Rightarrow> registry \<Rightarrow> registry" where
  "recover_order c e r g =
    (let oid = o_order_id r;
         d = xr_query_order_fill_detail e (o_exchange_order_id r) (o_symbol r);
         cancelled = xr_cancel_order e (o_exchange_order_id r) (o_symbol r)
     in if fd_success d \<and> 0 < fd_filled_qty d then
          let qty = std_clamp (fd_filled_qty d) 0 (o_original_quantity r);
              full_fill = (o_original_quantity r * lit (999 / 1000) \<le> qty);
              g1 = reg_force_transition c oid (if full_fill then Filled else PartiallyFilled)
                     ''Recovery: confirmed fill by exchange'' g;
              g2 = (case get_order oid g1 of
                      None \<Rightarrow> g1
                    | Some u \<Rightarrow>
                        let u = (if 0 < fd_fill_price d then u\<lparr>o_avg_fill_price := fd_fill_price d\<rparr> else u)
                        in update_order
                             (u\<lparr>o_filled_quantity := qty,
                                o_remaining_quantity := std_max 0 (o_original_quantity u - qty),
                                o_last_updated := now c\<rparr>) g1)
          in if \<not> full_fill \<and> cancelled
             then reg_force_transition c oid Cancelled
                    ''Recovery: partial fill confirmed, remainder cancelled'' g2
             else g2
        else if cancelled then
          reg_force_transition c oid Cancelled ''Recovery: confirmed cancelled on exchange'' g
        else g)"

definition recover_unknown_orders :: "clk \<Rightarrow> exchange option \<Rightarrow> registry \<Rightarrow> registry" where
  "recover_unknown_orders c sub g =
    (case sub of
       None \<Rightarrow> g
     | Some e \<Rightarrow> fold (recover_order c e) (orders_in {UnknownRecovery} g) g)"

definition stale_in :: "clk \<Rightarrow> order_state \<Rightarrow> int \<Rightarrow> registry \<Rightarrow> order_record list" where
  "stale_in c st max_ms g =
    filter (\<lambda>r. case time_in_state_ms c (o_order_id r) g of None \<Rightarrow> False | Some ms \<Rightarrow> max_ms < ms)
      (orders_in {st} g)"

definition force_cancel_each :: "clk \<Rightarrow> string \<Rightarrow> order_record list \<Rightarrow> registry \<Rightarrow> registry" where
  "force_cancel_each c reason rs g = fold (\<lambda>r. reg_force_transition c (o_order_id r) Cancelled reason) rs g"

definition force_resolve_stale_cancels :: "clk \<Rightarrow> int \<Rightarrow> registry \<Rightarrow> nat \<times> registry" where
  "force_resolve_stale_cancels c max_stale_ms g =
    (let stale = stale_in c CancelPending max_stale_ms g
     in (length stale, force_cancel_each c ''Recovery: stale CancelPending'' stale g))"

definition resolve_recovery_timeout :: "clk \<Rightarrow> int \<Rightarrow> registry \<Rightarrow> nat \<times> registry" where
  "resolve_recovery_timeout c max_recovery_ms g =
    (let stuck = stale_in c UnknownRecovery max_recovery_ms g
     in (length stuck, force_cancel_each c ''Recovery timeout'' stuck g))"

record reconciliation_result =
  rr_orders_recovered :: nat
  rr_orders_force_cancelled :: nat
  rr_anomalies_detected :: nat
  rr_anomaly_descriptions :: "string list"
  rr_success :: bool

definition count_state :: "(order_state \<Rightarrow> bool) \<Rightarrow> order_record list \<Rightarrow> registry \<Rightarrow> nat" where
  "count_state P before g =
    length (filter (\<lambda>r. case get_order (o_order_id r) g of None \<Rightarrow> False | Some a \<Rightarrow> P (o_state a)) before)"

definition describe_anomalies :: "order_record list \<Rightarrow> registry \<Rightarrow> string list" where
  "describe_anomalies before g =
    concat (map (\<lambda>r. case get_order (o_order_id r) g of
        None \<Rightarrow> []
      | Some a \<Rightarrow> if o_state a \<noteq> Filled \<and> o_state a \<noteq> Cancelled
          then [''Order '' @ o_order_id r @ '' still in '' @ order_state_to_string (o_state a)] else []) before)"

definition run_reconciliation ::
  "clk \<Rightarrow> exchange option \<Rightarrow> int \<Rightarrow> registry \<Rightarrow> reconciliation_result \<times> registry" where
  "run_reconciliation c sub cancel_confirmation_timeout_ms g =
    (let g1 = mark_uncertain_orders c g;
         before = orders_in {UnknownRecovery} g1;
         g2 = recover_unknown_orders c sub g1;
         (stale_resolved, g3) = force_resolve_stale_cancels c (cancel_confirmation_timeout_ms * 3) g2;
         anomalies = count_state (\<lambda>s. s \<noteq> Filled \<and> s \<noteq> Cancelled) before g2
     in (\<lparr>rr_orders_recovered = count_state (\<lambda>s. s = Filled) before g2,
          rr_orders_force_cancelled = count_state (\<lambda>s. s = Cancelled) before g2 + stale_resolved,
          rr_anomalies_detected = anomalies, rr_anomaly_descriptions = describe_anomalies before g2,
          rr_success = (anomalies = 0)\<rparr>, g3))"

section \<open>What a cancellation does to one order\<close>

lemma get_order_transition_other:
  "j \<noteq> oid \<Longrightarrow> get_order j (snd (reg_transition c oid s reason g)) = get_order j g"
  by (auto simp: get_order_def reg_transition_def fsm_transition_def Let_def split: option.splits)

lemma get_order_force:
  assumes "reg_inv g"
  shows "get_order j (reg_force_transition c oid s reason g) =
    (if j = oid then map_option (\<lambda>r. r\<lparr>o_state := s, o_last_updated := now c\<rparr>) (get_order oid g)
     else get_order j g)"
  by (rule reg_linked_cases [OF assms, of oid])
    (auto simp: get_order_def reg_force_transition_def Let_def split: option.splits)

lemma fill_applied_force:
  assumes "reg_inv g" and "get_order oid g = Some r"
  shows "is_fill_applied j (reg_force_transition c oid s reason g) \<longleftrightarrow> j \<noteq> oid \<and> is_fill_applied j g"
  using assms(2) by (rule_tac reg_linked_cases [OF assms(1), of oid])
    (auto simp: get_order_def reg_force_transition_def is_fill_applied_def Let_def)

lemma release_registry [simp]: "xs_registry (release_cash_if_needed c r x) = xs_registry x"
  by (simp add: release_cash_if_needed_def split: option.splits)

lemma release_pf_inv:
  "\<forall>p. xs_portfolio x = Some p \<longrightarrow> pf_inv p \<Longrightarrow>
   \<forall>p. xs_portfolio (release_cash_if_needed c r x) = Some p \<longrightarrow> pf_inv p"
  by (auto simp: release_cash_if_needed_def pf_inv_ops split: option.splits if_splits)

text \<open>The record of an order after the exchange has answered its cancellation.\<close>

definition confirms :: "exchange \<Rightarrow> order_record \<Rightarrow> bool" where
  "confirms e r \<longleftrightarrow> xr_cancel_order e (o_exchange_order_id r) (o_symbol r)"

definition cancellable :: "order_record \<Rightarrow> bool" where
  "cancellable r \<longleftrightarrow> is_valid_transition (o_state r) CancelPending"

definition cancel_effect :: "clk \<Rightarrow> exchange \<Rightarrow> order_record \<Rightarrow> order_record" where
  "cancel_effect c e r =
    (if \<not> cancellable r then r
     else r\<lparr>o_state := (if confirms e r then Cancelled else UnknownRecovery), o_last_updated := now c\<rparr>)"

lemma pending_to_cancelled: "is_valid_transition CancelPending Cancelled"
  by (simp add: is_valid_transition_def)

lemma do_cancel_refused:
  assumes "reg_inv (xs_registry x)" and "get_order oid (xs_registry x) = Some r" and "\<not> cancellable r"
  shows "do_cancel c (Some e) oid x = (False, x)"
  using assms(2,3) reg_transition_outcome(1) [OF assms(1,2), of c CancelPending "''Cancel requested''"]
  by (auto simp: do_cancel_def cancellable_def split: prod.splits bool.splits)

lemma do_cancel_accepted:
  assumes "reg_inv (xs_registry x)" and "get_order oid (xs_registry x) = Some r" and "cancellable r"
    and "g1 = snd (reg_transition c oid CancelPending ''Cancel requested'' (xs_registry x))"
  shows "do_cancel c (Some e) oid x =
    (if confirms e r
     then (True, release_cash_if_needed c r
             (x\<lparr>xs_registry := snd (reg_transition c oid Cancelled ''Cancel confirmed'' g1)\<rparr>))
     else (False, x\<lparr>xs_registry := reg_force_transition c oid UnknownRecovery
             ''Cancel rejected - awaiting reconciliation'' g1\<rparr>))"
proof -
  have "reg_transition c oid CancelPending ''Cancel requested'' (xs_registry x) = (True, g1)"
    using reg_transition_outcome(1) [OF assms(1,2), of c CancelPending "''Cancel requested''"] assms(3,4)
    by (simp add: cancellable_def prod_eq_iff)
  then show ?thesis using assms(2) by (simp add: do_cancel_def confirms_def Let_def)
qed

lemma do_cancel_outcome:
  assumes "xs_inv x"
  shows "get_order j (xs_registry (snd (do_cancel c (Some e) oid x))) =
      (if j = oid then map_option (cancel_effect c e) (get_order oid (xs_registry x))
       else get_order j (xs_registry x))" (is ?orders)
    and "fst (do_cancel c (Some e) oid x) \<longleftrightarrow>
      (\<exists>r. get_order oid (xs_registry x) = Some r \<and> cancellable r \<and> confirms e r)" (is ?answer)
    and "xs_inv (snd (do_cancel c (Some e) oid x))" (is ?inv)
proof -
  have g: "reg_inv (xs_registry x)" using assms by (simp add: xs_inv_def)
  have "?orders \<and> ?answer \<and> ?inv"
  proof (cases "get_order oid (xs_registry x)")
    case None
    then show ?thesis using assms by (simp add: do_cancel_def)
  next
    case (Some r)
    show ?thesis
    proof (cases "cancellable r")
      case False
      then show ?thesis using assms Some by (simp add: do_cancel_refused [OF g Some] cancel_effect_def)
    next
      case True
      define g1 where "g1 = snd (reg_transition c oid CancelPending ''Cancel requested'' (xs_registry x))"
      have g1: "reg_inv g1" unfolding g1_def by (rule reg_inv_transition [OF g])
      have o1: "get_order oid g1 = Some (r\<lparr>o_state := CancelPending, o_last_updated := now c\<rparr>)"
        using reg_transition_outcome(4) [OF g Some] True by (simp add: g1_def cancellable_def)
      have oth: "j \<noteq> oid \<Longrightarrow> get_order j g1 = get_order j (xs_registry x)"
        by (simp add: g1_def get_order_transition_other)
      note eq = do_cancel_accepted [OF g Some True g1_def, of e]
      note end1 = reg_transition_outcome(4) [OF g1 o1, of c Cancelled "''Cancel confirmed''"]
      have pf: "\<forall>p. xs_portfolio x = Some p \<longrightarrow> pf_inv p" using assms by (simp add: xs_inv_def)
      let ?xc = "x\<lparr>xs_registry := snd (reg_transition c oid Cancelled ''Cancel confirmed'' g1)\<rparr>"
      have "\<forall>p. xs_portfolio (release_cash_if_needed c r ?xc) = Some p \<longrightarrow> pf_inv p"
        by (rule release_pf_inv) (use pf in simp)
      then have inv: ?inv
        using pf g1 by (auto simp: eq xs_inv_def reg_inv_transition reg_inv_force)
      show ?thesis
        using Some True end1 oth inv pending_to_cancelled
        by (auto simp: eq get_order_force [OF g1] o1 get_order_transition_other cancel_effect_def)
    qed
  qed
  then show ?orders and ?answer and ?inv by blast+
qed

lemma cancel_each_outcome:
  assumes "xs_inv x" and "distinct oids"
  shows "get_order j (xs_registry (snd (cancel_each c (Some e) oids x))) =
      (if j \<in> set oids then map_option (cancel_effect c e) (get_order j (xs_registry x))
       else get_order j (xs_registry x)) \<and>
    fst (cancel_each c (Some e) oids x) =
      filter (\<lambda>oid. \<exists>r. get_order oid (xs_registry x) = Some r \<and> cancellable r \<and> confirms e r) oids \<and>
    xs_inv (snd (cancel_each c (Some e) oids x))"
  using assms
proof (induction oids arbitrary: x)
  case (Cons oid oids)
  let ?x1 = "snd (do_cancel c (Some e) oid x)"
  note o1 = do_cancel_outcome [OF Cons.prems(1)]
  have "get_order k (xs_registry ?x1) = get_order k (xs_registry x)" if "k \<in> set oids" for k
    using that Cons.prems(2) by (auto simp: o1(1))
  then have same: "filter (\<lambda>oid. \<exists>r. get_order oid (xs_registry ?x1) = Some r \<and> cancellable r \<and> confirms e r) oids =
      filter (\<lambda>oid. \<exists>r. get_order oid (xs_registry x) = Some r \<and> cancellable r \<and> confirms e r) oids"
    by (intro filter_cong) auto
  have d: "distinct oids" "oid \<notin> set oids" using Cons.prems(2) by auto
  note ih = Cons.IH [OF o1(3) [of c e oid] d(1)]
  have "cancel_each c (Some e) (oid # oids) x =
      (if fst (do_cancel c (Some e) oid x) then oid # fst (cancel_each c (Some e) oids ?x1)
       else fst (cancel_each c (Some e) oids ?x1), snd (cancel_each c (Some e) oids ?x1))"
    by (simp add: case_prod_unfold Let_def)
  with ih d(2) show ?case unfolding same by (simp add: o1(1) [of _ c e oid] o1(2) [of c e oid]) blast
qed simp

lemma order_in_registry:
  assumes "reg_inv g" and "r \<in> set (map snd (reg_orders g))"
  shows "get_order (o_order_id r) g = Some r"
proof -
  obtain k where "(k, r) \<in> set (reg_orders g)" using assms(2) by auto
  then have "get_order k g = Some r"
    using assms(1) by (simp add: get_order_def reg_inv_defs map_of_Some_in_set)
  with get_order_key [OF assms(1) this] show ?thesis by simp
qed

lemma order_ids:
  assumes "reg_inv g"
  shows "map o_order_id (map snd (reg_orders g)) = map fst (reg_orders g)"
proof -
  have "o_order_id r = k" if "(k, r) \<in> set (reg_orders g)" for k r
    using that assms get_order_key [OF assms, of k r]
    by (simp add: get_order_def reg_inv_defs map_of_Some_in_set)
  then show ?thesis by (auto intro!: map_cong)
qed

lemma distinct_order_ids:
  assumes "reg_inv g"
  shows "distinct (map o_order_id (filter P (map snd (reg_orders g))))"
proof (rule distinct_map_filter)
  show "distinct (map o_order_id (map snd (reg_orders g)))"
    unfolding order_ids [OF assms] using assms by (simp add: reg_inv_def reg_keys_inv_def al_wf_def)
qed

lemma active_cancellable:
  "order_is_active r \<Longrightarrow> cancellable r \<longleftrightarrow> o_state r \<noteq> CancelPending"
  by (auto simp: order_is_active_def active_state_def cancellable_def is_valid_transition_def)

lemma released_no_pending:
  assumes "xs_portfolio x = Some p" and "requires_margin_reserve r" and "pf_inv p"
  shows "\<exists>p'. xs_portfolio (release_cash_if_needed c r x) = Some p' \<and>
    map_of (pf_pending_orders p') (o_order_id r) = None"
  using assms
  by (auto simp: release_cash_if_needed_def release_cash_def Let_def split: option.splits)

section \<open>Properties of cancellation\<close>

definition ex_ok :: exchange where
  "ex_ok = \<lparr>xr_cancel_order = (\<lambda>_ _. True),
            xr_query_order_fill_detail = (\<lambda>_ _. \<lparr>fd_success = False, fd_fill_price = 0,
              fd_filled_qty = 0, fd_original_qty = 0, fd_status = []\<rparr>)\<rparr>"

definition ex_no :: exchange where
  "ex_no = ex_ok\<lparr>xr_cancel_order := (\<lambda>_ _. False)\<rparr>"

lemma ex_fp_inv: "xs_inv ex_fp_state"
proof -
  have "pf_inv (portfolio_init (Fin 1000))"
    by (simp add: pf_inv_def portfolio_init_def one_double_def)
  then show ?thesis using ex_fp_reg_inv by (simp add: xs_inv_def) (simp add: ex_fp_state_def)
qed

lemma ex_fp_order_A:
  "\<exists>r. get_order ''A'' (xs_registry ex_fp_state) = Some r \<and> o_trade_side r = TradeOpen \<and>
       o_symbol r = ''BTCUSDT'' \<and> o_side r = Buy \<and> o_state r = PendingAck \<and> o_order_id r = ''A'' \<and>
       o_filled_quantity r = Fin 0"
  by (simp add: ex_fp_eval Let_def zero_double_def)

text \<open>
  Cancelling one order touches that order only.  If its automaton cannot enter
  \<open>CancelPending\<close>, nothing changes.  If the exchange confirms, record and automaton are
  \<open>Cancelled\<close> and, for an opening order, no reservation under its id is left.  If the exchange
  refuses, the order is parked in \<open>UnknownRecovery\<close>, the portfolio is untouched and the mark
  that its fills were applied is erased.
\<close>

theorem cancel_outcome:
  assumes inv: "xs_inv x" and ord: "get_order oid (xs_registry x) = Some r"
    and res: "do_cancel c (Some e) oid x = (ok, x')"
  shows "(\<forall>j. j \<noteq> oid \<longrightarrow> get_order j (xs_registry x') = get_order j (xs_registry x)) \<and>
    (\<not> cancellable r \<longrightarrow> \<not> ok \<and> x' = x) \<and>
    (cancellable r \<and> confirms e r \<longrightarrow>
       ok \<and> get_order oid (xs_registry x') = Some (r\<lparr>o_state := Cancelled, o_last_updated := now c\<rparr>) \<and>
       reg_fsm_state oid (xs_registry x') = Some Cancelled \<and>
       (requires_margin_reserve r \<longrightarrow>
         (\<forall>p. xs_portfolio x' = Some p \<longrightarrow> map_of (pf_pending_orders p) oid = None))) \<and>
    (cancellable r \<and> \<not> confirms e r \<longrightarrow>
       \<not> ok \<and> get_order oid (xs_registry x') = Some (r\<lparr>o_state := UnknownRecovery, o_last_updated := now c\<rparr>) \<and>
       xs_portfolio x' = xs_portfolio x \<and> \<not> is_fill_applied oid (xs_registry x'))"
proof -
  have g: "reg_inv (xs_registry x)" using inv by (simp add: xs_inv_def)
  have x': "x' = snd (do_cancel c (Some e) oid x)" "ok = fst (do_cancel c (Some e) oid x)"
    using res by simp_all
  note out = do_cancel_outcome [OF inv]
  define g1 where "g1 = snd (reg_transition c oid CancelPending ''Cancel requested'' (xs_registry x))"
  have g1: "reg_inv g1" unfolding g1_def by (rule reg_inv_transition [OF g])
  have ref: "\<not> cancellable r \<Longrightarrow> x' = x" using do_cancel_refused [OF g ord] by (simp add: x')
  have acc: "\<not> is_fill_applied oid (xs_registry x') \<and> xs_portfolio x' = xs_portfolio x"
    if "cancellable r" "\<not> confirms e r"
    using do_cancel_accepted [OF g ord that(1) g1_def, of e] that(2) fill_applied_force [OF g1]
      reg_transition_outcome(4) [OF g ord] that(1)
    by (auto simp: x' g1_def)
  have con: "reg_fsm_state oid (xs_registry x') = Some Cancelled \<and>
      (requires_margin_reserve r \<longrightarrow> (\<forall>p. xs_portfolio x' = Some p \<longrightarrow> map_of (pf_pending_orders p) oid = None))"
    if "cancellable r" "confirms e r"
  proof -
    let ?y = "x\<lparr>xs_registry := snd (reg_transition c oid Cancelled ''Cancel confirmed'' g1)\<rparr>"
    have y: "x' = release_cash_if_needed c r ?y"
      using do_cancel_accepted [OF g ord that(1) g1_def, of e] that(2) by (simp add: x')
    have "get_order oid g1 = Some (r\<lparr>o_state := CancelPending, o_last_updated := now c\<rparr>)"
      using reg_transition_outcome(4) [OF g ord] that(1) by (simp add: g1_def cancellable_def)
    from reg_transition_outcome(3) [OF g1 this] have "reg_fsm_state oid (xs_registry x') = Some Cancelled"
      by (simp add: y pending_to_cancelled)
    moreover have "map_of (pf_pending_orders p) oid = None"
      if r: "requires_margin_reserve r" and p: "xs_portfolio x' = Some p" for p
    proof -
      obtain q where q: "xs_portfolio ?y = Some q" "pf_inv q"
        using p inv by (auto simp: y release_cash_if_needed_def xs_inv_def split: option.splits)
      from released_no_pending [OF q(1) r q(2), of c] p get_order_key [OF g ord] show ?thesis
        by (simp add: y)
    qed
    ultimately show ?thesis by blast
  qed
  show ?thesis
    using ref acc con ord by (simp add: x' out(1) [of _ c e oid] out(2) [of c e oid] cancel_effect_def)
qed

theorem cancel_outcome_witness:
  "\<exists>x' r'. do_cancel ex_fp_clk (Some ex_ok) ''A'' ex_fp_state = (True, x') \<and>
     get_order ''A'' (xs_registry x') = Some r' \<and> o_state r' = Cancelled"
proof -
  obtain r where r: "get_order ''A'' (xs_registry ex_fp_state) = Some r" "o_state r = PendingAck"
    using ex_fp_order_A by blast
  then have "cancellable r" "confirms ex_ok r"
    by (simp_all add: cancellable_def is_valid_transition_def confirms_def ex_ok_def)
  moreover obtain ok x' where e: "do_cancel ex_fp_clk (Some ex_ok) ''A'' ex_fp_state = (ok, x')" by force
  ultimately show ?thesis using cancel_outcome [OF ex_fp_inv r(1) e] by simp
qed

text \<open>
  \<^verbatim>\<open>cancel_all\<close> settles every active order: afterwards each is \<open>Cancelled\<close> if the exchange
  confirmed and in \<open>UnknownRecovery\<close> if it refused, except the orders that were already
  waiting in \<open>CancelPending\<close>, which are left as they are; orders that were not active are
  untouched; and the ids returned are exactly the confirmed ones, in order.
\<close>

theorem cancel_all_settles:
  assumes inv: "xs_inv x" and res: "cancel_all c (Some e) x = (ids, x')"
  shows "(\<forall>r \<in> set (active_orders (xs_registry x)).
      get_order (o_order_id r) (xs_registry x') =
        Some (if o_state r = CancelPending then r
              else r\<lparr>o_state := (if confirms e r then Cancelled else UnknownRecovery),
                     o_last_updated := now c\<rparr>)) \<and>
    (\<forall>oid r. get_order oid (xs_registry x) = Some r \<and> \<not> order_is_active r \<longrightarrow>
      get_order oid (xs_registry x') = Some r) \<and>
    ids = map o_order_id (filter (\<lambda>r. o_state r \<noteq> CancelPending \<and> confirms e r)
            (active_orders (xs_registry x))) \<and>
    xs_inv x'"
proof -
  let ?g = "xs_registry x" let ?act = "active_orders ?g"
  let ?ids = "map o_order_id ?act"
  have g: "reg_inv ?g" using inv by (simp add: xs_inv_def)
  have dist: "distinct ?ids" using distinct_order_ids [OF g] by (simp add: active_orders_def)
  have get: "get_order (o_order_id r) ?g = Some r \<and> order_is_active r" if "r \<in> set ?act" for r
    using that order_in_registry [OF g, of r] by (auto simp: active_orders_def)
  note out = cancel_each_outcome [OF inv dist, of _ c e]
  have x': "x' = snd (cancel_each c (Some e) ?ids x)" "ids = fst (cancel_each c (Some e) ?ids x)"
    using res by (simp_all add: cancel_all_def)
  have "ids = map o_order_id (filter (\<lambda>r. cancellable r \<and> confirms e r) ?act)"
    using out get by (simp add: x' filter_map comp_def cong: filter_cong)
  moreover have "filter (\<lambda>r. cancellable r \<and> confirms e r) ?act =
      filter (\<lambda>r. o_state r \<noteq> CancelPending \<and> confirms e r) ?act"
    using get active_cancellable by (intro filter_cong) auto
  moreover have "oid \<notin> set ?ids" if "get_order oid ?g = Some r" "\<not> order_is_active r" for oid r
    using that get by auto
  ultimately show ?thesis
    using out get active_cancellable by (auto simp: x' cancel_effect_def)
qed

theorem cancel_all_settles_witness:
  "\<exists>x'. cancel_all ex_fp_clk (Some ex_no) ex_fp_state = ([], x') \<and> xs_inv x'"
proof -
  obtain ids x' where e: "cancel_all ex_fp_clk (Some ex_no) ex_fp_state = (ids, x')" by force
  from cancel_all_settles [OF ex_fp_inv e] show ?thesis
    using e by (auto simp: confirms_def ex_no_def)
qed

section \<open>Passes over a snapshot of orders\<close>

text \<open>
  The recovery passes take a snapshot of the registry and then treat its orders one by one.
  The contract of such a treatment: it keeps the invariant, replaces the record of its own
  order by \<open>eff\<close> of the snapshot and leaves every other record alone.
\<close>

locale per_order =
  fixes treat :: "order_record \<Rightarrow> registry \<Rightarrow> registry"
    and eff :: "order_record \<Rightarrow> order_record"
  assumes treat_inv: "reg_inv g \<Longrightarrow> get_order (o_order_id r) g = Some r \<Longrightarrow> reg_inv (treat r g)"
    and treat_order: "reg_inv g \<Longrightarrow> get_order (o_order_id r) g = Some r \<Longrightarrow>
      get_order j (treat r g) = (if j = o_order_id r then Some (eff r) else get_order j g)"
begin

lemma pass_outcome:
  assumes "reg_inv g" and "distinct (map o_order_id rs)"
    and "\<forall>r \<in> set rs. get_order (o_order_id r) g = Some r"
  shows "reg_inv (fold treat rs g) \<and>
    (\<forall>r \<in> set rs. get_order (o_order_id r) (fold treat rs g) = Some (eff r)) \<and>
    (\<forall>j. j \<notin> o_order_id ` set rs \<longrightarrow> get_order j (fold treat rs g) = get_order j g)"
  using assms
proof (induction rs arbitrary: g)
  case (Cons r rs)
  let ?g = "treat r g" let ?f = "fold treat rs ?g"
  have r: "get_order (o_order_id r) g = Some r" using Cons.prems(3) by simp
  note ord = treat_order [OF Cons.prems(1) r]
  have nin: "o_order_id r \<notin> o_order_id ` set rs" and d: "distinct (map o_order_id rs)"
    using Cons.prems(2) by auto
  have "\<forall>q \<in> set rs. get_order (o_order_id q) ?g = Some q"
  proof
    fix q assume q: "q \<in> set rs"
    then have "o_order_id q \<noteq> o_order_id r" using nin by (metis image_eqI)
    moreover have "get_order (o_order_id q) g = Some q" using Cons.prems(3) q by simp
    ultimately show "get_order (o_order_id q) ?g = Some q" by (simp only: ord if_False)
  qed
  note ih = Cons.IH [OF treat_inv [OF Cons.prems(1) r] d this]
  have other: "get_order j ?f = get_order j ?g" if "j \<notin> o_order_id ` set rs" for j
    using ih that by blast
  have "get_order (o_order_id r) ?f = Some (eff r)" using other [OF nin] by (simp add: ord)
  moreover have "get_order j ?f = get_order j g" if "j \<notin> o_order_id ` set (r # rs)" for j
    using other [of j] that by (simp add: ord)
  moreover have "fold treat (r # rs) g = ?f" by simp
  ultimately show ?case using ih by (metis set_ConsD)
qed simp

lemma snapshot_pass:
  assumes "reg_inv g" and "rs = filter P (map snd (reg_orders g))"
  shows "reg_inv (fold treat rs g) \<and>
    (\<forall>oid r. get_order oid g = Some r \<longrightarrow>
      get_order oid (fold treat rs g) = Some (if P r then eff r else r)) \<and>
    (\<forall>oid. get_order oid g = None \<longrightarrow> get_order oid (fold treat rs g) = None)"
proof -
  have rs: "\<forall>r \<in> set rs. get_order (o_order_id r) g = Some r"
    using order_in_registry [OF assms(1)] by (auto simp: assms(2))
  have hit: "r \<in> set rs \<and> o_order_id r = oid" if "get_order oid g = Some r" "P r" for oid r
  proof -
    have "(oid, r) \<in> set (reg_orders g)" using that(1) by (auto simp: get_order_def dest: map_of_SomeD)
    with that get_order_key [OF assms(1) that(1)] show ?thesis by (force simp: assms(2))
  qed
  have miss: "oid \<notin> o_order_id ` set rs"
    if "get_order oid g = None \<or> (\<exists>r. get_order oid g = Some r \<and> \<not> P r)" for oid
    using that rs by (auto simp: assms(2))
  have "distinct (map o_order_id rs)" using distinct_order_ids [OF assms(1)] assms(2) by simp
  note out = pass_outcome [OF assms(1) this rs]
  have "get_order oid (fold treat rs g) = Some (if P r then eff r else r)" if "get_order oid g = Some r" for oid r
    using out hit [OF that] miss [of oid] that by (cases "P r") auto
  with out miss show ?thesis by simp
qed

end

definition forced :: "clk \<Rightarrow> order_state \<Rightarrow> order_record \<Rightarrow> order_record" where
  "forced c s r = r\<lparr>o_state := s, o_last_updated := now c\<rparr>"

interpretation force: per_order "\<lambda>r. reg_force_transition c (o_order_id r) s reason" "forced c s" for c s reason
  by unfold_locales (auto simp: get_order_force forced_def intro: reg_inv_force)

definition recover_effect :: "clk \<Rightarrow> exchange \<Rightarrow> order_record \<Rightarrow> order_record" where
  "recover_effect c e r =
    (let d = xr_query_order_fill_detail e (o_exchange_order_id r) (o_symbol r);
         qty = std_clamp (fd_filled_qty d) 0 (o_original_quantity r);
         full_fill = (o_original_quantity r * lit (999 / 1000) \<le> qty);
         st = (if full_fill then Filled else if confirms e r then Cancelled else PartiallyFilled)
     in if fd_success d \<and> 0 < fd_filled_qty d then
          r\<lparr>o_state := st, o_filled_quantity := qty,
            o_remaining_quantity := std_max 0 (o_original_quantity r - qty),
            o_avg_fill_price := (if 0 < fd_fill_price d then fd_fill_price d else o_avg_fill_price r),
            o_last_updated := now c\<rparr>
        else if confirms e r then forced c Cancelled r
        else r)"

interpretation recover: per_order "recover_order c e" "recover_effect c e" for c e
proof
  fix g r
  assume g: "reg_inv g" and r: "get_order (o_order_id r) g = Some r"
  define d where "d = xr_query_order_fill_detail e (o_exchange_order_id r) (o_symbol r)"
  define qty where "qty = std_clamp (fd_filled_qty d) 0 (o_original_quantity r)"
  define full where "full \<longleftrightarrow> o_original_quantity r * lit (999 / 1000) \<le> qty"
  define st where "st = (if full then Filled else PartiallyFilled)"
  define g1 where "g1 = reg_force_transition c (o_order_id r) st ''Recovery: confirmed fill by exchange'' g"
  define v where "v = (if 0 < fd_fill_price d then (forced c st r)\<lparr>o_avg_fill_price := fd_fill_price d\<rparr>
      else forced c st r)"
  define u where "u = v\<lparr>o_filled_quantity := qty,
      o_remaining_quantity := std_max 0 (o_original_quantity v - qty), o_last_updated := now c\<rparr>"
  have g1: "reg_inv g1" "get_order (o_order_id r) g1 = Some (forced c st r)"
    using g r by (simp_all add: g1_def reg_inv_force get_order_force forced_def)
  have u: "o_order_id u = o_order_id r" "o_state u = st" by (simp_all add: u_def v_def forced_def)
  have "reg_fsm_state (o_order_id u) g1 = Some (o_state u)"
    using g1 by (rule_tac reg_linked_cases [OF g1(1), of "o_order_id r"])
      (auto simp: get_order_def reg_fsm_state_def u forced_def)
  then have g2: "reg_inv (update_order u g1)" by (rule reg_inv_update [OF g1(1)])
  have o2: "get_order j (update_order u g1) = (if j = o_order_id r then Some u else get_order j g)" for j
    using g g1(2) by (auto simp: get_order_update u g1_def get_order_force)
  have eq: "recover_order c e r g =
      (if fd_success d \<and> 0 < fd_filled_qty d then
         (if \<not> full \<and> confirms e r
          then reg_force_transition c (o_order_id r) Cancelled
                 ''Recovery: partial fill confirmed, remainder cancelled'' (update_order u g1)
          else update_order u g1)
       else if confirms e r
       then reg_force_transition c (o_order_id r) Cancelled ''Recovery: confirmed cancelled on exchange'' g
       else g)"
    using g1(2) unfolding recover_order_def d_def [symmetric] confirms_def [symmetric] Let_def
      qty_def [symmetric] full_def [symmetric] st_def [symmetric] g1_def [symmetric]
    by (simp add: u_def v_def)
  show "reg_inv (recover_order c e r g)" using g g2 by (simp add: eq reg_inv_force)
  have eff: "recover_effect c e r =
      (if fd_success d \<and> 0 < fd_filled_qty d then (if \<not> full \<and> confirms e r then forced c Cancelled u else u)
       else if confirms e r then forced c Cancelled r else r)"
    unfolding recover_effect_def d_def [symmetric] Let_def qty_def [symmetric] full_def [symmetric]
    by (cases r) (simp add: u_def v_def forced_def st_def)
  fix j
  show "get_order j (recover_order c e r g) =
      (if j = o_order_id r then Some (recover_effect c e r) else get_order j g)"
    using g g2 r by (simp add: eq eff o2 get_order_force forced_def)
qed

lemma recover_effect_state:
  "o_state r = UnknownRecovery \<Longrightarrow>
   o_state (recover_effect c e r) \<in> {Filled, Cancelled, PartiallyFilled, UnknownRecovery}"
  by (simp add: recover_effect_def forced_def Let_def)

lemma mark_uncertain_outcome:
  assumes "reg_inv g"
  shows "reg_inv (mark_uncertain_orders c g)" and
    "get_order oid (mark_uncertain_orders c g) =
      map_option (\<lambda>r. if o_state r \<in> {PendingAck, Open} then forced c UnknownRecovery r else r) (get_order oid g)"
proof -
  let ?P = "\<lambda>r. order_is_active r \<and> (o_state r = PendingAck \<or> o_state r = Open)"
  have P: "?P r \<longleftrightarrow> o_state r \<in> {PendingAck, Open}" for r
    by (auto simp: order_is_active_def active_state_def)
  have "filter (\<lambda>r. o_state r = PendingAck \<or> o_state r = Open) (active_orders g) =
      filter ?P (map snd (reg_orders g))"
    by (simp add: active_orders_def conj_commute)
  note out = force.snapshot_pass [OF assms this, of c UnknownRecovery "''Recovery: uncertain order detected''",
      folded mark_uncertain_orders_def]
  show "reg_inv (mark_uncertain_orders c g)" using out by blast
  show "get_order oid (mark_uncertain_orders c g) =
      map_option (\<lambda>r. if o_state r \<in> {PendingAck, Open} then forced c UnknownRecovery r else r) (get_order oid g)"
    using out by (cases "get_order oid g") (auto simp: P)
qed

lemma recover_unknown_outcome:
  assumes "reg_inv g"
  shows "reg_inv (recover_unknown_orders c (Some e) g)" and
    "get_order oid (recover_unknown_orders c (Some e) g) =
      map_option (\<lambda>r. if o_state r = UnknownRecovery then recover_effect c e r else r) (get_order oid g)"
proof -
  have "recover_unknown_orders c (Some e) g = fold (recover_order c e) (orders_in {UnknownRecovery} g) g"
    by (simp add: recover_unknown_orders_def)
  moreover have "orders_in {UnknownRecovery} g = filter (\<lambda>r. o_state r = UnknownRecovery) (map snd (reg_orders g))"
    by (simp add: orders_in_def)
  note out = recover.snapshot_pass [OF assms this, of c e]
  ultimately show "reg_inv (recover_unknown_orders c (Some e) g)" and
    "get_order oid (recover_unknown_orders c (Some e) g) =
      map_option (\<lambda>r. if o_state r = UnknownRecovery then recover_effect c e r else r) (get_order oid g)"
    using out by (simp, cases "get_order oid g") simp_all
qed

lemma stale_cancels_outcome:
  assumes "reg_inv g"
  shows "reg_inv (snd (force_resolve_stale_cancels c ms g))" and
    "get_order oid g = Some r \<Longrightarrow> o_state r \<noteq> CancelPending \<Longrightarrow>
       get_order oid (snd (force_resolve_stale_cancels c ms g)) = Some r" and
    "get_order oid (snd (force_resolve_stale_cancels c ms g)) = Some r' \<Longrightarrow>
       o_state r' = Cancelled \<or> get_order oid g = Some r'"
proof -
  define P where "P r \<longleftrightarrow> o_state r = CancelPending \<and>
    (case time_in_state_ms c (o_order_id r) g of None \<Rightarrow> False | Some m \<Rightarrow> ms < m)" for r :: order_record
  have eq: "snd (force_resolve_stale_cancels c ms g) =
      fold (\<lambda>r. reg_force_transition c (o_order_id r) Cancelled ''Recovery: stale CancelPending'')
        (stale_in c CancelPending ms g) g"
    by (simp add: force_resolve_stale_cancels_def force_cancel_each_def Let_def)
  have "stale_in c CancelPending ms g = filter P (map snd (reg_orders g))"
    by (auto simp: stale_in_def orders_in_def P_def intro!: filter_cong)
  note out = force.snapshot_pass [OF assms this, of c Cancelled "''Recovery: stale CancelPending''", folded eq]
  show "reg_inv (snd (force_resolve_stale_cancels c ms g))" using out by blast
  show "get_order oid (snd (force_resolve_stale_cancels c ms g)) = Some r"
    if "get_order oid g = Some r" "o_state r \<noteq> CancelPending"
    using out that by (simp add: P_def)
  show "o_state r' = Cancelled \<or> get_order oid g = Some r'"
    if "get_order oid (snd (force_resolve_stale_cancels c ms g)) = Some r'"
    using out that by (cases "get_order oid g") (auto simp: forced_def split: if_splits)
qed

text \<open>
  Reconciliation leaves no order of uncertain fate unexamined: it keeps the registry's
  invariant, afterwards no order is in \<open>PendingAck\<close> or \<open>Open\<close>, and it reports success exactly
  when every order that was pending, open or unknown has been settled as \<open>Filled\<close> or
  \<open>Cancelled\<close>.
\<close>

theorem reconciliation_settles:
  assumes inv: "reg_inv g" and run: "run_reconciliation c (Some e) ms g = (res, g')"
  shows "reg_inv g' \<and>
    (\<forall>oid r. get_order oid g' = Some r \<longrightarrow> o_state r \<notin> {PendingAck, Open}) \<and>
    (rr_success res \<longleftrightarrow>
      (\<forall>oid r. get_order oid g = Some r \<and> o_state r \<in> {PendingAck, Open, UnknownRecovery} \<longrightarrow>
        (\<exists>r'. get_order oid g' = Some r' \<and> o_state r' \<in> {Filled, Cancelled})))"
proof -
  let ?g1 = "mark_uncertain_orders c g" let ?g2 = "recover_unknown_orders c (Some e) ?g1"
  let ?g3 = "snd (force_resolve_stale_cancels c (ms * 3) ?g2)"
  let ?before = "orders_in {UnknownRecovery} ?g1"
  have g': "g' = ?g3" and ok: "rr_success res \<longleftrightarrow> count_state (\<lambda>s. s \<noteq> Filled \<and> s \<noteq> Cancelled) ?before ?g2 = 0"
    using run by (auto simp: run_reconciliation_def Let_def case_prod_unfold)
  note m = mark_uncertain_outcome [OF inv, where c = c]
  note r = recover_unknown_outcome [OF m(1), where c = c and e = e]
  note t = stale_cancels_outcome [OF r(1), where c = c and ms = "ms * 3"]
  define mk where "mk q = (if o_state q \<in> {PendingAck, Open} then forced c UnknownRecovery q else q)"
    for q :: order_record
  have fate: "get_order oid ?g1 = Some (mk q) \<and> o_state (mk q) = UnknownRecovery \<and>
      get_order oid ?g2 = Some (recover_effect c e (mk q)) \<and>
      get_order oid g' = Some (recover_effect c e (mk q))"
    if "get_order oid g = Some q" "o_state q \<in> {PendingAck, Open, UnknownRecovery}" for oid q
  proof -
    have u: "o_state (mk q) = UnknownRecovery" using that(2) by (auto simp: mk_def forced_def)
    have "get_order oid ?g1 = Some (mk q)" using that(1) by (simp add: m(2) mk_def)
    moreover from this have "get_order oid ?g2 = Some (recover_effect c e (mk q))"
      using u by (simp add: r(2))
    moreover from this have "get_order oid g' = Some (recover_effect c e (mk q))"
      unfolding g' using recover_effect_state [OF u, of c e] by (intro t(2)) auto
    ultimately show ?thesis using u by blast
  qed
  have quiet: "o_state w \<notin> {PendingAck, Open}" if w: "get_order oid g' = Some w" for oid w
  proof (cases "get_order oid ?g2 = Some w")
    case True
    then obtain u where u: "get_order oid ?g1 = Some u"
      "w = (if o_state u = UnknownRecovery then recover_effect c e u else u)"
      by (auto simp: r(2))
    then obtain z where "u = mk z" unfolding m(2) mk_def by blast
    then have ns: "o_state u \<notin> {PendingAck, Open}" by (simp add: mk_def forced_def)
    show ?thesis
    proof (cases "o_state u = UnknownRecovery")
      case True
      then have "w = recover_effect c e u" using u(2) by simp
      with recover_effect_state [OF True, of c e] show ?thesis by auto
    next
      case False
      then show ?thesis using u(2) ns by simp
    qed
  next
    case False
    then have "o_state w = Cancelled" using t(3) [of oid w] w unfolding g' by blast
    then show ?thesis by simp
  qed
  have pending: "\<exists>oid q. get_order oid g = Some q \<and> o_state q \<in> {PendingAck, Open, UnknownRecovery} \<and>
      b = mk q \<and> o_order_id b = oid" if "b \<in> set ?before" for b
  proof -
    have b: "get_order (o_order_id b) ?g1 = Some b" "o_state b = UnknownRecovery"
      using that order_in_registry [OF m(1), of b] by (auto simp: orders_in_def)
    then obtain q where q: "get_order (o_order_id b) g = Some q" "b = mk q"
      unfolding m(2) mk_def by blast
    have "o_state (mk q) = o_state q \<or> o_state q \<in> {PendingAck, Open}" by (simp add: mk_def)
    then have "o_state q \<in> {PendingAck, Open, UnknownRecovery}" using b(2) q(2) by auto
    with q show ?thesis by blast
  qed
  have listed: "mk q \<in> set ?before \<and> o_order_id (mk q) = oid"
    if "get_order oid g = Some q" "o_state q \<in> {PendingAck, Open, UnknownRecovery}" for oid q
  proof -
    have f: "get_order oid ?g1 = Some (mk q)" "o_state (mk q) = UnknownRecovery" using fate [OF that] by auto
    then have "(oid, mk q) \<in> set (reg_orders ?g1)" by (auto simp: get_order_def dest: map_of_SomeD)
    then have "mk q \<in> set ?before" using f(2) by (force simp: orders_in_def)
    then show ?thesis using get_order_key [OF m(1) f(1)] by blast
  qed
  have settled: "rr_success res \<longleftrightarrow> (\<forall>b \<in> set ?before. \<forall>w. get_order (o_order_id b) ?g2 = Some w \<longrightarrow>
      o_state w \<in> {Filled, Cancelled})"
    by (auto simp: ok count_state_def filter_empty_conv split: option.splits)
  have "rr_success res \<longleftrightarrow> (\<forall>oid q. get_order oid g = Some q \<and> o_state q \<in> {PendingAck, Open, UnknownRecovery} \<longrightarrow>
      o_state (recover_effect c e (mk q)) \<in> {Filled, Cancelled})"
  proof -
    have "o_state w \<in> {Filled, Cancelled}"
      if all: "\<forall>oid q. get_order oid g = Some q \<and> o_state q \<in> {PendingAck, Open, UnknownRecovery} \<longrightarrow>
            o_state (recover_effect c e (mk q)) \<in> {Filled, Cancelled}"
        and b: "b \<in> set ?before" "get_order (o_order_id b) ?g2 = Some w" for b w
    proof -
      obtain q where q: "get_order (o_order_id b) g = Some q" "o_state q \<in> {PendingAck, Open, UnknownRecovery}"
        using pending [OF b(1)] by blast
      have "w = recover_effect c e (mk q)" using fate [OF q] b(2) by (metis option.inject)
      with all q show ?thesis by blast
    qed
    moreover have "o_state (recover_effect c e (mk q)) \<in> {Filled, Cancelled}"
      if all: "\<forall>b \<in> set ?before. \<forall>w. get_order (o_order_id b) ?g2 = Some w \<longrightarrow> o_state w \<in> {Filled, Cancelled}"
        and q: "get_order oid g = Some q" "o_state q \<in> {PendingAck, Open, UnknownRecovery}" for oid q
      using all listed [OF q] fate [OF q] by blast
    ultimately show ?thesis unfolding settled by blast
  qed
  moreover have "(\<exists>r'. get_order oid g' = Some r' \<and> o_state r' \<in> {Filled, Cancelled}) \<longleftrightarrow>
      o_state (recover_effect c e (mk q)) \<in> {Filled, Cancelled}"
    if "get_order oid g = Some q \<and> o_state q \<in> {PendingAck, Open, UnknownRecovery}" for oid q
    using fate [of oid q] that by simp
  ultimately have "rr_success res \<longleftrightarrow> (\<forall>oid r. get_order oid g = Some r \<and>
      o_state r \<in> {PendingAck, Open, UnknownRecovery} \<longrightarrow>
        (\<exists>r'. get_order oid g' = Some r' \<and> o_state r' \<in> {Filled, Cancelled}))" by metis
  with t(1) quiet show ?thesis unfolding g' by blast
qed

theorem reconciliation_settles_witness:
  "\<exists>res g'. run_reconciliation ex_fp_clk (Some ex_ok) 5000 (xs_registry ex_fp_state) = (res, g') \<and>
     reg_inv g' \<and> (\<forall>oid r. get_order oid g' = Some r \<longrightarrow> o_state r \<notin> {PendingAck, Open})"
proof -
  obtain res g' where e: "run_reconciliation ex_fp_clk (Some ex_ok) 5000 (xs_registry ex_fp_state) = (res, g')"
    by force
  from reconciliation_settles [OF ex_fp_reg_inv e] e show ?thesis by blast
qed

end
