(* ===== verification/Printing.thy ===== *)
theory Printing
  imports Float64
begin

text \<open>
  \<^verbatim>\<open>std::to_string\<close> for the integers and doubles that end up in identifiers, keys and
  explanations.  Integers print in decimal; a \<^verbatim>\<open>double\<close> prints as \<^verbatim>\<open>%f\<close>, six decimals of
  the value rounded to nearest, ties to even.  The decimal reader is the inverse that
  makes printed identifiers distinct.
\<close>

definition digit_char :: "nat \<Rightarrow> char" where
  "digit_char d = char_of (48 + d)"

definition char_digit :: "char \<Rightarrow> nat" where
  "char_digit c = of_char c - 48"

fun to_string_nat :: "nat \<Rightarrow> string" where
  "to_string_nat n =
    (if n < 10 then [digit_char n] else to_string_nat (n div 10) @ [digit_char (n mod 10)])"

declare to_string_nat.simps [simp del]

definition to_string_int :: "int \<Rightarrow> string" where
  "to_string_int i = (if i < 0 then ''-'' @ to_string_nat (nat (- i)) else to_string_nat (nat i))"

text \<open>Exactly six digits, with leading zeros.\<close>

fun pad_digits :: "nat \<Rightarrow> nat \<Rightarrow> string" where
  "pad_digits 0 n = []"
| "pad_digits (Suc k) n = pad_digits k (n div 10) @ [digit_char (n mod 10)]"

fun to_string_double :: "double \<Rightarrow> string" where
  "to_string_double (Fin x) =
    (let n = nat (rne (\<bar>x\<bar> * 10 ^ 6))
     in (if x < 0 then ''-'' else []) @ to_string_nat (n div 10 ^ 6) @ ''.'' @ pad_digits 6 (n mod 10 ^ 6))"
| "to_string_double PInf = ''inf''"
| "to_string_double NInf = ''-inf''"
| "to_string_double NaN = ''nan''"

definition read_nat :: "string \<Rightarrow> nat" where
  "read_nat s = foldl (\<lambda>a c. 10 * a + char_digit c) 0 s"

lemma char_digit_char [simp]: "d < 10 \<Longrightarrow> char_digit (digit_char d) = d"
  by (simp add: char_digit_def digit_char_def)

lemma of_char_digit [simp]: "d < 10 \<Longrightarrow> of_char (digit_char d) = (48 + d :: nat)"
  by (simp add: digit_char_def)

lemma read_print [simp]: "read_nat (to_string_nat n) = n"
proof (induction n rule: to_string_nat.induct)
  case (1 n)
  then show ?case by (subst to_string_nat.simps) (auto simp: read_nat_def)
qed

lemma to_string_nat_inject [simp]: "to_string_nat m = to_string_nat n \<longleftrightarrow> m = n"
  by (metis read_print)

definition is_digit :: "char \<Rightarrow> bool" where
  "is_digit c \<longleftrightarrow> (48 :: nat) \<le> of_char c \<and> (of_char c :: nat) \<le> 57"

lemma is_digit_digit [simp]: "d < 10 \<Longrightarrow> is_digit (digit_char d)"
  by (simp add: is_digit_def)

lemma to_string_nat_digits: "c \<in> set (to_string_nat n) \<Longrightarrow> is_digit c"
proof (induction n rule: to_string_nat.induct)
  case (1 n)
  then show ?case by (subst (asm) (2) to_string_nat.simps) (auto split: if_splits)
qed

lemma to_string_nat_nonempty [simp]: "to_string_nat n \<noteq> []"
  by (subst to_string_nat.simps) simp

lemma non_digit_notin_nat: "\<not> is_digit c \<Longrightarrow> c \<notin> set (to_string_nat n)"
  using to_string_nat_digits by blast

lemma hyphen_not_digit [simp]: "\<not> is_digit CHR ''-''" "\<not> is_digit CHR '':''" "\<not> is_digit CHR ''_''"
  by (simp_all add: is_digit_def)

lemma to_string_int_inject [simp]: "to_string_int i = to_string_int j \<longleftrightarrow> i = j"
proof
  assume eq: "to_string_int i = to_string_int j"
  have hd: "CHR ''-'' \<notin> set (to_string_nat n)" for n by (rule non_digit_notin_nat) simp
  have "i < 0 \<longleftrightarrow> j < 0"
    using eq hd by (auto simp: to_string_int_def split: if_splits) (metis list.set_intros(1))+
  with eq show "i = j" by (auto simp: to_string_int_def split: if_splits)
qed simp

text \<open>
  Two texts joined by a separator that neither second part contains have equal parts.
\<close>

lemma join_inject:
  assumes "a @ c # b = a' @ c # b'" and "c \<notin> set b" and "c \<notin> set b'"
  shows "a = a' \<and> b = b'"
proof -
  have cut: "takeWhile (\<lambda>x. x \<noteq> c) (s @ c # t) = s" if "c \<notin> set s" for s t :: "'a list"
    using that by (induction s) auto
  have "rev b @ c # rev a = rev b' @ c # rev a'"
    using arg_cong [OF assms(1), of rev] by simp
  then have "rev b = rev b'" using cut [of "rev b"] cut [of "rev b'"] assms(2,3) by (metis set_rev)
  with assms(1) show ?thesis by simp
qed

end
