(* ===== verification/Trading_Types.thy ===== *)
theory Trading_Types
  imports Order_FSM Printing
begin

text \<open>
  The messages that the decision stages hand to the execution engine: the trade intent of
  \<^verbatim>\<open>src/src/strategy/strategy_types.hpp\<close>, the risk decision of
  \<^verbatim>\<open>src/src/risk/risk_types.hpp\<close>, the execution recommendation of
  \<^verbatim>\<open>src/src/execution_alpha/execution_alpha_types.hpp\<close>, the uncertainty snapshot of
  \<^verbatim>\<open>src/src/uncertainty/uncertainty_types.hpp\<close>, and the plan, market context and
  configuration of \<^verbatim>\<open>src/src/execution/\<close>.  Left out of the records are the
  audit-only parts that no modelled code reads: \<^verbatim>\<open>DecisionFactors\<close> and the
  ranked drivers and dimensions of the uncertainty.
\<close>

section \<open>Strategy\<close>

datatype signal_intent = LongEntry | LongExit | ShortEntry | ShortExit | SiReducePosition | SiHold

datatype exit_reason =
    NoExit | TakeProfit | StopLoss | TrailingStop | TrendFailure | RangeTopExit
  | VolatilitySpikeExit | InventoryRiskExit | SignalDecay | RegimeChange | PartialReduction
  | SetupInvalidation | TrapDetected | MomentumExhaustion | OrderBookDeterioration | EmergencyExit

datatype setup_type = MomentumContinuation | Retest | PullbackInMicrotrend | Rejection

datatype strategy_signal_type =
    SigSkip | SigSetupCreated | SigSetupCancelled | SigEnterLong | SigEnterShort | SigHold
  | SigReduce | SigExitPartial | SigExitFull | SigEmergencyExit

record trade_intent =
  ti_strategy_id :: strategy_id
  ti_strategy_version :: nat
  ti_symbol :: symbol
  ti_side :: side
  ti_position_side :: position_side
  ti_signal_intent :: signal_intent
  ti_trade_side :: trade_side
  ti_exit_reason :: exit_reason
  ti_suggested_quantity :: double
  ti_limit_price :: "double option"
  ti_snapshot_mid_price :: "double option"
  ti_conviction :: double
  ti_signal_name :: string
  ti_reason_codes :: "string list"
  ti_generated_at :: timestamp
  ti_correlation_id :: string
  ti_entry_score :: double
  ti_urgency :: double
  ti_setup_id :: string
  ti_setup_type :: setup_type
  ti_stop_reference :: "double option"
  ti_take_profit_price :: "double option"
  ti_stop_loss_price :: "double option"
  ti_signal_type :: strategy_signal_type
  ti_signal_snapshot_ts_ns :: int
  ti_signal_snapshot_mid :: double
  ti_signal_snapshot_spread_bps :: double
  ti_signal_snapshot_depth_usd :: double

text \<open>A default-constructed \<^verbatim>\<open>TradeIntent\<close>.\<close>

definition default_trade_intent :: trade_intent where
  "default_trade_intent =
    \<lparr>ti_strategy_id = [], ti_strategy_version = 0, ti_symbol = [], ti_side = Buy,
     ti_position_side = Long, ti_signal_intent = LongEntry, ti_trade_side = TradeOpen,
     ti_exit_reason = NoExit, ti_suggested_quantity = 0, ti_limit_price = None,
     ti_snapshot_mid_price = None, ti_conviction = 0, ti_signal_name = [], ti_reason_codes = [],
     ti_generated_at = 0, ti_correlation_id = [], ti_entry_score = 0, ti_urgency = 0,
     ti_setup_id = [], ti_setup_type = MomentumContinuation, ti_stop_reference = None,
     ti_take_profit_price = None, ti_stop_loss_price = None, ti_signal_type = SigSkip,
     ti_signal_snapshot_ts_ns = 0, ti_signal_snapshot_mid = 0, ti_signal_snapshot_spread_bps = 0,
     ti_signal_snapshot_depth_usd = 0\<rparr>"

section \<open>Risk\<close>

datatype risk_verdict = Approved | Denied | ReduceSize | Throttled

datatype risk_action =
    Allow | AllowWithReducedSize | Deny | DenySymbolLock | DenyStrategyLock | DenyDayLock
  | DenyAccountLock | RaEmergencyHalt

datatype risk_phase = PreTrade | IntraTrade | PostTrade

datatype risk_state_level =
    RsNormal | RsDegraded | RsDayLock | RsSymbolLock | RsStrategyLock | RsAccountLock | RsEmergencyHalt

record risk_reason_code =
  rc_code :: string
  rc_message :: string
  rc_severity :: double

record risk_decision =
  rd_verdict :: risk_verdict
  rd_approved_quantity :: double
  rd_risk_utilization_pct :: double
  rd_kill_switch_active :: bool
  rd_decided_at :: timestamp
  rd_summary :: string
  rd_phase :: risk_phase
  rd_regime_scaling_factor :: double
  rd_strategy_budget_utilization_pct :: double
  rd_symbol_concentration_pct :: double
  rd_action :: risk_action
  rd_allowed :: bool
  rd_original_size :: double
  rd_risk_state :: risk_state_level
  rd_triggered_checks :: "string list"
  rd_warnings :: "string list"
  rd_hard_blocks :: "string list"
  rd_reasons :: "risk_reason_code list"
  rd_current_daily_pnl :: double
  rd_current_drawdown_pct :: double
  rd_current_gross_exposure :: double
  rd_active_locks_count :: int

definition default_risk_decision :: risk_decision where
  "default_risk_decision =
    \<lparr>rd_verdict = Denied, rd_approved_quantity = 0, rd_risk_utilization_pct = 0,
     rd_kill_switch_active = False, rd_decided_at = 0, rd_summary = [], rd_phase = PreTrade,
     rd_regime_scaling_factor = 1, rd_strategy_budget_utilization_pct = 0,
     rd_symbol_concentration_pct = 0, rd_action = Deny, rd_allowed = False, rd_original_size = 0,
     rd_risk_state = RsNormal, rd_triggered_checks = [], rd_warnings = [], rd_hard_blocks = [],
     rd_reasons = [], rd_current_daily_pnl = 0, rd_current_drawdown_pct = 0,
     rd_current_gross_exposure = 0, rd_active_locks_count = 0\<rparr>"

section \<open>Execution alpha and uncertainty\<close>

datatype execution_style = EsPassive | EsAggressive | EsHybrid | EsPostOnly | NoExecution

record execution_quality_estimate =
  eq_spread_cost_bps :: double
  eq_estimated_slippage_bps :: double
  eq_fill_probability :: double
  eq_adverse_selection_risk :: double
  eq_total_cost_bps :: double

record slice_plan =
  sp_num_slices :: int
  sp_slice_interval_ms :: double
  sp_first_slice_pct :: double
  sp_rationale :: string

record execution_alpha_result =
  ea_recommended_style :: execution_style
  ea_urgency_score :: double
  ea_quality :: execution_quality_estimate
  ea_recommended_limit_price :: "double option"
  ea_slice_plan :: "slice_plan option"
  ea_should_execute :: bool
  ea_rationale :: string
  ea_computed_at :: timestamp

definition default_quality_estimate :: execution_quality_estimate where
  "default_quality_estimate =
    \<lparr>eq_spread_cost_bps = 0, eq_estimated_slippage_bps = 0, eq_fill_probability = lit (1 / 2),
     eq_adverse_selection_risk = 0, eq_total_cost_bps = 0\<rparr>"

definition default_execution_alpha :: execution_alpha_result where
  "default_execution_alpha =
    \<lparr>ea_recommended_style = EsPassive, ea_urgency_score = 0, ea_quality = default_quality_estimate,
     ea_recommended_limit_price = None, ea_slice_plan = None, ea_should_execute = True,
     ea_rationale = [], ea_computed_at = 0\<rparr>"

datatype execution_mode_recommendation = ModeNormal | ModeConservative | ModeDefensiveOnly | ModeHaltNewEntries

record cooldown_recommendation =
  co_active :: bool
  co_remaining_ns :: int
  co_decay_factor :: double
  co_trigger_reason :: string

record uncertainty_snapshot =
  us_level :: uncertainty_level
  us_aggregate_score :: double
  us_size_multiplier :: double
  us_threshold_multiplier :: double
  us_explanation :: string
  us_computed_at :: timestamp
  us_symbol :: symbol
  us_execution_mode :: execution_mode_recommendation
  us_cooldown :: cooldown_recommendation
  us_persistent_score :: double
  us_spike_score :: double

definition default_uncertainty :: uncertainty_snapshot where
  "default_uncertainty =
    \<lparr>us_level = Moderate, us_aggregate_score = lit (1 / 2), us_size_multiplier = 1,
     us_threshold_multiplier = 1, us_explanation = [], us_computed_at = 0, us_symbol = [],
     us_execution_mode = ModeNormal,
     us_cooldown = \<lparr>co_active = False, co_remaining_ns = 0, co_decay_factor = 1, co_trigger_reason = []\<rparr>,
     us_persistent_score = lit (1 / 2), us_spike_score = 0\<rparr>"

section \<open>Execution\<close>

datatype execution_action =
    NoAction | OpenPosition | IncreasePosition | ReducePosition | ClosePosition | CancelOrder
  | CancelAllForSymbol | CancelAllGlobal | ReplaceOrder | EmergencyFlattenSymbol | EmergencyFlattenAll

datatype planned_execution_style =
  AggressiveMarket | PassiveLimit | PostOnlyLimit | SmartFallback | CancelIfNotFilled | ReduceOnly

record execution_plan =
  ep_action :: execution_action
  ep_style :: planned_execution_style
  ep_order_type :: order_type
  ep_tif :: time_in_force
  ep_planned_price :: double
  ep_planned_quantity :: double
  ep_reduce_only :: bool
  ep_timeout_ms :: int
  ep_enable_fallback :: bool
  ep_fallback_after_ms :: int
  ep_reasons :: "string list"

record market_execution_context =
  mc_best_bid :: double
  mc_best_ask :: double
  mc_spread_bps :: double
  mc_local_depth_bid :: double
  mc_local_depth_ask :: double
  mc_liquidity_ratio :: double
  mc_current_volatility :: double
  mc_is_stale :: bool
  mc_vpin_toxic :: bool
  mc_adverse_selection_risk :: double

definition default_market_context :: market_execution_context where
  "default_market_context =
    \<lparr>mc_best_bid = 0, mc_best_ask = 0, mc_spread_bps = 0, mc_local_depth_bid = 0,
     mc_local_depth_ask = 0, mc_liquidity_ratio = 0, mc_current_volatility = 0, mc_is_stale = False,
     mc_vpin_toxic = False, mc_adverse_selection_risk = 0\<rparr>"

record execution_config =
  ec_entry_timeout_ms :: int
  ec_exit_timeout_ms :: int
  ec_cancel_confirmation_timeout_ms :: int
  ec_max_submit_retries_safe :: int
  ec_max_cancel_retries_safe :: int
  ec_max_reconciliation_attempts :: int
  ec_max_slippage_bps_for_entry :: double
  ec_max_slippage_bps_for_exit :: double
  ec_enable_market_fallback :: bool
  ec_allow_aggressive_exit_in_emergency :: bool
  ec_recovery_on_restart_enabled :: bool
  ec_dedup_window_ms :: int
  ec_min_notional_usdt :: double
  ec_terminal_order_max_age_ns :: int
  ec_spread_bps_passive_threshold :: double
  ec_spread_bps_aggressive_threshold :: double
  ec_urgency_aggressive_threshold :: double
  ec_urgency_passive_threshold :: double
  ec_limit_price_improvement_bps :: double
  ec_limit_fallback_to_market_ms :: int

definition default_execution_config :: execution_config where
  "default_execution_config =
    \<lparr>ec_entry_timeout_ms = 5000, ec_exit_timeout_ms = 5000, ec_cancel_confirmation_timeout_ms = 5000,
     ec_max_submit_retries_safe = 1, ec_max_cancel_retries_safe = 2, ec_max_reconciliation_attempts = 3,
     ec_max_slippage_bps_for_entry = lit 15, ec_max_slippage_bps_for_exit = lit 30,
     ec_enable_market_fallback = True, ec_allow_aggressive_exit_in_emergency = True,
     ec_recovery_on_restart_enabled = True, ec_dedup_window_ms = 60000, ec_min_notional_usdt = lit 5,
     ec_terminal_order_max_age_ns = 3600000000000, ec_spread_bps_passive_threshold = lit 15,
     ec_spread_bps_aggressive_threshold = lit 30, ec_urgency_aggressive_threshold = lit (8 / 10),
     ec_urgency_passive_threshold = lit (1 / 2), ec_limit_price_improvement_bps = lit 2,
     ec_limit_fallback_to_market_ms = 3000\<rparr>"

fun execution_action_to_string :: "execution_action \<Rightarrow> string" where
  "execution_action_to_string NoAction = ''NoAction''"
| "execution_action_to_string OpenPosition = ''OpenPosition''"
| "execution_action_to_string IncreasePosition = ''IncreasePosition''"
| "execution_action_to_string ReducePosition = ''ReducePosition''"
| "execution_action_to_string ClosePosition = ''ClosePosition''"
| "execution_action_to_string CancelOrder = ''CancelOrder''"
| "execution_action_to_string CancelAllForSymbol = ''CancelAllForSymbol''"
| "execution_action_to_string CancelAllGlobal = ''CancelAllGlobal''"
| "execution_action_to_string ReplaceOrder = ''ReplaceOrder''"
| "execution_action_to_string EmergencyFlattenSymbol = ''EmergencyFlattenSymbol''"
| "execution_action_to_string EmergencyFlattenAll = ''EmergencyFlattenAll''"

fun planned_execution_style_to_string :: "planned_execution_style \<Rightarrow> string" where
  "planned_execution_style_to_string AggressiveMarket = ''AggressiveMarket''"
| "planned_execution_style_to_string PassiveLimit = ''PassiveLimit''"
| "planned_execution_style_to_string PostOnlyLimit = ''PostOnlyLimit''"
| "planned_execution_style_to_string SmartFallback = ''SmartFallback''"
| "planned_execution_style_to_string CancelIfNotFilled = ''CancelIfNotFilled''"
| "planned_execution_style_to_string ReduceOnly = ''ReduceOnly''"

text \<open>\<^verbatim>\<open>ExecutionPlan::summary\<close>; the order type prints as in \<^verbatim>\<open>common/enums.hpp\<close>.\<close>

definition summary :: "execution_plan \<Rightarrow> string" where
  "summary pl =
    ''action='' @ execution_action_to_string (ep_action pl) @
    '' style='' @ planned_execution_style_to_string (ep_style pl) @
    '' type='' @ order_type_to_string (ep_order_type pl) @
    '' qty='' @ to_string_double (ep_planned_quantity pl) @
    (if 0 < ep_planned_price pl then '' price='' @ to_string_double (ep_planned_price pl) else []) @
    '' timeout='' @ to_string_int (ep_timeout_ms pl) @ ''ms'' @
    (if ep_enable_fallback pl then '' fallback@'' @ to_string_int (ep_fallback_after_ms pl) @ ''ms'' else []) @
    (if ep_reduce_only pl then '' [reduce-only]'' else [])"

end
