(* ===== verification/Execution_Planner.thy ===== *)
theory Execution_Planner
  imports Trading_Types
begin

text \<open>
  \<^verbatim>\<open>ExecutionPlanner\<close> (\<^verbatim>\<open>src/src/execution/planner/execution_planner.cpp\<close>): from an intent,
  a risk decision and the market context to the order type, price, time in force and
  timeout of the order.  The arrows in the texts of \<^verbatim>\<open>plan.reasons\<close> are written \<^verbatim>\<open>->\<close>.
\<close>

section \<open>The planner\<close>

fun classify_action :: "trade_intent \<Rightarrow> execution_action" where
  "classify_action i =
    (if ti_exit_reason i = EmergencyExit then EmergencyFlattenSymbol
     else case ti_signal_intent i of
            LongEntry \<Rightarrow> OpenPosition
          | ShortEntry \<Rightarrow> OpenPosition
          | LongExit \<Rightarrow> ClosePosition
          | ShortExit \<Rightarrow> ClosePosition
          | SiReducePosition \<Rightarrow> ReducePosition
          | SiHold \<Rightarrow> NoAction)"

declare classify_action.simps [simp del]

definition exit_action :: "execution_action \<Rightarrow> bool" where
  "exit_action a \<longleftrightarrow> a = ClosePosition \<or> a = ReducePosition \<or> a = EmergencyFlattenSymbol \<or>
     a = EmergencyFlattenAll"

definition choose_style ::
  "execution_config \<Rightarrow> execution_alpha_result \<Rightarrow> market_execution_context \<Rightarrow> execution_action \<Rightarrow>
   planned_execution_style" where
  "choose_style cfg ea mc a =
    (if exit_action a then ReduceOnly
     else
       let fallback =
         (let urgency = ea_urgency_score ea; spread = mc_spread_bps mc
          in if ec_urgency_aggressive_threshold cfg \<le> urgency then AggressiveMarket
             else if spread < ec_spread_bps_passive_threshold cfg \<and>
                     urgency < ec_urgency_passive_threshold cfg then PostOnlyLimit
             else if ec_enable_market_fallback cfg then SmartFallback
             else PostOnlyLimit)
       in case ea_recommended_style ea of
            EsAggressive \<Rightarrow> AggressiveMarket
          | EsPostOnly \<Rightarrow> PostOnlyLimit
          | NoExecution \<Rightarrow> AggressiveMarket
          | EsPassive \<Rightarrow> fallback
          | EsHybrid \<Rightarrow> fallback)"

fun style_to_order_type :: "planned_execution_style \<Rightarrow> order_type" where
  "style_to_order_type AggressiveMarket = Market"
| "style_to_order_type PassiveLimit = Limit"
| "style_to_order_type SmartFallback = Limit"
| "style_to_order_type CancelIfNotFilled = Limit"
| "style_to_order_type ReduceOnly = Market"
| "style_to_order_type PostOnlyLimit = PostOnly"

fun style_to_tif :: "planned_execution_style \<Rightarrow> time_in_force" where
  "style_to_tif AggressiveMarket = ImmediateOrCancel"
| "style_to_tif ReduceOnly = ImmediateOrCancel"
| "style_to_tif PassiveLimit = GoodTillCancel"
| "style_to_tif SmartFallback = GoodTillCancel"
| "style_to_tif PostOnlyLimit = GoodTillCancel"
| "style_to_tif CancelIfNotFilled = ImmediateOrCancel"

definition compute_limit_price ::
  "execution_config \<Rightarrow> trade_intent \<Rightarrow> execution_alpha_result \<Rightarrow> market_execution_context \<Rightarrow> double" where
  "compute_limit_price cfg i ea mc =
    (case ea_recommended_limit_price ea of
       Some p \<Rightarrow> p
     | None \<Rightarrow>
         (case ti_limit_price i of
            Some p \<Rightarrow> p
          | None \<Rightarrow>
              if 0 < mc_best_bid mc \<and> 0 < mc_best_ask mc then
                let mid = (mc_best_bid mc + mc_best_ask mc) / lit 2;
                    improvement = mid * ec_limit_price_improvement_bps cfg / lit 10000
                in if ti_side i = Buy then mid - improvement else mid + improvement
              else case ti_snapshot_mid_price i of Some p \<Rightarrow> p | None \<Rightarrow> 0))"

definition market_reference_price ::
  "trade_intent \<Rightarrow> execution_alpha_result \<Rightarrow> market_execution_context \<Rightarrow> double" where
  "market_reference_price i ea mc =
    (case ea_recommended_limit_price ea of
       Some p \<Rightarrow> p
     | None \<Rightarrow>
         (case ti_snapshot_mid_price i of
            Some p \<Rightarrow> p
          | None \<Rightarrow> if 0 < mc_best_bid mc \<and> 0 < mc_best_ask mc
                    then (mc_best_bid mc + mc_best_ask mc) / lit 2 else 0))"

definition compute_timeout :: "execution_config \<Rightarrow> execution_action \<Rightarrow> planned_execution_style \<Rightarrow> int" where
  "compute_timeout cfg a st =
    (if exit_action a then ec_exit_timeout_ms cfg
     else if st = PassiveLimit then ec_entry_timeout_ms cfg
     else ec_entry_timeout_ms cfg)"

definition should_reduce_only :: "trade_intent \<Rightarrow> execution_action \<Rightarrow> bool" where
  "should_reduce_only i a \<longleftrightarrow> exit_action a \<or> ti_trade_side i = TradeClose"

text \<open>The price step of \<^verbatim>\<open>plan\<close>: a limit price that cannot be used turns the order into a market order.\<close>

definition plan_price ::
  "execution_config \<Rightarrow> trade_intent \<Rightarrow> execution_alpha_result \<Rightarrow> market_execution_context \<Rightarrow>
   execution_plan \<Rightarrow> execution_plan" where
  "plan_price cfg i ea mc pl =
    (if ep_order_type pl = Market then pl\<lparr>ep_planned_price := market_reference_price i ea mc\<rparr>
     else
       let pl = pl\<lparr>ep_planned_price := compute_limit_price cfg i ea mc\<rparr>
       in if ep_planned_price pl \<le> 0
          then pl\<lparr>ep_order_type := Market, ep_tif := ImmediateOrCancel, ep_style := AggressiveMarket,
                  ep_reasons := ep_reasons pl @ [''limit_price_unavailable->fallback_market'']\<rparr>
          else pl)"

definition plan_reasons ::
  "execution_alpha_result \<Rightarrow> market_execution_context \<Rightarrow> uncertainty_snapshot \<Rightarrow> execution_plan \<Rightarrow> string list" where
  "plan_reasons ea mc u pl =
    [''action='' @ execution_action_to_string (ep_action pl),
     ''spread='' @ to_string_double (mc_spread_bps mc) @ ''bps'',
     ''urgency='' @ to_string_double (ea_urgency_score ea)] @
    (if ep_reduce_only pl then [''reduce_only=true''] else []) @
    (if us_level u = High then [''uncertainty=high->aggressive''] else [])"

definition widen_spread_guard :: "execution_config \<Rightarrow> market_execution_context \<Rightarrow> execution_plan \<Rightarrow> execution_plan" where
  "widen_spread_guard cfg mc pl =
    (if ec_spread_bps_aggressive_threshold cfg < mc_spread_bps mc \<and> ep_action pl = OpenPosition \<and>
        ep_style pl \<noteq> AggressiveMarket
     then pl\<lparr>ep_style := CancelIfNotFilled, ep_order_type := style_to_order_type CancelIfNotFilled,
             ep_tif := style_to_tif CancelIfNotFilled, ep_timeout_ms := min (ep_timeout_ms pl) 5000,
             ep_reasons := ep_reasons pl @ [''spread_too_wide->cancel_if_not_filled'']\<rparr>
     else pl)"

definition stale_guard :: "market_execution_context \<Rightarrow> execution_plan \<Rightarrow> execution_plan" where
  "stale_guard mc pl =
    (if mc_is_stale mc
     then pl\<lparr>ep_style := AggressiveMarket, ep_order_type := Market, ep_tif := ImmediateOrCancel,
             ep_reasons := ep_reasons pl @ [''stale_data->forced_market'']\<rparr>
     else pl)"

definition default_plan :: execution_plan where
  "default_plan =
    \<lparr>ep_action = OpenPosition, ep_style = AggressiveMarket, ep_order_type = Market,
     ep_tif = ImmediateOrCancel, ep_planned_price = 0, ep_planned_quantity = 0, ep_reduce_only = False,
     ep_timeout_ms = 15000, ep_enable_fallback = False, ep_fallback_after_ms = 5000, ep_reasons = []\<rparr>"

definition plan ::
  "execution_config \<Rightarrow> trade_intent \<Rightarrow> risk_decision \<Rightarrow> execution_alpha_result \<Rightarrow>
   market_execution_context \<Rightarrow> uncertainty_snapshot \<Rightarrow> execution_plan" where
  "plan cfg i rd ea mc u =
    (let a = classify_action i; st = choose_style cfg ea mc a;
         pl = default_plan\<lparr>ep_action := a, ep_planned_quantity := rd_approved_quantity rd, ep_style := st,
                ep_order_type := style_to_order_type st, ep_tif := style_to_tif st\<rparr>;
         pl = plan_price cfg i ea mc pl;
         pl = pl\<lparr>ep_timeout_ms := compute_timeout cfg (ep_action pl) (ep_style pl)\<rparr>;
         pl = (if ep_style pl = SmartFallback
               then pl\<lparr>ep_enable_fallback := True, ep_fallback_after_ms := ec_limit_fallback_to_market_ms cfg\<rparr>
               else pl);
         pl = pl\<lparr>ep_reduce_only := should_reduce_only i (ep_action pl)\<rparr>;
         pl = pl\<lparr>ep_reasons := ep_reasons pl @ plan_reasons ea mc u pl\<rparr>
     in stale_guard mc (widen_spread_guard cfg mc pl))"

section \<open>What a plan promises\<close>

lemma choose_style_reduce_only: "choose_style cfg ea mc a = ReduceOnly \<longleftrightarrow> exit_action a"
  by (auto simp: choose_style_def Let_def split: execution_style.splits)

lemma not_exit_open [simp]: "\<not> exit_action OpenPosition"
  by (simp add: exit_action_def)

lemma exit_not_open: "exit_action a \<Longrightarrow> a \<noteq> OpenPosition"
  by auto

text \<open>What holds of a plan from the price step on, and then of its timeout.\<close>

definition plan_consistent :: "trade_intent \<Rightarrow> risk_decision \<Rightarrow> execution_plan \<Rightarrow> bool" where
  "plan_consistent i rd pl \<longleftrightarrow>
    ep_order_type pl = style_to_order_type (ep_style pl) \<and> ep_tif pl = style_to_tif (ep_style pl) \<and>
    ep_planned_quantity pl = rd_approved_quantity rd \<and> ep_action pl = classify_action i \<and>
    (ep_order_type pl = Market \<or> \<not> ep_planned_price pl \<le> 0) \<and>
    (ep_style pl = ReduceOnly \<longrightarrow> exit_action (classify_action i)) \<and>
    (exit_action (classify_action i) \<longrightarrow> ep_order_type pl = Market \<and> ep_tif pl = ImmediateOrCancel)"

definition timeout_ok :: "execution_config \<Rightarrow> trade_intent \<Rightarrow> execution_plan \<Rightarrow> bool" where
  "timeout_ok cfg i pl \<longleftrightarrow>
    (if exit_action (classify_action i) then ep_reduce_only pl \<and> ep_timeout_ms pl = ec_exit_timeout_ms cfg
     else ep_timeout_ms pl \<le> ec_entry_timeout_ms cfg)"

lemma price_step_consistent:
  assumes "st = choose_style cfg ea mc (classify_action i)"
  shows "plan_consistent i rd (plan_price cfg i ea mc (default_plan\<lparr>ep_action := classify_action i,
    ep_planned_quantity := rd_approved_quantity rd, ep_style := st, ep_order_type := style_to_order_type st,
    ep_tif := style_to_tif st\<rparr>))"
  using choose_style_reduce_only [of cfg ea mc "classify_action i"] assms
  by (cases "exit_action (classify_action i)")
    (simp_all add: plan_consistent_def plan_price_def Let_def)

lemma guards_consistent:
  assumes "plan_consistent i rd pl"
  shows "plan_consistent i rd (widen_spread_guard cfg mc pl)" "plan_consistent i rd (stale_guard mc pl)"
proof -
  show "plan_consistent i rd (widen_spread_guard cfg mc pl)"
    using assms by (cases "ep_style pl") (auto simp: plan_consistent_def widen_spread_guard_def)
  show "plan_consistent i rd (stale_guard mc pl)"
    using assms by (auto simp: plan_consistent_def stale_guard_def)
qed

lemma guards_timeout:
  assumes "timeout_ok cfg i pl" "ep_action pl = classify_action i"
  shows "timeout_ok cfg i (widen_spread_guard cfg mc pl)" "timeout_ok cfg i (stale_guard mc pl)"
  using assms by (auto simp: timeout_ok_def widen_spread_guard_def stale_guard_def split: if_splits)

lemma stale_market:
  "mc_is_stale mc \<Longrightarrow> ep_order_type (stale_guard mc pl) = Market \<and> ep_tif (stale_guard mc pl) = ImmediateOrCancel"
  by (simp add: stale_guard_def)

lemma plan_stages:
  fixes cfg i rd ea mc
  defines "pl \<equiv> plan_price cfg i ea mc (default_plan\<lparr>ep_action := classify_action i,
    ep_planned_quantity := rd_approved_quantity rd, ep_style := choose_style cfg ea mc (classify_action i),
    ep_order_type := style_to_order_type (choose_style cfg ea mc (classify_action i)),
    ep_tif := style_to_tif (choose_style cfg ea mc (classify_action i))\<rparr>)"
  obtains w where "plan cfg i rd ea mc u = stale_guard mc (widen_spread_guard cfg mc w)"
    and "ep_order_type w = ep_order_type pl" "ep_style w = ep_style pl" "ep_tif w = ep_tif pl"
      "ep_planned_quantity w = ep_planned_quantity pl" "ep_action w = ep_action pl" "ep_planned_price w = ep_planned_price pl"
    and "ep_timeout_ms w = compute_timeout cfg (ep_action pl) (ep_style pl)"
      "ep_reduce_only w = should_reduce_only i (ep_action pl)"
proof -
  define z where "z = pl\<lparr>ep_timeout_ms := compute_timeout cfg (ep_action pl) (ep_style pl)\<rparr>"
  define y where "y = (if ep_style z = SmartFallback
    then z\<lparr>ep_enable_fallback := True, ep_fallback_after_ms := ec_limit_fallback_to_market_ms cfg\<rparr> else z)"
  define x where "x = y\<lparr>ep_reduce_only := should_reduce_only i (ep_action y)\<rparr>"
  define w where "w = x\<lparr>ep_reasons := ep_reasons x @ plan_reasons ea mc u x\<rparr>"
  have "plan cfg i rd ea mc u = stale_guard mc (widen_spread_guard cfg mc w)"
    unfolding plan_def Let_def pl_def w_def x_def y_def z_def ..
  then show ?thesis by (rule that) (simp_all add: w_def x_def y_def z_def)
qed

lemma plan_before_guards:
  "\<exists>pl. plan cfg i rd ea mc u = stale_guard mc (widen_spread_guard cfg mc pl) \<and> plan_consistent i rd pl \<and> timeout_ok cfg i pl"
proof -
  let ?pl = "plan_price cfg i ea mc (default_plan\<lparr>ep_action := classify_action i,
    ep_planned_quantity := rd_approved_quantity rd, ep_style := choose_style cfg ea mc (classify_action i),
    ep_order_type := style_to_order_type (choose_style cfg ea mc (classify_action i)),
    ep_tif := style_to_tif (choose_style cfg ea mc (classify_action i))\<rparr>)"
  have c: "plan_consistent i rd ?pl" by (rule price_step_consistent) simp
  then have a: "ep_action ?pl = classify_action i" unfolding plan_consistent_def by blast
  obtain w where w: "plan cfg i rd ea mc u = stale_guard mc (widen_spread_guard cfg mc w)"
    "ep_order_type w = ep_order_type ?pl" "ep_style w = ep_style ?pl" "ep_tif w = ep_tif ?pl"
    "ep_planned_quantity w = ep_planned_quantity ?pl" "ep_action w = ep_action ?pl" "ep_planned_price w = ep_planned_price ?pl"
    "ep_timeout_ms w = compute_timeout cfg (ep_action ?pl) (ep_style ?pl)"
    "ep_reduce_only w = should_reduce_only i (ep_action ?pl)"
    by (rule plan_stages [of cfg i rd ea mc u])
  have "plan_consistent i rd w" using c unfolding plan_consistent_def w(2-7) .
  moreover have "timeout_ok cfg i w"
    unfolding timeout_ok_def w(8,9) a by (simp add: compute_timeout_def should_reduce_only_def)
  ultimately show ?thesis using w(1) by blast
qed

lemma guards_price [simp]:
  "ep_planned_price (stale_guard mc pl) = ep_planned_price pl"
  "ep_planned_price (widen_spread_guard cfg mc pl) = ep_planned_price pl"
  by (simp_all add: stale_guard_def widen_spread_guard_def)

lemma aggressive_plan:
  assumes "choose_style cfg ea mc (classify_action i) = AggressiveMarket"
  shows "ep_order_type (plan cfg i rd ea mc u) = Market"
    and "ep_planned_price (plan cfg i rd ea mc u) = market_reference_price i ea mc"
proof -
  obtain w where w: "plan cfg i rd ea mc u = stale_guard mc (widen_spread_guard cfg mc w)"
    "ep_order_type w = Market" "ep_style w = AggressiveMarket" "ep_planned_price w = market_reference_price i ea mc"
    by (rule plan_stages [of cfg i rd ea mc u]) (simp add: assms plan_price_def)
  have "widen_spread_guard cfg mc w = w" by (simp add: widen_spread_guard_def w(3))
  then show "ep_order_type (plan cfg i rd ea mc u) = Market"
    "ep_planned_price (plan cfg i rd ea mc u) = market_reference_price i ea mc"
    using w(2,4) by (simp_all add: w(1) stale_guard_def)
qed

text \<open>
  C31. A plan is consistent: its order type and time in force are those of its style, its
  quantity is the approved one and its action the classified one.  A plan never asks for a
  limit order at a price that is zero or negative.  Every exit, reduction and emergency is a
  reduce-only market order, immediate or cancelled, with the exit timeout, and every other
  plan waits at most the entry timeout.  Stale market data always ends in a market order.
\<close>

theorem plan_well_formed:
  assumes "pl = plan cfg i rd ea mc u"
  shows "ep_order_type pl = style_to_order_type (ep_style pl) \<and> ep_tif pl = style_to_tif (ep_style pl) \<and>
    ep_planned_quantity pl = rd_approved_quantity rd \<and> ep_action pl = classify_action i \<and>
    (ep_order_type pl \<noteq> Market \<longrightarrow> \<not> ep_planned_price pl \<le> 0) \<and>
    (exit_action (classify_action i) \<longrightarrow>
       ep_order_type pl = Market \<and> ep_tif pl = ImmediateOrCancel \<and> ep_reduce_only pl \<and>
       ep_timeout_ms pl = ec_exit_timeout_ms cfg) \<and>
    (\<not> exit_action (classify_action i) \<longrightarrow> ep_timeout_ms pl \<le> ec_entry_timeout_ms cfg) \<and>
    (mc_is_stale mc \<longrightarrow> ep_order_type pl = Market \<and> ep_tif pl = ImmediateOrCancel)"
proof -
  obtain pl' where pl': "pl = stale_guard mc (widen_spread_guard cfg mc pl')" "plan_consistent i rd pl'" "timeout_ok cfg i pl'"
    using plan_before_guards [of cfg i rd ea mc u] assms by blast
  have w: "plan_consistent i rd (widen_spread_guard cfg mc pl')" by (rule guards_consistent(1) [OF pl'(2)])
  have c: "plan_consistent i rd pl" unfolding pl'(1) by (rule guards_consistent(2) [OF w])
  have "timeout_ok cfg i (widen_spread_guard cfg mc pl')"
    using guards_timeout(1) [OF pl'(3)] pl'(2) by (simp add: plan_consistent_def)
  then have t: "timeout_ok cfg i pl"
    unfolding pl'(1) using guards_timeout(2) [of cfg i _ mc] w by (simp add: plan_consistent_def)
  show ?thesis
    using c t stale_market [of mc "widen_spread_guard cfg mc pl'"] pl'(1)
    by (auto simp: plan_consistent_def timeout_ok_def)
qed

text \<open>An emergency intent, planned under the default configuration.\<close>

definition ex_emergency :: trade_intent where
  "ex_emergency = default_trade_intent\<lparr>ti_exit_reason := EmergencyExit\<rparr>"

theorem plan_well_formed_witness:
  "ep_order_type (plan default_execution_config ex_emergency default_risk_decision default_execution_alpha
     default_market_context default_uncertainty) = Market \<and>
   ep_reduce_only (plan default_execution_config ex_emergency default_risk_decision default_execution_alpha
     default_market_context default_uncertainty)"
proof -
  have "exit_action (classify_action ex_emergency)"
    by (simp add: ex_emergency_def classify_action.simps exit_action_def)
  then show ?thesis
    using plan_well_formed [OF refl, of default_execution_config ex_emergency default_risk_decision
        default_execution_alpha default_market_context default_uncertainty] by blast
qed

end
