(* ===== verification/Execution_Metrics.thy ===== *)
theory Execution_Metrics
  imports Order_FSM
begin

text \<open>
  \<^verbatim>\<open>ExecutionMetrics\<close> (\<^verbatim>\<open>src/src/execution/telemetry/execution_metrics.cpp\<close>): the counters and
  running averages of the execution engine.  The exported Prometheus counters and gauges
  are output and left out.
\<close>

record execution_stats =
  st_total_orders :: int
  st_filled_orders :: int
  st_rejected_orders :: int
  st_cancelled_orders :: int
  st_timed_out_orders :: int
  st_recovery_events :: int
  st_avg_submit_to_fill_ms :: double
  st_avg_slippage_bps :: double
  st_total_fees_usdt :: double
  st_fill_rate_pct :: double
  st_reject_rate_pct :: double
  st_cancel_rate_pct :: double
  st_passive_submissions :: int
  st_passive_fills :: int
  st_passive_fill_rate_pct :: double
  st_cancel_to_fill_ratio :: double
  st_adverse_selection_mean_bps :: double

record execution_metrics =
  em_stats :: execution_stats
  em_slippage_sum_bps :: double
  em_slippage_count :: int
  em_latency_sum_ms :: double
  em_latency_count :: int

definition default_execution_stats :: execution_stats where
  "default_execution_stats =
    \<lparr>st_total_orders = 0, st_filled_orders = 0, st_rejected_orders = 0, st_cancelled_orders = 0,
     st_timed_out_orders = 0, st_recovery_events = 0, st_avg_submit_to_fill_ms = 0,
     st_avg_slippage_bps = 0, st_total_fees_usdt = 0, st_fill_rate_pct = 0, st_reject_rate_pct = 0,
     st_cancel_rate_pct = 0, st_passive_submissions = 0, st_passive_fills = 0,
     st_passive_fill_rate_pct = 0, st_cancel_to_fill_ratio = 0, st_adverse_selection_mean_bps = 0\<rparr>"

definition metrics_init :: execution_metrics where
  "metrics_init =
    \<lparr>em_stats = default_execution_stats, em_slippage_sum_bps = 0, em_slippage_count = 0,
     em_latency_sum_ms = 0, em_latency_count = 0\<rparr>"

definition record_submission :: "execution_metrics \<Rightarrow> execution_metrics" where
  "record_submission m = m\<lparr>em_stats := (em_stats m)\<lparr>st_total_orders := st_total_orders (em_stats m) + 1\<rparr>\<rparr>"

text \<open>\<^verbatim>\<open>100.0 * n / total\<close>, kept as it was while nothing has been submitted.\<close>

definition rate_pct :: "int \<Rightarrow> int \<Rightarrow> double \<Rightarrow> double" where
  "rate_pct n tot old = (if 0 < tot then lit 100 * dint n / dint tot else old)"

definition record_order_fill :: "int \<Rightarrow> double \<Rightarrow> execution_metrics \<Rightarrow> execution_metrics" where
  "record_order_fill latency_ms fee_usdt m =
    (let st = (em_stats m)\<lparr>st_filled_orders := st_filled_orders (em_stats m) + 1\<rparr>;
         sum = em_latency_sum_ms m + dint latency_ms; n = em_latency_count m + 1;
         st = st\<lparr>st_avg_submit_to_fill_ms := (if 0 < n then sum / dint n else 0)\<rparr>;
         st = st\<lparr>st_total_fees_usdt := st_total_fees_usdt st + fee_usdt\<rparr>;
         st = st\<lparr>st_fill_rate_pct := rate_pct (st_filled_orders st) (st_total_orders st) (st_fill_rate_pct st)\<rparr>
     in m\<lparr>em_stats := st, em_latency_sum_ms := sum, em_latency_count := n\<rparr>)"

definition record_rejection :: "execution_metrics \<Rightarrow> execution_metrics" where
  "record_rejection m =
    (let st = (em_stats m)\<lparr>st_rejected_orders := st_rejected_orders (em_stats m) + 1\<rparr>
     in m\<lparr>em_stats := st\<lparr>st_reject_rate_pct :=
           rate_pct (st_rejected_orders st) (st_total_orders st) (st_reject_rate_pct st)\<rparr>\<rparr>)"

definition record_cancel :: "execution_metrics \<Rightarrow> execution_metrics" where
  "record_cancel m =
    (let st = (em_stats m)\<lparr>st_cancelled_orders := st_cancelled_orders (em_stats m) + 1\<rparr>
     in m\<lparr>em_stats := st\<lparr>st_cancel_rate_pct :=
           rate_pct (st_cancelled_orders st) (st_total_orders st) (st_cancel_rate_pct st)\<rparr>\<rparr>)"

definition record_timeout :: "execution_metrics \<Rightarrow> execution_metrics" where
  "record_timeout m = m\<lparr>em_stats := (em_stats m)\<lparr>st_timed_out_orders := st_timed_out_orders (em_stats m) + 1\<rparr>\<rparr>"

definition record_recovery :: "execution_metrics \<Rightarrow> execution_metrics" where
  "record_recovery m = m\<lparr>em_stats := (em_stats m)\<lparr>st_recovery_events := st_recovery_events (em_stats m) + 1\<rparr>\<rparr>"

definition record_slippage :: "double \<Rightarrow> double \<Rightarrow> side \<Rightarrow> execution_metrics \<Rightarrow> execution_metrics" where
  "record_slippage expected actual sd m =
    (if expected \<le> 0 then m
     else
       let slip = ((actual - expected) / expected) * lit 10000;
           slip = (if sd = Sell then - slip else slip);
           sum = em_slippage_sum_bps m + slip; n = em_slippage_count m + 1
       in m\<lparr>em_stats := (em_stats m)\<lparr>st_avg_slippage_bps := (if 0 < n then sum / dint n else 0)\<rparr>,
            em_slippage_sum_bps := sum, em_slippage_count := n\<rparr>)"

definition metrics_snapshot :: "execution_metrics \<Rightarrow> execution_stats" where
  "metrics_snapshot m = em_stats m"

definition metrics_reset :: "execution_metrics \<Rightarrow> execution_metrics" where
  "metrics_reset m = metrics_init"

end
