(* ===== verification/Execution_Engine.thy ===== *)
theory Execution_Engine
  imports Cancel_Recovery Execution_Planner Execution_Metrics
begin

text \<open>
  \<^verbatim>\<open>ExecutionEngine\<close> (\<^verbatim>\<open>src/src/execution/execution_engine_new.cpp\<close>): the orchestrator that
  turns an approved intent into an order, submits it, confirms market fills and routes the
  exchange's events.

  \<^verbatim>\<open>execute\<close> holds \<^verbatim>\<open>execute_mutex_\<close> but gives it up while it polls for the fill, and the
  event handlers never take it.  What other threads do to the shared registry and portfolio
  meanwhile is therefore part of the \<open>world\<close> of a call: the exchange's reply to the
  submission, the other threads' effect during the network call, the answers to the
  successive fill queries, and the other threads' effect while the lock is released.
  A null submitter crashes \<^verbatim>\<open>execute\<close> and is not modelled there.
\<close>

section \<open>State and world\<close>

record order_submit_result =
  sr_success :: bool
  sr_order_id :: order_id
  sr_exchange_order_id :: order_id
  sr_error_message :: string
  sr_submitted_quantity :: double

datatype submit_reply = SubmitThrew | Submitted order_submit_result

record world =
  w_submit :: "order_record \<Rightarrow> submit_reply"
  w_during_submit :: "exec_state \<Rightarrow> exec_state"
  w_query :: "nat \<Rightarrow> order_fill_detail"
  w_during_confirm :: "exec_state \<Rightarrow> exec_state"

record engine =
  en_exec :: exec_state
  en_metrics :: execution_metrics
  en_config :: execution_config
  en_leverage :: double
  en_default_fill_policy :: partial_fill_policy
  en_session_prefix :: string
  en_seq :: int

text \<open>
  \<^verbatim>\<open>ClientOrderIdGenerator\<close>: the last six digits of the start time, and a counter that
  starts at 1.
\<close>

definition session_prefix :: "nat \<Rightarrow> string" where
  "session_prefix start_ms =
    (let s = to_string_nat start_ms in drop (if 6 < length s then length s - 6 else 0) s)"

definition client_order_id :: "string \<Rightarrow> int \<Rightarrow> order_id" where
  "client_order_id prefix n = ''TB'' @ prefix @ ''-'' @ to_string_int n"

definition next_order_id :: "engine \<Rightarrow> order_id \<times> engine" where
  "next_order_id en = (client_order_id (en_session_prefix en) (en_seq en), en\<lparr>en_seq := en_seq en + 1\<rparr>)"

definition engine_init :: "nat \<Rightarrow> portfolio option \<Rightarrow> execution_config \<Rightarrow> engine" where
  "engine_init start_ms pf cfg =
    \<lparr>en_exec = \<lparr>xs_registry = registry_init (ec_dedup_window_ms cfg), xs_portfolio = pf, xs_journal = None\<rparr>,
     en_metrics = metrics_init, en_config = cfg, en_leverage = 1, en_default_fill_policy = WaitForFull,
     en_session_prefix = session_prefix start_ms, en_seq = 1\<rparr>"

abbreviation en_registry :: "engine \<Rightarrow> registry" where
  "en_registry en \<equiv> xs_registry (en_exec en)"

definition on_exec :: "(exec_state \<Rightarrow> exec_state) \<Rightarrow> engine \<Rightarrow> engine" where
  "on_exec f en = en\<lparr>en_exec := f (en_exec en)\<rparr>"

definition on_registry :: "(registry \<Rightarrow> registry) \<Rightarrow> engine \<Rightarrow> engine" where
  "on_registry f = on_exec (\<lambda>x. x\<lparr>xs_registry := f (xs_registry x)\<rparr>)"

definition on_metrics :: "(execution_metrics \<Rightarrow> execution_metrics) \<Rightarrow> engine \<Rightarrow> engine" where
  "on_metrics f en = en\<lparr>en_metrics := f (en_metrics en)\<rparr>"

definition shift :: "clk \<Rightarrow> order_id \<Rightarrow> order_state \<Rightarrow> string \<Rightarrow> registry \<Rightarrow> registry" where
  "shift c oid st reason g = snd (reg_transition c oid st reason g)"

section \<open>From intent to order\<close>

definition dedup_key :: "trade_intent \<Rightarrow> string" where
  "dedup_key i = ti_correlation_id i @ '':'' @ ti_symbol i"

definition validate_inputs ::
  "risk_decision \<Rightarrow> execution_alpha_result \<Rightarrow> uncertainty_snapshot \<Rightarrow> unit tb_result" where
  "validate_inputs rd ea u =
    (if rd_verdict rd = Denied \<or> rd_verdict rd = Throttled then Inl RiskDenied
     else if \<not> ea_should_execute ea \<or> ea_recommended_style ea = NoExecution then Inl ExecutionFailed
     else if us_level u = Extreme then Inl ExecutionFailed
     else Inr ())"

definition market_context :: "trade_intent \<Rightarrow> execution_alpha_result \<Rightarrow> market_execution_context" where
  "market_context i ea =
    (let mc = default_market_context;
         mc = (case ti_snapshot_mid_price i of
                 None \<Rightarrow> mc
               | Some mid \<Rightarrow> mc\<lparr>mc_best_bid := mid * lit (9999 / 10000),
                                mc_best_ask := mid * lit (10001 / 10000), mc_spread_bps := lit 2\<rparr>);
         mc = (if 0 < eq_spread_cost_bps (ea_quality ea)
               then mc\<lparr>mc_spread_bps := eq_spread_cost_bps (ea_quality ea)\<rparr> else mc)
     in mc\<lparr>mc_adverse_selection_risk := eq_adverse_selection_risk (ea_quality ea)\<rparr>)"

definition usable_price :: "double option \<Rightarrow> bool" where
  "usable_price p = (case p of None \<Rightarrow> False | Some v \<Rightarrow> 0 < v \<and> isfinite v)"

definition attach_brackets :: "trade_intent \<Rightarrow> order_record \<Rightarrow> order_record" where
  "attach_brackets i r =
    (if ti_trade_side i = TradeOpen then
       let t = o_attached_tp_sl r;
           t = (if usable_price (ti_take_profit_price i)
                then t\<lparr>tp_stop_surplus_price := the (ti_take_profit_price i)\<rparr> else t);
           t = (if usable_price (ti_stop_loss_price i)
                then t\<lparr>sl_stop_loss_price := the (ti_stop_loss_price i)\<rparr> else t)
       in r\<lparr>o_attached_tp_sl := t\<lparr>tpsl_trigger_type := MarkPrice\<rparr>\<rparr>
     else r)"

definition create_order_record ::
  "clk \<Rightarrow> trade_intent \<Rightarrow> risk_decision \<Rightarrow> execution_plan \<Rightarrow> engine \<Rightarrow> order_record \<times> engine" where
  "create_order_record c i rd pl en =
    (let (oid, en') = next_order_id en;
         r = default_order
           \<lparr>o_order_id := oid, o_symbol := ti_symbol i, o_side := ti_side i,
            o_position_side := ti_position_side i, o_trade_side := ti_trade_side i,
            o_strategy_id := ti_strategy_id i, o_correlation_id := ti_correlation_id i,
            o_original_quantity := rd_approved_quantity rd, o_remaining_quantity := rd_approved_quantity rd,
            o_created_at := now c, o_last_updated := now c, o_order_type := ep_order_type pl,
            o_tif := ep_tif pl, o_price := ep_planned_price pl,
            o_execution_info := default_execution_info
              \<lparr>ei_fill_policy := en_default_fill_policy en, ei_expected_fill_price := ep_planned_price pl,
               ei_client_order_id := oid\<rparr>\<rparr>
     in (attach_brackets i r, en'))"

text \<open>The reservation, with the retry at a size that fits the free cash.\<close>

definition try_reserve_margin ::
  "clk \<Rightarrow> execution_config \<Rightarrow> double \<Rightarrow> order_record \<Rightarrow> exec_state \<Rightarrow> bool \<times> order_record \<times> exec_state" where
  "try_reserve_margin c cfg lev r x =
    (case xs_portfolio x of
       None \<Rightarrow> (True, r, x)
     | Some p \<Rightarrow>
         if \<not> requires_margin_reserve r then (True, r, x)
         else
           let price = (if 0 < o_price r then o_price r else 0);
               notional = o_original_quantity r * price
           in if notional \<le> 0 then (True, r, x)
              else if notional < ec_min_notional_usdt cfg then (False, r, x)
              else
                case reserve_cash (now c) (o_order_id r) (o_symbol r) (o_side r) (notional / lev)
                       (notional * kDefaultTakerFeePct) (o_strategy_id r) p of
                  (True, p') \<Rightarrow> (True, r, x\<lparr>xs_portfolio := Some p'\<rparr>)
                | (False, _) \<Rightarrow>
                    let available = sn_available_capital (snapshot (now c) p)
                    in if available \<le> 0 \<or> price \<le> 0 then (False, r, x)
                       else
                         let max_notional = available * lev * lit (95 / 100)
                         in if max_notional < ec_min_notional_usdt cfg then (False, r, x)
                            else
                              let new_qty = max_notional / price;
                                  r' = r\<lparr>o_original_quantity := new_qty\<rparr>;
                                  new_notional = new_qty * price;
                                  (ok, p') = reserve_cash (now c) (o_order_id r) (o_symbol r) (o_side r)
                                    (new_notional / lev) (new_notional * kDefaultTakerFeePct)
                                    (o_strategy_id r) p
                              in (ok, r', x\<lparr>xs_portfolio := Some p'\<rparr>))"

text \<open>A rejection before or at submission: automaton, stored record, counters.\<close>

definition reject_order :: "clk \<Rightarrow> string \<Rightarrow> string option \<Rightarrow> order_record \<Rightarrow> engine \<Rightarrow> engine" where
  "reject_order c reason rejection r en =
    (let r' = r\<lparr>o_state := Rejected\<rparr>;
         r' = (case rejection of None \<Rightarrow> r' | Some m \<Rightarrow> r'\<lparr>o_rejection_reason := m\<rparr>)
     in on_metrics record_rejection
          (on_registry (update_order r' \<circ> shift c (o_order_id r) Rejected reason) en))"

fun starts_with :: "string \<Rightarrow> string \<Rightarrow> bool" where
  "starts_with [] s = True"
| "starts_with (p # ps) [] = False"
| "starts_with (p # ps) (a # s) \<longleftrightarrow> p = a \<and> starts_with ps s"

fun str_find :: "string \<Rightarrow> string \<Rightarrow> bool" where
  "str_find pat [] = starts_with pat []"
| "str_find pat (a # s) \<longleftrightarrow> starts_with pat (a # s) \<or> str_find pat s"

text \<open>Error 22002 on a close: the exchange has no such position, so the local leg is closed too.\<close>

definition sync_phantom :: "clk \<Rightarrow> order_record \<Rightarrow> string \<Rightarrow> exec_state \<Rightarrow> exec_state" where
  "sync_phantom c r msg x =
    (case xs_portfolio x of
       None \<Rightarrow> x
     | Some p \<Rightarrow>
         if o_trade_side r = TradeClose \<and> str_find ''22002'' msg then
           (case get_position_leg (o_symbol r) (o_position_side r) p of
              None \<Rightarrow> x
            | Some q \<Rightarrow>
                if 0 < pos_size q then
                  let entry = pos_avg_entry_price q; size = pos_size q;
                      mark = (if 0 < o_price r then o_price r else entry);
                      pnl_est = (if o_position_side r = Long then (mark - entry) * size
                                 else (entry - mark) * size)
                  in x\<lparr>xs_portfolio :=
                       Some (close_position_leg (now c) (o_symbol r) (o_position_side r) mark pnl_est p)\<rparr>
                else x)
         else x)"

section \<open>Submission\<close>

datatype submit_outcome =
    Finished "order_id tb_result"
  | Propagated
  | AwaitFill order_record double double

text \<open>
  The part of \<^verbatim>\<open>execute\<close> after the reservation.  An exception of the submitter passes through
  the guard that gives the reservation back; after a success the intent is remembered.
\<close>

definition submit_order ::
  "clk \<Rightarrow> world \<Rightarrow> trade_intent \<Rightarrow> order_record \<Rightarrow> engine \<Rightarrow> submit_outcome \<times> engine" where
  "submit_order c w i r en =
    (let oid = o_order_id r;
         en = on_registry (update_order r) en;
         reply = w_submit w r;
         en = on_exec (w_during_submit w) en
     in case reply of
          SubmitThrew \<Rightarrow> (Propagated, on_exec (release_cash_if_needed c r) en)
        | Submitted sr \<Rightarrow>
            if \<not> sr_success sr then
              (Finished (Inl ExecutionFailed),
               on_exec (release_cash_if_needed c r \<circ> sync_phantom c r (sr_error_message sr))
                 (reject_order c (sr_error_message sr) (Some (sr_error_message sr)) r en))
            else
              let r = r\<lparr>o_exchange_order_id := sr_exchange_order_id sr\<rparr>;
                  en = on_registry (record_intent c (dedup_key i) \<circ> update_order r) en;
                  en = on_metrics record_submission en
              in (if o_order_type r = Market
                  then (AwaitFill r (o_price r)
                          (if 0 < sr_submitted_quantity sr then sr_submitted_quantity sr
                           else o_original_quantity r), en)
                  else (Finished (Inr oid), en)))"

definition engine_submit ::
  "clk \<Rightarrow> world \<Rightarrow> trade_intent \<Rightarrow> risk_decision \<Rightarrow> execution_alpha_result \<Rightarrow> uncertainty_snapshot \<Rightarrow>
   engine \<Rightarrow> submit_outcome \<times> engine" where
  "engine_submit c w i rd ea u en =
    (case validate_inputs rd ea u of
       Inl e \<Rightarrow> (Finished (Inl e), en)
     | Inr _ \<Rightarrow>
         let en = on_registry (cleanup_old_intents c) en
         in if is_duplicate_intent (dedup_key i) (en_registry en)
            then (Finished (Inl IdempotencyDuplicate), en)
            else
              let pl = plan (en_config en) i rd ea (market_context i ea) u
              in if ep_action pl = NoAction then (Finished (Inl NoActionRequired), en)
                 else
                   let (r, en) = create_order_record c i rd pl en;
                       oid = o_order_id r;
                       en = on_registry (register_order c r) en;
                       (ok, g) = reg_transition c oid PendingAck ''Submitting to exchange'' (en_registry en)
                   in if \<not> ok then (Finished (Inl ExecutionFailed), en)
                      else
                        let en = on_registry (\<lambda>_. g) en;
                            r = r\<lparr>o_state := PendingAck\<rparr>
                        in if o_order_type r = Market \<and> o_price r \<le> 0 then
                             (Finished (Inl ExecutionFailed), reject_order c ''Fill price = 0'' None r en)
                           else if o_original_quantity r \<le> 0 then
                             (Finished (Inl ExecutionFailed),
                              reject_order c ''Zero quantity'' (Some ''Zero quantity after sizing'') r en)
                           else
                             let (reserved, r, x) = try_reserve_margin c (en_config en) (en_leverage en) r (en_exec en);
                                 en = en\<lparr>en_exec := x\<rparr>
                             in if \<not> reserved then
                                  (Finished (Inl ExecutionFailed),
                                   reject_order c ''Insufficient cash'' (Some ''Insufficient cash for reserve'') r en)
                                else submit_order c w i r en)"

section \<open>Confirmation of market orders\<close>

text \<open>
  \<^verbatim>\<open>for (attempt < 3) { detail = query(); if (good) break; sleep; }\<close>: the answers are numbered
  through the whole call, so the second loop starts at the fourth.
\<close>

fun query_loop :: "(order_fill_detail \<Rightarrow> bool) \<Rightarrow> (nat \<Rightarrow> order_fill_detail) \<Rightarrow> nat \<Rightarrow> nat \<Rightarrow> order_fill_detail" where
  "query_loop good q n 0 = q n"
| "query_loop good q n (Suc k) = (if good (q n) then q n else query_loop good q (Suc n) k)"

definition fill_latency_ms :: "clk \<Rightarrow> order_record \<Rightarrow> int" where
  "fill_latency_ms c r =
    (if 0 < o_created_at r then
       if now c < o_created_at r then 0 else (now c - o_created_at r) sdiv 1000000
     else 0)"

definition settle_detail ::
  "clk \<Rightarrow> bool \<Rightarrow> order_record \<Rightarrow> double \<Rightarrow> double \<Rightarrow> order_fill_detail \<Rightarrow> engine \<Rightarrow> order_id tb_result \<times> engine" where
  "settle_detail c retry r px qty d en =
    (let oid = o_order_id r;
         price = (if 0 < fd_fill_price d then fd_fill_price d else px)
     in if \<not> isfinite (fd_filled_qty d) then
          let en = on_registry (shift c oid UnknownRecovery
                     (if retry then ''NaN filled_qty from exchange on retry'' else ''NaN filled_qty from exchange'')) en
          in (Inl ExecutionFailed, if retry then on_exec (release_cash_if_needed c r) en else en)
        else
          let qty = (if 0 < fd_filled_qty d then fd_filled_qty d else qty)
          in if fd_filled_qty d \<le> 0 then
               (Inr oid, on_exec (release_cash_if_needed c r)
                  (on_registry (shift c oid Cancelled
                     ((if retry then ''Exchange reported no fill on retry: '' else ''Exchange reported no fill: '')
                      @ fd_status d)) en))
             else
               let en = on_exec (snd \<circ> process_market_fill c oid qty price (o_exchange_order_id r)) en;
                   expected = ei_expected_fill_price (o_execution_info r);
                   en = (if 0 < expected then on_metrics (record_slippage expected price (o_side r)) en else en);
                   fee = qty * price * kDefaultTakerFeePct
               in (Inr oid, on_metrics (record_order_fill (fill_latency_ms c r) fee) en))"

definition engine_confirm ::
  "clk \<Rightarrow> world \<Rightarrow> order_record \<Rightarrow> double \<Rightarrow> double \<Rightarrow> engine \<Rightarrow> order_id tb_result \<times> engine" where
  "engine_confirm c w r px qty en =
    (let d = query_loop (\<lambda>d. fd_success d \<and> 0 < fd_filled_qty d) (w_query w) 0 2
     in if fd_success d then settle_detail c False r px qty d en
        else
          let d = query_loop fd_success (w_query w) 3 2
          in if fd_success d then settle_detail c True r px qty d en
             else
               (Inr (o_order_id r),
                on_registry (shift c (o_order_id r) Open ''Fill confirmation failed - awaiting reconciliation'') en))"

text \<open>
  The whole call: \<open>None\<close> is an exception that reaches the caller.  \<open>c\<close> and \<open>c'\<close> are the clock
  readings before the submission and at the confirmation.
\<close>

definition engine_execute ::
  "clk \<Rightarrow> clk \<Rightarrow> world \<Rightarrow> trade_intent \<Rightarrow> risk_decision \<Rightarrow> execution_alpha_result \<Rightarrow> uncertainty_snapshot \<Rightarrow>
   engine \<Rightarrow> order_id tb_result option \<times> engine" where
  "engine_execute c c' w i rd ea u en =
    (case engine_submit c w i rd ea u en of
       (Finished res, en) \<Rightarrow> (Some res, en)
     | (Propagated, en) \<Rightarrow> (None, en)
     | (AwaitFill r px qty, en) \<Rightarrow>
         let (res, en) = engine_confirm c' w r px qty (on_exec (w_during_confirm w) en)
         in (Some res, en))"

section \<open>Commands\<close>

definition engine_cancel :: "clk \<Rightarrow> exchange option \<Rightarrow> order_id \<Rightarrow> engine \<Rightarrow> unit tb_result \<times> engine" where
  "engine_cancel c sub oid en =
    (let (res, x) = cancel_order c sub oid (en_exec en); en = en\<lparr>en_exec := x\<rparr>
     in (res, case res of
                Inl _ \<Rightarrow> en
              | Inr _ \<Rightarrow> (case get_order oid (en_registry en) of
                            None \<Rightarrow> en
                          | Some _ \<Rightarrow> on_metrics record_cancel en)))"

definition flatten_intent :: "clk \<Rightarrow> symbol \<Rightarrow> position_side \<Rightarrow> position \<Rightarrow> trade_intent" where
  "flatten_intent c s ps q =
    (let px = (if 0 < pos_current_price q then pos_current_price q else pos_avg_entry_price q)
     in default_trade_intent
       \<lparr>ti_strategy_id := ''emergency_flatten'', ti_strategy_version := 1, ti_symbol := s,
        ti_position_side := ps, ti_side := (if ps = Long then Sell else Buy),
        ti_signal_intent := (if ps = Long then LongExit else ShortExit), ti_trade_side := TradeClose,
        ti_exit_reason := EmergencyExit, ti_signal_type := SigEmergencyExit,
        ti_signal_name := ''EmergencyFlatten'', ti_suggested_quantity := pos_size q,
        ti_generated_at := now c, ti_snapshot_mid_price := Some px, ti_limit_price := Some px,
        ti_conviction := 1, ti_urgency := 1,
        ti_correlation_id := ''emergency_flatten:'' @ s @ '':'' @ (if ps = Long then ''long'' else ''short'')
          @ '':'' @ to_string_int (now c)\<rparr>)"

definition flatten_risk :: "clk \<Rightarrow> position \<Rightarrow> risk_decision" where
  "flatten_risk c q = default_risk_decision
    \<lparr>rd_verdict := Approved, rd_allowed := True, rd_action := Allow, rd_phase := IntraTrade,
     rd_approved_quantity := pos_size q, rd_original_size := pos_size q, rd_decided_at := now c,
     rd_summary := ''Emergency flatten approved''\<rparr>"

definition flatten_alpha :: "clk \<Rightarrow> trade_intent \<Rightarrow> execution_alpha_result" where
  "flatten_alpha c i = default_execution_alpha
    \<lparr>ea_recommended_style := EsAggressive, ea_should_execute := True, ea_urgency_score := 1,
     ea_recommended_limit_price := ti_snapshot_mid_price i,
     ea_quality := default_quality_estimate\<lparr>eq_fill_probability := 1\<rparr>,
     ea_rationale := ''Emergency flatten uses aggressive close'', ea_computed_at := now c\<rparr>"

definition flatten_uncertainty :: "clk \<Rightarrow> symbol \<Rightarrow> uncertainty_snapshot" where
  "flatten_uncertainty c s = default_uncertainty
    \<lparr>us_level := Low, us_aggregate_score := 0, us_size_multiplier := 1, us_threshold_multiplier := 1,
     us_execution_mode := ModeNormal, us_computed_at := now c, us_symbol := s\<rparr>"

text \<open>
  One leg of \<^verbatim>\<open>emergency_flatten_symbol\<close>; the result is the new value of \<^verbatim>\<open>flatten_error\<close>, and
  an exception ends the whole command.
\<close>

definition flatten_leg ::
  "clk \<Rightarrow> clk \<Rightarrow> (position_side \<Rightarrow> world) \<Rightarrow> symbol \<Rightarrow> position_side \<Rightarrow> tb_error option \<Rightarrow> engine \<Rightarrow>
   tb_error option option \<times> engine" where
  "flatten_leg c c' w s ps err en =
    (case xs_portfolio (en_exec en) of
       None \<Rightarrow> (Some err, en)
     | Some p \<Rightarrow>
         (case get_position_leg s ps p of
            None \<Rightarrow> (Some err, en)
          | Some q \<Rightarrow>
              if pos_size q \<le> 0 then (Some err, en)
              else
                let i = flatten_intent c s ps q
                in case engine_execute c c' (w ps) i (flatten_risk c q) (flatten_alpha c i)
                          (flatten_uncertainty c s) en of
                     (None, en) \<Rightarrow> (None, en)
                   | (Some (Inl e), en) \<Rightarrow> (Some (Some e), en)
                   | (Some (Inr _), en) \<Rightarrow> (Some err, en)))"

definition emergency_flatten_symbol ::
  "clk \<Rightarrow> clk \<Rightarrow> exchange option \<Rightarrow> (position_side \<Rightarrow> world) \<Rightarrow> symbol \<Rightarrow> engine \<Rightarrow>
   unit tb_result option \<times> engine" where
  "emergency_flatten_symbol c c' sub w s en =
    (let en = on_exec (snd \<circ> cancel_all_for_symbol c sub s) en
     in case xs_portfolio (en_exec en) of
          None \<Rightarrow> (Some (Inr ()), en)
        | Some _ \<Rightarrow>
            (case flatten_leg c c' w s Long None en of
               (None, en) \<Rightarrow> (None, en)
             | (Some err, en) \<Rightarrow>
                 (case flatten_leg c c' w s Short err en of
                    (None, en) \<Rightarrow> (None, en)
                  | (Some None, en) \<Rightarrow> (Some (Inr ()), en)
                  | (Some (Some e), en) \<Rightarrow> (Some (Inl e), en))))"

section \<open>Events of the exchange\<close>

definition enforce_cancel_remaining :: "clk \<Rightarrow> exchange option \<Rightarrow> order_id \<Rightarrow> exec_state \<Rightarrow> exec_state" where
  "enforce_cancel_remaining c sub oid x =
    (let act = check_cancel_remaining oid (xs_registry x)
     in if ca_needed act then snd (cancel_remaining c sub (ca_order_id act) x) else x)"

text \<open>The cancel-remaining check uses the id as delivered, not the resolved one.\<close>

definition on_order_update ::
  "clk \<Rightarrow> exchange option \<Rightarrow> order_id \<Rightarrow> order_state \<Rightarrow> double \<Rightarrow> double \<Rightarrow> engine \<Rightarrow> engine" where
  "on_order_update c sub oid new_state filled_qty fill_price en =
    (case resolve_order oid (en_registry en) of
       None \<Rightarrow> en
     | Some (eid, r) \<Rightarrow>
         (case reg_transition c eid new_state ''Exchange update'' (en_registry en) of
            (False, _) \<Rightarrow> en
          | (True, g) \<Rightarrow>
              let en = on_registry (\<lambda>_. g) en;
                  en = (if new_state = Cancelled \<or> new_state = Rejected \<or> new_state = Expired
                        then on_metrics record_cancel (on_exec (release_cash_if_needed c r) en) else en);
                  en = (if 0 < filled_qty
                        then on_exec (enforce_cancel_remaining c sub oid \<circ>
                               snd \<circ> process_order_fill c eid filled_qty fill_price) en
                        else en)
              in if new_state = Filled \<and> 0 < filled_qty \<and> 0 < fill_price
                 then on_metrics (record_order_fill 0 (filled_qty * fill_price * kDefaultTakerFeePct)) en
                 else en))"

definition on_fill_event :: "clk \<Rightarrow> exchange option \<Rightarrow> fill_event \<Rightarrow> engine \<Rightarrow> engine" where
  "on_fill_event c sub fill en =
    (let en = on_exec (snd \<circ> process_fill_event c fill) en;
         eid = (case resolve_order (fe_order_id fill) (en_registry en) of
                  None \<Rightarrow> fe_order_id fill
                | Some (eid, _) \<Rightarrow> eid)
     in on_exec (enforce_cancel_remaining c sub eid) en)"

section \<open>Services\<close>

definition is_duplicate :: "clk \<Rightarrow> trade_intent \<Rightarrow> engine \<Rightarrow> bool \<times> engine" where
  "is_duplicate c i en =
    (let en = on_registry (cleanup_old_intents c) en
     in (is_duplicate_intent (dedup_key i) (en_registry en), en))"

definition engine_set_leverage :: "double \<Rightarrow> engine \<Rightarrow> engine" where
  "engine_set_leverage lev en = en\<lparr>en_leverage := std_max lev 1\<rparr>"

definition set_min_notional_usdt :: "double \<Rightarrow> engine \<Rightarrow> engine" where
  "set_min_notional_usdt m en =
    (if 0 < m then en\<lparr>en_config := (en_config en)\<lparr>ec_min_notional_usdt := m\<rparr>\<rparr> else en)"

definition get_execution_info :: "order_id \<Rightarrow> engine \<Rightarrow> order_execution_info option" where
  "get_execution_info oid en = map_option o_execution_info (get_order oid (en_registry en))"

definition set_default_fill_policy :: "partial_fill_policy \<Rightarrow> engine \<Rightarrow> engine" where
  "set_default_fill_policy pol en = en\<lparr>en_default_fill_policy := pol\<rparr>"

definition engine_run_reconciliation :: "clk \<Rightarrow> exchange option \<Rightarrow> engine \<Rightarrow> reconciliation_result \<times> engine" where
  "engine_run_reconciliation c sub en =
    (let en = on_metrics record_recovery en;
         (res, g) = run_reconciliation c sub (ec_cancel_confirmation_timeout_ms (en_config en)) (en_registry en)
     in (res, on_registry (\<lambda>_. g) en))"

end
