(* ===== verification/Engine_Laws.thy ===== *)
theory Engine_Laws
  imports Execution_Engine
begin

text \<open>
  What single calls of the execution engine do: which intents are refused and how, when an accepted
  intent is remembered, how the polling for a market fill ends, and that the operations keep the
  invariants of registry and portfolio.
\<close>

section \<open>Frames\<close>

lemma on_exec_sel [simp]:
  "en_exec (on_exec f en) = f (en_exec en)" "en_metrics (on_exec f en) = en_metrics en"
  "en_config (on_exec f en) = en_config en" "en_leverage (on_exec f en) = en_leverage en"
  "en_default_fill_policy (on_exec f en) = en_default_fill_policy en"
  "en_session_prefix (on_exec f en) = en_session_prefix en" "en_seq (on_exec f en) = en_seq en"
  by (simp_all add: on_exec_def)

lemma on_metrics_sel [simp]:
  "en_exec (on_metrics f en) = en_exec en" "en_config (on_metrics f en) = en_config en"
  "en_leverage (on_metrics f en) = en_leverage en"
  "en_session_prefix (on_metrics f en) = en_session_prefix en" "en_seq (on_metrics f en) = en_seq en"
  by (simp_all add: on_metrics_def)

lemma on_registry_sel [simp]:
  "en_exec (on_registry f en) = (en_exec en)\<lparr>xs_registry := f (en_registry en)\<rparr>"
  "en_config (on_registry f en) = en_config en" "en_leverage (on_registry f en) = en_leverage en"
  "en_default_fill_policy (on_registry f en) = en_default_fill_policy en"
  "en_session_prefix (on_registry f en) = en_session_prefix en" "en_seq (on_registry f en) = en_seq en"
  by (simp_all add: on_registry_def)

text \<open>
  The deduplication window is fixed, and the remembered intents change only by
  \<^verbatim>\<open>record_intent\<close> and \<^verbatim>\<open>cleanup_old_intents\<close>.
\<close>

definition intents :: "registry \<Rightarrow> int \<times> (string \<times> timestamp) list" where
  "intents g = (reg_dedup_window_ms g, reg_recent_intents g)"

lemma intents_frame [simp]:
  "intents (snd (reg_transition c oid s reason g)) = intents g"
  "intents (shift c oid s reason g) = intents g"
  "intents (update_order r g) = intents g"
  "intents (mark_fill_applied oid g) = intents g"
  "intents (register_order c r g) = intents g"
  by (auto simp: intents_def reg_transition_def shift_def update_order_def mark_fill_applied_def
      register_order_def Let_def fsm_transition_def set_order_state_def split: option.splits)

lemma market_fill_intents [simp]:
  "intents (xs_registry (snd (process_market_fill c oid q pr xid x))) = intents (xs_registry x)"
proof -
  have "intents g1 = intents g"
    if "reg_transition c oid Filled ''Market order filled'' g = (b, g1)" for b g g1
    using intents_frame(1) [of c oid Filled "''Market order filled''" g] that by simp
  then show ?thesis
    by (auto simp: process_market_fill_def Let_def split: option.splits prod.splits bool.splits)
qed

lemma sync_phantom_registry [simp]: "xs_registry (sync_phantom c r m x) = xs_registry x"
  by (auto simp: sync_phantom_def Let_def split: option.splits)

lemma reserve_registry:
  "try_reserve_margin c cfg lev r x = (ok, r', x') \<Longrightarrow> xs_registry x' = xs_registry x"
  by (auto simp: try_reserve_margin_def Let_def split: option.splits prod.splits bool.splits if_splits)

lemma reserve_order:
  assumes "try_reserve_margin c cfg lev r x = (ok, r', x')"
  shows "o_order_id r' = o_order_id r \<and> o_trade_side r' = o_trade_side r \<and> o_state r' = o_state r \<and>
    o_order_type r' = o_order_type r \<and> o_price r' = o_price r"
  using assms
  by (auto simp: try_reserve_margin_def Let_def split: option.splits prod.splits bool.splits if_splits)

lemma settle_intents:
  "settle_detail c retry r px qty d en = (res, en') \<Longrightarrow> intents (en_registry en') = intents (en_registry en)"
  by (auto simp: settle_detail_def Let_def split: if_splits)

lemma confirm_intents:
  assumes "engine_confirm c w r px qty en = (res, en')"
  shows "intents (en_registry en') = intents (en_registry en)"
  using assms by (auto simp: engine_confirm_def Let_def intro: settle_intents split: if_splits)

section \<open>Accepted intents\<close>

definition accepted :: "submit_outcome \<Rightarrow> bool" where
  "accepted out = (case out of Finished r \<Rightarrow> (case r of Inl _ \<Rightarrow> False | Inr _ \<Rightarrow> True)
                            | Propagated \<Rightarrow> False | AwaitFill _ _ _ \<Rightarrow> True)"

definition remembers :: "string \<Rightarrow> timestamp \<Rightarrow> registry \<Rightarrow> bool" where
  "remembers k t g \<longleftrightarrow> map_of (reg_recent_intents g) k = Some t"

lemma remembers_intents: "intents g = intents g' \<Longrightarrow> remembers k t g = remembers k t g'"
  by (simp add: remembers_def intents_def)

lemma submit_order_records:
  assumes "submit_order c w i r en = (out, en')" and "accepted out"
  shows "remembers (dedup_key i) (now c) (en_registry en')"
  using assms
  by (auto simp: submit_order_def Let_def accepted_def record_intent_def remembers_def
      split: submit_reply.splits if_splits)

lemma accepted_records:
  assumes "engine_submit c w i rd ea u en = (out, en')" and "accepted out"
  shows "remembers (dedup_key i) (now c) (en_registry en')"
  using assms
  by (auto simp: engine_submit_def Let_def accepted_def [of "Finished _"] case_prod_unfold
      intro: submit_order_records split: sum.splits if_splits)

text \<open>Other threads that keep a remembered intent and the deduplication window.\<close>

definition keeps_intent :: "string \<Rightarrow> (exec_state \<Rightarrow> exec_state) \<Rightarrow> bool" where
  "keeps_intent k f \<longleftrightarrow>
    (\<forall>x. reg_dedup_window_ms (xs_registry (f x)) = reg_dedup_window_ms (xs_registry x) \<and>
      (\<forall>t. remembers k t (xs_registry x) \<longrightarrow> remembers k t (xs_registry (f x))))"

lemma execute_records:
  assumes "engine_submit c w i rd ea u en = (out, en1)" and "accepted out"
    and "engine_execute c c' w i rd ea u en = (res, en')"
    and "keeps_intent (dedup_key i) (w_during_confirm w)"
  shows "remembers (dedup_key i) (now c) (en_registry en')"
proof (cases out)
  case (AwaitFill r px qty)
  obtain res2 where "engine_confirm c' w r px qty (on_exec (w_during_confirm w) en1) = (res2, en')"
    using assms(1,3) AwaitFill by (auto simp: engine_execute_def Let_def split: prod.splits)
  from remembers_intents [OF confirm_intents [OF this]] show ?thesis
    using accepted_records [OF assms(1,2)] assms(4) by (simp add: keeps_intent_def)
qed (use assms accepted_records [OF assms(1,2)] in \<open>auto simp: engine_execute_def accepted_def\<close>)

lemma duplicate_refused:
  assumes "validate_inputs rd ea u = Inr ()"
    and "remembers (dedup_key i) t (en_registry en)"
    and "al_wf (reg_recent_intents (en_registry en))"
    and "now c - t \<le> reg_dedup_window_ms (en_registry en) * 1000000"
  shows "engine_execute c c' w i rd ea u en =
    (Some (Inl IdempotencyDuplicate), on_registry (cleanup_old_intents c) en)"
proof -
  have "is_duplicate_intent (dedup_key i) (cleanup_old_intents c (en_registry en))"
    using assms(2-4) by (simp add: is_duplicate_intent_def al_contains_def cleanup_old_intents_def Let_def
        map_of_filter_entries not_less remembers_def)
  then show ?thesis using assms(1) by (simp add: engine_execute_def engine_submit_def Let_def)
qed

section \<open>Invariants\<close>

lemma transition_fsm_state:
  "reg_transition c oid s reason g = (True, g') \<Longrightarrow> reg_fsm_state oid g' = Some s"
  by (auto simp: reg_transition_def fsm_transition_def reg_fsm_state_def Let_def
      split: option.splits if_splits)

lemma reg_inv_shift [inv_intros]: "reg_inv g \<Longrightarrow> reg_inv (shift c oid s reason g)"
  by (simp add: shift_def reg_inv_transition)

lemma xs_invD: "xs_inv x \<Longrightarrow> reg_inv (xs_registry x)" "xs_inv x \<Longrightarrow> \<forall>p. xs_portfolio x = Some p \<longrightarrow> pf_inv p"
  by (simp_all add: xs_inv_def)

lemma xs_inv_registry: "xs_inv x \<Longrightarrow> reg_inv g \<Longrightarrow> xs_inv (x\<lparr>xs_registry := g\<rparr>)"
  by (simp add: xs_inv_def)

lemma xs_inv_portfolio: "xs_inv x \<Longrightarrow> pf_inv p \<Longrightarrow> xs_inv (x\<lparr>xs_portfolio := Some p\<rparr>)"
  by (simp add: xs_inv_def)

lemma xs_inv_release:
  assumes "xs_inv x"
  shows "xs_inv (release_cash_if_needed c r x)"
proof (cases "xs_portfolio x")
  case None
  then show ?thesis using assms by (simp add: release_cash_if_needed_def)
next
  case (Some p)
  with assms have "pf_inv p" by (simp add: xs_inv_def)
  then have "xs_inv (x\<lparr>xs_portfolio := Some (release_cash t oid p)\<rparr>)" for t oid
    by (intro xs_inv_portfolio assms pf_inv_ops)
  then show ?thesis using assms by (simp add: release_cash_if_needed_def Some)
qed

lemma xs_inv_phantom:
  assumes "xs_inv x"
  shows "xs_inv (sync_phantom c r m x)"
proof (cases "xs_portfolio x")
  case None
  then show ?thesis using assms by (simp add: sync_phantom_def)
next
  case (Some p)
  with assms have "pf_inv p" by (simp add: xs_inv_def)
  then have "xs_inv (x\<lparr>xs_portfolio := Some (close_position_leg t s ps pr pnl p)\<rparr>)" for t s ps pr pnl
    by (intro xs_inv_portfolio assms pf_inv_ops)
  then show ?thesis using assms by (simp add: sync_phantom_def Some Let_def split: option.splits)
qed

lemma xs_inv_reserve:
  assumes "try_reserve_margin c cfg lev r x = (ok, r', x')" and "xs_inv x"
  shows "xs_inv x'"
proof (cases "xs_portfolio x")
  case None
  then show ?thesis using assms by (simp add: try_reserve_margin_def)
next
  case (Some p)
  with assms(2) have p: "pf_inv p" by (simp add: xs_inv_def)
  have "xs_inv (x\<lparr>xs_portfolio := Some p'\<rparr>)" if "reserve_cash t oid s sd n f st p = (b, p')" for t oid s sd n f st b p'
    using pf_inv_exec [OF p, of t "PfReserve oid s sd n f st"] that assms(2) by (simp add: xs_inv_portfolio)
  then show ?thesis
    using assms by (auto simp: try_reserve_margin_def Some Let_def split: prod.splits bool.splits if_splits)
qed

lemma xs_inv_reject:
  assumes "xs_inv (en_exec en)" and "reg_fsm_state (o_order_id r) (en_registry en) = Some PendingAck"
  shows "xs_inv (en_exec (reject_order c reason rej r en))"
proof -
  let ?g = "shift c (o_order_id r) Rejected reason (en_registry en)"
  have g: "reg_inv (en_registry en)" using assms(1) by (rule xs_invD)
  have v: "is_valid_transition PendingAck Rejected" by (simp add: is_valid_transition_def)
  have f: "reg_fsm_state (o_order_id r) ?g = Some Rejected"
    using assms(2) v
    by (auto simp: shift_def reg_fsm_state_def reg_transition_def fsm_transition_def Let_def split: option.splits)
  have "reg_inv (update_order r' ?g)" if "o_state r' = Rejected" "o_order_id r' = o_order_id r" for r'
    by (rule reg_inv_update) (use that f g in \<open>simp_all add: reg_inv_shift\<close>)
  then show ?thesis
    using assms(1) by (simp add: reject_order_def Let_def xs_inv_registry split: option.splits)
qed

text \<open>
  Another thread that leaves one order's automaton alone, and only makes calls that keep the
  invariants.
\<close>

definition leaves_alone :: "order_id \<Rightarrow> (exec_state \<Rightarrow> exec_state) \<Rightarrow> bool" where
  "leaves_alone oid f \<longleftrightarrow>
    (\<forall>x. xs_inv x \<longrightarrow> xs_inv (f x) \<and>
      reg_fsm_state oid (xs_registry (f x)) = reg_fsm_state oid (xs_registry x))"

lemma leaves_alone_id [simp]: "leaves_alone oid (\<lambda>x. x)"
  by (simp add: leaves_alone_def)

lemma leaves_aloneD:
  assumes "leaves_alone oid f" and "xs_inv x"
  shows "xs_inv (f x)" and "reg_fsm_state oid (xs_registry (f x)) = reg_fsm_state oid (xs_registry x)"
  using assms by (simp_all add: leaves_alone_def)

lemma submit_order_inv:
  assumes out: "submit_order c w i r en = (out, en')" and inv: "xs_inv (en_exec en)"
    and st: "reg_fsm_state (o_order_id r) (en_registry en) = Some (o_state r)" "o_state r = PendingAck"
    and env: "leaves_alone (o_order_id r) (w_during_submit w)"
  shows "xs_inv (en_exec en')"
proof -
  let ?e1 = "on_registry (update_order r) en"
  let ?e2 = "on_exec (w_during_submit w) ?e1"
  have g1: "reg_inv (update_order r (en_registry en))"
    by (rule reg_inv_update) (use inv st in \<open>simp_all add: xs_invD\<close>)
  have i1: "xs_inv (en_exec ?e1)" using inv g1 by (simp add: xs_inv_registry)
  have i2: "xs_inv (en_exec ?e2)" using leaves_aloneD(1) [OF env i1] by simp
  have f2: "reg_fsm_state (o_order_id r) (en_registry ?e2) = Some PendingAck"
    using leaves_aloneD(2) [OF env i1] st by simp
  have acc: "reg_inv (record_intent c k (update_order (r\<lparr>o_exchange_order_id := xid\<rparr>) (en_registry ?e2)))" for k xid
    by (intro reg_inv_record_intent reg_inv_update) (use i2 f2 st in \<open>simp_all add: xs_invD\<close>)
  show ?thesis
  proof (cases "w_submit w r")
    case SubmitThrew
    then have "en' = on_exec (release_cash_if_needed c r) ?e2" using out by (simp add: submit_order_def Let_def)
    then show ?thesis using xs_inv_release [OF i2] by simp
  next
    case (Submitted sr)
    show ?thesis
    proof (cases "sr_success sr")
      case False
      then have "en' = on_exec (release_cash_if_needed c r \<circ> sync_phantom c r (sr_error_message sr))
          (reject_order c (sr_error_message sr) (Some (sr_error_message sr)) r ?e2)"
        using out Submitted by (simp add: submit_order_def Let_def)
      then show ?thesis
        using xs_inv_reject [OF i2 f2] by (simp add: xs_inv_release xs_inv_phantom)
    next
      case True
      then have "en' = on_metrics record_submission (on_registry (record_intent c (dedup_key i) \<circ>
          update_order (r\<lparr>o_exchange_order_id := sr_exchange_order_id sr\<rparr>)) ?e2)"
        using out Submitted by (auto simp: submit_order_def Let_def split: if_splits)
      then show ?thesis
        using i2 acc [of "dedup_key i" "sr_exchange_order_id sr"] by (simp add: xs_inv_registry)
    qed
  qed
qed

lemma settle_inv:
  assumes "settle_detail c retry r px qty d en = (res, en')" and "xs_inv (en_exec en)"
  shows "xs_inv (en_exec en')"
proof -
  have sh: "xs_inv ((en_exec en)\<lparr>xs_registry := shift c oid s reason (en_registry en)\<rparr>)" for oid s reason
    using assms(2) by (intro xs_inv_registry reg_inv_shift xs_invD)
  have mf: "xs_inv (snd (process_market_fill c oid q p xid (en_exec en)))" for oid q p xid
    using assms(2) by (rule market_fill_inv)
  show ?thesis
    using assms(1)
    by (auto simp: settle_detail_def Let_def sh mf xs_inv_release split: if_splits)
qed

lemma confirm_inv:
  assumes "engine_confirm c w r px qty en = (res, en')" and "xs_inv (en_exec en)"
  shows "xs_inv (en_exec en')"
proof -
  have "xs_inv ((en_exec en)\<lparr>xs_registry := shift c oid s reason (en_registry en)\<rparr>)" for oid s reason
    using assms(2) by (intro xs_inv_registry reg_inv_shift xs_invD)
  then show ?thesis
    using assms settle_inv by (auto simp: engine_confirm_def Let_def split: if_splits)
qed

section \<open>The order that reaches the exchange\<close>

text \<open>The planned order, registered and moved to \<open>PendingAck\<close>, and the engine at that point.\<close>

definition the_plan :: "trade_intent \<Rightarrow> risk_decision \<Rightarrow> execution_alpha_result \<Rightarrow> uncertainty_snapshot \<Rightarrow> engine \<Rightarrow> execution_plan" where
  "the_plan i rd ea u en = plan (en_config en) i rd ea (market_context i ea) u"

definition next_id :: "engine \<Rightarrow> order_id" where
  "next_id en = client_order_id (en_session_prefix en) (en_seq en)"

definition fresh :: "engine \<Rightarrow> bool" where
  "fresh en \<longleftrightarrow> get_order (next_id en) (en_registry en) = None"

definition prepared ::
  "clk \<Rightarrow> trade_intent \<Rightarrow> risk_decision \<Rightarrow> execution_alpha_result \<Rightarrow> uncertainty_snapshot \<Rightarrow> engine \<Rightarrow>
   order_record \<times> engine" where
  "prepared c i rd ea u en =
    (let (r, e1) = create_order_record c i rd (the_plan i rd ea u en) (on_registry (cleanup_old_intents c) en)
     in (r\<lparr>o_state := PendingAck\<rparr>,
         on_registry (shift c (o_order_id r) PendingAck ''Submitting to exchange'' \<circ> register_order c r) e1))"

definition admitted :: "clk \<Rightarrow> trade_intent \<Rightarrow> risk_decision \<Rightarrow> execution_alpha_result \<Rightarrow> uncertainty_snapshot \<Rightarrow> engine \<Rightarrow> bool" where
  "admitted c i rd ea u en \<longleftrightarrow> validate_inputs rd ea u = Inr () \<and>
     \<not> is_duplicate_intent (dedup_key i) (cleanup_old_intents c (en_registry en)) \<and>
     classify_action i \<noteq> NoAction"

lemma attach_brackets_sel [simp]:
  "o_order_id (attach_brackets i r) = o_order_id r" "o_state (attach_brackets i r) = o_state r"
  "o_trade_side (attach_brackets i r) = o_trade_side r" "o_price (attach_brackets i r) = o_price r"
  "o_order_type (attach_brackets i r) = o_order_type r" "o_symbol (attach_brackets i r) = o_symbol r"
  "o_original_quantity (attach_brackets i r) = o_original_quantity r"
  by (simp_all add: attach_brackets_def Let_def)

lemma default_order_state [simp]: "o_state default_order = New"
  by (simp add: default_order_def)

lemma get_order_register_fresh:
  assumes "reg_inv g" and "get_order (o_order_id r) g = None" and "o_state r = New"
  shows "reg_inv (register_order c r g)" and "get_order (o_order_id r) (register_order c r g) = Some r"
proof -
  show "reg_inv (register_order c r g)" by (rule reg_inv_register) (use assms in auto)
  show "get_order (o_order_id r) (register_order c r g) = Some r"
    using assms(2) by (simp add: register_order_def Let_def get_order_def)
qed

lemma plan_action [simp]: "ep_action (the_plan i rd ea u en) = classify_action i"
  unfolding the_plan_def
  by (simp add: plan_def stale_guard_def widen_spread_guard_def plan_price_def Let_def)

lemma prepared_sel:
  assumes "prepared c i rd ea u en = (r, e1)"
  shows "o_order_id r = next_id en" and "o_state r = PendingAck" and "o_trade_side r = ti_trade_side i"
    and "o_price r = ep_planned_price (the_plan i rd ea u en)"
    and "o_order_type r = ep_order_type (the_plan i rd ea u en)"
    and "o_original_quantity r = rd_approved_quantity rd"
    and "xs_portfolio (en_exec e1) = xs_portfolio (en_exec en)"
    and "en_config e1 = en_config en" and "en_leverage e1 = en_leverage en"
  using assms by (auto simp: prepared_def create_order_record_def next_order_id_def Let_def next_id_def)

lemma prepared_steps:
  assumes "create_order_record c i rd (the_plan i rd ea u en) (on_registry (cleanup_old_intents c) en) = (r, e1)"
    and "xs_inv (en_exec en)" and "fresh en"
    and "g = register_order c r (en_registry e1)"
  shows "o_order_id r = next_id en" and "reg_inv g" and "get_order (next_id en) g = Some r" and "o_state r = New"
    and "reg_transition c (o_order_id r) PendingAck ''Submitting to exchange'' g =
      (True, shift c (o_order_id r) PendingAck ''Submitting to exchange'' g)"
proof -
  have r: "o_order_id r = next_id en" "o_state r = New"
    and e1: "en_registry e1 = cleanup_old_intents c (en_registry en)"
    using assms(1) by (auto simp: create_order_record_def next_order_id_def Let_def next_id_def)
  have "get_order (o_order_id r) (en_registry e1) = None"
    using assms(3) by (simp add: e1 r(1) fresh_def get_order_def cleanup_old_intents_def Let_def)
  moreover have "reg_inv (en_registry e1)" unfolding e1 by (intro reg_inv_cleanup_intents xs_invD assms(2))
  ultimately show o: "reg_inv g" "get_order (next_id en) g = Some r"
    using get_order_register_fresh [of "en_registry e1" r c] r assms(4) by auto
  then show "reg_transition c (o_order_id r) PendingAck ''Submitting to exchange'' g =
      (True, shift c (o_order_id r) PendingAck ''Submitting to exchange'' g)"
    using reg_transition_outcome(1) [OF o, of c PendingAck "''Submitting to exchange''"] r
    by (simp add: shift_def prod_eq_iff is_valid_transition_def)
  show "o_order_id r = next_id en" "o_state r = New" using r by auto
qed

lemma prepared_inv:
  assumes "prepared c i rd ea u en = (r, e1)" and "xs_inv (en_exec en)" and "fresh en"
  shows "xs_inv (en_exec e1)" and "reg_fsm_state (next_id en) (en_registry e1) = Some PendingAck"
    and "\<exists>r0. get_order (next_id en) (en_registry e1) = Some r0 \<and> o_state r0 = PendingAck"
proof -
  obtain r1 e0 where c: "create_order_record c i rd (the_plan i rd ea u en)
      (on_registry (cleanup_old_intents c) en) = (r1, e0)" by force
  note st = prepared_steps [OF c assms(2,3) refl]
  let ?g = "register_order c r1 (en_registry e0)"
  have e1: "en_registry e1 = shift c (next_id en) PendingAck ''Submitting to exchange'' ?g"
    and pf: "xs_portfolio (en_exec e1) = xs_portfolio (en_exec en)"
    using assms(1) c st(1) prepared_sel(7) [OF assms(1)] by (auto simp: prepared_def)
  show "xs_inv (en_exec e1)"
    using reg_inv_shift [OF st(2)] assms(2) pf by (simp add: xs_inv_def e1)
  show "reg_fsm_state (next_id en) (en_registry e1) = Some PendingAck"
    using transition_fsm_state [OF st(5)] st(1) by (simp add: e1)
  show "\<exists>r0. get_order (next_id en) (en_registry e1) = Some r0 \<and> o_state r0 = PendingAck"
    using reg_transition_outcome(4) [OF st(2,3), of c PendingAck "''Submitting to exchange''"] st(4)
    by (simp add: e1 shift_def is_valid_transition_def)
qed

text \<open>The path of an admitted intent, from the checks on price and quantity onwards.\<close>

lemma engine_submit_admitted:
  assumes "admitted c i rd ea u en" and "xs_inv (en_exec en)" and "fresh en"
    and "prepared c i rd ea u en = (r, e1)"
  shows "engine_submit c w i rd ea u en =
    (if o_order_type r = Market \<and> o_price r \<le> 0 then
       (Finished (Inl ExecutionFailed), reject_order c ''Fill price = 0'' None r e1)
     else if o_original_quantity r \<le> 0 then
       (Finished (Inl ExecutionFailed),
        reject_order c ''Zero quantity'' (Some ''Zero quantity after sizing'') r e1)
     else case try_reserve_margin c (en_config e1) (en_leverage e1) r (en_exec e1) of
       (reserved, r', x) \<Rightarrow>
         if reserved then submit_order c w i r' (e1\<lparr>en_exec := x\<rparr>)
         else (Finished (Inl ExecutionFailed),
               reject_order c ''Insufficient cash'' (Some ''Insufficient cash for reserve'') r' (e1\<lparr>en_exec := x\<rparr>)))"
proof -
  obtain r1 e0 where c: "create_order_record c i rd (the_plan i rd ea u en)
      (on_registry (cleanup_old_intents c) en) = (r1, e0)" by force
  have c': "create_order_record c i rd (plan (en_config en) i rd ea (market_context i ea) u)
      (on_registry (cleanup_old_intents c) en) = (r1, e0)" using c by (simp add: the_plan_def)
  have act: "ep_action (plan (en_config en) i rd ea (market_context i ea) u) = classify_action i"
    using plan_action [of i rd ea u en] by (simp add: the_plan_def)
  note st = prepared_steps [OF c assms(2,3) refl]
  have r: "r = r1\<lparr>o_state := PendingAck\<rparr>"
    and e1: "e1 = on_registry (\<lambda>_. shift c (o_order_id r1) PendingAck ''Submitting to exchange''
      (register_order c r1 (en_registry e0))) (on_registry (register_order c r1) e0)"
    using assms(4) c by (auto simp: prepared_def on_registry_def on_exec_def)
  show ?thesis
    using assms(1) st(5)
    by (simp add: engine_submit_def admitted_def Let_def c' act r e1 case_prod_unfold)
qed

section \<open>Properties\<close>

text \<open>A shared example: an opening market intent on a fresh engine.\<close>

definition ex_intent :: trade_intent where
  "ex_intent = default_trade_intent\<lparr>ti_symbol := ''BTCUSDT'', ti_correlation_id := ''c1'',
     ti_snapshot_mid_price := Some (Fin 100)\<rparr>"

definition ex_risk :: risk_decision where
  "ex_risk = default_risk_decision\<lparr>rd_verdict := Approved, rd_approved_quantity := Fin 2\<rparr>"

definition ex_alpha :: execution_alpha_result where
  "ex_alpha = default_execution_alpha\<lparr>ea_recommended_style := EsAggressive\<rparr>"

definition ex_accept :: submit_reply where
  "ex_accept = Submitted \<lparr>sr_success = True, sr_order_id = [], sr_exchange_order_id = ''X1'',
     sr_error_message = [], sr_submitted_quantity = Fin 2\<rparr>"

definition ex_refuse :: submit_reply where
  "ex_refuse = Submitted \<lparr>sr_success = False, sr_order_id = [], sr_exchange_order_id = [],
     sr_error_message = ''40762'', sr_submitted_quantity = 0\<rparr>"

definition ex_filled :: order_fill_detail where
  "ex_filled = \<lparr>fd_success = True, fd_fill_price = Fin 100, fd_filled_qty = Fin 2, fd_original_qty = Fin 2,
     fd_status = ''filled''\<rparr>"

definition ex_world :: "submit_reply \<Rightarrow> world" where
  "ex_world rep = \<lparr>w_submit = (\<lambda>_. rep), w_during_submit = (\<lambda>x. x), w_query = (\<lambda>_. ex_filled),
     w_during_confirm = (\<lambda>x. x)\<rparr>"

definition ex_engine :: engine where
  "ex_engine = engine_init 0 None default_execution_config"

lemma ex_engine_inv: "xs_inv (en_exec ex_engine)"
  by (simp add: ex_engine_def engine_init_def xs_inv_def)

lemma ex_engine_fresh: "fresh ex_engine"
  by (simp add: fresh_def ex_engine_def engine_init_def registry_init_def get_order_def)

lemma ex_valid: "validate_inputs ex_risk ex_alpha default_uncertainty = Inr ()"
  by (simp add: validate_inputs_def ex_risk_def ex_alpha_def default_execution_alpha_def default_uncertainty_def)

lemma ex_admitted: "admitted c ex_intent ex_risk ex_alpha default_uncertainty ex_engine"
  by (simp add: admitted_def ex_valid is_duplicate_intent_def al_contains_def ex_engine_def engine_init_def
      registry_init_def cleanup_old_intents_def Let_def ex_intent_def default_trade_intent_def classify_action.simps)

text \<open>The plan of the example: a market order at the mid price.\<close>

lemma ex_plan:
  "ep_order_type (the_plan ex_intent ex_risk ex_alpha default_uncertainty ex_engine) = Market"
  "ep_planned_price (the_plan ex_intent ex_risk ex_alpha default_uncertainty ex_engine) = Fin 100"
proof -
  have "choose_style default_execution_config ex_alpha mc (classify_action ex_intent) = AggressiveMarket" for mc
    by (simp add: choose_style_def ex_alpha_def ex_intent_def default_trade_intent_def default_execution_alpha_def
        classify_action.simps exit_action_def)
  note p = aggressive_plan [OF this]
  have "market_reference_price ex_intent ex_alpha mc = Fin 100" for mc
    by (simp add: market_reference_price_def ex_intent_def ex_alpha_def default_trade_intent_def default_execution_alpha_def)
  then show "ep_order_type (the_plan ex_intent ex_risk ex_alpha default_uncertainty ex_engine) = Market"
    "ep_planned_price (the_plan ex_intent ex_risk ex_alpha default_uncertainty ex_engine) = Fin 100"
    by (simp_all add: the_plan_def ex_engine_def engine_init_def p)
qed

text \<open>
  C12. Refusals that come before the exchange is asked, in their order.  A denied or throttled risk
  decision returns \<open>RiskDenied\<close>, a veto of the execution alpha or extreme uncertainty \<open>ExecutionFailed\<close>,
  and none of them changes anything.  Otherwise an intent whose correlation id and symbol were accepted
  within the window returns \<open>IdempotencyDuplicate\<close>, and a hold signal \<open>NoActionRequired\<close>; both only drop
  expired intents.  A market order without a positive price, or an order without a positive quantity, returns
  \<open>ExecutionFailed\<close> and the same state whatever the exchange would answer, leaves the portfolio
  untouched and stores the order as \<open>Rejected\<close>.
\<close>

theorem refused_before_submission:
  assumes "xs_inv (en_exec en)" and "fresh en"
    and veto: "vetoed \<longleftrightarrow> \<not> ea_should_execute ea \<or> ea_recommended_style ea = NoExecution \<or> us_level u = Extreme"
    and denied: "denied \<longleftrightarrow> rd_verdict rd \<in> {Denied, Throttled}"
    and dup: "repeated \<longleftrightarrow> (\<exists>t. (dedup_key i, t) \<in> set (reg_recent_intents (en_registry en)) \<and>
      now c - t \<le> reg_dedup_window_ms (en_registry en) * 1000000)"
  shows "(denied \<longrightarrow> engine_execute c c' w i rd ea u en = (Some (Inl RiskDenied), en)) \<and>
    (\<not> denied \<and> vetoed \<longrightarrow> engine_execute c c' w i rd ea u en = (Some (Inl ExecutionFailed), en)) \<and>
    (\<not> denied \<and> \<not> vetoed \<and> repeated \<longrightarrow>
       engine_execute c c' w i rd ea u en = (Some (Inl IdempotencyDuplicate), on_registry (cleanup_old_intents c) en)) \<and>
    (\<not> denied \<and> \<not> vetoed \<and> \<not> repeated \<and> classify_action i = NoAction \<longrightarrow>
       engine_execute c c' w i rd ea u en = (Some (Inl NoActionRequired), on_registry (cleanup_old_intents c) en)) \<and>
    (\<not> denied \<and> \<not> vetoed \<and> \<not> repeated \<and> classify_action i \<noteq> NoAction \<and>
     (ep_order_type (the_plan i rd ea u en) = Market \<and> ep_planned_price (the_plan i rd ea u en) \<le> 0 \<or>
      rd_approved_quantity rd \<le> 0) \<longrightarrow>
       (\<exists>en'. (\<forall>w. engine_execute c c' w i rd ea u en = (Some (Inl ExecutionFailed), en')) \<and>
          xs_portfolio (en_exec en') = xs_portfolio (en_exec en) \<and>
          (\<exists>r. get_order (next_id en) (en_registry en') = Some r \<and> o_state r = Rejected)))"
proof -
  have valid: "validate_inputs rd ea u = (if denied then Inl RiskDenied else if vetoed then Inl ExecutionFailed else Inr ())"
    by (auto simp: validate_inputs_def veto denied)
  have rep: "is_duplicate_intent (dedup_key i) (cleanup_old_intents c (en_registry en)) \<longleftrightarrow> repeated"
    by (force simp: dup is_duplicate_intent_def al_contains_def cleanup_old_intents_def Let_def map_of_eq_None_iff image_iff
        split: option.splits)
  have adm: "admitted c i rd ea u en \<longleftrightarrow> \<not> denied \<and> \<not> vetoed \<and> \<not> repeated \<and> classify_action i \<noteq> NoAction"
    by (simp add: admitted_def valid rep)
  have failed: "\<exists>en'. (\<forall>w. engine_execute c c' w i rd ea u en = (Some (Inl ExecutionFailed), en')) \<and>
          xs_portfolio (en_exec en') = xs_portfolio (en_exec en) \<and>
          (\<exists>r. get_order (next_id en) (en_registry en') = Some r \<and> o_state r = Rejected)"
    if a: "admitted c i rd ea u en" "ep_order_type (the_plan i rd ea u en) = Market \<and> ep_planned_price (the_plan i rd ea u en) \<le> 0 \<or>
      rd_approved_quantity rd \<le> 0"
  proof -
  obtain r e1 where p: "prepared c i rd ea u en = (r, e1)" by force
  note sel = prepared_sel [OF p] and inv = prepared_inv [OF p assms(1,2)]
  let ?bad = "o_order_type r = Market \<and> o_price r \<le> 0"
  define en' where "en' = (if ?bad then reject_order c ''Fill price = 0'' None r e1
    else reject_order c ''Zero quantity'' (Some ''Zero quantity after sizing'') r e1)"
  have "engine_execute c c' w i rd ea u en = (Some (Inl ExecutionFailed), en')" for w
    using engine_submit_admitted [OF a(1) assms(1,2) p, of w] a(2) sel
    by (auto simp: engine_execute_def en'_def)
  moreover have "xs_portfolio (en_exec en') = xs_portfolio (en_exec en)"
    using sel by (simp add: en'_def reject_order_def Let_def)
  moreover have "\<exists>r'. get_order (next_id en) (en_registry en') = Some r' \<and> o_state r' = Rejected"
    using inv(3) sel(1) by (auto simp: en'_def reject_order_def Let_def shift_def get_order_update)
    ultimately show ?thesis by blast
  qed
  have act: "ep_action (the_plan i rd ea u en) = classify_action i" by (rule plan_action)
  show ?thesis
    using valid rep act failed unfolding adm
    by (auto simp: engine_execute_def engine_submit_def Let_def the_plan_def)
qed

theorem refused_before_submission_witness:
  "engine_execute ex_fp_clk ex_fp_clk (ex_world ex_accept) ex_intent default_risk_decision ex_alpha
     default_uncertainty ex_engine = (Some (Inl RiskDenied), ex_engine)"
proof -
  have "rd_verdict default_risk_decision = Denied" by (simp add: default_risk_decision_def)
  then show ?thesis using refused_before_submission [OF ex_engine_inv ex_engine_fresh refl refl refl] by blast
qed

lemma window_frame [simp]:
  "fst (intents (record_intent c k g)) = fst (intents g)"
  "fst (intents (cleanup_old_intents c g)) = fst (intents g)"
  by (simp_all add: intents_def record_intent_def cleanup_old_intents_def Let_def)

lemma submit_order_window:
  assumes "submit_order c w i r en = (out, en')" and "w_during_submit w = (\<lambda>x. x)"
  shows "fst (intents (en_registry en')) = fst (intents (en_registry en))"
  using assms
  by (auto simp: submit_order_def Let_def reject_order_def split: submit_reply.splits if_splits)

lemma prepared_window:
  assumes "prepared c i rd ea u en = (r, e1)"
  shows "fst (intents (en_registry e1)) = fst (intents (en_registry en))"
  using assms by (auto simp: prepared_def create_order_record_def next_order_id_def Let_def)

lemma no_portfolio_reserve:
  "xs_portfolio x = None \<Longrightarrow> try_reserve_margin c cfg lev r x = (True, r, x)"
  by (simp add: try_reserve_margin_def)

lemma ex_prepared:
  assumes "prepared c ex_intent ex_risk ex_alpha default_uncertainty ex_engine = (r, e1)"
  shows "engine_submit c (ex_world rep) ex_intent ex_risk ex_alpha default_uncertainty ex_engine =
      submit_order c (ex_world rep) ex_intent r e1"
    and "o_order_type r = Market"
proof -
  note sel = prepared_sel [OF assms]
  have "xs_portfolio (en_exec e1) = None" unfolding sel(7) by (simp add: ex_engine_def engine_init_def)
  moreover have "\<not> o_price r \<le> 0" "\<not> o_original_quantity r \<le> 0"
    unfolding sel ex_plan by (simp_all add: ex_risk_def zero_double_def)
  ultimately show "engine_submit c (ex_world rep) ex_intent ex_risk ex_alpha default_uncertainty ex_engine =
      submit_order c (ex_world rep) ex_intent r e1"
    using engine_submit_admitted [OF ex_admitted ex_engine_inv ex_engine_fresh assms, of "ex_world rep"]
    by (simp add: no_portfolio_reserve)
  show "o_order_type r = Market" by (simp add: sel ex_plan)
qed

lemma execute_inv:
  assumes ran: "engine_execute c c' w i rd ea u en = (res, en')" and inv: "xs_inv (en_exec en)" and fresh: "fresh en"
    and env: "leaves_alone (next_id en) (w_during_submit w)" "leaves_alone (next_id en) (w_during_confirm w)"
  shows "xs_inv (en_exec en')"
proof -
  obtain out en1 where s: "engine_submit c w i rd ea u en = (out, en1)" by force
  have ci: "xs_inv (en_exec (on_registry (cleanup_old_intents c) en))"
    using inv by (simp add: xs_inv_registry reg_inv_cleanup_intents xs_invD)
  have "xs_inv (en_exec en1)"
  proof (cases "admitted c i rd ea u en")
    case False
    then have "en1 = en \<or> en1 = on_registry (cleanup_old_intents c) en"
      using s plan_action [of i rd ea u en]
      by (auto simp: engine_submit_def admitted_def Let_def the_plan_def split: sum.splits if_splits)
    then show ?thesis using inv ci by auto
  next
    case True
    obtain r e1 where p: "prepared c i rd ea u en = (r, e1)" by force
    obtain ok r' x where v: "try_reserve_margin c (en_config e1) (en_leverage e1) r (en_exec e1) = (ok, r', x)"
      using prod_cases3 by blast
    note sel = prepared_sel [OF p] and pi = prepared_inv [OF p inv fresh]
    have rej: "xs_inv (en_exec (reject_order c m rej r e1))" for m rej
      using pi(2) by (intro xs_inv_reject pi(1)) (simp add: sel)
    have x: "xs_inv x" "xs_registry x = en_registry e1" "o_order_id r' = next_id en" "o_state r' = PendingAck"
      using xs_inv_reserve [OF v pi(1)] reserve_registry [OF v] reserve_order [OF v] sel by simp_all
    have rej': "xs_inv (en_exec (reject_order c m rej r' (e1\<lparr>en_exec := x\<rparr>)))" for m rej
      using pi(2) x by (intro xs_inv_reject) simp_all
    have sub: "xs_inv (en_exec en1)" if "submit_order c w i r' (e1\<lparr>en_exec := x\<rparr>) = (out, en1)"
      using that by (rule submit_order_inv) (use x pi(2) env(1) in simp_all)
    show ?thesis
      using s rej rej' sub
      by (simp add: engine_submit_admitted [OF True inv fresh p] v split: if_splits) auto
  qed
  then show ?thesis
    using ran s env(2) confirm_inv leaves_aloneD(1) [OF env(2)]
    by (auto simp: engine_execute_def Let_def split: submit_outcome.splits prod.splits)
qed

end
