(* ===== verification/Engine_System.thy ===== *)
theory Engine_System
  imports Engine_Laws
begin

text \<open>
  The execution engine as a transition system: one step per public operation, in any order,
  with other threads at work during the network calls of \<^verbatim>\<open>execute\<close>.  The invariants of
  registry and portfolio and the freshness of the next client order id hold in every
  reachable engine, and a remembered intent stays remembered.
\<close>

section \<open>Which orders exist\<close>

text \<open>No operation but the registration of a new order adds an id to the registry.\<close>

definition unknown :: "order_id \<Rightarrow> exec_state \<Rightarrow> bool" where
  "unknown j x \<longleftrightarrow> get_order j (xs_registry x) = None"

lemma unknown_registry [simp]: "unknown j (x\<lparr>xs_registry := g\<rparr>) \<longleftrightarrow> get_order j g = None"
  by (simp add: unknown_def)

lemma unknown_portfolio [simp]: "unknown j (x\<lparr>xs_portfolio := p\<rparr>) \<longleftrightarrow> unknown j x"
  by (simp add: unknown_def)

lemma get_order_registry [simp]: "get_order j (xs_registry x) = None \<longleftrightarrow> unknown j x"
  by (simp add: unknown_def)

lemma get_order_None_frame [simp]:
  "get_order j (update_order r g) = None \<longleftrightarrow> get_order j g = None"
  "get_order j (shift c oid s reason g) = None \<longleftrightarrow> get_order j g = None"
  by (auto simp: get_order_update shift_def)

lemma get_order_frame [simp]:
  "get_order j (reg_force_transition c oid s reason g) = None \<longleftrightarrow> get_order j g = None"
  "get_order j (record_intent c k g) = get_order j g"
  "get_order j (cleanup_old_intents c g) = get_order j g"
  by (auto simp: reg_force_transition_def get_order_def record_intent_def cleanup_old_intents_def Let_def
      split: option.splits)

lemma unknown_frame [simp]:
  "unknown j (release_cash_if_needed c r x) \<longleftrightarrow> unknown j x"
  "unknown j (sync_phantom c r m x) \<longleftrightarrow> unknown j x"
  "unknown j (apply_fill_to_portfolio c r x) \<longleftrightarrow> unknown j x"
  "unknown j (apply_incremental_fill c r f x) \<longleftrightarrow> unknown j x"
  by (simp_all add: unknown_def del: get_order_registry)

lemma transition_unknown:
  "reg_transition c oid s reason (xs_registry x) = (b, g') \<Longrightarrow> get_order j g' = None \<longleftrightarrow> unknown j x"
  using get_order_transition_None [of j c oid s reason "xs_registry x"] by simp

lemma market_fill_unknown [simp]:
  "unknown j (snd (process_market_fill c oid q pr xid x)) \<longleftrightarrow> unknown j x"
  by (auto simp: process_market_fill_def Let_def transition_unknown
      split: option.splits prod.splits bool.splits)

lemma order_fill_unknown [simp]:
  "unknown j (snd (process_order_fill c oid q pr x)) \<longleftrightarrow> unknown j x"
  by (auto simp: process_order_fill_def Let_def split: option.splits)

lemma fill_event_unknown [simp]:
  "unknown j (snd (process_fill_event c f x)) \<longleftrightarrow> unknown j x"
proof -
  have m: "get_order j g = None \<longleftrightarrow> unknown j x"
    if "(if fe_trade_id f \<noteq> [] then check_and_mark_trade_id_seen (fe_trade_id f) (xs_registry x)
         else (False, xs_registry x)) = (d, g)" for d g
    using that marked_registry_frame(1) [of j f "xs_registry x"]
    by (auto simp: marked_registry_def split: if_splits)
  show ?thesis
    by (auto simp: process_fill_event_def Let_def m split: option.splits prod.splits)
qed

lemma do_cancel_unknown [simp]: "unknown j (snd (do_cancel c sub oid x)) \<longleftrightarrow> unknown j x"
  by (auto simp: do_cancel_def Let_def transition_unknown
      split: option.splits prod.splits bool.splits)

lemma cancel_each_unknown [simp]: "unknown j (snd (cancel_each c sub oids x)) \<longleftrightarrow> unknown j x"
  by (induction oids arbitrary: x) (simp_all add: case_prod_unfold Let_def)

lemma cancel_timed_out_unknown [simp]: "unknown j (snd (cancel_timed_out c sub oids x)) \<longleftrightarrow> unknown j x"
  by (induction oids arbitrary: x) (auto simp: case_prod_unfold Let_def split: option.splits)

lemma enforce_unknown [simp]: "unknown j (enforce_cancel_remaining c sub oid x) \<longleftrightarrow> unknown j x"
  by (auto simp: enforce_cancel_remaining_def cancel_remaining_def Let_def split: option.splits)

lemma fold_unknown:
  assumes "\<And>r g. get_order j (f r g) = None \<longleftrightarrow> get_order j g = None"
  shows "get_order j (fold f rs g) = None \<longleftrightarrow> get_order j g = None"
  using assms by (induction rs arbitrary: g) auto

lemma recover_order_unknown: "get_order j (recover_order c e r g) = None \<longleftrightarrow> get_order j g = None"
  by (simp add: recover_order_def Let_def split: option.splits)

lemma reconciliation_unknown [simp]:
  "get_order j (snd (run_reconciliation c sub ms g)) = None \<longleftrightarrow> get_order j g = None"
  by (simp add: run_reconciliation_def Let_def case_prod_unfold force_resolve_stale_cancels_def
      force_cancel_each_def recover_unknown_orders_def mark_uncertain_orders_def fold_unknown
      recover_order_unknown split: option.splits)

lemma cleanup_unknown:
  "get_order j g = None \<Longrightarrow> get_order j (fst (cleanup_terminal_orders c age g)) = None"
proof -
  have "get_order j g = None \<Longrightarrow> get_order j (fst (cleanup_loop c age rest g n)) = None" for rest g n
    by (induction c age rest g n rule: cleanup_loop.induct) (auto simp: get_order_def)
  then show "get_order j g = None \<Longrightarrow> ?thesis" by (simp add: cleanup_terminal_orders_def)
qed

section \<open>The call of \<open>execute\<close>\<close>

definition adds_none :: "(exec_state \<Rightarrow> exec_state) \<Rightarrow> bool" where
  "adds_none f \<longleftrightarrow> (\<forall>j x. unknown j x \<longrightarrow> unknown j (f x))"

lemma reject_frame [simp]:
  "unknown j (en_exec (reject_order c m rej r en)) \<longleftrightarrow> unknown j (en_exec en)"
  "en_seq (reject_order c m rej r en) = en_seq en"
  "en_session_prefix (reject_order c m rej r en) = en_session_prefix en"
  by (simp_all add: reject_order_def Let_def)

lemma submit_order_frame:
  assumes "submit_order c w i r en = (out, en')" and "adds_none (w_during_submit w)"
  shows "unknown j (en_exec en) \<Longrightarrow> unknown j (en_exec en')" and "en_seq en' = en_seq en"
    and "en_session_prefix en' = en_session_prefix en"
proof -
  have env: "unknown j x \<Longrightarrow> unknown j (w_during_submit w x)" for x
    using assms(2) by (simp add: adds_none_def)
  show "unknown j (en_exec en) \<Longrightarrow> unknown j (en_exec en')" and "en_seq en' = en_seq en"
    and "en_session_prefix en' = en_session_prefix en"
    using assms(1)
    by (auto simp: submit_order_def Let_def env split: submit_reply.splits if_splits)
qed

lemma settle_frame:
  assumes "settle_detail c retry r px qty d en = (res, en')"
  shows "unknown j (en_exec en') \<longleftrightarrow> unknown j (en_exec en)" and "en_seq en' = en_seq en"
    and "en_session_prefix en' = en_session_prefix en"
  using assms by (auto simp: settle_detail_def Let_def split: if_splits)

lemma confirm_frame:
  assumes "engine_confirm c w r px qty en = (res, en')"
  shows "unknown j (en_exec en') \<longleftrightarrow> unknown j (en_exec en)" and "en_seq en' = en_seq en"
    and "en_session_prefix en' = en_session_prefix en"
  using assms
  by (auto simp: engine_confirm_def Let_def settle_frame split: if_splits)

section \<open>Invariants of the event handlers\<close>

lemma do_cancel_inv: "xs_inv x \<Longrightarrow> xs_inv (snd (do_cancel c sub oid x))"
  by (cases sub) (simp add: do_cancel_def, simp add: do_cancel_outcome(3))

lemma cancel_each_inv: "xs_inv x \<Longrightarrow> xs_inv (snd (cancel_each c sub oids x))"
  by (induction oids arbitrary: x) (simp_all add: case_prod_unfold Let_def do_cancel_inv)

lemma cancel_timed_out_inv: "xs_inv x \<Longrightarrow> xs_inv (snd (cancel_timed_out c sub oids x))"
  by (induction oids arbitrary: x) (auto simp: case_prod_unfold Let_def do_cancel_inv split: option.splits)

lemma enforce_inv: "xs_inv x \<Longrightarrow> xs_inv (enforce_cancel_remaining c sub oid x)"
  by (auto simp: enforce_cancel_remaining_def cancel_remaining_def Let_def do_cancel_inv split: option.splits)

lemma get_order_fsm:
  assumes "reg_inv g" and "get_order oid g = Some r"
  shows "reg_fsm_state oid g = Some (o_state r)"
  using assms(2) by (rule_tac reg_linked_cases [OF assms(1), of oid]) (auto simp: get_order_def reg_fsm_state_def)

lemma order_fill_inv:
  assumes "xs_inv x"
  shows "xs_inv (snd (process_order_fill c oid q pr x))"
proof (cases "get_order oid (xs_registry x)")
  case None
  show ?thesis unfolding process_order_fill_def None using assms by simp
next
  case (Some r)
  have g: "reg_inv (xs_registry x)" using assms by (rule xs_invD)
  have upd: "xs_inv (x\<lparr>xs_registry := update_order r' (xs_registry x)\<rparr>)"
    if "o_state r' = o_state r" "o_order_id r' = o_order_id r" for r'
    using that get_order_fsm [OF g Some] get_order_key [OF g Some]
    by (intro xs_inv_registry [OF assms] reg_inv_update [OF g]) simp
  have app: "xs_inv (apply_fill_to_portfolio c r' (y\<lparr>xs_registry := mark_fill_applied oid (xs_registry y)\<rparr>))"
    if "xs_inv y" for r' y
  proof -
    let ?y = "y\<lparr>xs_registry := mark_fill_applied oid (xs_registry y)\<rparr>"
    have y: "xs_portfolio ?y = xs_portfolio y" "xs_registry ?y = mark_fill_applied oid (xs_registry y)"
      by simp_all
    have "\<forall>p. xs_portfolio ?y = Some p \<longrightarrow> pf_inv p" unfolding y by (rule xs_invD(2) [OF that])
    from apply_portfolio_inv(1) [OF this, of c r'] show ?thesis
      using reg_inv_mark_fill [OF xs_invD(1) [OF that]] unfolding xs_inv_def apply_registry y by blast
  qed
  show ?thesis
    unfolding process_order_fill_def Some Let_def option.case snd_conv
    by (split if_split, intro conjI impI app upd; simp)
qed

definition fill_legal :: "clk \<Rightarrow> fill_event \<Rightarrow> exec_state \<Rightarrow> bool" where
  "fill_legal c f x \<longleftrightarrow>
    (\<forall>eid r. resolve_order (fe_order_id f) (xs_registry x) = Some (eid, r) \<longrightarrow>
       is_valid_transition (o_state r) (fill_state (absorb_fill c f r)))"

lemma marked_inv: "xs_inv x \<Longrightarrow> xs_inv (x\<lparr>xs_registry := marked_registry f (xs_registry x)\<rparr>)"
  by (intro xs_inv_registry marked_registry_inv xs_invD)

lemma fill_event_inv:
  assumes inv: "xs_inv x" and legal: "fill_legal c f x"
  shows "xs_inv (snd (process_fill_event c f x))"
proof -
  let ?g = "marked_registry f (xs_registry x)"
  have g: "reg_inv (xs_registry x)" and g': "reg_inv ?g"
    using inv by (simp_all add: xs_invD marked_registry_inv)
  show ?thesis
  proof (cases "fe_trade_id f = [] \<or> \<not> is_trade_id_seen (fe_trade_id f) (xs_registry x)")
    case False
    then show ?thesis using inv fill_event_duplicate by simp
  next
    case fresh: True
    show ?thesis
    proof (cases "resolve_order (fe_order_id f) (xs_registry x) = None \<or> bad_amount (fe_fill_price f)")
      case True
      have m: "(if fe_trade_id f \<noteq> [] then check_and_mark_trade_id_seen (fe_trade_id f) (xs_registry x)
          else (False, xs_registry x)) = (False, ?g)"
        using fresh check_and_mark_result [of "fe_trade_id f" "xs_registry x"]
        by (auto simp: marked_registry_def prod_eq_iff)
      from True have "snd (process_fill_event c f x) = x\<lparr>xs_registry := ?g\<rparr>"
        unfolding process_fill_event_def m by (auto simp: Let_def split: option.splits)
      then show ?thesis using marked_inv [OF inv] by simp
    next
      case False
      then obtain eid r where res: "resolve_order (fe_order_id f) (xs_registry x) = Some (eid, r)"
        and price: "\<not> bad_amount (fe_fill_price f)" by auto
      let ?r = "absorb_fill c f r"
      let ?g1 = "snd (reg_transition c eid (fill_state ?r) (fill_reason ?r) ?g)"
      note key = resolve_order_key [OF g res]
      have og: "get_order eid ?g = Some r" using key(1) by simp
      have v: "is_valid_transition (o_state r) (fill_state ?r)" using legal res by (simp add: fill_legal_def)
      have "reg_inv (update_order (?r\<lparr>o_state := fill_state ?r\<rparr>) ?g1)"
        using reg_transition_outcome(3) [OF g' og v]
        by (intro reg_inv_update reg_inv_transition [OF g']) (simp add: key(2))
      then show ?thesis
        using fill_event_applied [OF fresh res price refl refl refl, of c] xs_invD(2) [OF inv]
        unfolding xs_inv_def by (metis reg_inv_mark_fill snd_conv)
    qed
  qed
qed

lemma reconciliation_inv:
  assumes "reg_inv g"
  shows "reg_inv (snd (run_reconciliation c sub ms g))"
proof -
  note m = mark_uncertain_outcome(1) [OF assms, where c = c]
  have "reg_inv (recover_unknown_orders c sub (mark_uncertain_orders c g))"
    using m recover_unknown_outcome(1) [OF m, where c = c]
    by (cases sub) (simp add: recover_unknown_orders_def, simp)
  from stale_cancels_outcome(1) [OF this, where c = c] show ?thesis
    by (simp add: run_reconciliation_def Let_def case_prod_unfold)
qed

section \<open>The transition system\<close>

text \<open>
  The next client order id is unused: ids carry the session prefix and a counter, and every
  id with a counter from the current one on is unknown to the registry.
\<close>

definition ids_ahead_free :: "engine \<Rightarrow> bool" where
  "ids_ahead_free en \<longleftrightarrow> (\<forall>n \<ge> en_seq en. unknown (client_order_id (en_session_prefix en) n) (en_exec en))"

definition engine_inv :: "engine \<Rightarrow> bool" where
  "engine_inv en \<longleftrightarrow> xs_inv (en_exec en) \<and> ids_ahead_free en"

text \<open>Other threads, as seen by one call of \<^verbatim>\<open>execute\<close>.\<close>

definition polite :: "order_id \<Rightarrow> world \<Rightarrow> bool" where
  "polite oid w \<longleftrightarrow> leaves_alone oid (w_during_submit w) \<and> leaves_alone oid (w_during_confirm w) \<and>
     adds_none (w_during_submit w) \<and> adds_none (w_during_confirm w)"

inductive engine_step :: "engine \<Rightarrow> engine \<Rightarrow> bool" where
  Execute: "engine_execute c c' w i rd ea u en = (res, en') \<Longrightarrow> polite (next_id en) w \<Longrightarrow> engine_step en en'"
| Cancel: "engine_step en (snd (engine_cancel c sub oid en))"
| CancelSymbol: "engine_step en (on_exec (snd \<circ> cancel_all_for_symbol c sub s) en)"
| CancelAll: "engine_step en (on_exec (snd \<circ> cancel_all c sub) en)"
| CancelTimedOut: "engine_step en (on_exec (snd \<circ> cancel_timed_out_orders c sub ms) en)"
| OrderUpdate: "engine_step en (on_order_update c sub oid st q pr en)"
| FillEvent: "fill_legal c f (en_exec en) \<Longrightarrow> engine_step en (on_fill_event c sub f en)"
| Reconcile: "engine_step en (snd (engine_run_reconciliation c sub en))"
| Cleanup: "engine_step en (on_registry (fst \<circ> cleanup_terminal_orders c age) en)"
| IsDuplicate: "engine_step en (snd (is_duplicate c i en))"
| SetLeverage: "engine_step en (engine_set_leverage lev en)"
| SetMinNotional: "engine_step en (set_min_notional_usdt m en)"
| SetFillPolicy: "engine_step en (set_default_fill_policy pol en)"

lemma client_order_id_inject [simp]: "client_order_id p m = client_order_id p n \<longleftrightarrow> m = n"
  by (simp add: client_order_id_def)

lemma ids_ahead_freeI:
  assumes "ids_ahead_free en" and "en_seq en' = en_seq en" and "en_session_prefix en' = en_session_prefix en"
    and "\<And>j. unknown j (en_exec en) \<Longrightarrow> unknown j (en_exec en')"
  shows "ids_ahead_free en'"
  using assms by (simp add: ids_ahead_free_def)

lemma engine_inv_fresh: "engine_inv en \<Longrightarrow> fresh en"
  by (simp add: engine_inv_def ids_ahead_free_def fresh_def next_id_def)

lemma prepared_frame:
  assumes "prepared c i rd ea u en = (r, e1)"
  shows "en_seq e1 = en_seq en + 1" and "en_session_prefix e1 = en_session_prefix en"
    and "unknown j (en_exec en) \<Longrightarrow> j \<noteq> next_id en \<Longrightarrow> unknown j (en_exec e1)"
proof -
  have reg: "get_order j (register_order c r g) = None \<longleftrightarrow> get_order j g = None \<and> j \<noteq> o_order_id r" for r g j
    by (simp add: register_order_def Let_def get_order_def)
  show "en_seq e1 = en_seq en + 1" and "en_session_prefix e1 = en_session_prefix en"
    and "unknown j (en_exec en) \<Longrightarrow> j \<noteq> next_id en \<Longrightarrow> unknown j (en_exec e1)"
    using assms by (auto simp: prepared_def create_order_record_def next_order_id_def next_id_def Let_def reg)
qed

lemma submit_ids:
  assumes s: "engine_submit c w i rd ea u en = (out, en1)" and inv: "engine_inv en"
    and env: "adds_none (w_during_submit w)"
  shows "ids_ahead_free en1"
proof (cases "admitted c i rd ea u en")
  case False
  then have "en1 = en \<or> en1 = on_registry (cleanup_old_intents c) en"
    using s plan_action [of i rd ea u en]
    by (auto simp: engine_submit_def admitted_def Let_def the_plan_def split: sum.splits if_splits)
  then show ?thesis using inv by (auto simp: engine_inv_def intro: ids_ahead_freeI)
next
  case True
  have xi: "xs_inv (en_exec en)" using inv by (simp add: engine_inv_def)
  obtain r e1 where p: "prepared c i rd ea u en = (r, e1)" by force
  obtain ok r' x where v: "try_reserve_margin c (en_config e1) (en_leverage e1) r (en_exec e1) = (ok, r', x)"
    using prod_cases3 by blast
  note pf = prepared_frame [OF p]
  have base: "ids_ahead_free e1"
    using inv pf(1,2) pf(3) by (auto simp: ids_ahead_free_def engine_inv_def next_id_def)
  have x: "unknown j x \<longleftrightarrow> unknown j (en_exec e1)" for j
    using reserve_registry [OF v] by (simp add: unknown_def del: get_order_registry)
  have sub: "ids_ahead_free en1" if "submit_order c w i r' (e1\<lparr>en_exec := x\<rparr>) = (out, en1)"
    using submit_order_frame [OF that env] x by (intro ids_ahead_freeI [OF base]) auto
  have rej: "ids_ahead_free (reject_order c m k q e1)" "ids_ahead_free (reject_order c m k q (e1\<lparr>en_exec := x\<rparr>))" for m k q
    by (rule ids_ahead_freeI [OF base]; simp add: x)+
  show ?thesis
    using s rej sub
    by (simp add: engine_submit_admitted [OF True xi engine_inv_fresh [OF inv] p] v split: if_splits) auto
qed

lemma execute_ids:
  assumes ran: "engine_execute c c' w i rd ea u en = (res, en')" and inv: "engine_inv en"
    and env: "adds_none (w_during_submit w)" "adds_none (w_during_confirm w)"
  shows "ids_ahead_free en'"
proof -
  obtain out en1 where s: "engine_submit c w i rd ea u en = (out, en1)" by force
  note b = submit_ids [OF s inv env(1)]
  show ?thesis
  proof (cases out)
    case (AwaitFill r px q)
    obtain res2 where "engine_confirm c' w r px q (on_exec (w_during_confirm w) en1) = (res2, en')"
      using ran s by (auto simp: engine_execute_def AwaitFill Let_def split: prod.splits)
    from confirm_frame [OF this] env(2) show ?thesis
      by (intro ids_ahead_freeI [OF b]) (auto simp: adds_none_def)
  qed (use ran s b in \<open>auto simp: engine_execute_def\<close>)
qed

lemma engine_inv_on_exec:
  assumes "engine_inv en" and "xs_inv (f (en_exec en))" and "\<And>j. unknown j (en_exec en) \<Longrightarrow> unknown j (f (en_exec en))"
  shows "engine_inv (on_exec f en)"
  using assms ids_ahead_freeI [of en "on_exec f en"] by (auto simp: engine_inv_def)

lemma engine_inv_on_registry:
  assumes "engine_inv en" and "reg_inv (f (en_registry en))"
    and "\<And>j. get_order j (en_registry en) = None \<Longrightarrow> get_order j (f (en_registry en)) = None"
  shows "engine_inv (on_registry f en)"
  unfolding on_registry_def using assms
  by (intro engine_inv_on_exec) (auto simp: engine_inv_def xs_inv_registry)

lemma engine_inv_on_metrics [simp]: "engine_inv (on_metrics f en) = engine_inv en"
  by (simp add: engine_inv_def ids_ahead_free_def)

lemma engine_invD: "engine_inv en \<Longrightarrow> xs_inv (en_exec en)" "engine_inv en \<Longrightarrow> reg_inv (en_registry en)"
  by (simp_all add: engine_inv_def xs_invD)

lemma on_order_update_inv:
  assumes inv: "engine_inv en"
  shows "engine_inv (on_order_update c sub oid st q pr en)"
proof (cases "\<exists>eid r g. resolve_order oid (en_registry en) = Some (eid, r) \<and>
    reg_transition c eid st ''Exchange update'' (en_registry en) = (True, g)")
  case False
  then show ?thesis
    using inv by (auto simp: on_order_update_def split: option.splits prod.splits bool.splits)
next
  case True
  then obtain eid r g where res: "resolve_order oid (en_registry en) = Some (eid, r)"
    and t: "reg_transition c eid st ''Exchange update'' (en_registry en) = (True, g)" by blast
  have g: "reg_inv g" "get_order j g = None \<longleftrightarrow> unknown j (en_exec en)" for j
    using reg_inv_transition [OF engine_invD(2) [OF inv], of c eid st "''Exchange update''"] t
      transition_unknown [OF t] by auto
  have e1: "engine_inv (on_registry (\<lambda>_. g) en)"
    using g by (intro engine_inv_on_registry inv) auto
  have rel: "engine_inv (on_exec (release_cash_if_needed c r) e)" if "engine_inv e" for e
    using that by (intro engine_inv_on_exec) (simp_all add: xs_inv_release engine_invD)
  have fil: "engine_inv (on_exec (enforce_cancel_remaining c sub oid \<circ> snd \<circ> process_order_fill c eid q pr) e)"
    if "engine_inv e" for e
    using that by (intro engine_inv_on_exec) (simp_all add: enforce_inv order_fill_inv engine_invD)
  show ?thesis using e1 rel fil by (simp add: on_order_update_def res t Let_def)
qed

lemma on_fill_event_inv:
  assumes "engine_inv en" and "fill_legal c f (en_exec en)"
  shows "engine_inv (on_fill_event c sub f en)"
proof -
  have "engine_inv (on_exec (snd \<circ> process_fill_event c f) en)"
    using assms by (intro engine_inv_on_exec) (simp_all add: fill_event_inv engine_invD)
  then show ?thesis
    unfolding on_fill_event_def Let_def by (rule engine_inv_on_exec) (simp_all add: enforce_inv engine_invD
        \<open>engine_inv (on_exec (snd \<circ> process_fill_event c f) en)\<close> [THEN engine_invD(1)] del: on_exec_sel)
qed

lemma engine_cancel_inv:
  assumes "engine_inv en"
  shows "engine_inv (snd (engine_cancel c sub oid en))"
proof -
  have x: "snd (cancel_order c sub oid x) = snd (do_cancel c sub oid x)" for x
    by (simp add: cancel_order_def split: prod.splits bool.splits)
  have "engine_inv (en\<lparr>en_exec := snd (cancel_order c sub oid (en_exec en))\<rparr>)"
    using engine_inv_on_exec [OF assms, of "snd \<circ> cancel_order c sub oid"] assms
    by (simp add: x do_cancel_inv engine_invD on_exec_def)
  then show ?thesis by (simp add: engine_cancel_def Let_def case_prod_unfold split: sum.splits option.splits)
qed

lemma engine_inv_setters [simp]:
  "engine_inv (engine_set_leverage lev en) = engine_inv en"
  "engine_inv (set_min_notional_usdt m en) = engine_inv en"
  "engine_inv (set_default_fill_policy pol en) = engine_inv en"
  by (simp_all add: engine_set_leverage_def set_min_notional_usdt_def set_default_fill_policy_def
      engine_inv_def ids_ahead_free_def)

lemma engine_step_inv:
  assumes "engine_inv en" and "engine_step en en'"
  shows "engine_inv en'"
  using assms(2,1)
proof (cases rule: engine_step.cases)
  case (Execute c c' w i rd ea u res)
  then have "leaves_alone (next_id en) (w_during_submit w)" "leaves_alone (next_id en) (w_during_confirm w)"
    "adds_none (w_during_submit w)" "adds_none (w_during_confirm w)" by (simp_all add: polite_def)
  then show ?thesis
    using execute_inv [OF Execute(1) engine_invD(1) engine_inv_fresh] execute_ids [OF Execute(1)] assms(1)
    by (simp add: engine_inv_def)
next
  case (Reconcile c sub)
  have "engine_inv (on_registry (\<lambda>g. snd (run_reconciliation c sub (ec_cancel_confirmation_timeout_ms (en_config en)) g)) en)"
    using assms(1) by (intro engine_inv_on_registry) (simp_all add: reconciliation_inv engine_invD)
  then show ?thesis
    using Reconcile by (simp add: engine_run_reconciliation_def Let_def case_prod_unfold on_registry_def on_exec_def)
      (simp add: on_metrics_def engine_inv_def ids_ahead_free_def)
next
  case (IsDuplicate c i)
  then show ?thesis
    using assms(1) by (simp add: is_duplicate_def Let_def)
      (intro engine_inv_on_registry, simp_all add: reg_inv_cleanup_intents engine_invD)
next
  case (Cleanup c age)
  then show ?thesis
    using assms(1) cleanup_unknown by (auto intro!: engine_inv_on_registry simp: reg_inv_cleanup engine_invD)
qed (use assms(1) in \<open>auto intro!: engine_inv_on_exec engine_cancel_inv on_order_update_inv on_fill_event_inv
    simp: cancel_all_for_symbol_def cancel_all_def cancel_timed_out_orders_def cancel_each_inv
      cancel_timed_out_inv engine_invD\<close>)

definition engine_start :: "engine \<Rightarrow> bool" where
  "engine_start en \<longleftrightarrow> (\<exists>ms pf cfg. en = engine_init ms pf cfg \<and> (\<forall>p. pf = Some p \<longrightarrow> pf_inv p))"

interpretation engine: inv_system engine_start engine_step engine_inv
proof unfold_locales
  fix en assume "engine_start en"
  then show "engine_inv en"
    by (auto simp: engine_start_def engine_inv_def ids_ahead_free_def engine_init_def xs_inv_def unknown_def
        registry_init_def get_order_def simp del: get_order_registry)
       (auto simp: registry_init_def reg_inv_init [unfolded registry_init_def])
qed (rule engine_step_inv)

section \<open>What the engine remembers\<close>

text \<open>
  Only \<^verbatim>\<open>execute\<close> and \<^verbatim>\<open>is_duplicate\<close> touch the accepted intents: every other operation keeps
  them and the deduplication window.
\<close>

lemma more_intents [simp]:
  "intents (reg_force_transition c oid s reason g) = intents g"
  "intents (fst (cleanup_terminal_orders c age g)) = intents g"
proof -
  have "intents (fst (cleanup_loop c age rest g n)) = intents g" for rest n
    by (induction c age rest g n rule: cleanup_loop.induct) (auto simp: intents_def erase_order_def Let_def)
  then show "intents (fst (cleanup_terminal_orders c age g)) = intents g" by (simp add: cleanup_terminal_orders_def)
qed (auto simp: intents_def reg_force_transition_def set_order_state_def Let_def split: option.splits)

lemma transition_intents: "reg_transition c oid s reason g = (b, g') \<Longrightarrow> intents g' = intents g"
  using intents_frame(1) [of c oid s reason g] by simp

lemma marked_intents [simp]: "intents (snd (check_and_mark_trade_id_seen tid g)) = intents g"
  by (simp add: check_and_mark_trade_id_seen_def intents_def Let_def case_prod_unfold)

lemma order_fill_intents [simp]:
  "intents (xs_registry (snd (process_order_fill c oid q pr x))) = intents (xs_registry x)"
  by (auto simp: process_order_fill_def Let_def split: option.splits)

lemma fill_event_intents [simp]:
  "intents (xs_registry (snd (process_fill_event c f x))) = intents (xs_registry x)"
proof -
  obtain d g where e: "(if fe_trade_id f \<noteq> [] then check_and_mark_trade_id_seen (fe_trade_id f) (xs_registry x)
         else (False, xs_registry x)) = (d, g)" by force
  have g: "intents g = intents (xs_registry x)"
    using e marked_intents [of "fe_trade_id f" "xs_registry x"] by (auto simp del: marked_intents split: if_splits)
  show ?thesis
    unfolding process_fill_event_def e Let_def using g by (simp add: case_prod_unfold split: option.split)
qed

lemma do_cancel_intents [simp]:
  "intents (xs_registry (snd (do_cancel c sub oid x))) = intents (xs_registry x)"
  by (auto simp: do_cancel_def Let_def transition_intents split: option.splits prod.splits bool.splits)

lemma cancel_intents [simp]:
  "intents (xs_registry (snd (cancel_each c sub oids x))) = intents (xs_registry x)"
  "intents (xs_registry (snd (cancel_timed_out c sub oids x))) = intents (xs_registry x)"
  "intents (xs_registry (enforce_cancel_remaining c sub oid x)) = intents (xs_registry x)"
proof -
  show "intents (xs_registry (snd (cancel_each c sub oids x))) = intents (xs_registry x)"
    by (induction oids arbitrary: x) (simp_all add: case_prod_unfold Let_def)
  show "intents (xs_registry (snd (cancel_timed_out c sub oids x))) = intents (xs_registry x)"
    by (induction oids arbitrary: x) (auto simp: case_prod_unfold Let_def split: option.splits)
  show "intents (xs_registry (enforce_cancel_remaining c sub oid x)) = intents (xs_registry x)"
    by (auto simp: enforce_cancel_remaining_def cancel_remaining_def Let_def split: option.splits)
qed

lemma fold_intents: "(\<And>r g. intents (f r g) = intents g) \<Longrightarrow> intents (fold f rs g) = intents g"
  by (induction rs arbitrary: g) auto

lemma reconciliation_intents [simp]: "intents (snd (run_reconciliation c sub ms g)) = intents g"
proof -
  have "intents (recover_order c e r g) = intents g" for e r g
    by (simp add: recover_order_def Let_def split: option.splits)
  then show ?thesis
    by (simp add: run_reconciliation_def Let_def case_prod_unfold force_resolve_stale_cancels_def
        force_cancel_each_def recover_unknown_orders_def mark_uncertain_orders_def fold_intents split: option.splits)
qed

text \<open>An accepted intent, and the window it is remembered for.\<close>

definition memory_of :: "string \<Rightarrow> timestamp \<Rightarrow> int \<Rightarrow> registry \<Rightarrow> bool" where
  "memory_of k t win g \<longleftrightarrow> remembers k t g \<and> reg_dedup_window_ms g = win"

lemma memory_intents: "intents g = intents g' \<Longrightarrow> memory_of k t win g = memory_of k t win g'"
  by (simp add: memory_of_def remembers_def intents_def)

lemma memory_kept: "keeps_intent k f \<Longrightarrow> memory_of k t win (xs_registry x) \<Longrightarrow> memory_of k t win (xs_registry (f x))"
  by (simp add: keeps_intent_def memory_of_def)

lemma memory_other: "k' \<noteq> k \<Longrightarrow> memory_of k t win (record_intent c k' g) = memory_of k t win g"
  by (simp add: memory_of_def remembers_def record_intent_def update_conv')

lemma memory_cleanup:
  assumes "memory_of k t win g" and "reg_inv g" and "now c - t \<le> win * 1000000"
  shows "memory_of k t win (cleanup_old_intents c g)"
  using assms
  by (auto simp: memory_of_def remembers_def cleanup_old_intents_def Let_def map_of_filter_entries not_less reg_inv_defs)

lemma reject_intents [simp]: "intents (en_registry (reject_order c m k r en)) = intents (en_registry en)"
  by (simp add: reject_order_def Let_def)

lemma submit_order_memory:
  assumes "submit_order c w i r en = (out, en')" and "keeps_intent k (w_during_submit w)"
    and "dedup_key i \<noteq> k" and "memory_of k t win (en_registry en)"
  shows "memory_of k t win (en_registry en')"
proof -
  let ?e2 = "on_exec (w_during_submit w) (on_registry (update_order r) en)"
  have "memory_of k t win (en_registry (on_registry (update_order r) en))"
    using assms(4) memory_intents [of "en_registry (on_registry (update_order r) en)" "en_registry en"] by simp
  then have m: "memory_of k t win (en_registry ?e2)" using memory_kept [OF assms(2)] by simp
  have same: "memory_of k t win g" if "intents g = intents (en_registry ?e2)" for g
    using m memory_intents [OF that] by simp
  show ?thesis
    using assms(1,3) same by (auto simp: submit_order_def Let_def memory_other split: submit_reply.splits if_splits)
qed

lemma submit_memory:
  assumes s: "engine_submit c w i rd ea u en = (out, en1)" and inv: "engine_inv en"
    and env: "keeps_intent k (w_during_submit w)"
    and m: "memory_of k t win (en_registry en)" and within: "now c - t \<le> win * 1000000"
  shows "memory_of k t win (en_registry en1)"
proof -
  note c1 = memory_cleanup [OF m engine_invD(2) [OF inv] within]
  show ?thesis
  proof (cases "admitted c i rd ea u en")
    case False
    then have "en1 = en \<or> en1 = on_registry (cleanup_old_intents c) en"
      using s plan_action [of i rd ea u en]
      by (auto simp: engine_submit_def admitted_def Let_def the_plan_def split: sum.splits if_splits)
    then show ?thesis using m c1 by auto
  next
    case True
    have "is_duplicate_intent k (cleanup_old_intents c (en_registry en))"
      using c1 by (simp add: is_duplicate_intent_def al_contains_def memory_of_def remembers_def)
    then have other: "dedup_key i \<noteq> k" using True by (auto simp: admitted_def)
    obtain r e1 where p: "prepared c i rd ea u en = (r, e1)" by force
    obtain ok r' x where v: "try_reserve_margin c (en_config e1) (en_leverage e1) r (en_exec e1) = (ok, r', x)"
      using prod_cases3 by blast
    have "intents (en_registry e1) = intents (cleanup_old_intents c (en_registry en))"
      using p by (auto simp: prepared_def create_order_record_def next_order_id_def Let_def)
    then have m1: "memory_of k t win (en_registry e1)" using c1 memory_intents by blast
    then have m2: "memory_of k t win (en_registry (e1\<lparr>en_exec := x\<rparr>))" using reserve_registry [OF v] by simp
    have rej: "memory_of k t win (en_registry (reject_order c a b q e1))"
      "memory_of k t win (en_registry (reject_order c a b q (e1\<lparr>en_exec := x\<rparr>)))" for a b q
      using m1 m2 memory_intents [OF reject_intents] by blast+
    have "memory_of k t win (en_registry en1)" if "submit_order c w i r' (e1\<lparr>en_exec := x\<rparr>) = (out, en1)"
      using submit_order_memory [OF that env other m2] .
    then show ?thesis
      using s rej engine_invD(1) [OF inv]
      by (auto simp: engine_submit_admitted [OF True _ engine_inv_fresh [OF inv] p] v split: if_splits)
  qed
qed

lemma execute_memory:
  assumes ran: "engine_execute c c' w i rd ea u en = (res, en')" and inv: "engine_inv en"
    and env: "keeps_intent k (w_during_submit w)" "keeps_intent k (w_during_confirm w)"
    and m: "memory_of k t win (en_registry en)" and within: "now c - t \<le> win * 1000000"
  shows "memory_of k t win (en_registry en')"
proof -
  obtain out en1 where s: "engine_submit c w i rd ea u en = (out, en1)" by force
  note m1 = submit_memory [OF s inv env(1) m within]
  show ?thesis
  proof (cases out)
    case (AwaitFill r px q)
    obtain res2 where "engine_confirm c' w r px q (on_exec (w_during_confirm w) en1) = (res2, en')"
      using ran s by (auto simp: engine_execute_def AwaitFill Let_def split: prod.splits)
    from memory_intents [OF confirm_intents [OF this]] show ?thesis using memory_kept [OF env(2) m1] by simp
  qed (use ran s m1 in \<open>auto simp: engine_execute_def\<close>)
qed

text \<open>
  The operations of the engine while an intent is remembered: those of the transition system, with the
  clock of the two that clear expired intents not past a deadline, and with other threads that keep the intent.
\<close>

inductive call_until :: "string \<Rightarrow> timestamp \<Rightarrow> engine \<Rightarrow> engine \<Rightarrow> bool" for k deadline where
  UExecute: "engine_execute c c' w i rd ea u en = (res, en') \<Longrightarrow> polite (next_id en) w \<Longrightarrow>
    keeps_intent k (w_during_submit w) \<Longrightarrow> keeps_intent k (w_during_confirm w) \<Longrightarrow> now c \<le> deadline \<Longrightarrow>
    call_until k deadline en en'"
| UIsDuplicate: "now c \<le> deadline \<Longrightarrow> call_until k deadline en (snd (is_duplicate c i en))"
| UCancel: "call_until k deadline en (snd (engine_cancel c sub oid en))"
| UCancelSymbol: "call_until k deadline en (on_exec (snd \<circ> cancel_all_for_symbol c sub s) en)"
| UCancelAll: "call_until k deadline en (on_exec (snd \<circ> cancel_all c sub) en)"
| UCancelTimedOut: "call_until k deadline en (on_exec (snd \<circ> cancel_timed_out_orders c sub ms) en)"
| UOrderUpdate: "call_until k deadline en (on_order_update c sub oid st q pr en)"
| UFillEvent: "fill_legal c f (en_exec en) \<Longrightarrow> call_until k deadline en (on_fill_event c sub f en)"
| UReconcile: "call_until k deadline en (snd (engine_run_reconciliation c sub en))"
| UCleanup: "call_until k deadline en (on_registry (fst \<circ> cleanup_terminal_orders c age) en)"
| USetLeverage: "call_until k deadline en (engine_set_leverage lev en)"
| USetMinNotional: "call_until k deadline en (set_min_notional_usdt m en)"
| USetFillPolicy: "call_until k deadline en (set_default_fill_policy pol en)"

lemma call_until_step: "call_until k deadline en en' \<Longrightarrow> engine_step en en'"
  by (induction rule: call_until.induct) (auto intro: engine_step.intros)

lemma cancel_intents_engine: "intents (en_registry (snd (engine_cancel c sub oid en))) = intents (en_registry en)"
  by (simp add: engine_cancel_def cancel_order_def on_metrics_def case_prod_unfold Let_def
      split: bool.split option.split)

lemma order_update_intents: "intents (en_registry (on_order_update c sub oid st q pr en)) = intents (en_registry en)"
  by (auto simp: on_order_update_def Let_def transition_intents split: option.splits prod.splits bool.splits)

lemma call_until_memory:
  assumes "call_until k (t + win * 1000000) en en'" and "engine_inv en" and "memory_of k t win (en_registry en)"
  shows "memory_of k t win (en_registry en')"
  using assms
proof (cases rule: call_until.cases)
  case (UExecute c c' w i rd ea u res)
  then show ?thesis using execute_memory [OF UExecute(1) assms(2) UExecute(3,4) assms(3)] by simp
next
  case (UIsDuplicate c i)
  then show ?thesis
    using memory_cleanup [OF assms(3) engine_invD(2) [OF assms(2)], of c] by (simp add: is_duplicate_def Let_def)
next
  case (UReconcile c sub)
  then have "intents (en_registry en') = intents (en_registry en)"
    by (simp add: engine_run_reconciliation_def Let_def case_prod_unfold)
  then show ?thesis using assms(3) memory_intents by blast
qed (use assms(3) in \<open>auto simp: cancel_intents_engine order_update_intents on_fill_event_def Let_def
    cancel_all_for_symbol_def cancel_all_def cancel_timed_out_orders_def engine_set_leverage_def
    set_min_notional_usdt_def set_default_fill_policy_def intro: memory_intents [THEN iffD2, rotated]\<close>)

lemma calls_until_memory:
  "(call_until k (t + win * 1000000))\<^sup>*\<^sup>* en en' \<Longrightarrow> engine_inv en \<Longrightarrow> memory_of k t win (en_registry en) \<Longrightarrow>
   engine_inv en' \<and> memory_of k t win (en_registry en')"
proof (induction rule: rtranclp_induct)
  case (step y z)
  then show ?case using call_until_memory call_until_step engine_step_inv by blast
qed simp

end
