(* ===== verification/Engine_Properties.thy ===== *)
theory Engine_Properties
  imports Engine_System
begin

text \<open>
  Properties of the execution engine that rest on its invariant: consistency of every
  reachable engine, an accepted intent that is not sent twice, release of the reservation when a submission fails, the end of the
  polling for a market fill, and the places where reservation, deduplication and fill
  accounting come apart.
\<close>

section \<open>Consistency\<close>

text \<open>
  C5. From a fresh engine, any sequence of public operations with other threads at work
  during the network calls keeps the registry consistent (each record and its automaton in
  the same state), the portfolio well formed and the next client order id unused, as long as
  other threads leave the order being submitted alone and fill events arrive in states that
  allow them.
\<close>

theorem engine_stays_consistent:
  assumes "engine_start en" and "engine_step\<^sup>*\<^sup>* en en'"
  shows "reg_inv (en_registry en') \<and> (\<forall>p. xs_portfolio (en_exec en') = Some p \<longrightarrow> pf_inv p) \<and>
    fresh en' \<and>
    (\<forall>oid r. get_order oid (en_registry en') = Some r \<longrightarrow>
       o_order_id r = oid \<and> reg_fsm_state oid (en_registry en') = Some (o_state r))"
proof -
  have inv: "engine_inv en'" using assms by (rule engine.inv_reachable)
  note g = engine_invD(2) [OF inv]
  have "o_order_id r = oid \<and> reg_fsm_state oid (en_registry en') = Some (o_state r)"
    if "get_order oid (en_registry en') = Some r" for oid r
    using get_order_key [OF g that] get_order_fsm [OF g that] by blast
  then show ?thesis using g xs_invD(2) [OF engine_invD(1) [OF inv]] engine_inv_fresh [OF inv] by blast
qed

lemma ex_engine_start: "engine_start ex_engine"
  unfolding engine_start_def ex_engine_def by blast

lemma polite_ex_world: "polite oid (ex_world rep)"
  by (simp add: polite_def ex_world_def leaves_alone_def adds_none_def)

theorem engine_stays_consistent_witness:
  "\<exists>res en'. engine_execute ex_fp_clk ex_fp_clk (ex_world ex_accept) ex_intent ex_risk ex_alpha default_uncertainty
       ex_engine = (res, en') \<and> reg_inv (en_registry en') \<and> fresh en'"
proof -
  obtain res en' where x: "engine_execute ex_fp_clk ex_fp_clk (ex_world ex_accept) ex_intent ex_risk ex_alpha
      default_uncertainty ex_engine = (res, en')" by force
  then have "engine_step\<^sup>*\<^sup>* ex_engine en'" by (intro r_into_rtranclp Execute [OF x] polite_ex_world)
  from engine_stays_consistent [OF ex_engine_start this] x show ?thesis by blast
qed

section \<open>An accepted intent\<close>



section \<open>A submission that fails\<close>

lemma no_pending_after_release:
  assumes "xs_inv x" and "requires_margin_reserve r" and "xs_portfolio (release_cash_if_needed c r x) = Some p"
  shows "map_of (pf_pending_orders p) (o_order_id r) = None"
proof (cases "xs_portfolio x")
  case None
  with assms(3) show ?thesis by (simp add: release_cash_if_needed_def)
next
  case (Some q)
  then have "pf_inv q" using assms(1) by (simp add: xs_inv_def)
  from released_no_pending [OF Some assms(2) this, of c] assms(3) show ?thesis by auto
qed

definition reply_fails :: "submit_reply \<Rightarrow> bool" where
  "reply_fails rep = (case rep of SubmitThrew \<Rightarrow> True | Submitted sr \<Rightarrow> \<not> sr_success sr)"

lemma submit_order_fails:
  assumes sub: "submit_order c w i r en = (out, en')" and fails: "reply_fails (w_submit w r)"
    and inv: "xs_inv (en_exec en)" and st: "reg_fsm_state (o_order_id r) (en_registry en) = Some PendingAck"
      "o_state r = PendingAck"
    and env: "leaves_alone (o_order_id r) (w_during_submit w)" and open_order: "requires_margin_reserve r"
  shows "\<not> accepted out" and "xs_portfolio (en_exec en') = Some p \<Longrightarrow> map_of (pf_pending_orders p) (o_order_id r) = None"
proof -
  let ?e1 = "on_registry (update_order r) en"
  let ?e2 = "on_exec (w_during_submit w) ?e1"
  have i1: "xs_inv (en_exec ?e1)"
    using inv st by (simp add: xs_inv_registry reg_inv_update xs_invD)
  have i2: "xs_inv (en_exec ?e2)" using leaves_aloneD(1) [OF env i1] by simp
  have f2: "reg_fsm_state (o_order_id r) (en_registry ?e2) = Some PendingAck"
    using leaves_aloneD(2) [OF env i1] st by simp
  obtain x where x: "xs_inv x" "en_exec en' = release_cash_if_needed c r x"
  proof (cases "w_submit w r")
    case SubmitThrew
    then show ?thesis using that [OF i2] sub by (auto simp: submit_order_def Let_def)
  next
    case (Submitted sr)
    let ?m = "sr_error_message sr"
    have "xs_inv (sync_phantom c r ?m (en_exec (reject_order c ?m (Some ?m) r ?e2)))"
      by (intro xs_inv_phantom xs_inv_reject i2 f2)
    then show ?thesis using that Submitted sub fails by (auto simp: submit_order_def Let_def reply_fails_def)
  qed
  show "\<not> accepted out"
    using sub fails by (auto simp: submit_order_def Let_def reply_fails_def accepted_def split: submit_reply.splits)
  show "map_of (pf_pending_orders p) (o_order_id r) = None" if "xs_portfolio (en_exec en') = Some p"
    using no_pending_after_release [OF x(1) open_order] that x(2) by simp
qed

text \<open>
  C11. A submission that fails leaves no margin behind: if the exchange rejects the opening
  order, or the submitter throws, the call reports a failure (or passes the exception on),
  the intent is not counted as accepted, and no reservation is left under the order's id.
\<close>

theorem failed_submission_releases:
  assumes inv: "xs_inv (en_exec en)" "fresh en" and adm: "admitted c i rd ea u en"
    and fails: "\<And>r. reply_fails (w_submit w r)" and env: "leaves_alone (next_id en) (w_during_submit w)"
    and enters: "ti_trade_side i = TradeOpen" and nopend: "\<And>p. xs_portfolio (en_exec en) = Some p \<Longrightarrow>
      map_of (pf_pending_orders p) (next_id en) = None"
    and ran: "engine_execute c c' w i rd ea u en = (res, en')"
  shows "(res = None \<or> res = Some (Inl ExecutionFailed)) \<and>
    (\<forall>p. xs_portfolio (en_exec en') = Some p \<longrightarrow> map_of (pf_pending_orders p) (next_id en) = None)"
proof -
  obtain out en1 where s: "engine_submit c w i rd ea u en = (out, en1)" by force
  obtain r e1 where p: "prepared c i rd ea u en = (r, e1)" by force
  obtain ok r' x where v: "try_reserve_margin c (en_config e1) (en_leverage e1) r (en_exec e1) = (ok, r', x)"
    using prod_cases3 by blast
  note sel = prepared_sel [OF p] and pi = prepared_inv [OF p inv]
  have rv: "o_order_id r' = next_id en" "o_state r' = PendingAck" "requires_margin_reserve r'"
    using reserve_order [OF v] sel enters by (simp_all add: requires_margin_reserve_def)
  have nores: "xs_portfolio x = xs_portfolio (en_exec en)" if "\<not> ok"
    using v that sel(7)
    by (auto simp: try_reserve_margin_def reserve_cash_def Let_def
        split: option.splits prod.splits bool.splits if_splits)
  have rejp: "xs_portfolio (en_exec (reject_order c m k q e)) = xs_portfolio (en_exec e)" for m k q e
    by (simp add: reject_order_def Let_def)
  have sub: "out \<noteq> AwaitFill a b d \<and> (out = Propagated \<or> out = Finished (Inl ExecutionFailed)) \<and>
      (\<forall>p. xs_portfolio (en_exec en1) = Some p \<longrightarrow> map_of (pf_pending_orders p) (next_id en) = None)" for a b d
  proof (cases "(o_order_type r = Market \<and> o_price r \<le> 0) \<or> o_original_quantity r \<le> 0 \<or> \<not> ok")
    case True
    then have "out = Finished (Inl ExecutionFailed)" "xs_portfolio (en_exec en1) = xs_portfolio (en_exec en)"
      using s sel(7) nores by (auto simp: engine_submit_admitted [OF adm inv p] v rejp split: if_splits)
    then show ?thesis using nopend by auto
  next
    case False
    then have so: "submit_order c w i r' (e1\<lparr>en_exec := x\<rparr>) = (out, en1)"
      using s by (auto simp: engine_submit_admitted [OF adm inv p] v split: if_splits)
    have "xs_inv x" "xs_registry x = en_registry e1" using xs_inv_reserve [OF v pi(1)] reserve_registry [OF v] by auto
    then have "(\<forall>p. xs_portfolio (en_exec en1) = Some p \<longrightarrow> map_of (pf_pending_orders p) (next_id en) = None)"
      using submit_order_fails(2) [OF so fails] pi(2) rv env by simp
    moreover have "out = Propagated \<or> out = Finished (Inl ExecutionFailed)"
      using so fails [of r'] by (auto simp: submit_order_def Let_def reply_fails_def split: submit_reply.splits)
    ultimately show ?thesis by blast
  qed
  have "en' = en1 \<and> (res = None \<or> res = Some (Inl ExecutionFailed))"
    using ran s sub by (auto simp: engine_execute_def split: submit_outcome.splits)
  with sub show ?thesis by blast
qed

definition ex_engine_pf :: engine where
  "ex_engine_pf = engine_init 0 (Some (portfolio_init (Fin 1000))) default_execution_config"

lemma ex_engine_pf_inv: "xs_inv (en_exec ex_engine_pf)" and ex_engine_pf_fresh: "fresh ex_engine_pf"
  by (simp_all add: ex_engine_pf_def engine_init_def xs_inv_def pf_inv_def portfolio_init_def one_double_def
      fresh_def registry_init_def get_order_def reg_inv_init [unfolded registry_init_def])

lemma ex_admitted_pf: "admitted c ex_intent ex_risk ex_alpha default_uncertainty ex_engine_pf"
  by (simp add: admitted_def ex_valid is_duplicate_intent_def al_contains_def ex_engine_pf_def engine_init_def
      registry_init_def cleanup_old_intents_def Let_def ex_intent_def default_trade_intent_def classify_action.simps)

theorem failed_submission_releases_witness:
  "\<exists>res en'. engine_execute ex_fp_clk ex_fp_clk (ex_world ex_refuse) ex_intent ex_risk ex_alpha default_uncertainty
       ex_engine_pf = (res, en') \<and> (res = None \<or> res = Some (Inl ExecutionFailed)) \<and>
     (\<forall>p. xs_portfolio (en_exec en') = Some p \<longrightarrow> map_of (pf_pending_orders p) (next_id ex_engine_pf) = None)"
proof -
  obtain res en' where x: "engine_execute ex_fp_clk ex_fp_clk (ex_world ex_refuse) ex_intent ex_risk ex_alpha
      default_uncertainty ex_engine_pf = (res, en')" by force
  have f: "reply_fails (w_submit (ex_world ex_refuse) r)" for r
    by (simp add: reply_fails_def ex_world_def ex_refuse_def)
  have l: "leaves_alone (next_id ex_engine_pf) (w_during_submit (ex_world ex_refuse))"
    by (simp add: leaves_alone_def ex_world_def)
  have t: "ti_trade_side ex_intent = TradeOpen" by (simp add: ex_intent_def default_trade_intent_def)
  have n: "map_of (pf_pending_orders p) (next_id ex_engine_pf) = None"
    if "xs_portfolio (en_exec ex_engine_pf) = Some p" for p
    using that by (auto simp: ex_engine_pf_def engine_init_def portfolio_init_def)
  from failed_submission_releases [OF ex_engine_pf_inv ex_engine_pf_fresh ex_admitted_pf f l t n x] x
  show ?thesis by blast
qed

section \<open>The end of the polling\<close>

text \<open>The answer that decides: the first conclusive one of three, else the first received of three more.\<close>

definition deciding_answer :: "world \<Rightarrow> order_fill_detail" where
  "deciding_answer w =
    (let d = query_loop (\<lambda>d. fd_success d \<and> 0 < fd_filled_qty d) (w_query w) 0 2
     in if fd_success d then d else query_loop fd_success (w_query w) 3 2)"

definition settled_state :: "order_fill_detail \<Rightarrow> order_state" where
  "settled_state d =
    (if \<not> fd_success d then Open
     else if \<not> isfinite (fd_filled_qty d) then UnknownRecovery
     else if fd_filled_qty d \<le> 0 then Cancelled else Filled)"

lemma query_loop_range: "query_loop good q n k \<in> q ` {n..n + k}"
  by (induction good q n k rule: query_loop.induct) auto

lemma pending_transitions:
  "is_valid_transition PendingAck Open" "is_valid_transition PendingAck UnknownRecovery"
  "is_valid_transition PendingAck Cancelled" "is_valid_transition PendingAck Filled"
  by (simp_all add: is_valid_transition_def)

lemma shift_pending:
  assumes "reg_inv g" and "get_order oid g = Some r" and "o_state r = PendingAck" and "is_valid_transition PendingAck s"
  shows "\<exists>r'. get_order oid (shift c oid s reason g) = Some r' \<and> o_state r' = s"
  using reg_transition_outcome(4) [OF assms(1,2), of c s reason] assms(3,4) by (simp add: shift_def)

lemma market_fill_pending:
  assumes "reg_inv (xs_registry x)" and "get_order oid (xs_registry x) = Some r" and "o_state r = PendingAck"
    and "\<not> is_fill_applied oid (xs_registry x)" and "\<not> bad_amount pr" and "\<not> bad_amount q"
  shows "\<exists>r'. get_order oid (xs_registry (snd (process_market_fill c oid q pr xid x))) = Some r' \<and>
    o_state r' = Filled \<and> o_filled_quantity r' = q \<and> o_avg_fill_price r' = pr"
proof -
  obtain g1 where t: "reg_transition c oid Filled ''Market order filled'' (xs_registry x) = (True, g1)"
    using reg_transition_outcome(1) [OF assms(1,2), of c Filled "''Market order filled''"] assms(3) pending_transitions(4)
    by (metis prod.collapse)
  have "get_order oid g1 \<noteq> None"
    using get_order_transition_None [of oid c oid Filled "''Market order filled''" "xs_registry x"] t assms(2)
    by simp
  then show ?thesis
    using assms(2,4-6) get_order_key [OF assms(1,2)]
    by (simp add: process_market_fill_def t Let_def get_order_update)
qed

lemma settle_detail_state:
  assumes "settle_detail c retry r px qty d en = (res, en')" and "fd_success d"
    and "reg_inv (en_registry en)" and "o_order_id r = oid" and "get_order oid (en_registry en) = Some s"
    and "o_state s = PendingAck" and "\<not> is_fill_applied oid (en_registry en)"
    and "price = (if 0 < fd_fill_price d then fd_fill_price d else px)"
  shows "\<exists>s'. get_order oid (en_registry en') = Some s' \<and>
      (if settled_state d = Filled \<and> bad_amount price then s' = s
       else o_state s' = settled_state d \<and>
         (settled_state d = Filled \<longrightarrow> o_filled_quantity s' = fd_filled_qty d \<and> o_avg_fill_price s' = price))"
proof -
  have q: "\<not> bad_amount (fd_filled_qty d) \<and> 0 < fd_filled_qty d" if "isfinite (fd_filled_qty d)" "\<not> fd_filled_qty d \<le> 0"
    using that by (cases "fd_filled_qty d") (auto simp: bad_amount_def zero_double_def)
  note sh = shift_pending [OF assms(3,5,6) pending_transitions(2)] shift_pending [OF assms(3,5,6) pending_transitions(3)]
  show ?thesis
  proof (cases "bad_amount price")
    case True
    then have "snd (process_market_fill c oid x price xid (en_exec en)) = en_exec en" for x xid
      by (simp add: process_market_fill_def Let_def)
    then show ?thesis
      using assms(1,2,4,5) sh True by (auto simp: settle_detail_def Let_def settled_state_def assms(8)[symmetric] split: if_splits)
  next
    case False
    from market_fill_pending [OF assms(3,5,6,7) False] show ?thesis
      using assms(1,2,4) sh q False
      by (auto simp: settle_detail_def Let_def settled_state_def assms(8)[symmetric] split: if_splits)
  qed
qed

text \<open>
  C7. Polling for the fill of a market order that is \<open>PendingAck\<close> and has no fill applied ends after at
  most six answers, whatever they are.  The order ends \<open>Filled\<close> with the reported quantity at the reported price
  (the reference price when none is reported), \<open>Cancelled\<close> when the exchange reports no fill,
  \<open>UnknownRecovery\<close> when the quantity is not a number, and \<open>Open\<close> when no answer came; only a fill whose
  price is not a positive finite number is not booked and leaves the order as it was.  The call fails only when the
  quantity is not a number.
\<close>

theorem confirm_settles:
  assumes inv: "xs_inv (en_exec en)" and ord: "get_order (o_order_id r) (en_registry en) = Some s"
    and pend: "o_state s = PendingAck" "\<not> is_fill_applied (o_order_id r) (en_registry en)"
    and ran: "engine_confirm c w r px qty en = (res, en')" and d: "d = deciding_answer w"
    and price: "price = (if 0 < fd_fill_price d then fd_fill_price d else px)"
  shows "(\<exists>n < 6. d = w_query w n) \<and>
    (\<exists>s'. get_order (o_order_id r) (en_registry en') = Some s' \<and>
      (if settled_state d = Filled \<and> bad_amount price then s' = s
       else o_state s' = settled_state d \<and>
         (settled_state d = Filled \<longrightarrow> o_filled_quantity s' = fd_filled_qty d \<and> o_avg_fill_price s' = price))) \<and>
    res = (if settled_state d = UnknownRecovery then Inl ExecutionFailed else Inr (o_order_id r)) \<and>
    xs_inv (en_exec en')"
proof -
  have "w_query w ` {0..0 + 2} \<subseteq> w_query w ` {..<6}" "w_query w ` {3..3 + 2} \<subseteq> w_query w ` {..<6}"
    by (intro image_mono; auto)+
  then have "d \<in> w_query w ` {..<6}"
    using query_loop_range [of "\<lambda>d. fd_success d \<and> 0 < fd_filled_qty d" "w_query w" 0 2]
      query_loop_range [of fd_success "w_query w" 3 2]
    unfolding d deciding_answer_def Let_def by (auto simp only: split: if_splits)
  then have six: "\<exists>n < 6. d = w_query w n" by auto
  have g: "reg_inv (en_registry en)" using inv by (rule xs_invD)
  have settle: "?thesis" if "fd_success d" "settle_detail c b r px qty d en = (res, en')" for b
  proof -
    have "res = (if settled_state d = UnknownRecovery then Inl ExecutionFailed else Inr (o_order_id r))"
      using that by (auto simp: settle_detail_def Let_def settled_state_def split: if_splits)
    then show ?thesis
      using six settle_detail_state [OF that(2,1) g refl ord pend price] settle_inv [OF that(2) inv] by blast
  qed
  show ?thesis
  proof (cases "fd_success d")
    case True
    then have "\<exists>b. settle_detail c b r px qty d en = (res, en')"
      using ran by (auto simp: engine_confirm_def d deciding_answer_def Let_def split: if_splits)
    then show ?thesis using settle True by blast
  next
    case False
    then have "res = Inr (o_order_id r)"
      "en' = on_registry (shift c (o_order_id r) Open ''Fill confirmation failed - awaiting reconciliation'') en"
      using ran by (auto simp: engine_confirm_def d deciding_answer_def Let_def split: if_splits)
    then show ?thesis
      using False six shift_pending [OF g ord pend(1) pending_transitions(1)] confirm_inv [OF ran inv]
      by (simp add: settled_state_def)
  qed
qed

definition ex_engine_A :: engine where
  "ex_engine_A = ex_engine\<lparr>en_exec := ex_fp_state\<rparr>"

theorem confirm_settles_witness:
  "\<exists>r res en' s'. get_order ''A'' (en_registry ex_engine_A) = Some r \<and>
     engine_confirm ex_fp_clk (ex_world ex_accept) r (Fin 100) (Fin 2) ex_engine_A = (res, en') \<and>
     get_order ''A'' (en_registry en') = Some s' \<and> o_state s' = Filled \<and> o_filled_quantity s' = Fin 2"
proof -
  let ?w = "ex_world ex_accept"
  obtain r where r: "get_order ''A'' (xs_registry ex_fp_state) = Some r" "o_state r = PendingAck" "o_order_id r = ''A''"
    using ex_fp_order_A by blast
  obtain res en' where x: "engine_confirm ex_fp_clk ?w r (Fin 100) (Fin 2) ex_engine_A = (res, en')" by force
  have e: "en_exec ex_engine_A = ex_fp_state" by (simp add: ex_engine_A_def)
  have d: "deciding_answer ?w = ex_filled"
    by (simp add: deciding_answer_def ex_world_def ex_filled_def Let_def numeral_2_eq_2 zero_double_def)
  have st: "settled_state ex_filled = Filled" by (simp add: settled_state_def ex_filled_def zero_double_def)
  have n: "\<not> is_fill_applied ''A'' (xs_registry ex_fp_state)"
    by (simp add: ex_fp_state_def is_fill_applied_def register_order_def registry_init_def Let_def reg_transition_def
        fsm_transition_def set_order_state_def split: option.splits)
  have "\<exists>s'. get_order ''A'' (en_registry en') = Some s' \<and> o_state s' = Filled \<and> o_filled_quantity s' = Fin 2"
    using confirm_settles [where en = ex_engine_A and r = r and w = ?w and px = "Fin 100" and d = ex_filled,
        OF _ _ r(2) _ x d [symmetric] refl] r n ex_fp_inv st
    by (simp add: e bad_amount_def zero_double_def ex_world_def ex_filled_def) blast
  then show ?thesis using x r(1) e by auto
qed

section \<open>Where the accounts come apart\<close>

text \<open>
  A reference price that is not a number slips through.  The planner takes it (it is not
  below or equal to zero), the engine's own price check lets it pass, and the reservation is
  skipped: the order is handed to the exchange with a price that is not a number and with
  the portfolio exactly as before.
\<close>

theorem nan_price_submitted:
  assumes inv: "xs_inv (en_exec en)" "fresh en" and adm: "admitted c i rd ea u en"
    and price: "ea_recommended_limit_price ea = Some NaN" and qty: "isfinite (rd_approved_quantity rd)" "0 < rd_approved_quantity rd"
  shows "\<exists>r e1. (\<forall>w. engine_submit c w i rd ea u en = submit_order c w i r e1) \<and> o_price r = NaN \<and>
    xs_portfolio (en_exec e1) = xs_portfolio (en_exec en)"
proof -
  obtain r e1 where p: "prepared c i rd ea u en = (r, e1)" by force
  note sel = prepared_sel [OF p]
  have "ep_planned_price (plan_price cfg i ea mc pl) = NaN" for cfg mc pl
    by (simp add: plan_price_def Let_def market_reference_price_def compute_limit_price_def price)
  then have pr: "o_price r = NaN"
    by (simp add: sel(4) the_plan_def plan_def stale_guard_def widen_spread_guard_def Let_def)
  obtain v where v: "rd_approved_quantity rd = Fin v" "0 < v"
    using qty by (auto simp: isfinite_iff zero_double_def)
  then have z: "o_original_quantity r * 0 \<le> 0" "\<not> o_original_quantity r \<le> 0"
    by (simp_all add: sel(6) zero_double_def)
  have "try_reserve_margin c (en_config e1) (en_leverage e1) r (en_exec e1) = (True, r, en_exec e1)"
    using pr z(1) by (simp add: try_reserve_margin_def Let_def split: option.splits)
  then have "engine_submit c w i rd ea u en = submit_order c w i r e1" for w
    using z(2) by (simp add: engine_submit_admitted [OF adm inv p] pr)
  with pr sel(7) show ?thesis by blast
qed

theorem nan_price_submitted_witness:
  "\<exists>r e1. engine_submit ex_fp_clk (ex_world ex_accept) ex_intent ex_risk
      (ex_alpha\<lparr>ea_recommended_limit_price := Some NaN\<rparr>) default_uncertainty ex_engine_pf =
      submit_order ex_fp_clk (ex_world ex_accept) ex_intent r e1 \<and> o_price r = NaN \<and>
    xs_portfolio (en_exec e1) = Some (portfolio_init (Fin 1000))"
proof -
  let ?ea = "ex_alpha\<lparr>ea_recommended_limit_price := Some NaN\<rparr>"
  have "admitted ex_fp_clk ex_intent ex_risk ?ea default_uncertainty ex_engine_pf"
    using ex_admitted_pf [of ex_fp_clk] by (auto simp: admitted_def validate_inputs_def split: if_splits)
  moreover have "isfinite (rd_approved_quantity ex_risk)" "0 < rd_approved_quantity ex_risk"
    by (simp_all add: ex_risk_def zero_double_def)
  ultimately have "\<exists>r e1. (\<forall>w. engine_submit ex_fp_clk w ex_intent ex_risk ?ea default_uncertainty ex_engine_pf =
      submit_order ex_fp_clk w ex_intent r e1) \<and> o_price r = NaN \<and>
      xs_portfolio (en_exec e1) = xs_portfolio (en_exec ex_engine_pf)"
    using nan_price_submitted [OF ex_engine_pf_inv ex_engine_pf_fresh, of ex_fp_clk ex_intent ex_risk ?ea
        default_uncertainty] by simp
  then show ?thesis by (auto simp: ex_engine_pf_def engine_init_def)
qed

lemma ex_engine_A_inv: "engine_inv ex_engine_A"
proof -
  have "get_order j (xs_registry ex_fp_state) = None" if "j \<noteq> ''A''" for j
    using that by (simp add: ex_fp_eval Let_def del: get_order_registry)
  then have "unknown (client_order_id pre n) ex_fp_state" for pre n
    by (simp add: client_order_id_def)
  then show ?thesis using ex_fp_inv by (simp add: engine_inv_def ids_ahead_free_def ex_engine_A_def)
qed

lemma ex_engine_A_exec [simp]: "en_exec ex_engine_A = ex_fp_state"
  by (simp add: ex_engine_A_def)

text \<open>
  An order that recovery settles as \<open>Cancelled\<close> keeps its margin: reconciliation does not
  touch the portfolio, and afterwards neither an update from the exchange nor a cancel
  command for that order changes anything, so the reservation is never released.
\<close>

theorem recovered_reservation_stuck:
  assumes inv: "engine_inv en" and ord: "get_order oid (en_registry en) = Some r"
    and st: "o_state r \<in> {PendingAck, Open, UnknownRecovery}"
    and ex: "\<And>xid s. \<not> fd_success (xr_query_order_fill_detail e xid s)" "\<And>xid s. xr_cancel_order e xid s"
    and run: "engine_run_reconciliation c (Some e) en = (res, en')"
  shows "xs_portfolio (en_exec en') = xs_portfolio (en_exec en) \<and>
    (\<exists>r'. get_order oid (en_registry en') = Some r' \<and> o_state r' = Cancelled) \<and>
    (\<forall>c sub new_state q pr. on_order_update c sub oid new_state q pr en' = en') \<and>
    (\<forall>c sub. engine_cancel c sub oid en' = (Inl ExecutionFailed, en'))"
proof -
  let ?ms = "ec_cancel_confirmation_timeout_ms (en_config en)"
  let ?g1 = "mark_uncertain_orders c (en_registry en)" let ?g2 = "recover_unknown_orders c (Some e) ?g1"
  have g: "reg_inv (en_registry en)" using inv by (rule engine_invD)
  note m = mark_uncertain_outcome [OF g, where c = c]
  note v = recover_unknown_outcome [OF m(1), where c = c and e = e]
  note t = stale_cancels_outcome [OF v(1), where c = c and ms = "?ms * 3"]
  define u where "u = (if o_state r \<in> {PendingAck, Open} then forced c UnknownRecovery r else r)"
  have us: "o_state u = UnknownRecovery" using st by (auto simp: u_def forced_def)
  have r1: "get_order oid ?g1 = Some u" using ord by (simp add: m(2) u_def)
  have "recover_effect c e u = forced c Cancelled u"
    using ex by (simp add: recover_effect_def confirms_def Let_def)
  then have r2: "get_order oid ?g2 = Some (forced c Cancelled u)" using r1 us by (simp add: v(2))
  have reg: "en_registry en' = snd (force_resolve_stale_cancels c (?ms * 3) ?g2)"
    and pf: "xs_portfolio (en_exec en') = xs_portfolio (en_exec en)"
    using run by (auto simp: engine_run_reconciliation_def run_reconciliation_def Let_def case_prod_unfold)
  have r3: "get_order oid (en_registry en') = Some (forced c Cancelled u)"
    unfolding reg by (rule t(2) [OF r2]) (simp add: forced_def)
  have fin: "o_state (forced c Cancelled u) = Cancelled" by (simp add: forced_def)
  have g': "reg_inv (en_registry en')" unfolding reg by (rule t(1))
  have no: "\<not> is_valid_transition Cancelled s" for s by (simp add: is_valid_transition_def)
  have tr: "\<not> fst (reg_transition c' oid s reason (en_registry en'))" for c' s reason
    using reg_transition_outcome(1) [OF g' r3] no fin by simp
  have res: "resolve_order oid (en_registry en') = Some (oid, forced c Cancelled u)"
    using r3 by (simp add: resolve_order_def)
  have upd: "on_order_update c' sub oid s q pr en' = en'" for c' sub s q pr
    using tr [of c' s "''Exchange update''"] by (auto simp: on_order_update_def res split: prod.splits bool.splits)
  have "do_cancel c' sub oid (en_exec en') = (False, en_exec en')" for c' sub
    using tr [of c' CancelPending "''Cancel requested''"] r3
    by (auto simp: do_cancel_def split: option.splits prod.splits bool.splits)
  then have "engine_cancel c' sub oid en' = (Inl ExecutionFailed, en')" for c' sub
    by (simp add: engine_cancel_def cancel_order_def Let_def)
  with pf r3 fin upd show ?thesis by blast
qed

theorem recovered_reservation_stuck_witness:
  "\<exists>res en' r'. engine_run_reconciliation ex_fp_clk (Some ex_ok) ex_engine_A = (res, en') \<and>
     get_order ''A'' (en_registry en') = Some r' \<and> o_state r' = Cancelled \<and>
     on_order_update ex_fp_clk (Some ex_ok) ''A'' Cancelled 0 0 en' = en'"
proof -
  obtain r where r: "get_order ''A'' (en_registry ex_engine_A) = Some r" "o_state r = PendingAck"
    using ex_fp_order_A by auto
  obtain res en' where x: "engine_run_reconciliation ex_fp_clk (Some ex_ok) ex_engine_A = (res, en')" by force
  show ?thesis
    using recovered_reservation_stuck [OF ex_engine_A_inv r(1) _ _ _ x] r(2) x by (simp add: ex_ok_def)
qed

lemma order_fill_books:
  assumes "get_order oid (xs_registry y) = Some r" and "\<not> is_fill_applied oid (xs_registry y)"
    and "xs_portfolio y = Some p" and "o_order_id r = oid" and "o_state r = Filled"
  obtains f z where "snd (process_order_fill c oid q pr y) = apply_fill_to_portfolio c f z"
    "o_trade_side f = o_trade_side r" "o_symbol f = o_symbol r" "o_side f = o_side r" "o_state f = Filled"
    "o_filled_quantity f = std_max (o_filled_quantity r) q" "xs_portfolio z = Some p"
    "get_order oid (xs_registry z) = Some f"
proof -
  define a where "a = r\<lparr>o_filled_quantity := std_max (o_filled_quantity r) q,
    o_remaining_quantity := std_max 0 (o_original_quantity r - std_max (o_filled_quantity r) q)\<rparr>"
  define b where "b = (if 0 < pr then a\<lparr>o_avg_fill_price := pr\<rparr> else a)"
  define f where "f = b\<lparr>o_last_updated := now c\<rparr>"
  define z where "z = y\<lparr>xs_registry := mark_fill_applied oid (update_order f (xs_registry y))\<rparr>"
  have f: "o_trade_side f = o_trade_side r" "o_symbol f = o_symbol r" "o_side f = o_side r" "o_state f = Filled"
    "o_filled_quantity f = std_max (o_filled_quantity r) q" "o_order_id f = oid"
    using assms(4,5) by (simp_all add: f_def b_def a_def)
  have "process_order_fill c oid q pr y = (True, apply_fill_to_portfolio c f z)"
    unfolding process_order_fill_def assms(1) option.case Let_def a_def [symmetric]
    using assms(2,3) f(4) by (simp add: b_def [symmetric] f_def [symmetric] z_def)
  with f show ?thesis using assms(1,3) by (intro that [of f z]) (simp_all add: z_def get_order_update)
qed

text \<open>
  A refused cancellation makes a fill count twice.  It erases the mark that the order's
  fills were applied, so when the exchange then reports the order as filled, the whole
  cumulative quantity is booked on top of what the fill events had already booked.
\<close>

theorem rejected_cancel_books_twice:
  assumes inv: "engine_inv en" and ord: "get_order oid (en_registry en) = Some r" and can: "cancellable r"
    and no: "\<not> confirms e r" and enters: "o_trade_side r = TradeOpen" and port: "xs_portfolio (en_exec en) = Some p"
    and q: "0 < q"
    and c1: "engine_cancel c (Some e) oid en = (res, en1)"
    and c2: "en2 = on_order_update c' sub oid Filled q pr en1"
  shows "let leg = leg_size (o_symbol r) (side_to_position_side (o_side r))
         in leg (en_exec en2) = Some (opened_size (leg (en_exec en)) (std_max (o_filled_quantity r) q))"
proof -
  let ?leg = "leg_size (o_symbol r) (side_to_position_side (o_side r))"
  have xi: "xs_inv (en_exec en)" and g: "reg_inv (en_registry en)" using inv by (simp_all add: engine_invD)
  define x1 where "x1 = snd (do_cancel c (Some e) oid (en_exec en))"
  note out = do_cancel_outcome [OF xi]
  have x1_inv: "xs_inv x1" unfolding x1_def by (rule out(3))
  let ?u = "r\<lparr>o_state := UnknownRecovery, o_last_updated := now c\<rparr>"
  have r1: "get_order oid (xs_registry x1) = Some ?u"
    using ord can no by (simp add: x1_def out(1) cancel_effect_def)
  define g1 where "g1 = snd (reg_transition c oid CancelPending ''Cancel requested'' (en_registry en))"
  have acc: "do_cancel c (Some e) oid (en_exec en) = (False, (en_exec en)\<lparr>xs_registry :=
      reg_force_transition c oid UnknownRecovery ''Cancel rejected - awaiting reconciliation'' g1\<rparr>)"
    using do_cancel_accepted [OF g ord can g1_def, of e] no by simp
  have g1: "reg_inv g1" unfolding g1_def by (rule reg_inv_transition [OF g])
  obtain r0 where r0: "get_order oid g1 = Some r0"
    using reg_transition_outcome(4) [OF g ord, of c CancelPending "''Cancel requested''"] by (simp add: g1_def)
  have x1: "xs_portfolio x1 = Some p" "\<not> is_fill_applied oid (xs_registry x1)" "?leg x1 = ?leg (en_exec en)"
    using acc port fill_applied_force [OF g1 r0] by (simp_all add: x1_def leg_size_def)
  have en1: "en1 = en\<lparr>en_exec := x1\<rparr>"
    using c1 acc by (auto simp: engine_cancel_def cancel_order_def Let_def x1_def)
  have g2: "reg_inv (xs_registry x1)" using x1_inv by (rule xs_invD)
  obtain h where h: "reg_transition c' oid Filled ''Exchange update'' (xs_registry x1) = (True, h)"
    using reg_transition_outcome(1) [OF g2 r1, of c' Filled "''Exchange update''"]
    by (cases "reg_transition c' oid Filled ''Exchange update'' (xs_registry x1)") (auto simp: is_valid_transition_def)
  let ?f = "?u\<lparr>o_state := Filled, o_last_updated := now c'\<rparr>" let ?y = "x1\<lparr>xs_registry := h\<rparr>"
  have rh: "get_order oid h = Some ?f"
    using reg_transition_outcome(4) [OF g2 r1, of c' Filled "''Exchange update''"] h by (simp add: is_valid_transition_def)
  have ah: "\<not> is_fill_applied oid h"
    using fill_applied_frame(1) [of oid c' oid Filled "''Exchange update''" "xs_registry x1"] h x1(2) by simp
  have ok: "o_order_id ?f = oid" "o_state ?f = Filled" using get_order_key [OF g ord] by simp_all
  obtain f z where pof: "snd (process_order_fill c' oid q pr ?y) = apply_fill_to_portfolio c' f z"
    and f: "o_trade_side f = TradeOpen" "o_symbol f = o_symbol r" "o_side f = o_side r" "o_state f = Filled"
      "o_filled_quantity f = std_max (o_filled_quantity r) q"
    and z: "xs_portfolio z = Some p" "?leg z = ?leg x1" "get_order oid (xs_registry z) = Some f"
    by (rule order_fill_books [of oid ?y ?f p c' q pr]) (use rh ah x1(1) enters ok in \<open>simp_all add: leg_size_def\<close>)
  have "?leg (apply_fill_to_portfolio c' f z) = Some (opened_size (?leg z) (std_max (o_filled_quantity r) q))"
    using leg_size_open_fill(1) [OF f(1) z(1) f(2), of _ c'] f(3,5) by simp
  moreover have "enforce_cancel_remaining c' sub oid (apply_fill_to_portfolio c' f z) = apply_fill_to_portfolio c' f z"
    using z(3) f(4) by (simp add: enforce_cancel_remaining_def check_cancel_remaining_def Let_def)
  moreover have "resolve_order oid (xs_registry x1) = Some (oid, ?u)" using r1 by (simp add: resolve_order_def)
  then have "en_exec en2 = enforce_cancel_remaining c' sub oid (snd (process_order_fill c' oid q pr ?y))"
    using h q by (simp add: c2 en1 on_order_update_def Let_def)
  ultimately show ?thesis using z(2) x1(3) by (simp add: pof Let_def)
qed

theorem rejected_cancel_books_twice_witness:
  "\<exists>res en1. engine_cancel ex_fp_clk (Some ex_no) ''A'' ex_engine_A = (res, en1) \<and>
     leg_size ''BTCUSDT'' Long (en_exec (on_order_update ex_fp_clk None ''A'' Filled (Fin 10) (Fin 100) en1)) = Some (Fin 10)"
proof -
  obtain r where r: "get_order ''A'' (en_registry ex_engine_A) = Some r" "o_trade_side r = TradeOpen"
    "o_symbol r = ''BTCUSDT''" "o_side r = Buy" "o_state r = PendingAck" "o_filled_quantity r = Fin 0"
    using ex_fp_order_A by auto
  obtain res en1 where x: "engine_cancel ex_fp_clk (Some ex_no) ''A'' ex_engine_A = (res, en1)" by force
  have "cancellable r" "\<not> confirms ex_no r"
    using r(5) by (simp_all add: cancellable_def is_valid_transition_def confirms_def ex_no_def)
  moreover have l: "leg_size ''BTCUSDT'' Long ex_fp_state = None"
    "xs_portfolio ex_fp_state = Some (portfolio_init (Fin 1000))"
    by (simp_all add: leg_size_def ex_fp_state_def get_position_leg_def portfolio_init_def)
  ultimately have "leg_size ''BTCUSDT'' Long (en_exec (on_order_update ex_fp_clk None ''A'' Filled (Fin 10) (Fin 100) en1)) =
      Some (Fin 10)"
    using rejected_cancel_books_twice [OF ex_engine_A_inv r(1) _ _ r(2) _ _ x refl, where q = "Fin 10" and pr = "Fin 100"
        and c' = ex_fp_clk and sub = None] r
    by (simp add: Let_def side_to_position_side_def opened_size_def std_max_def zero_double_def)
  with x show ?thesis by blast
qed

end
