(* ===== verification/Circuit_Breaker.thy ===== *)
theory Circuit_Breaker
  imports Common_Types
begin

text \<open>
  \<^verbatim>\<open>CircuitBreaker\<close> (\<^verbatim>\<open>src/src/resilience/circuit_breaker.{hpp,cpp}\<close>), twice.

  The first half is the breaker as one caller sees it: every public method is one
  function on the four atomic fields.  The second half is the breaker as concurrent
  callers see it: the class has no mutex, so each atomic load, store, fetch-and-add and
  compare-and-exchange is one step of a thread, and the threads interleave.  A thread
  that runs alone computes exactly the method of the first half.

  The counters are \<^verbatim>\<open>std::atomic<int>\<close> and wrap.  Metrics are not modelled.
\<close>

section \<open>Data\<close>

datatype circuit_state = Closed | Open | HalfOpen

fun circuit_state_to_string :: "circuit_state \<Rightarrow> string" where
  "circuit_state_to_string Closed = ''Closed''"
| "circuit_state_to_string Open = ''Open''"
| "circuit_state_to_string HalfOpen = ''HalfOpen''"

record circuit_breaker_config =
  cc_failure_threshold :: int
  cc_recovery_timeout_ms :: int
  cc_half_open_max_attempts :: int

definition default_circuit_breaker_config :: circuit_breaker_config where
  "default_circuit_breaker_config =
    \<lparr>cc_failure_threshold = 5, cc_recovery_timeout_ms = 30000, cc_half_open_max_attempts = 3\<rparr>"

record circuit_breaker =
  cb_config :: circuit_breaker_config
  cb_has_clock :: bool
  cb_state :: circuit_state
  cb_consecutive_failures :: i32
  cb_half_open_attempts :: i32
  cb_last_failure_time_ms :: int

definition cb_init :: "circuit_breaker_config \<Rightarrow> bool \<Rightarrow> circuit_breaker" where
  "cb_init cfg has_clock =
    \<lparr>cb_config = cfg, cb_has_clock = has_clock, cb_state = Closed,
     cb_consecutive_failures = 0, cb_half_open_attempts = 0, cb_last_failure_time_ms = 0\<rparr>"

section \<open>The methods\<close>

definition cb_now_ms :: "circuit_breaker \<Rightarrow> clk \<Rightarrow> int" where
  "cb_now_ms b c = (if cb_has_clock b then now c sdiv 1000000 else steady c sdiv 1000000)"

definition cb_elapsed :: "circuit_breaker \<Rightarrow> clk \<Rightarrow> int" where
  "cb_elapsed b c = max 0 (cb_now_ms b c - cb_last_failure_time_ms b)"

definition probe :: "circuit_breaker \<Rightarrow> bool \<times> circuit_breaker" where
  "probe b =
    (sint (cb_half_open_attempts b) < cc_half_open_max_attempts (cb_config b),
     b\<lparr>cb_half_open_attempts := cb_half_open_attempts b + 1\<rparr>)"

text \<open>
  In \<^verbatim>\<open>allow_request\<close> the compare-and-exchange of a caller that runs alone succeeds:
  nobody changed the state since it was loaded.
\<close>

definition allow_request :: "clk \<Rightarrow> circuit_breaker \<Rightarrow> bool \<times> circuit_breaker" where
  "allow_request c b =
    (case cb_state b of
       Closed \<Rightarrow> (True, b)
     | Open \<Rightarrow>
         if cc_recovery_timeout_ms (cb_config b) \<le> cb_elapsed b c
         then (True, b\<lparr>cb_state := HalfOpen, cb_half_open_attempts := 1\<rparr>)
         else (False, b)
     | HalfOpen \<Rightarrow> probe b)"

definition record_success :: "circuit_breaker \<Rightarrow> circuit_breaker" where
  "record_success b =
    (let b1 = (if cb_state b = HalfOpen then b\<lparr>cb_state := Closed\<rparr> else b)
     in b1\<lparr>cb_consecutive_failures := 0, cb_half_open_attempts := 0\<rparr>)"

definition record_failure :: "clk \<Rightarrow> circuit_breaker \<Rightarrow> circuit_breaker" where
  "record_failure c b =
    (let b0 = b\<lparr>cb_last_failure_time_ms := cb_now_ms b c\<rparr>;
         failures = cb_consecutive_failures b0 + 1;
         b1 = b0\<lparr>cb_consecutive_failures := failures\<rparr>
     in if cb_state b0 = HalfOpen then b1\<lparr>cb_state := Open\<rparr>
        else if cc_failure_threshold (cb_config b0) \<le> sint failures then b1\<lparr>cb_state := Open\<rparr>
        else b1)"

definition cb_reset :: "circuit_breaker \<Rightarrow> circuit_breaker" where
  "cb_reset b = b\<lparr>cb_state := Closed, cb_consecutive_failures := 0,
                  cb_half_open_attempts := 0, cb_last_failure_time_ms := 0\<rparr>"

section \<open>One caller\<close>

inductive cb_step :: "circuit_breaker \<Rightarrow> circuit_breaker \<Rightarrow> bool" where
  Allow: "cb_step b (snd (allow_request c b))"
| Success: "cb_step b (record_success b)"
| Failure: "cb_step b (record_failure c b)"
| Reset: "cb_step b (cb_reset b)"

inductive_cases cb_stepE: "cb_step b b'"

definition cb_start :: "circuit_breaker \<Rightarrow> bool" where
  "cb_start b \<longleftrightarrow> 1 \<le> cc_failure_threshold (cb_config b) \<and>
                 cc_failure_threshold (cb_config b) \<le> i32_max \<and>
                 b = cb_init (cb_config b) (cb_has_clock b)"

definition cb_inv :: "circuit_breaker \<Rightarrow> bool" where
  "cb_inv b \<longleftrightarrow> 1 \<le> cc_failure_threshold (cb_config b) \<and>
               cc_failure_threshold (cb_config b) \<le> i32_max \<and>
               (cb_state b = Closed \<longrightarrow>
                  sint (cb_consecutive_failures b) < cc_failure_threshold (cb_config b))"

lemma cb_config_frame [simp]:
  "cb_config (snd (allow_request c b)) = cb_config b"
  "cb_config (record_success b) = cb_config b"
  "cb_config (record_failure c b) = cb_config b"
  "cb_config (cb_reset b) = cb_config b"
  by (auto simp: allow_request_def probe_def record_success_def record_failure_def cb_reset_def
      Let_def split: circuit_state.splits)

lemma cb_inv_step: "cb_inv b \<Longrightarrow> cb_step b b' \<Longrightarrow> cb_inv b'"
  by (erule cb_stepE)
    (auto simp: cb_inv_def allow_request_def probe_def record_success_def record_failure_def
      cb_reset_def Let_def split: circuit_state.splits if_splits)

interpretation cb: inv_system cb_start cb_step cb_inv
proof
  fix b assume "cb_start b"
  then have "1 \<le> cc_failure_threshold (cb_config b)" "cc_failure_threshold (cb_config b) \<le> i32_max"
    "cb_state b = Closed" "cb_consecutive_failures b = 0"
    by (auto simp: cb_start_def cb_init_def) (metis circuit_breaker.select_convs(3,4))+
  then show "cb_inv b" by (simp add: cb_inv_def)
qed (rule cb_inv_step)

fun allow_run :: "clk list \<Rightarrow> circuit_breaker \<Rightarrow> bool list \<times> circuit_breaker" where
  "allow_run [] b = ([], b)"
| "allow_run (c # cs) b =
    (let (ok, b1) = allow_request c b; (oks, b2) = allow_run cs b1 in (ok # oks, b2))"

lemma fold_failures:
  assumes "cb_state b = (if cc_failure_threshold (cb_config b) \<le> int k then Open else Closed)"
    and "sint (cb_consecutive_failures b) = int k" and "int k + int (length cs) \<le> i32_max"
  shows "cb_state (fold record_failure cs b) =
           (if cc_failure_threshold (cb_config b) \<le> int k + int (length cs) then Open else Closed) \<and>
         sint (cb_consecutive_failures (fold record_failure cs b)) = int k + int (length cs)"
  using assms
proof (induction cs arbitrary: b k)
  case (Cons c cs)
  have f: "sint (cb_consecutive_failures b + 1) = int k + 1"
    using Cons.prems sint_i32_Suc by simp
  have "cb_state (record_failure c b) =
      (if cc_failure_threshold (cb_config b) \<le> int (Suc k) then Open else Closed)"
    "sint (cb_consecutive_failures (record_failure c b)) = int (Suc k)"
    using Cons.prems(1) f by (auto simp: record_failure_def Let_def split: if_splits)
  then show ?case using Cons.IH [of "record_failure c b" "Suc k"] Cons.prems(3) by simp
qed simp

lemma half_open_run:
  assumes "cb_state b = HalfOpen" and "sint (cb_half_open_attempts b) = int k"
    and "int k + int (length cs) \<le> i32_max"
  shows "fst (allow_run cs b) =
      map (\<lambda>i. int i < cc_half_open_max_attempts (cb_config b)) [k ..< k + length cs] \<and>
    cb_state (snd (allow_run cs b)) = HalfOpen"
  using assms
proof (induction cs arbitrary: b k)
  case (Cons c cs)
  let ?b = "snd (allow_request c b)"
  have "sint (cb_half_open_attempts b + 1) = int (Suc k)"
    using Cons.prems sint_i32_Suc by simp
  with Cons.prems(1,2) have "cb_state ?b = HalfOpen" "sint (cb_half_open_attempts ?b) = int (Suc k)"
    "fst (allow_request c b) \<longleftrightarrow> int k < cc_half_open_max_attempts (cb_config b)"
    by (auto simp: allow_request_def probe_def)
  moreover have "[k ..< k + length (c # cs)] = k # [Suc k ..< Suc k + length cs]"
    by (subst upt_rec) simp
  ultimately show ?case
    using Cons.IH [of ?b "Suc k"] Cons.prems(3) by (simp add: case_prod_unfold)
qed simp

section \<open>Concurrent callers\<close>

text \<open>
  The program counter of a thread inside one of the three methods.  \<open>Returned r\<close> is a
  finished call; the recording methods return no value and end in \<open>Done\<close>.
\<close>

datatype cb_pc =
    AStart | AOpen | ACas | AStore | AHalf
  | SStart | SClose | SFailures | SAttempts
  | FStart | FLoad | FHalfCount | FHalfOpen | FCount | FOpen
  | Returned bool | Done

fun cb_micro :: "clk \<Rightarrow> cb_pc \<Rightarrow> circuit_breaker \<Rightarrow> cb_pc \<times> circuit_breaker" where
  "cb_micro c AStart b =
    ((case cb_state b of Closed \<Rightarrow> Returned True | Open \<Rightarrow> AOpen | HalfOpen \<Rightarrow> AHalf), b)"
| "cb_micro c AOpen b =
    (if cc_recovery_timeout_ms (cb_config b) \<le> cb_elapsed b c then ACas else Returned False, b)"
| "cb_micro c ACas b =
    (case cb_state b of
       Open \<Rightarrow> (AStore, b\<lparr>cb_state := HalfOpen\<rparr>)
     | HalfOpen \<Rightarrow> (AHalf, b)
     | Closed \<Rightarrow> (Returned False, b))"
| "cb_micro c AStore b = (Returned True, b\<lparr>cb_half_open_attempts := 1\<rparr>)"
| "cb_micro c AHalf b = (let (ok, b') = probe b in (Returned ok, b'))"
| "cb_micro c SStart b = (if cb_state b = HalfOpen then SClose else SFailures, b)"
| "cb_micro c SClose b = (SFailures, b\<lparr>cb_state := Closed\<rparr>)"
| "cb_micro c SFailures b = (SAttempts, b\<lparr>cb_consecutive_failures := 0\<rparr>)"
| "cb_micro c SAttempts b = (Done, b\<lparr>cb_half_open_attempts := 0\<rparr>)"
| "cb_micro c FStart b = (FLoad, b\<lparr>cb_last_failure_time_ms := cb_now_ms b c\<rparr>)"
| "cb_micro c FLoad b = (if cb_state b = HalfOpen then FHalfCount else FCount, b)"
| "cb_micro c FHalfCount b =
    (FHalfOpen, b\<lparr>cb_consecutive_failures := cb_consecutive_failures b + 1\<rparr>)"
| "cb_micro c FHalfOpen b = (Done, b\<lparr>cb_state := Open\<rparr>)"
| "cb_micro c FCount b =
    (if cc_failure_threshold (cb_config b) \<le> sint (cb_consecutive_failures b + 1) then FOpen else Done,
     b\<lparr>cb_consecutive_failures := cb_consecutive_failures b + 1\<rparr>)"
| "cb_micro c FOpen b = (Done, b\<lparr>cb_state := Open\<rparr>)"
| "cb_micro c (Returned r) b = (Returned r, b)"
| "cb_micro c Done b = (Done, b)"

fun cb_alone :: "nat \<Rightarrow> clk \<Rightarrow> cb_pc \<Rightarrow> circuit_breaker \<Rightarrow> cb_pc \<times> circuit_breaker" where
  "cb_alone 0 c pc b = (pc, b)"
| "cb_alone (Suc n) c pc b = (let (pc', b') = cb_micro c pc b in cb_alone n c pc' b')"

text \<open>
  A schedule names, step by step, the thread that moves and what its clock shows.  A
  thread number outside the list leaves the system as it is.
\<close>

fun cb_sched :: "(nat \<times> clk) list \<Rightarrow> cb_pc list \<Rightarrow> circuit_breaker \<Rightarrow> cb_pc list \<times> circuit_breaker" where
  "cb_sched [] pcs b = (pcs, b)"
| "cb_sched ((t, c) # sch) pcs b =
    (if t < length pcs
     then let (pc', b') = cb_micro c (pcs ! t) b in cb_sched sch (pcs[t := pc']) b'
     else cb_sched sch pcs b)"

definition admitted :: "cb_pc list \<Rightarrow> nat" where
  "admitted pcs = count_list pcs (Returned True)"

text \<open>
  A half-open phase seen from outside: before the winner's exchange, between the
  exchange and the winner's store, and after the store.  \<open>k\<close> bounds the attempts counter.
\<close>

definition allow_pcs :: "cb_pc set" where
  "allow_pcs = {AStart, AOpen, ACas, AStore, AHalf, Returned True, Returned False}"

definition phase_ok :: "circuit_state \<Rightarrow> int \<Rightarrow> int \<Rightarrow> int \<Rightarrow> int \<Rightarrow> int \<Rightarrow> bool" where
  "phase_ok st M a n w h \<longleftrightarrow>
    st = Open \<and> w = 0 \<and> n = 0 \<and> h = 0 \<or>
    st = HalfOpen \<and> w = 1 \<and> n \<le> a \<and> n \<le> M \<or>
    st = HalfOpen \<and> w = 0 \<and> n \<le> M + a \<and> n \<le> 2 * M"

definition phase_inv :: "int \<Rightarrow> cb_pc list \<Rightarrow> circuit_breaker \<Rightarrow> bool" where
  "phase_inv k pcs b \<longleftrightarrow>
    1 \<le> cc_half_open_max_attempts (cb_config b) \<and> 0 \<le> sint (cb_half_open_attempts b) \<and>
    1 \<le> k \<and> sint (cb_half_open_attempts b) \<le> k \<and> set pcs \<subseteq> allow_pcs \<and>
    phase_ok (cb_state b) (cc_half_open_max_attempts (cb_config b)) (sint (cb_half_open_attempts b))
      (int (admitted pcs)) (int (count_list pcs AStore)) (int (count_list pcs AHalf))"

lemma count_list_upd:
  "t < length xs \<Longrightarrow>
   int (count_list (xs[t := y]) z) =
   int (count_list xs z) - (if xs ! t = z then 1 else 0) + (if y = z then 1 else 0)"
proof (induction xs arbitrary: t)
  case (Cons x xs)
  show ?case
  proof (cases t)
    case (Suc m)
    with Cons.prems have "m < length xs" by simp
    from Cons.IH [OF this] Suc show ?thesis by (simp split: if_splits)
  qed (use Cons.prems in simp)
qed simp

lemma allow_pcs_closed: "cb_micro c p b = (p', b') \<Longrightarrow> p \<in> allow_pcs \<Longrightarrow> p' \<in> allow_pcs"
  by (cases "(c, p, b)" rule: cb_micro.cases)
    (auto simp: allow_pcs_def probe_def split: circuit_state.splits if_splits)

lemma phase_inv_step:
  assumes "phase_inv k pcs b" and "t < length pcs" and "k < i32_max"
    and "cb_micro c (pcs ! t) b = (pc', b')"
  shows "phase_inv (k + 1) (pcs[t := pc']) b'"
proof -
  note cnt = count_list_upd [OF assms(2), of pc']
  have mem: "pcs ! t \<in> set pcs" "0 < count_list pcs (pcs ! t)"
    using assms(2) by (auto simp: count_list_0_iff simp flip: neq0_conv)
  have "set pcs \<subseteq> allow_pcs" using assms(1) by (simp add: phase_inv_def)
  with mem(1) have "pc' \<in> allow_pcs" "pcs ! t \<in> allow_pcs"
    using allow_pcs_closed [OF assms(4)] by blast+
  then have sub: "set (pcs[t := pc']) \<subseteq> allow_pcs"
    using set_update_subset_insert [of pcs t pc'] \<open>set pcs \<subseteq> allow_pcs\<close> by blast
  consider "pcs ! t = AStart" | "pcs ! t = AOpen" | "pcs ! t = ACas" | "pcs ! t = AStore"
    | "pcs ! t = AHalf" | r where "pcs ! t = Returned r"
    using \<open>pcs ! t \<in> allow_pcs\<close> unfolding allow_pcs_def by blast
  then show ?thesis
  proof cases
    case 1
    then show ?thesis using sub assms(1,4)
      by (auto simp: phase_inv_def admitted_def cnt phase_ok_def
          split: circuit_state.splits)
  next
    case 2
    then show ?thesis using sub assms(1,4)
      by (auto simp: phase_inv_def admitted_def cnt phase_ok_def
          split: if_splits)
  next
    case 3
    then show ?thesis using sub assms(1,4)
      by (auto simp: phase_inv_def admitted_def cnt phase_ok_def
          split: circuit_state.splits)
  next
    case 4
    then show ?thesis using sub assms(1,4) mem(2)
      by (auto simp: phase_inv_def admitted_def cnt phase_ok_def)
  next
    case 5
    have "sint (cb_half_open_attempts b + 1) = sint (cb_half_open_attempts b) + 1"
      using assms(1,3) by (intro sint_i32_Suc) (simp add: phase_inv_def)
    with 5 show ?thesis using sub assms(1,4) mem(2)
      by (auto simp: phase_inv_def admitted_def cnt phase_ok_def probe_def)
  next
    case (6 r)
    then show ?thesis using sub assms(1,4) mem
      by (auto simp: phase_inv_def admitted_def cnt phase_ok_def list_update_id)
  qed
qed

lemma phase_inv_sched:
  assumes "phase_inv k pcs b" and "k + int (length sch) \<le> i32_max"
  shows "\<exists>k'. phase_inv k' (fst (cb_sched sch pcs b)) (snd (cb_sched sch pcs b)) \<and>
               cb_config (snd (cb_sched sch pcs b)) = cb_config b"
  using assms
proof (induction sch arbitrary: k pcs b)
  case (Cons x sch)
  obtain t c where x: "x = (t, c)" by force
  show ?case
  proof (cases "t < length pcs")
    case True
    obtain pc' b' where m: "cb_micro c (pcs ! t) b = (pc', b')" by force
    have cfg: "cb_config b' = cb_config b"
      using m by (cases "(c, pcs ! t, b)" rule: cb_micro.cases)
        (auto simp: probe_def split: circuit_state.splits)
    have "phase_inv (k + 1) (pcs[t := pc']) b'"
      using phase_inv_step [OF Cons.prems(1) True _ m] Cons.prems(2) by simp
    from Cons.IH [OF this] Cons.prems(2) True m cfg show ?thesis by (simp add: x)
  next
    case False
    with Cons.IH [OF Cons.prems(1)] Cons.prems(2) show ?thesis by (simp add: x)
  qed
qed auto

lemma phase_inv_start:
  assumes "cb_state b = Open" and "1 \<le> cc_half_open_max_attempts (cb_config b)"
    and "0 \<le> sint (cb_half_open_attempts b)" and "set pcs \<subseteq> {AStart}"
  shows "phase_inv (max 1 (sint (cb_half_open_attempts b))) pcs b"
proof -
  have "count_list pcs p = 0" if "p \<noteq> AStart" for p
    using assms(4) that by (auto simp: count_list_0_iff)
  with assms show ?thesis
    by (auto simp: phase_inv_def phase_ok_def admitted_def allow_pcs_def)
qed

section \<open>Properties\<close>

definition ex_cb :: circuit_breaker where
  "ex_cb = cb_init \<lparr>cc_failure_threshold = 2, cc_recovery_timeout_ms = 1000,
                    cc_half_open_max_attempts = 1\<rparr> True"

definition ex_at :: "int \<Rightarrow> clk" where
  "ex_at ms = \<lparr>now = ms * 1000000, wall = 0, steady = 0\<rparr>"

lemma sdiv_ms [simp]: "now (ex_at ms) sdiv 1000000 = ms"
  by (simp add: ex_at_def signed_divide_int_def sgn_mult abs_mult sgn_mult_abs)

text \<open>
  A breaker that any history of calls has brought to \<open>Closed\<close> has counted fewer
  failures than the threshold: it never stays closed on a full count, whatever the
  order of requests, outcomes and resets and whatever the clock showed.
\<close>

theorem closed_below_threshold:
  assumes "cb_start b" and "cb_step\<^sup>*\<^sup>* b b'" and "cb_state b' = Closed"
  shows "sint (cb_consecutive_failures b') < cc_failure_threshold (cb_config b')"
  using cb.inv_reachable [OF assms(1,2)] assms(3) by (simp add: cb_inv_def)

theorem closed_below_threshold_witness:
  "sint (cb_consecutive_failures (record_failure (ex_at 5) ex_cb)) <
   cc_failure_threshold (cb_config (record_failure (ex_at 5) ex_cb))"
proof (rule closed_below_threshold [of ex_cb])
  show "cb_start ex_cb" by (simp add: cb_start_def ex_cb_def cb_init_def)
  show "cb_step\<^sup>*\<^sup>* ex_cb (record_failure (ex_at 5) ex_cb)" using cb_step.Failure by blast
  show "cb_state (record_failure (ex_at 5) ex_cb) = Closed"
    by (simp add: record_failure_def ex_cb_def cb_init_def Let_def)
qed

text \<open>
  Counting from zero in the closed state, a run of consecutive failures opens the
  breaker exactly when it reaches the threshold, and the count is exact as long as it fits
  a signed 32-bit integer.
\<close>

theorem trips_at_threshold:
  assumes "cb_state b = Closed" and "cb_consecutive_failures b = 0"
    and "1 \<le> cc_failure_threshold (cb_config b)" and "int (length cs) \<le> i32_max"
  shows "let b' = fold record_failure cs b in
           cb_state b' = (if cc_failure_threshold (cb_config b) \<le> int (length cs) then Open else Closed) \<and>
           sint (cb_consecutive_failures b') = int (length cs)"
  using fold_failures [of b 0 cs] assms by (simp add: Let_def)

theorem trips_at_threshold_witness:
  "cb_state (fold record_failure [ex_at 5, ex_at 6] ex_cb) = Open"
  using trips_at_threshold [of ex_cb "[ex_at 5, ex_at 6]"]
  by (simp add: ex_cb_def cb_init_def Let_def)

text \<open>
  An open breaker with a positive timeout admits a request exactly when the raw
  difference between the clock and the last failure has reached the timeout; a refused
  request changes nothing.  The difference is not clamped in the statement: the
  \<^verbatim>\<open>std::max(0, ...)\<close> of the code, meant to keep a backward clock jump from locking the
  breaker open, has no effect.  The admitted request is a probe: its success closes the
  breaker with its counters cleared, its failure opens it again from that moment.
\<close>

theorem open_until_timeout:
  assumes "cb_state b = Open" and "0 < cc_recovery_timeout_ms (cb_config b)"
  shows "(fst (allow_request c b) \<longleftrightarrow>
            cc_recovery_timeout_ms (cb_config b) \<le> cb_now_ms b c - cb_last_failure_time_ms b) \<and>
         (\<not> fst (allow_request c b) \<longrightarrow> snd (allow_request c b) = b) \<and>
         (fst (allow_request c b) \<longrightarrow>
            (let b1 = snd (allow_request c b); s = record_success b1; f = record_failure d b1 in
             cb_state b1 = HalfOpen \<and>
             cb_state s = Closed \<and> cb_consecutive_failures s = 0 \<and> cb_half_open_attempts s = 0 \<and>
             cb_state f = Open \<and> cb_last_failure_time_ms f = cb_now_ms b d))"
  using assms
  by (auto simp: allow_request_def cb_elapsed_def cb_now_ms_def record_success_def
      record_failure_def Let_def)

theorem open_until_timeout_witness:
  "let b = fold record_failure [ex_at 5000, ex_at 6000] ex_cb in
     \<not> fst (allow_request (ex_at 2000) b) \<and> \<not> fst (allow_request (ex_at 6999) b) \<and>
     fst (allow_request (ex_at 7000) b)"
proof -
  let ?b = "fold record_failure [ex_at 5000, ex_at 6000] ex_cb"
  have b: "cb_state ?b = Open" "cc_recovery_timeout_ms (cb_config ?b) = 1000"
    "cb_last_failure_time_ms ?b = 6000" "cb_has_clock ?b"
    by (simp_all add: record_failure_def ex_cb_def cb_init_def cb_now_ms_def Let_def)
  show ?thesis
    using open_until_timeout [of ?b "ex_at 2000" "ex_at 0"]
      open_until_timeout [of ?b "ex_at 6999" "ex_at 0"]
      open_until_timeout [of ?b "ex_at 7000" "ex_at 0"] b by (simp add: cb_now_ms_def)
qed

text \<open>
  A lone caller of a breaker whose timeout has passed gets exactly
  \<open>half_open_max_attempts\<close> admissions; every later request is refused and the breaker stays
  half-open, at whatever time the requests come.  Only a recorded outcome or a reset leaves
  this state: a probe that never reports (its operation throws) blocks the breaker for good.
\<close>

theorem half_open_quota:
  assumes "cb_state b = Open" and "fst (allow_request c b)"
    and "1 \<le> cc_half_open_max_attempts (cb_config b)" and "int (length cs) < i32_max"
  shows "fst (allow_run (c # cs) b) =
           map (\<lambda>i. int i < cc_half_open_max_attempts (cb_config b)) [0 ..< Suc (length cs)] \<and>
         cb_state (snd (allow_run (c # cs) b)) = HalfOpen"
proof -
  let ?b = "snd (allow_request c b)"
  have "cb_state ?b = HalfOpen" "sint (cb_half_open_attempts ?b) = int 1"
    using assms(1,2) by (auto simp: allow_request_def split: if_splits)
  from half_open_run [OF this, of cs] assms show ?thesis
    by (simp add: case_prod_unfold upt_conv_Cons del: upt_Suc)
qed

theorem half_open_quota_witness:
  "fst (allow_run [ex_at 7000, ex_at 7001, ex_at 99999]
          (fold record_failure [ex_at 5000, ex_at 6000] ex_cb)) = [True, False, False]"
proof -
  let ?b = "fold record_failure [ex_at 5000, ex_at 6000] ex_cb"
  have "cb_state ?b = Open" "fst (allow_request (ex_at 7000) ?b)"
    "cc_half_open_max_attempts (cb_config ?b) = 1"
    by (simp_all add: record_failure_def ex_cb_def cb_init_def cb_now_ms_def Let_def
        allow_request_def cb_elapsed_def)
  then show ?thesis
    using half_open_quota [of ?b "ex_at 7000" "[ex_at 7001, ex_at 99999]"]
    by (simp add: upt_rec numeral_2_eq_2)
qed

text \<open>
  The atomic steps compose to the methods: a thread that runs alone through
  \<^verbatim>\<open>allow_request\<close>, \<^verbatim>\<open>record_success\<close> or \<^verbatim>\<open>record_failure\<close> returns and leaves what
  the method as a whole does.
\<close>

theorem alone_refines_methods:
  "cb_alone 4 c AStart b = (Returned (fst (allow_request c b)), snd (allow_request c b)) \<and>
   cb_alone 4 c SStart b = (Done, record_success b) \<and>
   cb_alone 4 c FStart b = (Done, record_failure c b)"
proof -
  have 4: "(4 :: nat) = Suc (Suc (Suc (Suc 0)))" by simp
  show ?thesis
    unfolding 4
    by (cases "cb_state b")
      (auto simp: allow_request_def probe_def record_success_def record_failure_def Let_def
        cb_elapsed_def cb_now_ms_def)
qed

text \<open>
  C39. Any number of threads calling \<^verbatim>\<open>allow_request\<close> on an open breaker, under any
  interleaving of their atomic steps and any clock readings, are admitted at most
  \<open>2 * half_open_max_attempts\<close> times before an outcome is recorded.
\<close>

theorem concurrent_probe_bound:
  assumes "cb_state b = Open" and "1 \<le> cc_half_open_max_attempts (cb_config b)"
    and "0 \<le> sint (cb_half_open_attempts b)"
    and "max 1 (sint (cb_half_open_attempts b)) + int (length sch) \<le> i32_max"
    and "set pcs \<subseteq> {AStart}"
  shows "int (admitted (fst (cb_sched sch pcs b))) \<le> 2 * cc_half_open_max_attempts (cb_config b)"
  using phase_inv_sched [OF phase_inv_start [OF assms(1-3,5)] assms(4)] assms(2)
  by (auto simp: phase_inv_def phase_ok_def)

theorem concurrent_probe_bound_witness:
  "int (admitted (fst (cb_sched (map (\<lambda>t. (t, ex_at 7000)) [0,1,2,0,1,2,0,1,2,0,1,2]) [AStart, AStart, AStart]
      (fold record_failure [ex_at 5000, ex_at 6000] ex_cb)))) \<le> 2"
proof -
  let ?b = "fold record_failure [ex_at 5000, ex_at 6000] ex_cb"
  have b: "cb_state ?b = Open" "cc_half_open_max_attempts (cb_config ?b) = 1"
    "cb_half_open_attempts ?b = 0"
    by (simp_all add: record_failure_def ex_cb_def cb_init_def cb_now_ms_def Let_def)
  show ?thesis
    using concurrent_probe_bound [of ?b "map (\<lambda>t. (t, ex_at 7000)) [0,1,2,0,1,2,0,1,2,0,1,2]"
        "[AStart, AStart, AStart]"] b by simp
qed

text \<open>
  That bound is reached: with one probe allowed, there is a schedule of two threads in
  which both are admitted.  The second thread counts itself between the winner's exchange
  and the winner's store of 1, and the store erases its count.
\<close>

theorem half_open_race:
  "\<exists>sch. length sch = 6 \<and>
     admitted (fst (cb_sched sch [AStart, AStart]
       (fold record_failure [ex_at 5000, ex_at 6000] ex_cb))) = 2 \<and>
     cc_half_open_max_attempts (cb_config ex_cb) = 1"
  by (rule exI [of _ "[(0, ex_at 7000), (0, ex_at 7000), (0, ex_at 7000), (1, ex_at 7000),
        (1, ex_at 7000), (0, ex_at 7000)]"])
    (simp add: record_failure_def ex_cb_def cb_init_def cb_now_ms_def cb_elapsed_def Let_def
      probe_def admitted_def)

end
