(* ===== verification/Retry_Executor.thy ===== *)
theory Retry_Executor
  imports Circuit_Breaker
begin

text \<open>
  \<^verbatim>\<open>RetryExecutor\<close> (\<^verbatim>\<open>src/src/resilience/retry_executor.{hpp,cpp}\<close>): the retry loop
  around a remote call, with the circuit breaker in front of every attempt, the
  classification of errors and the jittered exponential delay.

  What the loop does not own is a parameter: the operation, the clock, the sleep and the
  random draw act on an environment of any type (\<open>retry_env\<close>), and \<open>json_code\<close> is
  \<^verbatim>\<open>boost::json\<close>'s reading of the string field \<^verbatim>\<open>code\<close> of a body (\<open>None\<close> where
  parsing or the access throws).  Logs and metrics are not modelled.
\<close>

section \<open>Data\<close>

record retry_config =
  rc_max_retries :: int
  rc_base_delay_ms :: int
  rc_max_delay_ms :: int
  rc_jitter_factor :: double
  rc_rate_limit_backoff_multiplier :: int

definition default_retry_config :: retry_config where
  "default_retry_config =
    \<lparr>rc_max_retries = 3, rc_base_delay_ms = 100, rc_max_delay_ms = 5000,
     rc_jitter_factor = lit (1 / 2), rc_rate_limit_backoff_multiplier = 3\<rparr>"

datatype error_classification = Transient | RateLimit | Permanent | AuthFailure | Unknown

fun error_classification_to_string :: "error_classification \<Rightarrow> string" where
  "error_classification_to_string Transient = ''Transient''"
| "error_classification_to_string RateLimit = ''RateLimit''"
| "error_classification_to_string Permanent = ''Permanent''"
| "error_classification_to_string AuthFailure = ''AuthFailure''"
| "error_classification_to_string Unknown = ''Unknown''"

record execution_attempt =
  ea_attempt_number :: int
  ea_success :: bool
  ea_http_status :: int
  ea_error_message :: string
  ea_latency_ms :: int
  ea_error_class :: error_classification

record simple_response =
  sr_success :: bool
  sr_code :: int
  sr_msg :: string

definition default_simple_response :: simple_response where
  "default_simple_response = \<lparr>sr_success = False, sr_code = 0, sr_msg = []\<rparr>"

text \<open>
  The \<^verbatim>\<open>detail\<close> traits pick, at compile time, the fields a response type has; a type is
  described by the three accessors they choose and its default value.
\<close>

record 'r response_view =
  rv_status :: "'r \<Rightarrow> int option"
  rv_message :: "'r \<Rightarrow> string option"
  rv_success :: "'r \<Rightarrow> bool option"
  rv_default :: 'r

definition extract_status :: "'r response_view \<Rightarrow> 'r \<Rightarrow> int" where
  "extract_status v r = (case rv_status v r of Some s \<Rightarrow> s | None \<Rightarrow> 0)"

definition extract_message :: "'r response_view \<Rightarrow> 'r \<Rightarrow> string" where
  "extract_message v r = (case rv_message v r of Some m \<Rightarrow> m | None \<Rightarrow> [])"

definition is_success :: "'r response_view \<Rightarrow> 'r \<Rightarrow> bool" where
  "is_success v r =
    (case rv_success v r of
       Some b \<Rightarrow> b
     | None \<Rightarrow> 200 \<le> extract_status v r \<and> extract_status v r < 300)"

definition simple_view :: "simple_response response_view" where
  "simple_view = \<lparr>rv_status = Some \<circ> sr_code, rv_message = Some \<circ> sr_msg,
                  rv_success = Some \<circ> sr_success, rv_default = default_simple_response\<rparr>"

record ('e, 'r) retry_env =
  env_clock :: "'e \<Rightarrow> clk"
  env_operation :: "'e \<Rightarrow> 'r \<times> 'e"
  env_draw :: "double \<Rightarrow> 'e \<Rightarrow> double \<times> 'e"
  env_sleep :: "int \<Rightarrow> 'e \<Rightarrow> 'e"

section \<open>Classification and delay\<close>

definition classify_error :: "(string \<Rightarrow> string option) \<Rightarrow> int \<Rightarrow> string \<Rightarrow> error_classification" where
  "classify_error json_code http_status body =
    (let code = (if body = [] then None else json_code body)
     in if code = Some ''43011'' then RateLimit
        else if code \<in> {Some ''40014'', Some ''40016'', Some ''40017''} then AuthFailure
        else if http_status = 0 then Transient
        else if http_status = 429 then RateLimit
        else if http_status = 401 \<or> http_status = 403 then AuthFailure
        else if 500 \<le> http_status then Transient
        else if 400 \<le> http_status then Permanent
        else Unknown)"

text \<open>
  \<^verbatim>\<open>std::pow(2.0, n)\<close> is exact while it is finite and overflows to infinity;
  \<^verbatim>\<open>static_cast<int64_t>\<close> truncates a finite value.
\<close>

definition cast_int64 :: "double \<Rightarrow> int" where
  "cast_int64 d = (if 0 \<le> rval d then \<lfloor>rval d\<rfloor> else \<lceil>rval d\<rceil>)"

definition compute_delay :: "retry_config \<Rightarrow> int \<Rightarrow> double \<Rightarrow> int" where
  "compute_delay cfg attempt drawn =
    (let raw_delay = dint (rc_base_delay_ms cfg) * lit (2 ^ nat attempt);
         jitter = raw_delay * drawn;
         total = raw_delay + jitter
     in cast_int64 (std_min total (dint (rc_max_delay_ms cfg))))"

section \<open>The retry loop\<close>

record ('e, 'r) retry_run =
  rr_response :: 'r
  rr_attempts :: "execution_attempt list"
  rr_breaker :: circuit_breaker
  rr_env :: 'e

definition rejected_attempt :: "int \<Rightarrow> execution_attempt" where
  "rejected_attempt attempt =
    \<lparr>ea_attempt_number = attempt, ea_success = False, ea_http_status = 0,
     ea_error_message = ''Circuit breaker open'', ea_latency_ms = 0, ea_error_class = Transient\<rparr>"

text \<open>
  One pass of the loop is one unfolding; it ends because the distance to
  \<open>max_retries\<close> shrinks.
\<close>

function execute_loop ::
  "(string \<Rightarrow> string option) \<Rightarrow> retry_config \<Rightarrow> 'r response_view \<Rightarrow> ('e, 'r) retry_env \<Rightarrow>
   int \<Rightarrow> ('e, 'r) retry_run \<Rightarrow> ('e, 'r) retry_run" where
  "execute_loop json cfg v env attempt s =
    (if attempt > rc_max_retries cfg then s
     else
       let (allowed, b1) = allow_request (env_clock env (rr_env s)) (rr_breaker s)
       in if \<not> allowed
          then s\<lparr>rr_breaker := b1, rr_attempts := rr_attempts s @ [rejected_attempt attempt]\<rparr>
          else
            let start_ts = now (env_clock env (rr_env s));
                (r, e1) = env_operation env (rr_env s);
                latency = (now (env_clock env e1) - start_ts) sdiv 1000000;
                status = extract_status v r;
                msg = extract_message v r;
                ok = is_success v r;
                ec = (if ok then Unknown else classify_error json status msg);
                ea = \<lparr>ea_attempt_number = attempt, ea_success = ok, ea_http_status = status,
                      ea_error_message = msg, ea_latency_ms = latency, ea_error_class = ec\<rparr>;
                s1 = \<lparr>rr_response = r, rr_attempts = rr_attempts s @ [ea],
                      rr_breaker = b1, rr_env = e1\<rparr>
            in if ok then s1\<lparr>rr_breaker := record_success b1\<rparr>
               else
                 let s2 = s1\<lparr>rr_breaker := record_failure (env_clock env e1) b1\<rparr>
                 in if ec = Permanent \<or> ec = AuthFailure then s2
                    else if attempt = rc_max_retries cfg then s2
                    else
                      let (d, e2) = env_draw env (rc_jitter_factor cfg) e1;
                          delay = compute_delay cfg attempt d;
                          delay' = (if ec = RateLimit
                                    then delay * rc_rate_limit_backoff_multiplier cfg else delay)
                      in execute_loop json cfg v env (attempt + 1)
                           (s2\<lparr>rr_env := env_sleep env delay' e2\<rparr>))"
  by pat_completeness auto

termination
  by (relation "measure (\<lambda>(_, cfg, _, _, attempt, _). nat (rc_max_retries cfg + 1 - attempt))") auto

declare execute_loop.simps [simp del]

definition execute ::
  "(string \<Rightarrow> string option) \<Rightarrow> retry_config \<Rightarrow> 'r response_view \<Rightarrow> ('e, 'r) retry_env \<Rightarrow>
   circuit_breaker \<Rightarrow> 'e \<Rightarrow> ('e, 'r) retry_run" where
  "execute json cfg v env b e =
    execute_loop json cfg v env 0
      \<lparr>rr_response = rv_default v, rr_attempts = [], rr_breaker = b, rr_env = e\<rparr>"

definition execute_simple ::
  "(string \<Rightarrow> string option) \<Rightarrow> retry_config \<Rightarrow> ('e, int \<times> string) retry_env \<Rightarrow>
   circuit_breaker \<Rightarrow> 'e \<Rightarrow> (int \<times> string) \<times> ('e, simple_response) retry_run" where
  "execute_simple json cfg env b e =
    (let op = (\<lambda>e. let ((status, body), e') = env_operation env e
                   in (\<lparr>sr_success = 200 \<le> status \<and> status < 300, sr_code = status, sr_msg = body\<rparr>, e'));
         result = execute json cfg simple_view
                    \<lparr>env_clock = env_clock env, env_operation = op, env_draw = env_draw env,
                     env_sleep = env_sleep env\<rparr> b e
     in ((sr_code (rr_response result), sr_msg (rr_response result)), result))"

section \<open>What one run records\<close>

definition retryable :: "execution_attempt \<Rightarrow> bool" where
  "retryable ea \<longleftrightarrow> \<not> ea_success ea \<and> ea_error_class ea \<noteq> Permanent \<and> ea_error_class ea \<noteq> AuthFailure"

text \<open>
  The shape of the attempts \<open>new\<close> that a run from attempt \<open>a\<close> adds when it calls the
  operation \<open>n\<close> times: consecutively numbered; only a retryable failure is followed by
  another attempt; there is one record per call and at most one more, for a refusal of the
  breaker; a run that ends with an executed, retryable failure has used every attempt.
\<close>

definition attempts_ok :: "retry_config \<Rightarrow> int \<Rightarrow> nat \<Rightarrow> execution_attempt list \<Rightarrow> bool" where
  "attempts_ok cfg a n new \<longleftrightarrow>
    map ea_attempt_number new = map (\<lambda>i. a + int i) [0 ..< length new] \<and>
    int (length new) \<le> max 0 (rc_max_retries cfg + 1 - a) \<and>
    (\<forall>ea \<in> set (butlast new). retryable ea) \<and>
    n \<le> length new \<and> length new \<le> Suc n \<and>
    (n < length new \<longrightarrow> last new = rejected_attempt (a + int n)) \<and>
    (a \<le> rc_max_retries cfg \<longrightarrow> new \<noteq> [] \<and>
       (n = length new \<and> retryable (last new) \<longrightarrow> int (length new) = rc_max_retries cfg + 1 - a))"

lemma attempts_ok_Nil: "rc_max_retries cfg < a \<Longrightarrow> attempts_ok cfg a 0 []"
  by (simp add: attempts_ok_def)

lemma attempts_ok_rejected: "a \<le> rc_max_retries cfg \<Longrightarrow> attempts_ok cfg a 0 [rejected_attempt a]"
  by (simp add: attempts_ok_def rejected_attempt_def)

lemma attempts_ok_single:
  assumes "ea_attempt_number ea = a" and "a \<le> rc_max_retries cfg"
    and "retryable ea \<Longrightarrow> a = rc_max_retries cfg"
  shows "attempts_ok cfg a 1 [ea]"
  using assms by (auto simp: attempts_ok_def)

lemma attempts_ok_Cons:
  assumes "ea_attempt_number ea = a" and "a < rc_max_retries cfg"
    and "retryable ea" and "attempts_ok cfg (a + 1) n new"
  shows "attempts_ok cfg a (Suc n) (ea # new)"
proof -
  have "new \<noteq> []" using assms(2,4) by (auto simp: attempts_ok_def)
  moreover have "map (\<lambda>i. a + int i) [0 ..< Suc (length new)] =
      a # map (\<lambda>i. a + 1 + int i) [0 ..< length new]"
    by (simp add: upt_conv_Cons map_Suc_upt [symmetric] comp_def add.assoc del: upt_Suc)
  ultimately show ?thesis using assms by (auto simp: attempts_ok_def add.assoc simp del: upt_Suc)
qed

text \<open>\<open>heard\<close> is the list of the operation's responses so far, which the environment carries.\<close>

definition logs_responses :: "('e \<Rightarrow> 'r list) \<Rightarrow> ('e, 'r) retry_env \<Rightarrow> bool" where
  "logs_responses heard env \<longleftrightarrow>
    (\<forall>e. heard (snd (env_operation env e)) = heard e @ [fst (env_operation env e)]) \<and>
    (\<forall>j e. heard (snd (env_draw env j e)) = heard e) \<and>
    (\<forall>d e. heard (env_sleep env d e) = heard e)"

text \<open>An attempt records a response.\<close>

definition records_response ::
  "(string \<Rightarrow> string option) \<Rightarrow> 'r response_view \<Rightarrow> execution_attempt \<Rightarrow> 'r \<Rightarrow> bool" where
  "records_response json v ea r \<longleftrightarrow>
    ea_success ea = is_success v r \<and> ea_http_status ea = extract_status v r \<and>
    ea_error_message ea = extract_message v r \<and>
    ea_error_class ea =
      (if is_success v r then Unknown else classify_error json (extract_status v r) (extract_message v r))"

text \<open>The record of an executed attempt, and the three ways one pass of the loop can go.\<close>

definition attempt_of ::
  "(string \<Rightarrow> string option) \<Rightarrow> 'r response_view \<Rightarrow> ('e, 'r) retry_env \<Rightarrow> int \<Rightarrow> 'e \<Rightarrow> execution_attempt" where
  "attempt_of json v env a e =
    (let (r, e1) = env_operation env e; ok = is_success v r
     in \<lparr>ea_attempt_number = a, ea_success = ok, ea_http_status = extract_status v r,
         ea_error_message = extract_message v r,
         ea_latency_ms = (now (env_clock env e1) - now (env_clock env e)) sdiv 1000000,
         ea_error_class = (if ok then Unknown
                           else classify_error json (extract_status v r) (extract_message v r))\<rparr>)"

lemma attempt_of_sel [simp]:
  "ea_attempt_number (attempt_of json v env a e) = a"
  "ea_success (attempt_of json v env a e) = is_success v (fst (env_operation env e))"
  by (simp_all add: attempt_of_def case_prod_unfold Let_def)

lemma attempt_of_records: "records_response json v (attempt_of json v env a e) (fst (env_operation env e))"
  by (simp add: attempt_of_def records_response_def case_prod_unfold Let_def)

lemma execute_loop_refused:
  assumes "a \<le> rc_max_retries cfg" and "allow_request (env_clock env (rr_env s)) (rr_breaker s) = (False, b)"
  shows "execute_loop json cfg v env a s =
    s\<lparr>rr_breaker := b, rr_attempts := rr_attempts s @ [rejected_attempt a]\<rparr>"
  using assms by (subst execute_loop.simps) simp

lemma execute_loop_stop:
  assumes "a \<le> rc_max_retries cfg" and "fst (allow_request (env_clock env (rr_env s)) (rr_breaker s))"
    and "\<not> (retryable (attempt_of json v env a (rr_env s)) \<and> a < rc_max_retries cfg)"
  shows "\<exists>b. execute_loop json cfg v env a s =
    \<lparr>rr_response = fst (env_operation env (rr_env s)),
     rr_attempts = rr_attempts s @ [attempt_of json v env a (rr_env s)], rr_breaker = b,
     rr_env = snd (env_operation env (rr_env s))\<rparr>"
  using assms
  by (subst execute_loop.simps) (auto simp: retryable_def attempt_of_def Let_def case_prod_unfold)

lemma execute_loop_retry:
  assumes "fst (allow_request (env_clock env (rr_env s)) (rr_breaker s))"
    and "retryable (attempt_of json v env a (rr_env s))" and "a < rc_max_retries cfg"
  shows "\<exists>b d. execute_loop json cfg v env a s = execute_loop json cfg v env (a + 1)
    \<lparr>rr_response = fst (env_operation env (rr_env s)),
     rr_attempts = rr_attempts s @ [attempt_of json v env a (rr_env s)], rr_breaker = b,
     rr_env = env_sleep env d (snd (env_draw env (rc_jitter_factor cfg)
                (snd (env_operation env (rr_env s)))))\<rparr>"
  using assms
  by (subst execute_loop.simps) (auto simp: retryable_def attempt_of_def Let_def case_prod_unfold)

lemma execute_loop_attempts:
  assumes c: "logs_responses heard env"
  shows "\<exists>rs new. let t = execute_loop json cfg v env a s in
           rr_attempts t = rr_attempts s @ new \<and> attempts_ok cfg a (length rs) new \<and>
           heard (rr_env t) = heard (rr_env s) @ rs \<and>
           list_all2 (records_response json v) (take (length rs) new) rs \<and>
           rr_response t = (if rs = [] then rr_response s else last rs) \<and>
           (rs = [] \<longrightarrow> rr_env t = rr_env s)"
proof (induction "nat (rc_max_retries cfg + 1 - a)" arbitrary: a s)
  case 0
  then have "rc_max_retries cfg < a" by simp
  then show ?case by (subst execute_loop.simps) (auto intro!: exI [of _ "[]"] attempts_ok_Nil)
next
  case (Suc m)
  then have le: "a \<le> rc_max_retries cfg" by simp
  let ?ea = "attempt_of json v env a (rr_env s)" and ?al = "allow_request (env_clock env (rr_env s)) (rr_breaker s)"
  let ?r = "fst (env_operation env (rr_env s))"
  have log1: "heard (snd (env_operation env (rr_env s))) = heard (rr_env s) @ [?r]"
    using c by (simp add: logs_responses_def)
  consider (refused) b where "?al = (False, b)"
    | (stop) "fst ?al" "\<not> (retryable ?ea \<and> a < rc_max_retries cfg)"
    | (retry) "fst ?al" "retryable ?ea" "a < rc_max_retries cfg" by (metis fst_conv prod.collapse)
  then show ?case
  proof cases
    case refused
    then show ?thesis
      using le attempts_ok_rejected [OF le]
      by (intro exI [of _ "[]"] exI [of _ "[rejected_attempt a]"]) (simp add: execute_loop_refused)
  next
    case stop
    then have "attempts_ok cfg a 1 [?ea]" using le by (intro attempts_ok_single) auto
    moreover obtain b where "execute_loop json cfg v env a s =
        \<lparr>rr_response = ?r, rr_attempts = rr_attempts s @ [?ea], rr_breaker = b,
         rr_env = snd (env_operation env (rr_env s))\<rparr>"
      using execute_loop_stop [OF le stop] by blast
    ultimately show ?thesis using log1 attempt_of_records
      by (intro exI [of _ "[?r]"] exI [of _ "[?ea]"]) simp
  next
    case retry
    from execute_loop_retry [OF this] c log1 obtain s'
      where s': "execute_loop json cfg v env a s = execute_loop json cfg v env (a + 1) s'"
        "rr_attempts s' = rr_attempts s @ [?ea]" "heard (rr_env s') = heard (rr_env s) @ [?r]" "rr_response s' = ?r"
      by (auto simp: logs_responses_def)
    have "m = nat (rc_max_retries cfg + 1 - (a + 1))" using Suc.hyps(2) by simp
    from Suc.hyps(1) [OF this, of s'] obtain rs new where
      n: "rr_attempts (execute_loop json cfg v env (a + 1) s') = rr_attempts s' @ new"
      "attempts_ok cfg (a + 1) (length rs) new"
      "heard (rr_env (execute_loop json cfg v env (a + 1) s')) = heard (rr_env s') @ rs"
      "list_all2 (records_response json v) (take (length rs) new) rs"
      "rr_response (execute_loop json cfg v env (a + 1) s') = (if rs = [] then rr_response s' else last rs)"
      by (auto simp: Let_def)
    then have "attempts_ok cfg a (Suc (length rs)) (?ea # new)"
      using retry by (intro attempts_ok_Cons) auto
    with n s' show ?thesis using attempt_of_records
      by (intro exI [of _ "?r # rs"] exI [of _ "?ea # new"]) (simp add: Let_def)
  qed
qed

section \<open>Properties\<close>

record ex_env =
  xe_now :: int
  xe_log :: "(int \<times> string) list"
  xe_status :: "int list"

definition ex_retry_env :: "(ex_env, int \<times> string) retry_env" where
  "ex_retry_env =
    \<lparr>env_clock = (\<lambda>e. \<lparr>now = xe_now e, wall = xe_now e, steady = xe_now e\<rparr>),
     env_operation = (\<lambda>e. let r = (case xe_status e of [] \<Rightarrow> 200 | x # _ \<Rightarrow> x, [])
                           in (r, e\<lparr>xe_log := xe_log e @ [r], xe_status := tl (xe_status e)\<rparr>)),
     env_draw = (\<lambda>j e. (0, e)),
     env_sleep = (\<lambda>ms e. e\<lparr>xe_now := xe_now e + ms * 1000000\<rparr>)\<rparr>"

definition pair_view :: "(int \<times> string) response_view" where
  "pair_view = \<lparr>rv_status = Some \<circ> fst, rv_message = Some \<circ> snd, rv_success = (\<lambda>_. None),
                rv_default = (0, [])\<rparr>"

lemma ex_retry_env_logs: "logs_responses xe_log ex_retry_env"
  by (simp add: logs_responses_def ex_retry_env_def Let_def)

text \<open>
  C40. A run of \<^verbatim>\<open>execute\<close> calls the operation at most \<open>max_retries + 1\<close> times and returns the
  response of its last call, or the default response, with the world untouched, when it made none.  Its
  attempts are numbered consecutively from 0 and record the responses one by one, with their success, status,
  message and class of error; it goes on only after a retryable failure (never after a success, a
  permanent error or an authentication error), and gives up on a retryable failure only when every attempt
  has been used or the breaker refuses.
\<close>

theorem execute_attempts:
  assumes "logs_responses heard env"
  shows "\<exists>rs. let t = execute json cfg v env b e; as = rr_attempts t in
           heard (rr_env t) = heard e @ rs \<and> int (length rs) \<le> max 0 (rc_max_retries cfg + 1) \<and>
           rr_response t = (if rs = [] then rv_default v else last rs) \<and> (rs = [] \<longrightarrow> rr_env t = e) \<and>
           list_all2 (records_response json v) (take (length rs) as) rs \<and>
           attempts_ok cfg 0 (length rs) as"
proof -
  let ?s = "\<lparr>rr_response = rv_default v, rr_attempts = [], rr_breaker = b, rr_env = e\<rparr>"
  from execute_loop_attempts [OF assms, of json cfg v 0 ?s] obtain rs where
    "let t = execute json cfg v env b e in
       attempts_ok cfg 0 (length rs) (rr_attempts t) \<and> heard (rr_env t) = heard e @ rs \<and>
       list_all2 (records_response json v) (take (length rs) (rr_attempts t)) rs \<and>
       rr_response t = (if rs = [] then rv_default v else last rs) \<and> (rs = [] \<longrightarrow> rr_env t = e)"
    by (auto simp: execute_def Let_def)
  then show ?thesis by (intro exI [of _ rs]) (auto simp: Let_def attempts_ok_def)
qed

theorem execute_attempts_witness:
  "\<exists>rs. let t = execute (\<lambda>_. None) default_retry_config pair_view ex_retry_env ex_cb
               \<lparr>xe_now = 0, xe_log = [], xe_status = [503, 429, 200]\<rparr> in
         xe_log (rr_env t) = rs \<and> length rs \<le> 4 \<and> rr_response t = (if rs = [] then (0, []) else last rs)"
proof -
  have "rc_max_retries default_retry_config + 1 = 4" "rv_default pair_view = (0, [])"
    by (simp_all add: default_retry_config_def pair_view_def)
  with execute_attempts [OF ex_retry_env_logs, of "\<lambda>_. None" default_retry_config pair_view ex_cb
      "\<lparr>xe_now = 0, xe_log = [], xe_status = [503, 429, 200]\<rparr>"]
  show ?thesis by (auto simp: Let_def)
qed

lemma mk_scaled_int:
  assumes "\<bar>m\<bar> < 2 ^ 53" and "n \<le> 900"
  shows "mk (of_int m * 2 ^ n) = Fin (of_int m * 2 ^ n)"
proof (rule mk_repr53)
  show "repr53 (of_int m * 2 ^ n)"
    using repr53I [of m "int n"] assms(1) by (simp add: power_int_def)
  have "\<bar>of_int m * 2 ^ n\<bar> = \<bar>of_int m\<bar> * (2 :: real) ^ n" by (simp add: abs_mult)
  also have "\<dots> \<le> 2 ^ 53 * 2 ^ 900"
  proof (intro mult_mono power_increasing)
    have "real_of_int \<bar>m\<bar> \<le> real_of_int (2 ^ 53)" using assms(1) by (subst of_int_le_iff) simp
    then show "\<bar>real_of_int m\<bar> \<le> 2 ^ 53" by simp
  qed (use assms in auto)
  also have "\<dots> = (2 :: real) ^ 953" by (simp flip: power_add)
  also have "\<dots> < 2 ^ 1024" by (rule power_strict_increasing) auto
  finally show "\<bar>of_int m * 2 ^ n :: real\<bar> < 2 ^ 1024" .
qed

lemma add_nonneg_ge:
  assumes "0 \<le> y" and "mk x = Fin x"
  shows "Fin x \<le> Fin x + y"
proof (cases y)
  case (Fin v)
  with assms have "mk x \<le> mk (x + v)" by (intro mk_mono) (simp add: zero_double_def)
  with Fin assms show ?thesis by simp
qed (use assms in \<open>auto simp: zero_double_def\<close>)

text \<open>
  The delay before retry \<open>attempt + 1\<close> backs off exponentially and is capped: whatever
  non-negative jitter is drawn, it lies between \<open>min (base * 2 ^ attempt) max_delay\<close> and
  \<open>max_delay\<close>, rounding included.
\<close>

theorem compute_delay_bounds:
  assumes "0 \<le> rc_base_delay_ms cfg" "rc_base_delay_ms cfg < 2 ^ 53"
    and "0 \<le> rc_max_delay_ms cfg" "rc_max_delay_ms cfg < 2 ^ 53"
    and "0 \<le> attempt" "attempt \<le> 900" and "isfinite drawn" "0 \<le> drawn"
  shows "min (rc_base_delay_ms cfg * 2 ^ nat attempt) (rc_max_delay_ms cfg)
           \<le> compute_delay cfg attempt drawn \<and>
         compute_delay cfg attempt drawn \<le> rc_max_delay_ms cfg"
proof -
  let ?B = "rc_base_delay_ms cfg" and ?M = "rc_max_delay_ms cfg" and ?n = "nat attempt"
  let ?R = "real_of_int (?B * 2 ^ ?n)"
  have "dint ?B = Fin (of_int ?B)" "dint ?M = Fin (of_int ?M)" "lit (2 ^ ?n) = Fin (2 ^ ?n)"
    and R: "mk ?R = Fin ?R"
    using assms mk_scaled_int [of 1 ?n] mk_scaled_int [of ?B ?n] by (auto intro!: mk_of_int)
  then have raw: "dint ?B * lit (2 ^ ?n) = Fin ?R" and M: "dint ?M = Fin (of_int ?M)" by simp_all
  have "0 \<le> Fin ?R * drawn"
    using assms by (intro double_mult_nonneg) (auto simp: zero_double_def)
  from add_nonneg_ge [OF this R] have le: "Fin ?R \<le> Fin ?R + Fin ?R * drawn" (is "_ \<le> ?t") .
  have delay: "compute_delay cfg attempt drawn = cast_int64 (std_min ?t (Fin (of_int ?M)))"
    by (simp add: compute_delay_def Let_def raw M)
  show ?thesis
  proof (cases "Fin (of_int ?M) < ?t")
    case True
    then show ?thesis using assms(3) by (simp add: delay std_min_def cast_int64_def)
  next
    case False
    with le obtain t where t: "?t = Fin t" "?R \<le> t" "t \<le> of_int ?M"
      by (cases ?t) auto
    have "0 \<le> t" using t(2) assms(1) by (meson mult_nonneg_nonneg of_int_0_le_iff order_trans
        zero_le_numeral zero_le_power)
    then have d: "compute_delay cfg attempt drawn = \<lfloor>t\<rfloor>"
      using t(1) False unfolding delay by (simp add: std_min_def cast_int64_def)
    have "real_of_int (min (?B * 2 ^ ?n) ?M) \<le> t"
      using t(2) by (metis min.cobounded1 of_int_le_iff order_trans)
    then have "min (?B * 2 ^ ?n) ?M \<le> \<lfloor>t\<rfloor>" by (simp only: le_floor_iff)
    moreover have "\<lfloor>t\<rfloor> \<le> ?M" using t(3) by linarith
    ultimately show ?thesis by (simp only: d)
  qed
qed

theorem compute_delay_bounds_witness:
  "200 \<le> compute_delay default_retry_config 1 (lit (1 / 4)) \<and>
   compute_delay default_retry_config 1 (lit (1 / 4)) \<le> 5000"
proof -
  obtain r where r: "lit (1 / 4) = Fin r" "0 \<le> r" using mk_small [of "1 / 4"] by auto
  then show ?thesis
    using compute_delay_bounds [of default_retry_config 1 "lit (1 / 4)"]
    by (simp add: default_retry_config_def zero_double_def)
qed

end
