(* ===== verification/Ring_Buffer.thy ===== *)
theory Ring_Buffer
  imports Common_Types
begin

text \<open>
  The market-data buffers of \<^verbatim>\<open>src/src/buffers\<close>: the fixed-size ring of
  \<^verbatim>\<open>ring_buffer.hpp\<close>, the trade tape of \<^verbatim>\<open>trade_buffer.hpp\<close> with its volume
  statistics, and the candle history of \<^verbatim>\<open>candle_buffer.hpp\<close>.  The array of the
  ring is a list whose length is the template parameter \<^verbatim>\<open>Capacity\<close>; a write through
  the reference that \<^verbatim>\<open>back()\<close> returns is \<open>rb_set_back\<close>.  The ring refines the list
  of the youngest elements, oldest first; the contract \<open>sliding_window\<close> states it for
  every structure of the program that keeps the last so many inputs.
\<close>

section \<open>The ring\<close>

record 'a ring_buffer =
  rb_data :: "'a list"
  rb_head :: nat
  rb_count :: nat

definition rb_init :: "nat \<Rightarrow> 'a \<Rightarrow> 'a ring_buffer" where
  "rb_init cap dflt = \<lparr> rb_data = replicate cap dflt, rb_head = 0, rb_count = 0 \<rparr>"

definition rb_capacity :: "'a ring_buffer \<Rightarrow> nat" where
  "rb_capacity b = length (rb_data b)"

definition rb_push :: "'a \<Rightarrow> 'a ring_buffer \<Rightarrow> 'a ring_buffer" where
  "rb_push v b = \<lparr> rb_data = (rb_data b)[rb_head b := v],
                   rb_head = (rb_head b + 1) mod rb_capacity b,
                   rb_count = (if rb_count b < rb_capacity b then rb_count b + 1 else rb_count b) \<rparr>"

definition rb_start_index :: "'a ring_buffer \<Rightarrow> nat" where
  "rb_start_index b = (if rb_count b < rb_capacity b then 0 else rb_head b)"

definition rb_actual :: "'a ring_buffer \<Rightarrow> nat \<Rightarrow> nat" where
  "rb_actual b idx = (rb_start_index b + idx) mod rb_capacity b"

definition rb_at :: "'a ring_buffer \<Rightarrow> nat \<Rightarrow> 'a" where
  "rb_at b idx = rb_data b ! rb_actual b idx"

text \<open>\<open>None\<close> is the \<^verbatim>\<open>std::out_of_range\<close> thrown on an empty buffer.\<close>

definition rb_back :: "'a ring_buffer \<Rightarrow> 'a option" where
  "rb_back b = (if rb_count b = 0 then None else Some (rb_at b (rb_count b - 1)))"

definition rb_front :: "'a ring_buffer \<Rightarrow> 'a option" where
  "rb_front b = (if rb_count b = 0 then None else Some (rb_at b 0))"

definition rb_set_back :: "'a \<Rightarrow> 'a ring_buffer \<Rightarrow> 'a ring_buffer" where
  "rb_set_back v b = b \<lparr> rb_data := (rb_data b)[rb_actual b (rb_count b - 1) := v] \<rparr>"

definition rb_size :: "'a ring_buffer \<Rightarrow> nat" where "rb_size b = rb_count b"

definition rb_empty :: "'a ring_buffer \<Rightarrow> bool" where "rb_empty b \<longleftrightarrow> rb_count b = 0"

definition rb_full :: "'a ring_buffer \<Rightarrow> bool" where "rb_full b \<longleftrightarrow> rb_count b = rb_capacity b"

definition rb_clear :: "'a ring_buffer \<Rightarrow> 'a ring_buffer" where
  "rb_clear b = b \<lparr> rb_head := 0, rb_count := 0 \<rparr>"

definition to_vector :: "nat \<Rightarrow> 'a ring_buffer \<Rightarrow> 'a list" where
  "to_vector n0 b =
    (let n = min n0 (rb_count b);
         start = (if n < rb_count b then rb_count b - n else 0)
     in map (rb_at b) [start..<rb_count b])"

definition extract_field :: "('a \<Rightarrow> double) \<Rightarrow> nat \<Rightarrow> 'a ring_buffer \<Rightarrow> double list" where
  "extract_field field n0 b =
    (let n = min n0 (rb_count b);
         start = (if n < rb_count b then rb_count b - n else 0)
     in map (\<lambda>i. field (rb_at b (start + i))) [0..<n])"

section \<open>The ring is a sliding window\<close>

text \<open>
  A structure that keeps the last inputs it was given: pushing appends to its contents
  and drops what exceeds the capacity, which no operation changes.
\<close>

locale sliding_window =
  fixes inv :: "'s \<Rightarrow> bool"
    and cap :: "'s \<Rightarrow> nat"
    and push :: "'v \<Rightarrow> 's \<Rightarrow> 's"
    and contents :: "'s \<Rightarrow> 'v list"
  assumes push_inv: "inv s \<Longrightarrow> inv (push v s)"
    and push_cap: "inv s \<Longrightarrow> cap (push v s) = cap s"
    and push_contents: "inv s \<Longrightarrow> contents (push v s) = keep_last (cap s) (contents s @ [v])"
    and contents_bounded: "inv s \<Longrightarrow> length (contents s) \<le> cap s"
begin

lemma run_inv: "inv s \<Longrightarrow> inv (fold push vs s) \<and> cap (fold push vs s) = cap s"
  by (induction vs arbitrary: s) (simp_all add: push_inv push_cap)

lemma run_contents: "inv s \<Longrightarrow> contents (fold push vs s) = keep_last (cap s) (contents s @ vs)"
proof (induction vs rule: rev_induct)
  case Nil
  then show ?case using contents_bounded by simp
next
  case (snoc v vs)
  let ?t = "fold push vs s"
  have "contents (push v ?t) = keep_last (cap s) (contents ?t @ [v])"
    using run_inv [OF snoc.prems] by (simp add: push_contents)
  also have "\<dots> = keep_last (cap s) ((contents s @ vs) @ [v])"
    using snoc by (simp only: keep_last_append)
  finally show ?case by simp
qed

lemma run_from_empty:
  assumes "inv s" and "contents s = []"
  shows "contents (fold push vs s) = keep_last (cap s) vs"
  using run_contents [OF assms(1)] assms(2) by simp

end

definition rb_list :: "'a ring_buffer \<Rightarrow> 'a list" where
  "rb_list b = map (rb_at b) [0..<rb_count b]"

definition rb_inv :: "'a ring_buffer \<Rightarrow> bool" where
  "rb_inv b \<longleftrightarrow> 0 < rb_capacity b \<and> rb_head b < rb_capacity b \<and> rb_count b \<le> rb_capacity b \<and>
              (rb_count b < rb_capacity b \<longrightarrow> rb_head b = rb_count b)"

lemma length_rb_list [simp]: "length (rb_list b) = rb_count b"
  by (simp add: rb_list_def)

lemma rb_capacity_simps [simp]:
  "rb_capacity (rb_push v b) = rb_capacity b"
  "rb_capacity (rb_init cap d) = cap"
  "rb_capacity (rb_clear b) = rb_capacity b"
  "rb_capacity (rb_set_back v b) = rb_capacity b"
  by (simp_all add: rb_capacity_def rb_push_def rb_init_def rb_clear_def rb_set_back_def)

lemma rb_push_sel [simp]:
  "rb_data (rb_push v b) = (rb_data b)[rb_head b := v]"
  "rb_head (rb_push v b) = Suc (rb_head b) mod rb_capacity b"
  "rb_count (rb_push v b) = (if rb_count b < rb_capacity b then Suc (rb_count b) else rb_count b)"
  by (simp_all add: rb_push_def)

lemma rb_inv_init: "0 < cap \<Longrightarrow> rb_inv (rb_init cap d)"
  by (simp add: rb_inv_def) (simp add: rb_init_def)

lemma rb_list_init [simp]: "rb_list (rb_init cap d) = []" "rb_list (rb_clear b) = []"
  by (simp_all add: rb_list_def rb_init_def rb_clear_def)

lemma rb_inv_push [inv_intros]:
  assumes "rb_inv b"
  shows "rb_inv (rb_push v b)"
proof -
  have "(rb_head b + 1) mod rb_capacity b < rb_capacity b" using assms by (simp add: rb_inv_def)
  then show ?thesis
    using assms unfolding rb_inv_def rb_capacity_simps
    by (auto simp: rb_push_def mod_less split: if_splits)
qed

lemma rb_inv_set_back [inv_intros]: "rb_inv b \<Longrightarrow> rb_inv (rb_set_back v b)"
  unfolding rb_inv_def rb_capacity_simps by (simp add: rb_set_back_def)

lemma rb_inv_clear [inv_intros]: "rb_inv b \<Longrightarrow> rb_inv (rb_clear b)"
  unfolding rb_inv_def rb_capacity_simps by (simp add: rb_clear_def)

lemma rb_actual_cases:
  assumes "rb_inv b" and "i < rb_capacity b"
  shows "rb_actual b i = (if rb_count b < rb_capacity b then i
                          else if rb_head b + i < rb_capacity b then rb_head b + i
                          else rb_head b + i - rb_capacity b)"
proof -
  have "rb_head b + i < 2 * rb_capacity b" using assms by (simp add: rb_inv_def)
  then show ?thesis
    using assms(2) by (simp add: rb_actual_def rb_start_index_def mod_if)
qed

lemma rb_actual_inj:
  assumes "rb_inv b" and "i < rb_count b" and "j < rb_count b" and "rb_actual b i = rb_actual b j"
  shows "i = j"
proof -
  have "i < rb_capacity b" "j < rb_capacity b" "rb_head b < rb_capacity b"
    using assms by (simp_all add: rb_inv_def)
  then show ?thesis
    using assms(4) by (auto simp: rb_actual_cases [OF assms(1)] split: if_splits)
qed

lemma rb_actual_less: "rb_inv b \<Longrightarrow> rb_actual b i < rb_capacity b"
  by (simp add: rb_actual_def rb_inv_def)

lemma rb_list_push:
  assumes "rb_inv b"
  shows "rb_list (rb_push v b) = keep_last (rb_capacity b) (rb_list b @ [v])"
proof (cases "rb_count b < rb_capacity b")
  case True
  have "rb_at (rb_push v b) i = (rb_list b @ [v]) ! i" if "i < Suc (rb_count b)" for i
  proof -
    have "rb_actual (rb_push v b) i = i"
      using rb_actual_cases [OF rb_inv_push [OF assms], of i v] assms True that
      by (cases "Suc (rb_count b) = rb_capacity b") (auto simp: rb_inv_def)
    moreover have "rb_actual b j = j" if "j < rb_count b" for j
      using rb_actual_cases [OF assms, of j] True that by simp
    ultimately show ?thesis
      using assms True that
      by (auto simp: rb_at_def rb_list_def nth_append rb_inv_def rb_capacity_def
          nth_list_update less_Suc_eq)
  qed
  then have "rb_list (rb_push v b) = rb_list b @ [v]"
    using True by (intro nth_equalityI) (auto simp: rb_list_def simp del: upt_Suc)
  then show ?thesis using True by simp
next
  case False
  let ?c = "rb_capacity b"
  have full: "rb_count b = ?c" using assms False by (simp add: rb_inv_def)
  have "rb_at (rb_push v b) i = (rb_list b @ [v]) ! Suc i" if "i < ?c" for i
  proof -
    have h: "rb_head b < ?c" using assms by (simp add: rb_inv_def)
    have c: "rb_count (rb_push v b) = ?c" "rb_head (rb_push v b) = Suc (rb_head b) mod ?c"
      using full by simp_all
    have "rb_actual (rb_push v b) i = (Suc (rb_head b) mod ?c + i) mod ?c"
      using c by (simp add: rb_actual_def rb_start_index_def)
    then have new: "rb_actual (rb_push v b) i = (rb_head b + Suc i) mod ?c"
      by (simp add: mod_add_left_eq)
    have old: "rb_actual b (Suc i) = (rb_head b + Suc i) mod ?c"
      using full by (simp add: rb_actual_def rb_start_index_def)
    show ?thesis
    proof (cases "Suc i = ?c")
      case True
      then have "rb_actual (rb_push v b) i = rb_head b" using new h by simp
      then show ?thesis
        using True full h by (simp add: rb_at_def nth_append rb_capacity_def)
    next
      case False
      then have "Suc i < rb_count b" "0 < rb_count b" using that full by simp_all
      moreover have "rb_actual b 0 = rb_head b"
        using full h by (simp add: rb_actual_def rb_start_index_def)
      ultimately have "rb_actual b (Suc i) \<noteq> rb_head b"
        using rb_actual_inj [OF assms, of "Suc i" 0] by auto
      then show ?thesis
        using \<open>Suc i < rb_count b\<close> new old
        by (simp add: rb_at_def nth_append rb_list_def)
    qed
  qed
  then show ?thesis
    using full assms
    by (intro nth_equalityI) (auto simp: rb_list_def keep_last_def rb_inv_def nth_append)
qed

interpretation ring: sliding_window rb_inv rb_capacity rb_push rb_list
proof unfold_locales
  show "\<And>s. rb_inv s \<Longrightarrow> length (rb_list s) \<le> rb_capacity s" by (simp add: rb_inv_def)
qed (simp_all add: rb_inv_push rb_list_push)

text \<open>The accessors read the window.\<close>

lemma to_vector_window: "to_vector n b = keep_last n (rb_list b)"
  by (auto simp: to_vector_def Let_def keep_last_def rb_list_def drop_map min_def)

lemma extract_field_window: "extract_field field n b = map field (to_vector n b)"
  by (intro nth_equalityI) (auto simp: extract_field_def to_vector_def Let_def)

lemma rb_at_window: "i < rb_count b \<Longrightarrow> rb_at b i = rb_list b ! i"
  by (simp add: rb_list_def)

lemma rb_back_window: "rb_back b = (if rb_list b = [] then None else Some (last (rb_list b)))"
  by (auto simp: rb_back_def rb_list_def last_conv_nth)

lemma rb_front_window: "rb_front b = (if rb_list b = [] then None else Some (hd (rb_list b)))"
  by (auto simp: rb_front_def rb_list_def hd_conv_nth)

lemma rb_list_set_back:
  assumes "rb_inv b" and "rb_list b \<noteq> []"
  shows "rb_list (rb_set_back v b) = butlast (rb_list b) @ [v]"
proof (rule nth_equalityI)
  let ?n = "rb_count b"
  have n: "0 < ?n" using assms(2) by (simp add: rb_list_def)
  show "length (rb_list (rb_set_back v b)) = length (butlast (rb_list b) @ [v])"
    using n by (simp add: rb_set_back_def)
  fix i assume "i < length (rb_list (rb_set_back v b))"
  then have i: "i < ?n" by (simp add: rb_set_back_def)
  have same: "rb_actual (rb_set_back v b) i = rb_actual b i"
    by (simp add: rb_actual_def rb_start_index_def) (simp add: rb_set_back_def)
  have "rb_actual b i = rb_actual b (?n - 1) \<longleftrightarrow> i = ?n - 1"
    using rb_actual_inj [OF assms(1) i, of "?n - 1"] n by auto
  then show "rb_list (rb_set_back v b) ! i = (butlast (rb_list b) @ [v]) ! i"
    using i n same rb_actual_less [OF assms(1), of "?n - 1"]
    by (auto simp: rb_list_def nth_append nth_butlast rb_at_def nth_list_update rb_capacity_def
        rb_set_back_def)
qed

end
