(* ===== verification/Reason_Codes.thy ===== *)
theory Reason_Codes
  imports Common_Types
begin

text \<open>
  The taxonomy of \<^verbatim>\<open>src/src/common/reason_codes.hpp\<close>: the reason of every trading
  action with its 16-bit code, its name and the category that its code range gives.
\<close>

datatype action_category =
  CatEntry | CatExit | CatHedge | CatRisk | CatRecovery | CatOperational

fun action_category_to_string :: "action_category \<Rightarrow> string" where
  "action_category_to_string CatEntry = ''Entry''"
| "action_category_to_string CatExit = ''Exit''"
| "action_category_to_string CatHedge = ''Hedge''"
| "action_category_to_string CatRisk = ''Risk''"
| "action_category_to_string CatRecovery = ''Recovery''"
| "action_category_to_string CatOperational = ''Operational''"

datatype (plugins only: code) reason_code =
    EntrySignalLong | EntrySignalShort | EntryAddToWinner | EntryReverse | ExitTakeProfit
    | ExitPartialTP | ExitTrailingStop | ExitMomentumFade | ExitRegimeChange | ExitFundingCarry
    | ExitContinuationValue | ExitStopLoss | ExitMAEBreached | ExitDeadmanWatchdog
    | ExitStaleData | ExitEmergencyFlatten | ExitCircuitBreaker | ExitMarginCall | ExitVenueDown
    | HedgeOpenRegimeBreak | HedgeOpenIndicatorConsensus | HedgeOpenToxicFlow
    | HedgeOpenLiquidityStress | HedgeCloseProfitLock | HedgeCloseAsymmetric
    | HedgeCloseBothEmergency | HedgeCloseBothProfit | HedgeReHedge | RiskMaxDrawdown
    | RiskDailyLossLimit | RiskExposureLimit | RiskCorrelation | RiskVenueHealth
    | RiskMarginDistance | RiskKillSwitch | RiskSizeReduced | RecoveryPositionSync
    | RecoveryOrphanDetected | RecoveryBalanceAdjusted | RecoveryJournalReplayed
    | RecoveryPairStateRestored | RecoveryPendingOrdersFound | RecoveryProtectiveRestored
    | OpAutoReduceRisk | OpCircuitBreakerOpen | OpStateDivergence | OpDailySelfCheckFailed
    | OpDailySelfCheckPassed | OpOperatorHalt | OpRejectRateBreaker

definition code_value :: "reason_code \<Rightarrow> nat" where
  "code_value rc = (case rc of
     EntrySignalLong \<Rightarrow> 1001
   | EntrySignalShort \<Rightarrow> 1002
   | EntryAddToWinner \<Rightarrow> 1003
   | EntryReverse \<Rightarrow> 1004
   | ExitTakeProfit \<Rightarrow> 2001
   | ExitPartialTP \<Rightarrow> 2002
   | ExitTrailingStop \<Rightarrow> 2003
   | ExitMomentumFade \<Rightarrow> 2004
   | ExitRegimeChange \<Rightarrow> 2005
   | ExitFundingCarry \<Rightarrow> 2006
   | ExitContinuationValue \<Rightarrow> 2008
   | ExitStopLoss \<Rightarrow> 3001
   | ExitMAEBreached \<Rightarrow> 3002
   | ExitDeadmanWatchdog \<Rightarrow> 3003
   | ExitStaleData \<Rightarrow> 3004
   | ExitEmergencyFlatten \<Rightarrow> 3005
   | ExitCircuitBreaker \<Rightarrow> 3006
   | ExitMarginCall \<Rightarrow> 3007
   | ExitVenueDown \<Rightarrow> 3008
   | HedgeOpenRegimeBreak \<Rightarrow> 4001
   | HedgeOpenIndicatorConsensus \<Rightarrow> 4002
   | HedgeOpenToxicFlow \<Rightarrow> 4003
   | HedgeOpenLiquidityStress \<Rightarrow> 4004
   | HedgeCloseProfitLock \<Rightarrow> 4010
   | HedgeCloseAsymmetric \<Rightarrow> 4011
   | HedgeCloseBothEmergency \<Rightarrow> 4012
   | HedgeCloseBothProfit \<Rightarrow> 4013
   | HedgeReHedge \<Rightarrow> 4020
   | RiskMaxDrawdown \<Rightarrow> 5001
   | RiskDailyLossLimit \<Rightarrow> 5002
   | RiskExposureLimit \<Rightarrow> 5003
   | RiskCorrelation \<Rightarrow> 5004
   | RiskVenueHealth \<Rightarrow> 5005
   | RiskMarginDistance \<Rightarrow> 5006
   | RiskKillSwitch \<Rightarrow> 5007
   | RiskSizeReduced \<Rightarrow> 5008
   | RecoveryPositionSync \<Rightarrow> 6001
   | RecoveryOrphanDetected \<Rightarrow> 6002
   | RecoveryBalanceAdjusted \<Rightarrow> 6003
   | RecoveryJournalReplayed \<Rightarrow> 6004
   | RecoveryPairStateRestored \<Rightarrow> 6005
   | RecoveryPendingOrdersFound \<Rightarrow> 6006
   | RecoveryProtectiveRestored \<Rightarrow> 6007
   | OpAutoReduceRisk \<Rightarrow> 7001
   | OpCircuitBreakerOpen \<Rightarrow> 7002
   | OpStateDivergence \<Rightarrow> 7003
   | OpDailySelfCheckFailed \<Rightarrow> 7004
   | OpDailySelfCheckPassed \<Rightarrow> 7005
   | OpOperatorHalt \<Rightarrow> 7006
   | OpRejectRateBreaker \<Rightarrow> 7007)"

definition category_of :: "reason_code \<Rightarrow> action_category" where
  "category_of rc =
    (let v = code_value rc in
     if 1000 \<le> v \<and> v < 2000 then CatEntry
     else if 2000 \<le> v \<and> v < 4000 then CatExit
     else if 4000 \<le> v \<and> v < 5000 then CatHedge
     else if 5000 \<le> v \<and> v < 6000 then CatRisk
     else if 6000 \<le> v \<and> v < 7000 then CatRecovery
     else CatOperational)"

definition reason_code_to_string :: "reason_code \<Rightarrow> string" where
  "reason_code_to_string rc = (case rc of
     EntrySignalLong \<Rightarrow> ''EntrySignalLong''
   | EntrySignalShort \<Rightarrow> ''EntrySignalShort''
   | EntryAddToWinner \<Rightarrow> ''EntryAddToWinner''
   | EntryReverse \<Rightarrow> ''EntryReverse''
   | ExitTakeProfit \<Rightarrow> ''ExitTakeProfit''
   | ExitPartialTP \<Rightarrow> ''ExitPartialTP''
   | ExitTrailingStop \<Rightarrow> ''ExitTrailingStop''
   | ExitMomentumFade \<Rightarrow> ''ExitMomentumFade''
   | ExitRegimeChange \<Rightarrow> ''ExitRegimeChange''
   | ExitFundingCarry \<Rightarrow> ''ExitFundingCarry''
   | ExitContinuationValue \<Rightarrow> ''ExitContinuationValue''
   | ExitStopLoss \<Rightarrow> ''ExitStopLoss''
   | ExitMAEBreached \<Rightarrow> ''ExitMAEBreached''
   | ExitDeadmanWatchdog \<Rightarrow> ''ExitDeadmanWatchdog''
   | ExitStaleData \<Rightarrow> ''ExitStaleData''
   | ExitEmergencyFlatten \<Rightarrow> ''ExitEmergencyFlatten''
   | ExitCircuitBreaker \<Rightarrow> ''ExitCircuitBreaker''
   | ExitMarginCall \<Rightarrow> ''ExitMarginCall''
   | ExitVenueDown \<Rightarrow> ''ExitVenueDown''
   | HedgeOpenRegimeBreak \<Rightarrow> ''HedgeOpenRegimeBreak''
   | HedgeOpenIndicatorConsensus \<Rightarrow> ''HedgeOpenIndicatorConsensus''
   | HedgeOpenToxicFlow \<Rightarrow> ''HedgeOpenToxicFlow''
   | HedgeOpenLiquidityStress \<Rightarrow> ''HedgeOpenLiquidityStress''
   | HedgeCloseProfitLock \<Rightarrow> ''HedgeCloseProfitLock''
   | HedgeCloseAsymmetric \<Rightarrow> ''HedgeCloseAsymmetric''
   | HedgeCloseBothEmergency \<Rightarrow> ''HedgeCloseBothEmergency''
   | HedgeCloseBothProfit \<Rightarrow> ''HedgeCloseBothProfit''
   | HedgeReHedge \<Rightarrow> ''HedgeReHedge''
   | RiskMaxDrawdown \<Rightarrow> ''RiskMaxDrawdown''
   | RiskDailyLossLimit \<Rightarrow> ''RiskDailyLossLimit''
   | RiskExposureLimit \<Rightarrow> ''RiskExposureLimit''
   | RiskCorrelation \<Rightarrow> ''RiskCorrelation''
   | RiskVenueHealth \<Rightarrow> ''RiskVenueHealth''
   | RiskMarginDistance \<Rightarrow> ''RiskMarginDistance''
   | RiskKillSwitch \<Rightarrow> ''RiskKillSwitch''
   | RiskSizeReduced \<Rightarrow> ''RiskSizeReduced''
   | RecoveryPositionSync \<Rightarrow> ''RecoveryPositionSync''
   | RecoveryOrphanDetected \<Rightarrow> ''RecoveryOrphanDetected''
   | RecoveryBalanceAdjusted \<Rightarrow> ''RecoveryBalanceAdjusted''
   | RecoveryJournalReplayed \<Rightarrow> ''RecoveryJournalReplayed''
   | RecoveryPairStateRestored \<Rightarrow> ''RecoveryPairStateRestored''
   | RecoveryPendingOrdersFound \<Rightarrow> ''RecoveryPendingOrdersFound''
   | RecoveryProtectiveRestored \<Rightarrow> ''RecoveryProtectiveRestored''
   | OpAutoReduceRisk \<Rightarrow> ''OpAutoReduceRisk''
   | OpCircuitBreakerOpen \<Rightarrow> ''OpCircuitBreakerOpen''
   | OpStateDivergence \<Rightarrow> ''OpStateDivergence''
   | OpDailySelfCheckFailed \<Rightarrow> ''OpDailySelfCheckFailed''
   | OpDailySelfCheckPassed \<Rightarrow> ''OpDailySelfCheckPassed''
   | OpOperatorHalt \<Rightarrow> ''OpOperatorHalt''
   | OpRejectRateBreaker \<Rightarrow> ''OpRejectRateBreaker'')"

text \<open>The code determines the reason: a journal entry is read back unambiguously.\<close>

definition reason_of_code :: "nat \<Rightarrow> reason_code" where
  "reason_of_code v =
    (if v = 1001 then EntrySignalLong else
     if v = 1002 then EntrySignalShort else
     if v = 1003 then EntryAddToWinner else
     if v = 1004 then EntryReverse else
     if v = 2001 then ExitTakeProfit else
     if v = 2002 then ExitPartialTP else
     if v = 2003 then ExitTrailingStop else
     if v = 2004 then ExitMomentumFade else
     if v = 2005 then ExitRegimeChange else
     if v = 2006 then ExitFundingCarry else
     if v = 2008 then ExitContinuationValue else
     if v = 3001 then ExitStopLoss else
     if v = 3002 then ExitMAEBreached else
     if v = 3003 then ExitDeadmanWatchdog else
     if v = 3004 then ExitStaleData else
     if v = 3005 then ExitEmergencyFlatten else
     if v = 3006 then ExitCircuitBreaker else
     if v = 3007 then ExitMarginCall else
     if v = 3008 then ExitVenueDown else
     if v = 4001 then HedgeOpenRegimeBreak else
     if v = 4002 then HedgeOpenIndicatorConsensus else
     if v = 4003 then HedgeOpenToxicFlow else
     if v = 4004 then HedgeOpenLiquidityStress else
     if v = 4010 then HedgeCloseProfitLock else
     if v = 4011 then HedgeCloseAsymmetric else
     if v = 4012 then HedgeCloseBothEmergency else
     if v = 4013 then HedgeCloseBothProfit else
     if v = 4020 then HedgeReHedge else
     if v = 5001 then RiskMaxDrawdown else
     if v = 5002 then RiskDailyLossLimit else
     if v = 5003 then RiskExposureLimit else
     if v = 5004 then RiskCorrelation else
     if v = 5005 then RiskVenueHealth else
     if v = 5006 then RiskMarginDistance else
     if v = 5007 then RiskKillSwitch else
     if v = 5008 then RiskSizeReduced else
     if v = 6001 then RecoveryPositionSync else
     if v = 6002 then RecoveryOrphanDetected else
     if v = 6003 then RecoveryBalanceAdjusted else
     if v = 6004 then RecoveryJournalReplayed else
     if v = 6005 then RecoveryPairStateRestored else
     if v = 6006 then RecoveryPendingOrdersFound else
     if v = 6007 then RecoveryProtectiveRestored else
     if v = 7001 then OpAutoReduceRisk else
     if v = 7002 then OpCircuitBreakerOpen else
     if v = 7003 then OpStateDivergence else
     if v = 7004 then OpDailySelfCheckFailed else
     if v = 7005 then OpDailySelfCheckPassed else
     if v = 7006 then OpOperatorHalt else
     OpRejectRateBreaker)"

lemma reason_of_code_value [simp]: "reason_of_code (code_value rc) = rc"
  by (cases rc) (simp_all add: code_value_def reason_of_code_def)

lemma code_value_inject [simp]: "code_value r = code_value s \<longleftrightarrow> r = s"
  by (metis reason_of_code_value)

lemma code_value_u16: "code_value rc < 2 ^ 16"
  by (cases rc) (simp_all add: code_value_def)

end
