(* ===== verification/Operational_Guard.thy ===== *)
theory Operational_Guard
  imports Ring_Buffer Reason_Codes Printing "HOL-Library.Multiset"
begin

text \<open>
  The incident guard of \<^verbatim>\<open>src/src/resilience/operational_guard.cpp\<close>: a circular array
  of the last order results, three counters, the operator's halt and the time of the last
  incident, and the assessment made of them before each order.  The write index of the
  array counts order results and is a natural number (\<^verbatim>\<open>size_t\<close> holds \<open>2\<^sup>6\<^sup>4\<close> of them).
  Every call takes the reading of the injected clock, \<open>None\<close> when there is none.  Log
  lines and the exported gauge are output and left out.
\<close>

section \<open>State\<close>

record operational_guard_config =
  gc_reject_rate_threshold_pct :: double
  gc_reject_window_orders :: int
  gc_consecutive_failures_to_reduce :: int
  gc_reduced_size_multiplier :: double
  gc_position_divergence_pct :: double
  gc_divergence_checks_before_halt :: int
  gc_cooldown_after_incident_ms :: int

definition default_guard_config :: operational_guard_config where
  "default_guard_config = \<lparr> gc_reject_rate_threshold_pct = lit 25, gc_reject_window_orders = 20,
     gc_consecutive_failures_to_reduce = 3, gc_reduced_size_multiplier = lit (1 / 2),
     gc_position_divergence_pct = lit 1, gc_divergence_checks_before_halt = 3,
     gc_cooldown_after_incident_ms = 60000 \<rparr>"

datatype guard_verdict = VNormal | VReduceRisk | VStopEntries | VHaltTrading

fun guard_verdict_to_string :: "guard_verdict \<Rightarrow> string" where
  "guard_verdict_to_string VNormal = ''Normal''"
| "guard_verdict_to_string VReduceRisk = ''ReduceRisk''"
| "guard_verdict_to_string VStopEntries = ''StopEntries''"
| "guard_verdict_to_string VHaltTrading = ''HaltTrading''"

record guard_assessment =
  ga_verdict :: guard_verdict
  ga_size_multiplier :: double
  ga_reason :: reason_code
  ga_explanation :: string
  ga_operator_alert :: bool

definition default_assessment :: guard_assessment where
  "default_assessment = \<lparr> ga_verdict = VNormal, ga_size_multiplier = 1,
     ga_reason = OpAutoReduceRisk, ga_explanation = [], ga_operator_alert = False \<rparr>"

record operational_guard =
  og_config :: operational_guard_config
  og_order_results :: "bool list"
  og_result_idx :: nat
  og_consecutive_failures :: int
  og_divergence_strikes :: int
  og_consecutive_venue_failures :: int
  og_operator_halted :: bool
  og_halt_reason :: string
  og_last_incident_time_ns :: timestamp

definition guard_init :: "operational_guard_config \<Rightarrow> operational_guard" where
  "guard_init cfg =
    (let window = (if gc_reject_window_orders cfg \<le> 0 then 20 else gc_reject_window_orders cfg)
     in \<lparr> og_config = cfg, og_order_results = replicate (nat window) True, og_result_idx = 0,
          og_consecutive_failures = 0, og_divergence_strikes = 0,
          og_consecutive_venue_failures = 0, og_operator_halted = False, og_halt_reason = [],
          og_last_incident_time_ns = 0 \<rparr>)"

section \<open>Operations\<close>

definition emit_alert :: "timestamp option \<Rightarrow> operational_guard \<Rightarrow> operational_guard" where
  "emit_alert clock g =
    g \<lparr> og_last_incident_time_ns := (case clock of Some t \<Rightarrow> t | None \<Rightarrow> 0) \<rparr>"

definition record_order_result ::
  "timestamp option \<Rightarrow> bool \<Rightarrow> operational_guard \<Rightarrow> operational_guard" where
  "record_order_result clock success g =
    (let i = og_result_idx g mod length (og_order_results g);
         g1 = g \<lparr> og_order_results := (og_order_results g)[i := success],
                  og_result_idx := og_result_idx g + 1 \<rparr>
     in if success then g1 \<lparr> og_consecutive_failures := 0 \<rparr>
        else let g2 = g1 \<lparr> og_consecutive_failures := og_consecutive_failures g1 + 1 \<rparr>
             in if gc_consecutive_failures_to_reduce (og_config g2) \<le> og_consecutive_failures g2
                then emit_alert clock g2 else g2)"

definition record_position_check ::
  "timestamp option \<Rightarrow> double \<Rightarrow> double \<Rightarrow> operational_guard \<Rightarrow> operational_guard" where
  "record_position_check clock local_size exchange_size g =
    (if exchange_size \<le> 0 then g
     else let divergence_pct = \<bar>local_size - exchange_size\<bar> / exchange_size * lit 100
          in if gc_position_divergence_pct (og_config g) < divergence_pct
             then let g1 = g \<lparr> og_divergence_strikes := og_divergence_strikes g + 1 \<rparr>
                  in if gc_divergence_checks_before_halt (og_config g1) \<le> og_divergence_strikes g1
                     then emit_alert clock g1 else g1
             else if 0 < og_divergence_strikes g
             then g \<lparr> og_divergence_strikes := og_divergence_strikes g - 1 \<rparr> else g)"

definition record_venue_event ::
  "timestamp option \<Rightarrow> bool \<Rightarrow> operational_guard \<Rightarrow> operational_guard" where
  "record_venue_event clock healthy g =
    (if healthy then g \<lparr> og_consecutive_venue_failures := 0 \<rparr>
     else let g1 = g \<lparr> og_consecutive_venue_failures := og_consecutive_venue_failures g + 1 \<rparr>
          in if 5 \<le> og_consecutive_venue_failures g1 then emit_alert clock g1 else g1)"

definition guard_total :: "operational_guard \<Rightarrow> nat" where
  "guard_total g = min (og_result_idx g) (length (og_order_results g))"

fun count_rejects :: "bool list \<Rightarrow> nat" where
  "count_rejects [] = 0"
| "count_rejects (ok # rs) = (if ok then count_rejects rs else Suc (count_rejects rs))"

definition guard_rejects :: "operational_guard \<Rightarrow> nat" where
  "guard_rejects g = count_rejects (take (guard_total g) (og_order_results g))"

definition reject_rate :: "nat \<Rightarrow> nat \<Rightarrow> double" where
  "reject_rate rejects n =
    (if 0 < n then dint (int rejects) / dint (int n) * lit 100 else 0)"

definition assess :: "timestamp option \<Rightarrow> operational_guard \<Rightarrow> guard_assessment" where
  "assess clock g =
    (let r = default_assessment; cfg = og_config g in
     if og_operator_halted g then
       r \<lparr> ga_verdict := VHaltTrading, ga_size_multiplier := 0, ga_reason := OpOperatorHalt,
           ga_explanation := ''Operator halt: '' @ og_halt_reason g, ga_operator_alert := False \<rparr>
     else let n = guard_total g; rate = reject_rate (guard_rejects g) n in
     if gc_reject_rate_threshold_pct cfg \<le> rate \<and> 5 \<le> n then
       r \<lparr> ga_verdict := VStopEntries, ga_size_multiplier := 0, ga_reason := OpRejectRateBreaker,
           ga_explanation := ''Reject rate '' @ to_string_double rate @ ''% exceeds threshold '' @
             to_string_double (gc_reject_rate_threshold_pct cfg) @ ''%'',
           ga_operator_alert := True \<rparr>
     else if gc_divergence_checks_before_halt cfg \<le> og_divergence_strikes g then
       r \<lparr> ga_verdict := VStopEntries, ga_size_multiplier := 0, ga_reason := OpStateDivergence,
           ga_explanation := ''State divergence detected '' @
             to_string_int (og_divergence_strikes g) @ '' times'',
           ga_operator_alert := True \<rparr>
     else if 5 \<le> og_consecutive_venue_failures g then
       r \<lparr> ga_verdict := VStopEntries, ga_size_multiplier := 0, ga_reason := OpCircuitBreakerOpen,
           ga_explanation := ''Venue health degraded'', ga_operator_alert := True \<rparr>
     else if gc_consecutive_failures_to_reduce cfg \<le> og_consecutive_failures g then
       r \<lparr> ga_verdict := VReduceRisk, ga_size_multiplier := gc_reduced_size_multiplier cfg,
           ga_reason := OpAutoReduceRisk,
           ga_explanation := ''Auto reduce-risk after '' @
             to_string_int (og_consecutive_failures g) @ '' consecutive failures'' \<rparr>
     else case clock of
       Some t \<Rightarrow>
         (let elapsed_ms = max 0 ((t - og_last_incident_time_ns g) sdiv 1000000) in
          if 0 < og_last_incident_time_ns g \<and> elapsed_ms < gc_cooldown_after_incident_ms cfg then
            r \<lparr> ga_verdict := VReduceRisk, ga_size_multiplier := gc_reduced_size_multiplier cfg,
                ga_reason := OpAutoReduceRisk,
                ga_explanation := ''Cooldown period after incident ('' @ to_string_int elapsed_ms @
                  ''ms / '' @ to_string_int (gc_cooldown_after_incident_ms cfg) @ ''ms)'' \<rparr>
          else r \<lparr> ga_verdict := VNormal, ga_size_multiplier := 1 \<rparr>)
     | None \<Rightarrow> r \<lparr> ga_verdict := VNormal, ga_size_multiplier := 1 \<rparr>)"

definition operator_halt :: "string \<Rightarrow> operational_guard \<Rightarrow> operational_guard" where
  "operator_halt reason g = g \<lparr> og_operator_halted := True, og_halt_reason := reason \<rparr>"

definition operator_resume :: "operational_guard \<Rightarrow> operational_guard" where
  "operator_resume g = g \<lparr> og_operator_halted := False, og_halt_reason := [] \<rparr>"

definition current_verdict :: "timestamp option \<Rightarrow> operational_guard \<Rightarrow> guard_verdict" where
  "current_verdict clock g = ga_verdict (assess clock g)"

definition guard_reset :: "operational_guard \<Rightarrow> operational_guard" where
  "guard_reset g =
    g \<lparr> og_order_results := map (\<lambda>_. True) (og_order_results g), og_result_idx := 0,
        og_consecutive_failures := 0, og_divergence_strikes := 0,
        og_consecutive_venue_failures := 0, og_last_incident_time_ns := 0 \<rparr>"

section \<open>The result array is a sliding window\<close>

text \<open>The remembered results, oldest first: the writes numbered by the last \<open>total\<close> indices.\<close>

definition guard_window :: "operational_guard \<Rightarrow> bool list" where
  "guard_window g =
    map (\<lambda>i. og_order_results g ! (i mod length (og_order_results g)))
        [og_result_idx g - guard_total g ..< og_result_idx g]"

definition guard_inv :: "operational_guard \<Rightarrow> bool" where
  "guard_inv g \<longleftrightarrow> og_order_results g \<noteq> []"

definition guard_capacity :: "operational_guard \<Rightarrow> nat" where
  "guard_capacity g = length (og_order_results g)"

lemma record_order_result_sel [simp]:
  "og_order_results (record_order_result clock ok g) =
     (og_order_results g)[og_result_idx g mod length (og_order_results g) := ok]"
  "og_result_idx (record_order_result clock ok g) = Suc (og_result_idx g)"
  "og_config (record_order_result clock ok g) = og_config g"
  "og_operator_halted (record_order_result clock ok g) = og_operator_halted g"
  by (simp_all add: record_order_result_def emit_alert_def Let_def)

lemma guard_window_push:
  assumes "guard_inv g"
  shows "guard_window (record_order_result clock ok g) =
         keep_last (guard_capacity g) (guard_window g @ [ok])"
proof -
  let ?w = "length (og_order_results g)" and ?n = "og_result_idx g"
  have w: "0 < ?w" using assms by (simp add: guard_inv_def)
  let ?lo = "Suc ?n - min (Suc ?n) ?w"
  have lo: "?lo \<le> ?n" using w by linarith
  have keep: "i mod ?w \<noteq> ?n mod ?w" if "?lo \<le> i" "i < ?n" for i
  proof
    assume "i mod ?w = ?n mod ?w"
    then have "?w dvd ?n - i" using that(2) mod_eq_dvd_iff_nat [of i ?n ?w] by simp
    then have "?w \<le> ?n - i" using that(2) by (simp add: dvd_imp_le)
    then show False using that w by (simp add: min_def split: if_splits)
  qed
  have cell: "(og_order_results g)[?n mod ?w := ok] ! (i mod ?w) = og_order_results g ! (i mod ?w)"
    if "?lo \<le> i" "i < ?n" for i
    by (rule nth_list_update_neq) (use keep [OF that] in simp)
  have "guard_window (record_order_result clock ok g) =
        map (\<lambda>i. (og_order_results g)[?n mod ?w := ok] ! (i mod ?w)) [?lo..<?n] @ [ok]"
    using w lo by (simp add: guard_window_def guard_total_def)
  also have "\<dots> = map (\<lambda>i. og_order_results g ! (i mod ?w)) [?lo..<?n] @ [ok]"
    using cell by (intro arg_cong2 [where f = "(@)"] map_cong) auto
  also have "\<dots> = keep_last ?w (guard_window g @ [ok])"
  proof -
    have z: "Suc 0 - ?w = 0" using w by linarith
    show ?thesis
      by (cases "?n < ?w")
        (auto simp: guard_window_def guard_total_def keep_last_def drop_map Suc_diff_le z)
  qed
  finally show ?thesis by (simp add: guard_capacity_def)
qed

interpretation guard: sliding_window guard_inv guard_capacity "record_order_result clock" guard_window
  for clock
proof unfold_locales
  show "\<And>g. guard_inv g \<Longrightarrow> length (guard_window g) \<le> guard_capacity g"
    by (auto simp: guard_window_def guard_total_def guard_capacity_def)
qed (auto simp: guard_inv_def guard_capacity_def guard_window_push)

text \<open>
  The assessment scans the array in index order, not in time order; it counts the same
  rejects, because a full turn of the array visits each cell once.
\<close>

lemma mset_cyclic:
  fixes f :: "nat \<Rightarrow> 'a"
  assumes "\<And>i. f (i + w) = f i"
  shows "mset (map f [n..<n + w]) = mset (map f [0..<w])"
proof (induction n)
  case (Suc n)
  have "mset (map f [n..<Suc (n + w)]) = mset (map f [n..<n + w]) + {#f (n + w)#}" by simp
  moreover have "mset (map f [n..<Suc (n + w)]) = add_mset (f n) (mset (map f [Suc n..<Suc n + w]))"
    by (simp add: upt_conv_Cons del: upt_Suc)
  ultimately show ?case using Suc assms [of n] by simp
qed simp

lemma count_rejects_size: "count_rejects rs = size (filter_mset Not (mset rs))"
  by (induction rs) simp_all

lemma guard_rejects_window:
  assumes "guard_inv g"
  shows "guard_rejects g = count_rejects (guard_window g)"
proof -
  let ?rs = "og_order_results g"
  let ?w = "length ?rs" and ?n = "og_result_idx g" and ?f = "\<lambda>i. ?rs ! (i mod length ?rs)"
  have cells: "map ?f [0..<k] = take k ?rs" if "k \<le> ?w" for k
    using that by (intro nth_equalityI) auto
  have "mset (take (guard_total g) ?rs) = mset (guard_window g)"
  proof (cases "?n \<le> ?w")
    case True
    then show ?thesis using cells [of ?n] by (simp add: guard_window_def guard_total_def)
  next
    case False
    then have "guard_window g = map ?f [(?n - ?w)..<(?n - ?w) + ?w]"
      by (simp add: guard_window_def guard_total_def)
    moreover have "mset (map ?f [(?n - ?w)..<(?n - ?w) + ?w]) = mset (map ?f [0..<?w])"
      by (rule mset_cyclic) simp
    ultimately show ?thesis using cells [of ?w] False by (simp add: guard_total_def)
  qed
  then show ?thesis by (simp add: guard_rejects_def count_rejects_size)
qed

lemma length_guard_window: "length (guard_window g) = guard_total g"
  by (simp add: guard_window_def guard_total_def)

lemma guard_init_facts [simp]:
  "guard_inv (guard_init cfg)" "guard_window (guard_init cfg) = []"
  "og_config (guard_init cfg) = cfg" "\<not> og_operator_halted (guard_init cfg)"
  by (auto simp: guard_inv_def guard_init_def Let_def guard_window_def guard_total_def)

section \<open>The assessment is the most severe finding\<close>

text \<open>
  What can be wrong, and how severe each finding is.  The code tests the findings one
  after the other and answers with the first that holds.
\<close>

fun severity :: "guard_verdict \<Rightarrow> nat" where
  "severity VNormal = 0"
| "severity VReduceRisk = 1"
| "severity VStopEntries = 2"
| "severity VHaltTrading = 3"

definition in_cooldown :: "timestamp option \<Rightarrow> operational_guard \<Rightarrow> bool" where
  "in_cooldown clock g \<longleftrightarrow> (\<exists>t. clock = Some t \<and> 0 < og_last_incident_time_ns g \<and>
     max 0 ((t - og_last_incident_time_ns g) sdiv 1000000) < gc_cooldown_after_incident_ms (og_config g))"

definition too_many_rejects :: "operational_guard \<Rightarrow> bool" where
  "too_many_rejects g \<longleftrightarrow> 5 \<le> length (guard_window g) \<and>
     gc_reject_rate_threshold_pct (og_config g) \<le>
       reject_rate (count_rejects (guard_window g)) (length (guard_window g))"

definition guard_findings :: "timestamp option \<Rightarrow> operational_guard \<Rightarrow> (bool \<times> guard_verdict) list" where
  "guard_findings clock g =
    [(in_cooldown clock g, VReduceRisk),
     (gc_consecutive_failures_to_reduce (og_config g) \<le> og_consecutive_failures g, VReduceRisk),
     (5 \<le> og_consecutive_venue_failures g, VStopEntries),
     (gc_divergence_checks_before_halt (og_config g) \<le> og_divergence_strikes g, VStopEntries),
     (too_many_rejects g, VStopEntries),
     (og_operator_halted g, VHaltTrading)]"

definition most_severe :: "(bool \<times> guard_verdict) list \<Rightarrow> nat" where
  "most_severe fs = Max (insert 0 (severity ` snd ` set (filter fst fs)))"

lemma most_severe_steps [simp]:
  "most_severe [] = 0"
  "most_severe ((b, v) # fs) = (if b then max (severity v) (most_severe fs) else most_severe fs)"
proof -
  show "most_severe [] = 0" by (simp add: most_severe_def)
  have "Max (insert 0 (insert (severity v) S)) = max (severity v) (Max (insert 0 S))" if "finite S" for S
    using that by (subst insert_commute) simp
  then show "most_severe ((b, v) # fs) = (if b then max (severity v) (most_severe fs) else most_severe fs)"
    by (simp add: most_severe_def)
qed

lemma cascade_severity:
  "severity (if h then VHaltTrading else if r \<or> v \<or> d then VStopEntries else if f \<or> c then VReduceRisk else VNormal) =
    most_severe [(c, VReduceRisk), (f, VReduceRisk), (v, VStopEntries), (d, VStopEntries), (r, VStopEntries), (h, VHaltTrading)]"
  by (cases h; cases r; cases v; cases d; simp)

lemma assess_verdict:
  assumes "guard_inv g"
  shows "ga_verdict (assess clock g) =
    (if og_operator_halted g then VHaltTrading
     else if too_many_rejects g \<or> 5 \<le> og_consecutive_venue_failures g \<or>
             gc_divergence_checks_before_halt (og_config g) \<le> og_divergence_strikes g
     then VStopEntries
     else if gc_consecutive_failures_to_reduce (og_config g) \<le> og_consecutive_failures g \<or>
             in_cooldown clock g
     then VReduceRisk else VNormal)"
proof -
  have rejects: "gc_reject_rate_threshold_pct (og_config g) \<le> reject_rate (guard_rejects g) (guard_total g) \<and>
       5 \<le> guard_total g \<longleftrightarrow> too_many_rejects g"
    using guard_rejects_window [OF assms] by (auto simp: too_many_rejects_def length_guard_window)
  have cool: "in_cooldown clock g \<longleftrightarrow> (case clock of None \<Rightarrow> False | Some t \<Rightarrow>
       0 < og_last_incident_time_ns g \<and>
       max 0 ((t - og_last_incident_time_ns g) sdiv 1000000) < gc_cooldown_after_incident_ms (og_config g))"
    by (auto simp: in_cooldown_def split: option.splits)
  show ?thesis
    unfolding assess_def Let_def rejects cool
    by (cases clock) (simp_all add: default_assessment_def)
qed

lemma assess_multiplier:
  "ga_size_multiplier (assess clock g) =
    (case ga_verdict (assess clock g) of
       VNormal \<Rightarrow> 1 | VReduceRisk \<Rightarrow> gc_reduced_size_multiplier (og_config g)
     | VStopEntries \<Rightarrow> 0 | VHaltTrading \<Rightarrow> 0)"
  by (cases clock) (simp_all add: assess_def Let_def default_assessment_def)

section \<open>The operator's halt\<close>

text \<open>The calls made on the guard, with the clock each one reads.\<close>

datatype guard_call =
    OrderResult "timestamp option" bool
  | PositionCheck "timestamp option" double double
  | VenueEvent "timestamp option" bool
  | DailyReset
  | OperatorHalt string
  | OperatorResume

fun guard_step :: "guard_call \<Rightarrow> operational_guard \<Rightarrow> operational_guard" where
  "guard_step (OrderResult c ok) g = record_order_result c ok g"
| "guard_step (PositionCheck c l e) g = record_position_check c l e g"
| "guard_step (VenueEvent c ok) g = record_venue_event c ok g"
| "guard_step DailyReset g = guard_reset g"
| "guard_step (OperatorHalt r) g = operator_halt r g"
| "guard_step OperatorResume g = operator_resume g"

lemmas guard_op_defs = record_order_result_def record_position_check_def record_venue_event_def
  guard_reset_def operator_halt_def operator_resume_def emit_alert_def Let_def

lemma guard_step_keeps [simp]:
  "og_config (guard_step k g) = og_config g"
  "guard_capacity (guard_step k g) = guard_capacity g"
  by (cases k; simp add: guard_op_defs guard_capacity_def)+

lemma guard_steps_keep [simp]:
  "og_config (fold guard_step ks g) = og_config g"
  "guard_capacity (fold guard_step ks g) = guard_capacity g"
  by (induction ks arbitrary: g) simp_all

lemma guard_inv_capacity: "guard_inv g \<longleftrightarrow> 0 < guard_capacity g"
  by (simp add: guard_inv_def guard_capacity_def)

lemma guard_steps_inv [simp]: "guard_inv (fold guard_step ks (guard_init cfg))"
  using guard_init_facts(1) [of cfg] by (simp add: guard_inv_capacity)

lemma halted_step:
  "og_operator_halted g \<Longrightarrow> k \<noteq> OperatorResume \<Longrightarrow> og_operator_halted (guard_step k g)"
  by (cases k) (simp_all add: guard_op_defs)

lemma halted_steps:
  "og_operator_halted g \<Longrightarrow> OperatorResume \<notin> set ks \<Longrightarrow> og_operator_halted (fold guard_step ks g)"
proof (induction ks arbitrary: g)
  case (Cons k ks)
  then have "og_operator_halted (guard_step k g)" by (intro halted_step) auto
  with Cons show ?case by simp
qed simp

section \<open>Properties\<close>

text \<open>
  However the guard was used, its verdict is exactly as severe as the worst of the
  findings that hold (halt, reject rate over the remembered orders, divergence, venue,
  failures in a row, cooldown), and new entries get size zero exactly when that is a stop
  or a halt.
\<close>

theorem verdict_is_most_severe:
  "let g = fold guard_step ks (guard_init cfg); a = assess clock g in
     severity (ga_verdict a) = most_severe (guard_findings clock g) \<and>
     ga_size_multiplier a =
       (if 2 \<le> severity (ga_verdict a) then 0
        else if severity (ga_verdict a) = 1 then gc_reduced_size_multiplier cfg else 1)"
proof -
  let ?g = "fold guard_step ks (guard_init cfg)"
  have "severity (ga_verdict (assess clock ?g)) = most_severe (guard_findings clock ?g)"
    unfolding assess_verdict [OF guard_steps_inv] guard_findings_def by (rule cascade_severity)
  then show ?thesis
    using assess_multiplier [of clock ?g]
    by (simp add: Let_def split: guard_verdict.splits)
qed

text \<open>
  The reject rate is taken over the orders it is meant to be taken over: the array holds
  the results of the last \<open>W\<close> orders, and the scan counts as many rejects as there are
  among them, whatever the position of the write index.
\<close>

theorem rejects_of_last_orders:
  "let W = nat (if gc_reject_window_orders cfg \<le> 0 then 20 else gc_reject_window_orders cfg);
       g = fold (record_order_result clock) oks (guard_init cfg)
   in guard_total g = min W (length oks) \<and> guard_rejects g = count_rejects (keep_last W oks)"
proof -
  let ?W = "nat (if gc_reject_window_orders cfg \<le> 0 then 20 else gc_reject_window_orders cfg)"
  let ?g = "fold (record_order_result clock) oks (guard_init cfg)"
  have cap: "guard_capacity (guard_init cfg) = ?W"
    by (simp add: guard_capacity_def guard_init_def Let_def)
  have win: "guard_window ?g = keep_last ?W oks"
    using guard.run_from_empty [OF guard_init_facts(1,2)] cap by simp
  then have "guard_total ?g = min ?W (length oks)"
    by (metis length_guard_window length_keep_last)
  moreover have "guard_rejects ?g = count_rejects (keep_last ?W oks)"
    using guard_rejects_window guard.run_inv [OF guard_init_facts(1)] win by metis
  ultimately show ?thesis by (simp add: Let_def)
qed

text \<open>
  A halt by the operator lasts until the operator resumes: no order result, position
  check, venue event or daily reset lifts it.
\<close>

theorem halt_lasts_until_resume:
  assumes "OperatorResume \<notin> set ks"
  shows "let g = fold guard_step (ks0 @ OperatorHalt reason # ks) (guard_init cfg) in
           current_verdict clock g = VHaltTrading \<and> ga_size_multiplier (assess clock g) = 0 \<and>
           ga_reason (assess clock g) = OpOperatorHalt"
proof -
  let ?g = "fold guard_step (ks0 @ OperatorHalt reason # ks) (guard_init cfg)"
  have "og_operator_halted ?g"
    using assms by (simp add: halted_steps operator_halt_def)
  then show ?thesis by (simp add: Let_def current_verdict_def assess_def)
qed

theorem halt_lasts_until_resume_witness:
  "let g = fold guard_step ([OrderResult None True] @ OperatorHalt ''stop'' # [DailyReset])
             (guard_init default_guard_config) in
     current_verdict (Some 1) g = VHaltTrading \<and> ga_size_multiplier (assess (Some 1) g) = 0 \<and>
     ga_reason (assess (Some 1) g) = OpOperatorHalt"
  by (rule halt_lasts_until_resume) simp

text \<open>
  A position that exists only locally is never a divergence: checks that find the
  exchange flat leave the guard as it was, however large the local position is.
\<close>

lemma phantom_position_ignored:
  "fold (\<lambda>l. record_position_check clock l 0) ls g = g"
  by (induction ls) (simp_all add: record_position_check_def zero_double_def)

end
