(* ===== verification/Idempotency_Manager.thy ===== *)
theory Idempotency_Manager
  imports Common_Types Printing
begin

text \<open>
  \<^verbatim>\<open>src/src/resilience/idempotency_manager.cpp\<close>: client order ids with a sequence number
  and the table of the ids sent within the deduplication window.  The sequence is an
  atomic \<^verbatim>\<open>uint64_t\<close>, a 64-bit word; the table maps an id to the millisecond at which it
  was first marked.
\<close>

section \<open>Model\<close>

record idempotency_config =
  ic_client_id_prefix :: string
  ic_dedup_window_ms :: int

definition default_idempotency_config :: idempotency_config where
  "default_idempotency_config = \<lparr> ic_client_id_prefix = ''tb'', ic_dedup_window_ms = 300000 \<rparr>"

record idempotency_manager =
  im_config :: idempotency_config
  im_has_clock :: bool
  im_sent_ids :: "(string \<times> int) list"
  im_sequence :: "64 word"

definition idempotency_init :: "idempotency_config \<Rightarrow> bool \<Rightarrow> idempotency_manager" where
  "idempotency_init cfg has_clock =
    \<lparr> im_config = cfg, im_has_clock = has_clock, im_sent_ids = [], im_sequence = 0 \<rparr>"

definition im_now_ms :: "clk \<Rightarrow> idempotency_manager \<Rightarrow> int" where
  "im_now_ms c m = (if im_has_clock m then now c sdiv 1000000 else steady c sdiv 1000000)"

definition generate_client_order_id ::
  "clk \<Rightarrow> symbol \<Rightarrow> side \<Rightarrow> strategy_id \<Rightarrow> idempotency_manager \<Rightarrow> string \<times> idempotency_manager" where
  "generate_client_order_id c sy sd strategy m =
    (let sq = im_sequence m; m1 = m \<lparr> im_sequence := sq + 1 \<rparr>; ts = im_now_ms c m1 in
     (ic_client_id_prefix (im_config m) @ ''_'' @ strategy @ ''_'' @ sy @ ''_'' @
      (if sd = Buy then ''B'' else ''S'') @ ''_'' @ to_string_int ts @ ''_'' @ to_string_nat (unat sq),
      m1))"

definition im_is_duplicate :: "string \<Rightarrow> idempotency_manager \<Rightarrow> bool" where
  "im_is_duplicate i m \<longleftrightarrow> al_contains (im_sent_ids m) i"

text \<open>\<^verbatim>\<open>emplace\<close> leaves an id that is already there with its first timestamp.\<close>

definition mark_sent :: "clk \<Rightarrow> string \<Rightarrow> idempotency_manager \<Rightarrow> idempotency_manager" where
  "mark_sent c i m =
    (if al_contains (im_sent_ids m) i then m
     else m \<lparr> im_sent_ids := AList.update i (im_now_ms c m) (im_sent_ids m) \<rparr>)"

definition cleanup_expired :: "clk \<Rightarrow> idempotency_manager \<Rightarrow> idempotency_manager" where
  "cleanup_expired c m =
    (let cutoff = im_now_ms c m - ic_dedup_window_ms (im_config m)
     in m \<lparr> im_sent_ids := filter (\<lambda>(i, t). \<not> t < cutoff) (im_sent_ids m) \<rparr>)"

definition im_active_count :: "idempotency_manager \<Rightarrow> nat" where
  "im_active_count m = length (im_sent_ids m)"

section \<open>Generated ids are distinct\<close>

text \<open>Everything before the sequence number, and the sequence number, can be read off an id.\<close>

lemma generated_id_inject:
  assumes "fst (generate_client_order_id c sy sd st m) = fst (generate_client_order_id c' sy' sd' st' m')"
  shows "im_sequence m = im_sequence m'"
proof -
  define a where "a = ic_client_id_prefix (im_config m) @ ''_'' @ st @ ''_'' @ sy @ ''_'' @
      (if sd = Buy then ''B'' else ''S'') @ ''_'' @ to_string_int (im_now_ms c m)"
  define a' where "a' = ic_client_id_prefix (im_config m') @ ''_'' @ st' @ ''_'' @ sy' @ ''_'' @
      (if sd' = Buy then ''B'' else ''S'') @ ''_'' @ to_string_int (im_now_ms c' m')"
  have "a @ CHR ''_'' # to_string_nat (unat (im_sequence m)) =
        a' @ CHR ''_'' # to_string_nat (unat (im_sequence m'))"
    using assms by (simp add: generate_client_order_id_def Let_def a_def a'_def im_now_ms_def)
  then have "to_string_nat (unat (im_sequence m)) = to_string_nat (unat (im_sequence m'))"
    by (rule join_inject [THEN conjunct2]) (simp_all add: non_digit_notin_nat)
  then show ?thesis by (simp add: word_unat_eq_iff)
qed

lemma generate_sequence [simp]:
  "im_sequence (snd (generate_client_order_id c sy sd st m)) = im_sequence m + 1"
  "im_sent_ids (snd (generate_client_order_id c sy sd st m)) = im_sent_ids m"
  "im_config (snd (generate_client_order_id c sy sd st m)) = im_config m"
  "im_has_clock (snd (generate_client_order_id c sy sd st m)) = im_has_clock m"
  by (simp_all add: generate_client_order_id_def Let_def)

text \<open>The ids of a sequence of requests.\<close>

fun generate_all ::
  "(clk \<times> symbol \<times> side \<times> strategy_id) list \<Rightarrow> idempotency_manager \<Rightarrow> string list" where
  "generate_all [] m = []"
| "generate_all ((c, sy, sd, st) # rs) m =
     (let (i, m1) = generate_client_order_id c sy sd st m in i # generate_all rs m1)"

lemma generate_all_fresh:
  assumes "i \<in> set (generate_all rs m)"
  shows "\<exists>k < length rs. \<exists>c sy sd st m'. im_sequence m' = im_sequence m + of_nat k \<and>
           i = fst (generate_client_order_id c sy sd st m')"
  using assms
proof (induction rs arbitrary: m)
  case (Cons r rs)
  obtain c sy sd st where r: "r = (c, sy, sd, st)" by (metis prod_cases4)
  let ?g = "generate_client_order_id c sy sd st m"
  from Cons.prems consider "i = fst ?g" | "i \<in> set (generate_all rs (snd ?g))"
    by (auto simp: r split_beta)
  then show ?case
  proof cases
    case 1
    then have "0 < length (r # rs) \<and> im_sequence m = im_sequence m + of_nat 0 \<and> i = fst ?g" by simp
    then show ?thesis by blast
  next
    case 2
    from Cons.IH [OF 2] obtain k c' sy' sd' st' m' where k: "k < length rs"
      "im_sequence m' = im_sequence m + 1 + of_nat k"
      "i = fst (generate_client_order_id c' sy' sd' st' m')" by auto
    then have "Suc k < length (r # rs) \<and> im_sequence m' = im_sequence m + of_nat (Suc k) \<and>
        i = fst (generate_client_order_id c' sy' sd' st' m')" by (simp add: add.assoc)
    then show ?thesis by blast
  qed
qed simp

lemma word_offset_nonzero: "0 < k \<Longrightarrow> k < 2 ^ 64 \<Longrightarrow> (w :: 64 word) + of_nat k \<noteq> w"
  by (simp add: word_of_nat_eq_0_iff nat_dvd_not_less)

lemma generate_all_distinct:
  "length rs \<le> 2 ^ 64 \<Longrightarrow> distinct (generate_all rs m)"
proof (induction rs arbitrary: m)
  case (Cons r rs)
  obtain c sy sd st where r: "r = (c, sy, sd, st)" by (metis prod_cases4)
  let ?g = "generate_client_order_id c sy sd st m"
  have "fst ?g \<notin> set (generate_all rs (snd ?g))"
  proof
    assume "fst ?g \<in> set (generate_all rs (snd ?g))"
    from generate_all_fresh [OF this] obtain k c' sy' sd' st' m' where k: "k < length rs"
      "im_sequence m' = im_sequence m + 1 + of_nat k"
      and i: "fst ?g = fst (generate_client_order_id c' sy' sd' st' m')" by auto
    from generated_id_inject [OF i] k have "im_sequence m + of_nat (Suc k) = im_sequence m" by (simp add: add.assoc)
    moreover have "Suc k < 2 ^ 64" using k(1) Cons.prems by simp
    ultimately show False using word_offset_nonzero [of "Suc k" "im_sequence m"] by blast
  qed
  then show ?case using Cons by (simp add: r split_beta)
qed simp

section \<open>The deduplication window\<close>

definition im_inv :: "idempotency_manager \<Rightarrow> bool" where
  "im_inv m \<longleftrightarrow> al_wf (im_sent_ids m)"

definition sent_at :: "string \<Rightarrow> idempotency_manager \<Rightarrow> int option" where
  "sent_at i m = map_of (im_sent_ids m) i"

lemma is_duplicate_sent_at: "im_is_duplicate i m \<longleftrightarrow> sent_at i m \<noteq> None"
  by (simp add: im_is_duplicate_def sent_at_def al_contains_def)

lemma sent_at_mark:
  "sent_at j (mark_sent c i m) =
     (if j = i \<and> sent_at i m = None then Some (im_now_ms c m) else sent_at j m)"
  by (auto simp: sent_at_def mark_sent_def al_contains_def)

lemma sent_at_cleanup:
  assumes "im_inv m"
  shows "sent_at i (cleanup_expired c m) =
    (case sent_at i m of None \<Rightarrow> None
     | Some t \<Rightarrow> if im_now_ms c m - ic_dedup_window_ms (im_config m) \<le> t then Some t else None)"
  using map_of_filter_entries [of "im_sent_ids m" "\<lambda>i t. \<not> t < im_now_ms c m - ic_dedup_window_ms (im_config m)" i]
    assms
  by (auto simp: sent_at_def cleanup_expired_def Let_def im_inv_def not_less split: option.splits)

lemma im_inv_init [simp]: "im_inv (idempotency_init cfg hc)"
  by (simp add: im_inv_def idempotency_init_def)

lemma im_inv_ops [inv_intros]:
  assumes "im_inv m"
  shows "im_inv (mark_sent c i m)" and "im_inv (cleanup_expired c m)"
    and "im_inv (snd (generate_client_order_id c sy sd st m))"
  using assms by (simp_all add: im_inv_def mark_sent_def cleanup_expired_def Let_def)

lemma im_config_ops [simp]:
  "im_config (mark_sent c i m) = im_config m" "im_config (cleanup_expired c m) = im_config m"
  "im_has_clock (mark_sent c i m) = im_has_clock m"
  "im_has_clock (cleanup_expired c m) = im_has_clock m"
  by (simp_all add: mark_sent_def cleanup_expired_def Let_def)

text \<open>Testing and marking an id is a deduplicating structure in the sense of \<open>dedup\<close>.\<close>

interpretation sent_ids: dedup im_inv im_is_duplicate "\<lambda>i m. (im_is_duplicate i m, mark_sent c i m)" for c
proof unfold_locales
  fix m i assume "im_inv m"
  then show "im_is_duplicate i (snd (im_is_duplicate i m, mark_sent c i m))"
    by (simp add: is_duplicate_sent_at sent_at_mark)
qed (simp_all add: im_inv_ops, simp add: mark_sent_def im_is_duplicate_def)

datatype im_call =
    Generate clk symbol side strategy_id
  | MarkSent clk string
  | Cleanup clk

fun im_step :: "im_call \<Rightarrow> idempotency_manager \<Rightarrow> idempotency_manager" where
  "im_step (Generate c sy sd st) m = snd (generate_client_order_id c sy sd st m)"
| "im_step (MarkSent c i) m = mark_sent c i m"
| "im_step (Cleanup c) m = cleanup_expired c m"

fun call_clk :: "im_call \<Rightarrow> clk" where
  "call_clk (Generate c sy sd st) = c"
| "call_clk (MarkSent c i) = c"
| "call_clk (Cleanup c) = c"

lemma im_step_inv [inv_intros]: "im_inv m \<Longrightarrow> im_inv (im_step k m)"
  by (cases k) (simp_all add: im_inv_ops)

lemma im_step_keeps [simp]:
  "im_config (im_step k m) = im_config m" "im_now_ms c (im_step k m) = im_now_ms c m"
  by (cases k; simp add: im_now_ms_def)+

lemma im_steps_keep [simp]:
  "im_config (fold im_step ks m) = im_config m" "im_now_ms c (fold im_step ks m) = im_now_ms c m"
  by (induction ks arbitrary: m) simp_all

lemma im_steps_inv: "im_inv m \<Longrightarrow> im_inv (fold im_step ks m)"
  by (induction ks arbitrary: m) (simp_all add: im_step_inv)

lemma remembered_step:
  assumes "im_inv m" and "sent_at i m = Some t"
    and "im_now_ms (call_clk k) m \<le> t + ic_dedup_window_ms (im_config m)"
  shows "sent_at i (im_step k m) = Some t"
proof (cases k)
  case (Generate c sy sd st)
  then show ?thesis using assms by (simp add: sent_at_def)
next
  case (MarkSent c j)
  then show ?thesis using assms by (auto simp: sent_at_mark)
next
  case (Cleanup c)
  then show ?thesis using assms by (simp add: sent_at_cleanup)
qed

lemma remembered_steps:
  assumes "im_inv m" and "sent_at i m = Some t"
    and "list_all (\<lambda>k. im_now_ms (call_clk k) m \<le> t + ic_dedup_window_ms (im_config m)) ks"
  shows "sent_at i (fold im_step ks m) = Some t"
  using assms
proof (induction ks arbitrary: m)
  case (Cons k ks)
  then show ?case by (simp add: remembered_step im_step_inv)
qed simp

section \<open>Properties\<close>

text \<open>
  Ids generated for up to \<open>2\<^sup>6\<^sup>4\<close> consecutive orders are pairwise distinct, whatever the
  symbols, strategies and clock readings, even when the clock stands still or runs
  backwards.
\<close>

theorem client_ids_distinct:
  assumes "length rs \<le> 2 ^ 64"
  shows "distinct (generate_all rs (idempotency_init cfg has_clock))"
  by (rule generate_all_distinct [OF assms])

definition sample_clk :: "timestamp \<Rightarrow> clk" where
  "sample_clk t = \<lparr> now = t, wall = t, steady = t \<rparr>"

theorem client_ids_distinct_witness:
  "distinct (generate_all (replicate 2 (sample_clk 5, ''BTCUSDT'', Buy, ''s''))
     (idempotency_init default_idempotency_config True))"
  by (rule client_ids_distinct) simp

text \<open>
  An id marked as sent is recognised as a duplicate throughout the deduplication window,
  whatever else is marked, generated or cleaned up in between; the first cleanup after
  the window forgets it, also when the id was marked again meanwhile.
\<close>

theorem duplicate_exactly_within_window:
  assumes "im_inv m" and "\<not> im_is_duplicate i m"
    and "list_all (\<lambda>k. im_now_ms (call_clk k) m
            \<le> im_now_ms c m + ic_dedup_window_ms (im_config m)) ks"
  shows "im_is_duplicate i (fold im_step ks (mark_sent c i m)) \<and>
         (\<forall>c'. im_now_ms c m + ic_dedup_window_ms (im_config m) < im_now_ms c' m \<longrightarrow>
            \<not> im_is_duplicate i (cleanup_expired c' (fold im_step ks (mark_sent c i m))))"
proof -
  let ?m = "mark_sent c i m" and ?t = "im_now_ms c m"
  have now: "im_now_ms c' ?m = im_now_ms c' m" for c' by (simp add: im_now_ms_def)
  have inv: "im_inv ?m" by (rule im_inv_ops [OF assms(1)])
  have "sent_at i ?m = Some ?t" using assms(2) by (simp add: sent_at_mark is_duplicate_sent_at)
  then have s: "sent_at i (fold im_step ks ?m) = Some ?t"
    using assms(3) by (intro remembered_steps [OF inv]) (simp_all add: now)
  show ?thesis
    using s by (simp add: is_duplicate_sent_at sent_at_cleanup [OF im_steps_inv [OF inv]] now)
qed

theorem duplicate_exactly_within_window_witness:
  "let m = idempotency_init default_idempotency_config True; c = sample_clk 7000000;
       ks = [Cleanup (sample_clk 300006000000), MarkSent (sample_clk 299000000000) ''x'']
   in im_is_duplicate ''x'' (fold im_step ks (mark_sent c ''x'' m)) \<and>
      \<not> im_is_duplicate ''x'' (cleanup_expired (sample_clk 400000000000)
            (fold im_step ks (mark_sent c ''x'' m)))"
proof -
  let ?m = "idempotency_init default_idempotency_config True" and ?c = "sample_clk 7000000"
  let ?ks = "[Cleanup (sample_clk 300006000000), MarkSent (sample_clk 299000000000) ''x'']"
  have ms: "im_now_ms (sample_clk t) ?m = t sdiv 1000000" for t
    by (simp add: im_now_ms_def sample_clk_def idempotency_init_def)
  have w: "ic_dedup_window_ms (im_config ?m) = 300000"
    by (simp add: idempotency_init_def default_idempotency_config_def)
  have "\<not> im_is_duplicate ''x'' ?m"
    by (simp add: im_is_duplicate_def al_contains_def idempotency_init_def)
  moreover have "list_all (\<lambda>k. im_now_ms (call_clk k) ?m
      \<le> im_now_ms ?c ?m + ic_dedup_window_ms (im_config ?m)) ?ks"
    by (simp add: ms w signed_divide_int_def)
  moreover have "im_now_ms ?c ?m + ic_dedup_window_ms (im_config ?m)
      < im_now_ms (sample_clk 400000000000) ?m"
    by (simp add: ms w signed_divide_int_def)
  ultimately show ?thesis
    using duplicate_exactly_within_window [of ?m "''x''" ?c ?ks] by (simp add: Let_def)
qed

end
