(* ===== verification/Market_Events.thy ===== *)
theory Market_Events
  imports Common_Types
begin

text \<open>
  The normalized market events of \<^verbatim>\<open>src/src/normalizer/normalized_events.hpp\<close> that the
  order book and the buffers consume.  The two exchange sequence numbers are
  \<^verbatim>\<open>uint64_t\<close>.
\<close>

type_synonym u64 = "64 word"

record event_envelope =
  exchange_ts :: timestamp
  received_ts :: timestamp
  processed_ts :: timestamp
  ev_symbol :: symbol
  ev_source :: string
  sequence_id :: u64

record normalized_ticker =
  tk_envelope :: event_envelope
  tk_last_price :: double
  tk_bid :: double
  tk_ask :: double
  tk_volume_24h :: double
  tk_change_24h_pct :: double
  tk_spread :: double
  tk_spread_bps :: double

record normalized_trade =
  nt_envelope :: event_envelope
  nt_trade_id :: string
  nt_price :: double
  nt_size :: double
  nt_side :: side
  nt_is_aggressive :: bool

record book_level =
  lv_price :: double
  lv_size :: double

datatype book_update_type = UpdSnapshot | UpdDelta

record normalized_order_book =
  nb_envelope :: event_envelope
  nb_update_type :: book_update_type
  nb_bids :: "book_level list"
  nb_asks :: "book_level list"
  nb_sequence :: u64

record normalized_candle =
  nc_envelope :: event_envelope
  nc_interval :: string
  nc_open :: double
  nc_high :: double
  nc_low :: double
  nc_close :: double
  nc_volume :: double
  nc_base_volume :: double
  nc_is_closed :: bool

end
