(* ===== verification/Normalizer.thy ===== *)
theory Normalizer
  imports Market_Events Printing
begin

text \<open>
  The Bitget normalizer of \<^verbatim>\<open>src/src/normalizer/normalizer.cpp\<close>: the lexical helpers
  (\<^verbatim>\<open>std::from_chars\<close> for doubles and integers, case-insensitive comparison), the four
  record parsers with their validation, and the dispatch of one WebSocket message over
  its channel.  The JSON reader is Boost's and enters as the parameter \<open>json_parse\<close>; its
  values are the datatype \<open>json\<close>.  A read of the reading clock is a parameter of each
  call.  \<^verbatim>\<open>RawOrderBook::sequence\<close> has no initializer, so a book without \<^verbatim>\<open>seqId\<close> carries
  an arbitrary number, the parameter \<open>uninit\<close>.
\<close>

section \<open>Lexical helpers\<close>

definition tolower :: "char \<Rightarrow> char" where
  "tolower c = (let n = (of_char c :: nat) in if 65 \<le> n \<and> n \<le> 90 then char_of (n + 32) else c)"

definition toupper :: "char \<Rightarrow> char" where
  "toupper c = (let n = (of_char c :: nat) in if 97 \<le> n \<and> n \<le> 122 then char_of (n - 32) else c)"

definition iequals :: "string \<Rightarrow> string \<Rightarrow> bool" where
  "iequals a b \<longleftrightarrow> map tolower a = map tolower b"

definition ascii_upper :: "string \<Rightarrow> string" where
  "ascii_upper s = map toupper s"

definition has_prefix :: "string \<Rightarrow> string \<Rightarrow> bool" where
  "has_prefix p s \<longleftrightarrow> take (length p) s = p"

text \<open>
  \<^verbatim>\<open>std::from_chars\<close> in the general format: an optional minus sign, then \<^verbatim>\<open>inf\<close>,
  \<^verbatim>\<open>nan\<close> or a decimal with optional fraction and exponent; the longest such prefix is
  read and the rest ignored.  \<open>None\<close> stands for an error code, a range error included.
\<close>

definition scan_exponent :: "string \<Rightarrow> int" where
  "scan_exponent s =
    (case s of [] \<Rightarrow> 0
     | c # t \<Rightarrow>
        if c = CHR ''e'' \<or> c = CHR ''E'' then
          (let neg = (has_prefix ''-'' t); u = (if neg \<or> has_prefix ''+'' t then tl t else t);
               ds = takeWhile is_digit u
           in if ds = [] then 0 else if neg then - int (read_nat ds) else int (read_nat ds))
        else 0)"

definition scan_decimal :: "string \<Rightarrow> real option" where
  "scan_decimal s =
    (let ip = takeWhile is_digit s; r1 = dropWhile is_digit s;
         dot = has_prefix ''.'' r1;
         fp = (if dot then takeWhile is_digit (tl r1) else []);
         r2 = (if dot then dropWhile is_digit (tl r1) else r1)
     in if ip = [] \<and> fp = [] then None
        else Some (real (read_nat (ip @ fp)) / 10 ^ length fp * 10 powi scan_exponent r2))"

definition scan_unsigned :: "string \<Rightarrow> double option" where
  "scan_unsigned s =
    (if iequals (take 3 s) ''inf'' then Some PInf
     else if iequals (take 3 s) ''nan'' then Some NaN
     else case scan_decimal s of None \<Rightarrow> None
          | Some x \<Rightarrow> if x = 0 then Some 0
                     else if isfinite (mk x) \<and> mk x \<noteq> 0 then Some (mk x) else None)"

definition from_chars_double :: "string \<Rightarrow> double option" where
  "from_chars_double s =
    (if has_prefix ''-'' s then map_option uminus (scan_unsigned (tl s)) else scan_unsigned s)"

definition from_chars_int64 :: "string \<Rightarrow> int option" where
  "from_chars_int64 s =
    (let neg = has_prefix ''-'' s; ds = takeWhile is_digit (if neg then tl s else s);
         n = (if neg then - int (read_nat ds) else int (read_nat ds))
     in if ds = [] \<or> n < - (2 ^ 63) \<or> 2 ^ 63 \<le> n then None else Some n)"

definition to_double :: "string \<Rightarrow> double" where
  "to_double s = (if s = [] then 0 else case from_chars_double s of Some d \<Rightarrow> d | None \<Rightarrow> 0)"

definition to_int64 :: "string \<Rightarrow> int" where
  "to_int64 s = (if s = [] then 0 else case from_chars_int64 s of Some n \<Rightarrow> n | None \<Rightarrow> 0)"

definition ms_to_ns :: "int \<Rightarrow> timestamp" where
  "ms_to_ns ms = ms * 1000000"

definition interval_to_ms :: "string \<Rightarrow> int" where
  "interval_to_ms i =
    (if i = ''1m'' then 60000
     else if i = ''1min'' \<or> i = ''1Min'' then 60000
     else if i = ''3m'' then 180000
     else if i = ''3min'' \<or> i = ''3Min'' then 180000
     else if i = ''5m'' then 300000
     else if i = ''5min'' \<or> i = ''5Min'' then 300000
     else if i = ''15m'' then 900000
     else if i = ''15min'' \<or> i = ''15Min'' then 900000
     else if i = ''30m'' then 1800000
     else if i = ''30min'' \<or> i = ''30Min'' then 1800000
     else if i = ''1h'' \<or> i = ''1H'' then 3600000
     else if i = ''2h'' \<or> i = ''2H'' then 7200000
     else if i = ''4h'' \<or> i = ''4H'' then 14400000
     else if i = ''6h'' \<or> i = ''6H'' \<or> i = ''6Hutc'' then 21600000
     else if i = ''12h'' \<or> i = ''12H'' \<or> i = ''12Hutc'' then 43200000
     else if i = ''1d'' \<or> i = ''1D'' \<or> i = ''1Dutc'' then 86400000
     else if i = ''3d'' \<or> i = ''3D'' \<or> i = ''3Dutc'' then 259200000
     else if i = ''1w'' \<or> i = ''1W'' \<or> i = ''1Wutc'' then 604800000
     else if i = ''1M'' \<or> i = ''1Mutc'' then 2592000000
     else 0)"

section \<open>Raw records and state\<close>

record raw_ticker =
  rt_symbol :: string
  rt_last :: string
  rt_bid :: string
  rt_ask :: string
  rt_volume_24h :: string
  rt_change_24h :: string
  rt_ts :: int

record raw_trade =
  rd_symbol :: string
  rd_trade_id :: string
  rd_price :: string
  rd_size :: string
  rd_side :: string
  rd_ts :: int

record raw_book_level =
  rl_price :: string
  rl_size :: string

record raw_order_book =
  ro_symbol :: string
  ro_action :: string
  ro_bids :: "raw_book_level list"
  ro_asks :: "raw_book_level list"
  ro_ts :: int
  ro_sequence :: u64

record raw_candle =
  rc_symbol :: string
  rc_interval :: string
  rc_ts :: int
  rc_open :: string
  rc_high :: string
  rc_low :: string
  rc_close :: string
  rc_volume :: string
  rc_base_volume :: string
  rc_is_closed :: bool

datatype normalized_event =
    EvTicker normalized_ticker
  | EvTrade normalized_trade
  | EvBook normalized_order_book
  | EvCandle normalized_candle

record normalizer =
  nz_symbols :: "symbol list"
  nz_sequence :: u64
  nz_rejected_count :: u64

definition normalizer_init :: normalizer where
  "normalizer_init = \<lparr> nz_symbols = [], nz_sequence = 0, nz_rejected_count = 0 \<rparr>"

definition set_symbols :: "symbol list \<Rightarrow> normalizer \<Rightarrow> normalizer" where
  "set_symbols ss z = z \<lparr> nz_symbols := ss \<rparr>"

definition fill_envelope ::
  "timestamp \<Rightarrow> string \<Rightarrow> int \<Rightarrow> timestamp \<Rightarrow> normalizer \<Rightarrow> event_envelope \<times> normalizer" where
  "fill_envelope t_now sy exchange_ts_ms received_ns z =
    (let sq = nz_sequence z + 1 in
     (\<lparr> exchange_ts = ms_to_ns exchange_ts_ms, received_ts = received_ns, processed_ts = t_now,
        ev_symbol = sy, ev_source = ''bitget'', sequence_id = sq \<rparr>,
      z \<lparr> nz_sequence := sq \<rparr>))"

definition reject :: "normalizer \<Rightarrow> 'a option \<times> normalizer" where
  "reject z = (None, z \<lparr> nz_rejected_count := nz_rejected_count z + 1 \<rparr>)"

section \<open>Record parsers\<close>

definition parse_ticker ::
  "timestamp \<Rightarrow> raw_ticker \<Rightarrow> timestamp \<Rightarrow> normalizer \<Rightarrow> normalized_ticker option \<times> normalizer" where
  "parse_ticker t_now raw received_ns z =
    (let (env, z1) = fill_envelope t_now (rt_symbol raw) (rt_ts raw) received_ns z;
         last_val = to_double (rt_last raw); bid_val = to_double (rt_bid raw);
         ask_val = to_double (rt_ask raw); hi = lit (10 ^ 9)
     in if last_val \<le> 0 \<or> bid_val \<le> 0 \<or> ask_val \<le> 0 \<or> hi < last_val \<or> hi < bid_val \<or> hi < ask_val
        then reject z1
        else if ask_val < bid_val then reject z1
        else let spread = ask_val - bid_val; mid = (ask_val + bid_val) * lit (1 / 2) in
          (Some \<lparr> tk_envelope = env, tk_last_price = last_val, tk_bid = bid_val, tk_ask = ask_val,
                  tk_volume_24h = to_double (rt_volume_24h raw),
                  tk_change_24h_pct = to_double (rt_change_24h raw), tk_spread = spread,
                  tk_spread_bps = (if 0 < mid then spread / mid * lit 10000 else 0) \<rparr>, z1))"

definition parse_trade ::
  "timestamp \<Rightarrow> raw_trade \<Rightarrow> timestamp \<Rightarrow> normalizer \<Rightarrow> normalized_trade option \<times> normalizer" where
  "parse_trade t_now raw received_ns z =
    (let price_val = to_double (rd_price raw); size_val = to_double (rd_size raw) in
     if price_val \<le> 0 \<or> size_val \<le> 0 then reject z
     else let (env, z1) = fill_envelope t_now (rd_symbol raw) (rd_ts raw) received_ns z in
       if rd_trade_id raw = [] then reject z1
       else let is_sell = iequals (rd_side raw) ''sell'' in
         (Some \<lparr> nt_envelope = env, nt_trade_id = rd_trade_id raw, nt_price = price_val,
                 nt_size = size_val, nt_side = (if is_sell then Sell else Buy),
                 nt_is_aggressive = is_sell \<rparr>, z1))"

definition parse_levels :: "raw_book_level list \<Rightarrow> book_level list" where
  "parse_levels ls =
    [\<lparr> lv_price = to_double (rl_price l), lv_size = to_double (rl_size l) \<rparr>.
       l \<leftarrow> ls, \<not> to_double (rl_price l) \<le> 0]"

definition parse_order_book ::
  "timestamp \<Rightarrow> raw_order_book \<Rightarrow> timestamp \<Rightarrow> normalizer \<Rightarrow> normalized_order_book option \<times> normalizer" where
  "parse_order_book t_now raw received_ns z =
    (let (env, z1) = fill_envelope t_now (ro_symbol raw) (ro_ts raw) received_ns z;
         update_type = (if iequals (ro_action raw) ''snapshot'' then Some UpdSnapshot
                        else if iequals (ro_action raw) ''update'' then Some UpdDelta else None)
     in case update_type of None \<Rightarrow> reject z1
        | Some ty \<Rightarrow>
           (let bids = parse_levels (ro_bids raw); asks = parse_levels (ro_asks raw) in
            if bids = [] \<or> asks = [] then reject z1
            else if lv_price (hd asks) \<le> lv_price (hd bids) then reject z1
            else (Some \<lparr> nb_envelope = env, nb_update_type = ty, nb_bids = bids, nb_asks = asks,
                         nb_sequence = ro_sequence raw \<rparr>, z1)))"

definition kMinPrice :: double where "kMinPrice = lit (1 / 10 ^ 4)"
definition kMaxPrice :: double where "kMaxPrice = lit (10 ^ 8)"

definition parse_candle ::
  "timestamp \<Rightarrow> raw_candle \<Rightarrow> timestamp \<Rightarrow> normalizer \<Rightarrow> normalized_candle option \<times> normalizer" where
  "parse_candle t_now raw received_ns z =
    (let op = to_double (rc_open raw); h = to_double (rc_high raw); l = to_double (rc_low raw);
         c = to_double (rc_close raw); v = to_double (rc_volume raw)
     in if op \<le> 0 \<or> h \<le> 0 \<or> l \<le> 0 \<or> c \<le> 0 \<or>
           op < kMinPrice \<or> h < kMinPrice \<or> l < kMinPrice \<or> c < kMinPrice \<or>
           kMaxPrice < op \<or> kMaxPrice < h \<or> kMaxPrice < l \<or> kMaxPrice < c then reject z
        else if h < l then reject z
        else if h < op \<or> h < c \<or> op < l \<or> c < l then reject z
        else if v < 0 then reject z
        else let (env, z1) = fill_envelope t_now (rc_symbol raw) (rc_ts raw) received_ns z in
          (Some \<lparr> nc_envelope = env, nc_interval = rc_interval raw, nc_open = op, nc_high = h,
                  nc_low = l, nc_close = c, nc_volume = v,
                  nc_base_volume = to_double (rc_base_volume raw),
                  nc_is_closed = rc_is_closed raw \<rparr>, z1))"

section \<open>Message dispatch\<close>

text \<open>
  The values of the JSON reader: numbers that fit \<^verbatim>\<open>int64_t\<close>, those that fit only
  \<^verbatim>\<open>uint64_t\<close>, other numbers, and objects as lists of entries with distinct keys.
\<close>

datatype json =
    JNull | JBool bool | JInt int | JUInt nat | JReal double
  | JString string | JArray "json list" | JObject "(string \<times> json) list"

fun if_string :: "json \<Rightarrow> string option" where
  "if_string (JString s) = Some s"
| "if_string _ = None"

fun if_array :: "json \<Rightarrow> json list option" where
  "if_array (JArray xs) = Some xs"
| "if_array _ = None"

fun if_object :: "json \<Rightarrow> (string \<times> json) list option" where
  "if_object (JObject es) = Some es"
| "if_object _ = None"

definition safe_string_value :: "json \<Rightarrow> string" where
  "safe_string_value v = (case if_string v of Some s \<Rightarrow> s | None \<Rightarrow> [])"

definition safe_string :: "(string \<times> json) list \<Rightarrow> string \<Rightarrow> string" where
  "safe_string obj key = (case map_of obj key of None \<Rightarrow> [] | Some v \<Rightarrow> safe_string_value v)"

definition raw_ticker_of :: "string \<Rightarrow> (string \<times> json) list \<Rightarrow> raw_ticker" where
  "raw_ticker_of inst_id obj =
    \<lparr> rt_symbol = (if inst_id = [] then safe_string obj ''instId'' else inst_id),
      rt_last = safe_string obj ''lastPr'', rt_bid = safe_string obj ''bidPr'',
      rt_ask = safe_string obj ''askPr'', rt_volume_24h = safe_string obj ''baseVolume'',
      rt_change_24h = safe_string obj ''change24h'', rt_ts = to_int64 (safe_string obj ''ts'') \<rparr>"

definition raw_trade_of :: "string \<Rightarrow> (string \<times> json) list \<Rightarrow> raw_trade" where
  "raw_trade_of inst_id obj =
    \<lparr> rd_symbol = inst_id, rd_trade_id = safe_string obj ''tradeId'',
      rd_price = safe_string obj ''price'', rd_size = safe_string obj ''size'',
      rd_side = safe_string obj ''side'', rd_ts = to_int64 (safe_string obj ''ts'') \<rparr>"

definition json_levels :: "json option \<Rightarrow> raw_book_level list" where
  "json_levels v =
    (case Option.bind v if_array of None \<Rightarrow> []
     | Some ls \<Rightarrow>
        [\<lparr> rl_price = safe_string_value (p ! 0), rl_size = safe_string_value (p ! 1) \<rparr>.
           l \<leftarrow> ls, p \<leftarrow> (case if_array l of Some p \<Rightarrow> [p] | None \<Rightarrow> []), 2 \<le> length p])"

definition json_sequence :: "u64 \<Rightarrow> (string \<times> json) list \<Rightarrow> u64" where
  "json_sequence uninit obj =
    (case map_of obj ''seqId'' of
       None \<Rightarrow> uninit
     | Some (JInt n) \<Rightarrow> of_int n
     | Some (JUInt n) \<Rightarrow> of_nat n
     | Some _ \<Rightarrow> of_int (to_int64 (safe_string obj ''seqId'')))"

definition raw_book_of :: "u64 \<Rightarrow> string \<Rightarrow> string \<Rightarrow> (string \<times> json) list \<Rightarrow> raw_order_book" where
  "raw_book_of uninit inst_id action obj =
    \<lparr> ro_symbol = inst_id, ro_action = action, ro_bids = json_levels (map_of obj ''bids''),
      ro_asks = json_levels (map_of obj ''asks''), ro_ts = to_int64 (safe_string obj ''ts''),
      ro_sequence = json_sequence uninit obj \<rparr>"

definition raw_candle_of :: "string \<Rightarrow> string \<Rightarrow> int \<Rightarrow> int \<Rightarrow> json list \<Rightarrow> raw_candle" where
  "raw_candle_of inst_id interval interval_ms now_ms arr =
    (let f = (\<lambda>i. safe_string_value (arr ! i)); ts = to_int64 (f 0) in
     \<lparr> rc_symbol = inst_id, rc_interval = interval, rc_ts = ts, rc_open = f 1, rc_high = f 2,
       rc_low = f 3, rc_close = f 4, rc_volume = f 5, rc_base_volume = f 6,
       rc_is_closed = (if 7 < length arr \<and> f 7 = ''1'' then True else ts + interval_ms \<le> now_ms) \<rparr>)"

text \<open>
  One item of the \<^verbatim>\<open>data\<close> array on its channel: the event passed to the callback, if
  any.  Items of the wrong shape are skipped.
\<close>

definition parse_item ::
  "timestamp \<Rightarrow> u64 \<Rightarrow> timestamp \<Rightarrow> string \<Rightarrow> string \<Rightarrow> string \<Rightarrow> json \<Rightarrow> normalizer
   \<Rightarrow> normalized_event option \<times> normalizer" where
  "parse_item t_now uninit received_ns channel inst_id action item z =
    (if channel = ''ticker'' then
       (case if_object item of None \<Rightarrow> (None, z)
        | Some obj \<Rightarrow> apfst (map_option EvTicker) (parse_ticker t_now (raw_ticker_of inst_id obj) received_ns z))
     else if channel = ''trade'' then
       (case if_object item of None \<Rightarrow> (None, z)
        | Some obj \<Rightarrow> apfst (map_option EvTrade) (parse_trade t_now (raw_trade_of inst_id obj) received_ns z))
     else if has_prefix ''books'' channel then
       (case if_object item of None \<Rightarrow> (None, z)
        | Some obj \<Rightarrow> apfst (map_option EvBook)
            (parse_order_book t_now (raw_book_of uninit inst_id action obj) received_ns z))
     else
       (case if_array item of None \<Rightarrow> (None, z)
        | Some arr \<Rightarrow>
            if length arr < 7 then (None, z)
            else let interval = drop 6 channel in
              apfst (map_option EvCandle)
                (parse_candle t_now (raw_candle_of inst_id interval (interval_to_ms interval)
                    (t_now sdiv 1000000) arr) received_ns z)))"

definition accept_item ::
  "(json \<Rightarrow> normalizer \<Rightarrow> normalized_event option \<times> normalizer) \<Rightarrow> json
   \<Rightarrow> normalized_event list \<times> normalizer \<Rightarrow> normalized_event list \<times> normalizer" where
  "accept_item parse item = (\<lambda>(evs, z).
     case parse item z of (Some e, z') \<Rightarrow> (evs @ [e], z') | (None, z') \<Rightarrow> (evs, z'))"

definition wanted :: "normalizer \<Rightarrow> string \<Rightarrow> string \<Rightarrow> bool" where
  "wanted z inst_type inst_id \<longleftrightarrow>
     (inst_type = [] \<or> iequals inst_type ''USDT-FUTURES'' \<or> iequals inst_type ''mc'' \<or>
      iequals inst_type ''umcbl'') \<and>
     (inst_id = [] \<or> nz_symbols z = [] \<or>
      list_ex (\<lambda>s. ascii_upper s = ascii_upper inst_id) (nz_symbols z))"

definition known_channel :: "string \<Rightarrow> bool" where
  "known_channel channel \<longleftrightarrow> channel = ''ticker'' \<or> channel = ''trade'' \<or>
     has_prefix ''books'' channel \<or> has_prefix ''candle'' channel"

definition process_raw_message ::
  "(string \<Rightarrow> json option) \<Rightarrow> timestamp \<Rightarrow> u64 \<Rightarrow> string \<Rightarrow> timestamp \<Rightarrow> normalizer
   \<Rightarrow> normalized_event list \<times> normalizer" where
  "process_raw_message json_parse t_now uninit payload received_ns z =
    (if payload = [] then ([], z)
     else case Option.bind (json_parse payload) if_object of None \<Rightarrow> ([], z)
     | Some robj \<Rightarrow> (case Option.bind (map_of robj ''arg'') if_object of None \<Rightarrow> ([], z)
     | Some arg \<Rightarrow>
        (let channel = safe_string arg ''channel''; inst_id = safe_string arg ''instId'' in
         if \<not> wanted z (safe_string arg ''instType'') inst_id then ([], z)
         else case Option.bind (map_of robj ''data'') if_array of None \<Rightarrow> ([], z)
         | Some items \<Rightarrow>
            (let action = safe_string robj ''action'' in
             if items = [] then ([], z)
             else if \<not> known_channel channel then ([], z)
             else if has_prefix ''candle'' channel \<and> interval_to_ms (drop 6 channel) = 0 then
               ([], z \<lparr> nz_rejected_count := nz_rejected_count z + 1 \<rparr>)
             else fold (accept_item (parse_item t_now uninit received_ns channel inst_id action))
                    items ([], z)))))"

end
