(* ===== verification/Market_Buffers.thy ===== *)
theory Market_Buffers
  imports Ring_Buffer Market_Events
begin

text \<open>
  The trade tape of \<^verbatim>\<open>src/src/buffers/trade_buffer.hpp\<close> and the candle history of
  \<^verbatim>\<open>src/src/buffers/candle_buffer.hpp\<close>, both on the ring of \<open>Ring_Buffer\<close>, with the
  dispatch of \<^verbatim>\<open>FeatureEngine::on_candle\<close> that decides which candle operation an
  event takes.
\<close>

section \<open>The trade tape\<close>

record trade_record =
  tr_ts :: timestamp
  tr_price :: double
  tr_size :: double
  tr_side :: side
  tr_is_aggressive :: bool

type_synonym trade_buffer = "trade_record ring_buffer"

definition trade_of :: "normalized_trade \<Rightarrow> trade_record" where
  "trade_of t = \<lparr> tr_ts = exchange_ts (nt_envelope t), tr_price = nt_price t, tr_size = nt_size t,
                  tr_side = nt_side t, tr_is_aggressive = nt_is_aggressive t \<rparr>"

definition tb_push :: "normalized_trade \<Rightarrow> trade_buffer \<Rightarrow> trade_buffer" where
  "tb_push t b = rb_push (trade_of t) b"

text \<open>The records that the loops over the last \<open>n\<close> entries visit, in their order.\<close>

definition tb_recent :: "nat \<Rightarrow> trade_buffer \<Rightarrow> trade_record list" where
  "tb_recent n b =
    (let start = (if n < rb_size b then rb_size b - n else 0) in map (rb_at b) [start..<rb_size b])"

fun add_pv :: "trade_record \<Rightarrow> double \<times> double \<Rightarrow> double \<times> double" where
  "add_pv t (sum_pv, sum_v) = (sum_pv + tr_price t * tr_size t, sum_v + tr_size t)"

definition vwap :: "nat \<Rightarrow> trade_buffer \<Rightarrow> double" where
  "vwap n0 b =
    (let n = min n0 (rb_size b) in
     if n = 0 then 0
     else let (sum_pv, sum_v) = fold add_pv (tb_recent n b) (0, 0)
          in if 0 < sum_v then sum_pv / sum_v else 0)"

fun add_side :: "trade_record \<Rightarrow> double \<times> double \<Rightarrow> double \<times> double" where
  "add_side t (buy_vol, sell_vol) =
    (if tr_side t = Buy then (buy_vol + tr_size t, sell_vol) else (buy_vol, sell_vol + tr_size t))"

definition buy_sell_ratio :: "nat \<Rightarrow> trade_buffer \<Rightarrow> double" where
  "buy_sell_ratio n0 b =
    (let n = min n0 (rb_size b) in
     if n = 0 then 1
     else let (buy_vol, sell_vol) = fold add_side (tb_recent n b) (0, 0)
          in if 0 < sell_vol then std_min (buy_vol / sell_vol) (lit 100)
             else if 0 < buy_vol then lit 100 else 1)"

fun add_aggressive :: "trade_record \<Rightarrow> double \<times> double \<Rightarrow> double \<times> double" where
  "add_aggressive t (agg_volume, total_volume) =
    (if tr_is_aggressive t then agg_volume + tr_size t else agg_volume, total_volume + tr_size t)"

definition aggressive_flow :: "nat \<Rightarrow> trade_buffer \<Rightarrow> double" where
  "aggressive_flow n0 b =
    (let n = min n0 (rb_size b) in
     if n = 0 then lit (1 / 2)
     else let (agg_volume, total_volume) = fold add_aggressive (tb_recent n b) (0, 0)
          in if 0 < total_volume then agg_volume / total_volume else lit (1 / 2))"

section \<open>The candle history\<close>

record ohlcv_candle =
  cd_open_time :: timestamp
  cd_open :: double
  cd_high :: double
  cd_low :: double
  cd_close :: double
  cd_volume :: double
  cd_is_closed :: bool

type_synonym candle_buffer = "ohlcv_candle ring_buffer"

definition default_candle :: ohlcv_candle where
  "default_candle = \<lparr> cd_open_time = 0, cd_open = 0, cd_high = 0, cd_low = 0, cd_close = 0,
                      cd_volume = 0, cd_is_closed = False \<rparr>"

definition candle_of :: "normalized_candle \<Rightarrow> ohlcv_candle" where
  "candle_of c = \<lparr> cd_open_time = exchange_ts (nc_envelope c), cd_open = nc_open c,
                   cd_high = nc_high c, cd_low = nc_low c, cd_close = nc_close c,
                   cd_volume = nc_volume c, cd_is_closed = nc_is_closed c \<rparr>"

definition cb_push_raw :: "ohlcv_candle \<Rightarrow> candle_buffer \<Rightarrow> candle_buffer" where
  "cb_push_raw c b = rb_push c b"

definition cb_push :: "normalized_candle \<Rightarrow> candle_buffer \<Rightarrow> candle_buffer" where
  "cb_push candle b =
    (let c = candle_of candle in
     case rb_back b of
       Some back \<Rightarrow>
         if nc_is_closed candle \<and> \<not> cd_is_closed back
         then rb_set_back (back \<lparr> cd_close := cd_close c,
                                  cd_high := std_max (cd_high back) (cd_high c),
                                  cd_low := std_min (cd_low back) (cd_low c),
                                  cd_volume := std_max (cd_volume back) (cd_volume c),
                                  cd_is_closed := True \<rparr>) b
         else rb_push c b
     | None \<Rightarrow> rb_push c b)"

definition cb_update_last :: "normalized_candle \<Rightarrow> candle_buffer \<Rightarrow> candle_buffer" where
  "cb_update_last candle b =
    (case rb_back b of
       None \<Rightarrow> cb_push candle b
     | Some back \<Rightarrow>
         if cd_is_closed back then cb_push candle b
         else rb_set_back (back \<lparr> cd_high := std_max (cd_high back) (nc_high candle),
                                  cd_low := std_min (cd_low back) (nc_low candle),
                                  cd_close := nc_close candle,
                                  cd_volume := nc_volume candle,
                                  cd_is_closed := nc_is_closed candle \<rparr>) b)"

definition close_prices :: "nat \<Rightarrow> candle_buffer \<Rightarrow> double list" where
  "close_prices n b = extract_field cd_close n b"

definition high_prices :: "nat \<Rightarrow> candle_buffer \<Rightarrow> double list" where
  "high_prices n b = extract_field cd_high n b"

definition low_prices :: "nat \<Rightarrow> candle_buffer \<Rightarrow> double list" where
  "low_prices n b = extract_field cd_low n b"

definition open_prices :: "nat \<Rightarrow> candle_buffer \<Rightarrow> double list" where
  "open_prices n b = extract_field cd_open n b"

definition volumes :: "nat \<Rightarrow> candle_buffer \<Rightarrow> double list" where
  "volumes n b = extract_field cd_volume n b"

definition has_enough :: "nat \<Rightarrow> candle_buffer \<Rightarrow> bool" where
  "has_enough required b \<longleftrightarrow> required \<le> rb_size b"

text \<open>\<^verbatim>\<open>FeatureEngine::on_candle\<close> on the buffer of the candle's symbol and interval.\<close>

definition on_candle :: "normalized_candle \<Rightarrow> candle_buffer \<Rightarrow> candle_buffer" where
  "on_candle candle b =
    (if nc_is_closed candle then cb_push candle b else cb_update_last candle b)"

section \<open>Volume statistics stay in range\<close>

lemma tb_recent_window: "tb_recent n b = keep_last n (rb_list b)"
  by (auto simp: tb_recent_def Let_def keep_last_def rb_list_def drop_map rb_size_def)

text \<open>The tape's fields after any sequence of trades are those of the last \<open>cap\<close> trades.\<close>

lemma tb_run:
  assumes "0 < cap"
  shows "rb_list (fold tb_push ts (rb_init cap d)) = keep_last cap (map trade_of ts)"
proof -
  have "fold tb_push ts (rb_init cap d) = fold rb_push (map trade_of ts) (rb_init cap d)"
    by (simp add: fold_map comp_def tb_push_def [abs_def])
  then show ?thesis using ring.run_from_empty [OF rb_inv_init [OF assms]] by simp
qed

lemma buy_sell_ratio_capped: "\<not> lit 100 < buy_sell_ratio n b"
  by (auto simp: buy_sell_ratio_def Let_def std_min_def one_double_def split: prod.splits)

text \<open>
  A volume accumulated from valid trade sizes is a double of the format and grows with
  every trade, although each addition rounds.
\<close>

definition acc_ok :: "nat \<Rightarrow> double \<Rightarrow> bool" where
  "acc_ok k x \<longleftrightarrow> canonical x \<and> 0 \<le> x \<and> x \<le> Fin (real k * 2 ^ 50)"

lemma acc_ok_0 [simp]: "acc_ok 0 0"
  by (simp add: acc_ok_def zero_double_def)

lemma acc_ok_finite: "acc_ok k x \<Longrightarrow> isfinite x"
  by (cases x) (simp_all add: acc_ok_def zero_double_def)

lemma is_valid_volume_bound: "is_valid_volume v \<Longrightarrow> v \<le> Fin (2 ^ 50)"
proof -
  assume v: "is_valid_volume v"
  have "mk (10 ^ 15) \<le> mk (2 ^ 50)" by (rule mk_mono) simp
  also have "mk (2 ^ 50) = Fin (2 ^ 50)" using mk_of_int [of "2 ^ 50"] by simp
  finally have "kMaxReasonableVolume \<le> Fin (2 ^ 50)" by (simp add: kMaxReasonableVolume_def)
  then show ?thesis using v by (auto simp: is_valid_volume_def intro: double_less_imp_le double_less_le_trans)
qed

lemma acc_ok_add:
  assumes "acc_ok k x" and "is_valid_volume v" and "k < 2 ^ 52"
  shows "acc_ok (Suc k) (x + v)"
proof -
  obtain a b where x: "x = Fin a" and v: "v = Fin b"
    using acc_ok_finite [OF assms(1)] assms(2) by (auto simp: isfinite_iff is_valid_volume_def)
  have a: "0 \<le> a" "a \<le> real k * 2 ^ 50"
    using assms(1) by (simp_all add: acc_ok_def x zero_double_def)
  have b: "0 \<le> b" "b \<le> 2 ^ 50"
    using assms(2) is_valid_volume_bound [OF assms(2)]
    by (simp_all add: is_valid_volume_def v zero_double_def)
  have "repr53 (of_int (int (Suc k)) * 2 powi 50)" using assms(3) by (intro repr53I) auto
  moreover have "real (Suc k) * 2 ^ 50 < 2 ^ 1024"
  proof -
    have "real (Suc k) * 2 ^ 50 \<le> 2 ^ 53 * 2 ^ 50" using assms(3) by simp
    also have "\<dots> < (2 :: real) ^ 1024" unfolding power_add [symmetric] by (rule power_strict_increasing) simp_all
    finally show ?thesis .
  qed
  ultimately have top: "mk (real (Suc k) * 2 ^ 50) = Fin (real (Suc k) * 2 ^ 50)"
    by (intro mk_repr53) (simp_all add: power_int_def)
  have "mk (a + b) \<le> mk (real (Suc k) * 2 ^ 50)" using a b by (intro mk_mono) (simp add: algebra_simps)
  moreover have "0 \<le> mk (a + b)" using a b by (intro mk_nonneg) simp
  ultimately show ?thesis using top by (simp add: acc_ok_def x v canonical_mk)
qed

lemma add_aggressive_range:
  assumes "list_all (\<lambda>t. is_valid_volume (tr_size t)) ts"
    and "acc_ok k agg" and "acc_ok k tot" and "agg \<le> tot" and "k + length ts \<le> 2 ^ 52"
  shows "case fold add_aggressive ts (agg, tot) of (a, t) \<Rightarrow>
           0 \<le> a \<and> a \<le> t \<and> isfinite a \<and> isfinite t"
  using assms
proof (induction ts arbitrary: k agg tot)
  case Nil
  then show ?case by (simp add: acc_ok_finite) (simp add: acc_ok_def)
next
  case (Cons t ts)
  have v: "is_valid_volume (tr_size t)" "isfinite (tr_size t)" "0 \<le> tr_size t"
    using Cons.prems(1) by (simp_all add: is_valid_volume_def)
  have fin: "isfinite agg" "isfinite tot" using Cons.prems(2,3) by (simp_all add: acc_ok_finite)
  have k: "k < 2 ^ 52" using Cons.prems(5) by simp
  have tot: "acc_ok (Suc k) (tot + tr_size t)" by (rule acc_ok_add [OF Cons.prems(3) v(1) k])
  have agg: "acc_ok (Suc k) (agg + tr_size t)" by (rule acc_ok_add [OF Cons.prems(2) v(1) k])
  have skip: "acc_ok (Suc k) agg"
    using Cons.prems(2) fin(1) by (cases agg) (auto simp: acc_ok_def distrib_right)
  have grow: "agg \<le> tot + tr_size t"
    using Cons.prems(3,4) fin v by (intro double_le_trans [OF Cons.prems(4) double_le_add]) (auto simp: acc_ok_def)
  have both: "agg + tr_size t \<le> tot + tr_size t" by (rule double_add_mono [OF Cons.prems(4) fin v(2)])
  show ?case
    using Cons.IH [OF _ agg tot both] Cons.IH [OF _ skip tot grow] Cons.prems(1,5) by simp
qed

lemma aggressive_flow_range:
  assumes "list_all (\<lambda>t. is_valid_volume (tr_size t)) (rb_list b)" and "rb_count b \<le> 2 ^ 52"
  shows "0 \<le> aggressive_flow n b \<and> aggressive_flow n b \<le> 1"
proof -
  let ?m = "min n (rb_size b)"
  obtain a t where f: "fold add_aggressive (tb_recent ?m b) (0, 0) = (a, t)" by force
  have "set (tb_recent ?m b) \<subseteq> set (rb_list b)"
    unfolding tb_recent_window by (rule set_keep_last_subset)
  then have ok: "list_all (\<lambda>t. is_valid_volume (tr_size t)) (tb_recent ?m b)"
    using assms(1) by (auto simp: list_all_iff)
  have len: "0 + length (tb_recent ?m b) \<le> 2 ^ 52"
    using assms(2) by (simp add: tb_recent_window)
  have r: "0 \<le> a" "a \<le> t" "isfinite a" "isfinite t"
    using add_aggressive_range [OF ok acc_ok_0 acc_ok_0 _ len] f by (simp_all add: zero_double_def)
  have "0 < t \<Longrightarrow> 0 \<le> a / t \<and> a / t \<le> 1"
    using r by (simp add: double_div_nonneg double_ratio_le_1)
  then show ?thesis
    using f by (simp add: aggressive_flow_def Let_def mk_half zero_double_def one_double_def)
qed

section \<open>The candle history stays well-formed\<close>

definition candle_wf :: "ohlcv_candle \<Rightarrow> bool" where
  "candle_wf c \<longleftrightarrow> cd_low c \<le> cd_open c \<and> cd_open c \<le> cd_high c \<and>
                 cd_low c \<le> cd_close c \<and> cd_close c \<le> cd_high c"

definition history_ok :: "candle_buffer \<Rightarrow> bool" where
  "history_ok b \<longleftrightarrow> rb_inv b \<and> list_all candle_wf (rb_list b) \<and>
                  list_all cd_is_closed (butlast (rb_list b))"

text \<open>Widening a live candle by a well-formed update keeps it well-formed.\<close>

lemma candle_wf_widen:
  assumes "candle_wf a" and "candle_wf (candle_of c)"
  shows "candle_wf (a \<lparr> cd_high := std_max (cd_high a) (nc_high c),
                       cd_low := std_min (cd_low a) (nc_low c),
                       cd_close := nc_close c, cd_volume := v, cd_is_closed := z \<rparr>)"
proof -
  have n: "cd_high a \<noteq> NaN" "nc_high c \<noteq> NaN" "cd_low a \<noteq> NaN" "nc_low c \<noteq> NaN"
    using assms le_not_NaN by (auto simp: candle_wf_def candle_of_def)
  show ?thesis
    using assms std_max_upper [OF n(1,2)] std_min_lower [OF n(3,4)]
    by (auto simp: candle_wf_def candle_of_def intro: double_le_trans)
qed

text \<open>
  What one candle event does to the history: a live last candle is widened in place,
  otherwise the event starts a new entry.
\<close>

lemma on_candle_cases:
  assumes "rb_inv b"
  obtains (new) "rb_list (on_candle c b) = keep_last (rb_capacity b) (rb_list b @ [candle_of c])"
      and "rb_list b = [] \<or> cd_is_closed (last (rb_list b))"
  | (widen) xs a v where "rb_list b = xs @ [a]" and "\<not> cd_is_closed a"
      and "rb_list (on_candle c b) =
             xs @ [a \<lparr> cd_high := std_max (cd_high a) (nc_high c),
                        cd_low := std_min (cd_low a) (nc_low c),
                        cd_close := nc_close c, cd_volume := v, cd_is_closed := nc_is_closed c \<rparr>]"
proof (cases "rb_list b = [] \<or> cd_is_closed (last (rb_list b))")
  case True
  then have "on_candle c b = rb_push (candle_of c) b"
    by (auto simp: on_candle_def cb_push_def cb_update_last_def rb_back_window Let_def)
  then show ?thesis using new True rb_list_push [OF assms] by simp
next
  case False
  then obtain xs a where xs: "rb_list b = xs @ [a]" by (metis rev_exhaust)
  with False have a: "\<not> cd_is_closed a" by simp
  have bk: "rb_back b = Some a" by (simp add: rb_back_window xs)
  have set: "rb_list (rb_set_back z b) = xs @ [z]" for z
    using rb_list_set_back [OF assms, of z] by (simp add: xs)
  show ?thesis
  proof (cases "nc_is_closed c")
    case True
    then show ?thesis
      using widen [OF xs a, of "std_max (cd_volume a) (nc_volume c)"]
      by (simp add: on_candle_def cb_push_def bk a set Let_def candle_of_def)
  next
    case False
    then show ?thesis
      using widen [OF xs a] by (simp add: on_candle_def cb_update_last_def bk a set)
  qed
qed

lemma rb_inv_on_candle [inv_intros]: "rb_inv b \<Longrightarrow> rb_inv (on_candle c b)"
  by (auto simp: on_candle_def cb_push_def cb_update_last_def Let_def intro: inv_intros
      split: option.splits)

lemma rb_capacity_on_candle [simp]: "rb_capacity (on_candle c b) = rb_capacity b"
  by (simp add: on_candle_def cb_push_def cb_update_last_def Let_def split: option.splits)

lemma set_butlast_keep_last: "set (butlast (keep_last n (xs @ [x]))) \<subseteq> set xs"
  by (auto simp: keep_last_def butlast_append dest: in_set_dropD split: if_splits)

lemma history_ok_on_candle [inv_intros]:
  assumes "history_ok b" and "candle_wf (candle_of c)"
  shows "history_ok (on_candle c b)"
proof -
  have inv: "rb_inv b" and wf: "list_all candle_wf (rb_list b)"
    and cl: "list_all cd_is_closed (butlast (rb_list b))"
    using assms(1) by (simp_all add: history_ok_def)
  show ?thesis
    using inv
  proof (cases rule: on_candle_cases [where c = c])
    case new
    have "list_all cd_is_closed (rb_list b)"
      using cl new(2) by (cases "rb_list b" rule: rev_cases) (auto simp: list_all_iff)
    moreover have "set (rb_list (on_candle c b)) \<subseteq> set (rb_list b @ [candle_of c])"
      unfolding new(1) by (rule set_keep_last_subset)
    moreover have "set (butlast (rb_list (on_candle c b))) \<subseteq> set (rb_list b)"
      unfolding new(1) by (rule set_butlast_keep_last)
    ultimately show ?thesis
      using inv wf assms(2) by (auto simp: history_ok_def list_all_iff rb_inv_on_candle)
  next
    case (widen xs a v)
    have a: "candle_wf a" using wf by (simp add: widen(1))
    show ?thesis
      unfolding history_ok_def widen(3)
      using inv wf cl candle_wf_widen [OF a assms(2)] by (simp add: widen(1) rb_inv_on_candle)
  qed
qed

inductive candle_step :: "candle_buffer \<Rightarrow> candle_buffer \<Rightarrow> bool" where
  "candle_wf (candle_of c) \<Longrightarrow> candle_step b (on_candle c b)"

interpretation candles: inv_system
  "\<lambda>b. \<exists>cap > 0. b = rb_init cap default_candle" candle_step history_ok
proof unfold_locales
  fix b assume "\<exists>cap > 0. b = rb_init cap default_candle"
  then show "history_ok b" by (auto simp: history_ok_def rb_inv_init)
next
  fix b b' assume "history_ok b" "candle_step b b'"
  then show "history_ok b'" by (auto elim!: candle_step.cases intro: history_ok_on_candle)
qed

lemma candle_steps:
  "list_all (\<lambda>c. candle_wf (candle_of c)) cs \<Longrightarrow> candle_step\<^sup>*\<^sup>* b (fold on_candle cs b)"
proof (induction cs arbitrary: b)
  case (Cons c cs)
  then have "candle_step b (on_candle c b)" by (simp add: candle_step.intros)
  moreover have "candle_step\<^sup>*\<^sup>* (on_candle c b) (fold on_candle cs (on_candle c b))"
    using Cons by simp
  ultimately show ?case by (simp add: converse_rtranclp_into_rtranclp)
qed simp

section \<open>Properties\<close>

text \<open>
  Whatever was pushed, the ring reads like the list of everything pushed cut to its
  youngest elements: \<^verbatim>\<open>to_vector(n)\<close> is the last \<open>min n cap\<close> inputs oldest first,
  \<^verbatim>\<open>extract_field\<close> is that list's field, indexing, \<^verbatim>\<open>front\<close> and \<^verbatim>\<open>back\<close> read it,
  and \<^verbatim>\<open>back\<close> throws exactly when nothing was pushed.
\<close>

theorem ring_is_last_inputs:
  assumes "0 < cap"
  shows "let b = fold rb_push xs (rb_init cap d); w = keep_last cap xs in
         to_vector n b = keep_last (min n cap) xs \<and>
         extract_field field n b = map field (keep_last (min n cap) xs) \<and>
         rb_size b = min cap (length xs) \<and>
         (\<forall>i < length w. rb_at b i = w ! i) \<and>
         rb_back b = (if xs = [] then None else Some (last xs)) \<and>
         rb_front b = (if xs = [] then None else Some (hd w))"
proof -
  let ?b = "fold rb_push xs (rb_init cap d)" and ?w = "keep_last cap xs"
  have w: "rb_list ?b = ?w" using ring.run_from_empty [OF rb_inv_init [OF assms]] by simp
  then have count: "rb_count ?b = min cap (length xs)" by (metis length_rb_list length_keep_last)
  have cut: "keep_last n ?w = keep_last (min n cap) xs" by (rule keep_last_keep_last)
  have ends: "?w = [] \<longleftrightarrow> xs = []" "xs \<noteq> [] \<Longrightarrow> last ?w = last xs"
    using assms by (cases xs; simp add: keep_last_def)+
  show ?thesis
    using w count cut ends
    by (simp add: Let_def to_vector_window extract_field_window rb_size_def rb_at_window
        rb_back_window rb_front_window)
qed

theorem ring_is_last_inputs_witness:
  "to_vector 2 (fold rb_push [1, 2, 3, 4, 5 :: int] (rb_init 3 0)) = [4, 5] \<and>
   rb_front (fold rb_push [1, 2, 3, 4, 5 :: int] (rb_init 3 0)) = Some 3"
  using ring_is_last_inputs [of 3 "[1, 2, 3, 4, 5 :: int]" 0 2 "\<lambda>_. 0"]
  by (simp add: Let_def keep_last_def)

text \<open>
  The share of aggressive volume is a number between 0 and 1 and the buy/sell ratio
  never exceeds its cap of 100, over any window of any tape of trades with valid sizes,
  even though every addition and division rounds.
\<close>

theorem flow_statistics_in_range:
  assumes "list_all (\<lambda>t. is_valid_volume (nt_size t)) ts" and "0 < cap" and "cap \<le> 2 ^ 52"
  shows "let b = fold tb_push ts (rb_init cap d) in
         0 \<le> aggressive_flow n b \<and> aggressive_flow n b \<le> 1 \<and> \<not> lit 100 < buy_sell_ratio n b"
proof -
  let ?b = "fold tb_push ts (rb_init cap d)"
  have w: "rb_list ?b = keep_last cap (map trade_of ts)" by (rule tb_run [OF assms(2)])
  have "set (rb_list ?b) \<subseteq> trade_of ` set ts"
    unfolding w using set_keep_last_subset [of cap "map trade_of ts"] by simp
  then have ok: "list_all (\<lambda>t. is_valid_volume (tr_size t)) (rb_list ?b)"
    using assms(1) by (force simp: list_all_iff trade_of_def)
  have "rb_count ?b \<le> cap" by (metis w length_rb_list length_keep_last min.cobounded1)
  then show ?thesis
    using aggressive_flow_range [OF ok] assms(3) buy_sell_ratio_capped by (simp add: Let_def)
qed

definition sample_envelope :: "timestamp \<Rightarrow> event_envelope" where
  "sample_envelope t = \<lparr> exchange_ts = t, received_ts = t, processed_ts = t,
                         ev_symbol = ''BTCUSDT'', ev_source = ''bitget'', sequence_id = 0 \<rparr>"

definition sample_trade :: "bool \<Rightarrow> normalized_trade" where
  "sample_trade agg = \<lparr> nt_envelope = sample_envelope 1, nt_trade_id = ''t'', nt_price = lit 100,
                        nt_size = lit 3, nt_side = (if agg then Sell else Buy),
                        nt_is_aggressive = agg \<rparr>"

lemma kMaxReasonableVolume_gt: "Fin 1000 < kMaxReasonableVolume"
proof -
  have e: "kMaxReasonableVolume = Fin (10 ^ 15)"
    using mk_of_int [of "10 ^ 15"] by (simp add: kMaxReasonableVolume_def)
  show ?thesis unfolding e by simp
qed

theorem flow_statistics_in_range_witness:
  "let b = fold tb_push [sample_trade True, sample_trade False] (rb_init 1000 (trade_of (sample_trade False)))
   in 0 \<le> aggressive_flow 50 b \<and> aggressive_flow 50 b \<le> 1 \<and> \<not> lit 100 < buy_sell_ratio 50 b"
proof -
  have "is_valid_volume (Fin 3)"
    using double_less_trans [OF _ kMaxReasonableVolume_gt, of "Fin 3"]
    by (simp add: is_valid_volume_def zero_double_def)
  then have "list_all (\<lambda>t. is_valid_volume (nt_size t)) [sample_trade True, sample_trade False]"
    by (simp add: sample_trade_def)
  from flow_statistics_in_range [OF this, of 1000] show ?thesis by simp
qed

text \<open>
  However candles arrive, closed or live, the history keeps every bar's open and close
  within its low and high, and only the last bar can be unfinished.
\<close>

theorem candle_history_consistent:
  assumes "0 < cap" and "list_all (\<lambda>c. candle_wf (candle_of c)) cs"
  shows "list_all candle_wf (rb_list (fold on_candle cs (rb_init cap default_candle))) \<and>
         list_all cd_is_closed (butlast (rb_list (fold on_candle cs (rb_init cap default_candle))))"
  using candles.inv_reachable [OF _ candle_steps [OF assms(2)]] assms(1)
  by (auto simp: history_ok_def)

definition sample_candle :: "timestamp \<Rightarrow> real \<Rightarrow> bool \<Rightarrow> normalized_candle" where
  "sample_candle t p z = \<lparr> nc_envelope = sample_envelope t, nc_interval = ''1m'',
     nc_open = Fin p, nc_high = Fin (p + 2), nc_low = Fin (p - 1), nc_close = Fin (p + 1),
     nc_volume = Fin 10, nc_base_volume = Fin 1, nc_is_closed = z \<rparr>"

theorem candle_history_consistent_witness:
  "list_all candle_wf (rb_list (fold on_candle
     [sample_candle 0 100 False, sample_candle 0 90 True, sample_candle 60 95 False]
     (rb_init 2 default_candle)))"
  using candle_history_consistent [of 2
      "[sample_candle 0 100 False, sample_candle 0 90 True, sample_candle 60 95 False]"]
  by (simp add: candle_wf_def candle_of_def sample_candle_def)

text \<open>
  A live bar swallows whatever candle comes next: neither \<^verbatim>\<open>push\<close> nor \<^verbatim>\<open>update_last\<close>
  compares opening times, so when the closing event of a period is missed the next
  period is merged into the old bar, which keeps its opening time and open.
\<close>

theorem missed_close_merges_periods:
  assumes "rb_inv b" and "rb_list b = xs @ [a]" and "\<not> cd_is_closed a"
  shows "\<exists>a'. rb_list (on_candle c b) = xs @ [a'] \<and> cd_open_time a' = cd_open_time a \<and>
              cd_open a' = cd_open a \<and> cd_close a' = nc_close c"
  using assms(1)
proof (cases rule: on_candle_cases [where c = c])
  case new
  then show ?thesis using assms by simp
next
  case (widen ys a0 v)
  then show ?thesis using assms by simp
qed

theorem missed_close_merges_periods_witness:
  "\<exists>a'. rb_list (on_candle (sample_candle 60 200 True)
                  (rb_push (candle_of (sample_candle 0 100 False)) (rb_init 2 default_candle))) = [a'] \<and>
         cd_open_time a' = 0 \<and> cd_close a' = Fin 201"
proof -
  let ?a = "candle_of (sample_candle 0 100 False)"
  let ?b = "rb_push ?a (rb_init 2 default_candle)"
  have i: "rb_inv (rb_init 2 default_candle)" by (simp add: rb_inv_init)
  have "rb_list ?b = [] @ [?a]" using rb_list_push [OF i, of ?a] by simp
  from missed_close_merges_periods [OF rb_inv_push [OF i] this, of "sample_candle 60 200 True"]
  show ?thesis by (auto simp: candle_of_def sample_candle_def sample_envelope_def)
qed

end
