(* ===== verification/Order_Book.thy ===== *)
theory Order_Book
  imports Market_Events
begin

text \<open>
  The local L2 book of \<^verbatim>\<open>src/src/order_book/order_book.cpp\<close>: two ordered maps from
  prices to sizes, the sequence number of the last update, the quality automaton, the
  events that a delta publishes, and the summaries read by the other components.  An
  ordered \<^verbatim>\<open>std::map\<close> is the list of its entries in key order together with its
  comparator, \<^verbatim>\<open>std::greater\<close> for bids and \<^verbatim>\<open>std::less\<close> for asks; two keys are the same
  when neither precedes the other.  Log lines and metrics are output and left out.
\<close>

section \<open>Ordered maps\<close>

type_synonym comparator = "double \<Rightarrow> double \<Rightarrow> bool"
type_synonym book_side_map = "(double \<times> double) list"

fun om_find :: "comparator \<Rightarrow> double \<Rightarrow> book_side_map \<Rightarrow> double option" where
  "om_find lt k [] = None"
| "om_find lt k ((p, q) # ps) =
    (if lt k p then None else if lt p k then om_find lt k ps else Some q)"

fun om_assign :: "comparator \<Rightarrow> double \<Rightarrow> double \<Rightarrow> book_side_map \<Rightarrow> book_side_map" where
  "om_assign lt k v [] = [(k, v)]"
| "om_assign lt k v ((p, q) # ps) =
    (if lt k p then (k, v) # (p, q) # ps
     else if lt p k then (p, q) # om_assign lt k v ps else (p, v) # ps)"

fun om_erase :: "comparator \<Rightarrow> double \<Rightarrow> book_side_map \<Rightarrow> book_side_map" where
  "om_erase lt k [] = []"
| "om_erase lt k ((p, q) # ps) =
    (if lt k p then (p, q) # ps else if lt p k then (p, q) # om_erase lt k ps else ps)"

abbreviation bid_order :: comparator where "bid_order \<equiv> (\<lambda>x y. y < x)"
abbreviation ask_order :: comparator where "ask_order \<equiv> (\<lambda>x y. x < y)"

section \<open>Data\<close>

datatype book_quality = QValid | QStale | QDesynced | QUninitialized

fun book_quality_to_string :: "book_quality \<Rightarrow> string" where
  "book_quality_to_string QValid = ''valid''"
| "book_quality_to_string QStale = ''stale''"
| "book_quality_to_string QDesynced = ''desynced''"
| "book_quality_to_string QUninitialized = ''uninitialized''"

record top_of_book_rec =
  tob_best_bid :: double
  tob_best_ask :: double
  tob_bid_size :: double
  tob_ask_size :: double
  tob_spread :: double
  tob_spread_bps :: double
  tob_mid_price :: double
  tob_updated_at :: timestamp
  tob_quality :: book_quality

record depth_summary_rec =
  ds_bid_depth_5 :: double
  ds_ask_depth_5 :: double
  ds_bid_depth_10 :: double
  ds_ask_depth_10 :: double
  ds_imbalance_5 :: double
  ds_imbalance_10 :: double
  ds_weighted_mid :: double
  ds_computed_at :: timestamp

datatype book_event_type = LevelAdded | LevelRemoved | LevelUpdated | TopChanged

datatype book_side = BidSide | AskSide

record book_event =
  be_type :: book_event_type
  be_side :: book_side
  be_price :: double
  be_old_size :: double
  be_new_size :: double
  be_timestamp :: timestamp
  be_is_top_of_book :: bool

record book_event_batch =
  bb_symbol :: symbol
  bb_events :: "book_event list"
  bb_top_changes :: nat
  bb_levels_added :: nat
  bb_levels_removed :: nat
  bb_levels_updated :: nat
  bb_timestamp :: timestamp

record local_order_book =
  ob_symbol :: symbol
  ob_bids :: book_side_map
  ob_asks :: book_side_map
  ob_last_sequence :: u64
  ob_quality :: book_quality
  ob_last_updated :: timestamp

definition book_init :: "symbol \<Rightarrow> local_order_book" where
  "book_init s = \<lparr> ob_symbol = s, ob_bids = [], ob_asks = [], ob_last_sequence = 0,
                   ob_quality = QUninitialized, ob_last_updated = 0 \<rparr>"

section \<open>Operations\<close>

definition apply_level :: "comparator \<Rightarrow> book_level \<Rightarrow> book_side_map \<Rightarrow> book_side_map" where
  "apply_level lt lvl m =
    (if lv_price lvl \<le> 0 then m
     else if deq (lv_size lvl) 0 then om_erase lt (lv_price lvl) m
     else if 0 < lv_size lvl then om_assign lt (lv_price lvl) (lv_size lvl) m
     else m)"

definition apply_book_levels_simple ::
  "comparator \<Rightarrow> book_level list \<Rightarrow> book_side_map \<Rightarrow> book_side_map" where
  "apply_book_levels_simple lt levels m = fold (apply_level lt) levels m"

definition detect_crossed_book :: "local_order_book \<Rightarrow> bool" where
  "detect_crossed_book b =
    (case ob_bids b of [] \<Rightarrow> False
     | (bp, _) # _ \<Rightarrow> (case ob_asks b of [] \<Rightarrow> False | (ap, _) # _ \<Rightarrow> ap \<le> bp))"

definition apply_snapshot :: "normalized_order_book \<Rightarrow> local_order_book \<Rightarrow> local_order_book" where
  "apply_snapshot snap b =
    (if ev_symbol (nb_envelope snap) \<noteq> ob_symbol b then b
     else let b1 = b \<lparr> ob_bids := apply_book_levels_simple bid_order (nb_bids snap) [],
                       ob_asks := apply_book_levels_simple ask_order (nb_asks snap) [],
                       ob_last_sequence := nb_sequence snap,
                       ob_last_updated := processed_ts (nb_envelope snap) \<rparr>
          in b1 \<lparr> ob_quality := (if detect_crossed_book b1 then QDesynced else QValid) \<rparr>)"

definition mk_event ::
  "book_event_type \<Rightarrow> book_side \<Rightarrow> double \<Rightarrow> double \<Rightarrow> double \<Rightarrow> timestamp \<Rightarrow> book_event" where
  "mk_event ty sd p old new ts = \<lparr> be_type = ty, be_side = sd, be_price = p, be_old_size = old,
     be_new_size = new, be_timestamp = ts, be_is_top_of_book = False \<rparr>"

definition apply_level_with_event ::
  "comparator \<Rightarrow> book_side \<Rightarrow> timestamp \<Rightarrow> book_level \<Rightarrow> book_side_map \<times> book_event_batch
   \<Rightarrow> book_side_map \<times> book_event_batch" where
  "apply_level_with_event lt sd ts lvl = (\<lambda>(m, batch).
    (if lv_price lvl \<le> 0 then (m, batch)
     else let it = om_find lt (lv_price lvl) m;
              old_size = (case it of Some q \<Rightarrow> q | None \<Rightarrow> 0)
          in if deq (lv_size lvl) 0 then
               (if it \<noteq> None then
                  (om_erase lt (lv_price lvl) m,
                   batch \<lparr> bb_events := bb_events batch @
                             [mk_event LevelRemoved sd (lv_price lvl) old_size 0 ts],
                           bb_levels_removed := bb_levels_removed batch + 1 \<rparr>)
                else (m, batch))
             else if 0 < lv_size lvl then
               (if it = None then
                  (om_assign lt (lv_price lvl) (lv_size lvl) m,
                   batch \<lparr> bb_events := bb_events batch @
                             [mk_event LevelAdded sd (lv_price lvl) 0 (lv_size lvl) ts],
                           bb_levels_added := bb_levels_added batch + 1 \<rparr>)
                else
                  (om_assign lt (lv_price lvl) (lv_size lvl) m,
                   batch \<lparr> bb_events := bb_events batch @
                             [mk_event LevelUpdated sd (lv_price lvl) old_size (lv_size lvl) ts],
                           bb_levels_updated := bb_levels_updated batch + 1 \<rparr>))
             else (m, batch)))"

definition apply_book_levels_with_events ::
  "comparator \<Rightarrow> book_side \<Rightarrow> timestamp \<Rightarrow> book_level list \<Rightarrow> book_side_map \<times> book_event_batch
   \<Rightarrow> book_side_map \<times> book_event_batch" where
  "apply_book_levels_with_events lt sd ts levels mb = fold (apply_level_with_event lt sd ts) levels mb"

definition best_price :: "book_side_map \<Rightarrow> double" where
  "best_price m = (case m of [] \<Rightarrow> 0 | (p, _) # _ \<Rightarrow> p)"

definition empty_batch :: "symbol \<Rightarrow> timestamp \<Rightarrow> book_event_batch" where
  "empty_batch s ts = \<lparr> bb_symbol = s, bb_events = [], bb_top_changes = 0, bb_levels_added = 0,
     bb_levels_removed = 0, bb_levels_updated = 0, bb_timestamp = ts \<rparr>"

definition mark_top :: "double \<Rightarrow> double \<Rightarrow> double \<Rightarrow> double \<Rightarrow> book_event \<Rightarrow> book_event" where
  "mark_top old_bid new_bid old_ask new_ask ev =
    (if be_side ev = BidSide \<and> (deq (be_price ev) old_bid \<or> deq (be_price ev) new_bid) \<or>
        be_side ev = AskSide \<and> (deq (be_price ev) old_ask \<or> deq (be_price ev) new_ask)
     then ev \<lparr> be_is_top_of_book := True \<rparr> else ev)"

text \<open>
  \<open>apply_delta\<close> returns the method's answer, the new book and the batch handed to the
  subscribers after the lock is released (\<open>None\<close> when nothing is published).
\<close>

definition apply_delta ::
  "normalized_order_book \<Rightarrow> local_order_book \<Rightarrow> bool \<times> local_order_book \<times> book_event_batch option" where
  "apply_delta delta b =
    (if ob_quality b = QUninitialized \<or> ob_quality b = QDesynced then (False, b, None)
     else if ev_symbol (nb_envelope delta) \<noteq> ob_symbol b then (False, b, None)
     else if nb_sequence delta \<noteq> ob_last_sequence b + 1 then
       (False, b \<lparr> ob_quality := QDesynced \<rparr>, None)
     else let ts = processed_ts (nb_envelope delta);
              old_best_bid = best_price (ob_bids b);
              old_best_ask = best_price (ob_asks b);
              (bids, batch1) = apply_book_levels_with_events bid_order BidSide ts (nb_bids delta)
                                 (ob_bids b, empty_batch (ob_symbol b) ts);
              (asks, batch2) = apply_book_levels_with_events ask_order AskSide ts (nb_asks delta)
                                 (ob_asks b, batch1);
              new_best_bid = best_price bids;
              new_best_ask = best_price asks;
              batch3 = (if \<not> deq new_best_bid old_best_bid \<or> \<not> deq new_best_ask old_best_ask
                        then batch2 \<lparr> bb_top_changes := bb_top_changes batch2 + 1,
                               bb_events := map (mark_top old_best_bid new_best_bid
                                                   old_best_ask new_best_ask) (bb_events batch2) \<rparr>
                        else batch2);
              b1 = b \<lparr> ob_bids := bids, ob_asks := asks, ob_last_sequence := nb_sequence delta,
                       ob_last_updated := ts \<rparr>
          in if detect_crossed_book b1 then (False, b1 \<lparr> ob_quality := QDesynced \<rparr>, None)
             else (True, b1 \<lparr> ob_quality := QValid \<rparr>,
                   if bb_events batch3 = [] then None else Some batch3))"

definition request_resync :: "local_order_book \<Rightarrow> local_order_book" where
  "request_resync b =
    b \<lparr> ob_bids := [], ob_asks := [], ob_last_sequence := 0, ob_quality := QUninitialized \<rparr>"

definition check_staleness :: "timestamp \<Rightarrow> int \<Rightarrow> local_order_book \<Rightarrow> bool \<times> local_order_book" where
  "check_staleness t stale_threshold_ns b =
    (if ob_quality b \<noteq> QValid then (ob_quality b = QStale, b)
     else if stale_threshold_ns < t - ob_last_updated b then (True, b \<lparr> ob_quality := QStale \<rparr>)
     else (False, b))"

definition top_of_book :: "local_order_book \<Rightarrow> top_of_book_rec option" where
  "top_of_book b =
    (case ob_bids b of [] \<Rightarrow> None
     | (bid_val, bid_qty) # _ \<Rightarrow> (case ob_asks b of [] \<Rightarrow> None
     | (ask_val, ask_qty) # _ \<Rightarrow>
        (let spread = ask_val - bid_val; mid = (bid_val + ask_val) * lit (1 / 2) in
         Some \<lparr> tob_best_bid = bid_val, tob_best_ask = ask_val, tob_bid_size = bid_qty,
                tob_ask_size = ask_qty, tob_spread = spread,
                tob_spread_bps = (if 0 < mid then spread / mid * lit 10000 else 0),
                tob_mid_price = mid, tob_updated_at = ob_last_updated b,
                tob_quality = ob_quality b \<rparr>)))"

definition sum_side_qty :: "int \<Rightarrow> book_side_map \<Rightarrow> double" where
  "sum_side_qty n m = fold (\<lambda>(_, q) tot. tot + q) (take (nat n) m) 0"

definition imbalance :: "double \<Rightarrow> double \<Rightarrow> double" where
  "imbalance b a = (let tot = b + a in if 0 < tot then (b - a) / tot else 0)"

definition sum_pq :: "int \<Rightarrow> book_side_map \<Rightarrow> double \<times> double" where
  "sum_pq n m = fold (\<lambda>(p, q) (pq, qty). (pq + p * q, qty + q)) (take (nat n) m) (0, 0)"

definition compute_microprice :: "int \<Rightarrow> local_order_book \<Rightarrow> double" where
  "compute_microprice levels b =
    (let (bid_pq, bid_qty) = sum_pq levels (ob_bids b);
         (ask_pq, ask_qty) = sum_pq levels (ob_asks b)
     in if bid_qty \<le> 0 \<or> ask_qty \<le> 0 then 0
        else let vwap_bid = bid_pq / bid_qty; vwap_ask = ask_pq / ask_qty; tot = bid_qty + ask_qty
             in vwap_ask * (bid_qty / tot) + vwap_bid * (ask_qty / tot))"

definition depth_summary :: "int \<Rightarrow> local_order_book \<Rightarrow> depth_summary_rec option" where
  "depth_summary levels b =
    (if ob_bids b = [] \<or> ob_asks b = [] then None
     else let bid5 = sum_side_qty 5 (ob_bids b); ask5 = sum_side_qty 5 (ob_asks b);
              bid_n = sum_side_qty levels (ob_bids b); ask_n = sum_side_qty levels (ob_asks b)
          in Some \<lparr> ds_bid_depth_5 = bid5, ds_ask_depth_5 = ask5, ds_bid_depth_10 = bid_n,
                    ds_ask_depth_10 = ask_n, ds_imbalance_5 = imbalance bid5 ask5,
                    ds_imbalance_10 = imbalance bid_n ask_n,
                    ds_weighted_mid = compute_microprice levels b,
                    ds_computed_at = ob_last_updated b \<rparr>)"

end
