(* ===== verification/Order_Book_Laws.thy ===== *)
theory Order_Book_Laws
  imports Order_Book
begin

text \<open>
  Laws of the local order book: the ordered maps implement finite maps for either
  comparator, the event-generating update equals the plain one and its events replay to
  the same book, and the whole book simulates a specification that keeps two finite maps,
  a sequence number and the quality.
\<close>

section \<open>Ordered maps implement finite maps\<close>

definition om_wf :: "comparator \<Rightarrow> book_side_map \<Rightarrow> bool" where
  "om_wf lt m \<longleftrightarrow> sorted_wrt lt (map fst m) \<and> NaN \<notin> fst ` set m"

text \<open>What a comparator must be: a strict order, total on the values that are not NaN.\<close>

locale price_order =
  fixes lt :: comparator
  assumes lt_irrefl: "\<not> lt x x"
    and lt_trans: "lt x y \<Longrightarrow> lt y z \<Longrightarrow> lt x z"
    and lt_total: "x \<noteq> NaN \<Longrightarrow> y \<noteq> NaN \<Longrightarrow> x = y \<or> lt x y \<or> lt y x"
begin

lemma om_wf_Nil [simp]: "om_wf lt []"
  by (simp add: om_wf_def)

lemma om_wf_Cons [simp]:
  "om_wf lt ((p, q) # m) \<longleftrightarrow> p \<noteq> NaN \<and> (\<forall>x \<in> fst ` set m. lt p x) \<and> om_wf lt m"
  by (auto simp: om_wf_def)

lemma keys_assign: "k \<noteq> NaN \<Longrightarrow> om_wf lt m \<Longrightarrow> fst ` set (om_assign lt k v m) = insert k (fst ` set m)"
proof (induction m)
  case (Cons e m)
  obtain p q where e: "e = (p, q)" by force
  show ?case using Cons lt_total [of k p] by (auto simp: e)
qed simp

lemma om_wf_assign: "k \<noteq> NaN \<Longrightarrow> om_wf lt m \<Longrightarrow> om_wf lt (om_assign lt k v m)"
proof (induction m)
  case (Cons e m)
  obtain p q where e: "e = (p, q)" by force
  show ?case using Cons lt_total [of k p] keys_assign [of k m v] lt_trans by (auto simp: e)
qed simp

lemma set_erase: "set (om_erase lt k m) \<subseteq> set m"
  by (induction m) (auto split: if_splits)

lemma om_wf_erase: "om_wf lt m \<Longrightarrow> om_wf lt (om_erase lt k m)"
proof (induction m)
  case (Cons e m)
  obtain p q where e: "e = (p, q)" by force
  have "\<forall>x \<in> fst ` set (om_erase lt k m). lt p x" if "\<forall>x \<in> fst ` set m. lt p x"
    using that set_erase [of k m] by blast
  then show ?case using Cons by (simp add: e)
qed simp

lemma om_find_map_of: "k \<noteq> NaN \<Longrightarrow> om_wf lt m \<Longrightarrow> om_find lt k m = map_of m k"
proof (induction m)
  case (Cons e m)
  obtain p q where e: "e = (p, q)" by force
  have "lt k p \<Longrightarrow> map_of m k = None"
    using Cons.prems lt_trans lt_irrefl by (fastforce simp: e map_of_eq_None_iff)
  then show ?case using Cons lt_total [of k p] lt_irrefl by (auto simp: e)
qed simp

lemma map_of_assign:
  "k \<noteq> NaN \<Longrightarrow> om_wf lt m \<Longrightarrow> map_of (om_assign lt k v m) = (map_of m)(k \<mapsto> v)"
proof (induction m)
  case (Cons e m)
  obtain p q where e: "e = (p, q)" by force
  show ?case using Cons lt_total [of k p] lt_irrefl by (auto simp: e fun_eq_iff)
qed simp

lemma map_of_erase:
  "k \<noteq> NaN \<Longrightarrow> om_wf lt m \<Longrightarrow> map_of (om_erase lt k m) = (map_of m)(k := None)"
proof (induction m)
  case (Cons e m)
  obtain p q where e: "e = (p, q)" by force
  have "lt k p \<Longrightarrow> k \<notin> fst ` set m" "k = p \<Longrightarrow> k \<notin> fst ` set m"
    using Cons.prems lt_trans lt_irrefl by (fastforce simp: e)+
  then show ?case
    using Cons lt_total [of k p] lt_irrefl
    by (auto simp: e fun_eq_iff map_of_eq_None_iff)
qed simp

lemma length_assign:
  "length (om_assign lt k v m) = (if om_find lt k m = None then Suc (length m) else length m)"
  by (induction m) (auto split: if_splits)

lemma length_erase:
  "om_find lt k m \<noteq> None \<Longrightarrow> Suc (length (om_erase lt k m)) = length m"
  by (induction m) (auto split: if_splits)

lemma erase_absent: "om_find lt k m = None \<Longrightarrow> om_erase lt k m = m"
  by (induction m) (auto split: if_splits)

lemma head_first: "om_wf lt ((p, q) # m) \<Longrightarrow> x \<in> fst ` set ((p, q) # m) \<Longrightarrow> x = p \<or> lt p x"
  by auto

end

interpretation bid: price_order bid_order
proof unfold_locales
  fix x y z :: double
  show "z < y \<Longrightarrow> y < x \<Longrightarrow> z < x" by (rule double_less_trans)
  show "x \<noteq> NaN \<Longrightarrow> y \<noteq> NaN \<Longrightarrow> x = y \<or> y < x \<or> x < y" by (cases x; cases y) auto
qed simp

interpretation ask: price_order ask_order
proof unfold_locales
  fix x y z :: double
  show "x < y \<Longrightarrow> y < z \<Longrightarrow> x < z" by (rule double_less_trans)
  show "x \<noteq> NaN \<Longrightarrow> y \<noteq> NaN \<Longrightarrow> x = y \<or> x < y \<or> y < x" by (cases x; cases y) auto
qed simp

section \<open>One side of the book\<close>

text \<open>The specification of one level update, on a finite map.\<close>

definition spec_level :: "book_level \<Rightarrow> (double \<rightharpoonup> double) \<Rightarrow> (double \<rightharpoonup> double)" where
  "spec_level lvl f =
    (if lv_price lvl \<le> 0 then f
     else if deq (lv_size lvl) 0 then f(lv_price lvl := None)
     else if 0 < lv_size lvl then f(lv_price lvl \<mapsto> lv_size lvl)
     else f)"

definition side_ok :: "comparator \<Rightarrow> book_side_map \<Rightarrow> bool" where
  "side_ok lt m \<longleftrightarrow> om_wf lt m \<and> (\<forall>(p, q) \<in> set m. 0 < p \<and> 0 < q)"

definition levels_ok :: "book_level list \<Rightarrow> bool" where
  "levels_ok ls \<longleftrightarrow> list_all (\<lambda>l. lv_price l \<noteq> NaN) ls"

fun replay_event :: "comparator \<Rightarrow> book_event \<Rightarrow> book_side_map \<Rightarrow> book_side_map" where
  "replay_event lt ev m =
    (case be_type ev of
       LevelRemoved \<Rightarrow> om_erase lt (be_price ev) m
     | LevelAdded \<Rightarrow> om_assign lt (be_price ev) (be_new_size ev) m
     | LevelUpdated \<Rightarrow> om_assign lt (be_price ev) (be_new_size ev) m
     | TopChanged \<Rightarrow> m)"

definition count_type :: "book_event_type \<Rightarrow> book_event list \<Rightarrow> nat" where
  "count_type ty evs = length (filter (\<lambda>e. be_type e = ty) evs)"

lemma count_type_simps [simp]:
  "count_type ty [] = 0"
  "count_type ty (es @ fs) = count_type ty es + count_type ty fs"
  "count_type ty [e] = (if be_type e = ty then 1 else 0)"
  by (simp_all add: count_type_def)

context price_order
begin

lemma set_assign: "set (om_assign lt k v m) \<subseteq> insert (k, v) (set m) \<union> {(p, v) | p. p \<in> fst ` set m}"
proof (induction m)
  case (Cons e m)
  then show ?case by (cases e) (auto simp: image_iff)
qed simp

lemma side_ok_Nil [simp]: "side_ok lt []"
  by (simp add: side_ok_def)

lemma side_ok_assign:
  assumes "side_ok lt m" and "0 < k" and "0 < v"
  shows "side_ok lt (om_assign lt k v m)"
proof -
  have k: "k \<noteq> NaN" using assms(2) by auto
  show ?thesis
    using assms om_wf_assign [OF k] set_assign [of k v m] by (fastforce simp: side_ok_def)
qed

lemma side_ok_erase: "side_ok lt m \<Longrightarrow> side_ok lt (om_erase lt k m)"
  using om_wf_erase set_erase [of k m] by (fastforce simp: side_ok_def)

lemma apply_level_laws:
  assumes "side_ok lt m" and "lv_price l \<noteq> NaN"
  shows "side_ok lt (apply_level lt l m)"
    and "map_of (apply_level lt l m) = spec_level l (map_of m)"
proof -
  have wf: "om_wf lt m" using assms(1) by (simp add: side_ok_def)
  have pos: "\<not> lv_price l \<le> 0 \<Longrightarrow> 0 < lv_price l"
    using assms(2) by (cases "lv_price l") (auto simp: zero_double_def)
  show "side_ok lt (apply_level lt l m)"
    using assms pos by (auto simp: apply_level_def side_ok_assign side_ok_erase)
  show "map_of (apply_level lt l m) = spec_level l (map_of m)"
    using assms(2) wf by (simp add: apply_level_def spec_level_def map_of_assign map_of_erase)
qed

lemma apply_levels_laws:
  assumes "side_ok lt m" and "levels_ok ls"
  shows "side_ok lt (apply_book_levels_simple lt ls m) \<and>
         map_of (apply_book_levels_simple lt ls m) = fold spec_level ls (map_of m)"
  using assms
proof (induction ls arbitrary: m)
  case (Cons l ls)
  then show ?case
    using apply_level_laws [of m l] by (simp add: apply_book_levels_simple_def levels_ok_def)
qed (simp add: apply_book_levels_simple_def)

text \<open>
  What the event-generating update did to one side: the new entries are those of the
  plain update, and the events appended to the batch replay to them and are counted.
\<close>

definition tracks :: "book_side \<Rightarrow> book_side_map \<Rightarrow> book_event_batch \<Rightarrow> book_side_map \<Rightarrow> book_event_batch \<Rightarrow> bool" where
  "tracks sd m bt m' bt' \<longleftrightarrow>
    (\<exists>evs. bb_events bt' = bb_events bt @ evs \<and> (\<forall>e \<in> set evs. be_side e = sd) \<and>
       fold (replay_event lt) evs m = m' \<and>
       bb_levels_added bt' = bb_levels_added bt + count_type LevelAdded evs \<and>
       bb_levels_removed bt' = bb_levels_removed bt + count_type LevelRemoved evs \<and>
       bb_levels_updated bt' = bb_levels_updated bt + count_type LevelUpdated evs \<and>
       bb_top_changes bt' = bb_top_changes bt \<and>
       length m' + count_type LevelRemoved evs = length m + count_type LevelAdded evs)"

lemma tracks_refl: "tracks sd m bt m bt"
  unfolding tracks_def by (intro exI [of _ "[]"]) simp

lemma tracks_trans:
  assumes "tracks sd m bt m1 bt1" and "tracks sd m1 bt1 m2 bt2"
  shows "tracks sd m bt m2 bt2"
proof -
  from assms(1) obtain es where 1: "bb_events bt1 = bb_events bt @ es" "\<forall>e \<in> set es. be_side e = sd"
    "fold (replay_event lt) es m = m1"
    "bb_levels_added bt1 = bb_levels_added bt + count_type LevelAdded es"
    "bb_levels_removed bt1 = bb_levels_removed bt + count_type LevelRemoved es"
    "bb_levels_updated bt1 = bb_levels_updated bt + count_type LevelUpdated es"
    "bb_top_changes bt1 = bb_top_changes bt"
    "length m1 + count_type LevelRemoved es = length m + count_type LevelAdded es"
    unfolding tracks_def by blast
  from assms(2) obtain fs where 2: "bb_events bt2 = bb_events bt1 @ fs" "\<forall>e \<in> set fs. be_side e = sd"
    "fold (replay_event lt) fs m1 = m2"
    "bb_levels_added bt2 = bb_levels_added bt1 + count_type LevelAdded fs"
    "bb_levels_removed bt2 = bb_levels_removed bt1 + count_type LevelRemoved fs"
    "bb_levels_updated bt2 = bb_levels_updated bt1 + count_type LevelUpdated fs"
    "bb_top_changes bt2 = bb_top_changes bt1"
    "length m2 + count_type LevelRemoved fs = length m1 + count_type LevelAdded fs"
    unfolding tracks_def by blast
  show ?thesis
    unfolding tracks_def using 1 2 by (intro exI [of _ "es @ fs"]) auto
qed

lemma level_with_event:
  "tracks sd m bt (fst (apply_level_with_event lt sd ts l (m, bt)))
                  (snd (apply_level_with_event lt sd ts l (m, bt)))"
  "fst (apply_level_with_event lt sd ts l (m, bt)) = apply_level lt l m"
proof -
  show "fst (apply_level_with_event lt sd ts l (m, bt)) = apply_level lt l m"
    by (auto simp: apply_level_with_event_def apply_level_def Let_def erase_absent)
  show "tracks sd m bt (fst (apply_level_with_event lt sd ts l (m, bt)))
                  (snd (apply_level_with_event lt sd ts l (m, bt)))"
    unfolding tracks_def apply_level_with_event_def Let_def
    by (auto simp: mk_event_def length_assign length_erase)
qed

lemma levels_with_events:
  "tracks sd m bt (fst (apply_book_levels_with_events lt sd ts ls (m, bt)))
                  (snd (apply_book_levels_with_events lt sd ts ls (m, bt))) \<and>
   fst (apply_book_levels_with_events lt sd ts ls (m, bt)) = apply_book_levels_simple lt ls m"
proof (induction ls arbitrary: m bt)
  case Nil
  then show ?case
    by (simp add: apply_book_levels_with_events_def apply_book_levels_simple_def tracks_refl)
next
  case (Cons l ls)
  let ?s = "apply_level_with_event lt sd ts l (m, bt)"
  have s: "?s = (apply_level lt l m, snd ?s)"
    using level_with_event(2) [of sd ts l m bt] by (metis prod.collapse)
  have step: "apply_book_levels_with_events lt sd ts (l # ls) (m, bt) =
      apply_book_levels_with_events lt sd ts ls (apply_level lt l m, snd ?s)"
    using s by (simp add: apply_book_levels_with_events_def)
  have "tracks sd m bt (apply_level lt l m) (snd ?s)"
    using level_with_event [where sd = sd and m = m and bt = bt and ts = ts and l = l] by simp
  note t = this
  note IH = Cons.IH [of "apply_level lt l m" "snd ?s"]
  show ?case
    unfolding step using tracks_trans [OF t IH [THEN conjunct1]] IH [THEN conjunct2]
    by (simp add: apply_book_levels_simple_def)
qed

end

section \<open>The book simulates two finite maps\<close>

definition book_inv :: "local_order_book \<Rightarrow> bool" where
  "book_inv b \<longleftrightarrow> side_ok bid_order (ob_bids b) \<and> side_ok ask_order (ob_asks b) \<and>
     (ob_quality b \<in> {QValid, QStale} \<longrightarrow> \<not> detect_crossed_book b) \<and>
     (ob_quality b = QUninitialized \<longrightarrow> ob_bids b = [] \<and> ob_asks b = [])"

definition crossed_maps :: "(double \<rightharpoonup> double) \<Rightarrow> (double \<rightharpoonup> double) \<Rightarrow> bool" where
  "crossed_maps f g \<longleftrightarrow> (\<exists>p \<in> dom f. \<exists>q \<in> dom g. q \<le> p)"

lemma detect_crossed_quality [simp]:
  "detect_crossed_book (b \<lparr> ob_quality := x \<rparr>) = detect_crossed_book b"
  by (simp add: detect_crossed_book_def split: list.split)

lemma detect_crossed_maps:
  assumes "side_ok bid_order (ob_bids b)" and "side_ok ask_order (ob_asks b)"
  shows "detect_crossed_book b \<longleftrightarrow> crossed_maps (map_of (ob_bids b)) (map_of (ob_asks b))"
proof (cases "ob_bids b = [] \<or> ob_asks b = []")
  case True
  then show ?thesis by (auto simp: detect_crossed_book_def crossed_maps_def split: list.splits)
next
  case False
  then obtain p q bs r t as where bs: "ob_bids b = (p, q) # bs" and as: "ob_asks b = (r, t) # as"
    by (metis list.exhaust prod.exhaust)
  have d: "dom (map_of (ob_bids b)) = fst ` set (ob_bids b)" "dom (map_of (ob_asks b)) = fst ` set (ob_asks b)"
    by (simp_all add: dom_map_of_conv_image_fst)
  have top: "x \<le> p" if "x \<in> fst ` set (ob_bids b)" for x
    using bid.head_first [of p q bs x] assms(1) that
    by (auto simp: side_ok_def bs intro: double_less_imp_le)
  have low: "r \<le> x" if "x \<in> fst ` set (ob_asks b)" for x
    using ask.head_first [of r t as x] assms(2) that
    by (auto simp: side_ok_def as intro: double_less_imp_le)
  have "crossed_maps (map_of (ob_bids b)) (map_of (ob_asks b)) \<longleftrightarrow> r \<le> p"
  proof
    assume "crossed_maps (map_of (ob_bids b)) (map_of (ob_asks b))"
    then obtain x y where xy: "x \<in> fst ` set (ob_bids b)" "y \<in> fst ` set (ob_asks b)" "y \<le> x"
      unfolding crossed_maps_def d by blast
    show "r \<le> p" using top [OF xy(1)] low [OF xy(2)] xy(3) by (meson double_le_trans)
  qed (auto simp: crossed_maps_def bs as)
  then show ?thesis by (simp add: detect_crossed_book_def bs as)
qed

record spec_book =
  sb_symbol :: symbol
  sb_bids :: "double \<rightharpoonup> double"
  sb_asks :: "double \<rightharpoonup> double"
  sb_sequence :: u64
  sb_quality :: book_quality
  sb_updated :: timestamp

definition spec_load ::
  "normalized_order_book \<Rightarrow> (double \<rightharpoonup> double) \<Rightarrow> (double \<rightharpoonup> double) \<Rightarrow> spec_book \<Rightarrow> spec_book" where
  "spec_load u f g a =
    (let f' = fold spec_level (nb_bids u) f; g' = fold spec_level (nb_asks u) g
     in a \<lparr> sb_bids := f', sb_asks := g', sb_sequence := nb_sequence u,
            sb_updated := processed_ts (nb_envelope u),
            sb_quality := (if crossed_maps f' g' then QDesynced else QValid) \<rparr>)"

datatype book_op = Snap normalized_order_book | Delta normalized_order_book | Resync | Age timestamp int

definition spec_step :: "book_op \<Rightarrow> spec_book \<Rightarrow> spec_book" where
  "spec_step x a = (case x of
     Snap u \<Rightarrow> if ev_symbol (nb_envelope u) = sb_symbol a then spec_load u Map.empty Map.empty a else a
   | Delta u \<Rightarrow>
       if sb_quality a \<notin> {QValid, QStale} \<or> ev_symbol (nb_envelope u) \<noteq> sb_symbol a then a
       else if nb_sequence u = sb_sequence a + 1 then spec_load u (sb_bids a) (sb_asks a) a
       else a \<lparr> sb_quality := QDesynced \<rparr>
   | Resync \<Rightarrow> a \<lparr> sb_bids := Map.empty, sb_asks := Map.empty, sb_sequence := 0,
                   sb_quality := QUninitialized \<rparr>
   | Age t limit \<Rightarrow>
       if sb_quality a = QValid \<and> limit < t - sb_updated a then a \<lparr> sb_quality := QStale \<rparr> else a)"

fun book_step :: "book_op \<Rightarrow> local_order_book \<Rightarrow> local_order_book" where
  "book_step (Snap u) b = apply_snapshot u b"
| "book_step (Delta u) b = fst (snd (apply_delta u b))"
| "book_step Resync b = request_resync b"
| "book_step (Age t limit) b = snd (check_staleness t limit b)"

fun op_ok :: "book_op \<Rightarrow> bool" where
  "op_ok (Snap u) = (levels_ok (nb_bids u) \<and> levels_ok (nb_asks u))"
| "op_ok (Delta u) = (levels_ok (nb_bids u) \<and> levels_ok (nb_asks u))"
| "op_ok _ = True"

definition abs_book :: "local_order_book \<Rightarrow> spec_book" where
  "abs_book b = \<lparr> sb_symbol = ob_symbol b, sb_bids = map_of (ob_bids b), sb_asks = map_of (ob_asks b),
                  sb_sequence = ob_last_sequence b, sb_quality = ob_quality b,
                  sb_updated = ob_last_updated b \<rparr>"

text \<open>The state that a delta in sequence leaves, without the events.\<close>

definition load_levels :: "normalized_order_book \<Rightarrow> local_order_book \<Rightarrow> local_order_book" where
  "load_levels u b =
    (let b1 = b \<lparr> ob_bids := apply_book_levels_simple bid_order (nb_bids u) (ob_bids b),
                  ob_asks := apply_book_levels_simple ask_order (nb_asks u) (ob_asks b),
                  ob_last_sequence := nb_sequence u,
                  ob_last_updated := processed_ts (nb_envelope u) \<rparr>
     in b1 \<lparr> ob_quality := (if detect_crossed_book b1 then QDesynced else QValid) \<rparr>)"

lemma apply_delta_state:
  "fst (snd (apply_delta u b)) =
    (if ob_quality b \<in> {QUninitialized, QDesynced} \<or> ev_symbol (nb_envelope u) \<noteq> ob_symbol b then b
     else if nb_sequence u = ob_last_sequence b + 1 then load_levels u b
     else b \<lparr> ob_quality := QDesynced \<rparr>)"
  using bid.levels_with_events [of BidSide "ob_bids b" "empty_batch (ob_symbol b) (processed_ts (nb_envelope u))" "processed_ts (nb_envelope u)" "nb_bids u", THEN conjunct2]
    ask.levels_with_events [of AskSide "ob_asks b" _ "processed_ts (nb_envelope u)" "nb_asks u", THEN conjunct2]
  by (simp add: apply_delta_def load_levels_def Let_def case_prod_beta)

lemma apply_snapshot_state:
  "apply_snapshot u b =
    (if ev_symbol (nb_envelope u) \<noteq> ob_symbol b then b
     else load_levels u (b \<lparr> ob_bids := [], ob_asks := [] \<rparr>))"
  by (simp add: apply_snapshot_def load_levels_def Let_def)

lemma load_levels_laws:
  assumes "side_ok bid_order (ob_bids b)" and "side_ok ask_order (ob_asks b)"
    and "levels_ok (nb_bids u)" and "levels_ok (nb_asks u)"
  shows "book_inv (load_levels u b)"
    and "abs_book (load_levels u b) = spec_load u (map_of (ob_bids b)) (map_of (ob_asks b)) (abs_book b)"
proof -
  let ?m = "apply_book_levels_simple bid_order (nb_bids u) (ob_bids b)"
  let ?n = "apply_book_levels_simple ask_order (nb_asks u) (ob_asks b)"
  have m: "side_ok bid_order ?m" "map_of ?m = fold spec_level (nb_bids u) (map_of (ob_bids b))"
    using bid.apply_levels_laws [OF assms(1,3)] by simp_all
  have n: "side_ok ask_order ?n" "map_of ?n = fold spec_level (nb_asks u) (map_of (ob_asks b))"
    using ask.apply_levels_laws [OF assms(2,4)] by simp_all
  show "book_inv (load_levels u b)"
    using m(1) n(1) by (simp add: book_inv_def load_levels_def Let_def)
  show "abs_book (load_levels u b) = spec_load u (map_of (ob_bids b)) (map_of (ob_asks b)) (abs_book b)"
    using m n by (simp add: abs_book_def load_levels_def spec_load_def Let_def detect_crossed_maps)
qed

lemma book_step_laws:
  assumes "book_inv b" and "op_ok x"
  shows "book_inv (book_step x b) \<and> abs_book (book_step x b) = spec_step x (abs_book b)"
proof -
  have ok: "side_ok bid_order (ob_bids b)" "side_ok ask_order (ob_asks b)"
    using assms(1) by (simp_all add: book_inv_def)
  show ?thesis
  proof (cases x)
    case (Snap u)
    then show ?thesis
      using assms load_levels_laws [of "b \<lparr> ob_bids := [], ob_asks := [] \<rparr>" u]
      by (auto simp: apply_snapshot_state spec_step_def) (simp_all add: abs_book_def spec_load_def Let_def)
  next
    case (Delta u)
    have q: "ob_quality b \<in> {QUninitialized, QDesynced} \<longleftrightarrow> ob_quality b \<notin> {QValid, QStale}"
      by (cases "ob_quality b") simp_all
    have step: "book_step x b =
      (if ob_quality b \<notin> {QValid, QStale} \<or> ev_symbol (nb_envelope u) \<noteq> ob_symbol b then b
       else if nb_sequence u = ob_last_sequence b + 1 then load_levels u b
       else b \<lparr> ob_quality := QDesynced \<rparr>)"
      unfolding Delta book_step.simps apply_delta_state q ..
    have spec: "spec_step x (abs_book b) =
      (if ob_quality b \<notin> {QValid, QStale} \<or> ev_symbol (nb_envelope u) \<noteq> ob_symbol b then abs_book b
       else if nb_sequence u = ob_last_sequence b + 1
       then spec_load u (map_of (ob_bids b)) (map_of (ob_asks b)) (abs_book b)
       else abs_book b \<lparr> sb_quality := QDesynced \<rparr>)"
      by (simp add: Delta spec_step_def abs_book_def)
    have lost: "book_inv (b \<lparr> ob_quality := QDesynced \<rparr>)"
      "abs_book (b \<lparr> ob_quality := QDesynced \<rparr>) = abs_book b \<lparr> sb_quality := QDesynced \<rparr>"
      using ok by (simp_all add: book_inv_def abs_book_def)
    have "levels_ok (nb_bids u)" "levels_ok (nb_asks u)" using assms(2) Delta by simp_all
    from load_levels_laws [OF ok this] show ?thesis
      unfolding step spec using assms(1) lost by (simp split: if_split)
  next
    case Resync
    then show ?thesis
      by (simp add: request_resync_def book_inv_def spec_step_def abs_book_def detect_crossed_book_def)
  next
    case (Age t limit)
    then show ?thesis
      using assms(1) ok
      by (auto simp: check_staleness_def spec_step_def abs_book_def book_inv_def)
  qed
qed

interpretation book: simulation
  "\<lambda>b a. book_inv b \<and> abs_book b = a" book_step spec_step "\<lambda>x a. op_ok x"
  by unfold_locales (auto simp: book_step_laws)

lemma run_pre_ok: "run_pre (\<lambda>x a. op_ok x) spec_step xs a \<longleftrightarrow> list_all op_ok xs"
  by (induction xs arbitrary: a) simp_all

lemma book_inv_init: "book_inv (book_init s)"
  by (simp add: book_inv_def book_init_def detect_crossed_book_def)

lemma book_run:
  assumes "list_all op_ok xs"
  shows "book_inv (fold book_step xs (book_init s)) \<and>
         abs_book (fold book_step xs (book_init s)) = fold spec_step xs (abs_book (book_init s))"
  using book.sim_run [of "book_init s" "abs_book (book_init s)" xs] assms
  by (simp add: run_pre_ok book_inv_init)

end
