(* ===== verification/Order_Book_Properties.thy ===== *)
theory Order_Book_Properties
  imports Order_Book_Laws
begin

text \<open>
  What the order book promises its readers: a usable book is sorted and uncrossed, it is
  the result of applying exactly the updates in sequence, the published events rebuild
  it, and the derived prices lie between the best bid and the best ask.
\<close>

section \<open>Shared facts\<close>

lemma side_sorted:
  assumes "side_ok lt m"
  shows "sorted_wrt lt (map fst m)" and "\<forall>(p, q) \<in> set m. 0 < p \<and> 0 < q"
  using assms by (auto simp: side_ok_def om_wf_def)

lemma uncrossed_sides:
  assumes "book_inv b" and "ob_quality b \<in> {QValid, QStale}"
    and "p \<in> fst ` set (ob_bids b)" and "q \<in> fst ` set (ob_asks b)"
  shows "p < q"
proof -
  have ok: "side_ok bid_order (ob_bids b)" "side_ok ask_order (ob_asks b)"
    and "\<not> detect_crossed_book b" using assms(1,2) by (auto simp: book_inv_def)
  then have "\<not> crossed_maps (map_of (ob_bids b)) (map_of (ob_asks b))"
    using detect_crossed_maps [OF ok] by blast
  then have "\<not> q \<le> p"
    using assms(3,4) by (auto simp: crossed_maps_def dom_map_of_conv_image_fst)
  moreover have "p \<noteq> NaN" "q \<noteq> NaN" using ok assms(3,4) by (auto simp: side_ok_def om_wf_def)
  ultimately show ?thesis by (simp add: double_not_le)
qed

lemma mark_top_keeps [simp]:
  "be_side (mark_top ob nb oa na e) = be_side e" "be_type (mark_top ob nb oa na e) = be_type e"
  "replay_event lt (mark_top ob nb oa na e) = replay_event lt e"
  by (simp_all add: mark_top_def fun_eq_iff split: book_event_type.split)

text \<open>Doubles are multiples of the smallest one, so the difference of two is not lost.\<close>

lemma canonical_repr53: "canonical (Fin a) \<Longrightarrow> repr53 a"
  using repr53_rnd [of a] by (auto simp: mk_def Let_def split: if_splits)

lemma repr53_grid: "repr53 a \<Longrightarrow> \<exists>k :: int. a = of_int k * 2 powi (- 1074)"
proof -
  assume "repr53 a"
  then obtain m e where a: "a = of_int m * 2 powi e" "- 1074 \<le> e" by (auto simp: repr53_def)
  obtain j where j: "e + 1074 = int j" using a(2) nonneg_int_cases [of "e + 1074"] by auto
  have "e = int j + - 1074" using j by simp
  then have "(2 :: real) powi e = 2 powi (int j) * 2 powi (- 1074)"
    using power_int_add [of "2 :: real" "int j" "- 1074"] by (simp only:) simp
  then have "a = of_int (m * 2 ^ j) * 2 powi (- 1074)" by (simp add: a(1) power_int_def)
  then show ?thesis by blast
qed

lemma double_diff_pos:
  assumes "canonical x" and "canonical y" and "x < y" and "isfinite x" and "isfinite y"
  shows "0 < y - x"
proof -
  obtain a b where x: "x = Fin a" and y: "y = Fin b" using assms(4,5) by (auto simp: isfinite_iff)
  obtain k l :: int where k: "a = of_int k * 2 powi (- 1074)" and l: "b = of_int l * 2 powi (- 1074)"
    using repr53_grid canonical_repr53 assms(1,2) unfolding x y by blast
  have pos: "(0 :: real) < 2 powi (- 1074)" by simp
  have "k < l" using assms(3) pos by (simp add: x y k l mult_less_cancel_right)
  then have "1 * 2 powi (- 1074) \<le> of_int (l - k) * (2 :: real) powi (- 1074)"
    using pos by (intro mult_right_mono) auto
  then have d: "2 powi (- 1074) \<le> b - a" by (simp add: k l left_diff_distrib)
  have "repr53 (of_int 1 * 2 powi (- 1074))" by (rule repr53I) simp_all
  moreover have "\<bar>2 powi (- 1074) :: real\<bar> < 2 ^ 1024"
  proof -
    have "(2 :: real) powi (- 1074) \<le> 2 powi 0" by (rule power_int_increasing) simp_all
    also have "\<dots> < 2 ^ 1024" by simp
    finally show ?thesis by simp
  qed
  ultimately have "mk (2 powi (- 1074)) = Fin (2 powi (- 1074))" using mk_repr53 by simp
  then have "Fin (2 powi (- 1074)) \<le> mk (b - a)" using mk_mono [OF d] by simp
  moreover have "Fin 0 < Fin (2 powi (- 1074))" using pos by (simp only: less_double.simps)
  ultimately have "Fin 0 < mk (b - a)" by (rule double_less_le_trans [rotated])
  then show ?thesis by (simp add: x y minus_double_def zero_double_def)
qed

lemma midpoint_between:
  assumes "canonical x" and "canonical y" and "x \<le> y" and "0 \<le> x" and "y \<le> Fin (2 ^ 1022)"
  shows "x \<le> (x + y) * lit (1 / 2) \<and> (x + y) * lit (1 / 2) \<le> y"
proof -
  obtain a b where x: "x = Fin a" and y: "y = Fin b"
    using assms(3-5) by (cases x; cases y) (auto simp: zero_double_def)
  have ab: "0 \<le> a" "a \<le> b" "b \<le> 2 ^ 1022" using assms(3-5) by (simp_all add: x y zero_double_def)
  have dbl: "mk (2 * r) = Fin (2 * r)" if r: "canonical (Fin r)" "0 \<le> r" "r \<le> 2 ^ 1022" for r
  proof (rule mk_repr53)
    obtain m e where "r = of_int m * 2 powi e" "\<bar>m\<bar> < 2 ^ 53" "- 1074 \<le> e"
      using canonical_repr53 [OF r(1)] by (auto simp: repr53_def)
    then show "repr53 (2 * r)" using repr53I [of m "e + 1"] by (simp add: power_int_add ac_simps)
    have "2 * r \<le> 2 * 2 ^ 1022" using r(3) by (rule mult_left_mono) simp
    also have "\<dots> = (2 :: real) ^ 1023" by (subst power_Suc [symmetric]) simp
    also have "\<dots> < 2 ^ 1024" by (rule power_strict_increasing) simp_all
    finally show "\<bar>2 * r\<bar> < 2 ^ 1024" using r(2) by simp
  qed
  have lo: "Fin (2 * a) \<le> mk (a + b)"
    using mk_mono [of "2 * a" "a + b"] dbl [of a] assms(1) ab by (simp add: x)
  have hi: "mk (a + b) \<le> Fin (2 * b)"
    using mk_mono [of "a + b" "2 * b"] dbl [of b] assms(2) ab by (simp add: y)
  obtain s where s: "mk (a + b) = Fin s" using lo hi by (cases "mk (a + b)") auto
  have "mk a \<le> mk (s * (1 / 2))" "mk (s * (1 / 2)) \<le> mk b"
    using lo hi s by (auto intro!: mk_mono)
  then show ?thesis using assms(1,2) by (simp add: x y s mk_half)
qed

section \<open>Properties\<close>

text \<open>
  Whatever snapshots, deltas, resets and staleness checks the book receives, both sides
  stay strictly sorted from the best price with positive prices and sizes, and while the
  book is valid or stale every bid lies below every ask.
\<close>

theorem usable_book_is_uncrossed:
  assumes "list_all op_ok xs"
  shows "let b = fold book_step xs (book_init s) in
     sorted_wrt (>) (map fst (ob_bids b)) \<and> sorted_wrt (<) (map fst (ob_asks b)) \<and>
     (\<forall>(p, q) \<in> set (ob_bids b) \<union> set (ob_asks b). 0 < p \<and> 0 < q) \<and>
     (ob_quality b \<in> {QValid, QStale} \<longrightarrow>
        (\<forall>p \<in> fst ` set (ob_bids b). \<forall>q \<in> fst ` set (ob_asks b). p < q)) \<and>
     (ob_quality b = QUninitialized \<longrightarrow> ob_bids b = [] \<and> ob_asks b = [])"
proof -
  let ?b = "fold book_step xs (book_init s)"
  have inv: "book_inv ?b" using book_run [OF assms] by blast
  then have ok: "side_ok bid_order (ob_bids ?b)" "side_ok ask_order (ob_asks ?b)"
    by (simp_all add: book_inv_def)
  have un: "ob_quality ?b = QUninitialized \<longrightarrow> ob_bids ?b = [] \<and> ob_asks ?b = []"
    using inv by (simp add: book_inv_def)
  have pos: "\<forall>(p, q) \<in> set (ob_bids ?b) \<union> set (ob_asks ?b). 0 < p \<and> 0 < q"
    using side_sorted(2) [OF ok(1)] side_sorted(2) [OF ok(2)] by (simp only: ball_Un)
  show ?thesis
    unfolding Let_def
    by (intro conjI impI ballI side_sorted(1) ok pos un uncrossed_sides [OF inv])
qed

definition sample_update ::
  "nat \<Rightarrow> (real \<times> real) list \<Rightarrow> (real \<times> real) list \<Rightarrow> normalized_order_book" where
  "sample_update n bs as = \<lparr>
     nb_envelope = \<lparr> exchange_ts = 1, received_ts = 1, processed_ts = int n, ev_symbol = ''BTCUSDT'',
                     ev_source = ''bitget'', sequence_id = of_nat n \<rparr>,
     nb_update_type = UpdDelta,
     nb_bids = map (\<lambda>(p, q). \<lparr> lv_price = Fin p, lv_size = Fin q \<rparr>) bs,
     nb_asks = map (\<lambda>(p, q). \<lparr> lv_price = Fin p, lv_size = Fin q \<rparr>) as,
     nb_sequence = of_nat n \<rparr>"

lemma levels_ok_sample [simp]:
  "levels_ok (nb_bids (sample_update n bs as))" "levels_ok (nb_asks (sample_update n bs as))"
  by (auto simp: sample_update_def levels_ok_def list_all_iff)

definition sample_ops :: "book_op list" where
  "sample_ops = [Snap (sample_update 7 [(100, 1), (99, 2)] [(101, 1), (102, 5)]),
                 Delta (sample_update 8 [(100, 0)] [(101, 3)]), Age 100 10]"

lemma sample_ops_ok: "list_all op_ok sample_ops"
  by (simp add: sample_ops_def)

theorem usable_book_is_uncrossed_witness:
  "let b = fold book_step sample_ops (book_init ''BTCUSDT'') in
     sorted_wrt (>) (map fst (ob_bids b)) \<and> sorted_wrt (<) (map fst (ob_asks b))"
  using usable_book_is_uncrossed [OF sample_ops_ok, of "''BTCUSDT''"] unfolding Let_def by blast

text \<open>
  C34. The book is the abstract one: seen as two finite maps with a sequence number and a
  quality, every operation does what the specification does.  A level sets, replaces or
  (with size zero) removes its price; a delta counts only directly after the last
  sequence number; a crossing desynchronises.
\<close>

theorem book_refines_price_maps:
  assumes "list_all op_ok xs"
  shows "abs_book (fold book_step xs (book_init s)) = fold spec_step xs (abs_book (book_init s))"
  using book_run [OF assms] by blast

theorem book_refines_price_maps_witness:
  "abs_book (fold book_step sample_ops (book_init ''BTCUSDT'')) =
     fold spec_step sample_ops (abs_book (book_init ''BTCUSDT''))"
  by (rule book_refines_price_maps [OF sample_ops_ok])

text \<open>
  The events published for an accepted delta are the delta: replaying them on the old
  sides gives the new sides, nothing is published only when nothing changed, and the
  batch's counters are the numbers of its events.
\<close>

theorem published_events_replay:
  assumes "apply_delta u b = (True, b', pub)"
  shows "let evs = (case pub of None \<Rightarrow> [] | Some bt \<Rightarrow> bb_events bt) in
     fold (replay_event bid_order) (filter (\<lambda>e. be_side e = BidSide) evs) (ob_bids b) = ob_bids b' \<and>
     fold (replay_event ask_order) (filter (\<lambda>e. be_side e = AskSide) evs) (ob_asks b) = ob_asks b' \<and>
     (case pub of None \<Rightarrow> True | Some bt \<Rightarrow>
        bb_levels_added bt = count_type LevelAdded evs \<and>
        bb_levels_removed bt = count_type LevelRemoved evs \<and>
        bb_levels_updated bt = count_type LevelUpdated evs)"
proof -
  define ts where "ts = processed_ts (nb_envelope u)"
  define e0 where "e0 = empty_batch (ob_symbol b) ts"
  obtain bids bt1 where B: "apply_book_levels_with_events bid_order BidSide ts (nb_bids u) (ob_bids b, e0) = (bids, bt1)"
    by force
  obtain asks bt2 where A: "apply_book_levels_with_events ask_order AskSide ts (nb_asks u) (ob_asks b, bt1) = (asks, bt2)"
    by force
  define mt where "mt = (if \<not> deq (best_price bids) (best_price (ob_bids b)) \<or> \<not> deq (best_price asks) (best_price (ob_asks b))
    then mark_top (best_price (ob_bids b)) (best_price bids) (best_price (ob_asks b)) (best_price asks) else id)"
  have e0: "bb_events e0 = []" "bb_levels_added e0 = 0" "bb_levels_removed e0 = 0" "bb_levels_updated e0 = 0"
    by (simp_all add: e0_def empty_batch_def)
  have tB: "bid.tracks BidSide (ob_bids b) e0 bids bt1"
    using bid.levels_with_events [of BidSide "ob_bids b" e0 ts "nb_bids u", THEN conjunct1] B by simp
  have tA: "ask.tracks AskSide (ob_asks b) bt1 asks bt2"
    using ask.levels_with_events [of AskSide "ob_asks b" bt1 ts "nb_asks u", THEN conjunct1] A by simp
  from tB obtain es where es:
    "bb_events bt1 = es" "\<forall>e \<in> set es. be_side e = BidSide" "fold (replay_event bid_order) es (ob_bids b) = bids"
    "bb_levels_added bt1 = count_type LevelAdded es" "bb_levels_removed bt1 = count_type LevelRemoved es"
    "bb_levels_updated bt1 = count_type LevelUpdated es"
    unfolding bid.tracks_def e0 by auto
  from tA obtain fs where fs:
    "bb_events bt2 = es @ fs" "\<forall>e \<in> set fs. be_side e = AskSide" "fold (replay_event ask_order) fs (ob_asks b) = asks"
    "bb_levels_added bt2 = count_type LevelAdded (es @ fs)"
    "bb_levels_removed bt2 = count_type LevelRemoved (es @ fs)"
    "bb_levels_updated bt2 = count_type LevelUpdated (es @ fs)"
    unfolding ask.tracks_def es by auto
  have same: "be_side (mt e) = be_side e" "be_type (mt e) = be_type e"
    "replay_event lt (mt e) = replay_event lt e" for e lt
    by (simp_all add: mt_def)
  have cnt: "count_type ty (map mt gs) = count_type ty gs" for ty gs
    by (simp add: count_type_def filter_map comp_def same)
  have rep: "fold (replay_event lt) (map mt gs) m = fold (replay_event lt) gs m" for lt gs m
    by (simp add: fold_map comp_def same)
  have sides: "filter (\<lambda>e. be_side e = BidSide) (map mt (es @ fs)) = map mt es"
    "filter (\<lambda>e. be_side e = AskSide) (map mt (es @ fs)) = map mt fs"
    using es(2) fs(2) by (simp_all add: filter_map comp_def same filter_id_conv filter_empty_conv)
  have pub: "ob_bids b' = bids" "ob_asks b' = asks"
    "case pub of None \<Rightarrow> es @ fs = [] | Some bt \<Rightarrow> bb_events bt = map mt (es @ fs) \<and>
       bb_levels_added bt = bb_levels_added bt2 \<and> bb_levels_removed bt = bb_levels_removed bt2 \<and>
       bb_levels_updated bt = bb_levels_updated bt2"
    using assms B A fs(1)
    by (auto simp: apply_delta_def Let_def mt_def ts_def [symmetric] e0_def [symmetric] split: if_splits)
  then have evs: "(case pub of None \<Rightarrow> [] | Some bt \<Rightarrow> bb_events bt) = map mt (es @ fs)"
    by (cases pub) auto
  show ?thesis
    unfolding Let_def evs sides rep cnt using pub es fs by (cases pub) (simp_all del: count_type_simps)
qed

definition sample_book :: local_order_book where
  "sample_book = \<lparr> ob_symbol = ''BTCUSDT'', ob_bids = [(Fin 100, Fin 1), (Fin 99, Fin 2)],
     ob_asks = [(Fin 101, Fin 1)], ob_last_sequence = 7, ob_quality = QValid, ob_last_updated = 7 \<rparr>"

lemmas sample_defs = sample_book_def sample_update_def deq_def zero_double_def

lemma sample_delta_accepted:
  "\<exists>b' pub. apply_delta (sample_update 8 [(100, 0)] [(101, 3)]) sample_book = (True, b', pub) \<and>
      ob_bids b' = [(Fin 99, Fin 2)] \<and> ob_asks b' = [(Fin 101, Fin 3)]"
  by (simp add: sample_defs apply_delta_def Let_def apply_book_levels_with_events_def
      apply_level_with_event_def best_price_def detect_crossed_book_def)

theorem published_events_replay_witness:
  "\<exists>b' pub. apply_delta (sample_update 8 [(100, 0)] [(101, 3)]) sample_book = (True, b', pub) \<and>
      fold (replay_event bid_order) (filter (\<lambda>e. be_side e = BidSide)
         (case pub of None \<Rightarrow> [] | Some bt \<Rightarrow> bb_events bt)) (ob_bids sample_book) = [(Fin 99, Fin 2)]"
proof -
  obtain b' pub where d: "apply_delta (sample_update 8 [(100, 0)] [(101, 3)]) sample_book = (True, b', pub)"
    and b': "ob_bids b' = [(Fin 99, Fin 2)]" using sample_delta_accepted by blast
  from published_events_replay [OF d] have "fold (replay_event bid_order) (filter (\<lambda>e. be_side e = BidSide)
         (case pub of None \<Rightarrow> [] | Some bt \<Rightarrow> bb_events bt)) (ob_bids sample_book) = ob_bids b'"
    unfolding Let_def by blast
  with d b' show ?thesis by auto
qed

text \<open>
  After a gap the book is frozen: no delta, in or out of sequence, changes a level or is
  accepted until a snapshot or a reset arrives, and the book says so.
\<close>

fun not_repair :: "book_op \<Rightarrow> bool" where
  "not_repair (Snap u) = False"
| "not_repair Resync = False"
| "not_repair _ = True"

lemma desynced_step:
  "ob_quality b = QDesynced \<Longrightarrow> not_repair x \<Longrightarrow> book_step x b = b"
  by (cases x) (simp_all add: apply_delta_def check_staleness_def)

lemma desynced_steps:
  "ob_quality b = QDesynced \<Longrightarrow> list_all not_repair xs \<Longrightarrow> fold book_step xs b = b"
  by (induction xs) (simp_all add: desynced_step)

theorem gap_freezes_book:
  assumes "ob_quality b \<in> {QValid, QStale}" and "ev_symbol (nb_envelope u) = ob_symbol b"
    and "nb_sequence u \<noteq> ob_last_sequence b + 1" and "list_all not_repair xs"
  shows "let b' = fold book_step (Delta u # xs) b in
     b' = b \<lparr> ob_quality := QDesynced \<rparr> \<and> (\<forall>v. \<not> fst (apply_delta v b'))"
proof -
  let ?d = "b \<lparr> ob_quality := QDesynced \<rparr>"
  have "book_step (Delta u) b = ?d" using assms(1-3) by (auto simp: apply_delta_def)
  moreover have "fold book_step xs ?d = ?d" using assms(4) by (intro desynced_steps) simp_all
  ultimately show ?thesis by (simp add: Let_def apply_delta_def del: book_step.simps)
qed

theorem gap_freezes_book_witness:
  "fold book_step [Delta (sample_update 9 [] []), Delta (sample_update 8 [(50, 1)] [])] sample_book
     = sample_book \<lparr> ob_quality := QDesynced \<rparr>"
  using gap_freezes_book [of sample_book "sample_update 9 [] []" "[Delta (sample_update 8 [(50, 1)] [])]"]
  by (simp add: sample_book_def sample_update_def Let_def)

lemma finite_between: "0 < p \<Longrightarrow> p \<le> Fin m \<Longrightarrow> isfinite p"
  by (cases p) (simp_all add: zero_double_def)

text \<open>
  The top of a usable book is meaningful in double arithmetic: the spread is positive,
  the mid price lies between best bid and best ask, and these are the extreme prices of
  their sides.
\<close>

theorem top_of_book_sound:
  assumes "book_inv b" and "ob_quality b \<in> {QValid, QStale}" and "top_of_book b = Some t"
    and "\<forall>(p, q) \<in> set (ob_bids b) \<union> set (ob_asks b). canonical p \<and> p \<le> Fin (2 ^ 1022)"
  shows "0 < tob_spread t \<and> tob_best_bid t \<le> tob_mid_price t \<and> tob_mid_price t \<le> tob_best_ask t \<and>
     (\<forall>(p, q) \<in> set (ob_bids b). p \<le> tob_best_bid t) \<and>
     (\<forall>(p, q) \<in> set (ob_asks b). tob_best_ask t \<le> p)"
proof -
  obtain p q bs r s as where bs: "ob_bids b = (p, q) # bs" and as: "ob_asks b = (r, s) # as"
    using assms(3) by (auto simp: top_of_book_def split: list.splits)
  have ok: "side_ok bid_order (ob_bids b)" "side_ok ask_order (ob_asks b)"
    using assms(1) by (simp_all add: book_inv_def)
  have pr: "p < r" using uncrossed_sides [OF assms(1,2)] by (simp add: bs as)
  have pos: "0 < p" "0 < r" using side_sorted(2) [OF ok(1)] side_sorted(2) [OF ok(2)] by (simp_all add: bs as)
  have can: "canonical p" "canonical r" "p \<le> Fin (2 ^ 1022)" "r \<le> Fin (2 ^ 1022)"
    using assms(4) by (auto simp: bs as)
  have fin: "isfinite p" "isfinite r"
    using pos can(3,4) finite_between by blast+
  have t: "tob_best_bid t = p" "tob_best_ask t = r" "tob_spread t = r - p"
    "tob_mid_price t = (p + r) * lit (1 / 2)"
    using assms(3) by (auto simp: top_of_book_def bs as Let_def)
  have mid: "p \<le> (p + r) * lit (1 / 2) \<and> (p + r) * lit (1 / 2) \<le> r"
    using pr pos can by (intro midpoint_between) (auto intro: double_less_imp_le)
  have best: "x \<le> p" if "(x, y) \<in> set (ob_bids b)" for x y
    using bid.head_first [of p q bs x] ok(1) that fin
    by (force simp: side_ok_def bs intro: double_less_imp_le)
  have ask: "r \<le> x" if "(x, y) \<in> set (ob_asks b)" for x y
    using ask.head_first [of r s as x] ok(2) that fin
    by (force simp: side_ok_def as intro: double_less_imp_le)
  show ?thesis
    unfolding t using mid double_diff_pos [OF can(1,2) pr fin] best ask by blast
qed

lemma sample_book_facts:
  "book_inv sample_book" "\<exists>t. top_of_book sample_book = Some t \<and> tob_best_bid t = Fin 100"
  "\<forall>(p, q) \<in> set (ob_bids sample_book) \<union> set (ob_asks sample_book). canonical p \<and> p \<le> Fin (2 ^ 1022)"
proof -
  show "book_inv sample_book"
    by (simp add: book_inv_def side_ok_def om_wf_def sample_book_def zero_double_def detect_crossed_book_def)
  show "\<exists>t. top_of_book sample_book = Some t \<and> tob_best_bid t = Fin 100"
    by (simp add: top_of_book_def sample_book_def Let_def)
  have big: "(101 :: real) \<le> 2 ^ 1022"
    using power_increasing [of 7 1022 "2 :: real"] by simp
  then show "\<forall>(p, q) \<in> set (ob_bids sample_book) \<union> set (ob_asks sample_book). canonical p \<and> p \<le> Fin (2 ^ 1022)"
    by (simp add: sample_book_def)
qed

theorem top_of_book_sound_witness:
  "\<exists>t. top_of_book sample_book = Some t \<and> 0 < tob_spread t \<and> Fin 100 \<le> tob_mid_price t"
proof -
  obtain t where t: "top_of_book sample_book = Some t" "tob_best_bid t = Fin 100"
    using sample_book_facts(2) by blast
  have q: "ob_quality sample_book \<in> {QValid, QStale}" by (simp add: sample_book_def)
  show ?thesis
    using top_of_book_sound [OF sample_book_facts(1) q t(1) sample_book_facts(3)] t by auto
qed

text \<open>The depth imbalance of finite depths is a number between -1 and 1.\<close>

lemma imbalance_range:
  assumes "0 \<le> x" and "0 \<le> y" and "isfinite (x + y)"
  shows "lit (- 1) \<le> imbalance x y \<and> imbalance x y \<le> 1"
proof -
  obtain a b where x: "x = Fin a" and y: "y = Fin b"
    using assms by (cases x; cases y) auto
  obtain s where s: "mk (a + b) = Fin s" using assms(3) by (auto simp: x y isfinite_iff)
  have "mk (a - b) \<le> mk (a + b)" "mk (- (a + b)) \<le> mk (a - b)"
    using assms(1,2) by (auto simp: x y zero_double_def intro!: mk_mono)
  moreover have "mk (- (a + b)) = Fin (- s)" by (simp only: mk_minus s) simp
  ultimately obtain d where d: "mk (a - b) = Fin d" "d \<le> s" "- s \<le> d"
    by (cases "mk (a - b)") (auto simp: s)
  have "0 < s \<Longrightarrow> mk (- 1) \<le> mk (d / s) \<and> mk (d / s) \<le> mk 1"
    using d by (intro conjI mk_mono) (auto simp: field_simps)
  then show ?thesis
    using s d mk_minus [of 1]
    by (simp add: imbalance_def Let_def x y zero_double_def one_double_def minus_double_def)
qed

end
