(* ===== verification/Market_Data.thy ===== *)
theory Market_Data
  imports Normalizer Market_Buffers Order_Book_Properties
begin

text \<open>
  The market-data path from a WebSocket message to the book and the buffers:
  \<^verbatim>\<open>src/src/market_data/market_data_gateway.cpp\<close> with the normalizer before it and the
  order book and the buffers of \<^verbatim>\<open>src/src/features/feature_engine.cpp\<close> behind it.  Of the
  feature engine the buffers and the last ticker are modelled; its indicator trackers and
  the snapshot it computes for the strategies are not.
\<close>

section \<open>The feature engine's buffers\<close>

record feature_buffers =
  fb_candles :: "(string \<times> candle_buffer) list"
  fb_trades :: "(string \<times> trade_buffer) list"
  fb_last_tickers :: "(string \<times> normalized_ticker) list"
  fb_last_trade_received_ns :: "(string \<times> timestamp) list"

definition default_trade :: trade_record where
  "default_trade = \<lparr> tr_ts = 0, tr_price = 0, tr_size = 0, tr_side = Buy, tr_is_aggressive = False \<rparr>"

definition features_init :: feature_buffers where
  "features_init = \<lparr> fb_candles = [], fb_trades = [], fb_last_tickers = [], fb_last_trade_received_ns = [] \<rparr>"

definition fe_on_candle :: "normalized_candle \<Rightarrow> feature_buffers \<Rightarrow> feature_buffers" where
  "fe_on_candle candle f =
    (let key = ev_symbol (nc_envelope candle) @ '':'' @ nc_interval candle;
         buf = (case map_of (fb_candles f) key of Some b \<Rightarrow> b | None \<Rightarrow> rb_init 500 default_candle)
     in f \<lparr> fb_candles := AList.update key (on_candle candle buf) (fb_candles f) \<rparr>)"

definition fe_on_trade :: "normalized_trade \<Rightarrow> feature_buffers \<Rightarrow> feature_buffers" where
  "fe_on_trade trade f =
    (let key = ev_symbol (nt_envelope trade);
         buf = (case map_of (fb_trades f) key of Some b \<Rightarrow> b | None \<Rightarrow> rb_init 1000 default_trade)
     in f \<lparr> fb_trades := AList.update key (tb_push trade buf) (fb_trades f),
            fb_last_trade_received_ns := AList.update key (received_ts (nt_envelope trade))
              (fb_last_trade_received_ns f) \<rparr>)"

definition fe_on_ticker :: "normalized_ticker \<Rightarrow> feature_buffers \<Rightarrow> feature_buffers" where
  "fe_on_ticker ticker f =
    f \<lparr> fb_last_tickers := AList.update (ev_symbol (tk_envelope ticker)) ticker (fb_last_tickers f) \<rparr>"

section \<open>The gateway\<close>

datatype ws_msg_type =
  MsgTicker | MsgTrade | MsgOrderBook | MsgCandle | MsgHeartbeat | MsgSubscribe | MsgUnsubscribe
  | MsgError | MsgUnknown

record raw_ws_message =
  wm_type :: ws_msg_type
  wm_raw_payload :: string
  wm_received_ns :: timestamp

record market_gateway =
  mg_normalizer :: normalizer
  mg_book :: local_order_book
  mg_features :: feature_buffers
  mg_last_message_ts :: timestamp
  mg_raw_message_count :: u64

definition gateway_init :: "symbol list \<Rightarrow> symbol \<Rightarrow> market_gateway" where
  "gateway_init symbols book_symbol =
    \<lparr> mg_normalizer = set_symbols symbols normalizer_init, mg_book = book_init book_symbol,
      mg_features = features_init, mg_last_message_ts = 0, mg_raw_message_count = 0 \<rparr>"

definition on_normalized_event :: "normalized_event \<Rightarrow> market_gateway \<Rightarrow> market_gateway" where
  "on_normalized_event e g = (case e of
     EvBook ev \<Rightarrow>
       (if nb_update_type ev = UpdSnapshot then g \<lparr> mg_book := apply_snapshot ev (mg_book g) \<rparr>
        else let (ok, b, _) = apply_delta ev (mg_book g)
             in g \<lparr> mg_book := (if \<not> ok then request_resync b else b) \<rparr>)
   | EvTicker ev \<Rightarrow> g \<lparr> mg_features := fe_on_ticker ev (mg_features g) \<rparr>
   | EvTrade ev \<Rightarrow> g \<lparr> mg_features := fe_on_trade ev (mg_features g) \<rparr>
   | EvCandle ev \<Rightarrow> g \<lparr> mg_features := fe_on_candle ev (mg_features g) \<rparr>)"

definition on_raw_message ::
  "(string \<Rightarrow> json option) \<Rightarrow> timestamp \<Rightarrow> u64 \<Rightarrow> raw_ws_message \<Rightarrow> market_gateway \<Rightarrow> market_gateway" where
  "on_raw_message json_parse t_now uninit msg g =
    (if wm_type msg = MsgHeartbeat \<or> wm_type msg = MsgSubscribe then g
     else let g1 = g \<lparr> mg_last_message_ts := t_now, mg_raw_message_count := mg_raw_message_count g + 1 \<rparr>;
              (evs, z) = process_raw_message json_parse t_now uninit (wm_raw_payload msg)
                           (wm_received_ns msg) (mg_normalizer g1)
          in fold on_normalized_event evs (g1 \<lparr> mg_normalizer := z \<rparr>))"

definition on_connection_changed :: "bool \<Rightarrow> market_gateway \<Rightarrow> market_gateway" where
  "on_connection_changed online g =
    (if online then g else g \<lparr> mg_book := request_resync (mg_book g) \<rparr>)"

definition is_feed_fresh :: "timestamp \<Rightarrow> market_gateway \<Rightarrow> bool" where
  "is_feed_fresh now_ns g =
    (let diff = now_ns - mg_last_message_ts g in if diff < 0 then False else diff < 1000000000)"

text \<open>What happens to a gateway: messages with the clock reading, connection changes, age checks.\<close>

datatype market_input =
    Message timestamp u64 raw_ws_message
  | Connection bool
  | AgeCheck timestamp int

fun market_step :: "(string \<Rightarrow> json option) \<Rightarrow> market_input \<Rightarrow> market_gateway \<Rightarrow> market_gateway" where
  "market_step jp (Message t u m) g = on_raw_message jp t u m g"
| "market_step jp (Connection c) g = on_connection_changed c g"
| "market_step jp (AgeCheck t limit) g = g \<lparr> mg_book := snd (check_staleness t limit (mg_book g)) \<rparr>"

section \<open>What the normalizer lets through\<close>

text \<open>A JSON value in which no text reads as NaN.\<close>

fun no_nan :: "json \<Rightarrow> bool" where
  "no_nan (JString s) \<longleftrightarrow> to_double s \<noteq> NaN"
| "no_nan (JArray xs) \<longleftrightarrow> list_all no_nan xs"
| "no_nan (JObject es) \<longleftrightarrow> list_all (\<lambda>(k, v). no_nan v) es"
| "no_nan _ \<longleftrightarrow> True"

fun event_ok :: "normalized_event \<Rightarrow> bool" where
  "event_ok (EvBook u) \<longleftrightarrow> levels_ok (nb_bids u) \<and> levels_ok (nb_asks u)"
| "event_ok (EvCandle c) \<longleftrightarrow> candle_wf (candle_of c)"
| "event_ok _ \<longleftrightarrow> True"

lemma to_double_Nil [simp]: "to_double [] = 0"
  by (simp add: to_double_def)

lemma zero_not_NaN [simp]: "(0 :: double) \<noteq> NaN"
  by (simp add: zero_double_def)

lemma safe_string_value_no_nan: "no_nan v \<Longrightarrow> to_double (safe_string_value v) \<noteq> NaN"
  by (cases v) (simp_all add: safe_string_value_def)

lemma map_of_no_nan: "list_all (\<lambda>(k, v). no_nan v) obj \<Longrightarrow> map_of obj k = Some v \<Longrightarrow> no_nan v"
  by (auto simp: list_all_iff dest!: map_of_SomeD)

lemma json_shape [simp]:
  "if_array v = Some xs \<longleftrightarrow> v = JArray xs" "if_object v = Some es \<longleftrightarrow> v = JObject es"
  "Some xs = if_array v \<longleftrightarrow> v = JArray xs" "Some es = if_object v \<longleftrightarrow> v = JObject es"
  by (cases v; auto)+

lemma json_levels_no_nan:
  assumes "\<And>v. w = Some v \<Longrightarrow> no_nan v" and "l \<in> set (json_levels w)"
  shows "to_double (rl_price l) \<noteq> NaN"
proof -
  obtain xs x p where x: "w = Some (JArray xs)" "x \<in> set xs" "x = JArray p" "2 \<le> length p"
    and l: "rl_price l = safe_string_value (p ! 0)"
    using assms(2)
    by (cases w) (auto simp: json_levels_def split: option.splits if_splits)
  have "no_nan x" using assms(1) x(1,2) by (simp add: list_all_iff)
  moreover have "p ! 0 \<in> set p" using x(4) by (cases p) simp_all
  ultimately have "no_nan (p ! 0)" using x(3) by (simp add: list_all_iff)
  then show ?thesis by (simp add: l safe_string_value_no_nan)
qed

lemma parse_levels_ok:
  assumes "\<And>l. l \<in> set ls \<Longrightarrow> to_double (rl_price l) \<noteq> NaN"
  shows "levels_ok (parse_levels ls)"
  using assms by (auto simp: levels_ok_def parse_levels_def list_all_iff)

lemma parse_order_book_ok:
  assumes "parse_order_book t raw r z = (Some u, z')"
    and "\<And>l. l \<in> set (ro_bids raw) \<union> set (ro_asks raw) \<Longrightarrow> to_double (rl_price l) \<noteq> NaN"
  shows "event_ok (EvBook u)"
proof -
  have "nb_bids u = parse_levels (ro_bids raw)" "nb_asks u = parse_levels (ro_asks raw)"
    using assms(1)
    by (auto simp: parse_order_book_def reject_def Let_def split: prod.splits option.splits if_splits)
  then show ?thesis using assms(2) parse_levels_ok by simp
qed

lemma parse_candle_ok:
  assumes "parse_candle t raw r z = (Some c, z')"
    and "to_double (rc_open raw) \<noteq> NaN" and "to_double (rc_high raw) \<noteq> NaN"
    and "to_double (rc_low raw) \<noteq> NaN" and "to_double (rc_close raw) \<noteq> NaN"
  shows "event_ok (EvCandle c)"
proof -
  let ?o = "to_double (rc_open raw)" and ?h = "to_double (rc_high raw)"
  let ?l = "to_double (rc_low raw)" and ?c = "to_double (rc_close raw)"
  have "\<not> ?h < ?o" "\<not> ?h < ?c" "\<not> ?o < ?l" "\<not> ?c < ?l"
    and c: "nc_open c = ?o" "nc_high c = ?h" "nc_low c = ?l" "nc_close c = ?c"
    using assms(1) unfolding parse_candle_def reject_def Let_def
    by (auto split: prod.splits if_splits)
  then have "?o \<le> ?h" "?c \<le> ?h" "?l \<le> ?o" "?l \<le> ?c" using assms(2-5) by (simp_all add: double_not_less)
  then show ?thesis by (simp add: candle_wf_def candle_of_def c)
qed

lemma parse_item_ok:
  assumes "parse_item t u r channel inst_id action item z = (Some e, z')" and "no_nan item"
  shows "event_ok e"
proof -
  consider (other) "\<And>b. e \<noteq> EvBook b" "\<And>c. e \<noteq> EvCandle c"
    | (book) obj b where "item = JObject obj" "e = EvBook b"
        "parse_order_book t (raw_book_of u inst_id action obj) r z = (Some b, z')"
    | (candle) arr raw c where "item = JArray arr" "7 \<le> length arr" "e = EvCandle c"
        "parse_candle t raw r z = (Some c, z')"
        "raw = raw_candle_of inst_id (drop 6 channel) (interval_to_ms (drop 6 channel)) (t sdiv 1000000) arr"
    using assms(1)
    by (auto simp: parse_item_def Let_def apfst_def map_prod_def split: if_splits option.splits prod.splits)
  then show ?thesis
  proof cases
    case other
    then show ?thesis by (cases e) auto
  next
    case (book obj b)
    have "to_double (rl_price l) \<noteq> NaN"
      if "l \<in> set (ro_bids (raw_book_of u inst_id action obj)) \<union> set (ro_asks (raw_book_of u inst_id action obj))" for l
      using that assms(2) json_levels_no_nan map_of_no_nan [of obj]
      by (auto simp: raw_book_of_def book(1))
    then show ?thesis unfolding book(2) by (rule parse_order_book_ok [OF book(3)])
  next
    case (candle arr raw c)
    have "to_double (safe_string_value (arr ! i)) \<noteq> NaN" if "i < 7" for i
      using assms(2) that candle(1,2) by (intro safe_string_value_no_nan) (simp add: list_all_iff)
    then show ?thesis
      unfolding candle(3) by (intro parse_candle_ok [OF candle(4)]) (simp_all add: candle(5) raw_candle_of_def Let_def)
  qed
qed

lemma accept_items_ok:
  assumes "\<And>item z e z'. item \<in> set items \<Longrightarrow> parse item z = (Some e, z') \<Longrightarrow> event_ok e"
    and "list_all event_ok (fst acc)"
  shows "list_all event_ok (fst (fold (accept_item parse) items acc))"
  using assms
proof (induction items arbitrary: acc)
  case (Cons item items)
  obtain evs z where acc: "acc = (evs, z)" by force
  have "list_all event_ok (fst (accept_item parse item acc))"
    using Cons.prems(1) [of item z] Cons.prems(2)
    by (auto simp: accept_item_def acc split: prod.splits option.splits)
  then have "list_all event_ok (fst (fold (accept_item parse) items (accept_item parse item acc)))"
    by (rule Cons.IH [rotated]) (use Cons.prems(1) in auto)
  then show ?case by simp
qed simp

lemma process_raw_message_ok:
  assumes "\<And>s j. json_parse s = Some j \<Longrightarrow> no_nan j"
  shows "list_all event_ok (fst (process_raw_message json_parse t u payload r z))"
proof -
  have items: "no_nan item"
    if "json_parse payload = Some (JObject robj)" "map_of robj ''data'' = Some (JArray items)" "item \<in> set items"
    for robj items item
  proof -
    have "list_all (\<lambda>(k, v). no_nan v) robj" using assms [OF that(1)] by simp
    from map_of_no_nan [OF this that(2)] show ?thesis using that(3) by (simp add: list_all_iff)
  qed
  have run: "list_all event_ok (fst (fold (accept_item (parse_item t u r channel inst_id action)) items ([], z)))"
    if "json_parse payload = Some (JObject robj)" "map_of robj ''data'' = Some (JArray items)"
    for robj items channel inst_id action
    by (rule accept_items_ok) (use parse_item_ok items [OF that] in auto)
  show ?thesis
  proof (cases "Option.bind (json_parse payload) if_object")
    case None
    then show ?thesis by (simp add: process_raw_message_def)
  next
    case (Some robj)
    then have j: "json_parse payload = Some (JObject robj)" by (auto simp: bind_eq_Some_conv)
    show ?thesis
    proof (cases "Option.bind (map_of robj ''data'') if_array")
      case None
      then show ?thesis by (simp add: process_raw_message_def Let_def Some split: option.split)
    next
      case (Some items)
      then have "map_of robj ''data'' = Some (JArray items)" by (auto simp: bind_eq_Some_conv)
      note run = run [OF j this]
      show ?thesis
        by (simp add: process_raw_message_def Let_def j Some run split: option.split)
    qed
  qed
qed

section \<open>The path keeps its data consistent\<close>

definition features_inv :: "feature_buffers \<Rightarrow> bool" where
  "features_inv f \<longleftrightarrow> (\<forall>k b. map_of (fb_candles f) k = Some b \<longrightarrow> history_ok b)"

definition market_inv :: "market_gateway \<Rightarrow> bool" where
  "market_inv g \<longleftrightarrow> book_inv (mg_book g) \<and> features_inv (mg_features g)"

lemma features_inv_candle:
  assumes "features_inv f" and "candle_wf (candle_of c)"
  shows "features_inv (fe_on_candle c f)"
proof -
  have "history_ok (rb_init 500 default_candle)" by (simp add: history_ok_def rb_inv_init)
  then show ?thesis
    using assms history_ok_on_candle
    by (auto simp: features_inv_def fe_on_candle_def Let_def split: option.splits if_splits)
qed

lemma book_inv_ops:
  assumes "book_inv b"
  shows "levels_ok (nb_bids u) \<Longrightarrow> levels_ok (nb_asks u) \<Longrightarrow> book_inv (apply_snapshot u b)"
    and "levels_ok (nb_bids u) \<Longrightarrow> levels_ok (nb_asks u) \<Longrightarrow> book_inv (fst (snd (apply_delta u b)))"
    and "book_inv (request_resync b)" and "book_inv (snd (check_staleness t n b))"
  using book_step_laws [OF assms, of "Snap u"] book_step_laws [OF assms, of "Delta u"]
    book_step_laws [OF assms, of Resync] book_step_laws [OF assms, of "Age t n"] by simp_all

lemma market_inv_event:
  assumes "market_inv g" and "event_ok e"
  shows "market_inv (on_normalized_event e g)"
proof (cases e)
  case (EvBook u)
  have b: "book_inv (mg_book g)" and f: "features_inv (mg_features g)"
    using assms(1) by (simp_all add: market_inv_def)
  have "levels_ok (nb_bids u)" "levels_ok (nb_asks u)" using assms(2) EvBook by simp_all
  note kept = book_inv_ops(1,2) [OF b this]
  have "mg_book (on_normalized_event e g) =
      (if nb_update_type u = UpdSnapshot then apply_snapshot u (mg_book g)
       else if fst (apply_delta u (mg_book g)) then fst (snd (apply_delta u (mg_book g)))
       else request_resync (fst (snd (apply_delta u (mg_book g)))))"
    by (simp add: EvBook on_normalized_event_def case_prod_beta)
  moreover have "mg_features (on_normalized_event e g) = mg_features g"
    by (simp add: EvBook on_normalized_event_def case_prod_beta)
  ultimately show ?thesis
    using f kept book_inv_ops(3) by (simp add: market_inv_def)
next
  case (EvCandle c)
  then show ?thesis
    using assms features_inv_candle by (simp add: market_inv_def on_normalized_event_def)
qed (use assms in \<open>simp_all add: market_inv_def on_normalized_event_def fe_on_ticker_def
       fe_on_trade_def features_inv_def Let_def\<close>)

lemma market_inv_events:
  "market_inv g \<Longrightarrow> list_all event_ok es \<Longrightarrow> market_inv (fold on_normalized_event es g)"
  by (induction es arbitrary: g) (simp_all add: market_inv_event)

lemma market_inv_step:
  assumes "market_inv g" and "\<And>s j. json_parse s = Some j \<Longrightarrow> no_nan j"
  shows "market_inv (market_step json_parse x g)"
proof (cases x)
  case (Message t u m)
  have inv: "market_inv (g \<lparr> mg_last_message_ts := t, mg_raw_message_count := n, mg_normalizer := z \<rparr>)" for n z
    using assms(1) by (simp add: market_inv_def)
  obtain evs z' where p: "process_raw_message json_parse t u (wm_raw_payload m) (wm_received_ns m) (mg_normalizer g) = (evs, z')"
    by force
  then have "list_all event_ok evs"
    using process_raw_message_ok [where json_parse = json_parse and t = t and u = u
        and payload = "wm_raw_payload m" and r = "wm_received_ns m" and z = "mg_normalizer g"] assms(2)
    by simp
  from market_inv_events [OF inv this] show ?thesis
    using assms(1) by (simp add: Message on_raw_message_def Let_def p)
next
  case (Connection c)
  then show ?thesis
    using assms(1) by (simp add: market_inv_def on_connection_changed_def book_inv_ops)
next
  case (AgeCheck t n)
  then show ?thesis using assms(1) by (simp add: market_inv_def book_inv_ops)
qed

interpretation market: inv_system
  "\<lambda>g. \<exists>ss s. g = gateway_init ss s"
  "\<lambda>g g'. \<exists>jp x. (\<forall>s j. jp s = Some j \<longrightarrow> no_nan j) \<and> g' = market_step jp x g" market_inv
proof unfold_locales
  fix g assume "\<exists>ss s. g = gateway_init ss s"
  then show "market_inv g"
    by (auto simp: market_inv_def gateway_init_def book_inv_init features_inv_def features_init_def)
qed (auto intro: market_inv_step)

lemma market_run:
  assumes "\<And>s j. json_parse s = Some j \<Longrightarrow> no_nan j"
  shows "market_inv (fold (market_step json_parse) xs (gateway_init ss s))"
proof -
  have "(\<lambda>g g'. \<exists>jp x. (\<forall>s j. jp s = Some j \<longrightarrow> no_nan j) \<and> g' = market_step jp x g)\<^sup>*\<^sup>*
          g (fold (market_step json_parse) xs g)" for g
  proof (induction xs arbitrary: g)
    case (Cons x xs)
    have "\<exists>jp y. (\<forall>s j. jp s = Some j \<longrightarrow> no_nan j) \<and> market_step json_parse x g = market_step jp y g"
      using assms by blast
    then show ?case using Cons [of "market_step json_parse x g"]
      by (simp add: converse_rtranclp_into_rtranclp)
  qed simp
  then show ?thesis using market.inv_reachable by blast
qed

section \<open>Properties\<close>

text \<open>
  C33. Whatever messages arrive, in whatever order, with any payload the JSON reader accepts
  as long as no text in it reads as NaN: the book stays sorted with positive levels and is
  uncrossed while it is usable, and every stored candle has its open and close within its
  low and high.
\<close>

theorem market_data_consistent:
  assumes "\<forall>s j. json_parse s = Some j \<longrightarrow> no_nan j"
  shows "let g = fold (market_step json_parse) xs (gateway_init symbols book_symbol); b = mg_book g in
     sorted_wrt (>) (map fst (ob_bids b)) \<and> sorted_wrt (<) (map fst (ob_asks b)) \<and>
     (ob_quality b \<in> {QValid, QStale} \<longrightarrow>
        (\<forall>p \<in> fst ` set (ob_bids b). \<forall>q \<in> fst ` set (ob_asks b). p < q)) \<and>
     (\<forall>key buf. map_of (fb_candles (mg_features g)) key = Some buf \<longrightarrow>
        list_all candle_wf (rb_list buf) \<and> list_all cd_is_closed (butlast (rb_list buf)))"
proof -
  let ?g = "fold (market_step json_parse) xs (gateway_init symbols book_symbol)"
  have inv: "book_inv (mg_book ?g)" "features_inv (mg_features ?g)"
    using market_run [of json_parse] assms by (simp_all add: market_inv_def)
  then have "side_ok bid_order (ob_bids (mg_book ?g))" "side_ok ask_order (ob_asks (mg_book ?g))"
    by (simp_all add: book_inv_def)
  then show ?thesis
    unfolding Let_def using uncrossed_sides [OF inv(1)] inv(2)
    by (auto intro: side_sorted(1) simp: features_inv_def history_ok_def)
qed

lemmas lexical_defs = to_double_def from_chars_double_def scan_unsigned_def scan_decimal_def
  scan_exponent_def has_prefix_def iequals_def tolower_def is_digit_def read_nat_def char_digit_def

lemma to_double_samples:
  "to_double ''100'' = Fin 100" "to_double ''101'' = Fin 101" "to_double ''1'' = Fin 1"
  "to_double ''nan'' = NaN" "to_double ''-2.5e1'' = Fin (- 25)" "to_double ''x'' = 0"
  by (simp_all add: lexical_defs Let_def zero_double_def)

lemma to_double_not_NaN:
  assumes "\<not> iequals (take 3 s) ''nan''" and "\<not> iequals (take 3 (tl s)) ''nan''"
  shows "to_double s \<noteq> NaN"
proof -
  have u: "scan_unsigned t \<noteq> Some NaN" if "\<not> iequals (take 3 t) ''nan''" for t
    using that by (auto simp: scan_unsigned_def zero_double_def split: option.splits)
  have m: "- d = NaN \<longleftrightarrow> d = NaN" for d :: double by (cases d) auto
  show ?thesis
    using u [OF assms(1)] u [OF assms(2)]
    by (auto simp: to_double_def from_chars_double_def m split: option.splits)
qed

definition sample_json :: json where
  "sample_json = JObject
     [(''arg'', JObject [(''channel'', JString ''candle1m''), (''instId'', JString ''BTCUSDT'')]),
      (''data'', JArray [JArray [JString ''60000'', JString ''100'', JString ''101'', JString ''100'',
         JString ''101'', JString ''7'', JString ''0'']])]"

lemma no_nan_sample: "no_nan sample_json"
proof -
  have "to_double s \<noteq> NaN"
    if "s \<in> {''candle1m'', ''BTCUSDT'', ''60000'', ''100'', ''101'', ''7'', ''0''}" for s
    by (rule to_double_not_NaN) (use that in \<open>auto simp: iequals_def tolower_def Let_def char_of_def\<close>)
  then show ?thesis by (simp add: sample_json_def)
qed

theorem market_data_consistent_witness:
  "let g = fold (market_step (\<lambda>s. if s = ''m'' then Some sample_json else None))
             [Message 120000000000 0 \<lparr> wm_type = MsgCandle, wm_raw_payload = ''m'', wm_received_ns = 1 \<rparr>,
              Connection False] (gateway_init [''BTCUSDT''] ''BTCUSDT'') in
     \<forall>key buf. map_of (fb_candles (mg_features g)) key = Some buf \<longrightarrow> list_all candle_wf (rb_list buf)"
proof -
  have "\<forall>s j. (if s = ''m'' then Some sample_json else None) = Some j \<longrightarrow> no_nan j"
    using no_nan_sample by auto
  from market_data_consistent [OF this] show ?thesis unfolding Let_def by blast
qed

text \<open>
  An incremental update that touches one side only is thrown away by the normalizer, so
  the next update no longer follows the last sequence number and the gateway empties the
  whole book.
\<close>

theorem one_sided_update_loses_book:
  assumes "ro_bids raw = [] \<or> ro_asks raw = []" and "ro_sequence raw = ob_last_sequence (mg_book g) + 1"
    and "parse_order_book t2 raw2 r2 (snd (parse_order_book t1 raw r1 z)) = (Some u, z2)"
    and "iequals (ro_action raw2) ''update''" and "ro_sequence raw2 = ro_sequence raw + 1"
    and "ob_quality (mg_book g) \<in> {QValid, QStale}" and "ro_symbol raw2 = ob_symbol (mg_book g)"
  shows "fst (parse_order_book t1 raw r1 z) = None \<and>
     ob_quality (mg_book (on_normalized_event (EvBook u) g)) = QUninitialized \<and>
     ob_bids (mg_book (on_normalized_event (EvBook u) g)) = [] \<and>
     ob_asks (mg_book (on_normalized_event (EvBook u) g)) = []"
proof -
  have dropped: "fst (parse_order_book t1 raw r1 z) = None"
    using assms(1)
    by (auto simp: parse_order_book_def parse_levels_def reject_def Let_def fill_envelope_def
        split: option.split)
  have "\<not> iequals (ro_action raw2) ''snapshot''"
    using assms(4) by (auto simp: iequals_def tolower_def)
  then have u: "nb_sequence u = ro_sequence raw2" "nb_update_type u = UpdDelta"
    "ev_symbol (nb_envelope u) = ro_symbol raw2"
    using assms(3,4)
    by (auto simp: parse_order_book_def reject_def Let_def fill_envelope_def split: if_splits)
  have "nb_sequence u \<noteq> ob_last_sequence (mg_book g) + 1"
    using assms(2,5) u(1) by simp
  then have "\<not> fst (apply_delta u (mg_book g))"
    using assms(6,7) u(3) by (simp add: apply_delta_def)
  then show ?thesis
    using dropped u(2) by (simp add: on_normalized_event_def case_prod_beta request_resync_def)
qed

definition raw_sample :: "nat \<Rightarrow> raw_book_level list \<Rightarrow> raw_order_book" where
  "raw_sample n as = \<lparr> ro_symbol = ''BTCUSDT'', ro_action = ''update'',
     ro_bids = [\<lparr> rl_price = ''100'', rl_size = ''1'' \<rparr>], ro_asks = as, ro_ts = 1,
     ro_sequence = of_nat n \<rparr>"

definition sample_gateway :: market_gateway where
  "sample_gateway = (gateway_init [] ''BTCUSDT'') \<lparr> mg_book := sample_book \<rparr>"

theorem one_sided_update_loses_book_witness:
  "\<exists>u z. parse_order_book 1 (raw_sample 9 [\<lparr> rl_price = ''101'', rl_size = ''1'' \<rparr>]) 1
           (snd (parse_order_book 1 (raw_sample 8 []) 1 normalizer_init)) = (Some u, z) \<and>
         ob_bids (mg_book (on_normalized_event (EvBook u) sample_gateway)) = []"
proof -
  let ?z = "snd (parse_order_book 1 (raw_sample 8 []) 1 normalizer_init)"
  let ?raw = "raw_sample 9 [\<lparr> rl_price = ''101'', rl_size = ''1'' \<rparr>]"
  have low: "iequals ''update'' ''update''" "\<not> iequals ''update'' ''snapshot''"
    by (simp_all add: iequals_def tolower_def Let_def)
  obtain u z where u: "parse_order_book 1 ?raw 1 ?z = (Some u, z)"
    by (simp add: parse_order_book_def raw_sample_def Let_def fill_envelope_def low parse_levels_def
        to_double_samples zero_double_def)
  have "ob_bids (mg_book (on_normalized_event (EvBook u) sample_gateway)) = []"
    using one_sided_update_loses_book [of "raw_sample 8 []" sample_gateway 1 ?raw 1 1 1 normalizer_init u z] u low
    by (simp add: raw_sample_def sample_gateway_def sample_book_def)
  with u show ?thesis by blast
qed

text \<open>
  The validation of candles does not catch NaN: a bar whose four prices read as NaN
  passes every check and is emitted.
\<close>

theorem nan_candle_accepted:
  assumes "to_double (rc_open raw) = NaN" and "to_double (rc_high raw) = NaN"
    and "to_double (rc_low raw) = NaN" and "to_double (rc_close raw) = NaN"
    and "\<not> to_double (rc_volume raw) < 0"
  shows "\<exists>c z'. parse_candle t raw r z = (Some c, z') \<and> nc_close c = NaN \<and>
           nz_rejected_count z' = nz_rejected_count z"
  using assms by (simp add: parse_candle_def Let_def fill_envelope_def)

theorem nan_candle_accepted_witness:
  "\<exists>c z'. parse_candle 1 \<lparr> rc_symbol = ''BTCUSDT'', rc_interval = ''1m'', rc_ts = 0,
       rc_open = ''nan'', rc_high = ''nan'', rc_low = ''nan'', rc_close = ''nan'', rc_volume = ''1'',
       rc_base_volume = ''1'', rc_is_closed = True \<rparr> 1 normalizer_init = (Some c, z') \<and>
     nc_close c = NaN"
  using nan_candle_accepted [of "\<lparr> rc_symbol = ''BTCUSDT'', rc_interval = ''1m'', rc_ts = 0,
       rc_open = ''nan'', rc_high = ''nan'', rc_low = ''nan'', rc_close = ''nan'', rc_volume = ''1'',
       rc_base_volume = ''1'', rc_is_closed = True \<rparr>" 1 1 normalizer_init]
  by (auto simp: to_double_samples zero_double_def)

end
