(* ===== verification/Risk_State.thy ===== *)
theory Risk_State
  imports Trading_Types Portfolio
begin

text \<open>
  The state behind the risk checks (\<^verbatim>\<open>src/src/risk/state/risk_state.{hpp,cpp}\<close>): the
  lock registry, the loss streaks, the daily profit per symbol and per strategy, the
  drawdown peaks, the order and trade rates, and the strategy budgets, with the lock and
  budget types and the limits of \<^verbatim>\<open>src/src/risk/risk_types.hpp\<close>.  The whole state is
  guarded by the mutex of the risk engine, so one method is one step.  Counters
  (\<^verbatim>\<open>int\<close>) and nanosecond times (\<^verbatim>\<open>int64_t\<close>) are integers: none of the modelled steps
  reaches the end of their range.
\<close>

section \<open>Data\<close>

datatype lock_type =
    LtSymbolLock | LtStrategyLock | LtDayLock | LtAccountLock | LtEmergencyHalt | LtCooldown

record lock_record =
  lk_type :: lock_type
  lk_target :: string
  lk_reason :: string
  lk_activated_at :: timestamp
  lk_duration_ns :: int

record strategy_risk_budget =
  sb_strategy_id :: strategy_id
  sb_daily_loss :: double
  sb_daily_loss_pct :: double
  sb_current_exposure :: double
  sb_trades_today :: int
  sb_consecutive_losses :: int
  sb_last_trade_at :: timestamp

definition default_budget :: strategy_risk_budget where
  "default_budget =
    \<lparr>sb_strategy_id = [], sb_daily_loss = 0, sb_daily_loss_pct = 0, sb_current_exposure = 0,
     sb_trades_today = 0, sb_consecutive_losses = 0, sb_last_trade_at = 0\<rparr>"

fun risk_verdict_to_string :: "risk_verdict \<Rightarrow> string" where
  "risk_verdict_to_string Approved = ''Approved''"
| "risk_verdict_to_string Denied = ''Denied''"
| "risk_verdict_to_string ReduceSize = ''ReduceSize''"
| "risk_verdict_to_string Throttled = ''Throttled''"

fun risk_phase_to_string :: "risk_phase \<Rightarrow> string" where
  "risk_phase_to_string PreTrade = ''PreTrade''"
| "risk_phase_to_string IntraTrade = ''IntraTrade''"
| "risk_phase_to_string PostTrade = ''PostTrade''"

fun risk_action_to_string :: "risk_action \<Rightarrow> string" where
  "risk_action_to_string Allow = ''Allow''"
| "risk_action_to_string AllowWithReducedSize = ''AllowWithReducedSize''"
| "risk_action_to_string Deny = ''Deny''"
| "risk_action_to_string DenySymbolLock = ''DenySymbolLock''"
| "risk_action_to_string DenyStrategyLock = ''DenyStrategyLock''"
| "risk_action_to_string DenyDayLock = ''DenyDayLock''"
| "risk_action_to_string DenyAccountLock = ''DenyAccountLock''"
| "risk_action_to_string RaEmergencyHalt = ''EmergencyHalt''"

fun risk_state_level_to_string :: "risk_state_level \<Rightarrow> string" where
  "risk_state_level_to_string RsNormal = ''Normal''"
| "risk_state_level_to_string RsDegraded = ''Degraded''"
| "risk_state_level_to_string RsDayLock = ''DayLock''"
| "risk_state_level_to_string RsSymbolLock = ''SymbolLock''"
| "risk_state_level_to_string RsStrategyLock = ''StrategyLock''"
| "risk_state_level_to_string RsAccountLock = ''AccountLock''"
| "risk_state_level_to_string RsEmergencyHalt = ''EmergencyHalt''"

fun lock_type_to_string :: "lock_type \<Rightarrow> string" where
  "lock_type_to_string LtSymbolLock = ''SymbolLock''"
| "lock_type_to_string LtStrategyLock = ''StrategyLock''"
| "lock_type_to_string LtDayLock = ''DayLock''"
| "lock_type_to_string LtAccountLock = ''AccountLock''"
| "lock_type_to_string LtEmergencyHalt = ''EmergencyHalt''"
| "lock_type_to_string LtCooldown = ''Cooldown''"

record extended_risk_config =
  rk_max_position_notional :: double
  rk_max_position_notional_pct :: double
  rk_max_loss_per_trade_pct :: double
  rk_max_leverage :: double
  rk_max_slippage_bps :: double
  rk_max_daily_loss_per_symbol_pct :: double
  rk_max_consecutive_losses_per_symbol :: int
  rk_symbol_cooldown_after_stopouts_ns :: int
  rk_max_strategy_daily_loss_pct :: double
  rk_max_daily_loss_pct :: double
  rk_max_realized_daily_loss_pct :: double
  rk_max_drawdown_pct :: double
  rk_max_intraday_drawdown_pct :: double
  rk_drawdown_hard_stop_pct :: double
  rk_max_concurrent_positions :: int
  rk_max_simultaneous_long_positions :: int
  rk_max_simultaneous_short_positions :: int
  rk_max_gross_exposure_pct :: double
  rk_max_symbol_concentration_pct :: double
  rk_max_consecutive_losses :: int
  rk_cooldown_after_n_losses :: int
  rk_loss_cooldown_ns :: int
  rk_halt_after_n_losses :: int
  rk_max_spread_bps :: double
  rk_min_liquidity_depth :: double
  rk_max_feed_age_ns :: int
  rk_max_orders_per_minute :: int
  rk_max_trades_per_hour :: int
  rk_min_trade_interval_ns :: int
  rk_regime_aware_limits_enabled :: bool
  rk_stress_regime_scale :: double
  rk_trending_regime_scale :: double
  rk_chop_regime_scale :: double
  rk_max_adverse_excursion_pct :: double
  rk_operational_deadman_ns :: int
  rk_post_loss_cooldown_ns :: int
  rk_kill_switch_enabled :: bool
  rk_kill_switch_portfolio_drawdown_pct :: double
  rk_max_same_direction_positions :: int
  rk_liquidation_buffer_pct :: double
  rk_max_annual_funding_cost_pct :: double
  rk_utc_cutoff_hour :: int
  rk_utc_cutoff_minute :: int

definition default_risk_config :: extended_risk_config where
  "default_risk_config =
    \<lparr>rk_max_position_notional = lit 10000, rk_max_position_notional_pct = 0,
     rk_max_loss_per_trade_pct = 1, rk_max_leverage = lit 20, rk_max_slippage_bps = lit 30,
     rk_max_daily_loss_per_symbol_pct = lit 3, rk_max_consecutive_losses_per_symbol = 2,
     rk_symbol_cooldown_after_stopouts_ns = 120000000000, rk_max_strategy_daily_loss_pct = lit (3 / 2),
     rk_max_daily_loss_pct = lit 2, rk_max_realized_daily_loss_pct = lit (3 / 2),
     rk_max_drawdown_pct = lit 5, rk_max_intraday_drawdown_pct = lit 3, rk_drawdown_hard_stop_pct = lit 10,
     rk_max_concurrent_positions = 10, rk_max_simultaneous_long_positions = 8,
     rk_max_simultaneous_short_positions = 8, rk_max_gross_exposure_pct = lit 50,
     rk_max_symbol_concentration_pct = lit 35, rk_max_consecutive_losses = 5,
     rk_cooldown_after_n_losses = 3, rk_loss_cooldown_ns = 60000000000, rk_halt_after_n_losses = 8,
     rk_max_spread_bps = lit 50, rk_min_liquidity_depth = lit 100, rk_max_feed_age_ns = 5000000000,
     rk_max_orders_per_minute = 10, rk_max_trades_per_hour = 8, rk_min_trade_interval_ns = 30000000000,
     rk_regime_aware_limits_enabled = True, rk_stress_regime_scale = lit (1 / 2),
     rk_trending_regime_scale = lit (12 / 10), rk_chop_regime_scale = lit (7 / 10),
     rk_max_adverse_excursion_pct = lit 3, rk_operational_deadman_ns = 2700000000000,
     rk_post_loss_cooldown_ns = 60000000000, rk_kill_switch_enabled = True,
     rk_kill_switch_portfolio_drawdown_pct = lit 6, rk_max_same_direction_positions = 3,
     rk_liquidation_buffer_pct = lit 5, rk_max_annual_funding_cost_pct = lit 200,
     rk_utc_cutoff_hour = -1, rk_utc_cutoff_minute = 0\<rparr>"

section \<open>Lock registry\<close>

type_synonym lock_registry = "lock_record list"

definition lock_matches :: "lock_type \<Rightarrow> string \<Rightarrow> lock_record \<Rightarrow> bool" where
  "lock_matches ty target l \<longleftrightarrow> lk_type l = ty \<and> lk_target l = target"

definition is_locked :: "lock_registry \<Rightarrow> lock_type \<Rightarrow> string \<Rightarrow> bool" where
  "is_locked ls ty target = list_ex (lock_matches ty target) ls"

definition add_lock ::
  "lock_type \<Rightarrow> string \<Rightarrow> string \<Rightarrow> timestamp \<Rightarrow> int \<Rightarrow> lock_registry \<Rightarrow> lock_registry" where
  "add_lock ty target reason tnow duration ls =
    (if list_ex (lock_matches ty target) ls then ls
     else ls @ [\<lparr>lk_type = ty, lk_target = target, lk_reason = reason, lk_activated_at = tnow,
                lk_duration_ns = duration\<rparr>])"

definition remove_lock :: "lock_type \<Rightarrow> string \<Rightarrow> lock_registry \<Rightarrow> lock_registry" where
  "remove_lock ty target ls = filter (\<lambda>l. \<not> lock_matches ty target l) ls"

definition lock_expired :: "timestamp \<Rightarrow> lock_record \<Rightarrow> bool" where
  "lock_expired tnow l \<longleftrightarrow>
    (if lk_duration_ns l \<le> 0 then False else lk_duration_ns l \<le> tnow - lk_activated_at l)"

definition clear_expired :: "timestamp \<Rightarrow> lock_registry \<Rightarrow> lock_registry" where
  "clear_expired tnow ls = filter (\<lambda>l. \<not> lock_expired tnow l) ls"

definition has_symbol_lock :: "lock_registry \<Rightarrow> string \<Rightarrow> bool" where
  "has_symbol_lock ls s = is_locked ls LtSymbolLock s"

definition has_strategy_lock :: "lock_registry \<Rightarrow> string \<Rightarrow> bool" where
  "has_strategy_lock ls s = is_locked ls LtStrategyLock s"

definition has_day_lock :: "lock_registry \<Rightarrow> bool" where
  "has_day_lock ls = list_ex (\<lambda>l. lk_type l = LtDayLock) ls"

definition has_account_lock :: "lock_registry \<Rightarrow> bool" where
  "has_account_lock ls = list_ex (\<lambda>l. lk_type l = LtAccountLock) ls"

definition has_emergency_halt :: "lock_registry \<Rightarrow> bool" where
  "has_emergency_halt ls = list_ex (\<lambda>l. lk_type l = LtEmergencyHalt) ls"

definition has_cooldown :: "lock_registry \<Rightarrow> string \<Rightarrow> bool" where
  "has_cooldown ls s = is_locked ls LtCooldown s"

fun degraded_level :: "lock_registry \<Rightarrow> risk_state_level" where
  "degraded_level [] = RsNormal"
| "degraded_level (l # ls) =
    (if lk_type l = LtStrategyLock then RsDegraded
     else if lk_type l = LtSymbolLock then RsDegraded
     else if lk_type l = LtCooldown then RsDegraded
     else degraded_level ls)"

definition compute_global_state :: "lock_registry \<Rightarrow> risk_state_level" where
  "compute_global_state ls =
    (if has_emergency_halt ls then RsEmergencyHalt
     else if has_account_lock ls then RsAccountLock
     else if has_day_lock ls then RsDayLock
     else degraded_level ls)"

definition lock_count :: "lock_registry \<Rightarrow> int" where
  "lock_count ls = int (length ls)"

section \<open>Trackers\<close>

definition al_get :: "'v \<Rightarrow> ('k \<times> 'v) list \<Rightarrow> 'k \<Rightarrow> 'v" where
  "al_get d xs k = (case map_of xs k of Some v \<Rightarrow> v | None \<Rightarrow> d)"

record loss_streak_tracker =
  ls_total_consecutive_losses :: int
  ls_daily_stopouts :: int
  ls_last_loss_time :: timestamp
  ls_symbol_losses :: "(string \<times> int) list"
  ls_strategy_losses :: "(string \<times> int) list"

definition symbol_consecutive_losses :: "loss_streak_tracker \<Rightarrow> string \<Rightarrow> int" where
  "symbol_consecutive_losses t s = al_get 0 (ls_symbol_losses t) s"

definition strategy_consecutive_losses :: "loss_streak_tracker \<Rightarrow> string \<Rightarrow> int" where
  "strategy_consecutive_losses t s = al_get 0 (ls_strategy_losses t) s"

definition record_trade_result ::
  "string \<Rightarrow> string \<Rightarrow> bool \<Rightarrow> timestamp \<Rightarrow> loss_streak_tracker \<Rightarrow> loss_streak_tracker" where
  "record_trade_result sy sid is_loss tnow t =
    (if is_loss then
       t\<lparr>ls_total_consecutive_losses := ls_total_consecutive_losses t + 1,
         ls_daily_stopouts := ls_daily_stopouts t + 1,
         ls_last_loss_time := tnow,
         ls_symbol_losses := AList.update sy (symbol_consecutive_losses t sy + 1) (ls_symbol_losses t),
         ls_strategy_losses := AList.update sid (strategy_consecutive_losses t sid + 1) (ls_strategy_losses t)\<rparr>
     else
       let symbol_streak = symbol_consecutive_losses t sy
       in t\<lparr>ls_total_consecutive_losses :=
              (if 0 < symbol_streak then 0 else ls_total_consecutive_losses t),
            ls_symbol_losses := AList.update sy 0 (ls_symbol_losses t),
            ls_strategy_losses := AList.update sid 0 (ls_strategy_losses t)\<rparr>)"

definition streaks_reset_daily :: "loss_streak_tracker \<Rightarrow> loss_streak_tracker" where
  "streaks_reset_daily t =
    t\<lparr>ls_total_consecutive_losses := 0, ls_daily_stopouts := 0, ls_symbol_losses := [],
      ls_strategy_losses := []\<rparr>"

record pnl_tracker =
  pt_symbol_pnl :: "(string \<times> double) list"
  pt_strategy_pnl :: "(string \<times> double) list"

definition symbol_daily_pnl :: "pnl_tracker \<Rightarrow> string \<Rightarrow> double" where
  "symbol_daily_pnl t s = al_get 0 (pt_symbol_pnl t) s"

definition strategy_daily_pnl :: "pnl_tracker \<Rightarrow> string \<Rightarrow> double" where
  "strategy_daily_pnl t s = al_get 0 (pt_strategy_pnl t) s"

definition record_trade_pnl :: "string \<Rightarrow> string \<Rightarrow> double \<Rightarrow> pnl_tracker \<Rightarrow> pnl_tracker" where
  "record_trade_pnl sy sid pnl t =
    t\<lparr>pt_symbol_pnl := AList.update sy (symbol_daily_pnl t sy + pnl) (pt_symbol_pnl t),
      pt_strategy_pnl := AList.update sid (strategy_daily_pnl t sid + pnl) (pt_strategy_pnl t)\<rparr>"

definition pnl_reset_daily :: "pnl_tracker \<Rightarrow> pnl_tracker" where
  "pnl_reset_daily t = t\<lparr>pt_symbol_pnl := [], pt_strategy_pnl := []\<rparr>"

record drawdown_tracker =
  dt_peak_equity :: double
  dt_current_equity :: double
  dt_intraday_peak :: double

definition update_equity :: "double \<Rightarrow> drawdown_tracker \<Rightarrow> drawdown_tracker" where
  "update_equity equity t =
    t\<lparr>dt_current_equity := equity,
      dt_peak_equity := (if dt_peak_equity t < equity then equity else dt_peak_equity t),
      dt_intraday_peak := (if dt_intraday_peak t < equity then equity else dt_intraday_peak t)\<rparr>"

definition reset_intraday :: "drawdown_tracker \<Rightarrow> drawdown_tracker" where
  "reset_intraday t = t\<lparr>dt_intraday_peak := dt_current_equity t, dt_peak_equity := dt_current_equity t\<rparr>"

definition account_drawdown_pct :: "drawdown_tracker \<Rightarrow> double" where
  "account_drawdown_pct t =
    (if dt_peak_equity t \<le> 0 then 0
     else std_max 0 ((dt_peak_equity t - dt_current_equity t) / dt_peak_equity t * lit 100))"

definition intraday_drawdown_pct :: "drawdown_tracker \<Rightarrow> double" where
  "intraday_drawdown_pct t =
    (if dt_intraday_peak t \<le> 0 then 0
     else std_max 0 ((dt_intraday_peak t - dt_current_equity t) / dt_intraday_peak t * lit 100))"

record rate_tracker =
  rt_order_timestamps :: "timestamp list"
  rt_trade_close_timestamps :: "timestamp list"
  rt_last_trade_per_symbol :: "(string \<times> timestamp) list"

text \<open>\<^verbatim>\<open>while (!q.empty() && q.front() < cutoff) q.pop_front();\<close>\<close>

fun purge_old :: "timestamp list \<Rightarrow> timestamp \<Rightarrow> timestamp list" where
  "purge_old [] cutoff = []"
| "purge_old (t # q) cutoff = (if t < cutoff then purge_old q cutoff else t # q)"

definition kMinuteNs :: int where "kMinuteNs = 60000000000"

definition kHourNs :: int where "kHourNs = 3600000000000"

definition record_order :: "timestamp \<Rightarrow> rate_tracker \<Rightarrow> rate_tracker" where
  "record_order tnow t =
    t\<lparr>rt_order_timestamps := purge_old (rt_order_timestamps t @ [tnow]) (tnow - kMinuteNs)\<rparr>"

definition rates_record_trade_close :: "timestamp \<Rightarrow> rate_tracker \<Rightarrow> rate_tracker" where
  "rates_record_trade_close tnow t =
    t\<lparr>rt_trade_close_timestamps := purge_old (rt_trade_close_timestamps t @ [tnow]) (tnow - kHourNs)\<rparr>"

definition record_symbol_trade :: "string \<Rightarrow> timestamp \<Rightarrow> rate_tracker \<Rightarrow> rate_tracker" where
  "record_symbol_trade sy tnow t =
    t\<lparr>rt_last_trade_per_symbol := AList.update sy tnow (rt_last_trade_per_symbol t)\<rparr>"

definition orders_last_minute :: "timestamp \<Rightarrow> rate_tracker \<Rightarrow> int \<times> rate_tracker" where
  "orders_last_minute tnow t =
    (let q = purge_old (rt_order_timestamps t) (tnow - kMinuteNs)
     in (int (length q), t\<lparr>rt_order_timestamps := q\<rparr>))"

definition trades_last_hour :: "timestamp \<Rightarrow> rate_tracker \<Rightarrow> int \<times> rate_tracker" where
  "trades_last_hour tnow t =
    (let q = purge_old (rt_trade_close_timestamps t) (tnow - kHourNs)
     in (int (length q), t\<lparr>rt_trade_close_timestamps := q\<rparr>))"

definition last_trade_for_symbol :: "rate_tracker \<Rightarrow> string \<Rightarrow> timestamp" where
  "last_trade_for_symbol t s = al_get 0 (rt_last_trade_per_symbol t) s"

section \<open>The aggregate\<close>

record risk_state =
  rs_locks :: lock_registry
  rs_loss_streaks :: loss_streak_tracker
  rs_pnl :: pnl_tracker
  rs_drawdown :: drawdown_tracker
  rs_rates :: rate_tracker
  rs_strategy_budgets :: "(string \<times> strategy_risk_budget) list"

definition risk_state_init :: risk_state where
  "risk_state_init =
    \<lparr>rs_locks = [],
     rs_loss_streaks = \<lparr>ls_total_consecutive_losses = 0, ls_daily_stopouts = 0, ls_last_loss_time = 0,
                       ls_symbol_losses = [], ls_strategy_losses = []\<rparr>,
     rs_pnl = \<lparr>pt_symbol_pnl = [], pt_strategy_pnl = []\<rparr>,
     rs_drawdown = \<lparr>dt_peak_equity = 0, dt_current_equity = 0, dt_intraday_peak = 0\<rparr>,
     rs_rates = \<lparr>rt_order_timestamps = [], rt_trade_close_timestamps = [], rt_last_trade_per_symbol = []\<rparr>,
     rs_strategy_budgets = []\<rparr>"

definition budget_reset_daily :: "strategy_risk_budget \<Rightarrow> strategy_risk_budget" where
  "budget_reset_daily b =
    b\<lparr>sb_daily_loss := 0, sb_daily_loss_pct := 0, sb_trades_today := 0, sb_consecutive_losses := 0\<rparr>"

definition state_reset_daily :: "timestamp \<Rightarrow> risk_state \<Rightarrow> risk_state" where
  "state_reset_daily tnow s =
    s\<lparr>rs_loss_streaks := streaks_reset_daily (rs_loss_streaks s),
      rs_pnl := pnl_reset_daily (rs_pnl s),
      rs_drawdown := reset_intraday (rs_drawdown s),
      rs_locks := clear_expired tnow (remove_lock LtDayLock [] (rs_locks s)),
      rs_strategy_budgets := map (\<lambda>(k, b). (k, budget_reset_daily b)) (rs_strategy_budgets s)\<rparr>"

definition global_level :: "risk_state \<Rightarrow> risk_state_level" where
  "global_level s = compute_global_state (rs_locks s)"

end
