(* ===== verification/Feature_Types.thy ===== *)
theory Feature_Types
  imports Order_Book
begin

text \<open>
  The feature snapshot of \<^verbatim>\<open>src/src/features/feature_snapshot.hpp\<close> as the decision
  stages read it: the microstructure and execution-context features and the data quality.
  \<^verbatim>\<open>TechnicalFeatures\<close>, the candle indicators, is left out: nothing modelled here reads it.
  The sizing result is that of
  \<^verbatim>\<open>src/src/portfolio_allocator/allocation_types.hpp\<close>.
\<close>

record microstructure_features =
  mf_spread :: double
  mf_spread_bps :: double
  mf_spread_valid :: bool
  mf_book_imbalance_5 :: double
  mf_book_imbalance_10 :: double
  mf_book_imbalance_valid :: bool
  mf_weighted_mid_price :: double
  mf_mid_price :: double
  mf_buy_sell_ratio :: double
  mf_aggressive_flow :: double
  mf_trade_vwap :: double
  mf_trade_flow_valid :: bool
  mf_bid_depth_5_notional :: double
  mf_ask_depth_5_notional :: double
  mf_liquidity_ratio :: double
  mf_liquidity_valid :: bool
  mf_book_instability :: double
  mf_instability_valid :: bool
  mf_vpin :: double
  mf_vpin_canonical :: double
  mf_vpin_adaptive :: double
  mf_vpin_ma :: double
  mf_vpin_toxic :: bool
  mf_vpin_valid :: bool
  mf_top_of_book_churn :: double
  mf_cancel_burst_intensity :: double
  mf_cancel_burst_active :: bool
  mf_queue_depletion_bid :: double
  mf_queue_depletion_ask :: double
  mf_refill_asymmetry :: double
  mf_event_features_valid :: bool
  mf_passive_fill_rate :: double
  mf_cancel_to_fill_ratio :: double
  mf_adverse_selection_bps :: double
  mf_execution_feedback_valid :: bool

definition default_microstructure :: microstructure_features where
  "default_microstructure =
    \<lparr>mf_spread = 0, mf_spread_bps = 0, mf_spread_valid = False, mf_book_imbalance_5 = 0,
     mf_book_imbalance_10 = 0, mf_book_imbalance_valid = False, mf_weighted_mid_price = 0,
     mf_mid_price = 0, mf_buy_sell_ratio = 1, mf_aggressive_flow = lit (1 / 2), mf_trade_vwap = 0,
     mf_trade_flow_valid = False, mf_bid_depth_5_notional = 0, mf_ask_depth_5_notional = 0,
     mf_liquidity_ratio = 1, mf_liquidity_valid = False, mf_book_instability = 0,
     mf_instability_valid = False, mf_vpin = 0, mf_vpin_canonical = 0, mf_vpin_adaptive = 0,
     mf_vpin_ma = 0, mf_vpin_toxic = False, mf_vpin_valid = False, mf_top_of_book_churn = 0,
     mf_cancel_burst_intensity = 0, mf_cancel_burst_active = False, mf_queue_depletion_bid = 0,
     mf_queue_depletion_ask = 0, mf_refill_asymmetry = 0, mf_event_features_valid = False,
     mf_passive_fill_rate = 0, mf_cancel_to_fill_ratio = 0, mf_adverse_selection_bps = 0,
     mf_execution_feedback_valid = False\<rparr>"

record execution_context_features =
  xf_spread_cost_bps :: double
  xf_immediate_liquidity :: double
  xf_estimated_slippage_bps :: double
  xf_slippage_valid :: bool
  xf_is_market_open :: bool
  xf_is_feed_fresh :: bool

definition default_execution_context :: execution_context_features where
  "default_execution_context =
    \<lparr>xf_spread_cost_bps = 0, xf_immediate_liquidity = 0, xf_estimated_slippage_bps = 0,
     xf_slippage_valid = False, xf_is_market_open = True, xf_is_feed_fresh = False\<rparr>"

record feature_snapshot =
  fs_symbol :: symbol
  fs_computed_at :: timestamp
  fs_market_data_age_ns :: int
  fs_last_price :: double
  fs_mid_price :: double
  fs_microstructure :: microstructure_features
  fs_execution_context :: execution_context_features
  fs_book_quality :: book_quality

definition default_features :: feature_snapshot where
  "default_features =
    \<lparr>fs_symbol = [], fs_computed_at = 0, fs_market_data_age_ns = 0, fs_last_price = 0,
     fs_mid_price = 0, fs_microstructure = default_microstructure,
     fs_execution_context = default_execution_context, fs_book_quality = QUninitialized\<rparr>"

record constraint_decision =
  cd_constraint_name :: string
  cd_limit_value :: double
  cd_input_value :: double
  cd_output_value :: double
  cd_was_binding :: bool
  cd_details :: string

record sizing_result =
  sr_approved_quantity :: double
  sr_approved_notional :: double
  sr_size_as_pct_of_capital :: double
  sr_was_reduced :: bool
  sr_reduction_reason :: string
  sr_approved :: bool
  sr_constraint_audit :: "constraint_decision list"
  sr_fee_adjusted_notional :: double
  sr_expected_fee :: double

definition default_sizing :: sizing_result where
  "default_sizing =
    \<lparr>sr_approved_quantity = 0, sr_approved_notional = 0, sr_size_as_pct_of_capital = 0,
     sr_was_reduced = False, sr_reduction_reason = [], sr_approved = True,
     sr_constraint_audit = [], sr_fee_adjusted_notional = 0, sr_expected_fee = 0\<rparr>"

end
