(* ===== verification/Risk_Checks.thy ===== *)
theory Risk_Checks
  imports Risk_State Feature_Types
begin

text \<open>
  The thirty-seven policy checks of \<^verbatim>\<open>src/src/risk/policies/risk_checks.{hpp,cpp}\<close> and
  the context they read (\<^verbatim>\<open>src/src/risk/risk_context.hpp\<close>).  A check that only reads the
  risk state is a function of it and of the decision; the two rate checks purge their
  queue and the drawdown hard stop adds a lock, so they return the state as well.  Every
  \<^verbatim>\<open>clock_->now()\<close> of one evaluation is the same reading \<open>tnow\<close>.  The free text of a
  reason (\<^verbatim>\<open>message\<close>) is left empty: it is output for people, partly in Cyrillic, and no
  code reads it.
\<close>

section \<open>Context\<close>

record venue_health_context =
  vh_rest_avg_latency_ms :: double
  vh_rest_p99_latency_ms :: double
  vh_ws_reconnect_count_last_hour :: int
  vh_reject_rate_last_minute :: double
  vh_cancel_fill_ratio :: double
  vh_position_snapshot_stale :: bool
  vh_last_fill_age_ns :: int
  vh_clock_drift_ms :: double

definition default_venue_health :: venue_health_context where
  "default_venue_health =
    \<lparr>vh_rest_avg_latency_ms = 0, vh_rest_p99_latency_ms = 0, vh_ws_reconnect_count_last_hour = 0,
     vh_reject_rate_last_minute = 0, vh_cancel_fill_ratio = 0, vh_position_snapshot_stale = False,
     vh_last_fill_age_ns = 0, vh_clock_drift_ms = 0\<rparr>"

record margin_context =
  mg_margin_ratio :: double
  mg_liquidation_price :: double
  mg_mark_price :: double
  mg_maintenance_margin_rate :: double
  mg_distance_to_liquidation_pct :: double
  mg_available_margin :: double
  mg_hedge_active :: bool
  mg_combined_margin_usage_pct :: double

definition default_margin :: margin_context where
  "default_margin =
    \<lparr>mg_margin_ratio = 0, mg_liquidation_price = 0, mg_mark_price = 0,
     mg_maintenance_margin_rate = lit (5 / 1000), mg_distance_to_liquidation_pct = lit 100,
     mg_available_margin = 0, mg_hedge_active = False, mg_combined_margin_usage_pct = 0\<rparr>"

record risk_context =
  rx_intent :: trade_intent
  rx_sizing :: sizing_result
  rx_portfolio :: portfolio_snapshot
  rx_features :: feature_snapshot
  rx_exec_alpha :: execution_alpha_result
  rx_uncertainty :: uncertainty_snapshot
  rx_current_funding_rate :: double
  rx_min_notional_usdt :: double
  rx_venue_health :: venue_health_context
  rx_margin :: margin_context
  rx_reconciliation_desync :: bool
  rx_ws_disconnected :: bool

section \<open>How a check changes the decision\<close>

definition mk_reason :: "string \<Rightarrow> double \<Rightarrow> risk_reason_code" where
  "mk_reason code severity = \<lparr>rc_code = code, rc_message = [], rc_severity = severity\<rparr>"

definition deny :: "string \<Rightarrow> double \<Rightarrow> risk_decision \<Rightarrow> risk_decision" where
  "deny code severity d =
    (if code = [] then d
     else d\<lparr>rd_verdict := Denied,
            rd_reasons := rd_reasons d @
              [mk_reason code (std_clamp (if isfinite severity then severity else 1) 0 1)],
            rd_hard_blocks := rd_hard_blocks d @ [code]\<rparr>)"

definition deny_lock :: "risk_action \<Rightarrow> string \<Rightarrow> risk_decision \<Rightarrow> risk_decision" where
  "deny_lock a code d =
    d\<lparr>rd_verdict := Denied, rd_action := a, rd_reasons := rd_reasons d @ [mk_reason code 1],
      rd_hard_blocks := rd_hard_blocks d @ [code]\<rparr>"

definition reduce :: "double \<Rightarrow> string \<Rightarrow> risk_decision \<Rightarrow> risk_decision" where
  "reduce ratio code d =
    (let target = rd_original_size d * std_clamp ratio 0 1
     in d\<lparr>rd_verdict := (if rd_verdict d = Approved then ReduceSize else rd_verdict d),
          rd_approved_quantity :=
            (if target < rd_approved_quantity d then target else rd_approved_quantity d),
          rd_reasons := rd_reasons d @ [mk_reason code (lit (1 / 2))],
          rd_warnings := rd_warnings d @ [code]\<rparr>)"

definition throttle :: "string \<Rightarrow> risk_decision \<Rightarrow> risk_decision" where
  "throttle code d =
    d\<lparr>rd_verdict := (if rd_verdict d \<noteq> Denied then Throttled else rd_verdict d),
      rd_reasons := rd_reasons d @ [mk_reason code (lit (6 / 10))],
      rd_warnings := rd_warnings d @ [code]\<rparr>"

definition pct_of :: "double \<Rightarrow> double \<Rightarrow> double" where
  "pct_of x capital = x / capital * lit 100"

section \<open>Locks\<close>

definition kill_switch_check :: "risk_state \<Rightarrow> risk_decision \<Rightarrow> risk_decision" where
  "kill_switch_check s d =
    (if has_emergency_halt (rs_locks s)
     then (deny_lock RaEmergencyHalt ''KILL_SWITCH'' d)\<lparr>rd_kill_switch_active := True\<rparr>
     else d)"

definition day_lock_check :: "risk_state \<Rightarrow> risk_decision \<Rightarrow> risk_decision" where
  "day_lock_check s d =
    (if has_day_lock (rs_locks s) then deny_lock DenyDayLock ''DAY_LOCK'' d else d)"

definition symbol_lock_check :: "risk_context \<Rightarrow> risk_state \<Rightarrow> risk_decision \<Rightarrow> risk_decision" where
  "symbol_lock_check x s d =
    (if has_symbol_lock (rs_locks s) (ti_symbol (rx_intent x))
     then deny_lock DenySymbolLock ''SYMBOL_LOCK'' d else d)"

definition strategy_lock_check :: "risk_context \<Rightarrow> risk_state \<Rightarrow> risk_decision \<Rightarrow> risk_decision" where
  "strategy_lock_check x s d =
    (if has_strategy_lock (rs_locks s) (ti_strategy_id (rx_intent x))
     then deny_lock DenyStrategyLock ''STRATEGY_LOCK'' d else d)"

definition symbol_cooldown_check :: "risk_context \<Rightarrow> risk_state \<Rightarrow> risk_decision \<Rightarrow> risk_decision" where
  "symbol_cooldown_check x s d =
    (if has_cooldown (rs_locks s) (ti_symbol (rx_intent x)) then throttle ''SYMBOL_COOLDOWN'' d else d)"

section \<open>Daily losses and drawdown\<close>

definition daily_loss_check :: "extended_risk_config \<Rightarrow> risk_context \<Rightarrow> risk_decision \<Rightarrow> risk_decision" where
  "daily_loss_check cfg x d =
    (let p = rx_portfolio x; total = ps_total_pnl (sn_pnl p)
     in if sn_total_capital p \<le> 0 then d
        else
          let loss_pct = pct_of \<bar>std_min total 0\<bar> (sn_total_capital p);
              d = d\<lparr>rd_current_daily_pnl := total\<rparr>
          in if rk_max_daily_loss_pct cfg \<le> loss_pct then deny ''MAX_DAILY_LOSS'' 1 d else d)"

definition realized_daily_loss_check ::
  "extended_risk_config \<Rightarrow> risk_context \<Rightarrow> risk_decision \<Rightarrow> risk_decision" where
  "realized_daily_loss_check cfg x d =
    (let p = rx_portfolio x
     in if sn_total_capital p \<le> 0 then d
        else if rk_max_realized_daily_loss_pct cfg \<le>
                pct_of \<bar>std_min (ps_realized_pnl_today (sn_pnl p)) 0\<bar> (sn_total_capital p)
             then deny ''REALIZED_DAILY_LOSS'' 1 d else d)"

definition max_drawdown_check :: "extended_risk_config \<Rightarrow> risk_context \<Rightarrow> risk_decision \<Rightarrow> risk_decision" where
  "max_drawdown_check cfg x d =
    (let dd = ps_current_drawdown_pct (sn_pnl (rx_portfolio x));
         d = d\<lparr>rd_current_drawdown_pct := dd\<rparr>
     in if rk_max_drawdown_pct cfg \<le> dd then deny ''MAX_DRAWDOWN'' 1 d else d)"

definition intraday_drawdown_check ::
  "extended_risk_config \<Rightarrow> risk_state \<Rightarrow> risk_decision \<Rightarrow> risk_decision" where
  "intraday_drawdown_check cfg s d =
    (if rk_max_intraday_drawdown_pct cfg \<le> intraday_drawdown_pct (rs_drawdown s)
     then deny ''INTRADAY_DRAWDOWN'' (lit (9 / 10)) d else d)"

definition drawdown_hard_stop_check ::
  "extended_risk_config \<Rightarrow> risk_context \<Rightarrow> risk_state \<times> risk_decision \<Rightarrow> risk_state \<times> risk_decision" where
  "drawdown_hard_stop_check cfg x = (\<lambda>(s, d).
    if rk_drawdown_hard_stop_pct cfg \<le> ps_current_drawdown_pct (sn_pnl (rx_portfolio x)) then
      (s\<lparr>rs_locks := add_lock LtEmergencyHalt [] ''Drawdown hard stop'' (rd_decided_at d) 0 (rs_locks s)\<rparr>,
       deny_lock RaEmergencyHalt ''DRAWDOWN_HARD_STOP'' d)
    else (s, d))"

section \<open>Positions and exposure\<close>

definition max_positions_check :: "extended_risk_config \<Rightarrow> risk_context \<Rightarrow> risk_decision \<Rightarrow> risk_decision" where
  "max_positions_check cfg x d =
    (if rk_max_concurrent_positions cfg \<le> int (ex_open_positions_count (sn_exposure (rx_portfolio x)))
     then deny ''MAX_POSITIONS'' (lit (8 / 10)) d else d)"

text \<open>Symbols with both legs open count once per direction less: \<^verbatim>\<open>hedge_pairs\<close>.\<close>

definition side_symbols :: "(side \<Rightarrow> bool) \<Rightarrow> position list \<Rightarrow> symbol list" where
  "side_symbols P ps = map pos_symbol (filter (\<lambda>p. P (pos_side p)) ps)"

definition hedge_pairs :: "position list \<Rightarrow> int" where
  "hedge_pairs ps =
    int (length (filter (\<lambda>sy. List.member (side_symbols (\<lambda>sd. sd \<noteq> Buy) ps) sy)
      (remdups (side_symbols (\<lambda>sd. sd = Buy) ps))))"

definition long_count :: "position list \<Rightarrow> int" where
  "long_count ps = max 0 (int (length (side_symbols (\<lambda>sd. sd = Buy) ps)) - hedge_pairs ps)"

definition short_count :: "position list \<Rightarrow> int" where
  "short_count ps = max 0 (int (length (side_symbols (\<lambda>sd. sd \<noteq> Buy) ps)) - hedge_pairs ps)"

definition same_direction_check ::
  "extended_risk_config \<Rightarrow> risk_context \<Rightarrow> risk_decision \<Rightarrow> risk_decision" where
  "same_direction_check cfg x d =
    (let ps = sn_positions (rx_portfolio x); sd = ti_side (rx_intent x);
         lc = long_count ps; sc = short_count ps;
         d = (if sd = Buy \<and> rk_max_simultaneous_long_positions cfg \<le> lc
              then deny ''MAX_LONG_POSITIONS'' (lit (7 / 10)) d else d);
         d = (if sd = Sell \<and> rk_max_simultaneous_short_positions cfg \<le> sc
              then deny ''MAX_SHORT_POSITIONS'' (lit (7 / 10)) d else d);
         same_dir = (if sd = Buy then lc else sc)
     in if rk_max_same_direction_positions cfg \<le> same_dir
        then deny ''SAME_DIRECTION'' (lit (7 / 10)) d else d)"

definition projected_gross :: "risk_context \<Rightarrow> double" where
  "projected_gross x =
    ex_gross_exposure (sn_exposure (rx_portfolio x)) + sr_approved_notional (rx_sizing x)"

definition exposure_limit_check ::
  "extended_risk_config \<Rightarrow> risk_context \<Rightarrow> risk_decision \<Rightarrow> risk_decision" where
  "exposure_limit_check cfg x d =
    (let p = rx_portfolio x
     in if sn_total_capital p \<le> 0 then d
        else
          let gross_pct = pct_of (projected_gross x) (sn_total_capital p);
              d = d\<lparr>rd_current_gross_exposure := ex_gross_exposure (sn_exposure p)\<rparr>
          in if rk_max_gross_exposure_pct cfg \<le> gross_pct
             then deny ''MAX_EXPOSURE'' (lit (9 / 10)) d else d)"

definition effective_cap :: "extended_risk_config \<Rightarrow> double \<Rightarrow> double" where
  "effective_cap cfg capital =
    (let cap = (if 0 < rk_max_position_notional_pct cfg \<and> 0 < capital
                then capital * rk_max_position_notional_pct cfg * std_max 1 (rk_max_leverage cfg)
                else PInf);
         cap = (if 0 < rk_max_position_notional cfg then std_min cap (rk_max_position_notional cfg) else cap)
     in if \<not> isfinite cap \<or> cap \<le> 0 then capital * std_max 1 (rk_max_leverage cfg) else cap)"

definition per_trade_risk_check ::
  "extended_risk_config \<Rightarrow> risk_context \<Rightarrow> risk_decision \<Rightarrow> risk_decision" where
  "per_trade_risk_check cfg x d =
    (let notional = sr_approved_notional (rx_sizing x);
         cap = effective_cap cfg (sn_total_capital (rx_portfolio x))
     in if cap < notional then reduce (cap / notional) ''MAX_NOTIONAL'' d else d)"

definition max_leverage_check :: "extended_risk_config \<Rightarrow> risk_context \<Rightarrow> risk_decision \<Rightarrow> risk_decision" where
  "max_leverage_check cfg x d =
    (let p = rx_portfolio x
     in if sn_total_capital p \<le> 0 then d
        else
          let leverage = projected_gross x / sn_total_capital p;
              buffer_factor = std_max 0 (1 - rk_liquidation_buffer_pct cfg / lit 100);
              effective_max = rk_max_leverage cfg * buffer_factor
          in if effective_max \<le> leverage then deny ''MAX_LEVERAGE'' (lit (9 / 10)) d else d)"

definition max_slippage_check :: "extended_risk_config \<Rightarrow> risk_context \<Rightarrow> risk_decision \<Rightarrow> risk_decision" where
  "max_slippage_check cfg x d =
    (if rk_max_slippage_bps cfg < eq_estimated_slippage_bps (ea_quality (rx_exec_alpha x))
     then deny ''MAX_SLIPPAGE'' (lit (7 / 10)) d else d)"

section \<open>Losing streaks\<close>

definition consecutive_losses_check ::
  "extended_risk_config \<Rightarrow> risk_context \<Rightarrow> risk_decision \<Rightarrow> risk_decision" where
  "consecutive_losses_check cfg x d =
    (let losses = ps_consecutive_losses (sn_pnl (rx_portfolio x));
         d = (if rk_max_consecutive_losses cfg \<le> losses
              then deny ''CONSECUTIVE_LOSSES'' (lit (8 / 10)) d else d)
     in if rk_halt_after_n_losses cfg \<le> losses
        then deny_lock DenyAccountLock ''HALT_AFTER_LOSSES'' d else d)"

text \<open>The loop denies at the first losing position beyond the limit and stops.\<close>

definition loses_too_much :: "extended_risk_config \<Rightarrow> double \<Rightarrow> position \<Rightarrow> bool" where
  "loses_too_much cfg capital pos \<longleftrightarrow>
    \<not> 0 \<le> pos_unrealized_pnl pos \<and>
    rk_max_loss_per_trade_pct cfg \<le> pct_of \<bar>pos_unrealized_pnl pos\<bar> capital"

definition max_loss_per_trade_check ::
  "extended_risk_config \<Rightarrow> risk_context \<Rightarrow> risk_decision \<Rightarrow> risk_decision" where
  "max_loss_per_trade_check cfg x d =
    (let p = rx_portfolio x
     in if sn_total_capital p \<le> 0 then d
        else if list_ex (loses_too_much cfg (sn_total_capital p)) (sn_positions p)
             then deny ''MAX_LOSS_PER_TRADE'' (lit (9 / 10)) d else d)"

section \<open>Per symbol and per strategy\<close>

fun symbol_exposure :: "symbol \<Rightarrow> double \<Rightarrow> position list \<Rightarrow> double" where
  "symbol_exposure sy acc [] = acc"
| "symbol_exposure sy acc (p # ps) =
    symbol_exposure sy (if pos_symbol p = sy then acc + pos_notional p else acc) ps"

definition concentration_pct :: "risk_context \<Rightarrow> double" where
  "concentration_pct x =
    pct_of (symbol_exposure (ti_symbol (rx_intent x)) 0 (sn_positions (rx_portfolio x)) +
            sr_approved_notional (rx_sizing x)) (sn_total_capital (rx_portfolio x))"

definition per_symbol_risk_check ::
  "extended_risk_config \<Rightarrow> risk_context \<Rightarrow> risk_state \<Rightarrow> risk_decision \<Rightarrow> risk_decision" where
  "per_symbol_risk_check cfg x s d =
    (let capital = sn_total_capital (rx_portfolio x); sy = ti_symbol (rx_intent x)
     in if capital \<le> 0 then d
        else
          let conc_pct = concentration_pct x;
              d = d\<lparr>rd_symbol_concentration_pct := conc_pct\<rparr>;
              d = (if rk_max_symbol_concentration_pct cfg \<le> conc_pct
                   then deny ''SYMBOL_CONCENTRATION'' (lit (8 / 10)) d else d);
              d = (if rk_max_consecutive_losses_per_symbol cfg \<le>
                      symbol_consecutive_losses (rs_loss_streaks s) sy
                   then deny ''SYMBOL_CONSECUTIVE_LOSSES'' (lit (8 / 10)) d else d);
              sym_pnl = symbol_daily_pnl (rs_pnl s) sy
          in if sym_pnl < 0 \<and> rk_max_daily_loss_per_symbol_pct cfg \<le> pct_of \<bar>sym_pnl\<bar> capital
             then deny ''SYMBOL_DAILY_LOSS'' (lit (8 / 10)) d else d)"

definition per_strategy_risk_check ::
  "extended_risk_config \<Rightarrow> risk_context \<Rightarrow> risk_state \<Rightarrow> risk_decision \<Rightarrow> risk_decision" where
  "per_strategy_risk_check cfg x s d =
    (let capital = sn_total_capital (rx_portfolio x)
     in if capital \<le> 0 then d
        else
          case map_of (rs_strategy_budgets s) (ti_strategy_id (rx_intent x)) of
            None \<Rightarrow> d
          | Some budget \<Rightarrow>
              let loss_pct = pct_of (sb_daily_loss budget) capital;
                  d = d\<lparr>rd_strategy_budget_utilization_pct := loss_pct\<rparr>
              in if rk_max_strategy_daily_loss_pct cfg \<le> loss_pct
                 then deny_lock DenyStrategyLock ''STRATEGY_BUDGET'' d else d)"

section \<open>Rates\<close>

definition order_rate_check ::
  "extended_risk_config \<Rightarrow> timestamp \<Rightarrow> risk_state \<times> risk_decision \<Rightarrow> risk_state \<times> risk_decision" where
  "order_rate_check cfg tnow = (\<lambda>(s, d).
    let (n, r) = orders_last_minute tnow (rs_rates s)
    in (s\<lparr>rs_rates := r\<rparr>,
        if rk_max_orders_per_minute cfg \<le> n then throttle ''ORDER_RATE'' d else d))"

definition turnover_rate_check ::
  "extended_risk_config \<Rightarrow> timestamp \<Rightarrow> risk_state \<times> risk_decision \<Rightarrow> risk_state \<times> risk_decision" where
  "turnover_rate_check cfg tnow = (\<lambda>(s, d).
    let (n, r) = trades_last_hour tnow (rs_rates s)
    in (s\<lparr>rs_rates := r\<rparr>,
        if rk_max_trades_per_hour cfg \<le> n then throttle ''TURNOVER_RATE'' d else d))"

definition trade_interval_check ::
  "extended_risk_config \<Rightarrow> timestamp \<Rightarrow> risk_context \<Rightarrow> risk_state \<Rightarrow> risk_decision \<Rightarrow> risk_decision" where
  "trade_interval_check cfg tnow x s d =
    (let last_trade = last_trade_for_symbol (rs_rates s) (ti_symbol (rx_intent x))
     in if last_trade = 0 then d
        else
          let elapsed = tnow - last_trade;
              elapsed = (if elapsed < 0 then 0 else elapsed)
          in if elapsed < rk_min_trade_interval_ns cfg then throttle ''TRADE_INTERVAL'' d else d)"

section \<open>Market conditions\<close>

definition stale_feed_check :: "extended_risk_config \<Rightarrow> risk_context \<Rightarrow> risk_decision \<Rightarrow> risk_decision" where
  "stale_feed_check cfg x d =
    (if \<not> xf_is_feed_fresh (fs_execution_context (rx_features x)) then deny ''STALE_FEED'' 1 d
     else if rk_max_feed_age_ns cfg < fs_market_data_age_ns (rx_features x)
     then deny ''STALE_FEED'' 1 d else d)"

definition book_quality_check :: "risk_context \<Rightarrow> risk_decision \<Rightarrow> risk_decision" where
  "book_quality_check x d =
    (if fs_book_quality (rx_features x) \<noteq> QValid then deny ''INVALID_BOOK'' 1 d else d)"

definition spread_check :: "extended_risk_config \<Rightarrow> risk_context \<Rightarrow> risk_decision \<Rightarrow> risk_decision" where
  "spread_check cfg x d =
    (let m = fs_microstructure (rx_features x)
     in if \<not> mf_spread_valid m then d
        else if rk_max_spread_bps cfg < mf_spread_bps m then deny ''WIDE_SPREAD'' (lit (7 / 10)) d else d)"

definition liquidity_check :: "extended_risk_config \<Rightarrow> risk_context \<Rightarrow> risk_decision \<Rightarrow> risk_decision" where
  "liquidity_check cfg x d =
    (let m = fs_microstructure (rx_features x)
     in if \<not> mf_liquidity_valid m then d
        else if mf_bid_depth_5_notional m + mf_ask_depth_5_notional m < rk_min_liquidity_depth cfg
        then deny ''LOW_LIQUIDITY'' (lit (6 / 10)) d else d)"

section \<open>Timing, regime and uncertainty\<close>

definition past_cutoff :: "extended_risk_config \<Rightarrow> timestamp \<Rightarrow> bool" where
  "past_cutoff cfg tnow =
    (let secs_today = (tnow sdiv 1000000000) smod 86400;
         hour_utc = secs_today sdiv 3600;
         minute_utc = (secs_today smod 3600) sdiv 60;
         cutoff_min = (if rk_utc_cutoff_minute cfg < 0 then 0
                       else if 59 < rk_utc_cutoff_minute cfg then 59 else rk_utc_cutoff_minute cfg)
     in rk_utc_cutoff_hour cfg < hour_utc \<or>
        hour_utc = rk_utc_cutoff_hour cfg \<and> cutoff_min \<le> minute_utc)"

definition utc_cutoff_check :: "extended_risk_config \<Rightarrow> timestamp \<Rightarrow> risk_decision \<Rightarrow> risk_decision" where
  "utc_cutoff_check cfg tnow d =
    (if rk_utc_cutoff_hour cfg < 0 then d
     else if past_cutoff cfg tnow then deny ''UTC_CUTOFF'' 1 d else d)"

definition kMinBitgetNotionalUsdt :: double where "kMinBitgetNotionalUsdt = lit (55 / 10)"

definition regime_scaled_limits_check ::
  "extended_risk_config \<Rightarrow> double \<Rightarrow> risk_context \<Rightarrow> risk_decision \<Rightarrow> risk_decision" where
  "regime_scaled_limits_check cfg scale x d =
    (let d = d\<lparr>rd_regime_scaling_factor := scale\<rparr>
     in if \<not> rk_regime_aware_limits_enabled cfg \<or> 1 \<le> scale then d
        else
          let min_notional = std_max kMinBitgetNotionalUsdt (lit 5);
              scaled_max = std_max (rk_max_position_notional cfg * scale) (min_notional * lit (105 / 100));
              notional = sr_approved_notional (rx_sizing x)
          in if notional \<le> scaled_max then d
             else reduce (scaled_max / notional) ''REGIME_SCALED_LIMIT'' d)"

definition uncertainty_limits_check ::
  "extended_risk_config \<Rightarrow> risk_context \<Rightarrow> risk_decision \<Rightarrow> risk_decision" where
  "uncertainty_limits_check cfg x d =
    (let u = rx_uncertainty x
     in if us_level u \<noteq> High \<and> us_level u \<noteq> Extreme then d
        else
          let adj_max = rk_max_position_notional cfg * us_size_multiplier u;
              notional = sr_approved_notional (rx_sizing x)
          in if notional \<le> adj_max then d else reduce (adj_max / notional) ''UNCERTAINTY_LIMIT'' d)"

definition uncertainty_cooldown_check :: "risk_context \<Rightarrow> risk_decision \<Rightarrow> risk_decision" where
  "uncertainty_cooldown_check x d =
    (if \<not> co_active (us_cooldown (rx_uncertainty x)) then d else throttle ''UNCERTAINTY_COOLDOWN'' d)"

definition uncertainty_execution_mode_check :: "risk_context \<Rightarrow> risk_decision \<Rightarrow> risk_decision" where
  "uncertainty_execution_mode_check x d =
    (if us_execution_mode (rx_uncertainty x) \<noteq> ModeHaltNewEntries then d
     else if ti_trade_side (rx_intent x) = TradeOpen then deny ''UNCERTAINTY_HALT'' 1 d else d)"

section \<open>Funding, venue, margin, connectivity\<close>

definition annual_funding_cost_pct :: "double \<Rightarrow> double" where
  "annual_funding_cost_pct cost = cost * lit 3 * lit 365 * lit 100"

definition funding_rate_cost_check ::
  "extended_risk_config \<Rightarrow> risk_context \<Rightarrow> risk_decision \<Rightarrow> risk_decision" where
  "funding_rate_cost_check cfg x d =
    (let rate = rx_current_funding_rate x
     in if \<bar>rate\<bar> < lit (1 / 10 ^ 9) then d
        else
          let cost = (if ti_side (rx_intent x) = Buy then rate else - rate)
          in if cost \<le> 0 then d
             else if rk_max_annual_funding_cost_pct cfg < annual_funding_cost_pct cost
             then deny ''FUNDING_COST_EXCESSIVE'' (lit (7 / 10)) d else d)"

definition venue_health_check :: "risk_context \<Rightarrow> risk_decision \<Rightarrow> risk_decision" where
  "venue_health_check x d =
    (let vh = rx_venue_health x
     in if lit 3000 < vh_rest_p99_latency_ms vh then deny ''VENUE_REST_DEGRADED'' (lit (9 / 10)) d
        else if 3 < vh_ws_reconnect_count_last_hour vh then deny ''VENUE_WS_UNSTABLE'' (lit (85 / 100)) d
        else if lit (20 / 100) < vh_reject_rate_last_minute vh
        then deny ''VENUE_REJECT_STORM'' (lit (9 / 10)) d
        else if lit 500 < vh_clock_drift_ms vh then deny ''VENUE_CLOCK_DRIFT'' (lit (85 / 100)) d
        else
          let d = (if vh_position_snapshot_stale vh
                   then reduce (lit (1 / 2)) ''VENUE_STALE_POSITIONS'' d else d)
          in if lit 5 < vh_cancel_fill_ratio vh
             then reduce (lit (7 / 10)) ''VENUE_HIGH_CANCEL_RATIO'' d else d)"

definition margin_distance_check ::
  "extended_risk_config \<Rightarrow> risk_context \<Rightarrow> risk_decision \<Rightarrow> risk_decision" where
  "margin_distance_check cfg x d =
    (let m = rx_margin x; dist = mg_distance_to_liquidation_pct m
     in if lit 99 \<le> dist then d
        else if dist < rk_liquidation_buffer_pct cfg then deny ''MARGIN_LIQUIDATION_CLOSE'' 1 d
        else
          let warn_threshold = rk_liquidation_buffer_pct cfg * lit 2;
              d = (if 0 < warn_threshold \<and> dist < warn_threshold
                   then reduce (std_clamp (dist / warn_threshold) (lit (3 / 10)) (lit (8 / 10)))
                          ''MARGIN_DISTANCE_LOW'' d
                   else d);
              d = (if mg_hedge_active m \<and> lit 80 < mg_combined_margin_usage_pct m
                   then reduce (lit (1 / 2)) ''MARGIN_PAIR_USAGE_HIGH'' d else d)
          in if mg_mark_price m \<le> 0 then d
             else
               let order_notional = rd_approved_quantity d * mg_mark_price m;
                   required = order_notional * mg_maintenance_margin_rate m * lit 2
               in if 0 < mg_available_margin m \<and> mg_available_margin m * lit (7 / 10) < required
                  then reduce (std_clamp (mg_available_margin m * lit (7 / 10) /
                                          std_max required (lit (1 / 100)))
                                 (lit (3 / 10)) (lit (9 / 10))) ''MARGIN_AVAILABLE_LOW'' d
                  else d)"

definition reconciliation_desync_check :: "risk_context \<Rightarrow> risk_decision \<Rightarrow> risk_decision" where
  "reconciliation_desync_check x d =
    (if \<not> rx_reconciliation_desync x then d
     else if ti_trade_side (rx_intent x) = TradeClose \<or> ti_signal_intent (rx_intent x) = SiReducePosition
     then d
     else deny ''RECONCILIATION_DESYNC'' 1 d)"

definition ws_disconnected_check :: "risk_context \<Rightarrow> risk_decision \<Rightarrow> risk_decision" where
  "ws_disconnected_check x d =
    (if \<not> rx_ws_disconnected x then d else deny ''WS_DISCONNECTED'' 1 d)"

end
