(* ===== verification/Risk_Engine.thy ===== *)
theory Risk_Engine
  imports Risk_Checks
begin

text \<open>
  \<^verbatim>\<open>ProductionRiskEngine\<close> (\<^verbatim>\<open>src/src/risk/risk_engine.{hpp,cpp}\<close>): the order of the
  checks, the evaluation of an intent, the kill switch with its authoritative provider,
  the recording of orders and closed trades with the automatic locks, the monitoring of an
  open position, the setters, the snapshot and the daily reset.  Every operation holds the
  engine's mutex or stores one atomic, so one call is one step.  The kill-switch provider
  is a callback: its answer at the call is the parameter \<open>prov\<close>, read only while a
  provider is installed.  Log lines, metrics and the free-text \<^verbatim>\<open>summary\<close> are output and
  left out.
\<close>

section \<open>State\<close>

datatype detailed_regime =
    StrongUptrend | WeakUptrend | StrongDowntrend | WeakDowntrend | MeanReversion
  | VolatilityExpansion | LowVolCompression | LiquidityStress | SpreadInstability
  | AnomalyEvent | ToxicFlow | Chop | UndefinedRegime

record risk_engine =
  re_config :: extended_risk_config
  re_state :: risk_state
  re_kill_switch_active :: bool
  re_kill_switch_reason :: string
  re_has_provider :: bool
  re_current_regime :: detailed_regime
  re_regime_scale_factor :: double
  re_current_funding_rate :: double
  re_min_notional_usdt :: double
  re_reconciliation_desync :: bool
  re_ws_disconnected :: bool

definition risk_engine_init :: "extended_risk_config \<Rightarrow> risk_engine" where
  "risk_engine_init cfg =
    \<lparr>re_config = cfg, re_state = risk_state_init, re_kill_switch_active = False,
     re_kill_switch_reason = [], re_has_provider = False, re_current_regime = UndefinedRegime,
     re_regime_scale_factor = 1, re_current_funding_rate = 0, re_min_notional_usdt = 0,
     re_reconciliation_desync = False, re_ws_disconnected = False\<rparr>"

definition on_locks :: "(lock_registry \<Rightarrow> lock_registry) \<Rightarrow> risk_engine \<Rightarrow> risk_engine" where
  "on_locks f e = e\<lparr>re_state := (re_state e)\<lparr>rs_locks := f (rs_locks (re_state e))\<rparr>\<rparr>"

section \<open>The chain of checks\<close>

type_synonym risk_check = "risk_state \<times> risk_decision \<Rightarrow> risk_state \<times> risk_decision"

definition decides :: "(risk_decision \<Rightarrow> risk_decision) \<Rightarrow> risk_check" where
  "decides f = (\<lambda>(s, d). (s, f d))"

definition inspects :: "(risk_state \<Rightarrow> risk_decision \<Rightarrow> risk_decision) \<Rightarrow> risk_check" where
  "inspects f = (\<lambda>(s, d). (s, f s d))"

definition init_checks ::
  "extended_risk_config \<Rightarrow> timestamp \<Rightarrow> double \<Rightarrow> risk_context \<Rightarrow> (string \<times> risk_check) list" where
  "init_checks cfg tnow scale x =
    [(''kill_switch_check'', inspects kill_switch_check),
     (''day_lock_check'', inspects day_lock_check),
     (''symbol_lock_check'', inspects (symbol_lock_check x)),
     (''strategy_lock_check'', inspects (strategy_lock_check x)),
     (''symbol_cooldown_check'', inspects (symbol_cooldown_check x)),
     (''daily_loss_check'', decides (daily_loss_check cfg x)),
     (''realized_daily_loss_check'', decides (realized_daily_loss_check cfg x)),
     (''max_drawdown_check'', decides (max_drawdown_check cfg x)),
     (''intraday_drawdown_check'', inspects (intraday_drawdown_check cfg)),
     (''drawdown_hard_stop_check'', drawdown_hard_stop_check cfg x),
     (''max_positions_check'', decides (max_positions_check cfg x)),
     (''same_direction_check'', decides (same_direction_check cfg x)),
     (''exposure_limit_check'', decides (exposure_limit_check cfg x)),
     (''per_trade_risk_check'', decides (per_trade_risk_check cfg x)),
     (''max_leverage_check'', decides (max_leverage_check cfg x)),
     (''max_slippage_check'', decides (max_slippage_check cfg x)),
     (''consecutive_losses_check'', decides (consecutive_losses_check cfg x)),
     (''max_loss_per_trade_check'', decides (max_loss_per_trade_check cfg x)),
     (''per_symbol_risk_check'', inspects (per_symbol_risk_check cfg x)),
     (''per_strategy_risk_check'', inspects (per_strategy_risk_check cfg x)),
     (''order_rate_check'', order_rate_check cfg tnow),
     (''turnover_rate_check'', turnover_rate_check cfg tnow),
     (''trade_interval_check'', inspects (trade_interval_check cfg tnow x)),
     (''stale_feed_check'', decides (stale_feed_check cfg x)),
     (''book_quality_check'', decides (book_quality_check x)),
     (''spread_check'', decides (spread_check cfg x)),
     (''liquidity_check'', decides (liquidity_check cfg x)),
     (''utc_cutoff_check'', decides (utc_cutoff_check cfg tnow)),
     (''regime_scaled_limits_check'', decides (regime_scaled_limits_check cfg scale x)),
     (''uncertainty_limits_check'', decides (uncertainty_limits_check cfg x)),
     (''uncertainty_cooldown_check'', decides (uncertainty_cooldown_check x)),
     (''uncertainty_execution_mode_check'', decides (uncertainty_execution_mode_check x)),
     (''funding_rate_cost_check'', decides (funding_rate_cost_check cfg x)),
     (''venue_health_check'', decides (venue_health_check x)),
     (''margin_distance_check'', decides (margin_distance_check cfg x)),
     (''reconciliation_desync_check'', decides (reconciliation_desync_check x)),
     (''ws_disconnected_check'', decides (ws_disconnected_check x))]"

fun run_checks :: "risk_check list \<Rightarrow> risk_state \<times> risk_decision \<Rightarrow> risk_state \<times> risk_decision" where
  "run_checks [] sd = sd"
| "run_checks (c # cs) sd = run_checks cs (c sd)"

definition close_check_names :: "string list" where
  "close_check_names =
    [''order_rate_check'', ''max_slippage_check'', ''stale_feed_check'', ''max_leverage_check'',
     ''max_drawdown_check'']"

section \<open>Evaluation\<close>

definition sync_kill_switch :: "timestamp \<Rightarrow> bool \<times> string \<Rightarrow> risk_engine \<Rightarrow> risk_engine" where
  "sync_kill_switch tnow prov e =
    (if \<not> re_has_provider e then e
     else if fst prov then
       let e = e\<lparr>re_kill_switch_active := True\<rparr>
       in if \<not> has_emergency_halt (rs_locks (re_state e))
          then on_locks
                 (add_lock LtEmergencyHalt []
                    (if snd prov = [] then ''supervisor_kill_switch'' else snd prov) tnow 0)
                 (e\<lparr>re_kill_switch_reason := snd prov\<rparr>)
          else e
     else if re_kill_switch_active e
          then on_locks (remove_lock LtEmergencyHalt [])
                 (e\<lparr>re_kill_switch_active := False, re_kill_switch_reason := []\<rparr>)
          else e)"

text \<open>The state after the provider, the equity and the expired locks have been taken in.\<close>

definition refresh :: "timestamp \<Rightarrow> bool \<times> string \<Rightarrow> portfolio_snapshot \<Rightarrow> risk_engine \<Rightarrow> risk_engine" where
  "refresh tnow prov p e =
    (let e = sync_kill_switch tnow prov e;
         s = re_state e
     in e\<lparr>re_state := s\<lparr>rs_drawdown := update_equity (sn_total_capital p + ps_total_pnl (sn_pnl p)) (rs_drawdown s),
                        rs_locks := clear_expired tnow (rs_locks s)\<rparr>\<rparr>)"

definition initial_decision :: "timestamp \<Rightarrow> sizing_result \<Rightarrow> risk_decision" where
  "initial_decision tnow z =
    default_risk_decision\<lparr>rd_decided_at := tnow, rd_approved_quantity := sr_approved_quantity z,
                          rd_original_size := sr_approved_quantity z\<rparr>"

definition invalid_size :: "double \<Rightarrow> bool" where
  "invalid_size q \<longleftrightarrow> \<not> isfinite q \<or> q < 0"

definition context_of ::
  "trade_intent \<Rightarrow> sizing_result \<Rightarrow> portfolio_snapshot \<Rightarrow> feature_snapshot \<Rightarrow> execution_alpha_result \<Rightarrow>
   uncertainty_snapshot \<Rightarrow> risk_engine \<Rightarrow> risk_context" where
  "context_of i z p f a u e =
    \<lparr>rx_intent = i, rx_sizing = z, rx_portfolio = p, rx_features = f, rx_exec_alpha = a,
     rx_uncertainty = u, rx_current_funding_rate = re_current_funding_rate e,
     rx_min_notional_usdt = re_min_notional_usdt e, rx_venue_health = default_venue_health,
     rx_margin = default_margin, rx_reconciliation_desync = re_reconciliation_desync e,
     rx_ws_disconnected = re_ws_disconnected e\<rparr>"

definition effective_min_notional :: "risk_engine \<Rightarrow> double" where
  "effective_min_notional e =
    (if 0 < re_min_notional_usdt e then re_min_notional_usdt e else kMinBitgetNotionalUsdt)"

definition min_notional_guard :: "risk_engine \<Rightarrow> sizing_result \<Rightarrow> risk_decision \<Rightarrow> risk_decision" where
  "min_notional_guard e z d =
    (if rd_verdict d = ReduceSize \<and> 0 < sr_approved_quantity z \<and>
        rd_approved_quantity d * (sr_approved_notional z / sr_approved_quantity z) < effective_min_notional e
     then d\<lparr>rd_verdict := Denied, rd_allowed := False, rd_action := Deny,
            rd_reasons := rd_reasons d @ [mk_reason ''REDUCE_BELOW_MIN_NOTIONAL'' 1]\<rparr>
     else d)"

definition reported_factor :: "double \<Rightarrow> double" where
  "reported_factor f = (if \<not> isfinite f \<or> f < lit (1 / 10) \<or> lit 3 < f then 1 else f)"

definition finalize_decision ::
  "risk_engine \<Rightarrow> sizing_result \<Rightarrow> portfolio_snapshot \<Rightarrow> risk_decision \<Rightarrow> risk_decision" where
  "finalize_decision e z p d =
    (let d = min_notional_guard e z d;
         d = (if 0 < sn_total_capital p
              then d\<lparr>rd_risk_utilization_pct := ex_gross_exposure (sn_exposure p) / sn_total_capital p,
                     rd_current_gross_exposure := ex_gross_exposure (sn_exposure p),
                     rd_current_drawdown_pct := ps_current_drawdown_pct (sn_pnl p),
                     rd_current_daily_pnl := ps_total_pnl (sn_pnl p)\<rparr>
              else d)
     in d\<lparr>rd_regime_scaling_factor := reported_factor (re_regime_scale_factor e),
          rd_risk_state := compute_global_state (rs_locks (re_state e)),
          rd_active_locks_count := lock_count (rs_locks (re_state e))\<rparr>)"

text \<open>\<^verbatim>\<open>action\<close> follows \<^verbatim>\<open>verdict\<close> once the checks have run.\<close>

definition sync_action :: "risk_decision \<Rightarrow> risk_decision" where
  "sync_action d =
    (case rd_verdict d of
       Denied \<Rightarrow>
         d\<lparr>rd_allowed := False,
           rd_action := (if rd_action d = Allow \<or> rd_action d = AllowWithReducedSize then Deny else rd_action d)\<rparr>
     | Throttled \<Rightarrow> d\<lparr>rd_allowed := False\<rparr>
     | ReduceSize \<Rightarrow> d\<lparr>rd_action := AllowWithReducedSize\<rparr>
     | Approved \<Rightarrow> d\<lparr>rd_allowed := True\<rparr>)"

definition risk_evaluate ::
  "timestamp \<Rightarrow> bool \<times> string \<Rightarrow> trade_intent \<Rightarrow> sizing_result \<Rightarrow> portfolio_snapshot \<Rightarrow> feature_snapshot \<Rightarrow>
   execution_alpha_result \<Rightarrow> uncertainty_snapshot \<Rightarrow> risk_engine \<Rightarrow> risk_decision \<times> risk_engine" where
  "risk_evaluate tnow prov i z p f a u e =
    (let e = refresh tnow prov p e;
         d = initial_decision tnow z
     in if invalid_size (sr_approved_quantity z) then
          (d\<lparr>rd_verdict := Denied, rd_allowed := False, rd_action := Deny,
             rd_reasons := rd_reasons d @ [mk_reason ''INVALID_SIZE'' 1]\<rparr>, e)
        else
          let d = d\<lparr>rd_verdict := Approved, rd_action := Allow, rd_allowed := True, rd_phase := PreTrade\<rparr>;
              checks = init_checks (re_config e) tnow (re_regime_scale_factor e) (context_of i z p f a u e)
          in if ti_trade_side i = TradeClose then
               let (s, d) = run_checks (map snd (filter (\<lambda>(n, c). List.member close_check_names n) checks))
                              (re_state e, d);
                   e = e\<lparr>re_state := s\<rparr>;
                   d = d\<lparr>rd_verdict := Approved, rd_action := Allow, rd_allowed := True\<rparr>
               in (finalize_decision e z p d, e)
             else
               let (s, d) = run_checks (map snd checks) (re_state e, d);
                   e = e\<lparr>re_state := s\<rparr>
               in (finalize_decision e z p (sync_action d), e))"

section \<open>Kill switch\<close>

definition activate_kill_switch :: "timestamp \<Rightarrow> string \<Rightarrow> risk_engine \<Rightarrow> risk_engine" where
  "activate_kill_switch tnow reason e =
    on_locks (add_lock LtEmergencyHalt [] reason tnow 0)
      (e\<lparr>re_kill_switch_active := True, re_kill_switch_reason := reason\<rparr>)"

definition deactivate_kill_switch :: "risk_engine \<Rightarrow> risk_engine" where
  "deactivate_kill_switch e =
    on_locks (remove_lock LtEmergencyHalt [])
      (e\<lparr>re_kill_switch_active := False, re_kill_switch_reason := []\<rparr>)"

definition is_kill_switch_active :: "bool \<times> string \<Rightarrow> risk_engine \<Rightarrow> bool" where
  "is_kill_switch_active prov e =
    (if re_kill_switch_active e then True else if re_has_provider e then fst prov else False)"

definition set_kill_switch_provider :: "bool \<Rightarrow> risk_engine \<Rightarrow> risk_engine" where
  "set_kill_switch_provider installed e = e\<lparr>re_has_provider := installed\<rparr>"

section \<open>Recording\<close>

definition record_order_sent :: "timestamp \<Rightarrow> risk_engine \<Rightarrow> risk_engine" where
  "record_order_sent tnow e =
    e\<lparr>re_state := (re_state e)\<lparr>rs_rates := record_order tnow (rs_rates (re_state e))\<rparr>\<rparr>"

definition engine_record_trade_result :: "bool \<Rightarrow> risk_engine \<Rightarrow> risk_engine" where
  "engine_record_trade_result is_loss e = e"

definition charge_budget ::
  "strategy_id \<Rightarrow> double \<Rightarrow> timestamp \<Rightarrow> strategy_risk_budget \<Rightarrow> strategy_risk_budget" where
  "charge_budget sid pnl tnow b =
    (let b = b\<lparr>sb_strategy_id := sid, sb_trades_today := sb_trades_today b + 1, sb_last_trade_at := tnow\<rparr>
     in if pnl < 0
        then b\<lparr>sb_daily_loss := sb_daily_loss b + \<bar>pnl\<bar>, sb_consecutive_losses := sb_consecutive_losses b + 1\<rparr>
        else b\<lparr>sb_consecutive_losses := 0\<rparr>)"

definition apply_trade ::
  "strategy_id \<Rightarrow> symbol \<Rightarrow> double \<Rightarrow> timestamp \<Rightarrow> risk_state \<Rightarrow> risk_state" where
  "apply_trade sid sy pnl tnow s =
    s\<lparr>rs_loss_streaks := record_trade_result sy sid (pnl < 0) tnow (rs_loss_streaks s),
      rs_pnl := record_trade_pnl sy sid pnl (rs_pnl s),
      rs_rates := record_symbol_trade sy tnow (rates_record_trade_close tnow (rs_rates s)),
      rs_strategy_budgets :=
        AList.update sid (charge_budget sid pnl tnow (al_get default_budget (rs_strategy_budgets s) sid))
          (rs_strategy_budgets s)\<rparr>"

definition automatic_locks ::
  "extended_risk_config \<Rightarrow> symbol \<Rightarrow> timestamp \<Rightarrow> loss_streak_tracker \<Rightarrow> lock_registry \<Rightarrow> lock_registry" where
  "automatic_locks cfg sy tnow t ls =
    (let sl = symbol_consecutive_losses t sy; tl = ls_total_consecutive_losses t;
         ls = (if rk_max_consecutive_losses_per_symbol cfg \<le> sl
               then add_lock LtCooldown sy (''consecutive_losses_per_symbol='' @ to_string_int sl) tnow
                      (rk_symbol_cooldown_after_stopouts_ns cfg) ls
               else ls);
         ls = (if rk_cooldown_after_n_losses cfg \<le> tl \<and> tl < rk_halt_after_n_losses cfg
               then add_lock LtCooldown [] (''consecutive_losses_global='' @ to_string_int tl) tnow
                      (rk_loss_cooldown_ns cfg) ls
               else ls)
     in if rk_halt_after_n_losses cfg \<le> tl
        then add_lock LtDayLock [] (''halt_after_'' @ to_string_int (rk_halt_after_n_losses cfg) @ ''_losses'') tnow 0 ls
        else ls)"

definition record_trade_close ::
  "timestamp \<Rightarrow> strategy_id \<Rightarrow> symbol \<Rightarrow> double \<Rightarrow> risk_engine \<Rightarrow> risk_engine" where
  "record_trade_close tnow sid sy pnl e =
    (let s = apply_trade sid sy pnl tnow (re_state e)
     in e\<lparr>re_state := s\<lparr>rs_locks := automatic_locks (re_config e) sy tnow (rs_loss_streaks s) (rs_locks s)\<rparr>\<rparr>)"

section \<open>Open positions\<close>

record intra_trade_assessment =
  it_symbol :: symbol
  it_should_close :: bool
  it_should_reduce :: bool
  it_reduce_fraction :: double
  it_reasons :: "risk_reason_code list"
  it_assessed_at :: timestamp
  it_is_safety_exit :: bool

definition close_for :: "string \<Rightarrow> double \<Rightarrow> intra_trade_assessment \<Rightarrow> intra_trade_assessment" where
  "close_for code severity t =
    t\<lparr>it_should_close := True, it_reasons := it_reasons t @ [mk_reason code severity]\<rparr>"

definition adverse_pct :: "position \<Rightarrow> portfolio_snapshot \<Rightarrow> double" where
  "adverse_pct pos p = pct_of \<bar>pos_unrealized_pnl pos\<bar> (sn_total_capital p)"

definition losing :: "position \<Rightarrow> portfolio_snapshot \<Rightarrow> bool" where
  "losing pos p \<longleftrightarrow> 0 < sn_total_capital p \<and> pos_unrealized_pnl pos < 0"

definition degradation_count ::
  "extended_risk_config \<Rightarrow> position \<Rightarrow> portfolio_snapshot \<Rightarrow> feature_snapshot \<Rightarrow> nat" where
  "degradation_count cfg pos p f =
    (let m = fs_microstructure f
     in (if xf_is_feed_fresh (fs_execution_context f) = False then 1 else 0) +
        (if mf_spread_valid m \<and> lit 50 < mf_spread_bps m then 1 else 0) +
        (if losing pos p \<and> rk_max_adverse_excursion_pct cfg * lit (8 / 10) < adverse_pct pos p then 1 else 0) +
        (if mf_vpin_valid m \<and> mf_vpin_toxic m then 1 else 0))"

definition drawdown_reason :: "extended_risk_config \<Rightarrow> portfolio_snapshot \<Rightarrow> string" where
  "drawdown_reason cfg p =
    ''AUTO: Portfolio drawdown '' @ to_string_double (ps_current_drawdown_pct (sn_pnl p)) @
    ''% >= portfolio kill-switch threshold '' @
    to_string_double (rk_kill_switch_portfolio_drawdown_pct cfg) @ ''%''"

definition evaluate_position ::
  "timestamp \<Rightarrow> position \<Rightarrow> portfolio_snapshot \<Rightarrow> feature_snapshot \<Rightarrow> risk_engine \<Rightarrow>
   intra_trade_assessment \<times> risk_engine" where
  "evaluate_position tnow pos p f e =
    (let cfg = re_config e;
         t = \<lparr>it_symbol = pos_symbol pos, it_should_close = False, it_should_reduce = False,
              it_reduce_fraction = 0, it_reasons = [], it_assessed_at = tnow, it_is_safety_exit = False\<rparr>;
         t = (if losing pos p \<and> rk_max_adverse_excursion_pct cfg \<le> adverse_pct pos p
              then close_for ''MAX_ADVERSE_EXCURSION'' 1 t else t);
         breach = rk_kill_switch_portfolio_drawdown_pct cfg \<le> ps_current_drawdown_pct (sn_pnl p);
         e = (if breach \<and> \<not> re_kill_switch_active e
              then activate_kill_switch tnow (drawdown_reason cfg p) e else e);
         t = (if breach then close_for ''LIQUIDATION_PROXIMITY'' 1 t else t);
         hold_ns = max 0 (tnow - pos_opened_at pos);
         t = (if 0 < rk_operational_deadman_ns cfg \<and> rk_operational_deadman_ns cfg < hold_ns \<and>
                 2 \<le> degradation_count cfg pos p f
              then close_for ''DEADMAN_WATCHDOG'' (lit (8 / 10)) t else t);
         t = (if it_should_close t then t\<lparr>it_is_safety_exit := True\<rparr> else t)
     in (t, e))"

section \<open>Setters, snapshot and daily reset\<close>

definition regime_scale :: "extended_risk_config \<Rightarrow> detailed_regime \<Rightarrow> double" where
  "regime_scale cfg r =
    (case r of
       LiquidityStress \<Rightarrow> rk_stress_regime_scale cfg
     | VolatilityExpansion \<Rightarrow> rk_stress_regime_scale cfg
     | AnomalyEvent \<Rightarrow> rk_stress_regime_scale cfg
     | ToxicFlow \<Rightarrow> rk_stress_regime_scale cfg
     | SpreadInstability \<Rightarrow> rk_stress_regime_scale cfg
     | StrongUptrend \<Rightarrow> rk_trending_regime_scale cfg
     | StrongDowntrend \<Rightarrow> rk_trending_regime_scale cfg
     | Chop \<Rightarrow> rk_chop_regime_scale cfg
     | LowVolCompression \<Rightarrow> rk_chop_regime_scale cfg
     | _ \<Rightarrow> 1)"

definition set_current_regime :: "detailed_regime \<Rightarrow> risk_engine \<Rightarrow> risk_engine" where
  "set_current_regime r e =
    e\<lparr>re_current_regime := r,
      re_regime_scale_factor :=
        (if \<not> rk_regime_aware_limits_enabled (re_config e) then 1 else regime_scale (re_config e) r)\<rparr>"

definition set_funding_rate :: "double \<Rightarrow> risk_engine \<Rightarrow> risk_engine" where
  "set_funding_rate rate e = e\<lparr>re_current_funding_rate := rate\<rparr>"

definition set_min_notional_usdt :: "double \<Rightarrow> risk_engine \<Rightarrow> risk_engine" where
  "set_min_notional_usdt v e = e\<lparr>re_min_notional_usdt := v\<rparr>"

definition set_reconciliation_desync :: "bool \<Rightarrow> risk_engine \<Rightarrow> risk_engine" where
  "set_reconciliation_desync b e = e\<lparr>re_reconciliation_desync := b\<rparr>"

definition set_ws_disconnected :: "bool \<Rightarrow> risk_engine \<Rightarrow> risk_engine" where
  "set_ws_disconnected b e = e\<lparr>re_ws_disconnected := b\<rparr>"

record risk_snapshot =
  rn_total_risk_utilization :: double
  rn_daily_loss_pct :: double
  rn_current_drawdown_pct :: double
  rn_open_positions :: int
  rn_gross_exposure_pct :: double
  rn_kill_switch_active :: bool
  rn_regime_scaling_factor :: double
  rn_rules_triggered :: int
  rn_global_state :: risk_state_level
  rn_strategy_budgets :: "strategy_risk_budget list"
  rn_active_locks :: lock_registry
  rn_computed_at :: timestamp

definition get_risk_snapshot :: "timestamp \<Rightarrow> risk_engine \<Rightarrow> risk_snapshot" where
  "get_risk_snapshot tnow e =
    \<lparr>rn_total_risk_utilization = 0, rn_daily_loss_pct = 0,
     rn_current_drawdown_pct = account_drawdown_pct (rs_drawdown (re_state e)),
     rn_open_positions = 0, rn_gross_exposure_pct = 0, rn_kill_switch_active = re_kill_switch_active e,
     rn_regime_scaling_factor = re_regime_scale_factor e, rn_rules_triggered = 0,
     rn_global_state = compute_global_state (rs_locks (re_state e)),
     rn_strategy_budgets = map snd (rs_strategy_budgets (re_state e)),
     rn_active_locks = rs_locks (re_state e), rn_computed_at = tnow\<rparr>"

definition risk_reset_daily :: "timestamp \<Rightarrow> risk_engine \<Rightarrow> risk_engine" where
  "risk_reset_daily tnow e = e\<lparr>re_state := state_reset_daily tnow (re_state e), re_regime_scale_factor := 1\<rparr>"

end
