(* ===== verification/Risk_Laws.thy ===== *)
theory Risk_Laws
  imports Risk_Engine
begin

text \<open>
  The contract of \<^verbatim>\<open>IRiskCheck\<close> (\<^verbatim>\<open>src/src/risk/policies/i_risk_check.hpp\<close>) and what a
  chain of checks that keeps it guarantees: a check only worsens a decision, it stops the
  order exactly when its own limit is violated, and it leaves what the other checks look at
  unchanged.  The chain of the engine is an instance; the laws of the risk engine rest on
  it.
\<close>

section \<open>Decisions\<close>

definition stopped :: "risk_decision \<Rightarrow> bool" where
  "stopped d \<longleftrightarrow> rd_verdict d = Denied \<or> rd_verdict d = Throttled"

fun verdict_rank :: "risk_verdict \<Rightarrow> nat" where
  "verdict_rank Approved = 0"
| "verdict_rank ReduceSize = 1"
| "verdict_rank Throttled = 2"
| "verdict_rank Denied = 3"

text \<open>What holds of a decision while the checks run.\<close>

definition dec_ok :: "risk_decision \<Rightarrow> bool" where
  "dec_ok d \<longleftrightarrow>
    (rd_verdict d = Approved \<longleftrightarrow> rd_reasons d = []) \<and>
    (rd_verdict d = Denied \<longleftrightarrow> rd_hard_blocks d \<noteq> []) \<and>
    (rd_verdict d \<noteq> Denied \<longrightarrow> rd_action d = Allow) \<and>
    (rd_verdict d = Approved \<longrightarrow> rd_approved_quantity d = rd_original_size d) \<and>
    0 \<le> rd_approved_quantity d \<and> rd_approved_quantity d \<le> rd_original_size d \<and>
    isfinite (rd_original_size d) \<and> 0 \<le> rd_original_size d \<and> rd_allowed d"

definition worsens :: "risk_decision \<Rightarrow> risk_decision \<Rightarrow> bool" where
  "worsens d d' \<longleftrightarrow>
    verdict_rank (rd_verdict d) \<le> verdict_rank (rd_verdict d') \<and>
    rd_original_size d' = rd_original_size d \<and> rd_decided_at d' = rd_decided_at d \<and>
    (\<exists>rs. rd_reasons d' = rd_reasons d @ rs) \<and> (dec_ok d \<longrightarrow> dec_ok d')"

lemma worsens_refl [simp]: "worsens d d"
  by (simp add: worsens_def)

lemma worsens_trans: "worsens d d' \<Longrightarrow> worsens d' d'' \<Longrightarrow> worsens d d''"
  unfolding worsens_def by (metis append.assoc le_trans)

text \<open>Fields for the audit only: a check may set them freely.\<close>

definition audit_eq :: "risk_decision \<Rightarrow> risk_decision \<Rightarrow> bool" where
  "audit_eq d d' \<longleftrightarrow>
    rd_verdict d' = rd_verdict d \<and> rd_action d' = rd_action d \<and> rd_allowed d' = rd_allowed d \<and>
    rd_reasons d' = rd_reasons d \<and> rd_hard_blocks d' = rd_hard_blocks d \<and>
    rd_approved_quantity d' = rd_approved_quantity d \<and> rd_original_size d' = rd_original_size d \<and>
    rd_decided_at d' = rd_decided_at d"

lemma audit_worsens: "audit_eq d d' \<Longrightarrow> worsens d d'"
  by (simp add: audit_eq_def worsens_def dec_ok_def)

lemma verdict_rank_Denied: "verdict_rank v \<le> verdict_rank Denied"
  by (cases v) simp_all

lemma worsens_deny [simp]: "worsens d (deny code severity d)"
  by (cases "code = []") (simp_all add: deny_def worsens_def dec_ok_def verdict_rank_Denied[simplified])

lemma worsens_deny_lock [simp]: "worsens d (deny_lock a code d)"
  by (simp add: deny_lock_def worsens_def dec_ok_def verdict_rank_Denied[simplified])

lemma worsens_throttle [simp]: "worsens d (throttle code d)"
  by (cases "rd_verdict d") (auto simp: throttle_def worsens_def dec_ok_def)

lemma clamp01_cases: "std_clamp r 0 1 = NaN \<or> (0 \<le> std_clamp r 0 1 \<and> std_clamp r 0 1 \<le> (1 :: double))"
  by (cases r) (auto simp: std_clamp_def zero_double_def one_double_def)

lemma mult_clamp01_nonneg:
  assumes "isfinite q" "0 \<le> q" "q * std_clamp r 0 1 < x"
  shows "0 \<le> q * std_clamp r 0 1"
proof -
  have "std_clamp r 0 1 \<noteq> NaN"
  proof
    assume "std_clamp r 0 1 = NaN"
    then have "q * std_clamp r 0 1 = NaN" by (cases q) simp_all
    then show False using assms(3) by simp
  qed
  then have "0 \<le> std_clamp r 0 1" "std_clamp r 0 1 \<le> 1" using clamp01_cases [of r] by auto
  then have "isfinite (std_clamp r 0 1)" by (cases "std_clamp r 0 1") (simp_all add: zero_double_def one_double_def)
  with \<open>0 \<le> std_clamp r 0 1\<close> assms(1,2) show ?thesis by (simp add: double_mult_nonneg)
qed

lemma dec_ok_reduce:
  assumes "dec_ok d"
  shows "dec_ok (reduce ratio code d)"
proof -
  let ?t = "rd_original_size d * std_clamp ratio 0 1"
  have "0 \<le> (if ?t < rd_approved_quantity d then ?t else rd_approved_quantity d)"
    using assms mult_clamp01_nonneg by (simp add: dec_ok_def)
  moreover have "(if ?t < rd_approved_quantity d then ?t else rd_approved_quantity d) \<le> rd_original_size d"
    using assms by (auto simp: dec_ok_def dest: double_less_imp_le intro: double_le_trans)
  ultimately show ?thesis
    using assms by (simp add: dec_ok_def reduce_def Let_def del: if_split) auto
qed

lemma worsens_reduce [simp]: "worsens d (reduce ratio code d)"
proof -
  have "verdict_rank (rd_verdict d) \<le> verdict_rank (rd_verdict (reduce ratio code d))"
    by (cases "rd_verdict d") (simp_all add: reduce_def Let_def)
  then show ?thesis using dec_ok_reduce by (simp add: worsens_def) (simp add: reduce_def Let_def)
qed

lemma stopped_deny [simp]: "stopped (deny code severity d) \<longleftrightarrow> code \<noteq> [] \<or> stopped d"
  by (simp add: deny_def stopped_def)

lemma stopped_deny_lock [simp]: "stopped (deny_lock a code d)"
  by (simp add: deny_lock_def stopped_def)

lemma stopped_throttle [simp]: "stopped (throttle code d)"
  by (simp add: throttle_def stopped_def)

lemma stopped_reduce [simp]: "stopped (reduce ratio code d) \<longleftrightarrow> stopped d"
  by (simp add: reduce_def stopped_def Let_def)

lemma audit_stopped: "audit_eq d d' \<Longrightarrow> stopped d' \<longleftrightarrow> stopped d"
  by (simp add: audit_eq_def stopped_def)

section \<open>The contract of a check and chains of checks\<close>

locale policy_chain =
  fixes chain :: "(risk_check \<times> (risk_state \<Rightarrow> bool)) list"
    and view :: "risk_state \<Rightarrow> risk_state \<Rightarrow> bool"
  assumes view_refl: "view s s"
    and view_trans: "view s s' \<Longrightarrow> view s' s'' \<Longrightarrow> view s s''"
    and keeps_view: "(c, b) \<in> set chain \<Longrightarrow> view s (fst (c (s, d)))"
    and limit_stable: "(c, b) \<in> set chain \<Longrightarrow> view s s' \<Longrightarrow> b s' = b s"
    and only_worsens: "(c, b) \<in> set chain \<Longrightarrow> worsens d (snd (c (s, d)))"
    and stops_iff: "(c, b) \<in> set chain \<Longrightarrow> stopped (snd (c (s, d))) \<longleftrightarrow> stopped d \<or> b s"
begin

lemma run_sublist:
  assumes "set cs \<subseteq> set chain"
  shows "view s (fst (run_checks (map fst cs) (s, d))) \<and>
         worsens d (snd (run_checks (map fst cs) (s, d))) \<and>
         (stopped (snd (run_checks (map fst cs) (s, d))) \<longleftrightarrow> stopped d \<or> (\<exists>(c, b) \<in> set cs. b s))"
  using assms
proof (induction cs arbitrary: s d)
  case Nil
  then show ?case by (simp add: view_refl)
next
  case (Cons cb cs)
  obtain c b where cb: "cb = (c, b)" by force
  obtain s' d' where step: "c (s, d) = (s', d')" by force
  have mem: "(c, b) \<in> set chain" using Cons.prems cb by simp
  have here: "view s s'" "worsens d d'" "stopped d' \<longleftrightarrow> stopped d \<or> b s"
    using keeps_view [OF mem, of s d] only_worsens [OF mem, of d s] stops_iff [OF mem, of s d] step by simp_all
  have rest: "view s' (fst (run_checks (map fst cs) (s', d')))"
    "worsens d' (snd (run_checks (map fst cs) (s', d')))"
    "stopped (snd (run_checks (map fst cs) (s', d'))) \<longleftrightarrow> stopped d' \<or> (\<exists>(c, b) \<in> set cs. b s')"
    using Cons.IH [of s' d'] Cons.prems by simp_all
  have same: "b' s' = b' s" if "(c', b') \<in> set cs" for c' b'
    using that Cons.prems by (intro limit_stable [OF _ here(1)]) auto
  have "(\<exists>(c, b) \<in> set cs. b s') \<longleftrightarrow> (\<exists>(c, b) \<in> set cs. b s)"
    using same by (intro bex_cong) auto
  with rest(3) here(3)
  have "stopped (snd (run_checks (map fst cs) (s', d'))) \<longleftrightarrow> stopped d \<or> (\<exists>(c, b) \<in> set (cb # cs). b s)"
    by (simp add: cb disj_assoc)
  moreover have "run_checks (map fst (cb # cs)) (s, d) = run_checks (map fst cs) (s', d')"
    by (simp add: cb step)
  ultimately show ?case
    using view_trans [OF here(1) rest(1)] worsens_trans [OF here(2) rest(2)] by simp
qed

lemma run_view: "view s (fst (run_checks (map fst chain) (s, d)))"
  and run_worsens: "worsens d (snd (run_checks (map fst chain) (s, d)))"
  and run_stopped: "stopped (snd (run_checks (map fst chain) (s, d))) \<longleftrightarrow>
                    stopped d \<or> (\<exists>(c, b) \<in> set chain. b s)"
  using run_sublist [OF subset_refl, of s d] by simp_all

end

section \<open>The limits, one per check\<close>

text \<open>
  When a check stops an opening order, stated on the inputs alone: the reference that the
  chain is compared with.  The checks that only shrink an order never stop it.
\<close>

definition loss_limit_hit :: "double \<Rightarrow> double \<Rightarrow> double \<Rightarrow> bool" where
  "loss_limit_hit limit pnl capital \<longleftrightarrow> \<not> capital \<le> 0 \<and> limit \<le> pct_of \<bar>std_min pnl 0\<bar> capital"

definition direction_full :: "extended_risk_config \<Rightarrow> side \<Rightarrow> position list \<Rightarrow> bool" where
  "direction_full cfg sd ps \<longleftrightarrow>
    (let n = (if sd = Buy then long_count ps else short_count ps)
     in (if sd = Buy then rk_max_simultaneous_long_positions cfg else rk_max_simultaneous_short_positions cfg) \<le> n \<or>
        rk_max_same_direction_positions cfg \<le> n)"

definition symbol_limit_hit :: "extended_risk_config \<Rightarrow> risk_context \<Rightarrow> risk_state \<Rightarrow> bool" where
  "symbol_limit_hit cfg x s \<longleftrightarrow>
    (let capital = sn_total_capital (rx_portfolio x); sy = ti_symbol (rx_intent x); pnl = symbol_daily_pnl (rs_pnl s) sy
     in \<not> capital \<le> 0 \<and>
        (rk_max_symbol_concentration_pct cfg \<le> concentration_pct x \<or>
         rk_max_consecutive_losses_per_symbol cfg \<le> symbol_consecutive_losses (rs_loss_streaks s) sy \<or>
         pnl < 0 \<and> rk_max_daily_loss_per_symbol_pct cfg \<le> pct_of \<bar>pnl\<bar> capital))"

definition budget_spent :: "extended_risk_config \<Rightarrow> risk_context \<Rightarrow> risk_state \<Rightarrow> bool" where
  "budget_spent cfg x s \<longleftrightarrow>
    \<not> sn_total_capital (rx_portfolio x) \<le> 0 \<and>
    (\<exists>b. map_of (rs_strategy_budgets s) (ti_strategy_id (rx_intent x)) = Some b \<and>
         rk_max_strategy_daily_loss_pct cfg \<le> pct_of (sb_daily_loss b) (sn_total_capital (rx_portfolio x)))"

definition traded_too_recently :: "extended_risk_config \<Rightarrow> timestamp \<Rightarrow> risk_context \<Rightarrow> risk_state \<Rightarrow> bool" where
  "traded_too_recently cfg tnow x s \<longleftrightarrow>
    (let t = last_trade_for_symbol (rs_rates s) (ti_symbol (rx_intent x))
     in t \<noteq> 0 \<and> max 0 (tnow - t) < rk_min_trade_interval_ns cfg)"

definition funding_too_high :: "extended_risk_config \<Rightarrow> risk_context \<Rightarrow> bool" where
  "funding_too_high cfg x \<longleftrightarrow>
    (let rate = rx_current_funding_rate x; cost = (if ti_side (rx_intent x) = Buy then rate else - rate)
     in \<not> \<bar>rate\<bar> < lit (1 / 10 ^ 9) \<and> \<not> cost \<le> 0 \<and>
        rk_max_annual_funding_cost_pct cfg < annual_funding_cost_pct cost)"

definition venue_degraded :: "venue_health_context \<Rightarrow> bool" where
  "venue_degraded vh \<longleftrightarrow>
    lit 3000 < vh_rest_p99_latency_ms vh \<or> 3 < vh_ws_reconnect_count_last_hour vh \<or>
    lit (20 / 100) < vh_reject_rate_last_minute vh \<or> lit 500 < vh_clock_drift_ms vh"

definition open_limits ::
  "extended_risk_config \<Rightarrow> timestamp \<Rightarrow> risk_context \<Rightarrow> (risk_state \<Rightarrow> bool) list" where
  "open_limits cfg tnow x =
    (let p = rx_portfolio x; m = fs_microstructure (rx_features x) in
    [\<lambda>s. has_day_lock (rs_locks s),
     \<lambda>s. has_symbol_lock (rs_locks s) (ti_symbol (rx_intent x)),
     \<lambda>s. has_strategy_lock (rs_locks s) (ti_strategy_id (rx_intent x)),
     \<lambda>s. has_cooldown (rs_locks s) (ti_symbol (rx_intent x)),
     \<lambda>s. loss_limit_hit (rk_max_daily_loss_pct cfg) (ps_total_pnl (sn_pnl p)) (sn_total_capital p),
     \<lambda>s. loss_limit_hit (rk_max_realized_daily_loss_pct cfg) (ps_realized_pnl_today (sn_pnl p)) (sn_total_capital p),
     \<lambda>s. rk_max_drawdown_pct cfg \<le> ps_current_drawdown_pct (sn_pnl p),
     \<lambda>s. rk_max_intraday_drawdown_pct cfg \<le> intraday_drawdown_pct (rs_drawdown s),
     \<lambda>s. rk_drawdown_hard_stop_pct cfg \<le> ps_current_drawdown_pct (sn_pnl p),
     \<lambda>s. rk_max_concurrent_positions cfg \<le> int (ex_open_positions_count (sn_exposure p)),
     \<lambda>s. direction_full cfg (ti_side (rx_intent x)) (sn_positions p),
     \<lambda>s. \<not> sn_total_capital p \<le> 0 \<and> rk_max_gross_exposure_pct cfg \<le> pct_of (projected_gross x) (sn_total_capital p),
     \<lambda>s. False,
     \<lambda>s. \<not> sn_total_capital p \<le> 0 \<and>
         rk_max_leverage cfg * std_max 0 (1 - rk_liquidation_buffer_pct cfg / lit 100)
           \<le> projected_gross x / sn_total_capital p,
     \<lambda>s. rk_max_slippage_bps cfg < eq_estimated_slippage_bps (ea_quality (rx_exec_alpha x)),
     \<lambda>s. rk_max_consecutive_losses cfg \<le> ps_consecutive_losses (sn_pnl p) \<or>
         rk_halt_after_n_losses cfg \<le> ps_consecutive_losses (sn_pnl p),
     \<lambda>s. \<not> sn_total_capital p \<le> 0 \<and> list_ex (loses_too_much cfg (sn_total_capital p)) (sn_positions p),
     \<lambda>s. symbol_limit_hit cfg x s,
     \<lambda>s. budget_spent cfg x s,
     \<lambda>s. rk_max_orders_per_minute cfg \<le> fst (orders_last_minute tnow (rs_rates s)),
     \<lambda>s. rk_max_trades_per_hour cfg \<le> fst (trades_last_hour tnow (rs_rates s)),
     \<lambda>s. traded_too_recently cfg tnow x s,
     \<lambda>s. \<not> xf_is_feed_fresh (fs_execution_context (rx_features x)) \<or>
         rk_max_feed_age_ns cfg < fs_market_data_age_ns (rx_features x),
     \<lambda>s. fs_book_quality (rx_features x) \<noteq> QValid,
     \<lambda>s. mf_spread_valid m \<and> rk_max_spread_bps cfg < mf_spread_bps m,
     \<lambda>s. mf_liquidity_valid m \<and>
         mf_bid_depth_5_notional m + mf_ask_depth_5_notional m < rk_min_liquidity_depth cfg,
     \<lambda>s. \<not> rk_utc_cutoff_hour cfg < 0 \<and> past_cutoff cfg tnow,
     \<lambda>s. False,
     \<lambda>s. False,
     \<lambda>s. co_active (us_cooldown (rx_uncertainty x)),
     \<lambda>s. us_execution_mode (rx_uncertainty x) = ModeHaltNewEntries \<and> ti_trade_side (rx_intent x) = TradeOpen,
     \<lambda>s. funding_too_high cfg x,
     \<lambda>s. venue_degraded (rx_venue_health x),
     \<lambda>s. \<not> lit 99 \<le> mg_distance_to_liquidation_pct (rx_margin x) \<and>
         mg_distance_to_liquidation_pct (rx_margin x) < rk_liquidation_buffer_pct cfg,
     \<lambda>s. rx_reconciliation_desync x \<and>
         \<not> (ti_trade_side (rx_intent x) = TradeClose \<or> ti_signal_intent (rx_intent x) = SiReducePosition),
     \<lambda>s. rx_ws_disconnected x])"

definition open_permitted ::
  "extended_risk_config \<Rightarrow> timestamp \<Rightarrow> risk_context \<Rightarrow> risk_state \<Rightarrow> bool" where
  "open_permitted cfg tnow x s \<longleftrightarrow>
    \<not> has_emergency_halt (rs_locks s) \<and> list_all (\<lambda>b. \<not> b s) (open_limits cfg tnow x)"

section \<open>The engine's chain keeps the contract\<close>

definition same_view :: "timestamp \<Rightarrow> risk_state \<Rightarrow> risk_state \<Rightarrow> bool" where
  "same_view tnow s s' \<longleftrightarrow>
    (\<forall>ty t. ty \<noteq> LtEmergencyHalt \<longrightarrow> is_locked (rs_locks s') ty t = is_locked (rs_locks s) ty t) \<and>
    has_day_lock (rs_locks s') = has_day_lock (rs_locks s) \<and>
    rs_drawdown s' = rs_drawdown s \<and> rs_loss_streaks s' = rs_loss_streaks s \<and> rs_pnl s' = rs_pnl s \<and>
    rs_strategy_budgets s' = rs_strategy_budgets s \<and>
    fst (orders_last_minute tnow (rs_rates s')) = fst (orders_last_minute tnow (rs_rates s)) \<and>
    fst (trades_last_hour tnow (rs_rates s')) = fst (trades_last_hour tnow (rs_rates s)) \<and>
    rt_last_trade_per_symbol (rs_rates s') = rt_last_trade_per_symbol (rs_rates s)"

lemma same_view_refl [simp]: "same_view t s s"
  by (simp add: same_view_def)

lemma same_view_trans: "same_view t s s' \<Longrightarrow> same_view t s' s'' \<Longrightarrow> same_view t s s''"
  by (simp add: same_view_def)

definition contract :: "timestamp \<Rightarrow> risk_check \<Rightarrow> (risk_state \<Rightarrow> bool) \<Rightarrow> bool" where
  "contract t c b \<longleftrightarrow>
    (\<forall>s d. same_view t s (fst (c (s, d))) \<and> worsens d (snd (c (s, d))) \<and>
           (stopped (snd (c (s, d))) \<longleftrightarrow> stopped d \<or> b s)) \<and>
    (\<forall>s s'. same_view t s s' \<longrightarrow> b s' = b s)"

lemma contract_decides:
  "(\<And>d. worsens d (f d)) \<Longrightarrow> (\<And>d. stopped (f d) \<longleftrightarrow> stopped d \<or> B) \<Longrightarrow> contract t (decides f) (\<lambda>_. B)"
  by (simp add: contract_def decides_def)

lemma contract_inspects:
  "(\<And>s d. worsens d (f s d)) \<Longrightarrow> (\<And>s d. stopped (f s d) \<longleftrightarrow> stopped d \<or> b s) \<Longrightarrow>
   (\<And>s s'. same_view t s s' \<Longrightarrow> b s' = b s) \<Longrightarrow> contract t (inspects f) b"
  by (simp add: contract_def inspects_def)

lemma audit_fields [simp]:
  "audit_eq d (d\<lparr>rd_current_daily_pnl := v\<rparr>)" "audit_eq d (d\<lparr>rd_current_drawdown_pct := v\<rparr>)"
  "audit_eq d (d\<lparr>rd_current_gross_exposure := v\<rparr>)" "audit_eq d (d\<lparr>rd_symbol_concentration_pct := v\<rparr>)"
  "audit_eq d (d\<lparr>rd_strategy_budget_utilization_pct := v\<rparr>)" "audit_eq d (d\<lparr>rd_regime_scaling_factor := v\<rparr>)"
  "audit_eq d (d\<lparr>rd_kill_switch_active := k\<rparr>)"
  by (simp_all add: audit_eq_def)

lemmas audit_worsens' [simp] = audit_fields [THEN audit_worsens]
lemmas audit_stopped' [simp] = audit_fields [THEN audit_stopped]

lemma worsens_if: "(P \<Longrightarrow> worsens d a) \<Longrightarrow> (\<not> P \<Longrightarrow> worsens d b) \<Longrightarrow> worsens d (if P then a else b)"
  by simp

lemma worsens_then:
  "worsens d d' \<Longrightarrow> worsens d (deny c v d')" "worsens d d' \<Longrightarrow> worsens d (deny_lock a c d')"
  "worsens d d' \<Longrightarrow> worsens d (reduce r c d')" "worsens d d' \<Longrightarrow> worsens d (throttle c d')"
  by (auto intro: worsens_trans)

lemma contract_day_lock:
  "contract t (inspects (day_lock_check)) (\<lambda>s. has_day_lock (rs_locks s))"
  by (rule contract_inspects)
     (simp_all add: day_lock_check_def Let_def same_view_def)

lemma contract_symbol_lock:
  "contract t (inspects (symbol_lock_check x)) (\<lambda>s. has_symbol_lock (rs_locks s) (ti_symbol (rx_intent x)))"
  by (rule contract_inspects)
     (simp_all add: symbol_lock_check_def has_symbol_lock_def Let_def same_view_def)

lemma contract_strategy_lock:
  "contract t (inspects (strategy_lock_check x)) (\<lambda>s. has_strategy_lock (rs_locks s) (ti_strategy_id (rx_intent x)))"
  by (rule contract_inspects)
     (simp_all add: strategy_lock_check_def has_strategy_lock_def Let_def same_view_def)

lemma contract_symbol_cooldown:
  "contract t (inspects (symbol_cooldown_check x)) (\<lambda>s. has_cooldown (rs_locks s) (ti_symbol (rx_intent x)))"
  by (rule contract_inspects)
     (simp_all add: symbol_cooldown_check_def has_cooldown_def Let_def same_view_def)

lemma contract_daily_loss:
  "contract t (decides (daily_loss_check cfg x)) (\<lambda>s. loss_limit_hit (rk_max_daily_loss_pct cfg) (ps_total_pnl (sn_pnl (rx_portfolio x))) (sn_total_capital (rx_portfolio x)))"
  by (rule contract_decides)
     (simp_all add: daily_loss_check_def loss_limit_hit_def worsens_then Let_def)

lemma contract_realized_daily_loss:
  "contract t (decides (realized_daily_loss_check cfg x)) (\<lambda>s. loss_limit_hit (rk_max_realized_daily_loss_pct cfg) (ps_realized_pnl_today (sn_pnl (rx_portfolio x))) (sn_total_capital (rx_portfolio x)))"
  by (rule contract_decides)
     (simp_all add: realized_daily_loss_check_def loss_limit_hit_def Let_def)

lemma contract_max_drawdown:
  "contract t (decides (max_drawdown_check cfg x)) (\<lambda>s. rk_max_drawdown_pct cfg \<le> ps_current_drawdown_pct (sn_pnl (rx_portfolio x)))"
  by (rule contract_decides)
     (simp_all add: max_drawdown_check_def worsens_then Let_def)

lemma contract_intraday_drawdown:
  "contract t (inspects (intraday_drawdown_check cfg)) (\<lambda>s. rk_max_intraday_drawdown_pct cfg \<le> intraday_drawdown_pct (rs_drawdown s))"
  by (rule contract_inspects)
     (simp_all add: intraday_drawdown_check_def Let_def same_view_def)

lemma contract_max_positions:
  "contract t (decides (max_positions_check cfg x)) (\<lambda>s. rk_max_concurrent_positions cfg \<le> int (ex_open_positions_count (sn_exposure (rx_portfolio x))))"
  by (rule contract_decides)
     (simp_all add: max_positions_check_def Let_def)

lemma contract_same_direction:
  "contract t (decides (same_direction_check cfg x)) (\<lambda>s. direction_full cfg (ti_side (rx_intent x)) (sn_positions (rx_portfolio x)))"
  by (rule contract_decides; cases "ti_side (rx_intent x)")
     (simp_all add: same_direction_check_def direction_full_def worsens_then Let_def)

lemma contract_exposure_limit:
  "contract t (decides (exposure_limit_check cfg x)) (\<lambda>s. \<not> sn_total_capital (rx_portfolio x) \<le> 0 \<and>
     rk_max_gross_exposure_pct cfg \<le> pct_of (projected_gross x) (sn_total_capital (rx_portfolio x)))"
  by (rule contract_decides)
     (simp_all add: exposure_limit_check_def worsens_then Let_def)

lemma contract_per_trade_risk:
  "contract t (decides (per_trade_risk_check cfg x)) (\<lambda>s. False)"
  by (rule contract_decides)
     (simp_all add: per_trade_risk_check_def Let_def)

lemma contract_max_leverage:
  "contract t (decides (max_leverage_check cfg x)) (\<lambda>s. \<not> sn_total_capital (rx_portfolio x) \<le> 0 \<and>
     rk_max_leverage cfg * std_max 0 (1 - rk_liquidation_buffer_pct cfg / lit 100)
       \<le> projected_gross x / sn_total_capital (rx_portfolio x))"
  by (rule contract_decides)
     (simp_all add: max_leverage_check_def Let_def)

lemma contract_max_slippage:
  "contract t (decides (max_slippage_check cfg x)) (\<lambda>s. rk_max_slippage_bps cfg < eq_estimated_slippage_bps (ea_quality (rx_exec_alpha x)))"
  by (rule contract_decides)
     (simp_all add: max_slippage_check_def Let_def)

lemma contract_consecutive_losses:
  "contract t (decides (consecutive_losses_check cfg x)) (\<lambda>s. rk_max_consecutive_losses cfg \<le> ps_consecutive_losses (sn_pnl (rx_portfolio x)) \<or>
     rk_halt_after_n_losses cfg \<le> ps_consecutive_losses (sn_pnl (rx_portfolio x)))"
  by (rule contract_decides)
     (simp_all add: consecutive_losses_check_def worsens_then Let_def)

lemma contract_max_loss_per_trade:
  "contract t (decides (max_loss_per_trade_check cfg x)) (\<lambda>s. \<not> sn_total_capital (rx_portfolio x) \<le> 0 \<and>
     list_ex (loses_too_much cfg (sn_total_capital (rx_portfolio x))) (sn_positions (rx_portfolio x)))"
  by (rule contract_decides)
     (simp_all add: max_loss_per_trade_check_def Let_def)

lemma contract_per_symbol_risk:
  "contract t (inspects (per_symbol_risk_check cfg x)) (\<lambda>s. symbol_limit_hit cfg x s)"
  by (rule contract_inspects)
     (auto simp: per_symbol_risk_check_def symbol_limit_hit_def worsens_then Let_def same_view_def)

lemma contract_per_strategy_risk:
  "contract t (inspects (per_strategy_risk_check cfg x)) (\<lambda>s. budget_spent cfg x s)"
  by (rule contract_inspects)
     (simp_all add: per_strategy_risk_check_def budget_spent_def worsens_then Let_def same_view_def
        split: option.split)

lemma contract_trade_interval:
  "contract t (inspects (trade_interval_check cfg t x)) (\<lambda>s. traded_too_recently cfg t x s)"
  by (rule contract_inspects)
     (simp_all add: trade_interval_check_def traded_too_recently_def last_trade_for_symbol_def max_def Let_def same_view_def)

lemma contract_stale_feed:
  "contract t (decides (stale_feed_check cfg x)) (\<lambda>s. \<not> xf_is_feed_fresh (fs_execution_context (rx_features x)) \<or>
     rk_max_feed_age_ns cfg < fs_market_data_age_ns (rx_features x))"
  by (rule contract_decides)
     (simp_all add: stale_feed_check_def Let_def)

lemma contract_book_quality:
  "contract t (decides (book_quality_check x)) (\<lambda>s. fs_book_quality (rx_features x) \<noteq> QValid)"
  by (rule contract_decides)
     (simp_all add: book_quality_check_def Let_def)

lemma contract_spread:
  "contract t (decides (spread_check cfg x)) (\<lambda>s. mf_spread_valid (fs_microstructure (rx_features x)) \<and>
     rk_max_spread_bps cfg < mf_spread_bps (fs_microstructure (rx_features x)))"
  by (rule contract_decides)
     (simp_all add: spread_check_def Let_def)

lemma contract_liquidity:
  "contract t (decides (liquidity_check cfg x)) (\<lambda>s. mf_liquidity_valid (fs_microstructure (rx_features x)) \<and>
     mf_bid_depth_5_notional (fs_microstructure (rx_features x)) +
     mf_ask_depth_5_notional (fs_microstructure (rx_features x)) < rk_min_liquidity_depth cfg)"
  by (rule contract_decides)
     (simp_all add: liquidity_check_def Let_def)

lemma contract_utc_cutoff:
  "contract t (decides (utc_cutoff_check cfg tnow)) (\<lambda>s. \<not> rk_utc_cutoff_hour cfg < 0 \<and> past_cutoff cfg tnow)"
  by (rule contract_decides)
     (simp_all add: utc_cutoff_check_def Let_def)

lemma contract_regime_scaled_limits:
  "contract t (decides (regime_scaled_limits_check cfg scale x)) (\<lambda>s. False)"
  by (rule contract_decides)
     (simp_all add: regime_scaled_limits_check_def worsens_then Let_def)

lemma contract_uncertainty_limits:
  "contract t (decides (uncertainty_limits_check cfg x)) (\<lambda>s. False)"
  by (rule contract_decides)
     (simp_all add: uncertainty_limits_check_def Let_def)

lemma contract_uncertainty_cooldown:
  "contract t (decides (uncertainty_cooldown_check x)) (\<lambda>s. co_active (us_cooldown (rx_uncertainty x)))"
  by (rule contract_decides)
     (simp_all add: uncertainty_cooldown_check_def Let_def)

lemma contract_uncertainty_execution_mode:
  "contract t (decides (uncertainty_execution_mode_check x)) (\<lambda>s. us_execution_mode (rx_uncertainty x) = ModeHaltNewEntries \<and>
     ti_trade_side (rx_intent x) = TradeOpen)"
  by (rule contract_decides)
     (simp_all add: uncertainty_execution_mode_check_def Let_def)

lemma contract_funding_rate_cost:
  "contract t (decides (funding_rate_cost_check cfg x)) (\<lambda>s. funding_too_high cfg x)"
  by (rule contract_decides)
     (simp_all add: funding_rate_cost_check_def funding_too_high_def Let_def)

lemma contract_venue_health:
  "contract t (decides (venue_health_check x)) (\<lambda>s. venue_degraded (rx_venue_health x))"
  by (rule contract_decides)
     (simp_all add: venue_health_check_def venue_degraded_def worsens_then Let_def)

lemma contract_margin_distance:
  "contract t (decides (margin_distance_check cfg x)) (\<lambda>s. \<not> lit 99 \<le> mg_distance_to_liquidation_pct (rx_margin x) \<and>
     mg_distance_to_liquidation_pct (rx_margin x) < rk_liquidation_buffer_pct cfg)"
  by (rule contract_decides)
     (simp_all add: margin_distance_check_def worsens_then Let_def)

lemma contract_reconciliation_desync:
  "contract t (decides (reconciliation_desync_check x)) (\<lambda>s. rx_reconciliation_desync x \<and>
     \<not> (ti_trade_side (rx_intent x) = TradeClose \<or> ti_signal_intent (rx_intent x) = SiReducePosition))"
  by (rule contract_decides)
     (simp_all add: reconciliation_desync_check_def Let_def)

lemma contract_ws_disconnected:
  "contract t (decides (ws_disconnected_check x)) (\<lambda>s. rx_ws_disconnected x)"
  by (rule contract_decides)
     (simp_all add: ws_disconnected_check_def Let_def)

lemma contract_drawdown_hard_stop:
  "contract t (drawdown_hard_stop_check cfg x)
     (\<lambda>s. rk_drawdown_hard_stop_pct cfg \<le> ps_current_drawdown_pct (sn_pnl (rx_portfolio x)))"
  by (simp add: contract_def drawdown_hard_stop_check_def same_view_def add_lock_def is_locked_def
      has_day_lock_def lock_matches_def)

lemma purge_old_idem [simp]: "purge_old (purge_old q c) c = purge_old q c"
  by (induction q) simp_all

lemma contract_order_rate:
  "contract t (order_rate_check cfg t)
     (\<lambda>s. rk_max_orders_per_minute cfg \<le> fst (orders_last_minute t (rs_rates s)))"
  by (simp add: contract_def order_rate_check_def same_view_def orders_last_minute_def
      trades_last_hour_def Let_def)

lemma contract_turnover_rate:
  "contract t (turnover_rate_check cfg t)
     (\<lambda>s. rk_max_trades_per_hour cfg \<le> fst (trades_last_hour t (rs_rates s)))"
  by (simp add: contract_def turnover_rate_check_def same_view_def orders_last_minute_def
      trades_last_hour_def Let_def)

text \<open>Everything but the kill switch, which comes first and looks at the emergency halt.\<close>

definition later_chain ::
  "extended_risk_config \<Rightarrow> timestamp \<Rightarrow> double \<Rightarrow> risk_context \<Rightarrow> (risk_check \<times> (risk_state \<Rightarrow> bool)) list" where
  "later_chain cfg tnow scale x =
    zip (map snd (tl (init_checks cfg tnow scale x))) (open_limits cfg tnow x)"

lemmas contracts =
  contract_day_lock contract_symbol_lock contract_strategy_lock contract_symbol_cooldown
  contract_daily_loss contract_realized_daily_loss contract_max_drawdown contract_intraday_drawdown
  contract_drawdown_hard_stop contract_max_positions contract_same_direction contract_exposure_limit
  contract_per_trade_risk contract_max_leverage contract_max_slippage contract_consecutive_losses
  contract_max_loss_per_trade contract_per_symbol_risk contract_per_strategy_risk contract_order_rate
  contract_turnover_rate contract_trade_interval contract_stale_feed contract_book_quality
  contract_spread contract_liquidity contract_utc_cutoff contract_regime_scaled_limits
  contract_uncertainty_limits contract_uncertainty_cooldown contract_uncertainty_execution_mode
  contract_funding_rate_cost contract_venue_health contract_margin_distance
  contract_reconciliation_desync contract_ws_disconnected

lemma later_chain_contract: "list_all (\<lambda>(c, b). contract tnow c b) (later_chain cfg tnow scale x)"
  unfolding later_chain_def init_checks_def open_limits_def Let_def
    list.map list.sel zip_Cons_Cons zip_Nil list.pred_inject prod.case snd_conv
  by (intro conjI contracts) simp

lemma later_chain_checks:
  "map snd (init_checks cfg tnow scale x) =
    inspects kill_switch_check # map fst (later_chain cfg tnow scale x)"
  by (simp add: later_chain_def init_checks_def open_limits_def Let_def)

lemma later_chain_limits: "map snd (later_chain cfg tnow scale x) = open_limits cfg tnow x"
  by (simp add: later_chain_def init_checks_def open_limits_def Let_def)

interpretation policies: policy_chain "later_chain cfg tnow scale x" "same_view tnow"
  for cfg tnow scale x
proof
  fix c b s s' d
  assume "(c, b) \<in> set (later_chain cfg tnow scale x)"
  then have "contract tnow c b"
    using later_chain_contract [of tnow cfg scale x] by (auto simp: list_all_iff)
  then show "same_view tnow s (fst (c (s, d)))" "same_view tnow s s' \<Longrightarrow> b s' = b s"
    "worsens d (snd (c (s, d)))" "stopped (snd (c (s, d))) \<longleftrightarrow> stopped d \<or> b s"
    by (simp_all add: contract_def)
qed (simp_all add: same_view_trans [rotated])

lemma chain_worsens: "worsens d (snd (run_checks (map snd (init_checks cfg tnow scale x)) (s, d)))"
proof -
  have "worsens d (kill_switch_check s d)"
    by (simp add: kill_switch_check_def worsens_trans [OF worsens_deny_lock audit_worsens'(7)])
  then show ?thesis
    using policies.run_worsens worsens_trans by (simp add: later_chain_checks inspects_def)
qed

lemma chain_stopped:
  "stopped (snd (run_checks (map snd (init_checks cfg tnow scale x)) (s, d))) \<longleftrightarrow>
   stopped d \<or> \<not> open_permitted cfg tnow x s"
proof -
  have "stopped (kill_switch_check s d) \<longleftrightarrow> stopped d \<or> has_emergency_halt (rs_locks s)"
    by (simp add: kill_switch_check_def)
  moreover have "(\<exists>(c, b) \<in> set (later_chain cfg tnow scale x). b s) \<longleftrightarrow>
      \<not> list_all (\<lambda>b. \<not> b s) (open_limits cfg tnow x)"
    unfolding later_chain_limits [of cfg tnow scale x, symmetric] by (force simp: list_all_iff)
  ultimately show ?thesis
    by (simp add: later_chain_checks inspects_def policies.run_stopped open_permitted_def)
qed

end
