(* ===== verification/Risk_Properties.thy ===== *)
theory Risk_Properties
  imports Risk_Laws
begin

text \<open>
  What the risk engine promises: the outcome of an evaluation, the locks over sequences of
  calls, and the rate windows.
\<close>

section \<open>One evaluation\<close>

abbreviation start_decision :: "timestamp \<Rightarrow> sizing_result \<Rightarrow> risk_decision" where
  "start_decision tnow z \<equiv>
    (initial_decision tnow z)\<lparr>rd_verdict := Approved, rd_action := Allow, rd_allowed := True, rd_phase := PreTrade\<rparr>"

lemma start_ok: "\<not> invalid_size (sr_approved_quantity z) \<Longrightarrow> dec_ok (start_decision tnow z)"
  by (cases "sr_approved_quantity z")
     (auto simp: dec_ok_def initial_decision_def default_risk_decision_def invalid_size_def zero_double_def)

lemma start_fields [simp]:
  "\<not> stopped (start_decision tnow z)"
  "rd_original_size (start_decision tnow z) = sr_approved_quantity z"
  "rd_reasons (start_decision tnow z) = []"
  by (simp_all add: initial_decision_def default_risk_decision_def stopped_def)

lemma refresh_config [simp]:
  "re_config (refresh t prov p e) = re_config e"
  "re_regime_scale_factor (refresh t prov p e) = re_regime_scale_factor e"
  "re_min_notional_usdt (refresh t prov p e) = re_min_notional_usdt e"
  by (simp_all add: refresh_def sync_kill_switch_def on_locks_def Let_def)

text \<open>The decision of an opening order when the checks are done.\<close>

definition checked ::
  "timestamp \<Rightarrow> trade_intent \<Rightarrow> sizing_result \<Rightarrow> portfolio_snapshot \<Rightarrow> feature_snapshot \<Rightarrow>
   execution_alpha_result \<Rightarrow> uncertainty_snapshot \<Rightarrow> risk_engine \<Rightarrow> risk_state \<times> risk_decision" where
  "checked tnow i z p f a u e =
    run_checks (map snd (init_checks (re_config e) tnow (re_regime_scale_factor e) (context_of i z p f a u e)))
      (re_state e, start_decision tnow z)"

lemma checked_facts:
  assumes "\<not> invalid_size (sr_approved_quantity z)"
    and "d = snd (checked tnow i z p f a u e)"
  shows "dec_ok d" and "rd_original_size d = sr_approved_quantity z"
    and "stopped d \<longleftrightarrow> \<not> open_permitted (re_config e) tnow (context_of i z p f a u e) (re_state e)"
proof -
  have w: "worsens (start_decision tnow z) d"
    unfolding assms(2) checked_def by (rule chain_worsens)
  then show "dec_ok d" "rd_original_size d = sr_approved_quantity z"
    using start_ok [OF assms(1)] by (simp_all add: worsens_def)
  show "stopped d \<longleftrightarrow> \<not> open_permitted (re_config e) tnow (context_of i z p f a u e) (re_state e)"
    unfolding assms(2) checked_def by (simp add: chain_stopped)
qed

lemma evaluate_open:
  assumes "\<not> invalid_size (sr_approved_quantity z)" and "ti_trade_side i = TradeOpen"
  shows "fst (risk_evaluate tnow prov i z p f a u e) =
    finalize_decision ((refresh tnow prov p e)\<lparr>re_state := fst (checked tnow i z p f a u (refresh tnow prov p e))\<rparr>)
      z p (sync_action (snd (checked tnow i z p f a u (refresh tnow prov p e))))"
  using assms by (simp add: risk_evaluate_def checked_def Let_def case_prod_unfold)

lemma sync_action_fields [simp]:
  "rd_verdict (sync_action d) = rd_verdict d"
  "rd_approved_quantity (sync_action d) = rd_approved_quantity d"
  "rd_original_size (sync_action d) = rd_original_size d"
  "rd_reasons (sync_action d) = rd_reasons d"
  by (simp_all add: sync_action_def split: risk_verdict.split)

lemma finalize_fields [simp]:
  "rd_verdict (finalize_decision e z p d) = rd_verdict (min_notional_guard e z d)"
  "rd_action (finalize_decision e z p d) = rd_action (min_notional_guard e z d)"
  "rd_allowed (finalize_decision e z p d) = rd_allowed (min_notional_guard e z d)"
  "rd_reasons (finalize_decision e z p d) = rd_reasons (min_notional_guard e z d)"
  "rd_approved_quantity (finalize_decision e z p d) = rd_approved_quantity d"
  "rd_original_size (finalize_decision e z p d) = rd_original_size d"
  by (simp_all add: finalize_decision_def min_notional_guard_def Let_def)

definition below_minimum :: "risk_engine \<Rightarrow> sizing_result \<Rightarrow> risk_decision \<Rightarrow> bool" where
  "below_minimum e z d \<longleftrightarrow>
    rd_verdict d = ReduceSize \<and> 0 < sr_approved_quantity z \<and>
    rd_approved_quantity d * (sr_approved_notional z / sr_approved_quantity z) < effective_min_notional e"

lemma effective_min_notional_state [simp]:
  "effective_min_notional (e\<lparr>re_state := s\<rparr>) = effective_min_notional e"
  by (simp add: effective_min_notional_def)

lemma below_minimum_state [simp]:
  "below_minimum (e\<lparr>re_state := s\<rparr>) z d = below_minimum e z d"
  "below_minimum (refresh t prov p e) z d = below_minimum e z d"
  by (simp_all add: below_minimum_def effective_min_notional_def)

lemma guard_cases:
  "min_notional_guard e z d =
    (if below_minimum e z d
     then d\<lparr>rd_verdict := Denied, rd_allowed := False, rd_action := Deny,
            rd_reasons := rd_reasons d @ [mk_reason ''REDUCE_BELOW_MIN_NOTIONAL'' 1]\<rparr>
     else d)"
  by (simp add: min_notional_guard_def below_minimum_def)

lemma evaluate_open_iff:
  assumes "\<not> invalid_size (sr_approved_quantity z)" and "ti_trade_side i = TradeOpen"
    and "e1 = refresh tnow prov p e" and "d1 = snd (checked tnow i z p f a u e1)"
  shows "rd_allowed (fst (risk_evaluate tnow prov i z p f a u e)) \<longleftrightarrow>
    open_permitted (re_config e) tnow (context_of i z p f a u e1) (re_state e1) \<and> \<not> below_minimum e z d1"
proof -
  have ok: "dec_ok d1" and st: "stopped d1 \<longleftrightarrow> \<not> open_permitted (re_config e) tnow (context_of i z p f a u e1) (re_state e1)"
    using checked_facts [OF assms(1) assms(4)] assms(3) by simp_all
  have "rd_allowed d1" using ok by (simp add: dec_ok_def)
  then have "rd_allowed (sync_action d1) \<longleftrightarrow> \<not> stopped d1"
    by (cases "rd_verdict d1") (simp_all add: sync_action_def stopped_def)
  moreover have "below_minimum e z (sync_action d1) = below_minimum e z d1"
    by (simp add: below_minimum_def)
  ultimately show ?thesis
    using assms(3,4) st by (simp add: evaluate_open [OF assms(1,2)] guard_cases)
qed

text \<open>
  C1. The chain of checks has the effect of its limits taken together: an opening order of
  a valid size is allowed exactly when no limit is hit in the state that the provider, the
  new equity and the expired locks leave, and the size that the reductions leave is not
  under the exchange's minimum.
\<close>

theorem open_allowed_exactly_within_limits:
  assumes "\<not> invalid_size (sr_approved_quantity z)" and "ti_trade_side i = TradeOpen"
    and "e1 = refresh tnow prov p e" and "d1 = snd (checked tnow i z p f a u e1)"
  shows "rd_allowed (fst (risk_evaluate tnow prov i z p f a u e)) \<longleftrightarrow>
    open_permitted (re_config e) tnow (context_of i z p f a u e1) (re_state e1) \<and> \<not> below_minimum e z d1"
  by (rule evaluate_open_iff [OF assms])

text \<open>How verdict, action, permission and size of a decision hang together.\<close>

definition coherent :: "risk_decision \<Rightarrow> bool" where
  "coherent d \<longleftrightarrow>
    (rd_allowed d \<longleftrightarrow> rd_verdict d = Approved \<or> rd_verdict d = ReduceSize) \<and>
    (rd_action d = AllowWithReducedSize \<longleftrightarrow> rd_verdict d = ReduceSize) \<and>
    (rd_verdict d = Approved \<longrightarrow> rd_action d = Allow \<and> rd_approved_quantity d = rd_original_size d) \<and>
    (rd_verdict d = Denied \<longrightarrow> rd_action d \<noteq> Allow \<and> rd_reasons d \<noteq> [])"

lemma sync_coherent: "dec_ok d \<Longrightarrow> coherent (sync_action d)"
  by (cases "rd_verdict d") (auto simp: dec_ok_def sync_action_def coherent_def)

lemma guard_coherent: "coherent d \<Longrightarrow> coherent (min_notional_guard e z d)"
  by (auto simp: guard_cases coherent_def)

lemma finalize_coherent: "coherent d \<Longrightarrow> coherent (finalize_decision e z p d)"
  using guard_coherent [of d e z] by (simp add: coherent_def)
     (simp add: min_notional_guard_def)

lemma close_chain:
  "map snd (filter (\<lambda>(n, c). List.member close_check_names n) (init_checks cfg tnow scale x)) =
    [decides (max_drawdown_check cfg x), decides (max_leverage_check cfg x),
     decides (max_slippage_check cfg x), order_rate_check cfg tnow, decides (stale_feed_check cfg x)]"
  by (simp add: close_check_names_def init_checks_def)

lemma deny_size [simp]:
  "rd_approved_quantity (deny c v d) = rd_approved_quantity d"
  "rd_original_size (deny c v d) = rd_original_size d"
  by (simp_all add: deny_def)

lemma throttle_size [simp]:
  "rd_approved_quantity (throttle c d) = rd_approved_quantity d"
  "rd_original_size (throttle c d) = rd_original_size d"
  by (simp_all add: throttle_def)

lemma close_chain_size:
  assumes "cs = map snd (filter (\<lambda>(n, c). List.member close_check_names n) (init_checks cfg tnow scale x))"
  shows "rd_approved_quantity (snd (run_checks cs (s, d))) = rd_approved_quantity d"
    and "rd_original_size (snd (run_checks cs (s, d))) = rd_original_size d"
  unfolding assms close_chain
  by (simp_all add: decides_def order_rate_check_def case_prod_unfold Let_def max_drawdown_check_def
      max_leverage_check_def max_slippage_check_def stale_feed_check_def)

lemma evaluate_close:
  assumes "\<not> invalid_size (sr_approved_quantity z)" and "ti_trade_side i = TradeClose"
  shows "\<exists>d e'. fst (risk_evaluate tnow prov i z p f a u e) = finalize_decision e' z p d \<and>
    rd_verdict d = Approved \<and> rd_action d = Allow \<and> rd_allowed d \<and>
    rd_approved_quantity d = sr_approved_quantity z \<and> rd_original_size d = sr_approved_quantity z"
proof -
  let ?e = "refresh tnow prov p e"
  let ?cs = "map snd (filter (\<lambda>(n, c). List.member close_check_names n)
    (init_checks (re_config ?e) tnow (re_regime_scale_factor ?e) (context_of i z p f a u ?e)))"
  let ?r = "run_checks ?cs (re_state ?e, start_decision tnow z)"
  let ?d = "(snd ?r)\<lparr>rd_verdict := Approved, rd_action := Allow, rd_allowed := True\<rparr>"
  have "fst (risk_evaluate tnow prov i z p f a u e) = finalize_decision (?e\<lparr>re_state := fst ?r\<rparr>) z p ?d"
    using assms by (simp add: risk_evaluate_def Let_def case_prod_unfold)
  moreover have "rd_approved_quantity (snd ?r) = sr_approved_quantity z"
    "rd_original_size (snd ?r) = sr_approved_quantity z"
    by (simp_all only: close_chain_size [OF refl]) (simp_all add: initial_decision_def)
  ultimately show ?thesis by (intro exI [of _ ?d] exI [of _ "?e\<lparr>re_state := fst ?r\<rparr>"]) simp
qed

lemma evaluate_invalid:
  assumes "invalid_size (sr_approved_quantity z)"
  shows "fst (risk_evaluate tnow prov i z p f a u e) =
    (initial_decision tnow z)\<lparr>rd_reasons := [mk_reason ''INVALID_SIZE'' 1]\<rparr>"
  using assms by (simp add: risk_evaluate_def Let_def initial_decision_def default_risk_decision_def)

text \<open>
  Verdict, action, permission and size of every evaluation agree: the order is allowed
  exactly when it is approved or reduced, the action is a reduction exactly when the verdict is, an
  approved order keeps its proposed size, and a denial has an action other than \<open>Allow\<close> and
  at least one reason.
\<close>

theorem evaluation_coherent:
  "coherent (fst (risk_evaluate tnow prov i z p f a u e))"
proof (cases "invalid_size (sr_approved_quantity z)")
  case True
  then show ?thesis
    by (simp add: evaluate_invalid coherent_def initial_decision_def default_risk_decision_def)
next
  case valid: False
  show ?thesis
  proof (cases "ti_trade_side i")
    case TradeOpen
    then show ?thesis
      using checked_facts(1) [OF valid refl] by (simp add: evaluate_open [OF valid] sync_coherent finalize_coherent)
  next
    case TradeClose
    obtain d e' where d: "fst (risk_evaluate tnow prov i z p f a u e) = finalize_decision e' z p d"
      "rd_verdict d = Approved" "rd_action d = Allow" "rd_allowed d"
      "rd_approved_quantity d = sr_approved_quantity z" "rd_original_size d = sr_approved_quantity z"
      using evaluate_close [OF valid TradeClose] by metis
    then have "coherent d" by (simp add: coherent_def)
    then show ?thesis unfolding d(1) by (rule finalize_coherent)
  qed
qed

text \<open>
  The approved size never exceeds the proposed one and is never negative, whatever the
  configuration, the prices and the state contain.
\<close>

theorem approved_size_bounds:
  assumes "rd_allowed (fst (risk_evaluate tnow prov i z p f a u e))"
  shows "0 \<le> rd_approved_quantity (fst (risk_evaluate tnow prov i z p f a u e)) \<and>
         rd_approved_quantity (fst (risk_evaluate tnow prov i z p f a u e)) \<le> sr_approved_quantity z"
proof (cases "invalid_size (sr_approved_quantity z)")
  case True
  with assms show ?thesis by (simp add: evaluate_invalid initial_decision_def default_risk_decision_def)
next
  case valid: False
  show ?thesis
  proof (cases "ti_trade_side i")
    case TradeOpen
    have "dec_ok (snd (checked tnow i z p f a u (refresh tnow prov p e)))"
      "rd_original_size (snd (checked tnow i z p f a u (refresh tnow prov p e))) = sr_approved_quantity z"
      using checked_facts [OF valid refl] by simp_all
    then show ?thesis by (simp add: evaluate_open [OF valid TradeOpen] dec_ok_def)
  next
    case TradeClose
    obtain d e' where "fst (risk_evaluate tnow prov i z p f a u e) = finalize_decision e' z p d"
      "rd_approved_quantity d = sr_approved_quantity z"
      using evaluate_close [OF valid TradeClose] by metis
    with valid show ?thesis
      by (cases "sr_approved_quantity z") (auto simp: invalid_size_def zero_double_def)
  qed
qed

text \<open>
  C14. A close is never blocked: whatever locks, limits and kill switch say, a closing order
  of a valid size is approved in full.
\<close>

theorem close_never_blocked:
  assumes "\<not> invalid_size (sr_approved_quantity z)" and "ti_trade_side i = TradeClose"
    and "d = fst (risk_evaluate tnow prov i z p f a u e)"
  shows "rd_verdict d = Approved \<and> rd_allowed d \<and> rd_approved_quantity d = sr_approved_quantity z"
proof -
  obtain d' e' where "d = finalize_decision e' z p d'" "rd_verdict d' = Approved" "rd_allowed d'"
    "rd_approved_quantity d' = sr_approved_quantity z"
    using evaluate_close [OF assms(1,2)] assms(3) by metis
  then show ?thesis by (simp add: guard_cases below_minimum_def)
qed

end
