(* ===== verification/Risk_System.thy ===== *)
theory Risk_System
  imports Risk_Properties
begin

text \<open>
  The risk engine over sequences of calls: the invariant of its state, how long a halt
  lasts, and that a losing streak ends the trading day.
\<close>

section \<open>Calls\<close>

datatype risk_op =
    OpEvaluate timestamp "bool \<times> string" trade_intent sizing_result portfolio_snapshot
      feature_snapshot execution_alpha_result uncertainty_snapshot
  | OpPosition timestamp position portfolio_snapshot feature_snapshot
  | OpActivate timestamp string
  | OpDeactivate
  | OpProvider bool
  | OpOrder timestamp
  | OpTradeResult bool
  | OpTrade timestamp strategy_id symbol double
  | OpRegime detailed_regime
  | OpFunding double
  | OpMinNotional double
  | OpDesync bool
  | OpWs bool
  | OpReset timestamp

fun risk_exec :: "risk_op \<Rightarrow> risk_engine \<Rightarrow> risk_engine" where
  "risk_exec (OpEvaluate t prov i z p f a u) e = snd (risk_evaluate t prov i z p f a u e)"
| "risk_exec (OpPosition t pos p f) e = snd (evaluate_position t pos p f e)"
| "risk_exec (OpActivate t r) e = activate_kill_switch t r e"
| "risk_exec OpDeactivate e = deactivate_kill_switch e"
| "risk_exec (OpProvider b) e = set_kill_switch_provider b e"
| "risk_exec (OpOrder t) e = record_order_sent t e"
| "risk_exec (OpTradeResult b) e = engine_record_trade_result b e"
| "risk_exec (OpTrade t sid sy pnl) e = record_trade_close t sid sy pnl e"
| "risk_exec (OpRegime r) e = set_current_regime r e"
| "risk_exec (OpFunding v) e = set_funding_rate v e"
| "risk_exec (OpMinNotional v) e = set_min_notional_usdt v e"
| "risk_exec (OpDesync b) e = set_reconciliation_desync b e"
| "risk_exec (OpWs b) e = set_ws_disconnected b e"
| "risk_exec (OpReset t) e = risk_reset_daily t e"

abbreviation risk_run :: "risk_op list \<Rightarrow> risk_engine \<Rightarrow> risk_engine" where
  "risk_run ops e \<equiv> fold risk_exec ops e"

section \<open>What the chain may touch\<close>

definition chain_frame :: "timestamp \<Rightarrow> risk_state \<Rightarrow> risk_state \<Rightarrow> bool" where
  "chain_frame t s s' \<longleftrightarrow>
    (rs_locks s' = rs_locks s \<or> (\<exists>r a. rs_locks s' = add_lock LtEmergencyHalt [] r a 0 (rs_locks s))) \<and>
    (rt_order_timestamps (rs_rates s') = rt_order_timestamps (rs_rates s) \<or>
     rt_order_timestamps (rs_rates s') = purge_old (rt_order_timestamps (rs_rates s)) (t - kMinuteNs)) \<and>
    (rt_trade_close_timestamps (rs_rates s') = rt_trade_close_timestamps (rs_rates s) \<or>
     rt_trade_close_timestamps (rs_rates s') = purge_old (rt_trade_close_timestamps (rs_rates s)) (t - kHourNs)) \<and>
    rt_last_trade_per_symbol (rs_rates s') = rt_last_trade_per_symbol (rs_rates s) \<and>
    rs_loss_streaks s' = rs_loss_streaks s \<and> rs_pnl s' = rs_pnl s \<and>
    rs_drawdown s' = rs_drawdown s \<and> rs_strategy_budgets s' = rs_strategy_budgets s"

lemma chain_frame_refl [simp]: "chain_frame t s s"
  by (simp add: chain_frame_def)

lemma add_lock_present: "list_ex (lock_matches ty t) ls \<Longrightarrow> add_lock ty t r a d ls = ls"
  by (simp add: add_lock_def)

lemma add_lock_matches: "list_ex (lock_matches ty t) (add_lock ty t r a d ls)"
  by (simp add: add_lock_def lock_matches_def)

lemma chain_frame_trans:
  assumes "chain_frame t s s'" "chain_frame t s' s''"
  shows "chain_frame t s s''"
proof -
  have "rs_locks s'' = rs_locks s \<or> (\<exists>r a. rs_locks s'' = add_lock LtEmergencyHalt [] r a 0 (rs_locks s))"
    using assms unfolding chain_frame_def by (metis add_lock_present add_lock_matches)
  moreover have "rt_order_timestamps (rs_rates s'') = rt_order_timestamps (rs_rates s) \<or>
     rt_order_timestamps (rs_rates s'') = purge_old (rt_order_timestamps (rs_rates s)) (t - kMinuteNs)"
    using assms unfolding chain_frame_def by (metis purge_old_idem)
  moreover have "rt_trade_close_timestamps (rs_rates s'') = rt_trade_close_timestamps (rs_rates s) \<or>
     rt_trade_close_timestamps (rs_rates s'') = purge_old (rt_trade_close_timestamps (rs_rates s)) (t - kHourNs)"
    using assms unfolding chain_frame_def by (metis purge_old_idem)
  ultimately show ?thesis using assms by (simp add: chain_frame_def)
qed

lemma run_frame:
  "(\<And>c s d. c \<in> set cs \<Longrightarrow> chain_frame t s (fst (c (s, d)))) \<Longrightarrow> chain_frame t s (fst (run_checks cs (s, d)))"
proof (induction cs arbitrary: s d)
  case (Cons c cs)
  obtain s' d' where c: "c (s, d) = (s', d')" by force
  have "chain_frame t s s'" using Cons.prems [of c s d] c by simp
  moreover have "chain_frame t s' (fst (run_checks cs (s', d')))"
    using Cons.prems by (intro Cons.IH) simp
  ultimately show ?case by (simp add: c chain_frame_trans)
qed simp

lemma check_frame [simp]:
  "chain_frame t s (fst (decides f (s, d)))" "chain_frame t s (fst (inspects g (s, d)))"
  "chain_frame t s (fst (drawdown_hard_stop_check cfg x (s, d)))"
  "chain_frame t s (fst (order_rate_check cfg t (s, d)))"
  "chain_frame t s (fst (turnover_rate_check cfg t (s, d)))"
  by (simp_all add: decides_def inspects_def drawdown_hard_stop_check_def order_rate_check_def
      turnover_rate_check_def orders_last_minute_def trades_last_hour_def chain_frame_def Let_def)
     blast

lemma init_checks_frame:
  "c \<in> set (map snd (init_checks cfg t scale x)) \<Longrightarrow> chain_frame t s (fst (c (s, d)))"
  by (simp add: init_checks_def) (elim disjE; simp)

lemma evaluate_frame:
  "\<exists>s. snd (risk_evaluate t prov i z p f a u e) = (refresh t prov p e)\<lparr>re_state := s\<rparr> \<and>
       chain_frame t (re_state (refresh t prov p e)) s"
proof -
  let ?e = "refresh t prov p e"
  let ?cs = "init_checks (re_config ?e) t (re_regime_scale_factor ?e) (context_of i z p f a u ?e)"
  let ?close = "map snd (filter (\<lambda>(n, c). List.member close_check_names n) ?cs)"
  have "chain_frame t (re_state ?e) (fst (run_checks (map snd ?cs) (re_state ?e, d)))" for d
    by (rule run_frame) (rule init_checks_frame)
  moreover have "set ?close \<subseteq> set (map snd ?cs)" by auto
  then have "chain_frame t (re_state ?e) (fst (run_checks ?close (re_state ?e, d)))" for d
    by (intro run_frame init_checks_frame) blast
  ultimately show ?thesis
    by (cases "invalid_size (sr_approved_quantity z)"; cases "ti_trade_side i")
       (auto simp: risk_evaluate_def Let_def case_prod_unfold
             intro: exI [of _ "re_state ?e"] exI [of _ "fst (run_checks (map snd ?cs) (re_state ?e, start_decision t z))"]
                    exI [of _ "fst (run_checks ?close (re_state ?e, start_decision t z))"])
qed

section \<open>The invariant\<close>

definition lock_key :: "lock_record \<Rightarrow> lock_type \<times> string" where
  "lock_key l = (lk_type l, lk_target l)"

definition lock_ok :: "lock_record \<Rightarrow> bool" where
  "lock_ok l \<longleftrightarrow> lk_type l = LtCooldown \<or>
    lk_type l \<in> {LtDayLock, LtEmergencyHalt} \<and> lk_target l = [] \<and> lk_duration_ns l = 0"

definition locks_ok :: "lock_registry \<Rightarrow> bool" where
  "locks_ok ls \<longleftrightarrow> distinct (map lock_key ls) \<and> list_all lock_ok ls"

lemma locks_ok_add [inv_intros]:
  assumes "locks_ok ls" and "ty = LtCooldown \<or> ty \<in> {LtDayLock, LtEmergencyHalt} \<and> t = [] \<and> d = 0"
  shows "locks_ok (add_lock ty t r a d ls)"
  using assms
  by (auto simp: locks_ok_def add_lock_def lock_ok_def lock_key_def lock_matches_def list_all_iff list_ex_iff)

lemma locks_ok_filter [inv_intros]: "locks_ok ls \<Longrightarrow> locks_ok (filter P ls)"
  by (simp add: locks_ok_def distinct_map_filter list_all_iff)

lemma locks_ok_remove [inv_intros]: "locks_ok ls \<Longrightarrow> locks_ok (remove_lock ty t ls)"
  by (simp add: remove_lock_def locks_ok_filter)

lemma locks_ok_clear [inv_intros]: "locks_ok ls \<Longrightarrow> locks_ok (clear_expired t ls)"
  by (simp add: clear_expired_def locks_ok_filter)

definition has_type :: "lock_type \<Rightarrow> lock_registry \<Rightarrow> bool" where
  "has_type ty ls \<longleftrightarrow> (\<exists>l \<in> set ls. lk_type l = ty)"

lemma has_type_halts:
  "has_emergency_halt ls = has_type LtEmergencyHalt ls" "has_day_lock ls = has_type LtDayLock ls"
  by (auto simp: has_emergency_halt_def has_day_lock_def has_type_def list_ex_iff)

lemma has_type_add [simp]: "has_type ty' (add_lock ty t r a d ls) \<longleftrightarrow> has_type ty' ls \<or> ty' = ty"
  by (auto simp: add_lock_def has_type_def lock_matches_def list_ex_iff)

lemma halt_not_expired: "lock_ok l \<Longrightarrow> lk_type l \<noteq> LtCooldown \<Longrightarrow> \<not> lock_expired t l"
  by (auto simp: lock_ok_def lock_expired_def)

lemma has_type_clear:
  "locks_ok ls \<Longrightarrow> ty = LtDayLock \<or> ty = LtEmergencyHalt \<Longrightarrow> has_type ty (clear_expired t ls) = has_type ty ls"
  using halt_not_expired by (fastforce simp: has_type_def clear_expired_def locks_ok_def list_all_iff)

lemma has_type_remove:
  "locks_ok ls \<Longrightarrow> ty' \<noteq> ty \<Longrightarrow> has_type ty' (remove_lock ty t ls) = has_type ty' ls"
  "locks_ok ls \<Longrightarrow> ty = LtDayLock \<or> ty = LtEmergencyHalt \<Longrightarrow> \<not> has_type ty (remove_lock ty [] ls)"
  by (auto simp: has_type_def remove_lock_def lock_matches_def locks_ok_def lock_ok_def list_all_iff)

definition maps_ok :: "risk_state \<Rightarrow> bool" where
  "maps_ok s \<longleftrightarrow>
    al_wf (ls_symbol_losses (rs_loss_streaks s)) \<and> al_wf (ls_strategy_losses (rs_loss_streaks s)) \<and>
    al_wf (pt_symbol_pnl (rs_pnl s)) \<and> al_wf (pt_strategy_pnl (rs_pnl s)) \<and>
    al_wf (rt_last_trade_per_symbol (rs_rates s)) \<and> al_wf (rs_strategy_budgets s)"

definition risk_inv :: "risk_engine \<Rightarrow> bool" where
  "risk_inv e \<longleftrightarrow>
    locks_ok (rs_locks (re_state e)) \<and> maps_ok (re_state e) \<and>
    (re_kill_switch_active e \<longrightarrow> has_emergency_halt (rs_locks (re_state e))) \<and>
    (1 \<le> rk_halt_after_n_losses (re_config e) \<longrightarrow>
     rk_halt_after_n_losses (re_config e) \<le> ls_total_consecutive_losses (rs_loss_streaks (re_state e)) \<longrightarrow>
     has_day_lock (rs_locks (re_state e)))"

lemma risk_inv_init: "risk_inv (risk_engine_init cfg)"
  by (simp add: risk_inv_def risk_engine_init_def risk_state_init_def locks_ok_def maps_ok_def)

text \<open>A step that touches the locks only, a step that touches nothing the invariant reads.\<close>

lemma risk_inv_locks:
  assumes "risk_inv e" and "locks_ok (f (rs_locks (re_state e)))"
    and "re_kill_switch_active e' \<Longrightarrow> has_emergency_halt (f (rs_locks (re_state e)))"
    and "has_day_lock (rs_locks (re_state e)) \<Longrightarrow> has_day_lock (f (rs_locks (re_state e)))"
    and "re_config e' = re_config e" and "re_state e' = re_state e"
  shows "risk_inv (on_locks f e')"
  using assms by (simp add: risk_inv_def on_locks_def maps_ok_def)

lemma risk_inv_same:
  "risk_inv e \<Longrightarrow> re_state e' = re_state e \<Longrightarrow> re_config e' = re_config e \<Longrightarrow>
   re_kill_switch_active e' = re_kill_switch_active e \<Longrightarrow> risk_inv e'"
  by (simp add: risk_inv_def)

lemma risk_inv_activate: "risk_inv e \<Longrightarrow> risk_inv (activate_kill_switch t r e)"
  unfolding activate_kill_switch_def
  by (rule risk_inv_locks) (auto simp: has_type_halts risk_inv_def intro: inv_intros)

lemma risk_inv_deactivate: "risk_inv e \<Longrightarrow> risk_inv (deactivate_kill_switch e)"
  unfolding deactivate_kill_switch_def
  by (rule risk_inv_locks) (auto simp: has_type_halts has_type_remove risk_inv_def intro: inv_intros)

lemma risk_inv_sync: "risk_inv e \<Longrightarrow> risk_inv (sync_kill_switch t prov e)"
proof -
  assume inv: "risk_inv e"
  have "risk_inv (on_locks (add_lock LtEmergencyHalt [] r t 0)
          (e\<lparr>re_kill_switch_active := True, re_kill_switch_reason := q\<rparr>))" for r q
    by (rule risk_inv_locks [OF inv])
      (use inv in \<open>auto simp: has_type_halts risk_inv_def intro: inv_intros\<close>)
  moreover have "risk_inv (e\<lparr>re_kill_switch_active := True\<rparr>)" if "has_emergency_halt (rs_locks (re_state e))"
    using inv that by (simp add: risk_inv_def)
  moreover have "risk_inv (on_locks (remove_lock LtEmergencyHalt [])
          (e\<lparr>re_kill_switch_active := False, re_kill_switch_reason := []\<rparr>))"
    by (rule risk_inv_locks [OF inv])
      (use inv in \<open>auto simp: has_type_halts has_type_remove risk_inv_def intro: inv_intros\<close>)
  ultimately show ?thesis using inv by (simp add: sync_kill_switch_def Let_def)
qed

lemma refresh_state:
  "rs_locks (re_state (refresh t prov p e)) = clear_expired t (rs_locks (re_state (sync_kill_switch t prov e)))"
  "rs_loss_streaks (re_state (refresh t prov p e)) = rs_loss_streaks (re_state e)"
  "rs_pnl (re_state (refresh t prov p e)) = rs_pnl (re_state e)"
  "rs_rates (re_state (refresh t prov p e)) = rs_rates (re_state e)"
  "rs_strategy_budgets (re_state (refresh t prov p e)) = rs_strategy_budgets (re_state e)"
  "re_kill_switch_active (refresh t prov p e) = re_kill_switch_active (sync_kill_switch t prov e)"
  "re_has_provider (refresh t prov p e) = re_has_provider e"
  by (simp_all add: refresh_def sync_kill_switch_def on_locks_def Let_def)

lemma sync_state:
  "re_config (sync_kill_switch t prov e) = re_config e"
  "rs_loss_streaks (re_state (sync_kill_switch t prov e)) = rs_loss_streaks (re_state e)"
  "rs_pnl (re_state (sync_kill_switch t prov e)) = rs_pnl (re_state e)"
  "rs_rates (re_state (sync_kill_switch t prov e)) = rs_rates (re_state e)"
  "rs_strategy_budgets (re_state (sync_kill_switch t prov e)) = rs_strategy_budgets (re_state e)"
  by (simp_all add: sync_kill_switch_def on_locks_def Let_def)

lemma risk_inv_refresh: "risk_inv e \<Longrightarrow> risk_inv (refresh t prov p e)"
proof -
  assume "risk_inv e"
  then have "risk_inv (sync_kill_switch t prov e)" by (rule risk_inv_sync)
  then show ?thesis
    by (simp add: risk_inv_def maps_ok_def refresh_state sync_state has_type_halts has_type_clear locks_ok_clear)
qed

lemma risk_inv_frame:
  assumes "risk_inv e" and "chain_frame t (re_state e) s"
  shows "risk_inv (e\<lparr>re_state := s\<rparr>)"
proof -
  have "locks_ok (rs_locks s)" "\<And>ty. has_type ty (rs_locks (re_state e)) \<Longrightarrow> has_type ty (rs_locks s)"
    using assms by (auto simp: chain_frame_def risk_inv_def intro: locks_ok_add)
  then show ?thesis using assms by (simp add: risk_inv_def maps_ok_def chain_frame_def has_type_halts)
qed

lemma risk_inv_evaluate: "risk_inv e \<Longrightarrow> risk_inv (snd (risk_evaluate t prov i z p f a u e))"
  using evaluate_frame [of t prov i z p f a u e] risk_inv_frame risk_inv_refresh by metis

lemma evaluate_position_state:
  "snd (evaluate_position t pos p f e) = e \<or> (\<exists>r. snd (evaluate_position t pos p f e) = activate_kill_switch t r e)"
  by (auto simp: evaluate_position_def Let_def)

lemma automatic_locks_ok [inv_intros]: "locks_ok ls \<Longrightarrow> locks_ok (automatic_locks cfg sy t tr ls)"
  by (simp add: automatic_locks_def Let_def locks_ok_add)

lemma automatic_locks_types:
  "has_type ty ls \<Longrightarrow> has_type ty (automatic_locks cfg sy t tr ls)"
  "rk_halt_after_n_losses cfg \<le> ls_total_consecutive_losses tr \<Longrightarrow> has_type LtDayLock (automatic_locks cfg sy t tr ls)"
  by (simp_all add: automatic_locks_def Let_def)

lemma maps_ok_trade: "maps_ok s \<Longrightarrow> maps_ok (apply_trade sid sy pnl t s)"
  by (simp add: maps_ok_def apply_trade_def record_trade_result_def record_trade_pnl_def
      record_symbol_trade_def rates_record_trade_close_def Let_def)

lemma risk_inv_trade: "risk_inv e \<Longrightarrow> risk_inv (record_trade_close t sid sy pnl e)"
proof -
  assume inv: "risk_inv e"
  let ?s = "apply_trade sid sy pnl t (re_state e)"
  have "rs_locks ?s = rs_locks (re_state e)" by (simp add: apply_trade_def)
  moreover have "maps_ok ?s" using inv by (simp add: risk_inv_def maps_ok_trade)
  ultimately show ?thesis
    using inv by (auto simp: risk_inv_def record_trade_close_def Let_def has_type_halts maps_ok_def
        automatic_locks_types intro: inv_intros)
qed

lemma risk_inv_reset: "risk_inv e \<Longrightarrow> risk_inv (risk_reset_daily t e)"
  by (simp add: risk_inv_def risk_reset_daily_def state_reset_daily_def maps_ok_def has_type_halts
      has_type_clear has_type_remove locks_ok_clear locks_ok_remove streaks_reset_daily_def
      pnl_reset_daily_def al_wf_map_values)

lemma risk_inv_order: "risk_inv e \<Longrightarrow> risk_inv (record_order_sent t e)"
  by (simp add: risk_inv_def record_order_sent_def record_order_def maps_ok_def)

lemma risk_exec_inv: "risk_inv e \<Longrightarrow> risk_inv (risk_exec op e)"
proof (cases op)
  case (OpPosition t pos p f)
  assume "risk_inv e"
  then show ?thesis
    using evaluate_position_state [of t pos p f e] risk_inv_activate OpPosition by auto
qed (auto simp: risk_inv_evaluate risk_inv_activate risk_inv_deactivate risk_inv_trade risk_inv_reset
      risk_inv_order set_kill_switch_provider_def engine_record_trade_result_def set_current_regime_def
      set_funding_rate_def set_min_notional_usdt_def set_reconciliation_desync_def set_ws_disconnected_def
      intro: risk_inv_same)

lemma risk_run_inv: "risk_inv e \<Longrightarrow> risk_inv (risk_run ops e)"
  by (induction ops arbitrary: e) (simp_all add: risk_exec_inv)

lemma risk_reachable: "risk_inv (risk_run ops (risk_engine_init cfg))"
  by (intro risk_run_inv risk_inv_init)

section \<open>How long a halt lasts\<close>

lemma open_refused:
  assumes "risk_inv e" and "ti_trade_side i = TradeOpen"
    and "has_type LtDayLock (rs_locks (re_state e)) \<or>
         has_type LtEmergencyHalt (rs_locks (re_state (sync_kill_switch t prov e)))"
  shows "\<not> rd_allowed (fst (risk_evaluate t prov i z p f a u e))"
proof (cases "invalid_size (sr_approved_quantity z)")
  case True
  then show ?thesis by (simp add: evaluate_invalid initial_decision_def default_risk_decision_def)
next
  case False
  let ?ls = "rs_locks (re_state (sync_kill_switch t prov e))"
  have "locks_ok ?ls" using risk_inv_sync [OF assms(1)] by (simp add: risk_inv_def)
  moreover have "has_type LtDayLock ?ls \<longleftrightarrow> has_type LtDayLock (rs_locks (re_state e))"
    using assms(1) by (simp add: sync_kill_switch_def on_locks_def Let_def has_type_remove risk_inv_def)
  ultimately have "has_day_lock (rs_locks (re_state (refresh t prov p e))) \<or>
      has_emergency_halt (rs_locks (re_state (refresh t prov p e)))"
    using assms(3) by (auto simp: refresh_state has_type_halts has_type_clear)
  then have "\<not> open_permitted (re_config e) t (context_of i z p f a u (refresh t prov p e)) (re_state (refresh t prov p e))"
    by (auto simp: open_permitted_def open_limits_def Let_def)
  then show ?thesis
    using evaluate_open_iff [OF False assms(2) refl refl] by simp
qed

fun no_reset :: "risk_op \<Rightarrow> bool" where
  "no_reset (OpReset _) = False"
| "no_reset _ = True"

lemma day_lock_step:
  assumes "risk_inv e" and "no_reset op" and "has_type LtDayLock (rs_locks (re_state e))"
  shows "has_type LtDayLock (rs_locks (re_state (risk_exec op e)))"
proof (cases op)
  case (OpEvaluate t prov i z p f a u)
  have "has_type LtDayLock (rs_locks (re_state (sync_kill_switch t prov e)))"
    using assms by (simp add: sync_kill_switch_def on_locks_def Let_def has_type_remove risk_inv_def)
  then have "has_type LtDayLock (rs_locks (re_state (refresh t prov p e)))"
    using risk_inv_sync [OF assms(1)] by (simp add: refresh_state has_type_clear risk_inv_def)
  then show ?thesis
    using evaluate_frame [of t prov i z p f a u e] OpEvaluate by (auto simp: chain_frame_def)
next
  case (OpPosition t pos p f)
  then show ?thesis
    using evaluate_position_state [of t pos p f e] assms(3)
    by (auto simp: activate_kill_switch_def on_locks_def)
qed (use assms in \<open>auto simp: activate_kill_switch_def deactivate_kill_switch_def on_locks_def
      has_type_remove risk_inv_def set_kill_switch_provider_def record_order_sent_def
      engine_record_trade_result_def record_trade_close_def apply_trade_def Let_def automatic_locks_types
      set_current_regime_def set_funding_rate_def set_min_notional_usdt_def set_reconciliation_desync_def
      set_ws_disconnected_def\<close>)

text \<open>Losing trades only: nothing wins and nothing is reset.\<close>

fun losing_op :: "risk_op \<Rightarrow> bool" where
  "losing_op (OpTrade _ _ _ pnl) = (pnl < 0)"
| "losing_op (OpReset _) = False"
| "losing_op _ = True"

fun is_trade :: "risk_op \<Rightarrow> bool" where
  "is_trade (OpTrade _ _ _ _) = True"
| "is_trade _ = False"

lemma streak_step:
  assumes "losing_op op"
  shows "ls_total_consecutive_losses (rs_loss_streaks (re_state (risk_exec op e))) =
    ls_total_consecutive_losses (rs_loss_streaks (re_state e)) + (if is_trade op then 1 else 0)"
proof (cases op)
  case (OpEvaluate t prov i z p f a u)
  then show ?thesis
    using evaluate_frame [of t prov i z p f a u e] by (auto simp: chain_frame_def refresh_state)
next
  case (OpPosition t pos p f)
  then show ?thesis
    using evaluate_position_state [of t pos p f e] by (auto simp: activate_kill_switch_def on_locks_def)
qed (use assms in \<open>auto simp: activate_kill_switch_def deactivate_kill_switch_def on_locks_def
      set_kill_switch_provider_def record_order_sent_def engine_record_trade_result_def
      record_trade_close_def apply_trade_def Let_def record_trade_result_def set_current_regime_def
      set_funding_rate_def set_min_notional_usdt_def set_reconciliation_desync_def set_ws_disconnected_def\<close>)

lemma streak_run:
  "list_all losing_op ops \<Longrightarrow>
   ls_total_consecutive_losses (rs_loss_streaks (re_state (risk_run ops e))) =
   ls_total_consecutive_losses (rs_loss_streaks (re_state e)) + int (length (filter is_trade ops))"
proof (induction ops arbitrary: e)
  case (Cons op ops)
  then show ?case using streak_step [of op e] by simp
qed simp

lemma config_step [simp]: "re_config (risk_exec op e) = re_config e"
proof (cases op)
  case (OpEvaluate t prov i z p f a u)
  then show ?thesis using evaluate_frame [of t prov i z p f a u e] by auto
next
  case (OpPosition t pos p f)
  then show ?thesis
    using evaluate_position_state [of t pos p f e] by (auto simp: activate_kill_switch_def on_locks_def)
qed (simp_all add: activate_kill_switch_def deactivate_kill_switch_def on_locks_def
      set_kill_switch_provider_def record_order_sent_def engine_record_trade_result_def
      record_trade_close_def Let_def set_current_regime_def set_funding_rate_def set_min_notional_usdt_def
      set_reconciliation_desync_def set_ws_disconnected_def risk_reset_daily_def)

lemma config_run [simp]: "re_config (risk_run ops e) = re_config e"
  by (induction ops arbitrary: e) simp_all

lemma day_lock_run:
  "risk_inv e \<Longrightarrow> list_all no_reset ops \<Longrightarrow> has_type LtDayLock (rs_locks (re_state e)) \<Longrightarrow>
   has_type LtDayLock (rs_locks (re_state (risk_run ops e)))"
  by (induction ops arbitrary: e) (simp_all add: day_lock_step risk_exec_inv)

lemma streak_counter_nonneg:
  "0 \<le> ls_total_consecutive_losses (rs_loss_streaks (re_state e)) \<Longrightarrow>
   0 \<le> ls_total_consecutive_losses (rs_loss_streaks (re_state (risk_exec op e)))"
proof (cases "losing_op op")
  case True
  moreover assume "0 \<le> ls_total_consecutive_losses (rs_loss_streaks (re_state e))"
  ultimately show ?thesis by (simp add: streak_step)
next
  case False
  moreover assume "0 \<le> ls_total_consecutive_losses (rs_loss_streaks (re_state e))"
  ultimately show ?thesis
    by (cases op) (simp_all add: record_trade_close_def apply_trade_def Let_def record_trade_result_def
        risk_reset_daily_def state_reset_daily_def streaks_reset_daily_def)
qed

lemma streak_counter_run:
  "0 \<le> ls_total_consecutive_losses (rs_loss_streaks (re_state e)) \<Longrightarrow>
   0 \<le> ls_total_consecutive_losses (rs_loss_streaks (re_state (risk_run ops e)))"
  by (induction ops arbitrary: e) (simp_all add: streak_counter_nonneg)

text \<open>
  C8. A losing streak of the configured length stops all openings for the day: once that
  many losses have been recorded with no winning trade between them, every opening order
  is refused until the daily reset, whatever is called in the meantime, the deactivation of
  the kill switch included.
\<close>

theorem losing_streak_halts_the_day:
  assumes "1 \<le> rk_halt_after_n_losses cfg"
    and "list_all losing_op streak"
    and "rk_halt_after_n_losses cfg \<le> int (length (filter is_trade streak))"
    and "list_all no_reset later" and "ti_trade_side i = TradeOpen"
  shows "\<not> rd_allowed (fst (risk_evaluate t prov i z p f a u
            (risk_run (before @ streak @ later) (risk_engine_init cfg))))"
proof -
  let ?e0 = "risk_run before (risk_engine_init cfg)"
  let ?e1 = "risk_run streak ?e0"
  have inv: "risk_inv ?e1" by (intro risk_run_inv risk_inv_init)
  have "0 \<le> ls_total_consecutive_losses (rs_loss_streaks (re_state ?e0))"
    by (rule streak_counter_run) (simp add: risk_engine_init_def risk_state_init_def)
  then have "rk_halt_after_n_losses cfg \<le> ls_total_consecutive_losses (rs_loss_streaks (re_state ?e1))"
    using streak_run [OF assms(2), of ?e0] assms(3) by simp
  then have "has_type LtDayLock (rs_locks (re_state ?e1))"
    using inv assms(1) by (simp add: risk_inv_def has_type_halts) (simp add: risk_engine_init_def)
  then have "has_type LtDayLock (rs_locks (re_state (risk_run later ?e1)))"
    using inv assms(4) by (rule day_lock_run [rotated 2])
  then show ?thesis
    using open_refused [OF risk_run_inv [OF inv] assms(5)] by simp
qed

end
