(* ===== verification/Risk_Guarantees.thy ===== *)
theory Risk_Guarantees
  imports Risk_System
begin

text \<open>
  The kill switch, the rate windows and the loss streaks of the risk engine over sequences of calls.
\<close>

section \<open>Kill switch\<close>

text \<open>
  A call that does not ask for the end of a halt: any call but a deactivation and an evaluation
  in which an installed provider reports its switch as inactive.
\<close>

fun keeps_halt :: "risk_op \<Rightarrow> risk_engine \<Rightarrow> bool" where
  "keeps_halt OpDeactivate e = False"
| "keeps_halt (OpEvaluate _ prov _ _ _ _ _ _) e = (re_has_provider e \<longrightarrow> fst prov)"
| "keeps_halt _ e = True"

lemma sync_keeps_halt:
  "re_has_provider e \<longrightarrow> fst prov \<Longrightarrow> has_type LtEmergencyHalt (rs_locks (re_state e)) \<Longrightarrow>
   has_type LtEmergencyHalt (rs_locks (re_state (sync_kill_switch t prov e)))"
  by (auto simp: sync_kill_switch_def on_locks_def Let_def)

lemma halt_step:
  assumes "risk_inv e" and "keeps_halt op e" and "has_type LtEmergencyHalt (rs_locks (re_state e))"
  shows "has_type LtEmergencyHalt (rs_locks (re_state (risk_exec op e)))"
proof (cases op)
  case (OpEvaluate t prov i z p f a u)
  have "has_type LtEmergencyHalt (rs_locks (re_state (refresh t prov p e)))"
    using sync_keeps_halt [OF _ assms(3), of prov t] risk_inv_sync [OF assms(1)] assms(2) OpEvaluate
    by (simp add: refresh_state has_type_clear risk_inv_def)
  then show ?thesis
    using evaluate_frame [of t prov i z p f a u e] OpEvaluate by (auto simp: chain_frame_def)
next
  case (OpPosition t pos p f)
  then show ?thesis
    using evaluate_position_state [of t pos p f e] assms(3)
    by (auto simp: activate_kill_switch_def on_locks_def)
next
  case (OpReset t)
  then show ?thesis
    using assms by (simp add: risk_reset_daily_def state_reset_daily_def has_type_clear locks_ok_remove
        has_type_remove risk_inv_def)
qed (use assms in \<open>auto simp: activate_kill_switch_def on_locks_def set_kill_switch_provider_def
      record_order_sent_def engine_record_trade_result_def record_trade_close_def apply_trade_def Let_def
      automatic_locks_types set_current_regime_def set_funding_rate_def set_min_notional_usdt_def
      set_reconciliation_desync_def set_ws_disconnected_def\<close>)

lemma halt_run:
  "risk_inv e \<Longrightarrow> run_pre keeps_halt risk_exec ops e \<Longrightarrow> has_type LtEmergencyHalt (rs_locks (re_state e)) \<Longrightarrow>
   has_type LtEmergencyHalt (rs_locks (re_state (risk_run ops e)))"
  by (induction ops arbitrary: e) (simp_all add: halt_step risk_exec_inv)

text \<open>
  C9. A kill switch, once activated, refuses every opening order until it is deactivated or an
  installed provider reports its own switch as inactive: no other call, the daily reset included, lifts it.
\<close>

theorem kill_switch_holds:
  fixes before later cfg activated reason
  defines "halted \<equiv> risk_run (before @ [OpActivate activated reason]) (risk_engine_init cfg)"
  assumes "run_pre keeps_halt risk_exec later halted"
    and "re_has_provider (risk_run later halted) \<longrightarrow> fst prov" and "ti_trade_side i = TradeOpen"
  shows "\<not> rd_allowed (fst (risk_evaluate t prov i z p f a u (risk_run later halted)))"
proof -
  have inv: "risk_inv halted" unfolding halted_def by (intro risk_run_inv risk_inv_init)
  have "has_type LtEmergencyHalt (rs_locks (re_state halted))"
    by (simp add: halted_def activate_kill_switch_def on_locks_def)
  then have "has_type LtEmergencyHalt (rs_locks (re_state (risk_run later halted)))"
    using inv assms(2) by (intro halt_run)
  then show ?thesis
    using open_refused [OF risk_run_inv [OF inv] assms(4)] sync_keeps_halt [OF assms(3)] by simp
qed

text \<open>
  The authoritative source wins at once: while the provider reports an active kill
  switch every opening order is refused, although nothing was activated locally.
\<close>

theorem provider_halts_immediately:
  assumes "fst prov" and "ti_trade_side i = TradeOpen"
    and "re_has_provider (risk_run ops (risk_engine_init cfg))"
  shows "\<not> rd_allowed (fst (risk_evaluate t prov i z p f a u (risk_run ops (risk_engine_init cfg))))"
proof -
  let ?e = "risk_run ops (risk_engine_init cfg)"
  have "has_type LtEmergencyHalt (rs_locks (re_state (sync_kill_switch t prov ?e)))"
    using assms(1,3) by (simp add: sync_kill_switch_def on_locks_def Let_def has_type_halts)
  then show ?thesis by (intro open_refused [OF risk_reachable assms(2)]) simp
qed

text \<open>
  A halt that was activated locally does not survive the next evaluation when a
  provider is installed that reports its own switch as inactive: the emergency halt is
  dropped before the checks run.
\<close>

theorem provider_clears_local_halt:
  assumes "risk_inv e" and "re_has_provider e" and "re_kill_switch_active e" and "\<not> fst prov"
  shows "\<not> has_emergency_halt (rs_locks (re_state (refresh t prov p e))) \<and>
         \<not> re_kill_switch_active (refresh t prov p e)"
proof -
  have "\<not> has_type LtEmergencyHalt (rs_locks (re_state (sync_kill_switch t prov e)))"
    using assms by (simp add: sync_kill_switch_def on_locks_def has_type_remove risk_inv_def)
  then show ?thesis
    using risk_inv_sync [OF assms(1), of t prov] assms
    by (simp add: refresh_state has_type_halts has_type_clear risk_inv_def sync_kill_switch_def on_locks_def)
qed

section \<open>Rate windows and loss streaks\<close>

fun op_times :: "risk_op \<Rightarrow> timestamp list" where
  "op_times (OpEvaluate t _ _ _ _ _ _ _) = [t]"
| "op_times (OpOrder t) = [t]"
| "op_times (OpTrade t _ _ _) = [t]"
| "op_times _ = []"

fun order_times :: "risk_op \<Rightarrow> timestamp list" where
  "order_times (OpOrder t) = [t]"
| "order_times _ = []"

fun close_times :: "risk_op \<Rightarrow> timestamp list" where
  "close_times (OpTrade t _ _ _) = [t]"
| "close_times _ = []"

lemma purge_sorted: "sorted q \<Longrightarrow> purge_old q c = filter (\<lambda>x. c \<le> x) q"
proof (induction q)
  case (Cons t q)
  show ?case
  proof (cases "t < c")
    case False
    then have "filter (\<lambda>x. c \<le> x) q = q" using Cons.prems by (auto simp: filter_id_conv)
    then show ?thesis using False by simp
  qed (use Cons in simp)
qed simp

text \<open>The queue holds what was sent since some moment that is out of the window.\<close>

definition window_of :: "int \<Rightarrow> timestamp list \<Rightarrow> timestamp \<Rightarrow> timestamp list \<Rightarrow> bool" where
  "window_of len sent tnow q \<longleftrightarrow> 0 \<le> len \<and> sorted sent \<and> list_all (\<lambda>x. x \<le> tnow) sent \<and>
    (\<exists>c \<le> tnow - len. q = filter (\<lambda>x. c \<le> x) sent)"

lemma filter_window: "(b :: int) \<le> c \<Longrightarrow> filter (\<lambda>x. b \<le> x \<and> c \<le> x) xs = filter (\<lambda>x. c \<le> x) xs"
  by (induction xs) auto

lemma window_cut:
  assumes "window_of len sent tnow q" and "tnow \<le> t"
  shows "purge_old q (t - len) = filter (\<lambda>x. t - len \<le> x) sent"
proof -
  obtain c where "c \<le> tnow - len" "q = filter (\<lambda>x. c \<le> x) sent" "sorted sent"
    using assms(1) by (auto simp: window_of_def)
  then show ?thesis using assms(2) by (simp add: purge_sorted sorted_wrt_filter filter_window)
qed

lemma window_purge:
  assumes "window_of len sent tnow q" and "tnow \<le> t"
  shows "window_of len sent t (purge_old q (t - len))"
  using assms window_cut [OF assms] by (auto simp: window_of_def list_all_iff intro!: exI [of _ "t - len"])

lemma window_later:
  assumes "window_of len sent tnow q" and "tnow \<le> t"
  shows "window_of len sent t q"
proof -
  obtain c where "c \<le> tnow - len" "q = filter (\<lambda>x. c \<le> x) sent" "sorted sent"
    "list_all (\<lambda>x. x \<le> tnow) sent" "0 \<le> len" using assms(1) by (auto simp: window_of_def)
  then show ?thesis
    using assms(2) by (auto simp: window_of_def list_all_iff intro!: exI [of _ c])
qed

lemma window_snoc:
  assumes "window_of len sent tnow q" and "tnow \<le> t"
  shows "window_of len (sent @ [t]) t (q @ [t])"
proof -
  obtain c where "c \<le> tnow - len" "q = filter (\<lambda>x. c \<le> x) sent" "sorted sent"
    "list_all (\<lambda>x. x \<le> tnow) sent" "0 \<le> len" using assms(1) by (auto simp: window_of_def)
  then show ?thesis
    using assms(2) by (auto simp: window_of_def list_all_iff sorted_append intro!: exI [of _ c])
qed

definition order_queue :: "risk_engine \<Rightarrow> timestamp list" where
  "order_queue e = rt_order_timestamps (rs_rates (re_state e))"

definition close_queue :: "risk_engine \<Rightarrow> timestamp list" where
  "close_queue e = rt_trade_close_timestamps (rs_rates (re_state e))"

definition windows_of :: "timestamp list \<Rightarrow> timestamp list \<Rightarrow> timestamp \<Rightarrow> risk_engine \<Rightarrow> bool" where
  "windows_of sent ended tnow e \<longleftrightarrow>
    window_of kMinuteNs sent tnow (order_queue e) \<and> window_of kHourNs ended tnow (close_queue e)"

lemma windows_later:
  assumes "windows_of sent ended tnow e" and "tnow \<le> t"
    and "order_queue e' = order_queue e \<or> order_queue e' = purge_old (order_queue e) (t - kMinuteNs)"
    and "close_queue e' = close_queue e \<or> close_queue e' = purge_old (close_queue e) (t - kHourNs)"
  shows "windows_of sent ended t e'"
  using assms window_purge window_later unfolding windows_of_def by metis

lemma windows_step:
  assumes "windows_of sent ended tnow e" and "list_all (\<lambda>t. tnow \<le> t) (op_times op)"
  shows "windows_of (sent @ order_times op) (ended @ close_times op) (last (tnow # op_times op)) (risk_exec op e)"
proof (cases op)
  case (OpEvaluate t prov i z p f a u)
  obtain s where s: "snd (risk_evaluate t prov i z p f a u e) = (refresh t prov p e)\<lparr>re_state := s\<rparr>"
    "chain_frame t (re_state (refresh t prov p e)) s"
    using evaluate_frame by blast
  have "windows_of sent ended t (risk_exec op e)"
    by (rule windows_later [OF assms(1)])
      (use s assms(2) in \<open>auto simp: OpEvaluate order_queue_def close_queue_def chain_frame_def refresh_state\<close>)
  then show ?thesis by (simp add: OpEvaluate)
next
  case (OpOrder t)
  have t: "tnow \<le> t" using assms(2) by (simp add: OpOrder)
  have "window_of kMinuteNs (sent @ [t]) t (order_queue e @ [t])"
    using assms(1) by (intro window_snoc [OF _ t]) (simp add: windows_of_def)
  from window_purge [OF this, of t] show ?thesis
    using window_later [of kHourNs ended tnow "close_queue e" t] assms(1) t
    by (simp add: OpOrder windows_of_def record_order_sent_def record_order_def order_queue_def close_queue_def)
next
  case (OpTrade t sid sy pnl)
  have t: "tnow \<le> t" using assms(2) by (simp add: OpTrade)
  have "window_of kHourNs (ended @ [t]) t (close_queue e @ [t])"
    using assms(1) by (intro window_snoc [OF _ t]) (simp add: windows_of_def)
  from window_purge [OF this, of t] show ?thesis
    using window_later [of kMinuteNs sent tnow "order_queue e" t] assms(1) t
    by (simp add: OpTrade windows_of_def record_trade_close_def apply_trade_def Let_def order_queue_def
        close_queue_def rates_record_trade_close_def record_symbol_trade_def)
next
  case (OpPosition t pos p f)
  then show ?thesis
    using evaluate_position_state [of t pos p f e] assms(1)
    by (auto simp: windows_of_def activate_kill_switch_def on_locks_def order_queue_def close_queue_def)
qed (use assms in \<open>simp_all add: windows_of_def order_queue_def close_queue_def activate_kill_switch_def
      deactivate_kill_switch_def on_locks_def set_kill_switch_provider_def engine_record_trade_result_def
      set_current_regime_def set_funding_rate_def set_min_notional_usdt_def set_reconciliation_desync_def
      set_ws_disconnected_def risk_reset_daily_def state_reset_daily_def\<close>)

lemma op_times_one: "op_times op = [] \<or> (\<exists>t. op_times op = [t])"
  by (cases op) simp_all

lemma last_chain: "last (x # xs @ ys) = last (last (x # xs) # ys)"
  by (cases ys) simp_all

lemma last_le: "list_all (\<lambda>x. x \<le> t) xs \<Longrightarrow> t0 \<le> t \<Longrightarrow> last (t0 # xs) \<le> (t :: int)"
  by (induction xs arbitrary: t0) auto

lemma windows_run:
  "windows_of sent ended tnow e \<Longrightarrow> sorted (tnow # concat (map op_times ops)) \<Longrightarrow>
   windows_of (sent @ concat (map order_times ops)) (ended @ concat (map close_times ops))
     (last (tnow # concat (map op_times ops))) (risk_run ops e)"
proof (induction ops arbitrary: sent ended tnow e)
  case (Cons op ops)
  let ?t = "last (tnow # op_times op)"
  have le: "list_all (\<lambda>t. tnow \<le> t) (op_times op)" and s: "sorted (?t # concat (map op_times ops))"
    using Cons.prems(2) op_times_one [of op] by (auto simp: list_all_iff)
  from Cons.IH [OF windows_step [OF Cons.prems(1) le] s] show ?case
    by (simp only: list.map concat.simps last_chain append_assoc fold_Cons comp_apply)
qed simp

lemma windows_exact:
  assumes "sorted (concat (map op_times ops) @ [t])"
  shows "purge_old (order_queue (risk_run ops (risk_engine_init cfg))) (t - kMinuteNs) =
      filter (\<lambda>x. t - kMinuteNs \<le> x) (concat (map order_times ops))"
    and "purge_old (close_queue (risk_run ops (risk_engine_init cfg))) (t - kHourNs) =
      filter (\<lambda>x. t - kHourNs \<le> x) (concat (map close_times ops))"
proof -
  define t0 where "t0 = Min (set (t # concat (map op_times ops)))"
  have t0: "t0 \<le> t" "sorted (t0 # concat (map op_times ops))"
    using assms by (auto simp: t0_def sorted_append)
  have "windows_of [] [] t0 (risk_engine_init cfg)"
    by (auto simp: windows_of_def window_of_def order_queue_def close_queue_def risk_engine_init_def
        risk_state_init_def kMinuteNs_def kHourNs_def)
  note w = windows_run [OF this t0(2), unfolded windows_of_def append_Nil]
  have "last (t0 # concat (map op_times ops)) \<le> t"
    using assms t0(1) by (intro last_le) (auto simp: sorted_append list_all_iff)
  then show "purge_old (order_queue (risk_run ops (risk_engine_init cfg))) (t - kMinuteNs) =
      filter (\<lambda>x. t - kMinuteNs \<le> x) (concat (map order_times ops))"
    and "purge_old (close_queue (risk_run ops (risk_engine_init cfg))) (t - kHourNs) =
      filter (\<lambda>x. t - kHourNs \<le> x) (concat (map close_times ops))"
    using w window_cut by blast+
qed

text \<open>
  The results of the day that concern a symbol or a strategy, oldest first, and the number of
  losses at their end.
\<close>

fun day_results :: "(strategy_id \<Rightarrow> symbol \<Rightarrow> bool) \<Rightarrow> risk_op \<Rightarrow> double list \<Rightarrow> double list" where
  "day_results concerns (OpTrade _ sid sy pnl) xs = (if concerns sid sy then xs @ [pnl] else xs)"
| "day_results concerns (OpReset _) xs = []"
| "day_results concerns _ xs = xs"

definition losses_at_end :: "double list \<Rightarrow> int" where
  "losses_at_end xs = int (length (takeWhile (\<lambda>pnl. pnl < 0) (rev xs)))"

lemma losses_at_end_simps [simp]:
  "losses_at_end [] = 0" "losses_at_end (xs @ [x]) = (if x < 0 then losses_at_end xs + 1 else 0)"
  by (simp_all add: losses_at_end_def)

lemma al_get_simps [simp]:
  "al_get d [] k = d" "al_get d (AList.update k' v xs) k = (if k = k' then v else al_get d xs k)"
  by (simp_all add: al_get_def update_conv')

definition streaks_of :: "risk_engine \<Rightarrow> loss_streak_tracker" where
  "streaks_of e = rs_loss_streaks (re_state e)"

lemma streaks_step:
  assumes "symbol_consecutive_losses (streaks_of e) sy = losses_at_end xs"
    and "strategy_consecutive_losses (streaks_of e) sid = losses_at_end ys"
  shows "symbol_consecutive_losses (streaks_of (risk_exec op e)) sy = losses_at_end (day_results (\<lambda>_ s. s = sy) op xs)"
    and "strategy_consecutive_losses (streaks_of (risk_exec op e)) sid = losses_at_end (day_results (\<lambda>s _. s = sid) op ys)"
proof -
  have same: "streaks_of (risk_exec op e) = streaks_of e" if "\<nexists>t s y pnl. op = OpTrade t s y pnl" "\<nexists>t. op = OpReset t"
  proof (cases op)
    case (OpEvaluate t prov i z p f a u)
    then show ?thesis
      using evaluate_frame [of t prov i z p f a u e] by (auto simp: streaks_of_def chain_frame_def refresh_state)
  next
    case (OpPosition t pos p f)
    then show ?thesis
      using evaluate_position_state [of t pos p f e] by (auto simp: streaks_of_def activate_kill_switch_def on_locks_def)
  qed (use that in \<open>simp_all add: streaks_of_def activate_kill_switch_def deactivate_kill_switch_def on_locks_def
      set_kill_switch_provider_def engine_record_trade_result_def set_current_regime_def set_funding_rate_def
      set_min_notional_usdt_def set_reconciliation_desync_def set_ws_disconnected_def record_order_sent_def\<close>)
  show "symbol_consecutive_losses (streaks_of (risk_exec op e)) sy = losses_at_end (day_results (\<lambda>_ s. s = sy) op xs)"
    and "strategy_consecutive_losses (streaks_of (risk_exec op e)) sid = losses_at_end (day_results (\<lambda>s _. s = sid) op ys)"
    using same assms
    by (cases op; simp add: streaks_of_def record_trade_close_def apply_trade_def record_trade_result_def
        symbol_consecutive_losses_def strategy_consecutive_losses_def risk_reset_daily_def state_reset_daily_def
        streaks_reset_daily_def Let_def)+
qed

lemma streaks_run:
  "symbol_consecutive_losses (streaks_of e) sy = losses_at_end xs \<Longrightarrow>
   strategy_consecutive_losses (streaks_of e) sid = losses_at_end ys \<Longrightarrow>
   symbol_consecutive_losses (streaks_of (risk_run ops e)) sy = losses_at_end (fold (day_results (\<lambda>_ s. s = sy)) ops xs) \<and>
   strategy_consecutive_losses (streaks_of (risk_run ops e)) sid = losses_at_end (fold (day_results (\<lambda>s _. s = sid)) ops ys)"
proof (induction ops arbitrary: e xs ys)
  case (Cons op ops)
  from Cons.IH [OF streaks_step [OF Cons.prems]] show ?case by (simp only: fold_Cons comp_apply)
qed simp

text \<open>
  C13. The books of the risk engine are exact, however its calls are mixed, as long as their clock does
  not run backwards.  The two rates that the checks compare are the numbers of orders sent in the last minute and
  of trades closed in the last hour, although the queues are purged at different times; the streaks of a symbol
  and of a strategy are the losses at the end of their results since the daily reset.  The registry holds each
  lock once, day locks and emergency halts are account-wide and have no end, an active kill switch is
  backed by an emergency halt, and a loss streak at the halting threshold by a day lock.
\<close>

theorem risk_state_consistent:
  assumes "sorted (concat (map op_times ops) @ [t])" and "e = risk_run ops (risk_engine_init cfg)"
  shows "fst (orders_last_minute t (rs_rates (re_state e))) =
      int (length (filter (\<lambda>x. t - 60000000000 \<le> x) (concat (map order_times ops)))) \<and>
    fst (trades_last_hour t (rs_rates (re_state e))) =
      int (length (filter (\<lambda>x. t - 3600000000000 \<le> x) (concat (map close_times ops)))) \<and>
    symbol_consecutive_losses (rs_loss_streaks (re_state e)) sy =
      losses_at_end (fold (day_results (\<lambda>_ s. s = sy)) ops []) \<and>
    strategy_consecutive_losses (rs_loss_streaks (re_state e)) sid =
      losses_at_end (fold (day_results (\<lambda>s _. s = sid)) ops []) \<and>
    distinct (map (\<lambda>l. (lk_type l, lk_target l)) (rs_locks (re_state e))) \<and>
    (\<forall>l \<in> set (rs_locks (re_state e)). lk_type l = LtCooldown \<or>
      lk_type l \<in> {LtDayLock, LtEmergencyHalt} \<and> lk_target l = [] \<and> lk_duration_ns l = 0) \<and>
    (re_kill_switch_active e \<longrightarrow> (\<exists>l \<in> set (rs_locks (re_state e)). lk_type l = LtEmergencyHalt)) \<and>
    (1 \<le> rk_halt_after_n_losses (re_config e) \<and>
     rk_halt_after_n_losses (re_config e) \<le> ls_total_consecutive_losses (rs_loss_streaks (re_state e)) \<longrightarrow>
       (\<exists>l \<in> set (rs_locks (re_state e)). lk_type l = LtDayLock))"
proof -
  have inv: "risk_inv e" unfolding assms(2) by (rule risk_reachable)
  then have locks: "distinct (map (\<lambda>l. (lk_type l, lk_target l)) (rs_locks (re_state e)))"
    "\<forall>l \<in> set (rs_locks (re_state e)). lk_type l = LtCooldown \<or>
      lk_type l \<in> {LtDayLock, LtEmergencyHalt} \<and> lk_target l = [] \<and> lk_duration_ns l = 0"
    by (auto simp: risk_inv_def locks_ok_def lock_key_def [abs_def] lock_ok_def list_all_iff)
  have "symbol_consecutive_losses (streaks_of (risk_engine_init cfg)) sy = losses_at_end []"
    "strategy_consecutive_losses (streaks_of (risk_engine_init cfg)) sid = losses_at_end []"
    by (simp_all add: streaks_of_def risk_engine_init_def risk_state_init_def symbol_consecutive_losses_def
        strategy_consecutive_losses_def)
  note streaks = streaks_run [OF this, of ops, folded assms(2), unfolded streaks_of_def]
  note win = windows_exact [OF assms(1), of cfg, folded assms(2), unfolded order_queue_def close_queue_def
      kMinuteNs_def kHourNs_def]
  show ?thesis
    using inv locks streaks win
    by (simp add: risk_inv_def has_type_halts has_type_def orders_last_minute_def trades_last_hour_def
        kMinuteNs_def kHourNs_def Let_def)
qed

end
