(* ===== verification/Risk_Witnesses.thy ===== *)
theory Risk_Witnesses
  imports Risk_Guarantees
begin

text \<open>
  Concrete inputs on which the properties of the risk engine apply, and the behaviours that
  its comments do not announce.
\<close>

section \<open>Inputs\<close>

definition ex_risk_config :: extended_risk_config where
  "ex_risk_config = default_risk_config\<lparr>rk_liquidation_buffer_pct := lit 50\<rparr>"

definition ex_snapshot :: portfolio_snapshot where
  "ex_snapshot = snapshot 0 (portfolio_init (lit 10000))"

definition ex_sizing :: sizing_result where
  "ex_sizing = default_sizing\<lparr>sr_approved_quantity := 1, sr_approved_notional := lit 2500\<rparr>"

definition ex_open :: trade_intent where
  "ex_open = default_trade_intent\<lparr>ti_symbol := ''BTCUSDT'', ti_strategy_id := ''scalp''\<rparr>"

definition ex_close :: trade_intent where
  "ex_close = ex_open\<lparr>ti_trade_side := TradeClose\<rparr>"

definition ex_features :: feature_snapshot where
  "ex_features = default_features\<lparr>fs_book_quality := QValid,
     fs_execution_context := default_execution_context\<lparr>xf_is_feed_fresh := True\<rparr>\<rparr>"

lemma mk_quarters: "mk (3 / 2) = Fin (3 / 2)" "mk (1 / 4) = Fin (1 / 4)"
  using mk_units [of 1572864] mk_units [of 262144] by (simp_all add: units_def fits_def)

lemma mk_not_neg: "0 \<le> x \<Longrightarrow> \<not> mk x < Fin 0"
  using mk_nonneg [of x] by (cases "mk x") (simp_all add: zero_double_def)

lemmas ex_arith = mk_half mk_not_neg mk_quarters zero_double_def one_double_def std_min_def std_max_def
  minus_double_def

lemma ex_snapshot_sel:
  "sn_positions ex_snapshot = []" "sn_total_capital ex_snapshot = Fin 10000"
  "ps_total_pnl (sn_pnl ex_snapshot) = 0" "ps_realized_pnl_today (sn_pnl ex_snapshot) = 0"
  "ps_current_drawdown_pct (sn_pnl ex_snapshot) = 0" "ps_consecutive_losses (sn_pnl ex_snapshot) = 0"
  "ex_gross_exposure (sn_exposure ex_snapshot) = 0" "ex_open_positions_count (sn_exposure ex_snapshot) = 0"
  by (simp_all add: ex_snapshot_def snapshot_def portfolio_init_def Let_def compute_exposure_def
      compute_pnl_def total_unrealized_def ex_arith kPercentScaler_def)

lemmas ex_inputs = ex_risk_config_def default_risk_config_def ex_sizing_def default_sizing_def ex_open_def
  default_trade_intent_def ex_features_def default_features_def default_execution_context_def
  default_microstructure_def default_execution_alpha_def default_quality_estimate_def
  default_uncertainty_def default_venue_health_def default_margin_def risk_engine_init_def risk_state_init_def

abbreviation ex_risk_engine :: risk_engine where
  "ex_risk_engine \<equiv> risk_engine_init ex_risk_config"

abbreviation ex_refreshed :: risk_engine where
  "ex_refreshed \<equiv> refresh 60 (False, []) ex_snapshot ex_risk_engine"

lemma ex_size_valid: "\<not> invalid_size (sr_approved_quantity ex_sizing)"
  by (simp add: ex_inputs invalid_size_def ex_arith)

lemma ex_refreshed_state:
  "rs_locks (re_state ex_refreshed) = []"
  "rs_loss_streaks (re_state ex_refreshed) = rs_loss_streaks risk_state_init"
  "rs_pnl (re_state ex_refreshed) = rs_pnl risk_state_init"
  "rs_rates (re_state ex_refreshed) = rs_rates risk_state_init"
  "rs_strategy_budgets (re_state ex_refreshed) = []"
  "intraday_drawdown_pct (rs_drawdown (re_state ex_refreshed)) = 0"
  "re_current_funding_rate ex_refreshed = 0" "\<not> re_reconciliation_desync ex_refreshed"
  "\<not> re_ws_disconnected ex_refreshed"
  by (simp_all add: refresh_def sync_kill_switch_def Let_def risk_engine_init_def risk_state_init_def
      clear_expired_def intraday_drawdown_pct_def update_equity_def ex_snapshot_sel ex_arith)

abbreviation ex_context :: risk_context where
  "ex_context \<equiv> context_of ex_open ex_sizing ex_snapshot ex_features default_execution_alpha
     default_uncertainty ex_refreshed"

lemma ex_context_sel:
  "rx_portfolio ex_context = ex_snapshot" "rx_intent ex_context = ex_open" "rx_sizing ex_context = ex_sizing"
  "rx_features ex_context = ex_features" "rx_exec_alpha ex_context = default_execution_alpha"
  "rx_uncertainty ex_context = default_uncertainty" "rx_current_funding_rate ex_context = 0"
  "rx_venue_health ex_context = default_venue_health" "rx_margin ex_context = default_margin"
  "\<not> rx_reconciliation_desync ex_context" "\<not> rx_ws_disconnected ex_context"
  by (simp_all add: context_of_def ex_refreshed_state)

lemmas ex_limit_defs =
  has_emergency_halt_def has_day_lock_def has_symbol_lock_def has_strategy_lock_def has_cooldown_def
  is_locked_def loss_limit_hit_def direction_full_def long_count_def short_count_def hedge_pairs_def
  side_symbols_def symbol_limit_hit_def budget_spent_def traded_too_recently_def last_trade_for_symbol_def
  funding_too_high_def venue_degraded_def pct_of_def projected_gross_def concentration_pct_def
  symbol_consecutive_losses_def symbol_daily_pnl_def al_get_def orders_last_minute_def trades_last_hour_def

lemma ex_permitted: "open_permitted ex_risk_config 60 ex_context (re_state ex_refreshed)"
  by (simp add: open_permitted_def open_limits_def Let_def ex_context_sel ex_snapshot_sel ex_refreshed_state
        ex_limit_defs)
     (simp add: ex_inputs ex_arith)

text \<open>Where no reducing check applies, the chain leaves the verdict unreduced.\<close>

abbreviation unreduced :: "risk_decision \<Rightarrow> bool" where
  "unreduced d \<equiv> rd_verdict d \<noteq> ReduceSize"

lemma unreduced_run:
  "(\<And>c s d. c \<in> set cs \<Longrightarrow> unreduced d \<Longrightarrow> unreduced (snd (c (s, d)))) \<Longrightarrow> unreduced d \<Longrightarrow>
   unreduced (snd (run_checks cs (s, d)))"
proof (induction cs arbitrary: s d)
  case (Cons c cs)
  obtain s' d' where c: "c (s, d) = (s', d')" by force
  then have "unreduced d'" using Cons.prems(1) [of c d s] Cons.prems(2) by simp
  then show ?case using Cons.IH [of d' s'] Cons.prems(1) by (simp add: c)
qed simp

lemma unreduced_ops [simp]:
  "unreduced d \<Longrightarrow> unreduced (deny c v d)" "unreduced (deny_lock a c d)"
  "unreduced d \<Longrightarrow> unreduced (throttle c d)"
  by (simp_all add: deny_def deny_lock_def throttle_def)

lemma unreduced_checks:
  assumes "\<And>d. per_trade_risk_check cfg x d = d" "\<And>d. uncertainty_limits_check cfg x d = d"
    "\<And>d. venue_health_check x d = d" "\<And>d. margin_distance_check cfg x d = d"
    "\<And>d. rd_verdict (regime_scaled_limits_check cfg scale x d) = rd_verdict d"
    and "c \<in> set (map snd (init_checks cfg t scale x))" and "unreduced d"
  shows "unreduced (snd (c (s, d)))"
  using assms(6,7)
  by (simp add: init_checks_def, elim disjE)
     (simp_all add: assms(1-5) decides_def inspects_def kill_switch_check_def day_lock_check_def
      symbol_lock_check_def strategy_lock_check_def symbol_cooldown_check_def daily_loss_check_def
      realized_daily_loss_check_def max_drawdown_check_def intraday_drawdown_check_def
      drawdown_hard_stop_check_def max_positions_check_def same_direction_check_def exposure_limit_check_def
      max_leverage_check_def max_slippage_check_def consecutive_losses_check_def
      max_loss_per_trade_check_def per_symbol_risk_check_def per_strategy_risk_check_def
      order_rate_check_def turnover_rate_check_def trade_interval_check_def stale_feed_check_def
      book_quality_check_def spread_check_def liquidity_check_def utc_cutoff_check_def
      uncertainty_cooldown_check_def uncertainty_execution_mode_check_def funding_rate_cost_check_def
      reconciliation_desync_check_def ws_disconnected_check_def Let_def case_prod_unfold
      split: option.split)

lemma ex_checked:
  "unreduced (snd (checked 60 ex_open ex_sizing ex_snapshot ex_features default_execution_alpha
     default_uncertainty ex_refreshed))"
  unfolding checked_def
proof (rule unreduced_run)
  fix c :: risk_check and s d
  assume c: "c \<in> set (map snd (init_checks (re_config ex_refreshed) 60 (re_regime_scale_factor ex_refreshed) ex_context))"
    and "unreduced d"
  have cs: "re_config ex_refreshed = ex_risk_config" "re_regime_scale_factor ex_refreshed = 1"
    by (simp_all add: risk_engine_init_def)
  have r: "per_trade_risk_check ex_risk_config ex_context d = d"
    "uncertainty_limits_check ex_risk_config ex_context d = d"
    "venue_health_check ex_context d = d" "margin_distance_check ex_risk_config ex_context d = d"
    "rd_verdict (regime_scaled_limits_check ex_risk_config 1 ex_context d) = rd_verdict d" for d
    by (simp_all add: per_trade_risk_check_def effective_cap_def uncertainty_limits_check_def
       venue_health_check_def margin_distance_check_def regime_scaled_limits_check_def ex_context_sel
       ex_snapshot_sel Let_def) (simp_all add: ex_inputs ex_arith)
  show "unreduced (snd (c (s, d)))"
    by (rule unreduced_checks [OF r c [unfolded cs] \<open>unreduced d\<close>])
qed (simp add: initial_decision_def)

theorem open_allowed_exactly_within_limits_witness:
  "rd_allowed (fst (risk_evaluate 60 (False, []) ex_open ex_sizing ex_snapshot ex_features
     default_execution_alpha default_uncertainty ex_risk_engine))"
proof -
  have o: "ti_trade_side ex_open = TradeOpen" by (simp add: ex_open_def default_trade_intent_def)
  have c: "re_config ex_risk_engine = ex_risk_config" by (simp add: risk_engine_init_def)
  show ?thesis
    using open_allowed_exactly_within_limits [OF ex_size_valid o refl refl, where tnow = 60 and prov = "(False, [])" and
        p = ex_snapshot and e = ex_risk_engine and f = ex_features and a = default_execution_alpha and
        u = default_uncertainty]
      ex_permitted ex_checked by (simp add: c below_minimum_def)
qed

theorem approved_size_bounds_witness:
  "0 \<le> rd_approved_quantity (fst (risk_evaluate 0 (True, ''halt'') ex_close ex_sizing ex_snapshot ex_features
     default_execution_alpha default_uncertainty ex_risk_engine))"
proof -
  have "ti_trade_side ex_close = TradeClose" by (simp add: ex_close_def)
  then have "rd_allowed (fst (risk_evaluate 0 (True, ''halt'') ex_close ex_sizing ex_snapshot ex_features
      default_execution_alpha default_uncertainty ex_risk_engine))"
    using evaluate_close [OF ex_size_valid] by (metis guard_cases below_minimum_def finalize_fields(3)
        risk_verdict.distinct(3))
  from approved_size_bounds [OF this] show ?thesis by simp
qed

text \<open>The close of the halted engine goes through while an opening would be refused.\<close>

theorem close_never_blocked_witness:
  "rd_allowed (fst (risk_evaluate 0 (False, []) ex_close ex_sizing ex_snapshot ex_features
     default_execution_alpha default_uncertainty (activate_kill_switch 0 ''manual'' ex_risk_engine)))"
proof -
  have "ti_trade_side ex_close = TradeClose" by (simp add: ex_close_def)
  from close_never_blocked [OF ex_size_valid this refl] show ?thesis by simp
qed

definition ex_streak :: "risk_op list" where
  "ex_streak = map (\<lambda>n. OpTrade n ''scalp'' ''BTCUSDT'' (- 1)) [1..8]"

theorem losing_streak_halts_the_day_witness:
  "\<not> rd_allowed (fst (risk_evaluate 20 (False, []) ex_open ex_sizing ex_snapshot ex_features
     default_execution_alpha default_uncertainty (risk_run (ex_streak @ [OpDeactivate]) ex_risk_engine)))"
proof -
  have "1 \<le> rk_halt_after_n_losses ex_risk_config" by (simp add: ex_inputs)
  moreover have "list_all losing_op ex_streak"
    by (simp add: ex_streak_def list_all_iff one_double_def zero_double_def)
  moreover have "rk_halt_after_n_losses ex_risk_config \<le> int (length (filter is_trade ex_streak))"
    by (simp add: ex_streak_def upto.simps ex_inputs)
  moreover have "list_all no_reset [OpDeactivate]" by simp
  moreover have "ti_trade_side ex_open = TradeOpen" by (simp add: ex_inputs)
  ultimately show ?thesis
    using losing_streak_halts_the_day [where before = "[]" and streak = ex_streak and later = "[OpDeactivate]"]
    by simp
qed

theorem kill_switch_holds_witness:
  "\<not> rd_allowed (fst (risk_evaluate 9 (True, []) ex_open ex_sizing ex_snapshot ex_features
     default_execution_alpha default_uncertainty
     (risk_run [OpActivate 1 ''manual'', OpReset 2, OpOrder 3] ex_risk_engine)))"
proof -
  have "ti_trade_side ex_open = TradeOpen" by (simp add: ex_inputs)
  then show ?thesis
    using kill_switch_holds [where before = "[]" and activated = 1 and later = "[OpReset 2, OpOrder 3]"] by simp
qed

theorem provider_halts_immediately_witness:
  "\<not> rd_allowed (fst (risk_evaluate 9 (True, ''supervisor'') ex_open ex_sizing ex_snapshot ex_features
     default_execution_alpha default_uncertainty (risk_run [OpProvider True] ex_risk_engine)))"
proof -
  have "ti_trade_side ex_open = TradeOpen" by (simp add: ex_inputs)
  then show ?thesis
    using provider_halts_immediately [where ops = "[OpProvider True]" and prov = "(True, ''supervisor'')"]
    by (simp add: set_kill_switch_provider_def)
qed

theorem provider_clears_local_halt_witness:
  "\<not> re_kill_switch_active (refresh 9 (False, []) ex_snapshot
     (risk_run [OpProvider True, OpActivate 1 ''manual''] ex_risk_engine))"
proof -
  let ?e = "risk_run [OpProvider True, OpActivate 1 ''manual''] ex_risk_engine"
  have "re_has_provider ?e" "re_kill_switch_active ?e"
    by (simp_all add: set_kill_switch_provider_def activate_kill_switch_def on_locks_def)
  then show ?thesis
    using provider_clears_local_halt [OF risk_reachable, of "[OpProvider True, OpActivate 1 ''manual'']"]
    by simp
qed

theorem risk_state_consistent_witness:
  "let e = risk_run [OpOrder 3, OpTrade 4 ''scalp'' ''BTCUSDT'' (- 1), OpOrder 5, OpTrade 6 ''scalp'' ''ETHUSDT'' (- 1),
       OpOrder 70] ex_risk_engine
   in fst (orders_last_minute 60000000005 (rs_rates (re_state e))) = 2 \<and>
      fst (trades_last_hour 60000000005 (rs_rates (re_state e))) = 2 \<and>
      symbol_consecutive_losses (rs_loss_streaks (re_state e)) ''BTCUSDT'' = 1 \<and>
      strategy_consecutive_losses (rs_loss_streaks (re_state e)) ''scalp'' = 2"
proof -
  let ?ops = "[OpOrder 3, OpTrade 4 ''scalp'' ''BTCUSDT'' (- 1), OpOrder 5, OpTrade 6 ''scalp'' ''ETHUSDT'' (- 1), OpOrder 70]"
  have n: "(- 1 :: double) < 0" by (simp add: one_double_def zero_double_def)
  have "losses_at_end (fold (day_results (\<lambda>_ s. s = ''BTCUSDT'')) ?ops []) = 1"
    "losses_at_end (fold (day_results (\<lambda>s _. s = ''scalp'')) ?ops []) = 2"
    using n by (simp_all add: losses_at_end_def)
  then show ?thesis
    using risk_state_consistent [where ops = ?ops and t = 60000000005 and cfg = ex_risk_config and
        sy = "''BTCUSDT''" and sid = "''scalp''", OF _ refl]
    by (simp add: Let_def del: fold_simps)
qed

section \<open>Behaviours the comments do not announce\<close>

text \<open>
  The venue-health and margin contexts are never filled in: \<^verbatim>\<open>evaluate\<close> builds the context
  with their defaults, so both checks always leave the decision alone.
\<close>

theorem venue_and_margin_checks_inert:
  "venue_health_check (context_of i z p f a u e) d = d \<and>
   margin_distance_check cfg (context_of i z p f a u e) d = d"
  by (simp add: venue_health_check_def margin_distance_check_def context_of_def default_venue_health_def
      default_margin_def Let_def) (simp add: ex_arith)

text \<open>
  The account-wide cooldown after several losses in a row has no effect: a cooldown lock
  with the empty target changes no limit of an order on a named symbol.
\<close>

theorem global_cooldown_ignored:
  assumes "ti_symbol (rx_intent x) \<noteq> []"
    and "lk_type l = LtCooldown" and "lk_target l = []"
  shows "open_permitted cfg t x (s\<lparr>rs_locks := rs_locks s @ [l]\<rparr>) = open_permitted cfg t x s"
  using assms
  by (simp add: open_permitted_def open_limits_def Let_def has_emergency_halt_def has_day_lock_def
      has_symbol_lock_def has_strategy_lock_def has_cooldown_def is_locked_def lock_matches_def
      symbol_limit_hit_def budget_spent_def traded_too_recently_def)

theorem global_cooldown_ignored_witness:
  "open_permitted ex_risk_config 60 ex_context (re_state ex_refreshed\<lparr>rs_locks := rs_locks (re_state ex_refreshed) @
     [\<lparr>lk_type = LtCooldown, lk_target = [], lk_reason = ''consecutive_losses_global=3'', lk_activated_at = 50,
       lk_duration_ns = 60000000000\<rparr>]\<rparr>)"
proof -
  have "ti_symbol (rx_intent ex_context) \<noteq> []" by (simp add: ex_context_sel) (simp add: ex_inputs)
  then show ?thesis using ex_permitted by (subst global_cooldown_ignored) simp_all
qed

text \<open>
  A loss does not renew the cooldown of its symbol while the registry still holds an expired
  one: the next evaluation drops the lock and the symbol is not in cooldown.
\<close>

theorem expired_cooldown_not_renewed:
  assumes "is_locked (rs_locks (re_state e)) LtCooldown sy" and "sy \<noteq> []"
    and "list_all (\<lambda>l. lock_matches LtCooldown sy l \<longrightarrow> lock_expired t l) (rs_locks (re_state e))"
  shows "\<not> has_cooldown (clear_expired t (rs_locks (re_state (record_trade_close t sid sy pnl e)))) sy"
proof -
  let ?ls = "rs_locks (re_state e)"
  have keep: "list_all (\<lambda>l. lock_matches LtCooldown sy l \<longrightarrow> lock_expired t l) (add_lock ty tg r a d ls)"
    if "list_all (\<lambda>l. lock_matches LtCooldown sy l \<longrightarrow> lock_expired t l) ls"
      and "(ty, tg) = (LtCooldown, sy) \<longrightarrow> is_locked ls LtCooldown sy" for ty tg r a d ls
    using that by (auto simp: add_lock_def is_locked_def lock_matches_def)
  have present: "is_locked ls LtCooldown sy \<Longrightarrow> is_locked (add_lock ty tg r a d ls) LtCooldown sy" for ty tg r a d ls
    by (simp add: is_locked_def add_lock_def)
  have "list_all (\<lambda>l. lock_matches LtCooldown sy l \<longrightarrow> lock_expired t l)
      (automatic_locks cfg sy t tr ?ls)" for cfg tr
    unfolding automatic_locks_def Let_def using assms by (simp add: keep present)
  then show ?thesis
    by (auto simp: record_trade_close_def apply_trade_def Let_def has_cooldown_def is_locked_def clear_expired_def
        list_all_iff list_ex_iff)
qed

text \<open>A loss or equity that is not a number passes every loss limit.\<close>

theorem nan_pnl_passes: "\<not> loss_limit_hit limit NaN capital"
  by (cases capital; cases limit) (auto simp: loss_limit_hit_def pct_of_def std_min_def)

text \<open>
  A regime factor that is not a number turns the regime limit into a verdict without a
  reduction, while the reported factor is the sanitised 1.
\<close>

theorem nan_regime_scale:
  assumes "rk_regime_aware_limits_enabled cfg" and "rd_verdict d = Approved"
  shows "rd_verdict (regime_scaled_limits_check cfg NaN x d) = ReduceSize \<and>
         rd_approved_quantity (regime_scaled_limits_check cfg NaN x d) = rd_approved_quantity d \<and>
         reported_factor NaN = 1"
proof -
  have n: "rk_max_position_notional cfg * NaN = NaN" by (cases "rk_max_position_notional cfg") simp_all
  have "NaN / y = NaN" "(y :: double) * NaN = NaN" for y by (cases y; simp)+
  then show ?thesis
    using assms by (simp add: regime_scaled_limits_check_def n std_max_def Let_def reduce_def std_clamp_def
        reported_factor_def)
qed

end
