(* ===== verification/Supervisor.thy ===== *)
theory Supervisor
  imports Risk_Guarantees
begin

text \<open>
  The process supervisor (\<^verbatim>\<open>src/src/supervisor/supervisor.{hpp,cpp}\<close>): the life cycle of
  the system, the start and stop of the subsystems, the symbol locks, the global kill
  switch and the position limit.  The life-cycle state is one atomic and the tables have a
  mutex each, so an operation on them is one step; \<^verbatim>\<open>start()\<close> is not: signals and other
  threads act between and during the calls of the start functions, and what they do is a
  parameter, as are the results of the start functions.  Signal installation, the condition
  variable and its polling loop, log lines and gauges are left out.
\<close>

section \<open>State\<close>

datatype system_state = Initializing | Starting | Running | DegradedMode | ShuttingDown | Stopped

fun system_state_to_string :: "system_state \<Rightarrow> string" where
  "system_state_to_string Initializing = ''initializing''"
| "system_state_to_string Starting = ''starting''"
| "system_state_to_string Running = ''running''"
| "system_state_to_string DegradedMode = ''degraded''"
| "system_state_to_string ShuttingDown = ''shutting_down''"
| "system_state_to_string Stopped = ''stopped''"

record subsystem =
  ss_name :: string
  ss_has_start :: bool
  ss_has_stop :: bool
  ss_started :: bool

record supervisor =
  sv_has_logger :: bool
  sv_has_metrics :: bool
  sv_has_clock :: bool
  sv_state :: system_state
  sv_degraded_reason :: string
  sv_subsystems :: "subsystem list"
  sv_symbol_locks :: "(symbol \<times> string) list"
  sv_kill_switch_active :: bool
  sv_kill_switch_reason :: string
  sv_listeners :: "string list"
  sv_open_positions :: "(symbol \<times> string) list"
  sv_max_global_positions :: int
  sv_shutdown_timeout :: int

definition supervisor_init :: "bool \<Rightarrow> bool \<Rightarrow> bool \<Rightarrow> supervisor" where
  "supervisor_init logger metrics clock =
    \<lparr>sv_has_logger = logger, sv_has_metrics = metrics, sv_has_clock = clock, sv_state = Initializing,
     sv_degraded_reason = [], sv_subsystems = [], sv_symbol_locks = [], sv_kill_switch_active = False,
     sv_kill_switch_reason = [], sv_listeners = [], sv_open_positions = [],
     sv_max_global_positions = 10, sv_shutdown_timeout = 30\<rparr>"

section \<open>Life cycle\<close>

text \<open>\<^verbatim>\<open>compare_exchange_strong\<close> on the state.\<close>

definition cas_state :: "system_state \<Rightarrow> system_state \<Rightarrow> supervisor \<Rightarrow> bool \<times> supervisor" where
  "cas_state expected desired v =
    (if sv_state v = expected then (True, v\<lparr>sv_state := desired\<rparr>) else (False, v))"

definition signal_handler :: "supervisor \<Rightarrow> supervisor" where
  "signal_handler v =
    (let (ok, v1) = cas_state Running ShuttingDown v
     in if ok then v1
        else let (ok, v2) = cas_state DegradedMode ShuttingDown v
             in if ok then v2 else snd (cas_state Starting ShuttingDown v))"

definition request_shutdown :: "supervisor \<Rightarrow> supervisor" where
  "request_shutdown v =
    (let (ok, v1) = cas_state Running ShuttingDown v
     in if ok then v1 else snd (cas_state DegradedMode ShuttingDown v))"

definition enter_degraded_mode :: "string \<Rightarrow> supervisor \<Rightarrow> supervisor" where
  "enter_degraded_mode reason v =
    (if sv_state v = Starting \<or> sv_state v = Running
     then v\<lparr>sv_state := DegradedMode, sv_degraded_reason := reason\<rparr>
     else if sv_state v = DegradedMode
     then v\<lparr>sv_degraded_reason :=
            (if sv_degraded_reason v \<noteq> [] then sv_degraded_reason v @ ''; '' else sv_degraded_reason v) @ reason\<rparr>
     else v)"

definition exit_degraded_mode :: "supervisor \<Rightarrow> supervisor" where
  "exit_degraded_mode v =
    (let (ok, v1) = cas_state DegradedMode Running v
     in if ok then v1\<lparr>sv_degraded_reason := []\<rparr> else v)"

definition is_degraded :: "supervisor \<Rightarrow> bool" where
  "is_degraded v \<longleftrightarrow> sv_state v = DegradedMode"

definition validate_startup_dependencies :: "supervisor \<Rightarrow> bool" where
  "validate_startup_dependencies v =
    (if \<not> sv_has_logger v then False else sv_has_metrics v \<and> sv_has_clock v)"

definition shutdown_requested :: "supervisor \<Rightarrow> bool" where
  "shutdown_requested v \<longleftrightarrow> sv_state v = ShuttingDown \<or> sv_state v = Stopped"

section \<open>Subsystems\<close>

definition register_subsystem :: "string \<Rightarrow> bool \<Rightarrow> bool \<Rightarrow> supervisor \<Rightarrow> supervisor" where
  "register_subsystem name has_start has_stop v =
    v\<lparr>sv_subsystems := sv_subsystems v @
      [\<lparr>ss_name = name, ss_has_start = has_start, ss_has_stop = has_stop, ss_started = False\<rparr>]\<rparr>"

definition unregister_subsystem :: "string \<Rightarrow> supervisor \<Rightarrow> supervisor" where
  "unregister_subsystem name v = v\<lparr>sv_subsystems := filter (\<lambda>e. ss_name e \<noteq> name) (sv_subsystems v)\<rparr>"

definition subsystem_count :: "supervisor \<Rightarrow> nat" where
  "subsystem_count v = length (sv_subsystems v)"

section \<open>Symbol locks\<close>

definition try_lock_symbol :: "symbol \<Rightarrow> string \<Rightarrow> supervisor \<Rightarrow> bool \<times> supervisor" where
  "try_lock_symbol s pid v =
    (case map_of (sv_symbol_locks v) s of
       None \<Rightarrow> (True, v\<lparr>sv_symbol_locks := AList.update s pid (sv_symbol_locks v)\<rparr>)
     | Some owner \<Rightarrow> if owner = pid then (True, v) else (False, v))"

definition unlock_symbol :: "symbol \<Rightarrow> string \<Rightarrow> supervisor \<Rightarrow> supervisor" where
  "unlock_symbol s pid v =
    (if map_of (sv_symbol_locks v) s = Some pid
     then v\<lparr>sv_symbol_locks := AList.delete s (sv_symbol_locks v)\<rparr> else v)"

definition is_symbol_locked :: "symbol \<Rightarrow> supervisor \<Rightarrow> bool" where
  "is_symbol_locked s v = al_contains (sv_symbol_locks v) s"

section \<open>Kill switch\<close>

text \<open>\<^verbatim>\<open>emplace\<close> keeps the first callback of an id; the result lists the callbacks called.\<close>

definition register_kill_switch_listener :: "string \<Rightarrow> supervisor \<Rightarrow> supervisor" where
  "register_kill_switch_listener lid v =
    (if lid \<in> set (sv_listeners v) then v else v\<lparr>sv_listeners := sv_listeners v @ [lid]\<rparr>)"

definition activate_global_kill_switch :: "string \<Rightarrow> supervisor \<Rightarrow> string list \<times> supervisor" where
  "activate_global_kill_switch reason v =
    (if sv_kill_switch_active v then ([], v)
     else (sv_listeners v, v\<lparr>sv_kill_switch_active := True, sv_kill_switch_reason := reason\<rparr>))"

definition deactivate_global_kill_switch :: "supervisor \<Rightarrow> supervisor" where
  "deactivate_global_kill_switch v =
    (if \<not> sv_kill_switch_active v then v
     else v\<lparr>sv_kill_switch_active := False, sv_kill_switch_reason := []\<rparr>)"

text \<open>The callback that \<^verbatim>\<open>main\<close> installs in every risk engine.\<close>

definition kill_switch_provider :: "supervisor \<Rightarrow> bool \<times> string" where
  "kill_switch_provider v = (sv_kill_switch_active v, sv_kill_switch_reason v)"

section \<open>Positions\<close>

definition register_open_position :: "symbol \<Rightarrow> string \<Rightarrow> supervisor \<Rightarrow> supervisor" where
  "register_open_position s pid v =
    v\<lparr>sv_open_positions := AList.update s pid (sv_open_positions v)\<rparr>"

definition unregister_position :: "symbol \<Rightarrow> string \<Rightarrow> supervisor \<Rightarrow> supervisor" where
  "unregister_position s pid v =
    (if map_of (sv_open_positions v) s = Some pid
     then v\<lparr>sv_open_positions := AList.delete s (sv_open_positions v)\<rparr> else v)"

definition global_open_positions_count :: "supervisor \<Rightarrow> int" where
  "global_open_positions_count v = int (length (sv_open_positions v))"

definition set_max_global_positions :: "int \<Rightarrow> supervisor \<Rightarrow> supervisor" where
  "set_max_global_positions n v = (if n < 1 then v else v\<lparr>sv_max_global_positions := n\<rparr>)"

definition can_open_position :: "supervisor \<Rightarrow> bool" where
  "can_open_position v \<longleftrightarrow> int (length (sv_open_positions v)) < sv_max_global_positions v"

definition set_shutdown_timeout :: "int \<Rightarrow> supervisor \<Rightarrow> supervisor" where
  "set_shutdown_timeout s v = v\<lparr>sv_shutdown_timeout := s\<rparr>"

section \<open>Start and stop\<close>

datatype sv_action =
    ActSignal | ActRequestShutdown | ActEnterDegraded string | ActExitDegraded
  | ActRegister string bool bool | ActUnregister string
  | ActTryLock symbol string | ActUnlock symbol string
  | ActListen string | ActKillOn string | ActKillOff
  | ActOpen symbol string | ActClose symbol string | ActSetMax int | ActSetTimeout int

fun sv_act :: "sv_action \<Rightarrow> supervisor \<Rightarrow> supervisor" where
  "sv_act ActSignal v = signal_handler v"
| "sv_act ActRequestShutdown v = request_shutdown v"
| "sv_act (ActEnterDegraded r) v = enter_degraded_mode r v"
| "sv_act ActExitDegraded v = exit_degraded_mode v"
| "sv_act (ActRegister n a b) v = register_subsystem n a b v"
| "sv_act (ActUnregister n) v = unregister_subsystem n v"
| "sv_act (ActTryLock s p) v = snd (try_lock_symbol s p v)"
| "sv_act (ActUnlock s p) v = unlock_symbol s p v"
| "sv_act (ActListen l) v = register_kill_switch_listener l v"
| "sv_act (ActKillOn r) v = snd (activate_global_kill_switch r v)"
| "sv_act ActKillOff v = deactivate_global_kill_switch v"
| "sv_act (ActOpen s p) v = register_open_position s p v"
| "sv_act (ActClose s p) v = unregister_position s p v"
| "sv_act (ActSetMax n) v = set_max_global_positions n v"
| "sv_act (ActSetTimeout n) v = set_shutdown_timeout n v"

abbreviation sv_acts :: "sv_action list \<Rightarrow> supervisor \<Rightarrow> supervisor" where
  "sv_acts as v \<equiv> fold sv_act as v"

text \<open>
  What the rest of the process does before the state check of iteration \<open>k\<close>, while its start
  function runs, and after the loop; and whether that start function succeeds.
\<close>

record start_env =
  se_before :: "nat \<Rightarrow> sv_action list"
  se_during :: "nat \<Rightarrow> sv_action list"
  se_result :: "nat \<Rightarrow> bool"
  se_after :: "sv_action list"

definition quiet_env :: start_env where
  "quiet_env = \<lparr>se_before = (\<lambda>_. []), se_during = (\<lambda>_. []), se_result = (\<lambda>_. True), se_after = []\<rparr>"

definition mark_started :: "nat \<Rightarrow> supervisor \<Rightarrow> supervisor" where
  "mark_started k v =
    (if k < length (sv_subsystems v)
     then v\<lparr>sv_subsystems := (sv_subsystems v)[k := (sv_subsystems v ! k)\<lparr>ss_started := True\<rparr>]\<rparr> else v)"

text \<open>
  The loop over the indices; the flag tells that a shutdown request ended \<^verbatim>\<open>start\<close>.  The
  degradation reason is Cyrillic text in the source.
\<close>

fun start_loop :: "start_env \<Rightarrow> nat list \<Rightarrow> supervisor \<Rightarrow> bool \<times> supervisor" where
  "start_loop env [] v = (False, v)"
| "start_loop env (k # ks) v =
    (let v = sv_acts (se_before env k) v
     in if shutdown_requested v then (True, v)
        else if length (sv_subsystems v) \<le> k then (False, v)
        else
          let name = ss_name (sv_subsystems v ! k); fn = ss_has_start (sv_subsystems v ! k);
              v = (if fn then sv_acts (se_during env k) v else v);
              v = (if fn \<and> se_result env k then mark_started k v
                   else enter_degraded_mode (''start failed: '' @ name) v)
          in start_loop env ks v)"

definition sv_start :: "start_env \<Rightarrow> supervisor \<Rightarrow> supervisor" where
  "sv_start env v =
    (let v = v\<lparr>sv_state := Starting\<rparr>
     in if \<not> validate_startup_dependencies v then v\<lparr>sv_state := Stopped\<rparr>
        else
          let (aborted, v) = start_loop env [0..<length (sv_subsystems v)] v
          in if aborted then v
             else let v = sv_acts (se_after env) v in snd (cas_state Starting Running v))"

text \<open>The stop functions called, youngest first; \<open>late k\<close> tells that the deadline has passed
  before the \<open>k\<close>-th entry is looked at.\<close>

fun stop_loop :: "(nat \<Rightarrow> bool) \<Rightarrow> nat \<Rightarrow> subsystem list \<Rightarrow> string list" where
  "stop_loop late k [] = []"
| "stop_loop late k (e # es) =
    (if late k then []
     else (if ss_started e \<and> ss_has_stop e then [ss_name e] else []) @ stop_loop late (Suc k) es)"

definition sv_stop :: "(nat \<Rightarrow> bool) \<Rightarrow> sv_action list \<Rightarrow> supervisor \<Rightarrow> string list \<times> supervisor" where
  "sv_stop late during v =
    (let stops = stop_loop late 0 (rev (sv_subsystems v));
         v = sv_acts during v;
         v = v\<lparr>sv_subsystems := map (\<lambda>e. e\<lparr>ss_started := False\<rparr>) (sv_subsystems v)\<rparr>
     in (stops, v\<lparr>sv_state := Stopped\<rparr>))"

end
