(* ===== verification/Supervisor_Laws.thy ===== *)
theory Supervisor_Laws
  imports Supervisor "HOL-Library.Sublist"
begin

text \<open>
  What the supervisor promises: shutdown wins over every other request, subsystems stop in
  the reverse order of their start, a symbol has one owner, and a global kill switch stops
  the openings of every risk engine that asks it.
\<close>

section \<open>Shutdown\<close>

lemma cas_simps [simp]:
  "fst (cas_state a b v) \<longleftrightarrow> sv_state v = a"
  "sv_state (snd (cas_state a b v)) = (if sv_state v = a then b else sv_state v)"
  "sv_subsystems (snd (cas_state a b v)) = sv_subsystems v"
  by (simp_all add: cas_state_def)

lemma signal_state [simp]:
  "sv_state (signal_handler v) =
    (if sv_state v \<in> {Running, DegradedMode, Starting} then ShuttingDown else sv_state v)"
  by (simp add: signal_handler_def cas_state_def)

lemma act_keeps_shutdown: "shutdown_requested v \<Longrightarrow> sv_state (sv_act a v) = sv_state v"
  by (cases a) (auto simp: shutdown_requested_def request_shutdown_def cas_state_def enter_degraded_mode_def
      exit_degraded_mode_def register_subsystem_def unregister_subsystem_def try_lock_symbol_def
      unlock_symbol_def register_kill_switch_listener_def activate_global_kill_switch_def
      deactivate_global_kill_switch_def register_open_position_def unregister_position_def
      set_max_global_positions_def set_shutdown_timeout_def split: option.split)

lemma acts_keep_shutdown: "shutdown_requested v \<Longrightarrow> sv_state (sv_acts as v) = sv_state v"
proof (induction as arbitrary: v)
  case (Cons a as)
  then have "sv_state (sv_act a v) = sv_state v" by (simp add: act_keeps_shutdown)
  then show ?case using Cons by (simp add: shutdown_requested_def)
qed simp

lemma acts_shutdown: "shutdown_requested v \<Longrightarrow> shutdown_requested (sv_acts as v)"
  using acts_keep_shutdown [of v as] by (simp add: shutdown_requested_def)

lemma mark_started_state [simp]: "sv_state (mark_started k v) = sv_state v"
  by (simp add: mark_started_def)

lemma start_loop_shutdown:
  "shutdown_requested v \<Longrightarrow> sv_state (snd (start_loop env ks v)) = sv_state v"
proof (cases ks)
  case (Cons k ks')
  assume "shutdown_requested v"
  then have "shutdown_requested (sv_acts (se_before env k) v)"
    "sv_state (sv_acts (se_before env k) v) = sv_state v"
    by (simp_all add: acts_shutdown acts_keep_shutdown)
  then show ?thesis by (simp add: Cons Let_def)
qed simp

text \<open>The states that \<^verbatim>\<open>start\<close> passes through once it has stored \<open>Starting\<close>.\<close>

definition launched :: "supervisor \<Rightarrow> bool" where
  "launched v \<longleftrightarrow> sv_state v \<noteq> Initializing"

lemma act_launched: "launched v \<Longrightarrow> launched (sv_act a v)"
  by (cases a) (auto simp: launched_def request_shutdown_def cas_state_def enter_degraded_mode_def
      exit_degraded_mode_def register_subsystem_def unregister_subsystem_def try_lock_symbol_def
      unlock_symbol_def register_kill_switch_listener_def activate_global_kill_switch_def
      deactivate_global_kill_switch_def register_open_position_def unregister_position_def
      set_max_global_positions_def set_shutdown_timeout_def split: option.split)

lemma acts_launched: "launched v \<Longrightarrow> launched (sv_acts as v)"
  by (induction as arbitrary: v) (simp_all add: act_launched)

lemma signal_shuts: "launched v \<Longrightarrow> shutdown_requested (signal_handler v)"
  by (cases "sv_state v") (simp_all add: launched_def shutdown_requested_def)

lemma acts_signal:
  "launched v \<Longrightarrow> ActSignal \<in> set as \<Longrightarrow> shutdown_requested (sv_acts as v)"
proof (induction as arbitrary: v)
  case (Cons a as)
  show ?case
  proof (cases "a = ActSignal")
    case True
    then show ?thesis using Cons.prems(1) by (simp add: acts_shutdown signal_shuts)
  next
    case False
    then show ?thesis using Cons by (simp add: act_launched)
  qed
qed simp

lemma acts_count_keep:
  "list_all (\<lambda>a. case a of ActUnregister _ \<Rightarrow> False | _ \<Rightarrow> True) as \<Longrightarrow>
   length (sv_subsystems v) \<le> length (sv_subsystems (sv_acts as v))"
proof (induction as arbitrary: v)
  case (Cons a as)
  have "length (sv_subsystems v) \<le> length (sv_subsystems (sv_act a v))"
    using Cons.prems
    by (cases a) (auto simp: signal_handler_def request_shutdown_def cas_state_def enter_degraded_mode_def
      exit_degraded_mode_def register_subsystem_def try_lock_symbol_def
      unlock_symbol_def register_kill_switch_listener_def activate_global_kill_switch_def
      deactivate_global_kill_switch_def register_open_position_def unregister_position_def
      set_max_global_positions_def set_shutdown_timeout_def split: option.split)
  also have "\<dots> \<le> length (sv_subsystems (sv_acts as (sv_act a v)))"
    using Cons by simp
  finally show ?case by simp
qed simp

text \<open>A signal that arrives before, during or after some start function.\<close>

definition signalled :: "start_env \<Rightarrow> nat \<Rightarrow> bool" where
  "signalled env n \<longleftrightarrow> (\<exists>k < n. ActSignal \<in> set (se_before env k)) \<or> ActSignal \<in> set (se_after env)"

definition no_unregister :: "start_env \<Rightarrow> bool" where
  "no_unregister env \<longleftrightarrow> (\<forall>k. list_all (\<lambda>a. case a of ActUnregister _ \<Rightarrow> False | _ \<Rightarrow> True)
     (se_before env k @ se_during env k))"

lemma degraded_launched: "launched v \<Longrightarrow> launched (enter_degraded_mode r v)"
  using act_launched [of v "ActEnterDegraded r"] by simp

lemma step_launched:
  "launched d \<Longrightarrow> launched (if b then mark_started k d else enter_degraded_mode r d)"
  by (cases b) (simp_all add: degraded_launched, simp add: launched_def)

lemma validate_state [simp]:
  "validate_startup_dependencies (v\<lparr>sv_state := st\<rparr>) = validate_startup_dependencies v"
  by (simp add: validate_startup_dependencies_def)

lemma start_loop_signal:
  assumes "no_unregister env" and "launched v" and "list_all (\<lambda>k. k < length (sv_subsystems v)) ks"
  shows "(\<exists>k \<in> set ks. ActSignal \<in> set (se_before env k)) \<Longrightarrow> shutdown_requested (snd (start_loop env ks v))"
    and "launched (snd (start_loop env ks v))"
    and "fst (start_loop env ks v) \<Longrightarrow> shutdown_requested (snd (start_loop env ks v))"
proof -
  have "((\<exists>k \<in> set ks. ActSignal \<in> set (se_before env k)) \<longrightarrow> shutdown_requested (snd (start_loop env ks v))) \<and>
    launched (snd (start_loop env ks v)) \<and>
    (fst (start_loop env ks v) \<longrightarrow> shutdown_requested (snd (start_loop env ks v)))"
    using assms(2,3)
  proof (induction ks arbitrary: v)
    case (Cons k ks)
    let ?b = "sv_acts (se_before env k) v"
    let ?fn = "ss_has_start (sv_subsystems ?b ! k)"
    let ?d = "if ?fn then sv_acts (se_during env k) ?b else ?b"
    let ?m = "if ?fn \<and> se_result env k then mark_started k ?d
      else enter_degraded_mode (''start failed: '' @ ss_name (sv_subsystems ?b ! k)) ?d"
    have lb: "launched ?b" using Cons.prems(1) by (rule acts_launched)
    show ?case
    proof (cases "shutdown_requested ?b")
      case True
      then show ?thesis using lb by (simp add: Let_def)
    next
      case False
      have grow: "length (sv_subsystems v) \<le> length (sv_subsystems ?b)"
        "length (sv_subsystems ?b) \<le> length (sv_subsystems ?d)"
        using assms(1) by (simp_all add: acts_count_keep no_unregister_def)
      have same: "length (sv_subsystems ?m) = length (sv_subsystems ?d)"
        by (simp add: mark_started_def enter_degraded_mode_def)
      have k: "\<not> length (sv_subsystems ?b) \<le> k" using Cons.prems(2) grow(1) by simp
      have "launched ?d" using lb by (simp add: acts_launched)
      then have lm: "launched ?m" by (rule step_launched)
      have rest: "list_all (\<lambda>k. k < length (sv_subsystems ?m)) ks"
        using Cons.prems(2) grow unfolding same list_all_iff by (meson le_trans list.set_intros(2) order_less_le_trans)
      have eq: "start_loop env (k # ks) v = start_loop env ks ?m"
        using False k by (simp add: Let_def)
      have "ActSignal \<notin> set (se_before env k)" using False acts_signal [OF Cons.prems(1)] by blast
      then show ?thesis unfolding eq using Cons.IH [OF lm rest] by auto
    qed
  qed simp
  then show "(\<exists>k \<in> set ks. ActSignal \<in> set (se_before env k)) \<Longrightarrow> shutdown_requested (snd (start_loop env ks v))"
    "launched (snd (start_loop env ks v))"
    "fst (start_loop env ks v) \<Longrightarrow> shutdown_requested (snd (start_loop env ks v))" by simp_all
qed

text \<open>
  A termination signal during start-up wins: if it arrives at any point after
  \<^verbatim>\<open>start\<close> has begun, before one of the start functions or after the last, \<^verbatim>\<open>start\<close> returns
  with the system shutting down, never running, and a later \<^verbatim>\<open>start\<close> step or request of
  another thread does not undo it.
\<close>

theorem signal_during_start_wins:
  assumes "no_unregister env" and "validate_startup_dependencies v"
    and "signalled env (length (sv_subsystems v))"
  shows "shutdown_requested (sv_acts later (sv_start env v))"
proof -
  let ?v = "v\<lparr>sv_state := Starting\<rparr>"
  let ?ks = "[0..<length (sv_subsystems ?v)]"
  let ?l = "start_loop env ?ks ?v"
  have l: "launched ?v" "list_all (\<lambda>k. k < length (sv_subsystems ?v)) ?ks"
    by (simp_all add: launched_def list_all_iff)
  note facts = start_loop_signal [OF assms(1) l]
  have "shutdown_requested (sv_start env v)"
  proof (cases "fst ?l")
    case True
    then show ?thesis using assms(2) facts(3)
      by (simp add: sv_start_def case_prod_unfold Let_def)
  next
    case False
    have "shutdown_requested (sv_acts (se_after env) (snd ?l))"
    proof (cases "ActSignal \<in> set (se_after env)")
      case True
      then show ?thesis by (rule acts_signal [OF facts(2)])
    next
      case False
      then have "\<exists>k \<in> set ?ks. ActSignal \<in> set (se_before env k)" using assms(3) by (auto simp: signalled_def)
      then show ?thesis by (rule acts_shutdown [OF facts(1)])
    qed
    then have "shutdown_requested (snd (cas_state Starting Running (sv_acts (se_after env) (snd ?l))))"
      by (auto simp: shutdown_requested_def)
    then show ?thesis using assms(2) False
      by (simp add: sv_start_def case_prod_unfold Let_def)
  qed
  then show ?thesis by (rule acts_shutdown)
qed


section \<open>Start and stop\<close>

text \<open>Nothing else runs during the start; \<open>res\<close> tells which start functions succeed.\<close>

definition calm_env :: "(nat \<Rightarrow> bool) \<Rightarrow> start_env" where
  "calm_env res = \<lparr>se_before = (\<lambda>_. []), se_during = (\<lambda>_. []), se_result = res, se_after = []\<rparr>"

definition starts_ok :: "(nat \<Rightarrow> bool) \<Rightarrow> subsystem list \<Rightarrow> nat \<Rightarrow> bool" where
  "starts_ok res es k \<longleftrightarrow> ss_has_start (es ! k) \<and> res k"

definition starting_up :: "supervisor \<Rightarrow> bool" where
  "starting_up v \<longleftrightarrow> sv_state v = Starting \<or> sv_state v = DegradedMode"

lemma degraded_subsystems [simp]: "sv_subsystems (enter_degraded_mode r v) = sv_subsystems v"
  by (simp add: enter_degraded_mode_def)

lemma degraded_starting: "starting_up v \<Longrightarrow> sv_state (enter_degraded_mode r v) = DegradedMode"
  by (auto simp: starting_up_def enter_degraded_mode_def)

lemma mark_started_subsystems:
  "k < length (sv_subsystems v) \<Longrightarrow>
   sv_subsystems (mark_started k v) = (sv_subsystems v)[k := (sv_subsystems v ! k)\<lparr>ss_started := True\<rparr>]"
  by (simp add: mark_started_def)

definition started_after :: "(nat \<Rightarrow> bool) \<Rightarrow> subsystem list \<Rightarrow> nat \<Rightarrow> nat \<Rightarrow> subsystem" where
  "started_after res es m j =
    (if m \<le> j \<and> starts_ok res es j then (es ! j)\<lparr>ss_started := True\<rparr> else es ! j)"

lemma start_loop_calm:
  assumes "starting_up v" and "m \<le> length (sv_subsystems v)"
  shows "\<not> fst (start_loop (calm_env res) [m..<length (sv_subsystems v)] v) \<and>
    sv_state (snd (start_loop (calm_env res) [m..<length (sv_subsystems v)] v)) =
      (if list_all (starts_ok res (sv_subsystems v)) [m..<length (sv_subsystems v)] then sv_state v else DegradedMode) \<and>
    sv_subsystems (snd (start_loop (calm_env res) [m..<length (sv_subsystems v)] v)) =
      map (started_after res (sv_subsystems v) m) [0..<length (sv_subsystems v)]"
  using assms
proof (induction "length (sv_subsystems v) - m" arbitrary: m v)
  case 0
  then have "[m..<length (sv_subsystems v)] = []" by simp
  moreover have "map (started_after res (sv_subsystems v) m) [0..<length (sv_subsystems v)] = sv_subsystems v"
    using 0 by (intro nth_equalityI) (simp_all add: started_after_def)
  ultimately show ?case by (simp only: start_loop.simps) simp
next
  case (Suc d)
  let ?es = "sv_subsystems v"
  let ?w = "if starts_ok res ?es m then mark_started m v
    else enter_degraded_mode (''start failed: '' @ ss_name (?es ! m)) v"
  have m: "m < length ?es" using Suc.hyps(2) by simp
  have nsh: "\<not> shutdown_requested v" using Suc.prems(1) by (auto simp: starting_up_def shutdown_requested_def)
  have len: "length (sv_subsystems ?w) = length ?es" using m by (simp add: mark_started_subsystems)
  have same: "sv_subsystems ?w ! j = (if j = m \<and> starts_ok res ?es m then (?es ! j)\<lparr>ss_started := True\<rparr> else ?es ! j)"
    if "j < length ?es" for j
    using m that by (simp add: mark_started_subsystems nth_list_update)
  have okw: "starts_ok res (sv_subsystems ?w) j \<longleftrightarrow> starts_ok res ?es j" if "j < length ?es" for j
    using same [OF that] by (simp add: starts_ok_def)
  have up: "starting_up ?w"
    using Suc.prems(1) degraded_starting [OF Suc.prems(1)] by (simp add: starting_up_def)
  have eq: "start_loop (calm_env res) [m..<length ?es] v =
      start_loop (calm_env res) [Suc m..<length (sv_subsystems ?w)] ?w"
    unfolding len using m nsh by (simp add: upt_rec [of m] calm_env_def Let_def starts_ok_def)
  have "d = length (sv_subsystems ?w) - Suc m" using Suc.hyps(2) len by simp
  note IH = Suc.hyps(1) [OF this up]
  have la: "list_all (starts_ok res (sv_subsystems ?w)) [Suc m..<length ?es] =
      list_all (starts_ok res ?es) [Suc m..<length ?es]"
    using okw by (auto simp: list_all_iff)
  have split: "list_all (starts_ok res ?es) [m..<length ?es] \<longleftrightarrow>
      starts_ok res ?es m \<and> list_all (starts_ok res ?es) [Suc m..<length ?es]"
    using m by (simp add: upt_rec [of m])
  have st: "sv_state ?w = (if starts_ok res ?es m then sv_state v else DegradedMode)"
    using degraded_starting [OF Suc.prems(1)] by simp
  have mp: "map (started_after res (sv_subsystems ?w) (Suc m)) [0..<length ?es] =
      map (started_after res ?es m) [0..<length ?es]"
  proof (intro map_cong refl)
    fix j assume "j \<in> set [0..<length ?es]"
    then have j: "j < length ?es" by simp
    show "started_after res (sv_subsystems ?w) (Suc m) j = started_after res ?es m j"
      unfolding started_after_def okw [OF j] same [OF j] by auto
  qed
  show ?case
    using IH m unfolding eq len la mp st split by auto
qed

text \<open>
  An undisturbed start tries every subsystem in the order of registration: exactly
  those whose start function succeeds are marked started, and the system runs when all did
  and is degraded when some did not; one failure never stops the others.
\<close>

theorem start_outcome:
  assumes "validate_startup_dependencies v"
  shows "sv_state (sv_start (calm_env res) v) =
      (if list_all (starts_ok res (sv_subsystems v)) [0..<subsystem_count v] then Running else DegradedMode) \<and>
    map ss_started (sv_subsystems (sv_start (calm_env res) v)) =
      map (\<lambda>k. ss_started (sv_subsystems v ! k) \<or> starts_ok res (sv_subsystems v) k) [0..<subsystem_count v]"
proof -
  let ?v = "v\<lparr>sv_state := Starting\<rparr>"
  let ?l = "start_loop (calm_env res) [0..<length (sv_subsystems v)] ?v"
  have up: "starting_up ?v" by (simp add: starting_up_def)
  note l = start_loop_calm [OF up, of 0 res, simplified]
  have eq: "sv_start (calm_env res) v = snd (cas_state Starting Running (snd ?l))"
    using assms l by (simp add: sv_start_def case_prod_unfold Let_def) (simp add: calm_env_def)
  show ?thesis unfolding eq using l
    by (auto simp: subsystem_count_def started_after_def)
qed

lemma stop_loop_prefix:
  "Sublist.prefix (stop_loop late k es) (map ss_name (filter (\<lambda>e. ss_started e \<and> ss_has_stop e) es))"
  by (induction es arbitrary: k) simp_all

lemma stop_loop_all:
  "stop_loop (\<lambda>_. False) k es = map ss_name (filter (\<lambda>e. ss_started e \<and> ss_has_stop e) es)"
  by (induction es arbitrary: k) simp_all

definition stoppable :: "supervisor \<Rightarrow> string list" where
  "stoppable v = map ss_name (filter (\<lambda>e. ss_started e \<and> ss_has_stop e) (sv_subsystems v))"

text \<open>
  Stopping calls the stop functions of the started subsystems only, youngest first: the
  calls are a prefix of the reverse order of registration, all of it unless the deadline
  passes, and whatever other threads do meanwhile, the system ends stopped with nothing
  marked started.
\<close>

theorem stop_in_reverse_order:
  "Sublist.prefix (fst (sv_stop late during v)) (rev (stoppable v)) \<and>
   fst (sv_stop (\<lambda>_. False) during v) = rev (stoppable v) \<and>
   sv_state (snd (sv_stop late during v)) = Stopped \<and>
   list_all (\<lambda>e. \<not> ss_started e) (sv_subsystems (snd (sv_stop late during v)))"
  using stop_loop_prefix [of late 0 "rev (sv_subsystems v)"]
  by (simp add: sv_stop_def stoppable_def stop_loop_all Let_def list_all_iff rev_map rev_filter)

section \<open>Symbol ownership\<close>

text \<open>
  Exclusive ownership: a free key is taken by whoever asks, a held one only by its holder,
  and only the holder gives it up.
\<close>

locale ownership =
  fixes acquire :: "'k \<Rightarrow> 'p \<Rightarrow> 's \<Rightarrow> bool \<times> 's"
    and release :: "'k \<Rightarrow> 'p \<Rightarrow> 's \<Rightarrow> 's"
    and owner :: "'s \<Rightarrow> 'k \<Rightarrow> 'p option"
  assumes acquire_result: "fst (acquire k p s) \<longleftrightarrow> owner s k = None \<or> owner s k = Some p"
    and acquire_owner: "owner (snd (acquire k p s)) = (if fst (acquire k p s) then (owner s)(k \<mapsto> p) else owner s)"
    and release_owner: "owner (release k p s) = (if owner s k = Some p then (owner s)(k := None) else owner s)"
begin

lemma acquired: "fst (acquire k p s) \<Longrightarrow> owner (snd (acquire k p s)) k = Some p"
  by (simp add: acquire_owner)

lemma held_refuses: "owner s k = Some p \<Longrightarrow> q \<noteq> p \<Longrightarrow> \<not> fst (acquire k q s)"
  by (simp add: acquire_result)

lemma keeps_acquire: "owner s k = Some p \<Longrightarrow> owner (snd (acquire j q s)) k = Some p"
  by (auto simp: acquire_owner acquire_result)

lemma keeps_release: "owner s k = Some p \<Longrightarrow> (j, q) \<noteq> (k, p) \<Longrightarrow> owner (release j q s) k = Some p"
  by (auto simp: release_owner)

lemma reentrant: "fst (acquire k p s) \<Longrightarrow> fst (acquire k p (snd (acquire k p s)))"
  by (simp add: acquire_result acquired)

lemma handover: "owner s k = Some p \<Longrightarrow> fst (acquire k q (release k p s))"
  by (simp add: acquire_result release_owner)

end

definition symbol_owner :: "supervisor \<Rightarrow> symbol \<Rightarrow> string option" where
  "symbol_owner v = map_of (sv_symbol_locks v)"

interpretation symbol_locks: ownership try_lock_symbol unlock_symbol symbol_owner
  by unfold_locales
    (auto simp: try_lock_symbol_def unlock_symbol_def symbol_owner_def update_conv' delete_conv'
      fun_eq_iff split: option.splits)

lemma act_owner:
  assumes "symbol_owner v s = Some p" and "a \<noteq> ActUnlock s p"
  shows "symbol_owner (sv_act a v) s = Some p"
proof (cases a)
  case (ActTryLock s' q)
  then show ?thesis using symbol_locks.keeps_acquire [OF assms(1)] by simp
next
  case (ActUnlock s' q)
  then show ?thesis using assms symbol_locks.keeps_release [OF assms(1), of s' q] by auto
qed (use assms in \<open>auto simp: symbol_owner_def signal_handler_def request_shutdown_def cas_state_def
      enter_degraded_mode_def exit_degraded_mode_def register_subsystem_def unregister_subsystem_def
      register_kill_switch_listener_def activate_global_kill_switch_def
      deactivate_global_kill_switch_def register_open_position_def unregister_position_def
      set_max_global_positions_def set_shutdown_timeout_def\<close>)

lemma acts_owner:
  "symbol_owner v s = Some p \<Longrightarrow> ActUnlock s p \<notin> set as \<Longrightarrow> symbol_owner (sv_acts as v) s = Some p"
proof (induction as arbitrary: v)
  case (Cons a as)
  have "symbol_owner (sv_act a v) s = Some p" using Cons.prems by (intro act_owner) auto
  then show ?case using Cons by simp
qed simp

text \<open>
  Two pipelines never hold the same symbol: once a pipeline has locked it, no other
  pipeline gets it, whatever the threads do in between, until the holder unlocks it.
\<close>

theorem symbol_has_one_owner:
  assumes "fst (try_lock_symbol s p v)" and "ActUnlock s p \<notin> set between" and "q \<noteq> p"
  shows "\<not> fst (try_lock_symbol s q (sv_acts between (snd (try_lock_symbol s p v))))"
  using symbol_locks.held_refuses [OF acts_owner [OF symbol_locks.acquired [OF assms(1)] assms(2)] assms(3)] .

section \<open>Global kill switch\<close>

lemma act_kill: "sv_kill_switch_active v \<Longrightarrow> a \<noteq> ActKillOff \<Longrightarrow> sv_kill_switch_active (sv_act a v)"
  by (cases a) (auto simp: signal_handler_def request_shutdown_def cas_state_def enter_degraded_mode_def
      exit_degraded_mode_def register_subsystem_def unregister_subsystem_def try_lock_symbol_def
      unlock_symbol_def register_kill_switch_listener_def activate_global_kill_switch_def
      register_open_position_def unregister_position_def
      set_max_global_positions_def set_shutdown_timeout_def split: option.split)

lemma acts_kill:
  "sv_kill_switch_active v \<Longrightarrow> ActKillOff \<notin> set as \<Longrightarrow> sv_kill_switch_active (sv_acts as v)"
proof (induction as arbitrary: v)
  case (Cons a as)
  have "sv_kill_switch_active (sv_act a v)" using Cons.prems by (intro act_kill) auto
  then show ?case using Cons by simp
qed simp

text \<open>
  C10. The global kill switch reaches every pipeline: after its activation, and until some
  thread deactivates it, every risk engine that consults the supervisor, whatever its own
  history, refuses every opening order.
\<close>

theorem global_kill_stops_every_engine:
  assumes "ActKillOff \<notin> set between" and "ti_trade_side i = TradeOpen"
    and "e = risk_run ops (risk_engine_init cfg)" and "re_has_provider e"
  shows "\<not> rd_allowed (fst (risk_evaluate t
      (kill_switch_provider (sv_acts between (snd (activate_global_kill_switch reason v)))) i z p f a u e))"
proof -
  let ?prov = "kill_switch_provider (sv_acts between (snd (activate_global_kill_switch reason v)))"
  have "sv_kill_switch_active (snd (activate_global_kill_switch reason v))"
    by (simp add: activate_global_kill_switch_def)
  then have on: "fst ?prov"
    using acts_kill [OF _ assms(1)] by (simp add: kill_switch_provider_def)
  have "has_type LtEmergencyHalt (rs_locks (re_state (sync_kill_switch t ?prov e)))"
    using on assms(4) by (simp add: sync_kill_switch_def on_locks_def Let_def has_type_halts)
  then show ?thesis unfolding assms(3) by (intro open_refused [OF risk_reachable assms(2)]) simp
qed

section \<open>Witnesses and findings\<close>

definition ex_sv :: supervisor where
  "ex_sv = register_subsystem ''gateway'' True True (register_subsystem ''store'' True True (supervisor_init True True True))"

lemma ex_sv_facts:
  "validate_startup_dependencies ex_sv" "length (sv_subsystems ex_sv) = 2"
  "map ss_name (sv_subsystems ex_sv) = [''store'', ''gateway'']"
  by (simp_all add: ex_sv_def register_subsystem_def supervisor_init_def validate_startup_dependencies_def)

theorem signal_during_start_wins_witness:
  "shutdown_requested (sv_acts [ActExitDegraded]
     (sv_start ((calm_env (\<lambda>_. True))\<lparr>se_before := (\<lambda>k. if k = 1 then [ActSignal] else [])\<rparr>) ex_sv))"
  by (rule signal_during_start_wins)
    (auto simp: no_unregister_def signalled_def calm_env_def ex_sv_facts)

theorem start_outcome_witness:
  "sv_state (sv_start (calm_env (\<lambda>k. k = 0)) ex_sv) = DegradedMode"
  using start_outcome [OF ex_sv_facts(1), of "\<lambda>k. k = 0"]
  by (simp add: subsystem_count_def ex_sv_facts starts_ok_def upt_rec)

theorem symbol_has_one_owner_witness:
  "\<not> fst (try_lock_symbol ''BTCUSDT'' ''b'' (sv_acts [ActUnlock ''BTCUSDT'' ''b'', ActSignal]
      (snd (try_lock_symbol ''BTCUSDT'' ''a'' ex_sv))))"
  by (rule symbol_has_one_owner)
    (simp_all add: try_lock_symbol_def ex_sv_def register_subsystem_def supervisor_init_def)

text \<open>
  A shutdown that is requested through the API while the system starts is lost: only the
  signal handler accepts the state \<open>Starting\<close>.
\<close>

theorem shutdown_request_lost_during_start:
  "sv_state (sv_start ((calm_env (\<lambda>_. True))\<lparr>se_before := (\<lambda>_. [ActRequestShutdown])\<rparr>) ex_sv) = Running"
  by (simp add: sv_start_def ex_sv_facts calm_env_def)
    (simp add: ex_sv_def register_subsystem_def supervisor_init_def validate_startup_dependencies_def
      upt_rec shutdown_requested_def request_shutdown_def cas_state_def mark_started_def Let_def)

text \<open>
  The indices are taken once: a subsystem that unregisters itself during the start shifts
  the others, and one of them is never started, with the system reported as running.
\<close>

theorem unregister_skips_a_subsystem:
  "sv_state (sv_start ((calm_env (\<lambda>_. True))\<lparr>se_before := (\<lambda>k. if k = 1 then [ActUnregister ''store''] else [])\<rparr>) ex_sv) = Running \<and>
   \<not> ss_started (hd (sv_subsystems
      (sv_start ((calm_env (\<lambda>_. True))\<lparr>se_before := (\<lambda>k. if k = 1 then [ActUnregister ''store''] else [])\<rparr>) ex_sv)))"
  by (simp add: sv_start_def ex_sv_facts calm_env_def)
    (simp add: ex_sv_def register_subsystem_def supervisor_init_def validate_startup_dependencies_def
      upt_rec shutdown_requested_def unregister_subsystem_def cas_state_def mark_started_def Let_def)

lemma update_fresh_symbol: "k \<notin> fst ` set xs \<Longrightarrow> AList.update k v xs = xs @ [(k, v)]"
  by (induction xs) auto

text \<open>
  The limit on open positions is a question and a registration, two critical sections: two
  pipelines that both ask before either registers exceed it.
\<close>

theorem position_limit_not_enforced:
  assumes "global_open_positions_count v = sv_max_global_positions v - 1"
    and "s \<notin> fst ` set (sv_open_positions v)" and "s' \<notin> fst ` set (sv_open_positions v)" and "s \<noteq> s'"
  shows "can_open_position v \<and>
    sv_max_global_positions v < global_open_positions_count (sv_acts [ActOpen s p, ActOpen s' q] v)"
  using assms
  by (simp add: can_open_position_def global_open_positions_count_def register_open_position_def update_fresh_symbol)

end
