(* ===== verification/Dual_Leg.thy ===== *)
theory Dual_Leg
  imports Execution_Engine
begin

text \<open>
  Entry, reversal and close of a long and short pair
  (\<^verbatim>\<open>src/src/pipeline/dual_leg_manager.{hpp,cpp}\<close>).  The exchange behind the submitter and
  the REST client is the record \<open>venue\<close>, which answers the \<open>n\<close>-th request; the requests made
  are kept in the state.  Each method reads the clock at most once; the reasons of a close
  are only logged and are left out.
\<close>

section \<open>Types\<close>

datatype leg_state = LegIdle | LegPendingEntry | LegActive | LegPendingExit | LegClosed

record dual_leg_config =
  dc_tpsl_take_profit_pct :: double
  dc_tpsl_stop_loss_pct :: double
  dc_max_spread_bps_for_entry :: double
  dc_min_edge_bps :: double
  dc_max_funding_rate_abs :: double
  dc_reversal_cooldown_ms :: int
  dc_use_reversal_api :: bool
  dc_attach_server_tpsl :: bool

definition default_dual_leg_config :: dual_leg_config where
  "default_dual_leg_config =
    \<lparr>dc_tpsl_take_profit_pct = lit 0.8, dc_tpsl_stop_loss_pct = lit 1.5, dc_max_spread_bps_for_entry = lit 15,
     dc_min_edge_bps = lit 5, dc_max_funding_rate_abs = lit 0.001, dc_reversal_cooldown_ms = 2000,
     dc_use_reversal_api = True, dc_attach_server_tpsl = True\<rparr>"

record leg_spec =
  lp_side :: position_side
  lp_size :: double
  lp_entry_price_hint :: double
  lp_tp_price :: double
  lp_sl_price :: double

record leg_snapshot =
  lg_state :: leg_state
  lg_side :: position_side
  lg_order_id :: order_id
  lg_exchange_order_id :: order_id
  lg_size :: double
  lg_entry_price :: double
  lg_unrealized_pnl :: double
  lg_unrealized_pnl_pct :: double
  lg_entry_time_ns :: int
  lg_has_server_tp :: bool
  lg_has_server_sl :: bool

definition empty_leg :: leg_snapshot where
  "empty_leg =
    \<lparr>lg_state = LegIdle, lg_side = Long, lg_order_id = [], lg_exchange_order_id = [], lg_size = 0,
     lg_entry_price = 0, lg_unrealized_pnl = 0, lg_unrealized_pnl_pct = 0, lg_entry_time_ns = 0,
     lg_has_server_tp = False, lg_has_server_sl = False\<rparr>"

record pair_entry_result =
  per_success :: bool
  per_long_leg :: leg_snapshot
  per_short_leg :: leg_snapshot
  per_error :: string

record reversal_result =
  rr_success :: bool
  rr_new_order_id :: order_id
  rr_error :: string

section \<open>The exchange and the state\<close>

text \<open>
  The reply of the reversal call: an exception or a body that does not parse; a failed
  request; or a code with the order identifier, which may be absent or not a string.
\<close>

datatype backhand_reply = BhThrew | BhFailed | BhNoId string | BhId string order_id | BhBadId string

datatype venue_request =
  ReqSubmit order_record | ReqCancel order_id symbol | ReqBackhand symbol double

record venue =
  vn_submit :: "nat \<Rightarrow> order_record \<Rightarrow> order_submit_result"
  vn_cancel :: "nat \<Rightarrow> order_id \<Rightarrow> symbol \<Rightarrow> bool"
  vn_backhand :: "nat \<Rightarrow> symbol \<Rightarrow> double \<Rightarrow> backhand_reply"
  vn_has_rest :: bool

record dual_leg =
  dl_config :: dual_leg_config
  dl_long_leg :: leg_snapshot
  dl_short_leg :: leg_snapshot
  dl_last_reversal_ns :: int
  dl_requests :: "venue_request list"

definition dual_leg_init :: "dual_leg_config \<Rightarrow> dual_leg" where
  "dual_leg_init cfg =
    \<lparr>dl_config = cfg, dl_long_leg = empty_leg, dl_short_leg = empty_leg, dl_last_reversal_ns = 0, dl_requests = []\<rparr>"

definition leg_of :: "position_side \<Rightarrow> dual_leg \<Rightarrow> leg_snapshot" where
  "leg_of s d = (case s of Long \<Rightarrow> dl_long_leg d | Short \<Rightarrow> dl_short_leg d)"

definition set_leg :: "position_side \<Rightarrow> leg_snapshot \<Rightarrow> dual_leg \<Rightarrow> dual_leg" where
  "set_leg s l d = (case s of Long \<Rightarrow> d\<lparr>dl_long_leg := l\<rparr> | Short \<Rightarrow> d\<lparr>dl_short_leg := l\<rparr>)"

definition venue_submit :: "venue \<Rightarrow> order_record \<Rightarrow> dual_leg \<Rightarrow> order_submit_result \<times> dual_leg" where
  "venue_submit vn r d = (vn_submit vn (length (dl_requests d)) r, d\<lparr>dl_requests := dl_requests d @ [ReqSubmit r]\<rparr>)"

definition venue_cancel :: "venue \<Rightarrow> order_id \<Rightarrow> symbol \<Rightarrow> dual_leg \<Rightarrow> bool \<times> dual_leg" where
  "venue_cancel vn oid s d =
    (vn_cancel vn (length (dl_requests d)) oid s, d\<lparr>dl_requests := dl_requests d @ [ReqCancel oid s]\<rparr>)"

definition venue_backhand :: "venue \<Rightarrow> symbol \<Rightarrow> double \<Rightarrow> dual_leg \<Rightarrow> backhand_reply \<times> dual_leg" where
  "venue_backhand vn s qty d =
    (vn_backhand vn (length (dl_requests d)) s qty, d\<lparr>dl_requests := dl_requests d @ [ReqBackhand s qty]\<rparr>)"

section \<open>Take-profit and stop-loss prices\<close>

definition compute_tpsl :: "dual_leg_config \<Rightarrow> double \<Rightarrow> position_side \<Rightarrow> double \<times> double" where
  "compute_tpsl cfg entry s =
    (if entry \<le> 0 \<or> \<not> isfinite entry then (0, 0)
     else
       let tp = (if s = Long then entry * (1 + dc_tpsl_take_profit_pct cfg / lit 100)
                 else entry * (1 - dc_tpsl_take_profit_pct cfg / lit 100));
           sl = (if s = Long then entry * (1 - dc_tpsl_stop_loss_pct cfg / lit 100)
                 else entry * (1 + dc_tpsl_stop_loss_pct cfg / lit 100))
       in if \<bar>tp - entry\<bar> < entry * lit 0.00001 \<or> \<bar>sl - entry\<bar> < entry * lit 0.00001 then (0, 0)
          else (tp, sl))"

section \<open>Orders of a leg\<close>

definition leg_order :: "symbol \<Rightarrow> side \<Rightarrow> position_side \<Rightarrow> trade_side \<Rightarrow> double \<Rightarrow> order_record" where
  "leg_order s sd ps ts qty = default_order
    \<lparr>o_symbol := s, o_side := sd, o_position_side := ps, o_trade_side := ts, o_order_type := Market,
     o_tif := ImmediateOrCancel, o_original_quantity := qty, o_remaining_quantity := qty\<rparr>"

definition attach_tpsl :: "dual_leg_config \<Rightarrow> leg_spec \<Rightarrow> order_record \<Rightarrow> order_record" where
  "attach_tpsl cfg sp r =
    (if dc_attach_server_tpsl cfg \<and> 0 < lp_tp_price sp \<and> isfinite (lp_tp_price sp) \<and>
        0 < lp_sl_price sp \<and> isfinite (lp_sl_price sp)
     then r\<lparr>o_attached_tp_sl := (o_attached_tp_sl r)
            \<lparr>tp_stop_surplus_price := lp_tp_price sp, sl_stop_loss_price := lp_sl_price sp,
             tpsl_trigger_type := MarkPrice\<rparr>\<rparr>
     else r)"

definition entry_order :: "dual_leg_config \<Rightarrow> symbol \<Rightarrow> position_side \<Rightarrow> leg_spec \<Rightarrow> order_record" where
  "entry_order cfg s ps sp =
    attach_tpsl cfg sp
      ((leg_order s (if ps = Long then Buy else Sell) ps TradeOpen (lp_size sp))\<lparr>o_price := lp_entry_price_hint sp\<rparr>)"

definition pending_leg :: "position_side \<Rightarrow> order_submit_result \<Rightarrow> leg_spec \<Rightarrow> int \<Rightarrow> leg_snapshot \<Rightarrow> leg_snapshot" where
  "pending_leg ps reply sp tnow l = l
    \<lparr>lg_state := LegPendingEntry, lg_side := ps, lg_order_id := sr_order_id reply,
     lg_exchange_order_id := sr_exchange_order_id reply, lg_size := lp_size sp, lg_entry_time_ns := tnow,
     lg_has_server_tp := 0 < lp_tp_price sp, lg_has_server_sl := 0 < lp_sl_price sp\<rparr>"

section \<open>Operations\<close>

definition close_order :: "symbol \<Rightarrow> position_side \<Rightarrow> double \<Rightarrow> order_record" where
  "close_order s ps qty = leg_order s (if ps = Long then Sell else Buy) ps TradeClose qty"

definition close_leg :: "venue \<Rightarrow> symbol \<Rightarrow> position_side \<Rightarrow> double \<Rightarrow> dual_leg \<Rightarrow> bool \<times> dual_leg" where
  "close_leg vn s ps qty d =
    (let (reply, d) = venue_submit vn (close_order s ps qty) d
     in if \<not> sr_success reply then (False, d)
        else (True, set_leg ps ((leg_of ps d)\<lparr>lg_state := LegPendingExit\<rparr>) d))"

definition enter_pair ::
    "venue \<Rightarrow> int \<Rightarrow> symbol \<Rightarrow> leg_spec \<Rightarrow> leg_spec \<Rightarrow> dual_leg \<Rightarrow> pair_entry_result \<times> dual_leg" where
  "enter_pair vn tnow s long_spec short_spec d =
    (let failed = \<lparr>per_success = False, per_long_leg = empty_leg, per_short_leg = empty_leg, per_error = []\<rparr>;
         (long_reply, d) = venue_submit vn (entry_order (dl_config d) s Long long_spec) d
     in if \<not> sr_success long_reply
        then (failed\<lparr>per_error := ''Long leg failed: '' @ sr_error_message long_reply\<rparr>, d)
        else
          let d = d\<lparr>dl_long_leg := pending_leg Long long_reply long_spec tnow (dl_long_leg d)\<rparr>;
              (short_reply, d) = venue_submit vn (entry_order (dl_config d) s Short short_spec) d
          in if \<not> sr_success short_reply
             then
               let (cancelled, d) = venue_cancel vn (sr_exchange_order_id long_reply) s d;
                   d = (if cancelled then d else snd (close_leg vn s Long (lp_size long_spec) d))
               in (failed\<lparr>per_error := ''Short leg failed: '' @ sr_error_message short_reply\<rparr>,
                   d\<lparr>dl_long_leg := empty_leg\<rparr>)
             else
               let d = d\<lparr>dl_short_leg := pending_leg Short short_reply short_spec tnow (dl_short_leg d)\<rparr>
               in (\<lparr>per_success = True, per_long_leg = dl_long_leg d, per_short_leg = dl_short_leg d, per_error = []\<rparr>, d))"

definition reversal_fallback ::
    "venue \<Rightarrow> int \<Rightarrow> symbol \<Rightarrow> position_side \<Rightarrow> double \<Rightarrow> reversal_result \<Rightarrow> dual_leg \<Rightarrow> reversal_result \<times> dual_leg" where
  "reversal_fallback vn tnow s ps qty res d =
    (let (closed, d) = close_leg vn s ps qty d
     in if \<not> closed then (res\<lparr>rr_error := ''Failed to close leg for reversal''\<rparr>, d)
        else
          let new_side = (if ps = Long then Short else Long);
              (reply, d) = venue_submit vn (leg_order s (if new_side = Long then Buy else Sell) new_side TradeOpen qty) d
          in if \<not> sr_success reply
             then (res\<lparr>rr_error := ''Reversal reopen failed: '' @ sr_error_message reply\<rparr>, d)
             else (res\<lparr>rr_success := True, rr_new_order_id := sr_exchange_order_id reply\<rparr>,
                   d\<lparr>dl_last_reversal_ns := tnow\<rparr>))"

text \<open>
  A reply with a good code sets the success flag and the time before the identifier is
  read, so an identifier that is not a string throws with both already set.
\<close>

definition reverse_leg ::
    "venue \<Rightarrow> int \<Rightarrow> symbol \<Rightarrow> position_side \<Rightarrow> double \<Rightarrow> dual_leg \<Rightarrow> reversal_result \<times> dual_leg" where
  "reverse_leg vn tnow s ps qty d =
    (let res = \<lparr>rr_success = False, rr_new_order_id = [], rr_error = []\<rparr>
     in if tnow - dl_last_reversal_ns d < dc_reversal_cooldown_ms (dl_config d) * 1000000
        then (res\<lparr>rr_error := ''Reversal cooldown active''\<rparr>, d)
        else if dc_use_reversal_api (dl_config d) \<and> vn_has_rest vn
        then
          let (reply, d) = venue_backhand vn s qty d;
              flipped = res\<lparr>rr_success := True\<rparr>; marked = d\<lparr>dl_last_reversal_ns := tnow\<rparr>
          in (case reply of
                BhNoId code \<Rightarrow> if code = ''00000'' then (flipped, marked) else reversal_fallback vn tnow s ps qty res d
              | BhId code oid \<Rightarrow>
                  if code = ''00000'' then (flipped\<lparr>rr_new_order_id := oid\<rparr>, marked)
                  else reversal_fallback vn tnow s ps qty res d
              | BhBadId code \<Rightarrow>
                  if code = ''00000'' then reversal_fallback vn tnow s ps qty flipped marked
                  else reversal_fallback vn tnow s ps qty res d
              | _ \<Rightarrow> reversal_fallback vn tnow s ps qty res d)
        else reversal_fallback vn tnow s ps qty res d)"

definition close_both :: "venue \<Rightarrow> symbol \<Rightarrow> dual_leg \<Rightarrow> bool \<times> dual_leg" where
  "close_both vn s d =
    (let l = dl_long_leg d; sh = dl_short_leg d;
         (ok1, d) = (if lg_state l = LegActive then close_leg vn s Long (lg_size l) d else (True, d));
         (ok2, d) = (if lg_state sh = LegActive then close_leg vn s Short (lg_size sh) d else (True, d))
     in (ok1 \<and> ok2, d))"

definition is_carry_too_expensive :: "dual_leg_config \<Rightarrow> double \<Rightarrow> bool" where
  "is_carry_too_expensive cfg rate \<longleftrightarrow> dc_max_funding_rate_abs cfg < \<bar>rate\<bar>"

definition has_active_pair :: "dual_leg \<Rightarrow> bool" where
  "has_active_pair d \<longleftrightarrow> lg_state (dl_long_leg d) = LegActive \<and> lg_state (dl_short_leg d) = LegActive"

definition dual_leg_reset :: "dual_leg \<Rightarrow> dual_leg" where
  "dual_leg_reset d = d\<lparr>dl_long_leg := empty_leg, dl_short_leg := empty_leg\<rparr>"

definition update_leg :: "position_side \<Rightarrow> double \<Rightarrow> double \<Rightarrow> int \<Rightarrow> dual_leg \<Rightarrow> dual_leg" where
  "update_leg ps fill_price fill_qty fill_time d =
    (let l = leg_of ps d
     in if fill_qty \<le> 0 \<or> fill_price \<le> 0 then d
        else
          let prev = lg_size l; new = prev + fill_qty;
              entry = (if 0 < new then
                         (if 0 < prev \<and> 0 < lg_entry_price l
                          then (lg_entry_price l * prev + fill_price * fill_qty) / new else fill_price)
                       else lg_entry_price l)
          in set_leg ps (l\<lparr>lg_entry_price := entry, lg_size := new, lg_entry_time_ns := fill_time, lg_state := LegActive\<rparr>) d)"

end
