(* ===== verification/Hedge_Pair_Manager.thy ===== *)
theory Hedge_Pair_Manager
  imports Common_Types
begin

text \<open>
  The hedge pair manager (\<^verbatim>\<open>src/src/pipeline/hedge_pair_manager.{hpp,cpp}\<close>): when a losing
  position gets a hedge leg, how large, and how the pair is unwound.  A decision has no
  reason text (\<^verbatim>\<open>std::format\<close>); the logger is present and its lines are left out.
\<close>

section \<open>Types\<close>

datatype hedge_pair_state =
    PrimaryOnly | HedgeSentPending | PrimaryPlusHedge | ProfitLockPair
  | ReverseTransition | AsymmetricUnwind | EmergencyFlatten

datatype hedge_action = HedgeNone | OpenHedge | ClosePrimary | CloseHedge | CloseBoth

fun hedge_pair_state_to_string :: "hedge_pair_state \<Rightarrow> string" where
  "hedge_pair_state_to_string PrimaryOnly = ''PrimaryOnly''"
| "hedge_pair_state_to_string HedgeSentPending = ''HedgeSentPending''"
| "hedge_pair_state_to_string PrimaryPlusHedge = ''PrimaryPlusHedge''"
| "hedge_pair_state_to_string ProfitLockPair = ''ProfitLockPair''"
| "hedge_pair_state_to_string ReverseTransition = ''ReverseTransition''"
| "hedge_pair_state_to_string AsymmetricUnwind = ''AsymmetricUnwind''"
| "hedge_pair_state_to_string EmergencyFlatten = ''EmergencyFlatten''"

fun hedge_action_to_string :: "hedge_action \<Rightarrow> string" where
  "hedge_action_to_string HedgeNone = ''None''"
| "hedge_action_to_string OpenHedge = ''OpenHedge''"
| "hedge_action_to_string ClosePrimary = ''ClosePrimary''"
| "hedge_action_to_string CloseHedge = ''CloseHedge''"
| "hedge_action_to_string CloseBoth = ''CloseBoth''"

record hedge_pair_input =
  hi_primary_side :: position_side
  hi_primary_size :: double
  hi_primary_pnl :: double
  hi_primary_pnl_pct :: double
  hi_primary_hold_ns :: int
  hi_has_hedge :: bool
  hi_hedge_size :: double
  hi_hedge_pnl :: double
  hi_hedge_pnl_pct :: double
  hi_hedge_hold_ns :: int
  hi_regime_stability :: double
  hi_regime_confidence :: double
  hi_cusum_regime_change :: bool
  hi_uncertainty :: double
  hi_exit_score_primary :: double
  hi_exit_score_hedge :: double
  hi_funding_rate :: double
  hi_atr :: double
  hi_spread_bps :: double
  hi_depth_usd :: double
  hi_vpin_toxic :: bool
  hi_momentum :: double
  hi_momentum_valid :: bool
  hi_total_capital :: double
  hi_mid_price :: double
  hi_taker_fee_pct :: double
  hi_hedge_profit_close_fee_mult :: double
  hi_hedge_trigger_loss_pct :: double
  hi_protective_stop_imminent :: bool
  hi_stop_distance_pct :: double

definition default_hedge_pair_input :: hedge_pair_input where
  "default_hedge_pair_input =
    \<lparr>hi_primary_side = Long, hi_primary_size = 0, hi_primary_pnl = 0, hi_primary_pnl_pct = 0,
     hi_primary_hold_ns = 0, hi_has_hedge = False, hi_hedge_size = 0, hi_hedge_pnl = 0,
     hi_hedge_pnl_pct = 0, hi_hedge_hold_ns = 0, hi_regime_stability = lit 0.5,
     hi_regime_confidence = lit 0.5, hi_cusum_regime_change = False, hi_uncertainty = lit 0.5,
     hi_exit_score_primary = 0, hi_exit_score_hedge = 0, hi_funding_rate = 0, hi_atr = 0,
     hi_spread_bps = 0, hi_depth_usd = lit 10000, hi_vpin_toxic = False, hi_momentum = 0,
     hi_momentum_valid = False, hi_total_capital = 0, hi_mid_price = 0, hi_taker_fee_pct = lit 0.06,
     hi_hedge_profit_close_fee_mult = lit 2, hi_hedge_trigger_loss_pct = lit 1.5,
     hi_protective_stop_imminent = False, hi_stop_distance_pct = PInf\<rparr>"

record hedge_pair_decision =
  hd_action :: hedge_action
  hd_hedge_ratio :: double
  hd_urgency :: double

definition no_hedge_action :: hedge_pair_decision where
  "no_hedge_action = \<lparr>hd_action = HedgeNone, hd_hedge_ratio = 1, hd_urgency = 0\<rparr>"

record hedge_pair_manager =
  hm_state :: hedge_pair_state
  hm_hedge_count :: int

definition hedge_manager_init :: hedge_pair_manager where
  "hedge_manager_init = \<lparr>hm_state = PrimaryOnly, hm_hedge_count = 0\<rparr>"

abbreviation kMaxHedgesPerPosition :: int where
  "kMaxHedgesPerPosition \<equiv> 2"

section \<open>Notifications\<close>

definition hedge_reset :: "hedge_pair_manager \<Rightarrow> hedge_pair_manager" where
  "hedge_reset m = m\<lparr>hm_state := PrimaryOnly, hm_hedge_count := 0\<rparr>"

definition can_hedge :: "hedge_pair_manager \<Rightarrow> bool" where
  "can_hedge m \<longleftrightarrow> hm_state m = PrimaryOnly \<and> hm_hedge_count m < kMaxHedgesPerPosition"

definition notify_hedge_opened :: "hedge_pair_manager \<Rightarrow> hedge_pair_manager" where
  "notify_hedge_opened m = m\<lparr>hm_state := HedgeSentPending\<rparr>"

definition confirm_hedge_filled :: "hedge_pair_manager \<Rightarrow> hedge_pair_manager" where
  "confirm_hedge_filled m =
    (if hm_state m = HedgeSentPending then m\<lparr>hm_hedge_count := hm_hedge_count m + 1, hm_state := PrimaryPlusHedge\<rparr>
     else if hm_state m = PrimaryOnly then m\<lparr>hm_hedge_count := hm_hedge_count m + 1, hm_state := PrimaryPlusHedge\<rparr>
     else m)"

definition notify_hedge_failed :: "hedge_pair_manager \<Rightarrow> hedge_pair_manager" where
  "notify_hedge_failed m = m\<lparr>hm_state := PrimaryOnly\<rparr>"

definition notify_hedge_closed :: "hedge_pair_manager \<Rightarrow> hedge_pair_manager" where
  "notify_hedge_closed m = m\<lparr>hm_state := PrimaryOnly\<rparr>"

definition notify_both_closed :: "hedge_pair_manager \<Rightarrow> hedge_pair_manager" where
  "notify_both_closed m = m\<lparr>hm_state := PrimaryOnly\<rparr>"

definition notify_reversed :: "hedge_pair_manager \<Rightarrow> hedge_pair_manager" where
  "notify_reversed m = m\<lparr>hm_state := PrimaryOnly\<rparr>"

section \<open>Primary leg only\<close>

definition hi_loss_pct :: "hedge_pair_input \<Rightarrow> double" where
  "hi_loss_pct i = \<bar>hi_primary_pnl i\<bar> / std_max (hi_total_capital i) (lit 0.01) * lit 100"

definition should_trigger_hedge :: "hedge_pair_manager \<Rightarrow> hedge_pair_input \<Rightarrow> bool" where
  "should_trigger_hedge m i =
    (if \<not> can_hedge m then False
     else if 0 \<le> hi_primary_pnl i then False
     else
       let loss_pct = hi_loss_pct i;
           momentum_against = hi_momentum_valid i \<and>
             (if hi_primary_side i = Long then hi_momentum i < - lit 0.0005 else lit 0.0005 < hi_momentum i);
           regime_break = hi_cusum_regime_change i \<and> hi_regime_stability i < lit 0.35;
           indicator_consensus = hi_exit_score_primary i < - lit 0.15;
           protective_stop_pressure = hi_protective_stop_imminent i \<and>
             (hi_exit_score_primary i < - lit 0.05 \<or> momentum_against);
           loss_budget_breached = hi_hedge_trigger_loss_pct i \<le> loss_pct
       in if \<not> loss_budget_breached \<and> \<not> protective_stop_pressure then False
          else
            let toxic_while_losing = hi_vpin_toxic i \<and> lit 0.8 < loss_pct;
                liquidity_stress = hi_depth_usd i < lit 500 \<and> lit 30 < hi_spread_bps i \<and> 1 < loss_pct
            in if \<not> regime_break \<and> \<not> indicator_consensus \<and> \<not> protective_stop_pressure \<and>
                  \<not> toxic_while_losing \<and> \<not> liquidity_stress then False
               else \<not> lit 0.85 < hi_uncertainty i)"

definition hm_hedge_ratio :: "hedge_pair_input \<Rightarrow> double" where
  "hm_hedge_ratio i =
    (let ratio = lit 0.7;
         ratio = (if hi_protective_stop_imminent i then std_max ratio 1 else ratio);
         ratio = (if hi_cusum_regime_change i \<and> hi_regime_stability i < lit 0.25 then 1 else ratio);
         ratio = (if hi_exit_score_primary i < - lit 0.30 then std_min (ratio + lit 0.2) (lit 1.2) else ratio);
         ratio = (if hi_vpin_toxic i then std_max ratio 1 else ratio);
         ratio = (if isfinite (hi_funding_rate i) then
                    let eff = (if hi_primary_side i = Long then hi_funding_rate i else - hi_funding_rate i)
                    in if lit 0.0005 < eff then ratio * lit 0.8 else ratio
                  else ratio);
         ratio = (if hi_depth_usd i < lit 1000 then std_min ratio (lit 0.8) else ratio)
     in std_clamp ratio (lit 0.3) (lit 1.2))"

definition evaluate_primary_only :: "hedge_pair_input \<Rightarrow> hedge_pair_manager \<Rightarrow> hedge_pair_decision" where
  "evaluate_primary_only i m =
    (if \<not> should_trigger_hedge m i then no_hedge_action
     else \<lparr>hd_action = OpenHedge, hd_hedge_ratio = hm_hedge_ratio i, hd_urgency = lit 0.9\<rparr>)"

section \<open>Active pair\<close>

definition net_pnl :: "hedge_pair_input \<Rightarrow> double" where
  "net_pnl i = hi_primary_pnl i + hi_hedge_pnl i"

definition round_trip_fees :: "hedge_pair_input \<Rightarrow> double" where
  "round_trip_fees i =
    (hi_primary_size i + hi_hedge_size i) * hi_mid_price i * hi_taker_fee_pct i / lit 100 * lit 2"

definition min_profit :: "hedge_pair_input \<Rightarrow> double" where
  "min_profit i = round_trip_fees i * hi_hedge_profit_close_fee_mult i"

definition momentum_for :: "position_side \<Rightarrow> hedge_pair_input \<Rightarrow> bool" where
  "momentum_for s i \<longleftrightarrow> hi_momentum_valid i \<and>
    (if s = Long then lit 0.0005 < hi_momentum i else hi_momentum i < - lit 0.0005)"

definition opposite_side :: "position_side \<Rightarrow> position_side" where
  "opposite_side s = (if s = Long then Short else Long)"

definition unwind_confidence :: "hedge_pair_input \<Rightarrow> double" where
  "unwind_confidence i =
    (let recovering = lit 0.10 < hi_exit_score_primary i;
         stabilizing = lit 0.5 < hi_regime_stability i \<and> \<not> hi_cusum_regime_change i;
         c = 0;
         c = (if momentum_for (hi_primary_side i) i then c + lit 0.45 else c);
         c = (if recovering then c + lit 0.35 else c);
         c = (if stabilizing then c + lit 0.20 else c)
     in if stabilizing \<and> round_trip_fees i * lit 2 < hi_hedge_pnl i then c + lit 0.35 else c)"

definition reverse_confidence :: "hedge_pair_input \<Rightarrow> double" where
  "reverse_confidence i =
    (let strengthening = lit 0.10 < hi_exit_score_hedge i;
         break = hi_cusum_regime_change i \<and> hi_regime_stability i < lit 0.40;
         c = 0;
         c = (if momentum_for (opposite_side (hi_primary_side i)) i then c + lit 0.45 else c);
         c = (if strengthening then c + lit 0.35 else c)
     in if break then c + lit 0.20 else c)"

definition escalation_count :: "hedge_pair_input \<Rightarrow> int" where
  "escalation_count i =
    (if lit 0.0008 < \<bar>hi_funding_rate i\<bar> then 1 else 0) +
    (if net_pnl i < (- round_trip_fees i) * lit 4 then 1 else 0) +
    (if hi_exit_score_primary i < - lit 0.05 \<and> hi_exit_score_hedge i < - lit 0.05 then 1 else 0) +
    (if lit 25 < hi_spread_bps i then 1 else 0) +
    (if hi_vpin_toxic i then 1 else 0)"

abbreviation hedge_decide ::
    "hedge_pair_state \<Rightarrow> hedge_action \<Rightarrow> double \<Rightarrow> hedge_pair_manager \<Rightarrow> hedge_pair_decision \<times> hedge_pair_manager" where
  "hedge_decide st a u m \<equiv> (\<lparr>hd_action = a, hd_hedge_ratio = 0, hd_urgency = u\<rparr>, m\<lparr>hm_state := st\<rparr>)"

definition evaluate_pair_active ::
    "hedge_pair_input \<Rightarrow> hedge_pair_manager \<Rightarrow> hedge_pair_decision \<times> hedge_pair_manager" where
  "evaluate_pair_active i m =
    (if \<not> hi_has_hedge i then (no_hedge_action, m\<lparr>hm_state := PrimaryOnly\<rparr>)
     else if hi_vpin_toxic i \<and> net_pnl i < (- round_trip_fees i) * lit 3
       then hedge_decide EmergencyFlatten CloseBoth 1 m
     else if min_profit i < net_pnl i then hedge_decide ProfitLockPair CloseBoth (lit 0.8) m
     else if round_trip_fees i < hi_hedge_pnl i \<and> lit 0.55 \<le> unwind_confidence i
       then hedge_decide AsymmetricUnwind CloseHedge (std_clamp (lit 0.55 + unwind_confidence i * lit 0.30) 0 1) m
     else if round_trip_fees i < hi_primary_pnl i \<and> lit 0.55 \<le> reverse_confidence i
       then hedge_decide ReverseTransition ClosePrimary (std_clamp (lit 0.55 + reverse_confidence i * lit 0.30) 0 1) m
     else if 2 \<le> escalation_count i then
       (if - round_trip_fees i < net_pnl i then hedge_decide ProfitLockPair CloseBoth (lit 0.8) m
        else if hi_primary_pnl i < hi_hedge_pnl i then hedge_decide AsymmetricUnwind CloseHedge (lit 0.75) m
        else hedge_decide ReverseTransition ClosePrimary (lit 0.75) m)
     else (no_hedge_action, m))"

definition evaluate_hedge_pending ::
    "hedge_pair_input \<Rightarrow> hedge_pair_manager \<Rightarrow> hedge_pair_decision \<times> hedge_pair_manager" where
  "evaluate_hedge_pending i m =
    (if hi_has_hedge i
     then evaluate_pair_active i (m\<lparr>hm_hedge_count := hm_hedge_count m + 1, hm_state := PrimaryPlusHedge\<rparr>)
     else (no_hedge_action, m))"

fun hedge_evaluate ::
    "hedge_pair_input \<Rightarrow> hedge_pair_manager \<Rightarrow> hedge_pair_decision \<times> hedge_pair_manager" where
  "hedge_evaluate i m =
    (case hm_state m of
       PrimaryOnly \<Rightarrow> (evaluate_primary_only i m, m)
     | HedgeSentPending \<Rightarrow> evaluate_hedge_pending i m
     | PrimaryPlusHedge \<Rightarrow> evaluate_pair_active i m
     | ProfitLockPair \<Rightarrow> evaluate_pair_active i m
     | AsymmetricUnwind \<Rightarrow> evaluate_pair_active i m
     | ReverseTransition \<Rightarrow> (no_hedge_action, m)
     | EmergencyFlatten \<Rightarrow> (\<lparr>hd_action = CloseBoth, hd_hedge_ratio = 0, hd_urgency = 1\<rparr>, m))"

end
