(* ===== verification/Float_Ranges.thy ===== *)
theory Float_Ranges
  imports Float64
begin

text \<open>
  Ranges of scores, ratios and weights: the fact that a \<^verbatim>\<open>double\<close> is a finite value between
  two exactly representable bounds survives the rounded operations, so that the range of an
  expression follows from the ranges of its parts.
\<close>

definition exact :: "real \<Rightarrow> bool" where
  "exact x \<longleftrightarrow> mk x = Fin x"

lemma exact_simps [simp]: "exact 0" "exact 1"
  "numeral n < (2 :: int) ^ 53 \<Longrightarrow> exact (numeral n)"
  "numeral n < (2 :: int) ^ 53 \<Longrightarrow> exact (- numeral n)"
  "exact (- 1)"
  using mk_of_int [of "- 1"] by (simp_all add: exact_def)

lemma exact_half [simp]: "exact (1 / 2)"
  by (simp add: exact_def mk_half)

lemma exact_minus: "exact x \<Longrightarrow> exact (- x)"
  by (simp add: exact_def mk_minus)

lemma exact_grid: "\<bar>m\<bar> < 2 ^ 53 \<Longrightarrow> exact (of_int m / 2 ^ 20)"
  using mk_units [of m] by (simp add: exact_def units_def fits_def)

definition ranged :: "real \<Rightarrow> real \<Rightarrow> double \<Rightarrow> bool" where
  "ranged a b x \<longleftrightarrow> (\<exists>r. x = Fin r \<and> a \<le> r \<and> r \<le> b)"

lemma rangedE:
  assumes "ranged a b x"
  obtains r where "x = Fin r" "a \<le> r" "r \<le> b"
  using assms by (auto simp: ranged_def)

lemma ranged_Fin [simp]: "ranged a b (Fin r) \<longleftrightarrow> a \<le> r \<and> r \<le> b"
  by (auto simp: ranged_def)

lemma ranged_0 [simp]: "ranged a b 0 \<longleftrightarrow> a \<le> 0 \<and> 0 \<le> b"
  and ranged_1 [simp]: "ranged a b 1 \<longleftrightarrow> a \<le> 1 \<and> 1 \<le> b"
  by (simp_all add: zero_double_def one_double_def)

lemma ranged_finite: "ranged a b x \<Longrightarrow> isfinite x"
  and ranged_not_NaN: "ranged a b x \<Longrightarrow> x \<noteq> NaN"
  by (auto simp: ranged_def)

lemma ranged_weaken: "ranged a b x \<Longrightarrow> c \<le> a \<Longrightarrow> b \<le> d \<Longrightarrow> ranged c d x"
  by (auto simp: ranged_def)

lemma ranged_iff: "ranged a b x \<longleftrightarrow> Fin a \<le> x \<and> x \<le> Fin b"
  by (cases x) (auto simp: ranged_def)

lemma ranged_mk: "exact a \<Longrightarrow> exact b \<Longrightarrow> a \<le> x \<Longrightarrow> x \<le> b \<Longrightarrow> ranged a b (mk x)"
  using mk_mono [of a x] mk_mono [of x b] by (simp add: ranged_iff exact_def)

lemma ranged_add:
  assumes "ranged a b x" and "ranged c d y" and "exact (a + c)" and "exact (b + d)"
  shows "ranged (a + c) (b + d) (x + y)"
  using assms(1,2) by (elim rangedE) (simp add: ranged_mk assms(3,4) add_mono)

lemma ranged_diff:
  assumes "ranged a b x" and "ranged c d y" and "exact (a - d)" and "exact (b - c)"
  shows "ranged (a - d) (b - c) (x - y)"
  using assms(1,2) by (elim rangedE) (simp add: minus_double_def ranged_mk assms(3,4))

lemma ranged_mult:
  assumes "ranged 0 b x" and "ranged 0 d y" and "exact (b * d)"
  shows "ranged 0 (b * d) (x * y)"
  using assms(1,2) by (elim rangedE) (simp add: ranged_mk assms(3) mult_mono)

lemma ranged_if: "ranged a b x \<Longrightarrow> ranged a b y \<Longrightarrow> ranged a b (if c then x else y)"
  by simp

lemma ranged_min: "ranged a b x \<Longrightarrow> ranged a b y \<Longrightarrow> ranged a b (std_min x y)"
  and ranged_max: "ranged a b x \<Longrightarrow> ranged a b y \<Longrightarrow> ranged a b (std_max x y)"
  by (auto simp: std_min_def std_max_def)

lemma ranged_clamp:
  assumes "x \<noteq> NaN" and "ranged a b lo" and "ranged a b hi"
  shows "ranged a b (std_clamp x lo hi)"
proof (cases "x < lo \<or> hi < x")
  case True
  then show ?thesis using assms by (auto simp: std_clamp_def)
next
  case False
  then have "lo \<le> x" "x \<le> hi"
    using assms ranged_not_NaN [OF assms(2)] ranged_not_NaN [OF assms(3)] by (auto simp: double_not_less)
  then show ?thesis
    using False assms(2,3) by (auto simp: std_clamp_def ranged_iff intro: double_le_trans)
qed

lemma clamp_lits:
  assumes "x \<noteq> NaN" and "a \<le> b"
  shows "lit a \<le> std_clamp x (lit a) (lit b) \<and> std_clamp x (lit a) (lit b) \<le> lit b"
  using std_clamp_bounds [OF mk_mono [OF assms(2)] assms(1)] .

lemma clamp_unit:
  assumes "x \<noteq> NaN"
  shows "0 \<le> std_clamp x 0 1 \<and> std_clamp x 0 1 \<le> 1"
  using std_clamp_bounds [OF _ assms, of 0 1] by (simp add: zero_double_def one_double_def)

lemma ranged_abs: "ranged a b x \<Longrightarrow> 0 \<le> c \<Longrightarrow> - c \<le> a \<Longrightarrow> b \<le> c \<Longrightarrow> ranged 0 c \<bar>x\<bar>"
  by (elim rangedE) auto

end
