(* ===== verification/Hedge_Pair_Laws.thy ===== *)
theory Hedge_Pair_Laws
  imports Hedge_Pair_Manager Float_Ranges
begin

text \<open>
  What the hedge manager promises: the size of a hedge, what each action does to its state,
  and the number of hedges per position over every sequence of the pipeline's calls.
\<close>

section \<open>Hedge ratio\<close>

lemma unit_lit [intro]: "0 \<le> x \<Longrightarrow> x \<le> 1 \<Longrightarrow> ranged 0 1 (lit x)"
  by (rule ranged_mk) simp_all

lemma two_lit [intro]: "0 \<le> x \<Longrightarrow> x \<le> 2 \<Longrightarrow> ranged 0 2 (lit x)"
  by (rule ranged_mk) simp_all

lemma raised_ratio: "ranged 0 2 x \<Longrightarrow> ranged 0 2 (std_min (x + lit 0.2) (lit 1.2))"
proof -
  assume x: "ranged 0 2 x"
  have "ranged (0 + 0) (2 + 1) (x + lit 0.2)" by (rule ranged_add [OF x]) auto
  then have s: "0 \<le> x + lit 0.2" "x + lit 0.2 \<noteq> NaN" by (auto simp: ranged_iff zero_double_def)
  have "ranged 0 2 (lit 1.2)" by auto
  then show ?thesis
    using s by (auto simp: std_min_def ranged_iff zero_double_def double_not_less intro: double_le_trans)
qed

lemma scaled_ratio: "ranged 0 2 x \<Longrightarrow> ranged 0 2 (x * lit 0.8)"
  using ranged_mult [of 2 x 1 "lit 0.8"] unit_lit [of "0.8"] by simp

text \<open>
  Whatever the market data, NaN included, the hedge is between 30 percent and 120 percent of the primary
  leg.
\<close>

theorem hedge_ratio_range:
  "lit 0.3 \<le> hm_hedge_ratio i \<and> hm_hedge_ratio i \<le> lit 1.2"
proof -
  have 1: "ranged 0 2 (std_max x 1)" if "ranged 0 2 x" for x using that by (intro ranged_max) auto
  have 2: "ranged 0 2 (std_min x (lit 0.8))" if "ranged 0 2 x" for x using that by (intro ranged_min) auto
  show ?thesis
    unfolding hm_hedge_ratio_def Let_def
    by (intro clamp_lits ranged_not_NaN [of 0 2] ranged_if 1 2 raised_ratio scaled_ratio two_lit) simp_all
qed

section \<open>Decisions and states\<close>

definition pair_outcome ::
    "hedge_pair_input \<Rightarrow> hedge_pair_manager \<Rightarrow> hedge_pair_decision \<times> hedge_pair_manager \<Rightarrow> bool" where
  "pair_outcome i m r \<longleftrightarrow> r = (no_hedge_action, m) \<or>
    \<not> hi_has_hedge i \<and> r = (no_hedge_action, m\<lparr>hm_state := PrimaryOnly\<rparr>) \<or>
    hi_has_hedge i \<and> (\<exists>st a u. r = hedge_decide st a u m \<and>
      (st, a) \<in> {(EmergencyFlatten, CloseBoth), (ProfitLockPair, CloseBoth), (AsymmetricUnwind, CloseHedge),
        (ReverseTransition, ClosePrimary)})"

lemma pair_outcome_leaves:
  "pair_outcome i m (no_hedge_action, m)"
  "\<not> hi_has_hedge i \<Longrightarrow> pair_outcome i m (no_hedge_action, m\<lparr>hm_state := PrimaryOnly\<rparr>)"
  "hi_has_hedge i \<Longrightarrow> pair_outcome i m (hedge_decide EmergencyFlatten CloseBoth u m)"
  "hi_has_hedge i \<Longrightarrow> pair_outcome i m (hedge_decide ProfitLockPair CloseBoth u m)"
  "hi_has_hedge i \<Longrightarrow> pair_outcome i m (hedge_decide AsymmetricUnwind CloseHedge u m)"
  "hi_has_hedge i \<Longrightarrow> pair_outcome i m (hedge_decide ReverseTransition ClosePrimary u m)"
  unfolding pair_outcome_def by blast+

lemma pair_active_outcome: "pair_outcome i m (evaluate_pair_active i m)"
  unfolding evaluate_pair_active_def by (simp only: pair_outcome_leaves if_split simp_thms not_not) (simp add: pair_outcome_leaves)

lemma pair_active_cases:
  obtains "evaluate_pair_active i m = (no_hedge_action, m)"
  | "\<not> hi_has_hedge i" "evaluate_pair_active i m = (no_hedge_action, m\<lparr>hm_state := PrimaryOnly\<rparr>)"
  | st a u where "hi_has_hedge i" "evaluate_pair_active i m = hedge_decide st a u m"
      "(st, a) \<in> {(EmergencyFlatten, CloseBoth), (ProfitLockPair, CloseBoth), (AsymmetricUnwind, CloseHedge),
        (ReverseTransition, ClosePrimary)}"
  using pair_active_outcome [of i m] unfolding pair_outcome_def by blast

definition action_state :: "hedge_action \<Rightarrow> hedge_pair_state \<Rightarrow> bool" where
  "action_state a st \<longleftrightarrow>
    (case a of HedgeNone \<Rightarrow> True | OpenHedge \<Rightarrow> st = PrimaryOnly | CloseHedge \<Rightarrow> st = AsymmetricUnwind
     | ClosePrimary \<Rightarrow> st = ReverseTransition | CloseBoth \<Rightarrow> st = EmergencyFlatten \<or> st = ProfitLockPair)"

lemma active_action_state:
  "action_state (hd_action (fst (evaluate_pair_active i m))) (hm_state (snd (evaluate_pair_active i m)))"
  "hd_action (fst (evaluate_pair_active i m)) \<noteq> OpenHedge"
  "hm_hedge_count (snd (evaluate_pair_active i m)) = hm_hedge_count m"
  "hm_state m \<noteq> HedgeSentPending \<Longrightarrow> hm_state (snd (evaluate_pair_active i m)) \<noteq> HedgeSentPending"
  by (cases rule: pair_active_cases [of i m]; auto simp: action_state_def no_hedge_action_def)+

text \<open>
  The action and the state of the manager always agree: a close is only ever
  decided with a hedge leg in the portfolio or in an emergency, and a hedge is opened exactly
  when the trigger holds, which needs a position without a hedge and an unused budget.
\<close>

theorem hedge_decision_coherent:
  "action_state (hd_action (fst (hedge_evaluate i m))) (hm_state (snd (hedge_evaluate i m))) \<and>
   (hd_action (fst (hedge_evaluate i m)) \<in> {CloseHedge, ClosePrimary, CloseBoth} \<longrightarrow>
      hi_has_hedge i \<or> hm_state m = EmergencyFlatten) \<and>
   (hd_action (fst (hedge_evaluate i m)) = OpenHedge \<longleftrightarrow> should_trigger_hedge m i)"
proof -
  note active = active_action_state [where i = i]
  have close: "hi_has_hedge i"
    if "hd_action (fst (evaluate_pair_active i n)) \<in> {CloseHedge, ClosePrimary, CloseBoth}" for n
    using that by (cases rule: pair_active_cases [of i n]) (simp_all add: no_hedge_action_def)
  have trig: "\<not> should_trigger_hedge m i" if "hm_state m \<noteq> PrimaryOnly"
    using that by (simp add: should_trigger_hedge_def can_hedge_def)
  show ?thesis
  proof (cases "hm_state m")
    case PrimaryOnly
    then show ?thesis by (simp add: evaluate_primary_only_def no_hedge_action_def action_state_def)
  next
    case HedgeSentPending
    then show ?thesis using trig active close
      by (cases "hi_has_hedge i")
        (simp_all add: evaluate_hedge_pending_def, simp_all add: no_hedge_action_def action_state_def)
  qed (use trig active close in \<open>simp_all add: no_hedge_action_def action_state_def\<close>)
qed

section \<open>The hedge budget\<close>

text \<open>
  The calls the pipeline makes: an evaluation whose decision is carried out (\<open>sent\<close> tells
  whether the opening order was accepted), the loss of an order that was not filled
  (\<^verbatim>\<open>reset_hedge_state\<close>), the restoration of a pair that the exchange holds
  (\<^verbatim>\<open>sync_balance_from_exchange\<close>), and the reset of the trailing state.  A decision to close both
  legs resets the manager whether or not the closing orders were accepted, as the pipeline does.
\<close>

definition hedge_executed :: "hedge_action \<Rightarrow> bool \<Rightarrow> hedge_pair_manager \<Rightarrow> hedge_pair_manager" where
  "hedge_executed a sent m =
    (case a of
       HedgeNone \<Rightarrow> m
     | OpenHedge \<Rightarrow> if sent then notify_hedge_opened m else m
     | CloseBoth \<Rightarrow> notify_both_closed (hedge_reset m)
     | CloseHedge \<Rightarrow> notify_hedge_closed m
     | ClosePrimary \<Rightarrow> notify_reversed m)"

definition reset_hedge_state :: "hedge_pair_manager \<Rightarrow> hedge_pair_manager" where
  "reset_hedge_state m = (if hm_state m = HedgeSentPending then notify_hedge_failed m else m)"

definition restore_hedge_pair :: "hedge_pair_manager \<Rightarrow> hedge_pair_manager" where
  "restore_hedge_pair m = hedge_reset (notify_hedge_opened m)"

datatype hedge_event = HeTick hedge_pair_input bool | HeLost | HeRestored | HeReset

fun hedge_call :: "hedge_event \<Rightarrow> hedge_pair_manager \<Rightarrow> hedge_action \<times> hedge_pair_manager" where
  "hedge_call (HeTick i sent) m =
    (let (d, m) = hedge_evaluate i m in (hd_action d, hedge_executed (hd_action d) sent m))"
| "hedge_call HeLost m = (HedgeNone, reset_hedge_state m)"
| "hedge_call HeRestored m = (HedgeNone, restore_hedge_pair m)"
| "hedge_call HeReset m = (HedgeNone, hedge_reset m)"

text \<open>
  What an observer of the calls counts, without a look at the manager: a hedge order that was
  decided and accepted is under way; it has become a hedge when a later tick shows the second leg;
  the count starts again at a reset.
\<close>

record hedge_tally =
  ht_under_way :: bool
  ht_hedges :: nat

definition no_hedges :: hedge_tally where
  "no_hedges = \<lparr>ht_under_way = False, ht_hedges = 0\<rparr>"

fun observe :: "hedge_event \<Rightarrow> hedge_action \<Rightarrow> hedge_tally \<Rightarrow> hedge_tally" where
  "observe (HeTick i sent) a y =
    (let y = (if ht_under_way y \<and> hi_has_hedge i then \<lparr>ht_under_way = False, ht_hedges = Suc (ht_hedges y)\<rparr> else y)
     in if a = CloseBoth then no_hedges
        else if a = OpenHedge \<and> sent then y\<lparr>ht_under_way := True\<rparr> else y)"
| "observe HeLost a y = y\<lparr>ht_under_way := False\<rparr>"
| "observe HeRestored a y = no_hedges"
| "observe HeReset a y = no_hedges"

fun hedge_run :: "hedge_event list \<Rightarrow> hedge_pair_manager \<times> hedge_tally \<Rightarrow> hedge_pair_manager \<times> hedge_tally" where
  "hedge_run [] s = s"
| "hedge_run (e # es) (m, y) = (let (a, m') = hedge_call e m in hedge_run es (m', observe e a y))"

text \<open>The manager's count is the observer's.\<close>

definition hedge_inv :: "hedge_pair_manager \<times> hedge_tally \<Rightarrow> bool" where
  "hedge_inv s \<longleftrightarrow> (case s of (m, y) \<Rightarrow>
    hm_hedge_count m = int (ht_hedges y) \<and> hm_hedge_count m \<le> kMaxHedgesPerPosition \<and>
    (hm_state m = HedgeSentPending \<longrightarrow> hm_hedge_count m < kMaxHedgesPerPosition) \<and>
    ht_under_way y = (hm_state m = HedgeSentPending) \<and>
    hm_state m \<in> {PrimaryOnly, HedgeSentPending, PrimaryPlusHedge})"

lemma active_executed:
  assumes "hedge_inv (m, y)" "hm_state m = PrimaryPlusHedge"
  shows "hedge_inv (hedge_executed (hd_action (fst (evaluate_pair_active i m))) sent (snd (evaluate_pair_active i m)),
    if hd_action (fst (evaluate_pair_active i m)) = CloseBoth then no_hedges else y)"
  using assms
  by (cases rule: pair_active_cases [of i m])
    (auto simp: hedge_inv_def hedge_executed_def no_hedge_action_def notify_both_closed_def hedge_reset_def
      notify_hedge_closed_def notify_reversed_def no_hedges_def)

lemma hedge_tick_inv:
  assumes "hedge_inv (m, y)" and "hedge_call (HeTick i sent) m = (a, m')"
  shows "hedge_inv (m', observe (HeTick i sent) a y)"
proof -
  consider "hm_state m = PrimaryOnly" | "hm_state m = HedgeSentPending" | "hm_state m = PrimaryPlusHedge"
    using assms(1) by (auto simp: hedge_inv_def)
  then show ?thesis
  proof cases
    case 1
    then have w: "\<not> ht_under_way y" using assms(1) by (simp add: hedge_inv_def)
    show ?thesis
    proof (cases "should_trigger_hedge m i")
      case True
      then have "hm_hedge_count m < kMaxHedgesPerPosition"
        by (auto simp: should_trigger_hedge_def can_hedge_def split: if_splits)
      then show ?thesis using 1 True assms w
        by (auto simp: evaluate_primary_only_def hedge_executed_def notify_hedge_opened_def hedge_inv_def)
    next
      case False
      then show ?thesis using 1 assms w
        by (auto simp: evaluate_primary_only_def no_hedge_action_def hedge_executed_def)
    qed
  next
    case 2
    let ?n = "m\<lparr>hm_hedge_count := hm_hedge_count m + 1, hm_state := PrimaryPlusHedge\<rparr>"
    let ?y = "\<lparr>ht_under_way = False, ht_hedges = Suc (ht_hedges y)\<rparr>"
    show ?thesis
    proof (cases "hi_has_hedge i")
      case True
      have "hedge_inv (?n, ?y)" using 2 assms(1) by (simp add: hedge_inv_def)
      note ok = active_executed [OF this, of i sent, simplified] and no = active_action_state(2) [of i ?n]
      have "ht_under_way y" using 2 assms(1) by (simp add: hedge_inv_def)
      moreover have "a = hd_action (fst (evaluate_pair_active i ?n))"
        "m' = hedge_executed a sent (snd (evaluate_pair_active i ?n))"
        using 2 True assms(2) by (auto simp: evaluate_hedge_pending_def case_prod_unfold Let_def)
      ultimately show ?thesis using True ok no by (simp only: observe.simps Let_def simp_thms if_True if_False)
    next
      case False
      then show ?thesis using 2 assms
        by (auto simp: evaluate_hedge_pending_def no_hedge_action_def hedge_executed_def)
    qed
  next
    case 3
    then have "\<not> ht_under_way y" using assms(1) by (simp add: hedge_inv_def)
    then show ?thesis
      using 3 active_executed [OF assms(1) 3, of i sent] assms(2) active_action_state(2) [of i m]
      by (auto simp: case_prod_unfold Let_def)
  qed
qed

lemma hedge_call_inv:
  assumes "hedge_inv (m, y)" and "hedge_call e m = (a, m')"
  shows "hedge_inv (m', observe e a y)"
proof (cases e)
  case (HeTick i sent)
  then show ?thesis using hedge_tick_inv assms by simp
qed (use assms in \<open>auto simp: hedge_inv_def reset_hedge_state_def notify_hedge_failed_def restore_hedge_pair_def
      hedge_reset_def notify_hedge_opened_def no_hedges_def\<close>)

lemma hedge_run_inv: "hedge_inv s \<Longrightarrow> hedge_inv (hedge_run es s)"
proof (induction es s rule: hedge_run.induct)
  case (2 e es m y)
  obtain a m' where "hedge_call e m = (a, m')" by force
  then show ?case using 2 hedge_call_inv by simp
qed simp

text \<open>
  C35. A position gets at most two hedges between two resets of the manager: over every sequence of the
  pipeline's calls, an observer who counts the hedge orders that were decided, accepted and then seen as a
  second leg never counts more than two, and when the count is two or an order is under way no further
  hedge is decided, whatever the market data.  The pipeline resets the manager when both legs are closed, and
  also, with the position still open, when it reads the positions back from the exchange.
\<close>

theorem hedge_budget_respected:
  assumes "hedge_run es (hedge_manager_init, no_hedges) = (m, y)"
  shows "ht_hedges y \<le> 2 \<and>
    (ht_hedges y = 2 \<or> ht_under_way y \<longrightarrow> (\<forall>i. hd_action (fst (hedge_evaluate i m)) \<noteq> OpenHedge))"
proof -
  have "hedge_inv (hedge_manager_init, no_hedges)"
    by (simp add: hedge_inv_def hedge_manager_init_def no_hedges_def)
  from hedge_run_inv [OF this, of es] have inv: "hedge_inv (m, y)" using assms by simp
  have "hd_action (fst (hedge_evaluate i m)) \<noteq> OpenHedge" if "ht_hedges y = 2 \<or> ht_under_way y" for i
  proof -
    have "\<not> can_hedge m" using that inv by (auto simp: can_hedge_def hedge_inv_def)
    then show ?thesis using hedge_decision_coherent [of i m] by (simp add: should_trigger_hedge_def)
  qed
  then show ?thesis using inv by (auto simp: hedge_inv_def)
qed

text \<open>
  A pair that is found on the exchange is forgotten by the manager: the notification that a hedge is
  open is undone by the reset of the trailing state in the same call, so that the pair is neither
  counted nor unwound, and a further hedge is decided on the next trigger.
\<close>

theorem restored_pair_forgotten:
  "restore_hedge_pair m = hedge_manager_init \<and>
   (hd_action (fst (hedge_evaluate i (restore_hedge_pair m))) \<in> {HedgeNone, OpenHedge})"
  by (simp add: restore_hedge_pair_def hedge_reset_def notify_hedge_opened_def hedge_manager_init_def
      evaluate_primary_only_def no_hedge_action_def)

text \<open>
  The manager itself does not enforce the budget: a fill that is confirmed without a sent
  order is counted although \<open>can_hedge\<close> was false.
\<close>

theorem unsolicited_fill_exceeds_budget:
  "hm_hedge_count (confirm_hedge_filled \<lparr>hm_state = PrimaryOnly, hm_hedge_count = kMaxHedgesPerPosition\<rparr>) =
    kMaxHedgesPerPosition + 1"
  by (simp add: confirm_hedge_filled_def)

text \<open>
  Once a reversal has been decided the manager is silent until it is notified: it asks for
  nothing whatever happens to the pair, not even in an emergency.
\<close>

theorem reverse_transition_silent:
  assumes "hm_state m = ReverseTransition"
  shows "hedge_evaluate i m = (no_hedge_action, m)"
  using assms by simp

end
