(* ===== verification/Pair_Lifecycle.thy ===== *)
theory Pair_Lifecycle
  imports Dual_Leg Hedge_Pair_Laws
begin

text \<open>
  The pair life-cycle engine (\<^verbatim>\<open>src/src/pipeline/pair_lifecycle_engine.{hpp,cpp}\<close>): the modes
  of a long and short pair and the decision in each mode.  Reason texts (\<^verbatim>\<open>std::format\<close>) and
  log lines are left out; the fields that no method reads stay in the records.
\<close>

section \<open>Types\<close>

datatype pair_mode = NoPair | CompressionPair | TransitionPair | BreakoutShield | AsymmetricRunner

fun pair_mode_to_string :: "pair_mode \<Rightarrow> string" where
  "pair_mode_to_string NoPair = ''NoPair''"
| "pair_mode_to_string CompressionPair = ''CompressionPair''"
| "pair_mode_to_string TransitionPair = ''TransitionPair''"
| "pair_mode_to_string BreakoutShield = ''BreakoutShield''"
| "pair_mode_to_string AsymmetricRunner = ''AsymmetricRunner''"

record pair_leg =
  pl_side :: position_side
  pl_size :: double
  pl_entry_price :: double
  pl_unrealized_pnl_bps :: double
  pl_continuation_score :: double
  pl_protective_stop :: double
  pl_active :: bool

definition empty_pair_leg :: pair_leg where
  "empty_pair_leg =
    \<lparr>pl_side = Long, pl_size = 0, pl_entry_price = 0, pl_unrealized_pnl_bps = 0,
     pl_continuation_score = 0, pl_protective_stop = 0, pl_active = False\<rparr>"

record pair_state =
  pt_symbol :: symbol
  pt_mode :: pair_mode
  pt_long_leg :: pair_leg
  pt_short_leg :: pair_leg
  pt_net_pair_pnl_bps :: double
  pt_gross_notional :: double
  pt_net_exposure :: double
  pt_funding_drag_bps :: double
  pt_pair_quality :: double

definition empty_pair_state :: pair_state where
  "empty_pair_state =
    \<lparr>pt_symbol = [], pt_mode = NoPair, pt_long_leg = empty_pair_leg, pt_short_leg = empty_pair_leg,
     pt_net_pair_pnl_bps = 0, pt_gross_notional = 0, pt_net_exposure = 0, pt_funding_drag_bps = 0,
     pt_pair_quality = 0\<rparr>"

datatype pair_action =
    PairNone | OpenCompressionPair | OpenTransitionPair | OpenBreakoutShield | TrimWeakLeg
  | PromoteToRunner | RebalancePair | CloseBothProfit | CloseBothEmergency | ReverseLeg

fun pair_action_to_string :: "pair_action \<Rightarrow> string" where
  "pair_action_to_string PairNone = ''None''"
| "pair_action_to_string OpenCompressionPair = ''OpenCompressionPair''"
| "pair_action_to_string OpenTransitionPair = ''OpenTransitionPair''"
| "pair_action_to_string OpenBreakoutShield = ''OpenBreakoutShield''"
| "pair_action_to_string TrimWeakLeg = ''TrimWeakLeg''"
| "pair_action_to_string PromoteToRunner = ''PromoteToRunner''"
| "pair_action_to_string RebalancePair = ''RebalancePair''"
| "pair_action_to_string CloseBothProfit = ''CloseBothProfit''"
| "pair_action_to_string CloseBothEmergency = ''CloseBothEmergency''"
| "pair_action_to_string ReverseLeg = ''ReverseLeg''"

record pair_decision =
  pd_action :: pair_action
  pd_hedge_ratio :: double
  pd_urgency :: double
  pd_state :: pair_state

record pair_market_input =
  pi_symbol :: symbol
  pi_regime_stability :: double
  pi_regime_confidence :: double
  pi_cusum_regime_change :: bool
  pi_uncertainty :: double
  pi_p_continue :: double
  pi_p_reversal :: double
  pi_p_shock :: double
  pi_spread_bps :: double
  pi_depth_usd :: double
  pi_vpin_toxic :: bool
  pi_toxic_flow_score :: double
  pi_trend_persistence :: double
  pi_momentum :: double
  pi_momentum_valid :: bool
  pi_funding_rate :: double
  pi_taker_fee_pct :: double
  pi_atr :: double
  pi_mid_price :: double
  pi_total_capital :: double
  pi_exit_score_primary :: double
  pi_exit_score_hedge :: double
  pi_primary_side :: position_side
  pi_primary_size :: double
  pi_primary_pnl :: double
  pi_primary_pnl_pct :: double
  pi_primary_hold_ns :: int
  pi_has_hedge :: bool
  pi_hedge_size :: double
  pi_hedge_pnl :: double
  pi_hedge_pnl_pct :: double
  pi_hedge_hold_ns :: int

record pair_lifecycle_config =
  plc_compression_min_regime_stability :: double
  plc_compression_max_spread_bps :: double
  plc_compression_min_depth_usd :: double
  plc_transition_min_p_reversal :: double
  plc_transition_max_uncertainty :: double
  plc_breakout_min_trend_persistence :: double
  plc_breakout_max_shock_prob :: double
  plc_pair_profit_floor_bps :: double
  plc_min_pair_quality :: double
  plc_max_unhedged_leg_ms :: double
  plc_emergency_loss_threshold_bps :: double
  plc_hedge_trigger_loss_pct :: double

definition default_pair_lifecycle_config :: pair_lifecycle_config where
  "default_pair_lifecycle_config =
    \<lparr>plc_compression_min_regime_stability = lit 0.55, plc_compression_max_spread_bps = lit 30,
     plc_compression_min_depth_usd = lit 500, plc_transition_min_p_reversal = lit 0.15,
     plc_transition_max_uncertainty = lit 0.80, plc_breakout_min_trend_persistence = lit 0.30,
     plc_breakout_max_shock_prob = lit 0.25, plc_pair_profit_floor_bps = lit 6,
     plc_min_pair_quality = lit 0.55, plc_max_unhedged_leg_ms = lit 250,
     plc_emergency_loss_threshold_bps = - lit 50, plc_hedge_trigger_loss_pct = lit 1.5\<rparr>"

record pair_lifecycle =
  ple_config :: pair_lifecycle_config
  ple_hedge_manager :: "hedge_pair_manager option"
  ple_mode :: pair_mode
  ple_state :: pair_state

section \<open>Scores\<close>

definition pair_hedge_ratio :: "pair_market_input \<Rightarrow> double" where
  "pair_hedge_ratio i =
    (let base = lit 0.70;
         base = (if pi_cusum_regime_change i \<and> pi_regime_stability i < lit 0.35 then 1 else base);
         base = (if pi_exit_score_primary i < - lit 0.15 then std_min (base + lit 0.20) (lit 1.20) else base);
         base = (if pi_vpin_toxic i then std_max base 1 else base);
         funding = (if pi_primary_side i = Long then pi_funding_rate i else - pi_funding_rate i);
         base = (if lit 0.001 < \<bar>funding\<bar> then base * lit 0.80 else base);
         base = (if pi_depth_usd i < lit 1000 then std_min base (lit 0.80) else base)
     in std_clamp base (lit 0.20) (lit 1.20))"

definition pair_quality :: "pair_market_input \<Rightarrow> double" where
  "pair_quality i =
    (let q = 1;
         q = q - pi_toxic_flow_score i * lit 0.25;
         q = q - std_max (pi_spread_bps i - lit 15) 0 / lit 100;
         q = q - (if pi_depth_usd i < lit 1000 then lit 0.15 else 0);
         q = q - pi_uncertainty i * lit 0.15;
         q = q + pi_regime_stability i * lit 0.10;
         drag = \<bar>pi_funding_rate i\<bar> * lit 3 * lit 365 * lit 100;
         q = q - std_min (drag / lit 100) (lit 0.20)
     in std_clamp q 0 1)"

definition pair_close_score :: "pair_state \<Rightarrow> pair_market_input \<Rightarrow> double" where
  "pair_close_score st i =
    (let fees = pi_taker_fee_pct i * lit 100 * lit 2;
         slip = pi_spread_bps i * lit 0.5;
         score = pt_net_pair_pnl_bps st - fees - slip - pt_funding_drag_bps st;
         score = (if pi_cusum_regime_change i then score - lit 3 else score)
     in if pi_vpin_toxic i then score - lit 5 else score)"

definition select_pair_mode :: "pair_lifecycle_config \<Rightarrow> pair_market_input \<Rightarrow> pair_mode" where
  "select_pair_mode cfg i =
    (if pi_has_hedge i then NoPair
     else if pi_primary_size i \<le> 0 then NoPair
     else if plc_breakout_min_trend_persistence cfg < \<bar>pi_trend_persistence i\<bar> \<and>
             lit 0.08 < pi_p_shock i \<and> pi_p_shock i < plc_breakout_max_shock_prob cfg then BreakoutShield
     else if plc_compression_min_regime_stability cfg < pi_regime_stability i \<and>
             \<bar>pi_trend_persistence i\<bar> < lit 0.20 \<and>
             pi_spread_bps i < plc_compression_max_spread_bps cfg \<and>
             plc_compression_min_depth_usd cfg < pi_depth_usd i \<and> \<not> pi_vpin_toxic i then CompressionPair
     else if plc_transition_min_p_reversal cfg < pi_p_reversal i \<and> lit 0.20 < pi_p_continue i \<and>
             pi_uncertainty i < plc_transition_max_uncertainty cfg \<and>
             pi_primary_pnl_pct i < - plc_hedge_trigger_loss_pct cfg then TransitionPair
     else NoPair)"

section \<open>State update\<close>

definition refreshed_leg :: "double \<Rightarrow> double \<Rightarrow> double \<Rightarrow> pair_leg \<Rightarrow> pair_leg" where
  "refreshed_leg qty pnl_pct score l =
    l\<lparr>pl_active := True, pl_size := qty, pl_unrealized_pnl_bps := pnl_pct * lit 100, pl_continuation_score := score\<rparr>"

definition on_pair_leg :: "position_side \<Rightarrow> (pair_leg \<Rightarrow> pair_leg) \<Rightarrow> pair_state \<Rightarrow> pair_state" where
  "on_pair_leg s f st =
    (if s = Long then st\<lparr>pt_long_leg := f (pt_long_leg st)\<rparr> else st\<lparr>pt_short_leg := f (pt_short_leg st)\<rparr>)"

definition pair_update_state :: "pair_market_input \<Rightarrow> pair_lifecycle \<Rightarrow> pair_lifecycle" where
  "pair_update_state i e =
    (let st = (ple_state e)\<lparr>pt_symbol := pi_symbol i, pt_mode := ple_mode e\<rparr>;
         st = (if 0 < pi_primary_size i
               then on_pair_leg (pi_primary_side i)
                      (refreshed_leg (pi_primary_size i) (pi_primary_pnl_pct i) (pi_exit_score_primary i)) st
               else st);
         st = (if pi_has_hedge i \<and> 0 < pi_hedge_size i
               then on_pair_leg (opposite_side (pi_primary_side i))
                      (refreshed_leg (pi_hedge_size i) (pi_hedge_pnl_pct i) (pi_exit_score_hedge i)) st
               else st);
         l = pt_long_leg st; s = pt_short_leg st
     in e\<lparr>ple_state := st
          \<lparr>pt_net_pair_pnl_bps := pl_unrealized_pnl_bps l + pl_unrealized_pnl_bps s,
           pt_gross_notional := (pl_size l + pl_size s) * pi_mid_price i,
           pt_net_exposure := (pl_size l - pl_size s) * pi_mid_price i,
           pt_funding_drag_bps :=
             (if pi_primary_side i = Long then pi_funding_rate i * lit 100 else (- pi_funding_rate i) * lit 100),
           pt_pair_quality := pair_quality i\<rparr>\<rparr>)"

section \<open>Decisions\<close>

definition pair_decide :: "pair_state \<Rightarrow> pair_action \<Rightarrow> double \<Rightarrow> double \<Rightarrow> pair_decision" where
  "pair_decide st a ratio u = \<lparr>pd_action = a, pd_hedge_ratio = ratio, pd_urgency = u, pd_state = st\<rparr>"

definition pair_hold :: "pair_state \<Rightarrow> pair_decision" where
  "pair_hold st = pair_decide st PairNone 1 0"

definition evaluate_no_pair :: "pair_lifecycle \<Rightarrow> pair_market_input \<Rightarrow> pair_decision" where
  "evaluate_no_pair e i =
    (let st = ple_state e
     in if pi_primary_size i \<le> 0 then pair_hold st
        else case select_pair_mode (ple_config e) i of
          CompressionPair \<Rightarrow>
            pair_decide st OpenCompressionPair (std_clamp (pair_hedge_ratio i) (lit 0.85) (lit 1.15)) (lit 0.4)
        | TransitionPair \<Rightarrow>
            pair_decide st OpenTransitionPair (std_clamp (pair_hedge_ratio i) (lit 0.35) (lit 0.60)) (lit 0.5)
        | BreakoutShield \<Rightarrow>
            pair_decide st OpenBreakoutShield
              (std_clamp (lit 0.20 + pi_p_shock i * lit 0.5) (lit 0.20) (lit 0.35)) (lit 0.6)
        | _ \<Rightarrow> pair_hold st)"

definition pair_emergency :: "pair_lifecycle \<Rightarrow> pair_market_input \<Rightarrow> bool" where
  "pair_emergency e i \<longleftrightarrow> pi_vpin_toxic i \<and>
    pt_net_pair_pnl_bps (ple_state e) < plc_emergency_loss_threshold_bps (ple_config e)"

definition evaluate_compression :: "pair_lifecycle \<Rightarrow> pair_market_input \<Rightarrow> pair_decision" where
  "evaluate_compression e i =
    (let st = ple_state e; cfg = ple_config e;
         close_score = pair_close_score st i; quality = pair_quality i
     in if pair_emergency e i then pair_decide st CloseBothEmergency 1 1
        else if plc_pair_profit_floor_bps cfg < close_score \<and> quality < plc_min_pair_quality cfg
          then pair_decide st CloseBothProfit 1 (std_clamp (close_score / lit 20) (lit 0.4) (lit 0.9))
        else if lit 0.45 < \<bar>pi_trend_persistence i\<bar> \<and> lit 0.60 < pi_regime_stability i
          then pair_decide st TrimWeakLeg 1 (lit 0.6)
        else if quality < plc_min_pair_quality cfg * lit 0.7 \<and>
                lit 0.15 < \<bar>pair_hedge_ratio i -
                  pl_size (pt_long_leg st) / std_max (pl_size (pt_short_leg st)) (lit 0.000000001)\<bar>
          then pair_decide st RebalancePair (pair_hedge_ratio i) (lit 0.3)
        else pair_hold st)"

definition evaluate_transition :: "pair_lifecycle \<Rightarrow> pair_market_input \<Rightarrow> pair_decision" where
  "evaluate_transition e i =
    (let st = ple_state e; close_score = pair_close_score st i
     in if pair_emergency e i then pair_decide st CloseBothEmergency 1 1
        else if lit 0.65 < pi_regime_stability i \<and> lit 0.35 < \<bar>pi_trend_persistence i\<bar>
          then pair_decide st PromoteToRunner 1 (lit 0.5)
        else if lit 0.65 < pi_regime_stability i \<and> \<bar>pi_trend_persistence i\<bar> < lit 0.15
          then pair_decide st OpenCompressionPair (pair_hedge_ratio i) (lit 0.3)
        else if plc_pair_profit_floor_bps (ple_config e) < close_score
          then pair_decide st CloseBothProfit 1 (std_clamp (close_score / lit 15) (lit 0.4) (lit 0.85))
        else pair_hold st)"

definition evaluate_breakout_shield :: "pair_lifecycle \<Rightarrow> pair_market_input \<Rightarrow> pair_decision" where
  "evaluate_breakout_shield e i =
    (let st = ple_state e
     in if pair_emergency e i then pair_decide st CloseBothEmergency 1 1
        else if lit 0.55 < \<bar>pi_trend_persistence i\<bar> \<and> pi_p_shock i < lit 0.10 \<and> lit 0.55 < pi_regime_stability i
          then pair_decide st PromoteToRunner 1 (lit 0.4)
        else if \<bar>pi_trend_persistence i\<bar> < lit 0.10 \<and> pi_regime_stability i < lit 0.40 \<and>
                - lit 5 < pair_close_score st i
          then pair_decide st CloseBothProfit 1 (lit 0.6)
        else if plc_breakout_max_shock_prob (ple_config e) * lit 1.5 < pi_p_shock i
          then pair_decide st RebalancePair (std_clamp (lit 0.20 + pi_p_shock i * lit 0.6) (lit 0.25) (lit 0.50)) (lit 0.5)
        else pair_hold st)"

definition evaluate_asymmetric_runner :: "pair_lifecycle \<Rightarrow> pair_market_input \<Rightarrow> pair_decision" where
  "evaluate_asymmetric_runner e i =
    (let st = ple_state e
     in if pi_cusum_regime_change i \<and> pi_regime_stability i < lit 0.40
          then pair_decide st OpenBreakoutShield
                 (std_clamp (lit 0.20 + pi_p_reversal i * lit 0.4) (lit 0.20) (lit 0.35)) (lit 0.7)
        else if pi_exit_score_primary i < - lit 0.25 \<and> lit 0.35 < pi_p_reversal i
          then pair_decide st ReverseLeg 1 (lit 0.6)
        else pair_hold st)"

definition pair_evaluate :: "pair_market_input \<Rightarrow> pair_lifecycle \<Rightarrow> pair_decision \<times> pair_lifecycle" where
  "pair_evaluate i e =
    (let e = pair_update_state i e
     in (case ple_mode e of
           NoPair \<Rightarrow> evaluate_no_pair e i
         | CompressionPair \<Rightarrow> evaluate_compression e i
         | TransitionPair \<Rightarrow> evaluate_transition e i
         | BreakoutShield \<Rightarrow> evaluate_breakout_shield e i
         | AsymmetricRunner \<Rightarrow> evaluate_asymmetric_runner e i, e))"

section \<open>Notifications\<close>

definition notify_pair_opened :: "pair_mode \<Rightarrow> pair_leg \<Rightarrow> pair_leg \<Rightarrow> pair_lifecycle \<Rightarrow> pair_lifecycle" where
  "notify_pair_opened mode l s e =
    e\<lparr>ple_mode := mode, ple_state := (ple_state e)\<lparr>pt_long_leg := l, pt_short_leg := s, pt_mode := mode\<rparr>\<rparr>"

definition notify_pair_closed :: "pair_lifecycle \<Rightarrow> pair_lifecycle" where
  "notify_pair_closed e = e\<lparr>ple_mode := NoPair, ple_state := empty_pair_state\<rparr>"

definition notify_leg_trimmed :: "position_side \<Rightarrow> pair_lifecycle \<Rightarrow> pair_lifecycle" where
  "notify_leg_trimmed s e =
    e\<lparr>ple_mode := AsymmetricRunner,
      ple_state := on_pair_leg s (\<lambda>_. empty_pair_leg) ((ple_state e)\<lparr>pt_mode := AsymmetricRunner\<rparr>)\<rparr>"

definition pair_reset :: "pair_lifecycle \<Rightarrow> pair_lifecycle" where
  "pair_reset e =
    e\<lparr>ple_mode := NoPair, ple_state := empty_pair_state,
      ple_hedge_manager := map_option hedge_reset (ple_hedge_manager e)\<rparr>"

end
