(* ===== verification/Pair_Execution.thy ===== *)
theory Pair_Execution
  imports Pair_Lifecycle Reason_Codes
begin

text \<open>
  The coordinator that carries out pair decisions
  (\<^verbatim>\<open>src/src/pipeline/pair_execution_coordinator.{hpp,cpp}\<close>) and the record of pair results
  (\<^verbatim>\<open>src/src/pipeline/pair_economics.{hpp,cpp}\<close>).  The readings of the clock are parameters;
  close reasons, log lines and metrics are left out.
\<close>

section \<open>Coordinator\<close>

record pair_entry_exec_result =
  pee_success :: bool
  pee_long_order_id :: string
  pee_short_order_id :: string
  pee_long_fill_price :: double
  pee_short_fill_price :: double
  pee_long_fill_qty :: double
  pee_short_fill_qty :: double
  pee_fill_skew_ns :: int
  pee_error :: string

definition empty_entry_exec :: pair_entry_exec_result where
  "empty_entry_exec =
    \<lparr>pee_success = False, pee_long_order_id = [], pee_short_order_id = [], pee_long_fill_price = 0,
     pee_short_fill_price = 0, pee_long_fill_qty = 0, pee_short_fill_qty = 0, pee_fill_skew_ns = 0, pee_error = []\<rparr>"

record pair_close_exec_result =
  pce_success :: bool
  pce_net_realized_pnl :: double
  pce_error :: string

record pair_exec_config =
  pxc_max_fill_skew_ms :: double
  pxc_enable_batch_entry :: bool
  pxc_enable_batch_close :: bool
  pxc_attach_server_tpsl :: bool
  pxc_stp_mode :: string

definition default_pair_exec_config :: pair_exec_config where
  "default_pair_exec_config =
    \<lparr>pxc_max_fill_skew_ms = lit 150, pxc_enable_batch_entry = True, pxc_enable_batch_close = True,
     pxc_attach_server_tpsl = True, pxc_stp_mode = ''cancel_taker''\<rparr>"

text \<open>\<open>px_legs\<close> is the dual leg manager, which may be absent.\<close>

record pair_exec =
  px_config :: pair_exec_config
  px_legs :: "dual_leg option"
  px_orphan_detected :: bool
  px_orphan_side :: position_side
  px_orphan_detect_time_ns :: int
  px_active_symbol :: "symbol option"

definition pair_exec_init :: "pair_exec_config \<Rightarrow> dual_leg option \<Rightarrow> pair_exec" where
  "pair_exec_init cfg d =
    \<lparr>px_config = cfg, px_legs = d, px_orphan_detected = False, px_orphan_side = Long,
     px_orphan_detect_time_ns = 0, px_active_symbol = None\<rparr>"

definition pair_leg_spec :: "bool \<Rightarrow> dual_leg_config \<Rightarrow> double \<Rightarrow> position_side \<Rightarrow> double \<Rightarrow> leg_spec" where
  "pair_leg_spec tpsl cfg hint s qty =
    (let (tp, sl) = (if tpsl then compute_tpsl cfg hint s else (0, 0))
     in \<lparr>lp_side = s, lp_size = qty, lp_entry_price_hint = hint, lp_tp_price = tp, lp_sl_price = sl\<rparr>)"

definition execute_pair_entry ::
    "venue \<Rightarrow> (nat \<Rightarrow> int) \<Rightarrow> pair_decision \<Rightarrow> symbol \<Rightarrow> double \<Rightarrow> double \<Rightarrow> pair_exec \<Rightarrow>
     pair_entry_exec_result \<times> pair_exec" where
  "execute_pair_entry vn clock d s base hint x =
    (case px_legs x of
       None \<Rightarrow> (empty_entry_exec\<lparr>pee_error := ''DualLegManager not available''\<rparr>, x)
     | Some legs \<Rightarrow>
         let hedge = base * pd_hedge_ratio d;
             spec = pair_leg_spec (pxc_attach_server_tpsl (px_config x)) (dl_config legs) hint;
             (res, legs) = enter_pair vn (clock 1) s (spec Long base) (spec Short hedge) legs;
             x = x\<lparr>px_legs := Some legs\<rparr>
         in if \<not> per_success res
            then (empty_entry_exec\<lparr>pee_error := per_error res\<rparr>,
                  if lg_state (dl_long_leg legs) = LegActive \<or> lg_state (dl_long_leg legs) = LegPendingEntry
                  then x\<lparr>px_orphan_detected := True, px_orphan_side := Long, px_orphan_detect_time_ns := clock 2\<rparr>
                  else x)
            else (empty_entry_exec
                   \<lparr>pee_success := True,
                    pee_long_order_id := lg_exchange_order_id (per_long_leg res),
                    pee_short_order_id := lg_exchange_order_id (per_short_leg res),
                    pee_long_fill_qty := base, pee_short_fill_qty := hedge,
                    pee_fill_skew_ns := clock 2 - clock 0\<rparr>,
                  x\<lparr>px_active_symbol := Some s, px_orphan_detected := False\<rparr>))"

definition execute_pair_close :: "venue \<Rightarrow> int \<Rightarrow> pair_state \<Rightarrow> pair_exec \<Rightarrow> pair_close_exec_result \<times> pair_exec" where
  "execute_pair_close vn tnow st x =
    (let res = \<lparr>pce_success = False, pce_net_realized_pnl = 0, pce_error = []\<rparr>
     in case px_legs x of
          None \<Rightarrow> (res\<lparr>pce_error := ''DualLegManager not available''\<rparr>, x)
        | Some legs \<Rightarrow>
            let x = x\<lparr>px_active_symbol := Some (pt_symbol st)\<rparr>;
                (ok, legs) = close_both vn (pt_symbol st) legs;
                x = x\<lparr>px_legs := Some legs\<rparr>;
                l = lg_state (dl_long_leg legs); sh = lg_state (dl_short_leg legs)
            in if \<not> ok
               then (res\<lparr>pce_error := ''close_both failed''\<rparr>,
                     if l = LegActive \<and> sh \<noteq> LegActive
                     then x\<lparr>px_orphan_detected := True, px_orphan_side := Long, px_orphan_detect_time_ns := tnow\<rparr>
                     else if sh = LegActive \<and> l \<noteq> LegActive
                     then x\<lparr>px_orphan_detected := True, px_orphan_side := Short, px_orphan_detect_time_ns := tnow\<rparr>
                     else x)
               else (res\<lparr>pce_success := True, pce_net_realized_pnl := pt_net_pair_pnl_bps st\<rparr>,
                     x\<lparr>px_orphan_detected := False\<rparr>))"

definition close_single_leg :: "venue \<Rightarrow> position_side \<Rightarrow> pair_exec \<Rightarrow> bool \<times> pair_exec" where
  "close_single_leg vn s x =
    (case px_legs x of
       None \<Rightarrow> (False, x)
     | Some legs \<Rightarrow>
         (case px_active_symbol x of
            None \<Rightarrow> (False, x)
          | Some symb \<Rightarrow>
              let leg = leg_of s legs
              in if lg_state leg \<noteq> LegActive \<or> lg_size leg \<le> 0 then (False, x)
                 else let (ok, legs) = close_leg vn symb s (lg_size leg) legs
                      in (ok, x\<lparr>px_legs := Some legs\<rparr>)))"

definition execute_reversal ::
    "venue \<Rightarrow> int \<Rightarrow> position_side \<Rightarrow> double \<Rightarrow> symbol \<Rightarrow> pair_exec \<Rightarrow> bool \<times> pair_exec" where
  "execute_reversal vn tnow s qty symb x =
    (case px_legs x of
       None \<Rightarrow> (False, x)
     | Some legs \<Rightarrow>
         let (res, legs) = reverse_leg vn tnow symb s qty legs
         in (rr_success res, x\<lparr>px_legs := Some legs\<rparr>))"

definition has_orphan_leg :: "pair_exec \<Rightarrow> bool" where
  "has_orphan_leg x \<longleftrightarrow> px_orphan_detected x"

definition cleanup_orphan_leg :: "venue \<Rightarrow> pair_exec \<Rightarrow> pair_exec" where
  "cleanup_orphan_leg vn x =
    (case px_legs x of
       None \<Rightarrow> x
     | Some legs \<Rightarrow>
         if \<not> px_orphan_detected x then x
         else
           let s = px_orphan_side x; leg = leg_of s legs
           in case px_active_symbol x of
                None \<Rightarrow> x
              | Some symb \<Rightarrow>
                  if lg_state leg = LegActive \<and> 0 < lg_size leg
                  then let (ok, legs) = close_leg vn symb s (lg_size leg) legs;
                           x = x\<lparr>px_legs := Some legs\<rparr>
                       in if \<not> ok then x else x\<lparr>px_orphan_detected := False\<rparr>
                  else x\<lparr>px_orphan_detected := False\<rparr>)"

section \<open>Economics\<close>

record pair_economics_record =
  pe_symbol :: symbol
  pe_strategy_id :: strategy_id
  pe_correlation_id :: string
  pe_primary_gross_pnl :: double
  pe_hedge_gross_pnl :: double
  pe_gross_pair_pnl :: double
  pe_net_pair_pnl :: double
  pe_total_fees :: double
  pe_total_funding :: double
  pe_total_slippage :: double
  pe_time_in_pair_ns :: int
  pe_primary_hold_ns :: int
  pe_hedge_hold_ns :: int
  pe_exit_efficiency :: double
  pe_primary_exit_reason :: reason_code
  pe_hedge_exit_reason :: reason_code
  pe_primary_size :: double
  pe_hedge_size :: double
  pe_hedge_ratio_actual :: double
  pe_opened_at :: timestamp
  pe_closed_at :: timestamp

record pair_daily_stats =
  pds_pair_cycles :: int
  pds_win_count :: int
  pds_total_gross_pnl :: double
  pds_total_net_pnl :: double
  pds_total_fees :: double
  pds_total_funding :: double
  pds_total_slippage :: double
  pds_avg_exit_efficiency :: double
  pds_avg_time_in_pair_sec :: double
  pds_win_rate :: double

definition empty_pair_daily :: pair_daily_stats where
  "empty_pair_daily =
    \<lparr>pds_pair_cycles = 0, pds_win_count = 0, pds_total_gross_pnl = 0, pds_total_net_pnl = 0, pds_total_fees = 0,
     pds_total_funding = 0, pds_total_slippage = 0, pds_avg_exit_efficiency = 0, pds_avg_time_in_pair_sec = 0,
     pds_win_rate = 0\<rparr>"

record pair_economics =
  pec_records :: "pair_economics_record list"
  pec_daily :: pair_daily_stats

abbreviation kMaxPairRecords :: nat where
  "kMaxPairRecords \<equiv> 500"

definition pair_daily_add :: "pair_economics_record \<Rightarrow> pair_daily_stats \<Rightarrow> pair_daily_stats" where
  "pair_daily_add r d =
    (let n = pds_pair_cycles d + 1;
         time_sec = dint (pe_time_in_pair_ns r) / lit 1000000000;
         wins = (if 0 < pe_net_pair_pnl r then pds_win_count d + 1 else pds_win_count d)
     in d\<lparr>pds_pair_cycles := n,
          pds_total_gross_pnl := pds_total_gross_pnl d + pe_gross_pair_pnl r,
          pds_total_net_pnl := pds_total_net_pnl d + pe_net_pair_pnl r,
          pds_total_fees := pds_total_fees d + pe_total_fees r,
          pds_total_funding := pds_total_funding d + pe_total_funding r,
          pds_total_slippage := pds_total_slippage d + pe_total_slippage r,
          pds_avg_exit_efficiency := pds_avg_exit_efficiency d + (pe_exit_efficiency r - pds_avg_exit_efficiency d) / dint n,
          pds_avg_time_in_pair_sec := pds_avg_time_in_pair_sec d + (time_sec - pds_avg_time_in_pair_sec d) / dint n,
          pds_win_count := wins,
          pds_win_rate := dint wins / dint n\<rparr>)"

definition pair_record :: "pair_economics_record \<Rightarrow> pair_economics \<Rightarrow> pair_economics" where
  "pair_record r p =
    (let rs = pec_records p @ [r]
     in p\<lparr>pec_daily := pair_daily_add r (pec_daily p),
          pec_records := (if kMaxPairRecords < length rs then tl rs else rs)\<rparr>)"

definition pair_recent :: "nat \<Rightarrow> pair_economics \<Rightarrow> pair_economics_record list" where
  "pair_recent n p = (let k = min n (length (pec_records p)) in drop (length (pec_records p) - k) (pec_records p))"

definition pair_daily_stats_of :: "pair_economics \<Rightarrow> pair_daily_stats" where
  "pair_daily_stats_of p = pec_daily p"

definition pair_reset_daily :: "pair_economics \<Rightarrow> pair_economics" where
  "pair_reset_daily p = p\<lparr>pec_daily := empty_pair_daily\<rparr>"

end
