(* ===== verification/Pair_Laws.thy ===== *)
theory Pair_Laws
  imports Pair_Execution
begin

text \<open>
  What the pair components promise: the orders that an entry asks for and the legs that it leaves
  on the exchange, the side of the
  protective prices, the actions and hedge ratios of each pair mode, the orphan flag of the
  coordinator, and the counters of the pair results; and what they do not keep.
\<close>

section \<open>Entry of a pair\<close>

lemma venue_simps [simp]:
  "dl_requests (snd (venue_submit vn r d)) = dl_requests d @ [ReqSubmit r]"
  "dl_requests (snd (venue_cancel vn oid s d)) = dl_requests d @ [ReqCancel oid s]"
  "fst (venue_submit vn r d) = vn_submit vn (length (dl_requests d)) r"
  "dl_config (snd (venue_submit vn r d)) = dl_config d"
  "dl_long_leg (snd (venue_submit vn r d)) = dl_long_leg d"
  "dl_short_leg (snd (venue_submit vn r d)) = dl_short_leg d"
  "dl_last_reversal_ns (snd (venue_submit vn r d)) = dl_last_reversal_ns d"
  "dl_long_leg (snd (venue_cancel vn oid s d)) = dl_long_leg d"
  "dl_short_leg (snd (venue_cancel vn oid s d)) = dl_short_leg d"
  by (simp_all add: venue_submit_def venue_cancel_def)

lemma set_leg_simps [simp]:
  "dl_requests (set_leg ps l d) = dl_requests d"
  "dl_last_reversal_ns (set_leg ps l d) = dl_last_reversal_ns d"
  "dl_config (set_leg ps l d) = dl_config d"
  "leg_of ps (set_leg ps l d) = l"
  "ps' \<noteq> ps \<Longrightarrow> leg_of ps' (set_leg ps l d) = leg_of ps' d"
  by (cases ps; cases ps'; simp add: set_leg_def leg_of_def)+

lemma close_leg_requests [simp]:
  "dl_requests (snd (close_leg vn s ps q d)) = dl_requests d @ [ReqSubmit (close_order s ps q)]"
  "dl_last_reversal_ns (snd (close_leg vn s ps q d)) = dl_last_reversal_ns d"
  by (simp_all add: close_leg_def case_prod_unfold Let_def)

lemma close_leg_result:
  "fst (close_leg vn s ps q d) \<longleftrightarrow> sr_success (vn_submit vn (length (dl_requests d)) (close_order s ps q))"
  "leg_of ps (snd (close_leg vn s ps q d)) =
    (if fst (close_leg vn s ps q d) then (leg_of ps d)\<lparr>lg_state := LegPendingExit\<rparr> else leg_of ps d)"
  "ps' \<noteq> ps \<Longrightarrow> leg_of ps' (snd (close_leg vn s ps q d)) = leg_of ps' d"
  by (cases ps; cases ps'; simp add: close_leg_def case_prod_unfold Let_def leg_of_def set_leg_def)+

text \<open>What the orders of an entry have to say, field by field.\<close>

definition protected_by :: "double \<Rightarrow> double \<Rightarrow> attached_tp_sl \<Rightarrow> bool" where
  "protected_by tp sl t \<longleftrightarrow>
    tp_stop_surplus_price t = tp \<and> sl_stop_loss_price t = sl \<and> tpsl_trigger_type t = MarkPrice"

definition opens_leg :: "dual_leg_config \<Rightarrow> symbol \<Rightarrow> position_side \<Rightarrow> side \<Rightarrow> leg_spec \<Rightarrow> order_record \<Rightarrow> bool" where
  "opens_leg cfg s ps sd sp r \<longleftrightarrow>
    o_symbol r = s \<and> o_position_side r = ps \<and> o_side r = sd \<and> o_trade_side r = TradeOpen \<and>
    o_order_type r = Market \<and> o_tif r = ImmediateOrCancel \<and> o_original_quantity r = lp_size sp \<and>
    o_remaining_quantity r = lp_size sp \<and> o_price r = lp_entry_price_hint sp \<and>
    (dc_attach_server_tpsl cfg \<and> \<not> bad_amount (lp_tp_price sp) \<and> \<not> bad_amount (lp_sl_price sp) \<longrightarrow>
      protected_by (lp_tp_price sp) (lp_sl_price sp) (o_attached_tp_sl r)) \<and>
    (\<not> dc_attach_server_tpsl cfg \<or> bad_amount (lp_tp_price sp) \<or> bad_amount (lp_sl_price sp) \<longrightarrow>
      \<not> has_tp (o_attached_tp_sl r) \<and> \<not> has_sl (o_attached_tp_sl r))"

definition closes_long :: "symbol \<Rightarrow> double \<Rightarrow> order_record \<Rightarrow> bool" where
  "closes_long s qty r \<longleftrightarrow>
    o_symbol r = s \<and> o_position_side r = Long \<and> o_side r = Sell \<and> o_trade_side r = TradeClose \<and>
    o_order_type r = Market \<and> o_original_quantity r = qty"

text \<open>
  What is outstanding on the exchange after a list of requests, from its answers alone: an accepted
  opening order adds a leg, an accepted cancellation takes back the leg of the order, an accepted closing order
  the leg of its side and size.
\<close>

fun outstanding ::
    "venue \<Rightarrow> nat \<Rightarrow> venue_request list \<Rightarrow> (position_side \<times> order_id \<times> double) list \<Rightarrow>
     (position_side \<times> order_id \<times> double) list" where
  "outstanding vn n [] legs = legs"
| "outstanding vn n (ReqSubmit r # rs) legs =
    (let reply = vn_submit vn n r
     in outstanding vn (Suc n) rs
          (if \<not> sr_success reply then legs
           else if o_trade_side r = TradeOpen
             then (o_position_side r, sr_exchange_order_id reply, o_original_quantity r) # legs
           else filter (\<lambda>(ps, _, q). ps \<noteq> o_position_side r \<or> q \<noteq> o_original_quantity r) legs))"
| "outstanding vn n (ReqCancel oid s # rs) legs =
    outstanding vn (Suc n) rs (if vn_cancel vn n oid s then filter (\<lambda>(_, x, _). x \<noteq> oid) legs else legs)"
| "outstanding vn n (ReqBackhand s q # rs) legs = outstanding vn (Suc n) rs legs"

lemma entry_order_opens:
  "opens_leg cfg s Long Buy sp (entry_order cfg s Long sp)"
  "opens_leg cfg s Short Sell sp (entry_order cfg s Short sp)"
proof -
  have b: "bad_amount x \<longleftrightarrow> \<not> (0 < x \<and> isfinite x)" for x
    by (cases x) (auto simp: bad_amount_def zero_double_def)
  show "opens_leg cfg s Long Buy sp (entry_order cfg s Long sp)"
    "opens_leg cfg s Short Sell sp (entry_order cfg s Short sp)"
    by (auto simp: opens_leg_def entry_order_def attach_tpsl_def leg_order_def protected_by_def b default_order_def
        has_tp_def has_sl_def)
qed

lemma close_order_closes: "closes_long s q (close_order s Long q)"
  by (simp add: closes_long_def close_order_def leg_order_def)

lemma refused_short_fails:
  assumes "\<not> sr_success (vn_submit vn (Suc (length (dl_requests d))) (entry_order (dl_config d) s Short ss))"
  shows "\<not> per_success (fst (enter_pair vn tnow s ls ss d))"
  using assms by (simp add: enter_pair_def case_prod_unfold Let_def)

text \<open>
  C36. The entry of a pair asks for a market order that opens the long leg with its protective prices,
  then, only after that one was accepted, for the short leg, and on a refusal of the short leg for the
  cancellation of the long order and, only if that is refused, for a market order that closes the long leg in full.
  It succeeds exactly when both legs are outstanding on the exchange.  When it fails nothing is outstanding,
  except where the exchange refused both the cancellation and the close: then the long leg is, alone.  A short
  leg is never left alone.
\<close>

theorem pair_entry_protocol:
  assumes "enter_pair vn tnow s ls ss d = (res, d')" and "cfg = dl_config d" and "n = length (dl_requests d)"
  shows "\<exists>lo so co rs x. dl_requests d' = dl_requests d @ rs \<and>
    opens_leg cfg s Long Buy ls lo \<and> opens_leg cfg s Short Sell ss so \<and> closes_long s (lp_size ls) co \<and>
    x = sr_exchange_order_id (vn_submit vn n lo) \<and>
    rs \<in> {[ReqSubmit lo], [ReqSubmit lo, ReqSubmit so], [ReqSubmit lo, ReqSubmit so, ReqCancel x s],
      [ReqSubmit lo, ReqSubmit so, ReqCancel x s, ReqSubmit co]} \<and>
    (if per_success res then rs = [ReqSubmit lo, ReqSubmit so] \<and> map fst (outstanding vn n rs []) = [Short, Long]
     else outstanding vn n rs [] = [] \<or>
       rs = [ReqSubmit lo, ReqSubmit so, ReqCancel x s, ReqSubmit co] \<and> \<not> vn_cancel vn (n + 2) x s \<and>
       \<not> sr_success (vn_submit vn (n + 3) co) \<and> map fst (outstanding vn n rs []) = [Long])"
proof -
  let ?lo = "entry_order cfg s Long ls" and ?so = "entry_order cfg s Short ss" and ?co = "close_order s Long (lp_size ls)"
  let ?l = "vn_submit vn n ?lo" and ?sh = "vn_submit vn (Suc n) ?so"
  let ?x = "sr_exchange_order_id ?l"
  have o: "opens_leg cfg s Long Buy ls ?lo" "opens_leg cfg s Short Sell ss ?so" "closes_long s (lp_size ls) ?co"
    by (rule entry_order_opens entry_order_opens close_order_closes)+
  have f: "o_trade_side ?lo = TradeOpen" "o_trade_side ?so = TradeOpen" "o_trade_side ?co = TradeClose"
    "o_position_side ?lo = Long" "o_position_side ?so = Short" "o_position_side ?co = Long"
    "o_original_quantity ?lo = lp_size ls" "o_original_quantity ?co = lp_size ls"
    using o by (simp_all add: opens_leg_def closes_long_def)
  consider "\<not> sr_success ?l" | "sr_success ?l" "sr_success ?sh"
    | "sr_success ?l" "\<not> sr_success ?sh" "vn_cancel vn (Suc (Suc n)) ?x s"
    | "sr_success ?l" "\<not> sr_success ?sh" "\<not> vn_cancel vn (Suc (Suc n)) ?x s" by blast
  then show ?thesis
  proof cases
    case 1
    then have "dl_requests d' = dl_requests d @ [ReqSubmit ?lo]" "\<not> per_success res"
      using assms by (auto simp: enter_pair_def case_prod_unfold Let_def)
    then show ?thesis using o f 1 by (intro exI [of _ ?lo] exI [of _ ?so] exI [of _ ?co] exI [of _ "[ReqSubmit ?lo]"]) auto
  next
    case 2
    then have "dl_requests d' = dl_requests d @ [ReqSubmit ?lo, ReqSubmit ?so]" "per_success res"
      using assms by (auto simp: enter_pair_def case_prod_unfold Let_def)
    then show ?thesis using o f 2
      by (intro exI [of _ ?lo] exI [of _ ?so] exI [of _ ?co] exI [of _ "[ReqSubmit ?lo, ReqSubmit ?so]"]) (auto simp: Let_def)
  next
    case 3
    then have "dl_requests d' = dl_requests d @ [ReqSubmit ?lo, ReqSubmit ?so, ReqCancel ?x s]" "\<not> per_success res"
      using assms by (auto simp: enter_pair_def venue_cancel_def case_prod_unfold Let_def)
    then show ?thesis using o f 3
      by (intro exI [of _ ?lo] exI [of _ ?so] exI [of _ ?co] exI [of _ "[ReqSubmit ?lo, ReqSubmit ?so, ReqCancel ?x s]"])
        (auto simp: Let_def)
  next
    case 4
    then have "dl_requests d' = dl_requests d @ [ReqSubmit ?lo, ReqSubmit ?so, ReqCancel ?x s, ReqSubmit ?co]"
      "\<not> per_success res"
      using assms by (auto simp: enter_pair_def venue_cancel_def case_prod_unfold Let_def)
    then show ?thesis using o f 4
      by (intro exI [of _ ?lo] exI [of _ ?so] exI [of _ ?co]
          exI [of _ "[ReqSubmit ?lo, ReqSubmit ?so, ReqCancel ?x s, ReqSubmit ?co]"])
        (auto simp: Let_def numeral_eq_Suc)
  qed
qed

text \<open>
  An entry that fails after the long order was accepted forgets the long leg, whether it
  was unwound or not.
\<close>

lemma failed_entry_forgets:
  assumes "\<not> per_success (fst (enter_pair vn tnow s ls ss d))"
  shows "dl_long_leg (snd (enter_pair vn tnow s ls ss d)) = dl_long_leg d \<or>
    dl_long_leg (snd (enter_pair vn tnow s ls ss d)) = empty_leg"
  using assms by (auto simp: enter_pair_def case_prod_unfold Let_def)

theorem unclosed_long_leg_forgotten:
  assumes "sr_success (vn_submit vn n (entry_order (dl_config d) s Long ls))"
    and "\<not> sr_success (vn_submit vn (Suc n) (entry_order (dl_config d) s Short ss))"
    and "\<not> vn_cancel vn (Suc (Suc n)) (sr_exchange_order_id (vn_submit vn n (entry_order (dl_config d) s Long ls))) s"
    and "\<not> sr_success (vn_submit vn (Suc (Suc (Suc n))) (close_order s Long (lp_size ls)))"
    and "n = length (dl_requests d)"
  shows "dl_long_leg (snd (enter_pair vn tnow s ls ss d)) = empty_leg"
  using assms by (simp add: enter_pair_def case_prod_unfold Let_def)

text \<open>
  The size of a leg is set when its order is sent and the fills are added to it: after a
  complete fill the leg counts twice the position, and a close asks for twice the size.
\<close>

theorem filled_leg_counts_twice:
  assumes "per_success (fst (enter_pair vn tnow s ls ss d))" and "0 < lp_size ls" and "0 < price"
  shows "lg_size (dl_long_leg (update_leg Long price (lp_size ls) t (snd (enter_pair vn tnow s ls ss d)))) =
    lp_size ls + lp_size ls"
proof -
  have "\<not> lp_size ls \<le> 0" "\<not> price \<le> 0"
    using assms(2,3) by (auto dest: double_le_less_trans)
  then show ?thesis using assms(1)
    by (auto simp: enter_pair_def case_prod_unfold Let_def update_leg_def leg_of_def set_leg_def pending_leg_def)
qed

text \<open>\<^verbatim>\<open>close_both\<close> passes over a leg whose order is still pending and reports success.\<close>

theorem close_both_skips_pending:
  assumes "lg_state (dl_long_leg d) = LegPendingEntry" and "lg_state (dl_short_leg d) = LegPendingEntry"
  shows "close_both vn s d = (True, d)"
  using assms by (simp add: close_both_def)

section \<open>Protective prices\<close>

lemma scaled_up: "canonical (Fin e) \<Longrightarrow> 0 < e \<Longrightarrow> 1 \<le> f \<Longrightarrow> Fin e \<le> Fin e * f"
proof -
  assume a: "canonical (Fin e)" "0 < e" "1 \<le> f"
  show ?thesis
  proof (cases f)
    case (Fin r)
    then have "1 \<le> r" using a(3) by (simp add: one_double_def)
    then have "mk e \<le> mk (e * r)" using a(2) by (intro mk_mono) simp
    then show ?thesis using a(1) Fin by simp
  qed (use a in \<open>simp_all add: one_double_def\<close>)
qed

lemma scaled_down: "canonical (Fin e) \<Longrightarrow> 0 < e \<Longrightarrow> f \<le> 1 \<Longrightarrow> Fin e * f \<le> Fin e"
proof -
  assume a: "canonical (Fin e)" "0 < e" "f \<le> 1"
  show ?thesis
  proof (cases f)
    case (Fin r)
    then have "r \<le> 1" using a(3) by (simp add: one_double_def)
    then have "mk (e * r) \<le> mk e" using a(2) by (intro mk_mono) simp
    then show ?thesis using a(1) Fin by simp
  qed (use a in \<open>simp_all add: one_double_def\<close>)
qed

lemma percent_up: "0 \<le> p \<Longrightarrow> isfinite p \<Longrightarrow> 1 \<le> 1 + p / lit 100"
  and percent_down: "0 \<le> p \<Longrightarrow> isfinite p \<Longrightarrow> 1 - p / lit 100 \<le> 1"
proof -
  assume a: "0 \<le> p" "isfinite p"
  then obtain r where p: "p = Fin r" "0 \<le> r" by (auto simp: isfinite_iff zero_double_def)
  have q: "0 \<le> mk (r / 100)" using p(2) by (intro mk_nonneg) simp
  have d: "p / lit 100 = mk (r / 100)" by (simp add: p)
  obtain c where "mk (r / 100) = PInf \<or> mk (r / 100) = Fin c \<and> 0 \<le> c"
    using q by (cases "mk (r / 100)") (auto simp: zero_double_def)
  moreover have "Fin 1 \<le> mk (1 + c)" "mk (1 - c) \<le> Fin 1" if "0 \<le> c"
    using that mk_mono [of 1 "1 + c"] mk_mono [of "1 - c" 1] by simp_all
  ultimately show "1 \<le> 1 + p / lit 100" "1 - p / lit 100 \<le> 1"
    unfolding d by (auto simp: one_double_def minus_double_def)
qed

lemma if_cases2: "(if c then x else y) = x \<or> (if c then x else y) = y"
  by simp

text \<open>
  The protective prices are on the right side of the entry: unless both are
  suppressed, a long leg has its take-profit at or above and its stop-loss at or below the entry price,
  a short leg the other way round.
\<close>

theorem tpsl_on_the_right_side:
  assumes "canonical entry" and "0 \<le> dc_tpsl_take_profit_pct cfg" and "isfinite (dc_tpsl_take_profit_pct cfg)"
    and "0 \<le> dc_tpsl_stop_loss_pct cfg" and "isfinite (dc_tpsl_stop_loss_pct cfg)"
    and "compute_tpsl cfg entry s = (tp, sl)" and "(tp, sl) \<noteq> (0, 0)"
  shows "(s = Long \<longrightarrow> entry \<le> tp \<and> sl \<le> entry) \<and> (s = Short \<longrightarrow> tp \<le> entry \<and> entry \<le> sl)"
proof -
  let ?t = "if s = Long then entry * (1 + dc_tpsl_take_profit_pct cfg / lit 100)
           else entry * (1 - dc_tpsl_take_profit_pct cfg / lit 100)"
  let ?l = "if s = Long then entry * (1 - dc_tpsl_stop_loss_pct cfg / lit 100)
           else entry * (1 + dc_tpsl_stop_loss_pct cfg / lit 100)"
  have ok: "\<not> (entry \<le> 0 \<or> \<not> isfinite entry)"
  proof
    assume "entry \<le> 0 \<or> \<not> isfinite entry"
    then have "compute_tpsl cfg entry s = (0, 0)" by (simp only: compute_tpsl_def if_True)
    then show False using assms(6,7) by simp
  qed
  then obtain e where e: "entry = Fin e" "0 < e" by (cases entry) (auto simp: zero_double_def)
  have "compute_tpsl cfg entry s = (0, 0) \<or> compute_tpsl cfg entry s = (?t, ?l)"
    unfolding compute_tpsl_def Let_def if_not_P [OF ok] by (rule if_cases2)
  then have "tp = ?t" "sl = ?l" using assms(6,7) by (auto simp only: prod.inject)
  note up = scaled_up [OF assms(1)[unfolded e] e(2)] and down = scaled_down [OF assms(1)[unfolded e] e(2)]
  with \<open>tp = ?t\<close> \<open>sl = ?l\<close> show ?thesis
    using up [OF percent_up [OF assms(2,3)]] up [OF percent_up [OF assms(4,5)]]
      down [OF percent_down [OF assms(2,3)]] down [OF percent_down [OF assms(4,5)]]
    by (cases s) (simp_all only: e(1) if_True if_False simp_thms position_side.distinct)
qed

end
