(* ===== verification/Pair_Modes.thy ===== *)
theory Pair_Modes
  imports Pair_Laws
begin

text \<open>
  The modes of the pair engine: which actions each mode can decide and how large the hedge
  is, the coordinator's orphan flag, reversals, and the counters of the pair results.
\<close>

section \<open>Hedge ratios\<close>

theorem pair_hedge_ratio_range:
  "lit 0.20 \<le> pair_hedge_ratio i \<and> pair_hedge_ratio i \<le> lit 1.20"
proof -
  have raise: "ranged 0 2 (std_min (x + lit 0.20) (lit 1.20))" if "ranged 0 2 x" for x
    using raised_ratio [OF that] by simp
  have scale: "ranged 0 2 (x * lit 0.80)" if "ranged 0 2 x" for x
    using scaled_ratio [OF that] by simp
  have 1: "ranged 0 2 (std_max x 1)" if "ranged 0 2 x" for x using that by (intro ranged_max) auto
  have 2: "ranged 0 2 (std_min x (lit 0.80))" if "ranged 0 2 x" for x using that by (intro ranged_min) auto
  show ?thesis
    unfolding pair_hedge_ratio_def Let_def
    by (intro clamp_lits ranged_not_NaN [of 0 2] ranged_if 1 2 raise scale two_lit) simp_all
qed

lemma ratio_not_NaN: "pair_hedge_ratio i \<noteq> NaN"
  using pair_hedge_ratio_range [of i] by auto

lemma lit_quarter_pos: "1 / 4 \<le> b \<Longrightarrow> b \<le> 1 \<Longrightarrow> \<exists>r. lit b = Fin r \<and> 0 < r"
proof -
  assume b: "1 / 4 \<le> b" "b \<le> 1"
  have q: "exact (1 / 4)" using exact_grid [of 262144] by simp
  have "ranged (1 / 4) 1 (lit b)" using b q by (intro ranged_mk) simp_all
  then show ?thesis by (elim rangedE) auto
qed

lemma affine_not_NaN:
  assumes "x \<noteq> NaN" and "1 / 4 \<le> b" and "b \<le> 1"
  shows "lit 0.20 + x * lit b \<noteq> NaN"
proof -
  obtain r where r: "lit b = Fin r" "0 < r" using lit_quarter_pos [OF assms(2,3)] by blast
  obtain a where a: "lit 0.20 = Fin a" using unit_lit [of "0.20"] by (auto simp: ranged_def)
  have "x * lit b \<noteq> NaN" unfolding r(1) using assms(1) r(2) by (cases x) simp_all
  then show ?thesis unfolding a by (cases "x * lit b") simp_all
qed

definition ratio_between :: "real \<Rightarrow> real \<Rightarrow> double \<Rightarrow> bool" where
  "ratio_between a b x \<longleftrightarrow> lit a \<le> x \<and> x \<le> lit b"

lemma ratio_weaken: "ratio_between a b x \<Longrightarrow> c \<le> a \<Longrightarrow> b \<le> d \<Longrightarrow> ratio_between c d x"
  unfolding ratio_between_def using mk_mono [of c a] mk_mono [of b d] by (blast intro: double_le_trans)

lemma ratio_clamp: "x \<noteq> NaN \<Longrightarrow> a \<le> b \<Longrightarrow> ratio_between a b (std_clamp x (lit a) (lit b))"
  unfolding ratio_between_def by (rule clamp_lits)

lemma ratio_one: "ratio_between 0.20 1.20 1"
  using mk_mono [of "0.20" 1] mk_mono [of 1 "1.20"] by (simp add: ratio_between_def one_double_def)

section \<open>Actions of each mode\<close>

lemma mode_kept [simp]:
  "ple_mode (pair_update_state i e) = ple_mode e"
  "ple_config (pair_update_state i e) = ple_config e"
  "ple_mode (snd (pair_evaluate i e)) = ple_mode e"
  by (simp_all add: pair_update_state_def pair_evaluate_def Let_def)

definition mode_action :: "pair_mode \<Rightarrow> pair_action \<Rightarrow> bool" where
  "mode_action m a \<longleftrightarrow> a = PairNone \<or>
    (case m of
       NoPair \<Rightarrow> a \<in> {OpenCompressionPair, OpenTransitionPair, OpenBreakoutShield}
     | CompressionPair \<Rightarrow> a \<in> {CloseBothEmergency, CloseBothProfit, TrimWeakLeg, RebalancePair}
     | TransitionPair \<Rightarrow> a \<in> {CloseBothEmergency, CloseBothProfit, PromoteToRunner, OpenCompressionPair}
     | BreakoutShield \<Rightarrow> a \<in> {CloseBothEmergency, CloseBothProfit, PromoteToRunner, RebalancePair}
     | AsymmetricRunner \<Rightarrow> a \<in> {OpenBreakoutShield, ReverseLeg})"

definition decision_ok :: "pair_mode \<Rightarrow> pair_decision \<Rightarrow> bool" where
  "decision_ok m d \<longleftrightarrow> mode_action m (pd_action d) \<and> ratio_between 0.20 1.20 (pd_hedge_ratio d)"

lemma decision_ok_hold: "decision_ok m (pair_hold st)"
  using ratio_one by (simp add: decision_ok_def pair_hold_def pair_decide_def mode_action_def)

lemma decision_ok_decide:
  "mode_action m a \<Longrightarrow> ratio_between 0.20 1.20 r \<Longrightarrow> decision_ok m (pair_decide st a r u)"
  by (simp add: decision_ok_def pair_decide_def)

lemma decision_if: "(c \<Longrightarrow> decision_ok m x) \<Longrightarrow> (\<not> c \<Longrightarrow> decision_ok m y) \<Longrightarrow> decision_ok m (if c then x else y)"
  by simp

lemma ratio_inner:
  "x \<noteq> NaN \<Longrightarrow> 0.20 \<le> a \<Longrightarrow> a \<le> b \<Longrightarrow> b \<le> 1.20 \<Longrightarrow> ratio_between 0.20 1.20 (std_clamp x (lit a) (lit b))"
  by (rule ratio_weaken [OF ratio_clamp]) simp_all

lemma ratio_plain: "ratio_between 0.20 1.20 (pair_hedge_ratio i)"
  using pair_hedge_ratio_range [of i] by (simp add: ratio_between_def)

lemma less_not_NaN: "(x :: double) < y \<Longrightarrow> x \<noteq> NaN \<and> y \<noteq> NaN"
  by (cases x; cases y) auto

lemma shield_shock: "select_pair_mode cfg i = BreakoutShield \<Longrightarrow> pi_p_shock i \<noteq> NaN"
  unfolding select_pair_mode_def by (auto split: if_splits)

lemma no_pair_ok: "decision_ok NoPair (evaluate_no_pair e i)"
proof (cases "select_pair_mode (ple_config e) i")
  case BreakoutShield
  have "ratio_between 0.20 1.20 (std_clamp (lit 0.20 + pi_p_shock i * lit 0.5) (lit 0.20) (lit 0.35))"
    by (intro ratio_inner affine_not_NaN shield_shock [OF BreakoutShield]) simp_all
  then show ?thesis
    unfolding evaluate_no_pair_def Let_def BreakoutShield pair_mode.case
    by (intro decision_if decision_ok_hold decision_ok_decide) (simp_all only: mode_action_def pair_mode.case insert_iff simp_thms)
next
  case CompressionPair
  then show ?thesis
    unfolding evaluate_no_pair_def Let_def CompressionPair pair_mode.case
    by (intro decision_if decision_ok_hold decision_ok_decide ratio_inner ratio_not_NaN)
      (simp_all add: mode_action_def)
next
  case TransitionPair
  then show ?thesis
    unfolding evaluate_no_pair_def Let_def TransitionPair pair_mode.case
    by (intro decision_if decision_ok_hold decision_ok_decide ratio_inner ratio_not_NaN)
      (simp_all add: mode_action_def)
qed (simp_all add: evaluate_no_pair_def decision_ok_hold Let_def)

lemma compression_ok: "decision_ok CompressionPair (evaluate_compression e i)"
  unfolding evaluate_compression_def Let_def
  by (intro decision_if decision_ok_hold decision_ok_decide ratio_one ratio_plain) (simp_all add: mode_action_def)

lemma transition_ok: "decision_ok TransitionPair (evaluate_transition e i)"
  unfolding evaluate_transition_def Let_def
  by (intro decision_if decision_ok_hold decision_ok_decide ratio_one ratio_plain) (simp_all add: mode_action_def)

lemma shield_ok: "decision_ok BreakoutShield (evaluate_breakout_shield e i)"
  unfolding evaluate_breakout_shield_def Let_def
  by (intro decision_if decision_ok_hold decision_ok_decide ratio_one ratio_inner affine_not_NaN)
    (auto simp: mode_action_def dest: less_not_NaN)

lemma runner_ok:
  "pi_p_reversal i \<noteq> NaN \<Longrightarrow> decision_ok AsymmetricRunner (evaluate_asymmetric_runner e i)"
  unfolding evaluate_asymmetric_runner_def Let_def
  by (intro decision_if decision_ok_hold decision_ok_decide ratio_one ratio_inner affine_not_NaN)
    (simp_all add: mode_action_def)

text \<open>
  The engine is an automaton: in each mode it decides only the actions of that mode
  (openings from no pair, closes, trims and rebalances within a pair, a new shield or a reversal for a
  runner), and the hedge ratio it hands on is between 20 and 120 percent.
\<close>

theorem pair_decision_of_mode:
  assumes "ple_mode e = AsymmetricRunner \<longrightarrow> pi_p_reversal i \<noteq> NaN"
  shows "mode_action (ple_mode e) (pd_action (fst (pair_evaluate i e))) \<and>
    ratio_between 0.20 1.20 (pd_hedge_ratio (fst (pair_evaluate i e)))"
proof -
  have "decision_ok (ple_mode e) (fst (pair_evaluate i e))"
    using assms no_pair_ok compression_ok transition_ok shield_ok runner_ok
    by (cases "ple_mode e") (simp_all add: pair_evaluate_def Let_def)
  then show ?thesis by (simp add: decision_ok_def)
qed

text \<open>
  C2.  Toxic flow with a deep loss closes both legs before anything else, in every mode that
  has two legs, and only then is the emergency close decided.
\<close>

lemma decide_actions [simp]:
  "pd_action (pair_decide st a r u) = a"
  "pd_action (pair_hold st) = PairNone"
  by (simp_all add: pair_decide_def pair_hold_def)

theorem emergency_closes_first:
  assumes "ple_mode e \<in> {CompressionPair, TransitionPair, BreakoutShield}"
  shows "pd_action (fst (pair_evaluate i e)) = CloseBothEmergency \<longleftrightarrow> pair_emergency (snd (pair_evaluate i e)) i"
  using assms
  by (elim insertE emptyE)
    (simp_all add: pair_evaluate_def Let_def evaluate_compression_def evaluate_transition_def
      evaluate_breakout_shield_def)

text \<open>
  A leg is never taken out of the state: when the hedge has been closed, its last profit or
  loss still counts in the pair's, in every later evaluation.
\<close>

theorem closed_hedge_still_counted:
  assumes "pi_has_hedge i" and "0 < pi_hedge_size i" and "pi_primary_side i = Long" and "0 < pi_primary_size i"
    and "\<not> pi_has_hedge j" and "pi_primary_side j = Long" and "0 < pi_primary_size j"
  shows "pt_net_pair_pnl_bps (ple_state (snd (pair_evaluate j (snd (pair_evaluate i e))))) =
    pi_primary_pnl_pct j * lit 100 + pi_hedge_pnl_pct i * lit 100"
  using assms
  by (simp add: pair_evaluate_def pair_update_state_def on_pair_leg_def refreshed_leg_def opposite_side_def Let_def)

section \<open>Orphaned legs\<close>

lemma close_both_active:
  assumes "lg_state (dl_long_leg d) = LegActive" and "lg_state (dl_short_leg d) = LegActive"
    and "a \<longleftrightarrow> sr_success (vn_submit vn (length (dl_requests d)) (close_order s Long (lg_size (dl_long_leg d))))"
    and "b \<longleftrightarrow> sr_success (vn_submit vn (Suc (length (dl_requests d))) (close_order s Short (lg_size (dl_short_leg d))))"
  shows "fst (close_both vn s d) \<longleftrightarrow> a \<and> b"
    and "lg_state (dl_long_leg (snd (close_both vn s d))) = (if a then LegPendingExit else LegActive)"
    and "lg_state (dl_short_leg (snd (close_both vn s d))) = (if b then LegPendingExit else LegActive)"
  using assms
  by (simp_all add: close_both_def close_leg_def venue_submit_def case_prod_unfold Let_def set_leg_def leg_of_def)

text \<open>
  Closing an active pair detects an orphan exactly when one of the two close orders is
  accepted and the other is not, names the leg that was left, and succeeds exactly when both were
  accepted.
\<close>

theorem orphan_detected_exactly:
  assumes "px_legs x = Some d"
    and "lg_state (dl_long_leg d) = LegActive" and "lg_state (dl_short_leg d) = LegActive"
    and "a \<longleftrightarrow> sr_success (vn_submit vn (length (dl_requests d))
      (close_order (pt_symbol st) Long (lg_size (dl_long_leg d))))"
    and "b \<longleftrightarrow> sr_success (vn_submit vn (Suc (length (dl_requests d)))
      (close_order (pt_symbol st) Short (lg_size (dl_short_leg d))))"
  shows "(pce_success (fst (execute_pair_close vn t st x)) \<longleftrightarrow> a \<and> b) \<and>
    has_orphan_leg (snd (execute_pair_close vn t st x)) = (if a = b then \<not> a \<and> has_orphan_leg x else True) \<and>
    (a \<noteq> b \<longrightarrow> px_orphan_side (snd (execute_pair_close vn t st x)) = (if a then Short else Long))"
  using close_both_active [OF assms(2-5)] assms(1)
  by (cases a; cases b) (simp_all add: execute_pair_close_def has_orphan_leg_def case_prod_unfold Let_def)

text \<open>The check for an orphan after a failed entry never finds one.\<close>

theorem entry_orphan_never_detected:
  assumes "px_legs x = Some d" and "lg_state (dl_long_leg d) = LegIdle"
  shows "\<not> pee_success (fst (execute_pair_entry vn clock dec s base hint x)) \<longrightarrow>
    has_orphan_leg (snd (execute_pair_entry vn clock dec s base hint x)) = has_orphan_leg x"
proof -
  let ?spec = "pair_leg_spec (pxc_attach_server_tpsl (px_config x)) (dl_config d) hint"
  let ?r = "enter_pair vn (clock 1) s (?spec Long base) (?spec Short (base * pd_hedge_ratio dec)) d"
  have idle: "lg_state (dl_long_leg (snd ?r)) = LegIdle" if "\<not> per_success (fst ?r)"
    using failed_entry_forgets [OF that] assms(2) by (auto simp: empty_leg_def)
  show ?thesis
    using assms(1) idle
    by (cases "per_success (fst ?r)")
      (simp_all add: execute_pair_entry_def has_orphan_leg_def case_prod_unfold Let_def empty_entry_exec_def)
qed

section \<open>Reversals\<close>

lemma fallback_facts:
  "rr_success (fst (reversal_fallback vn t s ps q res d)) \<Longrightarrow>
   rr_success res \<or> dl_last_reversal_ns (snd (reversal_fallback vn t s ps q res d)) = t"
  "dl_last_reversal_ns (snd (reversal_fallback vn t s ps q res d)) \<in> {dl_last_reversal_ns d, t}"
  by (auto simp: reversal_fallback_def case_prod_unfold Let_def)

text \<open>
  Two reversals are at least the cooldown apart: one that succeeds was asked for at
  least the cooldown after the last one that was recorded, and is recorded itself.
\<close>

theorem reversal_cooldown_kept:
  assumes "rr_success (fst (reverse_leg vn t s ps q d))"
  shows "dc_reversal_cooldown_ms (dl_config d) * 1000000 \<le> t - dl_last_reversal_ns d \<and>
    dl_last_reversal_ns (snd (reverse_leg vn t s ps q d)) = t"
proof (cases "t - dl_last_reversal_ns d < dc_reversal_cooldown_ms (dl_config d) * 1000000")
  case True
  then show ?thesis using assms by (simp add: reverse_leg_def)
next
  case False
  let ?res = "\<lparr>rr_success = False, rr_new_order_id = [], rr_error = []\<rparr>"
  have plain: "dl_last_reversal_ns (snd (reversal_fallback vn t s ps q ?res d')) = t"
    if "rr_success (fst (reversal_fallback vn t s ps q ?res d'))" for d'
    using fallback_facts(1) [OF that] by simp
  have marked: "dl_last_reversal_ns (snd (reversal_fallback vn t s ps q res' (d'\<lparr>dl_last_reversal_ns := t\<rparr>))) = t"
    for res' d' using fallback_facts(2) [of vn t s ps q res' "d'\<lparr>dl_last_reversal_ns := t\<rparr>"] by simp
  show ?thesis
    using False assms plain marked
    by (auto simp: reverse_leg_def case_prod_unfold Let_def split: if_splits backhand_reply.splits)
qed

text \<open>
  A reply that reports success but whose order identifier is not a string is handled by
  closing and reopening as well: the position is reversed by the exchange and a second time by two
  orders.
\<close>

theorem reversal_executed_twice:
  assumes "dc_use_reversal_api (dl_config d)" and "vn_has_rest vn"
    and "dc_reversal_cooldown_ms (dl_config d) * 1000000 \<le> t - dl_last_reversal_ns d"
    and "\<And>n. vn_backhand vn n s q = BhBadId ''00000''" and "\<And>n r. sr_success (vn_submit vn n r)"
  shows "dl_requests (snd (reverse_leg vn t s Long q d)) =
    dl_requests d @ [ReqBackhand s q, ReqSubmit (close_order s Long q), ReqSubmit (leg_order s Sell Short TradeOpen q)]"
  using assms
  by (simp add: reverse_leg_def venue_backhand_def reversal_fallback_def close_leg_result case_prod_unfold Let_def)

section \<open>Pair results\<close>

definition pair_economics_init :: pair_economics where
  "pair_economics_init = \<lparr>pec_records = [], pec_daily = empty_pair_daily\<rparr>"

definition winners :: "pair_economics_record list \<Rightarrow> pair_economics_record list" where
  "winners rs = filter (\<lambda>r. 0 < pe_net_pair_pnl r) rs"

lemma pair_counts:
  "pds_pair_cycles (pec_daily (fold pair_record rs p)) = pds_pair_cycles (pec_daily p) + int (length rs)"
  "pds_win_count (pec_daily (fold pair_record rs p)) = pds_win_count (pec_daily p) + int (length (winners rs))"
  by (induction rs arbitrary: p) (simp_all add: pair_record_def pair_daily_add_def winners_def Let_def)

lemma pair_window: "pec_records (fold pair_record rs pair_economics_init) = keep_last kMaxPairRecords rs"
proof (induction rs rule: rev_induct)
  case (snoc r rs)
  let ?p = "fold pair_record rs pair_economics_init"
  have "pec_records (pair_record r p) = keep_last kMaxPairRecords (pec_records p @ [r])"
    if len: "length (pec_records p) \<le> kMaxPairRecords" for p
  proof (cases "length (pec_records p) = kMaxPairRecords")
    case True
    then have "pec_records p \<noteq> []" by auto
    with True show ?thesis by (simp add: pair_record_def keep_last_def drop_Suc tl_append2 Let_def)
  next
    case False
    with len show ?thesis by (simp add: pair_record_def Let_def)
  qed
  then have "pec_records (pair_record r ?p) = keep_last kMaxPairRecords (pec_records ?p @ [r])"
    by (simp add: snoc)
  then show ?case using keep_last_append [of kMaxPairRecords rs "[r]"] by (simp add: snoc)
qed (simp add: pair_economics_init_def)

text \<open>
  The day's counters are the facts: after any sequence of pair results the number of
  cycles is their number and the number of wins that of the profitable ones, and the
  history holds exactly the last 500 of them.
\<close>

theorem pair_results_exact:
  "pds_pair_cycles (pair_daily_stats_of (fold pair_record rs pair_economics_init)) = int (length rs) \<and>
   pds_win_count (pair_daily_stats_of (fold pair_record rs pair_economics_init)) = int (length (winners rs)) \<and>
   pec_records (fold pair_record rs pair_economics_init) = keep_last kMaxPairRecords rs"
  using pair_counts [of rs pair_economics_init] pair_window [of rs]
  by (simp add: pair_economics_init_def pair_daily_stats_of_def empty_pair_daily_def)

end
