(* ===== verification/Order_Watchdog.thy ===== *)
theory Order_Watchdog
  imports Execution_Engine
begin

text \<open>
  The order watchdog (\<^verbatim>\<open>src/src/pipeline/order_watchdog.{hpp,cpp}\<close>): a periodic look at the
  active orders of the execution engine that cancels those that have waited too long.  The
  callbacks are the requests in the result; metrics and log lines are left out.
\<close>

section \<open>Definitions\<close>

datatype watchdog_action = WdOk | WdCancel | WdRecoverState | WdForceClose

record watchdog_report =
  wr_order_id :: order_id
  wr_action :: watchdog_action
  wr_reason :: string
  wr_age_ms :: int

record watchdog_config =
  wc_max_pending_ack_ms :: int
  wc_max_open_order_ms :: int
  wc_max_partial_fill_ms :: int
  wc_max_unknown_recovery_ms :: int
  wc_check_interval_ms :: int

definition default_watchdog_config :: watchdog_config where
  "default_watchdog_config =
    \<lparr>wc_max_pending_ack_ms = 5000, wc_max_open_order_ms = 15000, wc_max_partial_fill_ms = 30000,
     wc_max_unknown_recovery_ms = 10000, wc_check_interval_ms = 3000\<rparr>"

record watchdog =
  wd_config :: watchdog_config
  wd_last_check_ns :: int

definition classify_order :: "watchdog_config \<Rightarrow> int \<Rightarrow> order_record \<Rightarrow> watchdog_action" where
  "classify_order cfg now_ns r =
    (let base = (if 0 < o_created_at r then o_created_at r else o_last_updated r)
     in if base \<le> 0 then WdOk
        else
          let age_ms = max 0 (now_ns - base) sdiv 1000000
          in case o_state r of
               PendingAck \<Rightarrow> if wc_max_pending_ack_ms cfg < age_ms then WdCancel else WdOk
             | UnknownRecovery \<Rightarrow> if wc_max_unknown_recovery_ms cfg < age_ms then WdRecoverState else WdOk
             | PartiallyFilled \<Rightarrow> if wc_max_partial_fill_ms cfg < age_ms then WdForceClose else WdOk
             | Open \<Rightarrow> if wc_max_open_order_ms cfg < age_ms then WdCancel else WdOk
             | CancelPending \<Rightarrow> if wc_max_open_order_ms cfg < age_ms then WdCancel else WdOk
             | _ \<Rightarrow> WdOk)"

definition watchdog_report_of :: "int \<Rightarrow> watchdog_action \<Rightarrow> order_record \<Rightarrow> watchdog_report" where
  "watchdog_report_of now_ns a r =
    (let age_ms = max 0 (now_ns - o_last_updated r) sdiv 1000000
     in \<lparr>wr_order_id = o_order_id r, wr_action = a,
         wr_reason =
           (case a of
              WdCancel \<Rightarrow> ''timeout: state='' @ order_state_to_string (o_state r) @ '' age='' @ to_string_int age_ms @ ''ms''
            | WdRecoverState \<Rightarrow> ''UnknownRecovery: age='' @ to_string_int age_ms @ ''ms''
            | WdForceClose \<Rightarrow> ''force_close: critical partial fill age='' @ to_string_int age_ms @ ''ms''
            | WdOk \<Rightarrow> []),
         wr_age_ms = age_ms\<rparr>)"

text \<open>
  The callbacks of a report: the cancellation callback, or the alert to the operator.
\<close>

datatype watchdog_call = CancelCallback order_id string | AlertCallback watchdog_report

definition watchdog_calls :: "watchdog_report \<Rightarrow> watchdog_call list" where
  "watchdog_calls w =
    (case wr_action w of
       WdCancel \<Rightarrow> [CancelCallback (wr_order_id w) (wr_reason w)]
     | WdForceClose \<Rightarrow> [CancelCallback (wr_order_id w) (wr_reason w)]
     | WdRecoverState \<Rightarrow> [AlertCallback w]
     | WdOk \<Rightarrow> [])"

fun watchdog_scan ::
    "clk \<Rightarrow> exchange option \<Rightarrow> watchdog_config \<Rightarrow> int \<Rightarrow> order_record list \<Rightarrow> engine \<Rightarrow>
     watchdog_report list \<times> engine" where
  "watchdog_scan c sub cfg now_ns [] en = ([], en)"
| "watchdog_scan c sub cfg now_ns (r # rs) en =
    (let a = classify_order cfg now_ns r
     in if a = WdOk then watchdog_scan c sub cfg now_ns rs en
        else
          let en = (if a = WdCancel \<or> a = WdForceClose then snd (engine_cancel c sub (o_order_id r) en) else en);
              (reports, en) = watchdog_scan c sub cfg now_ns rs en
          in (watchdog_report_of now_ns a r # reports, en))"

definition watchdog_due :: "watchdog_config \<Rightarrow> int \<Rightarrow> watchdog \<Rightarrow> bool" where
  "watchdog_due cfg now_ns w \<longleftrightarrow>
    \<not> (0 < wd_last_check_ns w \<and> now_ns - wd_last_check_ns w < wc_check_interval_ms cfg * 1000000)"

definition run_check ::
    "clk \<Rightarrow> exchange option \<Rightarrow> int \<Rightarrow> watchdog \<Rightarrow> engine option \<Rightarrow>
     watchdog_report list \<times> watchdog \<times> engine option" where
  "run_check c sub now_ns w eno =
    (case eno of
       None \<Rightarrow> ([], w, None)
     | Some en \<Rightarrow>
         let cfg = wd_config w;
             cfg = (if 60000 < wc_check_interval_ms cfg then cfg\<lparr>wc_check_interval_ms := 60000\<rparr> else cfg);
             w = w\<lparr>wd_config := cfg\<rparr>
         in if \<not> watchdog_due cfg now_ns w then ([], w, Some en)
            else
              let w = w\<lparr>wd_last_check_ns := now_ns\<rparr>;
                  (reports, en) = watchdog_scan c sub cfg now_ns (active_orders (xs_registry (en_exec en))) en
              in (reports, w, Some en))"

section \<open>What a check does\<close>

lemma engine_cancel_exec: "en_exec (snd (engine_cancel c sub oid en)) = snd (do_cancel c sub oid (en_exec en))"
  by (simp add: engine_cancel_def cancel_order_def on_metrics_def case_prod_unfold Let_def split: bool.split option.split)

definition overdue :: "watchdog_config \<Rightarrow> int \<Rightarrow> order_record \<Rightarrow> bool" where
  "overdue cfg now_ns r \<longleftrightarrow> classify_order cfg now_ns r = WdCancel \<or> classify_order cfg now_ns r = WdForceClose"

lemma cancel_each_Cons:
  "snd (cancel_each c sub (oid # oids) x) = snd (cancel_each c sub oids (snd (do_cancel c sub oid x)))"
  by (simp add: case_prod_unfold Let_def)

lemma active_not_recovering: "order_is_active r \<Longrightarrow> classify_order cfg t r \<noteq> WdRecoverState"
  by (cases "o_state r") (simp_all add: order_is_active_def active_state_def classify_order_def Let_def)

lemma scan_spec:
  assumes "list_all order_is_active rs"
  shows "map wr_order_id (fst (watchdog_scan c sub cfg t rs en)) = map o_order_id (filter (overdue cfg t) rs) \<and>
    en_exec (snd (watchdog_scan c sub cfg t rs en)) =
      snd (cancel_each c sub (map o_order_id (filter (overdue cfg t) rs)) (en_exec en)) \<and>
    list_all (\<lambda>w. wr_action w \<in> {WdCancel, WdForceClose}) (fst (watchdog_scan c sub cfg t rs en))"
  using assms
proof (induction rs arbitrary: en)
  case (Cons r rs)
  have "classify_order cfg t r = WdOk \<or> overdue cfg t r"
    using Cons.prems active_not_recovering [of r cfg t] by (cases "classify_order cfg t r") (auto simp: overdue_def)
  then show ?case
  proof
    assume "classify_order cfg t r = WdOk"
    then show ?thesis using Cons by (simp add: overdue_def)
  next
    assume o: "overdue cfg t r"
    let ?en = "snd (engine_cancel c sub (o_order_id r) en)"
    have scan: "watchdog_scan c sub cfg t (r # rs) en =
      (watchdog_report_of t (classify_order cfg t r) r # fst (watchdog_scan c sub cfg t rs ?en),
       snd (watchdog_scan c sub cfg t rs ?en))"
      using o by (auto simp: overdue_def case_prod_unfold Let_def)
    show ?thesis using o Cons.prems Cons.IH [of ?en]
      by (auto simp: scan engine_cancel_exec cancel_each_Cons watchdog_report_of_def Let_def overdue_def
          simp del: cancel_each.simps watchdog_scan.simps)
  qed
qed simp

lemma active_orders_active: "list_all order_is_active (active_orders g)"
  by (simp add: active_orders_def list_all_iff)

text \<open>
  When an order has waited too long, without the code's classification: it is in a state with a limit, its
  time of creation (of the last update where that is missing) is known, and more whole milliseconds have passed
  than the limit of the state allows.
\<close>

fun wait_limit_ms :: "watchdog_config \<Rightarrow> order_state \<Rightarrow> int option" where
  "wait_limit_ms cfg PendingAck = Some (wc_max_pending_ack_ms cfg)"
| "wait_limit_ms cfg Open = Some (wc_max_open_order_ms cfg)"
| "wait_limit_ms cfg CancelPending = Some (wc_max_open_order_ms cfg)"
| "wait_limit_ms cfg PartiallyFilled = Some (wc_max_partial_fill_ms cfg)"
| "wait_limit_ms cfg _ = None"

definition waiting_since :: "order_record \<Rightarrow> int" where
  "waiting_since r = (if o_created_at r \<le> 0 then o_last_updated r else o_created_at r)"

definition waited_too_long :: "watchdog_config \<Rightarrow> int \<Rightarrow> order_record \<Rightarrow> bool" where
  "waited_too_long cfg t r \<longleftrightarrow> 0 < waiting_since r \<and>
    (\<exists>limit. wait_limit_ms cfg (o_state r) = Some limit \<and> (limit + 1) * 1000000 \<le> max 0 (t - waiting_since r))"

lemma age_over_limit: "limit < max 0 x sdiv 1000000 \<longleftrightarrow> (limit + 1) * 1000000 \<le> max 0 (x :: int)"
proof -
  have "max 0 x sdiv 1000000 = max 0 x div 1000000" by (simp add: signed_divide_int_def sgn_if)
  moreover have "limit < y div 1000000 \<longleftrightarrow> (limit + 1) * 1000000 \<le> y" for y :: int
  proof -
    have step: "limit < q \<longleftrightarrow> (limit + 1) * 1000000 \<le> q * 1000000 + r" if "0 \<le> r" "r < 1000000" for q r :: int
    proof
      assume "limit < q"
      then have "(limit + 1) * 1000000 \<le> q * 1000000" by (intro mult_right_mono) simp_all
      then show "(limit + 1) * 1000000 \<le> q * 1000000 + r" using that by simp
    qed (use that in simp)
    show ?thesis using step [of "y mod 1000000" "y div 1000000"] by simp
  qed
  ultimately show ?thesis by simp
qed

lemma overdue_iff: "overdue cfg t r \<longleftrightarrow> waited_too_long cfg t r"
  by (cases "o_state r") (auto simp: overdue_def classify_order_def waited_too_long_def waiting_since_def Let_def age_over_limit)

text \<open>
  C37. A check is due when none was made yet or the configured interval, at most a minute, has passed since
  the last one.  A due check is the bulk cancellation of the active orders that have waited longer than the limit of
  their state: it reports exactly these, in their order, and its effect on orders and portfolio is that of
  cancelling each of them.  A check that is not due reports nothing and leaves the orders and the time of
  the last check.  Nothing else of the watchdog changes but that the interval is cut to a minute.
\<close>

theorem watchdog_cancels_overdue:
  assumes "run_check c sub t w (Some en) = (reports, w', Some en')"
    and "cfg = wd_config w" and "capped = min 60000 (wc_check_interval_ms cfg)"
    and "ids = map o_order_id (filter (waited_too_long cfg t) (active_orders (xs_registry (en_exec en))))"
  shows "wd_config w' = cfg\<lparr>wc_check_interval_ms := capped\<rparr> \<and>
    (if wd_last_check_ns w \<le> 0 \<or> capped * 1000000 \<le> t - wd_last_check_ns w
     then map wr_order_id reports = ids \<and> en_exec en' = snd (cancel_each c sub ids (en_exec en)) \<and> wd_last_check_ns w' = t
     else reports = [] \<and> en' = en \<and> wd_last_check_ns w' = wd_last_check_ns w)"
proof -
  let ?cfg = "cfg\<lparr>wc_check_interval_ms := capped\<rparr>"
  have k: "(if 60000 < wc_check_interval_ms cfg then cfg\<lparr>wc_check_interval_ms := 60000\<rparr> else cfg) = ?cfg"
    using assms(3) by (cases cfg) auto
  have due: "watchdog_due ?cfg t (w\<lparr>wd_config := ?cfg\<rparr>) \<longleftrightarrow> wd_last_check_ns w \<le> 0 \<or> capped * 1000000 \<le> t - wd_last_check_ns w"
    by (auto simp: watchdog_due_def)
  have "overdue ?cfg t = waited_too_long cfg t"
  proof
    fix r
    show "overdue ?cfg t r = waited_too_long cfg t r"
      by (cases "o_state r") (auto simp: overdue_iff waited_too_long_def)
  qed
  then show ?thesis
    using assms(1,4) scan_spec [OF active_orders_active, of c sub ?cfg t "xs_registry (en_exec en)" en]
    by (auto simp: run_check_def assms(2)[symmetric] k due case_prod_unfold Let_def simp del: less_le_not_le split: if_splits)
qed

text \<open>
  The states that an operator is to be alerted about are not among the active ones: no
  check ever reports an order in \<open>UnknownRecovery\<close>.
\<close>

theorem watchdog_never_alerts:
  assumes "run_check c sub t w (Some en) = (reports, w', eno')"
  shows "\<forall>r \<in> set reports. \<forall>x. AlertCallback x \<notin> set (watchdog_calls r)"
proof -
  have "list_all (\<lambda>w. wr_action w \<in> {WdCancel, WdForceClose}) reports"
    using assms scan_spec [OF active_orders_active, of c sub "wd_config w'" t "xs_registry (en_exec en)" en]
    by (auto simp: run_check_def case_prod_unfold Let_def split: if_splits)
  then show ?thesis by (auto simp: list_all_iff watchdog_calls_def)
qed

end
