(* ===== verification/Position_Exits.thy ===== *)
theory Position_Exits
  imports Common_Types Float_Ranges "HOL-Library.AList"
begin

text \<open>
  Local exits of a position: the emergency exits and the trailing stop
  (\<^verbatim>\<open>src/src/pipeline/exit_types.hpp\<close>, \<^verbatim>\<open>exit_orchestrator.{hpp,cpp}\<close>) and the detector of
  positions that do not move (\<^verbatim>\<open>stagnant_position_detector.{hpp,cpp}\<close>).  Texts made with
  \<^verbatim>\<open>std::format\<close> and log lines are left out; fixed texts are kept.
\<close>

section \<open>Types\<close>

datatype exit_category_label = CatAlpha | CatExecution | CatRiskKill | CatStaleData | CatEmergencyFlatten

datatype exit_signal_type =
    XsNone | HardRiskStop | TrailingStop | MarketRegimeExit | ToxicFlowExit | StructuralFailure
  | PartialReduce | QuickProfitHarvest | ContinuationValueExit | LiquidityDeteriorationExit
  | FundingCarryExit | HedgeLegClose | HedgeBothClose | PhantomCleanup | StaleDataExit

fun exit_category :: "exit_signal_type \<Rightarrow> exit_category_label" where
  "exit_category HardRiskStop = CatRiskKill"
| "exit_category ToxicFlowExit = CatExecution"
| "exit_category LiquidityDeteriorationExit = CatExecution"
| "exit_category PhantomCleanup = CatEmergencyFlatten"
| "exit_category StaleDataExit = CatStaleData"
| "exit_category _ = CatAlpha"

record continuation_state =
  cs_trend_persistence :: double
  cs_mean_reversion_hazard :: double
  cs_liquidity_deterioration :: double
  cs_toxic_flow_score :: double
  cs_queue_fill_deterioration :: double
  cs_funding_carry_penalty :: double
  cs_edge_decay :: double
  cs_regime_transition_risk :: double
  cs_exit_confidence :: double
  cs_cost_of_staying :: double
  cs_continuation_value :: double

definition empty_continuation :: continuation_state where
  "empty_continuation =
    \<lparr>cs_trend_persistence = 0, cs_mean_reversion_hazard = 0, cs_liquidity_deterioration = 0,
     cs_toxic_flow_score = 0, cs_queue_fill_deterioration = 0, cs_funding_carry_penalty = 0, cs_edge_decay = 0,
     cs_regime_transition_risk = 0, cs_exit_confidence = 0, cs_cost_of_staying = 0, cs_continuation_value = 0\<rparr>"

record exit_explanation =
  xe_primary_signal :: exit_signal_type
  xe_category :: exit_category_label
  xe_secondary_drivers :: "(string \<times> double) list"
  xe_counterfactual :: string

record exit_decision =
  xd_should_exit :: bool
  xd_should_reduce :: bool
  xd_reduce_fraction :: double
  xd_explanation :: exit_explanation
  xd_state :: continuation_state
  xd_urgency :: double

definition no_exit :: exit_decision where
  "no_exit =
    \<lparr>xd_should_exit = False, xd_should_reduce = False, xd_reduce_fraction = 0,
     xd_explanation = \<lparr>xe_primary_signal = XsNone, xe_category = CatAlpha, xe_secondary_drivers = [], xe_counterfactual = []\<rparr>,
     xd_state = empty_continuation, xd_urgency = 0\<rparr>"

text \<open>The context has one field per field of \<^verbatim>\<open>ExitContext\<close> that a method reads.\<close>

record exit_context =
  xc_position_side :: position_side
  xc_entry_price :: double
  xc_current_price :: double
  xc_unrealized_pnl :: double
  xc_unrealized_pnl_pct :: double
  xc_entry_time_ns :: int
  xc_now_ns :: int
  xc_highest_price_since_entry :: double
  xc_lowest_price_since_entry :: double
  xc_current_stop_level :: double
  xc_breakeven_activated :: bool
  xc_current_trail_mult :: double
  xc_atr_14 :: double
  xc_atr_valid :: bool
  xc_spread_bps :: double
  xc_depth_usd :: double
  xc_vpin_toxic :: bool
  xc_adx :: double
  xc_bb_width :: double
  xc_buy_pressure :: double
  xc_total_capital :: double
  xc_max_loss_per_trade_pct :: double
  xc_is_feed_fresh :: bool
  xc_taker_fee_pct :: double
  xc_atr_stop_multiplier :: double
  xc_breakeven_atr_threshold :: double
  xc_hedge_active :: bool

section \<open>Emergency exits\<close>

definition build_explanation ::
    "exit_signal_type \<Rightarrow> continuation_state \<Rightarrow> string \<Rightarrow> exit_explanation" where
  "build_explanation sig st counterfactual =
    \<lparr>xe_primary_signal = sig, xe_category = exit_category sig,
     xe_secondary_drivers =
       (if \<not> deq (cs_continuation_value st) 0 \<or> \<not> deq (cs_trend_persistence st) 0
        then (if lit 0.01 < \<bar>cs_trend_persistence st\<bar> then [(''trend_persistence'', cs_trend_persistence st)] else []) @
             (if lit 0.01 < cs_edge_decay st then [(''edge_decay'', cs_edge_decay st)] else []) @
             (if lit 0.01 < cs_toxic_flow_score st then [(''toxic_flow'', cs_toxic_flow_score st)] else [])
        else []),
     xe_counterfactual = counterfactual\<rparr>"

definition exit_now :: "double \<Rightarrow> exit_explanation \<Rightarrow> exit_decision" where
  "exit_now u x = no_exit\<lparr>xd_should_exit := True, xd_urgency := u, xd_explanation := x\<rparr>"

definition capital_loss_pct :: "exit_context \<Rightarrow> double" where
  "capital_loss_pct c = \<bar>std_min (xc_unrealized_pnl c) 0\<bar> / xc_total_capital c * lit 100"

definition check_fixed_capital_stop :: "exit_context \<Rightarrow> exit_decision" where
  "check_fixed_capital_stop c =
    (if xc_total_capital c \<le> 0 then no_exit
     else if capital_loss_pct c < xc_max_loss_per_trade_pct c then no_exit
     else exit_now 1 (build_explanation HardRiskStop empty_continuation
            ''Position would need to recover to reduce loss below capital limit''))"

definition check_toxic_flow :: "exit_context \<Rightarrow> exit_decision" where
  "check_toxic_flow c =
    (if \<not> xc_vpin_toxic c then no_exit
     else if - lit 0.3 \<le> xc_unrealized_pnl_pct c then no_exit
     else if xc_now_ns c - xc_entry_time_ns c < 300 * 1000000000 \<and> - lit 0.5 \<le> xc_unrealized_pnl_pct c then no_exit
     else exit_now (lit 0.95) (build_explanation ToxicFlowExit empty_continuation
            ''Would hold if position above -0.3% or VPIN not toxic''))"

definition check_stale_data_exit :: "exit_context \<Rightarrow> exit_decision" where
  "check_stale_data_exit c =
    (if xc_is_feed_fresh c then no_exit
     else if \<not> (xc_unrealized_pnl_pct c < - lit 0.5 \<or> xc_depth_usd c < lit 1000) then no_exit
     else exit_now (lit 0.85)
            \<lparr>xe_primary_signal = StaleDataExit, xe_category = CatStaleData, xe_secondary_drivers = [],
             xe_counterfactual = ''Would hold if feed were fresh or position were profitable''\<rparr>)"

definition evaluate_exit :: "exit_context \<Rightarrow> exit_decision" where
  "evaluate_exit c =
    (if xc_hedge_active c then no_exit
     else if xd_should_exit (check_fixed_capital_stop c) then check_fixed_capital_stop c
     else if xd_should_exit (check_toxic_flow c) then check_toxic_flow c
     else if xd_should_exit (check_stale_data_exit c) then check_stale_data_exit c
     else no_exit)"

section \<open>Trailing stop\<close>

record trailing_update =
  tu_stop_level :: double
  tu_trail_mult :: double
  tu_breakeven_activated :: bool
  tu_highest :: double
  tu_lowest :: double

definition trail_multiplier :: "exit_context \<Rightarrow> double" where
  "trail_multiplier c =
    (let is_long = (xc_position_side c = Long);
         adx_f = (if lit 30 < xc_adx c then lit 0.85 else if xc_adx c \<le> lit 20 then lit 1.15 else 1);
         depth_f = (if xc_depth_usd c < lit 500 then lit 1.3 else if xc_depth_usd c < lit 2000 then lit 1.1 else 1);
         spread_f = (if lit 50 < xc_spread_bps c then lit 1.3 else if lit 20 < xc_spread_bps c then lit 1.1 else 1);
         bb_f = (if lit 0.05 < xc_bb_width c then lit 1.2 else if lit 0.03 < xc_bb_width c then lit 1.1 else 1);
         pressure_f = (if is_long \<and> xc_buy_pressure c < lit 0.3 then lit 0.8
                       else if \<not> is_long \<and> lit 0.7 < xc_buy_pressure c then lit 0.8 else 1);
         profit_in_atr = (if is_long then (xc_current_price c - xc_entry_price c) / xc_atr_14 c
                          else (xc_entry_price c - xc_current_price c) / xc_atr_14 c);
         profit_f = (if 0 < xc_atr_14 c \<and> 0 < xc_entry_price c \<and> lit 0.5 < profit_in_atr
                     then std_min (lit 1.8) (1 + (profit_in_atr - lit 0.5) * lit 0.5) else 1)
     in std_clamp (xc_atr_stop_multiplier c * adx_f * depth_f * spread_f * bb_f * pressure_f * profit_f)
          (lit 0.8) (lit 5))"

definition trail_distance :: "exit_context \<Rightarrow> double" where
  "trail_distance c = std_max (trail_multiplier c * xc_atr_14 c) (xc_entry_price c * lit 0.003)"

definition min_fee_offset :: "exit_context \<Rightarrow> double" where
  "min_fee_offset c = xc_entry_price c * xc_taker_fee_pct c / lit 100 * lit 3"

definition breakeven_threshold :: "exit_context \<Rightarrow> double" where
  "breakeven_threshold c =
    (let fee_floor = (if 0 < xc_atr_14 c then min_fee_offset c / xc_atr_14 c else lit 100)
     in std_max (xc_breakeven_atr_threshold c) (fee_floor * lit 1.5))"

definition update_trailing_long :: "exit_context \<Rightarrow> trailing_update \<Rightarrow> trailing_update" where
  "update_trailing_long c u =
    (let entry = xc_entry_price c; price = xc_current_price c; atr = xc_atr_14 c;
         u = u\<lparr>tu_highest := std_max (xc_highest_price_since_entry c) price\<rparr>
     in if \<not> xc_breakeven_activated c then
          if breakeven_threshold c \<le> (price - entry) / atr then
            let be = entry + (price - entry) * lit 0.5;
                be = std_max be (entry + min_fee_offset c);
                be = std_max be (entry + atr * lit 0.1);
                be = std_min be (price - atr * lit 0.1)
            in u\<lparr>tu_breakeven_activated := True, tu_stop_level := be\<rparr>
          else if tu_stop_level u \<le> 0 then u\<lparr>tu_stop_level := entry - trail_distance c\<rparr>
          else u
        else u\<lparr>tu_stop_level := std_max (xc_current_stop_level c) (tu_highest u - trail_distance c)\<rparr>)"

definition update_trailing_short :: "exit_context \<Rightarrow> trailing_update \<Rightarrow> trailing_update" where
  "update_trailing_short c u =
    (let entry = xc_entry_price c; price = xc_current_price c; atr = xc_atr_14 c;
         u = u\<lparr>tu_lowest := std_min (xc_lowest_price_since_entry c) price\<rparr>
     in if \<not> xc_breakeven_activated c then
          if breakeven_threshold c \<le> (entry - price) / atr then
            let be = entry - (entry - price) * lit 0.5;
                be = std_min be (entry - min_fee_offset c);
                be = std_min be (entry - atr * lit 0.1);
                be = std_max be (price + atr * lit 0.1)
            in u\<lparr>tu_breakeven_activated := True, tu_stop_level := be\<rparr>
          else if tu_stop_level u \<le> 0 then u\<lparr>tu_stop_level := entry + trail_distance c\<rparr>
          else u
        else
          let new_stop = tu_lowest u + trail_distance c
          in if xc_current_stop_level c \<le> 0 then u\<lparr>tu_stop_level := new_stop\<rparr>
             else u\<lparr>tu_stop_level := std_min (xc_current_stop_level c) new_stop\<rparr>)"

definition update_trailing :: "exit_context \<Rightarrow> trailing_update" where
  "update_trailing c =
    (let u = \<lparr>tu_stop_level = xc_current_stop_level c, tu_trail_mult = xc_current_trail_mult c,
              tu_breakeven_activated = xc_breakeven_activated c,
              tu_highest = xc_highest_price_since_entry c, tu_lowest = xc_lowest_price_since_entry c\<rparr>
     in if \<not> xc_atr_valid c \<or> xc_atr_14 c \<le> 0 \<or> xc_entry_price c \<le> 0 then u
        else
          let u = u\<lparr>tu_trail_mult := trail_multiplier c\<rparr>
          in if xc_position_side c = Long then update_trailing_long c u else update_trailing_short c u)"

section \<open>Positions that do not move\<close>

record stagnant_config =
  sg_check_window_sec :: int
  sg_min_range_bps :: double
  sg_min_position_age_sec :: int
  sg_loss_zone_threshold_bps :: double
  sg_hard_max_hold_sec :: int
  sg_enabled :: bool

definition default_stagnant_config :: stagnant_config where
  "default_stagnant_config =
    \<lparr>sg_check_window_sec = 180, sg_min_range_bps = lit 12, sg_min_position_age_sec = 900,
     sg_loss_zone_threshold_bps = lit 30, sg_hard_max_hold_sec = 1800, sg_enabled = True\<rparr>"

record position_tracker =
  pk_opened_at_ns :: int
  pk_samples :: "(int \<times> double) list"
  pk_already_flagged :: bool

record stagnant_detector =
  sd_config :: stagnant_config
  sd_trackers :: "(symbol \<times> position_tracker) list"

definition sd_on_position_opened :: "symbol \<Rightarrow> int \<Rightarrow> stagnant_detector \<Rightarrow> stagnant_detector" where
  "sd_on_position_opened s now_ns d =
    d\<lparr>sd_trackers := AList.update s \<lparr>pk_opened_at_ns = now_ns, pk_samples = [], pk_already_flagged = False\<rparr> (sd_trackers d)\<rparr>"

definition sd_on_position_closed :: "symbol \<Rightarrow> stagnant_detector \<Rightarrow> stagnant_detector" where
  "sd_on_position_closed s d = d\<lparr>sd_trackers := AList.delete s (sd_trackers d)\<rparr>"

definition sd_reset :: "symbol \<Rightarrow> stagnant_detector \<Rightarrow> stagnant_detector" where
  "sd_reset s d =
    (case map_of (sd_trackers d) s of
       None \<Rightarrow> d
     | Some t \<Rightarrow> d\<lparr>sd_trackers := AList.update s (t\<lparr>pk_samples := [], pk_already_flagged := False\<rparr>) (sd_trackers d)\<rparr>)"

definition position_pnl_bps :: "position_side \<Rightarrow> double \<Rightarrow> double \<Rightarrow> double" where
  "position_pnl_bps ps entry price =
    (if ps = Long then (price - entry) / entry * lit 10000 else (entry - price) / entry * lit 10000)"

text \<open>The window: samples older than the window leave from the front.\<close>

definition price_range_bps :: "(int \<times> double) list \<Rightarrow> double \<Rightarrow> double" where
  "price_range_bps samples price =
    (let first = snd (hd samples);
         pmin = fold (\<lambda>s m. std_min m (snd s)) samples first;
         pmax = fold (\<lambda>s m. std_max m (snd s)) samples first
     in (pmax - pmin) / price * lit 10000)"

definition tracker_tick ::
    "stagnant_config \<Rightarrow> double \<Rightarrow> int \<Rightarrow> double \<Rightarrow> position_side \<Rightarrow> position_tracker \<Rightarrow> bool \<times> position_tracker" where
  "tracker_tick cfg price now_ns entry ps t =
    (if pk_opened_at_ns t \<le> 0 then (False, t)
     else if pk_already_flagged t then (False, t)
     else
       let age_sec = (now_ns - pk_opened_at_ns t) sdiv 1000000000
       in if sg_hard_max_hold_sec cfg \<le> age_sec then (True, t\<lparr>pk_already_flagged := True\<rparr>)
          else if age_sec < sg_min_position_age_sec cfg then (False, t)
          else if 0 < entry \<and> isfinite entry \<and> - sg_loss_zone_threshold_bps cfg < position_pnl_bps ps entry price
            then (False, t)
          else
            let samples = dropWhile (\<lambda>s. sg_check_window_sec cfg * 1000000000 < now_ns - fst s)
                            (pk_samples t @ [(now_ns, price)]);
                t = t\<lparr>pk_samples := samples\<rparr>
            in if length samples < 5 then (False, t)
               else if price_range_bps samples price < sg_min_range_bps cfg then (True, t\<lparr>pk_already_flagged := True\<rparr>)
               else (False, t))"

definition sd_tick ::
    "symbol \<Rightarrow> double \<Rightarrow> int \<Rightarrow> double \<Rightarrow> position_side \<Rightarrow> stagnant_detector \<Rightarrow> bool \<times> stagnant_detector" where
  "sd_tick s price now_ns entry ps d =
    (if \<not> sg_enabled (sd_config d) then (False, d)
     else if \<not> 0 < price \<or> \<not> isfinite price then (False, d)
     else case map_of (sd_trackers d) s of
       None \<Rightarrow> (False, d)
     | Some t \<Rightarrow>
         let (fire, t') = tracker_tick (sd_config d) price now_ns entry ps t
         in (fire, d\<lparr>sd_trackers := AList.update s t' (sd_trackers d)\<rparr>))"

section \<open>What the exits promise\<close>

text \<open>The trailing state of one tick is that of the next.\<close>

definition carry_trailing :: "trailing_update \<Rightarrow> exit_context \<Rightarrow> exit_context" where
  "carry_trailing u c = c
    \<lparr>xc_current_stop_level := tu_stop_level u, xc_breakeven_activated := tu_breakeven_activated u,
     xc_current_trail_mult := tu_trail_mult u, xc_highest_price_since_entry := tu_highest u,
     xc_lowest_price_since_entry := tu_lowest u\<rparr>"

definition trail_run :: "exit_context list \<Rightarrow> trailing_update \<Rightarrow> trailing_update" where
  "trail_run cs u = fold (\<lambda>c u. update_trailing (carry_trailing u c)) cs u"

lemma trailing_long_step:
  assumes "xc_breakeven_activated c" and "xc_position_side c = Long" and "xc_current_stop_level c \<noteq> NaN"
  shows "xc_current_stop_level c \<le> tu_stop_level (update_trailing c)"
    and "tu_breakeven_activated (update_trailing c)"
  using assms by (simp_all add: update_trailing_def update_trailing_long_def Let_def std_max_ge_left)

lemma std_min_le: "a \<noteq> NaN \<Longrightarrow> std_min a b \<le> a"
  by (rule std_min_le_left)

lemma trailing_short_step:
  assumes "xc_breakeven_activated c" and "xc_position_side c = Short" and "0 < xc_current_stop_level c"
  shows "tu_stop_level (update_trailing c) \<le> xc_current_stop_level c"
    and "tu_breakeven_activated (update_trailing c)"
proof -
  have s: "\<not> xc_current_stop_level c \<le> 0" "xc_current_stop_level c \<noteq> NaN"
    using assms(3) by (auto dest: double_less_le_trans)
  then show "tu_stop_level (update_trailing c) \<le> xc_current_stop_level c"
    "tu_breakeven_activated (update_trailing c)"
    using assms by (simp_all add: update_trailing_def update_trailing_short_def Let_def std_min_le_left)
qed

text \<open>
  Once the trailing stop of a long position has reached breakeven it never moves back,
  whatever the prices, the volatility and the order book do, NaN included.
\<close>

theorem long_trailing_never_moves_back:
  assumes "tu_breakeven_activated u" and "tu_stop_level u \<noteq> NaN"
    and "list_all (\<lambda>c. xc_position_side c = Long) cs"
  shows "tu_stop_level u \<le> tu_stop_level (trail_run cs u)"
  using assms
proof (induction cs arbitrary: u)
  case (Cons c cs)
  let ?c = "carry_trailing u c"
  have step: "tu_stop_level u \<le> tu_stop_level (update_trailing ?c)" "tu_breakeven_activated (update_trailing ?c)"
    using trailing_long_step [of ?c] Cons.prems by (simp_all add: carry_trailing_def)
  then have "tu_stop_level (update_trailing ?c) \<noteq> NaN" by auto
  then have "tu_stop_level (update_trailing ?c) \<le> tu_stop_level (trail_run cs (update_trailing ?c))"
    using Cons.IH step(2) Cons.prems(3) by simp
  then show ?case using step(1) by (simp add: trail_run_def) (blast intro: double_le_trans)
qed (simp add: trail_run_def)

text \<open>When an emergency exit is due, and for which reason.\<close>

lemma exit_now_simps [simp]:
  "xd_should_exit (exit_now u x)" "xd_urgency (exit_now u x) = u" "xd_explanation (exit_now u x) = x"
  "\<not> xd_should_exit no_exit" "\<not> xd_should_reduce (exit_now u x)" "\<not> xd_should_reduce no_exit"
  by (simp_all add: exit_now_def no_exit_def)

definition capital_stop_due :: "exit_context \<Rightarrow> bool" where
  "capital_stop_due c \<longleftrightarrow> \<not> xc_total_capital c \<le> 0 \<and> \<not> capital_loss_pct c < xc_max_loss_per_trade_pct c"

definition toxic_exit_due :: "exit_context \<Rightarrow> bool" where
  "toxic_exit_due c \<longleftrightarrow> xc_vpin_toxic c \<and> \<not> - lit 0.3 \<le> xc_unrealized_pnl_pct c \<and>
    (300 * 1000000000 \<le> xc_now_ns c - xc_entry_time_ns c \<or> \<not> - lit 0.5 \<le> xc_unrealized_pnl_pct c)"

definition stale_exit_due :: "exit_context \<Rightarrow> bool" where
  "stale_exit_due c \<longleftrightarrow> \<not> xc_is_feed_fresh c \<and> (xc_unrealized_pnl_pct c < - lit 0.5 \<or> xc_depth_usd c < lit 1000)"

text \<open>
  A position without a hedge is closed exactly when the capital stop, toxic flow or a
  stale feed demands it; the explanation names the first of the three that does, and a partial
  reduction is never decided.
\<close>

theorem emergency_exit_exact:
  "(xd_should_exit (evaluate_exit c) \<longleftrightarrow>
     \<not> xc_hedge_active c \<and> (capital_stop_due c \<or> toxic_exit_due c \<or> stale_exit_due c)) \<and>
   xe_primary_signal (xd_explanation (evaluate_exit c)) =
     (if xc_hedge_active c then XsNone else if capital_stop_due c then HardRiskStop
      else if toxic_exit_due c then ToxicFlowExit else if stale_exit_due c then StaleDataExit else XsNone) \<and>
   \<not> xd_should_reduce (evaluate_exit c)"
proof -
  have 1: "xd_should_exit (check_fixed_capital_stop c) \<longleftrightarrow> capital_stop_due c"
    "capital_stop_due c \<Longrightarrow> xe_primary_signal (xd_explanation (check_fixed_capital_stop c)) = HardRiskStop"
    by (auto simp: check_fixed_capital_stop_def capital_stop_due_def build_explanation_def)
  have 2: "xd_should_exit (check_toxic_flow c) \<longleftrightarrow> toxic_exit_due c"
    "toxic_exit_due c \<Longrightarrow> xe_primary_signal (xd_explanation (check_toxic_flow c)) = ToxicFlowExit"
    by (auto simp: check_toxic_flow_def toxic_exit_due_def build_explanation_def)
  have 3: "xd_should_exit (check_stale_data_exit c) \<longleftrightarrow> stale_exit_due c"
    "stale_exit_due c \<Longrightarrow> xe_primary_signal (xd_explanation (check_stale_data_exit c)) = StaleDataExit"
    by (auto simp: check_stale_data_exit_def stale_exit_due_def)
  have 4: "\<not> xd_should_reduce (check_fixed_capital_stop c)" "\<not> xd_should_reduce (check_toxic_flow c)"
    "\<not> xd_should_reduce (check_stale_data_exit c)"
    by (simp_all add: check_fixed_capital_stop_def check_toxic_flow_def check_stale_data_exit_def)
  show ?thesis using 1 2 3 4 by (auto simp: evaluate_exit_def) (simp_all add: no_exit_def)
qed

text \<open>A profit or loss that is NaN closes the position: the comparison with the limit fails.\<close>

theorem nan_pnl_closes:
  assumes "\<not> xc_hedge_active c" and "xc_unrealized_pnl c = NaN" and "0 < xc_total_capital c"
  shows "xd_should_exit (evaluate_exit c)"
proof -
  have "capital_loss_pct c = NaN" using assms(2) by (cases "xc_total_capital c") (simp_all add: capital_loss_pct_def std_min_def)
  moreover have "\<not> xc_total_capital c \<le> 0" using assms(3) by (auto dest: double_less_le_trans)
  ultimately have "xd_should_exit (check_fixed_capital_stop c)"
    by (simp add: check_fixed_capital_stop_def)
  then show ?thesis using assms(1) by (simp add: evaluate_exit_def)
qed

section \<open>What the detector promises\<close>

lemma tracker_tick_flag:
  "fst (tracker_tick cfg price t entry ps k) \<Longrightarrow> pk_already_flagged (snd (tracker_tick cfg price t entry ps k))"
  "pk_already_flagged k \<Longrightarrow> \<not> fst (tracker_tick cfg price t entry ps k)"
  "pk_already_flagged k \<Longrightarrow> pk_already_flagged (snd (tracker_tick cfg price t entry ps k))"
  by (auto simp: tracker_tick_def Let_def split: if_splits)

definition age_of :: "int \<Rightarrow> position_tracker \<Rightarrow> int" where
  "age_of t k = (t - pk_opened_at_ns k) sdiv 1000000000"

text \<open>
  The detector asks for a forced exit at most once per position, and for a reason: the
  position has been held for the hard maximum, or it is old enough and not known to be above the loss zone;
  and at the hard maximum it does ask.
\<close>

theorem stagnant_exit_justified:
  "(fst (tracker_tick cfg price t entry ps k) \<longrightarrow>
      \<not> pk_already_flagged k \<and> pk_already_flagged (snd (tracker_tick cfg price t entry ps k)) \<and>
      (sg_hard_max_hold_sec cfg \<le> age_of t k \<or>
       sg_min_position_age_sec cfg \<le> age_of t k \<and>
       \<not> (0 < entry \<and> isfinite entry \<and> - sg_loss_zone_threshold_bps cfg < position_pnl_bps ps entry price))) \<and>
   (0 < pk_opened_at_ns k \<and> \<not> pk_already_flagged k \<and> sg_hard_max_hold_sec cfg \<le> age_of t k \<longrightarrow>
      fst (tracker_tick cfg price t entry ps k))"
  by (auto simp: tracker_tick_def age_of_def Let_def split: if_splits)

definition tracker_ticks ::
    "stagnant_config \<Rightarrow> (double \<times> int \<times> double \<times> position_side) list \<Rightarrow> position_tracker \<Rightarrow> bool list" where
  "tracker_ticks cfg xs k =
    fst (fold (\<lambda>(p, t, e, ps) (out, k). let (f, k) = tracker_tick cfg p t e ps k in (out @ [f], k)) xs ([], k))"

lemma ticks_silent:
  assumes "pk_already_flagged k"
  shows "\<exists>k'. fold (\<lambda>(p, t, e, ps) (out, k). let (f, k) = tracker_tick cfg p t e ps k in (out @ [f], k)) xs (out, k) =
    (out @ replicate (length xs) False, k')"
  using assms
proof (induction xs arbitrary: out k)
  case (Cons x xs)
  obtain p t e ps where x: "x = (p, t, e, ps)" by (cases x) auto
  obtain f k1 where tk: "tracker_tick cfg p t e ps k = (f, k1)" by (cases "tracker_tick cfg p t e ps k")
  then have "\<not> f" "pk_already_flagged k1"
    using tracker_tick_flag(2,3) [OF Cons.prems, of cfg p t e ps] by simp_all
  then show ?case using Cons.IH [of k1 "out @ [False]"] by (simp add: x tk)
qed simp

text \<open>
  A forced exit that fails is not asked for again: after the first alarm the detector stays
  silent until the position is closed or the tracker reset.
\<close>

theorem stagnant_alarm_not_repeated:
  assumes "fst (tracker_tick cfg price t entry ps k)"
  shows "tracker_ticks cfg xs (snd (tracker_tick cfg price t entry ps k)) = replicate (length xs) False"
  using ticks_silent [OF tracker_tick_flag(1) [OF assms], of cfg xs "[]"] by (auto simp: tracker_ticks_def)

end
