(* ===== verification/Pre_Trade_Gates.thy ===== *)
theory Pre_Trade_Gates
  imports Feature_Types Trading_Types Float_Ranges
begin

text \<open>
  The gates between the risk engine and the execution engine
  (\<^verbatim>\<open>src/src/pipeline/pre_trade_gates.{hpp,cpp}\<close>), and the small trackers of the pipeline:
  the funding rate, the recent trades and the state of the higher time frame
  (\<^verbatim>\<open>funding_rate_tracker.hpp\<close>, \<^verbatim>\<open>trading_history_stats.hpp\<close>, \<^verbatim>\<open>htf_trend_state.hpp\<close>).
  Reason details (\<^verbatim>\<open>std::format\<close>) are left out.
\<close>

section \<open>Freshness of the signal\<close>

record gates_config =
  gc_max_signal_age_ms :: int
  gc_max_adverse_price_drift_bps :: double
  gc_max_spread_widen_pct :: double
  gc_min_depth_remain_pct :: double
  gc_min_net_rr :: double
  gc_assumed_slippage_bps_per_leg :: double
  gc_taker_fee_bps :: double
  gc_maker_fee_bps :: double
  gc_include_funding_cost :: bool
  gc_assumed_hold_minutes :: double
  gc_freshness_enabled :: bool
  gc_net_rr_enabled :: bool

definition default_gates_config :: gates_config where
  "default_gates_config =
    \<lparr>gc_max_signal_age_ms = 500, gc_max_adverse_price_drift_bps = lit 8, gc_max_spread_widen_pct = lit 50,
     gc_min_depth_remain_pct = lit 50, gc_min_net_rr = lit 0.5, gc_assumed_slippage_bps_per_leg = lit 2,
     gc_taker_fee_bps = lit 6, gc_maker_fee_bps = lit 2, gc_include_funding_cost = False,
     gc_assumed_hold_minutes = lit 2, gc_freshness_enabled = True, gc_net_rr_enabled = True\<rparr>"

record freshness_verdict =
  fv_passed :: bool
  fv_reason_code :: string
  fv_signal_age_ms :: int
  fv_price_drift_bps :: double
  fv_spread_widen_pct :: double
  fv_depth_remain_pct :: double

definition fresh_verdict :: freshness_verdict where
  "fresh_verdict =
    \<lparr>fv_passed = True, fv_reason_code = [], fv_signal_age_ms = 0, fv_price_drift_bps = 0,
     fv_spread_widen_pct = 0, fv_depth_remain_pct = lit 100\<rparr>"

definition signal_age_ms :: "trade_intent \<Rightarrow> int \<Rightarrow> int" where
  "signal_age_ms i now_ns = max 0 (now_ns - ti_signal_snapshot_ts_ns i) sdiv 1000000"

definition adverse_drift_bps :: "trade_intent \<Rightarrow> double \<Rightarrow> double" where
  "adverse_drift_bps i mid =
    (let drift = (mid - ti_signal_snapshot_mid i) / ti_signal_snapshot_mid i * lit 10000
     in if ti_side i = Buy then drift else - drift)"

definition spread_widen_pct :: "trade_intent \<Rightarrow> double \<Rightarrow> double" where
  "spread_widen_pct i spread =
    (spread - ti_signal_snapshot_spread_bps i) / ti_signal_snapshot_spread_bps i * lit 100"

definition depth_remain_pct :: "trade_intent \<Rightarrow> microstructure_features \<Rightarrow> double" where
  "depth_remain_pct i m =
    (mf_bid_depth_5_notional m + mf_ask_depth_5_notional m) / ti_signal_snapshot_depth_usd i * lit 100"

text \<open>Each stage refuses, or records its figure and hands on to the next.\<close>

definition gate_depth :: "gates_config \<Rightarrow> trade_intent \<Rightarrow> microstructure_features \<Rightarrow> freshness_verdict \<Rightarrow> freshness_verdict" where
  "gate_depth cfg i m v =
    (if mf_liquidity_valid m \<and> 0 < ti_signal_snapshot_depth_usd i then
       let v = v\<lparr>fv_depth_remain_pct := depth_remain_pct i m\<rparr>
       in if depth_remain_pct i m < gc_min_depth_remain_pct cfg
          then v\<lparr>fv_passed := False, fv_reason_code := ''depth_thin''\<rparr> else v\<lparr>fv_reason_code := ''ok''\<rparr>
     else v\<lparr>fv_reason_code := ''ok''\<rparr>)"

definition gate_spread :: "gates_config \<Rightarrow> trade_intent \<Rightarrow> microstructure_features \<Rightarrow> freshness_verdict \<Rightarrow> freshness_verdict" where
  "gate_spread cfg i m v =
    (if mf_spread_valid m \<and> 0 < ti_signal_snapshot_spread_bps i then
       let v = v\<lparr>fv_spread_widen_pct := spread_widen_pct i (mf_spread_bps m)\<rparr>
       in if gc_max_spread_widen_pct cfg < spread_widen_pct i (mf_spread_bps m)
          then v\<lparr>fv_passed := False, fv_reason_code := ''spread_widened''\<rparr> else gate_depth cfg i m v
     else gate_depth cfg i m v)"

definition gate_drift :: "gates_config \<Rightarrow> trade_intent \<Rightarrow> microstructure_features \<Rightarrow> freshness_verdict \<Rightarrow> freshness_verdict" where
  "gate_drift cfg i m v =
    (if 0 < mf_mid_price m \<and> isfinite (mf_mid_price m) then
       let v = v\<lparr>fv_price_drift_bps := adverse_drift_bps i (mf_mid_price m)\<rparr>
       in if gc_max_adverse_price_drift_bps cfg < adverse_drift_bps i (mf_mid_price m)
          then v\<lparr>fv_passed := False, fv_reason_code := ''price_drift''\<rparr> else gate_spread cfg i m v
     else gate_spread cfg i m v)"

definition evaluate_freshness :: "gates_config \<Rightarrow> trade_intent \<Rightarrow> microstructure_features \<Rightarrow> int \<Rightarrow> freshness_verdict" where
  "evaluate_freshness cfg i m now_ns =
    (if \<not> gc_freshness_enabled cfg then fresh_verdict\<lparr>fv_reason_code := ''disabled''\<rparr>
     else if ti_trade_side i \<noteq> TradeOpen then fresh_verdict\<lparr>fv_reason_code := ''ok_close_skip''\<rparr>
     else if ti_signal_snapshot_ts_ns i \<le> 0 \<or> ti_signal_snapshot_mid i \<le> 0
       then fresh_verdict\<lparr>fv_reason_code := ''ok_no_snapshot''\<rparr>
     else
       let v = fresh_verdict\<lparr>fv_signal_age_ms := signal_age_ms i now_ns\<rparr>
       in if gc_max_signal_age_ms cfg < signal_age_ms i now_ns
          then v\<lparr>fv_passed := False, fv_reason_code := ''stale''\<rparr>
          else gate_drift cfg i m v)"

section \<open>Net reward to risk\<close>

record net_rr_verdict =
  nv_passed :: bool
  nv_reason_code :: string
  nv_gross_reward_bps :: double
  nv_gross_risk_bps :: double
  nv_gross_rr :: double
  nv_total_cost_bps :: double
  nv_net_reward_bps :: double
  nv_net_rr :: double

definition empty_net_rr :: net_rr_verdict where
  "empty_net_rr =
    \<lparr>nv_passed = True, nv_reason_code = [], nv_gross_reward_bps = 0, nv_gross_risk_bps = 0, nv_gross_rr = 0,
     nv_total_cost_bps = 0, nv_net_reward_bps = 0, nv_net_rr = 0\<rparr>"

text \<open>The price the gate measures from: the current mid price, or the one of the snapshot.\<close>

definition gate_entry_price :: "trade_intent \<Rightarrow> double \<Rightarrow> double option" where
  "gate_entry_price i mid =
    (if mid \<le> 0 \<or> \<not> isfinite mid then
       (case ti_snapshot_mid_price i of
          Some p \<Rightarrow> if 0 < p then Some p else None
        | None \<Rightarrow> None)
     else Some mid)"

definition funding_cost_bps :: "gates_config \<Rightarrow> side \<Rightarrow> double \<Rightarrow> double" where
  "funding_cost_bps cfg s rate =
    (if gc_include_funding_cost cfg \<and> isfinite rate then
       let frac = std_clamp (gc_assumed_hold_minutes cfg / lit 480) 0 (lit 10);
           signed = rate * frac * lit 10000
       in std_max (if s = Buy then signed else - signed) 0
     else 0)"

definition total_cost_bps :: "gates_config \<Rightarrow> side \<Rightarrow> double \<Rightarrow> bool \<Rightarrow> double" where
  "total_cost_bps cfg s rate taker =
    (if taker then gc_taker_fee_bps cfg else gc_maker_fee_bps cfg) * lit 2 +
    gc_assumed_slippage_bps_per_leg cfg * lit 2 + funding_cost_bps cfg s rate"

definition measure_net_rr ::
    "gates_config \<Rightarrow> side \<Rightarrow> double \<Rightarrow> bool \<Rightarrow> double \<Rightarrow> double \<Rightarrow> double \<Rightarrow> net_rr_verdict" where
  "measure_net_rr cfg s rate taker entry reward risk =
    (let rw = reward / entry * lit 10000; rk = risk / entry * lit 10000;
         cost = total_cost_bps cfg s rate taker; net = rw - cost
     in empty_net_rr
        \<lparr>nv_gross_reward_bps := rw, nv_gross_risk_bps := rk, nv_gross_rr := rw / rk, nv_total_cost_bps := cost,
         nv_net_reward_bps := net, nv_net_rr := (if 0 < rk then net / rk else 0)\<rparr>)"

definition evaluate_net_rr :: "gates_config \<Rightarrow> trade_intent \<Rightarrow> double \<Rightarrow> double \<Rightarrow> bool \<Rightarrow> net_rr_verdict" where
  "evaluate_net_rr cfg i mid rate taker =
    (if \<not> gc_net_rr_enabled cfg then empty_net_rr\<lparr>nv_reason_code := ''disabled''\<rparr>
     else if ti_trade_side i \<noteq> TradeOpen then empty_net_rr\<lparr>nv_reason_code := ''ok_close_skip''\<rparr>
     else case (ti_take_profit_price i, ti_stop_loss_price i) of
       (Some tp, Some sl) \<Rightarrow>
         (case gate_entry_price i mid of
            None \<Rightarrow> empty_net_rr\<lparr>nv_passed := False, nv_reason_code := ''no_entry_price''\<rparr>
          | Some entry \<Rightarrow>
              let reward = (if ti_side i = Buy then tp - entry else entry - tp);
                  risk = (if ti_side i = Buy then entry - sl else sl - entry)
              in if risk \<le> 0 \<or> reward \<le> 0
                 then empty_net_rr\<lparr>nv_passed := False, nv_reason_code := ''invalid_tp_sl''\<rparr>
                 else
                   let v = measure_net_rr cfg (ti_side i) rate taker entry reward risk
                   in if nv_net_rr v < gc_min_net_rr cfg
                      then v\<lparr>nv_passed := False, nv_reason_code := ''insufficient_net_rr''\<rparr>
                      else v\<lparr>nv_reason_code := ''ok''\<rparr>)
     | _ \<Rightarrow> empty_net_rr\<lparr>nv_reason_code := ''no_tp_sl''\<rparr>)"

section \<open>Trackers\<close>

record funding_tracker =
  ft_current_rate :: double
  ft_last_update_ns :: int
  ft_in_flight :: bool
  ft_refresh_interval_ns :: int

definition funding_tracker_init :: "int \<Rightarrow> funding_tracker" where
  "funding_tracker_init n =
    \<lparr>ft_current_rate = 0, ft_last_update_ns = 0, ft_in_flight = False, ft_refresh_interval_ns = n\<rparr>"

definition ft_update :: "double \<Rightarrow> int \<Rightarrow> funding_tracker \<Rightarrow> bool \<times> funding_tracker" where
  "ft_update rate now_ns f =
    (ft_current_rate f + lit 0.00000001 < rate \<or> rate + lit 0.00000001 < ft_current_rate f,
     f\<lparr>ft_current_rate := rate, ft_last_update_ns := now_ns\<rparr>)"

definition ft_should_refresh :: "int \<Rightarrow> funding_tracker \<Rightarrow> bool" where
  "ft_should_refresh now_ns f \<longleftrightarrow>
    ft_last_update_ns f = 0 \<or> ft_refresh_interval_ns f \<le> now_ns - ft_last_update_ns f"

definition ft_try_begin_refresh :: "funding_tracker \<Rightarrow> bool \<times> funding_tracker" where
  "ft_try_begin_refresh f = (if ft_in_flight f then (False, f) else (True, f\<lparr>ft_in_flight := True\<rparr>))"

definition ft_end_refresh :: "funding_tracker \<Rightarrow> funding_tracker" where
  "ft_end_refresh f = f\<lparr>ft_in_flight := False\<rparr>"

record trading_history =
  th_history :: "(double \<times> bool) list"
  th_window_size :: nat

definition trading_history_init :: "nat \<Rightarrow> trading_history" where
  "trading_history_init n = \<lparr>th_history = [], th_window_size = (if n = 0 then 1 else n)\<rparr>"

definition th_record :: "double \<Rightarrow> trading_history \<Rightarrow> trading_history" where
  "th_record pnl h =
    (let xs = th_history h @ [(pnl, 0 < pnl)]
     in h\<lparr>th_history := keep_last (th_window_size h) xs\<rparr>)"

definition th_size :: "trading_history \<Rightarrow> nat" where
  "th_size h = length (th_history h)"

definition th_win_rate :: "trading_history \<Rightarrow> double" where
  "th_win_rate h =
    (if th_history h = [] then lit 0.50
     else dint (int (length (filter snd (th_history h)))) / dint (int (length (th_history h))))"

definition th_win_loss_ratio :: "trading_history \<Rightarrow> double" where
  "th_win_loss_ratio h =
    (if th_history h = [] then lit 1.5
     else
       let wins = filter snd (th_history h); losses = filter (\<lambda>t. \<not> snd t) (th_history h);
           total_wins = fold (\<lambda>t a. a + fst t) wins 0;
           total_losses = fold (\<lambda>t a. a + (if fst t < 0 then - fst t else fst t)) losses 0;
           avg_win = (if wins \<noteq> [] then total_wins / dint (int (length wins)) else 0);
           avg_loss = (if losses \<noteq> [] then total_losses / dint (int (length losses)) else 1)
       in if avg_loss < lit 0.000000001 then lit 5 else avg_win / avg_loss)"

definition th_reset :: "trading_history \<Rightarrow> trading_history" where
  "th_reset h = h\<lparr>th_history := []\<rparr>"

record htf_trend =
  htf_ema_20 :: double
  htf_ema_50 :: double
  htf_rsi_14 :: double
  htf_adx :: double
  htf_macd_histogram :: double
  htf_last_close :: double
  htf_valid :: bool
  htf_trend_direction :: int
  htf_trend_strength :: double
  htf_closes :: "double list"
  htf_highs :: "double list"
  htf_lows :: "double list"
  htf_last_update_ns :: int
  htf_urgent_update_needed :: bool

abbreviation kHtfBufferMaxSize :: nat where
  "kHtfBufferMaxSize \<equiv> 200"

definition htf_trend_init :: htf_trend where
  "htf_trend_init =
    \<lparr>htf_ema_20 = 0, htf_ema_50 = 0, htf_rsi_14 = lit 50, htf_adx = 0, htf_macd_histogram = 0, htf_last_close = 0,
     htf_valid = False, htf_trend_direction = 0, htf_trend_strength = 0, htf_closes = [], htf_highs = [],
     htf_lows = [], htf_last_update_ns = 0, htf_urgent_update_needed = False\<rparr>"

definition htf_should_refresh :: "int \<Rightarrow> htf_trend \<Rightarrow> bool" where
  "htf_should_refresh now_ns h \<longleftrightarrow>
    htf_urgent_update_needed h \<or> htf_last_update_ns h = 0 \<or> 3600000000000 \<le> now_ns - htf_last_update_ns h"

definition htf_reset :: "htf_trend \<Rightarrow> htf_trend" where
  "htf_reset h = htf_trend_init"

definition last_candles :: "double list \<Rightarrow> double list" where
  "last_candles xs = keep_last kHtfBufferMaxSize xs"

definition htf_append_candle :: "double \<Rightarrow> double \<Rightarrow> double \<Rightarrow> htf_trend \<Rightarrow> htf_trend" where
  "htf_append_candle c hi lo h =
    h\<lparr>htf_closes := last_candles (htf_closes h @ [c]), htf_highs := last_candles (htf_highs h @ [hi]),
      htf_lows := last_candles (htf_lows h @ [lo]), htf_last_close := c\<rparr>"

section \<open>What the gates promise\<close>

definition price_moved :: "gates_config \<Rightarrow> trade_intent \<Rightarrow> microstructure_features \<Rightarrow> bool" where
  "price_moved cfg i m \<longleftrightarrow> 0 < mf_mid_price m \<and> isfinite (mf_mid_price m) \<and>
    gc_max_adverse_price_drift_bps cfg < adverse_drift_bps i (mf_mid_price m)"

definition spread_widened :: "gates_config \<Rightarrow> trade_intent \<Rightarrow> microstructure_features \<Rightarrow> bool" where
  "spread_widened cfg i m \<longleftrightarrow> mf_spread_valid m \<and> 0 < ti_signal_snapshot_spread_bps i \<and>
    gc_max_spread_widen_pct cfg < spread_widen_pct i (mf_spread_bps m)"

definition depth_thinned :: "gates_config \<Rightarrow> trade_intent \<Rightarrow> microstructure_features \<Rightarrow> bool" where
  "depth_thinned cfg i m \<longleftrightarrow> mf_liquidity_valid m \<and> 0 < ti_signal_snapshot_depth_usd i \<and>
    depth_remain_pct i m < gc_min_depth_remain_pct cfg"

definition freshness_applies :: "gates_config \<Rightarrow> trade_intent \<Rightarrow> bool" where
  "freshness_applies cfg i \<longleftrightarrow> gc_freshness_enabled cfg \<and> ti_trade_side i = TradeOpen \<and>
    \<not> ti_signal_snapshot_ts_ns i \<le> 0 \<and> \<not> ti_signal_snapshot_mid i \<le> 0"

lemma fresh_passed [simp]: "fv_passed fresh_verdict"
  by (simp add: fresh_verdict_def)

lemma gate_depth_passed: "fv_passed v \<Longrightarrow> fv_passed (gate_depth cfg i m v) \<longleftrightarrow> \<not> depth_thinned cfg i m"
  by (auto simp: gate_depth_def depth_thinned_def Let_def)

lemma gate_spread_passed:
  "fv_passed v \<Longrightarrow> fv_passed (gate_spread cfg i m v) \<longleftrightarrow> \<not> spread_widened cfg i m \<and> \<not> depth_thinned cfg i m"
  by (auto simp: gate_spread_def spread_widened_def gate_depth_passed Let_def)

lemma gate_drift_passed:
  "fv_passed v \<Longrightarrow> fv_passed (gate_drift cfg i m v) \<longleftrightarrow>
    \<not> price_moved cfg i m \<and> \<not> spread_widened cfg i m \<and> \<not> depth_thinned cfg i m"
  by (auto simp: gate_drift_def price_moved_def gate_spread_passed Let_def)

text \<open>
  The freshness gate stops an opening order exactly when the signal is too old, the
  price has moved against it, the spread has widened or the depth has thinned beyond its limit; it never
  stops a closing order.
\<close>

theorem freshness_gate_exact:
  "fv_passed (evaluate_freshness cfg i m t) \<longleftrightarrow>
    \<not> (freshness_applies cfg i \<and>
       (gc_max_signal_age_ms cfg < signal_age_ms i t \<or> price_moved cfg i m \<or> spread_widened cfg i m \<or> depth_thinned cfg i m))"
  unfolding evaluate_freshness_def freshness_applies_def Let_def by (auto simp: gate_drift_passed)

definition has_reward :: "gates_config \<Rightarrow> trade_intent \<Rightarrow> double \<Rightarrow> double \<Rightarrow> bool \<Rightarrow> double \<Rightarrow> double \<Rightarrow> bool" where
  "has_reward cfg i mid rate taker tp sl \<longleftrightarrow>
    (case gate_entry_price i mid of
       None \<Rightarrow> False
     | Some entry \<Rightarrow>
         let reward = (if ti_side i = Buy then tp - entry else entry - tp);
             risk = (if ti_side i = Buy then entry - sl else sl - entry)
         in \<not> risk \<le> 0 \<and> \<not> reward \<le> 0 \<and>
            \<not> nv_net_rr (measure_net_rr cfg (ti_side i) rate taker entry reward risk) < gc_min_net_rr cfg)"

text \<open>
  The reward-to-risk gate lets an opening order with both prices through exactly when
  there is a price to measure from, both prices are on the right side of it and the net ratio after fees, slippage
  and funding is not below the minimum; closing orders and orders without the prices always pass.
\<close>

theorem net_rr_gate_exact:
  "nv_passed (evaluate_net_rr cfg i mid rate taker) \<longleftrightarrow>
    \<not> gc_net_rr_enabled cfg \<or> ti_trade_side i \<noteq> TradeOpen \<or>
    ti_take_profit_price i = None \<or> ti_stop_loss_price i = None \<or>
    has_reward cfg i mid rate taker (the (ti_take_profit_price i)) (the (ti_stop_loss_price i))"
  by (cases "ti_take_profit_price i"; cases "ti_stop_loss_price i"; cases "gate_entry_price i mid")
    (simp_all add: evaluate_net_rr_def has_reward_def measure_net_rr_def empty_net_rr_def Let_def)

text \<open>A take-profit price that is NaN passes the gate: every comparison with it fails.\<close>

theorem nan_take_profit_passes:
  assumes "gc_net_rr_enabled cfg" and "ti_trade_side i = TradeOpen" and "ti_side i = Buy"
    and "ti_take_profit_price i = Some NaN" and "ti_stop_loss_price i = Some (Fin 64)"
  shows "nv_passed (evaluate_net_rr cfg i (Fin 128) rate taker)"
proof -
  have nan: "NaN - x = NaN" "NaN / x = NaN" "NaN * x = NaN" for x :: double
    by (cases x; simp add: minus_double_def)+
  have "\<not> nv_net_rr (measure_net_rr cfg Buy rate taker (Fin 128) (NaN - Fin 128) (Fin 128 - Fin 64)) < gc_min_net_rr cfg"
    by (simp add: measure_net_rr_def Let_def nan mk_half empty_net_rr_def zero_double_def minus_double_def)
  then show ?thesis
    using assms
    by (simp add: net_rr_gate_exact has_reward_def gate_entry_price_def nan zero_double_def minus_double_def Let_def)
qed

section \<open>What the trackers promise\<close>

lemma th_record_simps:
  "th_history (th_record p h) = keep_last (th_window_size h) (th_history h @ [(p, 0 < p)])"
  "th_window_size (th_record p h) = th_window_size h"
  by (simp_all add: th_record_def Let_def)

lemma history_window:
  "th_history (fold th_record ps (trading_history_init n)) = keep_last (max 1 n) (map (\<lambda>p. (p, 0 < p)) ps) \<and>
   th_window_size (fold th_record ps (trading_history_init n)) = max 1 n"
proof (induction ps rule: rev_induct)
  case (snoc p ps)
  show ?case
    using snoc keep_last_append [of "max 1 n" "map (\<lambda>p. (p, 0 < p)) ps" "[(p, 0 < p)]"]
    by (simp add: th_record_simps)
qed (auto simp: trading_history_init_def)

text \<open>
  The trade statistics are those of the most recent trades: the history is exactly the
  last results, as many as the window holds, and the win rate is the share of positive ones among them.
\<close>

theorem trade_window_exact:
  assumes "0 < n" and "ps \<noteq> []"
  shows "map fst (th_history (fold th_record ps (trading_history_init n))) = keep_last n ps \<and>
    th_win_rate (fold th_record ps (trading_history_init n)) =
      dint (int (length (filter (\<lambda>p. 0 < p) (keep_last n ps)))) / dint (int (min n (length ps)))"
proof -
  let ?h = "fold th_record ps (trading_history_init n)"
  have h: "th_history ?h = map (\<lambda>p. (p, 0 < p)) (keep_last n ps)"
    using history_window [of ps n] assms(1) by (simp add: keep_last_def drop_map max_def)
  have ne: "keep_last n ps \<noteq> []" using assms by (cases ps) (auto simp: keep_last_def)
  have "length (filter snd (th_history ?h)) = length (filter (\<lambda>p. 0 < p) (keep_last n ps))"
    by (simp add: h filter_map o_def)
  moreover have "length (th_history ?h) = min n (length ps)" by (simp add: h)
  ultimately show ?thesis using h ne by (simp add: th_win_rate_def comp_def)
qed

text \<open>
  A window of winners only does not give the optimistic 5: without losses the average loss
  is taken to be 1, so the ratio is the average win itself.
\<close>

theorem all_winners_ratio_not_capped:
  "th_win_loss_ratio (th_record (Fin (1 / 2)) (trading_history_init 100)) = Fin (1 / 2)"
proof -
  have "\<not> Fin 1 < lit (1 / 1000000000)" using mk_mono [of "1 / 1000000000" 1] by (auto simp: double_not_less)
  then show ?thesis
    by (simp add: th_win_loss_ratio_def th_record_def trading_history_init_def Let_def zero_double_def
        one_double_def mk_half)
qed

lemma htf_buffers:
  "length (htf_closes h) = length (htf_highs h) \<Longrightarrow> length (htf_highs h) = length (htf_lows h) \<Longrightarrow>
   length (htf_closes h) \<le> kHtfBufferMaxSize \<Longrightarrow>
   length (htf_closes (htf_append_candle c hi lo h)) = length (htf_highs (htf_append_candle c hi lo h)) \<and>
   length (htf_highs (htf_append_candle c hi lo h)) = length (htf_lows (htf_append_candle c hi lo h)) \<and>
   length (htf_closes (htf_append_candle c hi lo h)) \<le> kHtfBufferMaxSize"
  by (simp add: htf_append_candle_def last_candles_def)

end
