(* ===== verification/Pipeline_Witnesses.thy ===== *)
theory Pipeline_Witnesses
  imports Engine_Properties Risk_Witnesses Supervisor_Laws Pair_Modes Order_Watchdog Position_Exits Pre_Trade_Gates
begin

text \<open>
  Concrete situations in which the hypotheses of the properties of the supervisor, the hedge
  and pair components, the watchdog, the trailing stop and the trade window hold.
\<close>

section \<open>Global kill switch\<close>

theorem global_kill_stops_every_engine_witness:
  "\<not> rd_allowed (fst (risk_evaluate 9
     (kill_switch_provider (sv_acts [ActSignal] (snd (activate_global_kill_switch ''loss'' ex_sv))))
     ex_open ex_sizing ex_snapshot ex_features default_execution_alpha default_uncertainty
     (risk_run [OpProvider True] ex_risk_engine)))"
proof -
  have "ti_trade_side ex_open = TradeOpen" by (simp add: ex_inputs)
  then show ?thesis
    using global_kill_stops_every_engine [where between = "[ActSignal]" and ops = "[OpProvider True]" and v = ex_sv]
    by (simp add: set_kill_switch_provider_def)
qed

section \<open>Hedge budget\<close>

definition ex_losing :: hedge_pair_input where
  "ex_losing = default_hedge_pair_input
     \<lparr>hi_primary_pnl := Fin (- 4), hi_total_capital := Fin 128, hi_vpin_toxic := True\<rparr>"

lemma ex_loss: "hi_loss_pct ex_losing = Fin (25 / 8)"
proof -
  have g: "mk (1 / 32) = Fin (1 / 32)" "mk (25 / 8) = Fin (25 / 8)"
    using exact_grid [of 32768] exact_grid [of 3276800] by (simp_all add: exact_def)
  have l: "lit 100 = Fin 100" using mk_of_int [of 100] by simp
  have "std_max (Fin 128) (lit 0.01) = Fin 128"
  proof -
    have "lit 0.01 \<le> mk 128" by (rule mk_mono) simp
    then show ?thesis using mk_of_int [of 128] by (cases "lit 0.01") (auto simp: std_max_def)
  qed
  then show ?thesis using g l
    by (simp add: hi_loss_pct_def ex_losing_def default_hedge_pair_input_def zero_double_def)
qed

lemma ex_triggers: "hm_state m = PrimaryOnly \<Longrightarrow> hm_hedge_count m < kMaxHedgesPerPosition \<Longrightarrow> should_trigger_hedge m ex_losing"
proof -
  assume m: "hm_state m = PrimaryOnly" "hm_hedge_count m < kMaxHedgesPerPosition"
  have e: "mk (25 / 8) = Fin (25 / 8)" using exact_grid [of 3276800] by (simp add: exact_def)
  have 1: "lit 1.5 \<le> Fin (25 / 8)" using mk_mono [of "1.5" "25 / 8"] e by simp
  have 2: "lit 0.8 < Fin (25 / 8)" using mk_mono [of "0.8" 1] mk_of_int [of 1] by (cases "lit 0.8") auto
  have 3: "\<not> lit 0.85 < lit 0.5" using mk_mono [of "0.5" "0.85"] by (auto simp: double_not_less)
  show ?thesis using m 1 2 3 ex_loss
    by (simp add: should_trigger_hedge_def can_hedge_def Let_def)
       (simp add: ex_losing_def default_hedge_pair_input_def zero_double_def)
qed

definition ex_paired :: hedge_pair_input where
  "ex_paired = default_hedge_pair_input\<lparr>hi_has_hedge := True, hi_taker_fee_pct := 0\<rparr>"

lemma ex_hedge_calls:
  assumes "n < kMaxHedgesPerPosition"
  shows "hedge_call (HeTick ex_losing True) \<lparr>hm_state = PrimaryOnly, hm_hedge_count = n\<rparr> =
      (OpenHedge, \<lparr>hm_state = HedgeSentPending, hm_hedge_count = n\<rparr>)"
    and "hedge_call (HeTick ex_paired True) \<lparr>hm_state = HedgeSentPending, hm_hedge_count = n\<rparr> =
      (HedgeNone, \<lparr>hm_state = PrimaryPlusHedge, hm_hedge_count = n + 1\<rparr>)"
    and "hedge_call (HeTick default_hedge_pair_input True) \<lparr>hm_state = PrimaryPlusHedge, hm_hedge_count = k\<rparr> =
      (HedgeNone, \<lparr>hm_state = PrimaryOnly, hm_hedge_count = k\<rparr>)"
proof -
  show "hedge_call (HeTick ex_losing True) \<lparr>hm_state = PrimaryOnly, hm_hedge_count = n\<rparr> =
      (OpenHedge, \<lparr>hm_state = HedgeSentPending, hm_hedge_count = n\<rparr>)"
    using assms by (simp add: evaluate_primary_only_def hedge_executed_def notify_hedge_opened_def ex_triggers)
  obtain a b where "lit 0.0008 = Fin a" "0 \<le> a" "lit 0.05 = Fin b" "0 \<le> b"
    using mk_small [of "0.0008"] mk_small [of "0.05"] by auto
  then have "evaluate_pair_active ex_paired m = (no_hedge_action, m)" for m
    by (simp add: evaluate_pair_active_def ex_paired_def default_hedge_pair_input_def net_pnl_def round_trip_fees_def
        min_profit_def escalation_count_def zero_double_def)
  then show "hedge_call (HeTick ex_paired True) \<lparr>hm_state = HedgeSentPending, hm_hedge_count = n\<rparr> =
      (HedgeNone, \<lparr>hm_state = PrimaryPlusHedge, hm_hedge_count = n + 1\<rparr>)"
    by (simp add: evaluate_hedge_pending_def hedge_executed_def no_hedge_action_def)
       (simp add: ex_paired_def)
  show "hedge_call (HeTick default_hedge_pair_input True) \<lparr>hm_state = PrimaryPlusHedge, hm_hedge_count = k\<rparr> =
      (HedgeNone, \<lparr>hm_state = PrimaryOnly, hm_hedge_count = k\<rparr>)"
    by (simp add: evaluate_pair_active_def default_hedge_pair_input_def no_hedge_action_def hedge_executed_def)
qed

theorem hedge_budget_respected_witness:
  "\<exists>m y. hedge_run [HeTick ex_losing True, HeTick ex_paired True, HeTick default_hedge_pair_input True,
       HeTick ex_losing True, HeTick ex_paired True] (hedge_manager_init, no_hedges) = (m, y) \<and>
     ht_hedges y = 2 \<and> (\<forall>i. hd_action (fst (hedge_evaluate i m)) \<noteq> OpenHedge)"
proof -
  let ?es = "[HeTick ex_losing True, HeTick ex_paired True, HeTick default_hedge_pair_input True,
       HeTick ex_losing True, HeTick ex_paired True]"
  have "hi_has_hedge ex_paired" "\<not> hi_has_hedge ex_losing" "\<not> hi_has_hedge default_hedge_pair_input"
    by (simp_all add: ex_paired_def ex_losing_def default_hedge_pair_input_def)
  then have r: "hedge_run ?es (hedge_manager_init, no_hedges) =
      (\<lparr>hm_state = PrimaryPlusHedge, hm_hedge_count = 2\<rparr>, \<lparr>ht_under_way = False, ht_hedges = 2\<rparr>)"
    using ex_hedge_calls [of 0] ex_hedge_calls [of 1]
    by (simp add: hedge_manager_init_def no_hedges_def del: hedge_call.simps)
  from hedge_budget_respected [OF r] r show ?thesis by simp
qed

section \<open>A pair that closes on one side only\<close>

definition ex_venue :: "bool \<Rightarrow> venue" where
  "ex_venue short_ok =
    \<lparr>vn_submit = (\<lambda>n r. \<lparr>sr_success = (o_position_side r = Long \<or> short_ok), sr_order_id = [], sr_exchange_order_id = ''X'',
       sr_error_message = [], sr_submitted_quantity = o_original_quantity r\<rparr>),
     vn_cancel = (\<lambda>_ _ _. True), vn_backhand = (\<lambda>_ _ _. BhFailed), vn_has_rest = True\<rparr>"

definition ex_pair :: dual_leg where
  "ex_pair = (dual_leg_init default_dual_leg_config)
     \<lparr>dl_long_leg := empty_leg\<lparr>lg_state := LegActive, lg_size := 1\<rparr>,
      dl_short_leg := empty_leg\<lparr>lg_state := LegActive, lg_side := Short, lg_size := 1\<rparr>\<rparr>"

definition ex_leg_spec :: leg_spec where
  "ex_leg_spec = \<lparr>lp_side = Long, lp_size = 1, lp_entry_price_hint = 1, lp_tp_price = 0, lp_sl_price = 0\<rparr>"

theorem pair_entry_protocol_witness:
  "\<exists>res d'. enter_pair (ex_venue False) 7 ''BTCUSDT'' ex_leg_spec ex_leg_spec (dual_leg_init default_dual_leg_config) = (res, d') \<and>
     \<not> per_success res \<and> outstanding (ex_venue False) 0 (dl_requests d') [] = []"
proof -
  let ?d = "dual_leg_init default_dual_leg_config"
  obtain res d' where r: "enter_pair (ex_venue False) 7 ''BTCUSDT'' ex_leg_spec ex_leg_spec ?d = (res, d')" by force
  have q: "dl_requests ?d = []" by (simp add: dual_leg_init_def)
  have "o_position_side (entry_order cfg s Short ex_leg_spec) = Short" for cfg s
    using entry_order_opens(2) [of cfg s ex_leg_spec] by (simp add: opens_leg_def)
  then have "\<not> sr_success (vn_submit (ex_venue False) n (entry_order cfg s Short ex_leg_spec))" for n cfg s
    by (simp add: ex_venue_def)
  from refused_short_fails [OF this, where d = ?d and s = "''BTCUSDT''" and tnow = 7 and ls = ex_leg_spec] have v: "\<not> per_success res" by (simp add: r)
  have c: "vn_cancel (ex_venue False) n x s" for n x s by (simp add: ex_venue_def)
  show ?thesis
    using pair_entry_protocol [OF r refl refl] r v c unfolding q by (simp only: if_False append_Nil list.size(3)) blast
qed

theorem orphan_detected_exactly_witness:
  "\<not> pce_success (fst (execute_pair_close (ex_venue False) 7 empty_pair_state (pair_exec_init default_pair_exec_config (Some ex_pair)))) \<and>
   has_orphan_leg (snd (execute_pair_close (ex_venue False) 7 empty_pair_state (pair_exec_init default_pair_exec_config (Some ex_pair)))) \<and>
   px_orphan_side (snd (execute_pair_close (ex_venue False) 7 empty_pair_state (pair_exec_init default_pair_exec_config (Some ex_pair)))) = Short"
  using orphan_detected_exactly [where x = "pair_exec_init default_pair_exec_config (Some ex_pair)" and d = ex_pair
      and vn = "ex_venue False" and st = empty_pair_state and a = True and b = False and t = 7]
  by (simp add: pair_exec_init_def ex_pair_def dual_leg_init_def ex_venue_def close_order_def leg_order_def)

section \<open>Overdue orders\<close>

lemma ex_fp_active: "\<exists>r. active_orders (xs_registry ex_fp_state) = [r] \<and> o_order_id r = ''A'' \<and> o_state r = PendingAck \<and> o_created_at r = 0 \<and> o_last_updated r = 1"
  by (simp add: active_orders_def order_is_active_def active_state_def ex_fp_eval ex_fp_clk_def Let_def)

theorem watchdog_cancels_overdue_witness:
  "map wr_order_id (fst (run_check ex_fp_clk (Some ex_ok) 6000000001
      \<lparr>wd_config = default_watchdog_config, wd_last_check_ns = 0\<rparr> (Some ex_engine_A))) = [''A'']"
proof -
  let ?w = "\<lparr>wd_config = default_watchdog_config, wd_last_check_ns = 0\<rparr>"
  obtain reports w' eno where r: "run_check ex_fp_clk (Some ex_ok) 6000000001 ?w (Some ex_engine_A) = (reports, w', eno)"
    by (metis prod_cases3)
  then obtain en' where e: "eno = Some en'"
    by (auto simp: run_check_def case_prod_unfold Let_def split: if_splits)
  have x: "en_exec ex_engine_A = ex_fp_state" by (simp add: ex_engine_A_def)
  obtain a where a: "active_orders (xs_registry ex_fp_state) = [a]" "o_order_id a = ''A''" "o_state a = PendingAck" "o_created_at a = 0" "o_last_updated a = 1"
    using ex_fp_active by blast
  have "waited_too_long default_watchdog_config 6000000001 a"
    using a by (simp add: waited_too_long_def waiting_since_def default_watchdog_config_def)
  then have "map o_order_id (filter (waited_too_long default_watchdog_config 6000000001) (active_orders (xs_registry ex_fp_state))) = [''A'']"
    using a by simp
  then show ?thesis
    using watchdog_cancels_overdue [OF r [unfolded e] refl refl refl] r by (simp add: x)
qed

section \<open>Trade window\<close>

theorem trade_window_exact_witness:
  "th_win_rate (fold th_record [1, - 1, 1] (trading_history_init 2)) = dint 1 / dint 2"
  using trade_window_exact [of 2 "[1, - 1, 1]"] by (simp add: keep_last_def zero_double_def one_double_def)

section \<open>Prices attached to an entry\<close>

definition ex_tpsl_config :: dual_leg_config where
  "ex_tpsl_config = default_dual_leg_config\<lparr>dc_tpsl_take_profit_pct := Fin 50, dc_tpsl_stop_loss_pct := Fin 50\<rparr>"

lemma ex_tpsl: "compute_tpsl ex_tpsl_config (Fin 128) Long = (Fin 192, Fin 64)"
proof -
  have g: "mk (1 / 2) = Fin (1 / 2)" "mk (3 / 2) = Fin (3 / 2)" "mk 192 = Fin 192" "mk 64 = Fin 64" "mk 100 = Fin 100"
    "mk (- 64) = Fin (- 64)"
    using exact_grid [of 1572864] mk_of_int [of 192] mk_of_int [of 64] mk_of_int [of "- 64"] mk_of_int [of 100]
    by (simp_all add: exact_def mk_half)
  obtain r where r: "lit 0.00001 = Fin r" "0 \<le> r" "r \<le> 1 / 2" using mk_small [of "0.00001"] by auto
  have "mk (128 * r) \<le> mk 64" using r by (intro mk_mono) simp
  then have "\<not> Fin 64 < mk (128 * r)" using g by (cases "mk (128 * r)") auto
  then show ?thesis using g r
    by (simp add: compute_tpsl_def ex_tpsl_config_def default_dual_leg_config_def zero_double_def one_double_def
        minus_double_def Let_def)
qed

theorem tpsl_on_the_right_side_witness:
  "fst (compute_tpsl ex_tpsl_config (Fin 128) Long) \<ge> Fin 128 \<and> snd (compute_tpsl ex_tpsl_config (Fin 128) Long) \<le> Fin 128"
proof -
  have "canonical (Fin 128)" using canonical_mk [of 128] mk_of_int [of 128] by simp
  moreover have "0 \<le> dc_tpsl_take_profit_pct ex_tpsl_config" "isfinite (dc_tpsl_take_profit_pct ex_tpsl_config)"
    "0 \<le> dc_tpsl_stop_loss_pct ex_tpsl_config" "isfinite (dc_tpsl_stop_loss_pct ex_tpsl_config)"
    by (simp_all add: ex_tpsl_config_def zero_double_def)
  moreover have "(Fin 192, Fin 64) \<noteq> (0, 0)" by (simp add: zero_double_def)
  ultimately show ?thesis
    using tpsl_on_the_right_side [OF _ _ _ _ _ ex_tpsl] unfolding ex_tpsl by simp
qed

section \<open>Decision in the runner mode\<close>

definition ex_pair_input :: pair_market_input where
  "ex_pair_input =
    \<lparr>pi_symbol = ''BTCUSDT'', pi_regime_stability = 0, pi_regime_confidence = 1, pi_cusum_regime_change = True,
     pi_uncertainty = 0, pi_p_continue = 0, pi_p_reversal = 1, pi_p_shock = 0, pi_spread_bps = 1, pi_depth_usd = 1,
     pi_vpin_toxic = False, pi_toxic_flow_score = 0, pi_trend_persistence = 0, pi_momentum = 0,
     pi_momentum_valid = False, pi_funding_rate = 0, pi_taker_fee_pct = 0, pi_atr = 1, pi_mid_price = Fin 128,
     pi_total_capital = Fin 128, pi_exit_score_primary = 0, pi_exit_score_hedge = 0, pi_primary_side = Long,
     pi_primary_size = 1, pi_primary_pnl = 0, pi_primary_pnl_pct = 0, pi_primary_hold_ns = 5, pi_has_hedge = False,
     pi_hedge_size = 0, pi_hedge_pnl = 0, pi_hedge_pnl_pct = 0, pi_hedge_hold_ns = 0\<rparr>"

definition ex_runner :: pair_lifecycle where
  "ex_runner = \<lparr>ple_config = default_pair_lifecycle_config, ple_hedge_manager = None, ple_mode = AsymmetricRunner,
     ple_state = empty_pair_state\<rparr>"

theorem pair_decision_of_mode_witness:
  "mode_action AsymmetricRunner (pd_action (fst (pair_evaluate ex_pair_input ex_runner))) \<and>
   ratio_between 0.20 1.20 (pd_hedge_ratio (fst (pair_evaluate ex_pair_input ex_runner)))"
  using pair_decision_of_mode [of ex_runner ex_pair_input]
  by (simp add: ex_runner_def ex_pair_input_def one_double_def)

section \<open>Trailing stop\<close>

definition ex_exit_context :: exit_context where
  "ex_exit_context =
    \<lparr>xc_position_side = Long, xc_entry_price = Fin 64, xc_current_price = Fin 128, xc_unrealized_pnl = Fin 64,
     xc_unrealized_pnl_pct = 1, xc_entry_time_ns = 1, xc_now_ns = 2, xc_highest_price_since_entry = Fin 128,
     xc_lowest_price_since_entry = Fin 64, xc_current_stop_level = Fin 64, xc_breakeven_activated = True,
     xc_current_trail_mult = 1, xc_atr_14 = 1, xc_atr_valid = True, xc_spread_bps = 1, xc_depth_usd = Fin 4096,
     xc_vpin_toxic = False, xc_adx = Fin 25, xc_bb_width = 0, xc_buy_pressure = 0, xc_total_capital = Fin 1024,
     xc_max_loss_per_trade_pct = 1, xc_is_feed_fresh = True, xc_taker_fee_pct = 0, xc_atr_stop_multiplier = 1,
     xc_breakeven_atr_threshold = 1, xc_hedge_active = False\<rparr>"

theorem long_trailing_never_moves_back_witness:
  "Fin 96 \<le> tu_stop_level (trail_run [ex_exit_context, ex_exit_context\<lparr>xc_current_price := NaN\<rparr>]
     \<lparr>tu_stop_level = Fin 96, tu_trail_mult = 1, tu_breakeven_activated = True, tu_highest = Fin 128, tu_lowest = Fin 64\<rparr>)"
  using long_trailing_never_moves_back [of "\<lparr>tu_stop_level = Fin 96, tu_trail_mult = 1,
       tu_breakeven_activated = True, tu_highest = Fin 128, tu_lowest = Fin 64\<rparr>"
      "[ex_exit_context, ex_exit_context\<lparr>xc_current_price := NaN\<rparr>]"]
  by (simp add: ex_exit_context_def)

end
