(* ===== verification/Float_Library.thy ===== *)
theory Float_Library
  imports Common_Types Float_Ranges
begin

text \<open>
  What the sources use of the mathematical library.  Rounding to an integer is exact and
  defined here; the transcendental functions, whose rounding is not specified, and the value of a
  conversion to \<^verbatim>\<open>int\<close> that the language leaves undefined are the record \<open>libm\<close>, a
  parameter of the definitions that use them.
\<close>

section \<open>Rounding to an integer\<close>

text \<open>\<^verbatim>\<open>std::floor\<close>, \<^verbatim>\<open>std::ceil\<close> and \<^verbatim>\<open>std::round\<close> are exact on binary64.\<close>

fun std_floor :: "double \<Rightarrow> double" where
  "std_floor (Fin x) = Fin (of_int \<lfloor>x\<rfloor>)"
| "std_floor x = x"

fun std_ceil :: "double \<Rightarrow> double" where
  "std_ceil (Fin x) = Fin (of_int \<lceil>x\<rceil>)"
| "std_ceil x = x"

fun std_round :: "double \<Rightarrow> double" where
  "std_round (Fin x) = Fin (if x < 0 then - of_int \<lfloor>- x + 1 / 2\<rfloor> else of_int \<lfloor>x + 1 / 2\<rfloor>)"
| "std_round x = x"

section \<open>Mathematical library\<close>

record libm =
  lm_exp :: "double \<Rightarrow> double"
  lm_log :: "double \<Rightarrow> double"
  lm_tanh :: "double \<Rightarrow> double"
  lm_pow :: "double \<Rightarrow> double \<Rightarrow> double"
  lm_undefined_int :: "double \<Rightarrow> int"

definition to_int32 :: "libm \<Rightarrow> double \<Rightarrow> int" where
  "to_int32 lm x =
    (case x of
       Fin r \<Rightarrow>
         let n = (if 0 \<le> r then \<lfloor>r\<rfloor> else \<lceil>r\<rceil>)
         in if - 2147483648 \<le> n \<and> n \<le> 2147483647 then n else lm_undefined_int lm x
     | _ \<Rightarrow> lm_undefined_int lm x)"

definition clamp_int :: "int \<Rightarrow> int \<Rightarrow> int \<Rightarrow> int" where
  "clamp_int x lo hi = (if x < lo then lo else if hi < x then hi else x)"

end
