(* ===== verification/Portfolio_Allocator.thy ===== *)
theory Portfolio_Allocator
  imports Risk_Engine Fill_Processor Float_Library
begin

text \<open>
  The size of an order (\<^verbatim>\<open>src/src/portfolio_allocator/allocation_types.hpp\<close>,
  \<^verbatim>\<open>portfolio_allocator.{hpp,cpp}\<close>): budget, concentration and strategy limits, volatility
  targeting, drawdown scaling, liquidity, capital at risk and the filters of the exchange.
  Each of the Russian reasons of the source is an English text here, since only whether it is
  empty matters; log lines are left out.
\<close>

section \<open>Types\<close>

record budget_hierarchy =
  bh_global_budget :: double
  bh_symbol_budget_pct :: double

record exchange_filters =
  xf_symbol :: symbol
  xf_min_quantity :: double
  xf_max_quantity :: double
  xf_quantity_step :: double
  xf_min_notional :: double
  xf_tick_size :: double
  xf_quantity_precision :: int
  xf_price_precision :: int
  xf_taker_fee_pct :: double
  xf_maker_fee_pct :: double

record allocation_context =
  ac_realized_vol_annual :: double
  ac_regime :: detailed_regime
  ac_win_rate :: double
  ac_avg_win_loss_ratio :: double
  ac_avg_daily_volume :: double
  ac_current_spread_bps :: double
  ac_book_depth_notional :: double
  ac_current_drawdown_pct :: double
  ac_consecutive_losses :: int
  ac_max_loss_per_trade_pct :: double
  ac_estimated_stop_distance_pct :: double
  ac_exchange_filters :: "exchange_filters option"

definition default_allocation_context :: allocation_context where
  "default_allocation_context =
    \<lparr>ac_realized_vol_annual = 0, ac_regime = UndefinedRegime, ac_win_rate = lit 0.5,
     ac_avg_win_loss_ratio = lit 1.5, ac_avg_daily_volume = 0, ac_current_spread_bps = 0,
     ac_book_depth_notional = 0, ac_current_drawdown_pct = 0, ac_consecutive_losses = 0,
     ac_max_loss_per_trade_pct = 0, ac_estimated_stop_distance_pct = 0, ac_exchange_filters = None\<rparr>"

record allocator_config =
  al_max_concentration_pct :: double
  al_max_strategy_allocation_pct :: double
  al_budget :: budget_hierarchy
  al_target_annual_vol :: double
  al_max_leverage :: double
  al_kelly_fraction :: double
  al_min_size_multiplier :: double
  al_max_size_multiplier :: double
  al_drawdown_scale_start_pct :: double
  al_drawdown_scale_max_pct :: double
  al_drawdown_min_size_fraction :: double
  al_max_adv_participation_pct :: double
  al_max_book_participation_pct :: double
  al_margin_per_trade_pct :: double
  al_target_leverage_multiplier :: double
  al_target_leverage_floor :: double

definition default_allocator_config :: allocator_config where
  "default_allocator_config =
    \<lparr>al_max_concentration_pct = lit 0.2, al_max_strategy_allocation_pct = lit 0.3,
     al_budget = \<lparr>bh_global_budget = lit 10000, bh_symbol_budget_pct = lit 0.1\<rparr>,
     al_target_annual_vol = lit 0.15, al_max_leverage = 1, al_kelly_fraction = lit 0.25,
     al_min_size_multiplier = lit 0.1, al_max_size_multiplier = lit 2, al_drawdown_scale_start_pct = lit 5,
     al_drawdown_scale_max_pct = lit 15, al_drawdown_min_size_fraction = lit 0.1,
     al_max_adv_participation_pct = lit 0.02, al_max_book_participation_pct = lit 0.10,
     al_margin_per_trade_pct = lit 0.05, al_target_leverage_multiplier = lit 0.5,
     al_target_leverage_floor = lit 10\<rparr>"

record allocator =
  all_config :: allocator_config
  all_realized_vol_annual :: double
  all_current_regime :: detailed_regime
  all_win_rate :: double
  all_avg_win_loss_ratio :: double

definition allocator_init :: "allocator_config \<Rightarrow> allocator" where
  "allocator_init cfg =
    \<lparr>all_config =
       (if al_kelly_fraction cfg \<le> 0 \<or> 1 < al_kelly_fraction cfg then cfg\<lparr>al_kelly_fraction := lit 0.5\<rparr> else cfg),
     all_realized_vol_annual = 0, all_current_regime = UndefinedRegime, all_win_rate = lit 0.5,
     all_avg_win_loss_ratio = lit 1.5\<rparr>"

section \<open>Rounding to the step of the exchange\<close>

definition round_quantity_down :: "double \<Rightarrow> exchange_filters \<Rightarrow> double" where
  "round_quantity_down qty f =
    (if xf_quantity_step f \<le> 0 then qty else std_floor (qty / xf_quantity_step f) * xf_quantity_step f)"

definition round_price :: "double \<Rightarrow> exchange_filters \<Rightarrow> double" where
  "round_price price f =
    (if xf_tick_size f \<le> 0 then price else std_round (price / xf_tick_size f) * xf_tick_size f)"

definition validate_order_filters :: "double \<Rightarrow> double \<Rightarrow> exchange_filters \<Rightarrow> bool" where
  "validate_order_filters qty notional f =
    (if qty < xf_min_quantity f then False
     else if xf_max_quantity f < qty then False
     else \<not> notional < xf_min_notional f)"

section \<open>Limits\<close>

definition effective_available_notional :: "portfolio_snapshot \<Rightarrow> double \<Rightarrow> double" where
  "effective_available_notional p max_leverage =
    (let capital_base = (if 0 < sn_available_capital p then sn_available_capital p else sn_total_capital p)
     in capital_base * std_max (max_leverage * lit 0.8) 1)"

definition budget_limit :: "allocator_config \<Rightarrow> portfolio_snapshot \<Rightarrow> double" where
  "budget_limit cfg p =
    (if 0 < sn_total_capital p then sn_total_capital p * al_max_leverage cfg else bh_global_budget (al_budget cfg)) *
    bh_symbol_budget_pct (al_budget cfg)"

definition concentration_limit :: "allocator_config \<Rightarrow> portfolio_snapshot \<Rightarrow> double" where
  "concentration_limit cfg p = sn_total_capital p * al_max_leverage cfg * al_max_concentration_pct cfg"

definition strategy_exposure :: "strategy_id \<Rightarrow> position list \<Rightarrow> double" where
  "strategy_exposure sid ps =
    fold (\<lambda>pos a. if pos_strategy_id pos = sid then a + pos_notional pos else a) ps 0"

definition strategy_limit :: "allocator_config \<Rightarrow> trade_intent \<Rightarrow> portfolio_snapshot \<Rightarrow> double" where
  "strategy_limit cfg i p =
    std_max (sn_total_capital p * al_max_leverage cfg * al_max_strategy_allocation_pct cfg -
             strategy_exposure (ti_strategy_id i) (sn_positions p)) 0"

fun regime_multiplier :: "detailed_regime \<Rightarrow> double" where
  "regime_multiplier StrongUptrend = 1"
| "regime_multiplier StrongDowntrend = 1"
| "regime_multiplier WeakUptrend = lit 0.8"
| "regime_multiplier WeakDowntrend = lit 0.8"
| "regime_multiplier MeanReversion = lit 0.7"
| "regime_multiplier VolatilityExpansion = lit 0.5"
| "regime_multiplier LowVolCompression = lit 0.6"
| "regime_multiplier Chop = lit 0.3"
| "regime_multiplier LiquidityStress = lit 0.2"
| "regime_multiplier SpreadInstability = lit 0.2"
| "regime_multiplier AnomalyEvent = lit 0.1"
| "regime_multiplier ToxicFlow = lit 0.1"
| "regime_multiplier UndefinedRegime = lit 0.5"

definition kelly_adjusted :: "allocator_config \<Rightarrow> double \<Rightarrow> double \<Rightarrow> double" where
  "kelly_adjusted cfg p b =
    (let full = (if 0 < b then std_max ((p * b - (1 - p)) / b) 0 else 0)
     in if 0 < full then al_kelly_fraction cfg * full else 0)"

definition vol_multiplier_for ::
    "allocator_config \<Rightarrow> double \<Rightarrow> double \<Rightarrow> double \<Rightarrow> detailed_regime \<Rightarrow> double" where
  "vol_multiplier_for cfg vol p b regime =
    (if vol \<le> 0 then 1
     else
       let vol_ratio = al_target_annual_vol cfg / vol; kelly_adj = kelly_adjusted cfg p b
       in if kelly_adj \<le> 0 then 0
          else std_clamp (std_min (vol_ratio * std_max kelly_adj (lit 0.1) * regime_multiplier regime) (al_max_leverage cfg))
                 (al_min_size_multiplier cfg) (al_max_size_multiplier cfg))"

text \<open>The two overloads of \<^verbatim>\<open>compute_volatility_multiplier\<close>: from the state and from a context.\<close>

definition state_vol_multiplier :: "allocator \<Rightarrow> double" where
  "state_vol_multiplier a =
    vol_multiplier_for (all_config a) (all_realized_vol_annual a) (all_win_rate a) (all_avg_win_loss_ratio a)
      (all_current_regime a)"

definition context_vol_multiplier :: "allocator_config \<Rightarrow> allocation_context \<Rightarrow> double" where
  "context_vol_multiplier cfg c =
    vol_multiplier_for cfg (ac_realized_vol_annual c) (std_clamp (ac_win_rate c) 0 1) (ac_avg_win_loss_ratio c)
      (ac_regime c)"

definition drawdown_scale :: "allocator_config \<Rightarrow> double \<Rightarrow> double" where
  "drawdown_scale cfg dd =
    (if dd \<le> al_drawdown_scale_start_pct cfg then 1
     else if al_drawdown_scale_max_pct cfg \<le> dd then al_drawdown_min_size_fraction cfg
     else
       let range = al_drawdown_scale_max_pct cfg - al_drawdown_scale_start_pct cfg
       in if range < lit 0.000000001 then
            (if al_drawdown_scale_start_pct cfg < dd then al_drawdown_min_size_fraction cfg else 1)
          else 1 - (dd - al_drawdown_scale_start_pct cfg) / range * (1 - al_drawdown_min_size_fraction cfg))"

text \<open>\<^verbatim>\<open>std::numeric_limits<double>::max()\<close>.\<close>

definition double_max :: double where
  "double_max = Fin ((2 - 1 / 2 ^ 52) * 2 ^ 1023)"

definition liquidity_cap :: "allocator_config \<Rightarrow> allocation_context \<Rightarrow> double" where
  "liquidity_cap cfg c =
    (let cap = double_max;
         cap = (if 0 < ac_avg_daily_volume c
                then std_min cap (ac_avg_daily_volume c * al_max_adv_participation_pct cfg) else cap)
     in if 0 < ac_book_depth_notional c
        then std_min cap (ac_book_depth_notional c * al_max_book_participation_pct cfg) else cap)"

section \<open>State\<close>

definition set_market_context ::
    "double \<Rightarrow> detailed_regime \<Rightarrow> double \<Rightarrow> double \<Rightarrow> allocator \<Rightarrow> allocator" where
  "set_market_context vol regime win_rate ratio a =
    a\<lparr>all_realized_vol_annual := vol, all_current_regime := regime,
      all_win_rate := std_clamp win_rate 0 1, all_avg_win_loss_ratio := std_max ratio 0\<rparr>"

definition update_global_budget :: "double \<Rightarrow> allocator \<Rightarrow> allocator" where
  "update_global_budget b a =
    (if 0 < b then a\<lparr>all_config := (all_config a)\<lparr>al_budget := (al_budget (all_config a))\<lparr>bh_global_budget := b\<rparr>\<rparr>\<rparr> else a)"

section \<open>Steps shared by the two pipelines\<close>

text \<open>A step returns the final result when it refuses, else the quantity and the result so far.\<close>

type_synonym sizing_step = "sizing_result + (double \<times> sizing_result)"

definition refuse_size :: "string \<Rightarrow> sizing_result \<Rightarrow> sizing_result" where
  "refuse_size reason r = r\<lparr>sr_approved := False, sr_reduction_reason := reason\<rparr>"

definition sized :: "sizing_result + 'a \<Rightarrow> ('a \<Rightarrow> sizing_result + 'b) \<Rightarrow> sizing_result + 'b" where
  "sized x f = (case x of Inl r \<Rightarrow> Inl r | Inr a \<Rightarrow> f a)"

definition cap_with_reason :: "string \<Rightarrow> double \<Rightarrow> double \<Rightarrow> double \<times> sizing_result \<Rightarrow> double \<times> sizing_result" where
  "cap_with_reason reason price lmt z =
    (case z of (q, r) \<Rightarrow>
       if lmt < q * price then (lmt / price, r\<lparr>sr_was_reduced := True, sr_reduction_reason := reason\<rparr>) else (q, r))"

definition cap_silently :: "double \<Rightarrow> double \<Rightarrow> double \<times> sizing_result \<Rightarrow> double \<times> sizing_result" where
  "cap_silently price lmt z =
    (case z of (q, r) \<Rightarrow> if lmt < q * price then (lmt / price, r\<lparr>sr_was_reduced := True\<rparr>) else (q, r))"

definition or_reason :: "string \<Rightarrow> sizing_result \<Rightarrow> sizing_result" where
  "or_reason s r = (if sr_reduction_reason r = [] then r\<lparr>sr_reduction_reason := s\<rparr> else r)"

definition scale_by_volatility :: "double \<Rightarrow> double \<times> sizing_result \<Rightarrow> double \<times> sizing_result" where
  "scale_by_volatility v z =
    (case z of (q, r) \<Rightarrow>
       if lit 0.01 < \<bar>v - 1\<bar> then
         let r = r\<lparr>sr_was_reduced := (v < 1 \<or> sr_was_reduced r)\<rparr>
         in (q * v, if v < 1 then or_reason (''Volatility targeting: size x '' @ to_string_double v) r else r)
       else (q, r))"

definition scale_by_uncertainty :: "double \<Rightarrow> double \<times> sizing_result \<Rightarrow> double \<times> sizing_result" where
  "scale_by_uncertainty u z =
    (case z of (q, r) \<Rightarrow>
       let m = std_clamp u 0 1
       in if m < 1 then (q * m, or_reason ''reduced for uncertainty'' (r\<lparr>sr_was_reduced := True\<rparr>)) else (q, r))"

definition intent_price :: "trade_intent \<Rightarrow> double" where
  "intent_price i = (case ti_limit_price i of Some p \<Rightarrow> p | None \<Rightarrow> 0)"

definition finish_size :: "portfolio_snapshot \<Rightarrow> double \<Rightarrow> double \<Rightarrow> sizing_result \<Rightarrow> sizing_result" where
  "finish_size p q notional r = r
    \<lparr>sr_approved_quantity := q, sr_approved_notional := notional,
     sr_size_as_pct_of_capital :=
       (if 0 < sn_total_capital p then notional / sn_total_capital p * lit 100 else 0),
     sr_approved := 0 < q\<rparr>"

section \<open>The pipeline without a context\<close>

definition limit_step :: "string \<Rightarrow> string \<Rightarrow> double \<Rightarrow> double \<Rightarrow> double \<times> sizing_result \<Rightarrow> sizing_step" where
  "limit_step none exceeded price lmt z =
    (if lmt \<le> 0 then Inl (refuse_size none (snd z)) else Inr (cap_with_reason exceeded price lmt z))"

definition minimum_order :: "double \<Rightarrow> double \<Rightarrow> double \<times> sizing_result \<Rightarrow> sizing_step" where
  "minimum_order price capital z =
    (case z of (q, r) \<Rightarrow>
       if 0 < q * price \<and> q * price < kMinBitgetNotionalUsdt \<and> 0 < price then
         let min_qty = kMinBitgetNotionalUsdt / price
         in if min_qty * price \<le> capital
            then Inr (min_qty, r\<lparr>sr_was_reduced := False, sr_reduction_reason := ''raised to the minimum order''\<rparr>)
            else Inl (refuse_size ''not enough capital for the minimum order'' r)
       else Inr (q, r))"

definition first_quantity :: "allocator_config \<Rightarrow> trade_intent \<Rightarrow> portfolio_snapshot \<Rightarrow> double \<Rightarrow> double" where
  "first_quantity cfg i p price =
    (if ti_suggested_quantity i \<le> 0
     then effective_available_notional p (al_max_leverage cfg) * al_max_concentration_pct cfg / price
     else ti_suggested_quantity i)"

definition compute_size :: "trade_intent \<Rightarrow> portfolio_snapshot \<Rightarrow> double \<Rightarrow> allocator \<Rightarrow> sizing_result" where
  "compute_size i p uncertainty a =
    (let cfg = all_config a; price = intent_price i;
         qty = first_quantity cfg i p price;
         budget = budget_limit cfg p; conc = concentration_limit cfg p; strat = strategy_limit cfg i p;
         capital = effective_available_notional p (al_max_leverage cfg)
     in if price \<le> 0 then refuse_size ''no price'' default_sizing
        else if qty \<le> 0 then refuse_size ''zero quantity'' default_sizing
        else
          case sized (limit_step ''budget used up'' ''over the budget'' price budget (qty, default_sizing)) (\<lambda>z.
               sized (limit_step ''concentration used up'' ''over the concentration limit'' price conc z) (\<lambda>z.
               sized (limit_step ''strategy limit used up'' ''over the strategy limit'' price strat z) (\<lambda>z.
               let z = scale_by_uncertainty uncertainty (scale_by_volatility (state_vol_multiplier a) z);
                   z = cap_silently price strat (cap_silently price conc (cap_silently price budget z))
               in sized (limit_step ''no capital'' ''limited by capital'' price capital z) (\<lambda>(q, r).
                    minimum_order price capital (std_max q 0, r))))) of
            Inl r \<Rightarrow> r
          | Inr (q, r) \<Rightarrow> finish_size p q (q * price) r)"

section \<open>The pipeline with a context\<close>

definition audited :: "string \<Rightarrow> double \<Rightarrow> double \<Rightarrow> double \<Rightarrow> bool \<Rightarrow> string \<Rightarrow> sizing_result \<Rightarrow> sizing_result" where
  "audited name lmt inp out binding details r = r
    \<lparr>sr_constraint_audit := sr_constraint_audit r @
      [\<lparr>cd_constraint_name = name, cd_limit_value = lmt, cd_input_value = inp, cd_output_value = out,
        cd_was_binding = binding, cd_details = details\<rparr>]\<rparr>"

definition audited_limit ::
    "string \<Rightarrow> string \<Rightarrow> string \<Rightarrow> double \<Rightarrow> double \<Rightarrow> double \<times> sizing_result \<Rightarrow> sizing_step" where
  "audited_limit name none exceeded price lmt z =
    (if lmt \<le> 0 then Inl (refuse_size none (snd z))
     else
       let n = fst z * price; (q, r) = cap_with_reason exceeded price lmt z
       in Inr (q, audited name lmt n (q * price) (lmt < n) [] r))"

definition drawdown_step :: "allocator_config \<Rightarrow> allocation_context \<Rightarrow> double \<times> sizing_result \<Rightarrow> double \<times> sizing_result" where
  "drawdown_step cfg c z =
    (case z of (q, r) \<Rightarrow>
       let s = drawdown_scale cfg (ac_current_drawdown_pct c); q' = (if s < 1 then q * s else q);
           r = (if s < 1 then or_reason (''Drawdown scaling: x'' @ to_string_double s) (r\<lparr>sr_was_reduced := True\<rparr>) else r)
       in (q', audited ''drawdown_scaling'' s q q' (s < 1)
                 (if s < 1 then ''drawdown='' @ to_string_double (ac_current_drawdown_pct c) @ ''% scale='' @
                    to_string_double s else []) r))"

definition liquidity_step ::
    "allocator_config \<Rightarrow> allocation_context \<Rightarrow> double \<Rightarrow> double \<times> sizing_result \<Rightarrow> double \<times> sizing_result" where
  "liquidity_step cfg c price z =
    (case z of (q, r) \<Rightarrow>
       let cap = liquidity_cap cfg c; n = q * price; binding = cap < double_max \<and> cap < n;
           q' = (if binding then cap / price else q);
           r = (if binding then or_reason ''Liquidity cap'' (r\<lparr>sr_was_reduced := True\<rparr>) else r)
       in (q', audited ''liquidity_cap'' cap n (q' * price) binding
                 (if binding then ''adv='' @ to_string_double (ac_avg_daily_volume c) @ '' book='' @
                    to_string_double (ac_book_depth_notional c) else []) r))"

definition taker_fee_of :: "allocation_context \<Rightarrow> double" where
  "taker_fee_of c = (case ac_exchange_filters c of Some f \<Rightarrow> xf_taker_fee_pct f | None \<Rightarrow> kDefaultTakerFeePct)"

definition risk_cap_applies :: "portfolio_snapshot \<Rightarrow> allocation_context \<Rightarrow> bool" where
  "risk_cap_applies p c \<longleftrightarrow>
    0 < sn_total_capital p \<and> 0 < ac_max_loss_per_trade_pct c \<and> 0 < ac_estimated_stop_distance_pct c"

definition max_loss_abs :: "portfolio_snapshot \<Rightarrow> allocation_context \<Rightarrow> double" where
  "max_loss_abs p c = sn_total_capital p * (ac_max_loss_per_trade_pct c / lit 100)"

definition round_trip_fee_pct :: "allocation_context \<Rightarrow> double" where
  "round_trip_fee_pct c = taker_fee_of c * lit 2 * lit 100"

definition total_loss_pct :: "allocation_context \<Rightarrow> double" where
  "total_loss_pct c = ac_estimated_stop_distance_pct c + round_trip_fee_pct c"

definition max_notional_from_risk :: "portfolio_snapshot \<Rightarrow> allocation_context \<Rightarrow> double" where
  "max_notional_from_risk p c = max_loss_abs p c / (total_loss_pct c / lit 100)"

text \<open>The third component is the notional that a bump to the minimum order may use.\<close>

definition risk_step ::
    "portfolio_snapshot \<Rightarrow> allocation_context \<Rightarrow> double \<Rightarrow> double \<Rightarrow> double \<times> sizing_result \<Rightarrow>
     (double \<times> sizing_result) \<times> double" where
  "risk_step p c price capital z =
    (if \<not> risk_cap_applies p c then (z, capital)
     else
       let n = fst z * price;
           limited = 0 < total_loss_pct c \<and> 0 < max_loss_abs p c; lmt = max_notional_from_risk p c;
           (q, r) = (if limited then cap_with_reason ''limited by the risk budget'' price lmt z else z)
       in ((q, audited ''capital_risk_cap'' (max_loss_abs p c) n (q * price) (limited \<and> lmt < n)
                 (''stop_pct='' @ to_string_double (ac_estimated_stop_distance_pct c) @ '' fee_pct='' @
                  to_string_double (round_trip_fee_pct c) @ '' max_loss_pct='' @
                  to_string_double (ac_max_loss_per_trade_pct c)) r),
           if limited then std_min capital lmt else capital))"

definition raise_to_min_quantity ::
    "exchange_filters \<Rightarrow> double \<Rightarrow> double \<Rightarrow> double \<times> sizing_result \<Rightarrow> sizing_step" where
  "raise_to_min_quantity f price affordable z =
    (case z of (q, r) \<Rightarrow>
       if q < xf_min_quantity f then
         if xf_min_quantity f * price \<le> affordable then Inr (xf_min_quantity f, r)
         else Inl (refuse_size ''minimum quantity over the risk of the trade'' r)
       else Inr (q, r))"

definition min_qty_for_notional :: "exchange_filters \<Rightarrow> double \<Rightarrow> double" where
  "min_qty_for_notional f price =
    std_ceil (xf_min_notional f / price / std_max (xf_quantity_step f) (lit 0.000000000000001)) *
    std_max (xf_quantity_step f) (lit 0.000000000000001)"

definition raise_to_min_notional ::
    "exchange_filters \<Rightarrow> double \<Rightarrow> double \<Rightarrow> double \<times> sizing_result \<Rightarrow> sizing_step" where
  "raise_to_min_notional f price affordable z =
    (case z of (q, r) \<Rightarrow>
       if q * price < xf_min_notional f then
         let m = min_qty_for_notional f price
         in if m * price \<le> affordable \<and> (xf_max_quantity f \<le> 0 \<or> m \<le> xf_max_quantity f) then Inr (m, r)
            else Inl (refuse_size ''minimum notional over the risk of the trade'' r)
       else Inr (q, r))"

definition filter_audit :: "exchange_filters \<Rightarrow> double \<Rightarrow> double \<times> sizing_result \<Rightarrow> double \<times> sizing_result" where
  "filter_audit f q0 z =
    (fst z, audited ''exchange_filters'' (xf_min_quantity f) q0 (fst z) (lit 0.000000000000001 < \<bar>fst z - q0\<bar>)
              (''step='' @ to_string_double (xf_quantity_step f) @ '' min_qty='' @ to_string_double (xf_min_quantity f) @
               '' min_notional='' @ to_string_double (xf_min_notional f)) (snd z))"

definition clip_to_max :: "exchange_filters \<Rightarrow> double \<times> sizing_result \<Rightarrow> double \<times> sizing_result" where
  "clip_to_max f z =
    (if 0 < xf_max_quantity f \<and> xf_max_quantity f < fst z then xf_max_quantity f else fst z, snd z)"

definition apply_exchange_filters ::
    "exchange_filters \<Rightarrow> double \<Rightarrow> double \<Rightarrow> double \<times> sizing_result \<Rightarrow> sizing_step" where
  "apply_exchange_filters f price affordable z =
    (if 0 < xf_max_quantity f \<and> xf_max_quantity f < xf_min_quantity f
     then Inl (refuse_size ''inverted filters of the exchange'' (snd z))
     else
       sized (raise_to_min_quantity f price affordable (round_quantity_down (fst z) f, snd z)) (\<lambda>y.
       sized (raise_to_min_notional f price affordable (clip_to_max f y)) (\<lambda>y.
       Inr (filter_audit f (fst z) y))))"

text \<open>The first quantity: a fixed margin at the target leverage, or the larger hint of the strategy.\<close>

definition target_quantity :: "allocator_config \<Rightarrow> trade_intent \<Rightarrow> portfolio_snapshot \<Rightarrow> double \<Rightarrow> double" where
  "target_quantity cfg i p price =
    (let margin = sn_total_capital p * al_margin_per_trade_pct cfg;
         lev = std_max (al_max_leverage cfg * al_target_leverage_multiplier cfg) (al_target_leverage_floor cfg);
         q = margin * lev / price
     in if q < ti_suggested_quantity i then ti_suggested_quantity i else q)"

text \<open>Steps 3 to 11 of the source: what the exchange filters start from.\<close>

definition size_before_filters ::
    "allocator_config \<Rightarrow> trade_intent \<Rightarrow> portfolio_snapshot \<Rightarrow> allocation_context \<Rightarrow> double \<Rightarrow> double \<Rightarrow> double \<Rightarrow>
     sizing_result + (double \<times> sizing_result) \<times> double" where
  "size_before_filters cfg i p c uncertainty price qty =
    (let budget = budget_limit cfg p; conc = concentration_limit cfg p; strat = strategy_limit cfg i p;
         capital = effective_available_notional p (al_max_leverage cfg)
     in sized (audited_limit ''budget_limit'' ''budget used up'' ''over the budget'' price budget (qty, default_sizing)) (\<lambda>z.
        sized (audited_limit ''concentration_limit'' ''concentration used up'' ''over the concentration limit'' price conc z) (\<lambda>z.
        sized (audited_limit ''strategy_limit'' ''strategy limit used up'' ''over the strategy limit'' price strat z) (\<lambda>z.
        let z = scale_by_volatility (context_vol_multiplier cfg c) (scale_by_uncertainty uncertainty z);
            z = cap_silently price strat (cap_silently price conc (cap_silently price budget z));
            z = liquidity_step cfg c price (drawdown_step cfg c z)
        in sized (limit_step ''no capital'' ''limited by capital'' price capital z) (\<lambda>z.
             Inr (risk_step p c price capital z))))))"

definition compute_size_v2 ::
    "trade_intent \<Rightarrow> portfolio_snapshot \<Rightarrow> allocation_context \<Rightarrow> double \<Rightarrow> allocator \<Rightarrow> sizing_result" where
  "compute_size_v2 i p c uncertainty a =
    (let cfg = all_config a; price = intent_price i; qty = target_quantity cfg i p price
     in if price \<le> 0 then refuse_size ''no price'' default_sizing
        else if qty \<le> 0 then refuse_size ''zero quantity'' default_sizing
        else
          case sized (size_before_filters cfg i p c uncertainty price qty) (\<lambda>((q, r), affordable).
               case ac_exchange_filters c of
                 None \<Rightarrow> Inl (refuse_size ''no exchange filters'' r)
               | Some f \<Rightarrow> apply_exchange_filters f price affordable (std_max q 0, r)) of
            Inl r \<Rightarrow> r
          | Inr (q, r) \<Rightarrow>
              let notional = q * price; fee = notional * taker_fee_of c
              in finish_size p q notional (r\<lparr>sr_expected_fee := fee, sr_fee_adjusted_notional := notional + fee\<rparr>))"

end
