(* ===== verification/Allocator_Laws.thy ===== *)
theory Allocator_Laws
  imports Portfolio_Allocator Float_Ranges
begin

text \<open>
  What the sizing pipeline promises: before the exchange filters every cap holds and every scale is
  applied, and the filters leave the size within the rounded one or what the trade may risk.
\<close>

section \<open>Caps\<close>


lemma double_neg_iff: "\<not> x < (0 :: double) \<longleftrightarrow> x = NaN \<or> 0 \<le> x"
  by (cases x) (auto simp: zero_double_def)




lemma canonical_0 [simp]: "canonical 0" "canonical 1"
  by (simp_all add: zero_double_def one_double_def)


lemma canonical_min [intro]: "canonical x \<Longrightarrow> canonical y \<Longrightarrow> canonical (std_min x y)"
  by (simp add: std_min_def)












section \<open>The steps before the exchange filters\<close>


































section \<open>The exchange filters\<close>












section \<open>No edge, and yet an order\<close>

definition ex_alloc_config :: allocator_config where
  "ex_alloc_config = default_allocator_config
     \<lparr>al_max_concentration_pct := 1, al_max_strategy_allocation_pct := 1,
      al_budget := \<lparr>bh_global_budget = Fin 1024, bh_symbol_budget_pct = 1\<rparr>, al_margin_per_trade_pct := 1,
      al_target_leverage_multiplier := 0, al_target_leverage_floor := 1, al_kelly_fraction := 1\<rparr>"

definition ex_filters :: exchange_filters where
  "ex_filters = \<lparr>xf_symbol = ''BTCUSDT'', xf_min_quantity = Fin 4, xf_max_quantity = 0, xf_quantity_step = 0,
     xf_min_notional = Fin 5, xf_tick_size = 0, xf_quantity_precision = 8, xf_price_precision = 2,
     xf_taker_fee_pct = 0, xf_maker_fee_pct = 0\<rparr>"

definition ex_capital :: portfolio_snapshot where
  "ex_capital = snapshot 0 (portfolio_init (Fin 1024))"

text \<open>A history without a single winning trade.\<close>

definition ex_no_edge :: allocation_context where
  "ex_no_edge = default_allocation_context
     \<lparr>ac_realized_vol_annual := 1, ac_win_rate := 0, ac_avg_win_loss_ratio := 1, ac_exchange_filters := Some ex_filters\<rparr>"

definition ex_priced :: trade_intent where
  "ex_priced = default_trade_intent\<lparr>ti_limit_price := Some (Fin 2)\<rparr>"

lemma ex_capital_sel:
  "sn_total_capital ex_capital = Fin 1024" "sn_available_capital ex_capital = Fin 1024" "sn_positions ex_capital = []"
  by (simp_all add: ex_capital_def snapshot_def portfolio_init_def Let_def)

lemma ex_ints: "lit 1 = Fin 1" "mk (- 1) = Fin (- 1)" "mk 1024 = Fin 1024" "mk 512 = Fin 512" "mk 8 = Fin 8"
  using mk_of_int [of "- 1"] mk_of_int [of 1024] mk_of_int [of 512] mk_of_int [of 8] by simp_all

lemma ex_limits:
  "budget_limit ex_alloc_config ex_capital = Fin 1024" "concentration_limit ex_alloc_config ex_capital = Fin 1024"
  "strategy_limit ex_alloc_config ex_priced ex_capital = Fin 1024"
  "effective_available_notional ex_capital (al_max_leverage ex_alloc_config) = Fin 1024"
  "liquidity_cap ex_alloc_config ex_no_edge = double_max"
  "drawdown_scale ex_alloc_config (ac_current_drawdown_pct ex_no_edge) = 1"
  "target_quantity ex_alloc_config ex_priced ex_capital (Fin 2) = Fin 512"
  "context_vol_multiplier ex_alloc_config ex_no_edge = 0"
  "\<not> risk_cap_applies ex_capital ex_no_edge"
proof -
  have l: "std_max (1 * lit 0.8) 1 = 1"
  proof -
    have "lit 0.8 \<le> mk 1" by (rule mk_mono) simp
    moreover have "1 * lit 0.8 = lit 0.8" using canonical_mk [of "0.8"] by (cases "lit 0.8") (simp_all add: one_double_def)
    ultimately show ?thesis by (cases "lit 0.8") (auto simp: std_max_def one_double_def)
  qed
  note d = ex_alloc_config_def default_allocator_config_def ex_capital_sel ex_ints one_double_def zero_double_def
    ex_priced_def default_trade_intent_def ex_no_edge_def default_allocation_context_def
  show "budget_limit ex_alloc_config ex_capital = Fin 1024" by (simp add: budget_limit_def d)
  show "concentration_limit ex_alloc_config ex_capital = Fin 1024" by (simp add: concentration_limit_def d)
  show "strategy_limit ex_alloc_config ex_priced ex_capital = Fin 1024"
    by (simp add: strategy_limit_def strategy_exposure_def minus_double_def std_max_def d)
  show "effective_available_notional ex_capital (al_max_leverage ex_alloc_config) = Fin 1024"
    using l by (simp add: effective_available_notional_def d)
  show "liquidity_cap ex_alloc_config ex_no_edge = double_max" by (simp add: liquidity_cap_def d)
  have "(0 :: double) \<le> lit 5" by (simp add: zero_double_def)
  then show "drawdown_scale ex_alloc_config (ac_current_drawdown_pct ex_no_edge) = 1" by (simp add: drawdown_scale_def d)
  show "target_quantity ex_alloc_config ex_priced ex_capital (Fin 2) = Fin 512"
    by (simp add: target_quantity_def std_max_def Let_def d)
  have "kelly_adjusted ex_alloc_config 0 1 = 0"
    by (simp add: kelly_adjusted_def std_max_def minus_double_def Let_def d)
  moreover have "std_clamp 0 0 1 = (0 :: double)" by (simp add: std_clamp_def zero_double_def one_double_def)
  ultimately show "context_vol_multiplier ex_alloc_config ex_no_edge = 0"
    by (simp add: context_vol_multiplier_def vol_multiplier_for_def ex_no_edge_def default_allocation_context_def)
       (simp add: zero_double_def one_double_def)
  show "\<not> risk_cap_applies ex_capital ex_no_edge" by (simp add: risk_cap_applies_def d)
qed

lemma ex_size:
  "sr_approved (compute_size_v2 ex_priced ex_capital ex_no_edge 1 (allocator_init ex_alloc_config))"
  "sr_approved_quantity (compute_size_v2 ex_priced ex_capital ex_no_edge 1 (allocator_init ex_alloc_config)) = Fin 4"
proof -
  have c: "all_config (allocator_init ex_alloc_config) = ex_alloc_config"
    by (simp add: allocator_init_def ex_alloc_config_def zero_double_def one_double_def)
  have p: "intent_price ex_priced = Fin 2" by (simp add: intent_price_def ex_priced_def)
  have t: "lit 0.01 < Fin 1" using mk_mono [of "0.01" "1/2"] mk_half by (cases "lit 0.01") auto
  have f: "ac_exchange_filters ex_no_edge = Some ex_filters" by (simp add: ex_no_edge_def)
  have r: "risk_step ex_capital ex_no_edge q k z = (z, k)" for q k z by (simp add: risk_step_def ex_limits)
  obtain r0 where b: "size_before_filters ex_alloc_config ex_priced ex_capital ex_no_edge 1 (Fin 2) (Fin 512) = Inr ((0, r0), Fin 1024)"
    using t
    by (simp add: size_before_filters_def ex_limits audited_limit_def limit_step_def cap_with_reason_def cap_silently_def
        sized_def r scale_by_uncertainty_def scale_by_volatility_def liquidity_step_def drawdown_step_def Let_def
        ex_ints zero_double_def one_double_def std_clamp_def minus_double_def)
  show "sr_approved (compute_size_v2 ex_priced ex_capital ex_no_edge 1 (allocator_init ex_alloc_config))"
    "sr_approved_quantity (compute_size_v2 ex_priced ex_capital ex_no_edge 1 (allocator_init ex_alloc_config)) = Fin 4"
    by (simp_all add: compute_size_v2_def c p Let_def b [unfolded zero_double_def] f apply_exchange_filters_def sized_def ex_filters_def
        round_quantity_down_def raise_to_min_quantity_def raise_to_min_notional_def clip_to_max_def filter_audit_def
        finish_size_def ex_ints std_max_def zero_double_def ex_limits)
qed

text \<open>
  A strategy without an edge is not kept from trading: the Kelly multiplier is 0, and the
  exchange filters raise the resulting empty order to the minimum quantity.
\<close>

theorem no_edge_still_trades:
  "context_vol_multiplier ex_alloc_config ex_no_edge = 0 \<and>
   sr_approved (compute_size_v2 ex_priced ex_capital ex_no_edge 1 (allocator_init ex_alloc_config)) \<and>
   sr_approved_quantity (compute_size_v2 ex_priced ex_capital ex_no_edge 1 (allocator_init ex_alloc_config)) = Fin 4"
  using ex_limits ex_size by simp


end
