(* ===== verification/Leverage_Engine.thy ===== *)
theory Leverage_Engine
  imports Float_Library
begin

text \<open>
  The leverage of a new position (\<^verbatim>\<open>src/src/leverage/leverage_engine.{hpp,cpp}\<close>).  The rationale is text for the
  log and is left out.
\<close>

section \<open>Types\<close>

record leverage_engine_config =
  lc_vol_low_atr :: double
  lc_vol_mid_atr :: double
  lc_vol_high_atr :: double
  lc_vol_extreme_atr :: double
  lc_vol_floor :: double
  lc_conviction_min_mult :: double
  lc_conviction_breakpoint :: double
  lc_conviction_max_mult :: double
  lc_drawdown_floor_mult :: double
  lc_drawdown_halfpoint_pct :: double
  lc_ema_alpha :: double
  lc_taker_fee_rate :: double
  lc_maker_fee_rate :: double

text \<open>The fields of \<^verbatim>\<open>FuturesConfig\<close> that the engine reads.\<close>

record futures_config =
  fc_default_leverage :: int
  fc_max_leverage :: int
  fc_min_leverage :: int
  fc_leverage_trending :: int
  fc_leverage_ranging :: int
  fc_leverage_volatile :: int
  fc_liquidation_buffer_pct :: double
  fc_funding_rate_threshold :: double
  fc_funding_rate_penalty :: double
  fc_maintenance_margin_rate :: double
  fc_leverage_engine :: leverage_engine_config

definition default_leverage_engine_config :: leverage_engine_config where
  "default_leverage_engine_config =
    \<lparr>lc_vol_low_atr = lit 0.001, lc_vol_mid_atr = lit 0.003, lc_vol_high_atr = lit 0.008,
     lc_vol_extreme_atr = lit 0.02, lc_vol_floor = lit 0.10, lc_conviction_min_mult = lit 0.40,
     lc_conviction_breakpoint = lit 0.70, lc_conviction_max_mult = lit 1.30, lc_drawdown_floor_mult = lit 0.10,
     lc_drawdown_halfpoint_pct = lit 10, lc_ema_alpha = lit 0.3, lc_taker_fee_rate = lit 0.0006,
     lc_maker_fee_rate = lit 0.0002\<rparr>"

definition default_futures_config :: futures_config where
  "default_futures_config =
    \<lparr>fc_default_leverage = 5, fc_max_leverage = 20, fc_min_leverage = 1, fc_leverage_trending = 10,
     fc_leverage_ranging = 5, fc_leverage_volatile = 3, fc_liquidation_buffer_pct = lit 5,
     fc_funding_rate_threshold = lit 0.0005, fc_funding_rate_penalty = lit 0.5,
     fc_maintenance_margin_rate = lit 0.004, fc_leverage_engine = default_leverage_engine_config\<rparr>"

record leverage_decision =
  ld_leverage :: int
  ld_liquidation_price :: double
  ld_liquidation_buffer_pct :: double
  ld_is_safe :: bool
  ld_base_leverage :: int
  ld_volatility_factor :: double
  ld_drawdown_factor :: double
  ld_conviction_factor :: double
  ld_funding_factor :: double
  ld_adversarial_factor :: double
  ld_uncertainty_factor :: double

record leverage_context =
  lx_regime :: regime_label
  lx_uncertainty :: uncertainty_level
  lx_atr_normalized :: double
  lx_drawdown_pct :: double
  lx_adversarial_severity :: double
  lx_conviction :: double
  lx_funding_rate :: double
  lx_position_side :: position_side
  lx_entry_price :: double

record leverage_engine =
  le_config :: futures_config
  le_win_rate :: double
  le_win_loss_ratio :: double
  le_ema_leverage :: double
  le_ema_initialized :: bool
  le_last_regime :: regime_label

definition leverage_engine_init :: "futures_config \<Rightarrow> leverage_engine" where
  "leverage_engine_init cfg =
    \<lparr>le_config = cfg, le_win_rate = lit 0.50, le_win_loss_ratio = lit 1.5, le_ema_leverage = 0,
     le_ema_initialized = False, le_last_regime = Unclear\<rparr>"

section \<open>Multipliers\<close>

definition lerp :: "double \<Rightarrow> double \<Rightarrow> double \<Rightarrow> double" where
  "lerp a b t = a + (b - a) * std_clamp t 0 1"

definition base_leverage_for_regime :: "futures_config \<Rightarrow> regime_label \<Rightarrow> int" where
  "base_leverage_for_regime cfg r =
    (case r of
       Trending \<Rightarrow> fc_leverage_trending cfg
     | Ranging \<Rightarrow> fc_leverage_ranging cfg
     | Volatile \<Rightarrow> fc_leverage_volatile cfg
     | Unclear \<Rightarrow> fc_default_leverage cfg)"

definition volatility_multiplier :: "leverage_engine_config \<Rightarrow> double \<Rightarrow> double" where
  "volatility_multiplier lc a =
    (if a \<le> lc_vol_low_atr lc then 1
     else if a \<le> lc_vol_mid_atr lc then
       lerp 1 (lit 0.7) ((a - lc_vol_low_atr lc) / (lc_vol_mid_atr lc - lc_vol_low_atr lc))
     else if a \<le> lc_vol_high_atr lc then
       lerp (lit 0.7) (lit 0.4) ((a - lc_vol_mid_atr lc) / (lc_vol_high_atr lc - lc_vol_mid_atr lc))
     else if a \<le> lc_vol_extreme_atr lc then
       lerp (lit 0.4) (lit 0.20) ((a - lc_vol_high_atr lc) / (lc_vol_extreme_atr lc - lc_vol_high_atr lc))
     else lerp (lit 0.20) (lc_vol_floor lc) (std_min 1 ((a - lc_vol_extreme_atr lc) / lit 0.04)))"

definition drawdown_multiplier :: "libm \<Rightarrow> leverage_engine_config \<Rightarrow> double \<Rightarrow> double" where
  "drawdown_multiplier lm lc dd =
    (if dd \<le> 0 then 1
     else
       let fl = lc_drawdown_floor_mult lc; range = 1 - fl;
           mult = fl + range * (1 - lm_tanh lm (lit 0.5493 * (dd / lc_drawdown_halfpoint_pct lc)))
       in std_clamp mult fl 1)"

definition conviction_multiplier :: "leverage_engine_config \<Rightarrow> double \<Rightarrow> double" where
  "conviction_multiplier lc conviction =
    (let c = std_clamp conviction 0 1; bp = lc_conviction_breakpoint lc
     in if c \<le> bp then lerp (lc_conviction_min_mult lc) 1 (c / bp)
        else lerp 1 (lc_conviction_max_mult lc) ((c - bp) / (1 - bp)))"

definition funding_multiplier :: "libm \<Rightarrow> futures_config \<Rightarrow> double \<Rightarrow> position_side \<Rightarrow> double" where
  "funding_multiplier lm cfg rate s =
    (let abs_rate = \<bar>rate\<bar>; threshold = fc_funding_rate_threshold cfg;
         paying = (s = Long \<and> 0 < rate \<or> s = Short \<and> rate < 0)
     in if abs_rate < threshold then 1
        else if \<not> paying then 1
        else
          let excess = (abs_rate - threshold) / threshold;
              k = - lm_log lm (1 - std_clamp (fc_funding_rate_penalty cfg) (lit 0.01) (lit 0.95))
          in std_max (lit 0.15) (lm_exp lm ((- k) * excess)))"

definition adversarial_multiplier :: "double \<Rightarrow> double" where
  "adversarial_multiplier severity =
    (if \<not> isfinite severity then 1 else lerp 1 (lit 0.15) (std_clamp severity 0 1))"

definition uncertainty_multiplier :: "uncertainty_level \<Rightarrow> double" where
  "uncertainty_multiplier l = (case l of Extreme \<Rightarrow> lit 0.6 | _ \<Rightarrow> 1)"

section \<open>Edge\<close>

definition update_edge_stats :: "double \<Rightarrow> double \<Rightarrow> leverage_engine \<Rightarrow> leverage_engine" where
  "update_edge_stats win_rate ratio e =
    e\<lparr>le_win_rate := std_clamp win_rate (lit 0.01) (lit 0.99), le_win_loss_ratio := std_max (lit 0.01) ratio\<rparr>"

definition full_kelly :: "leverage_engine \<Rightarrow> double" where
  "full_kelly e =
    (let p = le_win_rate e; b = le_win_loss_ratio e in (b * p - (1 - p)) / b)"

definition min_allowed_leverage :: "futures_config \<Rightarrow> int" where
  "min_allowed_leverage cfg = max 1 (fc_min_leverage cfg)"

definition kelly_max_leverage :: "leverage_engine \<Rightarrow> double" where
  "kelly_max_leverage e =
    (let cfg = le_config e
     in if full_kelly e \<le> 0 then dint (min_allowed_leverage cfg)
        else std_clamp (full_kelly e * lit 0.5 * dint (fc_max_leverage cfg))
               (dint (min_allowed_leverage cfg)) (dint (fc_max_leverage cfg)))"

section \<open>Liquidation\<close>

record liquidation_params =
  lq_entry_price :: double
  lq_position_side :: position_side
  lq_leverage :: int
  lq_maintenance_margin_rate :: double
  lq_taker_fee_rate :: double

definition compute_liquidation_price :: "liquidation_params \<Rightarrow> double" where
  "compute_liquidation_price p =
    (if lq_leverage p \<le> 0 \<or> lq_entry_price p \<le> 0 then 0
     else
       let inv_lev = 1 / dint (lq_leverage p); entry = lq_entry_price p
       in if lq_position_side p = Long then
            let liq = entry * (1 - inv_lev + lq_maintenance_margin_rate p + lq_taker_fee_rate p)
            in if entry \<le> liq then 0 else liq
          else
            let liq = entry * (1 + inv_lev - lq_maintenance_margin_rate p - lq_taker_fee_rate p)
            in if liq \<le> entry then 0 else liq)"

definition liquidation_distance_pct :: "double \<Rightarrow> double \<Rightarrow> position_side \<Rightarrow> double" where
  "liquidation_distance_pct price liq s =
    (if s = Long then (price - liq) / price * lit 100 else (liq - price) / price * lit 100)"

definition is_liquidation_safe :: "double \<Rightarrow> double \<Rightarrow> position_side \<Rightarrow> double \<Rightarrow> bool" where
  "is_liquidation_safe price liq s buffer_pct =
    (if price \<le> 0 \<or> liq \<le> 0 then False else buffer_pct \<le> liquidation_distance_pct price liq s)"

section \<open>Decision\<close>

definition raw_leverage :: "libm \<Rightarrow> leverage_context \<Rightarrow> leverage_engine \<Rightarrow> double" where
  "raw_leverage lm x e =
    (let cfg = le_config e; lc = fc_leverage_engine cfg
     in std_min
          (dint (base_leverage_for_regime cfg (lx_regime x)) * volatility_multiplier lc (lx_atr_normalized x) *
           drawdown_multiplier lm lc (lx_drawdown_pct x) * conviction_multiplier lc (lx_conviction x) *
           funding_multiplier lm cfg (lx_funding_rate x) (lx_position_side x) *
           adversarial_multiplier (lx_adversarial_severity x) * uncertainty_multiplier (lx_uncertainty x))
          (kelly_max_leverage e))"

definition smooth_leverage :: "regime_label \<Rightarrow> double \<Rightarrow> leverage_engine \<Rightarrow> leverage_engine" where
  "smooth_leverage regime raw e =
    (let alpha = lc_ema_alpha (fc_leverage_engine (le_config e));
         e = (if regime \<noteq> le_last_regime e then e\<lparr>le_ema_initialized := False, le_last_regime := regime\<rparr> else e)
     in if \<not> le_ema_initialized e then e\<lparr>le_ema_leverage := raw, le_ema_initialized := True\<rparr>
        else e\<lparr>le_ema_leverage := alpha * raw + (1 - alpha) * le_ema_leverage e\<rparr>)"

definition liquidation_of :: "leverage_context \<Rightarrow> futures_config \<Rightarrow> leverage_decision \<Rightarrow> leverage_decision" where
  "liquidation_of x cfg d =
    (if 0 < lx_entry_price x then
       let liq = compute_liquidation_price
                   \<lparr>lq_entry_price = lx_entry_price x, lq_position_side = lx_position_side x, lq_leverage = ld_leverage d,
                    lq_maintenance_margin_rate = fc_maintenance_margin_rate cfg,
                    lq_taker_fee_rate = lc_taker_fee_rate (fc_leverage_engine cfg)\<rparr>;
           d = d\<lparr>ld_liquidation_price := liq,
                 ld_is_safe := is_liquidation_safe (lx_entry_price x) liq (lx_position_side x) (fc_liquidation_buffer_pct cfg)\<rparr>
       in if 0 < liq
          then d\<lparr>ld_liquidation_buffer_pct := \<bar>lx_entry_price x - liq\<bar> / lx_entry_price x * lit 100\<rparr> else d
     else d)"

definition compute_leverage :: "libm \<Rightarrow> leverage_context \<Rightarrow> leverage_engine \<Rightarrow> leverage_decision \<times> leverage_engine" where
  "compute_leverage lm x e =
    (let cfg = le_config e; lc = fc_leverage_engine cfg;
         e = smooth_leverage (lx_regime x) (raw_leverage lm x e) e;
         d = \<lparr>ld_leverage = clamp_int (to_int32 lm (std_round (le_ema_leverage e)))
                               (min_allowed_leverage cfg) (fc_max_leverage cfg),
              ld_liquidation_price = 0, ld_liquidation_buffer_pct = 0, ld_is_safe = True,
              ld_base_leverage = base_leverage_for_regime cfg (lx_regime x),
              ld_volatility_factor = volatility_multiplier lc (lx_atr_normalized x),
              ld_drawdown_factor = drawdown_multiplier lm lc (lx_drawdown_pct x),
              ld_conviction_factor = conviction_multiplier lc (lx_conviction x),
              ld_funding_factor = funding_multiplier lm cfg (lx_funding_rate x) (lx_position_side x),
              ld_adversarial_factor = adversarial_multiplier (lx_adversarial_severity x),
              ld_uncertainty_factor = uncertainty_multiplier (lx_uncertainty x)\<rparr>
     in (liquidation_of x cfg d, e))"

definition update_config :: "futures_config \<Rightarrow> leverage_engine \<Rightarrow> leverage_engine" where
  "update_config cfg e = e\<lparr>le_config := cfg, le_ema_initialized := False\<rparr>"

section \<open>What the engine promises\<close>

lemma liquidation_of_sel [simp]:
  "ld_leverage (liquidation_of x cfg d) = ld_leverage d"
  by (simp add: liquidation_of_def Let_def)

text \<open>
  Whatever the market data, the library and the history of calls, NaN included, the leverage is
  between the configured bounds and at least 1.
\<close>

theorem leverage_within_bounds:
  assumes "min_allowed_leverage (le_config e) \<le> fc_max_leverage (le_config e)"
  shows "1 \<le> ld_leverage (fst (compute_leverage lm x e)) \<and>
    fc_min_leverage (le_config e) \<le> ld_leverage (fst (compute_leverage lm x e)) \<and>
    ld_leverage (fst (compute_leverage lm x e)) \<le> fc_max_leverage (le_config e)"
  using assms by (auto simp: compute_leverage_def Let_def clamp_int_def min_allowed_leverage_def)

lemma liquidation_price_side:
  assumes "0 < compute_liquidation_price p"
  shows "\<not> lq_entry_price p \<le> 0 \<and>
    (lq_position_side p = Long \<longrightarrow> \<not> lq_entry_price p \<le> compute_liquidation_price p) \<and>
    (lq_position_side p = Short \<longrightarrow> \<not> compute_liquidation_price p \<le> lq_entry_price p)"
  using assms by (auto simp: compute_liquidation_price_def Let_def zero_double_def split: if_splits)

text \<open>
  C29. A decision for a real entry price that calls itself safe has its liquidation price strictly on
  the losing side of the entry, and the distance to it in percent reaches the configured buffer.
\<close>

theorem safe_leverage_keeps_buffer:
  assumes "ld_is_safe (fst (compute_leverage lm x e))" and "0 < lx_entry_price x"
    and "d = fst (compute_leverage lm x e)"
  shows "0 < ld_liquidation_price d \<and>
    (lx_position_side x = Long \<longrightarrow> ld_liquidation_price d < lx_entry_price x) \<and>
    (lx_position_side x = Short \<longrightarrow> lx_entry_price x < ld_liquidation_price d) \<and>
    fc_liquidation_buffer_pct (le_config e) \<le>
      liquidation_distance_pct (lx_entry_price x) (ld_liquidation_price d) (lx_position_side x)"
proof -
  let ?p = "\<lparr>lq_entry_price = lx_entry_price x, lq_position_side = lx_position_side x, lq_leverage = ld_leverage d,
     lq_maintenance_margin_rate = fc_maintenance_margin_rate (le_config e),
     lq_taker_fee_rate = lc_taker_fee_rate (fc_leverage_engine (le_config e))\<rparr>"
  have l: "ld_liquidation_price d = compute_liquidation_price ?p"
    and s: "is_liquidation_safe (lx_entry_price x) (compute_liquidation_price ?p) (lx_position_side x)
      (fc_liquidation_buffer_pct (le_config e))"
    using assms by (auto simp: compute_leverage_def liquidation_of_def Let_def split: if_splits)
  have b: "fc_liquidation_buffer_pct (le_config e) \<le>
      liquidation_distance_pct (lx_entry_price x) (compute_liquidation_price ?p) (lx_position_side x)"
    and n: "\<not> compute_liquidation_price ?p \<le> 0"
    using s by (auto simp: is_liquidation_safe_def split: if_splits)
  have nn: "compute_liquidation_price ?p \<noteq> NaN"
  proof
    assume "compute_liquidation_price ?p = NaN"
    then have "liquidation_distance_pct (lx_entry_price x) (compute_liquidation_price ?p) (lx_position_side x) = NaN"
      by (cases "lx_entry_price x") (simp_all add: liquidation_distance_pct_def minus_double_def)
    then show False using b by (cases "fc_liquidation_buffer_pct (le_config e)") simp_all
  qed
  then have pos: "0 < compute_liquidation_price ?p" using n by (simp add: double_not_le zero_double_def)
  have "lx_entry_price x \<noteq> NaN" using assms(2) by auto
  then show ?thesis
    using liquidation_price_side [OF pos] pos b nn unfolding l by (auto simp: double_not_le)
qed

lemma dint_exact: "\<bar>n\<bar> < 2 ^ 53 \<Longrightarrow> dint n = Fin (of_int n)"
  using mk_of_int [of n] by simp

lemma std_min_cap: "0 \<le> std_min a (Fin c) \<Longrightarrow> std_min a (Fin c) \<le> Fin c"
  by (cases a) (auto simp: std_min_def zero_double_def)

text \<open>
  A negative edge gives the minimum leverage: when the Kelly fraction is not positive, the
  first decision in a regime is the smallest leverage allowed.
\<close>

theorem no_edge_minimum_leverage:
  assumes "full_kelly e \<le> 0" and "0 \<le> raw_leverage lm x e" and "lx_regime x \<noteq> le_last_regime e"
    and "min_allowed_leverage (le_config e) \<le> fc_max_leverage (le_config e)"
    and "min_allowed_leverage (le_config e) \<le> 1000"
  shows "ld_leverage (fst (compute_leverage lm x e)) = min_allowed_leverage (le_config e)"
proof -
  let ?n = "min_allowed_leverage (le_config e)"
  have n: "1 \<le> ?n" by (simp add: min_allowed_leverage_def)
  have cap: "kelly_max_leverage e = Fin (of_int ?n)"
    using assms(1,5) n dint_exact [of ?n] by (simp add: kelly_max_leverage_def Let_def)
  have "raw_leverage lm x e \<le> Fin (of_int ?n)"
    using assms(2) unfolding raw_leverage_def Let_def cap by (rule std_min_cap)
  then obtain r where r: "raw_leverage lm x e = Fin r" "0 \<le> r" "r \<le> of_int ?n"
    using assms(2) by (cases "raw_leverage lm x e") (auto simp: zero_double_def)
  have e: "le_ema_leverage (smooth_leverage (lx_regime x) (raw_leverage lm x e) e) = Fin r"
    using assms(3) by (simp add: smooth_leverage_def Let_def r)
  have fl: "0 \<le> \<lfloor>r + 1 / 2\<rfloor>" "\<lfloor>r + 1 / 2\<rfloor> \<le> ?n" using r by linarith+
  then have "to_int32 lm (std_round (Fin r)) = \<lfloor>r + 1 / 2\<rfloor>"
    using r assms(5) by (simp add: to_int32_def)
  then show ?thesis using fl n assms(4)
    by (simp add: compute_leverage_def Let_def e clamp_int_def)
qed

text \<open>
  Once the smoothed leverage is not a number it stays so in the same regime, whatever the
  inputs: the leverage is then the conversion of NaN to an integer, which the language leaves
  undefined.
\<close>

theorem nan_smoothing_persists:
  assumes "le_ema_leverage e = NaN" and "le_ema_initialized e" and "lx_regime x = le_last_regime e"
  shows "le_ema_leverage (snd (compute_leverage lm x e)) = NaN \<and>
    ld_leverage (fst (compute_leverage lm x e)) =
      clamp_int (lm_undefined_int lm NaN) (min_allowed_leverage (le_config e)) (fc_max_leverage (le_config e))"
proof -
  have m: "a + b * NaN = NaN" for a b :: double by (cases a; cases b) simp_all
  then have "le_ema_leverage (smooth_leverage (lx_regime x) raw e) = NaN" for raw
    using assms by (simp add: smooth_leverage_def Let_def)
  then show ?thesis by (simp add: compute_leverage_def Let_def to_int32_def)
qed

text \<open>A decision without an entry price calls itself safe.\<close>

theorem no_price_counts_as_safe:
  assumes "\<not> 0 < lx_entry_price x"
  shows "ld_is_safe (fst (compute_leverage lm x e)) \<and> ld_liquidation_price (fst (compute_leverage lm x e)) = 0"
  using assms by (simp add: compute_leverage_def liquidation_of_def Let_def)

section \<open>Witnesses\<close>

definition ex_libm :: libm where
  "ex_libm = \<lparr>lm_exp = (\<lambda>_. 1), lm_log = (\<lambda>_. 0), lm_tanh = (\<lambda>_. 0), lm_pow = (\<lambda>x _. x), lm_undefined_int = (\<lambda>_. 0)\<rparr>"

definition ex_futures :: futures_config where
  "ex_futures = default_futures_config\<lparr>fc_min_leverage := 2, fc_max_leverage := 2, fc_maintenance_margin_rate := 0,
     fc_leverage_engine := default_leverage_engine_config\<lparr>lc_taker_fee_rate := 0\<rparr>\<rparr>"

definition ex_leverage_context :: leverage_context where
  "ex_leverage_context = \<lparr>lx_regime = Trending, lx_uncertainty = Low, lx_atr_normalized = NaN, lx_drawdown_pct = 0,
     lx_adversarial_severity = 0, lx_conviction = NaN, lx_funding_rate = 0, lx_position_side = Long,
     lx_entry_price = Fin 64\<rparr>"

lemma ex_leverage_safe: "ld_is_safe (fst (compute_leverage lm ex_leverage_context (leverage_engine_init ex_futures)))"
proof -
  have m: "mk (1 / 2) = Fin (1 / 2)" "mk 32 = Fin 32" "mk (- 32) = Fin (- 32)" "mk 50 = Fin 50" "mk 100 = Fin 100"
    using mk_half mk_of_int [of 32] mk_of_int [of "- 32"] mk_of_int [of 50] mk_of_int [of 100] by simp_all
  have "lit 5 \<le> mk 50" by (rule mk_mono) simp
  then have b: "lit 5 \<le> Fin 50" using m by simp
  have c: "clamp_int n 2 2 = 2" for n by (simp add: clamp_int_def)
  show ?thesis using b
    by (simp add: compute_leverage_def liquidation_of_def Let_def leverage_engine_init_def ex_futures_def
        default_futures_config_def min_allowed_leverage_def c ex_leverage_context_def compute_liquidation_price_def
        is_liquidation_safe_def liquidation_distance_pct_def minus_double_def m zero_double_def one_double_def)
qed

theorem safe_leverage_keeps_buffer_witness:
  "ld_liquidation_price (fst (compute_leverage ex_libm ex_leverage_context (leverage_engine_init ex_futures))) < Fin 64"
  using safe_leverage_keeps_buffer [OF ex_leverage_safe _ refl, of ex_libm]
  by (simp add: ex_leverage_context_def zero_double_def)

end
