(* ===== verification/Uncertainty_Engine.thy ===== *)
theory Uncertainty_Engine
  imports Feature_Types Trading_Types Float_Ranges "HOL-Library.AList"
begin

text \<open>
  The uncertainty gate (\<^verbatim>\<open>src/src/uncertainty/uncertainty_types.hpp\<close>,
  \<^verbatim>\<open>uncertainty_engine.{hpp,cpp}\<close>) and the signal record it reads
  (\<^verbatim>\<open>src/src/ml/ml_signal_types.hpp\<close>).  A call reads the clock twice: for the cooldown, then
  for the time stamp of the snapshot.  Of the regime and the world
  model the gate uses the confidence and the fragility, which are parameters here; the
  portfolio is not used.
\<close>

section \<open>Signals of the learning components\<close>

datatype ml_component_health = MlHealthy | MlWarmingUp | MlStale | MlDegraded | MlFailed

fun health_index :: "ml_component_health \<Rightarrow> nat" where
  "health_index MlHealthy = 0"
| "health_index MlWarmingUp = 1"
| "health_index MlStale = 2"
| "health_index MlDegraded = 3"
| "health_index MlFailed = 4"

record ml_component_status =
  ms_health :: ml_component_health
  ms_last_update_ns :: int
  ms_samples_processed :: int
  ms_warmup_remaining :: int

definition default_ml_status :: ml_component_status where
  "default_ml_status = \<lparr>ms_health = MlWarmingUp, ms_last_update_ns = 0, ms_samples_processed = 0, ms_warmup_remaining = 0\<rparr>"

definition ml_is_ready :: "ml_component_status \<Rightarrow> bool" where
  "ml_is_ready s \<longleftrightarrow> ms_health s = MlHealthy"

definition ml_is_usable :: "ml_component_status \<Rightarrow> bool" where
  "ml_is_usable s \<longleftrightarrow> ms_health s = MlHealthy \<or> ms_health s = MlWarmingUp \<and> 0 < ms_samples_processed s"

record ml_signal_snapshot =
  ml_computed_at_ns :: int
  ml_composite_entropy :: double
  ml_signal_quality :: double
  ml_is_noisy :: bool
  ml_entropy_status :: ml_component_status
  ml_cascade_probability :: double
  ml_cascade_imminent :: bool
  ml_cascade_direction :: int
  ml_cascade_status :: ml_component_status
  ml_avg_correlation :: double
  ml_correlation_break :: bool
  ml_correlation_risk_multiplier :: double
  ml_correlation_status :: ml_component_status
  ml_fingerprint_edge :: double
  ml_fingerprint_win_rate :: double
  ml_fingerprint_sample_count :: int
  ml_fingerprint_status :: ml_component_status
  ml_adapted_conviction_threshold :: double
  ml_adapted_atr_stop_mult :: double
  ml_bayesian_status :: ml_component_status
  ml_recommended_wait_periods :: int
  ml_entry_confidence :: double
  ml_thompson_status :: ml_component_status
  ml_combined_risk_multiplier :: double
  ml_should_block_trading :: bool
  ml_block_reason :: string
  ml_overall_health :: ml_component_health

definition default_ml_signals :: ml_signal_snapshot where
  "default_ml_signals =
    \<lparr>ml_computed_at_ns = 0, ml_composite_entropy = 0, ml_signal_quality = 1, ml_is_noisy = False,
     ml_entropy_status = default_ml_status, ml_cascade_probability = 0, ml_cascade_imminent = False,
     ml_cascade_direction = 0, ml_cascade_status = default_ml_status, ml_avg_correlation = 0,
     ml_correlation_break = False, ml_correlation_risk_multiplier = 1, ml_correlation_status = default_ml_status,
     ml_fingerprint_edge = 0, ml_fingerprint_win_rate = lit 0.5, ml_fingerprint_sample_count = 0,
     ml_fingerprint_status = default_ml_status, ml_adapted_conviction_threshold = lit 0.3,
     ml_adapted_atr_stop_mult = lit 2, ml_bayesian_status = default_ml_status, ml_recommended_wait_periods = 0,
     ml_entry_confidence = lit 0.5, ml_thompson_status = default_ml_status, ml_combined_risk_multiplier = 1,
     ml_should_block_trading = False, ml_block_reason = [], ml_overall_health = MlWarmingUp\<rparr>"

definition worst_health :: "ml_component_health \<Rightarrow> ml_component_health \<Rightarrow> ml_component_health" where
  "worst_health a b = (if health_index b < health_index a then a else b)"

definition component_healths :: "ml_signal_snapshot \<Rightarrow> ml_component_health list" where
  "component_healths s = map ms_health
    [ml_entropy_status s, ml_cascade_status s, ml_correlation_status s, ml_fingerprint_status s,
     ml_bayesian_status s, ml_thompson_status s]"

definition ml_combined_risk :: "ml_signal_snapshot \<Rightarrow> double" where
  "ml_combined_risk s =
    (let risk = ml_correlation_risk_multiplier s;
         risk = (if ml_cascade_imminent s then risk * lit 0.3
                 else if lit 0.4 < ml_cascade_probability s then risk * (1 - ml_cascade_probability s * lit 0.5)
                 else risk);
         risk = (if ml_is_noisy s then risk * lit 0.7 else risk)
     in std_clamp risk 0 1)"

definition compute_aggregates :: "ml_signal_snapshot \<Rightarrow> ml_signal_snapshot" where
  "compute_aggregates s = s
    \<lparr>ml_combined_risk_multiplier := ml_combined_risk s,
     ml_should_block_trading := ml_cascade_imminent s \<or> ml_signal_quality s < lit 0.15,
     ml_block_reason :=
       (if ml_cascade_imminent s then ''liquidation_cascade_imminent''
        else if ml_signal_quality s < lit 0.15 then ''signal_quality_too_low'' else []),
     ml_overall_health := fold (\<lambda>h a. worst_health a h) (component_healths s) MlHealthy\<rparr>"

definition is_ready_for_trading :: "ml_signal_snapshot \<Rightarrow> bool" where
  "is_ready_for_trading s \<longleftrightarrow> ml_overall_health s = MlHealthy \<and> \<not> ml_should_block_trading s"

section \<open>Types\<close>

text \<open>The enumerators of the level are compared in their order.\<close>

fun level_index :: "uncertainty_level \<Rightarrow> nat" where
  "level_index Low = 0"
| "level_index Moderate = 1"
| "level_index High = 2"
| "level_index Extreme = 3"

lemma level_index_inject: "level_index a = level_index b \<Longrightarrow> a = b"
  by (cases a; cases b) simp_all

instantiation uncertainty_level :: linorder
begin

definition less_eq_uncertainty_level :: "uncertainty_level \<Rightarrow> uncertainty_level \<Rightarrow> bool" where
  "less_eq_uncertainty_level a b \<longleftrightarrow> level_index a \<le> level_index b"

definition less_uncertainty_level :: "uncertainty_level \<Rightarrow> uncertainty_level \<Rightarrow> bool" where
  "less_uncertainty_level a b \<longleftrightarrow> level_index a < level_index b"

instance
  by standard (auto simp: less_eq_uncertainty_level_def less_uncertainty_level_def intro: level_index_inject)

end

record uncertainty_config =
  uc_threshold_low :: double
  uc_threshold_moderate :: double
  uc_threshold_high :: double
  uc_hysteresis_down :: double
  uc_ema_alpha :: double
  uc_size_floor :: double
  uc_threshold_ceiling :: double
  uc_consecutive_extreme_for_cooldown :: int
  uc_cooldown_duration_ns :: int

definition default_uncertainty_config :: uncertainty_config where
  "default_uncertainty_config =
    \<lparr>uc_threshold_low = lit 0.25, uc_threshold_moderate = lit 0.50, uc_threshold_high = lit 0.75,
     uc_hysteresis_down = lit 0.05, uc_ema_alpha = lit 0.15, uc_size_floor = lit 0.10,
     uc_threshold_ceiling = lit 2.5, uc_consecutive_extreme_for_cooldown = 3, uc_cooldown_duration_ns = 60000000000\<rparr>"

record uncertainty_dimensions =
  ud_regime_uncertainty :: double
  ud_signal_uncertainty :: double
  ud_data_quality_uncertainty :: double
  ud_execution_uncertainty :: double
  ud_portfolio_uncertainty :: double
  ud_ml_uncertainty :: double
  ud_correlation_uncertainty :: double
  ud_transition_uncertainty :: double
  ud_operational_uncertainty :: double

datatype uncertainty_action = UaNormal | UaReducedSize | UaHigherThreshold | UaNoTrade

fun uncertainty_action_to_string :: "uncertainty_action \<Rightarrow> string" where
  "uncertainty_action_to_string UaNormal = ''Normal''"
| "uncertainty_action_to_string UaReducedSize = ''ReducedSize''"
| "uncertainty_action_to_string UaHigherThreshold = ''HigherThreshold''"
| "uncertainty_action_to_string UaNoTrade = ''NoTrade''"

fun execution_mode_to_string :: "execution_mode_recommendation \<Rightarrow> string" where
  "execution_mode_to_string ModeNormal = ''Normal''"
| "execution_mode_to_string ModeConservative = ''Conservative''"
| "execution_mode_to_string ModeDefensiveOnly = ''DefensiveOnly''"
| "execution_mode_to_string ModeHaltNewEntries = ''HaltNewEntries''"

record uncertainty_driver =
  uv_dimension :: string
  uv_contribution :: double
  uv_raw_value :: double
  uv_description :: string

text \<open>The snapshot with the fields that the risk engine does not read.\<close>

record full_uncertainty = uncertainty_snapshot +
  uf_dimensions :: uncertainty_dimensions
  uf_recommended_action :: uncertainty_action
  uf_top_drivers :: "uncertainty_driver list"

record uncertainty_diagnostics =
  dg_total_assessments :: int
  dg_veto_count :: int
  dg_cooldown_activations :: int
  dg_avg_aggregate_score :: double
  dg_last_assessment :: timestamp

definition default_uncertainty_diagnostics :: uncertainty_diagnostics where
  "default_uncertainty_diagnostics =
    \<lparr>dg_total_assessments = 0, dg_veto_count = 0, dg_cooldown_activations = 0, dg_avg_aggregate_score = lit 0.5,
     dg_last_assessment = 0\<rparr>"

record symbol_state =
  sy_ema_score :: double
  sy_prev_level :: uncertainty_level
  sy_last_assess_ns :: int
  sy_cooldown_until_ns :: int
  sy_consecutive_extreme :: int
  sy_consecutive_high :: int

definition default_symbol_state :: symbol_state where
  "default_symbol_state =
    \<lparr>sy_ema_score = lit 0.5, sy_prev_level = Moderate, sy_last_assess_ns = 0, sy_cooldown_until_ns = 0,
     sy_consecutive_extreme = 0, sy_consecutive_high = 0\<rparr>"

record uncertainty_engine =
  ue_config :: uncertainty_config
  ue_snapshots :: "(symbol \<times> full_uncertainty) list"
  ue_states :: "(symbol \<times> symbol_state) list"
  ue_diagnostics :: uncertainty_diagnostics

definition uncertainty_engine_init :: "uncertainty_config \<Rightarrow> uncertainty_engine" where
  "uncertainty_engine_init cfg =
    \<lparr>ue_config = cfg, ue_snapshots = [], ue_states = [], ue_diagnostics = default_uncertainty_diagnostics\<rparr>"

section \<open>Scores\<close>

record fragility_score =
  fr_value :: double
  fr_valid :: bool

record uncertainty_input =
  ui_features :: feature_snapshot
  ui_regime_confidence :: double
  ui_fragility :: fragility_score
  ui_ml :: ml_signal_snapshot

abbreviation clamp01 :: "double \<Rightarrow> double" where
  "clamp01 x \<equiv> std_clamp x 0 1"

definition spread_score :: "microstructure_features \<Rightarrow> double" where
  "spread_score m =
    (if mf_spread_valid m \<and> isfinite (mf_spread_bps m) then clamp01 (mf_spread_bps m / lit 25) else lit 0.5)"

definition data_score :: "execution_context_features \<Rightarrow> double" where
  "data_score x = (if xf_is_feed_fresh x then 0 else lit 0.8)"

definition vpin_score :: "microstructure_features \<Rightarrow> double" where
  "vpin_score m =
    (if mf_vpin_valid m then if mf_vpin_toxic m then lit 0.85 else clamp01 ((mf_vpin m - lit 0.4) / lit 0.4) else 0)"

definition instability_score :: "microstructure_features \<Rightarrow> double" where
  "instability_score m = clamp01 (mf_book_instability m)"

definition regime_score :: "double \<Rightarrow> double" where
  "regime_score confidence = (if isfinite confidence then clamp01 (1 - confidence) * lit 0.5 else lit 0.25)"

definition world_score :: "fragility_score \<Rightarrow> double" where
  "world_score f = (if fr_valid f then clamp01 (fr_value f) else lit 0.3)"

definition ml_score :: "ml_signal_snapshot \<Rightarrow> double" where
  "ml_score s =
    (let u = std_max 0 (clamp01 (ml_cascade_probability s))
     in if ml_correlation_break s then std_max u (lit 0.7) else u)"

definition hard_score :: "feature_snapshot \<Rightarrow> double" where
  "hard_score f =
    (let m = fs_microstructure f
     in std_max (std_max (std_max (spread_score m) (data_score (fs_execution_context f))) (vpin_score m)) (instability_score m))"

definition soft_score :: "uncertainty_input \<Rightarrow> double" where
  "soft_score i =
    (regime_score (ui_regime_confidence i) + world_score (ui_fragility i) + ml_score (ui_ml i)) / lit 3"

definition raw_uncertainty :: "uncertainty_input \<Rightarrow> double" where
  "raw_uncertainty i = clamp01 (lit 0.7 * hard_score (ui_features i) + lit 0.3 * soft_score i)"

section \<open>Level\<close>

definition level_of_score :: "uncertainty_config \<Rightarrow> double \<Rightarrow> uncertainty_level" where
  "level_of_score cfg raw =
    (if uc_threshold_high cfg \<le> raw then Extreme
     else if uc_threshold_moderate cfg \<le> raw then High
     else if uc_threshold_low cfg \<le> raw then Moderate
     else Low)"

definition level_with_hysteresis :: "uncertainty_config \<Rightarrow> uncertainty_level \<Rightarrow> double \<Rightarrow> uncertainty_level" where
  "level_with_hysteresis cfg prev raw =
    (let l = level_of_score cfg raw
     in if l < prev then
          if prev = Extreme \<and> uc_threshold_high cfg - uc_hysteresis_down cfg < raw then Extreme
          else if prev = High \<and> uc_threshold_moderate cfg - uc_hysteresis_down cfg < raw then High
          else l
        else l)"

definition level_action :: "uncertainty_level \<Rightarrow> uncertainty_action" where
  "level_action l = (case l of Low \<Rightarrow> UaNormal | Moderate \<Rightarrow> UaReducedSize | High \<Rightarrow> UaHigherThreshold | Extreme \<Rightarrow> UaNoTrade)"

definition level_size :: "uncertainty_config \<Rightarrow> uncertainty_level \<Rightarrow> double" where
  "level_size cfg l = (case l of Low \<Rightarrow> 1 | Moderate \<Rightarrow> lit 0.7 | High \<Rightarrow> lit 0.4 | Extreme \<Rightarrow> uc_size_floor cfg)"

definition level_threshold :: "uncertainty_config \<Rightarrow> uncertainty_level \<Rightarrow> double" where
  "level_threshold cfg l =
    (case l of Low \<Rightarrow> 1 | Moderate \<Rightarrow> lit 1.1 | High \<Rightarrow> lit 1.5 | Extreme \<Rightarrow> std_min (uc_threshold_ceiling cfg) (lit 2))"

definition level_mode :: "uncertainty_level \<Rightarrow> execution_mode_recommendation" where
  "level_mode l =
    (case l of Extreme \<Rightarrow> ModeHaltNewEntries | High \<Rightarrow> ModeDefensiveOnly | Moderate \<Rightarrow> ModeConservative | Low \<Rightarrow> ModeNormal)"

definition count_levels :: "uncertainty_level \<Rightarrow> symbol_state \<Rightarrow> symbol_state" where
  "count_levels l s =
    (if l = Extreme then s\<lparr>sy_consecutive_extreme := sy_consecutive_extreme s + 1, sy_consecutive_high := 0\<rparr>
     else if l = High then s\<lparr>sy_consecutive_high := sy_consecutive_high s + 1, sy_consecutive_extreme := 0\<rparr>
     else s\<lparr>sy_consecutive_extreme := 0, sy_consecutive_high := 0\<rparr>)"

section \<open>Drivers\<close>

text \<open>The sort is stable: ties keep their order, as in an insertion sort of four elements.\<close>

fun insert_driver :: "string \<times> double \<Rightarrow> (string \<times> double) list \<Rightarrow> (string \<times> double) list" where
  "insert_driver d [] = [d]"
| "insert_driver d (e # es) = (if snd e < snd d then d # e # es else e # insert_driver d es)"

definition sort_drivers :: "(string \<times> double) list \<Rightarrow> (string \<times> double) list" where
  "sort_drivers ds = fold insert_driver ds []"

definition top_drivers :: "feature_snapshot \<Rightarrow> uncertainty_driver list" where
  "top_drivers f =
    (let m = fs_microstructure f
     in map (\<lambda>(n, v). \<lparr>uv_dimension = n, uv_contribution = v, uv_raw_value = v, uv_description = []\<rparr>)
          (take 3 (sort_drivers
             [(''spread'', spread_score m), (''data'', data_score (fs_execution_context f)),
              (''vpin'', vpin_score m), (''instability'', instability_score m)])))"

section \<open>Assessment\<close>

definition symbol_state_of :: "symbol \<Rightarrow> uncertainty_engine \<Rightarrow> symbol_state" where
  "symbol_state_of s e = (case map_of (ue_states e) s of Some st \<Rightarrow> st | None \<Rightarrow> default_symbol_state)"

definition dimensions_of :: "uncertainty_input \<Rightarrow> uncertainty_dimensions" where
  "dimensions_of i =
    (let f = ui_features i; m = fs_microstructure f; r = regime_score (ui_regime_confidence i);
         d = data_score (fs_execution_context f)
     in \<lparr>ud_regime_uncertainty = r, ud_signal_uncertainty = vpin_score m, ud_data_quality_uncertainty = d,
         ud_execution_uncertainty = spread_score m, ud_portfolio_uncertainty = 0, ud_ml_uncertainty = ml_score (ui_ml i),
         ud_correlation_uncertainty = (if ml_correlation_break (ui_ml i) then lit 0.7 else 0),
         ud_transition_uncertainty = r, ud_operational_uncertainty = d\<rparr>)"

definition smooth_score :: "uncertainty_config \<Rightarrow> double \<Rightarrow> double \<Rightarrow> double" where
  "smooth_score cfg ema raw =
    (let alpha = std_clamp (uc_ema_alpha cfg) (lit 0.01) 1 in (1 - alpha) * ema + alpha * raw)"

definition start_cooldown :: "uncertainty_config \<Rightarrow> int \<Rightarrow> symbol_state \<Rightarrow> bool \<times> symbol_state" where
  "start_cooldown cfg tnow s =
    (if uc_consecutive_extreme_for_cooldown cfg \<le> sy_consecutive_extreme s
     then (True, s\<lparr>sy_cooldown_until_ns := tnow + uc_cooldown_duration_ns cfg\<rparr>) else (False, s))"

definition cooling :: "int \<Rightarrow> symbol_state \<Rightarrow> bool" where
  "cooling tnow s \<longleftrightarrow> tnow < sy_cooldown_until_ns s"

definition assess_uncertainty :: "int \<Rightarrow> timestamp \<Rightarrow> uncertainty_input \<Rightarrow> uncertainty_engine \<Rightarrow> full_uncertainty \<times> uncertainty_engine" where
  "assess_uncertainty tnow stamp i e =
    (let cfg = ue_config e; symb = fs_symbol (ui_features i); s = symbol_state_of symb e;
         raw = raw_uncertainty i; ema = smooth_score cfg (sy_ema_score s) raw;
         l = level_with_hysteresis cfg (sy_prev_level s) raw;
         (started, s) = start_cooldown cfg tnow (count_levels l (s\<lparr>sy_ema_score := ema\<rparr>));
         cool = cooling tnow s;
         out = \<lparr>us_level = l, us_aggregate_score = raw, us_size_multiplier = level_size cfg l,
                us_threshold_multiplier = level_threshold cfg l, us_explanation = [], us_computed_at = stamp,
                us_symbol = symb, us_execution_mode = (if cool then ModeHaltNewEntries else level_mode l),
                us_cooldown =
                  (if cool then \<lparr>co_active = True, co_remaining_ns = sy_cooldown_until_ns s - tnow,
                                 co_decay_factor = lit 0.5, co_trigger_reason = ''consecutive_extreme''\<rparr>
                   else \<lparr>co_active = False, co_remaining_ns = 0, co_decay_factor = 1, co_trigger_reason = []\<rparr>),
                us_persistent_score = ema, us_spike_score = std_max 0 (raw - ema),
                uf_dimensions = dimensions_of i,
                uf_recommended_action = (if cool then UaNoTrade else level_action l),
                uf_top_drivers = top_drivers (ui_features i)\<rparr>;
         g = ue_diagnostics e
     in (out, e\<lparr>ue_states := AList.update symb (s\<lparr>sy_prev_level := l, sy_last_assess_ns := tnow\<rparr>) (ue_states e),
                ue_snapshots := AList.update symb out (ue_snapshots e),
                ue_diagnostics := g
                  \<lparr>dg_cooldown_activations := dg_cooldown_activations g + (if started then 1 else 0),
                   dg_total_assessments := dg_total_assessments g + 1,
                   dg_veto_count := dg_veto_count g + (if uf_recommended_action out = UaNoTrade then 1 else 0),
                   dg_last_assessment := stamp,
                   dg_avg_aggregate_score := lit 0.95 * dg_avg_aggregate_score g + lit 0.05 * raw\<rparr>\<rparr>))"

text \<open>The overload without signals of the learning components.\<close>

definition assess_without_ml :: "int \<Rightarrow> timestamp \<Rightarrow> uncertainty_input \<Rightarrow> uncertainty_engine \<Rightarrow> full_uncertainty \<times> uncertainty_engine" where
  "assess_without_ml tnow stamp i = assess_uncertainty tnow stamp (i\<lparr>ui_ml := default_ml_signals\<rparr>)"

definition reset_uncertainty :: "uncertainty_engine \<Rightarrow> uncertainty_engine" where
  "reset_uncertainty e = e\<lparr>ue_states := [], ue_snapshots := [], ue_diagnostics := default_uncertainty_diagnostics\<rparr>"

end
