(* ===== verification/Uncertainty_Laws.thy ===== *)
theory Uncertainty_Laws
  imports Uncertainty_Engine Risk_Witnesses
begin

text \<open>
  Laws of the uncertainty gate (\<^verbatim>\<open>src/src/uncertainty/uncertainty_engine.cpp\<close>): the
  level and the hysteresis, the streak of extreme levels of a symbol and the cooldown it
  starts, and what the risk engine makes of the snapshot.
\<close>

section \<open>Level\<close>

lemma level_less: "(a < b) = (level_index a < level_index b)" for a b :: uncertainty_level
  by (simp add: less_uncertainty_level_def)

lemma level_le: "(a \<le> b) = (level_index a \<le> level_index b)" for a b :: uncertainty_level
  by (simp add: less_eq_uncertainty_level_def)

lemma level_of_NaN [simp]: "level_of_score cfg NaN = Low"
  by (simp add: level_of_score_def)

lemma Low_least [simp]: "Low \<le> l"
  by (simp add: level_le)

lemma Extreme_greatest [simp]: "l \<le> Extreme"
  by (cases l) (simp_all add: level_le)

lemma hysteresis_bounds:
  "level_of_score cfg raw \<le> level_with_hysteresis cfg prev raw"
  "level_with_hysteresis cfg prev raw \<le> max prev (level_of_score cfg raw)"
  by (auto simp: level_with_hysteresis_def Let_def max_def)

section \<open>Scores\<close>

lemma lit_unit: "0 \<le> x \<Longrightarrow> x \<le> 1 \<Longrightarrow> ranged 0 1 (lit x)"
  by (simp add: ranged_mk)

lemma clamp01_ranged: "x \<noteq> NaN \<Longrightarrow> ranged 0 1 (clamp01 x)"
  by (rule ranged_clamp) simp_all

lemma max_ranged: "ranged a b x \<Longrightarrow> y = NaN \<or> ranged a b y \<Longrightarrow> ranged a b (std_max x y)"
  by (auto simp: std_max_def)

lemma clamp01_total: "clamp01 x = NaN \<or> ranged 0 1 (clamp01 x)"
proof (cases "x = NaN")
  case True
  then show ?thesis by (simp add: std_clamp_def)
qed (simp add: clamp01_ranged)

lemma div_finite: "isfinite x \<Longrightarrow> 0 < r \<Longrightarrow> x / Fin r \<noteq> NaN"
  by (cases x) (simp_all add: mk_not_NaN)

lemma spread_score_ranged: "ranged 0 1 (spread_score m)"
proof -
  have "lit 25 = Fin 25" using mk_of_int [of 25] by simp
  then show ?thesis
    using div_finite [of "mf_spread_bps m" 25] by (simp add: spread_score_def lit_unit clamp01_ranged)
qed

lemma hard_score_ranged: "ranged 0 1 (hard_score f)"
proof -
  have "ranged 0 1 (data_score x)" for x by (simp add: data_score_def lit_unit)
  moreover have "vpin_score m = NaN \<or> ranged 0 1 (vpin_score m)" for m
    using clamp01_total by (simp add: vpin_score_def lit_unit)
  ultimately show ?thesis
    unfolding hard_score_def Let_def instability_score_def
    by (simp add: max_ranged spread_score_ranged clamp01_total)
qed


lemma soft_score_ranged:
  assumes "fr_valid (ui_fragility i) \<Longrightarrow> fr_value (ui_fragility i) \<noteq> NaN"
  shows "ranged 0 1 (soft_score i)"
proof -
  have m: "ranged 0 1 x \<Longrightarrow> ranged 0 1 y \<Longrightarrow> ranged 0 1 (x * y)" for x y
    using ranged_mult [of 1 x 1 y] by simp
  have r: "ranged 0 1 (regime_score c)" for c
  proof -
    have "isfinite c \<Longrightarrow> 1 - c \<noteq> NaN"
      by (cases c) (simp_all add: minus_double_def one_double_def)
    then show ?thesis by (simp add: regime_score_def m clamp01_ranged lit_unit)
  qed
  have w: "ranged 0 1 (world_score (ui_fragility i))"
    using assms by (auto simp: world_score_def intro!: clamp01_ranged lit_unit)
  have l: "ranged 0 1 (ml_score s)" for s
    using clamp01_total [of "ml_cascade_probability s"]
    by (auto simp: ml_score_def Let_def intro!: max_ranged lit_unit)
  have "ranged 0 3 (regime_score (ui_regime_confidence i) + world_score (ui_fragility i) + ml_score (ui_ml i))"
    using ranged_add [OF ranged_add [OF r w] l] by simp
  moreover have "lit 3 = Fin 3" using mk_of_int [of 3] by simp
  ultimately show ?thesis
    unfolding soft_score_def by (elim rangedE) (simp add: ranged_mk)
qed

lemma raw_ranged:
  assumes "fr_valid (ui_fragility i) \<Longrightarrow> fr_value (ui_fragility i) \<noteq> NaN"
  shows "ranged 0 1 (raw_uncertainty i)"
proof -
  have w: "ranged 0 1 (lit 0.7)" "ranged 0 1 (lit 0.3)" by (simp_all add: lit_unit)
  have "ranged 0 2 (lit 0.7 * hard_score (ui_features i) + lit 0.3 * soft_score i)"
    using ranged_add [OF ranged_mult [OF w(1) hard_score_ranged] ranged_mult [OF w(2) soft_score_ranged [OF assms]]]
    by simp
  then show ?thesis unfolding raw_uncertainty_def by (intro clamp01_ranged ranged_not_NaN)
qed

section \<open>One assessment\<close>

definition assessed_level :: "uncertainty_input \<Rightarrow> uncertainty_engine \<Rightarrow> uncertainty_level" where
  "assessed_level i e =
    level_with_hysteresis (ue_config e) (sy_prev_level (symbol_state_of (fs_symbol (ui_features i)) e)) (raw_uncertainty i)"

text \<open>The streak and the deadline that an assessment leaves for its symbol.\<close>

definition next_streak :: "uncertainty_input \<Rightarrow> uncertainty_engine \<Rightarrow> int" where
  "next_streak i e =
    (if assessed_level i e = Extreme then sy_consecutive_extreme (symbol_state_of (fs_symbol (ui_features i)) e) + 1 else 0)"

definition next_deadline :: "int \<Rightarrow> uncertainty_input \<Rightarrow> uncertainty_engine \<Rightarrow> int" where
  "next_deadline t i e =
    (if uc_consecutive_extreme_for_cooldown (ue_config e) \<le> next_streak i e then t + uc_cooldown_duration_ns (ue_config e)
     else sy_cooldown_until_ns (symbol_state_of (fs_symbol (ui_features i)) e))"

lemma count_levels_fields [simp]:
  "sy_consecutive_extreme (count_levels l s) = (if l = Extreme then sy_consecutive_extreme s + 1 else 0)"
  "sy_cooldown_until_ns (count_levels l s) = sy_cooldown_until_ns s"
  by (simp_all add: count_levels_def)

lemma start_cooldown_fields:
  "sy_consecutive_extreme (snd (start_cooldown cfg t s)) = sy_consecutive_extreme s"
  "sy_cooldown_until_ns (snd (start_cooldown cfg t s)) =
    (if uc_consecutive_extreme_for_cooldown cfg \<le> sy_consecutive_extreme s then t + uc_cooldown_duration_ns cfg
     else sy_cooldown_until_ns s)"
  by (simp_all add: start_cooldown_def)

lemma state_of_update:
  "symbol_state_of s (e\<lparr>ue_states := AList.update k v (ue_states e), ue_snapshots := m, ue_diagnostics := g\<rparr>) =
    (if s = k then v else symbol_state_of s e)"
  by (simp add: symbol_state_of_def update_conv')

lemma assessed_facts:
  fixes t stamp i e
  defines "u \<equiv> fst (assess_uncertainty t stamp i e)" and "e1 \<equiv> snd (assess_uncertainty t stamp i e)"
  shows assessed_config: "ue_config e1 = ue_config e"
    and assessed_symbol: "us_symbol u = fs_symbol (ui_features i)"
    and assessed_us_level: "us_level u = assessed_level i e"
    and assessed_score: "us_aggregate_score u = raw_uncertainty i"
    and assessed_cooldown: "co_active (us_cooldown u) \<longleftrightarrow> t < next_deadline t i e"
    and assessed_mode:
      "us_execution_mode u = (if t < next_deadline t i e then ModeHaltNewEntries else level_mode (assessed_level i e))"
    and assessed_action:
      "uf_recommended_action u = (if t < next_deadline t i e then UaNoTrade else level_action (assessed_level i e))"
    and assessed_size: "us_size_multiplier u = level_size (ue_config e) (assessed_level i e)"
    and assessed_streak:
      "sy_consecutive_extreme (symbol_state_of s e1) =
        (if s = fs_symbol (ui_features i) then next_streak i e else sy_consecutive_extreme (symbol_state_of s e))"
    and assessed_deadline:
      "sy_cooldown_until_ns (symbol_state_of s e1) =
        (if s = fs_symbol (ui_features i) then next_deadline t i e else sy_cooldown_until_ns (symbol_state_of s e))"
  unfolding u_def e1_def assess_uncertainty_def Let_def case_prod_unfold
  by (simp_all add: start_cooldown_fields cooling_def next_deadline_def next_streak_def assessed_level_def state_of_update
        del: if_split)


text \<open>
  The gate fails safe on the feeds it guards, but not on the world model: a valid fragility
  that is not a number makes the score one too, every comparison fails, and the level is the lowest.
\<close>

theorem nan_fragility_reads_low:
  assumes "fr_valid (ui_fragility i)" and "fr_value (ui_fragility i) = NaN"
  shows "us_level (fst (assess_uncertainty t stamp i e)) = Low \<and>
    us_size_multiplier (fst (assess_uncertainty t stamp i e)) = 1"
proof -
  have "x + NaN = NaN" for x :: double by (cases x) simp_all
  then have "soft_score i = NaN"
    using assms by (simp add: soft_score_def world_score_def std_clamp_def)
  moreover have "lit 0.7 * x + lit 0.3 * NaN = NaN" for x by (cases "lit 0.7 * x"; cases "lit 0.3") simp_all
  ultimately have "raw_uncertainty i = NaN"
    by (simp add: raw_uncertainty_def std_clamp_def)
  then have "assessed_level i e = Low"
    by (simp add: assessed_level_def level_with_hysteresis_def Let_def minus_double_def)
  then show ?thesis by (simp add: assessed_us_level assessed_size level_size_def)
qed

section \<open>Runs of assessments\<close>

type_synonym assessment = "int \<times> timestamp \<times> uncertainty_input"

definition assess_step :: "assessment \<Rightarrow> full_uncertainty list \<times> uncertainty_engine \<Rightarrow> full_uncertainty list \<times> uncertainty_engine" where
  "assess_step a oe =
    (let (u, e) = assess_uncertainty (fst a) (fst (snd a)) (snd (snd a)) (snd oe) in (u # fst oe, e))"

text \<open>Snapshots of a run, newest first, and the engine it leaves.\<close>

definition uncertainty_run :: "assessment list \<Rightarrow> uncertainty_engine \<Rightarrow> full_uncertainty list \<times> uncertainty_engine" where
  "uncertainty_run as e = fold assess_step as ([], e)"

definition assessed_symbol_of :: "assessment \<Rightarrow> symbol" where
  "assessed_symbol_of a = fs_symbol (ui_features (snd (snd a)))"

definition levels_of :: "symbol \<Rightarrow> full_uncertainty list \<Rightarrow> uncertainty_level list" where
  "levels_of s us = map us_level (filter (\<lambda>u. us_symbol u = s) us)"

lemma init_config [simp]: "ue_config (uncertainty_engine_init cfg) = cfg"
  by (simp add: uncertainty_engine_init_def)

lemma run_Nil [simp]: "uncertainty_run [] e = ([], e)"
  and run_snoc [simp]: "uncertainty_run (as @ [a]) e = assess_step a (uncertainty_run as e)"
  by (simp_all add: uncertainty_run_def)

lemma step_snd: "snd (assess_step a oe) = snd (assess_uncertainty (fst a) (fst (snd a)) (snd (snd a)) (snd oe))"
  and step_fst: "fst (assess_step a oe) = fst (assess_uncertainty (fst a) (fst (snd a)) (snd (snd a)) (snd oe)) # fst oe"
  by (simp_all add: assess_step_def case_prod_unfold Let_def)

lemma run_config [simp]: "ue_config (snd (uncertainty_run as e)) = ue_config e"
  by (induction as rule: rev_induct) (simp_all add: step_snd assessed_config)

text \<open>The counter is the length of the streak of extreme levels at the end of the symbol's history.\<close>

lemma run_streak:
  "sy_consecutive_extreme (symbol_state_of s (snd (uncertainty_run as (uncertainty_engine_init cfg)))) =
    int (length (takeWhile (\<lambda>l. l = Extreme) (levels_of s (fst (uncertainty_run as (uncertainty_engine_init cfg))))))"
proof (induction as rule: rev_induct)
  case Nil
  then show ?case
    by (simp add: symbol_state_of_def uncertainty_engine_init_def default_symbol_state_def levels_of_def)
next
  case (snoc a as)
  then show ?case
    by (simp add: step_fst step_snd assessed_streak levels_of_def assessed_symbol assessed_us_level
        next_streak_def) auto
qed

text \<open>A deadline only moves forward when the assessments that follow are not earlier.\<close>

lemma run_deadline:
  assumes "\<forall>a\<in>set as. t0 \<le> fst a"
    and "t0 + uc_cooldown_duration_ns (ue_config e) \<le> sy_cooldown_until_ns (symbol_state_of s e)"
  shows "t0 + uc_cooldown_duration_ns (ue_config e) \<le>
    sy_cooldown_until_ns (symbol_state_of s (snd (uncertainty_run as e)))"
  using assms(1)
proof (induction as rule: rev_induct)
  case Nil
  then show ?case using assms(2) by simp
next
  case (snoc a as)
  then show ?case
    by (auto simp: step_snd assessed_deadline next_deadline_def)
qed

lemma streak_prefix: "take n xs = replicate n x \<Longrightarrow> n \<le> length (takeWhile (\<lambda>y. y = x) xs)"
proof (induction n arbitrary: xs)
  case (Suc n)
  then show ?case by (cases xs) auto
qed simp

lemma halted_refused:
  assumes "us_execution_mode u = ModeHaltNewEntries" and "ti_trade_side i = TradeOpen"
  shows "\<not> rd_allowed (fst (risk_evaluate t prov i z p f al u r))"
proof (cases "invalid_size (sr_approved_quantity z)")
  case True
  then show ?thesis by (simp add: risk_evaluate_def Let_def)
next
  case False
  have "\<not> open_permitted (re_config r) t (context_of i z p f al u (refresh t prov p r)) (re_state (refresh t prov p r))"
    using assms by (simp add: open_permitted_def open_limits_def Let_def context_of_def)
  then show ?thesis
    using evaluate_open_iff [OF False assms(2) refl refl] by simp
qed


section \<open>Guarantees\<close>

text \<open>
  The gate's score is a number between 0 and 1 whatever the feeds deliver, as long as a
  valid fragility is a number; hysteresis never reports a lower level than the score
  asks for, and never a higher one than the score and the previous level.
\<close>

theorem uncertainty_score_and_level:
  assumes "fr_valid (ui_fragility i) \<Longrightarrow> fr_value (ui_fragility i) \<noteq> NaN"
    and "u = fst (assess_uncertainty t stamp i e)"
  shows "0 \<le> us_aggregate_score u \<and> us_aggregate_score u \<le> 1 \<and>
    level_of_score (ue_config e) (us_aggregate_score u) \<le> us_level u \<and>
    us_level u \<le> max (sy_prev_level (symbol_state_of (us_symbol u) e))
      (level_of_score (ue_config e) (us_aggregate_score u))"
  using raw_ranged [OF assms(1)] hysteresis_bounds
  by (simp add: assms(2) assessed_score assessed_us_level assessed_symbol assessed_level_def ranged_iff
      zero_double_def one_double_def)

text \<open>
  C27. After as many consecutive extreme assessments of a symbol as the configuration asks for, no opening
  order passes the risk engine with a snapshot of that symbol before the cooldown has
  elapsed, whatever assessments of this or other symbols come between.
\<close>

theorem extreme_streak_blocks_opens:
  assumes "(us, e1) = uncertainty_run (as @ [a]) (uncertainty_engine_init cfg)"
    and "take n (levels_of (assessed_symbol_of a) us) = replicate n Extreme"
    and "uc_consecutive_extreme_for_cooldown cfg \<le> int n"
    and "\<forall>b\<in>set bs. fst a \<le> fst b" and "e2 = snd (uncertainty_run bs e1)"
    and "fs_symbol (ui_features i) = assessed_symbol_of a" and "fst a \<le> t"
    and "t < fst a + uc_cooldown_duration_ns cfg"
    and "u = fst (assess_uncertainty t stamp i e2)" and "ti_trade_side o1 = TradeOpen"
  shows "uf_recommended_action u = UaNoTrade \<and>
    \<not> rd_allowed (fst (risk_evaluate t2 prov o1 z p f al (uncertainty_snapshot.truncate u) r))"
proof -
  let ?s = "assessed_symbol_of a" and ?D = "uc_cooldown_duration_ns cfg"
  let ?e0 = "snd (uncertainty_run as (uncertainty_engine_init cfg))"
  have cfg: "ue_config ?e0 = cfg" "ue_config e1 = cfg" "ue_config e2 = cfg"
    using assms(1) run_config [of "as @ [a]" "uncertainty_engine_init cfg"]
    by (auto simp: assms(5) prod_eq_iff)
  have e1: "e1 = snd (assess_uncertainty (fst a) (fst (snd a)) (snd (snd a)) ?e0)"
    and us: "us = fst (uncertainty_run (as @ [a]) (uncertainty_engine_init cfg))"
    using assms(1) by (simp_all add: step_snd [symmetric] prod_eq_iff)
  have "int n \<le> sy_consecutive_extreme (symbol_state_of ?s e1)"
    using streak_prefix [OF assms(2)] run_streak [of ?s "as @ [a]" cfg] assms(1) us by (simp add: prod_eq_iff)
  then have "fst a + ?D \<le> sy_cooldown_until_ns (symbol_state_of ?s e1)"
    using assms(3) by (simp add: e1 assessed_streak assessed_deadline next_deadline_def assessed_symbol_of_def cfg)
  then have "fst a + ?D \<le> sy_cooldown_until_ns (symbol_state_of ?s e2)"
    using run_deadline [OF assms(4), of e1] by (simp add: cfg assms(5))
  then have "t < next_deadline t i e2"
    using assms(6-8) by (auto simp: next_deadline_def cfg)
  then have "uf_recommended_action u = UaNoTrade" "us_execution_mode u = ModeHaltNewEntries"
    by (simp_all add: assms(9) assessed_action assessed_mode)
  then show ?thesis
    using halted_refused [OF _ assms(10)] by (simp add: uncertainty_snapshot.truncate_def)
qed

section \<open>An unstable book\<close>

definition ex_unstable :: uncertainty_input where
  "ex_unstable =
    \<lparr>ui_features = ex_features\<lparr>fs_symbol := ''BTCUSDT'',
       fs_microstructure := default_microstructure\<lparr>mf_book_instability := 1\<rparr>\<rparr>,
     ui_regime_confidence = 1, ui_fragility = \<lparr>fr_value = 1, fr_valid = True\<rparr>,
     ui_ml = default_ml_signals\<lparr>ml_cascade_probability := 1\<rparr>\<rparr>"

lemma lit_at_least: "exact a \<Longrightarrow> a \<le> x \<Longrightarrow> x \<le> 1 \<Longrightarrow> ranged a 1 (lit x)"
  by (simp add: ranged_mk)

lemma exact_64: "exact (of_int m / 64)" if "\<bar>m\<bar> < 2 ^ 30"
  using exact_grid [of "m * 2 ^ 14"] that by (simp add: field_simps)

lemma ex_hard: "hard_score (ui_features ex_unstable) = 1"
proof -
  have c: "clamp01 1 = (1 :: double)"
    by (simp add: std_clamp_def zero_double_def one_double_def)
  have m: "ranged 0 1 x \<Longrightarrow> std_max x 1 = 1" for x
    by (auto simp: ranged_def std_max_def one_double_def)
  have "ranged 0 1 (std_max (std_max (spread_score x) (data_score y)) (vpin_score x))" for x y
  proof -
    have "ranged 0 1 (data_score y)" by (simp add: data_score_def lit_unit)
    moreover have "vpin_score x = NaN \<or> ranged 0 1 (vpin_score x)"
      using clamp01_total by (simp add: vpin_score_def lit_unit)
    ultimately show ?thesis by (simp add: max_ranged spread_score_ranged)
  qed
  then show ?thesis
    by (simp add: hard_score_def Let_def ex_unstable_def instability_score_def default_microstructure_def c m)
qed

lemma ex_soft: "ranged (5 / 8) 1 (soft_score ex_unstable)"
proof -
  have c: "clamp01 1 = (1 :: double)" "clamp01 0 = (0 :: double)"
    by (simp_all add: std_clamp_def zero_double_def one_double_def)
  have r: "regime_score 1 = 0"
    by (simp add: regime_score_def minus_double_def one_double_def std_clamp_def zero_double_def mk_half)
  have s: "world_score (ui_fragility ex_unstable) = 1" "ml_score (ui_ml ex_unstable) = 1" "ui_regime_confidence ex_unstable = 1"
    by (simp_all add: ex_unstable_def world_score_def ml_score_def default_ml_signals_def c std_max_def)
       (simp add: zero_double_def one_double_def)
  have "lit 3 = Fin 3" "mk 2 = Fin 2" using mk_of_int [of 3] mk_of_int [of 2] by simp_all
  then show ?thesis
    using exact_64 [of 40] unfolding soft_score_def s r by (simp add: zero_double_def one_double_def ranged_mk)
qed

lemma ex_raw: "ranged (3 / 4) 1 (raw_uncertainty ex_unstable)"
proof -
  have w: "ranged (11 / 16) 1 (lit 0.7)" "ranged (1 / 4) 1 (lit 0.3)"
    using exact_64 [of 44] exact_64 [of 16] by (simp_all add: lit_at_least)
  obtain a b s where v: "lit 0.7 = Fin a" "11 / 16 \<le> a" "a \<le> 1" "lit 0.3 = Fin b" "1 / 4 \<le> b" "b \<le> 1"
      "soft_score ex_unstable = Fin s" "5 / 8 \<le> s" "s \<le> 1"
    using w ex_soft by (auto simp: ranged_def)
  have "5 / 32 \<le> b * s" "b * s \<le> 1" using v mult_mono [of "1 / 4" b "5 / 8" s] mult_le_one [of b s] by auto
  then have "ranged (5 / 32) 1 (mk (b * s))" using exact_64 [of 10] by (intro ranged_mk) simp_all
  moreover have "mk a = Fin a" using canonical_mk [of "0.7"] by (simp add: v(1))
  ultimately have "ranged (27 / 32) 2 (lit 0.7 * 1 + lit 0.3 * soft_score ex_unstable)"
    using ranged_add [of "11 / 16" 1 "Fin a" "5 / 32" 1 "mk (b * s)"] exact_64 [of 54] v(2,3)
    by (simp add: v one_double_def)
  then obtain x where "lit 0.7 * 1 + lit 0.3 * soft_score ex_unstable = Fin x" "27 / 32 \<le> x"
    by (auto simp: ranged_def)
  then show ?thesis
    by (auto simp: raw_uncertainty_def ex_hard std_clamp_def zero_double_def one_double_def)
qed


lemma ex_levels: "level_with_hysteresis default_uncertainty_config prev (raw_uncertainty ex_unstable) = Extreme"
proof -
  have "lit 0.75 = Fin (3 / 4)" using exact_64 [of 48] by (simp add: exact_def)
  then have "uc_threshold_high default_uncertainty_config \<le> raw_uncertainty ex_unstable"
    using ex_raw by (auto simp: default_uncertainty_config_def ranged_def)
  then show ?thesis
    by (cases prev) (simp_all add: level_with_hysteresis_def level_of_score_def Let_def level_less)
qed

abbreviation ex_assessment :: "int \<Rightarrow> assessment" where
  "ex_assessment t \<equiv> (t, t, ex_unstable)"

lemma ex_extreme: "ue_config e = default_uncertainty_config \<Longrightarrow> assessed_level ex_unstable e = Extreme"
  by (simp add: assessed_level_def ex_levels)

abbreviation ex_run :: "full_uncertainty list \<times> uncertainty_engine" where
  "ex_run \<equiv> uncertainty_run ([ex_assessment 0, ex_assessment 1] @ [ex_assessment 2])
     (uncertainty_engine_init default_uncertainty_config)"

lemma ex_streak: "levels_of ''BTCUSDT'' (fst ex_run) = [Extreme, Extreme, Extreme]"
proof -
  have run: "uncertainty_run [x, y, z] e = assess_step z (assess_step y (assess_step x ([], e)))" for x y z e
    by (simp add: uncertainty_run_def)
  have "fs_symbol (ui_features ex_unstable) = ''BTCUSDT''" by (simp add: ex_unstable_def)
  then show ?thesis
    by (simp add: run step_fst step_snd levels_of_def assessed_symbol assessed_us_level ex_extreme assessed_config
        uncertainty_engine_init_def)
qed

lemma ex_unstable_symbol: "fs_symbol (ui_features ex_unstable) = ''BTCUSDT''"
  by (simp add: ex_unstable_def)

lemma ex_cooldown:
  "uc_consecutive_extreme_for_cooldown default_uncertainty_config = 3"
  "uc_cooldown_duration_ns default_uncertainty_config = 60000000000"
  by (simp_all add: default_uncertainty_config_def)

theorem extreme_streak_blocks_opens_witness:
  "\<not> rd_allowed (fst (risk_evaluate 60 (False, []) ex_open ex_sizing ex_snapshot ex_features default_execution_alpha
     (uncertainty_snapshot.truncate (fst (assess_uncertainty 1000 1000 ex_unstable (snd ex_run)))) ex_risk_engine))"
  by (rule extreme_streak_blocks_opens [where n = 3 and bs = "[]" and t = 1000 and cfg = default_uncertainty_config
        and as = "[ex_assessment 0, ex_assessment 1]" and a = "ex_assessment 2",
        OF prod.collapse _ _ _ _ _ _ _ refl, THEN conjunct2])
     (simp_all add: ex_streak [simplified] assessed_symbol_of_def ex_unstable_symbol ex_cooldown numeral_3_eq_3
        ex_open_def default_trade_intent_def)

theorem uncertainty_score_and_level_witness:
  "us_aggregate_score (fst (assess_uncertainty 0 0 ex_unstable (uncertainty_engine_init default_uncertainty_config))) \<le> 1"
  using uncertainty_score_and_level [of ex_unstable _ 0 0 "uncertainty_engine_init default_uncertainty_config"]
  by (simp add: ex_unstable_def one_double_def)

theorem nan_fragility_reads_low_witness:
  "us_level (fst (assess_uncertainty 0 0 (ex_unstable\<lparr>ui_fragility := \<lparr>fr_value = NaN, fr_valid = True\<rparr>\<rparr>)
     (uncertainty_engine_init default_uncertainty_config))) = Low"
  using nan_fragility_reads_low [of "ex_unstable\<lparr>ui_fragility := \<lparr>fr_value = NaN, fr_valid = True\<rparr>\<rparr>"] by simp

end
