(* ===== verification/Opportunity_Cost.thy ===== *)
theory Opportunity_Cost
  imports Trading_Types Float_Library
begin

text \<open>
  The engine that weighs an intent against the capital it would bind
  (\<^verbatim>\<open>src/src/opportunity_cost/opportunity_cost_types.{hpp,cpp}\<close>,
  \<^verbatim>\<open>opportunity_cost_engine.{hpp,cpp}\<close>): a score, a cascade of eleven rules and the record
  of the audit.  The rationale (a formatted line for people), the metrics and the log are left out; the power
  \<^verbatim>\<open>conviction^1.5\<close> is the library's.
\<close>

section \<open>Types\<close>

record opportunity_score =
  op_score :: double
  op_expected_return_bps :: double
  op_execution_cost_bps :: double
  op_net_expected_bps :: double
  op_capital_efficiency :: double
  op_conviction_component :: double
  op_net_edge_component :: double
  op_capital_efficiency_component :: double
  op_urgency_component :: double

definition default_opportunity_score :: opportunity_score where
  "default_opportunity_score =
    \<lparr>op_score = 0, op_expected_return_bps = 0, op_execution_cost_bps = 0, op_net_expected_bps = 0,
     op_capital_efficiency = 0, op_conviction_component = 0, op_net_edge_component = 0,
     op_capital_efficiency_component = 0, op_urgency_component = 0\<rparr>"

datatype opportunity_action = OaExecute | OaDefer | OaSuppress | OaUpgrade

datatype opportunity_reason =
    OrNone | NegativeNetEdge | ConvictionBelowThreshold | HighExposureLowConviction | InsufficientNetEdge
  | CapitalExhausted | HighConcentration | StrongEdgeAvailable | HighConvictionOverride
  | UpgradeBetterCandidate | DefaultDefer

fun opportunity_action_to_string :: "opportunity_action \<Rightarrow> string" where
  "opportunity_action_to_string OaExecute = ''Execute''"
| "opportunity_action_to_string OaDefer = ''Defer''"
| "opportunity_action_to_string OaSuppress = ''Suppress''"
| "opportunity_action_to_string OaUpgrade = ''Upgrade''"

fun opportunity_reason_to_string :: "opportunity_reason \<Rightarrow> string" where
  "opportunity_reason_to_string OrNone = ''None''"
| "opportunity_reason_to_string NegativeNetEdge = ''NegativeNetEdge''"
| "opportunity_reason_to_string ConvictionBelowThreshold = ''ConvictionBelowThreshold''"
| "opportunity_reason_to_string HighExposureLowConviction = ''HighExposureLowConviction''"
| "opportunity_reason_to_string InsufficientNetEdge = ''InsufficientNetEdge''"
| "opportunity_reason_to_string CapitalExhausted = ''CapitalExhausted''"
| "opportunity_reason_to_string HighConcentration = ''HighConcentration''"
| "opportunity_reason_to_string StrongEdgeAvailable = ''StrongEdgeAvailable''"
| "opportunity_reason_to_string HighConvictionOverride = ''HighConvictionOverride''"
| "opportunity_reason_to_string UpgradeBetterCandidate = ''UpgradeBetterCandidate''"
| "opportunity_reason_to_string DefaultDefer = ''DefaultDefer''"

record portfolio_context =
  pc_gross_exposure_pct :: double
  pc_current_drawdown_pct :: double
  pc_consecutive_losses :: int
  pc_symbol_exposure_pct :: double
  pc_strategy_exposure_pct :: double
  pc_has_worst_position :: bool
  pc_worst_position_net_bps :: double

record opportunity_factors =
  opf_input_conviction :: double
  opf_input_urgency :: double
  opf_input_execution_cost_bps :: double
  opf_input_exposure_pct :: double
  opf_input_conviction_threshold :: double
  opf_rule_id :: int
  opf_reason :: opportunity_reason
  opf_would_be_without_exposure :: opportunity_action
  opf_concentration_limited :: bool
  opf_capital_limited :: bool
  opf_drawdown_penalized :: bool

record opportunity_result =
  ort_score :: opportunity_score
  ort_action :: opportunity_action
  ort_reason :: opportunity_reason
  ort_rank :: int
  ort_budget_utilization :: double
  ort_reason_codes :: "string list"
  ort_factors :: opportunity_factors
  ort_computed_at :: timestamp

record opportunity_config =
  oc_min_net_expected_bps :: double
  oc_execute_min_net_bps :: double
  oc_high_exposure_threshold :: double
  oc_high_exposure_min_conviction :: double
  oc_max_symbol_concentration :: double
  oc_max_strategy_concentration :: double
  oc_capital_exhaustion_threshold :: double
  oc_weight_conviction :: double
  oc_weight_net_edge :: double
  oc_weight_capital_efficiency :: double
  oc_weight_urgency :: double
  oc_conviction_to_bps_scale :: double
  oc_upgrade_min_edge_advantage_bps :: double
  oc_drawdown_penalty_scale :: double
  oc_consecutive_loss_penalty :: double

definition default_opportunity_config :: opportunity_config where
  "default_opportunity_config =
    \<lparr>oc_min_net_expected_bps = 1, oc_execute_min_net_bps = lit 3, oc_high_exposure_threshold = lit 0.70,
     oc_high_exposure_min_conviction = lit 0.60, oc_max_symbol_concentration = lit 0.25,
     oc_max_strategy_concentration = lit 0.35, oc_capital_exhaustion_threshold = lit 0.85,
     oc_weight_conviction = lit 0.35, oc_weight_net_edge = lit 0.35, oc_weight_capital_efficiency = lit 0.15,
     oc_weight_urgency = lit 0.15, oc_conviction_to_bps_scale = lit 100, oc_upgrade_min_edge_advantage_bps = lit 5,
     oc_drawdown_penalty_scale = lit 0.05, oc_consecutive_loss_penalty = lit 0.005\<rparr>"


section \<open>Score\<close>

definition net_of_conviction :: "libm \<Rightarrow> opportunity_config \<Rightarrow> trade_intent \<Rightarrow> execution_alpha_result \<Rightarrow> double" where
  "net_of_conviction lm cfg i a =
    lm_pow lm (std_clamp (ti_conviction i) 0 1) (lit 1.5) * oc_conviction_to_bps_scale cfg - eq_total_cost_bps (ea_quality a)"

definition compute_opportunity_score ::
  "libm \<Rightarrow> opportunity_config \<Rightarrow> trade_intent \<Rightarrow> execution_alpha_result \<Rightarrow> portfolio_context \<Rightarrow> opportunity_score" where
  "compute_opportunity_score lm cfg i a p =
    (let z = default_opportunity_score
     in if \<not> isfinite (ti_conviction i) then
          z\<lparr>op_expected_return_bps := 0, op_net_expected_bps := - op_execution_cost_bps z\<rparr>
        else
          let net = net_of_conviction lm cfg i a;
              efficiency = net / std_max (pc_gross_exposure_pct p) (lit 0.05);
              conviction = std_clamp (ti_conviction i) 0 1;
              edge = std_clamp (net / oc_conviction_to_bps_scale cfg) 0 1;
              capital = std_clamp (efficiency / oc_conviction_to_bps_scale cfg) 0 1;
              urgency = std_clamp (ti_urgency i) 0 1
          in \<lparr>op_score = std_clamp
                (oc_weight_conviction cfg * conviction + oc_weight_net_edge cfg * edge +
                 oc_weight_capital_efficiency cfg * capital + oc_weight_urgency cfg * urgency) 0 1,
              op_expected_return_bps =
                lm_pow lm (std_clamp (ti_conviction i) 0 1) (lit 1.5) * oc_conviction_to_bps_scale cfg,
              op_execution_cost_bps = eq_total_cost_bps (ea_quality a), op_net_expected_bps = net,
              op_capital_efficiency = efficiency, op_conviction_component = conviction, op_net_edge_component = edge,
              op_capital_efficiency_component = capital, op_urgency_component = urgency\<rparr>)"

section \<open>Threshold\<close>

definition threshold_adjustment :: "opportunity_config \<Rightarrow> portfolio_context \<Rightarrow> double" where
  "threshold_adjustment cfg p =
    (let adj = (if isfinite (pc_current_drawdown_pct p) \<and> 0 < pc_current_drawdown_pct p
                then 0 + oc_drawdown_penalty_scale cfg * (pc_current_drawdown_pct p / lit 0.05) else 0);
         adj = (if 0 < pc_consecutive_losses p
                then adj + std_min (oc_consecutive_loss_penalty cfg * dint (pc_consecutive_losses p)) (lit 0.20) else adj)
     in std_min adj (lit 0.20))"

definition effective_threshold :: "opportunity_config \<Rightarrow> double \<Rightarrow> portfolio_context \<Rightarrow> double" where
  "effective_threshold cfg base p = std_clamp (base + threshold_adjustment cfg p) 0 (lit 0.95)"

section \<open>Rules\<close>

definition determine_action ::
  "opportunity_config \<Rightarrow> opportunity_score \<Rightarrow> portfolio_context \<Rightarrow> double \<Rightarrow> double \<Rightarrow> opportunity_action \<times> opportunity_reason" where
  "determine_action cfg s p conviction threshold =
    (let net = op_net_expected_bps s
     in if net < oc_min_net_expected_bps cfg then (OaSuppress, NegativeNetEdge)
        else if conviction < effective_threshold cfg threshold p then (OaSuppress, ConvictionBelowThreshold)
        else if oc_capital_exhaustion_threshold cfg < pc_gross_exposure_pct p then (OaSuppress, CapitalExhausted)
        else if oc_max_symbol_concentration cfg < pc_symbol_exposure_pct p then (OaSuppress, HighConcentration)
        else if oc_max_strategy_concentration cfg < pc_strategy_exposure_pct p then (OaDefer, HighConcentration)
        else if oc_high_exposure_threshold cfg < pc_gross_exposure_pct p \<and>
                conviction < oc_high_exposure_min_conviction cfg then (OaDefer, HighExposureLowConviction)
        else if pc_has_worst_position p \<and>
                pc_worst_position_net_bps p + oc_upgrade_min_edge_advantage_bps cfg < net
             then (OaUpgrade, UpgradeBetterCandidate)
        else if oc_execute_min_net_bps cfg < net \<and> pc_gross_exposure_pct p < oc_high_exposure_threshold cfg
             then (OaExecute, StrongEdgeAvailable)
        else if oc_high_exposure_min_conviction cfg \<le> conviction \<and> 0 < net then (OaExecute, HighConvictionOverride)
        else if 0 < net then (OaDefer, InsufficientNetEdge)
        else (OaDefer, DefaultDefer))"

fun rule_id :: "opportunity_action \<Rightarrow> opportunity_reason \<Rightarrow> int" where
  "rule_id a NegativeNetEdge = 1"
| "rule_id a ConvictionBelowThreshold = 2"
| "rule_id a CapitalExhausted = 3"
| "rule_id a HighConcentration = (if a = OaSuppress then 4 else 5)"
| "rule_id a HighExposureLowConviction = 6"
| "rule_id a UpgradeBetterCandidate = 7"
| "rule_id a StrongEdgeAvailable = 8"
| "rule_id a HighConvictionOverride = 9"
| "rule_id a InsufficientNetEdge = 10"
| "rule_id a DefaultDefer = 11"
| "rule_id a OrNone = 0"

definition without_exposure :: "opportunity_config \<Rightarrow> double \<Rightarrow> opportunity_action" where
  "without_exposure cfg net =
    (if oc_execute_min_net_bps cfg \<le> net then OaExecute
     else if oc_min_net_expected_bps cfg \<le> net then OaDefer
     else OaSuppress)"

definition build_factors ::
  "opportunity_config \<Rightarrow> trade_intent \<Rightarrow> execution_alpha_result \<Rightarrow> portfolio_context \<Rightarrow> double \<Rightarrow> opportunity_score \<Rightarrow>
   opportunity_action \<Rightarrow> opportunity_reason \<Rightarrow> opportunity_factors" where
  "build_factors cfg i a p threshold s act rsn =
    \<lparr>opf_input_conviction = ti_conviction i, opf_input_urgency = ti_urgency i,
     opf_input_execution_cost_bps = eq_total_cost_bps (ea_quality a), opf_input_exposure_pct = pc_gross_exposure_pct p,
     opf_input_conviction_threshold = effective_threshold cfg threshold p, opf_rule_id = rule_id act rsn,
     opf_reason = rsn, opf_would_be_without_exposure = without_exposure cfg (op_net_expected_bps s),
     opf_concentration_limited =
       oc_max_symbol_concentration cfg < pc_symbol_exposure_pct p \<or>
       oc_max_strategy_concentration cfg < pc_strategy_exposure_pct p,
     opf_capital_limited = oc_capital_exhaustion_threshold cfg < pc_gross_exposure_pct p,
     opf_drawdown_penalized = 0 < pc_current_drawdown_pct p\<rparr>"

definition opportunity_evaluate ::
  "libm \<Rightarrow> timestamp \<Rightarrow> opportunity_config \<Rightarrow> trade_intent \<Rightarrow> execution_alpha_result \<Rightarrow> portfolio_context \<Rightarrow> double \<Rightarrow>
   opportunity_result" where
  "opportunity_evaluate lm tnow cfg i a p threshold =
    (let s = compute_opportunity_score lm cfg i a p;
         (act, rsn) = determine_action cfg s p (ti_conviction i) threshold;
         f = build_factors cfg i a p threshold s act rsn
     in \<lparr>ort_score = s, ort_action = act, ort_reason = rsn, ort_rank = 1, ort_budget_utilization = pc_gross_exposure_pct p,
         ort_reason_codes =
           [opportunity_action_to_string act, opportunity_reason_to_string rsn] @
           (if opf_concentration_limited f then [''ConcentrationLimited''] else []) @
           (if opf_capital_limited f then [''CapitalLimited''] else []) @
           (if opf_drawdown_penalized f then [''DrawdownPenalized''] else []),
         ort_factors = f, ort_computed_at = tnow\<rparr>)"

section \<open>The audit names the rule\<close>

text \<open>The conditions of the rules in their order; the last holds always.\<close>

definition rule_conditions ::
  "opportunity_config \<Rightarrow> double \<Rightarrow> portfolio_context \<Rightarrow> double \<Rightarrow> double \<Rightarrow> bool list" where
  "rule_conditions cfg net p conviction threshold =
    [net < oc_min_net_expected_bps cfg,
     conviction < effective_threshold cfg threshold p,
     oc_capital_exhaustion_threshold cfg < pc_gross_exposure_pct p,
     oc_max_symbol_concentration cfg < pc_symbol_exposure_pct p,
     oc_max_strategy_concentration cfg < pc_strategy_exposure_pct p,
     oc_high_exposure_threshold cfg < pc_gross_exposure_pct p \<and> conviction < oc_high_exposure_min_conviction cfg,
     pc_has_worst_position p \<and> pc_worst_position_net_bps p + oc_upgrade_min_edge_advantage_bps cfg < net,
     oc_execute_min_net_bps cfg < net \<and> pc_gross_exposure_pct p < oc_high_exposure_threshold cfg,
     oc_high_exposure_min_conviction cfg \<le> conviction \<and> 0 < net,
     0 < net,
     True]"

abbreviation first_rule :: "bool list \<Rightarrow> nat" where
  "first_rule bs \<equiv> length (takeWhile Not bs)"

definition rule_actions :: "opportunity_action list" where
  "rule_actions =
    [OaSuppress, OaSuppress, OaSuppress, OaSuppress, OaDefer, OaDefer, OaUpgrade, OaExecute, OaExecute, OaDefer, OaDefer]"

lemma determine_rule:
  fixes cfg s p c t
  defines "k \<equiv> first_rule (rule_conditions cfg (op_net_expected_bps s) p c t)"
    and "d \<equiv> determine_action cfg s p c t"
  shows "rule_id (fst d) (snd d) = int k + 1" and "fst d = rule_actions ! k" and "k < 11"
  unfolding k_def d_def determine_action_def rule_conditions_def rule_actions_def Let_def
  by (simp_all split: if_splits)

text \<open>Every recorded audit points at the first rule whose condition holds, and the action is that rule's.\<close>

theorem audit_names_deciding_rule:
  fixes lm tnow cfg i a p threshold
  defines "r \<equiv> opportunity_evaluate lm tnow cfg i a p threshold"
  shows "opf_rule_id (ort_factors r) =
      int (first_rule (rule_conditions cfg (op_net_expected_bps (ort_score r)) p (ti_conviction i) threshold)) + 1 \<and>
    ort_action r = rule_actions ! nat (opf_rule_id (ort_factors r) - 1)"
  unfolding r_def opportunity_evaluate_def Let_def case_prod_unfold build_factors_def
  by (simp add: determine_rule(1)) (simp add: determine_rule(2))

section \<open>Capital is bound only for an edge\<close>

lemma binding_action:
  assumes "fst (determine_action cfg s p c t) \<in> {OaExecute, OaUpgrade}"
  shows "\<not> op_net_expected_bps s < oc_min_net_expected_bps cfg"
    and "\<not> c < effective_threshold cfg t p"
    and "\<not> oc_capital_exhaustion_threshold cfg < pc_gross_exposure_pct p"
    and "\<not> oc_max_symbol_concentration cfg < pc_symbol_exposure_pct p"
    and "\<not> oc_max_strategy_concentration cfg < pc_strategy_exposure_pct p"
    and "op_net_expected_bps s \<noteq> NaN"
  using assms by (auto simp: determine_action_def Let_def split: if_splits)

lemma no_conviction_no_edge:
  assumes "\<not> isfinite (ti_conviction i)"
  shows "op_net_expected_bps (compute_opportunity_score lm cfg i a p) = 0"
  using assms by (simp add: compute_opportunity_score_def Let_def default_opportunity_score_def zero_double_def)

text \<open>
  C30. An intent binds capital only with a conviction that is a finite number and not below the threshold, an
  expected return that exceeds the estimated cost by the configured margin, and exposures that are not above any
  of the three caps: a missing conviction or cost never passes.
\<close>

theorem binding_needs_edge:
  assumes "0 < oc_min_net_expected_bps cfg"
    and "ort_action r \<in> {OaExecute, OaUpgrade}"
    and "r = opportunity_evaluate lm tnow cfg i a p threshold"
  shows "isfinite (ti_conviction i) \<and>
    \<not> ti_conviction i < opf_input_conviction_threshold (ort_factors r) \<and>
    oc_min_net_expected_bps cfg \<le> net_of_conviction lm cfg i a \<and>
    \<not> opf_capital_limited (ort_factors r) \<and> \<not> opf_concentration_limited (ort_factors r)"
proof -
  let ?s = "compute_opportunity_score lm cfg i a p"
  have "fst (determine_action cfg ?s p (ti_conviction i) threshold) \<in> {OaExecute, OaUpgrade}"
    using assms(2,3) by (simp add: opportunity_evaluate_def Let_def case_prod_unfold)
  note b = binding_action [OF this]
  have "isfinite (ti_conviction i)"
    using b(1) assms(1) no_conviction_no_edge [of i lm cfg a p] by metis
  moreover from this have "op_net_expected_bps ?s = net_of_conviction lm cfg i a"
    by (simp add: compute_opportunity_score_def Let_def)
  moreover have "oc_min_net_expected_bps cfg \<noteq> NaN" using assms(1) by auto
  ultimately show ?thesis
    using b by (simp add: assms(3) opportunity_evaluate_def Let_def case_prod_unfold build_factors_def double_not_less)
qed

section \<open>The threshold stays reachable\<close>

lemma min_capped: "std_min x (lit c) = NaN \<or> std_min x (lit c) \<le> lit c"
  by (cases "x = NaN") (simp_all add: std_min_def double_not_less)

lemma adjustment_capped: "threshold_adjustment cfg p = NaN \<or> threshold_adjustment cfg p \<le> lit 0.20"
  unfolding threshold_adjustment_def Let_def by (rule min_capped)

text \<open>
  Losses and drawdown raise the asked conviction by at most 0.20, and never above 0.95: after any streak a
  strong enough intent still passes.
\<close>

theorem threshold_stays_reachable:
  assumes "base + threshold_adjustment cfg p \<noteq> NaN"
  shows "0 \<le> effective_threshold cfg base p \<and> effective_threshold cfg base p \<le> lit 0.95 \<and>
    threshold_adjustment cfg p \<le> lit 0.20"
proof -
  have "lit 0 = (0 :: double)" by (simp add: zero_double_def)
  then have "0 \<le> effective_threshold cfg base p \<and> effective_threshold cfg base p \<le> lit 0.95"
    using clamp_lits [OF assms, of 0 "0.95"] by (simp add: effective_threshold_def)
  moreover have "threshold_adjustment cfg p \<noteq> NaN"
    using assms by (cases base) auto
  ultimately show ?thesis using adjustment_capped by blast
qed

section \<open>Where the audit and the checks fall short\<close>

definition ex_exposure :: "double \<Rightarrow> portfolio_context" where
  "ex_exposure x = \<lparr>pc_gross_exposure_pct = x, pc_current_drawdown_pct = 0, pc_consecutive_losses = 0,
     pc_symbol_exposure_pct = x, pc_strategy_exposure_pct = x, pc_has_worst_position = False,
     pc_worst_position_net_bps = 0\<rparr>"

lemma ex_selectors [simp]:
  "oc_min_net_expected_bps default_opportunity_config = 1"
  "oc_execute_min_net_bps default_opportunity_config = lit 3"
  "oc_high_exposure_threshold default_opportunity_config = lit 0.70"
  "oc_high_exposure_min_conviction default_opportunity_config = lit 0.60"
  "oc_max_symbol_concentration default_opportunity_config = lit 0.25"
  "oc_max_strategy_concentration default_opportunity_config = lit 0.35"
  "oc_capital_exhaustion_threshold default_opportunity_config = lit 0.85"
  "oc_conviction_to_bps_scale default_opportunity_config = lit 100"
  "pc_gross_exposure_pct (ex_exposure x) = x" "pc_symbol_exposure_pct (ex_exposure x) = x"
  "pc_strategy_exposure_pct (ex_exposure x) = x" "\<not> pc_has_worst_position (ex_exposure x)"
  by (simp_all add: default_opportunity_config_def ex_exposure_def)

lemma no_adjustment: "threshold_adjustment default_opportunity_config (ex_exposure x) = 0"
proof -
  have "\<not> lit 0.2 < (0 :: double)"
    using mk_nonneg [of "0.2"] by (cases "lit 0.2") (auto simp: zero_double_def)
  then show ?thesis
    by (simp add: threshold_adjustment_def Let_def std_min_def ex_exposure_def)
qed

lemma determine_override:
  assumes "\<not> op_net_expected_bps s < oc_min_net_expected_bps cfg" and "\<not> c < effective_threshold cfg t p"
    and "\<not> oc_capital_exhaustion_threshold cfg < pc_gross_exposure_pct p"
    and "\<not> oc_max_symbol_concentration cfg < pc_symbol_exposure_pct p"
    and "\<not> oc_max_strategy_concentration cfg < pc_strategy_exposure_pct p"
    and "\<not> oc_high_exposure_threshold cfg < pc_gross_exposure_pct p" and "\<not> pc_has_worst_position p"
    and "oc_high_exposure_min_conviction cfg \<le> c" and "0 < op_net_expected_bps s"
  shows "fst (determine_action cfg s p c t) = OaExecute"
  using assms by (simp add: determine_action_def Let_def)

lemma le_not_less: "x \<le> y \<Longrightarrow> \<not> y < (x :: double)"
  by (cases x; cases y) auto

definition ex_score :: "double \<Rightarrow> opportunity_score" where
  "ex_score net = default_opportunity_score\<lparr>op_net_expected_bps := net\<rparr>"

text \<open>An exposure that is not a number passes the three caps, and the intent is executed.\<close>

theorem nan_exposure_passes_caps:
  "fst (determine_action default_opportunity_config (ex_score (lit 10)) (ex_exposure NaN) 1 (lit (1 / 2))) = OaExecute"
proof -
  have l: "lit 10 = Fin 10" "lit (1 / 2) = Fin (1 / 2)" "lit 3 = Fin 3"
    using mk_of_int [of 10] mk_of_int [of 3] by (simp_all add: mk_half)
  have "effective_threshold default_opportunity_config (lit (1 / 2)) (ex_exposure NaN) \<le> lit 0.95"
    using std_clamp_bounds [of 0 "lit 0.95" "Fin (1 / 2)"] mk_nonneg [of "0.95"]
    by (simp add: effective_threshold_def no_adjustment l zero_double_def mk_half)
  moreover have "lit 0.95 \<le> 1" "lit 0.60 \<le> 1"
    using mk_mono [of "0.95" 1] mk_mono [of "0.6" 1] by (simp_all add: one_double_def)
  ultimately have "\<not> 1 < effective_threshold default_opportunity_config (lit (1 / 2)) (ex_exposure NaN)"
    by (metis double_le_trans le_not_less)
  moreover have "op_net_expected_bps (ex_score (lit 10)) = Fin 10" by (simp add: ex_score_def l)
  moreover have "0 < Fin 10" "\<not> Fin 10 < 1" by (simp_all add: zero_double_def one_double_def)
  ultimately show ?thesis
    using \<open>lit 0.60 \<le> 1\<close> by (intro determine_override) (simp_all only: ex_selectors, simp_all)
qed

text \<open>
  The counterfactual of the audit looks at the net return only: it says that an intent would
  be executed without exposure which the rules suppress at no exposure, for its low conviction.
\<close>

theorem counterfactual_ignores_conviction:
  "without_exposure default_opportunity_config (lit 10) = OaExecute \<and>
   fst (determine_action default_opportunity_config (ex_score (lit 10)) (ex_exposure 0) (- 1) 0) = OaSuppress"
proof -
  have l: "lit 10 = Fin 10" "lit 3 = Fin 3"
    using mk_of_int [of 10] mk_of_int [of 3] by simp_all
  have "0 \<le> effective_threshold default_opportunity_config 0 (ex_exposure 0)"
    using std_clamp_bounds [of 0 "lit 0.95" 0] mk_nonneg [of "0.95"]
    by (simp add: effective_threshold_def no_adjustment zero_double_def)
  moreover have "- 1 < (0 :: double)" by (simp add: zero_double_def one_double_def)
  ultimately have "- 1 < effective_threshold default_opportunity_config 0 (ex_exposure 0)"
    by (cases "effective_threshold default_opportunity_config 0 (ex_exposure 0)")
       (auto simp: zero_double_def one_double_def)
  then show ?thesis
    by (simp add: without_exposure_def determine_action_def ex_score_def l) (simp add: one_double_def)
qed

section \<open>A sure signal\<close>

definition ex_sure :: trade_intent where
  "ex_sure = default_trade_intent\<lparr>ti_conviction := 1, ti_urgency := 1\<rparr>"

definition ex_flat_libm :: libm where
  "ex_flat_libm = \<lparr>lm_exp = \<lambda>x. x, lm_log = \<lambda>x. x, lm_tanh = \<lambda>x. x, lm_pow = \<lambda>x y. x, lm_undefined_int = \<lambda>x. 0\<rparr>"


definition ex_calm :: portfolio_context where
  "ex_calm = ex_exposure 0"

lemma ex_sure_executes:
  "ort_action (opportunity_evaluate ex_flat_libm 0 default_opportunity_config ex_sure default_execution_alpha ex_calm 0) = OaExecute"
proof -
  have l: "lit 100 = Fin 100" "lit 3 = Fin 3" "mk 100 = Fin 100"
    using mk_of_int [of 100] mk_of_int [of 3] by simp_all
  have e: "effective_threshold default_opportunity_config 0 (ex_exposure 0) \<le> lit 0.95" "lit 0.95 \<le> 1"
    using std_clamp_bounds [of 0 "lit 0.95" 0] mk_nonneg [of "0.95"] mk_mono [of "0.95" 1]
    by (simp_all add: effective_threshold_def no_adjustment zero_double_def one_double_def)
  then have t: "\<not> 1 < effective_threshold default_opportunity_config 0 (ex_exposure 0)"
    by (metis double_le_trans le_not_less)
  have n: "op_net_expected_bps (compute_opportunity_score ex_flat_libm default_opportunity_config ex_sure default_execution_alpha ex_calm) = Fin 100"
    by (simp add: compute_opportunity_score_def Let_def net_of_conviction_def ex_flat_libm_def ex_sure_def default_trade_intent_def
        default_execution_alpha_def default_quality_estimate_def default_opportunity_config_def std_clamp_def
        minus_double_def zero_double_def one_double_def l)
  have c: "ti_conviction ex_sure = 1" by (simp add: ex_sure_def)
  have q: "\<not> lit x < 0" if "0 \<le> x" for x
    using mk_nonneg [of x] that by (cases "lit x") (auto simp: zero_double_def)
  show ?thesis
  proof -
    have "fst (determine_action default_opportunity_config
        (compute_opportunity_score ex_flat_libm default_opportunity_config ex_sure default_execution_alpha ex_calm) ex_calm 1 0) = OaExecute"
      unfolding ex_calm_def
    proof (rule determine_override, goal_cases)
      case 1
      show ?case using n by (simp add: ex_calm_def one_double_def)
    next
      case 2
      show ?case by (rule t)
    next
      case 8
      show ?case using mk_mono [of "0.6" 1] by (simp add: one_double_def)
    next
      case 9
      show ?case using n by (simp add: ex_calm_def zero_double_def)
    qed (simp_all add: q)
    then show ?thesis by (simp add: opportunity_evaluate_def Let_def case_prod_unfold c)
  qed
qed

theorem binding_needs_edge_witness:
  "isfinite (ti_conviction ex_sure) \<and>
   oc_min_net_expected_bps default_opportunity_config \<le>
     net_of_conviction ex_flat_libm default_opportunity_config ex_sure default_execution_alpha"
  using binding_needs_edge [OF _ _ refl, of default_opportunity_config ex_flat_libm 0 ex_sure default_execution_alpha ex_calm 0]
    ex_sure_executes
  by (simp add: default_opportunity_config_def zero_double_def one_double_def)

theorem threshold_stays_reachable_witness:
  "effective_threshold default_opportunity_config (lit (1 / 2)) (ex_exposure 0) \<le> lit 0.95"
  using threshold_stays_reachable [of "lit (1 / 2)" default_opportunity_config "ex_exposure 0"]
  by (simp add: no_adjustment zero_double_def mk_half)

end
