(* ===== verification/Persistence.thy ===== *)
theory Persistence
  imports Normalizer Order_Registry
begin

text \<open>
  The persistence layer (\<^verbatim>\<open>src/src/persistence\<close>): entry types, the storage adapter in memory, the
  event journal, the snapshot store and the facade.  An adapter that stores elsewhere may fail: every
  call that writes takes the adapter's answer \<open>ok\<close> as an argument, true for the adapter in
  memory.  The reading of the system clock is an argument as well.
\<close>

section \<open>Types\<close>

datatype journal_entry_type =
    MarketEvent | DecisionTrace | RiskDecisionEntry | OrderEvent | PortfolioChange | StrategySignal | SystemEvent
  | TelemetrySnapshot | GovernanceEvent | DiagnosticEvent

fun journal_entry_type_to_string :: "journal_entry_type \<Rightarrow> string" where
  "journal_entry_type_to_string MarketEvent = ''MarketEvent''"
| "journal_entry_type_to_string DecisionTrace = ''DecisionTrace''"
| "journal_entry_type_to_string RiskDecisionEntry = ''RiskDecision''"
| "journal_entry_type_to_string OrderEvent = ''OrderEvent''"
| "journal_entry_type_to_string PortfolioChange = ''PortfolioChange''"
| "journal_entry_type_to_string StrategySignal = ''StrategySignal''"
| "journal_entry_type_to_string SystemEvent = ''SystemEvent''"
| "journal_entry_type_to_string TelemetrySnapshot = ''TelemetrySnapshot''"
| "journal_entry_type_to_string GovernanceEvent = ''GovernanceEvent''"
| "journal_entry_type_to_string DiagnosticEvent = ''DiagnosticEvent''"

record journal_entry =
  je_sequence_id :: int
  je_type :: journal_entry_type
  je_timestamp :: timestamp
  je_correlation_id :: string
  je_strategy_id :: string
  je_config_hash :: string
  je_payload_json :: string

datatype snapshot_type = SnPortfolio | SnRiskCounters | SnStrategyMeta | SnWorldState | SnFullSystem | SnGovernanceState

fun snapshot_type_to_string :: "snapshot_type \<Rightarrow> string" where
  "snapshot_type_to_string SnPortfolio = ''Portfolio''"
| "snapshot_type_to_string SnRiskCounters = ''RiskCounters''"
| "snapshot_type_to_string SnStrategyMeta = ''StrategyMeta''"
| "snapshot_type_to_string SnWorldState = ''WorldState''"
| "snapshot_type_to_string SnFullSystem = ''FullSystem''"
| "snapshot_type_to_string SnGovernanceState = ''GovernanceState''"

record snapshot_entry =
  se_snapshot_id :: int
  se_type :: snapshot_type
  se_created_at :: timestamp
  se_config_hash :: string
  se_payload_json :: string

section \<open>Storage in memory\<close>

record storage =
  st_journal :: "journal_entry list"
  st_snapshots :: "(snapshot_type \<times> snapshot_entry) list"

definition storage_init :: storage where
  "storage_init = \<lparr>st_journal = [], st_snapshots = []\<rparr>"

definition append_journal :: "bool \<Rightarrow> journal_entry \<Rightarrow> storage \<Rightarrow> bool \<times> storage" where
  "append_journal ok e s = (if ok then (True, s\<lparr>st_journal := st_journal s @ [e]\<rparr>) else (False, s))"

definition query_journal :: "timestamp \<Rightarrow> timestamp \<Rightarrow> journal_entry_type option \<Rightarrow> storage \<Rightarrow> journal_entry list" where
  "query_journal from until ty s =
    filter (\<lambda>e. \<not> (je_timestamp e < from \<or> until < je_timestamp e) \<and> (case ty of None \<Rightarrow> True | Some k \<Rightarrow> je_type e = k))
      (st_journal s)"

definition store_snapshot :: "bool \<Rightarrow> snapshot_entry \<Rightarrow> storage \<Rightarrow> bool \<times> storage" where
  "store_snapshot ok e s =
    (if ok then (True, s\<lparr>st_snapshots := AList.update (se_type e) e (st_snapshots s)\<rparr>) else (False, s))"

definition load_latest_snapshot :: "snapshot_type \<Rightarrow> storage \<Rightarrow> tb_error + snapshot_entry" where
  "load_latest_snapshot ty s = (case map_of (st_snapshots s) ty of None \<Rightarrow> Inl PersistenceError | Some e \<Rightarrow> Inr e)"

definition journal_size :: "storage \<Rightarrow> nat" where
  "journal_size s = length (st_journal s)"

definition snapshot_count :: "storage \<Rightarrow> nat" where
  "snapshot_count s = length (st_snapshots s)"

section \<open>Event journal\<close>

definition max_int64 :: int where
  "max_int64 = 9223372036854775807"

record event_journal =
  ej_counter :: int
  ej_storage :: storage

text \<open>A journal continues the numbering of what the storage holds; \<open>readable\<close> says whether the query succeeds.\<close>

definition event_journal_open :: "bool \<Rightarrow> storage \<Rightarrow> event_journal" where
  "event_journal_open readable s =
    \<lparr>ej_counter = (if readable then fold max (map je_sequence_id (query_journal 0 max_int64 None s)) 0 else 0),
     ej_storage = s\<rparr>"

definition journal_append ::
  "bool \<Rightarrow> timestamp \<Rightarrow> journal_entry_type \<Rightarrow> string \<Rightarrow> string \<Rightarrow> string \<Rightarrow> string \<Rightarrow> event_journal \<Rightarrow> bool \<times> event_journal" where
  "journal_append ok ns ty payload corr strat hash j =
    (let seq = ej_counter j + 1;
         (r, s) = append_journal ok \<lparr>je_sequence_id = seq, je_type = ty, je_timestamp = ns, je_correlation_id = corr,
                    je_strategy_id = strat, je_config_hash = hash, je_payload_json = payload\<rparr> (ej_storage j)
     in (r, j\<lparr>ej_storage := s, ej_counter := (if r then seq else ej_counter j)\<rparr>))"

definition journal_query :: "timestamp \<Rightarrow> timestamp \<Rightarrow> journal_entry_type option \<Rightarrow> event_journal \<Rightarrow> journal_entry list" where
  "journal_query from until ty j = query_journal from until ty (ej_storage j)"

section \<open>Snapshot store and facade\<close>

record snapshot_store =
  ss_counter :: int
  ss_storage :: storage

definition snapshot_store_open :: "storage \<Rightarrow> snapshot_store" where
  "snapshot_store_open s = \<lparr>ss_counter = 0, ss_storage = s\<rparr>"

definition snapshot_save :: "bool \<Rightarrow> timestamp \<Rightarrow> snapshot_type \<Rightarrow> string \<Rightarrow> string \<Rightarrow> snapshot_store \<Rightarrow> bool \<times> snapshot_store" where
  "snapshot_save ok ns ty payload hash ss =
    (let n = ss_counter ss + 1;
         (r, s) = store_snapshot ok \<lparr>se_snapshot_id = n, se_type = ty, se_created_at = ns, se_config_hash = hash,
                    se_payload_json = payload\<rparr> (ss_storage ss)
     in (r, ss\<lparr>ss_counter := n, ss_storage := s\<rparr>))"

definition snapshot_load_latest :: "snapshot_type \<Rightarrow> snapshot_store \<Rightarrow> tb_error + snapshot_entry" where
  "snapshot_load_latest ty ss = load_latest_snapshot ty (ss_storage ss)"

text \<open>Both flushes run; the answer is the journal's error, else the snapshot store's.\<close>

definition persistence_flush :: "tb_error option \<Rightarrow> tb_error option \<Rightarrow> tb_error option" where
  "persistence_flush r1 r2 = (if r1 \<noteq> None then r1 else r2)"

section \<open>Laws\<close>

lemma journal_append_fields:
  "fst (journal_append ok ns ty p c s h j) = ok"
  "ok \<Longrightarrow> st_journal (ej_storage (snd (journal_append ok ns ty p c s h j))) =
     st_journal (ej_storage j) @ [\<lparr>je_sequence_id = ej_counter j + 1, je_type = ty, je_timestamp = ns,
       je_correlation_id = c, je_strategy_id = s, je_config_hash = h, je_payload_json = p\<rparr>]"
  "\<not> ok \<Longrightarrow> snd (journal_append ok ns ty p c s h j) = j"
  by (simp_all add: journal_append_def append_journal_def Let_def)

text \<open>The identifiers grow along the journal and none exceeds the counter.\<close>

definition journal_ok :: "event_journal \<Rightarrow> bool" where
  "journal_ok j \<longleftrightarrow> sorted_wrt (<) (map je_sequence_id (st_journal (ej_storage j))) \<and>
    (\<forall>e\<in>set (st_journal (ej_storage j)). je_sequence_id e \<le> ej_counter j \<and> 0 \<le> je_timestamp e \<and> je_timestamp e \<le> max_int64)"

lemma fold_max_start: "(a :: int) \<le> b \<Longrightarrow> a \<le> fold max xs b"
  by (induction xs arbitrary: b) (auto simp: le_max_iff_disj)

lemma fold_max_ge: "(x :: int) \<in> set xs \<Longrightarrow> x \<le> fold max xs a"
  by (induction xs arbitrary: a) (auto intro: fold_max_start)

lemma journal_ok_append:
  assumes "journal_ok j" and "0 \<le> ns" and "ns \<le> max_int64"
  shows "journal_ok (snd (journal_append ok ns ty p c s h j))"
proof (cases ok)
  case True
  have "ej_counter (snd (journal_append ok ns ty p c s h j)) = ej_counter j + 1"
    using True by (simp add: journal_append_def append_journal_def Let_def)
  then show ?thesis
    using assms journal_append_fields(2) [OF True] by (force simp: journal_ok_def sorted_wrt_append)
qed (simp add: journal_append_fields assms)

lemma query_all:
  assumes "journal_ok j"
  shows "query_journal 0 max_int64 None (ej_storage j) = st_journal (ej_storage j)"
  using assms by (auto simp: query_journal_def journal_ok_def not_less intro: filter_True)

lemma journal_ok_restart: "journal_ok j \<Longrightarrow> journal_ok (event_journal_open True (ej_storage j))"
  by (auto simp: journal_ok_def event_journal_open_def query_all [unfolded journal_ok_def] intro: fold_max_ge)

datatype journal_op =
    JAppend bool timestamp journal_entry_type string string string string
  | JRestart

fun journal_exec :: "journal_op \<Rightarrow> event_journal \<Rightarrow> event_journal" where
  "journal_exec (JAppend ok ns ty p c s h) j = snd (journal_append ok ns ty p c s h j)"
| "journal_exec JRestart j = event_journal_open True (ej_storage j)"

fun op_time_ok :: "journal_op \<Rightarrow> bool" where
  "op_time_ok (JAppend ok ns ty p c s h) \<longleftrightarrow> 0 \<le> ns \<and> ns \<le> max_int64"
| "op_time_ok JRestart \<longleftrightarrow> True"

interpretation jn: inv_system "\<lambda>j. j = event_journal_open True storage_init"
    "\<lambda>j j'. \<exists>op. op_time_ok op \<and> j' = journal_exec op j" journal_ok
proof unfold_locales
  fix j :: event_journal assume "j = event_journal_open True storage_init"
  then show "journal_ok j" by (simp add: journal_ok_def event_journal_open_def storage_init_def)
next
  fix j j' assume "journal_ok j" "\<exists>op. op_time_ok op \<and> j' = journal_exec op j"
  then obtain op where "op_time_ok op" "j' = journal_exec op j" by blast
  then show "journal_ok j'"
    using \<open>journal_ok j\<close> by (cases op) (auto intro: journal_ok_append journal_ok_restart)
qed

lemma journal_run_step:
  "list_all op_time_ok ops \<Longrightarrow>
   (\<lambda>j j'. \<exists>op. op_time_ok op \<and> j' = journal_exec op j)\<^sup>*\<^sup>* j (fold journal_exec ops j)"
proof (induction ops arbitrary: j)
  case (Cons op ops)
  then show ?case
    using converse_rtranclp_into_rtranclp [of "\<lambda>j j'. \<exists>op. op_time_ok op \<and> j' = journal_exec op j" j "journal_exec op j"]
    by auto
qed simp

text \<open>
  Whatever appends fail and however often the program restarts, the numbers of the journal's
  entries grow strictly, so no two entries share one and none is reused.
\<close>

theorem journal_ids_strictly_increase:
  assumes "list_all op_time_ok ops"
  shows "sorted_wrt (<) (map je_sequence_id (st_journal (ej_storage (fold journal_exec ops (event_journal_open True storage_init)))))"
  using jn.inv_reachable [OF refl journal_run_step [OF assms]] by (simp add: journal_ok_def)

text \<open>The latest snapshot of a type is the one saved last, and other types are untouched.\<close>

theorem snapshot_save_load:
  "snapshot_load_latest ty (snd (snapshot_save ok ns k p h ss)) =
    (if ok \<and> ty = k then Inr \<lparr>se_snapshot_id = ss_counter ss + 1, se_type = k, se_created_at = ns, se_config_hash = h,
       se_payload_json = p\<rparr> else snapshot_load_latest ty ss)"
  by (simp add: snapshot_load_latest_def snapshot_save_def store_snapshot_def load_latest_snapshot_def Let_def update_conv')

text \<open>The numbers of the snapshots start again after a restart: two different snapshots carry the same number.\<close>

theorem snapshot_ids_repeat:
  fixes ss1 ns p h
  defines "ss2 \<equiv> snd (snapshot_save True ns SnPortfolio p h (snapshot_store_open storage_init))"
  shows "map_sum id se_snapshot_id (snapshot_load_latest SnPortfolio ss2) = Inr 1 \<and>
    map_sum id se_snapshot_id (snapshot_load_latest SnFullSystem
      (snd (snapshot_save True ns SnFullSystem p h (snapshot_store_open (ss_storage ss2))))) = Inr 1"
  unfolding ss2_def by (simp add: snapshot_save_load snapshot_store_open_def)

end
