(* ===== verification/Wal_Writer.thy ===== *)
theory Wal_Writer
  imports Persistence
begin

text \<open>
  The write-ahead log (\<^verbatim>\<open>src/src/persistence/wal_writer.{hpp,cpp}\<close>): intents, commits, rollbacks and
  checkpoints in the event journal, and the search for intents without an end.  Boost's JSON reader
  is the parameter \<open>parse\<close>, \<open>None\<close> where it throws.  \<open>uninit\<close> is the value that an
  entry read back from the journal has in its member \<^verbatim>\<open>type\<close>, which the code never sets there.
\<close>

section \<open>Records\<close>

datatype wal_entry_type =
    WalOrderIntent | WalOrderSent | WalOrderCancelled | WalPositionOpened | WalPositionClosed | WalBalanceSync
  | WalRecoveryCheckpoint

fun wal_entry_type_to_string :: "wal_entry_type \<Rightarrow> string" where
  "wal_entry_type_to_string WalOrderIntent = ''OrderIntent''"
| "wal_entry_type_to_string WalOrderSent = ''OrderSent''"
| "wal_entry_type_to_string WalOrderCancelled = ''OrderCancelled''"
| "wal_entry_type_to_string WalPositionOpened = ''PositionOpened''"
| "wal_entry_type_to_string WalPositionClosed = ''PositionClosed''"
| "wal_entry_type_to_string WalBalanceSync = ''BalanceSync''"
| "wal_entry_type_to_string WalRecoveryCheckpoint = ''RecoveryCheckpoint''"

fun journal_type_for :: "wal_entry_type \<Rightarrow> journal_entry_type" where
  "journal_type_for WalOrderIntent = OrderEvent"
| "journal_type_for WalOrderSent = OrderEvent"
| "journal_type_for WalOrderCancelled = OrderEvent"
| "journal_type_for WalPositionOpened = PortfolioChange"
| "journal_type_for WalPositionClosed = PortfolioChange"
| "journal_type_for WalBalanceSync = PortfolioChange"
| "journal_type_for WalRecoveryCheckpoint = SystemEvent"

record wal_entry =
  we_sequence :: nat
  we_type :: wal_entry_type
  we_payload_json :: string
  we_correlation_id :: string
  we_order_id :: string
  we_symbol :: symbol
  we_strategy_id :: string
  we_written_at :: timestamp
  we_committed :: bool

record wal_writer =
  wl_journal :: event_journal
  wl_sequence :: nat
  wl_pending :: "(nat \<times> wal_entry) list"

definition wal_open :: "event_journal \<Rightarrow> wal_writer" where
  "wal_open j = \<lparr>wl_journal = j, wl_sequence = 0, wl_pending = []\<rparr>"

definition wrap_wal_json :: "nat \<Rightarrow> wal_entry_type \<Rightarrow> bool \<Rightarrow> string \<Rightarrow> string" where
  "wrap_wal_json seq ty committed data =
    ''{\"wal_seq\":'' @ to_string_nat seq @ '',\"wal_type\":\"'' @ wal_entry_type_to_string ty @ ''\",\"committed\":'' @
    (if committed then ''true'' else ''false'') @ '',\"data\":'' @ data @ ''}''"

definition rollback_json :: "nat \<Rightarrow> wal_entry_type \<Rightarrow> string \<Rightarrow> string" where
  "rollback_json seq ty reason =
    ''{\"wal_seq\":'' @ to_string_nat seq @ '',\"wal_type\":\"'' @ wal_entry_type_to_string ty @
    ''\",\"rollback\":true,\"reason\":\"'' @ reason @ ''\"}''"

section \<open>Writing\<close>

text \<open>One write to the journal: the adapter's answer and the time it stamps.\<close>

type_synonym write_env = "bool \<times> timestamp"

definition wal_append ::
  "write_env \<Rightarrow> wal_entry_type \<Rightarrow> string \<Rightarrow> string \<Rightarrow> string \<Rightarrow> wal_writer \<Rightarrow> bool \<times> wal_writer" where
  "wal_append env ty payload corr strat w =
    (let (r, j) = journal_append (fst env) (snd env) (journal_type_for ty) payload corr strat [] (wl_journal w)
     in (r, w\<lparr>wl_journal := j\<rparr>))"

record intent_args =
  ia_type :: wal_entry_type
  ia_payload_json :: string
  ia_order_id :: string
  ia_symbol :: symbol
  ia_strategy_id :: string
  ia_correlation_id :: string

definition write_intent :: "write_env \<Rightarrow> timestamp \<Rightarrow> intent_args \<Rightarrow> wal_writer \<Rightarrow> (tb_error + nat) \<times> wal_writer" where
  "write_intent env tnow a w =
    (let seq = wl_sequence w + 1;
         e = \<lparr>we_sequence = seq, we_type = ia_type a, we_payload_json = ia_payload_json a,
              we_correlation_id = ia_correlation_id a, we_order_id = ia_order_id a, we_symbol = ia_symbol a,
              we_strategy_id = ia_strategy_id a, we_written_at = tnow, we_committed = False\<rparr>;
         (r, w) = wal_append env (ia_type a) (wrap_wal_json seq (ia_type a) False (ia_payload_json a))
                    (ia_correlation_id a) (ia_strategy_id a) w
     in if \<not> r then (Inl WalWriteFailed, w)
        else (Inr seq, w\<lparr>wl_sequence := seq, wl_pending := al_emplace seq e (wl_pending w)\<rparr>))"

definition wal_commit :: "write_env \<Rightarrow> nat \<Rightarrow> wal_writer \<Rightarrow> tb_error option \<times> wal_writer" where
  "wal_commit env seq w =
    (case map_of (wl_pending w) seq of
       None \<Rightarrow> (Some WalWriteFailed, w)
     | Some e \<Rightarrow>
        let w = w\<lparr>wl_pending := AList.update seq (e\<lparr>we_committed := True\<rparr>) (wl_pending w)\<rparr>;
            (r, w) = wal_append env (we_type e) (wrap_wal_json seq (we_type e) True (we_payload_json e))
                       (we_correlation_id e) (we_strategy_id e) w
        in if \<not> r then (Some WalWriteFailed, w)
           else (None, w\<lparr>wl_pending := AList.delete seq (wl_pending w)\<rparr>))"

definition wal_rollback :: "write_env \<Rightarrow> nat \<Rightarrow> string \<Rightarrow> wal_writer \<Rightarrow> tb_error option \<times> wal_writer" where
  "wal_rollback env seq reason w =
    (case map_of (wl_pending w) seq of
       None \<Rightarrow> (Some WalWriteFailed, w)
     | Some e \<Rightarrow>
        let (r, w) = wal_append env (we_type e) (rollback_json seq (we_type e) reason)
                       (we_correlation_id e) (we_strategy_id e) w
        in if \<not> r then (Some WalWriteFailed, w)
           else (None, w\<lparr>wl_pending := AList.delete seq (wl_pending w)\<rparr>))"

definition write_checkpoint :: "write_env \<Rightarrow> string \<Rightarrow> wal_writer \<Rightarrow> tb_error option \<times> wal_writer" where
  "write_checkpoint env snapshot_json w =
    (let seq = wl_sequence w + 1;
         (r, w) = wal_append env WalRecoveryCheckpoint (wrap_wal_json seq WalRecoveryCheckpoint True snapshot_json) [] [] w
     in if \<not> r then (Some WalWriteFailed, w) else (None, w\<lparr>wl_sequence := seq\<rparr>))"

definition wal_flush :: "tb_error option \<Rightarrow> tb_error option" where
  "wal_flush r = (if r \<noteq> None then Some PersistenceError else None)"

section \<open>Searching\<close>

type_synonym json_object = "(string \<times> json) list"

text \<open>\<^verbatim>\<open>contains(key) && at(key).as_bool()\<close>; \<open>None\<close> where it throws.\<close>

definition flag_of :: "string \<Rightarrow> json_object \<Rightarrow> bool option" where
  "flag_of key obj = (case map_of obj key of None \<Rightarrow> Some False | Some (JBool b) \<Rightarrow> Some b | _ \<Rightarrow> None)"

definition seq_of :: "json_object \<Rightarrow> nat option" where
  "seq_of obj = (case map_of obj ''wal_seq'' of Some (JInt n) \<Rightarrow> Some (nat (n mod 2 ^ 64)) | _ \<Rightarrow> None)"

text \<open>Number and end of a record: \<open>True\<close> when it is a commit or a rollback.\<close>

definition record_flags :: "json_object \<Rightarrow> (nat \<times> bool) option" where
  "record_flags obj =
    Option.bind (seq_of obj) (\<lambda>n. Option.bind (flag_of ''committed'' obj) (\<lambda>c.
      Option.bind (flag_of ''rollback'' obj) (\<lambda>r. Some (n, c \<or> r))))"

definition parsed_object :: "(string \<Rightarrow> json option) \<Rightarrow> string \<Rightarrow> json_object option" where
  "parsed_object parse payload = Option.bind (parse payload) if_object"

text \<open>The two scans; the outer \<open>None\<close> is a corrupted record, the inner one a record of no interest.\<close>

definition resolved_in :: "(string \<Rightarrow> json option) \<Rightarrow> journal_entry \<Rightarrow> nat option option" where
  "resolved_in parse je =
    (if je_payload_json je = [] then Some None
     else case parsed_object parse (je_payload_json je) of
       None \<Rightarrow> None
     | Some obj \<Rightarrow>
        if map_of obj ''wal_seq'' = None then Some None
        else case record_flags obj of None \<Rightarrow> None | Some (n, ended) \<Rightarrow> Some (if ended then Some n else None))"

definition string_field :: "string \<Rightarrow> json_object \<Rightarrow> string option" where
  "string_field key obj = (case map_of obj key of None \<Rightarrow> Some [] | Some v \<Rightarrow> if_string v)"

definition data_fields :: "json_object \<Rightarrow> (string \<times> string) option" where
  "data_fields obj =
    (case Option.bind (map_of obj ''data'') if_object of
       None \<Rightarrow> Some ([], [])
     | Some d \<Rightarrow> Option.bind (string_field ''symbol'' d) (\<lambda>s. map_option (\<lambda>i. (s, i)) (string_field ''order_id'' d)))"

definition uncommitted_in ::
  "(string \<Rightarrow> json option) \<Rightarrow> wal_entry_type \<Rightarrow> nat list \<Rightarrow> journal_entry \<Rightarrow> wal_entry option option" where
  "uncommitted_in parse uninit resolved je =
    (if je_payload_json je = [] then Some None
     else case parsed_object parse (je_payload_json je) of
       None \<Rightarrow> None
     | Some obj \<Rightarrow>
        if map_of obj ''wal_seq'' = None \<or> map_of obj ''wal_type'' = None then Some None
        else case record_flags obj of
          None \<Rightarrow> None
        | Some (n, ended) \<Rightarrow>
            if ended \<or> List.member resolved n then Some None
            else case data_fields obj of
              None \<Rightarrow> None
            | Some (s, oid) \<Rightarrow>
                Some (Some \<lparr>we_sequence = n, we_type = uninit, we_payload_json = je_payload_json je,
                  we_correlation_id = [], we_order_id = oid, we_symbol = s, we_strategy_id = [],
                  we_written_at = 0, we_committed = False\<rparr>))"

definition found :: "'a option option list \<Rightarrow> 'a list" where
  "found rs = List.map_filter (\<lambda>r. case r of Some (Some x) \<Rightarrow> Some x | _ \<Rightarrow> None) rs"

definition scan_journal ::
  "(string \<Rightarrow> json option) \<Rightarrow> wal_entry_type \<Rightarrow> journal_entry list \<Rightarrow> tb_error + wal_entry list" where
  "scan_journal parse uninit js =
    (let rs = map (resolved_in parse) js; us = map (uncommitted_in parse uninit (found rs)) js
     in if List.member rs None \<or> List.member us None then Inl PersistenceError else Inr (found us))"

text \<open>\<open>readable\<close> says whether the query of the journal succeeds.\<close>

definition find_uncommitted ::
  "(string \<Rightarrow> json option) \<Rightarrow> wal_entry_type \<Rightarrow> bool \<Rightarrow> wal_writer \<Rightarrow> tb_error + wal_entry list" where
  "find_uncommitted parse uninit readable w =
    (let open_entries = filter (\<lambda>e. \<not> we_committed e) (map snd (wl_pending w))
     in if open_entries \<noteq> [] then Inr open_entries
        else if \<not> readable then Inr []
        else scan_journal parse uninit (journal_query 0 max_int64 None (wl_journal w)))"

end
