(* ===== verification/Wal_Laws.thy ===== *)
theory Wal_Laws
  imports Wal_Writer
begin

text \<open>
  Laws of the write-ahead log: the log as a list of records, the intents without an end as a
  specification, and what a restart finds.
\<close>

section \<open>Records and their texts\<close>

datatype wal_record =
    RIntent nat wal_entry_type string
  | RCommit nat wal_entry_type string
  | RRollback nat wal_entry_type string
  | RCheckpoint nat string

fun record_seq :: "wal_record \<Rightarrow> nat" where
  "record_seq (RIntent n _ _) = n"
| "record_seq (RCommit n _ _) = n"
| "record_seq (RRollback n _ _) = n"
| "record_seq (RCheckpoint n _) = n"

fun ends :: "wal_record \<Rightarrow> bool" where
  "ends (RIntent _ _ _) = False"
| "ends _ = True"

fun record_text :: "wal_record \<Rightarrow> string" where
  "record_text (RIntent n ty p) = wrap_wal_json n ty False p"
| "record_text (RCommit n ty p) = wrap_wal_json n ty True p"
| "record_text (RRollback n ty reason) = rollback_json n ty reason"
| "record_text (RCheckpoint n p) = wrap_wal_json n WalRecoveryCheckpoint True p"

text \<open>
  What the JSON reader is trusted with: the text of a record comes back as the object that it
  spells, for a payload that is itself a JSON text without a symbol or order id of another kind, and a
  reason without quotes.
\<close>

fun record_object :: "json \<Rightarrow> wal_record \<Rightarrow> json_object" where
  "record_object v (RRollback n ty reason) =
    [(''wal_seq'', JInt (int n)), (''wal_type'', JString (wal_entry_type_to_string ty)), (''rollback'', JBool True),
     (''reason'', JString reason)]"
| "record_object v (RIntent n ty p) =
    [(''wal_seq'', JInt (int n)), (''wal_type'', JString (wal_entry_type_to_string ty)), (''committed'', JBool False), (''data'', v)]"
| "record_object v (RCommit n ty p) =
    [(''wal_seq'', JInt (int n)), (''wal_type'', JString (wal_entry_type_to_string ty)), (''committed'', JBool True), (''data'', v)]"
| "record_object v (RCheckpoint n p) =
    [(''wal_seq'', JInt (int n)), (''wal_type'', JString (wal_entry_type_to_string WalRecoveryCheckpoint)),
     (''committed'', JBool True), (''data'', v)]"

definition reads_back :: "(string \<Rightarrow> json option) \<Rightarrow> wal_record \<Rightarrow> bool" where
  "reads_back parse r \<longleftrightarrow> record_seq r < 2 ^ 63 \<and>
    (\<exists>v. parse (record_text r) = Some (JObject (record_object v r)) \<and> data_fields [(''data'', v)] \<noteq> None)"

lemma record_text_nonempty [simp]: "record_text r \<noteq> []"
  by (cases r) (simp_all add: wrap_wal_json_def rollback_json_def)

lemma flags_of_record:
  "record_seq r < 2 ^ 63 \<Longrightarrow> record_flags (record_object v r) = Some (record_seq r, ends r)"
  by (cases r) (simp_all add: record_flags_def seq_of_def flag_of_def)

lemma object_keys:
  "map_of (record_object v r) ''wal_seq'' \<noteq> None" "map_of (record_object v r) ''wal_type'' \<noteq> None"
  by (cases r; simp)+

lemma object_data: "\<not> ends r \<Longrightarrow> data_fields (record_object v r) = data_fields [(''data'', v)]"
  by (cases r) (simp_all add: data_fields_def)

lemma resolved_record:
  assumes "reads_back parse r" and "je_payload_json je = record_text r"
  shows "resolved_in parse je = Some (if ends r then Some (record_seq r) else None)"
  using assms flags_of_record object_keys
  by (auto simp: resolved_in_def parsed_object_def reads_back_def)

lemma uncommitted_record:
  assumes "reads_back parse r" and "je_payload_json je = record_text r"
  shows "ends r \<or> record_seq r \<in> set ns \<Longrightarrow> uncommitted_in parse uninit ns je = Some None"
    and "\<not> (ends r \<or> record_seq r \<in> set ns) \<Longrightarrow>
      \<exists>e. we_sequence e = record_seq r \<and> uncommitted_in parse uninit ns je = Some (Some e)"
proof -
  obtain v where v: "parse (record_text r) = Some (JObject (record_object v r))" "data_fields [(''data'', v)] \<noteq> None"
    and n: "record_seq r < 2 ^ 63"
    using assms(1) by (auto simp: reads_back_def)
  have o: "parsed_object parse (je_payload_json je) = Some (record_object v r)"
    by (simp add: parsed_object_def v assms(2))
  show "ends r \<or> record_seq r \<in> set ns \<Longrightarrow> uncommitted_in parse uninit ns je = Some None"
    using o object_keys [of v r] by (auto simp: uncommitted_in_def assms(2) flags_of_record [OF n])
  show "\<not> (ends r \<or> record_seq r \<in> set ns) \<Longrightarrow>
      \<exists>e. we_sequence e = record_seq r \<and> uncommitted_in parse uninit ns je = Some (Some e)"
    using o object_keys [of v r] object_data [of r v] v(2)
    by (auto simp: uncommitted_in_def assms(2) flags_of_record [OF n] split: option.splits)
qed

section \<open>Intents without an end\<close>

definition ended_seqs :: "wal_record list \<Rightarrow> nat list" where
  "ended_seqs rs = map record_seq (filter ends rs)"

definition open_seqs :: "wal_record list \<Rightarrow> nat list" where
  "open_seqs rs = filter (\<lambda>n. n \<notin> set (ended_seqs rs)) (map record_seq (filter (Not \<circ> ends) rs))"

lemma found_simps [simp]:
  "found [] = []" "found (Some None # rs) = found rs" "found (Some (Some x) # rs) = x # found rs"
  by (simp_all add: found_def)

lemma scan_resolved:
  assumes "list_all2 (\<lambda>je r. je_payload_json je = record_text r) js rs" and "list_all (reads_back parse) rs"
  shows "found (map (resolved_in parse) js) = ended_seqs rs \<and> None \<notin> set (map (resolved_in parse) js)"
  using assms by (induction rule: list_all2_induct) (auto simp: resolved_record ended_seqs_def)

lemma scan_open:
  assumes "list_all2 (\<lambda>je r. je_payload_json je = record_text r) js rs" and "list_all (reads_back parse) rs"
  shows "map we_sequence (found (map (uncommitted_in parse uninit ns) js)) =
      filter (\<lambda>n. n \<notin> set ns) (map record_seq (filter (Not \<circ> ends) rs)) \<and>
    None \<notin> set (map (uncommitted_in parse uninit ns) js)"
  using assms
proof (induction rule: list_all2_induct)
  case (Cons je js r rs)
  then have r: "reads_back parse r" "je_payload_json je = record_text r" by simp_all
  show ?case
  proof (cases "ends r \<or> record_seq r \<in> set ns")
    case True
    then show ?thesis using Cons uncommitted_record(1) [OF r True] by auto
  next
    case False
    then show ?thesis using Cons uncommitted_record(2) [OF r False, of uninit] by auto
  qed
qed simp

text \<open>A scan of records that the reader reads finds the intents without an end, in their order.\<close>

lemma scan_finds_open:
  assumes "list_all2 (\<lambda>je r. je_payload_json je = record_text r) js rs" and "list_all (reads_back parse) rs"
  shows "map_sum id (map we_sequence) (scan_journal parse uninit js) = Inr (open_seqs rs)"
  using scan_resolved [OF assms] scan_open [OF assms, of uninit "ended_seqs rs"]
  by (simp add: scan_journal_def Let_def open_seqs_def)


section \<open>The writer keeps the specification\<close>

record wal_spec =
  sp_seq :: nat
  sp_open :: "(nat \<times> wal_entry_type \<times> string) list"
  sp_log :: "wal_record list"

definition spec_init :: wal_spec where
  "spec_init = \<lparr>sp_seq = 0, sp_open = [], sp_log = []\<rparr>"

datatype wal_op =
    OpIntent write_env timestamp intent_args
  | OpCommit write_env nat
  | OpRollback write_env nat string
  | OpCheckpoint write_env string

fun wal_exec :: "wal_op \<Rightarrow> wal_writer \<Rightarrow> wal_writer" where
  "wal_exec (OpIntent env t a) w = snd (write_intent env t a w)"
| "wal_exec (OpCommit env n) w = snd (wal_commit env n w)"
| "wal_exec (OpRollback env n reason) w = snd (wal_rollback env n reason w)"
| "wal_exec (OpCheckpoint env p) w = snd (write_checkpoint env p w)"

definition spec_end :: "bool \<Rightarrow> nat \<Rightarrow> (wal_entry_type \<Rightarrow> string \<Rightarrow> wal_record) \<Rightarrow> wal_spec \<Rightarrow> wal_spec" where
  "spec_end ok n mk_record sp =
    (case map_of (sp_open sp) n of
       None \<Rightarrow> sp
     | Some (ty, p) \<Rightarrow>
        if ok then sp\<lparr>sp_open := AList.delete n (sp_open sp), sp_log := sp_log sp @ [mk_record ty p]\<rparr> else sp)"

fun wal_spec_step :: "wal_op \<Rightarrow> wal_spec \<Rightarrow> wal_spec" where
  "wal_spec_step (OpIntent env t a) sp =
    (if fst env then
       sp\<lparr>sp_seq := sp_seq sp + 1, sp_open := sp_open sp @ [(sp_seq sp + 1, ia_type a, ia_payload_json a)],
          sp_log := sp_log sp @ [RIntent (sp_seq sp + 1) (ia_type a) (ia_payload_json a)]\<rparr>
     else sp)"
| "wal_spec_step (OpCommit env n) sp = spec_end (fst env) n (RCommit n) sp"
| "wal_spec_step (OpRollback env n reason) sp = spec_end (fst env) n (\<lambda>ty p. RRollback n ty reason) sp"
| "wal_spec_step (OpCheckpoint env p) sp =
    (if fst env then sp\<lparr>sp_seq := sp_seq sp + 1, sp_log := sp_log sp @ [RCheckpoint (sp_seq sp + 1) p]\<rparr> else sp)"

fun write_time :: "wal_op \<Rightarrow> timestamp" where
  "write_time (OpIntent env _ _) = snd env"
| "write_time (OpCommit env _) = snd env"
| "write_time (OpRollback env _ _) = snd env"
| "write_time (OpCheckpoint env _) = snd env"

definition in_epoch :: "wal_op \<Rightarrow> wal_spec \<Rightarrow> bool" where
  "in_epoch op sp \<longleftrightarrow> 0 \<le> write_time op \<and> write_time op \<le> max_int64"

abbreviation entry_view :: "nat \<times> wal_entry \<Rightarrow> nat \<times> wal_entry_type \<times> string" where
  "entry_view \<equiv> \<lambda>(n, e). (n, we_type e, we_payload_json e)"

definition wal_rel :: "wal_writer \<Rightarrow> wal_spec \<Rightarrow> bool" where
  "wal_rel w sp \<longleftrightarrow> journal_ok (wl_journal w) \<and> wl_sequence w = sp_seq sp \<and>
    map entry_view (wl_pending w) = sp_open sp \<and>
    list_all2 (\<lambda>je r. je_payload_json je = record_text r) (st_journal (ej_storage (wl_journal w))) (sp_log sp)"

definition spec_ok :: "wal_spec \<Rightarrow> bool" where
  "spec_ok sp \<longleftrightarrow> map fst (sp_open sp) = open_seqs (sp_log sp) \<and> (\<forall>r\<in>set (sp_log sp). record_seq r \<le> sp_seq sp)"

lemma view_delete: "map entry_view (AList.delete n xs) = AList.delete n (map entry_view xs)"
  by (induction xs) auto

lemma view_update: "map_of xs n = Some e \<Longrightarrow> map entry_view (AList.update n (e\<lparr>we_committed := b\<rparr>) xs) = map entry_view xs"
  by (induction xs) auto

lemma view_map_of: "map_of (map entry_view xs) n = map_option (\<lambda>e. (we_type e, we_payload_json e)) (map_of xs n)"
  by (induction xs) auto

lemma list_all2_snoc: "list_all2 P xs ys \<Longrightarrow> P x y \<Longrightarrow> list_all2 P (xs @ [x]) (ys @ [y])"
  by (simp add: list_all2_appendI)

abbreviation journal_records :: "wal_writer \<Rightarrow> wal_record list \<Rightarrow> bool" where
  "journal_records w \<equiv> list_all2 (\<lambda>je r. je_payload_json je = record_text r) (st_journal (ej_storage (wl_journal w)))"

lemma wal_append_rel:
  assumes "journal_ok (wl_journal w)" and "0 \<le> snd env" and "snd env \<le> max_int64" and "journal_records w rs"
  shows "fst (wal_append env ty p c s w) = fst env"
    and "journal_ok (wl_journal (snd (wal_append env ty p c s w)))"
    and "wl_pending (snd (wal_append env ty p c s w)) = wl_pending w"
    and "wl_sequence (snd (wal_append env ty p c s w)) = wl_sequence w"
    and "\<not> fst env \<Longrightarrow> snd (wal_append env ty p c s w) = w"
    and "fst env \<Longrightarrow> journal_records (snd (wal_append env ty (record_text r) c s w)) (rs @ [r])"
  using assms journal_ok_append [OF assms(1-3)]
  by (simp_all add: wal_append_def case_prod_unfold journal_append_fields list_all2_snoc)

lemma text_records:
  "wrap_wal_json n ty False p = record_text (RIntent n ty p)"
  "wrap_wal_json n ty True p = record_text (RCommit n ty p)"
  "rollback_json n ty reason = record_text (RRollback n ty reason)"
  by simp_all

lemma checkpoint_record: "wrap_wal_json n WalRecoveryCheckpoint True p = record_text (RCheckpoint n p)"
  by simp

lemma spec_ok_fresh: "spec_ok sp \<Longrightarrow> sp_seq sp + 1 \<notin> set (map fst (sp_open sp)) \<and> sp_seq sp + 1 \<notin> set (ended_seqs (sp_log sp))"
  by (auto simp: spec_ok_def open_seqs_def ended_seqs_def)

lemma intent_rel:
  assumes "wal_rel w sp" and "0 \<le> snd env" "snd env \<le> max_int64" and "sp_seq sp + 1 \<notin> set (map fst (sp_open sp))"
  shows "wal_rel (wal_exec (OpIntent env t a) w) (wal_spec_step (OpIntent env t a) sp)"
proof -
  have r: "journal_ok (wl_journal w)" and o: "map entry_view (wl_pending w) = sp_open sp"
    and l: "journal_records w (sp_log sp)" and n: "wl_sequence w = sp_seq sp"
    using assms by (auto simp: wal_rel_def)
  have "map fst (wl_pending w) = map fst (sp_open sp)"
    using o [symmetric] by (simp add: case_prod_unfold comp_def)
  then have "al_emplace (sp_seq sp + 1) e (wl_pending w) = wl_pending w @ [(sp_seq sp + 1, e)]" for e
    using assms(4) by (simp add: al_emplace_def al_contains_def map_of_eq_None_iff flip: set_map)
  then show ?thesis
    using wal_append_rel [OF r assms(2,3) l] r l o n
    by (auto simp: write_intent_def case_prod_unfold Let_def wal_rel_def text_records simp del: record_text.simps)
qed

lemma checkpoint_rel:
  assumes "wal_rel w sp" and "0 \<le> snd env" "snd env \<le> max_int64"
  shows "wal_rel (wal_exec (OpCheckpoint env p) w) (wal_spec_step (OpCheckpoint env p) sp)"
proof -
  have r: "journal_ok (wl_journal w)" and l: "journal_records w (sp_log sp)"
    using assms by (auto simp: wal_rel_def)
  show ?thesis
    using wal_append_rel [OF r assms(2,3) l] assms(1)
    by (auto simp: write_checkpoint_def case_prod_unfold Let_def wal_rel_def checkpoint_record simp del: record_text.simps)
qed

lemma commit_rel:
  assumes "wal_rel w sp" and "0 \<le> snd env" "snd env \<le> max_int64"
  shows "wal_rel (wal_exec (OpCommit env n) w) (wal_spec_step (OpCommit env n) sp)"
proof (cases "map_of (wl_pending w) n")
  case None
  then have "map_of (sp_open sp) n = None"
    using assms(1) view_map_of [of "wl_pending w" n] by (simp add: wal_rel_def)
  then show ?thesis using assms(1) None by (simp add: wal_commit_def spec_end_def)
next
  case (Some e)
  let ?w = "w\<lparr>wl_pending := AList.update n (e\<lparr>we_committed := True\<rparr>) (wl_pending w)\<rparr>"
  have r: "journal_ok (wl_journal ?w)" and l: "journal_records ?w (sp_log sp)"
    using assms by (auto simp: wal_rel_def)
  have m: "map_of (sp_open sp) n = Some (we_type e, we_payload_json e)"
    using assms(1) view_map_of [of "wl_pending w" n] Some by (simp add: wal_rel_def)
  show ?thesis
    using wal_append_rel [OF r assms(2,3) l] assms(1) m Some
    by (auto simp: wal_commit_def case_prod_unfold Let_def wal_rel_def spec_end_def view_delete [unfolded case_prod_unfold]
        view_update [unfolded case_prod_unfold] text_records simp del: record_text.simps)
qed

lemma rollback_rel:
  assumes "wal_rel w sp" and "0 \<le> snd env" "snd env \<le> max_int64"
  shows "wal_rel (wal_exec (OpRollback env n reason) w) (wal_spec_step (OpRollback env n reason) sp)"
proof (cases "map_of (wl_pending w) n")
  case None
  then have "map_of (sp_open sp) n = None"
    using assms(1) view_map_of [of "wl_pending w" n] by (simp add: wal_rel_def)
  then show ?thesis using assms(1) None by (simp add: wal_rollback_def spec_end_def)
next
  case (Some e)
  have r: "journal_ok (wl_journal w)" and l: "journal_records w (sp_log sp)"
    using assms by (auto simp: wal_rel_def)
  have m: "map_of (sp_open sp) n = Some (we_type e, we_payload_json e)"
    using assms(1) view_map_of [of "wl_pending w" n] Some by (simp add: wal_rel_def)
  show ?thesis
    using wal_append_rel [OF r assms(2,3) l] assms(1) m Some
    by (auto simp: wal_rollback_def case_prod_unfold Let_def wal_rel_def spec_end_def
        view_delete [unfolded case_prod_unfold] text_records simp del: record_text.simps)
qed


lemma open_seqs_intent: "n \<notin> set (ended_seqs rs) \<Longrightarrow> open_seqs (rs @ [RIntent n ty p]) = open_seqs rs @ [n]"
  by (simp add: open_seqs_def ended_seqs_def)

lemma open_seqs_end: "ends r \<Longrightarrow> open_seqs (rs @ [r]) = filter (\<lambda>n. n \<noteq> record_seq r) (open_seqs rs)"
  by (auto simp: open_seqs_def ended_seqs_def intro: filter_cong)

lemma spec_end_ok:
  assumes "spec_ok sp" and "\<And>ty p. record_seq (mk_record ty p) = n" and "\<And>ty p. ends (mk_record ty p)"
  shows "spec_ok (spec_end ok n mk_record sp)"
proof (cases "map_of (sp_open sp) n")
  case (Some v)
  then have "n \<in> set (map fst (sp_open sp))"
    by (auto dest: map_of_SomeD intro: rev_image_eqI)
  then have "n \<in> set (open_seqs (sp_log sp))"
    using assms(1) by (metis spec_ok_def)
  then have "n \<le> sp_seq sp" using assms(1) by (auto simp: spec_ok_def open_seqs_def)
  moreover have "map fst (AList.delete n (sp_open sp)) = filter (\<lambda>k. k \<noteq> n) (map fst (sp_open sp))"
    by (auto simp: AList.delete_eq filter_map comp_def case_prod_unfold intro!: arg_cong [where f = "map fst"] filter_cong)
  ultimately show ?thesis
    using assms Some by (simp add: spec_end_def spec_ok_def open_seqs_end case_prod_unfold)
qed (simp add: spec_end_def assms)

lemma spec_step_ok: "spec_ok sp \<Longrightarrow> spec_ok (wal_spec_step op sp)"
proof (cases op)
  case (OpIntent env t a)
  then show "spec_ok sp \<Longrightarrow> ?thesis"
    using spec_ok_fresh [of sp] by (auto simp: spec_ok_def open_seqs_intent le_SucI)
next
  case (OpCheckpoint env p)
  assume ok: "spec_ok sp"
  then have "filter (\<lambda>n. n \<noteq> Suc (sp_seq sp)) (open_seqs (sp_log sp)) = open_seqs (sp_log sp)"
    using spec_ok_fresh [OF ok] by (auto simp: spec_ok_def intro: filter_True)
  then show ?thesis using ok OpCheckpoint by (auto simp: spec_ok_def open_seqs_end le_SucI)
qed (simp_all add: spec_end_ok)

text \<open>The writer simulates the specification; numbers stay fresh, so the bookkeeping never collides.\<close>

definition wal_sim :: "wal_writer \<Rightarrow> wal_spec \<Rightarrow> bool" where
  "wal_sim w sp \<longleftrightarrow> wal_rel w sp \<and> spec_ok sp"

interpretation wl: simulation_inv wal_sim wal_exec wal_spec_step in_epoch spec_ok
proof unfold_locales
  fix w sp op assume a: "wal_sim w sp" "in_epoch op sp"
  show "wal_sim (wal_exec op w) (wal_spec_step op sp)"
  proof (cases op)
    case (OpIntent env t a)
    then show ?thesis
      using a intent_rel [of w sp env t a] spec_step_ok [of sp op] spec_ok_fresh [of sp] by (simp add: wal_sim_def in_epoch_def)
  next
    case (OpCommit env n)
    then show ?thesis
      using a commit_rel [of w sp env n] spec_step_ok [of sp op] by (simp add: wal_sim_def in_epoch_def)
  next
    case (OpRollback env n reason)
    then show ?thesis
      using a rollback_rel [of w sp env n reason] spec_step_ok [of sp op] by (simp add: wal_sim_def in_epoch_def)
  next
    case (OpCheckpoint env p)
    then show ?thesis
      using a checkpoint_rel [of w sp env p] spec_step_ok [of sp op] by (simp add: wal_sim_def in_epoch_def)
  qed
qed (simp add: spec_step_ok)

lemma run_pre_epoch:
  "list_all (\<lambda>op. 0 \<le> write_time op \<and> write_time op \<le> max_int64) ops \<Longrightarrow> run_pre in_epoch wal_spec_step ops sp"
  by (induction ops arbitrary: sp) (simp_all add: in_epoch_def)

definition fresh_wal :: wal_writer where
  "fresh_wal = wal_open (event_journal_open True storage_init)"

text \<open>A crash loses what the process knew; the new process opens the journal on the same storage.\<close>

definition restart :: "wal_writer \<Rightarrow> wal_writer" where
  "restart w = wal_open (event_journal_open True (ej_storage (wl_journal w)))"

lemma fresh_sim: "wal_sim fresh_wal spec_init"
  by (simp add: wal_sim_def wal_rel_def spec_ok_def spec_init_def fresh_wal_def wal_open_def open_seqs_def
      event_journal_open_def storage_init_def journal_ok_def ended_seqs_def)

lemma restart_scan:
  assumes "journal_ok (wl_journal w)" and "journal_records w rs" and "list_all (reads_back parse) rs"
  shows "map_sum id (map we_sequence) (find_uncommitted parse uninit True (restart w)) = Inr (open_seqs rs)"
  using scan_finds_open [OF assms(2,3)] query_all [OF assms(1)]
  by (simp add: find_uncommitted_def restart_def wal_open_def journal_query_def event_journal_open_def)

lemma restart_rel: "wal_rel w sp \<Longrightarrow> wal_rel (restart w) \<lparr>sp_seq = 0, sp_open = [], sp_log = sp_log sp\<rparr>"
  using journal_ok_restart [of "wl_journal w"]
  by (simp add: wal_rel_def restart_def wal_open_def) (simp add: event_journal_open_def)

text \<open>
  C15. Recovery is exact: whatever intents, commits, rollbacks and checkpoints a process made, each write
  with its own answer, a crash at any point loses nothing.  The next process finds, in the
  order they were written, the intents that were accepted and neither committed nor rolled back.
\<close>

theorem crash_recovery_exact:
  assumes "list_all (\<lambda>op. 0 \<le> write_time op \<and> write_time op \<le> max_int64) ops"
    and "sp = fold wal_spec_step ops spec_init" and "list_all (reads_back parse) (sp_log sp)"
  shows "map_sum id (map we_sequence) (find_uncommitted parse uninit True (restart (fold wal_exec ops fresh_wal))) =
    Inr (map fst (sp_open sp))"
proof -
  have "wal_sim (fold wal_exec ops fresh_wal) sp"
    unfolding assms(2) by (rule wl.sim_run [OF fresh_sim run_pre_epoch [OF assms(1)]])
  then show ?thesis
    using restart_scan [of "fold wal_exec ops fresh_wal" "sp_log sp" parse uninit] assms(3)
    by (simp add: wal_sim_def wal_rel_def spec_ok_def)
qed

section \<open>Where recovery falls short\<close>

abbreviation done_at :: "timestamp \<Rightarrow> write_env" where
  "done_at t \<equiv> (True, t)"

text \<open>
  The journal's numbering survives a restart, the log's does not.  An intent of the second process
  reuses the number of a committed one, so that a crash before its end makes it disappear.
\<close>

theorem restart_hides_intent:
  assumes "list_all (reads_back parse)
      [RIntent 1 (ia_type a) (ia_payload_json a), RCommit 1 (ia_type a) (ia_payload_json a),
       RIntent 1 (ia_type b) (ia_payload_json b)]"
    and "w = restart (fold wal_exec [OpIntent (done_at 0) 0 a, OpCommit (done_at 1) 1] fresh_wal)"
  shows "fst (write_intent (done_at 2) 2 b w) = Inr 1 \<and>
    find_uncommitted parse uninit True (restart (snd (write_intent (done_at 2) 2 b w))) = Inr []"
proof -
  let ?ops = "[OpIntent (done_at 0) 0 a, OpCommit (done_at 1) 1]"
  have "wal_sim (fold wal_exec ?ops fresh_wal) (fold wal_spec_step ?ops spec_init)"
    by (rule wl.sim_run [OF fresh_sim run_pre_epoch]) (simp add: max_int64_def)
  moreover have "sp_log (fold wal_spec_step ?ops spec_init) =
      [RIntent 1 (ia_type a) (ia_payload_json a), RCommit 1 (ia_type a) (ia_payload_json a)]"
    by (simp add: spec_init_def spec_end_def)
  ultimately have w: "wal_rel w \<lparr>sp_seq = 0, sp_open = [], sp_log =
      [RIntent 1 (ia_type a) (ia_payload_json a), RCommit 1 (ia_type a) (ia_payload_json a)]\<rparr>"
    using restart_rel [of "fold wal_exec ?ops fresh_wal" "fold wal_spec_step ?ops spec_init"] assms(2)
    by (simp add: wal_sim_def del: fold_simps)
  let ?wb = "snd (write_intent (done_at 2) 2 b w)"
  have "wal_rel ?wb \<lparr>sp_seq = 1, sp_open = [(1, ia_type b, ia_payload_json b)], sp_log =
      [RIntent 1 (ia_type a) (ia_payload_json a), RCommit 1 (ia_type a) (ia_payload_json a),
       RIntent 1 (ia_type b) (ia_payload_json b)]\<rparr>"
    using intent_rel [OF w, of "done_at 2" 2 b] by (simp add: max_int64_def)
  then have "map_sum id (map we_sequence) (find_uncommitted parse uninit True (restart ?wb)) = Inr []"
    using restart_scan [OF _ _ assms(1), of ?wb uninit] by (simp add: wal_rel_def open_seqs_def ended_seqs_def)
  moreover have "fst (write_intent (done_at 2) 2 b w) = Inr 1"
    using w by (simp add: write_intent_def wal_append_def journal_append_def append_journal_def Let_def wal_rel_def)
  ultimately show ?thesis
    by (cases "find_uncommitted parse uninit True (restart ?wb)") simp_all
qed


text \<open>
  One record that the reader rejects, such as a rollback whose reason has a quote in it, blocks
  recovery for good: records are never removed, so every later search after a restart fails.
\<close>

theorem corrupted_record_blocks_recovery:
  assumes "wal_rel w sp" and "je \<in> set (st_journal (ej_storage (wl_journal w)))"
    and "je_payload_json je \<noteq> []" and "parsed_object parse (je_payload_json je) = None"
    and "list_all (\<lambda>op. 0 \<le> write_time op \<and> write_time op \<le> max_int64) ops" and "spec_ok sp"
  shows "find_uncommitted parse uninit True (restart (fold wal_exec ops w)) = Inl PersistenceError"
proof -
  let ?w = "fold wal_exec ops w"
  have step: "set (st_journal (ej_storage (wl_journal w))) \<subseteq> set (st_journal (ej_storage (wl_journal (wal_exec op w))))" for op w
    by (cases op) (auto simp: write_intent_def wal_commit_def wal_rollback_def write_checkpoint_def wal_append_def
        journal_append_def append_journal_def Let_def case_prod_unfold split: option.splits)
  have "set (st_journal (ej_storage (wl_journal w))) \<subseteq> set (st_journal (ej_storage (wl_journal ?w)))"
    using step by (induction ops arbitrary: w) (simp, metis fold_simps(2) order_trans)
  then have m: "je \<in> set (st_journal (ej_storage (wl_journal ?w)))" using assms(2) by blast
  have "wal_sim ?w (fold wal_spec_step ops sp)"
    by (rule wl.sim_run [OF _ run_pre_epoch [OF assms(5)]]) (simp add: wal_sim_def assms(1,6))
  then have q: "query_journal 0 max_int64 None (ej_storage (wl_journal ?w)) = st_journal (ej_storage (wl_journal ?w))"
    by (simp add: wal_sim_def wal_rel_def query_all)
  have "resolved_in parse je = None" using assms(3,4) by (simp add: resolved_in_def)
  then have "None \<in> set (map (resolved_in parse) (st_journal (ej_storage (wl_journal ?w))))"
    using m by (metis image_eqI list.set_map)
  then show ?thesis
    by (simp add: find_uncommitted_def restart_def wal_open_def journal_query_def event_journal_open_def q
        scan_journal_def Let_def)
qed

text \<open>
  A commit whose write fails marks the entry in memory first: while another intent is open, the search
  in the running process no longer reports it, though the log has it open.
\<close>

theorem failed_commit_hidden:
  fixes a b
  defines "ops \<equiv> [OpIntent (done_at 0) 0 a, OpIntent (done_at 1) 1 b, OpCommit (False, 2) 1]"
  shows "map_sum id (map we_sequence) (find_uncommitted parse uninit readable (fold wal_exec ops fresh_wal)) = Inr [2] \<and>
    map fst (sp_open (fold wal_spec_step ops spec_init)) = [1, 2]"
  unfolding ops_def
  by (simp add: write_intent_def wal_commit_def wal_append_def journal_append_def append_journal_def Let_def
      fresh_wal_def wal_open_def al_emplace_def al_contains_def find_uncommitted_def spec_init_def spec_end_def)

text \<open>When the query of the journal fails, the search answers that nothing is open.\<close>

theorem unreadable_journal_reports_nothing: "find_uncommitted parse uninit False (restart w) = Inr []"
  by (simp add: find_uncommitted_def restart_def wal_open_def)

section \<open>A log with an open intent\<close>

definition ex_args :: intent_args where
  "ex_args = \<lparr>ia_type = WalOrderIntent, ia_payload_json = ''{}'', ia_order_id = ''o1'', ia_symbol = ''BTCUSDT'',
     ia_strategy_id = ''scalp'', ia_correlation_id = ''c1''\<rparr>"

definition ex_records :: "wal_record list" where
  "ex_records = [RIntent 1 WalOrderIntent ''{}'', RIntent 2 WalOrderIntent ''{}'', RCommit 1 WalOrderIntent ''{}'']"

definition ex_parse :: "string \<Rightarrow> json option" where
  "ex_parse = map_of (map (\<lambda>r. (record_text r, JObject (record_object (JObject []) r))) ex_records)"

lemma ex_reads: "list_all (reads_back ex_parse) ex_records"
  unfolding ex_records_def ex_parse_def reads_back_def
  by (simp add: wrap_wal_json_def data_fields_def string_field_def)

theorem crash_recovery_exact_witness:
  "map_sum id (map we_sequence) (find_uncommitted ex_parse WalOrderIntent True
     (restart (fold wal_exec [OpIntent (done_at 0) 0 ex_args, OpIntent (done_at 1) 1 ex_args, OpCommit (done_at 2) 1]
       fresh_wal))) = Inr [2]"
proof -
  let ?ops = "[OpIntent (done_at 0) 0 ex_args, OpIntent (done_at 1) 1 ex_args, OpCommit (done_at 2) 1]"
  have s: "sp_log (fold wal_spec_step ?ops spec_init) = ex_records" "map fst (sp_open (fold wal_spec_step ?ops spec_init)) = [2]"
    by (simp_all add: spec_init_def spec_end_def ex_args_def ex_records_def)
  show ?thesis
    using crash_recovery_exact [of ?ops _ ex_parse WalOrderIntent, OF _ refl] ex_reads
    unfolding s by (simp add: max_int64_def del: fold_simps)
qed

theorem restart_hides_intent_witness:
  "find_uncommitted ex_parse WalOrderIntent True (restart (snd (write_intent (done_at 2) 2 ex_args
     (restart (fold wal_exec [OpIntent (done_at 0) 0 ex_args, OpCommit (done_at 1) 1] fresh_wal))))) = Inr []"
  using restart_hides_intent [of ex_parse ex_args ex_args, OF _ refl] ex_reads
  by (simp add: ex_args_def ex_records_def del: fold_simps)

theorem journal_ids_strictly_increase_witness:
  "sorted_wrt (<) (map je_sequence_id (st_journal (ej_storage (fold journal_exec
     [JAppend True 5 OrderEvent ''{}'' [] [] [], JRestart, JAppend False 6 OrderEvent ''{}'' [] [] [],
      JAppend True 7 OrderEvent ''{}'' [] [] []] (event_journal_open True storage_init)))))"
  by (rule journal_ids_strictly_increase) (simp add: max_int64_def)

end
