(* ===== verification/Reconciliation.thy ===== *)
theory Reconciliation
  imports Order_FSM Portfolio
begin

text \<open>
  The comparison of the bot's state with the exchange's
  (\<^verbatim>\<open>src/src/reconciliation/reconciliation_types.hpp\<close>, \<^verbatim>\<open>reconciliation_engine.{hpp,cpp}\<close>):
  orders, positions and the USDT balance, the resolution of what differs, and the runs that join
  them.  The answers of the exchange and the clock readings of a run are the record \<open>exchange_view\<close>;
  descriptions for people, metrics and log lines are left out.
\<close>

section \<open>Types\<close>

datatype reconciliation_status = RecSuccess | RecPartialMismatch | RecCriticalMismatch | RecFailed

datatype mismatch_type =
    OrderExistsOnlyOnExchange | OrderExistsOnlyLocally | StateMismatch | QuantityMismatch
  | PositionExistsOnlyOnExchange | PositionExistsOnlyLocally | BalanceMismatch

datatype resolution_action = SyncFromExchange | CancelOnExchange | CloseOnExchange | UpdateLocalState | AlertOperator | NoResolution

fun reconciliation_status_to_string :: "reconciliation_status \<Rightarrow> string" where
  "reconciliation_status_to_string RecSuccess = ''Success''"
| "reconciliation_status_to_string RecPartialMismatch = ''PartialMismatch''"
| "reconciliation_status_to_string RecCriticalMismatch = ''CriticalMismatch''"
| "reconciliation_status_to_string RecFailed = ''Failed''"

fun mismatch_type_to_string :: "mismatch_type \<Rightarrow> string" where
  "mismatch_type_to_string OrderExistsOnlyOnExchange = ''OrderExistsOnlyOnExchange''"
| "mismatch_type_to_string OrderExistsOnlyLocally = ''OrderExistsOnlyLocally''"
| "mismatch_type_to_string StateMismatch = ''StateMismatch''"
| "mismatch_type_to_string QuantityMismatch = ''QuantityMismatch''"
| "mismatch_type_to_string PositionExistsOnlyOnExchange = ''PositionExistsOnlyOnExchange''"
| "mismatch_type_to_string PositionExistsOnlyLocally = ''PositionExistsOnlyLocally''"
| "mismatch_type_to_string BalanceMismatch = ''BalanceMismatch''"

fun resolution_action_to_string :: "resolution_action \<Rightarrow> string" where
  "resolution_action_to_string SyncFromExchange = ''SyncFromExchange''"
| "resolution_action_to_string CancelOnExchange = ''CancelOnExchange''"
| "resolution_action_to_string CloseOnExchange = ''CloseOnExchange''"
| "resolution_action_to_string UpdateLocalState = ''UpdateLocalState''"
| "resolution_action_to_string AlertOperator = ''AlertOperator''"
| "resolution_action_to_string NoResolution = ''NoAction''"

record mismatch_record =
  mr_type :: mismatch_type
  mr_symbol :: symbol
  mr_order_id :: string
  mr_resolved_by :: resolution_action
  mr_resolved :: bool
  mr_detected_at :: timestamp
  mr_position_side :: "position_side option"

definition mismatch :: "mismatch_type \<Rightarrow> symbol \<Rightarrow> string \<Rightarrow> timestamp \<Rightarrow> position_side option \<Rightarrow> mismatch_record" where
  "mismatch ty s oid t ps =
    \<lparr>mr_type = ty, mr_symbol = s, mr_order_id = oid, mr_resolved_by = NoResolution, mr_resolved = False,
     mr_detected_at = t, mr_position_side = ps\<rparr>"

record reconciliation_run =
  rcn_status :: reconciliation_status
  rcn_mismatches :: "mismatch_record list"
  rcn_orders_reconciled :: int
  rcn_positions_reconciled :: int
  rcn_balances_checked :: int
  rcn_auto_resolved :: int
  rcn_operator_escalated :: int
  rcn_duration_ms :: int
  rcn_completed_at :: timestamp

definition default_reconciliation_run :: reconciliation_run where
  "default_reconciliation_run =
    \<lparr>rcn_status = RecSuccess, rcn_mismatches = [], rcn_orders_reconciled = 0, rcn_positions_reconciled = 0,
     rcn_balances_checked = 0, rcn_auto_resolved = 0, rcn_operator_escalated = 0, rcn_duration_ms = 0, rcn_completed_at = 0\<rparr>"

record exchange_order_info =
  eo_order_id :: string
  eo_client_order_id :: string
  eo_symbol :: symbol
  eo_side :: side
  eo_position_side :: position_side
  eo_trade_side :: trade_side
  eo_order_type :: order_type
  eo_price :: double
  eo_original_quantity :: double
  eo_filled_quantity :: double
  eo_status :: string
  eo_created_at :: timestamp

record exchange_balance_info =
  xb_symbol :: symbol
  xb_available :: double
  xb_frozen :: double
  xb_total_value_usd :: double

record exchange_position_info =
  xp_symbol :: symbol
  xp_side :: side
  xp_position_side :: position_side
  xp_size :: double
  xp_entry_price :: double
  xp_current_price :: double
  xp_notional_usd :: double
  xp_unrealized_pnl :: double

record reconciliation_config =
  rcf_auto_resolve_state_mismatches :: bool
  rcf_auto_cancel_orphan_orders :: bool
  rcf_auto_close_orphan_positions :: bool
  rcf_position_tolerance_pct :: double
  rcf_balance_tolerance_pct :: double
  rcf_max_auto_resolutions_per_run :: int

definition default_reconciliation_config :: reconciliation_config where
  "default_reconciliation_config =
    \<lparr>rcf_auto_resolve_state_mismatches = True, rcf_auto_cancel_orphan_orders = False,
     rcf_auto_close_orphan_positions = False, rcf_position_tolerance_pct = lit 0.5, rcf_balance_tolerance_pct = lit 1.0,
     rcf_max_auto_resolutions_per_run = 10\<rparr>"

record reconciliation_engine =
  rn_config :: reconciliation_config
  rn_last_result :: reconciliation_run

definition reconciliation_engine_init :: "reconciliation_config \<Rightarrow> reconciliation_engine" where
  "reconciliation_engine_init cfg = \<lparr>rn_config = cfg, rn_last_result = default_reconciliation_run\<rparr>"

text \<open>What the exchange answers to the queries of one run (\<open>None\<close> for an error) and the clock readings.\<close>

record exchange_view =
  xv_orders :: "exchange_order_info list option"
  xv_positions :: "exchange_position_info list option"
  xv_balances :: "exchange_balance_info list option"
  xv_start :: timestamp
  xv_orders_at :: timestamp
  xv_positions_at :: timestamp
  xv_balance_at :: timestamp
  xv_end :: timestamp


section \<open>Resolution\<close>

text \<open>A mismatch is marked with what the pipeline or the operator is to do; nothing is done here.\<close>

definition resolve_as :: "resolution_action \<Rightarrow> mismatch_record \<Rightarrow> bool \<times> mismatch_record" where
  "resolve_as a m = (True, m\<lparr>mr_resolved_by := a, mr_resolved := True\<rparr>)"

definition alert_operator :: "mismatch_record \<Rightarrow> bool \<times> mismatch_record" where
  "alert_operator m = (False, m\<lparr>mr_resolved_by := AlertOperator\<rparr>)"

definition try_auto_resolve :: "reconciliation_config \<Rightarrow> mismatch_record \<Rightarrow> bool \<times> mismatch_record" where
  "try_auto_resolve cfg m =
    (case mr_type m of
       StateMismatch \<Rightarrow> if rcf_auto_resolve_state_mismatches cfg then resolve_as SyncFromExchange m else alert_operator m
     | QuantityMismatch \<Rightarrow> if rcf_auto_resolve_state_mismatches cfg then resolve_as SyncFromExchange m else alert_operator m
     | OrderExistsOnlyOnExchange \<Rightarrow> if rcf_auto_cancel_orphan_orders cfg then resolve_as CancelOnExchange m else alert_operator m
     | OrderExistsOnlyLocally \<Rightarrow> resolve_as UpdateLocalState m
     | PositionExistsOnlyOnExchange \<Rightarrow> if rcf_auto_close_orphan_positions cfg then resolve_as CloseOnExchange m else alert_operator m
     | PositionExistsOnlyLocally \<Rightarrow> resolve_as UpdateLocalState m
     | BalanceMismatch \<Rightarrow> alert_operator m)"

fun auto_resolve_loop :: "reconciliation_config \<Rightarrow> int \<Rightarrow> mismatch_record list \<Rightarrow> int \<times> mismatch_record list" where
  "auto_resolve_loop cfg n [] = (n, [])"
| "auto_resolve_loop cfg n (m # ms) =
    (if rcf_max_auto_resolutions_per_run cfg \<le> n then (n, m # ms)
     else
       let (ok, m') = try_auto_resolve cfg m;
           (n', ms') = auto_resolve_loop cfg (if ok then n + 1 else n) ms
       in (n', m' # ms'))"

definition auto_resolve_mismatches :: "reconciliation_config \<Rightarrow> reconciliation_run \<Rightarrow> reconciliation_run" where
  "auto_resolve_mismatches cfg r =
    (let (n, ms) = auto_resolve_loop cfg 0 (rcn_mismatches r)
     in r\<lparr>rcn_mismatches := ms, rcn_auto_resolved := n,
          rcn_operator_escalated :=
            int (length (filter (\<lambda>m. \<not> mr_resolved m \<and> mr_resolved_by m = AlertOperator) ms))\<rparr>)"

definition finalize_result :: "timestamp \<Rightarrow> timestamp \<Rightarrow> reconciliation_run \<Rightarrow> reconciliation_engine \<Rightarrow> reconciliation_run \<times> reconciliation_engine" where
  "finalize_result t0 t1 r e =
    (let r = r\<lparr>rcn_duration_ms := max 0 (t1 - t0) div 1000000, rcn_completed_at := t1\<rparr>
     in (r, e\<lparr>rn_last_result := r\<rparr>))"

section \<open>Orders\<close>

definition exchange_status_active :: "string \<Rightarrow> bool" where
  "exchange_status_active s \<longleftrightarrow> s = ''live'' \<or> s = ''partially_filled'' \<or> s = ''new''"

definition fill_tolerance :: "double \<Rightarrow> double \<Rightarrow> double" where
  "fill_tolerance local_filled exchange_filled = std_max (lit 0.00000001) (std_max local_filled exchange_filled * lit 0.00001)"

definition fills_differ :: "double \<Rightarrow> double \<Rightarrow> bool" where
  "fills_differ local_filled exchange_filled \<longleftrightarrow>
    fill_tolerance local_filled exchange_filled < \<bar>local_filled - exchange_filled\<bar>"

text \<open>An index of the exchange's orders: of equal keys the later order wins; empty keys are left out.\<close>

definition index_orders :: "(exchange_order_info \<Rightarrow> string) \<Rightarrow> exchange_order_info list \<Rightarrow> (string \<times> exchange_order_info) list" where
  "index_orders key os = fold (\<lambda>x ix. if key x = [] then ix else AList.update (key x) x ix) os []"

definition find_on_exchange :: "exchange_order_info list \<Rightarrow> order_record \<Rightarrow> exchange_order_info option" where
  "find_on_exchange os r =
    (case (if o_exchange_order_id r = [] then None else map_of (index_orders eo_order_id os) (o_exchange_order_id r)) of
       Some x \<Rightarrow> Some x
     | None \<Rightarrow> if o_order_id r = [] then None else map_of (index_orders eo_client_order_id os) (o_order_id r))"

definition order_mismatches :: "timestamp \<Rightarrow> exchange_order_info list \<Rightarrow> order_record \<Rightarrow> mismatch_record list" where
  "order_mismatches t os r =
    (if order_is_terminal r then []
     else case find_on_exchange os r of
       None \<Rightarrow> [mismatch OrderExistsOnlyLocally (o_symbol r) (o_order_id r) t None]
     | Some x \<Rightarrow>
        (if order_is_active r \<noteq> exchange_status_active (eo_status x)
         then [mismatch StateMismatch (o_symbol r) (o_order_id r) t None] else []) @
        (if fills_differ (o_filled_quantity r) (eo_filled_quantity x)
         then [mismatch QuantityMismatch (o_symbol r) (o_order_id r) t None] else []))"

definition matched_orders :: "exchange_order_info list \<Rightarrow> order_record list \<Rightarrow> string list" where
  "matched_orders os rs =
    map eo_order_id (List.map_filter (\<lambda>r. if order_is_terminal r then None else find_on_exchange os r) rs)"

definition reconcile_orders :: "timestamp \<Rightarrow> order_record list \<Rightarrow> exchange_order_info list \<Rightarrow> mismatch_record list" where
  "reconcile_orders t rs os =
    concat (map (order_mismatches t os) rs) @
    map (\<lambda>x. mismatch OrderExistsOnlyOnExchange (eo_symbol x) (eo_order_id x) t None)
      (filter (\<lambda>x. eo_order_id x \<notin> set (matched_orders os rs)) os)"

section \<open>Positions\<close>

definition position_key :: "symbol \<Rightarrow> side \<Rightarrow> string" where
  "position_key s sd = s @ (if sd = Buy then ''|L'' else ''|S'')"

definition position_leg :: "side \<Rightarrow> position_side" where
  "position_leg sd = (if sd = Buy then Long else Short)"

definition index_positions :: "exchange_position_info list \<Rightarrow> (string \<times> exchange_position_info) list" where
  "index_positions ps = fold (\<lambda>x ix. AList.update (position_key (xp_symbol x) (xp_side x)) x ix) ps []"

definition sizes_differ :: "reconciliation_config \<Rightarrow> double \<Rightarrow> double \<Rightarrow> bool" where
  "sizes_differ cfg exchange_size local_size \<longleftrightarrow>
    std_max (lit 0.00000001) (\<bar>exchange_size\<bar> * \<bar>rcf_position_tolerance_pct cfg\<bar> / lit 100) < \<bar>exchange_size - local_size\<bar>"

definition position_dust :: "double \<Rightarrow> bool" where
  "position_dust q \<longleftrightarrow> q < lit 0.000000000001"

definition local_position_key :: "position \<Rightarrow> string" where
  "local_position_key p = position_key (pos_symbol p) (pos_side p)"

definition position_mismatches ::
  "reconciliation_config \<Rightarrow> timestamp \<Rightarrow> exchange_position_info list \<Rightarrow> position \<Rightarrow> mismatch_record list" where
  "position_mismatches cfg t ps p =
    (if position_dust (pos_size p) then []
     else case map_of (index_positions ps) (local_position_key p) of
       None \<Rightarrow> [mismatch PositionExistsOnlyLocally (pos_symbol p) [] t (Some (position_leg (pos_side p)))]
     | Some x \<Rightarrow>
        if sizes_differ cfg (xp_size x) (pos_size p)
        then [mismatch QuantityMismatch (pos_symbol p) [] t (Some (position_leg (pos_side p)))] else [])"

definition matched_positions :: "exchange_position_info list \<Rightarrow> position list \<Rightarrow> string list" where
  "matched_positions ps qs =
    filter (\<lambda>k. map_of (index_positions ps) k \<noteq> None)
      (map local_position_key (filter (\<lambda>p. \<not> position_dust (pos_size p)) qs))"

definition reconcile_positions ::
  "reconciliation_config \<Rightarrow> timestamp \<Rightarrow> position list \<Rightarrow> exchange_position_info list \<Rightarrow> mismatch_record list" where
  "reconcile_positions cfg t qs ps =
    concat (map (position_mismatches cfg t ps) qs) @
    map (\<lambda>x. mismatch PositionExistsOnlyOnExchange (xp_symbol x) [] t (Some (position_leg (xp_side x))))
      (filter (\<lambda>x. position_key (xp_symbol x) (xp_side x) \<notin> set (matched_positions ps qs) \<and> \<not> position_dust (xp_size x)) ps)"

section \<open>Balance\<close>

definition usdt_equity :: "exchange_balance_info \<Rightarrow> double" where
  "usdt_equity b = (if 0 < xb_total_value_usd b then xb_total_value_usd b else xb_available b + xb_frozen b)"

definition balance_diff_pct :: "double \<Rightarrow> double \<Rightarrow> double" where
  "balance_diff_pct local_cash exchange_usdt =
    (if lit 0.00000001 < local_cash then \<bar>exchange_usdt - local_cash\<bar> / local_cash * lit 100
     else if lit 0.00000001 < exchange_usdt then lit 100 else 0)"

definition reconcile_balance ::
  "reconciliation_config \<Rightarrow> timestamp \<Rightarrow> double \<Rightarrow> exchange_balance_info list \<Rightarrow> mismatch_record list" where
  "reconcile_balance cfg t local_cash bs =
    (case find (\<lambda>b. xb_symbol b = ''USDT'') bs of
       None \<Rightarrow> []
     | Some b \<Rightarrow>
        if rcf_balance_tolerance_pct cfg < balance_diff_pct local_cash (usdt_equity b)
        then [mismatch BalanceMismatch ''USDT'' [] t None] else [])"


section \<open>Runs\<close>

definition critical_type :: "mismatch_type \<Rightarrow> bool" where
  "critical_type ty \<longleftrightarrow> ty = OrderExistsOnlyOnExchange \<or> ty = PositionExistsOnlyOnExchange \<or> ty = BalanceMismatch"

definition startup_status :: "mismatch_record list \<Rightarrow> reconciliation_status" where
  "startup_status ms =
    (if ms = [] then RecSuccess
     else if list_ex (\<lambda>m. \<not> mr_resolved m \<and> critical_type (mr_type m)) ms then RecCriticalMismatch
     else RecPartialMismatch)"

definition reconcile_on_startup ::
  "exchange_view \<Rightarrow> order_record list \<Rightarrow> position list \<Rightarrow> double \<Rightarrow> reconciliation_engine \<Rightarrow>
   reconciliation_run \<times> reconciliation_engine" where
  "reconcile_on_startup v rs qs cash e =
    (let cfg = rn_config e; r = default_reconciliation_run
     in case xv_orders v of
       None \<Rightarrow> finalize_result (xv_start v) (xv_end v) (r\<lparr>rcn_status := RecFailed\<rparr>) e
     | Some os \<Rightarrow>
        let oms = reconcile_orders (xv_orders_at v) rs os;
            r = r\<lparr>rcn_orders_reconciled := int (length rs + length os)\<rparr>;
            (pms, r) =
              (case xv_positions v of
                 None \<Rightarrow> ([], r)
               | Some ps \<Rightarrow> (reconcile_positions cfg (xv_positions_at v) qs ps,
                             r\<lparr>rcn_positions_reconciled := int (length qs + length ps)\<rparr>));
            (bms, r) =
              (case xv_balances v of
                 None \<Rightarrow> ([], r)
               | Some bs \<Rightarrow> (reconcile_balance cfg (xv_balance_at v) cash bs, r\<lparr>rcn_balances_checked := 1\<rparr>));
            r = auto_resolve_mismatches cfg (r\<lparr>rcn_mismatches := oms @ pms @ bms\<rparr>)
        in finalize_result (xv_start v) (xv_end v) (r\<lparr>rcn_status := startup_status (rcn_mismatches r)\<rparr>) e)"

definition periodic_status :: "reconciliation_status \<Rightarrow> mismatch_record list \<Rightarrow> reconciliation_status" where
  "periodic_status unresolved ms =
    (if ms = [] then RecSuccess else if list_ex (\<lambda>m. \<not> mr_resolved m) ms then unresolved else RecSuccess)"

definition reconcile_active_orders ::
  "exchange_view \<Rightarrow> order_record list \<Rightarrow> reconciliation_engine \<Rightarrow> reconciliation_run \<times> reconciliation_engine" where
  "reconcile_active_orders v rs e =
    (let cfg = rn_config e; r = default_reconciliation_run
     in case xv_orders v of
       None \<Rightarrow> finalize_result (xv_start v) (xv_end v) (r\<lparr>rcn_status := RecFailed\<rparr>) e
     | Some os \<Rightarrow>
        let r = auto_resolve_mismatches cfg
                  (r\<lparr>rcn_mismatches := reconcile_orders (xv_orders_at v) rs os,
                     rcn_orders_reconciled := int (length rs + length os)\<rparr>)
        in finalize_result (xv_start v) (xv_end v)
             (r\<lparr>rcn_status := periodic_status RecPartialMismatch (rcn_mismatches r)\<rparr>) e)"

definition reconcile_positions_and_balance ::
  "exchange_view \<Rightarrow> position list \<Rightarrow> double \<Rightarrow> reconciliation_engine \<Rightarrow> reconciliation_run \<times> reconciliation_engine" where
  "reconcile_positions_and_balance v qs cash e =
    (let cfg = rn_config e; r = default_reconciliation_run;
         r = (case xv_positions v of
                None \<Rightarrow> r
              | Some ps \<Rightarrow> r\<lparr>rcn_positions_reconciled := int (length qs + length ps),
                              rcn_mismatches := reconcile_positions cfg (xv_positions_at v) qs ps\<rparr>);
         r = (case xv_balances v of
                None \<Rightarrow> r
              | Some bs \<Rightarrow> r\<lparr>rcn_balances_checked := 1,
                              rcn_mismatches := rcn_mismatches r @ reconcile_balance cfg (xv_balance_at v) cash bs\<rparr>);
         r = auto_resolve_mismatches cfg r
     in finalize_result (xv_start v) (xv_end v)
          (r\<lparr>rcn_status := periodic_status RecCriticalMismatch (rcn_mismatches r)\<rparr>) e)"

text \<open>One order: \<open>answer\<close> is what the query of its status returns, \<open>None\<close> for any error.\<close>

definition reconcile_single_order ::
  "exchange_order_info option \<Rightarrow> timestamp \<Rightarrow> order_record \<Rightarrow> reconciliation_engine \<Rightarrow> mismatch_record option" where
  "reconcile_single_order answer t r e =
    (let cfg = rn_config e; flag = (\<lambda>ty. Some (snd (try_auto_resolve cfg (mismatch ty (o_symbol r) (o_order_id r) t None))))
     in case answer of
       None \<Rightarrow> flag OrderExistsOnlyLocally
     | Some x \<Rightarrow>
        let local_active = order_is_active r; exchange_active = exchange_status_active (eo_status x)
        in if local_active \<and> \<not> exchange_active then flag StateMismatch
           else if \<not> local_active \<and> exchange_active then flag StateMismatch
           else if fills_differ (o_filled_quantity r) (eo_filled_quantity x) then flag QuantityMismatch
           else None)"

end
