(* ===== verification/Reconciliation_Laws.thy ===== *)
theory Reconciliation_Laws
  imports Reconciliation
begin

text \<open>
  What the comparison with the exchange reports: exactly the differences of orders, legs and
  balance, with the status that follows, and where an answer that is missing reads as agreement.
\<close>

section \<open>Indices\<close>

lemma map_of_index:
  "map_of (fold (\<lambda>x ix. if P x then ix else AList.update (key x) x ix) xs ix) k =
    (case find (\<lambda>x. \<not> P x \<and> key x = k) (rev xs) of Some x \<Rightarrow> Some x | None \<Rightarrow> map_of ix k)"
proof (induction xs arbitrary: ix)
  case (Cons x xs)
  have "find Q (ys @ zs) = (case find Q ys of Some y \<Rightarrow> Some y | None \<Rightarrow> find Q zs)" for Q :: "'a \<Rightarrow> bool" and ys zs
    by (induction ys) simp_all
  then show ?case by (auto simp: Cons update_conv' split: option.split)
qed simp

lemma index_orders_find:
  "map_of (index_orders key os) k = (if k = [] then None else find (\<lambda>x. key x = k) (rev os))"
proof -
  have "find (\<lambda>x. key x \<noteq> [] \<and> key x = k) (rev os) = (if k = [] then None else find (\<lambda>x. key x = k) (rev os))"
    by (auto simp: find_None_iff intro!: find_cong)
  then show ?thesis
    using map_of_index [of "\<lambda>x. key x = []" key os "[]" k] by (simp add: index_orders_def split: option.splits)
qed

lemma index_positions_find:
  "map_of (index_positions ps) k = find (\<lambda>x. position_key (xp_symbol x) (xp_side x) = k) (rev ps)"
  using map_of_index [of "\<lambda>_. False" "\<lambda>x. position_key (xp_symbol x) (xp_side x)" ps "[]" k]
  by (simp add: index_positions_def split: option.splits)

lemma position_key_inject [simp]: "position_key s a = position_key t b \<longleftrightarrow> s = t \<and> a = b"
  by (cases a; cases b) (auto simp: position_key_def)

section \<open>Agreement\<close>

text \<open>The order of the exchange that an order of the bot stands for: by exchange id, else by client id.\<close>

definition orders_agree :: "order_record list \<Rightarrow> exchange_order_info list \<Rightarrow> bool" where
  "orders_agree rs os \<longleftrightarrow>
    (\<forall>r\<in>set rs. \<not> order_is_terminal r \<longrightarrow>
      (\<exists>x. find_on_exchange os r = Some x \<and> order_is_active r = exchange_status_active (eo_status x) \<and>
        \<not> fills_differ (o_filled_quantity r) (eo_filled_quantity x))) \<and>
    (\<forall>x\<in>set os. \<exists>r\<in>set rs. \<not> order_is_terminal r \<and> map_option eo_order_id (find_on_exchange os r) = Some (eo_order_id x))"

definition same_leg :: "position \<Rightarrow> exchange_position_info \<Rightarrow> bool" where
  "same_leg q x \<longleftrightarrow> xp_symbol x = pos_symbol q \<and> xp_side x = pos_side q"

definition legs_agree :: "reconciliation_config \<Rightarrow> position list \<Rightarrow> exchange_position_info list \<Rightarrow> bool" where
  "legs_agree cfg qs ps \<longleftrightarrow>
    (\<forall>q\<in>set qs. \<not> position_dust (pos_size q) \<longrightarrow>
      (\<exists>x. find (same_leg q) (rev ps) = Some x \<and> \<not> sizes_differ cfg (xp_size x) (pos_size q))) \<and>
    (\<forall>x\<in>set ps. \<not> position_dust (xp_size x) \<longrightarrow> (\<exists>q\<in>set qs. \<not> position_dust (pos_size q) \<and> same_leg q x))"

definition balance_agrees :: "reconciliation_config \<Rightarrow> double \<Rightarrow> exchange_balance_info list \<Rightarrow> bool" where
  "balance_agrees cfg cash bs \<longleftrightarrow>
    (\<forall>b. find (\<lambda>b. xb_symbol b = ''USDT'') bs = Some b \<longrightarrow>
      \<not> rcf_balance_tolerance_pct cfg < balance_diff_pct cash (usdt_equity b))"

lemma index_finds_leg: "map_of (index_positions ps) (local_position_key q) = find (same_leg q) (rev ps)"
  by (simp add: index_positions_find local_position_key_def same_leg_def [abs_def])

lemma order_mismatches_none:
  "order_mismatches t os r = [] \<longleftrightarrow>
    (\<not> order_is_terminal r \<longrightarrow>
      (\<exists>x. find_on_exchange os r = Some x \<and> order_is_active r = exchange_status_active (eo_status x) \<and>
        \<not> fills_differ (o_filled_quantity r) (eo_filled_quantity x)))"
  by (cases "find_on_exchange os r") (simp_all add: order_mismatches_def)

lemma set_matched_orders:
  "i \<in> set (matched_orders os rs) \<longleftrightarrow>
    (\<exists>r\<in>set rs. \<not> order_is_terminal r \<and> map_option eo_order_id (find_on_exchange os r) = Some i)"
proof (induction rs)
  case (Cons r rs)
  then show ?case
    by (cases "find_on_exchange os r") (simp_all add: matched_orders_def List.map_filter_simps, blast+)
qed (simp add: matched_orders_def List.map_filter_simps)

lemma no_order_mismatch: "reconcile_orders t rs os = [] \<longleftrightarrow> orders_agree rs os"
  by (simp only: reconcile_orders_def orders_agree_def append_is_Nil_conv concat_eq_Nil_conv map_is_Nil_conv
      filter_empty_conv set_map ball_simps order_mismatches_none set_matched_orders not_not)

lemma position_mismatches_none:
  "position_mismatches cfg t ps q = [] \<longleftrightarrow>
    (\<not> position_dust (pos_size q) \<longrightarrow>
      (\<exists>x. find (same_leg q) (rev ps) = Some x \<and> \<not> sizes_differ cfg (xp_size x) (pos_size q)))"
  by (cases "find (same_leg q) (rev ps)") (simp_all add: position_mismatches_def index_finds_leg)

lemma position_matched:
  assumes "x \<in> set ps"
  shows "position_key (xp_symbol x) (xp_side x) \<in> set (matched_positions ps qs) \<longleftrightarrow>
    (\<exists>q\<in>set qs. \<not> position_dust (pos_size q) \<and> same_leg q x)"
proof -
  have k: "position_key (xp_symbol x) (xp_side x) = local_position_key q \<longleftrightarrow> same_leg q x" for q
    by (simp add: local_position_key_def same_leg_def)
  have f: "find (\<lambda>y. position_key (xp_symbol y) (xp_side y) = position_key (xp_symbol x) (xp_side x)) (rev ps) \<noteq> None"
    using assms by (auto simp: find_None_iff)
  show ?thesis
    using f by (simp only: matched_positions_def set_filter set_map mem_Collect_eq image_iff index_positions_find k
        simp_thms bex_simps) (simp only: Bex_def mem_Collect_eq conj_assoc)
qed

lemma no_position_mismatch: "reconcile_positions cfg t qs ps = [] \<longleftrightarrow> legs_agree cfg qs ps"
proof -
  have "(\<forall>x\<in>set ps. \<not> (position_key (xp_symbol x) (xp_side x) \<notin> set (matched_positions ps qs) \<and> \<not> position_dust (xp_size x))) \<longleftrightarrow>
      (\<forall>x\<in>set ps. \<not> position_dust (xp_size x) \<longrightarrow> (\<exists>q\<in>set qs. \<not> position_dust (pos_size q) \<and> same_leg q x))"
    using position_matched [of _ ps qs] by blast
  then show ?thesis
    by (simp only: reconcile_positions_def legs_agree_def append_is_Nil_conv concat_eq_Nil_conv map_is_Nil_conv
        filter_empty_conv set_map ball_simps position_mismatches_none)
qed

lemma no_balance_mismatch: "reconcile_balance cfg t cash bs = [] \<longleftrightarrow> balance_agrees cfg cash bs"
  by (auto simp: reconcile_balance_def balance_agrees_def split: option.splits)

section \<open>Resolution\<close>

lemma try_auto_resolve_fields:
  "mr_type (snd (try_auto_resolve cfg m)) = mr_type m"
  "mr_symbol (snd (try_auto_resolve cfg m)) = mr_symbol m"
  "mr_resolved (snd (try_auto_resolve cfg m)) \<longleftrightarrow> mr_resolved m \<or> fst (try_auto_resolve cfg m)"
  by (simp_all add: try_auto_resolve_def resolve_as_def alert_operator_def split: mismatch_type.split)

lemma loop_marks:
  "list_all2 (\<lambda>m m'. mr_type m' = mr_type m \<and> mr_symbol m' = mr_symbol m \<and>
      (mr_resolved m' \<longrightarrow> mr_resolved m \<or> fst (try_auto_resolve cfg m)))
    ms (snd (auto_resolve_loop cfg n ms))"
  by (induction ms arbitrary: n) (auto simp: case_prod_unfold Let_def try_auto_resolve_fields intro!: list.rel_refl)

lemma loop_empty [simp]: "snd (auto_resolve_loop cfg n ms) = [] \<longleftrightarrow> ms = []"
  using list_all2_lengthD [OF loop_marks [of cfg ms n]] by (cases ms) auto

lemma loop_count:
  assumes "\<forall>m\<in>set ms. \<not> mr_resolved m"
  shows "fst (auto_resolve_loop cfg n ms) = n + int (length (filter mr_resolved (snd (auto_resolve_loop cfg n ms))))"
    and "fst (auto_resolve_loop cfg n ms) \<le> max n (rcf_max_auto_resolutions_per_run cfg)"
  using assms
proof (induction ms arbitrary: n)
  case (Cons m ms)
  { case 1 then show ?case
      using Cons(1) [of "if fst (try_auto_resolve cfg m) then n + 1 else n"]
      by (simp add: case_prod_unfold Let_def try_auto_resolve_fields) }
  { case 2 then show ?case
      using Cons(2) [of "if fst (try_auto_resolve cfg m) then n + 1 else n"]
      by (auto simp: case_prod_unfold Let_def max_def split: if_splits) }
qed simp_all

lemma auto_resolve_fields [simp]:
  "rcn_mismatches (auto_resolve_mismatches cfg r) = snd (auto_resolve_loop cfg 0 (rcn_mismatches r))"
  "rcn_auto_resolved (auto_resolve_mismatches cfg r) = fst (auto_resolve_loop cfg 0 (rcn_mismatches r))"
  "rcn_status (auto_resolve_mismatches cfg r) = rcn_status r"
  by (simp_all add: auto_resolve_mismatches_def case_prod_unfold Let_def)

lemma run_finalized_fields [simp]:
  "rcn_mismatches (fst (finalize_result a b r e)) = rcn_mismatches r"
  "rcn_auto_resolved (fst (finalize_result a b r e)) = rcn_auto_resolved r"
  "rcn_status (fst (finalize_result a b r e)) = rcn_status r"
  by (simp_all add: finalize_result_def Let_def)

lemma mismatch_fresh [simp]: "\<not> mr_resolved (mismatch ty s i t ps)" "mr_type (mismatch ty s i t ps) = ty"
  "mr_symbol (mismatch ty s i t ps) = s" "mr_resolved_by (mismatch ty s i t ps) = NoResolution"
  by (simp_all add: mismatch_def)

lemma orders_fresh: "m \<in> set (reconcile_orders t rs os) \<Longrightarrow> \<not> mr_resolved m"
  by (auto simp: reconcile_orders_def order_mismatches_def split: if_splits option.splits)

lemma positions_fresh: "m \<in> set (reconcile_positions cfg t qs ps) \<Longrightarrow> \<not> mr_resolved m"
  by (auto simp: reconcile_positions_def position_mismatches_def split: if_splits option.splits)

lemma balance_fresh: "m \<in> set (reconcile_balance cfg t cash bs) \<Longrightarrow> \<not> mr_resolved m"
  by (auto simp: reconcile_balance_def split: if_splits option.splits)

lemmas compared_fresh = orders_fresh positions_fresh balance_fresh

section \<open>The run at start-up\<close>

text \<open>What a run at start-up finds before it resolves anything.\<close>

definition startup_differences ::
  "exchange_view \<Rightarrow> order_record list \<Rightarrow> position list \<Rightarrow> double \<Rightarrow> reconciliation_config \<Rightarrow> mismatch_record list" where
  "startup_differences v rs qs cash cfg =
    (case xv_orders v of None \<Rightarrow> [] | Some os \<Rightarrow> reconcile_orders (xv_orders_at v) rs os) @
    (case xv_positions v of None \<Rightarrow> [] | Some ps \<Rightarrow> reconcile_positions cfg (xv_positions_at v) qs ps) @
    (case xv_balances v of None \<Rightarrow> [] | Some bs \<Rightarrow> reconcile_balance cfg (xv_balance_at v) cash bs)"

lemma startup_fresh: "m \<in> set (startup_differences v rs qs cash cfg) \<Longrightarrow> \<not> mr_resolved m"
  by (auto simp: startup_differences_def dest: compared_fresh split: option.splits)

lemma startup_failed:
  assumes "xv_orders v = None"
  shows "rcn_status (fst (reconcile_on_startup v rs qs cash e)) = RecFailed"
    and "rcn_mismatches (fst (reconcile_on_startup v rs qs cash e)) = []"
    and "rcn_auto_resolved (fst (reconcile_on_startup v rs qs cash e)) = 0"
  using assms by (simp_all add: reconcile_on_startup_def default_reconciliation_run_def Let_def)

lemma startup_answered:
  assumes "xv_orders v = Some os"
  shows "rcn_mismatches (fst (reconcile_on_startup v rs qs cash e)) =
      snd (auto_resolve_loop (rn_config e) 0 (startup_differences v rs qs cash (rn_config e)))"
    and "rcn_auto_resolved (fst (reconcile_on_startup v rs qs cash e)) =
      fst (auto_resolve_loop (rn_config e) 0 (startup_differences v rs qs cash (rn_config e)))"
    and "rcn_status (fst (reconcile_on_startup v rs qs cash e)) =
      startup_status (snd (auto_resolve_loop (rn_config e) 0 (startup_differences v rs qs cash (rn_config e))))"
  using assms
  by (simp_all add: reconcile_on_startup_def startup_differences_def Let_def split: option.split)

lemma startup_status_success [simp]: "startup_status ms = RecSuccess \<longleftrightarrow> ms = []"
  by (simp add: startup_status_def)

text \<open>
  C19. A run at start-up reports success exactly when the exchange lists its orders and every answer it
  gives agrees with the bot: orders by state and filled quantity, legs by size, cash by tolerance.
  Nothing that differs is reported as success, resolved or not.
\<close>

theorem startup_success_is_agreement:
  "rcn_status (fst (reconcile_on_startup v rs qs cash e)) = RecSuccess \<longleftrightarrow>
    (case xv_orders v of None \<Rightarrow> False | Some os \<Rightarrow> orders_agree rs os) \<and>
    (case xv_positions v of None \<Rightarrow> True | Some ps \<Rightarrow> legs_agree (rn_config e) qs ps) \<and>
    (case xv_balances v of None \<Rightarrow> True | Some bs \<Rightarrow> balance_agrees (rn_config e) cash bs)"
proof (cases "xv_orders v")
  case None
  then show ?thesis by (simp add: startup_failed)
next
  case (Some os)
  then show ?thesis
    by (simp add: startup_answered startup_differences_def no_order_mismatch no_position_mismatch no_balance_mismatch
        split: option.split)
qed

lemma marked_in_loop:
  assumes "m \<in> set ms"
  shows "\<exists>m'\<in>set (snd (auto_resolve_loop cfg n ms)). mr_type m' = mr_type m \<and> mr_symbol m' = mr_symbol m \<and>
    (mr_resolved m' \<longrightarrow> mr_resolved m \<or> fst (try_auto_resolve cfg m))"
proof -
  let ?ms = "snd (auto_resolve_loop cfg n ms)"
  obtain i where i: "i < length ms" "m = ms ! i" using assms by (auto simp: in_set_conv_nth)
  have "?ms ! i \<in> set ?ms" using i list_all2_lengthD [OF loop_marks [of cfg ms n]] by simp
  then show ?thesis using list_all2_nthD [OF loop_marks [of cfg ms n] i(1)] i(2) by auto
qed

lemma unknown_leg_listed:
  assumes "x \<in> set ps" "\<not> position_dust (xp_size x)"
    and "\<forall>q\<in>set qs. position_dust (pos_size q) \<or> \<not> same_leg q x"
  shows "mismatch PositionExistsOnlyOnExchange (xp_symbol x) [] t (Some (position_leg (xp_side x)))
    \<in> set (reconcile_positions cfg t qs ps)"
proof -
  have "position_key (xp_symbol x) (xp_side x) \<notin> set (matched_positions ps qs)"
    using assms(3) position_matched [OF assms(1), of qs] by blast
  then have "x \<in> set (filter (\<lambda>x. position_key (xp_symbol x) (xp_side x) \<notin> set (matched_positions ps qs) \<and>
      \<not> position_dust (xp_size x)) ps)"
    using assms by simp
  then show ?thesis unfolding reconcile_positions_def set_append set_map by (intro UnI2 imageI)
qed

lemma unresolved_critical:
  assumes "m \<in> set ms" "\<not> mr_resolved m" "critical_type (mr_type m)"
  shows "startup_status ms = RecCriticalMismatch"
  using assms by (auto simp: startup_status_def list_ex_iff)

text \<open>
  C18. A leg the exchange holds, above dust, and the bot does not know is reported with its symbol and
  makes the run critical, unless the configuration lets such legs be closed.
\<close>

theorem unknown_exposure_is_critical:
  assumes "xv_orders v = Some os" "xv_positions v = Some ps"
    and x: "x \<in> set ps" "\<not> position_dust (xp_size x)"
    and unknown: "\<forall>q\<in>set qs. position_dust (pos_size q) \<or> \<not> same_leg q x"
    and keep: "\<not> rcf_auto_close_orphan_positions (rn_config e)"
  shows "rcn_status (fst (reconcile_on_startup v rs qs cash e)) = RecCriticalMismatch \<and>
    (\<exists>m\<in>set (rcn_mismatches (fst (reconcile_on_startup v rs qs cash e))).
      mr_type m = PositionExistsOnlyOnExchange \<and> mr_symbol m = xp_symbol x \<and> \<not> mr_resolved m)"
proof -
  let ?m = "mismatch PositionExistsOnlyOnExchange (xp_symbol x) [] (xv_positions_at v) (Some (position_leg (xp_side x)))"
  have "?m \<in> set (startup_differences v rs qs cash (rn_config e))"
    using unknown_leg_listed [OF x unknown] assms(1,2) by (simp add: startup_differences_def)
  from marked_in_loop [OF this, of "rn_config e" 0]
  obtain m where m: "m \<in> set (rcn_mismatches (fst (reconcile_on_startup v rs qs cash e)))"
      "mr_type m = PositionExistsOnlyOnExchange" "mr_symbol m = xp_symbol x"
      "mr_resolved m \<Longrightarrow> fst (try_auto_resolve (rn_config e) ?m)"
    unfolding startup_answered(1) [OF assms(1)] by auto
  have "\<not> mr_resolved m"
    using m(4) keep by (auto simp: try_auto_resolve_def alert_operator_def)
  then show ?thesis
    using m unresolved_critical [OF m(1)] startup_answered(1,3) [OF assms(1), of rs qs cash e]
    by (auto simp: critical_type_def)
qed

text \<open>
  A run resolves no more differences than the configuration allows, and the count it reports is
  the number of differences it marks as resolved.
\<close>

theorem auto_resolution_is_bounded:
  "rcn_auto_resolved (fst (reconcile_on_startup v rs qs cash e)) =
      int (length (filter mr_resolved (rcn_mismatches (fst (reconcile_on_startup v rs qs cash e))))) \<and>
    rcn_auto_resolved (fst (reconcile_on_startup v rs qs cash e)) \<le> max 0 (rcf_max_auto_resolutions_per_run (rn_config e))"
proof (cases "xv_orders v")
  case None
  then show ?thesis by (simp add: startup_failed)
next
  case (Some os)
  have "\<forall>m\<in>set (startup_differences v rs qs cash (rn_config e)). \<not> mr_resolved m"
    by (simp add: startup_fresh)
  from loop_count [OF this, of "rn_config e" 0] show ?thesis
    by (simp add: startup_answered [OF Some])
qed

definition ex_foreign_leg :: exchange_position_info where
  "ex_foreign_leg =
    \<lparr>xp_symbol = ''BTCUSDT'', xp_side = Sell, xp_position_side = Short, xp_size = 1, xp_entry_price = 1, xp_current_price = 1,
     xp_notional_usd = 1, xp_unrealized_pnl = 0\<rparr>"

definition ex_view :: "exchange_position_info list option \<Rightarrow> exchange_view" where
  "ex_view ps = \<lparr>xv_orders = Some [], xv_positions = ps, xv_balances = None, xv_start = 0, xv_orders_at = 1,
     xv_positions_at = 2, xv_balance_at = 3, xv_end = 4\<rparr>"

lemma unknown_exposure_is_critical_witness:
  "rcn_status (fst (reconcile_on_startup (ex_view (Some [ex_foreign_leg])) [] [] 0
      (reconciliation_engine_init default_reconciliation_config))) = RecCriticalMismatch"
proof -
  have "\<not> position_dust 1"
    using mk_mono [of "0.000000000001" 1] by (cases "lit 0.000000000001") (auto simp: position_dust_def one_double_def)
  then show ?thesis
    using unknown_exposure_is_critical [of "ex_view (Some [ex_foreign_leg])" "[]" "[ex_foreign_leg]" ex_foreign_leg "[]"
        "reconciliation_engine_init default_reconciliation_config" "[]" 0]
    by (simp add: ex_view_def ex_foreign_leg_def reconciliation_engine_init_def default_reconciliation_config_def)
qed

section \<open>Where a run says less than it seems\<close>

text \<open>
  An exchange that lists no orders and answers neither of the other queries gives a run that ends
  in success, whatever positions and cash the bot has: no answer reads as agreement.
\<close>

theorem silence_reads_as_agreement:
  "rcn_status (fst (reconcile_on_startup (ex_view None) [] qs cash e)) = RecSuccess \<and>
   rcn_positions_reconciled (fst (reconcile_on_startup (ex_view None) [] qs cash e)) = 0"
proof -
  have "orders_agree [] []" by (simp add: orders_agree_def)
  then have "rcn_status (fst (reconcile_on_startup (ex_view None) [] qs cash e)) = RecSuccess"
    by (simp add: startup_success_is_agreement ex_view_def)
  moreover have "rcn_positions_reconciled (fst (reconcile_on_startup (ex_view None) [] qs cash e)) = 0"
    by (simp add: reconcile_on_startup_def ex_view_def default_reconciliation_run_def auto_resolve_mismatches_def
        finalize_result_def case_prod_unfold Let_def)
  ultimately show ?thesis ..
qed

text \<open>
  A balance without an entry for USDT agrees with any cash.
\<close>

theorem missing_usdt_agrees:
  "reconcile_balance cfg t cash [b\<lparr>xb_symbol := ''USDC''\<rparr>] = []"
  by (simp add: reconcile_balance_def)

text \<open>
  Asked about one order, the engine takes every error of the query, a lost connection included,
  for the order's absence: it is marked as resolved by an update of the local state, even while
  the order is active.
\<close>

theorem query_error_reads_as_gone:
  "map_option (\<lambda>m. (mr_type m, mr_resolved m, mr_resolved_by m)) (reconcile_single_order None t r e) =
    Some (OrderExistsOnlyLocally, True, UpdateLocalState)"
  by (simp add: reconcile_single_order_def try_auto_resolve_def resolve_as_def)

text \<open>
  Past the limit of resolutions the loop stops, so differences that are for the operator are not
  marked for the operator: with an order only the bot knows before it and a limit of one, a leg
  only the exchange knows leaves the run critical with nothing escalated.
\<close>

theorem limit_hides_escalation:
  "let m = mismatch PositionExistsOnlyOnExchange s [] t (Some Short);
       c = default_reconciliation_config\<lparr>rcf_max_auto_resolutions_per_run := 1\<rparr>;
       r = auto_resolve_mismatches c (default_reconciliation_run\<lparr>rcn_mismatches :=
             [mismatch OrderExistsOnlyLocally s i t None, m]\<rparr>)
   in startup_status (rcn_mismatches r) = RecCriticalMismatch \<and> rcn_operator_escalated r = 0 \<and>
      rcn_mismatches r ! 1 = m"
  by (simp add: Let_def auto_resolve_mismatches_def try_auto_resolve_def resolve_as_def default_reconciliation_config_def
      default_reconciliation_run_def startup_status_def critical_type_def mismatch_def)

text \<open>
  A filled quantity that is not a number agrees with every other.
\<close>

theorem nan_fill_agrees: "\<not> fills_differ NaN x \<and> \<not> fills_differ x NaN"
  by (cases x) (simp_all add: fills_differ_def minus_double_def)

end
