(* ===== verification/Recovery_Service.thy ===== *)
theory Recovery_Service
  imports Reconciliation Wal_Writer
begin

text \<open>
  The repair of the bot's state after a restart (\<^verbatim>\<open>src/src/recovery/recovery_types.hpp\<close>,
  \<^verbatim>\<open>recovery_service.{hpp,cpp}\<close>): the portfolio from the last snapshot and the journal, then legs and
  capital from the exchange, then working orders, trigger orders and pairs.  What storage, exchange
  and clock answer in one run is the record \<open>recovery_env\<close>; all clock readings between start and end
  are one value.  Boost's JSON reader is the parameter \<open>rve_parse\<close>, \<open>None\<close> where it throws; the
  accessors of values throw on a value of another kind and are options here.
\<close>

section \<open>Types\<close>

datatype recovery_status = RvNotStarted | RvInProgress | RvCompleted | RvCompletedWithWarnings | RvFailed

fun recovery_status_to_string :: "recovery_status \<Rightarrow> string" where
  "recovery_status_to_string RvNotStarted = ''NotStarted''"
| "recovery_status_to_string RvInProgress = ''InProgress''"
| "recovery_status_to_string RvCompleted = ''Completed''"
| "recovery_status_to_string RvCompletedWithWarnings = ''CompletedWithWarnings''"
| "recovery_status_to_string RvFailed = ''Failed''"

record recovered_position =
  rvp_symbol :: symbol
  rvp_side :: side
  rvp_size :: double
  rvp_avg_entry_price :: double
  rvp_estimated_pnl :: double
  rvp_had_matching_strategy :: bool
  rvp_resolution :: string

record recovery_result =
  rvr_status :: recovery_status
  rvr_recovered_positions :: "recovered_position list"
  rvr_recovered_cash_balance :: double
  rvr_balance_adjustment :: double
  rvr_warnings :: int
  rvr_errors :: int
  rvr_duration_ms :: int
  rvr_completed_at :: timestamp
  rvr_messages :: "string list"

definition default_recovery_result :: recovery_result where
  "default_recovery_result =
    \<lparr>rvr_status = RvNotStarted, rvr_recovered_positions = [], rvr_recovered_cash_balance = 0,
     rvr_balance_adjustment = 0, rvr_warnings = 0, rvr_errors = 0, rvr_duration_ms = 0, rvr_completed_at = 0,
     rvr_messages = []\<rparr>"

record recovery_config =
  rvc_enabled :: bool
  rvc_close_orphan_positions :: bool
  rvc_min_position_value_usd :: double
  rvc_symbol_filter :: symbol

definition default_recovery_config :: recovery_config where
  "default_recovery_config =
    \<lparr>rvc_enabled = True, rvc_close_orphan_positions = False, rvc_min_position_value_usd = lit 5.0, rvc_symbol_filter = []\<rparr>"

record recovered_pending_order =
  rvo_order_id :: order_id
  rvo_symbol :: symbol
  rvo_side :: side
  rvo_position_side :: position_side
  rvo_price :: double
  rvo_remaining_qty :: double
  rvo_order_type :: string
  rvo_is_reduce_only :: bool
  rvo_exchange_order_id :: string
  rvo_resolution :: string

record recovered_protective_order =
  rvt_order_id :: order_id
  rvt_symbol :: symbol
  rvt_position_side :: position_side
  rvt_trigger_price :: double
  rvt_is_tp :: bool
  rvt_still_active :: bool
  rvt_resolution :: string

record recovered_pair_state =
  rvs_symbol :: symbol
  rvs_has_primary :: bool
  rvs_has_hedge :: bool
  rvs_primary_side :: side
  rvs_primary_size :: double
  rvs_hedge_size :: double
  rvs_primary_entry_price :: double
  rvs_hedge_entry_price :: double
  rvs_inferred_state :: string
  rvs_resolution :: string

record extended_recovery_result =
  rvx_base :: recovery_result
  rvx_pending_orders :: "recovered_pending_order list"
  rvx_protective_orders :: "recovered_protective_order list"
  rvx_pair_states :: "recovered_pair_state list"
  rvx_pending_orders_adopted :: int
  rvx_pending_orders_cancelled :: int
  rvx_protective_orders_verified :: int
  rvx_protective_orders_missing :: int
  rvx_pair_states_restored :: int

text \<open>
  One run's surroundings.  \<open>rve_snapshot\<close> is the answer for the portfolio's latest snapshot, and
  \<open>rve_journal\<close> the query of the journal, \<open>None\<close> where it fails.
\<close>

record recovery_env =
  rve_parse :: "string \<Rightarrow> json option"
  rve_persistence_enabled :: bool
  rve_snapshot :: "tb_error + snapshot_entry"
  rve_journal :: "timestamp \<Rightarrow> timestamp \<Rightarrow> journal_entry_type option \<Rightarrow> journal_entry list option"
  rve_balances :: "exchange_balance_info list option"
  rve_positions :: "exchange_position_info list option"
  rve_open_orders :: "exchange_order_info list option"
  rve_trigger_orders :: "exchange_order_info list option"
  rve_start :: timestamp
  rve_now :: timestamp
  rve_end :: timestamp

text \<open>The service: its results and the portfolio it repairs.\<close>

record recovery_service =
  rvv_config :: recovery_config
  rvv_portfolio :: portfolio
  rvv_last_result :: recovery_result
  rvv_last_extended_result :: extended_recovery_result

definition add_message :: "string \<Rightarrow> recovery_result \<Rightarrow> recovery_result" where
  "add_message s r = r\<lparr>rvr_messages := rvr_messages r @ [s]\<rparr>"

definition add_warnings :: "int \<Rightarrow> recovery_result \<Rightarrow> recovery_result" where
  "add_warnings n r = r\<lparr>rvr_warnings := rvr_warnings r + n\<rparr>"

definition add_error :: "recovery_result \<Rightarrow> recovery_result" where
  "add_error r = r\<lparr>rvr_errors := rvr_errors r + 1\<rparr>"

definition finalize_status :: "int \<Rightarrow> int \<Rightarrow> recovery_status" where
  "finalize_status errors warnings =
    (if 0 < errors then RvFailed else if 0 < warnings then RvCompletedWithWarnings else RvCompleted)"

text \<open>C++ division of integers truncates.\<close>

definition ns_to_ms :: "int \<Rightarrow> int" where
  "ns_to_ms ns = (if 0 \<le> ns then ns div 1000000 else - ((- ns) div 1000000))"

definition stamp_end :: "recovery_env \<Rightarrow> recovery_result \<Rightarrow> recovery_result" where
  "stamp_end v r = r\<lparr>rvr_duration_ms := ns_to_ms (rve_end v - rve_start v), rvr_completed_at := rve_end v\<rparr>"

section \<open>Fields of JSON objects\<close>

text \<open>\<^verbatim>\<open>contains(key) ? at(key).as_double() : d\<close> and its like.\<close>

definition double_field :: "double \<Rightarrow> string \<Rightarrow> json_object \<Rightarrow> double option" where
  "double_field d key obj = (case map_of obj key of None \<Rightarrow> Some d | Some (JReal x) \<Rightarrow> Some x | _ \<Rightarrow> None)"

definition text_field :: "string \<Rightarrow> string \<Rightarrow> json_object \<Rightarrow> string option" where
  "text_field d key obj = (case map_of obj key of None \<Rightarrow> Some d | Some (JString s) \<Rightarrow> Some s | _ \<Rightarrow> None)"

definition int64_of :: "json \<Rightarrow> int option" where
  "int64_of v = (case v of JInt n \<Rightarrow> Some n | _ \<Rightarrow> None)"

definition side_of_text :: "string \<Rightarrow> side" where
  "side_of_text s = (if s = ''Sell'' then Sell else Buy)"

definition restored_position :: "timestamp \<Rightarrow> symbol \<Rightarrow> side \<Rightarrow> double \<Rightarrow> double \<Rightarrow> strategy_id \<Rightarrow> timestamp \<Rightarrow> position" where
  "restored_position tnow s sd qty price strat opened =
    \<lparr>pos_symbol = s, pos_side = sd, pos_position_side = Long, pos_size = qty, pos_avg_entry_price = price,
     pos_current_price = price, pos_notional = price * qty, pos_unrealized_pnl = 0, pos_unrealized_pnl_pct = 0,
     pos_accumulated_funding = 0, pos_strategy_id = strat, pos_opened_at = opened, pos_updated_at = tnow\<rparr>"

section \<open>Snapshot\<close>

definition snapshot_opened_at :: "timestamp \<Rightarrow> json_object \<Rightarrow> timestamp option" where
  "snapshot_opened_at tnow obj =
    (case map_of obj ''opened_at_ns'' of
       Some v \<Rightarrow> int64_of v
     | None \<Rightarrow> (case map_of obj ''opened_at'' of Some v \<Rightarrow> int64_of v | None \<Rightarrow> Some tnow))"

text \<open>One entry of the snapshot's positions; \<open>None\<close> where an accessor throws.\<close>

definition restore_position :: "timestamp \<Rightarrow> json \<Rightarrow> portfolio \<Rightarrow> portfolio option" where
  "restore_position tnow v p =
    (case if_object v of
       None \<Rightarrow> Some p
     | Some obj \<Rightarrow>
        Option.bind (text_field [] ''symbol'' obj) (\<lambda>s.
          if s = [] then Some p
          else Option.bind (double_field 0 ''size'' obj) (\<lambda>qty.
            if qty \<le> 0 then Some p
            else Option.bind (double_field 0 ''avg_entry_price'' obj) (\<lambda>price.
              Option.bind (text_field ''Buy'' ''side'' obj) (\<lambda>sd.
              Option.bind (text_field ''snapshot_recovery'' ''strategy_id'' obj) (\<lambda>strat.
              Option.bind (snapshot_opened_at tnow obj) (\<lambda>opened.
                Some (open_position tnow (restored_position tnow s (side_of_text sd) qty price strat opened) p))))))))"

fun restore_positions :: "timestamp \<Rightarrow> json list \<Rightarrow> portfolio \<Rightarrow> bool \<times> portfolio" where
  "restore_positions tnow [] p = (True, p)"
| "restore_positions tnow (v # vs) p =
    (case restore_position tnow v p of None \<Rightarrow> (False, p) | Some p \<Rightarrow> restore_positions tnow vs p)"

definition restore_capital :: "timestamp \<Rightarrow> json_object \<Rightarrow> portfolio \<Rightarrow> portfolio option" where
  "restore_capital tnow obj p =
    (case map_of obj ''total_capital'' of
       None \<Rightarrow> Some p
     | Some (JReal c) \<Rightarrow> if isfinite c \<and> 0 < c then Some (set_capital tnow c p) else None
     | Some _ \<Rightarrow> None)"

definition restore_object :: "timestamp \<Rightarrow> json_object \<Rightarrow> portfolio \<Rightarrow> bool \<times> portfolio" where
  "restore_object tnow obj p =
    (case restore_capital tnow obj p of
       None \<Rightarrow> (False, p)
     | Some p \<Rightarrow>
        (case Option.bind (map_of obj ''positions'') if_array of
           None \<Rightarrow> (True, p)
         | Some vs \<Rightarrow> restore_positions tnow vs p))"

definition restore_from_snapshot :: "recovery_env \<Rightarrow> portfolio \<Rightarrow> recovery_result \<Rightarrow> bool \<times> portfolio \<times> recovery_result" where
  "restore_from_snapshot v p r =
    (if \<not> rve_persistence_enabled v then (False, p, r)
     else case rve_snapshot v of
       Inl _ \<Rightarrow> (False, p, r)
     | Inr e \<Rightarrow>
        (case parsed_object (rve_parse v) (se_payload_json e) of
           None \<Rightarrow> (False, p, r)
         | Some obj \<Rightarrow>
            let (ok, p) = restore_object (rve_now v) obj p
            in (ok, p,
                if ok then add_message (''Snapshot restored (id='' @ to_string_int (se_snapshot_id e) @ '')'') r else r)))"

section \<open>Journal\<close>

text \<open>What a journal entry stands for.\<close>

datatype journal_event =
    JeBad
  | JeSkip
  | JeUncommitted
  | JeEvent string json_object

definition wal_event :: "json_object \<Rightarrow> journal_event option" where
  "wal_event obj =
    Option.bind (flag_of ''rollback'' obj) (\<lambda>rolled.
      if rolled then Some JeSkip
      else Option.bind (case map_of obj ''committed'' of None \<Rightarrow> Some True | Some (JBool b) \<Rightarrow> Some b | _ \<Rightarrow> None)
        (\<lambda>committed.
          if \<not> committed
          then Option.bind (case map_of obj ''wal_seq'' of None \<Rightarrow> Some 0 | Some v \<Rightarrow> int64_of v) (\<lambda>_.
            Option.bind (text_field ''?'' ''wal_type'' obj) (\<lambda>_. Some JeUncommitted))
          else Option.bind (text_field [] ''wal_type'' obj) (\<lambda>ty.
            case Option.bind (map_of obj ''data'') if_object of
              None \<Rightarrow> Some JeBad
            | Some d \<Rightarrow> Some (JeEvent ty d))))"

definition decode_event :: "(string \<Rightarrow> json option) \<Rightarrow> string \<Rightarrow> journal_event" where
  "decode_event parse payload =
    (if payload = [] then JeBad
     else case parsed_object parse payload of
       None \<Rightarrow> JeBad
     | Some obj \<Rightarrow>
        if map_of obj ''wal_type'' \<noteq> None then (case wal_event obj of None \<Rightarrow> JeBad | Some ev \<Rightarrow> ev)
        else (case map_of obj ''event'' of
            None \<Rightarrow> JeSkip
          | Some (JString ty) \<Rightarrow> JeEvent ty obj
          | Some _ \<Rightarrow> JeBad))"

definition journal_opened_at :: "timestamp \<Rightarrow> timestamp \<Rightarrow> json_object \<Rightarrow> timestamp option" where
  "journal_opened_at tnow written d =
    (case map_of d ''opened_at_ns'' of
       Some v \<Rightarrow> int64_of v
     | None \<Rightarrow> Some (if map_of d ''timestamp'' \<noteq> None then written else tnow))"

definition apply_opened ::
  "timestamp \<Rightarrow> timestamp \<Rightarrow> json_object \<Rightarrow> symbol \<Rightarrow> double \<Rightarrow> double \<Rightarrow> portfolio \<Rightarrow> portfolio option" where
  "apply_opened tnow written d s amount price p =
    Option.bind (text_field ''Buy'' ''side'' d) (\<lambda>sd.
      Option.bind (text_field [] ''strategy_id'' d) (\<lambda>strat.
      Option.bind (journal_opened_at tnow written d) (\<lambda>opened.
        Some (open_position tnow ((restored_position tnow s (side_of_text sd) amount price strat opened)
          \<lparr>pos_notional := amount * price\<rparr>) p))))"

definition apply_closed :: "timestamp \<Rightarrow> json_object \<Rightarrow> symbol \<Rightarrow> double \<Rightarrow> portfolio \<Rightarrow> portfolio option" where
  "apply_closed tnow d s price p =
    Option.bind (double_field 0 ''pnl'' d) (\<lambda>pnl.
      case (if map_of d ''position_side'' \<noteq> None then map_of d ''position_side'' else map_of d ''side'') of
        None \<Rightarrow> Some (close_position tnow s price pnl p)
      | Some (JString ps) \<Rightarrow>
          Some (close_position_leg tnow s (if ps = ''short'' \<or> ps = ''Sell'' \<or> ps = ''Short'' then Short else Long) price pnl p)
      | Some _ \<Rightarrow> None)"

text \<open>An event applied to the portfolio, with a flag for one that is counted as skipped; \<open>None\<close> where an accessor throws.\<close>

definition apply_event :: "timestamp \<Rightarrow> timestamp \<Rightarrow> string \<Rightarrow> json_object \<Rightarrow> portfolio \<Rightarrow> (bool \<times> portfolio) option" where
  "apply_event tnow written ty d p =
    Option.bind (text_field [] ''symbol'' d) (\<lambda>s.
    Option.bind (double_field 0 ''amount'' d) (\<lambda>amount.
    Option.bind (double_field 0 ''price'' d) (\<lambda>price.
      if ty = ''PositionOpened'' \<and> s \<noteq> [] \<and> 0 < price
      then map_option (Pair False) (apply_opened tnow written d s amount price p)
      else if ty = ''PositionClosed'' \<and> s \<noteq> [] then map_option (Pair False) (apply_closed tnow d s price p)
      else if ty = ''FeeCharged'' \<and> s \<noteq> [] then Some (False, record_fee tnow s amount [] p)
      else if ty = ''CashReserved'' then Some (True, p)
      else if ty = ''CapitalSynced'' \<or> ty = ''BalanceSync''
      then Some (False, if 0 < amount then set_capital tnow amount p else p)
      else Some (True, p))))"

record replay_state =
  rj_portfolio :: portfolio
  rj_replayed :: int
  rj_skipped :: int
  rj_errors :: int
  rj_warnings :: int

definition replay_error :: "replay_state \<Rightarrow> replay_state" where
  "replay_error x = x\<lparr>rj_errors := rj_errors x + 1\<rparr>"

definition replay_entry :: "recovery_env \<Rightarrow> journal_entry \<Rightarrow> replay_state \<Rightarrow> replay_state" where
  "replay_entry v je x =
    (case decode_event (rve_parse v) (je_payload_json je) of
       JeBad \<Rightarrow> replay_error x
     | JeSkip \<Rightarrow> x\<lparr>rj_skipped := rj_skipped x + 1\<rparr>
     | JeUncommitted \<Rightarrow> x\<lparr>rj_warnings := rj_warnings x + 1, rj_skipped := rj_skipped x + 1\<rparr>
     | JeEvent ty d \<Rightarrow>
        (case apply_event (rve_now v) (je_timestamp je) ty d (rj_portfolio x) of
           None \<Rightarrow> replay_error x
         | Some (skip, p) \<Rightarrow>
            x\<lparr>rj_portfolio := p, rj_replayed := rj_replayed x + 1,
              rj_skipped := rj_skipped x + (if skip then 1 else 0)\<rparr>))"

definition replay_start :: "portfolio \<Rightarrow> replay_state" where
  "replay_start p = \<lparr>rj_portfolio = p, rj_replayed = 0, rj_skipped = 0, rj_errors = 0, rj_warnings = 0\<rparr>"

definition replay_journal_after_snapshot ::
  "recovery_env \<Rightarrow> timestamp \<Rightarrow> portfolio \<Rightarrow> recovery_result \<Rightarrow> bool \<times> portfolio \<times> recovery_result" where
  "replay_journal_after_snapshot v snapshot_time p r =
    (if \<not> rve_persistence_enabled v then (False, p, r)
     else case rve_journal v snapshot_time (rve_now v) (Some PortfolioChange) of
       None \<Rightarrow> (False, p, r)
     | Some js \<Rightarrow>
        let x = fold (replay_entry v) js (replay_start p);
            r = add_warnings (rj_warnings x + rj_errors x) r;
            r = add_message (''Journal replayed: '' @ to_string_int (rj_replayed x) @ '' applied, '' @
                  to_string_int (rj_skipped x) @ '' skipped, '' @ to_string_int (rj_errors x) @ '' errors'') r
        in (rj_errors x = 0, rj_portfolio x, r))"

section \<open>Exchange\<close>

definition passes_filter :: "recovery_config \<Rightarrow> exchange_position_info \<Rightarrow> bool" where
  "passes_filter cfg i \<longleftrightarrow>
    (rvc_symbol_filter cfg = [] \<or> xp_symbol i = rvc_symbol_filter cfg) \<and>
    \<not> (xp_notional_usd i < rvc_min_position_value_usd cfg \<or> xp_size i \<le> 0)"

definition info_price :: "exchange_position_info \<Rightarrow> double" where
  "info_price i = (if 0 < xp_current_price i then xp_current_price i else xp_entry_price i)"

definition info_leg :: "exchange_position_info \<Rightarrow> position_side" where
  "info_leg i = (if xp_side i = Buy then Long else Short)"

definition leg_tolerance :: "double \<Rightarrow> double" where
  "leg_tolerance exchange_qty = std_max (exchange_qty * lit 0.005) (lit 0.00000001)"

definition leg_differs :: "exchange_position_info \<Rightarrow> position \<Rightarrow> bool" where
  "leg_differs i q \<longleftrightarrow> leg_tolerance (xp_size i) < \<bar>xp_size i - pos_size q\<bar>"

definition sync_info :: "recovery_env \<Rightarrow> exchange_position_info \<Rightarrow> timestamp \<Rightarrow> portfolio \<Rightarrow> portfolio" where
  "sync_info v i opened p =
    sync_position_from_exchange (rve_now v) (xp_symbol i) (info_leg i) (xp_size i) (xp_entry_price i) (info_price i)
      (xp_unrealized_pnl i) opened p"

definition local_match :: "exchange_position_info \<Rightarrow> portfolio \<Rightarrow> position option" where
  "local_match i p =
    (case get_position_leg (xp_symbol i) (info_leg i) p of
       Some q \<Rightarrow> if pos_side q = xp_side i then Some q else None
     | None \<Rightarrow> None)"

text \<open>What is done with one position of the exchange: its text, a warning or none, and the portfolio.\<close>

definition sync_decision ::
  "recovery_config \<Rightarrow> recovery_env \<Rightarrow> exchange_position_info \<Rightarrow> portfolio \<Rightarrow> bool \<times> string \<times> bool \<times> portfolio" where
  "sync_decision cfg v i p =
    (case local_match i p of
       Some q \<Rightarrow>
        (True,
         if leg_differs i q
         then ''Quantity mismatch: exchange='' @ to_string_double (xp_size i) @ '' local='' @
              to_string_double (pos_size q) @ ''; synced from exchange''
         else ''Position matches (within tolerance)'',
         leg_differs i q, sync_info v i (pos_opened_at q) p)
     | None \<Rightarrow>
        if rvc_close_orphan_positions cfg then (False, ''needs_close'', True, p)
        else (False, ''Orphan futures position synced into portfolio (exchange-truth)'', True, sync_info v i (rve_now v) p))"

definition sync_one ::
  "recovery_config \<Rightarrow> recovery_env \<Rightarrow> exchange_position_info \<Rightarrow> portfolio \<times> recovery_result \<times> recovered_position list \<Rightarrow>
   portfolio \<times> recovery_result \<times> recovered_position list" where
  "sync_one cfg v i x =
    (let (p, r, recs) = x
     in if \<not> passes_filter cfg i then (p, r, recs)
        else
          let (known, how, warn, p) = sync_decision cfg v i p;
              r = add_message (''Position '' @ xp_symbol i @ '' '' @ (if xp_side i = Buy then ''Long'' else ''Short'') @
                    '': '' @ how) (add_warnings (if warn then 1 else 0) r)
          in (p, r, recs @ [\<lparr>rvp_symbol = xp_symbol i, rvp_side = xp_side i, rvp_size = xp_size i,
                rvp_avg_entry_price = xp_entry_price i, rvp_estimated_pnl = xp_unrealized_pnl i,
                rvp_had_matching_strategy = known, rvp_resolution = how\<rparr>]))"

text \<open>The legs; the second component of the result are the balances for the next step.\<close>

definition sync_positions_from_exchange ::
  "recovery_config \<Rightarrow> recovery_env \<Rightarrow> portfolio \<Rightarrow> recovery_result \<Rightarrow>
   recovered_position list \<times> exchange_balance_info list \<times> portfolio \<times> recovery_result" where
  "sync_positions_from_exchange cfg v p r =
    (case rve_balances v of
       None \<Rightarrow> ([], [], p, add_error (add_message ''Failed to fetch margin balances from exchange'' r))
     | Some bs \<Rightarrow>
        (case rve_positions v of
           None \<Rightarrow> ([], bs, p, add_warnings 1 (add_message ''Failed to fetch open futures positions'' r))
         | Some is \<Rightarrow>
            if is = [] then ([], bs, p, add_message ''No open futures positions on exchange'' r)
            else let (p, r, recs) = fold (sync_one cfg v) is (p, r, []) in (recs, bs, p, r)))"

definition extract_usdt_balance ::
  "recovery_env \<Rightarrow> exchange_balance_info list \<Rightarrow> portfolio \<Rightarrow> recovery_result \<Rightarrow> double \<times> portfolio \<times> recovery_result" where
  "extract_usdt_balance v bs p r =
    (case find (\<lambda>b. xb_symbol b = ''USDT'') bs of
       None \<Rightarrow> (0, p, add_error (add_message ''USDT balance NOT FOUND in exchange response - refusing to set capital to 0'' r))
     | Some b \<Rightarrow>
        let usdt = xb_available b + xb_frozen b;
            local_capital = sn_total_capital (snapshot (rve_now v) p);
            adjustment = usdt - local_capital
        in if lit 0.01 < \<bar>adjustment\<bar>
           then (usdt, set_capital (rve_now v) usdt p,
                 add_message (''Margin balance synced: exchange='' @ to_string_double usdt @ '' local='' @
                   to_string_double local_capital @ '' adj='' @ to_string_double adjustment)
                   (r\<lparr>rvr_balance_adjustment := adjustment\<rparr>))
           else (usdt, p, r))"

text \<open>The last two steps of a run: legs and capital from the exchange, then the status.\<close>

definition sync_with_exchange :: "recovery_config \<Rightarrow> recovery_env \<Rightarrow> portfolio \<Rightarrow> recovery_result \<Rightarrow> portfolio \<times> recovery_result" where
  "sync_with_exchange cfg v p r =
    (let (recs, bs, p, r) = sync_positions_from_exchange cfg v p r;
         r = r\<lparr>rvr_recovered_positions := recs\<rparr>;
         (usdt, p, r) = extract_usdt_balance v bs p r;
         r = r\<lparr>rvr_recovered_cash_balance := usdt\<rparr>;
         r = stamp_end v r
     in (p, r\<lparr>rvr_status := finalize_status (rvr_errors r) (rvr_warnings r)\<rparr>))"

section \<open>Runs\<close>

definition finish_run :: "portfolio \<times> recovery_result \<Rightarrow> recovery_service \<Rightarrow> recovery_result \<times> recovery_service" where
  "finish_run x s = (snd x, s\<lparr>rvv_portfolio := fst x, rvv_last_result := snd x\<rparr>)"

definition disabled_run :: "string \<Rightarrow> recovery_service \<Rightarrow> recovery_result \<times> recovery_service" where
  "disabled_run why s =
    finish_run (rvv_portfolio s, add_message why (default_recovery_result\<lparr>rvr_status := RvCompleted\<rparr>)) s"

text \<open>A journal with entries but without a snapshot is the case that is given up.\<close>

definition journal_left_behind :: "recovery_env \<Rightarrow> bool" where
  "journal_left_behind v \<longleftrightarrow>
    (case rve_journal v 0 (rve_now v) None of None \<Rightarrow> False | Some js \<Rightarrow> js \<noteq> [])"

definition replay_after_restore ::
  "recovery_env \<Rightarrow> portfolio \<Rightarrow> recovery_result \<Rightarrow> portfolio \<times> recovery_result" where
  "replay_after_restore v p r =
    (case rve_snapshot v of
       Inl _ \<Rightarrow> (p, r)
     | Inr e \<Rightarrow>
        let (ok, p, r) = replay_journal_after_snapshot v (se_created_at e) p r
        in (p, if ok then add_message ''Journal replayed successfully'' r
               else add_warnings 1 (add_message ''Journal replay completed with errors (corrupted entries skipped)'' r)))"

definition recover_on_startup :: "recovery_env \<Rightarrow> recovery_service \<Rightarrow> recovery_result \<times> recovery_service" where
  "recover_on_startup v s =
    (let cfg = rvv_config s
     in if \<not> rvc_enabled cfg then disabled_run ''Recovery disabled by config'' s
        else
          let r = default_recovery_result\<lparr>rvr_status := RvInProgress\<rparr>;
              (ok, p, r) = restore_from_snapshot v (rvv_portfolio s) r
          in if ok then
               let r = add_message ''Snapshot restored successfully'' r;
                   (p, r) = replay_after_restore v p r
               in finish_run (sync_with_exchange cfg v p r) s
             else if rve_persistence_enabled v then
               let r = add_warnings 1 (add_message ''Snapshot restore failed or not found'' r)
               in if journal_left_behind v
                  then finish_run (p, stamp_end v (add_error (r\<lparr>rvr_status := RvFailed\<rparr>))) s
                  else finish_run (sync_with_exchange cfg v p r) s
             else finish_run (sync_with_exchange cfg v p (add_message ''Persistent recovery skipped (disabled)'' r)) s)"

definition recover_positions :: "recovery_env \<Rightarrow> recovery_service \<Rightarrow> recovery_result \<times> recovery_service" where
  "recover_positions v s =
    (let cfg = rvv_config s
     in if \<not> rvc_enabled cfg then disabled_run ''Recovery disabled by config'' s
        else finish_run (sync_with_exchange cfg v (rvv_portfolio s) (default_recovery_result\<lparr>rvr_status := RvInProgress\<rparr>)) s)"

definition recover_from_journal :: "recovery_env \<Rightarrow> recovery_service \<Rightarrow> recovery_result \<times> recovery_service" where
  "recover_from_journal v s =
    (if \<not> rvc_enabled (rvv_config s) then disabled_run ''Recovery disabled by config'' s
     else if \<not> rve_persistence_enabled v
     then disabled_run ''Journal recovery skipped because persistence is disabled'' s
     else
       let r = default_recovery_result\<lparr>rvr_status := RvInProgress\<rparr>
       in case rve_snapshot v of
         Inl _ \<Rightarrow>
           finish_run (rvv_portfolio s,
             stamp_end v (add_message ''No snapshot found - fresh deployment'' r\<lparr>rvr_status := RvCompleted\<rparr>)) s
       | Inr e \<Rightarrow>
           let (ok, p, r) = restore_from_snapshot v (rvv_portfolio s) r
           in if \<not> ok
              then finish_run (p, stamp_end v ((add_error (add_message ''Failed to restore from existing snapshot'' r))
                     \<lparr>rvr_status := RvFailed\<rparr>)) s
              else
                let (ok, p, r) = replay_journal_after_snapshot v (se_created_at e) p r;
                    r = (if ok then add_message ''Journal replayed successfully'' r
                         else add_warnings 1 (add_message ''Journal replay completed with errors'' r));
                    r = stamp_end v r
                in finish_run (p, r\<lparr>rvr_status := finalize_status (rvr_errors r) (rvr_warnings r)\<rparr>) s)"

section \<open>Working orders, trigger orders and pairs\<close>

definition recovered_order :: "exchange_order_info \<Rightarrow> recovered_pending_order" where
  "recovered_order x =
    \<lparr>rvo_order_id = eo_order_id x, rvo_symbol = eo_symbol x, rvo_side = eo_side x,
     rvo_position_side =
       (if eo_trade_side x = TradeOpen then (if eo_side x = Buy then Long else Short)
        else (if eo_side x = Buy then Short else Long)),
     rvo_price = eo_price x, rvo_remaining_qty = eo_original_quantity x - eo_filled_quantity x, rvo_order_type = [],
     rvo_is_reduce_only = (eo_trade_side x = TradeClose), rvo_exchange_order_id = eo_client_order_id x,
     rvo_resolution = (if eo_trade_side x = TradeClose then ''adopted'' else ''needs_cancel'')\<rparr>"

definition recover_pending :: "exchange_order_info list option \<Rightarrow> extended_recovery_result \<Rightarrow> extended_recovery_result" where
  "recover_pending answer x =
    (case answer of
       None \<Rightarrow> x\<lparr>rvx_base := add_warnings 1 (rvx_base x)\<rparr>
     | Some os \<Rightarrow>
        let recs = map recovered_order os
        in x\<lparr>rvx_pending_orders := rvx_pending_orders x @ recs,
             rvx_pending_orders_adopted := rvx_pending_orders_adopted x + int (length (filter rvo_is_reduce_only recs)),
             rvx_pending_orders_cancelled :=
               rvx_pending_orders_cancelled x + int (length (filter (\<lambda>o'. \<not> rvo_is_reduce_only o') recs))\<rparr>)"

definition closes_its_leg :: "exchange_order_info \<Rightarrow> position_side \<Rightarrow> bool" where
  "closes_its_leg x ps \<longleftrightarrow> eo_side x = Sell \<and> ps = Long \<or> eo_side x = Buy \<and> ps = Short"

definition recover_trigger :: "exchange_order_info \<Rightarrow> extended_recovery_result \<Rightarrow> extended_recovery_result" where
  "recover_trigger t x =
    (let ps = (if eo_side t = Sell then Long else Short);
         rec = (\<lambda>how. \<lparr>rvt_order_id = eo_order_id t, rvt_symbol = eo_symbol t, rvt_position_side = ps,
                 rvt_trigger_price = eo_price t, rvt_is_tp = False, rvt_still_active = True, rvt_resolution = how\<rparr>)
     in if closes_its_leg t ps
        then x\<lparr>rvx_protective_orders := rvx_protective_orders x @ [rec ''verified_active''],
               rvx_protective_orders_verified := rvx_protective_orders_verified x + 1\<rparr>
        else x\<lparr>rvx_protective_orders := rvx_protective_orders x @ [rec ''orphan_trigger''],
               rvx_base := add_warnings 1 (rvx_base x)\<rparr>)"

definition recover_protective :: "exchange_order_info list option \<Rightarrow> extended_recovery_result \<Rightarrow> extended_recovery_result" where
  "recover_protective answer x =
    (case answer of None \<Rightarrow> x\<lparr>rvx_base := add_warnings 1 (rvx_base x)\<rparr> | Some ts \<Rightarrow> fold recover_trigger ts x)"

definition default_pair_state :: "symbol \<Rightarrow> recovered_pair_state" where
  "default_pair_state s =
    \<lparr>rvs_symbol = s, rvs_has_primary = False, rvs_has_hedge = False, rvs_primary_side = Buy, rvs_primary_size = 0,
     rvs_hedge_size = 0, rvs_primary_entry_price = 0, rvs_hedge_entry_price = 0, rvs_inferred_state = [],
     rvs_resolution = []\<rparr>"

definition add_leg :: "recovered_position \<Rightarrow> recovered_pair_state \<Rightarrow> recovered_pair_state" where
  "add_leg q x =
    (if rvp_side q \<noteq> Buy \<and> rvs_has_primary x
     then x\<lparr>rvs_has_hedge := True, rvs_hedge_size := rvp_size q, rvs_hedge_entry_price := rvp_avg_entry_price q\<rparr>
     else x\<lparr>rvs_has_primary := True, rvs_primary_side := rvp_side q, rvs_primary_size := rvp_size q,
            rvs_primary_entry_price := rvp_avg_entry_price q\<rparr>)"

definition infer_pair :: "symbol \<Rightarrow> recovered_position list \<Rightarrow> recovered_pair_state" where
  "infer_pair s qs =
    (let x = fold add_leg qs (default_pair_state s)
     in x\<lparr>rvs_inferred_state :=
            (if rvs_has_primary x \<and> rvs_has_hedge x then ''PrimaryPlusHedge''
             else if rvs_has_primary x then ''PrimaryOnly'' else ''Unknown''),
          rvs_resolution := ''inferred_from_positions''\<rparr>)"

text \<open>The positions by symbol, in the order of first appearance.\<close>

definition by_symbol :: "recovered_position list \<Rightarrow> (symbol \<times> recovered_position list) list" where
  "by_symbol qs =
    fold (\<lambda>q ix. AList.update (rvp_symbol q)
      ((case map_of ix (rvp_symbol q) of None \<Rightarrow> [] | Some ls \<Rightarrow> ls) @ [q]) ix) qs []"

definition default_extended_result :: "recovery_result \<Rightarrow> extended_recovery_result" where
  "default_extended_result r =
    \<lparr>rvx_base = r, rvx_pending_orders = [], rvx_protective_orders = [], rvx_pair_states = [],
     rvx_pending_orders_adopted = 0, rvx_pending_orders_cancelled = 0, rvx_protective_orders_verified = 0,
     rvx_protective_orders_missing = 0, rvx_pair_states_restored = 0\<rparr>"

definition recover_full_state :: "recovery_env \<Rightarrow> recovery_service \<Rightarrow> extended_recovery_result \<times> recovery_service" where
  "recover_full_state v s =
    (let (r, s) = recover_on_startup v s;
         x = default_extended_result r
     in if rvr_status r = RvFailed then (x, s\<lparr>rvv_last_extended_result := x\<rparr>)
        else
          let x = recover_pending (rve_open_orders v) x;
              x = recover_protective (rve_trigger_orders v) x;
              pairs = map (\<lambda>(s, qs). infer_pair s qs) (by_symbol (rvr_recovered_positions (rvx_base x)));
              x = x\<lparr>rvx_pair_states := pairs, rvx_pair_states_restored := int (length pairs)\<rparr>;
              x = x\<lparr>rvx_base := (rvx_base x)\<lparr>rvr_status :=
                     finalize_status (rvr_errors (rvx_base x)) (rvr_warnings (rvx_base x))\<rparr>\<rparr>
          in (x, s\<lparr>rvv_last_extended_result := x\<rparr>))"

section \<open>What the pipeline writes\<close>

text \<open>
  The payloads of \<^verbatim>\<open>persist_portfolio_snapshot\<close> and \<^verbatim>\<open>persist_position_event\<close>
  (\<^verbatim>\<open>src/src/pipeline/trading_pipeline.cpp\<close>), as JSON values; the serializer is Boost's.
\<close>

definition position_json :: "position \<Rightarrow> json" where
  "position_json q =
    JObject [(''symbol'', JString (pos_symbol q)), (''side'', JString (if pos_side q = Buy then ''Buy'' else ''Sell'')),
      (''position_side'', JString (if pos_position_side q = Long then ''long'' else ''short'')),
      (''size'', JReal (pos_size q)), (''avg_entry_price'', JReal (pos_avg_entry_price q)),
      (''current_price'', JReal (pos_current_price q)), (''unrealized_pnl'', JReal (pos_unrealized_pnl q)),
      (''strategy_id'', JString (pos_strategy_id q)), (''opened_at_ns'', JInt (pos_opened_at q)),
      (''updated_at_ns'', JInt (pos_updated_at q))]"

definition portfolio_snapshot_json :: "symbol \<Rightarrow> timestamp \<Rightarrow> portfolio_snapshot \<Rightarrow> json" where
  "portfolio_snapshot_json s tnow snap =
    JObject [(''symbol'', JString s), (''positions'', JArray (map position_json (sn_positions snap))),
      (''total_capital'', JReal (sn_total_capital snap)), (''available_capital'', JReal (sn_available_capital snap)),
      (''timestamp_ns'', JInt tnow)]"

definition position_event_json ::
  "timestamp \<Rightarrow> timestamp \<Rightarrow> string \<Rightarrow> symbol \<Rightarrow> position_side \<Rightarrow> double \<Rightarrow> double \<Rightarrow> double \<Rightarrow> strategy_id \<Rightarrow> json" where
  "position_event_json t1 t2 ty s ps price pnl size' strat =
    JObject ([(''event'', JString ty), (''symbol'', JString s),
      (''position_side'', JString (if ps = Long then ''long'' else ''short'')), (''price'', JReal price),
      (''pnl'', JReal pnl), (''size'', JReal size'), (''strategy_id'', JString strat), (''timestamp_ns'', JInt t1)] @
      (if ty = ''PositionOpened'' then [(''opened_at_ns'', JInt t2)] else []))"

end
