(* ===== verification/Recovery_Laws.thy ===== *)
theory Recovery_Laws
  imports Recovery_Service Portfolio_Laws
begin

text \<open>
  What a recovery run guarantees: legs as the exchange has them, a refusal when the snapshot is lost,
  the round trip of the pipeline's snapshots, and where the pieces do not fit.
\<close>

section \<open>The portfolio's operations\<close>

lemma recalculate_opened [simp]: "pos_opened_at (recalculate_position_pnl q) = pos_opened_at q"
  by (simp add: recalculate_position_pnl_def Let_def)

lemma set_capital_positions [simp]: "pf_positions (set_capital t c p) = pf_positions p"
  by (simp add: set_capital_def rebase_capital_def Let_def)

lemma get_leg_set_capital [simp]: "get_position_leg s ps (set_capital t c p) = get_position_leg s ps p"
  by (simp add: get_position_leg_def)

lemma sync_info_leg:
  "get_position_leg (xp_symbol i) (info_leg i) (sync_info v i opened p) \<noteq> None"
  "get_position_leg (xp_symbol i) (info_leg i) (sync_info v i opened p) = Some q \<Longrightarrow>
    pos_size q = xp_size i \<and> pos_avg_entry_price q = xp_entry_price i \<and> pos_current_price q = info_price i"
  by (auto simp: sync_info_def get_position_leg_def sync_position_from_exchange_def Let_def split: option.splits)

lemma sync_info_other:
  "\<not> (s = xp_symbol i \<and> ps = info_leg i) \<Longrightarrow>
    get_position_leg s ps (sync_info v i opened p) = get_position_leg s ps p"
  by (auto simp: sync_info_def get_position_leg_def sync_position_from_exchange_def Let_def)

section \<open>Legs from the exchange\<close>

definition leg_as_exchange :: "exchange_position_info \<Rightarrow> portfolio \<Rightarrow> bool" where
  "leg_as_exchange i p \<longleftrightarrow>
    (case get_position_leg (xp_symbol i) (info_leg i) p of
       None \<Rightarrow> False
     | Some q \<Rightarrow> pos_size q = xp_size i \<and> pos_avg_entry_price q = xp_entry_price i \<and> pos_current_price q = info_price i)"

definition same_key :: "exchange_position_info \<Rightarrow> exchange_position_info \<Rightarrow> bool" where
  "same_key i j \<longleftrightarrow> xp_symbol i = xp_symbol j \<and> xp_side i = xp_side j"

lemma info_leg_eq [simp]: "info_leg i = info_leg j \<longleftrightarrow> xp_side i = xp_side j"
  by (cases "xp_side i"; cases "xp_side j") (simp_all add: info_leg_def)

lemma decision_portfolio:
  assumes "\<not> rvc_close_orphan_positions cfg"
  shows "\<exists>opened. snd (snd (snd (sync_decision cfg v i p))) = sync_info v i opened p"
  using assms by (cases "local_match i p") (auto simp: sync_decision_def)

lemma sync_one_portfolio:
  assumes "\<not> rvc_close_orphan_positions cfg"
  shows "fst (sync_one cfg v i (p, x)) = p \<and> \<not> passes_filter cfg i \<or>
    (\<exists>opened. fst (sync_one cfg v i (p, x)) = sync_info v i opened p) \<and> passes_filter cfg i"
proof (cases x)
  case (Pair r recs)
  obtain a b c d where e: "sync_decision cfg v i p = (a, b, c, d)" by (cases "sync_decision cfg v i p") auto
  show ?thesis using decision_portfolio [OF assms, of v i p] by (simp add: Pair e sync_one_def Let_def)
qed

lemma leg_kept_by_other:
  assumes "\<not> rvc_close_orphan_positions cfg" "leg_as_exchange i p" "passes_filter cfg j \<Longrightarrow> \<not> same_key i j"
  shows "leg_as_exchange i (fst (sync_one cfg v j (p, x)))"
  using sync_one_portfolio [OF assms(1), of v j p x] assms(2,3) sync_info_other [of "xp_symbol i" j "info_leg i"]
  by (auto simp: leg_as_exchange_def same_key_def)

lemma leg_kept_by_rest:
  assumes "\<not> rvc_close_orphan_positions cfg" "leg_as_exchange i (fst x)"
    and "\<forall>j\<in>set js. passes_filter cfg j \<longrightarrow> \<not> same_key i j"
  shows "leg_as_exchange i (fst (fold (sync_one cfg v) js x))"
  using assms(2,3)
proof (induction js arbitrary: x)
  case (Cons j js)
  obtain p y where x: "x = (p, y)" by (cases x)
  have "leg_as_exchange i (fst (sync_one cfg v j x))"
    using leg_kept_by_other [OF assms(1), of i p j v y] Cons.prems by (simp add: x)
  then show ?case using Cons by simp
qed simp

lemma synced_leg:
  assumes "\<not> rvc_close_orphan_positions cfg" "passes_filter cfg i"
    and "\<forall>j\<in>set post. passes_filter cfg j \<longrightarrow> \<not> same_key i j"
  shows "leg_as_exchange i (fst (fold (sync_one cfg v) (pre @ i # post) x))"
proof -
  obtain p y where x: "fold (sync_one cfg v) pre x = (p, y)" by (cases "fold (sync_one cfg v) pre x")
  obtain opened where "fst (sync_one cfg v i (p, y)) = sync_info v i opened p"
    using sync_one_portfolio [OF assms(1), of v i p y] assms(2) by blast
  then have "leg_as_exchange i (fst (sync_one cfg v i (p, y)))"
    using sync_info_leg [of i v opened p] by (auto simp: leg_as_exchange_def split: option.split)
  then show ?thesis using leg_kept_by_rest [OF assms(1) _ assms(3)] by (simp add: x)
qed

section \<open>Errors\<close>

lemma message_fields [simp]:
  "rvr_errors (add_message m r) = rvr_errors r" "rvr_errors (add_warnings n r) = rvr_errors r"
  "rvr_errors (add_error r) = rvr_errors r + 1" "rvr_errors (stamp_end v r) = rvr_errors r"
  "rvr_warnings (add_message m r) = rvr_warnings r" "rvr_warnings (add_warnings n r) = rvr_warnings r + n"
  "rvr_warnings (add_error r) = rvr_warnings r" "rvr_warnings (stamp_end v r) = rvr_warnings r"
  "rvr_status (add_message m r) = rvr_status r" "rvr_status (add_warnings n r) = rvr_status r"
  "rvr_status (add_error r) = rvr_status r" "rvr_status (stamp_end v r) = rvr_status r"
  by (simp_all add: add_message_def add_warnings_def add_error_def stamp_end_def)

lemma sync_one_errors: "rvr_errors (fst (snd (sync_one cfg v i x))) = rvr_errors (fst (snd x))"
  by (cases x) (simp add: sync_one_def Let_def case_prod_unfold)

lemma sync_fold_errors: "rvr_errors (fst (snd (fold (sync_one cfg v) is x))) = rvr_errors (fst (snd x))"
  by (induction "is" arbitrary: x) (simp_all add: sync_one_errors)

lemma finalize_failed [simp]: "finalize_status e w = RvFailed \<longleftrightarrow> 0 < e"
  by (simp add: finalize_status_def)

lemma extract_positions [simp]: "pf_positions (fst (snd (extract_usdt_balance v bs p r))) = pf_positions p"
  by (simp add: extract_usdt_balance_def Let_def split: option.split)

lemma extract_errors:
  "rvr_errors (snd (snd (extract_usdt_balance v bs p r))) =
    rvr_errors r + (if find (\<lambda>b. xb_symbol b = ''USDT'') bs = None then 1 else 0)"
  by (simp add: extract_usdt_balance_def Let_def split: option.split)

lemma sync_errors:
  "rvr_errors (snd (snd (snd (sync_positions_from_exchange cfg v p r)))) =
    rvr_errors r + (if rve_balances v = None then 1 else 0)"
  by (simp add: sync_positions_from_exchange_def case_prod_unfold Let_def sync_fold_errors split: option.split)

lemma sync_with_exchange_parts:
  fixes cfg v p r
  defines "x \<equiv> sync_positions_from_exchange cfg v p r"
  defines "y \<equiv> extract_usdt_balance v (fst (snd x)) (fst (snd (snd x)))
    (snd (snd (snd x))\<lparr>rvr_recovered_positions := fst x\<rparr>)"
  shows "fst (sync_with_exchange cfg v p r) = fst (snd y)"
    and "rvr_errors (snd (sync_with_exchange cfg v p r)) = rvr_errors (snd (snd y))"
    and "rvr_status (snd (sync_with_exchange cfg v p r)) = RvFailed \<longleftrightarrow> 0 < rvr_errors (snd (snd y))"
  by (simp_all add: sync_with_exchange_def x_def y_def case_prod_unfold Let_def)

lemma sync_with_exchange_leg:
  assumes "\<not> rvc_close_orphan_positions cfg" "rve_positions v = Some (pre @ i # post)" "passes_filter cfg i"
    and "\<forall>j\<in>set post. passes_filter cfg j \<longrightarrow> \<not> same_key i j"
    and "0 \<le> rvr_errors r" "rvr_status (snd (sync_with_exchange cfg v p r)) \<noteq> RvFailed"
  shows "leg_as_exchange i (fst (sync_with_exchange cfg v p r))"
proof -
  let ?f = "fold (sync_one cfg v) (pre @ i # post) (p, r, [])"
  have "rve_balances v \<noteq> None"
    using assms(5,6) by (auto simp: sync_with_exchange_parts(3) extract_errors sync_errors split: if_splits)
  then obtain bs where "rve_balances v = Some bs" by blast
  then have "fst (snd (snd (sync_positions_from_exchange cfg v p r))) = fst ?f"
    using assms(2) by (simp add: sync_positions_from_exchange_def case_prod_unfold Let_def del: fold_append)
  then have "pf_positions (fst (sync_with_exchange cfg v p r)) = pf_positions (fst ?f)"
    by (simp add: sync_with_exchange_parts(1))
  then have "leg_as_exchange i (fst (sync_with_exchange cfg v p r)) \<longleftrightarrow> leg_as_exchange i (fst ?f)"
    by (simp add: leg_as_exchange_def get_position_leg_def)
  then show ?thesis using synced_leg [OF assms(1,3,4)] by blast
qed

section \<open>Runs\<close>

lemma restore_errors [simp]: "rvr_errors (snd (snd (restore_from_snapshot v p r))) = rvr_errors r"
  by (simp add: restore_from_snapshot_def case_prod_unfold Let_def split: sum.split option.split)

lemma replay_errors [simp]: "rvr_errors (snd (snd (replay_journal_after_snapshot v t p r))) = rvr_errors r"
  by (simp add: replay_journal_after_snapshot_def Let_def split: option.split)

lemma replay_after_errors [simp]: "rvr_errors (snd (replay_after_restore v p r)) = rvr_errors r"
  by (simp add: replay_after_restore_def case_prod_unfold Let_def split: sum.split)

lemma finish_fields [simp]:
  "fst (finish_run x s) = snd x" "rvv_portfolio (snd (finish_run x s)) = fst x"
  by (simp_all add: finish_run_def)

text \<open>A run at start-up that is not given up ends with the exchange's legs and capital.\<close>

definition given_up :: "recovery_env \<Rightarrow> recovery_service \<Rightarrow> bool" where
  "given_up v s \<longleftrightarrow> rve_persistence_enabled v \<and> journal_left_behind v \<and>
    \<not> fst (restore_from_snapshot v (rvv_portfolio s) (default_recovery_result\<lparr>rvr_status := RvInProgress\<rparr>))"

lemma startup_ends_with_sync:
  assumes "rvc_enabled (rvv_config s)" "\<not> given_up v s"
  shows "\<exists>p r. recover_on_startup v s = finish_run (sync_with_exchange (rvv_config s) v p r) s \<and> rvr_errors r = 0"
proof -
  let ?r = "default_recovery_result\<lparr>rvr_status := RvInProgress\<rparr>"
  obtain ok p r where e: "restore_from_snapshot v (rvv_portfolio s) ?r = (ok, p, r)"
    by (cases "restore_from_snapshot v (rvv_portfolio s) ?r") auto
  have r: "rvr_errors r = 0"
    using restore_errors [of v "rvv_portfolio s" ?r] unfolding e by (simp add: default_recovery_result_def)
  show ?thesis
  proof (cases ok)
    case True
    let ?x = "replay_after_restore v p (add_message ''Snapshot restored successfully'' r)"
    have "recover_on_startup v s = finish_run (sync_with_exchange (rvv_config s) v (fst ?x) (snd ?x)) s"
      using assms(1) True by (simp add: recover_on_startup_def e Let_def case_prod_unfold)
    moreover have "rvr_errors (snd ?x) = 0" using r by simp
    ultimately show ?thesis by blast
  next
    case False
    let ?w = "add_warnings 1 (add_message ''Snapshot restore failed or not found'' r)"
    let ?d = "add_message ''Persistent recovery skipped (disabled)'' r"
    have "recover_on_startup v s =
        finish_run (sync_with_exchange (rvv_config s) v p (if rve_persistence_enabled v then ?w else ?d)) s"
      using assms False by (simp add: recover_on_startup_def e Let_def given_up_def)
    moreover have "rvr_errors (if rve_persistence_enabled v then ?w else ?d) = 0" using r by simp
    ultimately show ?thesis by blast
  qed
qed

lemma given_up_fails:
  assumes "rvc_enabled (rvv_config s)" "given_up v s"
  shows "rvr_status (fst (recover_on_startup v s)) = RvFailed"
  using assms by (simp add: recover_on_startup_def given_up_def case_prod_unfold Let_def)

text \<open>
  C16. Recovery at start-up restores the exchange's truth: unless the run fails, every position of the
  exchange's answer that is above the minimum value and passes the symbol filter is afterwards a leg
  of the portfolio with the exchange's size, entry price and current price, whatever snapshot,
  journal and portfolio said before; of two entries for one leg the later counts.
\<close>

theorem startup_restores_exchange_legs:
  assumes "rvc_enabled (rvv_config s)" "\<not> rvc_close_orphan_positions (rvv_config s)"
    and "rve_positions v = Some (pre @ i # post)" "passes_filter (rvv_config s) i"
    and "\<forall>j\<in>set post. passes_filter (rvv_config s) j \<longrightarrow> \<not> same_key i j"
    and "rvr_status (fst (recover_on_startup v s)) \<noteq> RvFailed"
  shows "leg_as_exchange i (rvv_portfolio (snd (recover_on_startup v s)))"
proof -
  have "\<not> given_up v s" using given_up_fails [OF assms(1)] assms(6) by blast
  from startup_ends_with_sync [OF assms(1) this] obtain p r where
    x: "recover_on_startup v s = finish_run (sync_with_exchange (rvv_config s) v p r) s" "rvr_errors r = 0" by blast
  show ?thesis
    using sync_with_exchange_leg [OF assms(2-5), of r p] assms(6) x by simp
qed

text \<open>
  A lost snapshot stops the start: with entries in the journal and no snapshot of the portfolio the
  run fails and leaves the portfolio as it was.
\<close>

theorem lost_snapshot_stops_startup:
  assumes "rvc_enabled (rvv_config s)" "rve_persistence_enabled v" "rve_snapshot v = Inl e"
    and "rve_journal v 0 (rve_now v) None = Some js" "js \<noteq> []"
  shows "rvr_status (fst (recover_on_startup v s)) = RvFailed \<and>
    rvv_portfolio (snd (recover_on_startup v s)) = rvv_portfolio s"
  using assms
  by (simp add: recover_on_startup_def restore_from_snapshot_def journal_left_behind_def Let_def)

section \<open>The pipeline's snapshots\<close>

definition leg_core :: "position \<Rightarrow> symbol \<times> side \<times> double \<times> double \<times> strategy_id \<times> timestamp" where
  "leg_core q = (pos_symbol q, pos_side q, pos_size q, pos_avg_entry_price q, pos_strategy_id q, pos_opened_at q)"

lemma restore_position_json:
  assumes "pos_symbol q \<noteq> []" "\<not> pos_size q \<le> 0"
  shows "restore_position t (position_json q) p =
    Some (open_position t (restored_position t (pos_symbol q) (pos_side q) (pos_size q) (pos_avg_entry_price q)
      (pos_strategy_id q) (pos_opened_at q)) p)"
  using assms
  by (cases "pos_side q")
    (simp_all add: restore_position_def position_json_def text_field_def double_field_def snapshot_opened_at_def
      int64_of_def side_of_text_def)

lemma open_new_leg:
  assumes "map_of (pf_positions p) (side_key (pos_symbol q) (pos_side q)) = None"
  shows "map_option leg_core (map_of (pf_positions (open_position t q p)) k) =
    (if k = side_key (pos_symbol q) (pos_side q) then Some (leg_core q) else map_option leg_core (map_of (pf_positions p) k))"
  using assms by (simp add: open_position_def Let_def leg_core_def)

lemma restore_all:
  assumes "\<forall>q\<in>set qs. pos_symbol q \<noteq> [] \<and> \<not> pos_size q \<le> 0"
    and "distinct (map (\<lambda>q. side_key (pos_symbol q) (pos_side q)) qs)"
    and "\<forall>q\<in>set qs. map_of (pf_positions p) (side_key (pos_symbol q) (pos_side q)) = None"
  shows "fst (restore_positions t (map position_json qs) p) \<and>
    map_option leg_core (map_of (pf_positions (snd (restore_positions t (map position_json qs) p))) k) =
      (case find (\<lambda>q. side_key (pos_symbol q) (pos_side q) = k) qs of
         Some q \<Rightarrow> Some (leg_core q)
       | None \<Rightarrow> map_option leg_core (map_of (pf_positions p) k))"
  using assms
proof (induction qs arbitrary: p)
  case (Cons q qs)
  let ?q = "restored_position t (pos_symbol q) (pos_side q) (pos_size q) (pos_avg_entry_price q) (pos_strategy_id q) (pos_opened_at q)"
  let ?p = "open_position t ?q p"
  have q: "pos_symbol ?q = pos_symbol q" "pos_side ?q = pos_side q" "leg_core ?q = leg_core q"
    by (simp_all add: restored_position_def leg_core_def)
  have n: "map_option leg_core (map_of (pf_positions ?p) k) =
      (if k = side_key (pos_symbol q) (pos_side q) then Some (leg_core q) else map_option leg_core (map_of (pf_positions p) k))" for k
    using open_new_leg [of p ?q t k] Cons.prems(3) q by simp
  have "map_of (pf_positions ?p) (side_key (pos_symbol x) (pos_side x)) = None" if "x \<in> set qs" for x
    using n [of "side_key (pos_symbol x) (pos_side x)"] Cons.prems(2,3) that
    by (metis (no_types, lifting) distinct.simps(2) image_eqI list.set_intros(2) list.set_map list.simps(9) option.map_disc_iff)
  then have ih: "fst (restore_positions t (map position_json qs) ?p) \<and>
      map_option leg_core (map_of (pf_positions (snd (restore_positions t (map position_json qs) ?p))) k) =
        (case find (\<lambda>q. side_key (pos_symbol q) (pos_side q) = k) qs of
           Some q \<Rightarrow> Some (leg_core q) | None \<Rightarrow> map_option leg_core (map_of (pf_positions ?p) k))"
    using Cons.IH [of ?p] Cons.prems by simp
  have "find (\<lambda>q. side_key (pos_symbol q) (pos_side q) = k) qs = None" if "k = side_key (pos_symbol q) (pos_side q)"
    using Cons.prems(2) that by (metis (mono_tags, lifting) distinct.simps(2) find_None_iff image_eqI list.set_map list.simps(9))
  then show ?case
    using ih n [of k] Cons.prems(1) restore_position_json [of q t p] by (auto split: option.split)
qed simp

lemma find_leg_of_list:
  assumes "al_wf ps" "\<forall>k q. map_of ps k = Some q \<longrightarrow> leg_ok k q"
  shows "find (\<lambda>q. side_key (pos_symbol q) (pos_side q) = k) (map snd ps) = map_of ps k"
    and "map (\<lambda>q. side_key (pos_symbol q) (pos_side q)) (map snd ps) = map fst ps"
proof -
  have *: "side_key (pos_symbol q) (pos_side q) = j" if "(j, q) \<in> set ps" for j q
  proof -
    have "map_of ps j = Some q" using map_of_is_SomeI [OF _ that] assms(1) by (simp add: al_wf_def)
    then have "leg_ok j q" using assms(2) by blast
    then show ?thesis unfolding leg_ok_def side_key_eq by metis
  qed
  then show "map (\<lambda>q. side_key (pos_symbol q) (pos_side q)) (map snd ps) = map fst ps" by auto
  show "find (\<lambda>q. side_key (pos_symbol q) (pos_side q) = k) (map snd ps) = map_of ps k"
    using * by (induction ps) (auto 0 3)
qed

text \<open>
  C17. The pipeline's snapshot of a well-formed portfolio with legs of positive size, read back into a
  portfolio without legs, restores every leg with its symbol, side, size, entry price, strategy and
  time of opening, and no other leg.
\<close>

theorem snapshot_round_trip:
  assumes "pf_inv p" "\<forall>(k, q)\<in>set (pf_positions p). pos_symbol q \<noteq> [] \<and> \<not> pos_size q \<le> 0"
    and "isfinite (pf_total_capital p)" "0 < pf_total_capital p" "pf_positions p0 = []"
    and "rve_persistence_enabled v" "rve_snapshot v = Inr e"
    and "rve_parse v (se_payload_json e) = Some (portfolio_snapshot_json s t (snapshot t' p))"
  shows "case restore_from_snapshot v p0 r of (ok, p1, _) \<Rightarrow>
    ok \<and> map_option leg_core (get_position_leg s' ps p1) = map_option leg_core (get_position_leg s' ps p)"
proof -
  let ?qs = "map snd (pf_positions p)"
  have l: "al_wf (pf_positions p)" "\<forall>k q. map_of (pf_positions p) k = Some q \<longrightarrow> leg_ok k q"
    using assms(1) by (simp_all add: pf_inv_def)
  have d: "distinct (map (\<lambda>q. side_key (pos_symbol q) (pos_side q)) ?qs)"
    using l(1) by (simp only: find_leg_of_list(2) [OF l]) (simp add: al_wf_def)
  let ?p = "set_capital (rve_now v) (pf_total_capital p) p0"
  have a: "fst (restore_positions (rve_now v) (map position_json ?qs) ?p) \<and>
      map_option leg_core (map_of (pf_positions (snd (restore_positions (rve_now v) (map position_json ?qs) ?p))) k) =
        map_option leg_core (map_of (pf_positions p) k)" for k
  proof -
    have n: "pf_positions ?p = []" using assms(5) by simp
    have "\<forall>q\<in>set ?qs. pos_symbol q \<noteq> [] \<and> \<not> pos_size q \<le> 0" using assms(2) by auto
    from restore_all [OF this d, of ?p "rve_now v" k] show ?thesis
      unfolding find_leg_of_list(1) [OF l] n by (cases "map_of (pf_positions p) k") (simp_all only: map_of.simps option.case simp_thms, simp_all)
  qed
  have o: "restore_object (rve_now v)
      [(''symbol'', JString s), (''positions'', JArray (map position_json ?qs)),
       (''total_capital'', JReal (pf_total_capital p)), (''available_capital'', JReal c), (''timestamp_ns'', JInt t)] p0 =
      restore_positions (rve_now v) (map position_json ?qs) ?p" for c
    using assms(3,4) by (simp add: restore_object_def restore_capital_def)
  show ?thesis
    using assms(6-8) a [of "pos_key s' ps"] o
    by (simp add: restore_from_snapshot_def parsed_object_def portfolio_snapshot_json_def snapshot_def Let_def
        case_prod_unfold get_position_leg_def del: map_map)
qed

section \<open>Working orders and triggers\<close>

text \<open>Every working order is either adopted or marked for cancellation.\<close>

theorem pending_orders_accounted:
  "rvx_pending_orders_adopted (recover_pending (Some os) x) + rvx_pending_orders_cancelled (recover_pending (Some os) x) =
    rvx_pending_orders_adopted x + rvx_pending_orders_cancelled x + int (length os)"
  using sum_length_filter_compl [of rvo_is_reduce_only "map recovered_order os"]
  by (simp add: recover_pending_def Let_def flip: of_nat_add)

lemma trigger_verified:
  "recover_trigger t x = x\<lparr>rvx_protective_orders := rvx_protective_orders x @
      [\<lparr>rvt_order_id = eo_order_id t, rvt_symbol = eo_symbol t,
        rvt_position_side = (if eo_side t = Sell then Long else Short), rvt_trigger_price = eo_price t, rvt_is_tp = False,
        rvt_still_active = True, rvt_resolution = ''verified_active''\<rparr>],
     rvx_protective_orders_verified := rvx_protective_orders_verified x + 1\<rparr>"
  by (cases "eo_side t") (simp_all add: recover_trigger_def closes_its_leg_def Let_def)

text \<open>
  The side of the leg is derived from the side of the trigger order itself, so the test that it closes
  its leg never fails: no trigger order is ever reported as an orphan, and none raises a warning.
\<close>

theorem no_orphan_trigger_found:
  "rvx_base (fold recover_trigger ts x) = rvx_base x \<and>
   map rvt_resolution (rvx_protective_orders (fold recover_trigger ts x)) =
     map rvt_resolution (rvx_protective_orders x) @ replicate (length ts) ''verified_active''"
  by (induction ts arbitrary: x) (simp_all add: trigger_verified)

section \<open>Where the pieces do not fit\<close>

text \<open>
  The pipeline writes the size of an opened position as \<^verbatim>\<open>size\<close> and its leg as \<^verbatim>\<open>position_side\<close>; the
  replay reads \<^verbatim>\<open>amount\<close> and \<^verbatim>\<open>side\<close>.  A short position of any size that was opened after the last
  snapshot comes back as a long leg of size 0, without an error.
\<close>

theorem opened_event_replayed_wrong:
  assumes "rve_parse v (je_payload_json je) = Some (position_event_json t1 t2 ''PositionOpened'' s Short price pnl sz strat)"
    and "je_payload_json je \<noteq> []" "s \<noteq> []" "0 < price" "get_position_leg s Long p = None"
  shows "rj_errors (replay_entry v je (replay_start p)) = 0 \<and>
    map_option (\<lambda>q. (pos_side q, pos_size q)) (get_position_leg s Long (rj_portfolio (replay_entry v je (replay_start p)))) =
      Some (Buy, 0) \<and>
    get_position_leg s Short (rj_portfolio (replay_entry v je (replay_start p))) = get_position_leg s Short p"
proof -
  have k: "side_key s Buy = pos_key s Long" by (simp add: side_key_def pos_key_def)
  have d: "decode_event (rve_parse v) (je_payload_json je) = JeEvent ''PositionOpened''
      (case position_event_json t1 t2 ''PositionOpened'' s Short price pnl sz strat of JObject d \<Rightarrow> d)"
    using assms(1,2) by (simp add: decode_event_def parsed_object_def position_event_json_def)
  let ?q = "(restored_position (rve_now v) s Buy 0 price strat t2)\<lparr>pos_notional := 0 * price\<rparr>"
  have "rj_portfolio (replay_entry v je (replay_start p)) = open_position (rve_now v) ?q p"
    "rj_errors (replay_entry v je (replay_start p)) = 0"
    using assms(3,4)
    by (simp_all add: replay_entry_def d position_event_json_def apply_event_def text_field_def double_field_def
        apply_opened_def journal_opened_at_def int64_of_def side_of_text_def replay_start_def)
  then show ?thesis
    using assms(5) by (simp add: open_position_def Let_def get_position_leg_def restored_position_def k)
qed

text \<open>
  The log keeps the intent of every action next to its commit, and the replay warns about each intent
  without looking for the commit: a log in which everything was committed still gives warnings.
\<close>

theorem committed_intent_still_warns:
  assumes "rve_parse v (je_payload_json intent) = Some (JObject
      [(''wal_seq'', JInt n), (''wal_type'', JString ty), (''committed'', JBool False), (''data'', JObject d)])"
    and "rve_parse v (je_payload_json commit) = Some (JObject
      [(''wal_seq'', JInt n), (''wal_type'', JString ty), (''committed'', JBool True), (''data'', JObject d)])"
    and "je_payload_json intent \<noteq> []" "je_payload_json commit \<noteq> []"
  shows "rj_warnings (fold (replay_entry v) [intent, commit] (replay_start p)) = 1"
proof -
  have i: "decode_event (rve_parse v) (je_payload_json intent) = JeUncommitted"
    using assms(1,3) by (simp add: decode_event_def parsed_object_def wal_event_def flag_of_def int64_of_def text_field_def)
  have c: "decode_event (rve_parse v) (je_payload_json commit) = JeEvent ty d"
    using assms(2,4) by (simp add: decode_event_def parsed_object_def wal_event_def flag_of_def int64_of_def text_field_def)
  show ?thesis
    by (simp add: replay_entry_def i c replay_start_def replay_error_def split: option.split prod.split)
qed

text \<open>A leg that the exchange no longer has stays in the portfolio: recovery only adds and updates.\<close>

theorem ghost_leg_survives:
  assumes "rve_positions v = Some []"
  shows "get_position_leg s ps (rvv_portfolio (snd (recover_positions v x))) = get_position_leg s ps (rvv_portfolio x)"
proof -
  have "fst (snd (snd (sync_positions_from_exchange cfg v p r))) = p" for cfg p r
    using assms by (simp add: sync_positions_from_exchange_def split: option.split)
  then have "pf_positions (fst (sync_with_exchange cfg v p r)) = pf_positions p" for cfg p r
    by (simp add: sync_with_exchange_parts(1))
  then show ?thesis by (simp add: recover_positions_def get_position_leg_def disabled_run_def Let_def)
qed

text \<open>A pair is recognised only when the exchange lists the long leg first.\<close>

theorem pair_needs_long_first:
  assumes "rvp_side l = Buy" "rvp_side h = Sell"
  shows "rvs_inferred_state (infer_pair s [l, h]) = ''PrimaryPlusHedge'' \<and>
    rvs_inferred_state (infer_pair s [h, l]) = ''PrimaryOnly'' \<and> \<not> rvs_has_hedge (infer_pair s [h, l])"
  using assms by (simp add: infer_pair_def add_leg_def default_pair_state_def Let_def)

text \<open>
  The balance of the exchange is compared with the capital without today's profit, which the
  synchronisation subtracts again: with a realised profit of 8 every run adjusts by 8, and nothing changes.
\<close>

theorem adjustment_never_settles:
  fixes v r
  defines "p \<equiv> (portfolio_init (Fin 1000))\<lparr>pf_realized_pnl_today := Fin 8\<rparr>"
  defines "b \<equiv> \<lparr>xb_symbol = ''USDT'', xb_available = Fin 1008, xb_frozen = Fin 0, xb_total_value_usd = Fin 1008\<rparr>"
  shows "rvr_balance_adjustment (snd (snd (extract_usdt_balance v [b] p r))) = Fin 8 \<and>
    pf_total_capital (fst (snd (extract_usdt_balance v [b] p r))) = pf_total_capital p \<and>
    pf_realized_pnl_today (fst (snd (extract_usdt_balance v [b] p r))) = pf_realized_pnl_today p"
proof -
  have l: "mk 1008 = Fin 1008" "mk 8 = Fin 8" "mk 1000 = Fin 1000" "mk 0 = Fin 0"
    using mk_of_int [of 1008] mk_of_int [of 8] mk_of_int [of 1000] mk_of_int [of 0] by simp_all
  have "lit 0.01 \<le> 1" using mk_mono [of "0.01" 1] by (simp add: one_double_def)
  then have t: "lit 0.01 < Fin 8" by (cases "lit 0.01") (auto simp: one_double_def)
  have u: "total_unrealized p = 0" by (simp add: p_def total_unrealized_def portfolio_init_def)
  have a: "xb_available b + xb_frozen b - sn_total_capital (snapshot (rve_now v) p) = Fin 8"
    by (simp add: b_def p_def portfolio_init_def snapshot_def Let_def minus_double_def l)
  have "xb_available b + xb_frozen b = Fin 1008" by (simp add: b_def l)
  then have s: "pf_total_capital (set_capital (rve_now v) (xb_available b + xb_frozen b) p) = Fin 1000"
      "pf_realized_pnl_today (set_capital (rve_now v) (xb_available b + xb_frozen b) p) = Fin 8"
    using u by (simp_all add: set_capital_def rebase_capital_def emit_event_def Let_def p_def portfolio_init_def
        minus_double_def zero_double_def l)
  have "find (\<lambda>b. xb_symbol b = ''USDT'') [b] = Some b" by (simp add: b_def)
  then show ?thesis
    using a s t by (simp add: extract_usdt_balance_def Let_def add_message_def) (simp add: p_def portfolio_init_def)
qed

section \<open>Instances\<close>

definition ex_env :: recovery_env where
  "ex_env =
    \<lparr>rve_parse = (\<lambda>_. Some (portfolio_snapshot_json ''BTCUSDT'' 7 (snapshot 7 ex_portfolio))),
     rve_persistence_enabled = True,
     rve_snapshot = Inr \<lparr>se_snapshot_id = 1, se_type = SnPortfolio, se_created_at = 7, se_config_hash = [], se_payload_json = ''{}''\<rparr>,
     rve_journal = (\<lambda>_ _ _. Some []),
     rve_balances = Some [\<lparr>xb_symbol = ''USDT'', xb_available = Fin 1000, xb_frozen = 0, xb_total_value_usd = Fin 1000\<rparr>],
     rve_positions = Some [\<lparr>xp_symbol = ''BTCUSDT'', xp_side = Sell, xp_position_side = Short, xp_size = 1,
       xp_entry_price = Fin 100, xp_current_price = Fin 100, xp_notional_usd = Fin 100, xp_unrealized_pnl = 0\<rparr>],
     rve_open_orders = Some [], rve_trigger_orders = Some [], rve_start = 1, rve_now = 2, rve_end = 3\<rparr>"

definition ex_service :: recovery_service where
  "ex_service = \<lparr>rvv_config = default_recovery_config, rvv_portfolio = portfolio_init (Fin 1000),
     rvv_last_result = default_recovery_result, rvv_last_extended_result = default_extended_result default_recovery_result\<rparr>"

lemma ex_portfolio_inv: "pf_inv ex_portfolio"
  by (rule pf.inv_reachable [OF ex_portfolio_reachable])

lemma snapshot_round_trip_witness:
  "map_option leg_core (get_position_leg ''BTCUSDT'' Long
     (fst (snd (restore_from_snapshot ex_env (portfolio_init (Fin 1)) default_recovery_result)))) =
   map_option leg_core (get_position_leg ''BTCUSDT'' Long ex_portfolio)"
proof -
  have a: "\<forall>(k, q)\<in>set (pf_positions ex_portfolio). pos_symbol q \<noteq> [] \<and> \<not> pos_size q \<le> 0"
    by (simp add: ex_portfolio_def open_position_def portfolio_init_def ex_position_def Let_def zero_double_def)
  have b: "isfinite (pf_total_capital ex_portfolio)" "0 < pf_total_capital ex_portfolio"
    by (simp_all add: ex_portfolio_def open_position_def portfolio_init_def emit_event_def Let_def zero_double_def)
  have c: "pf_positions (portfolio_init (Fin 1)) = []" by (simp add: portfolio_init_def)
  have d: "rve_persistence_enabled ex_env"
    "rve_snapshot ex_env = Inr \<lparr>se_snapshot_id = 1, se_type = SnPortfolio, se_created_at = 7, se_config_hash = [], se_payload_json = ''{}''\<rparr>"
    "rve_parse ex_env x = Some (portfolio_snapshot_json ''BTCUSDT'' 7 (snapshot 7 ex_portfolio))" for x
    by (simp_all add: ex_env_def)
  show ?thesis
    using snapshot_round_trip [OF ex_portfolio_inv a b c d(1,2,3), where r = default_recovery_result and s' = "''BTCUSDT''" and ps = Long]
    by (simp add: case_prod_unfold)
qed

lemma ex_no_errors:
  assumes "rve_balances v = rve_balances ex_env" "rvr_errors r = 0"
  shows "rvr_status (snd (sync_with_exchange cfg v p r)) \<noteq> RvFailed"
proof -
  have "fst (snd (sync_positions_from_exchange cfg v p r)) = the (rve_balances ex_env)"
    using assms(1) by (simp add: sync_positions_from_exchange_def ex_env_def case_prod_unfold Let_def split: option.split)
  then show ?thesis
    using assms by (simp add: sync_with_exchange_parts(3) extract_errors sync_errors ex_env_def)
qed

lemma startup_restores_exchange_legs_witness:
  "leg_as_exchange (hd (the (rve_positions ex_env))) (rvv_portfolio (snd (recover_on_startup ex_env ex_service)))"
proof -
  have e: "rvc_enabled (rvv_config ex_service)" by (simp add: ex_service_def default_recovery_config_def)
  have "\<not> given_up ex_env ex_service" by (simp add: given_up_def journal_left_behind_def ex_env_def)
  from startup_ends_with_sync [OF e this] obtain p r where
    x: "recover_on_startup ex_env ex_service = finish_run (sync_with_exchange (rvv_config ex_service) ex_env p r) ex_service"
      "rvr_errors r = 0" by blast
  have f: "rvr_status (fst (recover_on_startup ex_env ex_service)) \<noteq> RvFailed"
    using ex_no_errors [OF refl x(2)] x(1) by simp
  have "lit 5 = Fin 5" using mk_of_int [of 5] by simp
  then have p: "passes_filter (rvv_config ex_service) (hd (the (rve_positions ex_env)))"
    by (simp add: passes_filter_def ex_service_def default_recovery_config_def ex_env_def one_double_def zero_double_def)
  show ?thesis
    by (rule startup_restores_exchange_legs [OF e _ _ p _ f, of "[]" "[]"])
      (simp_all add: ex_service_def default_recovery_config_def ex_env_def)
qed

definition ex_lost_env :: recovery_env where
  "ex_lost_env = ex_env\<lparr>rve_snapshot := Inl PersistenceError,
     rve_journal := (\<lambda>_ _ _. Some [\<lparr>je_sequence_id = 1, je_type = PortfolioChange, je_timestamp = 1, je_correlation_id = [],
       je_strategy_id = [], je_config_hash = [], je_payload_json = ''{}''\<rparr>])\<rparr>"

lemma lost_snapshot_stops_startup_witness:
  "rvr_status (fst (recover_on_startup ex_lost_env ex_service)) = RvFailed"
proof -
  have "rvc_enabled (rvv_config ex_service)" "rve_persistence_enabled ex_lost_env"
    "rve_snapshot ex_lost_env = Inl PersistenceError"
    by (simp_all add: ex_service_def default_recovery_config_def ex_lost_env_def ex_env_def)
  then show ?thesis
    using lost_snapshot_stops_startup [of ex_service ex_lost_env PersistenceError "the (rve_journal ex_lost_env 0 2 None)"]
    by (simp add: ex_lost_env_def ex_env_def)
qed

end
