(* ===== verification/Bracket_Manager.thy ===== *)
theory Bracket_Manager
  imports Execution_Engine Reconciliation "HOL-Library.Signed_Division"
begin

text \<open>
  The owner of take-profit and stop-loss orders of open positions
  (\<^verbatim>\<open>src/src/pipeline/protective_bracket_manager.{hpp,cpp}\<close>).  The exchange's answers are functions in
  \<open>bracket_env\<close>; each operation returns the requests it makes next to its result.  An operation is
  one step: what other threads do to the table while an operation waits for the exchange is left out.
\<close>

section \<open>Types\<close>

text \<open>Plan orders as the query adapter delivers them (\<^verbatim>\<open>bitget_futures_query_adapter.hpp\<close>).\<close>

datatype plan_order_kind = UnknownPlan | ProfitPlan | LossPlan | NormalPlan | PosTPSL

record plan_order_info =
  po_order_id :: order_id
  po_client_order_id :: order_id
  po_symbol :: symbol
  po_position_side :: position_side
  po_kind :: plan_order_kind
  po_trigger_price :: double
  po_execute_price :: double
  po_size :: double
  po_trigger_type :: string
  po_plan_type :: string
  po_created_at_ms :: int

datatype bracket_source = NoBracket | PresetAttached | StandalonePlan

fun bracket_source_to_string :: "bracket_source \<Rightarrow> string" where
  "bracket_source_to_string NoBracket = ''None''"
| "bracket_source_to_string PresetAttached = ''PresetAttached''"
| "bracket_source_to_string StandalonePlan = ''StandalonePlan''"

record bracket_state =
  bk_symbol :: symbol
  bk_position_side :: position_side
  bk_position_size :: double
  bk_entry_price :: double
  bk_tp_price :: double
  bk_sl_price :: double
  bk_tp_order_id :: order_id
  bk_sl_order_id :: order_id
  bk_tp_source :: bracket_source
  bk_sl_source :: bracket_source
  bk_tp_plan_type :: string
  bk_sl_plan_type :: string
  bk_opened_at_ns :: timestamp
  bk_last_verified_at_ns :: timestamp
  bk_verify_attempts :: int
  bk_verified :: bool
  bk_released :: bool
  bk_consecutive_fallback_failures :: int
  bk_throttle_until_ns :: timestamp

definition default_bracket_state :: bracket_state where
  "default_bracket_state =
    \<lparr>bk_symbol = [], bk_position_side = Long, bk_position_size = 0, bk_entry_price = 0, bk_tp_price = 0, bk_sl_price = 0,
     bk_tp_order_id = [], bk_sl_order_id = [], bk_tp_source = NoBracket, bk_sl_source = NoBracket,
     bk_tp_plan_type = ''normal_plan'', bk_sl_plan_type = ''normal_plan'', bk_opened_at_ns = 0, bk_last_verified_at_ns = 0,
     bk_verify_attempts = 0, bk_verified = False, bk_released = False, bk_consecutive_fallback_failures = 0,
     bk_throttle_until_ns = 0\<rparr>"

record bracket_config =
  bc_verify_grace_ms :: int
  bc_max_verify_attempts :: int
  bc_verify_retry_interval_ms :: int
  bc_max_consecutive_fallback_failures :: int
  bc_failed_backoff_ms :: int

definition default_bracket_config :: bracket_config where
  "default_bracket_config =
    \<lparr>bc_verify_grace_ms = 3000, bc_max_verify_attempts = 6, bc_verify_retry_interval_ms = 1000,
     bc_max_consecutive_fallback_failures = 3, bc_failed_backoff_ms = 60000\<rparr>"

type_synonym bracket_table = "(string \<times> bracket_state) list"

record bracket_manager =
  bm_config :: bracket_config
  bm_has_submitter :: bool
  bm_has_query :: bool
  bm_brackets :: bracket_table

definition bracket_manager_init :: "bracket_config \<Rightarrow> bool \<Rightarrow> bool \<Rightarrow> bracket_manager" where
  "bracket_manager_init cfg submitter query =
    \<lparr>bm_config = cfg, bm_has_submitter = submitter, bm_has_query = query, bm_brackets = []\<rparr>"

datatype bracket_request =
    CancelPlan order_id symbol string
  | CancelRegular order_id symbol
  | SubmitPlan order_record

record bracket_env =
  be_now :: timestamp
  be_plans :: "symbol \<Rightarrow> plan_order_info list option"
  be_open_orders :: "symbol \<Rightarrow> exchange_order_info list option"
  be_cancel_plan :: "order_id \<Rightarrow> symbol \<Rightarrow> string \<Rightarrow> bool"
  be_cancel_order :: "order_id \<Rightarrow> symbol \<Rightarrow> bool"
  be_submit_plan :: "order_record \<Rightarrow> order_submit_result"
  be_client_id :: "plan_order_kind \<Rightarrow> order_id"

section \<open>Helpers\<close>

definition bracket_key :: "symbol \<Rightarrow> position_side \<Rightarrow> string" where
  "bracket_key s ps = s @ '':'' @ position_side_to_string ps"

definition prices_match :: "double \<Rightarrow> double \<Rightarrow> bool" where
  "prices_match a b \<longleftrightarrow> \<not> (a \<le> 0 \<or> b \<le> 0) \<and> \<bar>a - b\<bar> / std_max a b * lit 100 < 1"

definition cancel_type :: "string \<Rightarrow> string" where
  "cancel_type pt = (if pt = [] then ''normal_plan'' else pt)"

definition cancel_plan :: "bool \<Rightarrow> bracket_env \<Rightarrow> symbol \<Rightarrow> order_id \<Rightarrow> string \<Rightarrow> bool \<times> bracket_request list" where
  "cancel_plan submitter v s oid pt =
    (if \<not> submitter \<or> oid = [] then (False, [])
     else (be_cancel_plan v oid s (cancel_type pt), [CancelPlan oid s (cancel_type pt)]))"

definition standalone_order :: "bracket_env \<Rightarrow> bracket_state \<Rightarrow> plan_order_kind \<Rightarrow> double \<Rightarrow> order_record" where
  "standalone_order v b kind trigger =
    default_order\<lparr>o_order_id := be_client_id v kind, o_symbol := bk_symbol b, o_position_side := bk_position_side b,
      o_side := (if bk_position_side b = Long then Sell else Buy), o_trade_side := TradeClose, o_order_type := StopMarket,
      o_tif := ImmediateOrCancel, o_original_quantity := bk_position_size b, o_remaining_quantity := bk_position_size b,
      o_created_at := be_now v, o_last_updated := be_now v,
      o_execution_info := default_execution_info\<lparr>ei_client_order_id := be_client_id v kind\<rparr>,
      o_plan_params := \<lparr>pp_trigger_price = trigger, pp_trigger_type = MarkPrice, pp_execute_price = 0\<rparr>\<rparr>"

definition place_standalone_plan ::
  "bool \<Rightarrow> bracket_env \<Rightarrow> bracket_state \<Rightarrow> plan_order_kind \<Rightarrow> double \<Rightarrow> order_id \<times> bracket_request list" where
  "place_standalone_plan submitter v b kind trigger =
    (if \<not> submitter \<or> \<not> 0 < trigger \<or> \<not> isfinite trigger then ([], [])
     else
       let r = be_submit_plan v (standalone_order v b kind trigger)
       in (if sr_success r then sr_exchange_order_id r else [], [SubmitPlan (standalone_order v b kind trigger)]))"

section \<open>A new position\<close>

definition bracket_price :: "double \<Rightarrow> double" where
  "bracket_price x = (if 0 < x \<and> isfinite x then x else 0)"

definition preset_source :: "double \<Rightarrow> bracket_source" where
  "preset_source x = (if 0 < x then PresetAttached else NoBracket)"

definition on_position_opened ::
  "bracket_env \<Rightarrow> symbol \<Rightarrow> position_side \<Rightarrow> double \<Rightarrow> double \<Rightarrow> double \<Rightarrow> double \<Rightarrow> bracket_manager \<Rightarrow>
   bracket_request list \<times> bracket_manager" where
  "on_position_opened v s ps entry qty tp sl m =
    (let key = bracket_key s ps;
         b = default_bracket_state\<lparr>bk_symbol := s, bk_position_side := ps, bk_position_size := qty, bk_entry_price := entry,
               bk_tp_price := bracket_price tp, bk_sl_price := bracket_price sl, bk_opened_at_ns := be_now v,
               bk_tp_source := preset_source (bracket_price tp), bk_sl_source := preset_source (bracket_price sl)\<rparr>;
         stale = (case map_of (bm_brackets m) key of
             None \<Rightarrow> []
           | Some old \<Rightarrow>
               if bk_released old then []
               else snd (cancel_plan (bm_has_submitter m) v s (bk_tp_order_id old) (bk_tp_plan_type old)) @
                    snd (cancel_plan (bm_has_submitter m) v s (bk_sl_order_id old) (bk_sl_plan_type old)))
     in (stale, m\<lparr>bm_brackets := AList.update key b (bm_brackets m)\<rparr>))"

section \<open>Verification\<close>

definition tp_ok :: "bracket_state \<Rightarrow> bool" where
  "tp_ok b \<longleftrightarrow> bk_tp_price b = 0 \<or> bk_tp_order_id b \<noteq> []"

definition sl_ok :: "bracket_state \<Rightarrow> bool" where
  "sl_ok b \<longleftrightarrow> bk_sl_price b = 0 \<or> bk_sl_order_id b \<noteq> []"

definition leg_plan :: "symbol \<Rightarrow> position_side \<Rightarrow> plan_order_kind \<Rightarrow> double \<Rightarrow> plan_order_info \<Rightarrow> bool" where
  "leg_plan s ps kind price p \<longleftrightarrow>
    po_symbol p = s \<and> po_position_side p = ps \<and> (po_kind p = kind \<or> po_kind p = PosTPSL) \<and> 0 < price \<and>
    prices_match (po_trigger_price p) price"

text \<open>The first plan order of a leg that has an id.\<close>

definition found_plan :: "symbol \<Rightarrow> position_side \<Rightarrow> plan_order_kind \<Rightarrow> double \<Rightarrow> plan_order_info list \<Rightarrow> plan_order_info option" where
  "found_plan s ps kind price plans = find (\<lambda>p. leg_plan s ps kind price p \<and> po_order_id p \<noteq> []) plans"

definition adopt_tp :: "plan_order_info option \<Rightarrow> bracket_state \<Rightarrow> bracket_state" where
  "adopt_tp f b =
    (case f of
       None \<Rightarrow> b
     | Some p \<Rightarrow>
        if bk_tp_order_id b \<noteq> [] then b
        else b\<lparr>bk_tp_order_id := po_order_id p, bk_tp_source := PresetAttached,
               bk_tp_plan_type := (if po_plan_type p \<noteq> [] then po_plan_type p else bk_tp_plan_type b)\<rparr>)"

definition adopt_sl :: "plan_order_info option \<Rightarrow> bracket_state \<Rightarrow> bracket_state" where
  "adopt_sl f b =
    (case f of
       None \<Rightarrow> b
     | Some p \<Rightarrow>
        if bk_sl_order_id b \<noteq> [] then b
        else b\<lparr>bk_sl_order_id := po_order_id p, bk_sl_source := PresetAttached,
               bk_sl_plan_type := (if po_plan_type p \<noteq> [] then po_plan_type p else bk_sl_plan_type b)\<rparr>)"

definition adopt_found :: "bracket_env \<Rightarrow> plan_order_info list \<Rightarrow> bracket_state \<Rightarrow> bracket_state" where
  "adopt_found v plans b =
    (let s = bk_symbol b; ps = bk_position_side b;
         b' = adopt_sl (found_plan s ps LossPlan (bk_sl_price b) plans)
                (adopt_tp (found_plan s ps ProfitPlan (bk_tp_price b) plans)
                  (b\<lparr>bk_verify_attempts := bk_verify_attempts b + 1, bk_last_verified_at_ns := be_now v\<rparr>))
     in b'\<lparr>bk_verified := tp_ok b' \<and> sl_ok b'\<rparr>)"

definition needs_fallback :: "bracket_config \<Rightarrow> bracket_state \<Rightarrow> bool" where
  "needs_fallback cfg b \<longleftrightarrow> \<not> bk_verified b \<and> bc_max_verify_attempts cfg \<le> bk_verify_attempts b"

text \<open>The fallback orders that are needed: the stop first.\<close>

definition fallback_sl :: "bool \<Rightarrow> bool \<Rightarrow> bracket_env \<Rightarrow> bracket_state \<Rightarrow> bool \<times> bracket_request list \<times> bracket_state" where
  "fallback_sl need submitter v b =
    (if \<not> need then (False, [], b)
     else
       let (i, rq) = place_standalone_plan submitter v b LossPlan (bk_sl_price b)
       in if i = [] then (False, rq, b)
          else (True, rq, b\<lparr>bk_sl_order_id := i, bk_sl_source := StandalonePlan, bk_sl_plan_type := ''normal_plan''\<rparr>))"

definition fallback_tp :: "bool \<Rightarrow> bool \<Rightarrow> bracket_env \<Rightarrow> bracket_state \<Rightarrow> bool \<times> bracket_request list \<times> bracket_state" where
  "fallback_tp need submitter v b =
    (if \<not> need then (False, [], b)
     else
       let (i, rq) = place_standalone_plan submitter v b ProfitPlan (bk_tp_price b)
       in if i = [] then (False, rq, b)
          else (True, rq, b\<lparr>bk_tp_order_id := i, bk_tp_source := StandalonePlan, bk_tp_plan_type := ''normal_plan''\<rparr>))"

definition track_failures :: "bracket_config \<Rightarrow> timestamp \<Rightarrow> bool \<Rightarrow> bool \<Rightarrow> bracket_state \<Rightarrow> bracket_state" where
  "track_failures cfg tnow attempted succeeded b =
    (if \<not> attempted then b
     else if succeeded then b\<lparr>bk_consecutive_fallback_failures := 0, bk_throttle_until_ns := 0\<rparr>
     else
       let n = bk_consecutive_fallback_failures b + 1
       in b\<lparr>bk_consecutive_fallback_failures := n,
            bk_throttle_until_ns :=
              (if bc_max_consecutive_fallback_failures cfg \<le> n then tnow + bc_failed_backoff_ms cfg * 1000000
               else bk_throttle_until_ns b)\<rparr>)"

definition verify_with ::
  "bracket_config \<Rightarrow> bool \<Rightarrow> bracket_env \<Rightarrow> plan_order_info list \<Rightarrow> bracket_state \<Rightarrow> bracket_request list \<times> bracket_state" where
  "verify_with cfg submitter v plans b =
    (let b1 = adopt_found v plans b;
         need_sl = (needs_fallback cfg b1 \<and> \<not> sl_ok b1 \<and> 0 < bk_sl_price b1);
         need_tp = (needs_fallback cfg b1 \<and> \<not> tp_ok b1 \<and> 0 < bk_tp_price b1);
         (ok_sl, rq_sl, b2) = fallback_sl need_sl submitter v b1;
         (ok_tp, rq_tp, b3) = fallback_tp need_tp submitter v b2;
         b4 = track_failures cfg (be_now v) (need_sl \<or> need_tp) (ok_sl \<or> ok_tp) b3
     in (rq_sl @ rq_tp, b4\<lparr>bk_verified := tp_ok b4 \<and> sl_ok b4\<rparr>))"

definition verify_deferred :: "bracket_config \<Rightarrow> timestamp \<Rightarrow> bracket_state \<Rightarrow> bool" where
  "verify_deferred cfg tnow b \<longleftrightarrow>
    0 < bk_throttle_until_ns b \<and> tnow < bk_throttle_until_ns b \<or>
    bk_verify_attempts b = 0 \<and> (tnow - bk_opened_at_ns b) sdiv 1000000 < bc_verify_grace_ms cfg"

definition verify_brackets ::
  "bracket_env \<Rightarrow> symbol \<Rightarrow> position_side \<Rightarrow> bracket_manager \<Rightarrow> bool \<times> bracket_request list \<times> bracket_manager" where
  "verify_brackets v s ps m =
    (let key = bracket_key s ps
     in case map_of (bm_brackets m) key of
       None \<Rightarrow> (False, [], m)
     | Some b \<Rightarrow>
        if bk_released b then (False, [], m)
        else if verify_deferred (bm_config m) (be_now v) b then (False, [], m)
        else if \<not> bm_has_query m then (False, [], m)
        else case be_plans v s of
          None \<Rightarrow>
            (False, [], m\<lparr>bm_brackets := AList.update key (b\<lparr>bk_verify_attempts := bk_verify_attempts b + 1\<rparr>) (bm_brackets m)\<rparr>)
        | Some plans \<Rightarrow>
            let (rq, b') = verify_with (bm_config m) (bm_has_submitter m) v plans b
            in (bk_verified b', rq, m\<lparr>bm_brackets := AList.update key b' (bm_brackets m)\<rparr>))"

text \<open>By policy a stop is set once; the call that would move it does nothing.\<close>

definition update_sl :: "symbol \<Rightarrow> position_side \<Rightarrow> double \<Rightarrow> bracket_manager \<Rightarrow> bool \<times> bracket_manager" where
  "update_sl s ps new_sl m = (False, m)"

section \<open>Release\<close>

definition is_preset_tpsl :: "plan_order_info \<Rightarrow> bool" where
  "is_preset_tpsl p \<longleftrightarrow> po_kind p = PosTPSL \<or> po_kind p = ProfitPlan \<or> po_kind p = LossPlan"

definition cancel_plans :: "bracket_env \<Rightarrow> symbol \<Rightarrow> plan_order_info list \<Rightarrow> nat \<times> bracket_request list" where
  "cancel_plans v s plans =
    (length (filter (\<lambda>p. be_cancel_plan v (po_order_id p) s (cancel_type (po_plan_type p))) plans),
     map (\<lambda>p. CancelPlan (po_order_id p) s (cancel_type (po_plan_type p))) plans)"

definition release :: "bracket_env \<Rightarrow> symbol \<Rightarrow> position_side \<Rightarrow> bracket_manager \<Rightarrow> bool \<times> bracket_request list \<times> bracket_manager" where
  "release v s ps m =
    (let key = bracket_key s ps
     in case map_of (bm_brackets m) key of
       None \<Rightarrow> (False, [], m)
     | Some b \<Rightarrow>
        if bk_released b then (True, [], m)
        else
          let (n, rq0) =
                (if bk_tp_order_id b = [] \<and> bk_sl_order_id b = [] \<and> bm_has_query m \<and> bm_has_submitter m
                 then (case be_plans v s of
                     None \<Rightarrow> (0, [])
                   | Some plans \<Rightarrow>
                       cancel_plans v s (filter (\<lambda>p. po_symbol p = s \<and> po_position_side p = ps \<and> is_preset_tpsl p) plans))
                 else (0, []));
              (c1, rq1) = cancel_plan (bm_has_submitter m) v s (bk_tp_order_id b) (bk_tp_plan_type b);
              (c2, rq2) = cancel_plan (bm_has_submitter m) v s (bk_sl_order_id b) (bk_sl_plan_type b)
          in (0 < n \<or> c1 \<or> c2, rq0 @ rq1 @ rq2, m\<lparr>bm_brackets := AList.delete key (bm_brackets m)\<rparr>))"

definition get_state :: "symbol \<Rightarrow> position_side \<Rightarrow> bracket_manager \<Rightarrow> bracket_state option" where
  "get_state s ps m = map_of (bm_brackets m) (bracket_key s ps)"

definition list_active :: "bracket_manager \<Rightarrow> bracket_state list" where
  "list_active m = filter (\<lambda>b. \<not> bk_released b) (map snd (bm_brackets m))"

section \<open>Restart\<close>

definition tp_kind :: "plan_order_info \<Rightarrow> bool" where
  "tp_kind p \<longleftrightarrow> po_kind p = ProfitPlan \<or>
    po_kind p = PosTPSL \<and> (po_plan_type p = ''pos_profit'' \<or> po_plan_type p = ''profit_plan'')"

definition sl_kind :: "plan_order_info \<Rightarrow> bool" where
  "sl_kind p \<longleftrightarrow> po_kind p = LossPlan \<or>
    po_kind p = PosTPSL \<and> (po_plan_type p = ''pos_loss'' \<or> po_plan_type p = ''loss_plan'')"

text \<open>The newest order of a kind; of equal times the first.\<close>

definition newest :: "plan_order_info list \<Rightarrow> plan_order_info option" where
  "newest plans = fold (\<lambda>p best. case best of None \<Rightarrow> Some p
    | Some q \<Rightarrow> if po_created_at_ms q < po_created_at_ms p then Some p else best) plans None"

definition recovered_bracket :: "bracket_env \<Rightarrow> symbol \<Rightarrow> position_side \<Rightarrow> plan_order_info list \<Rightarrow> bracket_state" where
  "recovered_bracket v s ps plans =
    (let mine = filter (\<lambda>p. po_symbol p = s \<and> po_position_side p = ps) plans;
         b = default_bracket_state\<lparr>bk_symbol := s, bk_position_side := ps, bk_opened_at_ns := be_now v,
               bk_last_verified_at_ns := be_now v\<rparr>;
         b = (case newest (filter tp_kind mine) of None \<Rightarrow> b
              | Some p \<Rightarrow> b\<lparr>bk_tp_order_id := po_order_id p, bk_tp_price := po_trigger_price p, bk_tp_source := PresetAttached,
                  bk_tp_plan_type := (if po_plan_type p \<noteq> [] then po_plan_type p else bk_tp_plan_type b)\<rparr>)
     in case newest (filter sl_kind mine) of None \<Rightarrow> b
        | Some p \<Rightarrow> b\<lparr>bk_sl_order_id := po_order_id p, bk_sl_price := po_trigger_price p, bk_sl_source := PresetAttached,
            bk_sl_plan_type := (if po_plan_type p \<noteq> [] then po_plan_type p else bk_sl_plan_type b)\<rparr>)"

definition recover_leg ::
  "bracket_env \<Rightarrow> symbol \<times> position_side \<Rightarrow> int \<times> bracket_manager \<Rightarrow> int \<times> bracket_manager" where
  "recover_leg v leg x =
    (let (n, m) = x; (s, ps) = leg; key = bracket_key s ps
     in if al_contains (bm_brackets m) key then (n, m)
        else case be_plans v s of
          None \<Rightarrow> (n, m)
        | Some plans \<Rightarrow>
            let b = recovered_bracket v s ps plans
            in if bk_tp_order_id b \<noteq> [] \<or> bk_sl_order_id b \<noteq> []
               then (n + 1, m\<lparr>bm_brackets := AList.update key (b\<lparr>bk_verified := True\<rparr>) (bm_brackets m)\<rparr>)
               else (n, m))"

definition recover_from_exchange ::
  "bracket_env \<Rightarrow> (symbol \<times> position_side) list \<Rightarrow> bracket_manager \<Rightarrow> int \<times> bracket_manager" where
  "recover_from_exchange v legs m = (if \<not> bm_has_query m then (0, m) else fold (recover_leg v) legs (0, m))"

section \<open>Orphans\<close>

definition brackets_of :: "symbol \<Rightarrow> bracket_manager \<Rightarrow> bracket_state list" where
  "brackets_of s m = filter (\<lambda>b. bk_symbol b = s \<and> \<not> bk_released b) (map snd (bm_brackets m))"

definition tracked_ids :: "symbol \<Rightarrow> bracket_manager \<Rightarrow> order_id list" where
  "tracked_ids s m = filter (\<lambda>i. i \<noteq> []) (concat (map (\<lambda>b. [bk_tp_order_id b, bk_sl_order_id b]) (brackets_of s m)))"

definition untracked_plans :: "symbol \<Rightarrow> bracket_manager \<Rightarrow> plan_order_info list \<Rightarrow> plan_order_info list" where
  "untracked_plans s m plans = filter (\<lambda>p. po_symbol p = s \<and> po_order_id p \<notin> set (tracked_ids s m)) plans"

definition cleanup_orphans_for_symbol :: "bracket_env \<Rightarrow> symbol \<Rightarrow> bool \<Rightarrow> bracket_manager \<Rightarrow> nat \<times> bracket_request list" where
  "cleanup_orphans_for_symbol v s has_open_position m =
    (if \<not> bm_has_query m \<or> \<not> bm_has_submitter m then (0, [])
     else case be_plans v s of
       None \<Rightarrow> (0, [])
     | Some plans \<Rightarrow>
         if has_open_position \<and> brackets_of s m = [] then (0, []) else cancel_plans v s (untracked_plans s m plans))"

definition startup_wipe_pendings ::
  "bracket_env \<Rightarrow> symbol \<Rightarrow> bool \<Rightarrow> bracket_manager \<Rightarrow> (nat \<times> nat) \<times> bracket_request list" where
  "startup_wipe_pendings v s has_open_position m =
    (if \<not> bm_has_query m \<or> \<not> bm_has_submitter m then ((0, 0), [])
     else
       let os = (case be_open_orders v s of None \<Rightarrow> [] | Some os \<Rightarrow> filter (\<lambda>x. eo_symbol x = s) os);
           (n, rq) = (case be_plans v s of None \<Rightarrow> (0, []) | Some plans \<Rightarrow> cancel_plans v s (untracked_plans s m plans))
       in ((length (filter (\<lambda>x. be_cancel_order v (eo_order_id x) s) os), n),
           map (\<lambda>x. CancelRegular (eo_order_id x) s) os @ rq))"

end
