(* ===== verification/Bracket_Laws.thy ===== *)
theory Bracket_Laws
  imports Bracket_Manager
begin

text \<open>
  What the bracket manager guarantees of the orders that protect a position: an id once known is
  kept, a bracket that counts as verified has an order for each of its legs, the clean-up leaves those
  alone, and verification ends with protection; and the cases in which protection is lost.
\<close>

section \<open>One verification\<close>

definition protected :: "bracket_state \<Rightarrow> bool" where
  "protected b \<longleftrightarrow> tp_ok b \<and> sl_ok b"

text \<open>What no step of a verification changes.\<close>

definition keeps :: "bracket_state \<Rightarrow> bracket_state \<Rightarrow> bool" where
  "keeps b b' \<longleftrightarrow>
    (bk_tp_order_id b \<noteq> [] \<longrightarrow> bk_tp_order_id b' = bk_tp_order_id b) \<and>
    (bk_sl_order_id b \<noteq> [] \<longrightarrow> bk_sl_order_id b' = bk_sl_order_id b) \<and>
    bk_tp_price b' = bk_tp_price b \<and> bk_sl_price b' = bk_sl_price b \<and> bk_symbol b' = bk_symbol b \<and>
    bk_position_side b' = bk_position_side b \<and> bk_released b' = bk_released b \<and> bk_opened_at_ns b' = bk_opened_at_ns b"

lemma keeps_refl [simp]: "keeps b b"
  by (simp add: keeps_def)

lemma keeps_trans: "keeps a b \<Longrightarrow> keeps b c \<Longrightarrow> keeps a c"
  by (auto simp: keeps_def)

lemma keeps_protected: "keeps b b' \<Longrightarrow> protected b \<Longrightarrow> protected b'"
  by (auto simp: keeps_def protected_def tp_ok_def sl_ok_def)

lemma keeps_marks [simp]:
  "keeps b (b'\<lparr>bk_verified := x\<rparr>) \<longleftrightarrow> keeps b b'"
  "keeps b (b'\<lparr>bk_verify_attempts := n, bk_last_verified_at_ns := t\<rparr>) \<longleftrightarrow> keeps b b'"
  "tp_ok (b'\<lparr>bk_verified := x\<rparr>) = tp_ok b'" "sl_ok (b'\<lparr>bk_verified := x\<rparr>) = sl_ok b'"
  by (simp_all add: keeps_def tp_ok_def sl_ok_def)

lemma adopt_tp_facts:
  "keeps b (adopt_tp f b)" "bk_verify_attempts (adopt_tp f b) = bk_verify_attempts b"
  "bk_throttle_until_ns (adopt_tp f b) = bk_throttle_until_ns b"
  by (auto simp: adopt_tp_def keeps_def split: option.split)

lemma adopt_sl_facts:
  "keeps b (adopt_sl f b)" "bk_verify_attempts (adopt_sl f b) = bk_verify_attempts b"
  "bk_throttle_until_ns (adopt_sl f b) = bk_throttle_until_ns b"
  by (auto simp: adopt_sl_def keeps_def split: option.split)

lemma adopt_found_facts:
  "keeps b (adopt_found v plans b)" "bk_verify_attempts (adopt_found v plans b) = bk_verify_attempts b + 1"
  "bk_throttle_until_ns (adopt_found v plans b) = bk_throttle_until_ns b"
  "bk_verified (adopt_found v plans b) \<longleftrightarrow> protected (adopt_found v plans b)"
proof -
  let ?b0 = "b\<lparr>bk_verify_attempts := bk_verify_attempts b + 1, bk_last_verified_at_ns := be_now v\<rparr>"
  have "keeps b ?b0" by simp
  then have "keeps b (adopt_sl f (adopt_tp g ?b0))" for f g
    by (rule keeps_trans [OF keeps_trans [OF _ adopt_tp_facts(1)] adopt_sl_facts(1)])
  then show "keeps b (adopt_found v plans b)"
    by (simp only: adopt_found_def Let_def keeps_marks)
qed (simp_all add: adopt_found_def Let_def adopt_tp_facts adopt_sl_facts protected_def)

lemma fallback_sl_facts:
  assumes "need \<Longrightarrow> \<not> sl_ok b"
  shows "keeps b (snd (snd (fallback_sl need submitter v b)))"
    and "bk_verify_attempts (snd (snd (fallback_sl need submitter v b))) = bk_verify_attempts b"
    and "bk_throttle_until_ns (snd (snd (fallback_sl need submitter v b))) = bk_throttle_until_ns b"
    and "tp_ok (snd (snd (fallback_sl need submitter v b))) = tp_ok b"
    and "bk_tp_price (snd (snd (fallback_sl need submitter v b))) = bk_tp_price b"
  using assms by (auto simp: fallback_sl_def keeps_def tp_ok_def sl_ok_def Let_def case_prod_unfold)

lemma fallback_tp_facts:
  assumes "need \<Longrightarrow> \<not> tp_ok b"
  shows "keeps b (snd (snd (fallback_tp need submitter v b)))"
    and "bk_verify_attempts (snd (snd (fallback_tp need submitter v b))) = bk_verify_attempts b"
    and "bk_throttle_until_ns (snd (snd (fallback_tp need submitter v b))) = bk_throttle_until_ns b"
    and "sl_ok (snd (snd (fallback_tp need submitter v b))) = sl_ok b"
  using assms by (auto simp: fallback_tp_def keeps_def tp_ok_def sl_ok_def Let_def case_prod_unfold)

lemma track_facts:
  "keeps b (track_failures cfg t a s b')  \<longleftrightarrow> keeps b b'"
  "bk_verify_attempts (track_failures cfg t a s b') = bk_verify_attempts b'"
  "tp_ok (track_failures cfg t a s b') = tp_ok b'" "sl_ok (track_failures cfg t a s b') = sl_ok b'"
  "(a \<longrightarrow> s) \<Longrightarrow> bk_throttle_until_ns (track_failures cfg t a s b') \<in> {0, bk_throttle_until_ns b'}"
  by (simp_all add: track_failures_def keeps_def tp_ok_def sl_ok_def Let_def)

text \<open>The parts of one verification, named.\<close>

lemma verify_with_parts:
  fixes cfg submitter v plans b
  defines "b1 \<equiv> adopt_found v plans b"
  defines "ns \<equiv> needs_fallback cfg b1 \<and> \<not> sl_ok b1 \<and> 0 < bk_sl_price b1"
  defines "nt \<equiv> needs_fallback cfg b1 \<and> \<not> tp_ok b1 \<and> 0 < bk_tp_price b1"
  defines "x \<equiv> fallback_sl ns submitter v b1"
  defines "y \<equiv> fallback_tp nt submitter v (snd (snd x))"
  defines "b4 \<equiv> track_failures cfg (be_now v) (ns \<or> nt) (fst x \<or> fst y) (snd (snd y))"
  shows "snd (verify_with cfg submitter v plans b) = b4\<lparr>bk_verified := tp_ok b4 \<and> sl_ok b4\<rparr>"
    and "fst (verify_with cfg submitter v plans b) = fst (snd x) @ fst (snd y)"
  by (simp_all only: verify_with_def Let_def case_prod_unfold b1_def ns_def nt_def x_def y_def b4_def fst_conv snd_conv)

lemma verify_keeps: "keeps b (snd (verify_with cfg submitter v plans b))"
  and verify_attempts: "bk_verify_attempts (snd (verify_with cfg submitter v plans b)) = bk_verify_attempts b + 1"
  and verify_marks: "bk_verified (snd (verify_with cfg submitter v plans b)) \<longleftrightarrow> protected (snd (verify_with cfg submitter v plans b))"
proof -
  let ?b1 = "adopt_found v plans b"
  let ?ns = "needs_fallback cfg ?b1 \<and> \<not> sl_ok ?b1 \<and> 0 < bk_sl_price ?b1"
  let ?nt = "needs_fallback cfg ?b1 \<and> \<not> tp_ok ?b1 \<and> 0 < bk_tp_price ?b1"
  let ?b2 = "snd (snd (fallback_sl ?ns submitter v ?b1))"
  let ?b3 = "snd (snd (fallback_tp ?nt submitter v ?b2))"
  have s: "?ns \<Longrightarrow> \<not> sl_ok ?b1" by simp
  have t: "?nt \<Longrightarrow> \<not> tp_ok ?b2" using fallback_sl_facts(4) [of ?ns ?b1 submitter v, OF s] by simp
  have "keeps b ?b3"
    by (rule keeps_trans [OF keeps_trans [OF adopt_found_facts(1) fallback_sl_facts(1) [OF s]] fallback_tp_facts(1) [OF t]])
  then show "keeps b (snd (verify_with cfg submitter v plans b))"
    by (simp only: verify_with_parts(1) keeps_marks track_facts)
  show "bk_verify_attempts (snd (verify_with cfg submitter v plans b)) = bk_verify_attempts b + 1"
    using fallback_sl_facts(2) [of ?ns ?b1 submitter v, OF s] fallback_tp_facts(2) [of ?nt ?b2 submitter v, OF t]
    by (simp add: verify_with_parts(1) track_facts adopt_found_facts)
  show "bk_verified (snd (verify_with cfg submitter v plans b)) \<longleftrightarrow> protected (snd (verify_with cfg submitter v plans b))"
    by (simp add: verify_with_parts(1) protected_def)
qed

section \<open>Brackets at all times\<close>

text \<open>
  Every entry stands under its own key and is not released, and one that counts as verified has an
  order id for each leg with a price.
\<close>

definition entry_ok :: "string \<Rightarrow> bracket_state \<Rightarrow> bool" where
  "entry_ok k b \<longleftrightarrow> k = bracket_key (bk_symbol b) (bk_position_side b) \<and> \<not> bk_released b \<and> (bk_verified b \<longrightarrow> protected b)"

definition bracket_inv :: "bracket_manager \<Rightarrow> bool" where
  "bracket_inv m \<longleftrightarrow> al_wf (bm_brackets m) \<and> (\<forall>k b. map_of (bm_brackets m) k = Some b \<longrightarrow> entry_ok k b)"

lemma bracket_inv_update:
  assumes "bracket_inv m" "entry_ok k b"
  shows "bracket_inv (m\<lparr>bm_brackets := AList.update k b (bm_brackets m)\<rparr>)"
  using assms by (auto simp: bracket_inv_def update_conv' al_wf_update split: if_splits)

lemma bracket_inv_delete: "bracket_inv m \<Longrightarrow> bracket_inv (m\<lparr>bm_brackets := AList.delete k (bm_brackets m)\<rparr>)"
  by (auto simp: bracket_inv_def delete_conv' al_wf_delete split: if_splits)

text \<open>Every order the exchange lists has an id.\<close>

definition named_plans :: "bracket_env \<Rightarrow> bool" where
  "named_plans v \<longleftrightarrow> (\<forall>s plans. be_plans v s = Some plans \<longrightarrow> (\<forall>p\<in>set plans. po_order_id p \<noteq> []))"

lemma inv_opened: "bracket_inv m \<Longrightarrow> bracket_inv (snd (on_position_opened v s ps entry qty tp sl m))"
  by (simp add: on_position_opened_def Let_def bracket_inv_update entry_ok_def default_bracket_state_def)

lemma keeps_entry:
  assumes "entry_ok k b" "keeps b b'" "bk_verified b' \<longrightarrow> protected b'"
  shows "entry_ok k b'"
  using assms by (simp add: entry_ok_def keeps_def)

lemma inv_verify:
  assumes "bracket_inv m"
  shows "bracket_inv (snd (snd (verify_brackets v s ps m)))"
proof (cases "map_of (bm_brackets m) (bracket_key s ps)")
  case (Some b)
  then have e: "entry_ok (bracket_key s ps) b" using assms by (simp add: bracket_inv_def)
  have "entry_ok (bracket_key s ps) (b\<lparr>bk_verify_attempts := bk_verify_attempts b + 1\<rparr>)"
    using e by (simp add: entry_ok_def protected_def tp_ok_def sl_ok_def)
  moreover have "entry_ok (bracket_key s ps) (snd (verify_with (bm_config m) (bm_has_submitter m) v plans b))" for plans
    by (rule keeps_entry [OF e verify_keeps]) (simp add: verify_marks)
  ultimately show ?thesis
    using assms Some
    by (simp add: verify_brackets_def Let_def case_prod_unfold bracket_inv_update split: option.split)
qed (simp add: verify_brackets_def assms)

lemma inv_release: "bracket_inv m \<Longrightarrow> bracket_inv (snd (snd (release v s ps m)))"
  by (simp add: release_def Let_def case_prod_unfold bracket_inv_delete split: option.split)

lemma newest_in: "newest plans = Some p \<Longrightarrow> p \<in> set plans"
proof -
  have "fold (\<lambda>p best. case best of None \<Rightarrow> Some p
      | Some q \<Rightarrow> if po_created_at_ms q < po_created_at_ms p then Some p else best) plans a = Some p \<Longrightarrow>
      p \<in> set plans \<or> a = Some p" for a
    by (induction plans arbitrary: a) (auto split: option.splits if_splits)
  from this [of None] show "newest plans = Some p \<Longrightarrow> p \<in> set plans" by (simp add: newest_def)
qed

lemma recovered_fields:
  "bk_symbol (recovered_bracket v s ps plans) = s" "bk_position_side (recovered_bracket v s ps plans) = ps"
  "\<not> bk_released (recovered_bracket v s ps plans)"
  by (simp_all add: recovered_bracket_def default_bracket_state_def Let_def split: option.split)

lemma recovered_protected:
  assumes "\<forall>p\<in>set plans. po_order_id p \<noteq> []"
  shows "protected (recovered_bracket v s ps plans)"
proof -
  let ?mine = "filter (\<lambda>p. po_symbol p = s \<and> po_position_side p = ps) plans"
  have "po_order_id p \<noteq> []" if "newest (filter P ?mine) = Some p" for P p
    using newest_in [OF that] assms by simp
  then show ?thesis
    by (simp add: recovered_bracket_def Let_def protected_def tp_ok_def sl_ok_def default_bracket_state_def split: option.split)
qed

lemma inv_recover_leg:
  assumes "named_plans v" "bracket_inv (snd x)"
  shows "bracket_inv (snd (recover_leg v leg x))"
proof -
  obtain n m s ps where x: "x = (n, m)" "leg = (s, ps)" by (cases x, cases leg)
  have "entry_ok (bracket_key s ps) ((recovered_bracket v s ps plans)\<lparr>bk_verified := True\<rparr>)" if "be_plans v s = Some plans" for plans
    using recovered_protected [of plans v s ps] assms(1) that
    by (simp add: entry_ok_def recovered_fields protected_def named_plans_def)
  then show ?thesis
    using assms(2) by (simp add: x recover_leg_def Let_def bracket_inv_update split: option.split)
qed

lemma inv_recover:
  assumes "named_plans v" "bracket_inv m"
  shows "bracket_inv (snd (recover_from_exchange v legs m))"
proof -
  have "bracket_inv (snd (fold (recover_leg v) legs x))" if "bracket_inv (snd x)" for x
    using that by (induction legs arbitrary: x) (simp_all add: inv_recover_leg [OF assms(1)])
  from this [of "(0, m)"] assms(2) show ?thesis by (simp add: recover_from_exchange_def)
qed

text \<open>The calls that change the table, each with the answers of the exchange.\<close>

datatype bracket_call =
    BOpened bracket_env symbol position_side double double double double
  | BVerify bracket_env symbol position_side
  | BRelease bracket_env symbol position_side
  | BRecover bracket_env "(symbol \<times> position_side) list"

fun bracket_exec :: "bracket_call \<Rightarrow> bracket_manager \<Rightarrow> bracket_manager" where
  "bracket_exec (BOpened v s ps entry qty tp sl) m = snd (on_position_opened v s ps entry qty tp sl m)"
| "bracket_exec (BVerify v s ps) m = snd (snd (verify_brackets v s ps m))"
| "bracket_exec (BRelease v s ps) m = snd (snd (release v s ps m))"
| "bracket_exec (BRecover v legs) m = snd (recover_from_exchange v legs m)"

inductive bracket_step :: "bracket_manager \<Rightarrow> bracket_manager \<Rightarrow> bool" where
  opened: "bracket_step m (bracket_exec (BOpened v s ps entry qty tp sl) m)"
| verified: "bracket_step m (bracket_exec (BVerify v s ps) m)"
| released: "bracket_step m (bracket_exec (BRelease v s ps) m)"
| recovered: "named_plans v \<Longrightarrow> bracket_step m (bracket_exec (BRecover v legs) m)"

interpretation br: inv_system "\<lambda>m. \<exists>cfg a b. m = bracket_manager_init cfg a b" bracket_step bracket_inv
proof unfold_locales
  fix m assume "\<exists>cfg a b. m = bracket_manager_init cfg a b"
  then show "bracket_inv m" by (auto simp: bracket_manager_init_def bracket_inv_def)
next
  fix m m' assume "bracket_inv m" "bracket_step m m'"
  from this(2,1) show "bracket_inv m'"
    by cases (simp_all add: inv_opened inv_verify inv_release inv_recover)
qed

text \<open>
  Whatever calls were made and whatever the exchange answered, every bracket in the table is listed
  as active under its own symbol and side, and one that counts as verified has an exchange order for
  its take-profit and for its stop-loss wherever it has a price for them.
\<close>

theorem verified_brackets_protected:
  assumes "bracket_step\<^sup>*\<^sup>* (bracket_manager_init cfg submitter query) m" "get_state s ps m = Some b"
  shows "b \<in> set (list_active m) \<and> bk_symbol b = s \<and> bk_position_side b = ps \<and>
    (bk_verified b \<longrightarrow> (bk_tp_price b = 0 \<or> bk_tp_order_id b \<noteq> []) \<and> (bk_sl_price b = 0 \<or> bk_sl_order_id b \<noteq> []))"
proof -
  have "bracket_inv m" by (rule br.inv_reachable [OF _ assms(1)]) blast
  then have e: "entry_ok (bracket_key s ps) b" using assms(2) by (simp add: bracket_inv_def get_state_def)
  have "s = bk_symbol b \<and> ps = bk_position_side b"
    using e by (cases ps; cases "bk_position_side b") (auto simp: entry_ok_def bracket_key_def)
  moreover have "b \<in> snd ` set (bm_brackets m)"
    using map_of_SomeD [of "bm_brackets m" "bracket_key s ps" b] assms(2) by (force simp: get_state_def)
  ultimately show ?thesis
    using e by (simp add: entry_ok_def list_active_def protected_def tp_ok_def sl_ok_def)
qed

section \<open>The clean-up leaves protection alone\<close>

lemma cancelled_untracked:
  assumes "CancelPlan i t pt \<in> set (snd (cancel_plans v s (untracked_plans s m plans)))"
  shows "i \<notin> set (tracked_ids s m)"
  using assms by (auto simp: cancel_plans_def untracked_plans_def)

text \<open>
  C21. Neither the periodic clean-up nor the wipe at start-up ever asks to cancel an order that a bracket
  in the table stands on, and with an open position but no bracket the clean-up cancels nothing.
\<close>

theorem cleanup_spares_brackets:
  assumes "bracket_step\<^sup>*\<^sup>* (bracket_manager_init cfg submitter query) m" "get_state s ps m = Some b"
    and "i = bk_tp_order_id b \<or> i = bk_sl_order_id b" "i \<noteq> []"
  shows "CancelPlan i t pt \<notin> set (snd (cleanup_orphans_for_symbol v s has_pos m)) \<and>
    CancelPlan i t pt \<notin> set (snd (startup_wipe_pendings v s has_pos m))"
proof -
  have inv: "bracket_inv m" by (rule br.inv_reachable [OF _ assms(1)]) blast
  have e: "entry_ok (bracket_key s ps) b" using inv assms(2) by (simp add: bracket_inv_def get_state_def)
  have s: "bk_symbol b = s"
    using e by (cases ps; cases "bk_position_side b") (auto simp: entry_ok_def bracket_key_def)
  have "b \<in> snd ` set (bm_brackets m)"
    using map_of_SomeD [of "bm_brackets m" "bracket_key s ps" b] assms(2) by (force simp: get_state_def)
  then have "b \<in> set (brackets_of s m)" using e s by (simp add: brackets_of_def entry_ok_def)
  then have "i \<in> set (tracked_ids s m)" using assms(3,4) by (auto simp: tracked_ids_def)
  then have n: "CancelPlan i t pt \<notin> set (snd (cancel_plans v s (untracked_plans s m plans)))" for plans
    using cancelled_untracked by blast
  show ?thesis
    using n by (auto simp: cleanup_orphans_for_symbol_def startup_wipe_pendings_def Let_def case_prod_unfold split: option.split)
qed

definition ex_bracket_env :: "plan_order_info list \<Rightarrow> timestamp \<Rightarrow> bracket_env" where
  "ex_bracket_env plans t = \<lparr>be_now = t, be_plans = \<lambda>s. Some plans, be_open_orders = \<lambda>s. Some [],
    be_cancel_plan = \<lambda>i s pt. True, be_cancel_order = \<lambda>i s. True,
    be_submit_plan = \<lambda>x. \<lparr>sr_success = True, sr_order_id = [], sr_exchange_order_id = ''o1'', sr_error_message = [],
      sr_submitted_quantity = 0\<rparr>,
    be_client_id = \<lambda>k. ''cl''\<rparr>"

definition ex_stop :: plan_order_info where
  "ex_stop = \<lparr>po_order_id = ''o1'', po_client_order_id = [], po_symbol = ''BTCUSDT'', po_position_side = Long,
    po_kind = LossPlan, po_trigger_price = Fin 90, po_execute_price = 0, po_size = 0, po_trigger_type = [],
    po_plan_type = [], po_created_at_ms = 0\<rparr>"

definition ex_restored :: bracket_manager where
  "ex_restored = bracket_exec (BRecover (ex_bracket_env [ex_stop] 0) [(''BTCUSDT'', Long)])
    (bracket_manager_init default_bracket_config True True)"

theorem cleanup_spares_brackets_witness:
  "bm_brackets ex_restored \<noteq> [] \<and> CancelPlan ''o1'' ''BTCUSDT'' ''normal_plan''
    \<notin> set (snd (cleanup_orphans_for_symbol (ex_bracket_env [ex_stop] 0) ''BTCUSDT'' True ex_restored))"
proof -
  let ?s = "''BTCUSDT''" and ?v = "ex_bracket_env [ex_stop] 0"
  let ?b = "(recovered_bracket ?v ?s Long [ex_stop])\<lparr>bk_verified := True\<rparr>"
  have b: "bk_sl_order_id ?b = ''o1''"
    by (simp add: recovered_bracket_def newest_def tp_kind_def sl_kind_def default_bracket_state_def ex_stop_def Let_def)
  then have m: "bm_brackets ex_restored = [(bracket_key ?s Long, ?b)]"
    by (simp add: ex_restored_def recover_from_exchange_def recover_leg_def bracket_manager_init_def al_contains_def
        ex_bracket_env_def [of _ 0])
  have "bracket_step (bracket_manager_init default_bracket_config True True) ex_restored"
    unfolding ex_restored_def
    by (rule bracket_step.recovered) (simp add: named_plans_def ex_bracket_env_def ex_stop_def)
  then have r: "bracket_step\<^sup>*\<^sup>* (bracket_manager_init default_bracket_config True True) ex_restored" by (rule r_into_rtranclp)
  have g: "get_state ?s Long ex_restored = Some ?b" using m by (simp add: get_state_def)
  show ?thesis
    using cleanup_spares_brackets [OF r g, of "''o1''"] b m by simp
qed

section \<open>Verification ends with protection\<close>

definition accepts_plans :: "bracket_env \<Rightarrow> bool" where
  "accepts_plans v \<longleftrightarrow> (\<forall>r. sr_success (be_submit_plan v r) \<and> sr_exchange_order_id (be_submit_plan v r) \<noteq> [])"

definition prices_ok :: "bracket_state \<Rightarrow> bool" where
  "prices_ok b \<longleftrightarrow> (bk_tp_price b = 0 \<or> 0 < bk_tp_price b \<and> isfinite (bk_tp_price b)) \<and>
    (bk_sl_price b = 0 \<or> 0 < bk_sl_price b \<and> isfinite (bk_sl_price b))"

lemma fallback_sl_done:
  assumes "accepts_plans v" "prices_ok b" "need \<longleftrightarrow> \<not> sl_ok b \<and> 0 < bk_sl_price b"
  shows "sl_ok (snd (snd (fallback_sl need True v b)))" "fst (fallback_sl need True v b) = need"
  using assms by (auto simp: fallback_sl_def place_standalone_plan_def accepts_plans_def prices_ok_def sl_ok_def Let_def)

lemma fallback_tp_done:
  assumes "accepts_plans v" "prices_ok b" "need \<longleftrightarrow> \<not> tp_ok b \<and> 0 < bk_tp_price b"
  shows "tp_ok (snd (snd (fallback_tp need True v b)))" "fst (fallback_tp need True v b) = need"
  using assms by (auto simp: fallback_tp_def place_standalone_plan_def accepts_plans_def prices_ok_def tp_ok_def Let_def)

lemma keeps_prices: "keeps b b' \<Longrightarrow> prices_ok b' = prices_ok b"
  by (simp add: keeps_def prices_ok_def)

lemma fallback_sl_skipped [simp]: "fallback_sl False submitter v b = (False, [], b)"
  and fallback_tp_skipped [simp]: "fallback_tp False submitter v b = (False, [], b)"
  by (simp_all add: fallback_sl_def fallback_tp_def)

lemma verify_last:
  assumes "accepts_plans v" "prices_ok b"
  shows "bc_max_verify_attempts cfg \<le> bk_verify_attempts b + 1 \<Longrightarrow> protected (snd (verify_with cfg True v plans b))"
    and "bk_throttle_until_ns (snd (verify_with cfg True v plans b)) \<in> {0, bk_throttle_until_ns b}"
proof -
  let ?b1 = "adopt_found v plans b"
  let ?ns = "needs_fallback cfg ?b1 \<and> \<not> sl_ok ?b1 \<and> 0 < bk_sl_price ?b1"
  let ?nt = "needs_fallback cfg ?b1 \<and> \<not> tp_ok ?b1 \<and> 0 < bk_tp_price ?b1"
  let ?x = "fallback_sl ?ns True v ?b1"
  let ?y = "fallback_tp ?nt True v (snd (snd ?x))"
  have p1: "prices_ok ?b1" using assms(2) keeps_prices [OF adopt_found_facts(1)] by blast
  have s: "?ns \<Longrightarrow> \<not> sl_ok ?b1" by simp
  note x = fallback_sl_facts [of ?ns ?b1 True v, OF s]
  have p2: "prices_ok (snd (snd ?x))" using p1 keeps_prices [OF x(1)] by blast
  have t: "?nt \<Longrightarrow> \<not> tp_ok (snd (snd ?x))" using x(4) by simp
  note y = fallback_tp_facts [of ?nt "snd (snd ?x)" True v, OF t]
  have ok: "fst ?x = ?ns" "fst ?y = ?nt"
  proof -
    show "fst ?x = ?ns"
      using fallback_sl_done(2) [OF assms(1) p1, of ?ns] by (cases "needs_fallback cfg ?b1") simp_all
    show "fst ?y = ?nt"
      using fallback_tp_done(2) [OF assms(1) p2, of ?nt] x(4,5) by (cases "needs_fallback cfg ?b1") simp_all
  qed
  show "bk_throttle_until_ns (snd (verify_with cfg True v plans b)) \<in> {0, bk_throttle_until_ns b}"
    using track_facts(5) [of "?ns \<or> ?nt" "fst ?x \<or> fst ?y" cfg "be_now v" "snd (snd ?y)"] ok x(3) y(3)
    by (simp add: verify_with_parts(1) adopt_found_facts(3))
  assume "bc_max_verify_attempts cfg \<le> bk_verify_attempts b + 1"
  then have n: "needs_fallback cfg ?b1 \<longleftrightarrow> \<not> protected ?b1"
    by (simp add: needs_fallback_def adopt_found_facts)
  have "protected (snd (snd ?y))"
  proof (cases "protected ?b1")
    case True
    then show ?thesis by (simp add: n)
  next
    case False
    have "sl_ok (snd (snd ?x))" using fallback_sl_done(1) [OF assms(1) p1, of ?ns] False n by simp
    moreover have "tp_ok (snd (snd ?y))" using fallback_tp_done(1) [OF assms(1) p2, of ?nt] False n x(4,5) by simp
    ultimately show ?thesis using y(4) by (simp add: protected_def)
  qed
  then show "protected (snd (verify_with cfg True v plans b))"
    by (simp add: verify_with_parts(1) protected_def track_facts)
qed

definition verify_once :: "bracket_env \<Rightarrow> symbol \<Rightarrow> position_side \<Rightarrow> bracket_manager \<Rightarrow> bracket_manager" where
  "verify_once v s ps m = snd (snd (verify_brackets v s ps m))"

lemma verify_once_state:
  assumes "get_state s ps m = Some b" "\<not> bk_released b" "\<not> verify_deferred (bm_config m) (be_now v) b"
    and "bm_has_query m" "be_plans v s = Some plans"
  shows "get_state s ps (verify_once v s ps m) = Some (snd (verify_with (bm_config m) (bm_has_submitter m) v plans b))"
    and "bm_config (verify_once v s ps m) = bm_config m" "bm_has_query (verify_once v s ps m)"
      "bm_has_submitter (verify_once v s ps m) = bm_has_submitter m"
  using assms by (simp_all add: verify_once_def verify_brackets_def get_state_def Let_def case_prod_unfold)

text \<open>
  C20. Verification ends with protection.  Once the grace period is over, on an exchange that lists plan
  orders (any, or none) and accepts new ones, a bracket whose prices are positive numbers or absent has,
  after as many verifications as are configured, an exchange order for every leg.
\<close>

theorem verification_ends_protected:
  assumes "get_state s ps m = Some b" "\<not> bk_released b" "\<not> verify_deferred (bm_config m) (be_now v) b"
    and "bm_has_query m" "bm_has_submitter m" "be_plans v s = Some plans" "accepts_plans v" "prices_ok b"
    and "0 \<le> bk_verify_attempts b" "0 < n" "bc_max_verify_attempts (bm_config m) \<le> bk_verify_attempts b + int n"
  shows "\<exists>b'. get_state s ps ((verify_once v s ps ^^ n) m) = Some b' \<and> bk_verified b' \<and> protected b'"
  using assms(1-5,8-11)
proof (induction n arbitrary: m b)
  case (Suc n)
  let ?b = "snd (verify_with (bm_config m) True v plans b)" and ?m = "verify_once v s ps m"
  note one = verify_once_state [OF Suc.prems(1-4) assms(6)]
  have g: "get_state s ps ?m = Some ?b" using one(1) Suc.prems(5) by simp
  have k: "keeps b ?b" by (rule verify_keeps)
  show ?case
  proof (cases n)
    case 0
    then have "protected ?b" using verify_last(1) [OF assms(7) Suc.prems(6), of "bm_config m" plans] Suc.prems(9) by simp
    then show ?thesis using g 0 by (simp add: verify_marks)
  next
    case (Suc n')
    have "\<not> verify_deferred (bm_config ?m) (be_now v) ?b"
      using verify_last(2) [OF assms(7) Suc.prems(6), of "bm_config m" plans] Suc.prems(3,7)
      by (auto simp: verify_deferred_def one(2) verify_attempts)
    moreover have "\<not> bk_released ?b" using k Suc.prems(2) by (simp add: keeps_def)
    ultimately have "\<exists>b'. get_state s ps ((verify_once v s ps ^^ n) ?m) = Some b' \<and> bk_verified b' \<and> protected b'"
      using Suc.IH [OF g] Suc.prems(5,7,9) keeps_prices [OF k] Suc.prems(6) Suc one(2-4) by (simp add: verify_attempts)
    then show ?thesis by (simp add: funpow_swap1)
  qed
qed simp

definition ex_bracket :: bracket_state where
  "ex_bracket = default_bracket_state\<lparr>bk_symbol := ''BTCUSDT'', bk_position_size := Fin 1, bk_sl_price := Fin 90, bk_tp_price := Fin 120\<rparr>"

definition ex_manager :: bracket_manager where
  "ex_manager = (bracket_manager_init default_bracket_config True True)\<lparr>bm_brackets := [(bracket_key ''BTCUSDT'' Long, ex_bracket)]\<rparr>"

theorem verification_ends_protected_witness:
  "\<exists>b'. get_state ''BTCUSDT'' Long ((verify_once (ex_bracket_env [] 5000000000) ''BTCUSDT'' Long ^^ 6) ex_manager) = Some b' \<and>
    bk_verified b' \<and> protected b'"
proof -
  let ?v = "ex_bracket_env [] 5000000000"
  have "get_state ''BTCUSDT'' Long ex_manager = Some ex_bracket" "bm_has_query ex_manager" "bm_has_submitter ex_manager"
    "bm_config ex_manager = default_bracket_config" "be_plans ?v ''BTCUSDT'' = Some []" "accepts_plans ?v" "be_now ?v = 5000000000"
    by (simp_all add: get_state_def ex_manager_def bracket_manager_init_def ex_bracket_env_def accepts_plans_def)
  moreover have "\<not> bk_released ex_bracket" "prices_ok ex_bracket" "bk_verify_attempts ex_bracket = 0"
    "\<not> verify_deferred default_bracket_config 5000000000 ex_bracket"
    by (simp_all add: ex_bracket_def default_bracket_state_def prices_ok_def verify_deferred_def
        default_bracket_config_def zero_double_def)
  moreover have "bc_max_verify_attempts default_bracket_config = 6" by (simp add: default_bracket_config_def)
  ultimately show ?thesis
    using verification_ends_protected [of "''BTCUSDT''" Long ex_manager ex_bracket ?v "[]" 6] by simp
qed

section \<open>Where protection is lost\<close>

text \<open>
  Between the fill and the first verification the clean-up does not know the preset orders of a new
  bracket, and asks to cancel every one of them.
\<close>

theorem cleanup_before_verify_cancels_preset:
  assumes "bm_has_query m" "bm_has_submitter m" "brackets_of s m = []" "be_plans v s = Some [p]" "po_symbol p = s"
  shows "snd (cleanup_orphans_for_symbol v s True (snd (on_position_opened v0 s ps entry qty tp sl m))) =
    [CancelPlan (po_order_id p) s (cancel_type (po_plan_type p))]"
proof -
  let ?m = "snd (on_position_opened v0 s ps entry qty tp sl m)"
  have i: "set (brackets_of s ?m) \<subseteq> {b. bk_tp_order_id b = [] \<and> bk_sl_order_id b = []}" "brackets_of s ?m \<noteq> []"
  proof -
    define b where "b = default_bracket_state\<lparr>bk_symbol := s, bk_position_side := ps, bk_position_size := qty,
      bk_entry_price := entry, bk_tp_price := bracket_price tp, bk_sl_price := bracket_price sl, bk_opened_at_ns := be_now v0,
      bk_tp_source := preset_source (bracket_price tp), bk_sl_source := preset_source (bracket_price sl)\<rparr>"
    have b: "bm_brackets ?m = AList.update (bracket_key s ps) b (bm_brackets m)"
      by (simp add: on_position_opened_def b_def Let_def)
    have f: "bk_symbol b = s" "\<not> bk_released b" "bk_tp_order_id b = []" "bk_sl_order_id b = []"
      by (simp_all add: b_def default_bracket_state_def)
    have u: "set (AList.update k b xs) \<subseteq> insert (k, b) (set xs)" "(k, b) \<in> set (AList.update k b xs)"
      for k and xs :: bracket_table
      by (induction xs) auto
    have "x = b" if "x \<in> set (brackets_of s ?m)" for x
    proof -
      from that obtain k where kx: "(k, x) \<in> set (AList.update (bracket_key s ps) b (bm_brackets m))"
        and x: "bk_symbol x = s" "\<not> bk_released x"
        unfolding brackets_of_def b set_filter set_map mem_Collect_eq image_iff by (metis prod.collapse)
      have "(k, x) \<notin> set (bm_brackets m)"
        using assms(3) x unfolding brackets_of_def filter_empty_conv by (metis image_eqI list.set_map snd_conv)
      then show ?thesis using kx u(1) by blast
    qed
    then show "set (brackets_of s ?m) \<subseteq> {b. bk_tp_order_id b = [] \<and> bk_sl_order_id b = []}" using f(3,4) by blast
    have "b \<in> set (brackets_of s ?m)"
      unfolding brackets_of_def b using u(2) f(1,2) by (simp only: set_filter set_map mem_Collect_eq) (metis image_eqI snd_conv)
    then show "brackets_of s ?m \<noteq> []" by (metis empty_iff list.set(1))
  qed
  then have "tracked_ids s ?m = []" by (auto simp: tracked_ids_def filter_empty_conv)
  moreover have "bm_has_query ?m" "bm_has_submitter ?m" using assms(1,2) by (simp_all add: on_position_opened_def Let_def)
  ultimately show ?thesis
    using assms(4,5) i(2) by (simp add: cleanup_orphans_for_symbol_def untracked_plans_def cancel_plans_def)
qed

text \<open>
  After a restart a stop-loss placed as a standalone plan order is not recognised: with a preset
  take-profit beside it the bracket is restored without a stop, counts as verified, and the next
  clean-up asks to cancel the stop of the open position.
\<close>

theorem restart_loses_standalone_stop:
  fixes p q s ps m v
  defines "m' \<equiv> snd (recover_from_exchange v [(s, ps)] m)"
  assumes "po_symbol p = s" "po_position_side p = ps" "po_kind p = PosTPSL" "po_plan_type p = ''pos_profit''"
    and "po_symbol q = s" "po_position_side q = ps" "po_kind q = NormalPlan" "po_plan_type q = ''normal_plan''"
    and "po_order_id p \<noteq> []" "po_order_id q \<noteq> po_order_id p" "be_plans v s = Some [p, q]" "bm_brackets m = []"
    and "bm_has_query m" "bm_has_submitter m"
  shows "map_option bk_verified (get_state s ps m') = Some True \<and>
    map_option bk_sl_order_id (get_state s ps m') = Some [] \<and>
    snd (cleanup_orphans_for_symbol v s True m') = [CancelPlan (po_order_id q) s ''normal_plan'']"
proof -
  have t: "tp_kind p" "\<not> tp_kind q" "\<not> sl_kind p" "\<not> sl_kind q"
    using assms by (simp_all add: tp_kind_def sl_kind_def)
  have r: "bk_tp_order_id (recovered_bracket v s ps [p, q]) = po_order_id p" "bk_sl_order_id (recovered_bracket v s ps [p, q]) = []"
    using assms(2-7) t by (simp_all add: recovered_bracket_def newest_def Let_def default_bracket_state_def)
  have m: "m' = m\<lparr>bm_brackets := [(bracket_key s ps, (recovered_bracket v s ps [p, q])\<lparr>bk_verified := True\<rparr>)]\<rparr>"
    using assms r by (simp add: m'_def recover_from_exchange_def recover_leg_def al_contains_def)
  then show ?thesis
    using assms r recovered_fields [of v s ps "[p, q]"]
    by (simp add: get_state_def cleanup_orphans_for_symbol_def brackets_of_def untracked_plans_def tracked_ids_def
        cancel_plans_def cancel_type_def)
qed

text \<open>
  The wipe at start-up does not look at the open position: without a bracket it asks to cancel the
  orders that protect it, where the periodic clean-up would leave them.
\<close>

theorem wipe_ignores_position:
  assumes "bm_has_query m" "bm_has_submitter m" "brackets_of s m = []" "be_plans v s = Some [p]" "po_symbol p = s"
    and "be_open_orders v s = Some []"
  shows "snd (startup_wipe_pendings v s True m) = [CancelPlan (po_order_id p) s (cancel_type (po_plan_type p))] \<and>
    snd (cleanup_orphans_for_symbol v s True m) = []"
  using assms
  by (simp add: startup_wipe_pendings_def cleanup_orphans_for_symbol_def untracked_plans_def tracked_ids_def cancel_plans_def)

text \<open>
  Verification asks only whether the trigger price lies within one percent of the wanted one, for a
  position-attached order of either type.  With take-profit and stop-loss within one percent of each
  other, a single take-profit order is taken for both, and the bracket counts as verified without a stop.
\<close>

theorem one_order_counts_for_both_legs:
  fixes v b p cfg submitter
  defines "b' \<equiv> snd (verify_with cfg submitter v [p] b)"
  assumes "po_symbol p = bk_symbol b" "po_position_side p = bk_position_side b" "po_kind p = PosTPSL"
    and "po_plan_type p = ''pos_profit''" "po_trigger_price p = Fin 256" "po_order_id p = ''tp''"
    and "bk_tp_price b = Fin 256" "bk_sl_price b = Fin 255" "bk_tp_order_id b = []" "bk_sl_order_id b = []"
  shows "bk_verified b' \<and> bk_tp_order_id b' = ''tp'' \<and> bk_sl_order_id b' = ''tp''"
proof -
  have l: "lit 100 = Fin 100" "mk 0 = Fin 0" "mk 1 = Fin 1" using mk_of_int [of 100] mk_of_int [of 0] mk_of_int [of 1] by simp_all
  have "repr53 (1 / 256)" using repr53I [of 1 "-8"] by (simp add: power_int_minus)
  then have a: "mk (1 / 256) = Fin (1 / 256)" by (intro mk_repr53) simp_all
  have "repr53 (25 / 64)" using repr53I [of 25 "-6"] by (simp add: power_int_minus)
  then have c: "mk (25 / 64) = Fin (25 / 64)" by (intro mk_repr53) simp_all
  have t: "prices_match (Fin 256) (Fin 256)" "prices_match (Fin 256) (Fin 255)"
    using l a c by (simp_all add: prices_match_def zero_double_def one_double_def minus_double_def std_max_def)
  have "leg_plan (bk_symbol b) (bk_position_side b) ProfitPlan (bk_tp_price b) p"
    "leg_plan (bk_symbol b) (bk_position_side b) LossPlan (bk_sl_price b) p"
    using assms t by (simp_all add: leg_plan_def zero_double_def)
  then have "bk_tp_order_id (adopt_found v [p] b) = ''tp''" "bk_sl_order_id (adopt_found v [p] b) = ''tp''"
    using assms by (simp_all add: adopt_found_def found_plan_def adopt_tp_def adopt_sl_def Let_def)
  moreover from this have "protected (adopt_found v [p] b)" by (simp add: protected_def tp_ok_def sl_ok_def)
  ultimately show ?thesis
    by (simp add: b'_def verify_with_parts(1) needs_fallback_def adopt_found_facts(4) track_failures_def tp_ok_def sl_ok_def)
qed

end
