(* ===== verification/Exchange_Rules.thy ===== *)
theory Exchange_Rules
  imports Normalizer Float_Library
begin

text \<open>
  The limits of an instrument and the rounding of sizes and prices to its grid
  (\<^verbatim>\<open>src/src/common/exchange_rules.hpp\<close>), with what it uses of the C library: \<^verbatim>\<open>snprintf\<close> with \<^verbatim>\<open>%.*f\<close> into a
  buffer of 64 bytes and \<^verbatim>\<open>strtod\<close>.  A printed text that is read back gives the nearest number; the
  second rounding that \<^verbatim>\<open>format_quantity\<close> does is not harmless.
\<close>

section \<open>Fixed-point text\<close>

text \<open>\<^verbatim>\<open>snprintf(buf, 64, "%.*f", p, x)\<close>; the sign of a NaN is not modelled.\<close>

fun fixed_text :: "nat \<Rightarrow> double \<Rightarrow> string" where
  "fixed_text p (Fin x) =
    (let n = nat (rne (\<bar>x\<bar> * 10 ^ p))
     in (if x < 0 then ''-'' else []) @ to_string_nat (n div 10 ^ p) @
        (if p = 0 then [] else ''.'' @ pad_digits p (n mod 10 ^ p)))"
| "fixed_text p PInf = ''inf''"
| "fixed_text p NInf = ''-inf''"
| "fixed_text p NaN = ''nan''"

definition snprintf_fixed :: "nat \<Rightarrow> double \<Rightarrow> string" where
  "snprintf_fixed p x = take 63 (fixed_text p x)"

text \<open>
  \<^verbatim>\<open>strtod\<close> on the rest of a text: white space, a sign, then an infinity, a NaN, a hexadecimal or a
  decimal number.  A number that overflows, or that is below the normal range and not exact, sets
  the range error, which makes \<^verbatim>\<open>std::stod\<close> throw.
\<close>

datatype strtod_result = NoConversion | RangeError double | Converted double

definition is_space :: "char \<Rightarrow> bool" where
  "is_space c \<longleftrightarrow> of_char c = (32 :: nat) \<or> 9 \<le> (of_char c :: nat) \<and> (of_char c :: nat) \<le> 13"

definition hex_digit :: "char \<Rightarrow> nat option" where
  "hex_digit c =
    (let n = of_char (tolower c)
     in if is_digit c then Some (char_digit c) else if 97 \<le> n \<and> n \<le> 102 then Some (n - 87) else None)"

definition read_hex :: "string \<Rightarrow> nat" where
  "read_hex s = foldl (\<lambda>a c. 16 * a + (case hex_digit c of Some d \<Rightarrow> d | None \<Rightarrow> 0)) 0 s"

definition hex_exponent :: "string \<Rightarrow> int" where
  "hex_exponent s =
    (case s of [] \<Rightarrow> 0
     | c # t \<Rightarrow>
        if c = CHR ''p'' \<or> c = CHR ''P'' then
          (let neg = has_prefix ''-'' t; u = (if neg \<or> has_prefix ''+'' t then tl t else t); ds = takeWhile is_digit u
           in if ds = [] then 0 else if neg then - int (read_nat ds) else int (read_nat ds))
        else 0)"

text \<open>What follows the prefix \<^verbatim>\<open>0x\<close>; without a digit there the text reads as the zero before it.\<close>

definition scan_hex :: "string \<Rightarrow> real" where
  "scan_hex s =
    (let h = (\<lambda>c. hex_digit c \<noteq> None); ip = takeWhile h s; r1 = dropWhile h s; dot = has_prefix ''.'' r1;
         fp = (if dot then takeWhile h (tl r1) else []); r2 = (if dot then dropWhile h (tl r1) else r1)
     in if ip = [] \<and> fp = [] then 0
        else real (read_hex (ip @ fp)) / 16 ^ length fp * 2 powi hex_exponent r2)"

definition ranged_value :: "real \<Rightarrow> strtod_result" where
  "ranged_value x =
    (if mk x = PInf \<or> x \<noteq> 0 \<and> x < 2 powi - 1022 \<and> mk x \<noteq> Fin x then RangeError (mk x) else Converted (mk x))"

definition strtod_unsigned :: "string \<Rightarrow> strtod_result" where
  "strtod_unsigned s =
    (if iequals (take 3 s) ''inf'' then Converted PInf
     else if iequals (take 3 s) ''nan'' then Converted NaN
     else if iequals (take 2 s) ''0x'' then ranged_value (scan_hex (drop 2 s))
     else case scan_decimal s of None \<Rightarrow> NoConversion | Some x \<Rightarrow> ranged_value x)"

fun negate_result :: "strtod_result \<Rightarrow> strtod_result" where
  "negate_result NoConversion = NoConversion"
| "negate_result (RangeError d) = RangeError (- d)"
| "negate_result (Converted d) = Converted (- d)"

definition strtod_scan :: "string \<Rightarrow> strtod_result" where
  "strtod_scan s =
    (let t = dropWhile is_space s
     in if has_prefix ''-'' t then negate_result (strtod_unsigned (tl t))
        else if has_prefix ''+'' t then strtod_unsigned (tl t) else strtod_unsigned t)"

definition strtod :: "string \<Rightarrow> double" where
  "strtod s = (case strtod_scan s of NoConversion \<Rightarrow> 0 | RangeError d \<Rightarrow> d | Converted d \<Rightarrow> d)"

text \<open>\<^verbatim>\<open>std::stod\<close>; \<open>None\<close> is the exception.\<close>

definition stod :: "string \<Rightarrow> double option" where
  "stod s = (case strtod_scan s of Converted d \<Rightarrow> Some d | _ \<Rightarrow> None)"

section \<open>The rules of an instrument\<close>

definition kMaxPrecisionDigits :: int where "kMaxPrecisionDigits = 18"

record exchange_symbol_rules =
  xr_symbol :: symbol
  xr_quantity_precision :: int
  xr_price_precision :: int
  xr_min_trade_usdt :: double
  xr_min_quantity :: double
  xr_max_quantity :: double
  xr_max_leverage :: double
  xr_taker_fee_rate :: double

definition default_symbol_rules :: exchange_symbol_rules where
  "default_symbol_rules =
    \<lparr>xr_symbol = [], xr_quantity_precision = 6, xr_price_precision = 2, xr_min_trade_usdt = lit 5, xr_min_quantity = 0,
     xr_max_quantity = 0, xr_max_leverage = 0, xr_taker_fee_rate = 0\<rparr>"

definition digits_of :: "int \<Rightarrow> nat" where
  "digits_of precision = nat (clamp_int precision 0 kMaxPrecisionDigits)"

fun decimal_factor :: "nat \<Rightarrow> double" where
  "decimal_factor 0 = 1"
| "decimal_factor (Suc n) = decimal_factor n * lit 10"

definition floor_quantity :: "exchange_symbol_rules \<Rightarrow> double \<Rightarrow> double" where
  "floor_quantity r qty =
    (if qty \<le> 0 then 0
     else
       let p = digits_of (xr_quantity_precision r); f = decimal_factor p
       in strtod (snprintf_fixed p (std_floor (qty * f) / f)))"

definition round_price :: "exchange_symbol_rules \<Rightarrow> double \<Rightarrow> double" where
  "round_price r price =
    (if price \<le> 0 then 0
     else
       let p = digits_of (xr_price_precision r); f = decimal_factor p
       in strtod (snprintf_fixed p (std_round (price * f) / f)))"

definition is_quantity_valid :: "exchange_symbol_rules \<Rightarrow> double \<Rightarrow> bool" where
  "is_quantity_valid r qty =
    (if qty \<le> 0 then False
     else if 0 < xr_min_quantity r \<and> qty < xr_min_quantity r then False
     else if 0 < xr_max_quantity r \<and> xr_max_quantity r < qty then False else True)"

definition is_notional_valid :: "exchange_symbol_rules \<Rightarrow> double \<Rightarrow> bool" where
  "is_notional_valid r notional \<longleftrightarrow> xr_min_trade_usdt r \<le> notional"

definition validate_order :: "exchange_symbol_rules \<Rightarrow> double \<Rightarrow> double \<Rightarrow> bool" where
  "validate_order r qty price =
    (let q = floor_quantity r qty in if \<not> is_quantity_valid r q then False else is_notional_valid r (q * round_price r price))"

definition format_quantity :: "exchange_symbol_rules \<Rightarrow> double \<Rightarrow> string" where
  "format_quantity r qty = snprintf_fixed (digits_of (xr_quantity_precision r)) (floor_quantity r qty)"

definition format_price :: "exchange_symbol_rules \<Rightarrow> double \<Rightarrow> string" where
  "format_price r price = snprintf_fixed (digits_of (xr_price_precision r)) (round_price r price)"

end
