(* ===== verification/Order_Submitter.thy ===== *)
theory Order_Submitter
  imports Execution_Engine Exchange_Rules
begin

text \<open>
  The client that turns order records into requests of the exchange
  (\<^verbatim>\<open>src/src/exchange/bitget/bitget_futures_order_submitter.{hpp,cpp}\<close>).  A request body is the list of its
  fields; \<open>None\<close> stands for the text \<^verbatim>\<open>{}\<close> that the source uses for a body it refuses to build.  The HTTP
  client and Boost's JSON reader are functions of \<open>rest_env\<close>, \<open>re_post\<close> taking the number of requests made
  before in the same call.  The random delay before an opening order is the action \<open>Jitter\<close>.
\<close>

section \<open>Types\<close>

type_synonym json_fields = "(string \<times> json) list"

record rest_response =
  rsp_status_code :: int
  rsp_body :: string
  rsp_success :: bool
  rsp_error_message :: string
  rsp_error_code :: string

record rest_env =
  re_post :: "nat \<Rightarrow> string \<Rightarrow> json_fields \<Rightarrow> rest_response"
  re_get :: "string \<Rightarrow> string \<Rightarrow> rest_response"
  re_parse :: "string \<Rightarrow> json option"

record futures_account =
  fa_product_type :: string
  fa_margin_coin :: string
  fa_margin_mode :: string

record order_submitter =
  sm_account :: futures_account
  sm_rules :: "(symbol \<times> exchange_symbol_rules) list"
  sm_default_rules :: exchange_symbol_rules
  sm_leverage_cache :: "(string \<times> int) list"
  sm_max_leverage_cache :: "(symbol \<times> int) list"

definition submitter_init :: "futures_account \<Rightarrow> order_submitter" where
  "submitter_init a =
    \<lparr>sm_account = a, sm_rules = [], sm_default_rules = default_symbol_rules, sm_leverage_cache = [],
     sm_max_leverage_cache = []\<rparr>"

datatype submit_action = Jitter | Post string json_fields

definition kPlaceOrderPath :: string where "kPlaceOrderPath = ''/api/v2/mix/order/place-order''"
definition kPlacePlanOrderPath :: string where "kPlacePlanOrderPath = ''/api/v2/mix/order/place-plan-order''"
definition kCancelOrderPath :: string where "kCancelOrderPath = ''/api/v2/mix/order/cancel-order''"
definition kCancelPlanPath :: string where "kCancelPlanPath = ''/api/v2/mix/order/cancel-plan-order''"
definition kOrderDetailPath :: string where "kOrderDetailPath = ''/api/v2/mix/order/detail''"
definition kSetLeveragePath :: string where "kSetLeveragePath = ''/api/v2/mix/account/set-leverage''"
definition kSetMarginPath :: string where "kSetMarginPath = ''/api/v2/mix/account/set-margin-mode''"
definition kSetHoldModePath :: string where "kSetHoldModePath = ''/api/v2/mix/account/set-position-mode''"

section \<open>Helpers\<close>

fun contains_text :: "string \<Rightarrow> string \<Rightarrow> bool" where
  "contains_text p [] \<longleftrightarrow> p = []"
| "contains_text p (c # s) \<longleftrightarrow> has_prefix p (c # s) \<or> contains_text p s"

definition should_apply_submission_jitter :: "order_record \<Rightarrow> bool" where
  "should_apply_submission_jitter r =
    (if o_trade_side r \<noteq> TradeOpen then False
     else
       let strategy = map tolower (o_strategy_id r)
       in \<not> (contains_text ''hedge'' strategy \<or> contains_text ''emergency'' strategy \<or>
             contains_text ''flatten'' strategy \<or> contains_text ''stop'' strategy))"

definition set_rules :: "symbol \<Rightarrow> exchange_symbol_rules \<Rightarrow> order_submitter \<Rightarrow> order_submitter" where
  "set_rules s r m = m\<lparr>sm_rules := AList.update s r (sm_rules m)\<rparr>"

definition get_rules :: "symbol \<Rightarrow> order_submitter \<Rightarrow> exchange_symbol_rules" where
  "get_rules s m = (case map_of (sm_rules m) s of Some r \<Rightarrow> r | None \<Rightarrow> sm_default_rules m)"

text \<open>The object of a reply and its code; \<open>None\<close> where the source throws.\<close>

definition reply_code :: "rest_env \<Rightarrow> string \<Rightarrow> (json_fields \<times> string) option" where
  "reply_code v body =
    (case Option.bind (re_parse v body) if_object of None \<Rightarrow> None
     | Some obj \<Rightarrow> map_option (\<lambda>c. (obj, c)) (Option.bind (map_of obj ''code'') if_string))"

section \<open>Account settings\<close>

datatype leverage_reply = LevAccepted | LevTooHigh | LevFailed

definition leverage_reply_of :: "rest_env \<Rightarrow> rest_response \<Rightarrow> leverage_reply" where
  "leverage_reply_of v resp =
    (let code = map_option snd (reply_code v (rsp_body resp))
     in if \<not> rsp_success resp \<and> rsp_body resp \<noteq> []
        then (if code = Some ''40797'' then LevTooHigh else LevFailed)
        else if \<not> rsp_success resp then LevFailed
        else if code = Some ''00000'' then LevAccepted
        else if code = Some ''40797'' then LevTooHigh else LevFailed)"

definition leverage_body :: "order_submitter \<Rightarrow> symbol \<Rightarrow> string \<Rightarrow> int \<Rightarrow> json_fields" where
  "leverage_body m s hold_side lev =
    [(''symbol'', JString s), (''productType'', JString (fa_product_type (sm_account m))),
     (''marginCoin'', JString (fa_margin_coin (sm_account m))), (''leverage'', JString (to_string_int lev))] @
    (if fa_margin_mode (sm_account m) = ''isolated'' \<and> hold_side \<noteq> [] then [(''holdSide'', JString hold_side)] else [])"

text \<open>The attempts from \<open>lev\<close> downwards after \<open>i\<close> requests: the leverage that was accepted, if any.\<close>

fun try_leverage ::
  "rest_env \<Rightarrow> order_submitter \<Rightarrow> symbol \<Rightarrow> string \<Rightarrow> nat \<Rightarrow> nat \<Rightarrow> int option \<times> submit_action list" where
  "try_leverage v m s side i 0 = (None, [])"
| "try_leverage v m s side i (Suc lev) =
    (let body = leverage_body m s side (int (Suc lev)); act = Post kSetLeveragePath body
     in case leverage_reply_of v (re_post v i kSetLeveragePath body) of
       LevAccepted \<Rightarrow> (Some (int (Suc lev)), [act])
     | LevTooHigh \<Rightarrow> (let (r, acts) = try_leverage v m s side (Suc i) lev in (r, act # acts))
     | LevFailed \<Rightarrow> (None, [act]))"

definition leverage_key :: "symbol \<Rightarrow> string \<Rightarrow> string" where
  "leverage_key s side = s @ '':'' @ side"

definition capped_leverage :: "order_submitter \<Rightarrow> symbol \<Rightarrow> int \<Rightarrow> int" where
  "capped_leverage m s lev = (case map_of (sm_max_leverage_cache m) s of None \<Rightarrow> lev | Some mx \<Rightarrow> if mx < lev then mx else lev)"

definition exchange_set_leverage ::
  "rest_env \<Rightarrow> symbol \<Rightarrow> int \<Rightarrow> string \<Rightarrow> order_submitter \<Rightarrow> bool \<times> submit_action list \<times> order_submitter" where
  "exchange_set_leverage v s requested side m =
    (let lev = capped_leverage m s requested; key = leverage_key s side
     in if map_of (sm_leverage_cache m) key = Some lev then (True, [], m)
        else case try_leverage v m s side 0 (nat lev) of
          (None, acts) \<Rightarrow> (False, acts, m)
        | (Some actual, acts) \<Rightarrow>
            (True, acts, m\<lparr>sm_leverage_cache := AList.update key actual (sm_leverage_cache m),
              sm_max_leverage_cache :=
                (if actual \<noteq> lev then AList.update s actual (sm_max_leverage_cache m) else sm_max_leverage_cache m)\<rparr>))"

text \<open>An account setting succeeds with code zero or with the code that says it is already so.\<close>

definition setting_reply :: "rest_env \<Rightarrow> string \<Rightarrow> rest_response \<Rightarrow> bool" where
  "setting_reply v same resp \<longleftrightarrow>
    rsp_success resp \<and>
    (case reply_code v (rsp_body resp) of None \<Rightarrow> False
     | Some (obj, code) \<Rightarrow>
         code = ''00000'' \<or>
         code = same \<and> (case map_of obj ''msg'' of None \<Rightarrow> True | Some msg \<Rightarrow> if_string msg \<noteq> None))"

definition set_margin_mode :: "rest_env \<Rightarrow> symbol \<Rightarrow> string \<Rightarrow> order_submitter \<Rightarrow> bool \<times> submit_action list" where
  "set_margin_mode v s mode m =
    (let body = [(''symbol'', JString s), (''productType'', JString (fa_product_type (sm_account m))),
                 (''marginCoin'', JString (fa_margin_coin (sm_account m))), (''marginMode'', JString mode)]
     in (setting_reply v ''40872'' (re_post v 0 kSetMarginPath body), [Post kSetMarginPath body]))"

definition set_hold_mode :: "rest_env \<Rightarrow> string \<Rightarrow> string \<Rightarrow> bool \<times> submit_action list" where
  "set_hold_mode v product mode =
    (let body = [(''productType'', JString product), (''posMode'', JString mode)]
     in (setting_reply v ''40871'' (re_post v 0 kSetHoldModePath body), [Post kSetHoldModePath body]))"

section \<open>Bodies\<close>

definition account_fields :: "order_submitter \<Rightarrow> order_record \<Rightarrow> json_fields" where
  "account_fields m r =
    [(''symbol'', JString (o_symbol r)), (''productType'', JString (fa_product_type (sm_account m))),
     (''marginMode'', JString (fa_margin_mode (sm_account m))), (''marginCoin'', JString (fa_margin_coin (sm_account m)))] @
    (if ei_client_order_id (o_execution_info r) \<noteq> []
     then [(''clientOid'', JString (ei_client_order_id (o_execution_info r)))] else [])"

text \<open>The direction names the leg, not the trade: a closing order of a long leg is \<^verbatim>\<open>buy\<close> with \<^verbatim>\<open>close\<close>.\<close>

definition side_fields :: "order_record \<Rightarrow> json_fields" where
  "side_fields r =
    [(''side'', JString (if o_position_side r = Long then ''buy'' else ''sell'')),
     (''tradeSide'', JString (if o_trade_side r = TradeOpen then ''open'' else ''close''))]"

fun force_text :: "time_in_force \<Rightarrow> string" where
  "force_text GoodTillCancel = ''gtc''"
| "force_text ImmediateOrCancel = ''ioc''"
| "force_text FillOrKill = ''fok''"
| "force_text GoodTillDate = ''gtc''"

fun type_fields :: "order_type \<Rightarrow> time_in_force \<Rightarrow> json_fields option" where
  "type_fields Market tif = Some [(''orderType'', JString ''market'')]"
| "type_fields PostOnly tif = Some [(''orderType'', JString ''limit''), (''force'', JString ''post_only'')]"
| "type_fields Limit tif = Some [(''orderType'', JString ''limit''), (''force'', JString (force_text tif))]"
| "type_fields StopMarket tif = None"
| "type_fields StopLimit tif = None"

definition size_fields :: "exchange_symbol_rules \<Rightarrow> order_record \<Rightarrow> json_fields option" where
  "size_fields xr r =
    (let q = floor_quantity xr (o_original_quantity r)
     in if \<not> is_quantity_valid xr q then None else Some [(''size'', JString (format_quantity xr q))])"

definition price_fields :: "exchange_symbol_rules \<Rightarrow> order_record \<Rightarrow> json_fields option" where
  "price_fields xr r =
    (if o_order_type r = Market then Some []
     else if o_price r \<le> 0 then None else Some [(''price'', JString (format_price xr (o_price r)))])"

fun trigger_text :: "trigger_type \<Rightarrow> string" where
  "trigger_text MarkPrice = ''mark_price''"
| "trigger_text _ = ''fill_price''"

definition preset_fields :: "exchange_symbol_rules \<Rightarrow> attached_tp_sl \<Rightarrow> json_fields" where
  "preset_fields xr t =
    (if has_tp t then
       [(''presetStopSurplusPrice'', JString (format_price xr (tp_stop_surplus_price t))),
        (''presetStopSurplusTriggerType'', JString (trigger_text (tpsl_trigger_type t)))] else []) @
    (if has_sl t then
       [(''presetStopLossPrice'', JString (format_price xr (sl_stop_loss_price t))),
        (''presetStopLossTriggerType'', JString (trigger_text (tpsl_trigger_type t)))] else [])"

definition build_place_order_json :: "order_submitter \<Rightarrow> order_record \<Rightarrow> json_fields option" where
  "build_place_order_json m r =
    (let xr = get_rules (o_symbol r) m
     in case (type_fields (o_order_type r) (o_tif r), size_fields xr r, price_fields xr r) of
       (Some ty, Some sz, Some pr) \<Rightarrow>
         Some (account_fields m r @ side_fields r @ ty @ sz @ pr @ preset_fields xr (o_attached_tp_sl r) @
               [(''stpMode'', JString ''cancel_taker'')])
     | _ \<Rightarrow> None)"

text \<open>The price at which a stop-limit order executes, and whether it lies on the right side of the trigger.\<close>

definition execute_price_of :: "order_record \<Rightarrow> double" where
  "execute_price_of r =
    (let e = pp_execute_price (o_plan_params r) in if e \<le> 0 \<and> 0 < o_price r then o_price r else e)"

definition execution_fields :: "exchange_symbol_rules \<Rightarrow> order_record \<Rightarrow> json_fields option" where
  "execution_fields xr r =
    (case o_order_type r of
       StopMarket \<Rightarrow> Some [(''orderType'', JString ''market'')]
     | StopLimit \<Rightarrow>
         let e = execute_price_of r; trig = pp_trigger_price (o_plan_params r)
         in if e \<le> 0 then None
            else if o_side r = Sell \<and> trig < e then None
            else if o_side r = Buy \<and> e < trig then None
            else Some [(''orderType'', JString ''limit''), (''executePrice'', JString (format_price xr e))]
     | _ \<Rightarrow> None)"

definition build_plan_order_json :: "order_submitter \<Rightarrow> order_record \<Rightarrow> json_fields option" where
  "build_plan_order_json m r =
    (let xr = get_rules (o_symbol r) m; trig = pp_trigger_price (o_plan_params r)
     in if trig \<le> 0 then None
        else case (size_fields xr r, execution_fields xr r) of
          (Some sz, Some ex) \<Rightarrow>
            Some (account_fields m r @ side_fields r @
                  [(''triggerPrice'', JString (format_price xr trig)),
                   (''triggerType'', JString (trigger_text (pp_trigger_type (o_plan_params r))))] @
                  sz @ ex @ [(''planType'', JString ''normal_plan'')])
        | _ \<Rightarrow> None)"

section \<open>Orders\<close>

datatype order_reply = OrAccepted order_id | OrRefused string string | OrHttp string | OrThrew

definition order_reply_of :: "rest_env \<Rightarrow> rest_response \<Rightarrow> order_reply" where
  "order_reply_of v resp =
    (if \<not> rsp_success resp then OrHttp (rsp_error_message resp)
     else case reply_code v (rsp_body resp) of None \<Rightarrow> OrThrew
     | Some (obj, code) \<Rightarrow>
        (case (case map_of obj ''msg'' of None \<Rightarrow> Some [] | Some msg \<Rightarrow> if_string msg) of None \<Rightarrow> OrThrew
         | Some msg \<Rightarrow>
             if code = ''00000'' then
               (case Option.bind (Option.bind (Option.bind (map_of obj ''data'') if_object)
                       (\<lambda>d. map_of d ''orderId'')) if_string of
                  None \<Rightarrow> OrThrew | Some i \<Rightarrow> OrAccepted i)
             else OrRefused code msg))"

fun order_result :: "order_id \<Rightarrow> double \<Rightarrow> order_reply \<Rightarrow> order_submit_result" where
  "order_result oid q (OrAccepted i) =
    \<lparr>sr_success = True, sr_order_id = oid, sr_exchange_order_id = i, sr_error_message = [], sr_submitted_quantity = q\<rparr>"
| "order_result oid q (OrRefused code msg) =
    \<lparr>sr_success = False, sr_order_id = oid, sr_exchange_order_id = [],
     sr_error_message = ''Bitget Futures API: ['' @ code @ ''] '' @ msg, sr_submitted_quantity = q\<rparr>"
| "order_result oid q (OrHttp e) =
    \<lparr>sr_success = False, sr_order_id = oid, sr_exchange_order_id = [], sr_error_message = ''HTTP error: '' @ e,
     sr_submitted_quantity = q\<rparr>"
| "order_result oid q OrThrew =
    \<lparr>sr_success = False, sr_order_id = oid, sr_exchange_order_id = [], sr_error_message = ''Exception'',
     sr_submitted_quantity = q\<rparr>"

definition refused_body :: "order_id \<Rightarrow> string \<Rightarrow> order_submit_result" where
  "refused_body oid msg =
    \<lparr>sr_success = False, sr_order_id = oid, sr_exchange_order_id = [], sr_error_message = msg, sr_submitted_quantity = 0\<rparr>"

definition submit_plan_order ::
  "rest_env \<Rightarrow> order_record \<Rightarrow> order_submitter \<Rightarrow> order_submit_result \<times> submit_action list" where
  "submit_plan_order v r m =
    (case build_plan_order_json m r of
       None \<Rightarrow> (refused_body (o_order_id r) ''Plan order JSON could not be built'', [])
     | Some body \<Rightarrow>
         (order_result (o_order_id r) (floor_quantity (get_rules (o_symbol r) m) (o_original_quantity r))
            (order_reply_of v (re_post v 0 kPlacePlanOrderPath body)),
          [Post kPlacePlanOrderPath body]))"

definition exchange_submit_order ::
  "rest_env \<Rightarrow> order_record \<Rightarrow> order_submitter \<Rightarrow> order_submit_result \<times> submit_action list" where
  "exchange_submit_order v r m =
    (if o_order_type r = StopMarket \<or> o_order_type r = StopLimit then submit_plan_order v r m
     else case build_place_order_json m r of
       None \<Rightarrow> (refused_body (o_order_id r) ''Futures order JSON could not be built'', [])
     | Some body \<Rightarrow>
         (order_result (o_order_id r) (floor_quantity (get_rules (o_symbol r) m) (o_original_quantity r))
            (order_reply_of v (re_post v 0 kPlaceOrderPath body)),
          (if should_apply_submission_jitter r then [Jitter] else []) @ [Post kPlaceOrderPath body]))"

definition cancel_reply :: "rest_env \<Rightarrow> string list \<Rightarrow> rest_response \<Rightarrow> bool" where
  "cancel_reply v final_codes resp \<longleftrightarrow>
    rsp_success resp \<and>
    (case reply_code v (rsp_body resp) of None \<Rightarrow> False | Some (obj, code) \<Rightarrow> code = ''00000'' \<or> code \<in> set final_codes)"

definition exchange_cancel_order :: "rest_env \<Rightarrow> order_id \<Rightarrow> symbol \<Rightarrow> order_submitter \<Rightarrow> bool \<times> submit_action list" where
  "exchange_cancel_order v oid s m =
    (let body = [(''symbol'', JString s), (''productType'', JString (fa_product_type (sm_account m))),
                 (''orderId'', JString oid)]
     in (cancel_reply v [''43011'', ''43012''] (re_post v 0 kCancelOrderPath body), [Post kCancelOrderPath body]))"

definition cancel_plan_order ::
  "rest_env \<Rightarrow> order_id \<Rightarrow> symbol \<Rightarrow> string \<Rightarrow> order_submitter \<Rightarrow> bool \<times> submit_action list" where
  "cancel_plan_order v oid s plan_type m =
    (let body = [(''symbol'', JString s), (''productType'', JString (fa_product_type (sm_account m))),
                 (''marginCoin'', JString (fa_margin_coin (sm_account m))), (''orderId'', JString oid),
                 (''planType'', JString (if plan_type = [] then ''normal_plan'' else plan_type))]
     in (cancel_reply v [''22002'', ''40729'', ''40762'', ''43011'', ''43012''] (re_post v 0 kCancelPlanPath body),
         [Post kCancelPlanPath body]))"

section \<open>Queries\<close>

definition detail_query :: "order_submitter \<Rightarrow> order_id \<Rightarrow> symbol \<Rightarrow> string" where
  "detail_query m oid s =
    ''symbol='' @ s @ ''&productType='' @ fa_product_type (sm_account m) @ ''&orderId='' @ oid"

text \<open>The data of a detail reply, an object or the first of an array; \<open>None\<close> where the source gives up.\<close>

definition detail_data :: "rest_env \<Rightarrow> rest_response \<Rightarrow> json_fields option" where
  "detail_data v resp =
    (if \<not> rsp_success resp then None
     else case reply_code v (rsp_body resp) of None \<Rightarrow> None
     | Some (obj, code) \<Rightarrow>
        if code \<noteq> ''00000'' then None
        else (case map_of obj ''data'' of None \<Rightarrow> None
              | Some (JObject d) \<Rightarrow> Some d
              | Some (JArray (x # xs)) \<Rightarrow> if_object x
              | Some _ \<Rightarrow> None))"

definition text_in :: "json_fields \<Rightarrow> string \<Rightarrow> string option" where
  "text_in d key = (case Option.bind (map_of d key) if_string of None \<Rightarrow> None | Some s \<Rightarrow> if s = [] then None else Some s)"

definition query_order_fill_price :: "rest_env \<Rightarrow> order_id \<Rightarrow> symbol \<Rightarrow> order_submitter \<Rightarrow> double" where
  "query_order_fill_price v oid s m =
    (case detail_data v (re_get v kOrderDetailPath (detail_query m oid s)) of None \<Rightarrow> 0
     | Some d \<Rightarrow>
        (case Option.bind (text_in d ''priceAvg'') stod of None \<Rightarrow> 0 | Some x \<Rightarrow> if 0 < x then x else 0))"

definition detail_status :: "json_fields \<Rightarrow> string" where
  "detail_status d =
    (case Option.bind (map_of d ''state'') if_string of Some s \<Rightarrow> s
     | None \<Rightarrow> (case Option.bind (map_of d ''status'') if_string of Some s \<Rightarrow> s | None \<Rightarrow> []))"

text \<open>A number of the reply: \<open>None\<close> where \<^verbatim>\<open>stod\<close> throws, \<open>Some None\<close> where there is no text.\<close>

definition number_in :: "json_fields \<Rightarrow> string \<Rightarrow> double option option" where
  "number_in d key = (case text_in d key of None \<Rightarrow> Some None | Some s \<Rightarrow> map_option Some (stod s))"

fun first_positive :: "json_fields \<Rightarrow> string list \<Rightarrow> double option option" where
  "first_positive d [] = Some None"
| "first_positive d (key # keys) =
    (case number_in d key of None \<Rightarrow> None
     | Some None \<Rightarrow> first_positive d keys
     | Some (Some x) \<Rightarrow> if 0 < x then Some (Some x) else first_positive d keys)"

definition no_detail :: order_fill_detail where
  "no_detail = \<lparr>fd_success = False, fd_fill_price = 0, fd_filled_qty = 0, fd_original_qty = 0, fd_status = []\<rparr>"

definition read_detail :: "json_fields \<Rightarrow> order_fill_detail" where
  "read_detail d =
    (let r0 = no_detail\<lparr>fd_status := detail_status d\<rparr>
     in case number_in d ''priceAvg'' of None \<Rightarrow> r0
     | Some pr \<Rightarrow>
        let r1 = (case pr of None \<Rightarrow> r0 | Some x \<Rightarrow> r0\<lparr>fd_fill_price := x\<rparr>)
        in case first_positive d [''baseVolume'', ''filledQty'', ''fillQuantity''] of None \<Rightarrow> r1
        | Some q \<Rightarrow>
           let r2 = (case q of None \<Rightarrow> r1 | Some x \<Rightarrow> r1\<lparr>fd_filled_qty := x\<rparr>)
           in case number_in d ''size'' of None \<Rightarrow> r2
           | Some z \<Rightarrow>
              let r3 = (case z of None \<Rightarrow> r2 | Some x \<Rightarrow> r2\<lparr>fd_original_qty := x\<rparr>)
              in r3\<lparr>fd_success := 0 < fd_fill_price r3 \<or> 0 < fd_filled_qty r3\<rparr>)"

definition query_order_fill_detail :: "rest_env \<Rightarrow> order_id \<Rightarrow> symbol \<Rightarrow> order_submitter \<Rightarrow> order_fill_detail" where
  "query_order_fill_detail v oid s m =
    (case detail_data v (re_get v kOrderDetailPath (detail_query m oid s)) of None \<Rightarrow> no_detail | Some d \<Rightarrow> read_detail d)"

end
