(* ===== verification/Rules_Laws.thy ===== *)
theory Rules_Laws
  imports Exchange_Rules
begin

text \<open>
  Laws of the rounding to an instrument's grid: a printed number reads back as the number nearest to
  what was printed, sizes and prices are multiples of their step, and where the second rounding loses
  a step.
\<close>

section \<open>Printing and reading back\<close>

lemma length_pad_digits [simp]: "length (pad_digits k n) = k"
  by (induction k n rule: pad_digits.induct) simp_all

lemma pad_digits_digits: "c \<in> set (pad_digits k n) \<Longrightarrow> is_digit c"
  by (induction k n rule: pad_digits.induct) auto

lemma read_nat_append: "read_nat (a @ b) = foldl (\<lambda>x c. 10 * x + char_digit c) (read_nat a) b"
  by (simp add: read_nat_def)

lemma read_pad: "n < 10 ^ k \<Longrightarrow> foldl (\<lambda>x c. 10 * x + char_digit c) a (pad_digits k n) = a * 10 ^ k + n"
proof (induction k n arbitrary: a rule: pad_digits.induct)
  case (2 k n)
  then have "n div 10 < 10 ^ k" by (simp add: less_mult_imp_div_less mult.commute)
  then show ?case using "2.IH" by (simp add: algebra_simps)
qed simp

lemma read_parts: "read_nat (to_string_nat (n div 10 ^ p) @ pad_digits p (n mod 10 ^ p)) = n"
  by (simp add: read_nat_append read_pad div_mult_mod_eq)

lemma take_digits:
  assumes "\<forall>c\<in>set a. is_digit c" "b = [] \<or> \<not> is_digit (hd b)"
  shows "takeWhile is_digit (a @ b) = a" "dropWhile is_digit (a @ b) = b"
  using assms by (cases b; simp add: takeWhile_append dropWhile_append)+

lemma nat_digits: "\<forall>c\<in>set (to_string_nat n). is_digit c"
  using to_string_nat_digits by blast

lemma point_no_digit: "\<not> is_digit CHR ''.''"
  by (simp add: is_digit_def)

lemma scan_fixed:
  "scan_decimal (to_string_nat (n div 10 ^ p) @ (if p = 0 then [] else ''.'' @ pad_digits p (n mod 10 ^ p)))
    = Some (real n / 10 ^ p)"
proof (cases "p = 0")
  case True
  have a: "takeWhile is_digit (to_string_nat n) = to_string_nat n" "dropWhile is_digit (to_string_nat n) = []"
    using nat_digits [of n] by auto
  show ?thesis using True by (simp add: scan_decimal_def has_prefix_def scan_exponent_def Let_def a)
next
  case False
  let ?f = "pad_digits p (n mod 10 ^ p)"
  have a: "takeWhile is_digit (to_string_nat (n div 10 ^ p) @ CHR ''.'' # ?f) = to_string_nat (n div 10 ^ p)"
    "dropWhile is_digit (to_string_nat (n div 10 ^ p) @ CHR ''.'' # ?f) = CHR ''.'' # ?f"
    using nat_digits point_no_digit by (intro take_digits; simp)+
  have b: "takeWhile is_digit ?f = ?f" "dropWhile is_digit ?f = []"
    using pad_digits_digits [of _ p "n mod 10 ^ p"] by auto
  have c: "read_nat (to_string_nat (n div 10 ^ p) @ ?f) = n" by (rule read_parts)
  show ?thesis
    using False by (simp add: scan_decimal_def Let_def a has_prefix_def b c scan_exponent_def)
qed

lemma digit_facts:
  assumes "is_digit c"
  shows "\<not> is_space c" "c \<noteq> CHR ''-''" "c \<noteq> CHR ''+''" "tolower c = c"
  using assms by (auto simp: is_digit_def is_space_def tolower_def)

lemma unsigned_digit:
  assumes "s = c # t" "is_digit c" "t = [] \<or> tolower (hd t) \<noteq> CHR ''x''" "scan_decimal s = Some x"
  shows "strtod_scan s = ranged_value x"
proof -
  have n: "c \<noteq> CHR ''i''" "c \<noteq> CHR ''n''" using assms(2) by (auto simp: is_digit_def)
  have "\<not> iequals (take 2 s) ''0x''"
    using assms(1,3) by (cases t) (auto simp: iequals_def tolower_def [of "CHR ''x''"])
  moreover have "tolower CHR ''i'' = CHR ''i''" "tolower CHR ''n'' = CHR ''n''" by (simp_all add: tolower_def)
  then have "\<not> iequals (take 3 s) ''inf''" "\<not> iequals (take 3 s) ''nan''"
    using assms(1) n digit_facts(4) [OF assms(2)] by (simp_all add: iequals_def)
  ultimately have "strtod_unsigned s = ranged_value x"
    using assms(4) by (simp only: strtod_unsigned_def if_False option.case)
  then show ?thesis
    using assms(1) digit_facts [OF assms(2)] by (simp add: strtod_scan_def has_prefix_def)
qed

lemma hd_fixed:
  obtains c t where "to_string_nat m @ r = c # t" "is_digit c"
  using nat_digits [of m] to_string_nat_nonempty [of m] by (cases "to_string_nat m") (auto simp: neq_Nil_conv)

text \<open>A number printed with \<open>p\<close> decimals reads back as the nearest double of the printed decimal.\<close>

theorem print_read:
  assumes "0 \<le> x" "length (fixed_text p (Fin x)) \<le> 63" "x * 10 ^ p < 2 ^ 1000"
  shows "strtod (snprintf_fixed p (Fin x)) = mk (of_int (rne (x * 10 ^ p)) / 10 ^ p)"
proof -
  define n where "n = nat (rne (x * 10 ^ p))"
  let ?s = "to_string_nat (n div 10 ^ p) @ (if p = 0 then [] else ''.'' @ pad_digits p (n mod 10 ^ p))"
  have n: "of_int (rne (x * 10 ^ p)) = real n"
    using rne_ge_int [of 0 "x * 10 ^ p"] assms(1) by (simp add: n_def)
  have s: "snprintf_fixed p (Fin x) = ?s"
    using assms(1,2) by (simp add: snprintf_fixed_def n_def Let_def)
  obtain c t where ct: "?s = c # t" "is_digit c" by (rule hd_fixed)
  have "is_digit d \<or> d = CHR ''.''" if "d \<in> set ?s" for d
    using that nat_digits [of "n div 10 ^ p"] pad_digits_digits [of d p "n mod 10 ^ p"]
    by (auto split: if_splits)
  moreover have "tolower d \<noteq> CHR ''x''" if "is_digit d \<or> d = CHR ''.''" for d
    using that digit_facts(4) [of d] by (auto simp: is_digit_def tolower_def)
  moreover have "t = [] \<or> hd t \<in> set ?s" using ct(1) by (cases t) auto
  ultimately have t: "t = [] \<or> tolower (hd t) \<noteq> CHR ''x''" by blast
  have "strtod_scan ?s = ranged_value (real n / 10 ^ p)"
    by (rule unsigned_digit [OF ct t scan_fixed])
  then show ?thesis by (simp add: strtod_def s n ranged_value_def)
qed

section \<open>The grid\<close>

lemma rnd_error:
  assumes "0 < x"
  shows "\<bar>rnd x - x\<bar> \<le> x / 2 ^ 53 + 2 powi - 1075"
proof -
  have q: "(0 :: real) < 2 powi quantum x" by simp
  have "rnd x - x = (of_int (rne (x / 2 powi quantum x)) - x / 2 powi quantum x) * 2 powi quantum x"
    using assms by (simp add: rnd_def algebra_simps)
  then have "\<bar>rnd x - x\<bar> \<le> 1 / 2 * 2 powi quantum x"
    using mult_right_mono [OF rne_near [of "x / 2 powi quantum x"], of "2 powi quantum x"] q by (simp add: abs_mult)
  moreover have "1 / 2 * 2 powi quantum x \<le> x / 2 ^ 53 + 2 powi - 1075"
  proof (cases "ilog2 \<bar>x\<bar> - 52 \<le> - 1074")
    case True
    then have "(2 :: real) powi quantum x = 2 * 2 powi - 1075" by (simp add: quantum_def power_int_minus)
    then show ?thesis using assms by simp
  next
    case False
    then have "(2 :: real) powi quantum x = 2 powi (ilog2 x - 52)" using assms by (simp add: quantum_def)
    also have "\<dots> = 2 powi ilog2 x / 2 ^ 52" by (simp add: power_int_diff)
    also have "\<dots> \<le> x / 2 ^ 52" using ilog2_bounds(1) [OF assms] by (simp add: divide_right_mono)
    finally have "1 / 2 * (2 :: real) powi quantum x \<le> x / 2 ^ 53" by simp
    then show ?thesis by (simp add: add_increasing2)
  qed
  ultimately show ?thesis by linarith
qed

lemma mk_error:
  assumes "0 \<le> x" "x < 2 ^ 1000"
  obtains y where "mk x = Fin y" "0 \<le> y" "\<bar>y - x\<bar> \<le> x / 2 ^ 53 + 2 powi - 1075"
proof -
  have "repr53 (2 ^ 1000)" using repr53I [of 1 1000] by (simp only: of_int_1 mult_1_left flip: power_int_of_nat) simp
  then have r: "rnd x \<le> 2 ^ 1000" using rnd_mono [of x "2 ^ 1000"] assms(2) by (simp only: rnd_repr53 less_imp_le)
  have "\<bar>rnd x - x\<bar> \<le> x / 2 ^ 53 + 2 powi - 1075" using rnd_error [of x] assms(1) by (cases "x = 0") auto
  moreover have "mk x = Fin (rnd x)"
  proof -
    have "rnd x < 2 ^ 1024" by (rule le_less_trans [OF r]) simp
    then show ?thesis using rnd_nonneg [OF assms(1)] by (simp add: mk_def Let_def)
  qed
  ultimately show thesis using that rnd_nonneg [OF assms(1)] by blast
qed

lemma decimal_exact:
  assumes "n \<le> 22"
  shows "mk (10 ^ n) = Fin (10 ^ n)"
proof -
  have e: "(10 :: real) ^ n = of_int (5 ^ n) * 2 powi int n" by (simp flip: power_mult_distrib)
  have "(5 :: int) ^ n \<le> 5 ^ 22" using assms by (intro power_increasing) simp_all
  then have "\<bar>5 ^ n :: int\<bar> < 2 ^ 53" by simp
  then have "repr53 (of_int (5 ^ n) * 2 powi int n)" by (rule repr53I) simp
  then have "repr53 (10 ^ n)" unfolding e .
  moreover have "(10 :: real) ^ n \<le> 10 ^ 22" using assms by (intro power_increasing) simp_all
  then have "\<bar>10 ^ n :: real\<bar> < 2 ^ 1024" by simp
  ultimately show ?thesis by (rule mk_repr53)
qed

lemma decimal_factor_exact: "n \<le> 22 \<Longrightarrow> decimal_factor n = Fin (10 ^ n)"
proof (induction n)
  case (Suc n)
  then have "decimal_factor (Suc n) = mk (10 ^ Suc n)" by (simp add: mult.commute)
  then show ?case using decimal_exact [OF Suc.prems] by simp
qed (simp add: one_double_def)

lemma digits_of_le: "digits_of p \<le> 18"
  by (auto simp: digits_of_def clamp_int_def kMaxPrecisionDigits_def)

lemma length_to_string_nat: "n < 10 ^ m \<Longrightarrow> 0 < m \<Longrightarrow> length (to_string_nat n) \<le> m"
proof (induction n arbitrary: m rule: to_string_nat.induct)
  case (1 n)
  show ?case
  proof (cases "n < 10")
    case True
    then show ?thesis using "1.prems" by (subst to_string_nat.simps) simp
  next
    case False
    then obtain m' where m: "m = Suc m'" "0 < m'"
      using "1.prems" by (cases m; cases "m - 1") auto
    then have "n div 10 < 10 ^ m'" using "1.prems" by (simp add: less_mult_imp_div_less mult.commute)
    then have "length (to_string_nat (n div 10)) \<le> m'" using "1.IH" False m(2) by blast
    then show ?thesis using False m by (subst to_string_nat.simps) simp
  qed
qed

lemma length_fixed:
  assumes "0 \<le> x" "p \<le> 18" "rne (x * 10 ^ p) < 10 ^ 18"
  shows "length (fixed_text p (Fin x)) \<le> 63"
proof -
  let ?n = "nat (rne (x * 10 ^ p))"
  have "?n < 10 ^ 18" using assms(3) by (simp add: nat_less_iff)
  then have "?n div 10 ^ p < 10 ^ 18" by (rule le_less_trans [OF div_le_dividend])
  then have "length (to_string_nat (?n div 10 ^ p)) \<le> 18" by (rule length_to_string_nat) simp
  then show ?thesis using assms(1,2) by (auto simp: Let_def)
qed

text \<open>The number next to \<open>k\<close> steps of the grid prints as these \<open>k\<close> steps.\<close>

lemma grid_prints:
  assumes "p \<le> 18" "0 \<le> k" "k \<le> 2 ^ 50"
  obtains z where "mk (of_int k / 10 ^ p) = Fin z" "0 \<le> z" "rne (z * 10 ^ p) = k"
proof -
  let ?x = "of_int k / 10 ^ p :: real"
  have k: "(of_int k :: real) \<le> 2 ^ 50" using assms(3) by (metis of_int_le_iff of_int_numeral of_int_power)
  have p: "(0 :: real) < 10 ^ p" "(1 :: real) \<le> 10 ^ p" by simp_all
  have "?x \<le> of_int k / 1" using assms(2) p by (intro divide_left_mono) simp_all
  then have "?x \<le> of_int k" by simp
  then have "?x < 2 ^ 1000" using k by (rule order.trans [THEN le_less_trans]) simp
  then obtain z where z: "mk ?x = Fin z" "0 \<le> z" "\<bar>z - ?x\<bar> \<le> ?x / 2 ^ 53 + 2 powi - 1075"
    using mk_error [of ?x] assms(2) by auto
  have "\<bar>z * 10 ^ p - of_int k\<bar> = \<bar>z - ?x\<bar> * 10 ^ p" using p by (simp add: abs_mult_pos field_simps)
  also have "\<dots> \<le> (?x / 2 ^ 53 + 2 powi - 1075) * 10 ^ p" by (rule mult_right_mono [OF z(3)]) (use p in simp)
  also have "\<dots> = of_int k / 2 ^ 53 + 2 powi - 1075 * 10 ^ p" by (simp add: distrib_right)
  also have "\<dots> \<le> 2 ^ 50 / 2 ^ 53 + 2 powi - 1075 * 10 ^ 18"
    using k assms(1) by (intro add_mono divide_right_mono mult_left_mono power_increasing) simp_all
  also have "\<dots> < 1 / 2" by (simp add: power_int_minus field_simps)
  finally have d: "\<bar>z * 10 ^ p - of_int k\<bar> < 1 / 2" .
  have "rne (z * 10 ^ p) = k"
  proof -
    have "\<bar>of_int (rne (z * 10 ^ p)) - (of_int k :: real)\<bar> < 1" using d rne_near [of "z * 10 ^ p"] by linarith
    then show ?thesis by linarith
  qed
  then show thesis using that z by blast
qed

lemma floor_quantity_grid:
  fixes r x
  defines "p \<equiv> digits_of (xr_quantity_precision r)"
  assumes "0 < x" "x * 10 ^ p < 2 ^ 50"
  obtains y where "mk (x * 10 ^ p) = Fin y" "0 \<le> y" "\<bar>y - x * 10 ^ p\<bar> \<le> x * 10 ^ p / 2 ^ 53 + 2 powi - 1075"
    "floor_quantity r (Fin x) = mk (of_int \<lfloor>y\<rfloor> / 10 ^ p)" "\<lfloor>y\<rfloor> \<le> 2 ^ 50"
proof -
  have p: "p \<le> 18" unfolding p_def by (rule digits_of_le)
  have X: "0 < x * 10 ^ p" using assms(2) by simp
  have "x * 10 ^ p < 2 ^ 1000" by (rule less_trans [OF assms(3)]) simp
  then obtain y where y: "mk (x * 10 ^ p) = Fin y" "0 \<le> y" "\<bar>y - x * 10 ^ p\<bar> \<le> x * 10 ^ p / 2 ^ 53 + 2 powi - 1075"
    using mk_error [of "x * 10 ^ p"] X by auto
  have "mk (x * 10 ^ p) \<le> mk (of_int (2 ^ 50))" using assms(3) by (intro mk_mono) simp
  then have "y \<le> 2 ^ 50" unfolding y(1) using mk_of_int [of "2 ^ 50"] by simp
  then have k: "0 \<le> \<lfloor>y\<rfloor>" "\<lfloor>y\<rfloor> \<le> 2 ^ 50" using y(2) by (simp_all add: floor_le_iff)
  obtain z where z: "mk (of_int \<lfloor>y\<rfloor> / 10 ^ p) = Fin z" "0 \<le> z" "rne (z * 10 ^ p) = \<lfloor>y\<rfloor>"
    by (rule grid_prints [OF p k])
  have f: "decimal_factor p = Fin (10 ^ p)" using p by (intro decimal_factor_exact) simp
  have "length (fixed_text p (Fin z)) \<le> 63"
    by (rule length_fixed [OF z(2) p]) (use k(2) z(3) in simp)
  moreover have "z * 10 ^ p < 2 ^ 1000"
  proof -
    have "z * 10 ^ p \<le> of_int \<lfloor>y\<rfloor> + 1" using rne_near [of "z * 10 ^ p"] z(3) by linarith
    also have "\<dots> \<le> y + 1" by simp
    also have "\<dots> \<le> 2 ^ 51" using \<open>y \<le> 2 ^ 50\<close> by simp
    also have "\<dots> < 2 ^ 1000" by simp
    finally show ?thesis .
  qed
  ultimately have "strtod (snprintf_fixed p (Fin z)) = mk (of_int \<lfloor>y\<rfloor> / 10 ^ p)"
    using print_read [OF z(2), of p] z(3) by simp
  then have "floor_quantity r (Fin x) = mk (of_int \<lfloor>y\<rfloor> / 10 ^ p)"
    using assms(2) y(1) z(1) by (simp add: floor_quantity_def p_def [symmetric] f zero_double_def Let_def)
  then show thesis using that y k(2) by blast
qed

text \<open>
  C23. The size sent to the exchange is a number of whole steps, at most one step and one rounding error
  below the wanted size and never above it by more than the rounding error.
\<close>

theorem floor_quantity_bounds:
  fixes r x
  defines "p \<equiv> digits_of (xr_quantity_precision r)"
  assumes "0 < x" "x * 10 ^ p < 2 ^ 50"
  shows "\<exists>k. 0 \<le> k \<and> floor_quantity r (Fin x) = mk (of_int k / 10 ^ p) \<and>
    of_int k \<le> x * 10 ^ p * (1 + 1 / 2 ^ 52) \<and> x * 10 ^ p * (1 - 1 / 2 ^ 52) - 1 < of_int k"
proof -
  let ?X = "x * 10 ^ p"
  obtain y where y: "0 \<le> y" "\<bar>y - ?X\<bar> \<le> ?X / 2 ^ 53 + 2 powi - 1075"
    "floor_quantity r (Fin x) = mk (of_int \<lfloor>y\<rfloor> / 10 ^ p)"
    using floor_quantity_grid [OF assms(2,3) [unfolded p_def]] unfolding p_def by blast
  have X: "0 < ?X" using assms(2) by simp
  have "of_int \<lfloor>y\<rfloor> \<le> ?X * (1 + 1 / 2 ^ 52) \<and> ?X * (1 - 1 / 2 ^ 52) - 1 < of_int \<lfloor>y\<rfloor>"
  proof (cases "?X < 2 powi - 1000")
    case True
    have "(2 :: real) powi - 1000 < 1 / 4" "(2 :: real) powi - 1075 < 1 / 4" by (simp_all add: power_int_minus)
    then have "?X < 1 / 4" "?X / 2 ^ 53 \<le> ?X" using True X by simp_all
    then have "y < 1" "?X < 1" using y(2) \<open>2 powi - 1075 < 1 / 4\<close> by linarith+
    moreover have "?X * (1 - 1 / 2 ^ 52) \<le> ?X" using X by simp
    moreover have "\<lfloor>y\<rfloor> = 0" using y(1) \<open>y < 1\<close> by linarith
    moreover have "0 \<le> ?X * (1 + 1 / 2 ^ 52)" using X by simp
    ultimately show ?thesis by simp
  next
    case False
    have "(2 :: real) powi - 1075 \<le> 2 powi - 1000 / 2 ^ 53" by (simp add: power_int_minus)
    then have "2 powi - 1075 \<le> ?X / 2 ^ 53" using False by simp
    then have "\<bar>y - ?X\<bar> \<le> ?X / 2 ^ 52" using y(2) by simp
    moreover have "X * (1 + 1 / 2 ^ 52) = X + X / 2 ^ 52" "X * (1 - 1 / 2 ^ 52) = X - X / 2 ^ 52" for X :: real
      by (simp_all add: field_simps)
    ultimately show ?thesis by (simp only:) linarith
  qed
  then show ?thesis using y(1,3) by (intro exI [of _ "\<lfloor>y\<rfloor>"]) simp
qed

lemma default_digits: "digits_of (xr_quantity_precision default_symbol_rules) = 6"
  by (simp add: default_symbol_rules_def digits_of_def clamp_int_def kMaxPrecisionDigits_def)

theorem floor_quantity_bounds_witness:
  "\<exists>k. 0 \<le> k \<and> floor_quantity default_symbol_rules (Fin (3 / 2)) = mk (of_int k / 10 ^ 6) \<and>
    of_int k \<le> (3 / 2) * 10 ^ 6 * (1 + 1 / 2 ^ 52 :: real) \<and> (3 / 2) * 10 ^ 6 * (1 - 1 / 2 ^ 52 :: real) - 1 < of_int k"
  using floor_quantity_bounds [of "3 / 2" default_symbol_rules] unfolding default_digits by simp

lemma floor_one: "floor_quantity default_symbol_rules (Fin 1) = Fin 1"
proof -
  obtain y where y: "mk (1 * 10 ^ 6) = Fin y" "floor_quantity default_symbol_rules (Fin 1) = mk (of_int \<lfloor>y\<rfloor> / 10 ^ 6)"
    using floor_quantity_grid [of 1 default_symbol_rules] unfolding default_digits by auto
  have "mk (1 * 10 ^ 6) = Fin (10 ^ 6)" using mk_of_int [of "10 ^ 6"] by simp
  then have "y = 10 ^ 6" using y(1) by simp
  then show ?thesis using y(2) by simp
qed

text \<open>
  Rounding twice loses a step: the size 0.58 with two decimals becomes 0.57, and the text that is sent
  for 0.57 is 0.56.
\<close>

lemma mk_nearest:
  assumes "2 powi k \<le> x" "x < 2 powi (k + 1)" "- 1022 \<le> k" "k < 1000" "\<bar>x / 2 powi (k - 52) - of_int n\<bar> < 1 / 2"
  shows "mk x = Fin (of_int n * 2 powi (k - 52))"
proof -
  have x: "0 < x" using assms(1) by (rule less_le_trans [rotated]) simp
  have q: "quantum x = k - 52" using ilog2_unique [OF assms(1,2)] x assms(3) by (simp add: quantum_def)
  have "\<bar>of_int (rne (x / 2 powi (k - 52))) - (of_int n :: real)\<bar> < 1"
    using assms(5) rne_near [of "x / 2 powi (k - 52)"] by linarith
  then have "rne (x / 2 powi (k - 52)) = n" by linarith
  then have r: "rnd x = of_int n * 2 powi (k - 52)" using x q by (simp add: rnd_def)
  have "(2 :: real) powi (k + 1) \<le> 2 powi 1000" using assms(4) by (intro power_int_increasing) simp_all
  also have "(2 :: real) powi 1000 = 2 ^ 1000" by (simp only: flip: power_int_numeral)
  finally have "x < 2 ^ 1000" using assms(2) by (rule less_le_trans [rotated])
  then obtain y where "mk x = Fin y" using mk_error [of x] x by (meson less_imp_le)
  then show ?thesis using r by (auto simp: mk_def Let_def split: if_splits)
qed

lemma two_digits:
  assumes "xr_quantity_precision r = 2"
  shows "digits_of (xr_quantity_precision r) = 2"
  by (simp add: assms digits_of_def clamp_int_def kMaxPrecisionDigits_def)

lemma mk_near_1:
  assumes "1 / 2 \<le> x" "x < 1" "\<bar>x * 2 ^ 53 - of_int n\<bar> < 1 / 2"
  shows "mk x = Fin (of_int n / 2 ^ 53)"
  using mk_nearest [of "-1" x n] assms by (simp add: power_int_minus field_simps)

lemma mk_near_64:
  assumes "32 \<le> x" "x < 64" "\<bar>x * 2 ^ 47 - of_int n\<bar> < 1 / 2"
  shows "mk x = Fin (of_int n / 2 ^ 47)"
  using mk_nearest [of 5 x n] assms by (simp add: power_int_minus field_simps)

lemma near_58: "mk (58 / 100) = Fin (5224175567749775 / 2 ^ 53)"
  and near_57: "mk (57 / 100) = Fin (5134103575202365 / 2 ^ 53)"
  and near_56: "mk (56 / 100) = Fin (5044031582654956 / 2 ^ 53)"
  using mk_near_1 [of "58 / 100" 5224175567749775] mk_near_1 [of "57 / 100" 5134103575202365]
    mk_near_1 [of "56 / 100" 5044031582654956] by simp_all

lemma times_58: "mk (5224175567749775 / 2 ^ 53 * 100) = Fin (8162774324609023 / 2 ^ 47)"
  and times_57: "mk (5134103575202365 / 2 ^ 53 * 100) = Fin (8022036836253695 / 2 ^ 47)"
  using mk_near_64 [of "5224175567749775 / 2 ^ 53 * 100" 8162774324609023]
    mk_near_64 [of "5134103575202365 / 2 ^ 53 * 100" 8022036836253695] by simp_all

lemma floor_two_digits:
  assumes "xr_quantity_precision r = 2" "0 < x" "x < 2 ^ 40" "mk (x * 100) = Fin y"
  shows "floor_quantity r (Fin x) = mk (of_int \<lfloor>y\<rfloor> / 100)"
proof -
  have d: "10 ^ digits_of (xr_quantity_precision r) = (100 :: real)" by (simp add: two_digits [OF assms(1)])
  obtain y' where "mk (x * 100) = Fin y'" "floor_quantity r (Fin x) = mk (of_int \<lfloor>y'\<rfloor> / 100)"
    by (rule floor_quantity_grid [of x r, unfolded d, OF assms(2)]) (use assms(3) in simp_all)
  then show ?thesis using assms(4) by simp
qed

lemma floor_58: "\<lfloor>8162774324609023 / 2 ^ 47 :: real\<rfloor> = 57" and floor_57: "\<lfloor>8022036836253695 / 2 ^ 47 :: real\<rfloor> = 56"
  by (simp_all add: floor_eq_iff)

lemma print_56: "rne (5044031582654956 / 2 ^ 53 * 10 ^ 2) = 56" "to_string_nat 0 = ''0''" "pad_digits 2 56 = ''56''"
proof -
  have "\<lfloor>5044031582654956 / 2 ^ 53 * 10 ^ 2 :: real\<rfloor> = 56" by (simp add: floor_eq_iff)
  then show "rne (5044031582654956 / 2 ^ 53 * 10 ^ 2) = 56" by (simp add: rne_def Let_def)
  show "to_string_nat 0 = ''0''" "pad_digits 2 56 = ''56''" by code_simp+
qed

theorem second_rounding_loses_step:
  assumes "xr_quantity_precision r = 2"
  shows "floor_quantity r (mk (58 / 100)) = mk (57 / 100) \<and> format_quantity r (mk (57 / 100)) = ''0.56''"
proof -
  have "floor_quantity r (mk (58 / 100)) = mk (of_int \<lfloor>8162774324609023 / 2 ^ 47 :: real\<rfloor> / 100)"
    unfolding near_58 by (rule floor_two_digits [OF assms _ _ times_58]) simp_all
  then have a: "floor_quantity r (mk (58 / 100)) = mk (57 / 100)" by (simp only: floor_58) simp
  have "floor_quantity r (mk (57 / 100)) = mk (of_int \<lfloor>8022036836253695 / 2 ^ 47 :: real\<rfloor> / 100)"
    unfolding near_57 by (rule floor_two_digits [OF assms _ _ times_57]) simp_all
  then have b: "floor_quantity r (mk (57 / 100)) = mk (56 / 100)" by (simp only: floor_57) simp
  have "fixed_text 2 (mk (56 / 100)) = ''0.56''"
  proof -
    have "\<not> (5044031582654956 / 2 ^ 53 :: real) < 0" "\<bar>5044031582654956 / 2 ^ 53 :: real\<bar> = 5044031582654956 / 2 ^ 53"
      by simp_all
    then have "fixed_text 2 (Fin (5044031582654956 / 2 ^ 53)) =
      to_string_nat (nat 56 div 10 ^ 2) @ ''.'' @ pad_digits 2 (nat 56 mod 10 ^ 2)"
      unfolding fixed_text.simps Let_def print_56(1) by (simp only: print_56(1) if_False append_Nil) simp
    then show ?thesis unfolding near_56 by (simp add: print_56(2,3))
  qed
  then show ?thesis using a unfolding format_quantity_def b two_digits [OF assms] by (simp add: snprintf_fixed_def)
qed

end
