(* ===== verification/Submitter_Laws.thy ===== *)
theory Submitter_Laws
  imports Order_Submitter Rules_Laws
begin

text \<open>
  What the requests of the order client say and what its answers mean: the fields of an accepted
  body, when an order counts as submitted, the search for the highest leverage the exchange takes; and
  the cases in which the answer and the request disagree.
\<close>

section \<open>Bodies\<close>

lemma map_of_account [simp]:
  "k \<notin> {''symbol'', ''productType'', ''marginMode'', ''marginCoin'', ''clientOid''} \<Longrightarrow> map_of (account_fields m r) k = None"
  by (simp add: account_fields_def)

lemma map_of_sides [simp]:
  "k \<notin> {''side'', ''tradeSide''} \<Longrightarrow> map_of (side_fields r) k = None"
  by (simp add: side_fields_def)

lemma map_of_type:
  "type_fields ty tif = Some fs \<Longrightarrow> k \<notin> {''orderType'', ''force''} \<Longrightarrow> map_of fs k = None"
  by (cases ty) auto

lemma map_of_presets [simp]:
  "k \<notin> {''presetStopSurplusPrice'', ''presetStopSurplusTriggerType'', ''presetStopLossPrice'', ''presetStopLossTriggerType''} \<Longrightarrow>
    map_of (preset_fields xr t) k = None"
  by (simp add: preset_fields_def)

lemma place_body:
  assumes "build_place_order_json m r = Some fs"
  obtains ty pr where "type_fields (o_order_type r) (o_tif r) = Some ty" "price_fields (get_rules (o_symbol r) m) r = Some pr"
    "is_quantity_valid (get_rules (o_symbol r) m) (floor_quantity (get_rules (o_symbol r) m) (o_original_quantity r))"
    "fs = account_fields m r @ side_fields r @ ty @
      [(''size'', JString (format_quantity (get_rules (o_symbol r) m) (floor_quantity (get_rules (o_symbol r) m) (o_original_quantity r))))] @
      pr @ preset_fields (get_rules (o_symbol r) m) (o_attached_tp_sl r) @ [(''stpMode'', JString ''cancel_taker'')]"
  using assms by (auto simp: build_place_order_json_def size_fields_def Let_def split: option.splits if_splits)

text \<open>
  What a place-order request says.  It names the leg and the direction, is a limit order with a
  positive price exactly when the order is not a market order, has the stop-loss of the order exactly
  when there is one, and carries a size only if the rounded quantity passed the limits; stop orders are
  never sent this way.
\<close>

theorem place_request_says:
  assumes "build_place_order_json m r = Some fs"
  shows "map_of fs ''symbol'' = Some (JString (o_symbol r)) \<and>
    map_of fs ''side'' = Some (JString (if o_position_side r = Long then ''buy'' else ''sell'')) \<and>
    map_of fs ''tradeSide'' = Some (JString (if o_trade_side r = TradeOpen then ''open'' else ''close'')) \<and>
    map_of fs ''orderType'' = Some (JString (if o_order_type r = Market then ''market'' else ''limit'')) \<and>
    o_order_type r \<in> {Market, Limit, PostOnly} \<and>
    (map_of fs ''price'' \<noteq> None \<longleftrightarrow> o_order_type r \<noteq> Market) \<and> (o_order_type r \<noteq> Market \<longrightarrow> \<not> o_price r \<le> 0) \<and>
    (map_of fs ''presetStopLossPrice'' \<noteq> None \<longleftrightarrow> 0 < sl_stop_loss_price (o_attached_tp_sl r)) \<and>
    is_quantity_valid (get_rules (o_symbol r) m) (floor_quantity (get_rules (o_symbol r) m) (o_original_quantity r))"
proof (rule place_body [OF assms])
  fix ty pr
  let ?xr = "get_rules (o_symbol r) m"
  assume ty: "type_fields (o_order_type r) (o_tif r) = Some ty" and pr: "price_fields ?xr r = Some pr"
    and q: "is_quantity_valid ?xr (floor_quantity ?xr (o_original_quantity r))"
    and fs: "fs = account_fields m r @ side_fields r @ ty @
      [(''size'', JString (format_quantity ?xr (floor_quantity ?xr (o_original_quantity r))))] @
      pr @ preset_fields ?xr (o_attached_tp_sl r) @ [(''stpMode'', JString ''cancel_taker'')]"
  have prk: "map_of pr k = None" if "k \<noteq> ''price''" for k
    using pr that by (auto simp: price_fields_def split: if_splits)
  have "map_of fs ''symbol'' = Some (JString (o_symbol r))" by (simp add: fs account_fields_def)
  moreover have "map_of fs ''side'' = Some (JString (if o_position_side r = Long then ''buy'' else ''sell''))"
    "map_of fs ''tradeSide'' = Some (JString (if o_trade_side r = TradeOpen then ''open'' else ''close''))"
    by (simp_all add: fs map_add_def) (simp_all add: side_fields_def)
  moreover have "map_of fs ''orderType'' = Some (JString (if o_order_type r = Market then ''market'' else ''limit''))"
    using ty by (cases "o_order_type r") (auto simp: fs map_add_def)
  moreover have "o_order_type r \<in> {Market, Limit, PostOnly}" using ty by (cases "o_order_type r") auto
  moreover have "map_of fs ''price'' = map_of pr ''price''"
    using map_of_type [OF ty, of "''price''"] by (simp add: fs map_add_def split: option.split)
  then have "map_of fs ''price'' \<noteq> None \<longleftrightarrow> o_order_type r \<noteq> Market" "o_order_type r \<noteq> Market \<longrightarrow> \<not> o_price r \<le> 0"
    using pr by (auto simp: price_fields_def split: if_splits)
  moreover have "map_of fs ''presetStopLossPrice'' = map_of (preset_fields ?xr (o_attached_tp_sl r)) ''presetStopLossPrice''"
    using map_of_type [OF ty, of "''presetStopLossPrice''"] prk by (simp add: fs map_add_def split: option.split)
  then have "map_of fs ''presetStopLossPrice'' \<noteq> None \<longleftrightarrow> 0 < sl_stop_loss_price (o_attached_tp_sl r)"
    by (simp add: preset_fields_def has_sl_def)
  ultimately show ?thesis using q by blast
qed

section \<open>Answers\<close>

text \<open>
  An order counts as submitted exactly when its body could be built, the one request made for it
  succeeded, and the answer has code zero with an order id and no message other than a text.
\<close>

definition order_accepted :: "rest_env \<Rightarrow> rest_response \<Rightarrow> order_id \<Rightarrow> bool" where
  "order_accepted v resp i \<longleftrightarrow> rsp_success resp \<and>
    (\<exists>obj d. re_parse v (rsp_body resp) = Some (JObject obj) \<and> map_of obj ''code'' = Some (JString ''00000'') \<and>
      map_of obj ''data'' = Some (JObject d) \<and> map_of d ''orderId'' = Some (JString i) \<and>
      (map_of obj ''msg'' = None \<or> (\<exists>msg. map_of obj ''msg'' = Some (JString msg))))"

lemma if_string_Some [simp]: "if_string j = Some s \<longleftrightarrow> j = JString s"
  by (cases j) simp_all

lemma if_object_Some [simp]: "if_object j = Some es \<longleftrightarrow> j = JObject es"
  by (cases j) simp_all

lemma reply_code_Some: "reply_code v b = Some (obj, code) \<longleftrightarrow>
    re_parse v b = Some (JObject obj) \<and> map_of obj ''code'' = Some (JString code)"
  by (auto simp: reply_code_def bind_eq_Some_conv split: option.split)

lemma order_reply_accepted: "order_reply_of v resp = OrAccepted i \<longleftrightarrow> order_accepted v resp i"
proof (cases "reply_code v (rsp_body resp)")
  case None
  then have "re_parse v (rsp_body resp) = Some (JObject obj) \<Longrightarrow> map_of obj ''code'' \<noteq> Some (JString c)" for obj c
    using reply_code_Some [of v "rsp_body resp" obj c] by simp
  with None show ?thesis by (auto simp: order_reply_of_def order_accepted_def)
next
  case (Some x)
  obtain obj code where x: "x = (obj, code)" by (cases x)
  have "re_parse v (rsp_body resp) = Some (JObject obj)" "map_of obj ''code'' = Some (JString code)"
    using Some reply_code_Some [of v "rsp_body resp" obj code] x by simp_all
  with Some x show ?thesis
    by (auto simp: order_reply_of_def order_accepted_def bind_eq_Some_conv split: option.splits if_splits)
qed

lemma order_result_success: "sr_success (order_result oid q rep) \<longleftrightarrow> (\<exists>i. rep = OrAccepted i)"
  by (cases rep) simp_all

theorem submitted_exactly_when_accepted:
  fixes v r m
  defines "res \<equiv> fst (exchange_submit_order v r m)" and "body \<equiv> build_place_order_json m r"
  assumes "o_order_type r \<in> {Market, Limit, PostOnly}"
  shows "(sr_success res \<longleftrightarrow> (\<exists>fs i. body = Some fs \<and> order_accepted v (re_post v 0 kPlaceOrderPath fs) i)) \<and>
    (sr_success res \<longrightarrow> (\<exists>fs. body = Some fs \<and> order_accepted v (re_post v 0 kPlaceOrderPath fs) (sr_exchange_order_id res))) \<and>
    sr_order_id res = o_order_id r \<and>
    filter (\<lambda>a. a \<noteq> Jitter) (snd (exchange_submit_order v r m)) =
      (case body of None \<Rightarrow> [] | Some fs \<Rightarrow> [Post kPlaceOrderPath fs])"
proof (cases body)
  case None
  then show ?thesis using assms by (auto simp: exchange_submit_order_def refused_body_def)
next
  case (Some fs)
  let ?rep = "order_reply_of v (re_post v 0 kPlaceOrderPath fs)"
  have j: "build_place_order_json m r = Some fs" using Some by (simp add: body_def)
  have e: "exchange_submit_order v r m =
    (order_result (o_order_id r) (floor_quantity (get_rules (o_symbol r) m) (o_original_quantity r)) ?rep,
     (if should_apply_submission_jitter r then [Jitter] else []) @ [Post kPlaceOrderPath fs])"
    using assms(3) j by (auto simp: exchange_submit_order_def)
  show ?thesis
    unfolding res_def e Some using order_reply_accepted [of v "re_post v 0 kPlaceOrderPath fs"]
    by (cases ?rep) (auto simp del: o_apply)
qed

section \<open>Leverage\<close>

text \<open>The search stops at the first leverage the exchange takes, and asks for every one above it.\<close>

lemma try_leverage_search:
  assumes "mx \<le> lev" "\<And>l i. mx < l \<Longrightarrow> l \<le> lev \<Longrightarrow>
      leverage_reply_of v (re_post v i kSetLeveragePath (leverage_body m s side (int l))) = LevTooHigh"
    and "\<And>i. 0 < mx \<Longrightarrow> leverage_reply_of v (re_post v i kSetLeveragePath (leverage_body m s side (int mx))) = LevAccepted"
  shows "try_leverage v m s side i lev =
    (if 0 < mx then Some (int mx) else None,
     map (\<lambda>l. Post kSetLeveragePath (leverage_body m s side (int l))) (rev [(if 0 < mx then mx else 1)..<Suc lev]))"
  using assms
proof (induction lev arbitrary: i)
  case (Suc lev)
  show ?case
  proof (cases "mx = Suc lev")
    case True
    then show ?thesis using Suc.prems(3) by (simp add: Let_def)
  next
    case False
    then have "mx \<le> lev" "leverage_reply_of v (re_post v i kSetLeveragePath (leverage_body m s side (int (Suc lev)))) = LevTooHigh"
      using Suc.prems(1) Suc.prems(2) [of "Suc lev" i] by linarith+
    then show ?thesis using Suc.IH [of "Suc i"] Suc.prems(2,3) by (auto simp: Let_def)
  qed
qed simp

text \<open>
  C24. On an exchange that takes every leverage up to \<open>mx\<close> and refuses the others as too high, setting a
  leverage for a symbol not asked for before succeeds with the lesser of the two, after one request for
  each leverage from the wanted one down to it, and both caches know the result.  If not even
  1 is taken the call fails.
\<close>

theorem leverage_search_exact:
  fixes v s n side m
  defines "res \<equiv> exchange_set_leverage v s (int n) side m"
  assumes "map_of (sm_max_leverage_cache m) s = None" "map_of (sm_leverage_cache m) (leverage_key s side) = None"
    and "\<And>l i. 0 < l \<Longrightarrow> leverage_reply_of v (re_post v i kSetLeveragePath (leverage_body m s side (int l))) =
      (if l \<le> mx then LevAccepted else LevTooHigh)"
    and "0 < n"
  shows "(fst res \<longleftrightarrow> 0 < mx) \<and> length (fst (snd res)) = n - max 1 (min n mx) + 1 \<and>
    (0 < mx \<longrightarrow> map_of (sm_leverage_cache (snd (snd res))) (leverage_key s side) = Some (int (min n mx)) \<and>
      exchange_set_leverage v s (int n) side (snd (snd res)) = (True, [], snd (snd res)))"
proof -
  have t: "try_leverage v m s side 0 n =
    (if 0 < min n mx then Some (int (min n mx)) else None,
     map (\<lambda>l. Post kSetLeveragePath (leverage_body m s side (int l))) (rev [(if 0 < min n mx then min n mx else 1)..<Suc n]))"
    by (rule try_leverage_search) (use assms(4) in auto)
  have e: "exchange_set_leverage v s (int n) side m =
    (case try_leverage v m s side 0 n of (None, acts) \<Rightarrow> (False, acts, m)
     | (Some actual, acts) \<Rightarrow>
        (True, acts, m\<lparr>sm_leverage_cache := AList.update (leverage_key s side) actual (sm_leverage_cache m),
          sm_max_leverage_cache :=
            (if actual \<noteq> int n then AList.update s actual (sm_max_leverage_cache m) else sm_max_leverage_cache m)\<rparr>))"
    using assms(2,3) by (simp add: exchange_set_leverage_def capped_leverage_def Let_def)
  have "fst res \<longleftrightarrow> 0 < mx" "length (fst (snd res)) = n - max 1 (min n mx) + 1"
    unfolding res_def e t using assms(5) by (auto simp: Suc_diff_le)
  moreover have "map_of (sm_leverage_cache (snd (snd res))) (leverage_key s side) = Some (int (min n mx))"
    "capped_leverage (snd (snd res)) s (int n) = int (min n mx)" if "0 < mx"
    using that assms(2,5) unfolding res_def e t by (auto simp: update_conv' capped_leverage_def min_def)
  ultimately show ?thesis by (simp add: exchange_set_leverage_def Let_def)
qed

definition ex_leverage_env :: rest_env where
  "ex_leverage_env =
    \<lparr>re_post = \<lambda>i path fs. \<lparr>rsp_status_code = 200,
       rsp_body = (if map_of fs ''leverage'' \<in> {Some (JString (to_string_int 1)), Some (JString (to_string_int 2))}
                   then ''taken'' else ''high''),
       rsp_success = True, rsp_error_message = [], rsp_error_code = []\<rparr>,
     re_get = \<lambda>path query. \<lparr>rsp_status_code = 0, rsp_body = [], rsp_success = False, rsp_error_message = [], rsp_error_code = []\<rparr>,
     re_parse = \<lambda>t. Some (JObject [(''code'', JString (if t = ''taken'' then ''00000'' else ''40797''))])\<rparr>"

theorem leverage_search_exact_witness:
  "fst (exchange_set_leverage ex_leverage_env ''BTCUSDT'' 5 ''long''
     (submitter_init \<lparr>fa_product_type = [], fa_margin_coin = [], fa_margin_mode = []\<rparr>))"
proof -
  let ?m = "submitter_init \<lparr>fa_product_type = [], fa_margin_coin = [], fa_margin_mode = []\<rparr>"
  have "leverage_reply_of ex_leverage_env (re_post ex_leverage_env i kSetLeveragePath (leverage_body ?m ''BTCUSDT'' ''long'' (int l))) =
    (if l \<le> 2 then LevAccepted else LevTooHigh)" if "0 < l" for l i
  proof -
    have "int l \<in> {1, 2} \<longleftrightarrow> l \<le> 2" using that by auto
    then show ?thesis
      by (auto simp: leverage_reply_of_def ex_leverage_env_def leverage_body_def reply_code_def Let_def)
  qed
  then show ?thesis
    using leverage_search_exact [of ?m "''BTCUSDT''" "''long''" ex_leverage_env 2 5] by (simp add: submitter_init_def)
qed

section \<open>Where request and answer disagree\<close>

text \<open>
  The size that is sent is rounded twice, the quantity that is reported as submitted once: for 0.58 with
  two decimals the exchange is asked for 0.56 and the bot expects 0.57.
\<close>

theorem sent_size_below_submitted:
  assumes "o_order_type r = Market" "o_original_quantity r = mk (58 / 100)" "xr_quantity_precision (get_rules (o_symbol r) m) = 2"
    and "is_quantity_valid (get_rules (o_symbol r) m) (mk (57 / 100))" "order_accepted v (re_post v 0 kPlaceOrderPath fs) i"
    and "build_place_order_json m r = Some fs"
  shows "map_of fs ''size'' = Some (JString ''0.56'') \<and>
    sr_success (fst (exchange_submit_order v r m)) \<and> sr_submitted_quantity (fst (exchange_submit_order v r m)) = mk (57 / 100)"
proof -
  note two = second_rounding_loses_step [OF assms(3)]
  have "map_of fs ''size'' = Some (JString (format_quantity (get_rules (o_symbol r) m)
      (floor_quantity (get_rules (o_symbol r) m) (o_original_quantity r))))"
    using assms(1) by (rule_tac place_body [OF assms(6)]) (auto simp: price_fields_def map_add_def)
  then have "map_of fs ''size'' = Some (JString ''0.56'')" unfolding assms(2) using two by simp
  moreover have "order_reply_of v (re_post v 0 kPlaceOrderPath fs) = OrAccepted i"
    using assms(5) order_reply_accepted by blast
  moreover have "sr_submitted_quantity (order_result x q rep) = q" for x q rep by (cases rep) simp_all
  ultimately show ?thesis
    using assms(1,6) two unfolding exchange_submit_order_def assms(2) by simp
qed

text \<open>
  A quantity that is not a number passes the limits and is sent as such, and so is the price of a
  limit order.
\<close>

theorem nan_amount_is_sent:
  assumes "o_order_type r = Limit" "o_original_quantity r = NaN" "o_price r = NaN"
  shows "\<exists>fs. build_place_order_json m r = Some fs \<and> map_of fs ''size'' = Some (JString ''nan'') \<and>
    map_of fs ''price'' = Some (JString ''nan'')"
proof -
  have n: "strtod ''nan'' = NaN" by code_simp
  have a: "NaN * x = NaN" "NaN / x = NaN" for x :: double by (cases x; simp)+
  have q: "floor_quantity xr NaN = NaN" "format_quantity xr NaN = ''nan''" "format_price xr NaN = ''nan''"
    "is_quantity_valid xr NaN" for xr
    by (simp_all add: floor_quantity_def round_price_def format_quantity_def format_price_def is_quantity_valid_def
        snprintf_fixed_def a n Let_def)
  show ?thesis
    using assms by (simp add: build_place_order_json_def size_fields_def price_fields_def q map_add_def Let_def)
qed

text \<open>
  An order that the exchange accepted counts as failed when the message of the answer is not a text.
\<close>

theorem accepted_order_reported_failed:
  assumes "build_place_order_json m r = Some fs" "o_order_type r = Market"
    and "rsp_success (re_post v 0 kPlaceOrderPath fs)"
    and "re_parse v (rsp_body (re_post v 0 kPlaceOrderPath fs)) =
      Some (JObject [(''code'', JString ''00000''), (''msg'', JNull), (''data'', JObject [(''orderId'', JString i)])])"
  shows "\<not> sr_success (fst (exchange_submit_order v r m))"
  using assms by (simp add: exchange_submit_order_def order_reply_of_def reply_code_def)

section \<open>Details\<close>

text \<open>A detail that counts as successful has a positive price or quantity; the quantity is never negative or NaN.\<close>

theorem detail_success_is_positive:
  "(fd_success (query_order_fill_detail v oid s m) \<longrightarrow>
     0 < fd_fill_price (query_order_fill_detail v oid s m) \<or> 0 < fd_filled_qty (query_order_fill_detail v oid s m)) \<and>
   0 \<le> fd_filled_qty (query_order_fill_detail v oid s m) \<and> 0 \<le> query_order_fill_price v oid s m"
proof -
  have p: "0 < x" if "first_positive d keys = Some (Some x)" for d keys x
    using that by (induction keys) (auto split: option.splits if_splits)
  have "0 \<le> fd_filled_qty (read_detail d) \<and>
    (fd_success (read_detail d) \<longrightarrow> 0 < fd_fill_price (read_detail d) \<or> 0 < fd_filled_qty (read_detail d))" for d
  proof -
    consider "first_positive d [''baseVolume'', ''filledQty'', ''fillQuantity''] = None"
      | "first_positive d [''baseVolume'', ''filledQty'', ''fillQuantity''] = Some None"
      | x where "first_positive d [''baseVolume'', ''filledQty'', ''fillQuantity''] = Some (Some x)" "0 \<le> x"
      using p double_less_imp_le by (metis option.exhaust)
    then show ?thesis
      by cases (simp_all only: read_detail_def no_detail_def Let_def option.case, simp_all add: zero_double_def split: option.split)
  qed
  moreover have "0 \<le> query_order_fill_price v oid s m"
    by (simp add: query_order_fill_price_def zero_double_def double_less_imp_le split: option.split)
  ultimately show ?thesis
    by (simp add: query_order_fill_detail_def no_detail_def zero_double_def split: option.split)
qed

end
