(* ===== verification/Bracket_Orders.thy ===== *)
theory Bracket_Orders
  imports Bracket_Laws Submitter_Laws
begin

text \<open>
  The bracket manager over the order client: what the exchange is asked for when a fallback stop is
  placed, and that the kind of order it becomes is the one that recovery does not recognise.
\<close>

definition client_env :: "rest_env \<Rightarrow> order_submitter \<Rightarrow> bracket_env \<Rightarrow> bracket_env" where
  "client_env e sm v = v\<lparr>be_submit_plan := \<lambda>r. fst (submit_plan_order e r sm),
    be_cancel_plan := \<lambda>i s pt. fst (cancel_plan_order e i s pt sm),
    be_cancel_order := \<lambda>i s. fst (exchange_cancel_order e i s sm)\<rparr>"

lemma plan_result:
  assumes "build_plan_order_json m r = Some fs"
  shows "sr_success (fst (submit_plan_order e r m)) \<longleftrightarrow> (\<exists>i. order_accepted e (re_post e 0 kPlacePlanOrderPath fs) i)"
    and "order_accepted e (re_post e 0 kPlacePlanOrderPath fs) i \<Longrightarrow> sr_exchange_order_id (fst (submit_plan_order e r m)) = i"
proof -
  note acc = order_reply_accepted [of e "re_post e 0 kPlacePlanOrderPath fs"]
  show "sr_success (fst (submit_plan_order e r m)) \<longleftrightarrow> (\<exists>i. order_accepted e (re_post e 0 kPlacePlanOrderPath fs) i)"
    using assms acc by (simp add: submit_plan_order_def order_result_success)
  show "sr_exchange_order_id (fst (submit_plan_order e r m)) = i" if "order_accepted e (re_post e 0 kPlacePlanOrderPath fs) i"
  proof -
    have "order_reply_of e (re_post e 0 kPlacePlanOrderPath fs) = OrAccepted i" using that acc by blast
    then show ?thesis using assms by (simp add: submit_plan_order_def)
  qed
qed

lemma order_accepted_unique: "order_accepted e resp i \<Longrightarrow> order_accepted e resp j \<Longrightarrow> i = j"
  by (metis order_reply_accepted order_reply.inject(1))

text \<open>
  C22. A fallback order that a bracket places for its stop-loss or its take-profit, whose price is a positive
  finite number and whose size, rounded, is within the limits of the instrument, goes to the order client as one
  request: a market plan order that closes the leg of the bracket, in its rounded size, when the mark price
  reaches the trigger.  If the exchange accepts it with an id, the bracket keeps that id as the order of the
  leg; otherwise it stays as it was, so that the leg is tried again.
\<close>

theorem fallback_order_on_exchange:
  fixes e v sm b loss
  defines "env \<equiv> client_env e sm v" and "xr \<equiv> get_rules (bk_symbol b) sm"
    and "trig \<equiv> if loss then bk_sl_price b else bk_tp_price b"
    and "r \<equiv> standalone_order v b (if loss then LossPlan else ProfitPlan) (if loss then bk_sl_price b else bk_tp_price b)"
  assumes "0 < trig" "isfinite trig" "is_quantity_valid xr (floor_quantity xr (bk_position_size b))"
    and ran: "(if loss then fallback_sl True True env b else fallback_tp True True env b) = (ok, rq, b')"
  shows "\<exists>fs. rq = [SubmitPlan r] \<and> build_plan_order_json sm r = Some fs \<and>
    map_of fs ''symbol'' = Some (JString (bk_symbol b)) \<and>
    map_of fs ''side'' = Some (JString (if bk_position_side b = Long then ''buy'' else ''sell'')) \<and>
    map_of fs ''tradeSide'' = Some (JString ''close'') \<and> map_of fs ''orderType'' = Some (JString ''market'') \<and>
    map_of fs ''size'' = Some (JString (format_quantity xr (floor_quantity xr (bk_position_size b)))) \<and>
    map_of fs ''triggerPrice'' = Some (JString (format_price xr trig)) \<and>
    map_of fs ''triggerType'' = Some (JString ''mark_price'') \<and> map_of fs ''planType'' = Some (JString ''normal_plan'') \<and>
    (ok \<longleftrightarrow> (\<exists>i. i \<noteq> [] \<and> order_accepted e (re_post e 0 kPlacePlanOrderPath fs) i)) \<and>
    (\<forall>i. i \<noteq> [] \<and> order_accepted e (re_post e 0 kPlacePlanOrderPath fs) i \<longrightarrow>
      b' = (if loss then b\<lparr>bk_sl_order_id := i, bk_sl_source := StandalonePlan, bk_sl_plan_type := ''normal_plan''\<rparr>
            else b\<lparr>bk_tp_order_id := i, bk_tp_source := StandalonePlan, bk_tp_plan_type := ''normal_plan''\<rparr>)) \<and>
    (\<not> ok \<longrightarrow> b' = b)"
proof -
  have t: "\<not> trig \<le> 0" using assms(5) by (cases trig) (auto simp: zero_double_def)
  have r': "r = standalone_order v b (if loss then LossPlan else ProfitPlan) trig" by (simp add: r_def trig_def)
  have r: "o_symbol r = bk_symbol b" "o_position_side r = bk_position_side b" "o_trade_side r = TradeClose"
    "o_order_type r = StopMarket" "o_original_quantity r = bk_position_size b"
    "o_plan_params r = \<lparr>pp_trigger_price = trig, pp_trigger_type = MarkPrice, pp_execute_price = 0\<rparr>"
    by (simp_all add: r' standalone_order_def default_order_def)
  let ?fs = "account_fields sm r @ side_fields r @
    [(''triggerPrice'', JString (format_price xr trig)), (''triggerType'', JString ''mark_price''),
     (''size'', JString (format_quantity xr (floor_quantity xr (bk_position_size b)))), (''orderType'', JString ''market''),
     (''planType'', JString ''normal_plan'')]"
  let ?acc = "order_accepted e (re_post e 0 kPlacePlanOrderPath ?fs)"
  have b: "build_plan_order_json sm r = Some ?fs"
    using t assms(7) by (simp add: build_plan_order_json_def size_fields_def execution_fields_def r xr_def Let_def)
  have c: "standalone_order env b kind trig = standalone_order v b kind trig" for kind
    by (simp add: standalone_order_def client_env_def env_def)
  have submit: "be_submit_plan env r = fst (submit_plan_order e r sm)" by (simp add: env_def client_env_def)
  have place: "place_standalone_plan True env b (if loss then LossPlan else ProfitPlan) trig =
      (if \<exists>i. ?acc i then sr_exchange_order_id (fst (submit_plan_order e r sm)) else [], [SubmitPlan r])"
    using assms(5,6) plan_result(1) [OF b, of e] submit
    by (simp add: place_standalone_plan_def c r'[symmetric] Let_def)
  note id = plan_result(2) [OF b, of e]
  have kept: "rq = [SubmitPlan r] \<and> (ok \<longleftrightarrow> (\<exists>i. i \<noteq> [] \<and> ?acc i)) \<and>
    (\<forall>i. i \<noteq> [] \<and> ?acc i \<longrightarrow>
      b' = (if loss then b\<lparr>bk_sl_order_id := i, bk_sl_source := StandalonePlan, bk_sl_plan_type := ''normal_plan''\<rparr>
            else b\<lparr>bk_tp_order_id := i, bk_tp_source := StandalonePlan, bk_tp_plan_type := ''normal_plan''\<rparr>)) \<and>
    (\<not> ok \<longrightarrow> b' = b)"
  proof (cases "\<exists>i. ?acc i")
    case True
    then obtain i where i: "?acc i" "\<And>j. ?acc j \<longleftrightarrow> j = i" using order_accepted_unique by blast
    show ?thesis using ran place id [OF i(1)] i
      by (cases loss) (auto simp: fallback_sl_def fallback_tp_def trig_def split: if_splits)
  next
    case False
    then show ?thesis using ran place
      by (cases loss) (auto simp: fallback_sl_def fallback_tp_def trig_def split: if_splits)
  qed
  have "map_of ?fs ''symbol'' = Some (JString (bk_symbol b))" by (simp add: account_fields_def r)
  moreover have "map_of ?fs ''side'' = Some (JString (if bk_position_side b = Long then ''buy'' else ''sell''))"
    "map_of ?fs ''tradeSide'' = Some (JString ''close'')"
    by (simp_all add: map_add_def) (simp_all add: side_fields_def r)
  ultimately show ?thesis using b kept by (intro exI [of _ ?fs]) (simp add: map_add_def)
qed

theorem fallback_order_on_exchange_witness:
  "\<forall>a e. \<exists>ok b' fs. fallback_sl True True (client_env e (submitter_init a) (ex_bracket_env [] 0)) ex_bracket =
      (ok, [SubmitPlan (standalone_order (ex_bracket_env [] 0) ex_bracket LossPlan (Fin 90))], b') \<and>
    build_plan_order_json (submitter_init a) (standalone_order (ex_bracket_env [] 0) ex_bracket LossPlan (Fin 90)) = Some fs \<and>
    map_of fs ''planType'' = Some (JString ''normal_plan'')"
proof (intro allI)
  fix a e
  have x: "get_rules (bk_symbol ex_bracket) (submitter_init a) = default_symbol_rules" "bk_position_size ex_bracket = Fin 1"
    "bk_sl_price ex_bracket = Fin 90"
    by (simp_all add: get_rules_def submitter_init_def ex_bracket_def)
  have "is_quantity_valid default_symbol_rules (floor_quantity default_symbol_rules (Fin 1))"
    unfolding floor_one by (simp add: is_quantity_valid_def default_symbol_rules_def zero_double_def)
  moreover obtain ok rq b' where
    "fallback_sl True True (client_env e (submitter_init a) (ex_bracket_env [] 0)) ex_bracket = (ok, rq, b')"
    by (metis prod_cases3)
  ultimately show "\<exists>ok b' fs. fallback_sl True True (client_env e (submitter_init a) (ex_bracket_env [] 0)) ex_bracket =
      (ok, [SubmitPlan (standalone_order (ex_bracket_env [] 0) ex_bracket LossPlan (Fin 90))], b') \<and>
    build_plan_order_json (submitter_init a) (standalone_order (ex_bracket_env [] 0) ex_bracket LossPlan (Fin 90)) = Some fs \<and>
    map_of fs ''planType'' = Some (JString ''normal_plan'')"
    using fallback_order_on_exchange [where loss = True and sm = "submitter_init a" and b = ex_bracket and
        v = "ex_bracket_env [] 0" and e = e and ok = ok and rq = rq and b' = b']
    by (auto simp: x zero_double_def)
qed

end
