(* ===== verification/Twap_Executor.thy ===== *)
theory Twap_Executor
  imports Risk_Checks Float_Library
begin

text \<open>
  The executor that cuts a large order into slices (\<^verbatim>\<open>src/src/execution/twap_executor.{hpp,cpp}\<close>) and the
  part of the tick handler that sends them (\<^verbatim>\<open>pipeline/trading_pipeline.cpp\<close>).  The handler's calls of
  the risk engine and the execution engine are arguments: the decision and whether the order was executed.
  A conversion to an integer that the language leaves undefined is a function of \<open>libm\<close>.
\<close>

section \<open>Types\<close>

record twap_config =
  tw_min_slices :: nat
  tw_max_slices :: nat
  tw_base_interval_ms :: int
  tw_spread_threshold_bps :: double
  tw_urgency_aggressive :: double
  tw_participation_rate :: double
  tw_price_improvement_bps :: double

definition default_twap_config :: twap_config where
  "default_twap_config =
    \<lparr>tw_min_slices = 3, tw_max_slices = 10, tw_base_interval_ms = 500, tw_spread_threshold_bps = lit 20,
     tw_urgency_aggressive = lit (8 / 10), tw_participation_rate = lit (1 / 10), tw_price_improvement_bps = lit 2\<rparr>"

record twap_slice =
  sl_slice_index :: nat
  sl_target_qty :: double
  sl_filled_qty :: double
  sl_limit_price :: double
  sl_scheduled_at_ms :: int
  sl_sent :: bool
  sl_filled :: bool
  sl_order_id :: "order_id option"

record twap_order =
  to_twap_id :: string
  to_symbol :: symbol
  to_side :: side
  to_position_side :: position_side
  to_trade_side :: trade_side
  to_signal_intent :: signal_intent
  to_total_qty :: double
  to_filled_qty :: double
  to_avg_fill_price :: double
  to_slices :: "twap_slice list"
  to_next_slice :: nat
  to_started_at_ms :: int
  to_completed :: bool
  to_cancelled :: bool

definition default_twap_order :: twap_order where
  "default_twap_order =
    \<lparr>to_twap_id = [], to_symbol = [], to_side = Buy, to_position_side = Long, to_trade_side = TradeOpen,
     to_signal_intent = LongEntry, to_total_qty = 0, to_filled_qty = 0, to_avg_fill_price = 0, to_slices = [],
     to_next_slice = 0, to_started_at_ms = 0, to_completed = False, to_cancelled = False\<rparr>"

record twap_executor =
  tx_config :: twap_config
  tx_active :: "twap_order option"
  tx_min_notional_usdt :: double
  tx_seq :: int

text \<open>The constructor; \<open>None\<close> is the exception.\<close>

definition twap_executor_init :: "twap_config \<Rightarrow> twap_executor option" where
  "twap_executor_init cfg =
    (if tw_min_slices cfg = 0 then None
     else if tw_max_slices cfg < tw_min_slices cfg then None
     else if tw_urgency_aggressive cfg < 0 \<or> 1 < tw_urgency_aggressive cfg then None
     else Some \<lparr>tx_config = cfg, tx_active = None, tx_min_notional_usdt = 0, tx_seq = 0\<rparr>)"

definition cast_int :: "libm \<Rightarrow> int \<Rightarrow> int \<Rightarrow> double \<Rightarrow> int" where
  "cast_int lm lo hi x =
    (case x of
       Fin r \<Rightarrow>
         let n = (if 0 \<le> r then \<lfloor>r\<rfloor> else \<lceil>r\<rceil>)
         in if lo \<le> n \<and> n \<le> hi then n else lm_undefined_int lm x
     | _ \<Rightarrow> lm_undefined_int lm x)"

definition cast_size :: "libm \<Rightarrow> double \<Rightarrow> nat" where
  "cast_size lm x = nat (cast_int lm 0 (2 ^ 64 - 1) x)"

definition cast_int64 :: "libm \<Rightarrow> double \<Rightarrow> int" where
  "cast_int64 lm x = cast_int lm (- (2 ^ 63)) (2 ^ 63 - 1) x"

section \<open>Whether to slice\<close>

definition effective_notional :: "twap_executor \<Rightarrow> double" where
  "effective_notional x = (if 0 < tx_min_notional_usdt x then tx_min_notional_usdt x else kMinBitgetNotionalUsdt)"

definition should_use_twap :: "twap_executor \<Rightarrow> trade_intent \<Rightarrow> feature_snapshot \<Rightarrow> bool" where
  "should_use_twap x i f =
    (let liquidity = xf_immediate_liquidity (fs_execution_context f); mid = fs_mid_price f;
         order_notional = ti_suggested_quantity i * mid; min_twap = std_max (effective_notional x * lit 2) (lit 500)
     in if liquidity \<le> 0 then False
        else if mid \<le> 0 then False
        else if order_notional < min_twap then False
        else if liquidity * mid * lit 0.05 < order_notional then True
        else if liquidity * tw_participation_rate (tx_config x) < ti_suggested_quantity i then True else False)"

section \<open>The plan\<close>

definition compute_adaptive_interval :: "libm \<Rightarrow> twap_config \<Rightarrow> feature_snapshot \<Rightarrow> int" where
  "compute_adaptive_interval lm cfg f =
    (let mf = fs_microstructure f;
         interval = dint (tw_base_interval_ms cfg) * (1 + mf_spread_bps mf / lit 30);
         interval = (if mf_vpin_valid mf \<and> mf_vpin_toxic mf then interval * lit 0.5 else interval)
     in cast_int64 lm (std_clamp interval (lit 200) (lit 5000)))"

definition clamp_nat :: "nat \<Rightarrow> nat \<Rightarrow> nat \<Rightarrow> nat" where
  "clamp_nat n lo hi = (if n < lo then lo else if hi < n then hi else n)"

definition slices_by_liquidity :: "libm \<Rightarrow> twap_config \<Rightarrow> double \<Rightarrow> double \<Rightarrow> nat" where
  "slices_by_liquidity lm cfg qty liquidity =
    (let mn = tw_min_slices cfg; mx = tw_max_slices cfg;
         n = (if 0 < liquidity
              then cast_size lm (std_clamp (dint (int mn) + qty / liquidity * dint (int (mx - mn)) * lit 10)
                     (dint (int mn)) (dint (int mx)))
              else mn)
     in clamp_nat n mn mx)"

definition slices_by_notional :: "libm \<Rightarrow> twap_executor \<Rightarrow> double \<Rightarrow> double \<Rightarrow> nat \<Rightarrow> nat" where
  "slices_by_notional lm x qty mid n =
    (if 0 < mid then min n (max 1 (cast_size lm (qty * mid / effective_notional x))) else n)"

definition kFrontloadFirstFactor :: double where "kFrontloadFirstFactor = lit 1.2"
definition kFrontloadLastFactor :: double where "kFrontloadLastFactor = lit 0.8"

definition frontload_factor :: "nat \<Rightarrow> nat \<Rightarrow> double" where
  "frontload_factor n i =
    (if 1 < n
     then kFrontloadFirstFactor - (kFrontloadFirstFactor - kFrontloadLastFactor) * dint (int i) / dint (int (n - 1))
     else 1)"

definition raw_quantities :: "double \<Rightarrow> nat \<Rightarrow> double list" where
  "raw_quantities qty n = map (\<lambda>i. qty / dint (int n) * frontload_factor n i) [0..<n]"

definition slice_quantities :: "double \<Rightarrow> nat \<Rightarrow> double list" where
  "slice_quantities qty n =
    (let qs = raw_quantities qty n; s = foldl (+) 0 qs
     in if s < lit (1 / 10 ^ 15) then map (\<lambda>q. qty / dint (int n)) qs else map (\<lambda>q. q * (qty / s)) qs)"

definition new_slice :: "int \<Rightarrow> nat \<Rightarrow> double \<Rightarrow> twap_slice" where
  "new_slice interval i q =
    \<lparr>sl_slice_index = i, sl_target_qty = q, sl_filled_qty = 0, sl_limit_price = 0, sl_scheduled_at_ms = int i * interval,
     sl_sent = False, sl_filled = False, sl_order_id = None\<rparr>"

definition create_twap_plan ::
  "libm \<Rightarrow> trade_intent \<Rightarrow> feature_snapshot \<Rightarrow> double \<Rightarrow> twap_executor \<Rightarrow> twap_order \<times> twap_executor" where
  "create_twap_plan lm i f approved_qty x =
    (if approved_qty \<le> 0 then (default_twap_order, x)
     else
       let n = slices_by_notional lm x approved_qty (fs_mid_price f)
                 (slices_by_liquidity lm (tx_config x) approved_qty (xf_immediate_liquidity (fs_execution_context f)));
           qs = slice_quantities approved_qty n; interval = compute_adaptive_interval lm (tx_config x) f
       in (\<lparr>to_twap_id = ''TWAP-'' @ to_string_int (tx_seq x), to_symbol = ti_symbol i, to_side = ti_side i,
            to_position_side = ti_position_side i, to_trade_side = ti_trade_side i, to_signal_intent = ti_signal_intent i,
            to_total_qty = approved_qty, to_filled_qty = 0, to_avg_fill_price = 0,
            to_slices = map (\<lambda>k. new_slice interval k (qs ! k)) [0..<n], to_next_slice = 0, to_started_at_ms = 0,
            to_completed = False, to_cancelled = False\<rparr>,
           x\<lparr>tx_seq := tx_seq x + 1\<rparr>))"

section \<open>Sending\<close>

definition compute_slice_price :: "twap_config \<Rightarrow> trade_intent \<Rightarrow> feature_snapshot \<Rightarrow> double" where
  "compute_slice_price cfg i f =
    (let mid = fs_mid_price f; improvement = tw_price_improvement_bps cfg * mid / lit 10000;
         aggressive = (tw_spread_threshold_bps cfg < mf_spread_bps (fs_microstructure f) \<or>
                       tw_urgency_aggressive cfg < ti_urgency i)
     in if mid \<le> 0 then 0
        else if ti_side i = Buy then (if aggressive then mid else mid - improvement)
        else if aggressive then mid else mid + improvement)"

definition slice_intent :: "twap_config \<Rightarrow> twap_order \<Rightarrow> feature_snapshot \<Rightarrow> nat \<Rightarrow> trade_intent" where
  "slice_intent cfg t f idx =
    (let i = default_trade_intent\<lparr>ti_strategy_id := ''TWAP'', ti_symbol := to_symbol t, ti_side := to_side t,
               ti_position_side := to_position_side t, ti_trade_side := to_trade_side t, ti_signal_intent := to_signal_intent t,
               ti_suggested_quantity := sl_target_qty (to_slices t ! idx), ti_conviction := 1, ti_urgency := lit 0.7,
               ti_signal_name := ''twap_slice_'' @ to_string_int (int idx),
               ti_correlation_id := to_twap_id t @ ''-'' @ to_string_int (int idx),
               ti_snapshot_mid_price := Some (fs_mid_price f)\<rparr>
     in i\<lparr>ti_limit_price := Some (compute_slice_price cfg i f)\<rparr>)"

text \<open>Times of the slices after \<open>idx\<close>, from its own time on.\<close>

definition reschedule :: "int \<Rightarrow> nat \<Rightarrow> twap_slice list \<Rightarrow> twap_slice list" where
  "reschedule interval idx ss =
    map (\<lambda>k. if k \<le> idx then ss ! k
              else (ss ! k)\<lparr>sl_scheduled_at_ms := sl_scheduled_at_ms (ss ! idx) + int (k - idx) * interval\<rparr>) [0..<length ss]"

definition get_next_slice ::
  "libm \<Rightarrow> twap_config \<Rightarrow> feature_snapshot \<Rightarrow> int \<Rightarrow> twap_order \<Rightarrow> trade_intent option \<times> twap_order" where
  "get_next_slice lm cfg f t_now t =
    (if to_completed t \<or> to_cancelled t then (None, t)
     else
       let t = (if to_started_at_ms t = 0 then t\<lparr>to_started_at_ms := t_now\<rparr> else t); idx = to_next_slice t
       in if length (to_slices t) \<le> idx then (None, t\<lparr>to_completed := True\<rparr>)
          else if t_now - to_started_at_ms t < sl_scheduled_at_ms (to_slices t ! idx) then (None, t)
          else
            let i = slice_intent cfg t f idx; ss = reschedule (compute_adaptive_interval lm cfg f) idx (to_slices t);
                price = (case ti_limit_price i of Some p \<Rightarrow> p | None \<Rightarrow> 0)
            in (Some i, t\<lparr>to_slices := ss[idx := (ss ! idx)\<lparr>sl_limit_price := price, sl_sent := True\<rparr>],
                          to_next_slice := idx + 1\<rparr>))"

definition record_slice_fill :: "nat \<Rightarrow> double \<Rightarrow> double \<Rightarrow> twap_order \<Rightarrow> twap_order" where
  "record_slice_fill k qty price t =
    (if length (to_slices t) \<le> k then t
     else if sl_filled (to_slices t ! k) then t
     else if \<not> isfinite price \<or> price \<le> 0 then t
     else
       let ss = (to_slices t)[k := (to_slices t ! k)\<lparr>sl_filled_qty := qty, sl_filled := True\<rparr>];
           sum_qty = to_filled_qty t + qty;
           avg = (if 0 < sum_qty then (to_avg_fill_price t * to_filled_qty t + price * qty) / sum_qty else to_avg_fill_price t)
       in t\<lparr>to_slices := ss, to_avg_fill_price := avg, to_filled_qty := sum_qty,
            to_completed := (to_completed t \<or> ss \<noteq> [] \<and> list_all sl_filled ss)\<rparr>)"

definition twap_is_complete :: "twap_order \<Rightarrow> bool" where
  "twap_is_complete t \<longleftrightarrow> to_completed t \<or> to_cancelled t"

definition has_active_twap :: "twap_executor \<Rightarrow> bool" where
  "has_active_twap x \<longleftrightarrow> tx_active x \<noteq> None"

definition set_active_twap :: "twap_order \<Rightarrow> twap_executor \<Rightarrow> twap_executor" where
  "set_active_twap t x = x\<lparr>tx_active := Some t\<rparr>"

definition clear_active_twap :: "twap_executor \<Rightarrow> twap_executor" where
  "clear_active_twap x = x\<lparr>tx_active := None\<rparr>"

definition set_twap_min_notional :: "double \<Rightarrow> twap_executor \<Rightarrow> twap_executor" where
  "set_twap_min_notional v x = x\<lparr>tx_min_notional_usdt := v\<rparr>"

section \<open>In the tick handler\<close>

text \<open>
  What the handler does with the slice that is due: the risk decision about it, and whether the
  execution engine executed it.
\<close>

definition after_slice :: "feature_snapshot \<Rightarrow> risk_decision \<Rightarrow> bool \<Rightarrow> trade_intent \<Rightarrow> twap_order \<Rightarrow> twap_executor \<Rightarrow> twap_executor" where
  "after_slice f d executed i t x =
    (if rd_verdict d = Denied then clear_active_twap x
     else
       set_active_twap
         (if executed
          then record_slice_fill (to_next_slice t - 1) (rd_approved_quantity d)
                 (case ti_limit_price i of Some p \<Rightarrow> p | None \<Rightarrow> fs_mid_price f) t
          else t) x)"

text \<open>One tick with an active plan: whether the tick ends here, the slice sent, and the executor.\<close>

definition twap_tick ::
  "libm \<Rightarrow> feature_snapshot \<Rightarrow> int \<Rightarrow> (trade_intent \<Rightarrow> risk_decision) \<Rightarrow> (trade_intent \<Rightarrow> risk_decision \<Rightarrow> bool) \<Rightarrow>
   twap_executor \<Rightarrow> bool \<times> trade_intent option \<times> twap_executor" where
  "twap_tick lm f now_ms decide execute x =
    (case tx_active x of
       None \<Rightarrow> (False, None, x)
     | Some t \<Rightarrow>
        if twap_is_complete t then (False, None, clear_active_twap x)
        else (case get_next_slice lm (tx_config x) f now_ms t of
          (None, t') \<Rightarrow> (True, None, set_active_twap t' x)
        | (Some i, t') \<Rightarrow>
            let d = decide i; i' = i\<lparr>ti_suggested_quantity := rd_approved_quantity d\<rparr>
            in (True, if rd_verdict d = Denied then None else Some i', after_slice f d (execute i' d) i' t' x)))"

definition kMinTwapNotionalPipeline :: double where "kMinTwapNotionalPipeline = lit 500"

text \<open>Whether the handler slices an approved order; \<open>planned\<close> is the recommendation of the cost model.\<close>

definition pipeline_wants_twap :: "bool \<Rightarrow> trade_intent \<Rightarrow> feature_snapshot \<Rightarrow> double \<Rightarrow> twap_executor \<Rightarrow> bool" where
  "pipeline_wants_twap planned i f approved_qty x \<longleftrightarrow>
    (let mid = fs_mid_price f; notional = (if 0 < mid then approved_qty * mid else 0);
         eligible = (0 < mid \<and> kMinTwapNotionalPipeline \<le> notional)
     in eligible \<and> (planned \<or> should_use_twap x (i\<lparr>ti_suggested_quantity := approved_qty\<rparr>) f))"

end
