(* ===== verification/Twap_Laws.thy ===== *)
theory Twap_Laws
  imports Twap_Executor Execution_Engine
begin

text \<open>
  What slicing guarantees: the slices of a plan are sent once each and in order, a plan ends after as
  many due ticks as it has slices and two more, the sizes are a decreasing division of the whole; and
  what it loses.
\<close>

section \<open>One plan\<close>

text \<open>A plan as the handler keeps it: the first \<open>to_next_slice\<close> slices are the sent ones.\<close>

definition plan_ok :: "twap_order \<Rightarrow> bool" where
  "plan_ok t \<longleftrightarrow> to_next_slice t \<le> length (to_slices t) \<and>
    (\<forall>k < length (to_slices t). (sl_sent (to_slices t ! k) \<longleftrightarrow> k < to_next_slice t) \<and>
      (sl_filled (to_slices t ! k) \<longrightarrow> k < to_next_slice t) \<and> sl_slice_index (to_slices t ! k) = k) \<and>
    (to_completed t \<longrightarrow> to_next_slice t = length (to_slices t))"

lemma reschedule_facts [simp]:
  "length (reschedule interval idx ss) = length ss"
  "k < length ss \<Longrightarrow> sl_sent (reschedule interval idx ss ! k) = sl_sent (ss ! k)"
  "k < length ss \<Longrightarrow> sl_filled (reschedule interval idx ss ! k) = sl_filled (ss ! k)"
  "k < length ss \<Longrightarrow> sl_slice_index (reschedule interval idx ss ! k) = sl_slice_index (ss ! k)"
  "k < length ss \<Longrightarrow> sl_target_qty (reschedule interval idx ss ! k) = sl_target_qty (ss ! k)"
  by (simp_all add: reschedule_def)

lemma plan_ok_created: "plan_ok (fst (create_twap_plan lm i f q x))"
  by (simp add: create_twap_plan_def plan_ok_def default_twap_order_def new_slice_def Let_def)

lemma get_next_slice_cases:
  obtains (idle) "get_next_slice lm cfg f t_now t = (None, t)"
  | (started) "get_next_slice lm cfg f t_now t = (None, t\<lparr>to_started_at_ms := t_now\<rparr>)" "\<not> twap_is_complete t"
  | (ended) t' where "t' = t \<or> t' = t\<lparr>to_started_at_ms := t_now\<rparr>" "length (to_slices t) \<le> to_next_slice t"
      "get_next_slice lm cfg f t_now t = (None, t'\<lparr>to_completed := True\<rparr>)" "\<not> twap_is_complete t"
  | (sent) t' ss p where "t' = t \<or> t' = t\<lparr>to_started_at_ms := t_now\<rparr>" "to_next_slice t < length (to_slices t)"
      "ss = reschedule (compute_adaptive_interval lm cfg f) (to_next_slice t) (to_slices t)"
      "get_next_slice lm cfg f t_now t =
        (Some (slice_intent cfg t f (to_next_slice t)),
         t'\<lparr>to_slices := ss[to_next_slice t := (ss ! to_next_slice t)\<lparr>sl_limit_price := p, sl_sent := True\<rparr>],
            to_next_slice := to_next_slice t + 1\<rparr>)" "\<not> twap_is_complete t"
proof -
  define t' where "t' = (if to_started_at_ms t = 0 then t\<lparr>to_started_at_ms := t_now\<rparr> else t)"
  have t': "t' = t \<or> t' = t\<lparr>to_started_at_ms := t_now\<rparr>" "to_slices t' = to_slices t" "to_next_slice t' = to_next_slice t"
    by (simp_all add: t'_def)
  have i: "slice_intent cfg t' f k = slice_intent cfg t f k" for k
    using t' by (auto simp: slice_intent_def Let_def)
  show thesis
  proof (cases "twap_is_complete t")
    case True
    then show ?thesis by (intro idle) (auto simp: get_next_slice_def twap_is_complete_def)
  next
    case False
    note e = get_next_slice_def [of lm cfg f t_now t, folded t'_def twap_is_complete_def, unfolded Let_def]
    show ?thesis
    proof (cases "length (to_slices t) \<le> to_next_slice t")
      case True
      show ?thesis by (rule ended [OF t'(1) True _ False]) (simp add: e False t' True)
    next
      case le: False
      show ?thesis
      proof (cases "t_now - to_started_at_ms t' < sl_scheduled_at_ms (to_slices t ! to_next_slice t)")
        case True
        then have "get_next_slice lm cfg f t_now t = (None, t')" by (simp add: e False t' le)
        then show ?thesis using t'(1) idle started False by auto
      next
        case due: False
        show ?thesis
          by (rule sent [OF t'(1) _ refl _ False]) (use le in \<open>simp_all add: e False t' due i\<close>)
      qed
    qed
  qed
qed

text \<open>What a plan keeps while it runs.\<close>

definition same_plan :: "twap_order \<Rightarrow> twap_order \<Rightarrow> bool" where
  "same_plan t t' \<longleftrightarrow> length (to_slices t') = length (to_slices t) \<and> to_symbol t' = to_symbol t \<and> to_side t' = to_side t \<and>
    to_position_side t' = to_position_side t \<and> to_trade_side t' = to_trade_side t \<and> to_twap_id t' = to_twap_id t \<and>
    (\<forall>k < length (to_slices t). sl_target_qty (to_slices t' ! k) = sl_target_qty (to_slices t ! k))"

lemma same_plan_refl [simp]: "same_plan t t"
  by (simp add: same_plan_def)

lemma same_plan_trans: "same_plan t u \<Longrightarrow> same_plan u w \<Longrightarrow> same_plan t w"
  by (simp add: same_plan_def)

lemma next_slice_none:
  assumes "get_next_slice lm cfg f t_now t = (None, u)" "plan_ok t"
  shows "plan_ok u \<and> same_plan t u \<and> to_next_slice u = to_next_slice t"
proof (cases rule: get_next_slice_cases [of lm cfg f t_now t])
  case (ended t')
  then have "u = t'\<lparr>to_completed := True\<rparr>" using assms(1) by simp
  then show ?thesis using ended(1,2) assms(2) by (auto simp: plan_ok_def same_plan_def)
qed (use assms in \<open>auto simp: plan_ok_def same_plan_def\<close>)

lemma next_slice_some:
  assumes "get_next_slice lm cfg f t_now t = (Some i, u)" "plan_ok t"
  shows "i = slice_intent cfg t f (to_next_slice t) \<and> to_next_slice t < length (to_slices t) \<and>
    plan_ok u \<and> same_plan t u \<and> to_next_slice u = to_next_slice t + 1"
proof (cases rule: get_next_slice_cases [of lm cfg f t_now t])
  case (sent t' ss p)
  let ?n = "to_next_slice t"
  have u: "u = t'\<lparr>to_slices := ss[?n := (ss ! ?n)\<lparr>sl_limit_price := p, sl_sent := True\<rparr>], to_next_slice := ?n + 1\<rparr>"
    "i = slice_intent cfg t f ?n"
    using sent(4) assms(1) by simp_all
  have "\<not> to_completed t" using sent(5) by (simp add: twap_is_complete_def)
  then have "plan_ok u" using u(1) sent(1,2,3) assms(2) by (auto simp: plan_ok_def nth_list_update less_Suc_eq)
  moreover have "same_plan t u" using u(1) sent(1,2,3) by (auto simp: same_plan_def nth_list_update)
  ultimately show ?thesis using u sent(2) by simp
qed (use assms in simp_all)

lemma record_fill_plan:
  assumes "plan_ok t" "k < to_next_slice t"
  shows "plan_ok (record_slice_fill k q p t) \<and> same_plan t (record_slice_fill k q p t) \<and>
    to_next_slice (record_slice_fill k q p t) = to_next_slice t"
proof (cases "length (to_slices t) \<le> k \<or> sl_filled (to_slices t ! k) \<or> \<not> isfinite p \<or> p \<le> 0")
  case True
  then show ?thesis using assms(1) by (auto simp: record_slice_fill_def)
next
  case False
  let ?ss = "(to_slices t)[k := (to_slices t ! k)\<lparr>sl_filled_qty := q, sl_filled := True\<rparr>]"
  define u where "u = record_slice_fill k q p t"
  have u: "to_slices u = ?ss" "to_next_slice u = to_next_slice t" "to_completed u \<longleftrightarrow> to_completed t \<or> ?ss \<noteq> [] \<and> list_all sl_filled ?ss"
    "to_symbol u = to_symbol t" "to_side u = to_side t" "to_position_side u = to_position_side t"
    "to_trade_side u = to_trade_side t" "to_twap_id u = to_twap_id t"
    using False by (simp_all add: u_def record_slice_fill_def Let_def)
  have s: "(sl_sent (?ss ! j) \<longleftrightarrow> j < to_next_slice t) \<and> (sl_filled (?ss ! j) \<longrightarrow> j < to_next_slice t) \<and> sl_slice_index (?ss ! j) = j"
    if "j < length (to_slices t)" for j
    using that assms by (cases "j = k") (auto simp: plan_ok_def)
  have "to_next_slice t = length (to_slices t)" if "?ss \<noteq> []" "list_all sl_filled ?ss"
  proof -
    let ?j = "length (to_slices t) - 1"
    have j: "?j < length (to_slices t)" using that(1) by simp
    then have "sl_filled (?ss ! ?j)" using that(2) by (simp only: list_all_length length_list_update)
    then have "?j < to_next_slice t" using s [OF j] by blast
    moreover have "to_next_slice t \<le> length (to_slices t)" using assms(1) by (simp add: plan_ok_def)
    ultimately show ?thesis by linarith
  qed
  then have "plan_ok u" using s assms(1) unfolding plan_ok_def u length_list_update by blast
  moreover have "same_plan t u"
    using False by (auto simp: same_plan_def u nth_list_update)
  ultimately show ?thesis using u(2) by (simp add: u_def)
qed

section \<open>Ticks\<close>

definition exec_ok :: "twap_executor \<Rightarrow> bool" where
  "exec_ok x \<longleftrightarrow> (case tx_active x of None \<Rightarrow> True | Some t \<Rightarrow> plan_ok t)"

text \<open>What one tick does with a plan that is not complete.\<close>

lemma tick_cases:
  assumes "tx_active x = Some t" "plan_ok t" "\<not> twap_is_complete t"
  obtains (waits) u where "twap_tick lm f t_now dec exe x = (True, None, x\<lparr>tx_active := Some u\<rparr>)"
      "get_next_slice lm (tx_config x) f t_now t = (None, u)" "plan_ok u" "same_plan t u" "to_next_slice u = to_next_slice t"
  | (stops) "twap_tick lm f t_now dec exe x = (True, None, x\<lparr>tx_active := None\<rparr>)"
  | (sends) i u where "twap_tick lm f t_now dec exe x = (True, Some i, x\<lparr>tx_active := Some u\<rparr>)"
      "ti_signal_name i = ''twap_slice_'' @ to_string_int (int (to_next_slice t))" "to_next_slice t < length (to_slices t)"
      "plan_ok u" "same_plan t u" "to_next_slice u = to_next_slice t + 1"
      "ti_symbol i = to_symbol t" "ti_side i = to_side t" "ti_trade_side i = to_trade_side t"
      "ti_correlation_id i = to_twap_id t @ ''-'' @ to_string_int (int (to_next_slice t))"
proof -
  obtain o' u where g: "get_next_slice lm (tx_config x) f t_now t = (o', u)" by fastforce
  show thesis
  proof (cases o')
    case None
    note n = next_slice_none [OF g [unfolded None] assms(2)]
    show ?thesis by (rule waits [of u]) (use n g assms None in \<open>simp_all add: twap_tick_def set_active_twap_def\<close>)
  next
    case (Some i)
    note n = next_slice_some [OF g [unfolded Some] assms(2)]
    let ?d = "dec i" let ?i = "i\<lparr>ti_suggested_quantity := rd_approved_quantity ?d\<rparr>"
    have e: "twap_tick lm f t_now dec exe x =
      (True, if rd_verdict ?d = Denied then None else Some ?i, after_slice f ?d (exe ?i ?d) ?i u x)"
      using assms g Some by (simp add: twap_tick_def Let_def)
    show ?thesis
    proof (cases "rd_verdict ?d = Denied")
      case True
      then show ?thesis by (intro stops) (simp add: e after_slice_def clear_active_twap_def)
    next
      case False
      let ?p = "case ti_limit_price ?i of Some p \<Rightarrow> p | None \<Rightarrow> fs_mid_price f"
      define w where "w = (if exe ?i ?d then record_slice_fill (to_next_slice u - 1) (rd_approved_quantity ?d) ?p u else u)"
      have r: "plan_ok w \<and> same_plan u w \<and> to_next_slice w = to_next_slice u"
        using record_fill_plan [of u "to_next_slice u - 1"] n by (simp add: w_def)
      have i: "ti_signal_name i = ''twap_slice_'' @ to_string_int (int (to_next_slice t))" "ti_symbol i = to_symbol t"
        "ti_side i = to_side t" "ti_trade_side i = to_trade_side t"
        "ti_correlation_id i = to_twap_id t @ ''-'' @ to_string_int (int (to_next_slice t))"
        using n by (simp_all add: slice_intent_def Let_def)
      show ?thesis
        by (rule sends [of ?i w])
          (use n r i False same_plan_trans [of t u w] in \<open>simp_all add: e after_slice_def w_def set_active_twap_def\<close>)
    qed
  qed
qed

inductive twap_step :: "twap_executor \<Rightarrow> twap_executor \<Rightarrow> bool" where
  planned: "\<not> has_active_twap x \<Longrightarrow>
    twap_step x (set_active_twap (fst (create_twap_plan lm i f q x)) (snd (create_twap_plan lm i f q x)))"
| ticked: "twap_step x (snd (snd (twap_tick lm f t_now dec exe x)))"
| limited: "twap_step x (set_twap_min_notional v x)"

lemma exec_ok_tick: "exec_ok x \<Longrightarrow> exec_ok (snd (snd (twap_tick lm f t_now dec exe x)))"
proof (cases "tx_active x")
  case (Some t)
  assume "exec_ok x"
  then have t: "plan_ok t" using Some by (simp add: exec_ok_def)
  show ?thesis
  proof (cases "twap_is_complete t")
    case True
    then show ?thesis using Some by (simp add: twap_tick_def exec_ok_def clear_active_twap_def)
  next
    case False
    show ?thesis
      by (rule tick_cases [OF Some t False, of lm f t_now dec exe]) (simp_all add: exec_ok_def)
  qed
qed (simp add: twap_tick_def)

interpretation tw: inv_system "\<lambda>x. \<exists>cfg. twap_executor_init cfg = Some x" twap_step exec_ok
proof unfold_locales
  fix x assume "\<exists>cfg. twap_executor_init cfg = Some x"
  then show "exec_ok x" by (auto simp: twap_executor_init_def exec_ok_def split: if_splits)
next
  fix x y assume "exec_ok x" "twap_step x y"
  from this(2,1) show "exec_ok y"
  proof cases
    case (planned lm i f q)
    then show ?thesis by (simp add: exec_ok_def set_active_twap_def plan_ok_created)
  next
    case (limited v)
    then show ?thesis using \<open>exec_ok x\<close> by (simp add: exec_ok_def set_twap_min_notional_def)
  qed (simp add: exec_ok_tick)
qed

text \<open>A run of ticks: the slices sent, and the executor after it.\<close>

record tick_input =
  ti_features :: feature_snapshot
  ti_now_ms :: int
  ti_decide :: "trade_intent \<Rightarrow> risk_decision"
  ti_execute :: "trade_intent \<Rightarrow> risk_decision \<Rightarrow> bool"

definition tick_with :: "libm \<Rightarrow> tick_input \<Rightarrow> twap_executor \<Rightarrow> bool \<times> trade_intent option \<times> twap_executor" where
  "tick_with lm e x = twap_tick lm (ti_features e) (ti_now_ms e) (ti_decide e) (ti_execute e) x"

fun twap_run :: "libm \<Rightarrow> tick_input list \<Rightarrow> twap_executor \<Rightarrow> trade_intent list \<times> twap_executor" where
  "twap_run lm [] x = ([], x)"
| "twap_run lm (e # es) x =
    (let (b, s, y) = tick_with lm e x; (ss, z) = twap_run lm es y
     in (case s of None \<Rightarrow> ss | Some i \<Rightarrow> i # ss, z))"

lemma run_inactive: "tx_active x = None \<Longrightarrow> twap_run lm es x = ([], x)"
  by (induction es) (simp_all add: tick_with_def twap_tick_def)

lemma run_sends:
  assumes "tx_active x = Some t" "plan_ok t"
  shows "\<exists>m \<le> length (to_slices t). to_next_slice t \<le> m \<and>
    map ti_correlation_id (fst (twap_run lm es x)) =
      map (\<lambda>k. to_twap_id t @ ''-'' @ to_string_int (int k)) [to_next_slice t..<m] \<and>
    (\<forall>i \<in> set (fst (twap_run lm es x)). ti_symbol i = to_symbol t \<and> ti_side i = to_side t \<and> ti_trade_side i = to_trade_side t)"
  using assms
proof (induction es arbitrary: x t)
  case Nil
  then show ?case by (intro exI [of _ "to_next_slice t"]) (simp add: plan_ok_def)
next
  case (Cons e es)
  have n: "to_next_slice t \<le> length (to_slices t)" using Cons.prems(2) by (simp add: plan_ok_def)
  note tick = tick_with_def [of lm e x]
  show ?case
  proof (cases "twap_is_complete t")
    case True
    then have "tick_with lm e x = (False, None, clear_active_twap x)" using Cons.prems(1) by (simp add: tick twap_tick_def)
    moreover have "tx_active (clear_active_twap x) = None" by (simp add: clear_active_twap_def)
    ultimately show ?thesis using n by (intro exI [of _ "to_next_slice t"]) (simp add: run_inactive)
  next
    case False
    show ?thesis
    proof (rule tick_cases [OF Cons.prems False, of lm "ti_features e" "ti_now_ms e" "ti_decide e" "ti_execute e"])
      fix u assume u: "twap_tick lm (ti_features e) (ti_now_ms e) (ti_decide e) (ti_execute e) x = (True, None, x\<lparr>tx_active := Some u\<rparr>)"
        "plan_ok u" "same_plan t u" "to_next_slice u = to_next_slice t"
      then show ?thesis
        using Cons.IH [of "x\<lparr>tx_active := Some u\<rparr>" u] by (simp add: tick same_plan_def case_prod_unfold Let_def)
    next
      assume "twap_tick lm (ti_features e) (ti_now_ms e) (ti_decide e) (ti_execute e) x = (True, None, x\<lparr>tx_active := None\<rparr>)"
      then show ?thesis using n by (intro exI [of _ "to_next_slice t"]) (simp add: tick run_inactive)
    next
      fix i u
      assume u: "twap_tick lm (ti_features e) (ti_now_ms e) (ti_decide e) (ti_execute e) x = (True, Some i, x\<lparr>tx_active := Some u\<rparr>)"
        "plan_ok u" "same_plan t u" "to_next_slice u = to_next_slice t + 1" "to_next_slice t < length (to_slices t)"
        and i: "ti_symbol i = to_symbol t" "ti_side i = to_side t" "ti_trade_side i = to_trade_side t"
          "ti_correlation_id i = to_twap_id t @ ''-'' @ to_string_int (int (to_next_slice t))"
      obtain m where m: "m \<le> length (to_slices t)" "to_next_slice t + 1 \<le> m"
        "map ti_correlation_id (fst (twap_run lm es (x\<lparr>tx_active := Some u\<rparr>))) =
          map (\<lambda>k. to_twap_id t @ ''-'' @ to_string_int (int k)) [to_next_slice t + 1..<m]"
        "\<forall>i \<in> set (fst (twap_run lm es (x\<lparr>tx_active := Some u\<rparr>))).
          ti_symbol i = to_symbol t \<and> ti_side i = to_side t \<and> ti_trade_side i = to_trade_side t"
        using Cons.IH [of "x\<lparr>tx_active := Some u\<rparr>" u] u by (auto simp: same_plan_def)
      have "[to_next_slice t..<m] = to_next_slice t # [to_next_slice t + 1..<m]" using m(2) by (simp add: upt_conv_Cons)
      then show ?thesis using m i u(1) by (intro exI [of _ m]) (simp add: tick case_prod_unfold Let_def)
    qed
  qed
qed

text \<open>
  C25. Whatever the market, the risk decisions and the results of the orders, a plan sends its slices at most
  once each and in order: the correlation ids of what is sent are those of an initial part of the slices, and
  every slice trades the symbol and direction of the plan.
\<close>

theorem slices_sent_once_in_order:
  fixes lm i f q x es
  defines "t \<equiv> fst (create_twap_plan lm i f q x)" and "sent \<equiv> fst (twap_run lm es (set_active_twap (fst (create_twap_plan lm i f q x)) x))"
  shows "\<exists>m \<le> length (to_slices t).
    map ti_correlation_id sent = map (\<lambda>k. to_twap_id t @ ''-'' @ to_string_int (int k)) [0..<m] \<and>
    distinct (map ti_correlation_id sent) \<and>
    (\<forall>s \<in> set sent. ti_symbol s = to_symbol t \<and> ti_side s = to_side t \<and> ti_trade_side s = to_trade_side t)"
proof -
  have n: "to_next_slice t = 0" by (simp add: t_def create_twap_plan_def default_twap_order_def Let_def)
  have "tx_active (set_active_twap t x) = Some t" by (simp add: set_active_twap_def)
  moreover have "plan_ok t" unfolding t_def by (rule plan_ok_created)
  ultimately obtain m where "m \<le> length (to_slices t)" and
    m: "map ti_correlation_id sent = map (\<lambda>k. to_twap_id t @ ''-'' @ to_string_int (int k)) [0..<m]"
    "\<forall>s \<in> set sent. ti_symbol s = to_symbol t \<and> ti_side s = to_side t \<and> ti_trade_side s = to_trade_side t"
    using run_sends [of "set_active_twap t x" t lm es] unfolding sent_def t_def [symmetric] n by blast
  moreover have "distinct (map (\<lambda>k. to_twap_id t @ ''-'' @ to_string_int (int k)) [0..<m])"
    by (auto simp: distinct_map inj_on_def)
  ultimately show ?thesis by metis
qed

section \<open>A plan ends\<close>

text \<open>
  The next slice is due within five seconds of the last tick.
\<close>

definition punctual :: "twap_order \<Rightarrow> int \<Rightarrow> bool" where
  "punctual t last_ms \<longleftrightarrow>
    (if to_started_at_ms t = 0 then to_next_slice t = 0 \<and> (to_slices t \<noteq> [] \<longrightarrow> sl_scheduled_at_ms (to_slices t ! 0) = 0)
     else to_next_slice t < length (to_slices t) \<longrightarrow>
       sl_scheduled_at_ms (to_slices t ! to_next_slice t) \<le> last_ms - to_started_at_ms t + 5000)"

lemma due_slice:
  assumes "\<not> twap_is_complete t" "to_next_slice t < length (to_slices t)" "punctual t last_ms" "last_ms + 5000 \<le> t_now" "0 < last_ms"
    and "compute_adaptive_interval lm cfg f \<le> 5000"
  obtains i u where "get_next_slice lm cfg f t_now t = (Some i, u)" "punctual u t_now" "to_started_at_ms u \<noteq> 0"
proof -
  let ?n = "to_next_slice t"
  define t' where "t' = (if to_started_at_ms t = 0 then t\<lparr>to_started_at_ms := t_now\<rparr> else t)"
  have t': "to_slices t' = to_slices t" "to_next_slice t' = ?n" "to_started_at_ms t' \<noteq> 0"
    using assms(4,5) by (auto simp: t'_def)
  have due: "sl_scheduled_at_ms (to_slices t ! ?n) \<le> t_now - to_started_at_ms t'"
    using assms(2,3,4) by (auto simp: punctual_def t'_def split: if_splits)
  obtain i p where g: "get_next_slice lm cfg f t_now t = (Some i,
      t'\<lparr>to_slices := (reschedule (compute_adaptive_interval lm cfg f) ?n (to_slices t))
            [?n := (reschedule (compute_adaptive_interval lm cfg f) ?n (to_slices t) ! ?n)\<lparr>sl_limit_price := p, sl_sent := True\<rparr>],
         to_next_slice := ?n + 1\<rparr>)" (is "_ = (_, ?u)")
    using assms(1,2) due t' unfolding get_next_slice_def twap_is_complete_def t'_def [symmetric] by (simp add: Let_def)
  have "sl_scheduled_at_ms (to_slices ?u ! (?n + 1)) = sl_scheduled_at_ms (to_slices t ! ?n) + compute_adaptive_interval lm cfg f"
    if "?n + 1 < length (to_slices t)"
    using that by (simp add: reschedule_def)
  then have "punctual ?u t_now" using due t'(3) assms(6) by (auto simp: punctual_def)
  then show thesis using that [OF g] t'(3) by simp
qed

lemma record_fill_times [simp]:
  "to_started_at_ms (record_slice_fill k q p t) = to_started_at_ms t"
  "to_next_slice (record_slice_fill k q p t) = to_next_slice t"
  "length (to_slices (record_slice_fill k q p t)) = length (to_slices t)"
  "j < length (to_slices t) \<Longrightarrow> sl_scheduled_at_ms (to_slices (record_slice_fill k q p t) ! j) = sl_scheduled_at_ms (to_slices t ! j)"
  by (simp_all add: record_slice_fill_def Let_def nth_list_update)

lemma punctual_fill: "punctual t n \<Longrightarrow> to_started_at_ms t \<noteq> 0 \<Longrightarrow> punctual (record_slice_fill k q p t) n"
  by (simp add: punctual_def)

definition ticks_left :: "twap_executor \<Rightarrow> nat" where
  "ticks_left x = (case tx_active x of None \<Rightarrow> 0
     | Some t \<Rightarrow> if twap_is_complete t then 1 else 2 + (length (to_slices t) - to_next_slice t))"

definition on_time :: "twap_executor \<Rightarrow> int \<Rightarrow> bool" where
  "on_time x last_ms \<longleftrightarrow> 0 < last_ms \<and> (case tx_active x of None \<Rightarrow> True | Some t \<Rightarrow> plan_ok t \<and> (twap_is_complete t \<or> punctual t last_ms))"

lemma tick_progress:
  fixes dec :: "trade_intent \<Rightarrow> risk_decision" and exe :: "trade_intent \<Rightarrow> risk_decision \<Rightarrow> bool"
  assumes "on_time x last_ms" "last_ms + 5000 \<le> t_now" "compute_adaptive_interval lm (tx_config x) f \<le> 5000"
  defines "y \<equiv> snd (snd (twap_tick lm f t_now dec exe x))"
  shows "on_time y t_now \<and> tx_config y = tx_config x \<and> (ticks_left y < ticks_left x \<or> ticks_left y = 0)"
proof (cases "tx_active x")
  case None
  then show ?thesis using assms(1,2) by (simp add: y_def twap_tick_def on_time_def ticks_left_def)
next
  case (Some t)
  then have t: "plan_ok t" "twap_is_complete t \<or> punctual t last_ms" "0 < last_ms" "0 < t_now"
    using assms(1,2) by (simp_all add: on_time_def)
  show ?thesis
  proof (cases "twap_is_complete t")
    case True
    then show ?thesis using Some t(4)
      by (simp add: y_def twap_tick_def on_time_def ticks_left_def clear_active_twap_def)
  next
    case False
    show ?thesis
    proof (cases "to_next_slice t < length (to_slices t)")
      case le: False
      obtain u where "get_next_slice lm (tx_config x) f t_now t = (None, u)" "to_completed u" "plan_ok u"
      proof -
        define t' where "t' = (if to_started_at_ms t = 0 then t\<lparr>to_started_at_ms := t_now\<rparr> else t)"
        have "to_slices t' = to_slices t" "to_next_slice t' = to_next_slice t" by (simp_all add: t'_def)
        then have g: "get_next_slice lm (tx_config x) f t_now t = (None, t'\<lparr>to_completed := True\<rparr>)"
          using False le unfolding get_next_slice_def twap_is_complete_def t'_def [symmetric] by (simp add: Let_def)
        then show ?thesis using that next_slice_none [OF g t(1)] by simp
      qed
      then show ?thesis
        using Some False t(4)
        by (simp add: y_def twap_tick_def on_time_def ticks_left_def set_active_twap_def twap_is_complete_def)
    next
      case True
      have p: "punctual t last_ms" using False t(2) by simp
      obtain i u where g: "get_next_slice lm (tx_config x) f t_now t = (Some i, u)" "punctual u t_now" "to_started_at_ms u \<noteq> 0"
        by (rule due_slice [OF False True p assms(2) t(3) assms(3)])
      note n = next_slice_some [OF g(1) t(1)]
      let ?d = "dec i" let ?i = "i\<lparr>ti_suggested_quantity := rd_approved_quantity ?d\<rparr>"
      have e: "y = after_slice f ?d (exe ?i ?d) ?i u x" using Some False g(1) by (simp add: y_def twap_tick_def Let_def)
      show ?thesis
      proof (cases "rd_verdict ?d = Denied")
        case True
        then show ?thesis using t(4) by (simp add: e after_slice_def clear_active_twap_def on_time_def ticks_left_def)
      next
        case ok: False
        let ?p = "case ti_limit_price ?i of Some p \<Rightarrow> p | None \<Rightarrow> fs_mid_price f"
        define w where "w = (if exe ?i ?d then record_slice_fill (to_next_slice u - 1) (rd_approved_quantity ?d) ?p u else u)"
        have y: "y = x\<lparr>tx_active := Some w\<rparr>" using ok by (simp add: e after_slice_def w_def set_active_twap_def)
        have "plan_ok w" "punctual w t_now" "to_next_slice w = to_next_slice t + 1" "length (to_slices w) = length (to_slices t)"
          using record_fill_plan [of u "to_next_slice u - 1"] punctual_fill [OF g(2,3)] g(2) n
          by (simp_all add: w_def same_plan_def)
        then show ?thesis using True t(4) Some False by (simp add: y on_time_def ticks_left_def) linarith
      qed
    qed
  qed
qed

text \<open>Ticks at least five seconds apart, on markets for which the waiting time stays in its range.\<close>

fun spaced :: "libm \<Rightarrow> twap_config \<Rightarrow> int \<Rightarrow> tick_input list \<Rightarrow> bool" where
  "spaced lm cfg last_ms [] \<longleftrightarrow> True"
| "spaced lm cfg last_ms (e # es) \<longleftrightarrow>
    last_ms + 5000 \<le> ti_now_ms e \<and> compute_adaptive_interval lm cfg (ti_features e) \<le> 5000 \<and> spaced lm cfg (ti_now_ms e) es"

lemma run_ends:
  assumes "on_time x last_ms" "spaced lm (tx_config x) last_ms es" "ticks_left x \<le> length es"
  shows "tx_active (snd (twap_run lm es x)) = None"
  using assms
proof (induction es arbitrary: x last_ms)
  case Nil
  then show ?case by (auto simp: ticks_left_def split: option.splits if_splits)
next
  case (Cons e es)
  let ?y = "snd (snd (tick_with lm e x))"
  have "on_time ?y (ti_now_ms e) \<and> tx_config ?y = tx_config x \<and> (ticks_left ?y < ticks_left x \<or> ticks_left ?y = 0)"
    unfolding tick_with_def by (rule tick_progress [OF Cons.prems(1)]) (use Cons.prems(2) in simp_all)
  moreover from this have "ticks_left ?y \<le> length es" using Cons.prems(3) by auto
  ultimately have "tx_active (snd (twap_run lm es ?y)) = None"
    using Cons.IH [of ?y "ti_now_ms e"] Cons.prems(2) by simp
  then show ?case by (simp add: case_prod_unfold Let_def)
qed

lemma interval_bound:
  assumes "mf_spread_bps (fs_microstructure f) \<noteq> NaN" "0 < tw_base_interval_ms cfg" "tw_base_interval_ms cfg < 2 ^ 53"
  shows "200 \<le> compute_adaptive_interval lm cfg f \<and> compute_adaptive_interval lm cfg f \<le> 5000"
proof -
  have l: "lit 30 = Fin 30" "lit 0.5 = Fin (1 / 2)" "lit 200 = Fin 200" "lit 5000 = Fin 5000" using mk_half by simp_all
  let ?s = "mf_spread_bps (fs_microstructure f)"
  have b: "dint (tw_base_interval_ms cfg) = Fin (of_int (tw_base_interval_ms cfg))" using assms(2,3) by (intro mk_of_int) simp
  have "?s / lit 30 \<noteq> NaN" using assms(1) by (cases ?s) (simp_all add: l)
  then have a: "1 + ?s / lit 30 \<noteq> NaN" by (cases "?s / lit 30") (simp_all add: one_double_def)
  have m: "dint (tw_base_interval_ms cfg) * (1 + ?s / lit 30) \<noteq> NaN"
    using a assms(2) unfolding b by (cases "1 + ?s / lit 30") simp_all
  then have "dint (tw_base_interval_ms cfg) * (1 + ?s / lit 30) * lit 0.5 \<noteq> NaN"
    unfolding l by (cases "dint (tw_base_interval_ms cfg) * (1 + ?s / Fin 30)") (simp_all add: l)
  then have "ranged 200 5000 (std_clamp (if c then dint (tw_base_interval_ms cfg) * (1 + ?s / lit 30) * lit 0.5
      else dint (tw_base_interval_ms cfg) * (1 + ?s / lit 30)) (lit 200) (lit 5000))" for c
    using m by (intro ranged_clamp) (simp_all add: l)
  then obtain r where "compute_adaptive_interval lm cfg f = cast_int64 lm (Fin r)" "200 \<le> r" "r \<le> 5000"
    unfolding compute_adaptive_interval_def Let_def by (metis rangedE)
  then show ?thesis by (simp add: cast_int64_def cast_int_def Let_def floor_le_iff le_floor_iff)
qed

fun spaced_ticks :: "int \<Rightarrow> tick_input list \<Rightarrow> bool" where
  "spaced_ticks last_ms [] \<longleftrightarrow> True"
| "spaced_ticks last_ms (e # es) \<longleftrightarrow>
    last_ms + 5000 \<le> ti_now_ms e \<and> mf_spread_bps (fs_microstructure (ti_features e)) \<noteq> NaN \<and> spaced_ticks (ti_now_ms e) es"

text \<open>
  C26. A plan does not stay active for ever: with ticks at least five seconds apart and spreads that are
  numbers, it is gone after two ticks more than it has slices, whatever was decided and executed.
\<close>

theorem plan_ends:
  assumes "0 < last_ms" "tx_config x = cfg" "0 < tw_base_interval_ms cfg" "tw_base_interval_ms cfg < 2 ^ 53"
    and "spaced_ticks last_ms es"
    and "length (to_slices (fst (create_twap_plan lm i f q x))) + 2 \<le> length es"
  shows "\<not> has_active_twap (snd (twap_run lm es (set_active_twap (fst (create_twap_plan lm i f q x)) x)))"
proof -
  let ?t = "fst (create_twap_plan lm i f q x)" let ?x = "set_active_twap ?t x"
  have "punctual ?t last_ms"
    by (simp add: create_twap_plan_def default_twap_order_def punctual_def new_slice_def Let_def)
  then have "on_time ?x last_ms" using assms(1) plan_ok_created by (simp add: on_time_def set_active_twap_def)
  moreover have "spaced lm cfg l es" if "spaced_ticks l es" for l
    using that interval_bound [OF _ assms(3,4)] by (induction es arbitrary: l) simp_all
  then have "spaced lm (tx_config ?x) last_ms es" using assms(2,5) by (simp add: set_active_twap_def)
  moreover have "ticks_left ?x \<le> length es" using assms(6) by (auto simp: ticks_left_def set_active_twap_def)
  ultimately show ?thesis using run_ends by (simp add: has_active_twap_def)
qed

section \<open>Where slicing loses something\<close>

text \<open>
  A slice carries no stop-loss and no take-profit, whatever the intent had: the order that the
  execution engine makes of it has no orders attached.
\<close>

theorem sliced_entry_has_no_stop:
  assumes "get_next_slice lm cfg f t_now t = (Some s, u)"
  shows "ti_stop_loss_price s = None \<and> ti_take_profit_price s = None \<and>
    \<not> has_sl (o_attached_tp_sl (fst (create_order_record c (s\<lparr>ti_suggested_quantity := q\<rparr>) d pl en)))"
proof -
  have "s = slice_intent cfg t f (to_next_slice t)"
    by (cases rule: get_next_slice_cases [of lm cfg f t_now t]) (use assms in simp_all)
  then have s: "ti_stop_loss_price s = None" "ti_take_profit_price s = None"
    by (simp_all add: slice_intent_def default_trade_intent_def Let_def)
  then show ?thesis
    by (simp add: create_order_record_def attach_brackets_def usable_price_def has_sl_def default_order_def Let_def
        case_prod_unfold zero_double_def)
qed

text \<open>
  A slice whose execution failed is not sent again: the plan goes on with the next one, and what was
  filled is what it was before.
\<close>

theorem failed_slice_is_dropped:
  assumes "tx_active x = Some t" "\<not> twap_is_complete t" "get_next_slice lm (tx_config x) f t_now t = (Some s, u)"
    and "rd_verdict (dec s) \<noteq> Denied" "plan_ok t" "\<And>i d. \<not> exe i d"
  shows "\<exists>w. tx_active (snd (snd (twap_tick lm f t_now dec exe x))) = Some w \<and> to_next_slice w = to_next_slice t + 1 \<and>
    to_filled_qty w = to_filled_qty u"
  using assms next_slice_some [OF assms(3,5)] by (simp add: twap_tick_def after_slice_def set_active_twap_def Let_def)

text \<open>A filled quantity that is not a number is taken, and makes the totals of the plan none either.\<close>

theorem nan_fill_poisons_plan:
  assumes "k < length (to_slices t)" "\<not> sl_filled (to_slices t ! k)" "isfinite p" "\<not> p \<le> 0"
  shows "to_filled_qty (record_slice_fill k NaN p t) = NaN"
  using assms by (cases "to_filled_qty t") (simp_all add: record_slice_fill_def Let_def)

text \<open>A spread above the threshold makes the price of a slice aggressive, where the configuration says passive.\<close>

theorem wide_spread_is_aggressive:
  assumes "tw_spread_threshold_bps cfg < mf_spread_bps (fs_microstructure f)"
  shows "compute_slice_price cfg i f = (if fs_mid_price f \<le> 0 then 0 else fs_mid_price f)"
  using assms by (simp add: compute_slice_price_def Let_def)

section \<open>Sizes\<close>

theorem slice_count_bounds:
  assumes "tw_min_slices cfg \<le> tw_max_slices cfg" "1 \<le> tw_min_slices cfg" "tx_config x = cfg" "\<not> q \<le> 0"
  shows "1 \<le> length (to_slices (fst (create_twap_plan lm i f q x))) \<and>
    length (to_slices (fst (create_twap_plan lm i f q x))) \<le> tw_max_slices cfg"
  using assms by (auto simp: create_twap_plan_def slices_by_notional_def slices_by_liquidity_def clamp_nat_def Let_def)

lemma frontload_facts:
  assumes "n \<le> 2 ^ 20"
  shows "i < n \<Longrightarrow> ranged (1 / 2) (5 / 4) (frontload_factor n i)"
    and "i \<le> j \<Longrightarrow> j < n \<Longrightarrow> frontload_factor n j \<le> frontload_factor n i"
proof -
  have e: "exact (5 / 4)" "exact (1 / 4)" using exact_grid [of "5 * 2 ^ 18"] exact_grid [of "2 ^ 18"] by simp_all
  obtain a where a: "kFrontloadFirstFactor = Fin a" "1 \<le> a" "a \<le> 5 / 4"
    using ranged_mk [of 1 "5 / 4" "1.2"] e by (auto simp: kFrontloadFirstFactor_def elim: rangedE)
  have e2: "exact (3 / 4)" using exact_grid [of "3 * 2 ^ 18"] by simp
  obtain b where b: "kFrontloadLastFactor = Fin b" "3 / 4 \<le> b" "b \<le> 1"
    using ranged_mk [of "3 / 4" 1 "0.8"] e2 by (auto simp: kFrontloadLastFactor_def elim: rangedE)
  obtain d where d: "kFrontloadFirstFactor - kFrontloadLastFactor = Fin d" "0 \<le> d" "d \<le> 1 / 2"
    using ranged_diff [of 1 "5 / 4" "Fin a" "3 / 4" 1 "Fin b"] a b unfolding a(1) b(1) by (auto elim!: rangedE)
  have part: "\<exists>x y. Fin d * dint (int i) = Fin x \<and> 0 \<le> x \<and> x \<le> real (n - 1) / 2 \<and>
      Fin x / dint (int (n - 1)) = Fin y \<and> 0 \<le> y \<and> y \<le> 1 / 2" if "i < n" "1 < n" for i
  proof -
    have i: "dint (int i) = Fin (real i)" "dint (int (n - 1)) = Fin (real (n - 1))"
      using that assms mk_of_int [of "int i"] mk_of_int [of "int (n - 1)"] by simp_all
    have "d * real i \<le> 1 / 2 * real (n - 1)" using d that(1) by (intro mult_mono) simp_all
    moreover have "exact (real (n - 1) / 2)" using exact_grid [of "int (n - 1) * 2 ^ 19"] assms by simp
    ultimately have "ranged 0 (real (n - 1) / 2) (mk (d * real i))" using d by (intro ranged_mk) simp_all
    then obtain x where x: "mk (d * real i) = Fin x" "0 \<le> x" "x \<le> real (n - 1) / 2" by (auto elim: rangedE)
    have "x / real (n - 1) \<le> 1 / 2" using x(3) that(2) by (simp add: field_simps)
    then have "ranged 0 (1 / 2) (mk (x / real (n - 1)))" using x(2) by (intro ranged_mk) simp_all
    then obtain y where y: "mk (x / real (n - 1)) = Fin y" "0 \<le> y" "y \<le> 1 / 2" by (auto elim: rangedE)
    have "real (n - 1) \<noteq> 0" using that(2) by simp
    then have "Fin d * Fin (real i) = Fin x" "Fin x / Fin (real (n - 1)) = Fin y" using x(1) y(1) by (simp_all only: times_double.simps divide_double.simps if_False)
    then show ?thesis using x(2,3) y(2,3) unfolding i by blast
  qed
  have ff: "frontload_factor n k = Fin a - Fin d * dint (int k) / dint (int (n - 1))" if "1 < n" for k
    using that unfolding frontload_factor_def d(1) unfolding a(1) by (simp only: if_True)
  show r: "ranged (1 / 2) (5 / 4) (frontload_factor n i)" if ir: "i < n" for i
  proof (cases "1 < n")
    case True
    obtain x y where "Fin d * dint (int i) = Fin x" "Fin x / dint (int (n - 1)) = Fin y" "0 \<le> y" "y \<le> 1 / 2"
      using part [OF ir True] by blast
    then have "frontload_factor n i = Fin a - Fin y" using ff [OF True] by simp
    moreover have "ranged (1 - 1 / 2) (5 / 4 - 0) (Fin a - Fin y)"
      using a(2,3) \<open>0 \<le> y\<close> \<open>y \<le> 1 / 2\<close> e by (intro ranged_diff) simp_all
    ultimately show ?thesis by simp
  qed (simp add: frontload_factor_def)
  show "frontload_factor n j \<le> frontload_factor n i" if ij: "i \<le> j" "j < n" for i j
  proof (cases "1 < n")
    case True
    obtain x y where x: "Fin d * dint (int i) = Fin x" "Fin x / dint (int (n - 1)) = Fin y"
      using part [of i] ij True by auto
    obtain x' y' where x': "Fin d * dint (int j) = Fin x'" "Fin x' / dint (int (n - 1)) = Fin y'"
      using part [of j] ij True by auto
    have i: "dint (int i) = Fin (real i)" "dint (int j) = Fin (real j)" "dint (int (n - 1)) = Fin (real (n - 1))"
      using ij assms mk_of_int [of "int i"] mk_of_int [of "int j"] mk_of_int [of "int (n - 1)"] by simp_all
    have "mk (d * real i) \<le> mk (d * real j)" using ij(1) d(2) by (intro mk_mono mult_left_mono) simp_all
    then have "x \<le> x'" using x(1) x'(1) unfolding i times_double.simps by simp
    then have "mk (x / real (n - 1)) \<le> mk (x' / real (n - 1))" by (intro mk_mono divide_right_mono) simp_all
    then have "y \<le> y'" using x(2) x'(2) True unfolding i divide_double.simps by simp
    then have "mk (a - y') \<le> mk (a - y)" by (intro mk_mono) simp
    then show ?thesis using x x' unfolding ff [OF True] by (simp add: minus_double_def)
  qed (simp add: frontload_factor_def one_double_def)
qed

lemma mk_bounded: "0 \<le> x \<Longrightarrow> x \<le> 2 ^ k \<Longrightarrow> k \<le> 1000 \<Longrightarrow> \<exists>r. mk x = Fin r \<and> 0 \<le> r \<and> r \<le> 2 ^ k"
proof -
  assume a: "0 \<le> x" "x \<le> 2 ^ k" "k \<le> 1000"
  have "repr53 (2 ^ k)" using repr53I [of 1 "int k"] by simp
  moreover have "(2 :: real) ^ k \<le> 2 ^ 1000" using a(3) by (intro power_increasing) simp_all
  then have "\<bar>2 ^ k :: real\<bar> < 2 ^ 1024" by simp
  ultimately have "exact (2 ^ k)" by (simp only: exact_def mk_repr53)
  then have "ranged 0 (2 ^ k) (mk x)" using a(1,2) by (intro ranged_mk) simp_all
  then show ?thesis by (auto elim: rangedE)
qed

text \<open>
  The sizes of the slices are never negative and never increase: the plan is front-loaded, whatever the
  rounding does.
\<close>

theorem slices_front_loaded:
  assumes "0 < q" "q \<le> 2 ^ 900" "0 < n" "n \<le> 2 ^ 20" "i \<le> j" "j < n"
  shows "length (slice_quantities (Fin q) n) = n \<and> 0 \<le> slice_quantities (Fin q) n ! j \<and>
    slice_quantities (Fin q) n ! j \<le> slice_quantities (Fin q) n ! i"
proof -
  have n: "dint (int n) = Fin (real n)" using assms(4) mk_of_int [of "int n"] by simp
  have "q / real n \<le> q / 1" using assms(1,3) by (intro divide_left_mono) simp_all
  then have "q / real n \<le> 2 ^ 900" "0 \<le> q / real n" using assms(1,2) by simp_all
  then obtain c where "mk (q / real n) = Fin c" and c': "0 \<le> c" "c \<le> 2 ^ 900"
    using mk_bounded [of "q / real n" 900] by auto
  then have c: "Fin q / dint (int n) = Fin c" "0 \<le> c" "c \<le> 2 ^ 900"
    using assms(3) unfolding n by simp_all
  define raw where "raw = (\<lambda>k. Fin c * frontload_factor n k)"
  have qs: "raw_quantities (Fin q) n = map raw [0..<n]" by (simp only: raw_quantities_def raw_def c(1))
  have raw: "\<exists>r. raw k = Fin r \<and> 0 \<le> r \<and> r \<le> 2 ^ 901" if kn: "k < n" for k
  proof -
    obtain g where g: "frontload_factor n k = Fin g" "1 / 2 \<le> g" "g \<le> 5 / 4"
      using frontload_facts(1) [OF assms(4) kn] by (auto elim: rangedE)
    have "c * g \<le> 2 ^ 900 * 2" using c g by (intro mult_mono) simp_all
    then show ?thesis using mk_bounded [of "c * g" 901] c g by (simp add: raw_def)
  qed
  have mono: "raw l \<le> raw k" if kl: "k \<le> l" "l < n" for k l
  proof -
    obtain g h where gh: "frontload_factor n k = Fin g" "frontload_factor n l = Fin h"
      using frontload_facts(1) [OF assms(4)] kl by (meson rangedE le_less_trans)
    have "h \<le> g" using frontload_facts(2) [OF assms(4) kl] by (simp add: gh)
    then show ?thesis using c(2) by (simp add: raw_def gh mk_mono mult_left_mono)
  qed
  define s where "s = foldl (+) 0 (map raw [0..<n])"
  show ?thesis
  proof (cases "s < lit (1 / 10 ^ 15)")
    case True
    then have "slice_quantities (Fin q) n = map (\<lambda>_. Fin c) [0..<n]"
      by (simp only: slice_quantities_def qs s_def [symmetric] c(1) Let_def if_True map_map comp_def)
    then show ?thesis using assms(5,6) c(2) by (simp add: zero_double_def)
  next
    case False
    have e: "slice_quantities (Fin q) n = map (\<lambda>k. raw k * (Fin q / s)) [0..<n]"
      using False by (simp add: slice_quantities_def qs s_def [symmetric] Let_def)
    have "isfinite (foldl (+) (Fin z) (map raw [0..<k])) \<and> Fin 0 \<le> foldl (+) (Fin z) (map raw [0..<k]) \<and>
        foldl (+) (Fin z) (map raw [0..<k]) \<le> Fin (real (k + 1) * 2 ^ 901)"
      if "z = 0" "k \<le> n" for z k
      using that
    proof (induction k)
      case (Suc k)
      then obtain y where y: "foldl (+) (Fin z) (map raw [0..<k]) = Fin y" "0 \<le> y" "y \<le> real (k + 1) * 2 ^ 901"
        by (cases "foldl (+) (Fin z) (map raw [0..<k])") simp_all
      obtain r where r: "raw k = Fin r" "0 \<le> r" "r \<le> 2 ^ 901" using raw [of k] Suc.prems(2) by (meson Suc_le_lessD)
      have "exact (real (k + 2) * 2 ^ 901)"
      proof -
        have "repr53 (of_int (int (k + 2)) * 2 powi 901)" using Suc.prems(2) assms(4) by (intro repr53I) simp_all
        moreover have "real (k + 2) * 2 ^ 901 \<le> 2 ^ 21 * 2 ^ 901" using Suc.prems(2) assms(4) by (intro mult_right_mono) simp_all
        then have "\<bar>real (k + 2) * 2 ^ 901\<bar> < 2 ^ 1024" by simp
        ultimately show ?thesis by (simp add: exact_def mk_repr53)
      qed
      then have "ranged 0 (real (k + 2) * 2 ^ 901) (mk (y + r))"
        using y r by (intro ranged_mk) (simp_all add: algebra_simps)
      then show ?case using y r by (auto simp: algebra_simps elim!: rangedE)
    qed simp
    from this [of 0 n] have "\<exists>y. s = Fin y \<and> 0 \<le> y" unfolding s_def zero_double_def
      by (cases "foldl (+) (Fin 0) (map raw [0..<n])") simp_all
    then obtain y where y: "s = Fin y" "0 \<le> y" by blast
    have "repr53 (1 / 2 ^ 50)" using repr53I [of 1 "-50"] by (simp add: power_int_minus)
    then have "mk (1 / 2 ^ 50) = Fin (1 / 2 ^ 50)" by (rule mk_repr53) simp
    then have l: "Fin (1 / 2 ^ 50) \<le> lit (1 / 10 ^ 15)" using mk_mono [of "1 / 2 ^ 50" "1 / 10 ^ 15"] by simp
    have "lit (1 / 10 ^ 15) \<le> s" using False double_not_less [of s "lit (1 / 10 ^ 15)"] y(1) by simp
    then have "Fin (1 / 2 ^ 50) \<le> s" by (rule double_le_trans [OF l])
    then have y2: "1 / 2 ^ 50 \<le> y" unfolding y(1) by simp
    then have "q / y \<le> 2 ^ 900 / (1 / 2 ^ 50)" using assms(1,2) by (intro frac_le) simp_all
    also have "(2 :: real) ^ 900 / (1 / 2 ^ 50) = 2 ^ 950" by (simp flip: power_add)
    finally obtain w where "mk (q / y) = Fin w" and w': "0 \<le> w" using mk_bounded [of "q / y" 950] assms(1) y(2) by auto
    moreover have "y \<noteq> 0" using y2 by auto
    ultimately have w: "Fin q / s = Fin w" unfolding y(1) by simp
    obtain a where a: "raw i = Fin a" "0 \<le> a" using raw [of i] assms(5,6) by auto
    obtain b where b: "raw j = Fin b" "0 \<le> b" using raw [of j] assms(6) by auto
    have "b \<le> a" using mono [OF assms(5,6)] by (simp add: a b)
    then have "mk (b * w) \<le> mk (a * w)" "0 \<le> mk (b * w)" using w' b(2) by (simp_all add: mk_mono mult_right_mono mk_nonneg)
    then show ?thesis using assms(5,6) by (simp add: e a b w)
  qed
qed

section \<open>Instances\<close>

definition ex_twap_libm :: libm where
  "ex_twap_libm = \<lparr>lm_exp = \<lambda>x. 1, lm_log = \<lambda>x. 0, lm_tanh = \<lambda>x. 0, lm_pow = \<lambda>x y. 1, lm_undefined_int = \<lambda>x. 0\<rparr>"

definition ex_twap :: twap_executor where
  "ex_twap = \<lparr>tx_config = default_twap_config, tx_active = None, tx_min_notional_usdt = 0, tx_seq = 0\<rparr>"

definition ex_tick :: "int \<Rightarrow> tick_input" where
  "ex_tick t = \<lparr>ti_features = default_features, ti_now_ms = t, ti_decide = \<lambda>i. default_risk_decision\<lparr>rd_verdict := Approved\<rparr>,
    ti_execute = \<lambda>i d. True\<rparr>"

lemma ex_plan_slices:
  "length (to_slices (fst (create_twap_plan ex_twap_libm default_trade_intent default_features (Fin 1) ex_twap))) = 3"
proof -
  have "\<not> Fin 1 \<le> (0 :: double)" "\<not> (0 :: double) < 0" by (simp_all add: zero_double_def)
  then show ?thesis
    by (simp add: create_twap_plan_def slices_by_notional_def slices_by_liquidity_def clamp_nat_def ex_twap_def
        default_features_def default_execution_context_def default_twap_config_def Let_def)
qed

theorem slices_sent_once_in_order_witness:
  "\<exists>m \<le> 3. map ti_correlation_id (fst (twap_run ex_twap_libm [ex_tick 1, ex_tick 2]
      (set_active_twap (fst (create_twap_plan ex_twap_libm default_trade_intent default_features (Fin 1) ex_twap)) ex_twap)))
    = map (\<lambda>k. to_twap_id (fst (create_twap_plan ex_twap_libm default_trade_intent default_features (Fin 1) ex_twap)) @
        ''-'' @ to_string_int (int k)) [0..<m]"
  using slices_sent_once_in_order [of ex_twap_libm default_trade_intent default_features "Fin 1" ex_twap "[ex_tick 1, ex_tick 2]"]
  unfolding ex_plan_slices by blast

theorem plan_ends_witness:
  "\<not> has_active_twap (snd (twap_run ex_twap_libm (map ex_tick [10000, 20000, 30000, 40000, 50000])
    (set_active_twap (fst (create_twap_plan ex_twap_libm default_trade_intent default_features (Fin 1) ex_twap)) ex_twap)))"
proof -
  have "spaced_ticks 1 (map ex_tick [10000, 20000, 30000, 40000, 50000])"
    by (simp add: ex_tick_def default_features_def default_microstructure_def zero_double_def)
  moreover have "tx_config ex_twap = default_twap_config" by (simp add: ex_twap_def)
  ultimately show ?thesis
    using plan_ends [of 1 ex_twap default_twap_config "map ex_tick [10000, 20000, 30000, 40000, 50000]" ex_twap_libm
        default_trade_intent default_features "Fin 1"] unfolding ex_plan_slices
    by (simp add: default_twap_config_def)
qed

theorem slices_front_loaded_witness:
  "0 \<le> slice_quantities (Fin 7) 5 ! 3 \<and> slice_quantities (Fin 7) 5 ! 3 \<le> slice_quantities (Fin 7) 5 ! 1"
  using slices_front_loaded [of 7 5 1 3] by simp

end
