(* ===== verification/Spec2Isabelle.thy ===== *)
theory Spec2Isabelle
  imports Engine_Properties Retry_Executor Operational_Guard Idempotency_Manager Market_Data
    Risk_Witnesses Pipeline_Witnesses
    Allocator_Laws Leverage_Engine Uncertainty_Laws Opportunity_Cost
    Wal_Laws Reconciliation_Laws Recovery_Laws Bracket_Orders Twap_Laws
begin

text \<open>
  \<^bold>\<open>A verified model of tomorrow-bot.\<close>  The program is a C++ trading bot for USDT-margined
  futures on Bitget.  Decision stages produce a trade intent, the risk engine approves a
  quantity, the execution engine plans, registers, reserves and submits an order, and events
  of the exchange (REST answers, WebSocket fills and order updates) flow back into the order
  registry and the portfolio.  This development models the execution path and the components
  it rests on, from \<^verbatim>\<open>src/src\<close>, and proves what keeps orders, margin and positions right.

  \<^bold>\<open>Foundations.\<close>  \<open>Prelude\<close> holds shared lemmas on association lists, bounded queues and
  32-bit counters, and the interfaces that several components implement: \<open>inv_system\<close> (start,
  steps, invariant), \<open>dedup\<close> (test-and-mark), \<open>simulation\<close> and \<open>simulation_inv\<close> (refinement of a
  specification), and in \<open>Ring_Buffer\<close> \<open>sliding_window\<close> (the last so many inputs).  \<open>Float64\<close> is IEEE binary64 with rounding, infinities and NaN: prices,
  quantities and money are \<^verbatim>\<open>double\<close> in the sources, and several properties turn on NaN or on
  rounding.  \<open>Printing\<close> is \<^verbatim>\<open>std::to_string\<close>.  \<open>Common_Types\<close> has the enumerations with printers and
  parsers (\<^verbatim>\<open>common/enums.hpp\<close>, each an instance of the locale \<open>enum_codec\<close>), the error codes and
  the numeric guards.

  \<^bold>\<open>Orders.\<close>  \<open>Order_FSM\<close> (\<^verbatim>\<open>execution/order_types\<close>, \<^verbatim>\<open>order_fsm\<close>): the order record, the
  transition table and the automaton with its audit trail.  \<open>Order_Registry\<close>
  (\<^verbatim>\<open>execution/orders/order_registry.cpp\<close>): storage, exchange-id index, transitions, the three
  deduplication structures, cleanup; its invariant links every record to an automaton in the
  same state.  \<open>Fill_Processor\<close> (\<^verbatim>\<open>execution/fills/fill_processor.cpp\<close>): REST fills, WebSocket
  fills and order updates on registry and portfolio together.  \<open>Cancel_Recovery\<close>
  (\<^verbatim>\<open>execution/cancel\<close>, \<^verbatim>\<open>execution/recovery\<close>): cancellation and reconciliation, with the
  locale \<open>per_order\<close> for passes over a snapshot of orders.

  \<^bold>\<open>Money.\<close>  \<open>Portfolio\<close> and \<open>Portfolio_Laws\<close> (\<^verbatim>\<open>portfolio/portfolio_engine.cpp\<close>): positions per
  leg in hedge mode, PnL, funding, the cash ledger with reservations and fees; the ledger
  refines integer bookkeeping on amounts that binary64 represents exactly.

  \<^bold>\<open>Execution engine.\<close>  \<open>Trading_Types\<close> has the messages between the stages, \<open>Execution_Planner\<close>
  (\<^verbatim>\<open>execution/planner\<close>) the planner, \<open>Execution_Metrics\<close> (\<^verbatim>\<open>execution/telemetry\<close>) the counters,
  \<open>Execution_Engine\<close> (\<^verbatim>\<open>execution/execution_engine_new.cpp\<close>) the orchestrator.  \<^verbatim>\<open>execute\<close> is split
  at the network calls: \<open>engine_submit\<close> up to the reply, \<open>engine_confirm\<close> for the polling; a
  \<open>world\<close> record supplies the exchange's answers and what other threads do to the shared state
  meanwhile.  \<open>Engine_Laws\<close> proves the refusals, \<open>Engine_System\<close> the transition system, its invariant
  and what keeps an accepted intent remembered, \<open>Engine_Properties\<close> the properties on top.

  \<^bold>\<open>Resilience.\<close>  \<open>Circuit_Breaker\<close> (\<^verbatim>\<open>resilience/circuit_breaker.cpp\<close>): the methods, and the
  interleaving of their atomic steps by any number of threads.  \<open>Retry_Executor\<close>: error
  classification, backoff and the retry loop over the breaker.  \<open>Reason_Codes\<close>
  (\<^verbatim>\<open>common/reason_codes.hpp\<close>) and \<open>Operational_Guard\<close> (\<^verbatim>\<open>resilience/operational_guard.cpp\<close>): the
  incident guard, whose result array is a \<open>sliding_window\<close> and whose verdict is the most severe
  finding.  \<open>Idempotency_Manager\<close>: client order ids and the deduplication window, an instance of
  \<open>dedup\<close>.

  \<^bold>\<open>Market data.\<close>  \<open>Market_Events\<close> has the normalized events, \<open>Normalizer\<close>
  (\<^verbatim>\<open>normalizer/normalizer.cpp\<close>) the text readers, the validation of each record and the dispatch
  of a message, over a JSON value that Boost's reader (a parameter) delivers.  \<open>Order_Book\<close>
  (\<^verbatim>\<open>order_book/order_book.cpp\<close>) is the L2 book; \<open>Order_Book_Laws\<close> shows that it simulates two
  finite maps, with the locale \<open>price_order\<close> interpreted for both comparators, and
  \<open>Order_Book_Properties\<close> what its readers may rely on.  \<open>Ring_Buffer\<close> and \<open>Market_Buffers\<close>
  (\<^verbatim>\<open>buffers\<close>) hold the trade tape and the candle history.  \<open>Market_Data\<close>
  (\<^verbatim>\<open>market_data/market_data_gateway.cpp\<close>, the stores of \<^verbatim>\<open>features/feature_engine.cpp\<close>) composes
  them from the raw message on.

  \<^bold>\<open>Risk.\<close>  \<open>Feature_Types\<close> has the feature snapshot, \<open>Risk_State\<close> (\<^verbatim>\<open>risk/state\<close>) the locks,
  daily PnL, drawdown, rate windows and streaks, \<open>Risk_Checks\<close> (\<^verbatim>\<open>risk/policies/risk_checks.cpp\<close>)
  the 37 checks, \<open>Risk_Engine\<close> (\<^verbatim>\<open>risk/risk_engine.cpp\<close>) the evaluation and the calls that record
  orders, trades and the kill switch.  \<open>Risk_Laws\<close> reduces every check to a limit, \<open>Risk_Properties\<close>
  shows that the cascade equals the conjunction of the limits, \<open>Risk_System\<close> the state invariant
  over all sequences of calls, \<open>Risk_Guarantees\<close> what halts guarantee and that rates and streaks are
  exactly what was recorded, \<open>Risk_Witnesses\<close> instances
  and behaviours that the comments do not announce.  \<open>Float_Ranges\<close> has intervals of binary64
  values, used for clamped scores.

  \<^bold>\<open>Supervisor.\<close>  \<open>Supervisor\<close> and \<open>Supervisor_Laws\<close> (\<^verbatim>\<open>supervisor/supervisor.cpp\<close>): start and stop
  of subsystems with signals and other threads acting in between, symbol locks (the locale
  \<open>ownership\<close>), the global kill switch and its effect on every risk engine.

  \<^bold>\<open>Positions and pairs.\<close>  \<open>Hedge_Pair_Manager\<close>, \<open>Dual_Leg\<close>, \<open>Pair_Lifecycle\<close>, \<open>Pair_Execution\<close>
  (files of the same names in \<^verbatim>\<open>pipeline\<close>) decide on, open, reverse and close pairs of a long and a
  short leg; \<open>Hedge_Pair_Laws\<close>, \<open>Pair_Laws\<close> and \<open>Pair_Modes\<close> have their properties, judged from
  outside: an observer counts the hedges over the calls that the pipeline makes of the manager, and the
  exchange's side of an entry is the list of legs it has accepted.  The exchange
  behind them is the record \<open>venue\<close>, whose functions answer the n-th request.  \<open>Order_Watchdog\<close>
  cancels orders that wait too long, \<open>Position_Exits\<close> has emergency exits, the trailing stop and the
  detector of stagnant positions, \<open>Pre_Trade_Gates\<close> the last gates before execution and the trackers
  of the pipeline; \<open>Pipeline_Witnesses\<close> has instances of the properties.  \<open>Bracket_Manager\<close>
  (\<^verbatim>\<open>pipeline/protective_bracket_manager\<close>) owns the take-profit and stop-loss orders on the exchange;
  \<open>Bracket_Laws\<close> shows that verification ends with protection, that the clean-up spares it, and the
  cases in which it is lost.

  \<^bold>\<open>Exchange.\<close>  \<open>Exchange_Rules\<close> (\<^verbatim>\<open>common/exchange_rules.hpp\<close>) rounds sizes and prices to the grid of an
  instrument by printing and reading them; \<open>Rules_Laws\<close> has how far that moves a size.  \<open>Order_Submitter\<close>
  (\<^verbatim>\<open>exchange/bitget/bitget_futures_order_submitter\<close>) builds the requests and reads the answers;
  \<open>Submitter_Laws\<close> has what they mean, \<open>Bracket_Orders\<close> composes it with the bracket manager.
  \<open>Twap_Executor\<close> (\<^verbatim>\<open>execution/twap_executor\<close> and its part of the tick handler) sends a large order in
  slices; \<open>Twap_Laws\<close> shows that they are sent once, in order, and come to an end.

  \<^bold>\<open>Size, leverage, uncertainty.\<close>  \<open>Portfolio_Allocator\<close> (\<^verbatim>\<open>portfolio_allocator\<close>) has both sizing
  pipelines with the exchange filters, and \<open>Allocator_Laws\<close> the caps and scales that the approved size keeps.
  \<open>Leverage_Engine\<close> (\<^verbatim>\<open>leverage\<close>) computes leverage and liquidation price, \<open>Uncertainty_Engine\<close>
  (\<^verbatim>\<open>uncertainty\<close>, \<^verbatim>\<open>ml/ml_signal_types.hpp\<close>) the uncertainty gate; \<open>Uncertainty_Laws\<close> composes its
  cooldown with the risk engine.  \<open>Opportunity_Cost\<close> (\<^verbatim>\<open>opportunity_cost\<close>) weighs an intent against the
  capital it binds.  \<open>Float_Library\<close> has the rounding functions; exp, log, tanh and pow, whose rounding is
  not specified, are the record \<open>libm\<close>, a parameter.  Russian reason texts are represented by English ones.

  \<^bold>\<open>Persistence and reconciliation.\<close>  \<open>Persistence\<close> (\<^verbatim>\<open>persistence\<close>) has the event journal and
  the snapshot store over storage in memory, \<open>Wal_Writer\<close> the write-ahead log; \<open>Wal_Laws\<close> shows that the
  log simulates its specification (\<open>simulation_inv\<close>) and that a restarted process finds exactly the
  open intents.  \<open>Reconciliation\<close> (\<^verbatim>\<open>reconciliation\<close>) compares orders, legs and balance with what the
  exchange answers, and \<open>Reconciliation_Laws\<close> shows what each status means.  \<open>Recovery_Service\<close>
  (\<^verbatim>\<open>recovery\<close>, and the payloads that \<^verbatim>\<open>trading_pipeline.cpp\<close> writes for it) repairs the portfolio after
  a restart from snapshot, journal and exchange; \<open>Recovery_Laws\<close> has the round trip of snapshots, the legs
  that a run guarantees, and where writer and reader of the journal disagree.

  \<^bold>\<open>Conventions.\<close>  One mutex-guarded call is one step.  A call's clock readings are the record
  \<open>clk\<close>.  \<^verbatim>\<open>std::unordered_map\<close> is an association list in insertion order, one admissible
  iteration order.  Loops are structural recursions over the data or the remaining attempts;
  no fuel is used.  Timestamps and counters of 64 bits are unbounded integers, since the
  reachable values are far below the bound; 32-bit counters of the circuit breaker wrap.
  Log lines, exported metrics and reason texts made with \<^verbatim>\<open>std::format\<close> are
  output and left out.

  \<^bold>\<open>Not modelled.\<close>  The HTTP and WebSocket clients (TLS, JSON), configuration
  files, secrets, logging, metrics export and the database adapter are input and output.  The
  signal stages (strategy, regime, world model, ML, scanner) score the market with tuned
  constants and have few invariants beyond ranges.  The tick handler of \<^verbatim>\<open>trading_pipeline.cpp\<close>
  joins the modelled stages over threads and sockets.  The indicators
  are algorithmic and are the next candidates.
\<close>

end
